(* ===== verification/Status_Machine.thy ===== *)
theory Status_Machine
  imports Prelude
begin

text \<open>
  The modules keep each lifecycle in one table of allowed transitions and one
  \<open>Transition...\<close> function that consults it. The locale states what those
  functions share; every lifecycle of the program interprets it. A lifecycle
  whose table has no cycle interprets the second locale, which bounds the number
  of changes a row can ever go through.
\<close>

text \<open>The statuses a row takes one after the other, each change accepted.\<close>

fun transitions_ok :: "('s \<Rightarrow> 's \<Rightarrow> 'e + unit) \<Rightarrow> 's \<Rightarrow> 's list \<Rightarrow> bool" where
  "transitions_ok tr s [] = True"
| "transitions_ok tr s (t # ts) = (tr s t = Inr () \<and> transitions_ok tr t ts)"

locale status_machine =
  fixes valid :: "'s \<Rightarrow> bool"
    and allowed :: "'s \<Rightarrow> 's list"
    and transition :: "'s \<Rightarrow> 's \<Rightarrow> 'e + unit"
    and bad :: 'e
  assumes transition_eq:
      "transition s t = (if valid t \<and> t \<in> set (allowed s) then Inr () else Inl bad)"
    and allowed_valid: "t \<in> set (allowed s) \<Longrightarrow> valid s \<and> valid t"
begin

lemma transition_iff: "transition s t = Inr () \<longleftrightarrow> t \<in> set (allowed s)"
  by (auto simp: transition_eq dest: allowed_valid)

lemma transition_error: "transition s t = Inl e \<longleftrightarrow> t \<notin> set (allowed s) \<and> e = bad"
  by (auto simp: transition_eq dest: allowed_valid)

lemma unknown_is_stuck: "\<not> valid s \<Longrightarrow> transition s t = Inl bad"
  by (auto simp: transition_eq dest: allowed_valid)

lemma sink: "allowed s = [] \<Longrightarrow> transition s t = Inl bad"
  by (simp add: transition_eq)

lemma run_valid: "transitions_ok transition s ts \<Longrightarrow> t \<in> set ts \<Longrightarrow> valid t"
  by (induction ts arbitrary: s) (auto simp: transition_iff dest: allowed_valid)

lemma run_from_sink: "allowed s = [] \<Longrightarrow> transitions_ok transition s ts \<longleftrightarrow> ts = []"
  by (cases ts) (auto simp: sink)

end

locale acyclic_status_machine = status_machine valid allowed transition bad
  for valid :: "'s \<Rightarrow> bool" and allowed :: "'s \<Rightarrow> 's list"
    and transition :: "'s \<Rightarrow> 's \<Rightarrow> 'e + unit" and bad :: 'e +
  fixes rank :: "'s \<Rightarrow> nat"
  assumes rank_less: "t \<in> set (allowed s) \<Longrightarrow> rank t < rank s"
begin

lemma run_length: "transitions_ok transition s ts \<Longrightarrow> length ts \<le> rank s"
proof (induction ts arbitrary: s)
  case Nil
  then show ?case by simp
next
  case (Cons t ts)
  then have "t \<in> set (allowed s)" and "length ts \<le> rank t"
    by (auto simp: transition_iff)
  then show ?case using rank_less [of t s] by simp
qed

lemma run_rank: "transitions_ok transition s ts \<Longrightarrow> t \<in> set ts \<Longrightarrow> rank t < rank s"
proof (induction ts arbitrary: s)
  case Nil
  then show ?case by simp
next
  case (Cons u ts)
  then have "rank u < rank s" by (simp add: transition_iff rank_less)
  with Cons show ?case by (auto intro: less_trans)
qed

lemma never_returns: "transitions_ok transition s ts \<Longrightarrow> s \<notin> set ts"
  using run_rank by blast

end

end
