(* ===== verification/Tx_Monad.thy ===== *)
theory Tx_Monad
  imports Prelude
begin

text \<open>
  The functions passed to \<open>Pool.WithTenantTx\<close> (platform/db/tenant_tx.go) run
  inside one database transaction: they read and write the tables and stop at
  the first error, in which case the transaction is rolled back. A computation
  is a function from the state to an error or a result with the next state;
  \<open>tx_bind\<close> is Go's \<open>if err != nil { return err }\<close> after each call. A failing
  computation yields no state at all, so nothing it did can survive: this is
  the rollback.

  The second half of the theory is the reasoning about such computations: an
  inversion rule for sequences that succeeded, and the rules by which a
  reflexive and transitive relation between the states before and after is
  established for a sequence from its steps. Invariants and frame conditions
  are instances of such relations.
\<close>

type_synonym ('s, 'e, 'a) tx = "'s \<Rightarrow> 'e + 'a \<times> 's"

section \<open>Combinators\<close>

definition tx_return :: "'a \<Rightarrow> ('s, 'e, 'a) tx" where
  "tx_return x s = Inr (x, s)"

definition tx_throw :: "'e \<Rightarrow> ('s, 'e, 'a) tx" where
  "tx_throw e s = Inl e"

definition tx_bind :: "('s, 'e, 'a) tx \<Rightarrow> ('a \<Rightarrow> ('s, 'e, 'b) tx) \<Rightarrow> ('s, 'e, 'b) tx" where
  "tx_bind m f s = (case m s of Inl e \<Rightarrow> Inl e | Inr (x, s') \<Rightarrow> f x s')"

definition tx_read :: "('s \<Rightarrow> 'a) \<Rightarrow> ('s, 'e, 'a) tx" where
  "tx_read f s = Inr (f s, s)"

definition tx_write :: "('s \<Rightarrow> 's) \<Rightarrow> ('s, 'e, unit) tx" where
  "tx_write f s = Inr ((), f s)"

definition tx_require :: "bool \<Rightarrow> 'e \<Rightarrow> ('s, 'e, unit) tx" where
  "tx_require b e = (if b then tx_return () else tx_throw e)"

definition tx_lift :: "'e + 'a \<Rightarrow> ('s, 'e, 'a) tx" where
  "tx_lift r s = (case r of Inl e \<Rightarrow> Inl e | Inr x \<Rightarrow> Inr (x, s))"

definition tx_map_err :: "('e \<Rightarrow> 'f) \<Rightarrow> ('s, 'e, 'a) tx \<Rightarrow> ('s, 'f, 'a) tx" where
  "tx_map_err h m s = (case m s of Inl e \<Rightarrow> Inl (h e) | Inr r \<Rightarrow> Inr r)"

text \<open>A \<open>for\<close> loop that returns at the first error.\<close>

fun tx_each :: "('b \<Rightarrow> ('s, 'e, unit) tx) \<Rightarrow> 'b list \<Rightarrow> ('s, 'e, unit) tx" where
  "tx_each f [] = tx_return ()"
| "tx_each f (x # xs) = tx_bind (f x) (\<lambda>_. tx_each f xs)"

text \<open>The same loop collecting one result per element.\<close>

fun tx_map :: "('b \<Rightarrow> ('s, 'e, 'a) tx) \<Rightarrow> 'b list \<Rightarrow> ('s, 'e, 'a list) tx" where
  "tx_map f [] = tx_return []"
| "tx_map f (x # xs) = tx_bind (f x) (\<lambda>y. tx_bind (tx_map f xs) (\<lambda>ys. tx_return (y # ys)))"

text \<open>Outside the transaction: the caller sees the error or the result, and the
  database either the committed state or the state it had before.\<close>

definition tx_outcome :: "('s, 'e, 'a) tx \<Rightarrow> 's \<Rightarrow> ('e + 'a) \<times> 's" where
  "tx_outcome m s = (case m s of Inl e \<Rightarrow> (Inl e, s) | Inr (x, s') \<Rightarrow> (Inr x, s'))"

section \<open>Evaluation and inversion\<close>

lemma tx_eval [simp]:
  "tx_return x s = Inr (x, s)"
  "tx_throw e s = Inl e"
  "tx_read f s = Inr (f s, s)"
  "tx_write g s = Inr ((), g s)"
  by (simp_all add: tx_return_def tx_throw_def tx_read_def tx_write_def)

lemma tx_require_simps [simp]:
  "tx_require True e = tx_return ()"
  "tx_require False e = tx_throw e"
  by (simp_all add: tx_require_def)

lemma tx_lift_simps [simp]:
  "tx_lift (Inl e) s = Inl e"
  "tx_lift (Inr x) s = Inr (x, s)"
  by (simp_all add: tx_lift_def)

lemma tx_bind_cases:
  "m s = Inl e \<Longrightarrow> tx_bind m f s = Inl e"
  "m s = Inr (x, s') \<Longrightarrow> tx_bind m f s = f x s'"
  by (simp_all add: tx_bind_def)

lemma tx_bind_simps [simp]:
  "tx_bind (tx_return x) f = f x"
  "tx_bind (tx_throw e) f = tx_throw e"
  by (simp_all add: tx_bind_def fun_eq_iff)

lemma tx_bind_read [simp]: "tx_bind (tx_read g) f s = f (g s) s"
  by (simp add: tx_bind_def)

lemma tx_bind_write [simp]: "tx_bind (tx_write g) f s = f () (g s)"
  by (simp add: tx_bind_def)

lemma tx_write_id: "tx_bind (tx_write id) f = f ()"
  by (simp add: tx_bind_def fun_eq_iff)

lemma tx_bind_assoc: "tx_bind (tx_bind m f) g = tx_bind m (\<lambda>x. tx_bind (f x) g)"
  by (auto simp: tx_bind_def fun_eq_iff split: sum.splits)

lemma tx_bind_Inr:
  "tx_bind m f s = Inr r \<longleftrightarrow> (\<exists>x s'. m s = Inr (x, s') \<and> f x s' = Inr r)"
  by (auto simp: tx_bind_def split: sum.splits)

lemma tx_bind_Inl:
  "tx_bind m f s = Inl e \<longleftrightarrow> m s = Inl e \<or> (\<exists>x s'. m s = Inr (x, s') \<and> f x s' = Inl e)"
  by (auto simp: tx_bind_def split: sum.splits)

lemma tx_require_Inr: "tx_require b e s = Inr r \<longleftrightarrow> b \<and> r = ((), s)"
  by (cases b) auto

lemma tx_require_Inl: "tx_require b e s = Inl e' \<longleftrightarrow> \<not> b \<and> e' = e"
  by (cases b) auto

lemma tx_lift_Inr: "tx_lift r s = Inr (x, s') \<longleftrightarrow> r = Inr x \<and> s' = s"
  by (cases r) auto

lemma tx_lift_Inl: "tx_lift r s = Inl e \<longleftrightarrow> r = Inl e"
  by (cases r) auto

lemma tx_map_err_Inr [simp]: "tx_map_err h m s = Inr r \<longleftrightarrow> m s = Inr r"
  by (auto simp: tx_map_err_def split: sum.splits)

lemma tx_map_err_Inl: "tx_map_err h m s = Inl e \<longleftrightarrow> (\<exists>e'. m s = Inl e' \<and> e = h e')"
  by (auto simp: tx_map_err_def split: sum.splits)

lemmas tx_inv = tx_bind_Inr tx_require_Inr tx_lift_Inr

lemma tx_outcome_error: "m s = Inl e \<Longrightarrow> tx_outcome m s = (Inl e, s)"
  by (simp add: tx_outcome_def)

lemma tx_outcome_Inr: "tx_outcome m s = (Inr x, s') \<longleftrightarrow> m s = Inr (x, s')"
  by (auto simp: tx_outcome_def split: sum.splits)

section \<open>Relations between the state before and the state after\<close>

text \<open>\<open>tx_on A R m\<close>: run in a state that satisfies \<open>A\<close>, a computation that succeeds
  ends in a state related to it by \<open>R\<close>. \<open>tx_gives A m x\<close>: a result it can have
  there, which is what the rest of a sequence may assume.\<close>

definition tx_on :: "('s \<Rightarrow> bool) \<Rightarrow> ('s \<Rightarrow> 's \<Rightarrow> bool) \<Rightarrow> ('s, 'e, 'a) tx \<Rightarrow> bool" where
  "tx_on A R m \<longleftrightarrow> (\<forall>s x s'. A s \<longrightarrow> m s = Inr (x, s') \<longrightarrow> R s s')"

definition tx_gives :: "('s \<Rightarrow> bool) \<Rightarrow> ('s, 'e, 'a) tx \<Rightarrow> 'a \<Rightarrow> bool" where
  "tx_gives A m x \<longleftrightarrow> (\<exists>s s'. A s \<and> m s = Inr (x, s'))"

abbreviation tx_within :: "('s \<Rightarrow> 's \<Rightarrow> bool) \<Rightarrow> ('s, 'e, 'a) tx \<Rightarrow> bool" where
  "tx_within R m \<equiv> tx_on (\<lambda>_. True) R m"

lemma tx_onI: "(\<And>s x s'. A s \<Longrightarrow> m s = Inr (x, s') \<Longrightarrow> R s s') \<Longrightarrow> tx_on A R m"
  by (auto simp: tx_on_def)

lemma tx_onD: "tx_on A R m \<Longrightarrow> A s \<Longrightarrow> m s = Inr (x, s') \<Longrightarrow> R s s'"
  by (auto simp: tx_on_def)

lemma tx_withinI: "(\<And>s x s'. m s = Inr (x, s') \<Longrightarrow> R s s') \<Longrightarrow> tx_within R m"
  by (auto simp: tx_on_def)

lemma tx_withinD: "tx_within R m \<Longrightarrow> m s = Inr (x, s') \<Longrightarrow> R s s'"
  by (auto simp: tx_on_def)

lemma tx_gives_require: "tx_gives A (tx_require b e) u \<Longrightarrow> b"
  by (auto simp: tx_gives_def tx_require_Inr)

lemma tx_gives_lift: "tx_gives A (tx_lift r) x \<Longrightarrow> r = Inr x"
  by (auto simp: tx_gives_def tx_lift_Inr)

lemma tx_gives_map_err [simp]: "tx_gives A (tx_map_err h m) x \<longleftrightarrow> tx_gives A m x"
  by (simp add: tx_gives_def)

lemmas tx_gives_dest = tx_gives_require tx_gives_lift

text \<open>Two rules that need nothing of the relation.\<close>

lemma tx_on_throw: "tx_on A R (tx_throw e)"
  by (simp add: tx_on_def)

lemma tx_on_map_err: "tx_on A R m \<Longrightarrow> tx_on A R (tx_map_err h m)"
  by (simp add: tx_on_def)

text \<open>
  A relation that is reflexive and transitive on the states that satisfy an
  assertion, and keeps the assertion, passes from the steps of a computation to
  the computation. The facts of an interpretation of this locale form the rule
  set by which the service operations are shown to respect an invariant or a
  frame condition, given that the repository operations do.
\<close>

locale tx_invariant =
  fixes A :: "'s \<Rightarrow> bool" and R :: "'s \<Rightarrow> 's \<Rightarrow> bool"
  assumes R_refl: "A s \<Longrightarrow> R s s"
    and R_trans: "A s \<Longrightarrow> R s t \<Longrightarrow> R t u \<Longrightarrow> R s u"
    and R_keeps: "A s \<Longrightarrow> R s t \<Longrightarrow> A t"
begin

lemma within_return: "tx_on A R (tx_return x)"
  by (simp add: tx_on_def R_refl)

lemma within_read: "tx_on A R (tx_read f)"
  by (simp add: tx_on_def R_refl)

lemma within_require: "tx_on A R (tx_require b e)"
  by (cases b) (simp_all add: tx_on_def R_refl)

lemma within_lift: "tx_on A R (tx_lift r)"
  by (cases r) (simp_all add: tx_on_def R_refl)

lemma within_bind:
  assumes m: "tx_on A R m" and f: "\<And>x. tx_gives A m x \<Longrightarrow> tx_on A R (f x)"
  shows "tx_on A R (tx_bind m f)"
proof (rule tx_onI)
  fix s y u
  assume s: "A s" and "tx_bind m f s = Inr (y, u)"
  then obtain x t where mt: "m s = Inr (x, t)" and fu: "f x t = Inr (y, u)"
    by (auto simp: tx_bind_Inr)
  have st: "R s t" using m s mt by (rule tx_onD)
  then have "A t" using s by (blast intro: R_keeps)
  moreover have "tx_gives A m x" using s mt by (auto simp: tx_gives_def)
  ultimately have "R t u" using f fu by (blast dest: tx_onD)
  with s st show "R s u" by (rule R_trans)
qed

lemma within_each: "(\<And>x. x \<in> set xs \<Longrightarrow> tx_on A R (f x)) \<Longrightarrow> tx_on A R (tx_each f xs)"
  by (induction xs) (auto intro: within_return within_bind)

lemma within_map: "(\<And>x. x \<in> set xs \<Longrightarrow> tx_on A R (f x)) \<Longrightarrow> tx_on A R (tx_map f xs)"
  by (induction xs) (auto intro: within_return within_bind)

lemma within_if: "(b \<Longrightarrow> tx_on A R m) \<Longrightarrow> (\<not> b \<Longrightarrow> tx_on A R n) \<Longrightarrow> tx_on A R (if b then m else n)"
  by simp

lemma within_option:
  "(opt = None \<Longrightarrow> tx_on A R m) \<Longrightarrow> (\<And>x. opt = Some x \<Longrightarrow> tx_on A R (f x)) \<Longrightarrow>
   tx_on A R (case opt of None \<Rightarrow> m | Some x \<Rightarrow> f x)"
  by (cases opt) simp_all

lemma within_sum:
  "(\<And>e. r = Inl e \<Longrightarrow> tx_on A R (g e)) \<Longrightarrow> (\<And>x. r = Inr x \<Longrightarrow> tx_on A R (f x)) \<Longrightarrow>
   tx_on A R (case r of Inl e \<Rightarrow> g e | Inr x \<Rightarrow> f x)"
  by (cases r) simp_all

lemma within_let: "(\<And>x. x = v \<Longrightarrow> tx_on A R (f x)) \<Longrightarrow> tx_on A R (let x = v in f x)"
  by simp

lemma within_prod: "(\<And>x y. p = (x, y) \<Longrightarrow> tx_on A R (f x y)) \<Longrightarrow> tx_on A R (case p of (x, y) \<Rightarrow> f x y)"
  by (cases p) simp

lemmas within_rules =
  within_return within_read within_require within_lift within_bind within_each within_map
  within_if within_option within_sum within_let within_prod tx_on_throw tx_on_map_err

text \<open>The relation also holds across a call whose outcome was committed or
  rolled back.\<close>

lemma outcome: "tx_on A R m \<Longrightarrow> A s \<Longrightarrow> R s (snd (tx_outcome m s))"
  by (auto simp: tx_outcome_def R_refl dest: tx_onD split: sum.splits prod.splits)

end

text \<open>A preorder needs no assertion.\<close>

locale tx_preorder =
  fixes R :: "'s \<Rightarrow> 's \<Rightarrow> bool"
  assumes refl: "R s s"
    and trans: "R s t \<Longrightarrow> R t u \<Longrightarrow> R s u"

sublocale tx_preorder \<subseteq> tx_invariant "\<lambda>_. True" R
  by unfold_locales (blast intro: refl trans)+

text \<open>A property every step of which keeps it.\<close>

locale tx_stable =
  fixes A :: "'s \<Rightarrow> bool"

sublocale tx_stable \<subseteq> tx_invariant A "\<lambda>_ s'. A s'"
  by unfold_locales

end
