(* ===== verification/Rls_Rows.thy ===== *)
theory Rls_Rows
  imports Tx_Monad
begin

text \<open>
  SQL statements against a table under row-level security. A table is the list
  of its rows. With \<open>app.tenant_id\<close> set (platform/db/tenant_tx.go), the policy
  \<open>tenant_isolation\<close> of every table (migrations) hides the rows of other
  tenants from \<open>SELECT\<close> and \<open>UPDATE\<close> and refuses to \<open>INSERT\<close> a row of another
  tenant. Constraint checks see all rows, as PostgreSQL's do.
\<close>

datatype pg_error =
    UniqueViolation
  | CheckViolation
  | ForeignKeyViolation
  | RlsViolation
  | OutOfRange

text \<open>The transaction handed to the repositories: its tenant and its \<open>NOW()\<close>.\<close>

record pgtx =
  tx_tenant :: uuid
  tx_now :: time

section \<open>Statements\<close>

definition rls_find :: "('r \<Rightarrow> uuid) \<Rightarrow> pgtx \<Rightarrow> ('r \<Rightarrow> bool) \<Rightarrow> 'r list \<Rightarrow> 'r option" where
  "rls_find tid tx P rows = find_row (\<lambda>r. tid r = tx_tenant tx \<and> P r) rows"

definition rls_select :: "('r \<Rightarrow> uuid) \<Rightarrow> pgtx \<Rightarrow> ('r \<Rightarrow> bool) \<Rightarrow> 'r list \<Rightarrow> 'r list" where
  "rls_select tid tx P rows = filter (\<lambda>r. tid r = tx_tenant tx \<and> P r) rows"

definition rls_update ::
  "('r \<Rightarrow> uuid) \<Rightarrow> pgtx \<Rightarrow> ('r \<Rightarrow> bool) \<Rightarrow> ('r \<Rightarrow> 'r) \<Rightarrow> 'r list \<Rightarrow> 'r list" where
  "rls_update tid tx P f rows = update_rows (\<lambda>r. tid r = tx_tenant tx \<and> P r) f rows"

text \<open>The rows a tenant does not see.\<close>

definition foreign_rows :: "('r \<Rightarrow> uuid) \<Rightarrow> uuid \<Rightarrow> 'r list \<Rightarrow> 'r list" where
  "foreign_rows tid tn rows = filter (\<lambda>r. tid r \<noteq> tn) rows"

section \<open>Lemmas\<close>

lemma rls_find_Some:
  "rls_find tid tx P rows = Some r \<Longrightarrow> r \<in> set rows \<and> tid r = tx_tenant tx \<and> P r"
  by (auto simp: rls_find_def dest: find_row_Some)

lemma rls_find_None:
  "rls_find tid tx P rows = None \<longleftrightarrow> (\<forall>r \<in> set rows. tid r = tx_tenant tx \<longrightarrow> \<not> P r)"
  by (auto simp: rls_find_def find_row_None)

lemma in_rls_select [simp]:
  "r \<in> set (rls_select tid tx P rows) \<longleftrightarrow> r \<in> set rows \<and> tid r = tx_tenant tx \<and> P r"
  by (auto simp: rls_select_def)

lemma length_rls_update [simp]: "length (rls_update tid tx P f rows) = length rows"
  by (simp add: rls_update_def)

lemma rls_update_simps [simp]:
  "rls_update tid tx P f [] = []"
  "rls_update tid tx P f (r # rs) =
     (if tid r = tx_tenant tx \<and> P r then f r else r) # rls_update tid tx P f rs"
  by (simp_all add: rls_update_def)

lemma in_rls_update:
  "r' \<in> set (rls_update tid tx P f rows) \<longleftrightarrow>
   (\<exists>r \<in> set rows. r' = (if tid r = tx_tenant tx \<and> P r then f r else r))"
  by (induction rows) auto

lemma map_rls_update:
  "(\<And>r. g (f r) = g r) \<Longrightarrow> map g (rls_update tid tx P f rows) = map g rows"
  by (induction rows) auto

lemma rls_update_none:
  "(\<And>r. r \<in> set rows \<Longrightarrow> tid r = tx_tenant tx \<Longrightarrow> \<not> P r) \<Longrightarrow> rls_update tid tx P f rows = rows"
  by (induction rows) auto

text \<open>Row-level security as a frame condition: a statement run for one tenant
  leaves the rows of every other tenant as they were, in their order.\<close>

lemma foreign_rows_update [simp]:
  "(\<And>r. tid (f r) = tid r) \<Longrightarrow>
   foreign_rows tid (tx_tenant tx) (rls_update tid tx P f rows) = foreign_rows tid (tx_tenant tx) rows"
  by (induction rows) (auto simp: foreign_rows_def)

lemma foreign_rows_insert [simp]:
  "tid r = tn \<Longrightarrow> foreign_rows tid tn (rows @ [r]) = foreign_rows tid tn rows"
  by (simp add: foreign_rows_def)

text \<open>Rows are found by their key.\<close>

lemma find_row_key:
  assumes "distinct (map key rows)" and "r \<in> set rows"
  shows "find_row (\<lambda>x. key x = key r) rows = Some r"
proof (cases "find_row (\<lambda>x. key x = key r) rows")
  case None
  with assms(2) show ?thesis by (auto simp: find_row_None)
next
  case (Some r')
  then have "r' \<in> set rows \<and> key r' = key r" by (rule find_row_Some)
  with Some assms show ?thesis by (auto dest: distinct_key_unique)
qed

lemma rls_find_key:
  assumes "distinct (map key rows)" and "r \<in> set rows" and "tid r = tx_tenant tx"
  shows "rls_find tid tx (\<lambda>x. key x = key r) rows = Some r"
proof (cases "rls_find tid tx (\<lambda>x. key x = key r) rows")
  case None
  with assms show ?thesis by (auto simp: rls_find_None)
next
  case (Some r')
  with assms show ?thesis by (auto dest!: rls_find_Some dest: distinct_key_unique)
qed

lemma sum_list_rls_update:
  fixes g :: "'r \<Rightarrow> int"
  assumes "\<And>r. r \<in> set rows \<Longrightarrow> tid r = tx_tenant tx \<Longrightarrow> P r \<Longrightarrow> g (f r) = g r"
  shows "(\<Sum>r \<leftarrow> rls_update tid tx P f rows. g r) = (\<Sum>r \<leftarrow> rows. g r)"
  using assms by (induction rows) auto

section \<open>Rows over time\<close>

text \<open>No row disappears: each one is where it was, moved by \<open>R\<close>; new ones are at the end.\<close>

definition rows_move :: "('r \<Rightarrow> 'r \<Rightarrow> bool) \<Rightarrow> 'r list \<Rightarrow> 'r list \<Rightarrow> bool" where
  "rows_move R rows rows' \<longleftrightarrow> (\<exists>rows1 new. rows' = rows1 @ new \<and> list_all2 R rows rows1)"

lemma rows_move_refl: "(\<And>r. R r r) \<Longrightarrow> rows_move R rows rows"
  unfolding rows_move_def by (metis append_Nil2 list.rel_refl)

lemma rows_move_append: "(\<And>r. R r r) \<Longrightarrow> rows_move R rows (rows @ new)"
  unfolding rows_move_def by (metis list.rel_refl)

lemma rows_move_update:
  "(\<And>r. R r r) \<Longrightarrow> (\<And>r. P r \<Longrightarrow> R r (f r)) \<Longrightarrow> rows_move R rows (rls_update tid tx P f rows)"
  unfolding rows_move_def
  by (rule exI [of _ "rls_update tid tx P f rows"], rule exI [of _ "[]"])
     (auto simp: rls_update_def update_rows_def list_all2_conv_all_nth)

lemma rows_move_trans:
  assumes tr: "\<And>a b c. R a b \<Longrightarrow> R b c \<Longrightarrow> R a c" and "rows_move R xs ys" and "rows_move R ys zs"
  shows "rows_move R xs zs"
proof -
  from assms(2) obtain ys1 new where ys: "ys = ys1 @ new" and xy: "list_all2 R xs ys1"
    by (auto simp: rows_move_def)
  from assms(3) obtain zs1 new' where zs: "zs = zs1 @ new'" and yz: "list_all2 R (ys1 @ new) zs1"
    unfolding ys by (auto simp: rows_move_def)
  from yz obtain za zb where z: "zs1 = za @ zb" and yza: "list_all2 R ys1 za"
    by (auto simp: list_all2_append1)
  have "list_all2 R xs za" by (rule list_all2_trans [OF tr xy yza])
  then show ?thesis
    unfolding rows_move_def zs z by (intro exI [of _ za] exI [of _ "zb @ new'"]) simp
qed

lemma rows_moveD:
  assumes "rows_move R rows rows'" and "r \<in> set rows"
  shows "\<exists>r' \<in> set rows'. R r r'"
  using assms by (auto simp: rows_move_def list_all2_conv_all_nth in_set_conv_nth) (metis UnI1 nth_mem)

end
