(* ===== verification/Pos_Domain.thy ===== *)
theory Pos_Domain
  imports Status_Machine Rls_Rows
begin

text \<open>
  The data of the point-of-sale module: backend/internal/modules/pos/domain.
  A Go string type with declared constants is a datatype with one constructor
  per constant and one for every other string (the empty string included); the
  \<open>Valid\<close> methods recognise the declared ones. Lifecycles are the three
  transition tables of check.go, order.go and table.go.
\<close>

section \<open>Errors\<close>

text \<open>The sentinel errors of pos/domain, pos/repo, pos/public and pos/service.
  \<open>errors.Is\<close> looks through \<open>fmt.Errorf\<close>'s wrapping, so a wrapped error is its
  sentinel here and the message text is not modelled.\<close>

datatype pos_err =
    DomainInvalidTransition
  | RepoNotFound
  | RepoInvalidTransition
  | RepoTableOccupied
  | RepoOpenedByKindMismatch
  | PubNotFound
  | PubInvalidTransition
  | PubBranchForbidden
  | PubTableOccupied
  | PubTableBranchMismatch
  | PubTableNotFound
  | PubTableNotReady
  | PubCheckNotOpen
  | PubCheckBranchMismatch
  | ErrInsufficientPayment
  | ErrFiscalPending
  | ErrCheckHasPayments
  | ErrCheckPaymentsPresent
  | ErrSameCheck
  | ErrItemAlreadyPaid
  | ErrOrderItemNotFound
  | ErrInvalidServiceType
  | ErrTableNotAllowed
  | ErrCustomerNameRequired
  | ErrCustomerPhoneRequired
  | ErrInvalidOrderStatus
  | ErrUseDedicatedEndpoint
  | ErrPriceMismatch
  | ErrInvalidOrderLine
  | ErrInvalidSeatNo
  | ErrManualOccupyForbidden
  | ErrTableManageRequired
  | ErrInvalidWaiterCategoryLayout
  | ErrInvalidOrderFlow
  | ErrInvalidRounding
  | ErrNilTenant
  | ErrDb pg_error      \<comment> \<open>a database error that is mapped to no sentinel\<close>
  | ErrOther string     \<comment> \<open>an error with no sentinel\<close>

section \<open>Checks\<close>

datatype check_status =
    CheckStatusOpen
  | CheckStatusClosed
  | CheckStatusCancelled
  | CheckStatusMerged
  | CheckStatusOther string

fun CheckStatus_Valid :: "check_status \<Rightarrow> bool" where
  "CheckStatus_Valid (CheckStatusOther _) = False"
| "CheckStatus_Valid _ = True"

fun allowedCheckTransitions :: "check_status \<Rightarrow> check_status list" where
  "allowedCheckTransitions CheckStatusOpen =
     [CheckStatusClosed, CheckStatusCancelled, CheckStatusMerged]"
| "allowedCheckTransitions _ = []"

definition TransitionCheckStatus :: "check_status \<Rightarrow> check_status \<Rightarrow> pos_err + unit" where
  "TransitionCheckStatus from to =
     (if \<not> CheckStatus_Valid to then Inl DomainInvalidTransition
      else if to \<in> set (allowedCheckTransitions from) then Inr ()
      else Inl DomainInvalidTransition)"

datatype opened_by_kind = OpenedByKindStaff | OpenedByKindGuestQR | OpenedByKindOther string

fun OpenedByKind_Valid :: "opened_by_kind \<Rightarrow> bool" where
  "OpenedByKind_Valid (OpenedByKindOther _) = False"
| "OpenedByKind_Valid _ = True"

datatype source = SourcePOS | SourceOnlineQR | SourceOther string

fun Source_Valid :: "source \<Rightarrow> bool" where
  "Source_Valid (SourceOther _) = False"
| "Source_Valid _ = True"

datatype service_type =
    ServiceTypeDineIn | ServiceTypeTakeaway | ServiceTypeDelivery | ServiceTypeOther string

fun ServiceType_Valid :: "service_type \<Rightarrow> bool" where
  "ServiceType_Valid (ServiceTypeOther _) = False"
| "ServiceType_Valid _ = True"

record check =
  chk_id :: uuid
  chk_table :: "uuid option"
  chk_tenant :: uuid
  chk_branch :: uuid
  chk_label :: string
  chk_pax :: int
  chk_status :: check_status
  chk_service :: service_type
  chk_cust_name :: string
  chk_cust_phone :: string
  chk_cust_address :: string
  chk_opened_by :: "uuid option"
  chk_opened_kind :: opened_by_kind
  chk_source :: source
  chk_closed_by :: "uuid option"
  chk_merged_into :: "uuid option"
  chk_note :: string
  chk_opened_at :: time
  chk_closed_at :: "time option"
  chk_created :: time
  chk_updated :: time

section \<open>Orders\<close>

datatype order_channel =
    OrderChannelDineIn | OrderChannelTakeaway | OrderChannelDelivery | OrderChannelOther string

fun OrderChannel_Valid :: "order_channel \<Rightarrow> bool" where
  "OrderChannel_Valid (OrderChannelOther _) = False"
| "OrderChannel_Valid _ = True"

datatype order_status =
    OrderStatusPending
  | OrderStatusAccepted
  | OrderStatusRejected
  | OrderStatusPreparing
  | OrderStatusReady
  | OrderStatusDelivered
  | OrderStatusCancelled
  | OrderStatusOther string

fun OrderStatus_Valid :: "order_status \<Rightarrow> bool" where
  "OrderStatus_Valid (OrderStatusOther _) = False"
| "OrderStatus_Valid _ = True"

fun order_status_string :: "order_status \<Rightarrow> string" where
  "order_status_string OrderStatusPending = ''pending''"
| "order_status_string OrderStatusAccepted = ''accepted''"
| "order_status_string OrderStatusRejected = ''rejected''"
| "order_status_string OrderStatusPreparing = ''preparing''"
| "order_status_string OrderStatusReady = ''ready''"
| "order_status_string OrderStatusDelivered = ''delivered''"
| "order_status_string OrderStatusCancelled = ''cancelled''"
| "order_status_string (OrderStatusOther s) = s"

fun allowedOrderTransitions :: "order_status \<Rightarrow> order_status list" where
  "allowedOrderTransitions OrderStatusPending =
     [OrderStatusAccepted, OrderStatusRejected, OrderStatusCancelled]"
| "allowedOrderTransitions OrderStatusAccepted = [OrderStatusPreparing, OrderStatusCancelled]"
| "allowedOrderTransitions OrderStatusPreparing = [OrderStatusReady, OrderStatusCancelled]"
| "allowedOrderTransitions OrderStatusReady = [OrderStatusDelivered, OrderStatusCancelled]"
| "allowedOrderTransitions _ = []"

definition TransitionOrderStatus :: "order_status \<Rightarrow> order_status \<Rightarrow> pos_err + unit" where
  "TransitionOrderStatus from to =
     (if \<not> OrderStatus_Valid to then Inl DomainInvalidTransition
      else if to \<in> set (allowedOrderTransitions from) then Inr ()
      else Inl DomainInvalidTransition)"

definition kitchenAdvanceTargets :: "order_status list" where
  "kitchenAdvanceTargets = [OrderStatusPreparing, OrderStatusReady, OrderStatusDelivered]"

definition IsKitchenAdvanceTarget :: "order_status \<Rightarrow> bool" where
  "IsKitchenAdvanceTarget s \<longleftrightarrow> s \<in> set kitchenAdvanceTargets"

definition InactiveOrderStatuses :: "order_status list" where
  "InactiveOrderStatuses = [OrderStatusRejected, OrderStatusCancelled]"

definition KitchenActiveOrderStatuses :: "order_status list" where
  "KitchenActiveOrderStatuses =
     [OrderStatusPending, OrderStatusAccepted, OrderStatusPreparing, OrderStatusReady]"

definition MaxSeatNo :: int where
  "MaxSeatNo = 99"

definition ValidSeatNo :: "int \<Rightarrow> bool" where
  "ValidSeatNo n \<longleftrightarrow> 0 \<le> n \<and> n \<le> MaxSeatNo"

record order_item =
  itm_id :: uuid
  itm_tenant :: uuid
  itm_order :: uuid
  itm_product :: uuid
  itm_name :: string
  itm_price :: int
  itm_currency :: string
  itm_tax_bps :: int
  itm_qty :: int
  itm_unit_price :: int
  itm_unit_cost :: "int option"
  itm_note :: string
  itm_created :: time
  itm_modifiers :: "uuid list"
  itm_seat :: int

definition MaxItemSeatNo :: "order_item list \<Rightarrow> int" where
  "MaxItemSeatNo items = fold (\<lambda>it m. if itm_seat it > m then itm_seat it else m) items 0"

record order =
  ord_id :: uuid
  ord_tenant :: uuid
  ord_branch :: uuid
  ord_check :: "uuid option"
  ord_channel :: order_channel
  ord_source :: source
  ord_integrator :: "uuid option"
  ord_status :: order_status
  ord_deadline :: "time option"
  ord_accepted_at :: "time option"
  ord_accepted_by :: "uuid option"
  ord_rejected_at :: "time option"
  ord_rejected_by :: "uuid option"
  ord_reason :: string
  ord_note :: string
  ord_items :: "order_item list"
  ord_created :: time
  ord_updated :: time

section \<open>Tables and zones\<close>

record table_zone =
  zon_id :: uuid
  zon_tenant :: uuid
  zon_branch :: uuid
  zon_name :: string
  zon_floor :: int
  zon_active :: bool
  zon_created :: time
  zon_updated :: time

datatype table_status =
    TableStatusEmpty | TableStatusOccupied | TableStatusReserved | TableStatusCleaning
  | TableStatusOther string

fun TableStatus_Valid :: "table_status \<Rightarrow> bool" where
  "TableStatus_Valid (TableStatusOther _) = False"
| "TableStatus_Valid _ = True"

fun allowedTableTransitions :: "table_status \<Rightarrow> table_status list" where
  "allowedTableTransitions TableStatusEmpty =
     [TableStatusOccupied, TableStatusReserved, TableStatusCleaning]"
| "allowedTableTransitions TableStatusOccupied = [TableStatusCleaning, TableStatusEmpty]"
| "allowedTableTransitions TableStatusReserved = [TableStatusOccupied, TableStatusEmpty]"
| "allowedTableTransitions TableStatusCleaning = [TableStatusEmpty]"
| "allowedTableTransitions _ = []"

definition TransitionTableStatus :: "table_status \<Rightarrow> table_status \<Rightarrow> pos_err + unit" where
  "TransitionTableStatus from to =
     (if \<not> TableStatus_Valid to then Inl DomainInvalidTransition
      else if to \<in> set (allowedTableTransitions from) then Inr ()
      else Inl DomainInvalidTransition)"

record dining_table =
  tbl_id :: uuid
  tbl_tenant :: uuid
  tbl_branch :: uuid
  tbl_zone :: uuid
  tbl_name :: string
  tbl_capacity :: int
  tbl_status :: table_status
  tbl_layout :: "string option"     \<comment> \<open>\<open>json.RawMessage\<close>: None is nil\<close>
  tbl_active :: bool
  tbl_created :: time
  tbl_updated :: time

section \<open>Branch settings\<close>

datatype waiter_layout = WaiterCategoryLayoutTop | WaiterCategoryLayoutSide | WaiterCategoryLayoutOther string

fun WaiterCategoryLayout_Valid :: "waiter_layout \<Rightarrow> bool" where
  "WaiterCategoryLayout_Valid (WaiterCategoryLayoutOther _) = False"
| "WaiterCategoryLayout_Valid _ = True"

datatype order_flow = OrderFlowFull | OrderFlowSimple | OrderFlowOther string

fun OrderFlow_Valid :: "order_flow \<Rightarrow> bool" where
  "OrderFlow_Valid (OrderFlowOther _) = False"
| "OrderFlow_Valid _ = True"

record rounding_policy =
  rnd_cash :: bool
  rnd_card :: bool
  rnd_step :: int
  rnd_max_per_check :: int

definition DefaultRoundingPolicy :: rounding_policy where
  "DefaultRoundingPolicy =
     \<lparr>rnd_cash = False, rnd_card = False, rnd_step = 500, rnd_max_per_check = 1000\<rparr>"

definition RoundingStepsMinor :: "int list" where
  "RoundingStepsMinor = [50, 100, 500, 1000]"

definition ValidRoundingStep :: "int \<Rightarrow> bool" where
  "ValidRoundingStep step \<longleftrightarrow> step \<in> set RoundingStepsMinor"

record branch_settings =
  bst_tenant :: uuid
  bst_branch :: uuid
  bst_layout :: waiter_layout
  bst_flow :: order_flow
  bst_rounding :: rounding_policy
  bst_updated_by :: uuid
  bst_created :: time
  bst_updated :: time

definition DefaultBranchSettings :: "uuid \<Rightarrow> uuid \<Rightarrow> branch_settings" where
  "DefaultBranchSettings tenant branch =
     \<lparr>bst_tenant = tenant, bst_branch = branch, bst_layout = WaiterCategoryLayoutTop,
      bst_flow = OrderFlowFull, bst_rounding = DefaultRoundingPolicy,
      bst_updated_by = uuid_Nil, bst_created = 0, bst_updated = 0\<rparr>"

section \<open>The three lifecycles\<close>

fun check_rank :: "check_status \<Rightarrow> nat" where
  "check_rank CheckStatusOpen = 1"
| "check_rank _ = 0"

fun order_rank :: "order_status \<Rightarrow> nat" where
  "order_rank OrderStatusPending = 4"
| "order_rank OrderStatusAccepted = 3"
| "order_rank OrderStatusPreparing = 2"
| "order_rank OrderStatusReady = 1"
| "order_rank _ = 0"

lemma allowedCheckTransitions_facts:
  "t \<in> set (allowedCheckTransitions s) \<Longrightarrow>
   CheckStatus_Valid s \<and> CheckStatus_Valid t \<and> check_rank t < check_rank s"
  by (cases s) auto

lemma allowedOrderTransitions_facts:
  "t \<in> set (allowedOrderTransitions s) \<Longrightarrow>
   OrderStatus_Valid s \<and> OrderStatus_Valid t \<and> order_rank t < order_rank s"
  by (cases s) auto

lemma allowedTableTransitions_facts:
  "t \<in> set (allowedTableTransitions s) \<Longrightarrow> TableStatus_Valid s \<and> TableStatus_Valid t"
  by (cases s) auto

interpretation check_machine: acyclic_status_machine CheckStatus_Valid allowedCheckTransitions
    TransitionCheckStatus DomainInvalidTransition check_rank
  by unfold_locales (auto simp: TransitionCheckStatus_def dest: allowedCheckTransitions_facts)

interpretation order_machine: acyclic_status_machine OrderStatus_Valid allowedOrderTransitions
    TransitionOrderStatus DomainInvalidTransition order_rank
  by unfold_locales (auto simp: TransitionOrderStatus_def dest: allowedOrderTransitions_facts)

interpretation table_machine: status_machine TableStatus_Valid allowedTableTransitions
    TransitionTableStatus DomainInvalidTransition
  by unfold_locales (auto simp: TransitionTableStatus_def dest: allowedTableTransitions_facts)

lemma check_sinks:
  "allowedCheckTransitions s = [] \<longleftrightarrow> s \<noteq> CheckStatusOpen"
  by (cases s) auto

lemma allowedCheckTransitions_iff:
  "t \<in> set (allowedCheckTransitions s) \<longleftrightarrow>
   s = CheckStatusOpen \<and> t \<in> {CheckStatusClosed, CheckStatusCancelled, CheckStatusMerged}"
  by (cases s) auto

lemma kitchen_active_iff:
  "s \<in> set KitchenActiveOrderStatuses \<longleftrightarrow>
   s \<in> {OrderStatusPending, OrderStatusAccepted, OrderStatusPreparing, OrderStatusReady}"
  by (auto simp: KitchenActiveOrderStatuses_def)

text \<open>Exactly the live statuses can be cancelled, and exactly they have a way on.\<close>

lemma kitchen_active_cancellable:
  "s \<in> set KitchenActiveOrderStatuses \<longleftrightarrow> OrderStatusCancelled \<in> set (allowedOrderTransitions s)"
  by (cases s) (auto simp: KitchenActiveOrderStatuses_def)

lemma kitchen_active_not_terminal:
  "s \<in> set KitchenActiveOrderStatuses \<longleftrightarrow> allowedOrderTransitions s \<noteq> []"
  by (cases s) (auto simp: KitchenActiveOrderStatuses_def)

lemma advance_target_cases:
  "IsKitchenAdvanceTarget s \<longleftrightarrow>
   s = OrderStatusPreparing \<or> s = OrderStatusReady \<or> s = OrderStatusDelivered"
  by (auto simp: IsKitchenAdvanceTarget_def kitchenAdvanceTargets_def)

lemma Max_insert_insert:
  fixes a b :: int
  assumes "finite S"
  shows "Max (insert a (insert b S)) = Max (insert (if b > a then b else a) S)"
  using assms by (cases "S = {}") (auto simp: max_def)

lemma max_seat_fold:
  "fold (\<lambda>it m. if itm_seat it > m then itm_seat it else m) items m0 =
   Max (insert m0 (itm_seat ` set items))"
  by (induction items arbitrary: m0) (simp_all add: Max_insert_insert del: Max_insert)

lemma MaxItemSeatNo_eq: "MaxItemSeatNo items = Max (insert 0 (itm_seat ` set items))"
  by (simp add: MaxItemSeatNo_def max_seat_fold)

lemma MaxItemSeatNo_upper: "it \<in> set items \<Longrightarrow> itm_seat it \<le> MaxItemSeatNo items"
  by (simp add: MaxItemSeatNo_eq)

end
