(* ===== verification/Sql_Table.thy ===== *)
theory Sql_Table
  imports Rls_Rows
begin

text \<open>
  A table of the schema inside a database state: where its rows are, which
  column holds the tenant, which is the primary key, and its constraints as the
  migrations declare them. \<open>row_ok\<close> is the conjunction of the column types'
  ranges and the \<open>CHECK\<close> constraints of a row, \<open>uniq\<close> the unique indexes beyond
  the primary key, \<open>refs\<close> the foreign keys of a row. The two statements that
  change a table are defined once, and the laws about them are proved once, in
  the locale \<open>sql_table_laws\<close>; each table of the program interprets it.
\<close>

record ('s, 'r) sql_table =
  tb_get :: "'s \<Rightarrow> 'r list"
  tb_put :: "'r list \<Rightarrow> 's \<Rightarrow> 's"
  tb_tenant :: "'r \<Rightarrow> uuid"
  tb_key :: "'r \<Rightarrow> uuid"
  tb_row_ok :: "'r \<Rightarrow> bool"
  tb_uniq :: "'r list \<Rightarrow> bool"
  tb_refs :: "'s \<Rightarrow> 'r \<Rightarrow> bool"

section \<open>Statements\<close>

definition sql_find :: "('s, 'r) sql_table \<Rightarrow> pgtx \<Rightarrow> ('r \<Rightarrow> bool) \<Rightarrow> ('s, 'e, 'r option) tx" where
  "sql_find T tx P = tx_read (\<lambda>s. rls_find (tb_tenant T) tx P (tb_get T s))"

definition sql_select :: "('s, 'r) sql_table \<Rightarrow> pgtx \<Rightarrow> ('r \<Rightarrow> bool) \<Rightarrow> ('s, 'e, 'r list) tx" where
  "sql_select T tx P = tx_read (\<lambda>s. rls_select (tb_tenant T) tx P (tb_get T s))"

text \<open>\<open>INSERT ... RETURNING\<close>: the row as stored.\<close>

definition sql_insert :: "('s, 'r) sql_table \<Rightarrow> pgtx \<Rightarrow> 'r \<Rightarrow> ('s, pg_error, 'r) tx" where
  "sql_insert T tx r =
     tx_bind (tx_read (\<lambda>s. s)) (\<lambda>s.
     tx_bind (tx_require (tb_tenant T r = tx_tenant tx) RlsViolation) (\<lambda>_.
     tx_bind (tx_require (tb_row_ok T r) CheckViolation) (\<lambda>_.
     tx_bind (tx_require (tb_key T r \<notin> tb_key T ` set (tb_get T s)) UniqueViolation) (\<lambda>_.
     tx_bind (tx_require (tb_uniq T (tb_get T s @ [r])) UniqueViolation) (\<lambda>_.
     tx_bind (tx_require (tb_refs T s r) ForeignKeyViolation) (\<lambda>_.
     tx_bind (tx_write (\<lambda>s. tb_put T (tb_get T s @ [r]) s)) (\<lambda>_.
     tx_return r)))))))"

text \<open>\<open>UPDATE ... WHERE ... RETURNING\<close>: the rows touched, as updated.\<close>

definition sql_update ::
  "('s, 'r) sql_table \<Rightarrow> pgtx \<Rightarrow> ('r \<Rightarrow> bool) \<Rightarrow> ('r \<Rightarrow> 'r) \<Rightarrow> ('s, pg_error, 'r list) tx" where
  "sql_update T tx P f =
     tx_bind (tx_read (\<lambda>s. s)) (\<lambda>s.
     let rows' = rls_update (tb_tenant T) tx P f (tb_get T s);
         changed = map f (rls_select (tb_tenant T) tx P (tb_get T s))
     in tx_bind (tx_require (list_all (tb_row_ok T) changed) CheckViolation) (\<lambda>_.
        tx_bind (tx_require (tb_uniq T rows') UniqueViolation) (\<lambda>_.
        tx_bind (tx_require (list_all (tb_refs T s) changed) ForeignKeyViolation) (\<lambda>_.
        tx_bind (tx_write (tb_put T rows')) (\<lambda>_.
        tx_return changed)))))"

text \<open>\<open>QueryRow\<close> on an \<open>UPDATE ... RETURNING\<close>, and on a \<open>SELECT\<close>: the first row, and
  the caller's error for \<open>pgx.ErrNoRows\<close>.\<close>

definition query_row :: "'e \<Rightarrow> 'r list \<Rightarrow> ('s, 'e, 'r) tx" where
  "query_row e rows = (case rows of [] \<Rightarrow> tx_throw e | r # _ \<Rightarrow> tx_return r)"

definition found_row :: "'e \<Rightarrow> 'r option \<Rightarrow> ('s, 'e, 'r) tx" where
  "found_row e r = (case r of None \<Rightarrow> tx_throw e | Some x \<Rightarrow> tx_return x)"

text \<open>What the constraints of one table demand of its rows.\<close>

definition table_ok :: "('s, 'r) sql_table \<Rightarrow> 's \<Rightarrow> bool" where
  "table_ok T s \<longleftrightarrow>
     distinct (map (tb_key T) (tb_get T s)) \<and>
     (\<forall>r \<in> set (tb_get T s). tb_row_ok T r) \<and> tb_uniq T (tb_get T s) \<and>
     (\<forall>r \<in> set (tb_get T s). tb_refs T s r)"

lemma query_row_Inr: "query_row e rows s = Inr (r, s') \<longleftrightarrow> rows \<noteq> [] \<and> r = hd rows \<and> s' = s"
  by (auto simp: query_row_def split: list.splits)

lemma query_row_Inl: "query_row e rows s = Inl e' \<longleftrightarrow> rows = [] \<and> e' = e"
  by (auto simp: query_row_def split: list.splits)

lemma found_row_Inr: "found_row e r s = Inr (x, s') \<longleftrightarrow> r = Some x \<and> s' = s"
  by (auto simp: found_row_def split: option.splits)

lemma found_row_Inl: "found_row e r s = Inl e' \<longleftrightarrow> r = None \<and> e' = e"
  by (auto simp: found_row_def split: option.splits)

lemmas row_inv = query_row_Inr found_row_Inr

section \<open>Laws\<close>

locale sql_table_laws =
  fixes T :: "('s, 'r) sql_table"
  assumes get_put [simp]: "tb_get T (tb_put T rows s) = rows"
    and refs_put: "map (tb_key T) rows = map (tb_key T) (tb_get T s) @ ks \<Longrightarrow>
                   tb_refs T s r \<Longrightarrow> tb_refs T (tb_put T rows s) r"
begin

lemma insert_Inr:
  "sql_insert T tx r s = Inr (r', s') \<longleftrightarrow>
     tb_tenant T r = tx_tenant tx \<and> tb_row_ok T r \<and> tb_key T r \<notin> tb_key T ` set (tb_get T s) \<and>
     tb_uniq T (tb_get T s @ [r]) \<and> tb_refs T s r \<and>
     r' = r \<and> s' = tb_put T (tb_get T s @ [r]) s"
  by (auto simp: sql_insert_def tx_inv)

lemma update_Inr:
  "sql_update T tx P f s = Inr (rs, s') \<longleftrightarrow>
     rs = map f (rls_select (tb_tenant T) tx P (tb_get T s)) \<and>
     list_all (tb_row_ok T) rs \<and> list_all (tb_refs T s) rs \<and>
     tb_uniq T (rls_update (tb_tenant T) tx P f (tb_get T s)) \<and>
     s' = tb_put T (rls_update (tb_tenant T) tx P f (tb_get T s)) s"
  by (auto simp: sql_update_def tx_inv Let_def)

lemma insert_table_ok:
  assumes "sql_insert T tx r s = Inr (r', s')" and "table_ok T s"
  shows "table_ok T s'"
proof -
  have "tb_refs T s' x" if "tb_refs T s x" for x
    using assms(1) that by (auto simp: insert_Inr intro!: refs_put)
  with assms show ?thesis by (auto simp: insert_Inr table_ok_def)
qed

text \<open>An update that keeps the keys keeps the constraints: the rows it wrote
  were checked, the others were fine before.\<close>

lemma update_table_ok:
  assumes upd: "sql_update T tx P f s = Inr (rs, s')" and ok: "table_ok T s"
    and key: "\<And>r. tb_key T (f r) = tb_key T r"
  shows "table_ok T s'"
proof -
  let ?rows = "tb_get T s" and ?rows' = "rls_update (tb_tenant T) tx P f (tb_get T s)"
  have s': "s' = tb_put T ?rows' s" using upd by (simp add: update_Inr)
  have keys: "map (tb_key T) ?rows' = map (tb_key T) ?rows" by (rule map_rls_update) (rule key)
  have new: "tb_row_ok T r \<and> tb_refs T s r" if "r \<in> set ?rows'" for r
  proof -
    from that obtain r0 where r0: "r0 \<in> set ?rows"
      and r: "r = (if tb_tenant T r0 = tx_tenant tx \<and> P r0 then f r0 else r0)"
      by (auto simp: in_rls_update)
    show ?thesis
    proof (cases "tb_tenant T r0 = tx_tenant tx \<and> P r0")
      case True
      with r r0 have "r \<in> set rs" using upd by (auto simp: update_Inr)
      with upd show ?thesis by (auto simp: update_Inr list_all_iff)
    next
      case False
      with r r0 ok show ?thesis by (auto simp: table_ok_def)
    qed
  qed
  have "tb_refs T s' r" if "tb_refs T s r" for r
    unfolding s' by (rule refs_put [where ks = "[]"]) (simp_all add: keys that)
  with new have "\<forall>r \<in> set ?rows'. tb_row_ok T r \<and> tb_refs T s' r" by blast
  moreover have "distinct (map (tb_key T) ?rows')" using ok by (simp add: keys table_ok_def)
  moreover have "tb_uniq T ?rows'" using upd by (simp add: update_Inr)
  ultimately show ?thesis by (simp add: table_ok_def s')
qed

lemma insert_foreign:
  "sql_insert T tx r s = Inr (r', s') \<Longrightarrow>
   foreign_rows (tb_tenant T) (tx_tenant tx) (tb_get T s') =
   foreign_rows (tb_tenant T) (tx_tenant tx) (tb_get T s)"
  by (auto simp: insert_Inr)

lemma update_foreign:
  "sql_update T tx P f s = Inr (rs, s') \<Longrightarrow> (\<And>r. tb_tenant T (f r) = tb_tenant T r) \<Longrightarrow>
   foreign_rows (tb_tenant T) (tx_tenant tx) (tb_get T s') =
   foreign_rows (tb_tenant T) (tx_tenant tx) (tb_get T s)"
  by (auto simp: update_Inr)

end

lemma sql_find_eval [simp]:
  "sql_find T tx P s = Inr (rls_find (tb_tenant T) tx P (tb_get T s), s)"
  by (simp add: sql_find_def)

lemma sql_select_eval [simp]:
  "sql_select T tx P s = Inr (rls_select (tb_tenant T) tx P (tb_get T s), s)"
  by (simp add: sql_select_def)

end
