(* ===== verification/Auth_Principal.thy ===== *)
theory Auth_Principal
  imports Prelude
begin

text \<open>
  The authenticated caller: backend/internal/platform/auth. \<open>ctx\<close> is the part of
  Go's request context the services read: the scope the authorization middleware
  stored (\<open>ScopeFromContext\<close>) and the clock.
\<close>

datatype auth_context = ContextStaff | ContextCustomer | ContextOther string

record principal =
  prn_keycloak_sub :: string
  prn_person :: uuid
  prn_ctx :: auth_context
  prn_tenant :: uuid
  prn_branch :: uuid
  prn_roles :: "uuid list"
  prn_session :: uuid

record ctx =
  ctx_scope :: "string option"
  ctx_now :: time

definition IsPreContext :: "principal \<Rightarrow> bool" where
  "IsPreContext p \<longleftrightarrow> prn_person p = uuid_Nil \<and> prn_keycloak_sub p \<noteq> ''''"

definition IsStaff :: "principal \<Rightarrow> bool" where
  "IsStaff p \<longleftrightarrow> prn_ctx p = ContextStaff"

definition IsCustomer :: "principal \<Rightarrow> bool" where
  "IsCustomer p \<longleftrightarrow> prn_ctx p = ContextCustomer"

definition HasBranchAccess :: "principal \<Rightarrow> uuid \<Rightarrow> bool" where
  "HasBranchAccess p branch =
     (if prn_ctx p \<noteq> ContextStaff then False
      else prn_branch p = uuid_Nil \<or> prn_branch p = branch)"

definition ScopeFromContext :: "ctx \<Rightarrow> string option" where
  "ScopeFromContext c = ctx_scope c"

definition tenant_scoped :: "ctx \<Rightarrow> bool" where
  "tenant_scoped c \<longleftrightarrow> ScopeFromContext c = Some ''tenant''"

text \<open>
  platform/auth/guest_token.go: the session of an anonymous diner, and the token that carries
  it. What is signed is a record of claims; the texts of the ids, the encodings and the
  signature are abstracted to \<open>guest_token\<close>, a header type, claims and whether the HMAC
  under the signer's secret matches.
\<close>

record guest_session =
  gst_tenant :: uuid
  gst_branch :: uuid
  gst_table :: uuid
  gst_qr :: uuid
  gst_session :: uuid
  gst_expires :: time

record guest_token =
  gtk_typ :: string
  gtk_iss :: string
  gtk_aud :: string
  gtk_tenant :: uuid
  gtk_branch :: uuid
  gtk_table :: uuid
  gtk_qr :: uuid
  gtk_session :: uuid
  gtk_exp :: time
  gtk_secret :: nat   \<comment> \<open>the secret the signature was computed with\<close>

datatype guest_token_err = ErrGuestTokenExpired | ErrGuestTokenInvalid

definition guestTokenTTL :: time where
  "guestTokenTTL = 4 * 60 * 60"

definition IssueGuest :: "nat \<Rightarrow> time \<Rightarrow> uuid \<Rightarrow> uuid \<Rightarrow> uuid \<Rightarrow> uuid \<Rightarrow> uuid \<Rightarrow> guest_token" where
  "IssueGuest secret now tn b table qr session =
     \<lparr>gtk_typ = ''GUEST'', gtk_iss = ''onlinemenu'', gtk_aud = ''storefront-guest'', gtk_tenant = tn,
      gtk_branch = b, gtk_table = table, gtk_qr = qr, gtk_session = session,
      gtk_exp = now + guestTokenTTL, gtk_secret = secret\<rparr>"

definition VerifyGuest :: "nat \<Rightarrow> time \<Rightarrow> guest_token \<Rightarrow> guest_token_err + guest_session" where
  "VerifyGuest secret now k =
     (if gtk_typ k \<noteq> ''GUEST'' then Inl ErrGuestTokenInvalid
      else if gtk_secret k \<noteq> secret then Inl ErrGuestTokenInvalid
      else if gtk_iss k \<noteq> ''onlinemenu'' \<or> gtk_aud k \<noteq> ''storefront-guest'' then Inl ErrGuestTokenInvalid
      else if now > gtk_exp k then Inl ErrGuestTokenExpired
      else Inr \<lparr>gst_tenant = gtk_tenant k, gst_branch = gtk_branch k, gst_table = gtk_table k,
                gst_qr = gtk_qr k, gst_session = gtk_session k, gst_expires = gtk_exp k\<rparr>)"

lemma VerifyGuest_issued:
  "VerifyGuest secret t (IssueGuest secret now tn b table qr session) =
     (if t > now + guestTokenTTL then Inl ErrGuestTokenExpired
      else Inr \<lparr>gst_tenant = tn, gst_branch = b, gst_table = table, gst_qr = qr, gst_session = session,
                gst_expires = now + guestTokenTTL\<rparr>)"
  by (simp add: VerifyGuest_def IssueGuest_def)

lemma VerifyGuest_Inr:
  "VerifyGuest secret now k = Inr g \<longleftrightarrow>
     gtk_typ k = ''GUEST'' \<and> gtk_secret k = secret \<and> gtk_iss k = ''onlinemenu'' \<and>
     gtk_aud k = ''storefront-guest'' \<and> now \<le> gtk_exp k \<and>
     g = \<lparr>gst_tenant = gtk_tenant k, gst_branch = gtk_branch k, gst_table = gtk_table k,
          gst_qr = gtk_qr k, gst_session = gtk_session k, gst_expires = gtk_exp k\<rparr>"
  by (auto simp: VerifyGuest_def)

end
