(* ===== verification/Outbox_Row.thy ===== *)
theory Outbox_Row
  imports Prelude
begin

text \<open>
  The transactional outbox every module writes its events to: one row per event, in
  the transaction of the change it announces. The payload is the JSON object the code
  marshals, as an association list.
\<close>

datatype json =
    JNull
  | JId uuid
  | JStr string
  | JInt int
  | JIds "uuid list"

definition json_opt_id :: "uuid option \<Rightarrow> json" where
  "json_opt_id x = (case x of None \<Rightarrow> JNull | Some i \<Rightarrow> JId i)"

record outbox_row =
  obx_id :: uuid
  obx_tenant :: uuid
  obx_aggregate :: string
  obx_agg_id :: uuid
  obx_type :: string
  obx_payload :: "(string \<times> json) list"

end
