(* ===== verification/Pos_State.thy ===== *)
theory Pos_State
  imports Pos_Domain Sql_Table Auth_Principal Outbox_Row
begin

text \<open>
  The database of the point-of-sale module: the seven tables of
  backend/migrations/pos with their constraints, the generator of row ids, and
  the transactions of platform/db/tenant_tx.go. The outbox (repo/outbox.go) is
  one of the tables: an event is a row written in the transaction of the change
  it announces.

  \<open>gen_random_uuid()\<close> and \<open>uuid.New()\<close> draw from an arbitrary stream of
  identifiers; a draw that repeats the key of a row makes the insert fail, as
  the primary key does.
\<close>

section \<open>The tables\<close>

record pos_db =
  db_checks :: "check list"
  db_orders :: "order list"
  db_items :: "order_item list"
  db_tables :: "dining_table list"
  db_zones :: "table_zone list"
  db_settings :: "branch_settings list"
  db_outbox :: "outbox_row list"
  db_rand :: "nat \<Rightarrow> uuid"
  db_ctr :: nat

definition check_row_ok :: "check \<Rightarrow> bool" where
  "check_row_ok c \<longleftrightarrow>
     CheckStatus_Valid (chk_status c) \<and> OpenedByKind_Valid (chk_opened_kind c) \<and>
     ((chk_opened_kind c = OpenedByKindStaff) = (chk_opened_by c \<noteq> None)) \<and>
     Source_Valid (chk_source c) \<and>
     ((chk_status c = CheckStatusMerged) = (chk_merged_into c \<noteq> None)) \<and>
     ServiceType_Valid (chk_service c) \<and> int32_range (chk_pax c)"

text \<open>\<open>checks_open_table_id_uidx\<close>: at most one open check per table.\<close>

definition open_tables :: "check list \<Rightarrow> uuid list" where
  "open_tables cs =
     concat (map (\<lambda>c. case chk_table c of
        None \<Rightarrow> []
      | Some t \<Rightarrow> (if chk_status c = CheckStatusOpen then [t] else [])) cs)"

definition check_refs_ok :: "pos_db \<Rightarrow> check \<Rightarrow> bool" where
  "check_refs_ok s c \<longleftrightarrow>
     (case chk_table c of None \<Rightarrow> True | Some t \<Rightarrow> t \<in> tbl_id ` set (db_tables s)) \<and>
     (case chk_merged_into c of None \<Rightarrow> True | Some m \<Rightarrow> m \<in> chk_id ` set (db_checks s))"

definition order_row_ok :: "order \<Rightarrow> bool" where
  "order_row_ok r \<longleftrightarrow>
     OrderChannel_Valid (ord_channel r) \<and> OrderStatus_Valid (ord_status r) \<and>
     Source_Valid (ord_source r)"

definition order_refs_ok :: "pos_db \<Rightarrow> order \<Rightarrow> bool" where
  "order_refs_ok s r \<longleftrightarrow>
     (case ord_check r of None \<Rightarrow> True | Some c \<Rightarrow> c \<in> chk_id ` set (db_checks s))"

definition item_row_ok :: "order_item \<Rightarrow> bool" where
  "item_row_ok r \<longleftrightarrow>
     0 < itm_qty r \<and> int32_range (itm_qty r) \<and> 0 \<le> itm_tax_bps r \<and> itm_tax_bps r \<le> 10000 \<and>
     0 \<le> itm_seat r \<and> itm_seat r \<le> 99 \<and>
     int64_range (itm_price r) \<and> int64_range (itm_unit_price r) \<and>
     (case itm_unit_cost r of None \<Rightarrow> True | Some c \<Rightarrow> 0 \<le> c \<and> int64_range c)"

definition item_refs_ok :: "pos_db \<Rightarrow> order_item \<Rightarrow> bool" where
  "item_refs_ok s r \<longleftrightarrow> itm_order r \<in> ord_id ` set (db_orders s)"

definition table_row_ok :: "dining_table \<Rightarrow> bool" where
  "table_row_ok r \<longleftrightarrow>
     0 \<le> tbl_capacity r \<and> int32_range (tbl_capacity r) \<and> TableStatus_Valid (tbl_status r) \<and>
     tbl_layout r \<noteq> None"

definition table_refs_ok :: "pos_db \<Rightarrow> dining_table \<Rightarrow> bool" where
  "table_refs_ok s r \<longleftrightarrow> tbl_zone r \<in> zon_id ` set (db_zones s)"

definition zone_row_ok :: "table_zone \<Rightarrow> bool" where
  "zone_row_ok r \<longleftrightarrow> int32_range (zon_floor r)"

definition settings_row_ok :: "branch_settings \<Rightarrow> bool" where
  "settings_row_ok r \<longleftrightarrow>
     WaiterCategoryLayout_Valid (bst_layout r) \<and> OrderFlow_Valid (bst_flow r) \<and>
     rnd_step (bst_rounding r) \<in> {50, 100, 500, 1000} \<and>
     0 \<le> rnd_max_per_check (bst_rounding r) \<and> int32_range (rnd_max_per_check (bst_rounding r))"

definition checks_table :: "(pos_db, check) sql_table" where
  "checks_table =
     \<lparr>tb_get = db_checks, tb_put = (\<lambda>rs s. s\<lparr>db_checks := rs\<rparr>), tb_tenant = chk_tenant,
      tb_key = chk_id, tb_row_ok = check_row_ok, tb_uniq = (\<lambda>rs. distinct (open_tables rs)),
      tb_refs = check_refs_ok\<rparr>"

definition orders_table :: "(pos_db, order) sql_table" where
  "orders_table =
     \<lparr>tb_get = db_orders, tb_put = (\<lambda>rs s. s\<lparr>db_orders := rs\<rparr>), tb_tenant = ord_tenant,
      tb_key = ord_id, tb_row_ok = order_row_ok, tb_uniq = (\<lambda>_. True), tb_refs = order_refs_ok\<rparr>"

definition items_table :: "(pos_db, order_item) sql_table" where
  "items_table =
     \<lparr>tb_get = db_items, tb_put = (\<lambda>rs s. s\<lparr>db_items := rs\<rparr>), tb_tenant = itm_tenant,
      tb_key = itm_id, tb_row_ok = item_row_ok, tb_uniq = (\<lambda>_. True), tb_refs = item_refs_ok\<rparr>"

definition tables_table :: "(pos_db, dining_table) sql_table" where
  "tables_table =
     \<lparr>tb_get = db_tables, tb_put = (\<lambda>rs s. s\<lparr>db_tables := rs\<rparr>), tb_tenant = tbl_tenant,
      tb_key = tbl_id, tb_row_ok = table_row_ok, tb_uniq = (\<lambda>_. True), tb_refs = table_refs_ok\<rparr>"

definition zones_table :: "(pos_db, table_zone) sql_table" where
  "zones_table =
     \<lparr>tb_get = db_zones, tb_put = (\<lambda>rs s. s\<lparr>db_zones := rs\<rparr>), tb_tenant = zon_tenant,
      tb_key = zon_id, tb_row_ok = zone_row_ok, tb_uniq = (\<lambda>_. True), tb_refs = (\<lambda>_ _. True)\<rparr>"

definition settings_table :: "(pos_db, branch_settings) sql_table" where
  "settings_table =
     \<lparr>tb_get = db_settings, tb_put = (\<lambda>rs s. s\<lparr>db_settings := rs\<rparr>), tb_tenant = bst_tenant,
      tb_key = bst_branch, tb_row_ok = settings_row_ok, tb_uniq = (\<lambda>_. True),
      tb_refs = (\<lambda>_ _. True)\<rparr>"

definition outbox_table :: "(pos_db, outbox_row) sql_table" where
  "outbox_table =
     \<lparr>tb_get = db_outbox, tb_put = (\<lambda>rs s. s\<lparr>db_outbox := rs\<rparr>), tb_tenant = obx_tenant,
      tb_key = obx_id, tb_row_ok = (\<lambda>_. True), tb_uniq = (\<lambda>_. True), tb_refs = (\<lambda>_ _. True)\<rparr>"

lemmas pos_tables =
  checks_table_def orders_table_def items_table_def tables_table_def zones_table_def
  settings_table_def outbox_table_def

text \<open>The columns and constraints of each table, as rewrite rules.\<close>

lemma pos_table_fields [simp]:
  "tb_get checks_table = db_checks"
  "tb_put checks_table = (\<lambda>rs s. s\<lparr>db_checks := rs\<rparr>)"
  "tb_tenant checks_table = chk_tenant"
  "tb_key checks_table = chk_id"
  "tb_row_ok checks_table = check_row_ok"
  "tb_uniq checks_table = (\<lambda>rs. distinct (open_tables rs))"
  "tb_refs checks_table = check_refs_ok"
  "tb_get orders_table = db_orders"
  "tb_put orders_table = (\<lambda>rs s. s\<lparr>db_orders := rs\<rparr>)"
  "tb_tenant orders_table = ord_tenant"
  "tb_key orders_table = ord_id"
  "tb_row_ok orders_table = order_row_ok"
  "tb_uniq orders_table = (\<lambda>_. True)"
  "tb_refs orders_table = order_refs_ok"
  "tb_get items_table = db_items"
  "tb_put items_table = (\<lambda>rs s. s\<lparr>db_items := rs\<rparr>)"
  "tb_tenant items_table = itm_tenant"
  "tb_key items_table = itm_id"
  "tb_row_ok items_table = item_row_ok"
  "tb_uniq items_table = (\<lambda>_. True)"
  "tb_refs items_table = item_refs_ok"
  "tb_get tables_table = db_tables"
  "tb_put tables_table = (\<lambda>rs s. s\<lparr>db_tables := rs\<rparr>)"
  "tb_tenant tables_table = tbl_tenant"
  "tb_key tables_table = tbl_id"
  "tb_row_ok tables_table = table_row_ok"
  "tb_uniq tables_table = (\<lambda>_. True)"
  "tb_refs tables_table = table_refs_ok"
  "tb_get zones_table = db_zones"
  "tb_put zones_table = (\<lambda>rs s. s\<lparr>db_zones := rs\<rparr>)"
  "tb_tenant zones_table = zon_tenant"
  "tb_key zones_table = zon_id"
  "tb_row_ok zones_table = zone_row_ok"
  "tb_uniq zones_table = (\<lambda>_. True)"
  "tb_refs zones_table = (\<lambda>_ _. True)"
  "tb_get settings_table = db_settings"
  "tb_put settings_table = (\<lambda>rs s. s\<lparr>db_settings := rs\<rparr>)"
  "tb_tenant settings_table = bst_tenant"
  "tb_key settings_table = bst_branch"
  "tb_row_ok settings_table = settings_row_ok"
  "tb_uniq settings_table = (\<lambda>_. True)"
  "tb_refs settings_table = (\<lambda>_ _. True)"
  "tb_get outbox_table = db_outbox"
  "tb_put outbox_table = (\<lambda>rs s. s\<lparr>db_outbox := rs\<rparr>)"
  "tb_tenant outbox_table = obx_tenant"
  "tb_key outbox_table = obx_id"
  "tb_row_ok outbox_table = (\<lambda>_. True)"
  "tb_uniq outbox_table = (\<lambda>_. True)"
  "tb_refs outbox_table = (\<lambda>_ _. True)"
  by (simp_all add: pos_tables)

interpretation checks: sql_table_laws checks_table
  by unfold_locales
     (auto simp: pos_tables check_refs_ok_def split: option.splits
           dest!: arg_cong [where f = set])

interpretation orders: sql_table_laws orders_table
  by unfold_locales (auto simp: pos_tables order_refs_ok_def split: option.splits)

interpretation items: sql_table_laws items_table
  by unfold_locales (auto simp: pos_tables item_refs_ok_def)

interpretation tables: sql_table_laws tables_table
  by unfold_locales (auto simp: pos_tables table_refs_ok_def)

interpretation zones: sql_table_laws zones_table
  by unfold_locales (auto simp: pos_tables)

interpretation settings: sql_table_laws settings_table
  by unfold_locales (auto simp: pos_tables)

interpretation outbox: sql_table_laws outbox_table
  by unfold_locales (auto simp: pos_tables)

section \<open>Ids, events and transactions\<close>

definition gen_random_uuid :: "(pos_db, 'e, uuid) tx" where
  "gen_random_uuid s = Inr (db_rand s (db_ctr s), s\<lparr>db_ctr := Suc (db_ctr s)\<rparr>)"

text \<open>\<open>INSERT\<close> or \<open>UPDATE\<close> whose error has no sentinel of its own.\<close>

abbreviation pos_sql :: "(pos_db, pg_error, 'a) tx \<Rightarrow> (pos_db, pos_err, 'a) tx" where
  "pos_sql \<equiv> tx_map_err ErrDb"

definition InsertOutbox ::
  "pgtx \<Rightarrow> uuid \<Rightarrow> string \<Rightarrow> uuid \<Rightarrow> string \<Rightarrow> (string \<times> json) list \<Rightarrow> (pos_db, pos_err, unit) tx"
where
  "InsertOutbox tx tenantID aggregateType aggregateID eventType payload =
     tx_bind gen_random_uuid (\<lambda>i.
     tx_bind (pos_sql (sql_insert outbox_table tx
       \<lparr>obx_id = i, obx_tenant = tenantID, obx_aggregate = aggregateType,
        obx_agg_id = aggregateID, obx_type = eventType, obx_payload = payload\<rparr>)) (\<lambda>_.
     tx_return ()))"

text \<open>\<open>WithTenantTx\<close> and \<open>WithTenantReadTx\<close>. The read-only variant refuses
  writes; every function it is given here only reads.\<close>

definition WithTenantTx ::
  "ctx \<Rightarrow> uuid \<Rightarrow> (pgtx \<Rightarrow> (pos_db, pos_err, 'a) tx) \<Rightarrow> (pos_db, pos_err, 'a) tx" where
  "WithTenantTx c tenantID fn =
     (if tenantID = uuid_Nil then tx_throw ErrNilTenant
      else fn \<lparr>tx_tenant = tenantID, tx_now = ctx_now c\<rparr>)"

definition WithTenantReadTx ::
  "ctx \<Rightarrow> uuid \<Rightarrow> (pgtx \<Rightarrow> (pos_db, pos_err, 'a) tx) \<Rightarrow> (pos_db, pos_err, 'a) tx" where
  "WithTenantReadTx c tenantID fn =
     (if tenantID = uuid_Nil then tx_throw ErrNilTenant
      else fn \<lparr>tx_tenant = tenantID, tx_now = ctx_now c\<rparr>)"

lemma WithTenantTx_Inr:
  "WithTenantTx c tn fn s = Inr r \<longleftrightarrow>
   tn \<noteq> uuid_Nil \<and> fn \<lparr>tx_tenant = tn, tx_now = ctx_now c\<rparr> s = Inr r"
  by (simp add: WithTenantTx_def)

lemma gen_random_uuid_Inr:
  "gen_random_uuid s = Inr (i, s') \<longleftrightarrow> i = db_rand s (db_ctr s) \<and> s' = s\<lparr>db_ctr := Suc (db_ctr s)\<rparr>"
  by (auto simp: gen_random_uuid_def)

text \<open>The event written last.\<close>

definition outbox_event ::
  "uuid \<Rightarrow> uuid \<Rightarrow> string \<Rightarrow> uuid \<Rightarrow> string \<Rightarrow> (string \<times> json) list \<Rightarrow> outbox_row" where
  "outbox_event i tn agg aid typ payload =
     \<lparr>obx_id = i, obx_tenant = tn, obx_aggregate = agg, obx_agg_id = aid, obx_type = typ,
      obx_payload = payload\<rparr>"

lemma InsertOutbox_Inr:
  "InsertOutbox tx tn agg aid typ payload s = Inr (u, s') \<longleftrightarrow>
     tn = tx_tenant tx \<and> db_rand s (db_ctr s) \<notin> obx_id ` set (db_outbox s) \<and>
     s' = s\<lparr>db_ctr := Suc (db_ctr s),
            db_outbox := db_outbox s @ [outbox_event (db_rand s (db_ctr s)) tn agg aid typ payload]\<rparr>"
  by (auto simp: InsertOutbox_def tx_inv gen_random_uuid_Inr outbox.insert_Inr outbox_event_def)

end
