(* ===== verification/Pos_Check_Repo.thy ===== *)
theory Pos_Check_Repo
  imports Pos_State
begin

text \<open>
  pos/repo/check_repo.go: the statements against \<open>checks\<close> and the bill total.
  \<open>SELECT ... FOR UPDATE\<close> returns what the plain \<open>SELECT\<close> does; the row lock is
  what makes a whole transaction one step for the others, and the model runs
  transactions one after the other.
\<close>

definition zero_check :: check where
  "zero_check =
     \<lparr>chk_id = uuid_Nil, chk_table = None, chk_tenant = uuid_Nil, chk_branch = uuid_Nil,
      chk_label = '''', chk_pax = 0, chk_status = CheckStatusOther '''',
      chk_service = ServiceTypeOther '''', chk_cust_name = '''', chk_cust_phone = '''',
      chk_cust_address = '''', chk_opened_by = None, chk_opened_kind = OpenedByKindOther '''',
      chk_source = SourceOther '''', chk_closed_by = None, chk_merged_into = None,
      chk_note = '''', chk_opened_at = 0, chk_closed_at = None, chk_created = 0,
      chk_updated = 0\<rparr>"

text \<open>The row \<open>Create\<close> inserts: the listed columns, with the three defaults it
  fills in for empty strings, and the column defaults for the rest.\<close>

definition check_insert_row :: "pgtx \<Rightarrow> uuid \<Rightarrow> check \<Rightarrow> check" where
  "check_insert_row tx i c =
     c\<lparr>chk_id := i,
       chk_opened_kind := (if chk_opened_kind c = OpenedByKindOther '''' then OpenedByKindStaff
                           else chk_opened_kind c),
       chk_source := (if chk_source c = SourceOther '''' then SourcePOS else chk_source c),
       chk_service := (if chk_service c = ServiceTypeOther '''' then ServiceTypeDineIn
                       else chk_service c),
       chk_closed_by := None, chk_merged_into := None, chk_closed_at := None,
       chk_opened_at := tx_now tx, chk_created := tx_now tx, chk_updated := tx_now tx\<rparr>"

fun check_create_err :: "pg_error \<Rightarrow> pos_err" where
  "check_create_err UniqueViolation = RepoTableOccupied"
| "check_create_err e = ErrDb e"

definition CheckRepo_Create :: "pgtx \<Rightarrow> check \<Rightarrow> (pos_db, pos_err, check) tx" where
  "CheckRepo_Create tx c =
     (let kind = (if chk_opened_kind c = OpenedByKindOther '''' then OpenedByKindStaff
                  else chk_opened_kind c)
      in tx_bind (tx_require (\<not> ((kind = OpenedByKindStaff) \<noteq> (chk_opened_by c \<noteq> None)))
           RepoOpenedByKindMismatch) (\<lambda>_.
         tx_bind gen_random_uuid (\<lambda>i.
         tx_map_err check_create_err (sql_insert checks_table tx (check_insert_row tx i c)))))"

definition CheckRepo_GetByID :: "pgtx \<Rightarrow> uuid \<Rightarrow> (pos_db, pos_err, check) tx" where
  "CheckRepo_GetByID tx i =
     tx_bind (sql_find checks_table tx (\<lambda>c. chk_id c = i)) (\<lambda>r.
     found_row RepoNotFound r)"

text \<open>A map with the visible ids as keys; no query runs for an empty list.\<close>

definition CheckRepo_TableLabelsByCheckIDs ::
  "pgtx \<Rightarrow> uuid list \<Rightarrow> (pos_db, pos_err, uuid \<rightharpoonup> string) tx" where
  "CheckRepo_TableLabelsByCheckIDs tx checkIDs =
     (if checkIDs = [] then tx_return Map.empty
      else tx_bind (sql_select checks_table tx (\<lambda>c. chk_id c \<in> set checkIDs)) (\<lambda>rows.
           tx_return (map_of (map (\<lambda>c. (chk_id c, chk_label c)) rows))))"

definition CheckRepo_GetForUpdate :: "pgtx \<Rightarrow> uuid \<Rightarrow> (pos_db, pos_err, check) tx" where
  "CheckRepo_GetForUpdate tx i =
     tx_bind (sql_find checks_table tx (\<lambda>c. chk_id c = i)) (\<lambda>r.
     found_row RepoNotFound r)"

definition CheckRepo_GetOpenByTableForUpdate :: "pgtx \<Rightarrow> uuid \<Rightarrow> (pos_db, pos_err, check) tx" where
  "CheckRepo_GetOpenByTableForUpdate tx tableID =
     tx_bind (sql_find checks_table tx
       (\<lambda>c. chk_table c = Some tableID \<and> chk_status c = CheckStatusOpen)) (\<lambda>r.
     found_row RepoNotFound r)"

record check_filter =
  flt_status :: "check_status option"
  flt_branch :: "uuid option"
  flt_service :: "service_type option"

text \<open>\<open>ORDER BY CASE status WHEN 'open' THEN 0 ELSE 1 END, opened_at DESC\<close>, as
  two stable sorts.\<close>

definition CheckRepo_List :: "pgtx \<Rightarrow> check_filter \<Rightarrow> (pos_db, pos_err, check list) tx" where
  "CheckRepo_List tx flt =
     tx_bind (sql_select checks_table tx (\<lambda>c.
        (flt_status flt = None \<or> flt_status flt = Some (chk_status c)) \<and>
        (flt_branch flt = None \<or> flt_branch flt = Some (chk_branch c)) \<and>
        (flt_service flt = None \<or> flt_service flt = Some (chk_service c)))) (\<lambda>rows.
     tx_return (sort_key (\<lambda>c. if chk_status c = CheckStatusOpen then 0 else 1 :: nat)
                 (sort_key (\<lambda>c. - chk_opened_at c) rows)))"

text \<open>The rows of \<open>orders JOIN order_items\<close> that count towards a check: one
  amount \<open>quantity * unit_price_amount\<close> per line of an order that is neither
  rejected nor cancelled.\<close>

definition billed_orders :: "pgtx \<Rightarrow> pos_db \<Rightarrow> uuid \<Rightarrow> order list" where
  "billed_orders tx s checkID =
     rls_select ord_tenant tx
       (\<lambda>r. ord_check r = Some checkID \<and> ord_status r \<notin> set InactiveOrderStatuses) (db_orders s)"

definition line_amount :: "order_item \<Rightarrow> int" where
  "line_amount it = itm_qty it * itm_unit_price it"

definition bill_lines :: "pgtx \<Rightarrow> pos_db \<Rightarrow> uuid \<Rightarrow> int list" where
  "bill_lines tx s checkID =
     concat (map (\<lambda>r. map line_amount
        (rls_select itm_tenant tx (\<lambda>it. itm_order it = ord_id r) (db_items s)))
        (billed_orders tx s checkID))"

text \<open>\<open>quantity * unit_price_amount\<close> is a \<open>bigint\<close> and fails outside its range;
  the \<open>SUM\<close> is a \<open>numeric\<close> that \<open>Scan\<close> reads into an \<open>int64\<close>. A check with no
  such line has no group and no key.\<close>

definition CheckRepo_TotalsByCheckIDs ::
  "pgtx \<Rightarrow> uuid list \<Rightarrow> (pos_db, pos_err, uuid \<rightharpoonup> int) tx" where
  "CheckRepo_TotalsByCheckIDs tx checkIDs =
     (if checkIDs = [] then tx_return Map.empty
      else tx_bind (tx_read (\<lambda>s. s)) (\<lambda>s.
           tx_bind (tx_require (\<forall>i \<in> set checkIDs. list_all int64_range (bill_lines tx s i))
             (ErrDb OutOfRange)) (\<lambda>_.
           tx_bind (tx_require (\<forall>i \<in> set checkIDs. int64_range (sum_list (bill_lines tx s i)))
             (ErrOther ''totals by check ids scan'')) (\<lambda>_.
           tx_return (\<lambda>i. if i \<in> set checkIDs \<and> bill_lines tx s i \<noteq> []
                          then Some (sum_list (bill_lines tx s i)) else None)))))"

text \<open>A missing key of a Go map reads as zero.\<close>

definition CheckRepo_GetTotal :: "pgtx \<Rightarrow> uuid \<Rightarrow> (pos_db, pos_err, int) tx" where
  "CheckRepo_GetTotal tx checkID =
     tx_bind (CheckRepo_TotalsByCheckIDs tx [checkID]) (\<lambda>totals.
     tx_return (case totals checkID of None \<Rightarrow> 0 | Some t \<Rightarrow> t))"

definition CheckRepo_UpdateStatus ::
  "pgtx \<Rightarrow> uuid \<Rightarrow> check_status \<Rightarrow> check_status \<Rightarrow> uuid option \<Rightarrow> (pos_db, pos_err, check) tx" where
  "CheckRepo_UpdateStatus tx i status expectedStatus closedBy =
     (case TransitionCheckStatus expectedStatus status of
        Inl _ \<Rightarrow> tx_throw RepoInvalidTransition
      | Inr _ \<Rightarrow>
          tx_bind (pos_sql (sql_update checks_table tx
            (\<lambda>c. chk_id c = i \<and> chk_status c = expectedStatus)
            (\<lambda>c. c\<lparr>chk_status := status, chk_closed_by := closedBy,
                   chk_closed_at :=
                     (if status = CheckStatusClosed \<or> status = CheckStatusCancelled
                      then Some (tx_now tx) else chk_closed_at c),
                   chk_updated := tx_now tx\<rparr>))) (\<lambda>rows.
          query_row RepoInvalidTransition rows))"

definition CheckRepo_RaisePax :: "pgtx \<Rightarrow> uuid \<Rightarrow> int \<Rightarrow> (pos_db, pos_err, unit) tx" where
  "CheckRepo_RaisePax tx i pax =
     tx_bind (pos_sql (sql_update checks_table tx (\<lambda>c. chk_id c = i)
       (\<lambda>c. c\<lparr>chk_pax := max (chk_pax c) pax, chk_updated := tx_now tx\<rparr>))) (\<lambda>_.
     tx_return ())"

definition CheckRepo_UpdateTable ::
  "pgtx \<Rightarrow> uuid \<Rightarrow> uuid option \<Rightarrow> string \<Rightarrow> check_status \<Rightarrow> (pos_db, pos_err, check) tx" where
  "CheckRepo_UpdateTable tx i tableID tableLabel expectedStatus =
     tx_bind (tx_map_err check_create_err (sql_update checks_table tx
       (\<lambda>c. chk_id c = i \<and> chk_status c = expectedStatus)
       (\<lambda>c. c\<lparr>chk_table := tableID, chk_label := tableLabel, chk_updated := tx_now tx\<rparr>))) (\<lambda>rows.
     query_row RepoInvalidTransition rows)"

definition CheckRepo_MarkMerged ::
  "pgtx \<Rightarrow> uuid \<Rightarrow> uuid \<Rightarrow> check_status \<Rightarrow> (pos_db, pos_err, check) tx" where
  "CheckRepo_MarkMerged tx i targetCheckID expectedStatus =
     (case TransitionCheckStatus expectedStatus CheckStatusMerged of
        Inl _ \<Rightarrow> tx_throw RepoInvalidTransition
      | Inr _ \<Rightarrow>
          tx_bind (pos_sql (sql_update checks_table tx
            (\<lambda>c. chk_id c = i \<and> chk_status c = expectedStatus)
            (\<lambda>c. c\<lparr>chk_status := CheckStatusMerged, chk_merged_into := Some targetCheckID,
                   chk_updated := tx_now tx\<rparr>))) (\<lambda>rows.
          query_row RepoInvalidTransition rows))"

section \<open>What the reads return\<close>

lemma CheckRepo_GetForUpdate_Inr:
  "CheckRepo_GetForUpdate tx i s = Inr (c, s') \<longleftrightarrow>
   s' = s \<and> rls_find chk_tenant tx (\<lambda>c. chk_id c = i) (db_checks s) = Some c"
  by (auto simp: CheckRepo_GetForUpdate_def tx_inv row_inv)

lemma CheckRepo_GetByID_Inr:
  "CheckRepo_GetByID tx i s = Inr (c, s') \<longleftrightarrow>
   s' = s \<and> rls_find chk_tenant tx (\<lambda>c. chk_id c = i) (db_checks s) = Some c"
  by (auto simp: CheckRepo_GetByID_def tx_inv row_inv)

lemma CheckRepo_GetForUpdate_Inl:
  "CheckRepo_GetForUpdate tx i s = Inl e \<longleftrightarrow>
   rls_find chk_tenant tx (\<lambda>c. chk_id c = i) (db_checks s) = None \<and> e = RepoNotFound"
  by (auto simp: CheckRepo_GetForUpdate_def tx_bind_Inl found_row_Inl)

lemma CheckRepo_GetOpenByTable_Inr:
  "CheckRepo_GetOpenByTableForUpdate tx t s = Inr (c, s') \<longleftrightarrow>
   s' = s \<and> rls_find chk_tenant tx
     (\<lambda>c. chk_table c = Some t \<and> chk_status c = CheckStatusOpen) (db_checks s) = Some c"
  by (auto simp: CheckRepo_GetOpenByTableForUpdate_def tx_inv row_inv)

lemma CheckRepo_GetOpenByTable_Inl:
  "CheckRepo_GetOpenByTableForUpdate tx t s = Inl e \<longleftrightarrow>
   rls_find chk_tenant tx
     (\<lambda>c. chk_table c = Some t \<and> chk_status c = CheckStatusOpen) (db_checks s) = None \<and>
   e = RepoNotFound"
  by (auto simp: CheckRepo_GetOpenByTableForUpdate_def tx_bind_Inl found_row_Inl)

section \<open>The bill total\<close>

definition check_total :: "pgtx \<Rightarrow> pos_db \<Rightarrow> uuid \<Rightarrow> int" where
  "check_total tx s checkID = sum_list (bill_lines tx s checkID)"

definition total_in_range :: "pgtx \<Rightarrow> pos_db \<Rightarrow> uuid \<Rightarrow> bool" where
  "total_in_range tx s checkID \<longleftrightarrow>
     list_all int64_range (bill_lines tx s checkID) \<and> int64_range (check_total tx s checkID)"

lemma CheckRepo_GetTotal_Inr:
  "CheckRepo_GetTotal tx i s = Inr (t, s') \<longleftrightarrow>
   s' = s \<and> total_in_range tx s i \<and> t = check_total tx s i"
  by (auto simp: CheckRepo_GetTotal_def CheckRepo_TotalsByCheckIDs_def tx_inv total_in_range_def
      check_total_def)

lemma CheckRepo_GetTotal_keeps:
  "CheckRepo_GetTotal tx i s = Inl e \<longleftrightarrow>
   \<not> total_in_range tx s i \<and>
   e = (if list_all int64_range (bill_lines tx s i) then ErrOther ''totals by check ids scan''
        else ErrDb OutOfRange)"
  by (auto simp: CheckRepo_GetTotal_def CheckRepo_TotalsByCheckIDs_def tx_bind_Inl tx_inv
      tx_require_Inl total_in_range_def check_total_def)

text \<open>The total is the sum over the orders of the check of what each order is
  worth: the form in which moves between checks are analysed.\<close>

definition order_worth :: "pgtx \<Rightarrow> pos_db \<Rightarrow> uuid \<Rightarrow> int" where
  "order_worth tx s oid =
     (\<Sum>it \<leftarrow> rls_select itm_tenant tx (\<lambda>it. itm_order it = oid) (db_items s). line_amount it)"

lemma check_total_orders:
  "check_total tx s i = (\<Sum>r \<leftarrow> billed_orders tx s i. order_worth tx s (ord_id r))"
proof -
  have "sum_list (concat (map (\<lambda>r. map line_amount
          (rls_select itm_tenant tx (\<lambda>it. itm_order it = ord_id r) (db_items s))) rs)) =
        (\<Sum>r \<leftarrow> rs. order_worth tx s (ord_id r))" for rs
    by (induction rs) (simp_all add: order_worth_def)
  then show ?thesis by (simp add: check_total_def bill_lines_def)
qed

lemma check_total_cong:
  "db_orders s' = db_orders s \<Longrightarrow> db_items s' = db_items s \<Longrightarrow>
   check_total tx s' i = check_total tx s i"
  by (simp add: check_total_def bill_lines_def billed_orders_def)

lemma total_in_range_cong:
  "db_orders s' = db_orders s \<Longrightarrow> db_items s' = db_items s \<Longrightarrow>
   total_in_range tx s' i = total_in_range tx s i"
  by (simp add: total_in_range_def check_total_def bill_lines_def billed_orders_def)

end
