(* ===== verification/Pos_Order_Repo.thy ===== *)
theory Pos_Order_Repo
  imports Pos_Check_Repo
begin

text \<open>
  pos/repo/order_repo.go: the statements against \<open>orders\<close> and \<open>order_items\<close>. An
  order row is stored without its items, which are rows of their own.
\<close>

definition zero_order :: order where
  "zero_order =
     \<lparr>ord_id = uuid_Nil, ord_tenant = uuid_Nil, ord_branch = uuid_Nil, ord_check = None,
      ord_channel = OrderChannelOther '''', ord_source = SourceOther '''', ord_integrator = None,
      ord_status = OrderStatusOther '''', ord_deadline = None, ord_accepted_at = None,
      ord_accepted_by = None, ord_rejected_at = None, ord_rejected_by = None, ord_reason = '''',
      ord_note = '''', ord_items = [], ord_created = 0, ord_updated = 0\<rparr>"

definition order_insert_row :: "pgtx \<Rightarrow> uuid \<Rightarrow> order \<Rightarrow> order" where
  "order_insert_row tx i r =
     r\<lparr>ord_id := i,
       ord_source := (if ord_source r = SourceOther '''' then SourcePOS else ord_source r),
       ord_rejected_at := None, ord_rejected_by := None, ord_reason := '''', ord_items := [],
       ord_created := tx_now tx, ord_updated := tx_now tx\<rparr>"

definition item_insert_row :: "pgtx \<Rightarrow> uuid \<Rightarrow> uuid \<Rightarrow> uuid \<Rightarrow> order_item \<Rightarrow> order_item" where
  "item_insert_row tx i tenantID orderID it =
     it\<lparr>itm_id := i, itm_tenant := tenantID, itm_order := orderID, itm_created := tx_now tx\<rparr>"

definition OrderRepo_insertItems ::
  "pgtx \<Rightarrow> uuid \<Rightarrow> uuid \<Rightarrow> order_item list \<Rightarrow> (pos_db, pos_err, order_item list) tx" where
  "OrderRepo_insertItems tx orderID tenantID items =
     tx_map (\<lambda>it. tx_bind gen_random_uuid (\<lambda>i.
       pos_sql (sql_insert items_table tx (item_insert_row tx i tenantID orderID it)))) items"

definition OrderRepo_Create :: "pgtx \<Rightarrow> order \<Rightarrow> (pos_db, pos_err, order) tx" where
  "OrderRepo_Create tx r =
     tx_bind gen_random_uuid (\<lambda>i.
     tx_bind (pos_sql (sql_insert orders_table tx (order_insert_row tx i r))) (\<lambda>created.
     tx_bind (OrderRepo_insertItems tx (ord_id created) (ord_tenant created) (ord_items r)) (\<lambda>its.
     tx_return (created\<lparr>ord_items := its\<rparr>))))"

definition OrderRepo_loadItems :: "pgtx \<Rightarrow> uuid \<Rightarrow> (pos_db, pos_err, order_item list) tx" where
  "OrderRepo_loadItems tx orderID =
     tx_bind (sql_select items_table tx (\<lambda>it. itm_order it = orderID)) (\<lambda>rows.
     tx_return (sort_key itm_created rows))"

definition OrderRepo_withItems :: "pgtx \<Rightarrow> order \<Rightarrow> (pos_db, pos_err, order) tx" where
  "OrderRepo_withItems tx r =
     tx_bind (OrderRepo_loadItems tx (ord_id r)) (\<lambda>its. tx_return (r\<lparr>ord_items := its\<rparr>))"

definition OrderRepo_GetHeader :: "pgtx \<Rightarrow> uuid \<Rightarrow> (pos_db, pos_err, order) tx" where
  "OrderRepo_GetHeader tx i =
     tx_bind (sql_find orders_table tx (\<lambda>r. ord_id r = i)) (\<lambda>r.
     found_row RepoNotFound r)"

definition OrderRepo_GetForUpdate :: "pgtx \<Rightarrow> uuid \<Rightarrow> (pos_db, pos_err, order) tx" where
  "OrderRepo_GetForUpdate tx i =
     tx_bind (sql_find orders_table tx (\<lambda>r. ord_id r = i)) (\<lambda>r.
     found_row RepoNotFound r)"

definition OrderRepo_GetByID :: "pgtx \<Rightarrow> uuid \<Rightarrow> (pos_db, pos_err, order) tx" where
  "OrderRepo_GetByID tx i =
     tx_bind (sql_find orders_table tx (\<lambda>r. ord_id r = i)) (\<lambda>r.
     case r of None \<Rightarrow> tx_throw RepoNotFound
     | Some r \<Rightarrow> tx_bind (OrderRepo_loadItems tx (ord_id r)) (\<lambda>its.
                tx_return (r\<lparr>ord_items := its\<rparr>)))"

text \<open>One query for the orders, one for all their items: each order gets the
  group of its id, in the order of creation.\<close>

definition OrderRepo_itemsByOrderIDs ::
  "pgtx \<Rightarrow> uuid list \<Rightarrow> (pos_db, pos_err, uuid \<Rightarrow> order_item list) tx" where
  "OrderRepo_itemsByOrderIDs tx orderIDs =
     (if orderIDs = [] then tx_return (\<lambda>_. [])
      else tx_bind (sql_select items_table tx (\<lambda>it. itm_order it \<in> set orderIDs)) (\<lambda>rows.
           tx_return (\<lambda>i. filter (\<lambda>it. itm_order it = i)
                            (sort_key itm_order (sort_key itm_created rows)))))"

definition OrderRepo_ListByIDs :: "pgtx \<Rightarrow> uuid list \<Rightarrow> (pos_db, pos_err, order list) tx" where
  "OrderRepo_ListByIDs tx orderIDs =
     (if orderIDs = [] then tx_return []
      else tx_bind (sql_select orders_table tx (\<lambda>r. ord_id r \<in> set orderIDs)) (\<lambda>rows.
           let found = sort_key ord_created rows
           in if found = [] then tx_return []
              else tx_bind (OrderRepo_itemsByOrderIDs tx (map ord_id found)) (\<lambda>byOrder.
                   tx_return (map (\<lambda>r. r\<lparr>ord_items := byOrder (ord_id r)\<rparr>) found))))"

definition OrderRepo_ListByCheck :: "pgtx \<Rightarrow> uuid \<Rightarrow> (pos_db, pos_err, order list) tx" where
  "OrderRepo_ListByCheck tx checkID =
     tx_bind (sql_select orders_table tx (\<lambda>r. ord_check r = Some checkID)) (\<lambda>rows.
     tx_map (\<lambda>r. OrderRepo_withItems tx r) (sort_key ord_created rows))"

definition OrderRepo_ListActiveByBranch :: "pgtx \<Rightarrow> uuid \<Rightarrow> (pos_db, pos_err, order list) tx" where
  "OrderRepo_ListActiveByBranch tx branchID =
     tx_bind (sql_select orders_table tx
       (\<lambda>r. ord_branch r = branchID \<and> ord_status r \<in> set KitchenActiveOrderStatuses)) (\<lambda>rows.
     tx_return (sort_key ord_created rows))"

definition OrderRepo_Accept ::
  "pgtx \<Rightarrow> uuid \<Rightarrow> uuid \<Rightarrow> order_status \<Rightarrow> (pos_db, pos_err, order) tx" where
  "OrderRepo_Accept tx i acceptedBy expectedStatus =
     tx_bind (pos_sql (sql_update orders_table tx
       (\<lambda>r. ord_id r = i \<and> ord_status r = expectedStatus)
       (\<lambda>r. r\<lparr>ord_status := OrderStatusAccepted, ord_accepted_at := Some (tx_now tx),
              ord_accepted_by := Some acceptedBy, ord_updated := tx_now tx\<rparr>))) (\<lambda>rows.
     tx_bind (query_row RepoInvalidTransition rows) (\<lambda>r. OrderRepo_withItems tx r))"

definition OrderRepo_Reject ::
  "pgtx \<Rightarrow> uuid \<Rightarrow> uuid \<Rightarrow> string \<Rightarrow> order_status \<Rightarrow> (pos_db, pos_err, order) tx" where
  "OrderRepo_Reject tx i rejectedBy reason expectedStatus =
     tx_bind (pos_sql (sql_update orders_table tx
       (\<lambda>r. ord_id r = i \<and> ord_status r = expectedStatus)
       (\<lambda>r. r\<lparr>ord_status := OrderStatusRejected, ord_rejected_at := Some (tx_now tx),
              ord_rejected_by := Some rejectedBy, ord_reason := reason,
              ord_updated := tx_now tx\<rparr>))) (\<lambda>rows.
     tx_bind (query_row RepoInvalidTransition rows) (\<lambda>r. OrderRepo_withItems tx r))"

definition OrderRepo_AdvanceStatus ::
  "pgtx \<Rightarrow> uuid \<Rightarrow> order_status \<Rightarrow> order_status \<Rightarrow> (pos_db, pos_err, order) tx" where
  "OrderRepo_AdvanceStatus tx i status expectedStatus =
     tx_bind (pos_sql (sql_update orders_table tx
       (\<lambda>r. ord_id r = i \<and> ord_status r = expectedStatus)
       (\<lambda>r. r\<lparr>ord_status := status, ord_updated := tx_now tx\<rparr>))) (\<lambda>rows.
     tx_bind (query_row RepoInvalidTransition rows) (\<lambda>r. OrderRepo_withItems tx r))"

definition OrderRepo_CancelActiveByCheck :: "pgtx \<Rightarrow> uuid \<Rightarrow> (pos_db, pos_err, uuid list) tx" where
  "OrderRepo_CancelActiveByCheck tx checkID =
     tx_bind (pos_sql (sql_update orders_table tx
       (\<lambda>r. ord_check r = Some checkID \<and> ord_status r \<in> set KitchenActiveOrderStatuses)
       (\<lambda>r. r\<lparr>ord_status := OrderStatusCancelled, ord_updated := tx_now tx\<rparr>))) (\<lambda>rows.
     tx_return (map ord_id rows))"

definition OrderRepo_DeliverActiveByCheck :: "pgtx \<Rightarrow> uuid \<Rightarrow> (pos_db, pos_err, uuid list) tx" where
  "OrderRepo_DeliverActiveByCheck tx checkID =
     tx_bind (pos_sql (sql_update orders_table tx
       (\<lambda>r. ord_check r = Some checkID \<and> ord_status r \<in> set KitchenActiveOrderStatuses)
       (\<lambda>r. r\<lparr>ord_status := OrderStatusDelivered, ord_updated := tx_now tx\<rparr>))) (\<lambda>rows.
     tx_return (map ord_id rows))"

definition OrderRepo_ReassignToCheck ::
  "pgtx \<Rightarrow> uuid \<Rightarrow> uuid \<Rightarrow> (pos_db, pos_err, uuid list) tx" where
  "OrderRepo_ReassignToCheck tx sourceCheckID targetCheckID =
     tx_bind (pos_sql (sql_update orders_table tx (\<lambda>r. ord_check r = Some sourceCheckID)
       (\<lambda>r. r\<lparr>ord_check := Some targetCheckID, ord_updated := tx_now tx\<rparr>))) (\<lambda>rows.
     tx_return (map ord_id rows))"

record item_owner =
  own_item :: uuid
  own_order :: uuid
  own_check :: "uuid option"
  own_status :: order_status
  own_qty :: int
  own_unit_price :: int

definition item_owner_rows :: "pgtx \<Rightarrow> uuid list \<Rightarrow> pos_db \<Rightarrow> item_owner list" where
  "item_owner_rows tx itemIDs s =
     concat (map (\<lambda>it. map (\<lambda>r.
         \<lparr>own_item = itm_id it, own_order = itm_order it, own_check = ord_check r,
          own_status = ord_status r, own_qty = itm_qty it, own_unit_price = itm_unit_price it\<rparr>)
       (rls_select ord_tenant tx (\<lambda>r. ord_id r = itm_order it) (db_orders s)))
       (sort_key itm_id (rls_select itm_tenant tx (\<lambda>it. itm_id it \<in> set itemIDs) (db_items s))))"

definition OrderRepo_ItemOwners :: "pgtx \<Rightarrow> uuid list \<Rightarrow> (pos_db, pos_err, item_owner list) tx" where
  "OrderRepo_ItemOwners tx itemIDs =
     (if itemIDs = [] then tx_return [] else tx_read (item_owner_rows tx itemIDs))"

definition OrderRepo_MoveItemsToOrder ::
  "pgtx \<Rightarrow> uuid list \<Rightarrow> uuid \<Rightarrow> (pos_db, pos_err, nat) tx" where
  "OrderRepo_MoveItemsToOrder tx itemIDs targetOrderID =
     (if itemIDs = [] then tx_return 0
      else tx_bind (pos_sql (sql_update items_table tx (\<lambda>it. itm_id it \<in> set itemIDs)
             (\<lambda>it. it\<lparr>itm_order := targetOrderID\<rparr>))) (\<lambda>rows.
           tx_return (length rows)))"

definition OrderRepo_EmptyOrderIDs :: "pgtx \<Rightarrow> uuid list \<Rightarrow> (pos_db, pos_err, uuid list) tx" where
  "OrderRepo_EmptyOrderIDs tx orderIDs =
     (if orderIDs = [] then tx_return []
      else tx_read (\<lambda>s. map ord_id (rls_select ord_tenant tx
             (\<lambda>r. ord_id r \<in> set orderIDs \<and>
                  rls_select itm_tenant tx (\<lambda>it. itm_order it = ord_id r) (db_items s) = [])
             (db_orders s))))"

definition OrderRepo_CancelByIDs :: "pgtx \<Rightarrow> uuid list \<Rightarrow> (pos_db, pos_err, uuid list) tx" where
  "OrderRepo_CancelByIDs tx orderIDs =
     (if orderIDs = [] then tx_return []
      else tx_bind (pos_sql (sql_update orders_table tx
             (\<lambda>r. ord_id r \<in> set orderIDs \<and> ord_status r \<in> set KitchenActiveOrderStatuses)
             (\<lambda>r. r\<lparr>ord_status := OrderStatusCancelled, ord_updated := tx_now tx\<rparr>))) (\<lambda>rows.
           tx_return (map ord_id rows)))"

section \<open>What the reads return\<close>

lemma OrderRepo_loadItems_eval [simp]:
  "OrderRepo_loadItems tx i s =
   Inr (sort_key itm_created (rls_select itm_tenant tx (\<lambda>it. itm_order it = i) (db_items s)), s)"
  by (simp add: OrderRepo_loadItems_def tx_bind_def)

lemma OrderRepo_withItems_Inr:
  "OrderRepo_withItems tx r s = Inr (r', s') \<longleftrightarrow>
   s' = s \<and> r' = r\<lparr>ord_items := sort_key itm_created
     (rls_select itm_tenant tx (\<lambda>it. itm_order it = ord_id r) (db_items s))\<rparr>"
  by (auto simp: OrderRepo_withItems_def tx_bind_def)

lemma OrderRepo_GetHeader_Inr:
  "OrderRepo_GetHeader tx i s = Inr (r, s') \<longleftrightarrow>
   s' = s \<and> rls_find ord_tenant tx (\<lambda>r. ord_id r = i) (db_orders s) = Some r"
  by (auto simp: OrderRepo_GetHeader_def tx_inv row_inv)

lemma OrderRepo_GetForUpdate_Inr:
  "OrderRepo_GetForUpdate tx i s = Inr (r, s') \<longleftrightarrow>
   s' = s \<and> rls_find ord_tenant tx (\<lambda>r. ord_id r = i) (db_orders s) = Some r"
  by (auto simp: OrderRepo_GetForUpdate_def tx_inv row_inv)

text \<open>The items of one order in the grouped read are those of the single read.\<close>

lemma filter_sort_key_same:
  "filter (\<lambda>x. g x = i) (sort_key g xs) = filter (\<lambda>x. g x = i) xs"
  using sort_key_stable [of g i xs] by (simp add: eq_commute)

lemma itemsByOrderIDs_loadItems:
  assumes "i \<in> set ids"
    and "OrderRepo_itemsByOrderIDs tx ids s = Inr (byOrder, s1)"
    and "OrderRepo_loadItems tx i s = Inr (its, s2)"
  shows "byOrder i = its"
proof -
  let ?all = "rls_select itm_tenant tx (\<lambda>it. itm_order it \<in> set ids) (db_items s)"
  have "byOrder i = filter (\<lambda>it. itm_order it = i) (sort_key itm_created ?all)"
    using assms(1,2)
    by (auto simp: OrderRepo_itemsByOrderIDs_def tx_inv filter_sort_key_same split: if_splits)
  also have "\<dots> = sort_key itm_created (filter (\<lambda>it. itm_order it = i) ?all)"
    by (simp add: filter_sort)
  also have "filter (\<lambda>it. itm_order it = i) ?all =
             rls_select itm_tenant tx (\<lambda>it. itm_order it = i) (db_items s)"
    using assms(1) by (auto simp: rls_select_def intro!: filter_cong)
  finally show ?thesis using assms(3) by auto
qed

end
