(* ===== verification/Pos_Table_Repo.thy ===== *)
theory Pos_Table_Repo
  imports Pos_State
begin

text \<open>
  pos/repo/table_repo.go and pos/repo/branch_settings_repo.go: zones, tables and
  the settings row of a branch.
\<close>

section \<open>Zones\<close>

definition TableRepo_CreateZone :: "pgtx \<Rightarrow> table_zone \<Rightarrow> (pos_db, pos_err, table_zone) tx" where
  "TableRepo_CreateZone tx z =
     tx_bind gen_random_uuid (\<lambda>i.
     pos_sql (sql_insert zones_table tx
       (z\<lparr>zon_id := i, zon_created := tx_now tx, zon_updated := tx_now tx\<rparr>)))"

definition TableRepo_GetZoneByID :: "pgtx \<Rightarrow> uuid \<Rightarrow> (pos_db, pos_err, table_zone) tx" where
  "TableRepo_GetZoneByID tx i =
     tx_bind (sql_find zones_table tx (\<lambda>z. zon_id z = i)) (\<lambda>r.
     found_row RepoNotFound r)"

text \<open>\<open>ORDER BY is_active DESC, floor, name\<close>.\<close>

definition zone_before :: "table_zone \<Rightarrow> table_zone \<Rightarrow> bool" where
  "zone_before a b \<longleftrightarrow>
     (if zon_active a \<noteq> zon_active b then zon_active a
      else if zon_floor a \<noteq> zon_floor b then zon_floor a < zon_floor b
      else string_less (zon_name a) (zon_name b))"

definition TableRepo_ListZonesByBranch :: "pgtx \<Rightarrow> uuid \<Rightarrow> (pos_db, pos_err, table_zone list) tx" where
  "TableRepo_ListZonesByBranch tx branchID =
     tx_bind (sql_select zones_table tx (\<lambda>z. zon_branch z = branchID)) (\<lambda>rows.
     tx_return (sort_by zone_before rows))"

definition TableRepo_UpdateZone :: "pgtx \<Rightarrow> table_zone \<Rightarrow> (pos_db, pos_err, table_zone) tx" where
  "TableRepo_UpdateZone tx z =
     tx_bind (pos_sql (sql_update zones_table tx (\<lambda>r. zon_id r = zon_id z)
       (\<lambda>r. r\<lparr>zon_name := zon_name z, zon_floor := zon_floor z, zon_active := zon_active z,
              zon_updated := tx_now tx\<rparr>))) (\<lambda>rows.
     query_row RepoNotFound rows)"

section \<open>Tables\<close>

definition TableRepo_CreateTable :: "pgtx \<Rightarrow> dining_table \<Rightarrow> (pos_db, pos_err, dining_table) tx" where
  "TableRepo_CreateTable tx t =
     tx_bind gen_random_uuid (\<lambda>i.
     pos_sql (sql_insert tables_table tx
       (t\<lparr>tbl_id := i, tbl_status := TableStatusEmpty,
          tbl_layout := (case tbl_layout t of None \<Rightarrow> Some ''{}'' | Some l \<Rightarrow> Some l),
          tbl_created := tx_now tx, tbl_updated := tx_now tx\<rparr>)))"

definition TableRepo_GetTableByID :: "pgtx \<Rightarrow> uuid \<Rightarrow> (pos_db, pos_err, dining_table) tx" where
  "TableRepo_GetTableByID tx i =
     tx_bind (sql_find tables_table tx (\<lambda>t. tbl_id t = i)) (\<lambda>r.
     found_row RepoNotFound r)"

definition TableRepo_GetTableForUpdate :: "pgtx \<Rightarrow> uuid \<Rightarrow> (pos_db, pos_err, dining_table) tx" where
  "TableRepo_GetTableForUpdate tx i =
     tx_bind (sql_find tables_table tx (\<lambda>t. tbl_id t = i)) (\<lambda>r.
     found_row RepoNotFound r)"

record table_with_check =
  twc_table :: dining_table
  twc_zone_name :: string
  twc_zone_floor :: int
  twc_zone_id :: uuid          \<comment> \<open>the sort key \<open>z.id\<close>; not part of the Go struct\<close>
  twc_active_check :: "uuid option"

definition twc_before :: "table_with_check \<Rightarrow> table_with_check \<Rightarrow> bool" where
  "twc_before a b \<longleftrightarrow>
     (if twc_zone_floor a \<noteq> twc_zone_floor b then twc_zone_floor a < twc_zone_floor b
      else if twc_zone_name a \<noteq> twc_zone_name b then string_less (twc_zone_name a) (twc_zone_name b)
      else if twc_zone_id a \<noteq> twc_zone_id b then twc_zone_id a < twc_zone_id b
      else string_less (tbl_name (twc_table a)) (tbl_name (twc_table b)))"

text \<open>\<open>tables JOIN table_zones LEFT JOIN checks\<close>: one row per open check of the
  table, one row with no check when it has none.\<close>

definition table_plan_rows :: "pgtx \<Rightarrow> uuid \<Rightarrow> pos_db \<Rightarrow> table_with_check list" where
  "table_plan_rows tx branchID s =
     concat (map (\<lambda>t. concat (map (\<lambda>z.
         let open = rls_select chk_tenant tx
                      (\<lambda>c. chk_table c = Some (tbl_id t) \<and> chk_status c = CheckStatusOpen)
                      (db_checks s);
             row = (\<lambda>a. \<lparr>twc_table = t, twc_zone_name = zon_name z, twc_zone_floor = zon_floor z,
                         twc_zone_id = zon_id z, twc_active_check = a\<rparr>)
         in if open = [] then [row None] else map (\<lambda>c. row (Some (chk_id c))) open)
       (rls_select zon_tenant tx (\<lambda>z. zon_id z = tbl_zone t) (db_zones s))))
     (rls_select tbl_tenant tx (\<lambda>t. tbl_branch t = branchID \<and> tbl_active t) (db_tables s)))"

definition TableRepo_ListTablesByBranch ::
  "pgtx \<Rightarrow> uuid \<Rightarrow> (pos_db, pos_err, table_with_check list) tx" where
  "TableRepo_ListTablesByBranch tx branchID =
     tx_read (\<lambda>s. sort_by twc_before (table_plan_rows tx branchID s))"

definition TableRepo_UpdateTable :: "pgtx \<Rightarrow> dining_table \<Rightarrow> (pos_db, pos_err, dining_table) tx" where
  "TableRepo_UpdateTable tx t =
     tx_bind (pos_sql (sql_update tables_table tx (\<lambda>r. tbl_id r = tbl_id t)
       (\<lambda>r. r\<lparr>tbl_zone := tbl_zone t, tbl_name := tbl_name t, tbl_capacity := tbl_capacity t,
              tbl_layout := (case tbl_layout t of None \<Rightarrow> Some ''{}'' | Some l \<Rightarrow> Some l),
              tbl_active := tbl_active t, tbl_updated := tx_now tx\<rparr>))) (\<lambda>rows.
     query_row RepoNotFound rows)"

definition TableRepo_UpdateStatus ::
  "pgtx \<Rightarrow> uuid \<Rightarrow> table_status \<Rightarrow> table_status \<Rightarrow> (pos_db, pos_err, dining_table) tx" where
  "TableRepo_UpdateStatus tx i status expectedStatus =
     tx_bind (pos_sql (sql_update tables_table tx
       (\<lambda>t. tbl_id t = i \<and> tbl_status t = expectedStatus)
       (\<lambda>t. t\<lparr>tbl_status := status, tbl_updated := tx_now tx\<rparr>))) (\<lambda>rows.
     query_row RepoInvalidTransition rows)"

definition TableRepo_UpdateStatusIfCurrent ::
  "pgtx \<Rightarrow> uuid \<Rightarrow> table_status \<Rightarrow> table_status \<Rightarrow> (pos_db, pos_err, bool) tx" where
  "TableRepo_UpdateStatusIfCurrent tx i newStatus fromStatus =
     tx_bind (pos_sql (sql_update tables_table tx
       (\<lambda>t. tbl_id t = i \<and> tbl_status t = fromStatus)
       (\<lambda>t. t\<lparr>tbl_status := newStatus, tbl_updated := tx_now tx\<rparr>))) (\<lambda>rows.
     tx_return (length rows > 0))"

section \<open>Branch settings\<close>

definition BranchSettingsRepo_GetByBranch :: "pgtx \<Rightarrow> uuid \<Rightarrow> (pos_db, pos_err, branch_settings) tx" where
  "BranchSettingsRepo_GetByBranch tx branchID =
     tx_bind (sql_find settings_table tx (\<lambda>r. bst_branch r = branchID)) (\<lambda>r.
     found_row RepoNotFound r)"

definition BranchSettingsRepo_OrderFlowByBranch :: "pgtx \<Rightarrow> uuid \<Rightarrow> (pos_db, pos_err, order_flow) tx" where
  "BranchSettingsRepo_OrderFlowByBranch tx branchID =
     tx_bind (sql_find settings_table tx (\<lambda>r. bst_branch r = branchID)) (\<lambda>r.
     case r of None \<Rightarrow> tx_return OrderFlowFull | Some b \<Rightarrow> tx_return (bst_flow b))"

definition BranchSettingsRepo_RoundingPolicyByBranch ::
  "pgtx \<Rightarrow> uuid \<Rightarrow> (pos_db, pos_err, rounding_policy) tx" where
  "BranchSettingsRepo_RoundingPolicyByBranch tx branchID =
     tx_bind (sql_find settings_table tx (\<lambda>r. bst_branch r = branchID)) (\<lambda>r.
     case r of None \<Rightarrow> tx_return DefaultRoundingPolicy | Some b \<Rightarrow> tx_return (bst_rounding b))"

record settings_patch =
  pat_tenant :: uuid
  pat_branch :: uuid
  pat_layout :: "waiter_layout option"
  pat_flow :: "order_flow option"
  pat_cash :: "bool option"
  pat_card :: "bool option"
  pat_step :: "int option"
  pat_max :: "int option"
  pat_updated_by :: uuid

text \<open>The fields of the patch over a row: the row's own on conflict, the
  defaults on insert.\<close>

definition apply_settings_patch :: "pgtx \<Rightarrow> settings_patch \<Rightarrow> branch_settings \<Rightarrow> branch_settings" where
  "apply_settings_patch tx p b =
     b\<lparr>bst_layout := coalesce (pat_layout p) (bst_layout b),
       bst_flow := coalesce (pat_flow p) (bst_flow b),
       bst_rounding :=
         \<lparr>rnd_cash = coalesce (pat_cash p) (rnd_cash (bst_rounding b)),
          rnd_card = coalesce (pat_card p) (rnd_card (bst_rounding b)),
          rnd_step = coalesce (pat_step p) (rnd_step (bst_rounding b)),
          rnd_max_per_check = coalesce (pat_max p) (rnd_max_per_check (bst_rounding b))\<rparr>,
       bst_updated_by := pat_updated_by p, bst_updated := tx_now tx\<rparr>"

text \<open>\<open>INSERT ... ON CONFLICT (branch_id) DO UPDATE\<close>. The conflict is looked for
  among all rows; updating a row the policy hides is an RLS error.\<close>

definition BranchSettingsRepo_Upsert ::
  "pgtx \<Rightarrow> settings_patch \<Rightarrow> (pos_db, pos_err, branch_settings) tx" where
  "BranchSettingsRepo_Upsert tx p =
     tx_bind (tx_read (\<lambda>s. find_row (\<lambda>r. bst_branch r = pat_branch p) (db_settings s))) (\<lambda>conflict.
     case conflict of
       None \<Rightarrow> pos_sql (sql_insert settings_table tx
                (apply_settings_patch tx p
                  (DefaultBranchSettings (pat_tenant p) (pat_branch p))
                    \<lparr>bst_created := tx_now tx\<rparr>))
     | Some r \<Rightarrow>
         tx_bind (tx_require (bst_tenant r = tx_tenant tx \<and> pat_tenant p = tx_tenant tx)
           (ErrDb RlsViolation)) (\<lambda>_.
         tx_bind (pos_sql (sql_update settings_table tx (\<lambda>r. bst_branch r = pat_branch p)
           (apply_settings_patch tx p))) (\<lambda>rows.
         query_row (ErrOther ''no rows'') rows)))"

section \<open>What the reads return\<close>

lemma TableRepo_GetTableForUpdate_Inr:
  "TableRepo_GetTableForUpdate tx i s = Inr (t, s') \<longleftrightarrow>
   s' = s \<and> rls_find tbl_tenant tx (\<lambda>t. tbl_id t = i) (db_tables s) = Some t"
  by (auto simp: TableRepo_GetTableForUpdate_def tx_inv row_inv)

lemma TableRepo_GetTableByID_Inr:
  "TableRepo_GetTableByID tx i s = Inr (t, s') \<longleftrightarrow>
   s' = s \<and> rls_find tbl_tenant tx (\<lambda>t. tbl_id t = i) (db_tables s) = Some t"
  by (auto simp: TableRepo_GetTableByID_def tx_inv row_inv)

lemma TableRepo_GetZoneByID_Inr:
  "TableRepo_GetZoneByID tx i s = Inr (z, s') \<longleftrightarrow>
   s' = s \<and> rls_find zon_tenant tx (\<lambda>z. zon_id z = i) (db_zones s) = Some z"
  by (auto simp: TableRepo_GetZoneByID_def tx_inv row_inv)

text \<open>The flow a branch runs: a branch with no row reads as full.\<close>

definition branch_flow :: "pgtx \<Rightarrow> pos_db \<Rightarrow> uuid \<Rightarrow> order_flow" where
  "branch_flow tx s branchID =
     (case rls_find bst_tenant tx (\<lambda>r. bst_branch r = branchID) (db_settings s) of
        None \<Rightarrow> OrderFlowFull | Some b \<Rightarrow> bst_flow b)"

lemma OrderFlowByBranch_eval [simp]:
  "BranchSettingsRepo_OrderFlowByBranch tx b s = Inr (branch_flow tx s b, s)"
  by (auto simp: BranchSettingsRepo_OrderFlowByBranch_def tx_bind_def branch_flow_def
      split: option.splits)

text \<open>Reading the settings of a branch that has no row and reading the defaults
  are the same thing to every consumer.\<close>

lemma no_row_is_default:
  assumes "rls_find bst_tenant tx (\<lambda>r. bst_branch r = b) (db_settings s) = None"
  shows "branch_flow tx s b = bst_flow (DefaultBranchSettings tn b)"
    and "BranchSettingsRepo_RoundingPolicyByBranch tx b s =
         Inr (bst_rounding (DefaultBranchSettings tn b), s)"
  using assms
  by (simp_all add: branch_flow_def DefaultBranchSettings_def tx_bind_def
      BranchSettingsRepo_RoundingPolicyByBranch_def)

end
