(* ===== verification/Pos_Guards.thy ===== *)
theory Pos_Guards
  imports Pos_Check_Repo Pos_Order_Repo Pos_Table_Repo
begin

text \<open>
  pos/service/branch_authz.go and pos/service/check_guard.go: who may act on a
  branch, whether anything may still be attached to a check, and the reads other
  modules make through the module's public interface. \<open>wrapErr\<close> of
  check_service.go, which every service call goes through, is here too.
\<close>

section \<open>Branch authorization\<close>

definition requireBranch :: "ctx \<Rightarrow> principal \<Rightarrow> uuid \<Rightarrow> pos_err + unit" where
  "requireBranch c p branchID =
     (if ScopeFromContext c = Some ''tenant'' then Inr ()
      else if IsStaff p \<and> prn_branch p \<noteq> uuid_Nil \<and> prn_branch p = branchID then Inr ()
      else Inl PubBranchForbidden)"

definition RequireBranchAccess :: "ctx \<Rightarrow> principal \<Rightarrow> uuid \<Rightarrow> pos_err + unit" where
  "RequireBranchAccess c p branchID = requireBranch c p branchID"

text \<open>\<open>nil\<close> (no filter) is None.\<close>

definition BranchScopeFilter :: "ctx \<Rightarrow> principal \<Rightarrow> uuid option" where
  "BranchScopeFilter c p =
     (if ScopeFromContext c = Some ''tenant'' then None else Some (prn_branch p))"

definition may_act :: "ctx \<Rightarrow> principal \<Rightarrow> uuid \<Rightarrow> bool" where
  "may_act c p branchID \<longleftrightarrow>
     tenant_scoped c \<or> IsStaff p \<and> prn_branch p \<noteq> uuid_Nil \<and> prn_branch p = branchID"

lemma requireBranch_Inr [simp]: "requireBranch c p b = Inr u \<longleftrightarrow> may_act c p b"
  by (cases u) (auto simp: requireBranch_def may_act_def tenant_scoped_def)

lemma requireBranch_Inl [simp]:
  "requireBranch c p b = Inl e \<longleftrightarrow> \<not> may_act c p b \<and> e = PubBranchForbidden"
  by (auto simp: requireBranch_def may_act_def tenant_scoped_def)

text \<open>The write guard is stricter than \<open>HasBranchAccess\<close>: a staff principal with
  no branch passes the latter for every branch and the former for none.\<close>

lemma may_act_HasBranchAccess:
  "may_act c p b \<Longrightarrow> \<not> tenant_scoped c \<Longrightarrow> HasBranchAccess p b"
  by (auto simp: may_act_def HasBranchAccess_def IsStaff_def)

text \<open>The list filter and the yes/no verdict agree: what a principal may act on
  is what the filter shows.\<close>

lemma BranchScopeFilter_agrees:
  assumes "IsStaff p" and "b \<noteq> uuid_Nil"
  shows "may_act c p b \<longleftrightarrow> BranchScopeFilter c p = None \<or> BranchScopeFilter c p = Some b"
  using assms by (auto simp: may_act_def BranchScopeFilter_def tenant_scoped_def)

section \<open>Error mapping\<close>

definition wrapErr :: "pos_err \<Rightarrow> pos_err" where
  "wrapErr e =
     (if e = RepoNotFound then PubNotFound
      else if e = RepoInvalidTransition \<or> e = DomainInvalidTransition then PubInvalidTransition
      else e)"

section \<open>Attaching to a check\<close>

definition assertCheckWritable :: "check \<Rightarrow> uuid \<Rightarrow> pos_err + unit" where
  "assertCheckWritable c branchID =
     (if branchID \<noteq> uuid_Nil \<and> chk_branch c \<noteq> branchID then Inl PubCheckBranchMismatch
      else if chk_status c \<noteq> CheckStatusOpen then Inl PubCheckNotOpen
      else Inr ())"

lemma assertCheckWritable_Inr [simp]:
  "assertCheckWritable c b = Inr u \<longleftrightarrow>
   (b = uuid_Nil \<or> chk_branch c = b) \<and> chk_status c = CheckStatusOpen"
  by (cases u) (auto simp: assertCheckWritable_def)

record pub_check =
  pck_id :: uuid
  pck_tenant :: uuid
  pck_branch :: uuid
  pck_label :: string
  pck_status :: check_status
  pck_opened_at :: time

definition CheckReadService_GetByID ::
  "ctx \<Rightarrow> uuid \<Rightarrow> uuid \<Rightarrow> (pos_db, pos_err, pub_check) tx" where
  "CheckReadService_GetByID c tenantID checkID =
     tx_bind (tx_map_err wrapErr (WithTenantReadTx c tenantID (\<lambda>tx. CheckRepo_GetByID tx checkID)))
       (\<lambda>k. tx_return
         \<lparr>pck_id = chk_id k, pck_tenant = chk_tenant k, pck_branch = chk_branch k,
          pck_label = chk_label k, pck_status = chk_status k, pck_opened_at = chk_opened_at k\<rparr>)"

definition CheckReadService_AssertCheckWritable ::
  "ctx \<Rightarrow> uuid \<Rightarrow> uuid \<Rightarrow> uuid \<Rightarrow> (pos_db, pos_err, unit) tx" where
  "CheckReadService_AssertCheckWritable c tenantID checkID branchID =
     tx_bind (tx_map_err wrapErr (WithTenantReadTx c tenantID (\<lambda>tx. CheckRepo_GetByID tx checkID)))
       (\<lambda>k. tx_lift (assertCheckWritable k branchID))"

definition CheckReadService_CheckTotal :: "ctx \<Rightarrow> uuid \<Rightarrow> uuid \<Rightarrow> (pos_db, pos_err, int) tx" where
  "CheckReadService_CheckTotal c tenantID checkID =
     tx_map_err wrapErr (WithTenantReadTx c tenantID (\<lambda>tx. CheckRepo_GetTotal tx checkID))"

definition CheckReadService_BranchRoundingPolicy ::
  "ctx \<Rightarrow> uuid \<Rightarrow> uuid \<Rightarrow> (pos_db, pos_err, rounding_policy) tx" where
  "CheckReadService_BranchRoundingPolicy c tenantID branchID =
     WithTenantReadTx c tenantID (\<lambda>tx. BranchSettingsRepo_RoundingPolicyByBranch tx branchID)"

end
