(* ===== verification/Pos_Check_Service.thy ===== *)
theory Pos_Check_Service
  imports Pos_Guards
begin

text \<open>
  pos/service/check_service.go: opening, closing and cancelling a check, and the
  reads. The payment module is consulted through \<open>paymentpub.SaleReader\<close>, whose
  two totals are given as a record; the payment theory provides it.
\<close>

record sale_reader =
  TotalPaidForCheck :: "uuid \<Rightarrow> uuid \<Rightarrow> pos_err + int"
  PendingTotalForCheck :: "uuid \<Rightarrow> uuid \<Rightarrow> pos_err + int"

section \<open>Open\<close>

definition normalizeServiceType :: "check \<Rightarrow> pos_err + check" where
  "normalizeServiceType c0 =
     (let c = (if chk_service c0 = ServiceTypeOther '''' then c0\<lparr>chk_service := ServiceTypeDineIn\<rparr>
               else c0)
      in if \<not> ServiceType_Valid (chk_service c) then Inl ErrInvalidServiceType
         else if chk_service c = ServiceTypeDineIn then Inr c
         else if chk_table c \<noteq> None then Inl ErrTableNotAllowed
         else if TrimSpace (chk_cust_name c) = '''' then Inl ErrCustomerNameRequired
         else if chk_service c = ServiceTypeDelivery \<and> TrimSpace (chk_cust_phone c) = ''''
           then Inl ErrCustomerPhoneRequired
         else if TrimSpace (chk_label c) = '''' then Inr (c\<lparr>chk_label := chk_cust_name c\<rparr>)
         else Inr c)"

definition staffTableGuard :: "dining_table \<Rightarrow> pos_err + unit" where
  "staffTableGuard t =
     (if tbl_status t \<noteq> TableStatusEmpty \<and> tbl_status t \<noteq> TableStatusReserved
      then Inl PubTableOccupied else Inr ())"

definition guestTableGuard :: "dining_table \<Rightarrow> pos_err + unit" where
  "guestTableGuard t =
     (if tbl_status t = TableStatusCleaning then Inl PubTableNotReady else staffTableGuard t)"

definition opened_by_kind_string :: "opened_by_kind \<Rightarrow> string" where
  "opened_by_kind_string k =
     (case k of OpenedByKindStaff \<Rightarrow> ''staff'' | OpenedByKindGuestQR \<Rightarrow> ''guest_qr''
      | OpenedByKindOther s \<Rightarrow> s)"

definition source_string :: "source \<Rightarrow> string" where
  "source_string k =
     (case k of SourcePOS \<Rightarrow> ''pos'' | SourceOnlineQR \<Rightarrow> ''online_qr'' | SourceOther s \<Rightarrow> s)"

definition check_opened_payload :: "check \<Rightarrow> uuid \<Rightarrow> (string \<times> json) list" where
  "check_opened_payload created tenantID =
     [(''tenant_id'', JId tenantID), (''check_id'', JId (chk_id created)),
      (''branch_id'', JId (chk_branch created)), (''table_id'', json_opt_id (chk_table created)),
      (''table_label'', JStr (chk_label created)),
      (''opened_by'', json_opt_id (chk_opened_by created)),
      (''opened_by_kind'', JStr (opened_by_kind_string (chk_opened_kind created))),
      (''source'', JStr (source_string (chk_source created)))]"

definition occupy_err :: "pos_err \<Rightarrow> pos_err" where
  "occupy_err e = (if e = RepoInvalidTransition then PubTableOccupied else e)"

text \<open>The part of \<open>openCheckTx\<close> that takes the table, when the check names one.\<close>

definition take_table ::
  "pgtx \<Rightarrow> check \<Rightarrow> (dining_table \<Rightarrow> pos_err + unit) \<Rightarrow> (pos_db, pos_err, check) tx" where
  "take_table tx c guard =
     (case chk_table c of
        None \<Rightarrow> tx_return c
      | Some tid \<Rightarrow>
          tx_bind (TableRepo_GetTableForUpdate tx tid) (\<lambda>table.
          if tbl_branch table \<noteq> chk_branch c then tx_throw PubTableBranchMismatch
          else tx_bind (tx_lift (guard table)) (\<lambda>_.
               tx_bind (tx_map_err occupy_err
                 (TableRepo_UpdateStatus tx (tbl_id table) TableStatusOccupied (tbl_status table)))
                 (\<lambda>_. tx_return (c\<lparr>chk_label := tbl_name table\<rparr>)))))"

definition openCheckTx ::
  "pgtx \<Rightarrow> check \<Rightarrow> (dining_table \<Rightarrow> pos_err + unit) \<Rightarrow> (pos_db, pos_err, check) tx" where
  "openCheckTx tx c guard =
     tx_bind (take_table tx c guard) (\<lambda>c.
     tx_bind (CheckRepo_Create tx c) (\<lambda>created.
     tx_bind (InsertOutbox tx (chk_tenant c) ''check'' (chk_id created) ''check.opened''
       (check_opened_payload created (chk_tenant c))) (\<lambda>_.
     tx_return created)))"

definition open_err :: "pos_err \<Rightarrow> pos_err" where
  "open_err e =
     (if e = PubTableOccupied \<or> e = PubTableBranchMismatch then e
      else if e = RepoTableOccupied then PubTableOccupied
      else if e = RepoNotFound then PubNotFound
      else e)"

definition CheckService_Open ::
  "ctx \<Rightarrow> uuid \<Rightarrow> principal \<Rightarrow> check \<Rightarrow> (pos_db, pos_err, check) tx" where
  "CheckService_Open c tenantID p k =
     tx_bind (tx_lift (requireBranch c p (chk_branch k))) (\<lambda>_.
     tx_bind (tx_lift (normalizeServiceType (if chk_pax k < 1 then k\<lparr>chk_pax := 1\<rparr> else k))) (\<lambda>k.
     let k = k\<lparr>chk_tenant := tenantID, chk_status := CheckStatusOpen\<rparr>
     in tx_map_err open_err (WithTenantTx c tenantID (\<lambda>tx. openCheckTx tx k staffTableGuard))))"

section \<open>Reads\<close>

definition CheckService_GetByID :: "ctx \<Rightarrow> uuid \<Rightarrow> uuid \<Rightarrow> (pos_db, pos_err, check) tx" where
  "CheckService_GetByID c tenantID checkID =
     tx_map_err wrapErr (WithTenantReadTx c tenantID (\<lambda>tx. CheckRepo_GetByID tx checkID))"

definition CheckService_TableLabelsByIDs ::
  "ctx \<Rightarrow> uuid \<Rightarrow> uuid list \<Rightarrow> (pos_db, pos_err, uuid \<rightharpoonup> string) tx" where
  "CheckService_TableLabelsByIDs c tenantID checkIDs =
     (if checkIDs = [] then tx_return Map.empty
      else tx_map_err wrapErr
             (WithTenantReadTx c tenantID (\<lambda>tx. CheckRepo_TableLabelsByCheckIDs tx checkIDs)))"

definition CheckService_GetByIDWithTotal ::
  "ctx \<Rightarrow> uuid \<Rightarrow> uuid \<Rightarrow> (pos_db, pos_err, check \<times> int) tx" where
  "CheckService_GetByIDWithTotal c tenantID checkID =
     tx_map_err wrapErr (WithTenantReadTx c tenantID (\<lambda>tx.
       tx_bind (CheckRepo_GetByID tx checkID) (\<lambda>k.
       tx_bind (CheckRepo_GetTotal tx checkID) (\<lambda>owed.
       tx_return (k, owed)))))"

definition CheckService_List ::
  "ctx \<Rightarrow> uuid \<Rightarrow> check_filter \<Rightarrow> (pos_db, pos_err, check list \<times> (uuid \<rightharpoonup> int)) tx" where
  "CheckService_List c tenantID flt =
     WithTenantReadTx c tenantID (\<lambda>tx.
       tx_bind (CheckRepo_List tx flt) (\<lambda>checks.
       tx_bind (CheckRepo_TotalsByCheckIDs tx (map chk_id checks)) (\<lambda>totals.
       tx_return (checks, totals))))"

section \<open>Close and Cancel\<close>

definition paymentCoversTotal :: "int \<Rightarrow> int \<Rightarrow> int \<Rightarrow> pos_err + unit" where
  "paymentCoversTotal paid pending owed =
     (if paid \<ge> owed then Inr ()
      else if wrap64 (paid + pending) \<ge> owed then Inl ErrFiscalPending
      else Inl ErrInsufficientPayment)"

definition order_status_event ::
  "pgtx \<Rightarrow> uuid \<Rightarrow> uuid \<Rightarrow> order_status \<Rightarrow> string \<Rightarrow> uuid \<Rightarrow> string \<Rightarrow> uuid \<Rightarrow> (pos_db, pos_err, unit) tx"
where
  "order_status_event tx tenantID checkID status by_key by reason i =
     InsertOutbox tx tenantID ''order'' i ''order.status_changed''
       [(''tenant_id'', JId tenantID), (''order_id'', JId i), (''check_id'', JId checkID),
        (''status'', JStr (order_status_string status)), (by_key, JId by),
        (''reason'', JStr reason)]"

definition deliverLiveOrders ::
  "pgtx \<Rightarrow> uuid \<Rightarrow> uuid \<Rightarrow> uuid \<Rightarrow> uuid \<Rightarrow> (pos_db, pos_err, unit) tx" where
  "deliverLiveOrders tx tenantID checkID branchID closedBy =
     tx_bind (BranchSettingsRepo_OrderFlowByBranch tx branchID) (\<lambda>flow.
     if flow \<noteq> OrderFlowSimple then tx_return ()
     else tx_bind (OrderRepo_DeliverActiveByCheck tx checkID) (\<lambda>ids.
          tx_each (order_status_event tx tenantID checkID OrderStatusDelivered ''delivered_by''
                     closedBy ''check_closed'') ids))"

definition cancelLiveOrders ::
  "pgtx \<Rightarrow> uuid \<Rightarrow> uuid \<Rightarrow> uuid \<Rightarrow> (pos_db, pos_err, unit) tx" where
  "cancelLiveOrders tx tenantID checkID cancelledBy =
     tx_bind (OrderRepo_CancelActiveByCheck tx checkID) (\<lambda>ids.
     tx_each (order_status_event tx tenantID checkID OrderStatusCancelled ''cancelled_by''
                cancelledBy ''check_cancelled'') ids)"

definition releaseTableToCleaning :: "pgtx \<Rightarrow> uuid option \<Rightarrow> (pos_db, pos_err, unit) tx" where
  "releaseTableToCleaning tx tableID =
     (case tableID of
        None \<Rightarrow> tx_return ()
      | Some t \<Rightarrow> tx_bind (TableRepo_UpdateStatusIfCurrent tx t TableStatusCleaning TableStatusOccupied)
                   (\<lambda>_. tx_return ()))"

definition closeTx ::
  "ctx \<Rightarrow> principal \<Rightarrow> uuid \<Rightarrow> uuid \<Rightarrow> uuid \<Rightarrow> int \<Rightarrow> int \<Rightarrow> pgtx \<Rightarrow> (pos_db, pos_err, check) tx" where
  "closeTx c p tenantID checkID closedBy paid pending tx =
     tx_bind (CheckRepo_GetForUpdate tx checkID) (\<lambda>current.
     tx_bind (tx_lift (requireBranch c p (chk_branch current))) (\<lambda>_.
     tx_bind (tx_require (chk_status current = CheckStatusOpen) RepoInvalidTransition) (\<lambda>_.
     tx_bind (CheckRepo_GetTotal tx checkID) (\<lambda>owed.
     tx_bind (tx_lift (paymentCoversTotal paid pending owed)) (\<lambda>_.
     tx_bind (deliverLiveOrders tx tenantID checkID (chk_branch current) closedBy) (\<lambda>_.
     tx_bind (CheckRepo_UpdateStatus tx checkID CheckStatusClosed CheckStatusOpen (Some closedBy))
       (\<lambda>closed.
     tx_bind (releaseTableToCleaning tx (chk_table current)) (\<lambda>_.
     tx_bind (InsertOutbox tx tenantID ''check'' checkID ''check.closed''
       [(''tenant_id'', JId tenantID), (''check_id'', JId checkID), (''closed_by'', JId closedBy)])
       (\<lambda>_. tx_return closed)))))))))"

text \<open>The totals are read through the payment module before the write
  transaction starts.\<close>

definition CheckService_Close ::
  "sale_reader \<Rightarrow> ctx \<Rightarrow> uuid \<Rightarrow> principal \<Rightarrow> uuid \<Rightarrow> uuid \<Rightarrow> (pos_db, pos_err, check) tx" where
  "CheckService_Close sr c tenantID p checkID closedBy =
     tx_bind (tx_lift (TotalPaidForCheck sr tenantID checkID)) (\<lambda>paid.
     tx_bind (tx_lift (PendingTotalForCheck sr tenantID checkID)) (\<lambda>pending.
     tx_map_err wrapErr
       (WithTenantTx c tenantID (closeTx c p tenantID checkID closedBy paid pending))))"

definition cancelTx ::
  "ctx \<Rightarrow> principal \<Rightarrow> uuid \<Rightarrow> uuid \<Rightarrow> uuid \<Rightarrow> int \<Rightarrow> int \<Rightarrow> pgtx \<Rightarrow> (pos_db, pos_err, check) tx" where
  "cancelTx c p tenantID checkID cancelledBy paid pending tx =
     tx_bind (CheckRepo_GetForUpdate tx checkID) (\<lambda>current.
     tx_bind (tx_lift (requireBranch c p (chk_branch current))) (\<lambda>_.
     tx_bind (tx_require (chk_status current = CheckStatusOpen) RepoInvalidTransition) (\<lambda>_.
     tx_bind (tx_require (\<not> wrap64 (paid + pending) > 0) ErrCheckHasPayments) (\<lambda>_.
     tx_bind (CheckRepo_UpdateStatus tx checkID CheckStatusCancelled CheckStatusOpen
       (Some cancelledBy)) (\<lambda>cancelled.
     tx_bind (releaseTableToCleaning tx (chk_table current)) (\<lambda>_.
     tx_bind (cancelLiveOrders tx tenantID checkID cancelledBy) (\<lambda>_.
     tx_bind (InsertOutbox tx tenantID ''check'' checkID ''check.cancelled''
       [(''tenant_id'', JId tenantID), (''check_id'', JId checkID),
        (''cancelled_by'', JId cancelledBy)])
       (\<lambda>_. tx_return cancelled))))))))"

definition CheckService_Cancel ::
  "sale_reader \<Rightarrow> ctx \<Rightarrow> uuid \<Rightarrow> principal \<Rightarrow> uuid \<Rightarrow> uuid \<Rightarrow> (pos_db, pos_err, check) tx" where
  "CheckService_Cancel sr c tenantID p checkID cancelledBy =
     tx_bind (tx_lift (TotalPaidForCheck sr tenantID checkID)) (\<lambda>paid.
     tx_bind (tx_lift (PendingTotalForCheck sr tenantID checkID)) (\<lambda>pending.
     tx_map_err wrapErr
       (WithTenantTx c tenantID (cancelTx c p tenantID checkID cancelledBy paid pending))))"

end
