(* ===== verification/Pos_Move_Service.thy ===== *)
theory Pos_Move_Service
  imports Pos_Check_Service
begin

text \<open>
  pos/service/check_move_service.go: moving a check to another table, folding one
  check into another, and moving order lines between checks.
\<close>

section \<open>Locks and lookups\<close>

text \<open>\<open>sortedIDs\<close> sorts by the canonical text of the id, which is the order of
  the ids themselves.\<close>

definition sortedIDs :: "uuid list \<Rightarrow> uuid list" where
  "sortedIDs ids = sort ids"

fun lock_rows :: "(uuid \<Rightarrow> (pos_db, pos_err, 'r) tx) \<Rightarrow> uuid list \<Rightarrow> (pos_db, pos_err, uuid \<rightharpoonup> 'r) tx"
where
  "lock_rows get [] = tx_return Map.empty"
| "lock_rows get (i # ids) =
     tx_bind (get i) (\<lambda>r. tx_bind (lock_rows get ids) (\<lambda>m.
     tx_return (if i \<in> dom m then m else m(i \<mapsto> r))))"

definition lockChecks :: "pgtx \<Rightarrow> uuid list \<Rightarrow> (pos_db, pos_err, uuid \<rightharpoonup> check) tx" where
  "lockChecks tx ids = lock_rows (CheckRepo_GetForUpdate tx) (sortedIDs ids)"

definition table_not_found :: "pos_err \<Rightarrow> pos_err" where
  "table_not_found e = (if e = RepoNotFound then PubTableNotFound else e)"

definition lockTables :: "pgtx \<Rightarrow> uuid list \<Rightarrow> (pos_db, pos_err, uuid \<rightharpoonup> dining_table) tx" where
  "lockTables tx ids =
     lock_rows (\<lambda>i. tx_map_err table_not_found (TableRepo_GetTableForUpdate tx i)) (sortedIDs ids)"

definition isKitchenActive :: "order_status \<Rightarrow> bool" where
  "isKitchenActive s \<longleftrightarrow> s \<in> set KitchenActiveOrderStatuses"

definition isInactive :: "order_status \<Rightarrow> bool" where
  "isInactive s \<longleftrightarrow> s \<in> set InactiveOrderStatuses"

definition collectedTotals :: "sale_reader \<Rightarrow> uuid \<Rightarrow> uuid \<Rightarrow> pos_err + int \<times> int" where
  "collectedTotals sr tenantID checkID =
     (case TotalPaidForCheck sr tenantID checkID of
        Inl e \<Rightarrow> Inl e
      | Inr paid \<Rightarrow>
          (case PendingTotalForCheck sr tenantID checkID of
             Inl e \<Rightarrow> Inl e | Inr pending \<Rightarrow> Inr (paid, pending)))"

definition announceOrderIDsMoved ::
  "pgtx \<Rightarrow> uuid \<Rightarrow> uuid list \<Rightarrow> uuid \<Rightarrow> string \<Rightarrow> (pos_db, pos_err, unit) tx" where
  "announceOrderIDsMoved tx tenantID orderIDs checkID reason =
     tx_each (\<lambda>i. InsertOutbox tx tenantID ''order'' i ''order.moved''
       [(''tenant_id'', JId tenantID), (''order_id'', JId i), (''check_id'', JId checkID),
        (''reason'', JStr reason)]) orderIDs"

definition announceLiveOrdersMoved ::
  "pgtx \<Rightarrow> uuid \<Rightarrow> uuid \<Rightarrow> string \<Rightarrow> (pos_db, pos_err, unit) tx" where
  "announceLiveOrdersMoved tx tenantID checkID reason =
     tx_bind (OrderRepo_ListByCheck tx checkID) (\<lambda>os.
     announceOrderIDsMoved tx tenantID
       (map ord_id (filter (\<lambda>r. isKitchenActive (ord_status r)) os)) checkID reason)"

section \<open>Transfer\<close>

definition transferTx ::
  "ctx \<Rightarrow> principal \<Rightarrow> uuid \<Rightarrow> uuid \<Rightarrow> uuid \<Rightarrow> pgtx \<Rightarrow> (pos_db, pos_err, check) tx" where
  "transferTx c p tenantID checkID tableID tx =
     tx_bind (CheckRepo_GetForUpdate tx checkID) (\<lambda>current.
     tx_bind (tx_lift (requireBranch c p (chk_branch current))) (\<lambda>_.
     tx_bind (tx_require (chk_status current = CheckStatusOpen) PubCheckNotOpen) (\<lambda>_.
     if chk_table current = Some tableID then tx_return current
     else
     tx_bind (lockTables tx (tableID # (case chk_table current of None \<Rightarrow> [] | Some t \<Rightarrow> [t])))
       (\<lambda>tables.
     case tables tableID of
       None \<Rightarrow> tx_throw (ErrOther ''unreachable: lockTables returns every id'')
     | Some target \<Rightarrow>
         tx_bind (tx_require (tbl_branch target = chk_branch current) PubCheckBranchMismatch) (\<lambda>_.
         tx_bind (tx_lift (staffTableGuard target)) (\<lambda>_.
         tx_bind (tx_map_err occupy_err
           (TableRepo_UpdateStatus tx (tbl_id target) TableStatusOccupied (tbl_status target))) (\<lambda>_.
         tx_bind (case chk_table current of
             None \<Rightarrow> tx_return ()
           | Some t \<Rightarrow> tx_bind (TableRepo_UpdateStatusIfCurrent tx t TableStatusEmpty
                        TableStatusOccupied) (\<lambda>_. tx_return ())) (\<lambda>_.
         tx_bind (CheckRepo_UpdateTable tx checkID (Some tableID) (tbl_name target) CheckStatusOpen)
           (\<lambda>moved.
         tx_bind (InsertOutbox tx tenantID ''check'' checkID ''check.transferred''
           [(''tenant_id'', JId tenantID), (''check_id'', JId checkID),
            (''branch_id'', JId (chk_branch current)),
            (''from_table_id'', json_opt_id (chk_table current)), (''to_table_id'', JId tableID),
            (''from_table'', JStr (chk_label current)), (''to_table'', JStr (tbl_name target)),
            (''moved_by'', JId (prn_person p))]) (\<lambda>_.
         tx_bind (announceLiveOrdersMoved tx tenantID checkID ''check_transferred'') (\<lambda>_.
         tx_return moved)))))))))))"

definition CheckService_Transfer ::
  "ctx \<Rightarrow> uuid \<Rightarrow> principal \<Rightarrow> uuid \<Rightarrow> uuid \<Rightarrow> (pos_db, pos_err, check) tx" where
  "CheckService_Transfer c tenantID p checkID tableID =
     tx_map_err wrapErr (WithTenantTx c tenantID (transferTx c p tenantID checkID tableID))"

section \<open>Merge\<close>

definition mergeTx ::
  "ctx \<Rightarrow> principal \<Rightarrow> uuid \<Rightarrow> uuid \<Rightarrow> uuid \<Rightarrow> int \<Rightarrow> int \<Rightarrow> pgtx \<Rightarrow> (pos_db, pos_err, check) tx" where
  "mergeTx c p tenantID checkID sourceCheckID paid pending tx =
     tx_bind (lockChecks tx [checkID, sourceCheckID]) (\<lambda>checks.
     case (checks checkID, checks sourceCheckID) of
       (Some target, Some source) \<Rightarrow>
         tx_bind (tx_lift (requireBranch c p (chk_branch target))) (\<lambda>_.
         tx_bind (tx_require (chk_branch source = chk_branch target) PubCheckBranchMismatch) (\<lambda>_.
         tx_bind (tx_require (chk_status target = CheckStatusOpen \<and>
                              chk_status source = CheckStatusOpen) PubCheckNotOpen) (\<lambda>_.
         tx_bind (tx_require (\<not> wrap64 (paid + pending) > 0) ErrCheckPaymentsPresent) (\<lambda>_.
         tx_bind (OrderRepo_ReassignToCheck tx (chk_id source) (chk_id target)) (\<lambda>movedOrders.
         tx_bind (CheckRepo_MarkMerged tx (chk_id source) (chk_id target) CheckStatusOpen) (\<lambda>_.
         tx_bind (case chk_table source of
             None \<Rightarrow> tx_return ()
           | Some t \<Rightarrow> tx_bind (TableRepo_UpdateStatusIfCurrent tx t TableStatusEmpty
                        TableStatusOccupied) (\<lambda>_. tx_return ())) (\<lambda>_.
         tx_bind (InsertOutbox tx tenantID ''check'' (chk_id source) ''check.merged''
           [(''tenant_id'', JId tenantID), (''check_id'', JId (chk_id source)),
            (''target_check_id'', JId (chk_id target)), (''branch_id'', JId (chk_branch target)),
            (''from_table'', JStr (chk_label source)), (''to_table'', JStr (chk_label target)),
            (''order_ids'', JIds movedOrders), (''merged_by'', JId (prn_person p))]) (\<lambda>_.
         tx_bind (announceOrderIDsMoved tx tenantID movedOrders (chk_id target) ''check_merged'') (\<lambda>_.
         tx_return target)))))))))
     | _ \<Rightarrow> tx_throw (ErrOther ''unreachable: lockChecks returns every id''))"

definition CheckService_Merge ::
  "sale_reader \<Rightarrow> ctx \<Rightarrow> uuid \<Rightarrow> principal \<Rightarrow> uuid \<Rightarrow> uuid \<Rightarrow> (pos_db, pos_err, check) tx" where
  "CheckService_Merge sr c tenantID p checkID sourceCheckID =
     (if checkID = sourceCheckID then tx_throw ErrSameCheck
      else tx_bind (tx_lift (collectedTotals sr tenantID sourceCheckID)) (\<lambda>(paid, pending).
           tx_map_err wrapErr
             (WithTenantTx c tenantID (mergeTx c p tenantID checkID sourceCheckID paid pending))))"

section \<open>MoveItems\<close>

definition assertItemsBelongToCheck ::
  "item_owner list \<Rightarrow> uuid list \<Rightarrow> uuid \<Rightarrow> pos_err + unit" where
  "assertItemsBelongToCheck owners requested checkID =
     (if length owners \<noteq> length requested then Inl ErrOrderItemNotFound
      else if \<exists>w \<in> set owners. own_check w \<noteq> Some checkID then Inl ErrOrderItemNotFound
      else Inr ())"

definition movedAmount :: "item_owner list \<Rightarrow> int" where
  "movedAmount owners =
     fold (\<lambda>w sum. if isInactive (own_status w) then sum
                     else wrap64 (sum + wrap64 (own_qty w * own_unit_price w))) owners 0"

text \<open>The distinct orders, in the order they are first seen.\<close>

fun distinct_first :: "'a list \<Rightarrow> 'a list \<Rightarrow> 'a list" where
  "distinct_first seen [] = []"
| "distinct_first seen (x # xs) =
     (if x \<in> set seen then distinct_first seen xs else x # distinct_first (x # seen) xs)"

definition sourceOrderIDs :: "item_owner list \<Rightarrow> uuid list" where
  "sourceOrderIDs owners = distinct_first [] (map own_order owners)"

definition status_before :: "order_status \<Rightarrow> order_status \<Rightarrow> bool" where
  "status_before a b \<longleftrightarrow> string_less (order_status_string a) (order_status_string b)"

text \<open>The prefix "Tasindi: " with its two dotless or cedilla letters, in the bytes
  of the source file.\<close>

definition moved_note_prefix :: string where
  "moved_note_prefix =
     ''Ta'' @ [CHR 0xC5, CHR 0x9F, CHR 0xC4, CHR 0xB1] @ ''nd'' @ [CHR 0xC4, CHR 0xB1] @ '': ''"

definition moved_order :: "uuid \<Rightarrow> check \<Rightarrow> check \<Rightarrow> order_status \<Rightarrow> order" where
  "moved_order tenantID source target status =
     zero_order\<lparr>ord_tenant := tenantID, ord_branch := chk_branch target,
       ord_check := Some (chk_id target), ord_channel := OrderChannelDineIn,
       ord_source := SourcePOS, ord_status := status,
       ord_note := moved_note_prefix @ chk_label source\<rparr>"

definition rehome_status ::
  "pgtx \<Rightarrow> uuid \<Rightarrow> item_owner list \<Rightarrow> check \<Rightarrow> check \<Rightarrow> order_status \<Rightarrow> (pos_db, pos_err, uuid) tx"
where
  "rehome_status tx tenantID owners source target status =
     (let its = map own_item (filter (\<lambda>w. own_status w = status) owners)
      in tx_bind (OrderRepo_Create tx (moved_order tenantID source target status)) (\<lambda>r.
         tx_bind (OrderRepo_MoveItemsToOrder tx its (ord_id r)) (\<lambda>affected.
         tx_bind (tx_require (affected = length its) (ErrOther ''move items: short update'')) (\<lambda>_.
         tx_return (ord_id r)))))"

definition rehomeItems ::
  "pgtx \<Rightarrow> uuid \<Rightarrow> item_owner list \<Rightarrow> check \<Rightarrow> check \<Rightarrow> (pos_db, pos_err, uuid list) tx" where
  "rehomeItems tx tenantID owners source target =
     tx_map (rehome_status tx tenantID owners source target)
       (sort_by status_before (remdups (map own_status owners)))"

definition cancelEmptiedOrders ::
  "pgtx \<Rightarrow> uuid \<Rightarrow> uuid list \<Rightarrow> uuid \<Rightarrow> uuid \<Rightarrow> (pos_db, pos_err, uuid list) tx" where
  "cancelEmptiedOrders tx tenantID sourceOrders checkID cancelledBy =
     tx_bind (OrderRepo_EmptyOrderIDs tx sourceOrders) (\<lambda>empty.
     tx_bind (OrderRepo_CancelByIDs tx empty) (\<lambda>cancelled.
     tx_bind (tx_each (order_status_event tx tenantID checkID OrderStatusCancelled ''cancelled_by''
                cancelledBy ''items_moved'') cancelled) (\<lambda>_.
     tx_return cancelled)))"

definition moveItemsTx ::
  "ctx \<Rightarrow> principal \<Rightarrow> uuid \<Rightarrow> uuid \<Rightarrow> uuid \<Rightarrow> uuid list \<Rightarrow> int \<Rightarrow> int \<Rightarrow> pgtx \<Rightarrow>
   (pos_db, pos_err, check) tx" where
  "moveItemsTx c p tenantID checkID targetCheckID itemIDs paid pending tx =
     tx_bind (lockChecks tx [checkID, targetCheckID]) (\<lambda>checks.
     case (checks checkID, checks targetCheckID) of
       (Some source, Some target) \<Rightarrow>
         tx_bind (tx_lift (requireBranch c p (chk_branch source))) (\<lambda>_.
         tx_bind (tx_require (chk_branch source = chk_branch target) PubCheckBranchMismatch) (\<lambda>_.
         tx_bind (tx_require (chk_status source = CheckStatusOpen \<and>
                              chk_status target = CheckStatusOpen) PubCheckNotOpen) (\<lambda>_.
         tx_bind (OrderRepo_ItemOwners tx itemIDs) (\<lambda>owners.
         tx_bind (tx_lift (assertItemsBelongToCheck owners itemIDs (chk_id source))) (\<lambda>_.
         tx_bind (if wrap64 (paid + pending) > 0
                  then tx_bind (CheckRepo_GetTotal tx (chk_id source)) (\<lambda>sourceTotal.
                       tx_require (\<not> wrap64 (sourceTotal - movedAmount owners)
                                     < wrap64 (paid + pending)) ErrItemAlreadyPaid)
                  else tx_return ()) (\<lambda>_.
         tx_bind (rehomeItems tx tenantID owners source target) (\<lambda>createdOrders.
         tx_bind (cancelEmptiedOrders tx tenantID (sourceOrderIDs owners) (chk_id source)
           (prn_person p)) (\<lambda>emptied.
         tx_bind (InsertOutbox tx tenantID ''check'' (chk_id source) ''check.items_moved''
           [(''tenant_id'', JId tenantID), (''check_id'', JId (chk_id source)),
            (''target_check_id'', JId (chk_id target)), (''branch_id'', JId (chk_branch source)),
            (''from_table'', JStr (chk_label source)), (''to_table'', JStr (chk_label target)),
            (''order_item_ids'', JIds itemIDs), (''created_order_ids'', JIds createdOrders),
            (''emptied_order_ids'', JIds emptied), (''moved_by'', JId (prn_person p))]) (\<lambda>_.
         tx_bind (announceOrderIDsMoved tx tenantID createdOrders (chk_id target) ''items_moved'')
           (\<lambda>_. tx_return target))))))))))
     | _ \<Rightarrow> tx_throw (ErrOther ''unreachable: lockChecks returns every id''))"

definition CheckService_MoveItems ::
  "sale_reader \<Rightarrow> ctx \<Rightarrow> uuid \<Rightarrow> principal \<Rightarrow> uuid \<Rightarrow> uuid \<Rightarrow> uuid list \<Rightarrow> (pos_db, pos_err, check) tx"
where
  "CheckService_MoveItems sr c tenantID p checkID targetCheckID itemIDs =
     (if checkID = targetCheckID then tx_throw ErrSameCheck
      else if itemIDs = [] then tx_throw ErrOrderItemNotFound
      else tx_bind (tx_lift (collectedTotals sr tenantID checkID)) (\<lambda>(paid, pending).
           tx_map_err wrapErr (WithTenantTx c tenantID
             (moveItemsTx c p tenantID checkID targetCheckID itemIDs paid pending))))"

end
