(* ===== verification/Catalog_Pricing.thy ===== *)
theory Catalog_Pricing
  imports Pos_State
begin

text \<open>
  What a cart line costs: catalog/repo/storefront_menu_repo.go and
  catalog/service/storefront_menu_service.go. The catalog's tables are only read
  here. \<open>priceLines\<close> is the one implementation of the rules that bound a line's
  price; the counter (\<open>PriceStaffCart\<close>) and the diner (\<open>PriceCart\<close>) differ in the
  base price they start from. The interface the point of sale relies on is the
  locale \<open>staff_pricer\<close> at the end.
\<close>

section \<open>Tables\<close>

record product =
  prd_id :: uuid
  prd_tenant :: uuid
  prd_name :: string
  prd_price :: int
  prd_cost :: "int option"
  prd_currency :: string
  prd_tax_bps :: int
  prd_active :: bool

record branch_override =
  bpo_tenant :: uuid
  bpo_branch :: uuid
  bpo_product :: uuid
  bpo_available :: bool
  bpo_price :: "int option"
  bpo_cost :: "int option"

record modifier_group =
  mgr_id :: uuid
  mgr_tenant :: uuid
  mgr_name :: string
  mgr_selection :: string
  mgr_max :: "int option"

record modifier_row =
  mod_id :: uuid
  mod_tenant :: uuid
  mod_group :: uuid
  mod_name :: string
  mod_delta :: int
  mod_active :: bool

record product_group_link =
  pmg_product :: uuid
  pmg_group :: uuid
  pmg_tenant :: uuid

record menu =
  mnu_id :: uuid
  mnu_tenant :: uuid
  mnu_branch :: "uuid option"
  mnu_active :: bool
  mnu_from :: "int option"
  mnu_until :: "int option"
  mnu_sort :: int

record menu_item =
  mit_menu :: uuid
  mit_product :: uuid
  mit_tenant :: uuid
  mit_price :: "int option"
  mit_active :: bool

record channel_availability =
  pca_tenant :: uuid
  pca_product :: uuid
  pca_channel :: string
  pca_integrator :: "string option"
  pca_available :: bool

record catalog_db =
  cat_products :: "product list"
  cat_overrides :: "branch_override list"
  cat_groups :: "modifier_group list"
  cat_modifiers :: "modifier_row list"
  cat_links :: "product_group_link list"
  cat_menus :: "menu list"
  cat_items :: "menu_item list"
  cat_channels :: "channel_availability list"

section \<open>Queries\<close>

record priced_product =
  ppr_id :: uuid
  ppr_name :: string
  ppr_price :: int
  ppr_cost :: "int option"
  ppr_currency :: string
  ppr_tax_bps :: int

record product_modifier =
  pmo_product :: uuid
  pmo_modifier :: uuid
  pmo_name :: string
  pmo_delta :: int
  pmo_group :: uuid
  pmo_group_name :: string
  pmo_selection :: string
  pmo_max :: int

definition first_some :: "'a option \<Rightarrow> 'a option \<Rightarrow> 'a option" where
  "first_some x y = (case x of None \<Rightarrow> y | Some _ \<Rightarrow> x)"

text \<open>\<open>LEFT JOIN\<close>: the matches, or one row of nulls.\<close>

definition left_join :: "'r list \<Rightarrow> 'r option list" where
  "left_join rows = (if rows = [] then [None] else map Some rows)"

text \<open>\<open>x IS DISTINCT FROM FALSE\<close> on the availability of a joined row.\<close>

definition not_switched_off :: "('r \<Rightarrow> bool) \<Rightarrow> 'r option \<Rightarrow> bool" where
  "not_switched_off available r = (case r of None \<Rightarrow> True | Some x \<Rightarrow> available x)"

definition product_overrides :: "pgtx \<Rightarrow> catalog_db \<Rightarrow> uuid \<Rightarrow> uuid \<Rightarrow> branch_override option list" where
  "product_overrides tx db branchID pid =
     left_join (rls_select bpo_tenant tx
       (\<lambda>ov. bpo_product ov = pid \<and> bpo_branch ov = branchID) (cat_overrides db))"

text \<open>A query's rows read into a map: the last row of a key stays.\<close>

definition rows_to_map :: "('r \<Rightarrow> 'k) \<Rightarrow> 'r list \<Rightarrow> 'k \<rightharpoonup> 'r" where
  "rows_to_map key rows = map_of (rev (map (\<lambda>r. (key r, r)) rows))"

definition PriceCatalogProducts ::
  "pgtx \<Rightarrow> catalog_db \<Rightarrow> uuid \<Rightarrow> uuid list \<Rightarrow> uuid \<rightharpoonup> priced_product" where
  "PriceCatalogProducts tx db branchID productIDs =
     (if productIDs = [] then Map.empty
      else rows_to_map ppr_id (concat (map (\<lambda>p. concat (map (\<lambda>ov.
        if not_switched_off bpo_available ov
        then [\<lparr>ppr_id = prd_id p, ppr_name = prd_name p,
               ppr_price = coalesce (Option.bind ov bpo_price) (prd_price p),
               ppr_cost = first_some (Option.bind ov bpo_cost) (prd_cost p),
               ppr_currency = prd_currency p, ppr_tax_bps = prd_tax_bps p\<rparr>]
        else []) (product_overrides tx db branchID (prd_id p))))
        (rls_select prd_tenant tx (\<lambda>p. prd_id p \<in> set productIDs \<and> prd_active p)
          (cat_products db)))))"

text \<open>\<open>storefrontMenuItemsCTE\<close>: the candidates for one product, and the winner by
  \<open>(m.branch_id IS NOT NULL) DESC, m.sort_order, m.id\<close>.\<close>

record menu_candidate =
  mca_product :: product
  mca_menu :: menu
  mca_item :: menu_item
  mca_override :: "branch_override option"

definition menu_open :: "uuid \<Rightarrow> int \<Rightarrow> menu \<Rightarrow> bool" where
  "menu_open branchID today m \<longleftrightarrow>
     mnu_active m \<and> (mnu_branch m = Some branchID \<or> mnu_branch m = None) \<and>
     (case mnu_from m of None \<Rightarrow> True | Some d \<Rightarrow> d \<le> today) \<and>
     (case mnu_until m of None \<Rightarrow> True | Some d \<Rightarrow> d \<ge> today)"

definition menu_candidates ::
  "pgtx \<Rightarrow> catalog_db \<Rightarrow> int \<Rightarrow> uuid \<Rightarrow> product \<Rightarrow> menu_candidate list" where
  "menu_candidates tx db today branchID p =
     concat (map (\<lambda>mi. concat (map (\<lambda>m. concat (map (\<lambda>ov.
         if not_switched_off bpo_available ov
         then [\<lparr>mca_product = p, mca_menu = m, mca_item = mi, mca_override = ov\<rparr>] else [])
         (product_overrides tx db branchID (prd_id p))))
       (rls_select mnu_tenant tx (\<lambda>m. mnu_id m = mit_menu mi \<and> menu_open branchID today m)
         (cat_menus db))))
     (rls_select mit_tenant tx (\<lambda>mi. mit_product mi = prd_id p \<and> mit_active mi) (cat_items db)))"

definition candidate_before :: "menu_candidate \<Rightarrow> menu_candidate \<Rightarrow> bool" where
  "candidate_before a b \<longleftrightarrow>
     (let ma = mca_menu a; mb = mca_menu b
      in if (mnu_branch ma \<noteq> None) \<noteq> (mnu_branch mb \<noteq> None) then mnu_branch ma \<noteq> None
         else if mnu_sort ma \<noteq> mnu_sort mb then mnu_sort ma < mnu_sort mb
         else mnu_id ma < mnu_id mb)"

definition visible_item :: "pgtx \<Rightarrow> catalog_db \<Rightarrow> int \<Rightarrow> uuid \<Rightarrow> product \<Rightarrow> menu_candidate option" where
  "visible_item tx db today branchID p =
     (case sort_by candidate_before (menu_candidates tx db today branchID p) of
        [] \<Rightarrow> None | c # _ \<Rightarrow> Some c)"

definition dine_in_rows :: "pgtx \<Rightarrow> catalog_db \<Rightarrow> uuid \<Rightarrow> channel_availability option list" where
  "dine_in_rows tx db pid =
     left_join (rls_select pca_tenant tx
       (\<lambda>a. pca_product a = pid \<and> pca_channel a = ''dine_in'' \<and> pca_integrator a = None)
       (cat_channels db))"

definition PriceProducts ::
  "pgtx \<Rightarrow> catalog_db \<Rightarrow> int \<Rightarrow> uuid \<Rightarrow> uuid list \<Rightarrow> uuid \<rightharpoonup> priced_product" where
  "PriceProducts tx db today branchID productIDs =
     (if productIDs = [] then Map.empty
      else rows_to_map ppr_id (concat (map (\<lambda>p.
        case visible_item tx db today branchID p of
          None \<Rightarrow> []
        | Some c \<Rightarrow> concat (map (\<lambda>a.
            if not_switched_off pca_available a
            then [\<lparr>ppr_id = prd_id p, ppr_name = prd_name p,
                   ppr_price = coalesce (first_some (Option.bind (mca_override c) bpo_price)
                                          (mit_price (mca_item c))) (prd_price p),
                   ppr_cost = first_some (Option.bind (mca_override c) bpo_cost) (prd_cost p),
                   ppr_currency = prd_currency p, ppr_tax_bps = prd_tax_bps p\<rparr>]
            else []) (dine_in_rows tx db (prd_id p))))
        (rls_select prd_tenant tx (\<lambda>p. prd_active p \<and> prd_id p \<in> set productIDs)
          (cat_products db)))))"

text \<open>A null \<open>max_selections\<close> reads as zero.\<close>

definition PriceModifiers ::
  "pgtx \<Rightarrow> catalog_db \<Rightarrow> uuid list \<Rightarrow> uuid list \<Rightarrow> product_modifier list" where
  "PriceModifiers tx db productIDs modifierIDs =
     (if productIDs = [] \<or> modifierIDs = [] then []
      else concat (map (\<lambda>mo. concat (map (\<lambda>g. map (\<lambda>l.
          \<lparr>pmo_product = pmg_product l, pmo_modifier = mod_id mo, pmo_name = mod_name mo,
           pmo_delta = mod_delta mo, pmo_group = mgr_id g, pmo_group_name = mgr_name g,
           pmo_selection = mgr_selection g,
           pmo_max = coalesce (mgr_max g) 0\<rparr>)
        (rls_select pmg_tenant tx (\<lambda>l. pmg_group l = mgr_id g \<and> pmg_product l \<in> set productIDs)
          (cat_links db)))
        (rls_select mgr_tenant tx (\<lambda>g. mgr_id g = mod_group mo) (cat_groups db))))
        (rls_select mod_tenant tx (\<lambda>mo. mod_active mo \<and> mod_id mo \<in> set modifierIDs)
          (cat_modifiers db))))"

section \<open>Pricing a cart\<close>

record staff_cart_line =
  scl_product :: uuid
  scl_qty :: int
  scl_modifiers :: "uuid list"

record priced_modifier =
  pmd_id :: uuid
  pmd_name :: string
  pmd_delta :: int

record priced_line =
  prl_product :: uuid
  prl_name :: string
  prl_base :: int
  prl_unit :: int
  prl_cost :: "int option"
  prl_currency :: string
  prl_tax_bps :: int
  prl_qty :: int
  prl_modifiers :: "priced_modifier list"

text \<open>The rejections are the \<open>ValidationError\<close>s, one per message; the other
  errors are those of the read transaction.\<close>

datatype price_error =
    CartEmpty
  | QuantityNotPositive
  | ProductNotOrderable uuid
  | ModifierRepeated uuid
  | ModifierNotAvailable uuid
  | TooManyOptions string
  | NegativePrice
  | PricingReadFailed

fun is_ValidationError :: "price_error \<Rightarrow> bool" where
  "is_ValidationError PricingReadFailed = False"
| "is_ValidationError _ = True"

definition groupSelectionLimit :: "product_modifier \<Rightarrow> int" where
  "groupSelectionLimit m = (if pmo_selection m = ''single'' then 1 else pmo_max m)"

definition by_pair :: "product_modifier list \<Rightarrow> uuid \<times> uuid \<rightharpoonup> product_modifier" where
  "by_pair ms = rows_to_map (\<lambda>m. (pmo_product m, pmo_modifier m)) ms"

definition start_line :: "priced_product \<Rightarrow> staff_cart_line \<Rightarrow> priced_line" where
  "start_line p l =
     \<lparr>prl_product = ppr_id p, prl_name = ppr_name p, prl_base = ppr_price p,
      prl_unit = ppr_price p, prl_cost = ppr_cost p, prl_currency = ppr_currency p,
      prl_tax_bps = ppr_tax_bps p, prl_qty = scl_qty l, prl_modifiers = []\<rparr>"

text \<open>The loop over the modifiers of one line: \<open>seen\<close> and \<open>perGroup\<close> are the two
  Go maps, empty when the line starts.\<close>

fun price_modifiers ::
  "(uuid \<times> uuid \<rightharpoonup> product_modifier) \<Rightarrow> uuid \<Rightarrow> uuid list \<Rightarrow> (uuid \<Rightarrow> int) \<Rightarrow> uuid list \<Rightarrow> priced_line \<Rightarrow>
   price_error + priced_line" where
  "price_modifiers byPair product seen perGroup [] pl = Inr pl"
| "price_modifiers byPair product seen perGroup (i # rest) pl =
     (if i \<in> set seen then Inl (ModifierRepeated i)
      else case byPair (product, i) of
        None \<Rightarrow> Inl (ModifierNotAvailable i)
      | Some m \<Rightarrow>
          let perGroup' = perGroup(pmo_group m := perGroup (pmo_group m) + 1);
              limit = groupSelectionLimit m
          in if limit > 0 \<and> perGroup' (pmo_group m) > limit
             then Inl (TooManyOptions (pmo_group_name m))
             else price_modifiers byPair product (i # seen) perGroup' rest
                    (pl\<lparr>prl_unit := wrap64 (prl_unit pl + pmo_delta m),
                        prl_modifiers := prl_modifiers pl @
                          [\<lparr>pmd_id = pmo_modifier m, pmd_name = pmo_name m,
                            pmd_delta = pmo_delta m\<rparr>]\<rparr>))"

definition price_line ::
  "(uuid \<rightharpoonup> priced_product) \<Rightarrow> (uuid \<times> uuid \<rightharpoonup> product_modifier) \<Rightarrow> staff_cart_line \<Rightarrow>
   price_error + priced_line" where
  "price_line priced byPair l =
     (case priced (scl_product l) of
        None \<Rightarrow> Inl (ProductNotOrderable (scl_product l))
      | Some p \<Rightarrow>
          (case price_modifiers byPair (scl_product l) [] (\<lambda>_. 0) (scl_modifiers l) (start_line p l) of
             Inl e \<Rightarrow> Inl e
           | Inr pl \<Rightarrow>
               if prl_unit pl < 0 then Inl NegativePrice
               else Inr (if prl_currency pl = '''' then pl\<lparr>prl_currency := ''TRY''\<rparr> else pl)))"

fun price_lines_loop ::
  "(staff_cart_line \<Rightarrow> price_error + priced_line) \<Rightarrow> staff_cart_line list \<Rightarrow>
   price_error + priced_line list" where
  "price_lines_loop f [] = Inr []"
| "price_lines_loop f (l # ls) =
     (case f l of Inl e \<Rightarrow> Inl e
      | Inr pl \<Rightarrow> (case price_lines_loop f ls of Inl e \<Rightarrow> Inl e | Inr out \<Rightarrow> Inr (pl # out)))"

text \<open>\<open>WithTenantReadTx\<close> refuses the nil tenant; the two queries of the
  transaction see one snapshot \<open>db\<close>.\<close>

definition priceLines ::
  "catalog_db \<Rightarrow> ctx \<Rightarrow> uuid \<Rightarrow> staff_cart_line list \<Rightarrow>
   (pgtx \<Rightarrow> catalog_db \<Rightarrow> uuid list \<Rightarrow> uuid \<rightharpoonup> priced_product) \<Rightarrow> price_error + priced_line list" where
  "priceLines db c tenantID lines basePrices =
     (if lines = [] then Inl CartEmpty
      else if \<exists>l \<in> set lines. scl_qty l < 1 then Inl QuantityNotPositive
      else if tenantID = uuid_Nil then Inl PricingReadFailed
      else let tx = \<lparr>tx_tenant = tenantID, tx_now = ctx_now c\<rparr>;
               productIDs = map scl_product lines;
               modifierIDs = concat (map scl_modifiers lines);
               priced = basePrices tx db productIDs;
               byPair = by_pair (PriceModifiers tx db productIDs modifierIDs)
           in price_lines_loop (price_line priced byPair) lines)"

definition PriceStaffCart ::
  "catalog_db \<Rightarrow> ctx \<Rightarrow> uuid \<Rightarrow> uuid \<Rightarrow> staff_cart_line list \<Rightarrow> price_error + priced_line list" where
  "PriceStaffCart db c tenantID branchID lines =
     priceLines db c tenantID lines (\<lambda>tx db ids. PriceCatalogProducts tx db branchID ids)"

definition PriceCart ::
  "catalog_db \<Rightarrow> ctx \<Rightarrow> int \<Rightarrow> uuid \<Rightarrow> uuid \<Rightarrow> staff_cart_line list \<Rightarrow> price_error + priced_line list" where
  "PriceCart db c today tenantID branchID lines =
     priceLines db c tenantID lines (\<lambda>tx db ids. PriceProducts tx db today branchID ids)"

section \<open>What a priced line is\<close>

text \<open>The specification of one accepted line: the product is priced, every chosen
  modifier belongs to it, none is repeated, no group exceeds its limit, and the
  unit price is the base price and the deltas.\<close>

definition group_count :: "(uuid \<times> uuid \<rightharpoonup> product_modifier) \<Rightarrow> uuid \<Rightarrow> uuid list \<Rightarrow> uuid \<Rightarrow> int" where
  "group_count byPair product ids g =
     int (length (filter (\<lambda>i. case byPair (product, i) of None \<Rightarrow> False
                              | Some m \<Rightarrow> pmo_group m = g) ids))"

definition line_delta :: "(uuid \<times> uuid \<rightharpoonup> product_modifier) \<Rightarrow> uuid \<Rightarrow> uuid list \<Rightarrow> int" where
  "line_delta byPair product ids =
     (\<Sum>i \<leftarrow> ids. case byPair (product, i) of None \<Rightarrow> 0 | Some m \<Rightarrow> pmo_delta m)"

definition selection_ok :: "(uuid \<times> uuid \<rightharpoonup> product_modifier) \<Rightarrow> uuid \<Rightarrow> uuid list \<Rightarrow> bool" where
  "selection_ok byPair product ids \<longleftrightarrow>
     distinct ids \<and>
     (\<forall>i \<in> set ids. case byPair (product, i) of None \<Rightarrow> False
        | Some m \<Rightarrow> groupSelectionLimit m > 0 \<longrightarrow>
                    group_count byPair product ids (pmo_group m) \<le> groupSelectionLimit m)"

lemma group_count_Cons:
  "group_count byPair p (i # ids) g =
   (case byPair (p, i) of None \<Rightarrow> 0 | Some m \<Rightarrow> if pmo_group m = g then 1 else 0) +
   group_count byPair p ids g"
  by (simp add: group_count_def split: option.splits)

lemma group_count_nonneg: "0 \<le> group_count byPair p ids g"
  by (simp add: group_count_def)

definition chosen_modifier :: "(uuid \<times> uuid \<rightharpoonup> product_modifier) \<Rightarrow> uuid \<Rightarrow> uuid \<Rightarrow> priced_modifier" where
  "chosen_modifier byPair product i =
     (let m = the (byPair (product, i))
      in \<lparr>pmd_id = pmo_modifier m, pmd_name = pmo_name m, pmd_delta = pmo_delta m\<rparr>)"

text \<open>The rules as the loop sees them part of the way through, with \<open>lim\<close> the limit
  of each group.\<close>

definition within_limit ::
  "(uuid \<times> uuid \<rightharpoonup> product_modifier) \<Rightarrow> (uuid \<Rightarrow> int) \<Rightarrow> uuid \<Rightarrow> (uuid \<Rightarrow> int) \<Rightarrow> uuid \<Rightarrow> bool" where
  "within_limit byPair lim product tally i \<longleftrightarrow>
     (case byPair (product, i) of None \<Rightarrow> False
      | Some m \<Rightarrow> lim (pmo_group m) > 0 \<longrightarrow> tally (pmo_group m) \<le> lim (pmo_group m))"

definition selection_from ::
  "(uuid \<times> uuid \<rightharpoonup> product_modifier) \<Rightarrow> (uuid \<Rightarrow> int) \<Rightarrow> uuid \<Rightarrow> uuid list \<Rightarrow> (uuid \<Rightarrow> int) \<Rightarrow>
   uuid list \<Rightarrow> bool" where
  "selection_from byPair lim product seen perGroup ids \<longleftrightarrow>
     distinct ids \<and> set ids \<inter> set seen = {} \<and>
     (\<forall>i \<in> set ids. within_limit byPair lim product
        (\<lambda>g. perGroup g + group_count byPair product ids g) i)"

lemma selection_from_Nil [simp]: "selection_from byPair lim p seen pg []"
  by (simp add: selection_from_def)

lemma selection_from_Cons:
  assumes m: "byPair (p, i) = Some m"
  shows "selection_from byPair lim p seen pg (i # ids) \<longleftrightarrow>
         i \<notin> set seen \<and> \<not> (lim (pmo_group m) > 0 \<and> pg (pmo_group m) + 1 > lim (pmo_group m)) \<and>
         selection_from byPair lim p (i # seen)
           (pg(pmo_group m := pg (pmo_group m) + 1)) ids"
proof -
  let ?g = "pmo_group m" and ?pg = "pg(pmo_group m := pg (pmo_group m) + 1)"
  let ?T = "\<lambda>g. pg g + group_count byPair p (i # ids) g"
  have shift: "(\<lambda>g. ?pg g + group_count byPair p ids g) = ?T"
    using m by (auto simp: group_count_Cons fun_eq_iff)
  have one: "\<not> (lim ?g > 0 \<and> pg ?g + 1 > lim ?g)" if "within_limit byPair lim p ?T i"
    using that m group_count_nonneg [of byPair p ids ?g]
    by (auto simp: within_limit_def group_count_Cons)
  have other: "within_limit byPair lim p ?T i"
    if "\<not> (lim ?g > 0 \<and> pg ?g + 1 > lim ?g)" and "\<forall>j \<in> set ids. within_limit byPair lim p ?T j"
  proof (cases "group_count byPair p ids ?g = 0")
    case True
    with that(1) m show ?thesis by (auto simp: within_limit_def group_count_Cons)
  next
    case False
    then obtain j m' where "j \<in> set ids" "byPair (p, j) = Some m'" "pmo_group m' = ?g"
      by (auto simp: group_count_def filter_empty_conv split: option.splits)
    with that(2) m show ?thesis by (force simp: within_limit_def)
  qed
  show ?thesis
    unfolding selection_from_def shift using one other by auto
qed

lemma price_modifiers_Inr:
  assumes lim: "\<And>k m. byPair k = Some m \<Longrightarrow> groupSelectionLimit m = lim (pmo_group m)"
    and "int64_range (prl_unit pl)"
  shows "price_modifiers byPair p seen pg ids pl = Inr out \<longleftrightarrow>
         selection_from byPair lim p seen pg ids \<and>
         out = pl\<lparr>prl_unit := wrap64 (prl_unit pl + line_delta byPair p ids),
                  prl_modifiers := prl_modifiers pl @ map (chosen_modifier byPair p) ids\<rparr>"
  using assms(2)
proof (induction ids arbitrary: seen pg pl)
  case Nil
  then show ?case by (auto simp: line_delta_def)
next
  case (Cons i ids)
  show ?case
  proof (cases "byPair (p, i)")
    case None
    then show ?thesis by (auto simp: selection_from_def within_limit_def)
  next
    case (Some m)
    let ?pl = "pl\<lparr>prl_unit := wrap64 (prl_unit pl + pmo_delta m),
                  prl_modifiers := prl_modifiers pl @ [chosen_modifier byPair p i]\<rparr>"
    have "price_modifiers byPair p seen pg (i # ids) pl = Inr out \<longleftrightarrow>
          i \<notin> set seen \<and> \<not> (lim (pmo_group m) > 0 \<and> pg (pmo_group m) + 1 > lim (pmo_group m)) \<and>
          price_modifiers byPair p (i # seen) (pg(pmo_group m := pg (pmo_group m) + 1)) ids ?pl = Inr out"
      using Some by (simp add: lim Let_def chosen_modifier_def)
    moreover have "wrap64 (wrap64 (prl_unit pl + pmo_delta m) + line_delta byPair p ids) =
                   wrap64 (prl_unit pl + line_delta byPair p (i # ids))"
      using Some by (simp add: wrap64_add line_delta_def algebra_simps)
    moreover have "price_modifiers byPair p (i # seen) (pg(pmo_group m := pg (pmo_group m) + 1)) ids
                     ?pl = Inr out \<longleftrightarrow>
        selection_from byPair lim p (i # seen) (pg(pmo_group m := pg (pmo_group m) + 1)) ids \<and>
        out = ?pl\<lparr>prl_unit := wrap64 (prl_unit ?pl + line_delta byPair p ids),
                  prl_modifiers := prl_modifiers ?pl @ map (chosen_modifier byPair p) ids\<rparr>"
      by (rule Cons.IH) (simp add: wrap64_range)
    ultimately show ?thesis
      unfolding selection_from_Cons [where byPair = byPair, OF Some] by simp
  qed
qed

lemma selection_from_start:
  assumes "\<And>k m. byPair k = Some m \<Longrightarrow> groupSelectionLimit m = lim (pmo_group m)"
  shows "selection_from byPair lim p [] (\<lambda>_. 0) ids \<longleftrightarrow> selection_ok byPair p ids"
proof -
  have "within_limit byPair lim p (group_count byPair p ids) i \<longleftrightarrow>
        (case byPair (p, i) of None \<Rightarrow> False
         | Some m \<Rightarrow> groupSelectionLimit m > 0 \<longrightarrow>
                     group_count byPair p ids (pmo_group m) \<le> groupSelectionLimit m)" for i
    by (cases "byPair (p, i)") (simp_all add: within_limit_def assms)
  then show ?thesis by (simp add: selection_from_def selection_ok_def)
qed

text \<open>One line, exactly: accepted if and only if the product is priced, the
  selection is within the rules and the price does not come out negative.\<close>

definition finished_line ::
  "(uuid \<times> uuid \<rightharpoonup> product_modifier) \<Rightarrow> priced_product \<Rightarrow> staff_cart_line \<Rightarrow> priced_line" where
  "finished_line byPair p l =
     (start_line p l)
       \<lparr>prl_unit := wrap64 (ppr_price p + line_delta byPair (scl_product l) (scl_modifiers l)),
        prl_modifiers := map (chosen_modifier byPair (scl_product l)) (scl_modifiers l),
        prl_currency := (if ppr_currency p = '''' then ''TRY'' else ppr_currency p)\<rparr>"

lemma price_line_Inr:
  assumes lim: "\<And>k m. byPair k = Some m \<Longrightarrow> groupSelectionLimit m = lim (pmo_group m)"
    and range: "\<And>p. p \<in> ran priced \<Longrightarrow> int64_range (ppr_price p)"
  shows "price_line priced byPair l = Inr pl \<longleftrightarrow>
         (\<exists>p. priced (scl_product l) = Some p \<and>
              selection_ok byPair (scl_product l) (scl_modifiers l) \<and>
              pl = finished_line byPair p l \<and> 0 \<le> prl_unit pl)"
proof (cases "priced (scl_product l)")
  case None
  then show ?thesis by (simp add: price_line_def)
next
  case (Some p)
  let ?out = "(start_line p l)
       \<lparr>prl_unit := wrap64 (ppr_price p + line_delta byPair (scl_product l) (scl_modifiers l)),
        prl_modifiers := map (chosen_modifier byPair (scl_product l)) (scl_modifiers l)\<rparr>"
  have p: "int64_range (prl_unit (start_line p l))"
    using Some range by (auto simp: start_line_def intro: ranI)
  have run: "price_modifiers byPair (scl_product l) [] (\<lambda>_. 0) (scl_modifiers l) (start_line p l) =
               Inr out \<longleftrightarrow>
             selection_from byPair lim (scl_product l) [] (\<lambda>_. 0) (scl_modifiers l) \<and>
             out = (start_line p l)
               \<lparr>prl_unit := wrap64 (prl_unit (start_line p l) +
                              line_delta byPair (scl_product l) (scl_modifiers l)),
                prl_modifiers := prl_modifiers (start_line p l) @
                              map (chosen_modifier byPair (scl_product l)) (scl_modifiers l)\<rparr>" for out
    by (rule price_modifiers_Inr [OF _ p]) (rule lim)
  have "selection_from byPair lim (scl_product l) [] (\<lambda>_. 0) (scl_modifiers l) \<longleftrightarrow>
        selection_ok byPair (scl_product l) (scl_modifiers l)"
    by (rule selection_from_start) (rule lim)
  with run have "price_modifiers byPair (scl_product l) [] (\<lambda>_. 0) (scl_modifiers l) (start_line p l) =
                   Inr out \<longleftrightarrow>
                 selection_ok byPair (scl_product l) (scl_modifiers l) \<and> out = ?out" for out
    by (simp add: start_line_def)
  then have "(if selection_ok byPair (scl_product l) (scl_modifiers l)
              then price_modifiers byPair (scl_product l) [] (\<lambda>_. 0) (scl_modifiers l)
                     (start_line p l) = Inr ?out
              else \<exists>e. price_modifiers byPair (scl_product l) [] (\<lambda>_. 0) (scl_modifiers l)
                     (start_line p l) = Inl e)"
    by (metis sum.exhaust)
  with Some show ?thesis
    by (auto simp: price_line_def finished_line_def start_line_def split: if_splits)
qed

lemma price_lines_loop_Inr:
  "price_lines_loop f ls = Inr out \<longleftrightarrow> list_all2 (\<lambda>l pl. f l = Inr pl) ls out"
proof (induction ls arbitrary: out)
  case Nil
  then show ?case by auto
next
  case (Cons l ls)
  then show ?case by (cases "f l"; cases "price_lines_loop f ls") (auto simp: list_all2_Cons1)
qed

lemma rows_to_map_Some: "rows_to_map key rows k = Some r \<Longrightarrow> r \<in> set rows \<and> key r = k"
  by (auto simp: rows_to_map_def dest: map_of_SomeD)

lemma by_pair_Some: "by_pair ms k = Some m \<Longrightarrow> m \<in> set ms \<and> k = (pmo_product m, pmo_modifier m)"
  by (auto simp: by_pair_def dest: rows_to_map_Some)

text \<open>What the constraints of the catalog's migrations give: unique ids, amounts
  in range.\<close>

definition catalog_ok :: "catalog_db \<Rightarrow> bool" where
  "catalog_ok db \<longleftrightarrow>
     distinct (map mgr_id (cat_groups db)) \<and>
     (\<forall>p \<in> set (cat_products db). int64_range (prd_price p)) \<and>
     (\<forall>b \<in> set (cat_overrides db). \<forall>x. bpo_price b = Some x \<longrightarrow> int64_range x)"

definition group_limit :: "catalog_db \<Rightarrow> uuid \<Rightarrow> int" where
  "group_limit db g =
     (case find_row (\<lambda>r. mgr_id r = g) (cat_groups db) of
        None \<Rightarrow> 0
      | Some r \<Rightarrow> if mgr_selection r = ''single'' then 1 else coalesce (mgr_max r) 0)"

lemma PriceModifiers_limit:
  assumes "distinct (map mgr_id (cat_groups db))" and "m \<in> set (PriceModifiers tx db ps ms)"
  shows "groupSelectionLimit m = group_limit db (pmo_group m)"
proof -
  from assms(2) obtain g where "g \<in> set (cat_groups db)" "pmo_group m = mgr_id g"
    "pmo_selection m = mgr_selection g" "pmo_max m = coalesce (mgr_max g) 0"
    by (auto simp: PriceModifiers_def split: if_splits)
  with assms(1) show ?thesis
    by (simp add: groupSelectionLimit_def group_limit_def find_row_key)
qed

lemma PriceCatalogProducts_Some:
  assumes "PriceCatalogProducts tx db branchID ids i = Some p"
  shows "\<exists>r ov. r \<in> set (cat_products db) \<and> prd_tenant r = tx_tenant tx \<and> prd_id r = i \<and>
           prd_active r \<and> ov \<in> set (product_overrides tx db branchID i) \<and>
           not_switched_off bpo_available ov \<and> ppr_id p = i \<and>
           ppr_price p = coalesce (Option.bind ov bpo_price) (prd_price r)"
  using assms
  by (fastforce simp: PriceCatalogProducts_def dest!: rows_to_map_Some split: if_splits)

lemma PriceCatalogProducts_range:
  assumes "catalog_ok db" and "PriceCatalogProducts tx db branchID ids i = Some p"
  shows "int64_range (ppr_price p)"
proof -
  obtain r ov where "r \<in> set (cat_products db)" "ov \<in> set (product_overrides tx db branchID i)"
    "ppr_price p = coalesce (Option.bind ov bpo_price) (prd_price r)"
    using PriceCatalogProducts_Some [OF assms(2)] by blast
  with assms(1) show ?thesis
    by (auto simp: catalog_ok_def coalesce_def product_overrides_def left_join_def
        split: option.splits if_splits)
qed

text \<open>The modifier rows of a cart.\<close>

definition cart_modifiers ::
  "pgtx \<Rightarrow> catalog_db \<Rightarrow> staff_cart_line list \<Rightarrow> uuid \<times> uuid \<rightharpoonup> product_modifier" where
  "cart_modifiers tx db lines =
     by_pair (PriceModifiers tx db (map scl_product lines) (concat (map scl_modifiers lines)))"

definition line_priced ::
  "(uuid \<rightharpoonup> priced_product) \<Rightarrow> (uuid \<times> uuid \<rightharpoonup> product_modifier) \<Rightarrow> staff_cart_line \<Rightarrow> priced_line \<Rightarrow> bool"
where
  "line_priced priced byPair l pl \<longleftrightarrow>
     (\<exists>p. priced (scl_product l) = Some p \<and>
          selection_ok byPair (scl_product l) (scl_modifiers l) \<and>
          pl = finished_line byPair p l \<and> 0 \<le> prl_unit pl)"

lemma priceLines_Inr:
  assumes "distinct (map mgr_id (cat_groups db))"
    and "\<And>tx i p. basePrices tx db (map scl_product lines) i = Some p \<Longrightarrow> int64_range (ppr_price p)"
  shows "priceLines db c tenantID lines basePrices = Inr out \<longleftrightarrow>
         (let tx = \<lparr>tx_tenant = tenantID, tx_now = ctx_now c\<rparr>
          in lines \<noteq> [] \<and> (\<forall>l \<in> set lines. 1 \<le> scl_qty l) \<and> tenantID \<noteq> uuid_Nil \<and>
             list_all2 (line_priced (basePrices tx db (map scl_product lines))
                         (cart_modifiers tx db lines)) lines out)"
proof -
  let ?tx = "\<lparr>tx_tenant = tenantID, tx_now = ctx_now c\<rparr>"
  let ?priced = "basePrices ?tx db (map scl_product lines)" and ?by = "cart_modifiers ?tx db lines"
  have lim: "groupSelectionLimit m = group_limit db (pmo_group m)" if "?by k = Some m" for k m
    using that PriceModifiers_limit [OF assms(1)]
    by (auto simp: cart_modifiers_def dest!: by_pair_Some)
  have range: "int64_range (ppr_price p)" if "p \<in> ran ?priced" for p
    using that assms(2) by (auto simp: ran_def)
  have "price_line ?priced ?by l = Inr pl \<longleftrightarrow> line_priced ?priced ?by l pl" for l pl
    unfolding line_priced_def by (rule price_line_Inr [OF lim range])
  then have "price_lines_loop (price_line ?priced ?by) lines = Inr out \<longleftrightarrow>
             list_all2 (line_priced ?priced ?by) lines out"
    by (simp add: price_lines_loop_Inr)
  moreover have "(\<exists>l \<in> set lines. scl_qty l < 1) \<longleftrightarrow> \<not> (\<forall>l \<in> set lines. 1 \<le> scl_qty l)"
    by force
  ultimately show ?thesis by (simp add: priceLines_def Let_def cart_modifiers_def)
qed

text \<open>Every error of the function that is not of the read transaction is a
  validation error; the rest of an accepted cart is positional.\<close>

lemma price_modifiers_error:
  "price_modifiers byPair p seen pg ids pl = Inl e \<Longrightarrow> is_ValidationError e"
  by (induction byPair p seen pg ids pl rule: price_modifiers.induct)
     (auto simp: Let_def split: if_splits option.splits)

lemma price_line_error: "price_line priced byPair l = Inl e \<Longrightarrow> is_ValidationError e"
  by (auto simp: price_line_def dest: price_modifiers_error split: option.splits sum.splits if_splits)

lemma price_lines_loop_error:
  "price_lines_loop f ls = Inl e \<Longrightarrow> \<exists>l \<in> set ls. f l = Inl e"
  by (induction ls) (auto split: sum.splits)

lemma price_modifiers_keeps:
  "price_modifiers byPair p seen pg ids pl = Inr out \<Longrightarrow>
   prl_product out = prl_product pl \<and> prl_qty out = prl_qty pl"
  by (induction byPair p seen pg ids pl rule: price_modifiers.induct)
     (auto simp: Let_def split: if_splits option.splits)

lemma price_line_keeps:
  assumes "price_line priced byPair l = Inr pl"
    and "\<And>i p. priced i = Some p \<Longrightarrow> ppr_id p = i"
  shows "prl_product pl = scl_product l \<and> prl_qty pl = scl_qty l \<and> 0 \<le> prl_unit pl"
  using assms
  by (auto simp: price_line_def start_line_def dest!: price_modifiers_keeps
      split: option.splits sum.splits if_splits)

section \<open>The interface\<close>

text \<open>\<open>catalog/public.StaffPricer\<close>: exactly one line out per line in, in the order of
  the input, or an error; never a negative price.\<close>

locale staff_pricer =
  fixes price :: "uuid \<Rightarrow> uuid \<Rightarrow> staff_cart_line list \<Rightarrow> price_error + priced_line list"
  assumes one_per_line:
    "price tenantID branchID lines = Inr out \<Longrightarrow>
     list_all2 (\<lambda>l pl. prl_product pl = scl_product l \<and> prl_qty pl = scl_qty l \<and> 0 \<le> prl_unit pl)
       lines out"
begin

lemma same_length: "price tenantID branchID lines = Inr out \<Longrightarrow> length out = length lines"
  by (drule one_per_line) (simp add: list_all2_lengthD)

end

interpretation catalog: staff_pricer "PriceStaffCart db c" for db c
proof unfold_locales
  fix tenantID branchID lines out
  assume "PriceStaffCart db c tenantID branchID lines = Inr out"
  then have "list_all2 (\<lambda>l pl. price_line
       (PriceCatalogProducts \<lparr>tx_tenant = tenantID, tx_now = ctx_now c\<rparr> db branchID (map scl_product lines))
       (cart_modifiers \<lparr>tx_tenant = tenantID, tx_now = ctx_now c\<rparr> db lines) l = Inr pl) lines out"
    by (auto simp: PriceStaffCart_def priceLines_def Let_def cart_modifiers_def price_lines_loop_Inr
        split: if_splits)
  then show "list_all2 (\<lambda>l pl. prl_product pl = scl_product l \<and> prl_qty pl = scl_qty l \<and> 0 \<le> prl_unit pl)
       lines out"
    by (rule list_all2_mono) (auto dest!: price_line_keeps dest: PriceCatalogProducts_Some)
qed

end
