(* ===== verification/Pos_Order_Service.thy ===== *)
theory Pos_Order_Service
  imports Pos_Check_Service Catalog_Pricing
begin

text \<open>
  pos/service/order_service.go: placing orders at the counter and from a QR code,
  and moving them through the kitchen. The catalog is consulted through
  \<open>catalogpub.StaffPricer\<close>, a parameter here; Catalog_Pricing provides it.
\<close>

type_synonym pricer = "uuid \<Rightarrow> uuid \<Rightarrow> staff_cart_line list \<Rightarrow> price_error + priced_line list"

fun order_channel_string :: "order_channel \<Rightarrow> string" where
  "order_channel_string OrderChannelDineIn = ''dine_in''"
| "order_channel_string OrderChannelTakeaway = ''takeaway''"
| "order_channel_string OrderChannelDelivery = ''delivery''"
| "order_channel_string (OrderChannelOther s) = s"

section \<open>Placing at the counter\<close>

definition applyBirthStatus ::
  "pgtx \<Rightarrow> order \<Rightarrow> uuid option \<Rightarrow> (pos_db, pos_err, order) tx" where
  "applyBirthStatus tx r acceptedBy =
     tx_bind (BranchSettingsRepo_OrderFlowByBranch tx (ord_branch r)) (\<lambda>flow.
     tx_return (if flow \<noteq> OrderFlowSimple then r\<lparr>ord_status := OrderStatusPending\<rparr>
                else r\<lparr>ord_status := OrderStatusAccepted, ord_accepted_at := Some (tx_now tx),
                       ord_accepted_by := acceptedBy\<rparr>))"

definition insertBornAcceptedEvent :: "pgtx \<Rightarrow> order \<Rightarrow> (pos_db, pos_err, unit) tx" where
  "insertBornAcceptedEvent tx created =
     (if ord_status created \<noteq> OrderStatusAccepted then tx_return ()
      else InsertOutbox tx (ord_tenant created) ''order'' (ord_id created) ''order.accepted''
             [(''tenant_id'', JId (ord_tenant created)), (''order_id'', JId (ord_id created)),
              (''accepted_by'', json_opt_id (ord_accepted_by created))])"

fun reprice_loop :: "order_item list \<Rightarrow> priced_line list \<Rightarrow> pos_err + order_item list" where
  "reprice_loop (it # its) (p # ps) =
     (if itm_unit_price it \<noteq> prl_unit p then Inl ErrPriceMismatch
      else case reprice_loop its ps of
        Inl e \<Rightarrow> Inl e
      | Inr rest \<Rightarrow> Inr (it\<lparr>itm_name := prl_name p, itm_price := prl_base p,
                            itm_unit_cost := prl_cost p, itm_currency := prl_currency p,
                            itm_tax_bps := prl_tax_bps p\<rparr> # rest))"
| "reprice_loop _ _ = Inr []"

definition cart_line :: "order_item \<Rightarrow> staff_cart_line" where
  "cart_line it =
     \<lparr>scl_product = itm_product it, scl_qty = itm_qty it, scl_modifiers = itm_modifiers it\<rparr>"

definition repriceItems ::
  "pricer \<Rightarrow> uuid \<Rightarrow> uuid \<Rightarrow> order_item list \<Rightarrow> pos_err + order_item list" where
  "repriceItems price tenantID branchID items =
     (if items = [] then Inr []
      else case price tenantID branchID (map cart_line items) of
        Inl e \<Rightarrow> (if is_ValidationError e then Inl ErrInvalidOrderLine
                 else Inl (ErrOther ''price order lines''))
      | Inr priced \<Rightarrow>
          (if length priced \<noteq> length items
           then Inl (ErrOther ''pricer returned another number of lines'')
           else reprice_loop items priced))"

definition lockWritableCheck ::
  "pgtx \<Rightarrow> uuid option \<Rightarrow> uuid \<Rightarrow> (pos_db, pos_err, check option) tx" where
  "lockWritableCheck tx checkID branchID =
     (case checkID of
        None \<Rightarrow> tx_return None
      | Some i \<Rightarrow>
          if i = uuid_Nil then tx_return None
          else tx_bind (CheckRepo_GetForUpdate tx i) (\<lambda>current.
               tx_bind (tx_lift (assertCheckWritable current branchID)) (\<lambda>_.
               tx_return (Some current))))"

definition derivePax :: "pgtx \<Rightarrow> check option \<Rightarrow> order_item list \<Rightarrow> (pos_db, pos_err, unit) tx" where
  "derivePax tx k items =
     (case k of
        None \<Rightarrow> tx_return ()
      | Some k \<Rightarrow>
          if chk_service k \<noteq> ServiceTypeDineIn then tx_return ()
          else let maxSeat = MaxItemSeatNo items
               in if maxSeat = 0 \<or> maxSeat \<le> chk_pax k then tx_return ()
                  else CheckRepo_RaisePax tx (chk_id k) maxSeat)"

definition placeTx ::
  "principal \<Rightarrow> uuid \<Rightarrow> order \<Rightarrow> pgtx \<Rightarrow> (pos_db, pos_err, order) tx" where
  "placeTx p tenantID r tx =
     tx_bind (applyBirthStatus tx r (Some (prn_person p))) (\<lambda>r.
     tx_bind (lockWritableCheck tx (ord_check r) (ord_branch r)) (\<lambda>k.
     tx_bind (OrderRepo_Create tx r) (\<lambda>created.
     tx_bind (derivePax tx k (ord_items created)) (\<lambda>_.
     tx_bind (InsertOutbox tx tenantID ''order'' (ord_id created) ''order.placed''
       [(''tenant_id'', JId tenantID), (''order_id'', JId (ord_id created)),
        (''branch_id'', JId (ord_branch created)), (''check_id'', json_opt_id (ord_check created)),
        (''order_channel'', JStr (order_channel_string (ord_channel created))),
        (''item_count'', JInt (int (length (ord_items created))))]) (\<lambda>_.
     tx_bind (insertBornAcceptedEvent tx created) (\<lambda>_.
     tx_return created))))))"

definition OrderService_Place ::
  "pricer \<Rightarrow> ctx \<Rightarrow> uuid \<Rightarrow> principal \<Rightarrow> order \<Rightarrow> (pos_db, pos_err, order) tx" where
  "OrderService_Place price c tenantID p r =
     tx_bind (tx_lift (requireBranch c p (ord_branch r))) (\<lambda>_.
     tx_bind (tx_require (OrderChannel_Valid (ord_channel r)) (ErrOther ''invalid channel'')) (\<lambda>_.
     tx_bind (tx_require (\<forall>it \<in> set (ord_items r). ValidSeatNo (itm_seat it)) ErrInvalidSeatNo) (\<lambda>_.
     tx_bind (tx_lift (repriceItems price tenantID (ord_branch r) (ord_items r))) (\<lambda>its.
     let r = r\<lparr>ord_items := its, ord_tenant := tenantID\<rparr>
     in tx_map_err wrapErr (WithTenantTx c tenantID (placeTx p tenantID r))))))"

section \<open>Placing from a QR code\<close>

record guest_order_line =
  gol_product :: uuid
  gol_name :: string
  gol_base :: int
  gol_unit :: int
  gol_cost :: "int option"
  gol_currency :: string
  gol_tax_bps :: int
  gol_qty :: int
  gol_note :: string
  gol_modifiers :: "uuid list"

record guest_order_request =
  gor_tenant :: uuid
  gor_branch :: uuid
  gor_table :: uuid
  gor_qr :: uuid
  gor_session :: uuid
  gor_lines :: "guest_order_line list"
  gor_note :: string

record guest_order_result =
  gre_order :: uuid
  gre_check :: uuid
  gre_status :: string

text \<open>\<open>GuestOrderLinker\<close>: the storefront's callback, which writes rows of its own in
  the same transaction and may refuse. None is a nil callback.\<close>

type_synonym guest_linker = "(pgtx \<Rightarrow> guest_order_result \<Rightarrow> pos_err + unit) option"

definition guest_item :: "guest_order_line \<Rightarrow> order_item" where
  "guest_item l =
     \<lparr>itm_id = uuid_Nil, itm_tenant = uuid_Nil, itm_order = uuid_Nil, itm_product = gol_product l,
      itm_name = gol_name l, itm_price = gol_base l,
      itm_currency = (if gol_currency l = '''' then ''TRY'' else gol_currency l),
      itm_tax_bps = gol_tax_bps l, itm_qty = gol_qty l, itm_unit_price = gol_unit l,
      itm_unit_cost = gol_cost l, itm_note = gol_note l, itm_created = 0,
      itm_modifiers = gol_modifiers l, itm_seat = 0\<rparr>"

definition guestOrderItems :: "guest_order_line list \<Rightarrow> order_item list" where
  "guestOrderItems lines = map guest_item lines"

definition guest_check :: "guest_order_request \<Rightarrow> check" where
  "guest_check req =
     zero_check\<lparr>chk_tenant := gor_tenant req, chk_branch := gor_branch req,
       chk_table := Some (gor_table req), chk_pax := 1, chk_status := CheckStatusOpen,
       chk_opened_by := None, chk_opened_kind := OpenedByKindGuestQR,
       chk_source := SourceOnlineQR\<rparr>"

text \<open>The empty result of the lookup locks nothing: other transactions may commit
  before the table row is locked. \<open>others\<close> is what they do to the database.\<close>

definition resolveGuestCheck ::
  "(pos_db \<Rightarrow> pos_db) \<Rightarrow> pgtx \<Rightarrow> guest_order_request \<Rightarrow> (pos_db, pos_err, check) tx" where
  "resolveGuestCheck others tx req s =
     (case CheckRepo_GetOpenByTableForUpdate tx (gor_table req) s of
        Inr (existing, s') \<Rightarrow>
          (if chk_branch existing \<noteq> gor_branch req then Inl PubTableBranchMismatch
           else Inr (existing, s'))
      | Inl e \<Rightarrow>
          (if e = RepoNotFound then openCheckTx tx (guest_check req) guestTableGuard (others s)
           else Inl e))"

definition mapGuestErr :: "pos_err \<Rightarrow> pos_err" where
  "mapGuestErr e =
     (if e = PubTableNotReady \<or> e = PubTableOccupied \<or> e = PubTableBranchMismatch \<or>
         e = PubTableNotFound then e
      else if e = RepoTableOccupied then PubTableOccupied
      else if e = RepoNotFound then PubTableNotFound
      else e)"

definition guest_order :: "guest_order_request \<Rightarrow> order" where
  "guest_order req =
     zero_order\<lparr>ord_tenant := gor_tenant req, ord_branch := gor_branch req,
       ord_channel := OrderChannelDineIn, ord_source := SourceOnlineQR,
       ord_note := gor_note req, ord_items := guestOrderItems (gor_lines req)\<rparr>"

definition placeGuestTx ::
  "(pos_db \<Rightarrow> pos_db) \<Rightarrow> guest_order_request \<Rightarrow> guest_linker \<Rightarrow> pgtx \<Rightarrow>
   (pos_db, pos_err, guest_order_result) tx" where
  "placeGuestTx others req link tx =
     tx_bind (applyBirthStatus tx (guest_order req) None) (\<lambda>r.
     tx_bind (resolveGuestCheck others tx req) (\<lambda>k.
     tx_bind (OrderRepo_Create tx (r\<lparr>ord_check := Some (chk_id k)\<rparr>)) (\<lambda>created.
     let result = \<lparr>gre_order = ord_id created, gre_check = chk_id k,
                   gre_status = order_status_string (ord_status created)\<rparr>
     in tx_bind (case link of None \<Rightarrow> tx_return () | Some f \<Rightarrow> tx_lift (f tx result)) (\<lambda>_.
        tx_bind (InsertOutbox tx (gor_tenant req) ''order'' (ord_id created) ''order.placed''
          [(''tenant_id'', JId (gor_tenant req)), (''order_id'', JId (ord_id created)),
           (''branch_id'', JId (ord_branch created)),
           (''check_id'', json_opt_id (ord_check created)),
           (''order_channel'', JStr (order_channel_string (ord_channel created))),
           (''source'', JStr (source_string (ord_source created))),
           (''item_count'', JInt (int (length (ord_items created))))]) (\<lambda>_.
        tx_bind (insertBornAcceptedEvent tx created) (\<lambda>_.
        tx_return result))))))"

definition placeGuestOnce ::
  "(pos_db \<Rightarrow> pos_db) \<Rightarrow> ctx \<Rightarrow> guest_order_request \<Rightarrow> guest_linker \<Rightarrow>
   (pos_db, pos_err, guest_order_result) tx" where
  "placeGuestOnce others c req link =
     tx_map_err mapGuestErr (WithTenantTx c (gor_tenant req) (placeGuestTx others req link))"

text \<open>One retry, for an occupied table only. The first attempt is rolled back, what
  the others committed meanwhile stays.\<close>

definition OrderService_PlaceGuest ::
  "(pos_db \<Rightarrow> pos_db) \<Rightarrow> (pos_db \<Rightarrow> pos_db) \<Rightarrow> ctx \<Rightarrow> guest_order_request \<Rightarrow> guest_linker \<Rightarrow>
   (pos_db, pos_err, guest_order_result) tx" where
  "OrderService_PlaceGuest others others' c req link s =
     (if gor_lines req = [] then Inl (ErrOther ''no lines'')
      else case placeGuestOnce others c req link s of
        Inr r \<Rightarrow> Inr r
      | Inl e \<Rightarrow> (if e = PubTableOccupied then placeGuestOnce others' c req link (others s)
                 else Inl e))"

section \<open>Reads\<close>

definition OrderService_GetByID :: "ctx \<Rightarrow> uuid \<Rightarrow> uuid \<Rightarrow> (pos_db, pos_err, order) tx" where
  "OrderService_GetByID c tenantID orderID =
     tx_map_err wrapErr (WithTenantReadTx c tenantID (\<lambda>tx. OrderRepo_GetByID tx orderID))"

record guest_item_view =
  giv_name :: string
  giv_qty :: int
  giv_unit :: int
  giv_note :: string

record guest_order_view =
  gov_id :: uuid
  gov_check :: "uuid option"
  gov_status :: string
  gov_note :: string
  gov_items :: "guest_item_view list"
  gov_created :: time
  gov_updated :: time

definition OrderService_GetGuestOrder ::
  "ctx \<Rightarrow> uuid \<Rightarrow> uuid \<Rightarrow> (pos_db, pos_err, guest_order_view) tx" where
  "OrderService_GetGuestOrder c tenantID orderID =
     tx_bind (OrderService_GetByID c tenantID orderID) (\<lambda>r.
     tx_return
       \<lparr>gov_id = ord_id r, gov_check = ord_check r,
        gov_status = order_status_string (ord_status r), gov_note = ord_note r,
        gov_items = map (\<lambda>it. \<lparr>giv_name = itm_name it, giv_qty = itm_qty it,
                               giv_unit = itm_unit_price it, giv_note = itm_note it\<rparr>) (ord_items r),
        gov_created = ord_created r, gov_updated = ord_updated r\<rparr>)"

record guest_table =
  gtb_id :: uuid
  gtb_branch :: uuid
  gtb_label :: string
  gtb_status :: table_status
  gtb_active :: bool

definition guest_table_err :: "pos_err \<Rightarrow> pos_err" where
  "guest_table_err e = (if e = RepoNotFound then PubTableNotFound else e)"

definition OrderService_GetGuestTable :: "ctx \<Rightarrow> uuid \<Rightarrow> uuid \<Rightarrow> (pos_db, pos_err, guest_table) tx" where
  "OrderService_GetGuestTable c tenantID tableID =
     tx_bind (tx_map_err guest_table_err
       (WithTenantReadTx c tenantID (\<lambda>tx. TableRepo_GetTableByID tx tableID))) (\<lambda>t.
     tx_return \<lparr>gtb_id = tbl_id t, gtb_branch = tbl_branch t, gtb_label = tbl_name t,
                gtb_status = tbl_status t, gtb_active = tbl_active t\<rparr>)"

definition OrderService_ListByIDs :: "ctx \<Rightarrow> uuid \<Rightarrow> uuid list \<Rightarrow> (pos_db, pos_err, order list) tx" where
  "OrderService_ListByIDs c tenantID orderIDs =
     (if orderIDs = [] then tx_return []
      else WithTenantReadTx c tenantID (\<lambda>tx. OrderRepo_ListByIDs tx orderIDs))"

definition OrderService_ListByCheck :: "ctx \<Rightarrow> uuid \<Rightarrow> uuid \<Rightarrow> (pos_db, pos_err, order list) tx" where
  "OrderService_ListByCheck c tenantID checkID =
     WithTenantReadTx c tenantID (\<lambda>tx. OrderRepo_ListByCheck tx checkID)"

definition OrderService_ListActiveByBranch ::
  "ctx \<Rightarrow> uuid \<Rightarrow> uuid \<Rightarrow> (pos_db, pos_err, order list) tx" where
  "OrderService_ListActiveByBranch c tenantID branchID =
     WithTenantReadTx c tenantID (\<lambda>tx. OrderRepo_ListActiveByBranch tx branchID)"

section \<open>Moving through the kitchen\<close>

definition lockOrderForTransition ::
  "ctx \<Rightarrow> principal \<Rightarrow> pgtx \<Rightarrow> uuid \<Rightarrow> (pos_db, pos_err, order) tx" where
  "lockOrderForTransition c p tx orderID =
     tx_bind (OrderRepo_GetHeader tx orderID) (\<lambda>peek.
     tx_bind (tx_lift (requireBranch c p (ord_branch peek))) (\<lambda>_.
     tx_bind (lockWritableCheck tx (ord_check peek) (ord_branch peek)) (\<lambda>_.
     OrderRepo_GetForUpdate tx orderID)))"

definition acceptTx ::
  "ctx \<Rightarrow> principal \<Rightarrow> uuid \<Rightarrow> uuid \<Rightarrow> uuid \<Rightarrow> pgtx \<Rightarrow> (pos_db, pos_err, order) tx" where
  "acceptTx c p tenantID orderID acceptedBy tx =
     tx_bind (lockOrderForTransition c p tx orderID) (\<lambda>current.
     tx_bind (tx_lift (TransitionOrderStatus (ord_status current) OrderStatusAccepted)) (\<lambda>_.
     tx_bind (OrderRepo_Accept tx orderID acceptedBy (ord_status current)) (\<lambda>r.
     tx_bind (InsertOutbox tx tenantID ''order'' orderID ''order.accepted''
       [(''tenant_id'', JId tenantID), (''order_id'', JId orderID),
        (''accepted_by'', JId acceptedBy)]) (\<lambda>_.
     tx_return r))))"

definition OrderService_Accept ::
  "ctx \<Rightarrow> uuid \<Rightarrow> principal \<Rightarrow> uuid \<Rightarrow> uuid \<Rightarrow> (pos_db, pos_err, order) tx" where
  "OrderService_Accept c tenantID p orderID acceptedBy =
     tx_map_err wrapErr (WithTenantTx c tenantID (acceptTx c p tenantID orderID acceptedBy))"

definition rejectTx ::
  "ctx \<Rightarrow> principal \<Rightarrow> uuid \<Rightarrow> uuid \<Rightarrow> uuid \<Rightarrow> string \<Rightarrow> pgtx \<Rightarrow> (pos_db, pos_err, order) tx" where
  "rejectTx c p tenantID orderID rejectedBy reason tx =
     tx_bind (lockOrderForTransition c p tx orderID) (\<lambda>current.
     tx_bind (tx_lift (TransitionOrderStatus (ord_status current) OrderStatusRejected)) (\<lambda>_.
     tx_bind (OrderRepo_Reject tx orderID rejectedBy reason (ord_status current)) (\<lambda>r.
     tx_bind (InsertOutbox tx tenantID ''order'' orderID ''order.rejected''
       [(''tenant_id'', JId tenantID), (''order_id'', JId orderID),
        (''rejected_by'', JId rejectedBy), (''reason'', JStr reason)]) (\<lambda>_.
     tx_return r))))"

definition OrderService_Reject ::
  "ctx \<Rightarrow> uuid \<Rightarrow> principal \<Rightarrow> uuid \<Rightarrow> uuid \<Rightarrow> string \<Rightarrow> (pos_db, pos_err, order) tx" where
  "OrderService_Reject c tenantID p orderID rejectedBy reason =
     tx_map_err wrapErr (WithTenantTx c tenantID (rejectTx c p tenantID orderID rejectedBy reason))"

definition transitionTx ::
  "ctx \<Rightarrow> principal \<Rightarrow> uuid \<Rightarrow> uuid \<Rightarrow> order_status \<Rightarrow> (string \<times> json) list \<Rightarrow> pgtx \<Rightarrow>
   (pos_db, pos_err, order) tx" where
  "transitionTx c p tenantID orderID status extra tx =
     tx_bind (lockOrderForTransition c p tx orderID) (\<lambda>current.
     tx_bind (tx_lift (TransitionOrderStatus (ord_status current) status)) (\<lambda>_.
     tx_bind (OrderRepo_AdvanceStatus tx orderID status (ord_status current)) (\<lambda>r.
     tx_bind (InsertOutbox tx tenantID ''order'' orderID ''order.status_changed''
       ([(''tenant_id'', JId tenantID), (''order_id'', JId orderID),
         (''status'', JStr (order_status_string status))] @ extra)) (\<lambda>_.
     tx_return r))))"

definition OrderService_transition ::
  "ctx \<Rightarrow> uuid \<Rightarrow> principal \<Rightarrow> uuid \<Rightarrow> order_status \<Rightarrow> (string \<times> json) list \<Rightarrow>
   (pos_db, pos_err, order) tx" where
  "OrderService_transition c tenantID p orderID status extra =
     WithTenantTx c tenantID (transitionTx c p tenantID orderID status extra)"

definition OrderService_AdvanceStatus ::
  "ctx \<Rightarrow> uuid \<Rightarrow> principal \<Rightarrow> uuid \<Rightarrow> order_status \<Rightarrow> (pos_db, pos_err, order) tx" where
  "OrderService_AdvanceStatus c tenantID p orderID status =
     (if \<not> IsKitchenAdvanceTarget status
      then (if status = OrderStatusAccepted \<or> status = OrderStatusRejected \<or>
               status = OrderStatusCancelled
            then tx_throw ErrUseDedicatedEndpoint else tx_throw ErrInvalidOrderStatus)
      else tx_map_err wrapErr (OrderService_transition c tenantID p orderID status []))"

definition OrderService_Cancel ::
  "ctx \<Rightarrow> uuid \<Rightarrow> principal \<Rightarrow> uuid \<Rightarrow> uuid \<Rightarrow> (pos_db, pos_err, order) tx" where
  "OrderService_Cancel c tenantID p orderID cancelledBy =
     tx_map_err wrapErr (OrderService_transition c tenantID p orderID OrderStatusCancelled
       [(''cancelled_by'', JId cancelledBy)])"

end
