(* ===== verification/Pos_Table_Service.thy ===== *)
theory Pos_Table_Service
  imports Pos_Guards
begin

text \<open>
  pos/service/table_service.go and pos/service/branch_settings_service.go.
\<close>

section \<open>Zones\<close>

definition TableService_CreateZone ::
  "ctx \<Rightarrow> uuid \<Rightarrow> principal \<Rightarrow> table_zone \<Rightarrow> (pos_db, pos_err, table_zone) tx" where
  "TableService_CreateZone c tenantID p z =
     tx_bind (tx_lift (requireBranch c p (zon_branch z))) (\<lambda>_.
     let z = z\<lparr>zon_tenant := tenantID\<rparr>;
         z = (if \<not> zon_active z then z\<lparr>zon_active := True\<rparr> else z)
     in WithTenantTx c tenantID (\<lambda>tx. TableRepo_CreateZone tx z))"

definition TableService_ListZones ::
  "ctx \<Rightarrow> uuid \<Rightarrow> principal \<Rightarrow> uuid \<Rightarrow> (pos_db, pos_err, table_zone list) tx" where
  "TableService_ListZones c tenantID p branchID =
     tx_bind (tx_lift (requireBranch c p branchID)) (\<lambda>_.
     WithTenantReadTx c tenantID (\<lambda>tx. TableRepo_ListZonesByBranch tx branchID))"

record zone_patch =
  zpa_name :: "string option"
  zpa_floor :: "int option"
  zpa_active :: "bool option"

definition TableService_UpdateZone ::
  "ctx \<Rightarrow> uuid \<Rightarrow> principal \<Rightarrow> uuid \<Rightarrow> zone_patch \<Rightarrow> (pos_db, pos_err, table_zone) tx" where
  "TableService_UpdateZone c tenantID p zoneID patch =
     tx_map_err wrapErr (WithTenantTx c tenantID (\<lambda>tx.
       tx_bind (TableRepo_GetZoneByID tx zoneID) (\<lambda>current.
       tx_bind (tx_lift (requireBranch c p (zon_branch current))) (\<lambda>_.
       TableRepo_UpdateZone tx
         (current\<lparr>zon_name := coalesce (zpa_name patch) (zon_name current),
                  zon_floor := coalesce (zpa_floor patch) (zon_floor current),
                  zon_active := coalesce (zpa_active patch) (zon_active current)\<rparr>)))))"

section \<open>Tables\<close>

definition TableService_CreateTable ::
  "ctx \<Rightarrow> uuid \<Rightarrow> principal \<Rightarrow> dining_table \<Rightarrow> (pos_db, pos_err, dining_table) tx" where
  "TableService_CreateTable c tenantID p t =
     tx_bind (tx_lift (requireBranch c p (tbl_branch t))) (\<lambda>_.
     let t = t\<lparr>tbl_tenant := tenantID\<rparr>;
         t = (if \<not> tbl_active t then t\<lparr>tbl_active := True\<rparr> else t)
     in tx_map_err wrapErr (WithTenantTx c tenantID (\<lambda>tx.
          tx_bind (TableRepo_GetZoneByID tx (tbl_zone t)) (\<lambda>zone.
          if zon_branch zone \<noteq> tbl_branch t then tx_throw PubTableBranchMismatch
          else TableRepo_CreateTable tx t))))"

record table_plan_entry =
  tpe_table :: dining_table
  tpe_zone_name :: string
  tpe_zone_floor :: int
  tpe_active_check :: "uuid option"

definition TableService_ListTables ::
  "ctx \<Rightarrow> uuid \<Rightarrow> principal \<Rightarrow> uuid \<Rightarrow> (pos_db, pos_err, table_plan_entry list) tx" where
  "TableService_ListTables c tenantID p branchID =
     tx_bind (tx_lift (requireBranch c p branchID)) (\<lambda>_.
     tx_bind (WithTenantReadTx c tenantID (\<lambda>tx. TableRepo_ListTablesByBranch tx branchID)) (\<lambda>rows.
     tx_return (map (\<lambda>r.
       \<lparr>tpe_table = twc_table r, tpe_zone_name = twc_zone_name r,
        tpe_zone_floor = twc_zone_floor r, tpe_active_check = twc_active_check r\<rparr>) rows)))"

record table_patch =
  tpa_zone :: "uuid option"
  tpa_name :: "string option"
  tpa_capacity :: "int option"
  tpa_layout :: "string option"
  tpa_active :: "bool option"

definition TableService_UpdateTable ::
  "ctx \<Rightarrow> uuid \<Rightarrow> principal \<Rightarrow> uuid \<Rightarrow> table_patch \<Rightarrow> (pos_db, pos_err, dining_table) tx" where
  "TableService_UpdateTable c tenantID p tableID patch =
     tx_map_err wrapErr (WithTenantTx c tenantID (\<lambda>tx.
       tx_bind (TableRepo_GetTableByID tx tableID) (\<lambda>current.
       tx_bind (tx_lift (requireBranch c p (tbl_branch current))) (\<lambda>_.
       tx_bind (case tpa_zone patch of
           None \<Rightarrow> tx_return current
         | Some zid \<Rightarrow>
             if zid = tbl_zone current then tx_return current
             else tx_bind (TableRepo_GetZoneByID tx zid) (\<lambda>zone.
                  if zon_branch zone \<noteq> tbl_branch current then tx_throw PubTableBranchMismatch
                  else tx_return (current\<lparr>tbl_zone := zid\<rparr>))) (\<lambda>current.
       TableRepo_UpdateTable tx
         (current\<lparr>tbl_name := coalesce (tpa_name patch) (tbl_name current),
                  tbl_capacity := coalesce (tpa_capacity patch) (tbl_capacity current),
                  tbl_layout := (case tpa_layout patch of None \<Rightarrow> tbl_layout current
                                 | Some l \<Rightarrow> Some l),
                  tbl_active := coalesce (tpa_active patch) (tbl_active current)\<rparr>))))))"

definition TableService_SetStatus ::
  "ctx \<Rightarrow> uuid \<Rightarrow> principal \<Rightarrow> uuid \<Rightarrow> table_status \<Rightarrow> bool \<Rightarrow> (pos_db, pos_err, dining_table) tx" where
  "TableService_SetStatus c tenantID p tableID status canManage =
     (if status = TableStatusOccupied then tx_throw ErrManualOccupyForbidden
      else if \<not> TableStatus_Valid status then tx_throw (ErrOther ''invalid status'')
      else tx_map_err wrapErr (WithTenantTx c tenantID (\<lambda>tx.
        tx_bind (TableRepo_GetTableForUpdate tx tableID) (\<lambda>current.
        tx_bind (tx_lift (requireBranch c p (tbl_branch current))) (\<lambda>_.
        if \<not> canManage \<and> (tbl_status current \<noteq> TableStatusCleaning \<or> status \<noteq> TableStatusEmpty)
        then tx_throw ErrTableManageRequired
        else
        tx_bind (tx_lift (TransitionTableStatus (tbl_status current) status)) (\<lambda>_.
        TableRepo_UpdateStatus tx tableID status (tbl_status current)))))))"

section \<open>Branch settings\<close>

definition maxRoundingPerCheckMinor :: int where
  "maxRoundingPerCheckMinor = 10000"

definition BranchSettingsService_Get ::
  "ctx \<Rightarrow> uuid \<Rightarrow> principal \<Rightarrow> uuid \<Rightarrow> (pos_db, pos_err, branch_settings) tx" where
  "BranchSettingsService_Get c tenantID p branchID =
     tx_bind (tx_lift (requireBranch c p branchID)) (\<lambda>_. \<lambda>s.
     case WithTenantReadTx c tenantID (\<lambda>tx. BranchSettingsRepo_GetByBranch tx branchID) s of
       Inl e \<Rightarrow> (if e = RepoNotFound then Inr (DefaultBranchSettings tenantID branchID, s) else Inl e)
     | Inr (b, s') \<Rightarrow> Inr (b, s'))"

record set_settings_request =
  ssr_branch :: uuid
  ssr_layout :: "waiter_layout option"
  ssr_flow :: "order_flow option"
  ssr_cash :: "bool option"
  ssr_card :: "bool option"
  ssr_step :: "int option"
  ssr_max :: "int option"
  ssr_updated_by :: uuid

definition BranchSettingsService_Set ::
  "ctx \<Rightarrow> uuid \<Rightarrow> principal \<Rightarrow> set_settings_request \<Rightarrow> (pos_db, pos_err, branch_settings) tx" where
  "BranchSettingsService_Set c tenantID p req =
     tx_bind (tx_lift (requireBranch c p (ssr_branch req))) (\<lambda>_.
     tx_bind (tx_require (case ssr_layout req of None \<Rightarrow> True | Some l \<Rightarrow> WaiterCategoryLayout_Valid l)
       ErrInvalidWaiterCategoryLayout) (\<lambda>_.
     tx_bind (tx_require (case ssr_flow req of None \<Rightarrow> True | Some f \<Rightarrow> OrderFlow_Valid f)
       ErrInvalidOrderFlow) (\<lambda>_.
     tx_bind (tx_require (case ssr_step req of None \<Rightarrow> True | Some x \<Rightarrow> ValidRoundingStep x)
       ErrInvalidRounding) (\<lambda>_.
     tx_bind (tx_require (case ssr_max req of None \<Rightarrow> True
         | Some m \<Rightarrow> \<not> (m < 0 \<or> m > maxRoundingPerCheckMinor)) ErrInvalidRounding) (\<lambda>_.
     WithTenantTx c tenantID (\<lambda>tx. BranchSettingsRepo_Upsert tx
       \<lparr>pat_tenant = tenantID, pat_branch = ssr_branch req, pat_layout = ssr_layout req,
        pat_flow = ssr_flow req, pat_cash = ssr_cash req, pat_card = ssr_card req,
        pat_step = ssr_step req, pat_max = ssr_max req,
        pat_updated_by = ssr_updated_by req\<rparr>))))))"

section \<open>Lemmas\<close>

lemma TableRepo_UpdateStatus_Inr:
  "TableRepo_UpdateStatus tx i st ex s = Inr (t, s') \<longleftrightarrow>
     (\<exists>rows. sql_update tables_table tx (\<lambda>t. tbl_id t = i \<and> tbl_status t = ex)
        (\<lambda>t. t\<lparr>tbl_status := st, tbl_updated := tx_now tx\<rparr>) s = Inr (rows, s') \<and>
        rows \<noteq> [] \<and> t = hd rows)"
  by (auto simp: TableRepo_UpdateStatus_def tx_inv row_inv)

end
