(* ===== verification/Pos_Evolution.thy ===== *)
theory Pos_Evolution
  imports Pos_Move_Service Pos_Order_Service Pos_Table_Service
begin

text \<open>
  How the database of the point of sale may change. One relation, \<open>evolves\<close>, says
  what every write of the module respects: the constraints of the schema stay
  satisfied, the rows of other tenants stay as they are, the outbox only grows,
  no check, order or line disappears, checks and orders only move forward
  through their lifecycles, and a line that was written keeps its price. It is
  reflexive and transitive, so it is shown for the SQL statements and passes to
  repositories, transactions and service calls by the rules of \<open>tx_preorder\<close>.
\<close>

named_theorems evolves_intro \<open>statements and operations that respect the evolution relation\<close>

section \<open>The schema's constraints\<close>

definition schema_ok :: "pos_db \<Rightarrow> bool" where
  "schema_ok s \<longleftrightarrow>
     table_ok checks_table s \<and> table_ok orders_table s \<and> table_ok items_table s \<and>
     table_ok tables_table s \<and> table_ok zones_table s \<and> table_ok settings_table s \<and>
     table_ok outbox_table s"

definition keys_kept :: "pos_db \<Rightarrow> pos_db \<Rightarrow> bool" where
  "keys_kept s s' \<longleftrightarrow>
     chk_id ` set (db_checks s) \<subseteq> chk_id ` set (db_checks s') \<and>
     ord_id ` set (db_orders s) \<subseteq> ord_id ` set (db_orders s') \<and>
     tbl_id ` set (db_tables s) \<subseteq> tbl_id ` set (db_tables s') \<and>
     zon_id ` set (db_zones s) \<subseteq> zon_id ` set (db_zones s')"

lemma refs_mono:
  assumes "keys_kept s s'"
  shows "check_refs_ok s c \<Longrightarrow> check_refs_ok s' c"
    and "order_refs_ok s r \<Longrightarrow> order_refs_ok s' r"
    and "item_refs_ok s i \<Longrightarrow> item_refs_ok s' i"
    and "table_refs_ok s t \<Longrightarrow> table_refs_ok s' t"
  using assms
  by (auto simp: keys_kept_def check_refs_ok_def order_refs_ok_def item_refs_ok_def
      table_refs_ok_def split: option.splits dest!: subsetD)

text \<open>A table whose rows did not change stays fine when the others kept their keys.\<close>

lemma table_ok_frame:
  assumes "keys_kept s s'"
  shows "db_checks s' = db_checks s \<Longrightarrow> table_ok checks_table s \<Longrightarrow> table_ok checks_table s'"
    and "db_orders s' = db_orders s \<Longrightarrow> table_ok orders_table s \<Longrightarrow> table_ok orders_table s'"
    and "db_items s' = db_items s \<Longrightarrow> table_ok items_table s \<Longrightarrow> table_ok items_table s'"
    and "db_tables s' = db_tables s \<Longrightarrow> table_ok tables_table s \<Longrightarrow> table_ok tables_table s'"
    and "db_zones s' = db_zones s \<Longrightarrow> table_ok zones_table s \<Longrightarrow> table_ok zones_table s'"
    and "db_settings s' = db_settings s \<Longrightarrow> table_ok settings_table s \<Longrightarrow> table_ok settings_table s'"
    and "db_outbox s' = db_outbox s \<Longrightarrow> table_ok outbox_table s \<Longrightarrow> table_ok outbox_table s'"
  using refs_mono [OF assms] by (auto simp: table_ok_def)

section \<open>Lifecycles\<close>

definition check_moves :: "check \<Rightarrow> check \<Rightarrow> bool" where
  "check_moves c c' \<longleftrightarrow>
     chk_id c' = chk_id c \<and> chk_tenant c' = chk_tenant c \<and> chk_branch c' = chk_branch c \<and>
     chk_opened_by c' = chk_opened_by c \<and> chk_opened_kind c' = chk_opened_kind c \<and>
     chk_source c' = chk_source c \<and> chk_opened_at c' = chk_opened_at c \<and>
     chk_pax c \<le> chk_pax c' \<and>
     (chk_status c' = chk_status c \<or>
      chk_status c = CheckStatusOpen \<and> chk_status c' \<in> set (allowedCheckTransitions CheckStatusOpen))"

text \<open>A live order may also be delivered at once: the simple flow closes its check.\<close>

definition order_step :: "order_status \<Rightarrow> order_status \<Rightarrow> bool" where
  "order_step a b \<longleftrightarrow>
     b \<in> set (allowedOrderTransitions a) \<or>
     a \<in> set KitchenActiveOrderStatuses \<and> b = OrderStatusDelivered"

definition order_moves :: "order \<Rightarrow> order \<Rightarrow> bool" where
  "order_moves r r' \<longleftrightarrow>
     ord_id r' = ord_id r \<and> ord_tenant r' = ord_tenant r \<and> ord_branch r' = ord_branch r \<and>
     ord_channel r' = ord_channel r \<and> ord_source r' = ord_source r \<and>
     ord_created r' = ord_created r \<and> rtranclp order_step (ord_status r) (ord_status r')"

text \<open>Everything of a line but the order it is on.\<close>

definition item_moves :: "order_item \<Rightarrow> order_item \<Rightarrow> bool" where
  "item_moves it it' \<longleftrightarrow> it' = it\<lparr>itm_order := itm_order it'\<rparr>"

lemma check_moves_refl [simp]: "check_moves c c"
  by (simp add: check_moves_def)

lemma check_moves_trans: "check_moves a b \<Longrightarrow> check_moves b c \<Longrightarrow> check_moves a c"
  by (auto simp: check_moves_def)

lemma order_moves_refl [simp]: "order_moves r r"
  by (simp add: order_moves_def)

lemma order_moves_trans: "order_moves a b \<Longrightarrow> order_moves b c \<Longrightarrow> order_moves a c"
  by (auto simp: order_moves_def)

lemma item_moves_refl [simp]: "item_moves it it"
  by (simp add: item_moves_def)

lemma item_moves_trans: "item_moves a b \<Longrightarrow> item_moves b c \<Longrightarrow> item_moves a c"
  unfolding item_moves_def
  by (cases a; cases b; cases c) auto

section \<open>The relation\<close>

definition same_foreign :: "uuid \<Rightarrow> pos_db \<Rightarrow> pos_db \<Rightarrow> bool" where
  "same_foreign tn s s' \<longleftrightarrow>
     foreign_rows chk_tenant tn (db_checks s') = foreign_rows chk_tenant tn (db_checks s) \<and>
     foreign_rows ord_tenant tn (db_orders s') = foreign_rows ord_tenant tn (db_orders s) \<and>
     foreign_rows itm_tenant tn (db_items s') = foreign_rows itm_tenant tn (db_items s) \<and>
     foreign_rows tbl_tenant tn (db_tables s') = foreign_rows tbl_tenant tn (db_tables s) \<and>
     foreign_rows zon_tenant tn (db_zones s') = foreign_rows zon_tenant tn (db_zones s) \<and>
     foreign_rows bst_tenant tn (db_settings s') = foreign_rows bst_tenant tn (db_settings s) \<and>
     foreign_rows obx_tenant tn (db_outbox s') = foreign_rows obx_tenant tn (db_outbox s)"

definition outbox_grows :: "pos_db \<Rightarrow> pos_db \<Rightarrow> bool" where
  "outbox_grows s s' \<longleftrightarrow> (\<exists>new. db_outbox s' = db_outbox s @ new)"

definition history_kept :: "pos_db \<Rightarrow> pos_db \<Rightarrow> bool" where
  "history_kept s s' \<longleftrightarrow>
     rows_move check_moves (db_checks s) (db_checks s') \<and>
     rows_move order_moves (db_orders s) (db_orders s') \<and>
     rows_move item_moves (db_items s) (db_items s')"

definition evolves :: "uuid \<Rightarrow> pos_db \<Rightarrow> pos_db \<Rightarrow> bool" where
  "evolves tn s s' \<longleftrightarrow>
     (schema_ok s \<longrightarrow> schema_ok s') \<and> same_foreign tn s s' \<and> outbox_grows s s' \<and> history_kept s s'"

lemma evolves_refl: "evolves tn s s"
  by (auto simp: evolves_def same_foreign_def outbox_grows_def history_kept_def
      intro: rows_move_refl)

lemma evolves_trans: "evolves tn s t \<Longrightarrow> evolves tn t u \<Longrightarrow> evolves tn s u"
  by (auto simp: evolves_def same_foreign_def outbox_grows_def history_kept_def
      intro: rows_move_trans check_moves_trans order_moves_trans item_moves_trans)

interpretation evolves: tx_preorder "evolves tn" for tn
  by unfold_locales (rule evolves_refl, rule evolves_trans)

section \<open>Writing one table\<close>

lemma rows_move_keys:
  assumes "rows_move R rows rows'" and "\<And>r r'. R r r' \<Longrightarrow> key r' = key r"
  shows "key ` set rows \<subseteq> key ` set rows'"
proof -
  obtain rows1 new where rows': "rows' = rows1 @ new" and "list_all2 R rows rows1"
    using assms(1) by (auto simp: rows_move_def)
  then have "list_all2 (\<lambda>r r'. key r' = key r) rows rows1"
    using assms(2) by (auto elim: list_all2_mono)
  then have "map key rows = map key rows1"
    by (induction rule: list_all2_induct) auto
  then have "key ` set rows = key ` set rows1" by (metis set_map)
  then show ?thesis by (auto simp: rows')
qed

lemma evolves_put:
  shows evolves_put_checks:
      "\<lbrakk> schema_ok s \<Longrightarrow> table_ok checks_table (s\<lparr>db_checks := cs\<rparr>);
         foreign_rows chk_tenant tn cs = foreign_rows chk_tenant tn (db_checks s);
         rows_move check_moves (db_checks s) cs \<rbrakk> \<Longrightarrow> evolves tn s (s\<lparr>db_checks := cs\<rparr>)"
    and evolves_put_orders:
      "\<lbrakk> schema_ok s \<Longrightarrow> table_ok orders_table (s\<lparr>db_orders := os\<rparr>);
         foreign_rows ord_tenant tn os = foreign_rows ord_tenant tn (db_orders s);
         rows_move order_moves (db_orders s) os \<rbrakk> \<Longrightarrow> evolves tn s (s\<lparr>db_orders := os\<rparr>)"
    and evolves_put_items:
      "\<lbrakk> schema_ok s \<Longrightarrow> table_ok items_table (s\<lparr>db_items := its\<rparr>);
         foreign_rows itm_tenant tn its = foreign_rows itm_tenant tn (db_items s);
         rows_move item_moves (db_items s) its \<rbrakk> \<Longrightarrow> evolves tn s (s\<lparr>db_items := its\<rparr>)"
proof -
  note expand = evolves_def same_foreign_def outbox_grows_def history_kept_def schema_ok_def
  assume ok: "schema_ok s \<Longrightarrow> table_ok checks_table (s\<lparr>db_checks := cs\<rparr>)"
    and f: "foreign_rows chk_tenant tn cs = foreign_rows chk_tenant tn (db_checks s)"
    and mv: "rows_move check_moves (db_checks s) cs"
  have keys: "keys_kept s (s\<lparr>db_checks := cs\<rparr>)"
    using rows_move_keys [OF mv, of chk_id] by (auto simp: keys_kept_def check_moves_def)
  show "evolves tn s (s\<lparr>db_checks := cs\<rparr>)"
    using ok f mv table_ok_frame [OF keys] by (auto simp: expand intro: rows_move_refl)
next
  note expand = evolves_def same_foreign_def outbox_grows_def history_kept_def schema_ok_def
  assume ok: "schema_ok s \<Longrightarrow> table_ok orders_table (s\<lparr>db_orders := os\<rparr>)"
    and f: "foreign_rows ord_tenant tn os = foreign_rows ord_tenant tn (db_orders s)"
    and mv: "rows_move order_moves (db_orders s) os"
  have keys: "keys_kept s (s\<lparr>db_orders := os\<rparr>)"
    using rows_move_keys [OF mv, of ord_id] by (auto simp: keys_kept_def order_moves_def)
  show "evolves tn s (s\<lparr>db_orders := os\<rparr>)"
    using ok f mv table_ok_frame [OF keys] by (auto simp: expand intro: rows_move_refl)
next
  note expand = evolves_def same_foreign_def outbox_grows_def history_kept_def schema_ok_def
  assume ok: "schema_ok s \<Longrightarrow> table_ok items_table (s\<lparr>db_items := its\<rparr>)"
    and f: "foreign_rows itm_tenant tn its = foreign_rows itm_tenant tn (db_items s)"
    and mv: "rows_move item_moves (db_items s) its"
  have keys: "keys_kept s (s\<lparr>db_items := its\<rparr>)" by (auto simp: keys_kept_def)
  show "evolves tn s (s\<lparr>db_items := its\<rparr>)"
    using ok f mv table_ok_frame [OF keys] by (auto simp: expand intro: rows_move_refl)
qed

text \<open>Tables, zones, settings and the outbox carry no history; a write keeps the keys.\<close>

lemma evolves_put_other:
  shows evolves_put_tables:
      "\<lbrakk> schema_ok s \<Longrightarrow> table_ok tables_table (s\<lparr>db_tables := ts\<rparr>);
         foreign_rows tbl_tenant tn ts = foreign_rows tbl_tenant tn (db_tables s);
         tbl_id ` set (db_tables s) \<subseteq> tbl_id ` set ts \<rbrakk> \<Longrightarrow> evolves tn s (s\<lparr>db_tables := ts\<rparr>)"
    and evolves_put_zones:
      "\<lbrakk> schema_ok s \<Longrightarrow> table_ok zones_table (s\<lparr>db_zones := zs\<rparr>);
         foreign_rows zon_tenant tn zs = foreign_rows zon_tenant tn (db_zones s);
         zon_id ` set (db_zones s) \<subseteq> zon_id ` set zs \<rbrakk> \<Longrightarrow> evolves tn s (s\<lparr>db_zones := zs\<rparr>)"
    and evolves_put_settings:
      "\<lbrakk> schema_ok s \<Longrightarrow> table_ok settings_table (s\<lparr>db_settings := bs\<rparr>);
         foreign_rows bst_tenant tn bs = foreign_rows bst_tenant tn (db_settings s) \<rbrakk> \<Longrightarrow>
       evolves tn s (s\<lparr>db_settings := bs\<rparr>)"
    and evolves_put_outbox:
      "\<lbrakk> schema_ok s \<Longrightarrow> table_ok outbox_table (s\<lparr>db_outbox := db_outbox s @ new\<rparr>);
         \<forall>r \<in> set new. obx_tenant r = tn \<rbrakk> \<Longrightarrow> evolves tn s (s\<lparr>db_outbox := db_outbox s @ new\<rparr>)"
    and evolves_put_ctr: "evolves tn s (s\<lparr>db_ctr := n\<rparr>)"
  using table_ok_frame [of s "s\<lparr>db_tables := ts\<rparr>"] table_ok_frame [of s "s\<lparr>db_zones := zs\<rparr>"]
    table_ok_frame [of s "s\<lparr>db_settings := bs\<rparr>"]
    table_ok_frame [of s "s\<lparr>db_outbox := db_outbox s @ new\<rparr>"] table_ok_frame [of s "s\<lparr>db_ctr := n\<rparr>"]
  by (simp_all add: evolves_def same_foreign_def outbox_grows_def history_kept_def schema_ok_def
      keys_kept_def foreign_rows_def rows_move_refl)

section \<open>Statements\<close>

lemma schema_okD:
  assumes "schema_ok s"
  shows "table_ok checks_table s" "table_ok orders_table s" "table_ok items_table s"
    "table_ok tables_table s" "table_ok zones_table s" "table_ok settings_table s"
    "table_ok outbox_table s"
  using assms by (simp_all add: schema_ok_def)

lemma insert_evolves [evolves_intro]:
  shows "tx_within (evolves (tx_tenant tx)) (sql_insert checks_table tx c)"
    and "tx_within (evolves (tx_tenant tx)) (sql_insert orders_table tx r)"
    and "tx_within (evolves (tx_tenant tx)) (sql_insert items_table tx it)"
    and "tx_within (evolves (tx_tenant tx)) (sql_insert tables_table tx t)"
    and "tx_within (evolves (tx_tenant tx)) (sql_insert zones_table tx z)"
    and "tx_within (evolves (tx_tenant tx)) (sql_insert settings_table tx b)"
    and "tx_within (evolves (tx_tenant tx)) (sql_insert outbox_table tx e)"
proof -
  show "tx_within (evolves (tx_tenant tx)) (sql_insert checks_table tx c)"
  proof (rule tx_withinI)
    fix s x s' assume st: "sql_insert checks_table tx c s = Inr (x, s')"
    show "evolves (tx_tenant tx) s s'"
      using st checks.insert_table_ok [OF st]
      by (auto simp: checks.insert_Inr schema_okD intro!: evolves_put_checks rows_move_append)
  qed
  show "tx_within (evolves (tx_tenant tx)) (sql_insert orders_table tx r)"
  proof (rule tx_withinI)
    fix s x s' assume st: "sql_insert orders_table tx r s = Inr (x, s')"
    show "evolves (tx_tenant tx) s s'"
      using st orders.insert_table_ok [OF st]
      by (auto simp: orders.insert_Inr schema_okD intro!: evolves_put_orders rows_move_append)
  qed
  show "tx_within (evolves (tx_tenant tx)) (sql_insert items_table tx it)"
  proof (rule tx_withinI)
    fix s x s' assume st: "sql_insert items_table tx it s = Inr (x, s')"
    show "evolves (tx_tenant tx) s s'"
      using st items.insert_table_ok [OF st]
      by (auto simp: items.insert_Inr schema_okD intro!: evolves_put_items rows_move_append)
  qed
  show "tx_within (evolves (tx_tenant tx)) (sql_insert tables_table tx t)"
  proof (rule tx_withinI)
    fix s x s' assume st: "sql_insert tables_table tx t s = Inr (x, s')"
    show "evolves (tx_tenant tx) s s'"
      using st tables.insert_table_ok [OF st]
      by (auto simp: tables.insert_Inr schema_okD intro!: evolves_put_tables)
  qed
  show "tx_within (evolves (tx_tenant tx)) (sql_insert zones_table tx z)"
  proof (rule tx_withinI)
    fix s x s' assume st: "sql_insert zones_table tx z s = Inr (x, s')"
    show "evolves (tx_tenant tx) s s'"
      using st zones.insert_table_ok [OF st]
      by (auto simp: zones.insert_Inr schema_okD intro!: evolves_put_zones)
  qed
  show "tx_within (evolves (tx_tenant tx)) (sql_insert settings_table tx b)"
  proof (rule tx_withinI)
    fix s x s' assume st: "sql_insert settings_table tx b s = Inr (x, s')"
    show "evolves (tx_tenant tx) s s'"
      using st settings.insert_table_ok [OF st]
      by (auto simp: settings.insert_Inr schema_okD intro!: evolves_put_settings)
  qed
  show "tx_within (evolves (tx_tenant tx)) (sql_insert outbox_table tx e)"
  proof (rule tx_withinI)
    fix s x s' assume st: "sql_insert outbox_table tx e s = Inr (x, s')"
    show "evolves (tx_tenant tx) s s'"
      using st outbox.insert_table_ok [OF st]
      by (auto simp: outbox.insert_Inr schema_okD intro!: evolves_put_outbox)
  qed
qed

lemma update_checks_evolves [evolves_intro]:
  assumes "\<And>c. chk_id (f c) = chk_id c" and "\<And>c. chk_tenant (f c) = chk_tenant c"
    and "\<And>c. P c \<Longrightarrow> check_moves c (f c)"
  shows "tx_within (evolves (tx_tenant tx)) (sql_update checks_table tx P f)"
proof (rule tx_withinI)
  fix s x s' assume st: "sql_update checks_table tx P f s = Inr (x, s')"
  show "evolves (tx_tenant tx) s s'"
    using st checks.update_table_ok [OF st] assms
    by (auto simp: checks.update_Inr schema_okD intro!: evolves_put_checks rows_move_update)
qed

lemma update_orders_evolves [evolves_intro]:
  assumes "\<And>r. ord_id (f r) = ord_id r" and "\<And>r. ord_tenant (f r) = ord_tenant r"
    and "\<And>r. P r \<Longrightarrow> order_moves r (f r)"
  shows "tx_within (evolves (tx_tenant tx)) (sql_update orders_table tx P f)"
proof (rule tx_withinI)
  fix s x s' assume st: "sql_update orders_table tx P f s = Inr (x, s')"
  show "evolves (tx_tenant tx) s s'"
    using st orders.update_table_ok [OF st] assms
    by (auto simp: orders.update_Inr schema_okD intro!: evolves_put_orders rows_move_update)
qed

lemma update_items_evolves [evolves_intro]:
  assumes "\<And>it. itm_id (f it) = itm_id it" and "\<And>it. itm_tenant (f it) = itm_tenant it"
    and "\<And>it. P it \<Longrightarrow> item_moves it (f it)"
  shows "tx_within (evolves (tx_tenant tx)) (sql_update items_table tx P f)"
proof (rule tx_withinI)
  fix s x s' assume st: "sql_update items_table tx P f s = Inr (x, s')"
  show "evolves (tx_tenant tx) s s'"
    using st items.update_table_ok [OF st] assms
    by (auto simp: items.update_Inr schema_okD intro!: evolves_put_items rows_move_update)
qed

lemma keys_rls_update: "(\<And>r. key (f r) = key r) \<Longrightarrow> key ` set (rls_update tid tx P f rows) = key ` set rows"
  by (metis list.set_map map_rls_update)

lemma update_tables_evolves [evolves_intro]:
  assumes "\<And>t. tbl_id (f t) = tbl_id t" and "\<And>t. tbl_tenant (f t) = tbl_tenant t"
  shows "tx_within (evolves (tx_tenant tx)) (sql_update tables_table tx P f)"
proof (rule tx_withinI)
  fix s x s' assume st: "sql_update tables_table tx P f s = Inr (x, s')"
  show "evolves (tx_tenant tx) s s'"
    using st tables.update_table_ok [OF st] assms keys_rls_update [of tbl_id f]
    by (auto simp: tables.update_Inr schema_okD intro!: evolves_put_tables)
qed

lemma update_zones_evolves [evolves_intro]:
  assumes "\<And>z. zon_id (f z) = zon_id z" and "\<And>z. zon_tenant (f z) = zon_tenant z"
  shows "tx_within (evolves (tx_tenant tx)) (sql_update zones_table tx P f)"
proof (rule tx_withinI)
  fix s x s' assume st: "sql_update zones_table tx P f s = Inr (x, s')"
  show "evolves (tx_tenant tx) s s'"
    using st zones.update_table_ok [OF st] assms keys_rls_update [of zon_id f]
    by (auto simp: zones.update_Inr schema_okD intro!: evolves_put_zones)
qed

lemma update_settings_evolves [evolves_intro]:
  assumes "\<And>b. bst_branch (f b) = bst_branch b" and "\<And>b. bst_tenant (f b) = bst_tenant b"
  shows "tx_within (evolves (tx_tenant tx)) (sql_update settings_table tx P f)"
proof (rule tx_withinI)
  fix s x s' assume st: "sql_update settings_table tx P f s = Inr (x, s')"
  show "evolves (tx_tenant tx) s s'"
    using st settings.update_table_ok [OF st] assms
    by (auto simp: settings.update_Inr schema_okD intro!: evolves_put_settings)
qed

lemma gen_random_uuid_evolves [evolves_intro]: "tx_within (evolves tn) gen_random_uuid"
  by (rule tx_withinI) (auto simp: gen_random_uuid_Inr intro: evolves_put_ctr)

lemma InsertOutbox_evolves [evolves_intro]:
  "tx_within (evolves (tx_tenant tx)) (InsertOutbox tx tn agg i typ payload)"
  unfolding InsertOutbox_def by (intro evolves.within_rules evolves_intro)

lemma reads_evolve [evolves_intro]:
  "tx_within (evolves tn) (sql_find T tx P)"
  "tx_within (evolves tn) (sql_select T tx P)"
  "tx_within (evolves tn) (query_row e rows)"
  "tx_within (evolves tn) (found_row e opt)"
  by (auto simp: tx_on_def sql_find_def sql_select_def query_row_Inr found_row_Inr evolves_refl)

section \<open>Repositories\<close>

lemma order_step_allowed: "b \<in> set (allowedOrderTransitions a) \<Longrightarrow> rtranclp order_step a b"
  by (auto simp: order_step_def)

lemma order_step_cancel:
  "a \<in> set KitchenActiveOrderStatuses \<Longrightarrow> rtranclp order_step a OrderStatusCancelled"
  by (simp add: order_step_allowed kitchen_active_cancellable)

lemma order_step_deliver:
  "a \<in> set KitchenActiveOrderStatuses \<Longrightarrow> rtranclp order_step a OrderStatusDelivered"
  by (auto simp: order_step_def)

lemma check_repo_evolves [evolves_intro]:
  "tx_within (evolves (tx_tenant tx)) (CheckRepo_Create tx c)"
  "tx_within (evolves tn) (CheckRepo_GetByID tx i)"
  "tx_within (evolves tn) (CheckRepo_TableLabelsByCheckIDs tx is)"
  "tx_within (evolves tn) (CheckRepo_GetForUpdate tx i)"
  "tx_within (evolves tn) (CheckRepo_GetOpenByTableForUpdate tx i)"
  "tx_within (evolves tn) (CheckRepo_List tx flt)"
  "tx_within (evolves tn) (CheckRepo_TotalsByCheckIDs tx is)"
  "tx_within (evolves tn) (CheckRepo_GetTotal tx i)"
  "tx_within (evolves (tx_tenant tx)) (CheckRepo_RaisePax tx i pax)"
  "tx_within (evolves (tx_tenant tx)) (CheckRepo_UpdateTable tx i t label ex)"
  unfolding CheckRepo_Create_def CheckRepo_GetByID_def CheckRepo_TableLabelsByCheckIDs_def
    CheckRepo_GetForUpdate_def CheckRepo_GetOpenByTableForUpdate_def CheckRepo_List_def
    CheckRepo_TotalsByCheckIDs_def CheckRepo_GetTotal_def CheckRepo_RaisePax_def
    CheckRepo_UpdateTable_def Let_def
  by (intro evolves.within_rules evolves_intro; simp add: check_moves_def)+

lemma check_status_repo_evolves [evolves_intro]:
  "tx_within (evolves (tx_tenant tx)) (CheckRepo_UpdateStatus tx i st ex by)"
  "tx_within (evolves (tx_tenant tx)) (CheckRepo_MarkMerged tx i target ex)"
  unfolding CheckRepo_UpdateStatus_def CheckRepo_MarkMerged_def
  by (intro evolves.within_rules evolves_intro;
      auto simp: check_moves_def check_machine.transition_iff allowedCheckTransitions_iff)+

text \<open>The order repository trusts its caller with the transition: the update itself
  only checks the expected status.\<close>

lemma order_status_repo_evolves [evolves_intro]:
  "OrderStatusAccepted \<in> set (allowedOrderTransitions ex) \<Longrightarrow>
   tx_within (evolves (tx_tenant tx)) (OrderRepo_Accept tx i by ex)"
  "OrderStatusRejected \<in> set (allowedOrderTransitions ex) \<Longrightarrow>
   tx_within (evolves (tx_tenant tx)) (OrderRepo_Reject tx i by reason ex)"
  "st \<in> set (allowedOrderTransitions ex) \<Longrightarrow>
   tx_within (evolves (tx_tenant tx)) (OrderRepo_AdvanceStatus tx i st ex)"
  unfolding OrderRepo_Accept_def OrderRepo_Reject_def OrderRepo_AdvanceStatus_def
    OrderRepo_withItems_def OrderRepo_loadItems_def
  by (intro evolves.within_rules evolves_intro; auto simp: order_moves_def order_step_allowed)+

lemma order_repo_evolves [evolves_intro]:
  "tx_within (evolves (tx_tenant tx)) (OrderRepo_Create tx r)"
  "tx_within (evolves tn) (OrderRepo_GetHeader tx i)"
  "tx_within (evolves tn) (OrderRepo_GetForUpdate tx i)"
  "tx_within (evolves tn) (OrderRepo_GetByID tx i)"
  "tx_within (evolves tn) (OrderRepo_ListByIDs tx is)"
  "tx_within (evolves tn) (OrderRepo_ListByCheck tx i)"
  "tx_within (evolves tn) (OrderRepo_ListActiveByBranch tx i)"
  "tx_within (evolves tn) (OrderRepo_ItemOwners tx is)"
  "tx_within (evolves tn) (OrderRepo_EmptyOrderIDs tx is)"
  "tx_within (evolves (tx_tenant tx)) (OrderRepo_CancelActiveByCheck tx i)"
  "tx_within (evolves (tx_tenant tx)) (OrderRepo_DeliverActiveByCheck tx i)"
  "tx_within (evolves (tx_tenant tx)) (OrderRepo_CancelByIDs tx is)"
  "tx_within (evolves (tx_tenant tx)) (OrderRepo_ReassignToCheck tx a b)"
  "tx_within (evolves (tx_tenant tx)) (OrderRepo_MoveItemsToOrder tx is oid)"
  unfolding OrderRepo_Create_def OrderRepo_insertItems_def OrderRepo_GetHeader_def
    OrderRepo_GetForUpdate_def OrderRepo_GetByID_def OrderRepo_ListByIDs_def
    OrderRepo_itemsByOrderIDs_def OrderRepo_ListByCheck_def OrderRepo_ListActiveByBranch_def
    OrderRepo_ItemOwners_def OrderRepo_EmptyOrderIDs_def OrderRepo_CancelActiveByCheck_def
    OrderRepo_DeliverActiveByCheck_def OrderRepo_CancelByIDs_def OrderRepo_ReassignToCheck_def
    OrderRepo_MoveItemsToOrder_def OrderRepo_withItems_def OrderRepo_loadItems_def Let_def
  by (intro evolves.within_rules evolves_intro;
      auto simp: order_moves_def item_moves_def order_step_cancel order_step_deliver)+

lemma table_repo_evolves [evolves_intro]:
  "tx_within (evolves (tx_tenant tx)) (TableRepo_CreateZone tx z)"
  "tx_within (evolves tn) (TableRepo_GetZoneByID tx i)"
  "tx_within (evolves tn) (TableRepo_ListZonesByBranch tx i)"
  "tx_within (evolves (tx_tenant tx)) (TableRepo_UpdateZone tx z)"
  "tx_within (evolves (tx_tenant tx)) (TableRepo_CreateTable tx t)"
  "tx_within (evolves tn) (TableRepo_GetTableByID tx i)"
  "tx_within (evolves tn) (TableRepo_GetTableForUpdate tx i)"
  "tx_within (evolves tn) (TableRepo_ListTablesByBranch tx i)"
  "tx_within (evolves (tx_tenant tx)) (TableRepo_UpdateTable tx t)"
  "tx_within (evolves (tx_tenant tx)) (TableRepo_UpdateStatus tx i st ex)"
  "tx_within (evolves (tx_tenant tx)) (TableRepo_UpdateStatusIfCurrent tx i st ex)"
  "tx_within (evolves tn) (BranchSettingsRepo_GetByBranch tx i)"
  "tx_within (evolves tn) (BranchSettingsRepo_OrderFlowByBranch tx i)"
  "tx_within (evolves tn) (BranchSettingsRepo_RoundingPolicyByBranch tx i)"
  "tx_within (evolves (tx_tenant tx)) (BranchSettingsRepo_Upsert tx p)"
  unfolding TableRepo_CreateZone_def TableRepo_GetZoneByID_def TableRepo_ListZonesByBranch_def
    TableRepo_UpdateZone_def TableRepo_CreateTable_def TableRepo_GetTableByID_def
    TableRepo_GetTableForUpdate_def TableRepo_ListTablesByBranch_def TableRepo_UpdateTable_def
    TableRepo_UpdateStatus_def TableRepo_UpdateStatusIfCurrent_def
    BranchSettingsRepo_GetByBranch_def BranchSettingsRepo_OrderFlowByBranch_def
    BranchSettingsRepo_RoundingPolicyByBranch_def BranchSettingsRepo_Upsert_def
  by (intro evolves.within_rules evolves_intro; simp add: apply_settings_patch_def)+

section \<open>Transactions and services\<close>

lemma WithTenantTx_evolves [evolves_intro]:
  "(\<And>tx. tx_within (evolves (tx_tenant tx)) (fn tx)) \<Longrightarrow> tx_within (evolves tn) (WithTenantTx c tn fn)"
  unfolding WithTenantTx_def by (intro evolves.within_rules) (metis pgtx.select_convs(1))

lemma WithTenantReadTx_evolves [evolves_intro]:
  "(\<And>tx. tx_within (evolves (tx_tenant tx)) (fn tx)) \<Longrightarrow> tx_within (evolves tn) (WithTenantReadTx c tn fn)"
  unfolding WithTenantReadTx_def by (intro evolves.within_rules) (metis pgtx.select_convs(1))

lemma lock_rows_evolves [evolves_intro]:
  "(\<And>i. tx_within (evolves tn) (get i)) \<Longrightarrow> tx_within (evolves tn) (lock_rows get is)"
  by (induction "is") (auto intro!: evolves.within_rules)

lemma check_tx_evolves [evolves_intro]:
  "tx_within (evolves (tx_tenant tx)) (take_table tx k g)"
  "tx_within (evolves (tx_tenant tx)) (order_status_event tx tn i st key by reason oid)"
  "tx_within (evolves (tx_tenant tx)) (releaseTableToCleaning tx opt)"
  unfolding take_table_def order_status_event_def releaseTableToCleaning_def
  by (intro evolves.within_rules evolves_intro)+

lemma check_tx_evolves2 [evolves_intro]:
  "tx_within (evolves (tx_tenant tx)) (openCheckTx tx k g)"
  "tx_within (evolves (tx_tenant tx)) (deliverLiveOrders tx tn i b by)"
  "tx_within (evolves (tx_tenant tx)) (cancelLiveOrders tx tn i by)"
  unfolding openCheckTx_def deliverLiveOrders_def cancelLiveOrders_def
  by (intro evolves.within_rules evolves_intro)+

lemma check_service_evolves [evolves_intro]:
  "tx_within (evolves tn) (CheckService_Open c tn p k)"
  "tx_within (evolves tn) (CheckService_Close sr c tn p i by)"
  "tx_within (evolves tn) (CheckService_Cancel sr c tn p i by)"
  unfolding CheckService_Open_def CheckService_Close_def CheckService_Cancel_def closeTx_def
    cancelTx_def Let_def
  by (intro evolves.within_rules evolves_intro)+

lemma move_tx_evolves [evolves_intro]:
  "tx_within (evolves (tx_tenant tx)) (lockChecks tx is)"
  "tx_within (evolves (tx_tenant tx)) (lockTables tx is)"
  "tx_within (evolves (tx_tenant tx)) (announceOrderIDsMoved tx tn is i reason)"
  "tx_within (evolves (tx_tenant tx)) (rehome_status tx tn owners k k' st)"
  "tx_within (evolves (tx_tenant tx)) (cancelEmptiedOrders tx tn is i by)"
  unfolding lockChecks_def lockTables_def announceOrderIDsMoved_def rehome_status_def
    cancelEmptiedOrders_def Let_def
  by (intro evolves.within_rules evolves_intro)+

lemma move_tx_evolves2 [evolves_intro]:
  "tx_within (evolves (tx_tenant tx)) (announceLiveOrdersMoved tx tn i reason)"
  "tx_within (evolves (tx_tenant tx)) (rehomeItems tx tn owners k k')"
  unfolding announceLiveOrdersMoved_def rehomeItems_def
  by (intro evolves.within_rules evolves_intro)+

lemma move_service_evolves [evolves_intro]:
  "tx_within (evolves tn) (CheckService_Transfer c tn p i t)"
  "tx_within (evolves tn) (CheckService_Merge sr c tn p i j)"
  "tx_within (evolves tn) (CheckService_MoveItems sr c tn p i j its)"
  unfolding CheckService_Transfer_def CheckService_Merge_def CheckService_MoveItems_def
    transferTx_def mergeTx_def moveItemsTx_def
  by (intro evolves.within_rules evolves_intro)+

lemma order_tx_evolves [evolves_intro]:
  "tx_within (evolves (tx_tenant tx)) (applyBirthStatus tx r by)"
  "tx_within (evolves (tx_tenant tx)) (insertBornAcceptedEvent tx r)"
  "tx_within (evolves (tx_tenant tx)) (lockWritableCheck tx opt b)"
  "tx_within (evolves (tx_tenant tx)) (derivePax tx kopt its)"
  unfolding applyBirthStatus_def insertBornAcceptedEvent_def lockWritableCheck_def derivePax_def
    Let_def
  by (intro evolves.within_rules evolves_intro)+

lemma lockOrderForTransition_evolves [evolves_intro]:
  "tx_within (evolves (tx_tenant tx)) (lockOrderForTransition c p tx i)"
  unfolding lockOrderForTransition_def by (intro evolves.within_rules evolves_intro)

lemma order_service_evolves [evolves_intro]:
  "tx_within (evolves tn) (OrderService_Place price c tn p r)"
  "tx_within (evolves tn) (OrderService_Accept c tn p i by)"
  "tx_within (evolves tn) (OrderService_Reject c tn p i by reason)"
  "tx_within (evolves tn) (OrderService_AdvanceStatus c tn p i st)"
  "tx_within (evolves tn) (OrderService_Cancel c tn p i by)"
  unfolding OrderService_Place_def OrderService_Accept_def OrderService_Reject_def
    OrderService_AdvanceStatus_def OrderService_Cancel_def OrderService_transition_def
    placeTx_def acceptTx_def rejectTx_def transitionTx_def Let_def
  by (intro evolves.within_rules evolves_intro; auto simp: order_machine.transition_iff dest!: tx_gives_lift)+

lemma table_service_evolves [evolves_intro]:
  "tx_within (evolves tn) (TableService_CreateZone c tn p z)"
  "tx_within (evolves tn) (TableService_UpdateZone c tn p i zp)"
  "tx_within (evolves tn) (TableService_CreateTable c tn p t)"
  "tx_within (evolves tn) (TableService_UpdateTable c tn p i tp)"
  "tx_within (evolves tn) (TableService_SetStatus c tn p i st b)"
  "tx_within (evolves tn) (BranchSettingsService_Set c tn p req)"
  unfolding TableService_CreateZone_def TableService_UpdateZone_def TableService_CreateTable_def
    TableService_UpdateTable_def TableService_SetStatus_def BranchSettingsService_Set_def Let_def
  by (intro evolves.within_rules evolves_intro)+

text \<open>The guest path, given that what the others commit meanwhile evolves the
  database too.\<close>

lemma resolveGuestCheck_evolves [evolves_intro]:
  assumes "\<And>s. evolves (tx_tenant tx) s (others s)"
  shows "tx_within (evolves (tx_tenant tx)) (resolveGuestCheck others tx req)"
proof (rule tx_withinI)
  fix s k s'
  assume "resolveGuestCheck others tx req s = Inr (k, s')"
  then have "s' = s \<or> openCheckTx tx (guest_check req) guestTableGuard (others s) = Inr (k, s')"
    by (auto simp: resolveGuestCheck_def CheckRepo_GetOpenByTable_Inr split: sum.splits if_splits)
  then show "evolves (tx_tenant tx) s s'"
    using assms [of s] check_tx_evolves2(1) [THEN tx_withinD]
    by (auto intro: evolves_refl evolves_trans)
qed

lemma placeGuestOnce_evolves:
  assumes "\<And>s. evolves (gor_tenant req) s (others s)"
  shows "tx_within (evolves (gor_tenant req)) (placeGuestOnce others c req link)"
proof -
  let ?tx = "\<lparr>tx_tenant = gor_tenant req, tx_now = ctx_now c\<rparr>"
  have r: "tx_within (evolves (tx_tenant ?tx)) (resolveGuestCheck others ?tx req)"
    using assms by (intro evolves_intro) simp
  have "tx_within (evolves (tx_tenant ?tx)) (placeGuestTx others req link ?tx)"
    unfolding placeGuestTx_def Let_def by (intro evolves.within_rules evolves_intro r)
  then show ?thesis
    unfolding placeGuestOnce_def WithTenantTx_def by (intro evolves.within_rules) simp
qed

lemma PlaceGuest_evolves:
  assumes "\<And>s. evolves (gor_tenant req) s (others s)"
    and "\<And>s. evolves (gor_tenant req) s (others' s)"
  shows "tx_within (evolves (gor_tenant req)) (OrderService_PlaceGuest others others' c req link)"
proof (rule tx_withinI)
  fix s x s'
  assume "OrderService_PlaceGuest others others' c req link s = Inr (x, s')"
  then have "placeGuestOnce others c req link s = Inr (x, s') \<or>
             placeGuestOnce others' c req link (others s) = Inr (x, s')"
    by (auto simp: OrderService_PlaceGuest_def split: if_splits sum.splits)
  then show "evolves (gor_tenant req) s s'"
    using tx_withinD [OF placeGuestOnce_evolves [OF assms(1)]]
      tx_withinD [OF placeGuestOnce_evolves [OF assms(2)]] assms(1) [of s]
    by (blast intro: evolves_trans)
qed

end
