(* ===== verification/Pos_System.thy ===== *)
theory Pos_System
  imports Pos_Evolution
begin

text \<open>
  The point of sale as a transition system: one step is one service call of one
  tenant that committed. A call that failed leaves the database as it was and
  is no step. Transactions run one after the other, which is what the row locks
  give to the calls that share a row.
\<close>

inductive pos_step :: "uuid \<Rightarrow> pos_db \<Rightarrow> pos_db \<Rightarrow> bool" where
  step_open: "CheckService_Open c tn p k s = Inr (r, s') \<Longrightarrow> pos_step tn s s'"
| step_close: "CheckService_Close sr c tn p i by s = Inr (r, s') \<Longrightarrow> pos_step tn s s'"
| step_cancel: "CheckService_Cancel sr c tn p i by s = Inr (r, s') \<Longrightarrow> pos_step tn s s'"
| step_transfer: "CheckService_Transfer c tn p i t s = Inr (r, s') \<Longrightarrow> pos_step tn s s'"
| step_merge: "CheckService_Merge sr c tn p i j s = Inr (r, s') \<Longrightarrow> pos_step tn s s'"
| step_move: "CheckService_MoveItems sr c tn p i j its s = Inr (r, s') \<Longrightarrow> pos_step tn s s'"
| step_place: "OrderService_Place price c tn p ord s = Inr (o', s') \<Longrightarrow> pos_step tn s s'"
| step_guest: "OrderService_PlaceGuest id id c req link s = Inr (g, s') \<Longrightarrow>
               tn = gor_tenant req \<Longrightarrow> pos_step tn s s'"
| step_accept: "OrderService_Accept c tn p i by s = Inr (o', s') \<Longrightarrow> pos_step tn s s'"
| step_reject: "OrderService_Reject c tn p i by reason s = Inr (o', s') \<Longrightarrow> pos_step tn s s'"
| step_advance: "OrderService_AdvanceStatus c tn p i st s = Inr (o', s') \<Longrightarrow> pos_step tn s s'"
| step_order_cancel: "OrderService_Cancel c tn p i by s = Inr (o', s') \<Longrightarrow> pos_step tn s s'"
| step_create_zone: "TableService_CreateZone c tn p z s = Inr (z', s') \<Longrightarrow> pos_step tn s s'"
| step_update_zone: "TableService_UpdateZone c tn p i zp s = Inr (z', s') \<Longrightarrow> pos_step tn s s'"
| step_create_table: "TableService_CreateTable c tn p t s = Inr (t', s') \<Longrightarrow> pos_step tn s s'"
| step_update_table: "TableService_UpdateTable c tn p i tp s = Inr (t', s') \<Longrightarrow> pos_step tn s s'"
| step_set_status: "TableService_SetStatus c tn p i st b s = Inr (t', s') \<Longrightarrow> pos_step tn s s'"
| step_settings: "BranchSettingsService_Set c tn p rq s = Inr (b', s') \<Longrightarrow> pos_step tn s s'"

inductive_cases pos_stepE: "pos_step tn s s'"

text \<open>A run: the tenants whose calls committed, in order.\<close>

inductive pos_run :: "pos_db \<Rightarrow> uuid list \<Rightarrow> pos_db \<Rightarrow> bool" where
  run_nil: "pos_run s [] s"
| run_step: "pos_run s tns t \<Longrightarrow> pos_step tn t u \<Longrightarrow> pos_run s (tns @ [tn]) u"

inductive_simps pos_run_Nil: "pos_run s [] t"

lemma pos_step_evolves: "pos_step tn s s' \<Longrightarrow> evolves tn s s'"
proof (induction rule: pos_step.induct)
  case (step_guest c req link s g s' tn)
  then show ?case
    using PlaceGuest_evolves [of req id id] by (auto simp: evolves_refl dest: tx_withinD)
qed (auto dest: check_service_evolves [THEN tx_withinD] move_service_evolves [THEN tx_withinD]
      order_service_evolves [THEN tx_withinD] table_service_evolves [THEN tx_withinD])

section \<open>What a run keeps\<close>

lemma pos_run_schema: "pos_run s tns s' \<Longrightarrow> schema_ok s \<Longrightarrow> schema_ok s'"
  by (induction rule: pos_run.induct) (auto dest: pos_step_evolves simp: evolves_def)

lemma pos_run_history:
  "pos_run s tns s' \<Longrightarrow>
   rows_move check_moves (db_checks s) (db_checks s') \<and>
   rows_move order_moves (db_orders s) (db_orders s') \<and>
   rows_move item_moves (db_items s) (db_items s') \<and> outbox_grows s s'"
proof (induction rule: pos_run.induct)
  case (run_nil s)
  then show ?case by (auto simp: outbox_grows_def intro: rows_move_refl)
next
  case (run_step s tns t tn u)
  then have "evolves tn t u" by (blast dest: pos_step_evolves)
  with run_step show ?case
    by (auto simp: evolves_def history_kept_def outbox_grows_def
        intro: rows_move_trans check_moves_trans order_moves_trans item_moves_trans)
qed

text \<open>The rows of one tenant.\<close>

definition tenant_view :: "uuid \<Rightarrow> pos_db \<Rightarrow> check list \<times> order list \<times> order_item list \<times>
    dining_table list \<times> table_zone list \<times> branch_settings list \<times> outbox_row list" where
  "tenant_view tn s =
     (filter (\<lambda>r. chk_tenant r = tn) (db_checks s), filter (\<lambda>r. ord_tenant r = tn) (db_orders s),
      filter (\<lambda>r. itm_tenant r = tn) (db_items s), filter (\<lambda>r. tbl_tenant r = tn) (db_tables s),
      filter (\<lambda>r. zon_tenant r = tn) (db_zones s), filter (\<lambda>r. bst_tenant r = tn) (db_settings s),
      filter (\<lambda>r. obx_tenant r = tn) (db_outbox s))"

lemma filter_foreign:
  assumes "foreign_rows tid tn rows' = foreign_rows tid tn rows" and "tn' \<noteq> tn"
  shows "filter (\<lambda>r. tid r = tn') rows' = filter (\<lambda>r. tid r = tn') rows"
proof -
  have "filter (\<lambda>r. tid r = tn') xs = filter (\<lambda>r. tid r = tn') (foreign_rows tid tn xs)" for xs
    using assms(2) by (induction xs) (auto simp: foreign_rows_def)
  with assms(1) show ?thesis by metis
qed

lemma same_foreign_view: "same_foreign tn s s' \<Longrightarrow> tn' \<noteq> tn \<Longrightarrow> tenant_view tn' s' = tenant_view tn' s"
  by (auto simp: same_foreign_def tenant_view_def intro: filter_foreign)

end
