(* ===== verification/Pos_Settled.thy ===== *)
theory Pos_Settled
  imports Pos_System
begin

text \<open>
  A check that is no longer open is settled: what was billed on it must not
  change behind the payment and the fiscal record. The invariant here is the
  whole bill of one check (its row, its orders and their lines) staying equal to
  a given value once the check is not open. It is shown statement by statement
  and call by call; the side conditions are what the guards of the code
  establish: the check, order or line a call writes to is not of that bill.
\<close>

named_theorems settled_intro \<open>operations that leave a settled bill as it is\<close>

type_synonym bill = "check list \<times> order list \<times> order_item list"

definition bill_of :: "uuid \<Rightarrow> pos_db \<Rightarrow> bill" where
  "bill_of k s =
     (let os = filter (\<lambda>r. ord_check r = Some k) (db_orders s)
      in (filter (\<lambda>c. chk_id c = k) (db_checks s), os,
          filter (\<lambda>it. itm_order it \<in> ord_id ` set os) (db_items s)))"

definition order_on_bill :: "bill \<Rightarrow> uuid \<Rightarrow> bool" where
  "order_on_bill V i \<longleftrightarrow> i \<in> ord_id ` set (fst (snd V))"

definition item_on_bill :: "bill \<Rightarrow> uuid \<Rightarrow> bool" where
  "item_on_bill V i \<longleftrightarrow> i \<in> itm_id ` set (snd (snd V))"

definition settled_bill :: "uuid \<Rightarrow> bill \<Rightarrow> pos_db \<Rightarrow> bool" where
  "settled_bill k V s \<longleftrightarrow>
     schema_ok s \<and> k \<noteq> uuid_Nil \<and> bill_of k s = V \<and>
     (\<exists>c \<in> set (fst V). chk_status c \<noteq> CheckStatusOpen)"

interpretation settled: tx_stable "settled_bill k V" for k V .

lemma settledI:
  assumes "tx_within (evolves tn) m"
    and "\<And>s x s'. settled_bill k V s \<Longrightarrow> m s = Inr (x, s') \<Longrightarrow> bill_of k s' = bill_of k s"
  shows "tx_on (settled_bill k V) (\<lambda>_. settled_bill k V) m"
proof (rule tx_onI)
  fix s x s'
  assume A: "settled_bill k V s" and m: "m s = Inr (x, s')"
  have "evolves tn s s'" by (rule tx_withinD [OF assms(1) m])
  moreover have "bill_of k s' = bill_of k s" by (rule assms(2) [OF A m])
  ultimately show "settled_bill k V s'" using A by (simp add: settled_bill_def evolves_def)
qed

lemma bill_of_cong:
  "db_checks s' = db_checks s \<Longrightarrow> db_orders s' = db_orders s \<Longrightarrow> db_items s' = db_items s \<Longrightarrow>
   bill_of k s' = bill_of k s"
  by (simp add: bill_of_def)

section \<open>What a settled bill excludes\<close>

lemma schema_keys:
  assumes "schema_ok s"
  shows "distinct (map chk_id (db_checks s))" "distinct (map ord_id (db_orders s))"
    "distinct (map itm_id (db_items s))"
  using assms by (simp_all add: schema_ok_def table_ok_def)

lemma settled_check:
  assumes "settled_bill k V s"
  shows "k \<in> chk_id ` set (db_checks s)"
    and "c \<in> set (db_checks s) \<Longrightarrow> chk_id c = k \<Longrightarrow> chk_status c \<noteq> CheckStatusOpen"
proof -
  from assms obtain c0 where c0: "c0 \<in> set (db_checks s)" "chk_id c0 = k"
    "chk_status c0 \<noteq> CheckStatusOpen"
    by (auto simp: settled_bill_def bill_of_def Let_def)
  then show "k \<in> chk_id ` set (db_checks s)" by auto
  assume "c \<in> set (db_checks s)" "chk_id c = k"
  moreover have "distinct (map chk_id (db_checks s))"
    using assms by (simp add: settled_bill_def schema_keys)
  ultimately have "c = c0" using c0(1,2) by (metis distinct_key_unique)
  with c0 show "chk_status c \<noteq> CheckStatusOpen" by simp
qed

text \<open>An order on another check, or on none, is not on the bill; nor are its lines.\<close>

lemma order_not_on_bill:
  assumes "settled_bill k V s" and "r \<in> set (db_orders s)" and "ord_check r \<noteq> Some k"
  shows "\<not> order_on_bill V (ord_id r)"
proof
  assume "order_on_bill V (ord_id r)"
  then obtain r' where "r' \<in> set (db_orders s)" "ord_check r' = Some k" "ord_id r' = ord_id r"
    using assms(1) by (auto simp: order_on_bill_def settled_bill_def bill_of_def Let_def)
  with assms show False
    using distinct_key_unique [of ord_id "db_orders s" r r'] schema_keys
    by (auto simp: settled_bill_def)
qed

lemma item_not_on_bill:
  assumes "settled_bill k V s" and "it \<in> set (db_items s)" and "\<not> order_on_bill V (itm_order it)"
  shows "\<not> item_on_bill V (itm_id it)"
proof
  assume "item_on_bill V (itm_id it)"
  then obtain it' where "it' \<in> set (db_items s)" "order_on_bill V (itm_order it')"
    "itm_id it' = itm_id it"
    using assms(1)
    by (auto simp: item_on_bill_def order_on_bill_def settled_bill_def bill_of_def Let_def)
  with assms show False
    using distinct_key_unique [of itm_id "db_items s" it it'] schema_keys
    by (auto simp: settled_bill_def)
qed

section \<open>Statements\<close>

lemma settled_insert_check [settled_intro]:
  "tx_on (settled_bill k V) (\<lambda>_. settled_bill k V) (sql_insert checks_table tx c)"
proof (rule settledI [OF insert_evolves(1)])
  fix s x s'
  assume A: "settled_bill k V s" and "sql_insert checks_table tx c s = Inr (x, s')"
  then show "bill_of k s' = bill_of k s"
    using settled_check(1) [OF A] by (auto simp: checks.insert_Inr bill_of_def)
qed

lemma settled_insert_order [settled_intro]:
  assumes "ord_check r \<noteq> Some k"
  shows "tx_on (settled_bill k V) (\<lambda>_. settled_bill k V) (sql_insert orders_table tx r)"
  using assms
  by (intro settledI [OF insert_evolves(2)]) (auto simp: orders.insert_Inr bill_of_def Let_def)

lemma settled_insert_item [settled_intro]:
  assumes "\<not> order_on_bill V (itm_order it)"
  shows "tx_on (settled_bill k V) (\<lambda>_. settled_bill k V) (sql_insert items_table tx it)"
  using assms
  by (intro settledI [OF insert_evolves(3)])
     (auto simp: items.insert_Inr bill_of_def Let_def settled_bill_def order_on_bill_def)

lemma settled_other_tables [settled_intro]:
  "tx_on (settled_bill k V) (\<lambda>_. settled_bill k V) (sql_insert tables_table tx t)"
  "tx_on (settled_bill k V) (\<lambda>_. settled_bill k V) (sql_insert zones_table tx z)"
  "tx_on (settled_bill k V) (\<lambda>_. settled_bill k V) (sql_insert settings_table tx b)"
  "tx_on (settled_bill k V) (\<lambda>_. settled_bill k V) (sql_insert outbox_table tx e)"
  "tx_on (settled_bill k V) (\<lambda>_. settled_bill k V) gen_random_uuid"
  by (rule settledI [OF insert_evolves(4)], auto simp: tables.insert_Inr intro!: bill_of_cong)
     (rule settledI [OF insert_evolves(5)], auto simp: zones.insert_Inr intro!: bill_of_cong,
      rule settledI [OF insert_evolves(6)], auto simp: settings.insert_Inr intro!: bill_of_cong,
      rule settledI [OF insert_evolves(7)], auto simp: outbox.insert_Inr intro!: bill_of_cong,
      rule settledI [OF gen_random_uuid_evolves],
      auto simp: gen_random_uuid_Inr intro!: bill_of_cong)

lemma filter_rls_update_other:
  "(\<And>r. r \<in> set rows \<Longrightarrow> P r \<Longrightarrow> \<not> Q r \<and> \<not> Q (f r)) \<Longrightarrow>
   filter Q (rls_update tid tx P f rows) = filter Q rows"
  unfolding rls_update_def by (intro filter_update_rows_other) auto

lemma settled_update_check [settled_intro]:
  assumes "\<And>c. chk_id (f c) = chk_id c" and "\<And>c. chk_tenant (f c) = chk_tenant c"
    and "\<And>c. P c \<Longrightarrow> check_moves c (f c)" and "\<And>c. P c \<Longrightarrow> chk_id c \<noteq> k"
  shows "tx_on (settled_bill k V) (\<lambda>_. settled_bill k V) (sql_update checks_table tx P f)"
proof (rule settledI [OF update_checks_evolves])
  fix s x s'
  assume "sql_update checks_table tx P f s = Inr (x, s')"
  then show "bill_of k s' = bill_of k s"
    using assms filter_rls_update_other [of "db_checks s" P "\<lambda>c. chk_id c = k" f chk_tenant tx]
    by (auto simp: checks.update_Inr bill_of_def)
qed (use assms in auto)

lemma settled_update_order [settled_intro]:
  assumes "\<And>r. ord_id (f r) = ord_id r" and "\<And>r. ord_tenant (f r) = ord_tenant r"
    and "\<And>r. P r \<Longrightarrow> order_moves r (f r)"
    and "\<And>r. P r \<Longrightarrow> ord_check r \<noteq> Some k \<or> \<not> order_on_bill V (ord_id r)"
    and "\<And>r. P r \<Longrightarrow> ord_check (f r) = ord_check r \<or> ord_check (f r) \<noteq> Some k"
  shows "tx_on (settled_bill k V) (\<lambda>_. settled_bill k V) (sql_update orders_table tx P f)"
proof (rule settledI [OF update_orders_evolves])
  fix s x s'
  assume A: "settled_bill k V s" and "sql_update orders_table tx P f s = Inr (x, s')"
  moreover have "ord_check r \<noteq> Some k \<and> ord_check (f r) \<noteq> Some k"
    if "r \<in> set (db_orders s)" "P r" for r
  proof -
    have "order_on_bill V (ord_id r)" if "ord_check r = Some k"
      using A \<open>r \<in> set (db_orders s)\<close> that
      by (auto simp: order_on_bill_def settled_bill_def bill_of_def Let_def)
    with assms(4,5) [OF \<open>P r\<close>] show ?thesis by auto
  qed
  then have "filter (\<lambda>r. ord_check r = Some k) (rls_update ord_tenant tx P f (db_orders s)) =
             filter (\<lambda>r. ord_check r = Some k) (db_orders s)"
    by (intro filter_rls_update_other) auto
  ultimately show "bill_of k s' = bill_of k s"
    by (auto simp: orders.update_Inr bill_of_def Let_def)
qed (use assms in auto)

lemma settled_update_item [settled_intro]:
  assumes "\<And>it. itm_id (f it) = itm_id it" and "\<And>it. itm_tenant (f it) = itm_tenant it"
    and "\<And>it. P it \<Longrightarrow> item_moves it (f it)"
    and "\<And>it. P it \<Longrightarrow> \<not> item_on_bill V (itm_id it)"
    and "\<And>it. P it \<Longrightarrow> \<not> order_on_bill V (itm_order (f it))"
  shows "tx_on (settled_bill k V) (\<lambda>_. settled_bill k V) (sql_update items_table tx P f)"
proof (rule settledI [OF update_items_evolves])
  fix s x s'
  assume A: "settled_bill k V s" and "sql_update items_table tx P f s = Inr (x, s')"
  moreover have "\<not> order_on_bill V (itm_order it) \<and> \<not> order_on_bill V (itm_order (f it))"
    if "it \<in> set (db_items s)" "P it" for it
  proof -
    have "item_on_bill V (itm_id it)" if "order_on_bill V (itm_order it)"
      using A \<open>it \<in> set (db_items s)\<close> that
      by (auto simp: item_on_bill_def order_on_bill_def settled_bill_def bill_of_def Let_def)
    with assms(4,5) [OF \<open>P it\<close>] show ?thesis by auto
  qed
  then have "filter (\<lambda>it. order_on_bill V (itm_order it)) (rls_update itm_tenant tx P f (db_items s)) =
             filter (\<lambda>it. order_on_bill V (itm_order it)) (db_items s)"
    by (intro filter_rls_update_other) auto
  ultimately show "bill_of k s' = bill_of k s"
    by (auto simp: items.update_Inr bill_of_def Let_def settled_bill_def order_on_bill_def)
qed (use assms in auto)

lemma settled_update_other [settled_intro]:
  "(\<And>t. tbl_id (f t) = tbl_id t) \<Longrightarrow> (\<And>t. tbl_tenant (f t) = tbl_tenant t) \<Longrightarrow>
   tx_on (settled_bill k V) (\<lambda>_. settled_bill k V) (sql_update tables_table tx P f)"
  "(\<And>z. zon_id (g z) = zon_id z) \<Longrightarrow> (\<And>z. zon_tenant (g z) = zon_tenant z) \<Longrightarrow>
   tx_on (settled_bill k V) (\<lambda>_. settled_bill k V) (sql_update zones_table tx Q g)"
  "(\<And>b. bst_branch (h b) = bst_branch b) \<Longrightarrow> (\<And>b. bst_tenant (h b) = bst_tenant b) \<Longrightarrow>
   tx_on (settled_bill k V) (\<lambda>_. settled_bill k V) (sql_update settings_table tx W h)"
  by (rule settledI [OF update_tables_evolves], auto simp: tables.update_Inr intro!: bill_of_cong)
     (rule settledI [OF update_zones_evolves], auto simp: zones.update_Inr intro!: bill_of_cong,
      rule settledI [OF update_settings_evolves], auto simp: settings.update_Inr intro!: bill_of_cong)

lemma settled_reads [settled_intro]:
  "tx_on (settled_bill k V) (\<lambda>_. settled_bill k V) (sql_find T tx P)"
  "tx_on (settled_bill k V) (\<lambda>_. settled_bill k V) (sql_select T tx P)"
  "tx_on (settled_bill k V) (\<lambda>_. settled_bill k V) (query_row e rows)"
  "tx_on (settled_bill k V) (\<lambda>_. settled_bill k V) (found_row e opt)"
  by (auto simp: tx_on_def sql_find_def sql_select_def query_row_Inr found_row_Inr)

lemma settled_outbox [settled_intro]:
  "tx_on (settled_bill k V) (\<lambda>_. settled_bill k V) (InsertOutbox tx tn agg i typ payload)"
  unfolding InsertOutbox_def by (intro settled.within_rules settled_intro)

section \<open>What the guards establish\<close>

lemma tx_gives_bind:
  assumes "tx_gives A (tx_bind m f) y" and "tx_on A (\<lambda>_. A) m"
  shows "\<exists>x. tx_gives A m x \<and> tx_gives A (f x) y"
proof -
  from assms(1) obtain s x t u where "A s" "m s = Inr (x, t)" "f x t = Inr (y, u)"
    by (auto simp: tx_gives_def tx_bind_Inr)
  moreover from this have "A t" using assms(2) by (blast dest: tx_onD)
  ultimately show ?thesis by (auto simp: tx_gives_def)
qed

lemma gives_new_check:
  assumes "tx_gives (settled_bill k V) (CheckRepo_Create tx c) x"
  shows "chk_id x \<noteq> k"
proof -
  from assms obtain s s' where A: "settled_bill k V s" and "CheckRepo_Create tx c s = Inr (x, s')"
    by (auto simp: tx_gives_def)
  then have "chk_id x \<notin> chk_id ` set (db_checks s)"
    by (auto simp: CheckRepo_Create_def Let_def tx_inv gen_random_uuid_Inr checks.insert_Inr)
  with settled_check(1) [OF A] show ?thesis by auto
qed

lemma gives_new_order_row:
  assumes "tx_gives (settled_bill k V) (sql_insert orders_table tx r) x"
  shows "\<not> order_on_bill V (ord_id x)"
proof -
  from assms obtain s s' where A: "settled_bill k V s"
    and "sql_insert orders_table tx r s = Inr (x, s')" by (auto simp: tx_gives_def)
  then have "ord_id x \<notin> ord_id ` set (db_orders s)" by (auto simp: orders.insert_Inr)
  moreover have "V = bill_of k s" using A by (simp add: settled_bill_def)
  ultimately show ?thesis by (auto simp: order_on_bill_def bill_of_def Let_def)
qed

lemma settled_GetForUpdate:
  assumes "settled_bill k V s" and "CheckRepo_GetForUpdate tx i s = Inr (c, s')"
  shows "chk_id c = i \<and> (chk_status c = CheckStatusOpen \<longrightarrow> i \<noteq> k)"
proof -
  from assms(2) have "c \<in> set (db_checks s)" "chk_id c = i"
    by (auto simp: CheckRepo_GetForUpdate_Inr dest!: rls_find_Some)
  with settled_check(2) [OF assms(1)] show ?thesis by auto
qed

lemma gives_check:
  "tx_gives (settled_bill k V) (CheckRepo_GetForUpdate tx i) c \<Longrightarrow>
   chk_id c = i \<and> (chk_status c = CheckStatusOpen \<longrightarrow> i \<noteq> k)"
  by (auto simp: tx_gives_def dest: settled_GetForUpdate)

lemma settled_GetOpenByTable:
  assumes "settled_bill k V s" and "CheckRepo_GetOpenByTableForUpdate tx t s = Inr (c, s')"
  shows "chk_id c \<noteq> k"
proof -
  from assms(2) have "c \<in> set (db_checks s)" "chk_status c = CheckStatusOpen"
    by (auto simp: CheckRepo_GetOpenByTable_Inr dest!: rls_find_Some)
  with settled_check(2) [OF assms(1)] show ?thesis by auto
qed

lemma gives_lock_rows:
  assumes "tx_gives A (lock_rows get is) m" and "m i = Some r"
    and "\<And>i. tx_on A (\<lambda>_. A) (get i)"
  shows "tx_gives A (get i) r"
  using assms(1,2)
proof (induction "is" arbitrary: m)
  case Nil
  then show ?case by (auto simp: tx_gives_def)
next
  case (Cons j js)
  then obtain s x t m' u where run: "A s" "get j s = Inr (x, t)" "lock_rows get js t = Inr (m', u)"
    and m: "m = (if j \<in> dom m' then m' else m'(j \<mapsto> x))"
    by (auto simp: tx_gives_def tx_inv)
  then have "A t" using assms(3) by (blast dest: tx_onD)
  with run have "tx_gives A (lock_rows get js) m'" by (auto simp: tx_gives_def)
  moreover have "tx_gives A (get j) x" using run by (auto simp: tx_gives_def)
  ultimately show ?case using Cons m by (auto split: if_splits)
qed

lemma settled_lockWritable:
  assumes A: "settled_bill k V s" and run: "lockWritableCheck tx opt b s = Inr (c, s')"
  shows "s' = s \<and> opt \<noteq> Some k \<and> (\<forall>x. c = Some x \<longrightarrow> chk_id x \<noteq> k)"
proof (cases "opt = None \<or> opt = Some uuid_Nil")
  case True
  with run A show ?thesis by (auto simp: lockWritableCheck_def settled_bill_def)
next
  case False
  then obtain i where i: "opt = Some i" "i \<noteq> uuid_Nil" by auto
  then obtain x where get: "CheckRepo_GetForUpdate tx i s = Inr (x, s)"
    and x: "c = Some x" "chk_status x = CheckStatusOpen" "s' = s"
    using run by (auto simp: lockWritableCheck_def tx_inv CheckRepo_GetForUpdate_Inr)
  with settled_GetForUpdate [OF A get] i show ?thesis by simp
qed

lemma gives_writable:
  "tx_gives (settled_bill k V) (lockWritableCheck tx opt b) c \<Longrightarrow>
   opt \<noteq> Some k \<and> (\<forall>x. c = Some x \<longrightarrow> chk_id x \<noteq> k)"
  by (auto simp: tx_gives_def dest: settled_lockWritable)

lemma gives_order_in_transition:
  assumes "tx_gives (settled_bill k V) (lockOrderForTransition c p tx i) r"
  shows "\<not> order_on_bill V i"
proof -
  from assms obtain s peek kopt s1 s' where A: "settled_bill k V s"
    and peek: "OrderRepo_GetHeader tx i s = Inr (peek, s)"
    and lock: "lockWritableCheck tx (ord_check peek) (ord_branch peek) s = Inr (kopt, s1)"
    by (auto simp: tx_gives_def lockOrderForTransition_def tx_inv OrderRepo_GetHeader_Inr)
  from peek have "peek \<in> set (db_orders s)" "ord_id peek = i"
    by (auto simp: OrderRepo_GetHeader_Inr dest!: rls_find_Some)
  moreover have "ord_check peek \<noteq> Some k" using settled_lockWritable [OF A lock] by simp
  ultimately show ?thesis using order_not_on_bill [OF A] by auto
qed

lemma gives_owners:
  assumes "tx_gives (settled_bill k V) (OrderRepo_ItemOwners tx is) owners"
    and "w \<in> set owners" and "own_check w \<noteq> Some k"
  shows "\<not> order_on_bill V (own_order w) \<and> \<not> item_on_bill V (own_item w)"
proof -
  from assms obtain s it r where A: "settled_bill k V s"
    and it: "it \<in> set (db_items s)" "itm_id it = own_item w" "itm_order it = own_order w"
    and r: "r \<in> set (db_orders s)" "ord_id r = itm_order it" "ord_check r = own_check w"
    by (auto simp: tx_gives_def OrderRepo_ItemOwners_def item_owner_rows_def split: if_splits)
  have "\<not> order_on_bill V (itm_order it)"
    using order_not_on_bill [OF A r(1)] r assms(3) by simp
  with item_not_on_bill [OF A it(1)] it show ?thesis by simp
qed

lemma gives_empty_orders:
  "tx_gives A (OrderRepo_EmptyOrderIDs tx is) ids \<Longrightarrow> set ids \<subseteq> set is"
  by (auto simp: tx_gives_def OrderRepo_EmptyOrderIDs_def split: if_splits)

section \<open>Repositories\<close>

lemma settled_check_repo [settled_intro]:
  "tx_on (settled_bill k V) (\<lambda>_. settled_bill k V) (CheckRepo_Create tx c)"
  "tx_on (settled_bill k V) (\<lambda>_. settled_bill k V) (CheckRepo_GetByID tx i)"
  "tx_on (settled_bill k V) (\<lambda>_. settled_bill k V) (CheckRepo_GetForUpdate tx i)"
  "tx_on (settled_bill k V) (\<lambda>_. settled_bill k V) (CheckRepo_GetOpenByTableForUpdate tx i)"
  "tx_on (settled_bill k V) (\<lambda>_. settled_bill k V) (CheckRepo_GetTotal tx i)"
  "i \<noteq> k \<Longrightarrow> tx_on (settled_bill k V) (\<lambda>_. settled_bill k V) (CheckRepo_RaisePax tx i pax)"
  "i \<noteq> k \<Longrightarrow> tx_on (settled_bill k V) (\<lambda>_. settled_bill k V) (CheckRepo_UpdateTable tx i t label ex)"
  "i \<noteq> k \<Longrightarrow> tx_on (settled_bill k V) (\<lambda>_. settled_bill k V) (CheckRepo_UpdateStatus tx i st ex by)"
  "i \<noteq> k \<Longrightarrow> tx_on (settled_bill k V) (\<lambda>_. settled_bill k V) (CheckRepo_MarkMerged tx i j ex)"
  unfolding CheckRepo_Create_def CheckRepo_GetByID_def CheckRepo_GetForUpdate_def
    CheckRepo_GetOpenByTableForUpdate_def CheckRepo_TotalsByCheckIDs_def CheckRepo_GetTotal_def
    CheckRepo_RaisePax_def CheckRepo_UpdateTable_def CheckRepo_UpdateStatus_def
    CheckRepo_MarkMerged_def Let_def
  by (intro settled.within_rules settled_intro;
      auto simp: check_moves_def check_machine.transition_iff allowedCheckTransitions_iff)+

lemma settled_order_repo [settled_intro]:
  "tx_on (settled_bill k V) (\<lambda>_. settled_bill k V) (OrderRepo_GetHeader tx i)"
  "tx_on (settled_bill k V) (\<lambda>_. settled_bill k V) (OrderRepo_GetForUpdate tx i)"
  "tx_on (settled_bill k V) (\<lambda>_. settled_bill k V) (OrderRepo_ListByCheck tx i)"
  "tx_on (settled_bill k V) (\<lambda>_. settled_bill k V) (OrderRepo_ItemOwners tx is)"
  "tx_on (settled_bill k V) (\<lambda>_. settled_bill k V) (OrderRepo_EmptyOrderIDs tx is)"
  "i \<noteq> k \<Longrightarrow> tx_on (settled_bill k V) (\<lambda>_. settled_bill k V) (OrderRepo_CancelActiveByCheck tx i)"
  "i \<noteq> k \<Longrightarrow> tx_on (settled_bill k V) (\<lambda>_. settled_bill k V) (OrderRepo_DeliverActiveByCheck tx i)"
  "a \<noteq> k \<Longrightarrow> b \<noteq> k \<Longrightarrow> tx_on (settled_bill k V) (\<lambda>_. settled_bill k V) (OrderRepo_ReassignToCheck tx a b)"
  "(\<And>i. i \<in> set is \<Longrightarrow> \<not> order_on_bill V i) \<Longrightarrow>
   tx_on (settled_bill k V) (\<lambda>_. settled_bill k V) (OrderRepo_CancelByIDs tx is)"
  "(\<And>i. i \<in> set is \<Longrightarrow> \<not> item_on_bill V i) \<Longrightarrow> \<not> order_on_bill V oid \<Longrightarrow>
   tx_on (settled_bill k V) (\<lambda>_. settled_bill k V) (OrderRepo_MoveItemsToOrder tx is oid)"
  unfolding OrderRepo_GetHeader_def OrderRepo_GetForUpdate_def OrderRepo_ListByCheck_def
    OrderRepo_ItemOwners_def OrderRepo_EmptyOrderIDs_def OrderRepo_CancelActiveByCheck_def
    OrderRepo_DeliverActiveByCheck_def OrderRepo_CancelByIDs_def OrderRepo_ReassignToCheck_def
    OrderRepo_MoveItemsToOrder_def OrderRepo_withItems_def OrderRepo_loadItems_def
  by (intro settled.within_rules settled_intro;
      auto simp: order_moves_def item_moves_def order_step_cancel order_step_deliver)+

lemma settled_order_status_repo [settled_intro]:
  "OrderStatusAccepted \<in> set (allowedOrderTransitions ex) \<Longrightarrow> \<not> order_on_bill V i \<Longrightarrow>
   tx_on (settled_bill k V) (\<lambda>_. settled_bill k V) (OrderRepo_Accept tx i by ex)"
  "OrderStatusRejected \<in> set (allowedOrderTransitions ex) \<Longrightarrow> \<not> order_on_bill V i \<Longrightarrow>
   tx_on (settled_bill k V) (\<lambda>_. settled_bill k V) (OrderRepo_Reject tx i by reason ex)"
  "st \<in> set (allowedOrderTransitions ex) \<Longrightarrow> \<not> order_on_bill V i \<Longrightarrow>
   tx_on (settled_bill k V) (\<lambda>_. settled_bill k V) (OrderRepo_AdvanceStatus tx i st ex)"
  unfolding OrderRepo_Accept_def OrderRepo_Reject_def OrderRepo_AdvanceStatus_def
    OrderRepo_withItems_def OrderRepo_loadItems_def
  by (intro settled.within_rules settled_intro; auto simp: order_moves_def order_step_allowed)+

lemma settled_insertItems [settled_intro]:
  "\<not> order_on_bill V oid \<Longrightarrow>
   tx_on (settled_bill k V) (\<lambda>_. settled_bill k V) (OrderRepo_insertItems tx oid tn its)"
  unfolding OrderRepo_insertItems_def
  by (intro settled.within_rules settled_intro) (simp add: item_insert_row_def)

lemma settled_order_create [settled_intro]:
  "ord_check r \<noteq> Some k \<Longrightarrow> tx_on (settled_bill k V) (\<lambda>_. settled_bill k V) (OrderRepo_Create tx r)"
  unfolding OrderRepo_Create_def
  by (intro settled.within_rules settled_intro; simp add: order_insert_row_def gives_new_order_row)

lemma gives_new_order:
  assumes "tx_gives (settled_bill k V) (OrderRepo_Create tx r) x" and "ord_check r \<noteq> Some k"
  shows "\<not> order_on_bill V (ord_id x)"
proof -
  have "tx_on (settled_bill k V) (\<lambda>_. settled_bill k V) (gen_random_uuid :: (pos_db, pos_err, uuid) tx)"
    by (rule settled_intro)
  with assms(1) obtain i where i: "tx_gives (settled_bill k V)
      (tx_bind (pos_sql (sql_insert orders_table tx (order_insert_row tx i r))) (\<lambda>created.
       tx_bind (OrderRepo_insertItems tx (ord_id created) (ord_tenant created) (ord_items r)) (\<lambda>its.
       tx_return (created\<lparr>ord_items := its\<rparr>)))) x"
    unfolding OrderRepo_Create_def by (blast dest: tx_gives_bind)
  moreover have "tx_on (settled_bill k V) (\<lambda>_. settled_bill k V)
      (pos_sql (sql_insert orders_table tx (order_insert_row tx i r)))"
    by (intro settled.within_rules settled_intro) (simp add: order_insert_row_def assms(2))
  ultimately obtain row where row: "tx_gives (settled_bill k V)
        (sql_insert orders_table tx (order_insert_row tx i r)) row"
    and "tx_gives (settled_bill k V)
       (tx_bind (OrderRepo_insertItems tx (ord_id row) (ord_tenant row) (ord_items r)) (\<lambda>its.
        tx_return (row\<lparr>ord_items := its\<rparr>))) x"
    by (force dest: tx_gives_bind)
  then have "ord_id x = ord_id row" by (auto simp: tx_gives_def tx_inv)
  with gives_new_order_row [OF row] show ?thesis by simp
qed

lemma settled_table_repo [settled_intro]:
  "tx_on (settled_bill k V) (\<lambda>_. settled_bill k V) (TableRepo_CreateZone tx z)"
  "tx_on (settled_bill k V) (\<lambda>_. settled_bill k V) (TableRepo_GetZoneByID tx i)"
  "tx_on (settled_bill k V) (\<lambda>_. settled_bill k V) (TableRepo_UpdateZone tx z)"
  "tx_on (settled_bill k V) (\<lambda>_. settled_bill k V) (TableRepo_CreateTable tx t)"
  "tx_on (settled_bill k V) (\<lambda>_. settled_bill k V) (TableRepo_GetTableByID tx i)"
  "tx_on (settled_bill k V) (\<lambda>_. settled_bill k V) (TableRepo_GetTableForUpdate tx i)"
  "tx_on (settled_bill k V) (\<lambda>_. settled_bill k V) (TableRepo_UpdateTable tx t)"
  "tx_on (settled_bill k V) (\<lambda>_. settled_bill k V) (TableRepo_UpdateStatus tx i st ex)"
  "tx_on (settled_bill k V) (\<lambda>_. settled_bill k V) (TableRepo_UpdateStatusIfCurrent tx i st ex)"
  "tx_on (settled_bill k V) (\<lambda>_. settled_bill k V) (BranchSettingsRepo_OrderFlowByBranch tx i)"
  "tx_on (settled_bill k V) (\<lambda>_. settled_bill k V) (BranchSettingsRepo_Upsert tx p)"
  unfolding TableRepo_CreateZone_def TableRepo_GetZoneByID_def TableRepo_UpdateZone_def
    TableRepo_CreateTable_def TableRepo_GetTableByID_def TableRepo_GetTableForUpdate_def
    TableRepo_UpdateTable_def TableRepo_UpdateStatus_def TableRepo_UpdateStatusIfCurrent_def
    BranchSettingsRepo_OrderFlowByBranch_def BranchSettingsRepo_Upsert_def
  by (intro settled.within_rules settled_intro; simp add: apply_settings_patch_def)+

section \<open>Transactions and services\<close>

lemma settled_WithTenantTx [settled_intro]:
  "(\<And>tx. tx_on (settled_bill k V) (\<lambda>_. settled_bill k V) (fn tx)) \<Longrightarrow>
   tx_on (settled_bill k V) (\<lambda>_. settled_bill k V) (WithTenantTx c tn fn)"
  unfolding WithTenantTx_def by (intro settled.within_rules)

lemma settled_lock_rows [settled_intro]:
  "(\<And>i. tx_on (settled_bill k V) (\<lambda>_. settled_bill k V) (get i)) \<Longrightarrow>
   tx_on (settled_bill k V) (\<lambda>_. settled_bill k V) (lock_rows get is)"
  by (induction "is") (auto intro!: settled.within_rules)

lemma gives_lockChecks:
  assumes "tx_gives (settled_bill k V) (lockChecks tx is) m"
  shows "\<forall>i c. m i = Some c \<longrightarrow> chk_id c = i \<and> (chk_status c = CheckStatusOpen \<longrightarrow> i \<noteq> k)"
  using gives_lock_rows [OF assms [unfolded lockChecks_def]] settled_check_repo(3)
  by (blast dest: gives_check)

lemma settled_check_tx [settled_intro]:
  "tx_on (settled_bill k V) (\<lambda>_. settled_bill k V) (take_table tx c g)"
  "tx_on (settled_bill k V) (\<lambda>_. settled_bill k V) (order_status_event tx tn i st key by reason oid)"
  "tx_on (settled_bill k V) (\<lambda>_. settled_bill k V) (releaseTableToCleaning tx opt)"
  unfolding take_table_def order_status_event_def releaseTableToCleaning_def
  by (intro settled.within_rules settled_intro)+

lemma settled_check_tx2 [settled_intro]:
  "tx_on (settled_bill k V) (\<lambda>_. settled_bill k V) (openCheckTx tx c g)"
  "i \<noteq> k \<Longrightarrow> tx_on (settled_bill k V) (\<lambda>_. settled_bill k V) (deliverLiveOrders tx tn i b by)"
  "i \<noteq> k \<Longrightarrow> tx_on (settled_bill k V) (\<lambda>_. settled_bill k V) (cancelLiveOrders tx tn i by)"
  unfolding openCheckTx_def deliverLiveOrders_def cancelLiveOrders_def
  by (intro settled.within_rules settled_intro; assumption?)+

lemma settled_check_service [settled_intro]:
  "tx_on (settled_bill k V) (\<lambda>_. settled_bill k V) (CheckService_Open c tn p x)"
  "tx_on (settled_bill k V) (\<lambda>_. settled_bill k V) (CheckService_Close sr c tn p i by)"
  "tx_on (settled_bill k V) (\<lambda>_. settled_bill k V) (CheckService_Cancel sr c tn p i by)"
  unfolding CheckService_Open_def CheckService_Close_def CheckService_Cancel_def closeTx_def
    cancelTx_def Let_def
  by (intro settled.within_rules settled_intro; auto dest!: gives_check tx_gives_require)+

lemma settled_move_tx [settled_intro]:
  "tx_on (settled_bill k V) (\<lambda>_. settled_bill k V) (lockChecks tx is)"
  "tx_on (settled_bill k V) (\<lambda>_. settled_bill k V) (lockTables tx is)"
  "tx_on (settled_bill k V) (\<lambda>_. settled_bill k V) (announceOrderIDsMoved tx tn is i reason)"
  "(\<And>w. w \<in> set owners \<Longrightarrow> \<not> item_on_bill V (own_item w)) \<Longrightarrow> chk_id target \<noteq> k \<Longrightarrow>
   tx_on (settled_bill k V) (\<lambda>_. settled_bill k V) (rehome_status tx tn owners source target st)"
  "(\<And>i. i \<in> set is \<Longrightarrow> \<not> order_on_bill V i) \<Longrightarrow>
   tx_on (settled_bill k V) (\<lambda>_. settled_bill k V) (cancelEmptiedOrders tx tn is i by)"
  unfolding lockChecks_def lockTables_def announceOrderIDsMoved_def rehome_status_def
    cancelEmptiedOrders_def Let_def
  by (intro settled.within_rules settled_intro;
      auto simp: moved_order_def dest!: gives_new_order gives_empty_orders)+

lemma settled_move_tx2 [settled_intro]:
  "tx_on (settled_bill k V) (\<lambda>_. settled_bill k V) (announceLiveOrdersMoved tx tn i reason)"
  "(\<And>w. w \<in> set owners \<Longrightarrow> \<not> item_on_bill V (own_item w)) \<Longrightarrow> chk_id target \<noteq> k \<Longrightarrow>
   tx_on (settled_bill k V) (\<lambda>_. settled_bill k V) (rehomeItems tx tn owners source target)"
  unfolding announceLiveOrdersMoved_def rehomeItems_def
  by (intro settled.within_rules settled_intro; blast?)+

lemma distinct_first_set: "set (distinct_first seen xs) \<subseteq> set xs"
  by (induction seen xs rule: distinct_first.induct) auto

lemma assertItemsBelong_check:
  "assertItemsBelongToCheck owners ids i = Inr u \<Longrightarrow> w \<in> set owners \<Longrightarrow> own_check w = Some i"
  by (auto simp: assertItemsBelongToCheck_def split: if_splits)

text \<open>What the three guards of \<open>moveItemsTx\<close> give together.\<close>

lemma moved_items_not_on_bill:
  assumes "tx_gives (settled_bill k V) (OrderRepo_ItemOwners tx is) owners"
    and "assertItemsBelongToCheck owners is i = Inr u" and "i \<noteq> k"
  shows "w \<in> set owners \<Longrightarrow> \<not> item_on_bill V (own_item w)"
    and "j \<in> set (sourceOrderIDs owners) \<Longrightarrow> \<not> order_on_bill V j"
proof -
  have own: "\<not> order_on_bill V (own_order w) \<and> \<not> item_on_bill V (own_item w)" if "w \<in> set owners" for w
    using assertItemsBelong_check [OF assms(2) that] assms(3)
    by (intro gives_owners [OF assms(1) that]) simp
  show "w \<in> set owners \<Longrightarrow> \<not> item_on_bill V (own_item w)" using own by blast
  show "j \<in> set (sourceOrderIDs owners) \<Longrightarrow> \<not> order_on_bill V j"
    using own distinct_first_set [of "[]" "map own_order owners"] by (auto simp: sourceOrderIDs_def)
qed

lemma settled_move_service [settled_intro]:
  "tx_on (settled_bill k V) (\<lambda>_. settled_bill k V) (CheckService_Transfer c tn p i t)"
  "tx_on (settled_bill k V) (\<lambda>_. settled_bill k V) (CheckService_Merge sr c tn p i j)"
  unfolding CheckService_Transfer_def CheckService_Merge_def transferTx_def mergeTx_def
  by (intro settled.within_rules settled_intro;
      auto dest!: gives_check gives_lockChecks tx_gives_require)+

lemma settled_MoveItems [settled_intro]:
  "tx_on (settled_bill k V) (\<lambda>_. settled_bill k V) (CheckService_MoveItems sr c tn p i j its)"
  unfolding CheckService_MoveItems_def moveItemsTx_def
  by (intro settled.within_rules settled_intro;
      auto dest!: gives_lockChecks tx_gives_require tx_gives_lift dest: moved_items_not_on_bill)

lemma settled_order_tx [settled_intro]:
  "tx_on (settled_bill k V) (\<lambda>_. settled_bill k V) (applyBirthStatus tx r by)"
  "tx_on (settled_bill k V) (\<lambda>_. settled_bill k V) (insertBornAcceptedEvent tx r)"
  "tx_on (settled_bill k V) (\<lambda>_. settled_bill k V) (lockWritableCheck tx opt b)"
  "(\<And>x. kopt = Some x \<Longrightarrow> chk_id x \<noteq> k) \<Longrightarrow>
   tx_on (settled_bill k V) (\<lambda>_. settled_bill k V) (derivePax tx kopt its)"
  unfolding applyBirthStatus_def insertBornAcceptedEvent_def lockWritableCheck_def derivePax_def
    Let_def
  by (intro settled.within_rules settled_intro; auto)+

lemma settled_lockOrder [settled_intro]:
  "tx_on (settled_bill k V) (\<lambda>_. settled_bill k V) (lockOrderForTransition c p tx i)"
  unfolding lockOrderForTransition_def by (intro settled.within_rules settled_intro)

lemma settled_order_service [settled_intro]:
  "tx_on (settled_bill k V) (\<lambda>_. settled_bill k V) (OrderService_Accept c tn p i by)"
  "tx_on (settled_bill k V) (\<lambda>_. settled_bill k V) (OrderService_Reject c tn p i by reason)"
  "tx_on (settled_bill k V) (\<lambda>_. settled_bill k V) (OrderService_AdvanceStatus c tn p i st)"
  "tx_on (settled_bill k V) (\<lambda>_. settled_bill k V) (OrderService_Cancel c tn p i by)"
  unfolding OrderService_Accept_def OrderService_Reject_def
    OrderService_AdvanceStatus_def OrderService_Cancel_def OrderService_transition_def
    acceptTx_def rejectTx_def transitionTx_def
  by (intro settled.within_rules settled_intro;
      auto simp: order_machine.transition_iff dest!: tx_gives_lift dest: gives_order_in_transition)+

lemma gives_birth_check:
  "tx_gives A (applyBirthStatus tx r by) r' \<Longrightarrow> ord_check r' = ord_check r \<and> ord_branch r' = ord_branch r"
  by (auto simp: tx_gives_def applyBirthStatus_def tx_inv)

lemma settled_Place [settled_intro]:
  "tx_on (settled_bill k V) (\<lambda>_. settled_bill k V) (OrderService_Place price c tn p r)"
  unfolding OrderService_Place_def placeTx_def Let_def
  by (intro settled.within_rules settled_intro; auto dest!: gives_birth_check gives_writable)

lemma settled_table_service [settled_intro]:
  "tx_on (settled_bill k V) (\<lambda>_. settled_bill k V) (TableService_CreateZone c tn p z)"
  "tx_on (settled_bill k V) (\<lambda>_. settled_bill k V) (TableService_UpdateZone c tn p i zp)"
  "tx_on (settled_bill k V) (\<lambda>_. settled_bill k V) (TableService_CreateTable c tn p t)"
  "tx_on (settled_bill k V) (\<lambda>_. settled_bill k V) (TableService_UpdateTable c tn p i tp)"
  "tx_on (settled_bill k V) (\<lambda>_. settled_bill k V) (TableService_SetStatus c tn p i st b)"
  "tx_on (settled_bill k V) (\<lambda>_. settled_bill k V) (BranchSettingsService_Set c tn p req)"
  unfolding TableService_CreateZone_def TableService_UpdateZone_def TableService_CreateTable_def
    TableService_UpdateTable_def TableService_SetStatus_def BranchSettingsService_Set_def Let_def
  by (intro settled.within_rules settled_intro)+

section \<open>The guest path, and any run\<close>

lemma gives_opened_check:
  assumes "tx_gives (settled_bill k V) (openCheckTx tx c g) x"
  shows "chk_id x \<noteq> k"
proof -
  from assms obtain c' where "tx_gives (settled_bill k V)
      (tx_bind (CheckRepo_Create tx c') (\<lambda>created.
       tx_bind (InsertOutbox tx (chk_tenant c') ''check'' (chk_id created) ''check.opened''
         (check_opened_payload created (chk_tenant c'))) (\<lambda>_. tx_return created))) x"
    unfolding openCheckTx_def using settled_check_tx(1) by (blast dest: tx_gives_bind)
  then have "\<exists>y. tx_gives (settled_bill k V) (CheckRepo_Create tx c') y \<and> y = x"
    by (auto simp: tx_gives_def tx_inv)
  then show ?thesis by (auto dest: gives_new_check)
qed

lemma gives_guest_check:
  assumes "tx_gives (settled_bill k V) (resolveGuestCheck id tx req) x"
  shows "chk_id x \<noteq> k"
proof -
  from assms obtain s s' where A: "settled_bill k V s"
    and run: "resolveGuestCheck id tx req s = Inr (x, s')" by (auto simp: tx_gives_def)
  from run consider
      "CheckRepo_GetOpenByTableForUpdate tx (gor_table req) s = Inr (x, s')"
    | "openCheckTx tx (guest_check req) guestTableGuard s = Inr (x, s')"
    by (auto simp: resolveGuestCheck_def split: sum.splits if_splits)
  then show ?thesis
  proof cases
    case 1
    then show ?thesis by (rule settled_GetOpenByTable [OF A])
  next
    case 2
    with A have "tx_gives (settled_bill k V) (openCheckTx tx (guest_check req) guestTableGuard) x"
      by (auto simp: tx_gives_def)
    then show ?thesis by (rule gives_opened_check)
  qed
qed

lemma settled_resolveGuestCheck [settled_intro]:
  "tx_on (settled_bill k V) (\<lambda>_. settled_bill k V) (resolveGuestCheck id tx req)"
proof (rule tx_onI)
  fix s x s'
  assume A: "settled_bill k V s" and "resolveGuestCheck id tx req s = Inr (x, s')"
  then have "s' = s \<or> openCheckTx tx (guest_check req) guestTableGuard s = Inr (x, s')"
    by (auto simp: resolveGuestCheck_def CheckRepo_GetOpenByTable_Inr split: sum.splits if_splits)
  then show "settled_bill k V s'" using A tx_onD [OF settled_check_tx2(1)] by blast
qed

lemma settled_placeGuestOnce:
  "tx_on (settled_bill k V) (\<lambda>_. settled_bill k V) (placeGuestOnce id c req link)"
  unfolding placeGuestOnce_def placeGuestTx_def Let_def
  by (intro settled.within_rules settled_intro; auto dest!: gives_guest_check)

lemma settled_PlaceGuest [settled_intro]:
  "tx_on (settled_bill k V) (\<lambda>_. settled_bill k V) (OrderService_PlaceGuest id id c req link)"
  using settled_placeGuestOnce
  by (auto simp: tx_on_def OrderService_PlaceGuest_def split: sum.splits if_splits)

lemma settled_step:
  assumes "settled_bill k V s" and "pos_step tn s s'"
  shows "settled_bill k V s'"
  using assms(2,1)
  by (induction rule: pos_step.induct)
     (blast intro: settled_check_service [THEN tx_onD] settled_move_service [THEN tx_onD]
        settled_MoveItems [THEN tx_onD] settled_Place [THEN tx_onD] settled_PlaceGuest [THEN tx_onD]
        settled_order_service [THEN tx_onD] settled_table_service [THEN tx_onD])+

lemma settled_run: "pos_run s tns s' \<Longrightarrow> settled_bill k V s \<Longrightarrow> settled_bill k V s'"
  by (induction rule: pos_run.induct) (auto intro: settled_step)

end
