(* ===== verification/Pos_Effects.thy ===== *)
theory Pos_Effects
  imports Pos_Settled
begin

text \<open>
  What the steps of a transaction do to the database, in the form the functional
  theorems about the service calls use: which events were emitted, how the rows
  of one table changed, and what a check owes as a sum over its lines.
\<close>

definition pos_tx :: "ctx \<Rightarrow> uuid \<Rightarrow> pgtx" where
  "pos_tx c tn = \<lparr>tx_tenant = tn, tx_now = ctx_now c\<rparr>"

lemma pos_tx_simps [simp]: "tx_tenant (pos_tx c tn) = tn" "tx_now (pos_tx c tn) = ctx_now c"
  by (simp_all add: pos_tx_def)

lemma WithTenantTx_run [simp]:
  "WithTenantTx c tn fn s = Inr r \<longleftrightarrow> tn \<noteq> uuid_Nil \<and> fn (pos_tx c tn) s = Inr r"
  by (simp add: WithTenantTx_Inr pos_tx_def)

lemma WithTenantTx_valid: "tn \<noteq> uuid_Nil \<Longrightarrow> WithTenantTx c tn fn s = fn (pos_tx c tn) s"
  by (simp add: WithTenantTx_def pos_tx_def)

section \<open>Events\<close>

type_synonym event = "uuid \<times> string \<times> uuid \<times> string \<times> (string \<times> json) list"

definition event_of :: "outbox_row \<Rightarrow> event" where
  "event_of e = (obx_tenant e, obx_aggregate e, obx_agg_id e, obx_type e, obx_payload e)"

text \<open>\<open>s'\<close> is \<open>s\<close> with the events appended, and nothing else but the id generator moved.\<close>

definition emitted :: "pos_db \<Rightarrow> event list \<Rightarrow> pos_db \<Rightarrow> bool" where
  "emitted s evs s' \<longleftrightarrow>
     (\<exists>new n. s' = s\<lparr>db_ctr := n, db_outbox := db_outbox s @ new\<rparr> \<and> map event_of new = evs)"

definition events_since :: "pos_db \<Rightarrow> pos_db \<Rightarrow> event list" where
  "events_since s s' = map event_of (drop (length (db_outbox s)) (db_outbox s'))"

lemma emitted_fields:
  assumes "emitted s evs s'"
  shows "db_checks s' = db_checks s" "db_orders s' = db_orders s" "db_items s' = db_items s"
    "db_tables s' = db_tables s" "db_zones s' = db_zones s" "db_settings s' = db_settings s"
    "\<exists>new. db_outbox s' = db_outbox s @ new \<and> map event_of new = evs"
  using assms by (auto simp: emitted_def)

lemma emitted_Nil: "emitted s [] s"
  unfolding emitted_def by (rule exI [of _ "[]"], rule exI [of _ "db_ctr s"]) simp

lemma emitted_trans:
  assumes "emitted s evs t" and "emitted t evs' u"
  shows "emitted s (evs @ evs') u"
proof -
  from assms obtain new n new' n' where t: "t = s\<lparr>db_ctr := n, db_outbox := db_outbox s @ new\<rparr>"
    and u: "u = t\<lparr>db_ctr := n', db_outbox := db_outbox t @ new'\<rparr>"
    and "map event_of new = evs" "map event_of new' = evs'"
    by (auto simp: emitted_def)
  then show ?thesis
    unfolding emitted_def by (intro exI [of _ "new @ new'"] exI [of _ n']) simp
qed

lemma InsertOutbox_emits:
  "InsertOutbox tx tn agg i typ payload s = Inr (u, s') \<Longrightarrow> emitted s [(tn, agg, i, typ, payload)] s'"
  unfolding emitted_def
  by (intro exI [of _ "[outbox_event (db_rand s (db_ctr s)) tn agg i typ payload]"]
      exI [of _ "Suc (db_ctr s)"]) (auto simp: InsertOutbox_Inr event_of_def outbox_event_def)

lemma tx_each_emits:
  assumes "\<And>x s u s'. f x s = Inr (u, s') \<Longrightarrow> emitted s [ev x] s'"
  shows "tx_each f xs s = Inr (u, s') \<Longrightarrow> emitted s (map ev xs) s'"
proof (induction xs arbitrary: s)
  case Nil
  then show ?case by (simp add: emitted_Nil)
next
  case (Cons x xs)
  then obtain t where "emitted s [ev x] t" and "emitted t (map ev xs) s'"
    by (auto simp: tx_inv dest: assms)
  then show ?case using emitted_trans [of s "[ev x]" t "map ev xs" s'] by simp
qed

section \<open>What a check owes, line by line\<close>

text \<open>An order is billed to a check when it is the tenant's, on the check, and
  neither rejected nor cancelled.\<close>

definition billed_on :: "uuid \<Rightarrow> order list \<Rightarrow> uuid \<Rightarrow> uuid \<Rightarrow> bool" where
  "billed_on tn os k oid \<longleftrightarrow>
     (\<exists>r \<in> set os. ord_tenant r = tn \<and> ord_id r = oid \<and> ord_check r = Some k \<and>
        ord_status r \<notin> set InactiveOrderStatuses)"

definition line_sum :: "uuid \<Rightarrow> order_item list \<Rightarrow> (uuid \<Rightarrow> bool) \<Rightarrow> int" where
  "line_sum tn its on =
     (\<Sum>it \<leftarrow> its. if itm_tenant it = tn \<and> on (itm_order it) then line_amount it else 0)"

lemma sum_list_swap:
  fixes f :: "'a \<Rightarrow> 'b \<Rightarrow> int"
  shows "(\<Sum>x \<leftarrow> xs. \<Sum>y \<leftarrow> ys. f x y) = (\<Sum>y \<leftarrow> ys. \<Sum>x \<leftarrow> xs. f x y)"
  by (induction xs) (simp_all add: sum_list_addf)

lemma sum_list_unique:
  assumes "distinct (map key rs)"
  shows "(\<Sum>r \<leftarrow> rs. if key r = i \<and> Q r then a else (0::int)) =
         (if \<exists>r \<in> set rs. key r = i \<and> Q r then a else 0)"
  using assms by (induction rs) (auto split: if_splits)

lemma check_total_lines:
  assumes "distinct (map ord_id (db_orders s))"
  shows "check_total tx s k =
         line_sum (tx_tenant tx) (db_items s) (billed_on (tx_tenant tx) (db_orders s) k)"
proof -
  let ?tn = "tx_tenant tx"
  let ?Q = "\<lambda>r. ord_tenant r = ?tn \<and> ord_check r = Some k \<and> ord_status r \<notin> set InactiveOrderStatuses"
  let ?f = "\<lambda>r it. if itm_tenant it = ?tn \<and> (ord_id r = itm_order it \<and> ?Q r) then line_amount it else 0"
  have sel: "(\<Sum>x \<leftarrow> rls_select tid tx P xs. g x) = (\<Sum>x \<leftarrow> xs. if tid x = ?tn \<and> P x then g x else 0)"
    for tid :: "'b \<Rightarrow> uuid" and P xs and g :: "'b \<Rightarrow> int"
    by (simp add: rls_select_def sum_list_map_if)
  have "check_total tx s k =
        (\<Sum>r \<leftarrow> db_orders s. if ?Q r then \<Sum>it \<leftarrow> db_items s.
           if itm_tenant it = ?tn \<and> itm_order it = ord_id r then line_amount it else 0 else 0)"
    by (simp add: check_total_orders billed_orders_def order_worth_def sel conj_assoc)
  also have "\<dots> = (\<Sum>r \<leftarrow> db_orders s. \<Sum>it \<leftarrow> db_items s. ?f r it)"
  proof (rule arg_cong [where f = sum_list], rule map_cong [OF refl])
    fix r
    show "(if ?Q r then \<Sum>it \<leftarrow> db_items s.
             if itm_tenant it = ?tn \<and> itm_order it = ord_id r then line_amount it else 0 else 0) =
          (\<Sum>it \<leftarrow> db_items s. ?f r it)"
    proof (cases "?Q r")
      case True
      then show ?thesis
        by (simp add: eq_commute [of "ord_id r"])
    next
      case False
      then have "?f r it = 0" for it by auto
      then show ?thesis using False by (simp only: if_False sum_list_0)
    qed
  qed
  also have "\<dots> = (\<Sum>it \<leftarrow> db_items s. \<Sum>r \<leftarrow> db_orders s. ?f r it)" by (rule sum_list_swap)
  also have "\<dots> = (\<Sum>it \<leftarrow> db_items s. if itm_tenant it = ?tn \<and>
                    billed_on ?tn (db_orders s) k (itm_order it) then line_amount it else 0)"
  proof (rule arg_cong [where f = sum_list], rule map_cong [OF refl])
    fix it
    have "(\<Sum>r \<leftarrow> db_orders s. if ord_id r = itm_order it \<and> ?Q r then line_amount it else 0) =
          (if \<exists>r \<in> set (db_orders s). ord_id r = itm_order it \<and> ?Q r then line_amount it else 0)"
      by (rule sum_list_unique [OF assms])
    moreover have "(\<exists>r \<in> set (db_orders s). ord_id r = itm_order it \<and> ?Q r) \<longleftrightarrow>
                   billed_on ?tn (db_orders s) k (itm_order it)"
      by (auto simp: billed_on_def)
    ultimately show "(\<Sum>r \<leftarrow> db_orders s. ?f r it) =
        (if itm_tenant it = ?tn \<and> billed_on ?tn (db_orders s) k (itm_order it)
         then line_amount it else 0)"
      by (cases "itm_tenant it = ?tn") simp_all
  qed
  finally show ?thesis by (simp add: line_sum_def)
qed

text \<open>The total is a function of the bill.\<close>

lemma check_total_bill:
  assumes "bill_of k s' = bill_of k s"
  shows "check_total tx s' k = check_total tx s k"
proof -
  have "check_total tx u k = (\<Sum>r \<leftarrow> filter (\<lambda>r. ord_tenant r = tx_tenant tx \<and>
           ord_status r \<notin> set InactiveOrderStatuses) (fst (snd (bill_of k u))).
         \<Sum>it \<leftarrow> filter (\<lambda>it. itm_tenant it = tx_tenant tx \<and> itm_order it = ord_id r)
                 (snd (snd (bill_of k u))). line_amount it)" for u
  proof -
    have "filter (\<lambda>it. itm_tenant it = tx_tenant tx \<and> itm_order it = ord_id r) (db_items u) =
          filter (\<lambda>it. itm_tenant it = tx_tenant tx \<and> itm_order it = ord_id r)
            (snd (snd (bill_of k u)))" if "r \<in> set (fst (snd (bill_of k u)))" for r
      using that by (auto simp: bill_of_def Let_def filter_filter intro!: filter_cong)
    then show ?thesis
      by (auto simp: check_total_orders billed_orders_def order_worth_def rls_select_def bill_of_def
          Let_def filter_filter conj_comms intro!: arg_cong [where f = sum_list] map_cong
          cong: filter_cong)
  qed
  with assms show ?thesis by simp
qed

lemma line_sum_split:
  assumes "\<And>it. it \<in> set its \<Longrightarrow> \<not> (on1 (itm_order it) \<and> on2 (itm_order it))"
  shows "line_sum tn its on1 + line_sum tn its on2 =
         line_sum tn its (\<lambda>i. on1 i \<or> on2 i)"
  using assms by (induction its) (auto simp: line_sum_def)

lemma line_sum_cong:
  "(\<And>it. it \<in> set its \<Longrightarrow> itm_tenant it = tn \<Longrightarrow> on (itm_order it) = on' (itm_order it)) \<Longrightarrow>
   line_sum tn its on = line_sum tn its on'"
  unfolding line_sum_def by (intro arg_cong [where f = sum_list] map_cong refl) auto

end
