(* ===== verification/Pos_Check_Facts.thy ===== *)
theory Pos_Check_Facts
  imports Pos_Effects
begin

text \<open>
  What opening, closing and cancelling a check do to the database when they
  succeed, and which error they give otherwise.
\<close>

section \<open>Settling a check\<close>

definition status_event ::
  "uuid \<Rightarrow> uuid \<Rightarrow> order_status \<Rightarrow> string \<Rightarrow> uuid \<Rightarrow> string \<Rightarrow> uuid \<Rightarrow> event" where
  "status_event tn k st by_key by reason i =
     (tn, ''order'', i, ''order.status_changed'',
      [(''tenant_id'', JId tn), (''order_id'', JId i), (''check_id'', JId k),
       (''status'', JStr (order_status_string st)), (by_key, JId by), (''reason'', JStr reason)])"

lemma order_status_events:
  assumes "tx_each (order_status_event tx tn k st by_key by reason) ids s = Inr (u, s')"
  shows "emitted s (map (status_event tn k st by_key by reason) ids) s'"
  using assms
  by (rule tx_each_emits [rotated])
     (auto simp: status_event_def order_status_event_def dest: InsertOutbox_emits)

text \<open>The live orders of a check, and the orders after all of them took a status.\<close>

definition live_orders :: "uuid \<Rightarrow> uuid \<Rightarrow> order list \<Rightarrow> order list" where
  "live_orders tn k os =
     filter (\<lambda>r. ord_tenant r = tn \<and> ord_check r = Some k \<and>
                 ord_status r \<in> set KitchenActiveOrderStatuses) os"

definition end_live_orders :: "pgtx \<Rightarrow> uuid \<Rightarrow> order_status \<Rightarrow> order list \<Rightarrow> order list" where
  "end_live_orders tx k st os =
     rls_update ord_tenant tx
       (\<lambda>r. ord_check r = Some k \<and> ord_status r \<in> set KitchenActiveOrderStatuses)
       (\<lambda>r. r\<lparr>ord_status := st, ord_updated := tx_now tx\<rparr>) os"

lemma end_live_orders_none:
  assumes "st \<notin> set KitchenActiveOrderStatuses"
  shows "live_orders (tx_tenant tx) k (end_live_orders tx k st os) = []"
  using assms unfolding live_orders_def end_live_orders_def by (induction os) auto

lemma DeliverActiveByCheck_Inr:
  "OrderRepo_DeliverActiveByCheck tx k s = Inr (ids, s') \<Longrightarrow>
   ids = map ord_id (live_orders (tx_tenant tx) k (db_orders s)) \<and>
   s' = s\<lparr>db_orders := end_live_orders tx k OrderStatusDelivered (db_orders s)\<rparr>"
  by (auto simp: OrderRepo_DeliverActiveByCheck_def tx_inv orders.update_Inr live_orders_def
      end_live_orders_def rls_select_def)

lemma CancelActiveByCheck_Inr:
  "OrderRepo_CancelActiveByCheck tx k s = Inr (ids, s') \<Longrightarrow>
   ids = map ord_id (live_orders (tx_tenant tx) k (db_orders s)) \<and>
   s' = s\<lparr>db_orders := end_live_orders tx k OrderStatusCancelled (db_orders s)\<rparr>"
  by (auto simp: OrderRepo_CancelActiveByCheck_def tx_inv orders.update_Inr live_orders_def
      end_live_orders_def rls_select_def)

text \<open>The orders of the check after a close: delivered in the simple flow, as they
  were in the full one.\<close>

definition closed_orders :: "pgtx \<Rightarrow> pos_db \<Rightarrow> uuid \<Rightarrow> uuid \<Rightarrow> order list" where
  "closed_orders tx s branchID k =
     (if branch_flow tx s branchID = OrderFlowSimple
      then end_live_orders tx k OrderStatusDelivered (db_orders s) else db_orders s)"

definition close_order_events :: "pgtx \<Rightarrow> pos_db \<Rightarrow> uuid \<Rightarrow> uuid \<Rightarrow> uuid \<Rightarrow> uuid \<Rightarrow> event list" where
  "close_order_events tx s tn branchID k by =
     (if branch_flow tx s branchID = OrderFlowSimple
      then map (status_event tn k OrderStatusDelivered ''delivered_by'' by ''check_closed'' \<circ> ord_id)
             (live_orders (tx_tenant tx) k (db_orders s))
      else [])"

lemma deliverLiveOrders_Inr:
  assumes "deliverLiveOrders tx tn k b by s = Inr (u, s')"
  shows "\<exists>n new. s' = s\<lparr>db_orders := closed_orders tx s b k, db_ctr := n,
                       db_outbox := db_outbox s @ new\<rparr> \<and>
           map event_of new = close_order_events tx s tn b k by"
proof (cases "branch_flow tx s b = OrderFlowSimple")
  case True
  with assms obtain ids t where "OrderRepo_DeliverActiveByCheck tx k s = Inr (ids, t)"
    and ev: "tx_each (order_status_event tx tn k OrderStatusDelivered ''delivered_by'' by
               ''check_closed'') ids t = Inr (u, s')"
    by (auto simp: deliverLiveOrders_def tx_inv)
  then have t: "ids = map ord_id (live_orders (tx_tenant tx) k (db_orders s))"
      "t = s\<lparr>db_orders := end_live_orders tx k OrderStatusDelivered (db_orders s)\<rparr>"
    by (auto dest: DeliverActiveByCheck_Inr)
  with order_status_events [OF ev] True show ?thesis
    by (auto simp: emitted_def closed_orders_def close_order_events_def)
next
  case False
  with assms have "s' = s" by (auto simp: deliverLiveOrders_def tx_inv)
  with False show ?thesis
    by (intro exI [of _ "db_ctr s"] exI [of _ "[]"])
       (simp add: closed_orders_def close_order_events_def)
qed

text \<open>The row of the check, and its table, after it left the open state.\<close>

definition end_check :: "pgtx \<Rightarrow> uuid \<Rightarrow> check_status \<Rightarrow> uuid \<Rightarrow> check list \<Rightarrow> check list" where
  "end_check tx k st by cs =
     rls_update chk_tenant tx (\<lambda>c. chk_id c = k \<and> chk_status c = CheckStatusOpen)
       (\<lambda>c. c\<lparr>chk_status := st, chk_closed_by := Some by, chk_closed_at := Some (tx_now tx),
              chk_updated := tx_now tx\<rparr>) cs"

definition release_table :: "pgtx \<Rightarrow> uuid option \<Rightarrow> table_status \<Rightarrow> dining_table list \<Rightarrow> dining_table list"
where
  "release_table tx tableID st ts =
     (case tableID of None \<Rightarrow> ts
      | Some i \<Rightarrow> rls_update tbl_tenant tx (\<lambda>t. tbl_id t = i \<and> tbl_status t = TableStatusOccupied)
                   (\<lambda>t. t\<lparr>tbl_status := st, tbl_updated := tx_now tx\<rparr>) ts)"

lemma releaseTableToCleaning_Inr:
  "releaseTableToCleaning tx opt s = Inr (u, s') \<Longrightarrow>
   s' = s\<lparr>db_tables := release_table tx opt TableStatusCleaning (db_tables s)\<rparr>"
  by (auto simp: releaseTableToCleaning_def release_table_def TableRepo_UpdateStatusIfCurrent_def
      tx_inv tables.update_Inr split: option.splits)

lemma UpdateStatus_end_check:
  assumes "CheckRepo_UpdateStatus tx k st CheckStatusOpen (Some by) s = Inr (x, s')"
    and "st = CheckStatusClosed \<or> st = CheckStatusCancelled"
  shows "s' = s\<lparr>db_checks := end_check tx k st by (db_checks s)\<rparr> \<and>
         x = (hd (rls_select chk_tenant tx (\<lambda>c. chk_id c = k \<and> chk_status c = CheckStatusOpen)
               (db_checks s)))
             \<lparr>chk_status := st, chk_closed_by := Some by, chk_closed_at := Some (tx_now tx),
              chk_updated := tx_now tx\<rparr> \<and>
         rls_select chk_tenant tx (\<lambda>c. chk_id c = k \<and> chk_status c = CheckStatusOpen)
               (db_checks s) \<noteq> []"
  using assms
  by (auto simp: CheckRepo_UpdateStatus_def tx_inv checks.update_Inr row_inv end_check_def hd_map
      TransitionCheckStatus_def)

definition simple_check_event :: "string \<Rightarrow> string \<Rightarrow> uuid \<Rightarrow> uuid \<Rightarrow> uuid \<Rightarrow> event" where
  "simple_check_event typ by_key tn k by =
     (tn, ''check'', k, typ, [(''tenant_id'', JId tn), (''check_id'', JId k), (by_key, JId by)])"

lemma paymentCoversTotal_Inr: "paymentCoversTotal paid pending owed = Inr u \<longleftrightarrow> owed \<le> paid"
  by (auto simp: paymentCoversTotal_def)

lemma first_open_row:
  assumes "rls_find chk_tenant tx (\<lambda>c. chk_id c = k) cs = Some cur" and "chk_status cur = CheckStatusOpen"
  shows "hd (rls_select chk_tenant tx (\<lambda>c. chk_id c = k \<and> chk_status c = CheckStatusOpen) cs) = cur"
  using assms
  by (induction cs) (auto simp: rls_find_def find_row_def rls_select_def split: if_splits)

lemma closeTx_Inr:
  assumes "closeTx c p tn k by paid pending tx s = Inr (x, s')"
  shows "\<exists>cur n new.
     rls_find chk_tenant tx (\<lambda>c. chk_id c = k) (db_checks s) = Some cur \<and>
     may_act c p (chk_branch cur) \<and> chk_status cur = CheckStatusOpen \<and>
     total_in_range tx s k \<and> check_total tx s k \<le> paid \<and>
     x = cur\<lparr>chk_status := CheckStatusClosed, chk_closed_by := Some by,
             chk_closed_at := Some (tx_now tx), chk_updated := tx_now tx\<rparr> \<and>
     s' = s\<lparr>db_checks := end_check tx k CheckStatusClosed by (db_checks s),
            db_orders := closed_orders tx s (chk_branch cur) k,
            db_tables := release_table tx (chk_table cur) TableStatusCleaning (db_tables s),
            db_outbox := db_outbox s @ new, db_ctr := n\<rparr> \<and>
     map event_of new = close_order_events tx s tn (chk_branch cur) k by @
                        [simple_check_event ''check.closed'' ''closed_by'' tn k by]"
proof -
  from assms obtain cur s1 s2 s3 u where
      cur: "rls_find chk_tenant tx (\<lambda>c. chk_id c = k) (db_checks s) = Some cur"
        "may_act c p (chk_branch cur)" "chk_status cur = CheckStatusOpen"
        "total_in_range tx s k" "check_total tx s k \<le> paid"
    and deliver: "deliverLiveOrders tx tn k (chk_branch cur) by s = Inr (u, s1)"
    and upd: "CheckRepo_UpdateStatus tx k CheckStatusClosed CheckStatusOpen (Some by) s1 = Inr (x, s2)"
    and rel: "releaseTableToCleaning tx (chk_table cur) s2 = Inr (u, s3)"
    and out: "InsertOutbox tx tn ''check'' k ''check.closed''
       [(''tenant_id'', JId tn), (''check_id'', JId k), (''closed_by'', JId by)] s3 = Inr (u, s')"
    by (auto simp: closeTx_def tx_inv CheckRepo_GetForUpdate_Inr CheckRepo_GetTotal_Inr
        paymentCoversTotal_Inr)
  from deliverLiveOrders_Inr [OF deliver] obtain n new where
      s1: "s1 = s\<lparr>db_orders := closed_orders tx s (chk_branch cur) k, db_ctr := n,
                  db_outbox := db_outbox s @ new\<rparr>"
    and new: "map event_of new = close_order_events tx s tn (chk_branch cur) k by" by auto
  from UpdateStatus_end_check [OF upd] first_open_row [OF cur(1,3)]
  have s2: "s2 = s1\<lparr>db_checks := end_check tx k CheckStatusClosed by (db_checks s1)\<rparr>"
    and x: "x = cur\<lparr>chk_status := CheckStatusClosed, chk_closed_by := Some by,
             chk_closed_at := Some (tx_now tx), chk_updated := tx_now tx\<rparr>"
    by (simp_all add: s1)
  from InsertOutbox_emits [OF out] obtain n' new' where
      s': "s' = s3\<lparr>db_ctr := n', db_outbox := db_outbox s3 @ new'\<rparr>"
    and new': "map event_of new' = [simple_check_event ''check.closed'' ''closed_by'' tn k by]"
    by (auto simp: emitted_def simple_check_event_def)
  show ?thesis
    using cur x new new'
    by (intro exI [of _ cur] exI [of _ n'] exI [of _ "new @ new'"])
       (simp add: s' releaseTableToCleaning_Inr [OF rel] s2 s1)
qed

lemma cancelTx_Inr:
  assumes "cancelTx c p tn k by paid pending tx s = Inr (x, s')"
  shows "\<exists>cur n new.
     rls_find chk_tenant tx (\<lambda>c. chk_id c = k) (db_checks s) = Some cur \<and>
     may_act c p (chk_branch cur) \<and> chk_status cur = CheckStatusOpen \<and>
     \<not> wrap64 (paid + pending) > 0 \<and>
     x = cur\<lparr>chk_status := CheckStatusCancelled, chk_closed_by := Some by,
             chk_closed_at := Some (tx_now tx), chk_updated := tx_now tx\<rparr> \<and>
     s' = s\<lparr>db_checks := end_check tx k CheckStatusCancelled by (db_checks s),
            db_orders := end_live_orders tx k OrderStatusCancelled (db_orders s),
            db_tables := release_table tx (chk_table cur) TableStatusCleaning (db_tables s),
            db_outbox := db_outbox s @ new, db_ctr := n\<rparr> \<and>
     map event_of new =
       map (status_event tn k OrderStatusCancelled ''cancelled_by'' by ''check_cancelled'' \<circ> ord_id)
         (live_orders (tx_tenant tx) k (db_orders s)) @
       [simple_check_event ''check.cancelled'' ''cancelled_by'' tn k by]"
proof -
  from assms obtain cur s1 s2 s3 s4 u ids where
      cur: "rls_find chk_tenant tx (\<lambda>c. chk_id c = k) (db_checks s) = Some cur"
        "may_act c p (chk_branch cur)" "chk_status cur = CheckStatusOpen"
        "\<not> wrap64 (paid + pending) > 0"
    and upd: "CheckRepo_UpdateStatus tx k CheckStatusCancelled CheckStatusOpen (Some by) s = Inr (x, s1)"
    and rel: "releaseTableToCleaning tx (chk_table cur) s1 = Inr (u, s2)"
    and live: "OrderRepo_CancelActiveByCheck tx k s2 = Inr (ids, s3)"
    and evs: "tx_each (order_status_event tx tn k OrderStatusCancelled ''cancelled_by'' by
                ''check_cancelled'') ids s3 = Inr (u, s4)"
    and out: "InsertOutbox tx tn ''check'' k ''check.cancelled''
       [(''tenant_id'', JId tn), (''check_id'', JId k), (''cancelled_by'', JId by)] s4 = Inr (u, s')"
    by (auto simp: cancelTx_def cancelLiveOrders_def tx_inv CheckRepo_GetForUpdate_Inr)
  from UpdateStatus_end_check [OF upd] first_open_row [OF cur(1,3)]
  have s1: "s1 = s\<lparr>db_checks := end_check tx k CheckStatusCancelled by (db_checks s)\<rparr>"
    and x: "x = cur\<lparr>chk_status := CheckStatusCancelled, chk_closed_by := Some by,
             chk_closed_at := Some (tx_now tx), chk_updated := tx_now tx\<rparr>"
    by simp_all
  have s2: "s2 = s1\<lparr>db_tables := release_table tx (chk_table cur) TableStatusCleaning (db_tables s1)\<rparr>"
    by (rule releaseTableToCleaning_Inr [OF rel])
  have s3: "ids = map ord_id (live_orders (tx_tenant tx) k (db_orders s2))"
      "s3 = s2\<lparr>db_orders := end_live_orders tx k OrderStatusCancelled (db_orders s2)\<rparr>"
    using CancelActiveByCheck_Inr [OF live] by simp_all
  from order_status_events [OF evs] obtain n new where
      s4: "s4 = s3\<lparr>db_ctr := n, db_outbox := db_outbox s3 @ new\<rparr>"
    and new: "map event_of new = map (status_event tn k OrderStatusCancelled ''cancelled_by'' by
                ''check_cancelled'') ids"
    by (auto simp: emitted_def)
  from InsertOutbox_emits [OF out] obtain n' new' where
      s': "s' = s4\<lparr>db_ctr := n', db_outbox := db_outbox s4 @ new'\<rparr>"
    and new': "map event_of new' = [simple_check_event ''check.cancelled'' ''cancelled_by'' tn k by]"
    by (auto simp: emitted_def simple_check_event_def)
  show ?thesis
    using cur x new new'
    by (intro exI [of _ cur] exI [of _ n'] exI [of _ "new @ new'"])
       (simp add: s' s4 s3 s2 s1)
qed

end
