(* ===== verification/Pos_Demo.thy ===== *)
theory Pos_Demo
  imports Pos_Effects
begin

text \<open>
  A small database the theorems are applied to: tenant 1 with one branch in the
  simple flow, a free and an occupied table, two open checks with an order each
  and a settled one, and a check of tenant 2.
\<close>

definition demo_zone :: table_zone where
  "demo_zone = \<lparr>zon_id = 20, zon_tenant = 1, zon_branch = 10, zon_name = ''Salon'', zon_floor = 0,
     zon_active = True, zon_created = 0, zon_updated = 0\<rparr>"

definition demo_table :: "uuid \<Rightarrow> string \<Rightarrow> table_status \<Rightarrow> dining_table" where
  "demo_table i name st = \<lparr>tbl_id = i, tbl_tenant = 1, tbl_branch = 10, tbl_zone = 20,
     tbl_name = name, tbl_capacity = 4, tbl_status = st, tbl_layout = Some ''{}'',
     tbl_active = True, tbl_created = 0, tbl_updated = 0\<rparr>"

definition demo_check :: "uuid \<Rightarrow> uuid \<Rightarrow> uuid option \<Rightarrow> check_status \<Rightarrow> check" where
  "demo_check i tn t st = zero_check\<lparr>chk_id := i, chk_tenant := tn, chk_branch := 10,
     chk_table := t, chk_status := st, chk_service := ServiceTypeDineIn, chk_pax := 2,
     chk_opened_by := Some 5, chk_opened_kind := OpenedByKindStaff, chk_source := SourcePOS\<rparr>"

definition demo_order :: "uuid \<Rightarrow> uuid \<Rightarrow> order_status \<Rightarrow> order" where
  "demo_order i k st = zero_order\<lparr>ord_id := i, ord_tenant := 1, ord_branch := 10,
     ord_check := Some k, ord_channel := OrderChannelDineIn, ord_source := SourcePOS,
     ord_status := st\<rparr>"

definition demo_item :: "uuid \<Rightarrow> uuid \<Rightarrow> int \<Rightarrow> int \<Rightarrow> order_item" where
  "demo_item i r qty unit = \<lparr>itm_id = i, itm_tenant = 1, itm_order = r, itm_product = 40,
     itm_name = ''Ayran'', itm_price = unit, itm_currency = ''TRY'', itm_tax_bps = 1000,
     itm_qty = qty, itm_unit_price = unit, itm_unit_cost = None, itm_note = '''', itm_created = 0,
     itm_modifiers = [], itm_seat = 0\<rparr>"

definition demo_db :: pos_db where
  "demo_db =
     \<lparr>db_checks = [demo_check 100 1 (Some 31) CheckStatusOpen, demo_check 101 1 None CheckStatusOpen,
                   demo_check 102 1 None CheckStatusClosed, demo_check 900 2 None CheckStatusOpen],
      db_orders = [demo_order 200 100 OrderStatusAccepted, demo_order 201 101 OrderStatusPending,
                   demo_order 202 102 OrderStatusDelivered],
      db_items = [demo_item 300 200 2 500, demo_item 301 200 1 700, demo_item 302 201 1 300,
                  demo_item 303 202 3 100],
      db_tables = [demo_table 30 ''M1'' TableStatusEmpty, demo_table 31 ''M2'' TableStatusOccupied],
      db_zones = [demo_zone],
      db_settings = [(DefaultBranchSettings 1 10)\<lparr>bst_flow := OrderFlowSimple\<rparr>],
      db_outbox = [], db_rand = (\<lambda>n. 1000 + n), db_ctr = 0\<rparr>"

definition demo_ctx :: ctx where
  "demo_ctx = \<lparr>ctx_scope = None, ctx_now = 7\<rparr>"

definition demo_principal :: principal where
  "demo_principal = \<lparr>prn_keycloak_sub = ''u'', prn_person = 5, prn_ctx = ContextStaff,
     prn_tenant = 1, prn_branch = 10, prn_roles = [], prn_session = 6\<rparr>"

text \<open>A payment module that has collected \<open>paid\<close> and awaits \<open>pending\<close> on every check.\<close>

definition demo_sales :: "int \<Rightarrow> int \<Rightarrow> sale_reader" where
  "demo_sales paid pending =
     \<lparr>TotalPaidForCheck = (\<lambda>_ _. Inr paid), PendingTotalForCheck = (\<lambda>_ _. Inr pending)\<rparr>"

lemmas demo_defs = demo_zone_def demo_table_def demo_check_def demo_order_def demo_item_def
  demo_db_def demo_ctx_def demo_principal_def demo_sales_def

definition tx_ok :: "('s, 'e, 'a) tx \<Rightarrow> 's \<Rightarrow> bool" where
  "tx_ok m s \<longleftrightarrow> (case m s of Inl _ \<Rightarrow> False | Inr _ \<Rightarrow> True)"

lemma tx_okE: "tx_ok m s \<Longrightarrow> (\<And>x s'. m s = Inr (x, s') \<Longrightarrow> P) \<Longrightarrow> P"
  by (auto simp: tx_ok_def split: sum.splits)

text \<open>The state a call leaves.\<close>

definition after :: "('s, 'e, 'a) tx \<Rightarrow> 's \<Rightarrow> 's" where
  "after m s = snd (tx_outcome m s)"

lemma tx_ok_after: "tx_ok m s \<Longrightarrow> \<exists>x. m s = Inr (x, after m s)"
  by (auto simp: tx_ok_def after_def tx_outcome_def split: sum.splits)

lemma demo_schema: "schema_ok demo_db"
  by code_simp

lemma demo_close_ok: "tx_ok (CheckService_Close (demo_sales 1700 0) demo_ctx 1 demo_principal 100 5) demo_db"
  by code_simp

end
