(* ===== verification/Pos_Check_Props.thy ===== *)
theory Pos_Check_Props
  imports Pos_Check_Facts Pos_Demo
begin

text \<open>
  Theorems about the checks: what a successful close or cancel means for the
  money and the kitchen, which error each guard gives, and that what a check
  owed when it was settled stays what it owes.
\<close>

section \<open>Lemmas\<close>

lemma CheckService_Close_Inr:
  "CheckService_Close sr c tn p k who s = Inr (x, s') \<longleftrightarrow>
   (\<exists>paid pending. TotalPaidForCheck sr tn k = Inr paid \<and> PendingTotalForCheck sr tn k = Inr pending \<and>
      tn \<noteq> uuid_Nil \<and> closeTx c p tn k who paid pending (pos_tx c tn) s = Inr (x, s'))"
  by (auto simp: CheckService_Close_def tx_inv)

lemma CheckService_Cancel_Inr:
  "CheckService_Cancel sr c tn p k who s = Inr (x, s') \<longleftrightarrow>
   (\<exists>paid pending. TotalPaidForCheck sr tn k = Inr paid \<and> PendingTotalForCheck sr tn k = Inr pending \<and>
      tn \<noteq> uuid_Nil \<and> cancelTx c p tn k who paid pending (pos_tx c tn) s = Inr (x, s'))"
  by (auto simp: CheckService_Cancel_def tx_inv)

lemma billed_after_delivery:
  "map ord_id (rls_select ord_tenant tx
     (\<lambda>r. ord_check r = Some k \<and> ord_status r \<notin> set InactiveOrderStatuses)
     (end_live_orders tx' j OrderStatusDelivered os)) =
   map ord_id (rls_select ord_tenant tx
     (\<lambda>r. ord_check r = Some k \<and> ord_status r \<notin> set InactiveOrderStatuses) os)"
  unfolding rls_select_def end_live_orders_def
  by (induction os) (auto simp: InactiveOrderStatuses_def KitchenActiveOrderStatuses_def)

lemma check_total_by_ids:
  assumes "map ord_id (billed_orders tx s' k) = map ord_id (billed_orders tx s k)"
    and "db_items s' = db_items s"
  shows "check_total tx s' k = check_total tx s k"
proof -
  have "check_total tx u k = (\<Sum>i \<leftarrow> map ord_id (billed_orders tx u k). order_worth tx u i)" for u
    by (simp add: check_total_orders o_def)
  moreover have "order_worth tx s' = order_worth tx s"
    using assms(2) by (simp add: order_worth_def fun_eq_iff)
  ultimately show ?thesis using assms(1) by (simp only:)
qed

lemma check_total_close:
  assumes "db_items s' = db_items s" and "db_orders s' = closed_orders tx s b k"
  shows "check_total tx s' k = check_total tx s k"
  using assms billed_after_delivery [of tx k tx k "db_orders s"]
  by (intro check_total_by_ids) (auto simp: billed_orders_def closed_orders_def)

lemma in_end_check:
  assumes "rls_find chk_tenant tx (\<lambda>c. chk_id c = k) cs = Some cur" and "chk_status cur = CheckStatusOpen"
  shows "cur\<lparr>chk_status := st, chk_closed_by := Some who, chk_closed_at := Some (tx_now tx),
             chk_updated := tx_now tx\<rparr> \<in> set (end_check tx k st who cs)"
  using rls_find_Some [OF assms(1)] assms(2)
  by (auto simp: end_check_def in_rls_update intro!: bexI [of _ cur])

text \<open>The table of a check that ends, if it stood occupied, goes to cleaning; no other does.\<close>

lemma release_table_map:
  "release_table tx opt st ts =
     map (\<lambda>t. if opt = Some (tbl_id t) \<and> tbl_tenant t = tx_tenant tx \<and> tbl_status t = TableStatusOccupied
       then t\<lparr>tbl_status := st, tbl_updated := tx_now tx\<rparr> else t) ts"
proof (cases opt)
  case (Some i)
  have "rls_update tbl_tenant tx (\<lambda>t. tbl_id t = i \<and> tbl_status t = TableStatusOccupied)
      (\<lambda>t. t\<lparr>tbl_status := st, tbl_updated := tx_now tx\<rparr>) ts =
    map (\<lambda>t. if i = tbl_id t \<and> tbl_tenant t = tx_tenant tx \<and> tbl_status t = TableStatusOccupied
      then t\<lparr>tbl_status := st, tbl_updated := tx_now tx\<rparr> else t) ts"
    by (induction ts) auto
  with Some show ?thesis by (simp add: release_table_def)
qed (simp add: release_table_def)

lemma end_check_others: "filter (\<lambda>r. chk_id r \<noteq> k) (end_check tx k st who cs) = filter (\<lambda>r. chk_id r \<noteq> k) cs"
  unfolding end_check_def rls_update_def by (rule filter_update_rows_other) simp

lemma end_live_orders_others:
  "filter (\<lambda>r. ord_check r \<noteq> Some k) (end_live_orders tx k st os) = filter (\<lambda>r. ord_check r \<noteq> Some k) os"
  unfolding end_live_orders_def rls_update_def by (rule filter_update_rows_other) simp

section \<open>Closing\<close>

text \<open>C1: a close that succeeds was of an open check of the caller's branch whose
  total was covered by the money collected; it leaves that total as it was, marks
  the row closed and no other row, leaves no live order on the check in a branch of the
  simple flow and every order as it was in the full flow, and never touches an order of
  another check; the table of the check, if it stood occupied, is to be cleaned, and no
  other table changes; each delivered order is announced and then the close, in that order.\<close>

theorem Close_covered:
  assumes "CheckService_Close sr c tn p k who s = Inr (x, s')"
  shows "\<exists>cur paid.
     rls_find chk_tenant (pos_tx c tn) (\<lambda>c. chk_id c = k) (db_checks s) = Some cur \<and>
     chk_status cur = CheckStatusOpen \<and> may_act c p (chk_branch cur) \<and>
     TotalPaidForCheck sr tn k = Inr paid \<and> check_total (pos_tx c tn) s k \<le> paid \<and>
     check_total (pos_tx c tn) s' k = check_total (pos_tx c tn) s k \<and>
     x \<in> set (db_checks s') \<and> chk_id x = k \<and>
     x = cur\<lparr>chk_status := CheckStatusClosed, chk_closed_by := Some who,
             chk_closed_at := Some (ctx_now c), chk_updated := ctx_now c\<rparr> \<and>
     filter (\<lambda>r. chk_id r \<noteq> k) (db_checks s') = filter (\<lambda>r. chk_id r \<noteq> k) (db_checks s) \<and>
     db_tables s' = map (\<lambda>t. if chk_table cur = Some (tbl_id t) \<and> tbl_tenant t = tn \<and> tbl_status t = TableStatusOccupied
       then t\<lparr>tbl_status := TableStatusCleaning, tbl_updated := ctx_now c\<rparr> else t) (db_tables s) \<and>
     db_items s' = db_items s \<and> db_zones s' = db_zones s \<and> db_settings s' = db_settings s \<and>
     filter (\<lambda>r. ord_check r \<noteq> Some k) (db_orders s') = filter (\<lambda>r. ord_check r \<noteq> Some k) (db_orders s) \<and>
     (if branch_flow (pos_tx c tn) s (chk_branch cur) = OrderFlowSimple
      then live_orders tn k (db_orders s') = [] else db_orders s' = db_orders s) \<and>
     events_since s s' = close_order_events (pos_tx c tn) s tn (chk_branch cur) k who @
       [simple_check_event ''check.closed'' ''closed_by'' tn k who]"
proof -
  from assms obtain paid pending where paid: "TotalPaidForCheck sr tn k = Inr paid"
    and run: "closeTx c p tn k who paid pending (pos_tx c tn) s = Inr (x, s')"
    by (auto simp: CheckService_Close_Inr)
  from closeTx_Inr [OF run] obtain cur n new where
      cur: "rls_find chk_tenant (pos_tx c tn) (\<lambda>c. chk_id c = k) (db_checks s) = Some cur"
        "may_act c p (chk_branch cur)" "chk_status cur = CheckStatusOpen"
        "check_total (pos_tx c tn) s k \<le> paid"
    and x: "x = cur\<lparr>chk_status := CheckStatusClosed, chk_closed_by := Some who,
             chk_closed_at := Some (ctx_now c), chk_updated := ctx_now c\<rparr>"
    and s': "s' = s\<lparr>db_checks := end_check (pos_tx c tn) k CheckStatusClosed who (db_checks s),
            db_orders := closed_orders (pos_tx c tn) s (chk_branch cur) k,
            db_tables := release_table (pos_tx c tn) (chk_table cur) TableStatusCleaning (db_tables s),
            db_outbox := db_outbox s @ new, db_ctr := n\<rparr>"
    and new: "map event_of new = close_order_events (pos_tx c tn) s tn (chk_branch cur) k who @
                [simple_check_event ''check.closed'' ''closed_by'' tn k who]"
    by auto
  have "chk_id cur = k" using rls_find_Some [OF cur(1)] by simp
  then show ?thesis
    using cur paid new in_end_check [OF cur(1,3)]
      end_live_orders_none [of OrderStatusDelivered "pos_tx c tn" k]
      check_total_close [of s' s "pos_tx c tn" "chk_branch cur" k]
    by (auto simp: s' x events_since_def closed_orders_def kitchen_active_iff release_table_map
        end_check_others end_live_orders_others)
qed

theorem Close_covered_witness:
  "\<exists>x s'. CheckService_Close (demo_sales 1700 0) demo_ctx 1 demo_principal 100 5 demo_db = Inr (x, s') \<and>
     chk_status x = CheckStatusClosed \<and> live_orders 1 100 (db_orders s') = [] \<and>
     map tbl_status (db_tables demo_db) = [TableStatusEmpty, TableStatusOccupied] \<and>
     map tbl_status (db_tables s') = [TableStatusEmpty, TableStatusCleaning]"
proof -
  obtain x s' where run:
    "CheckService_Close (demo_sales 1700 0) demo_ctx 1 demo_principal 100 5 demo_db = Inr (x, s')"
    by (rule tx_okE [OF demo_close_ok])
  have flow: "branch_flow (pos_tx demo_ctx 1) demo_db 10 = OrderFlowSimple" by code_simp
  have "rls_find chk_tenant (pos_tx demo_ctx 1) (\<lambda>c. chk_id c = 100) (db_checks demo_db) =
        Some (demo_check 100 1 (Some 31) CheckStatusOpen)" by code_simp
  with Close_covered [OF run] flow run show ?thesis
    by (auto simp: demo_check_def demo_db_def demo_table_def)
qed

text \<open>C34: the guards of a close, in the order the caller meets them: an unknown check
  is not found; a check of a branch the caller may not act on is forbidden, whatever
  its status; a check that is not open cannot be closed; and an open check whose
  total is not collected is refused, as waiting for a fiscal receipt when the
  pending sales would cover it and as underpaid otherwise.\<close>

theorem Close_refuses:
  assumes "tn \<noteq> uuid_Nil" and "TotalPaidForCheck sr tn k = Inr paid"
    and "PendingTotalForCheck sr tn k = Inr pending"
  shows "case rls_find chk_tenant (pos_tx c tn) (\<lambda>c. chk_id c = k) (db_checks s) of
     None \<Rightarrow> CheckService_Close sr c tn p k who s = Inl PubNotFound
   | Some cur \<Rightarrow>
       if \<not> may_act c p (chk_branch cur)
       then CheckService_Close sr c tn p k who s = Inl PubBranchForbidden
       else if chk_status cur \<noteq> CheckStatusOpen
       then CheckService_Close sr c tn p k who s = Inl PubInvalidTransition
       else total_in_range (pos_tx c tn) s k \<and> paid < check_total (pos_tx c tn) s k \<longrightarrow>
         CheckService_Close sr c tn p k who s =
           Inl (if check_total (pos_tx c tn) s k \<le> wrap64 (paid + pending)
                then ErrFiscalPending else ErrInsufficientPayment)"
proof -
  have close: "CheckService_Close sr c tn p k who s =
      tx_map_err wrapErr (closeTx c p tn k who paid pending (pos_tx c tn)) s"
    using assms
    by (simp add: CheckService_Close_def tx_bind_def WithTenantTx_valid tx_map_err_def)
  have get: "CheckRepo_GetForUpdate (pos_tx c tn) k s =
      (case rls_find chk_tenant (pos_tx c tn) (\<lambda>c. chk_id c = k) (db_checks s) of
         None \<Rightarrow> Inl RepoNotFound | Some cur \<Rightarrow> Inr (cur, s))"
    by (auto simp: CheckRepo_GetForUpdate_Inr CheckRepo_GetForUpdate_Inl split: option.splits)
  have branch: "requireBranch c p b = (if may_act c p b then Inr () else Inl PubBranchForbidden)" for b
    by (auto simp: requireBranch_def may_act_def tenant_scoped_def)
  have owed: "CheckRepo_GetTotal (pos_tx c tn) k s = Inr (check_total (pos_tx c tn) s k, s)"
    if "total_in_range (pos_tx c tn) s k"
    using that by (simp add: CheckRepo_GetTotal_Inr)
  show ?thesis
    by (auto simp: close tx_map_err_def closeTx_def tx_bind_def get branch owed wrapErr_def
        paymentCoversTotal_def tx_require_def split: option.splits)
qed

theorem Close_refuses_witness:
  "CheckService_Close (demo_sales 0 1700) demo_ctx 1 demo_principal 100 5 demo_db = Inl ErrFiscalPending \<and>
   CheckService_Close (demo_sales 0 0) demo_ctx 1 demo_principal 100 5 demo_db = Inl ErrInsufficientPayment"
proof -
  have "(1 :: uuid) \<noteq> uuid_Nil" by (simp add: uuid_Nil_def)
  note refuse = Close_refuses [OF this, where k = 100 and c = demo_ctx and s = demo_db and
      p = demo_principal and who = 5 and paid = 0]
  have facts: "rls_find chk_tenant (pos_tx demo_ctx 1) (\<lambda>c. chk_id c = 100) (db_checks demo_db) =
        Some (demo_check 100 1 (Some 31) CheckStatusOpen)"
      "may_act demo_ctx demo_principal 10" "total_in_range (pos_tx demo_ctx 1) demo_db 100"
      "check_total (pos_tx demo_ctx 1) demo_db 100 = 1700"
      "wrap64 1700 = 1700" "wrap64 0 = 0"
    by code_simp+
  show ?thesis
    using facts refuse [where sr = "demo_sales 0 1700" and pending = 1700]
      refuse [where sr = "demo_sales 0 0" and pending = 0]
    by (simp add: demo_sales_def demo_check_def)
qed

section \<open>Cancelling\<close>

text \<open>C30: a cancel that succeeds was of an open check nobody has paid into; it leaves no
  live order on the check, cancels every order that was live with an event of its own
  before the event of the check, keeps the orders that were already delivered or
  rejected, and touches neither the row nor an order of another check; the bill lines stay,
  the table of the check, if it stood occupied, is to be cleaned, and no other table changes.\<close>

theorem Cancel_stops_kitchen:
  assumes "CheckService_Cancel sr c tn p k who s = Inr (x, s')"
  shows "\<exists>cur paid pending.
     rls_find chk_tenant (pos_tx c tn) (\<lambda>c. chk_id c = k) (db_checks s) = Some cur \<and>
     chk_status cur = CheckStatusOpen \<and> may_act c p (chk_branch cur) \<and>
     TotalPaidForCheck sr tn k = Inr paid \<and> PendingTotalForCheck sr tn k = Inr pending \<and>
     wrap64 (paid + pending) \<le> 0 \<and>
     x \<in> set (db_checks s') \<and> chk_id x = k \<and>
     x = cur\<lparr>chk_status := CheckStatusCancelled, chk_closed_by := Some who,
             chk_closed_at := Some (ctx_now c), chk_updated := ctx_now c\<rparr> \<and>
     filter (\<lambda>r. chk_id r \<noteq> k) (db_checks s') = filter (\<lambda>r. chk_id r \<noteq> k) (db_checks s) \<and>
     db_tables s' = map (\<lambda>t. if chk_table cur = Some (tbl_id t) \<and> tbl_tenant t = tn \<and> tbl_status t = TableStatusOccupied
       then t\<lparr>tbl_status := TableStatusCleaning, tbl_updated := ctx_now c\<rparr> else t) (db_tables s) \<and>
     db_items s' = db_items s \<and> db_zones s' = db_zones s \<and> db_settings s' = db_settings s \<and>
     live_orders tn k (db_orders s') = [] \<and>
     filter (\<lambda>r. ord_check r \<noteq> Some k) (db_orders s') = filter (\<lambda>r. ord_check r \<noteq> Some k) (db_orders s) \<and>
     filter (\<lambda>r. ord_status r \<notin> set KitchenActiveOrderStatuses \<and> ord_status r \<noteq> OrderStatusCancelled)
       (db_orders s') =
     filter (\<lambda>r. ord_status r \<notin> set KitchenActiveOrderStatuses \<and> ord_status r \<noteq> OrderStatusCancelled)
       (db_orders s) \<and>
     events_since s s' =
       map (status_event tn k OrderStatusCancelled ''cancelled_by'' who ''check_cancelled'' \<circ> ord_id)
         (live_orders tn k (db_orders s)) @
       [simple_check_event ''check.cancelled'' ''cancelled_by'' tn k who]"
proof -
  from assms obtain paid pending where paid: "TotalPaidForCheck sr tn k = Inr paid"
      "PendingTotalForCheck sr tn k = Inr pending"
    and run: "cancelTx c p tn k who paid pending (pos_tx c tn) s = Inr (x, s')"
    by (auto simp: CheckService_Cancel_Inr)
  from cancelTx_Inr [OF run] obtain cur n new where
      cur: "rls_find chk_tenant (pos_tx c tn) (\<lambda>c. chk_id c = k) (db_checks s) = Some cur"
        "may_act c p (chk_branch cur)" "chk_status cur = CheckStatusOpen"
        "\<not> wrap64 (paid + pending) > 0"
    and x: "x = cur\<lparr>chk_status := CheckStatusCancelled, chk_closed_by := Some who,
             chk_closed_at := Some (ctx_now c), chk_updated := ctx_now c\<rparr>"
    and s': "db_checks s' = end_check (pos_tx c tn) k CheckStatusCancelled who (db_checks s)"
        "db_orders s' = end_live_orders (pos_tx c tn) k OrderStatusCancelled (db_orders s)"
        "db_outbox s' = db_outbox s @ new"
        "db_tables s' = release_table (pos_tx c tn) (chk_table cur) TableStatusCleaning (db_tables s)"
        "db_items s' = db_items s" "db_zones s' = db_zones s" "db_settings s' = db_settings s"
    and new: "map event_of new =
       map (status_event tn k OrderStatusCancelled ''cancelled_by'' who ''check_cancelled'' \<circ> ord_id)
         (live_orders tn k (db_orders s)) @
       [simple_check_event ''check.cancelled'' ''cancelled_by'' tn k who]"
    by auto
  have "chk_id cur = k" using rls_find_Some [OF cur(1)] by simp
  moreover have "live_orders tn k (db_orders s') = []"
    using end_live_orders_none [of OrderStatusCancelled "pos_tx c tn" k]
    by (simp add: s' kitchen_active_iff)
  moreover have "filter (\<lambda>r. ord_check r \<noteq> Some k) (db_orders s') =
                 filter (\<lambda>r. ord_check r \<noteq> Some k) (db_orders s)"
    and "filter (\<lambda>r. ord_status r \<notin> set KitchenActiveOrderStatuses \<and> ord_status r \<noteq> OrderStatusCancelled)
       (db_orders s') =
     filter (\<lambda>r. ord_status r \<notin> set KitchenActiveOrderStatuses \<and> ord_status r \<noteq> OrderStatusCancelled)
       (db_orders s)"
    unfolding s' end_live_orders_def by (rule filter_rls_update_other; auto)+
  ultimately show ?thesis
    using cur paid new in_end_check [OF cur(1,3)]
    by (auto simp: s' x events_since_def release_table_map end_check_others)
qed

theorem Cancel_stops_kitchen_witness:
  "\<exists>x s'. CheckService_Cancel (demo_sales 0 0) demo_ctx 1 demo_principal 101 5 demo_db = Inr (x, s') \<and>
     live_orders 1 101 (db_orders s') = [] \<and> live_orders 1 101 (db_orders demo_db) \<noteq> []"
proof -
  have "tx_ok (CheckService_Cancel (demo_sales 0 0) demo_ctx 1 demo_principal 101 5) demo_db"
    by code_simp
  then obtain x s' where run:
    "CheckService_Cancel (demo_sales 0 0) demo_ctx 1 demo_principal 101 5 demo_db = Inr (x, s')"
    by (rule tx_okE)
  moreover have "live_orders 1 101 (db_orders demo_db) \<noteq> []" by code_simp
  ultimately show ?thesis using Cancel_stops_kitchen [OF run] by auto
qed

end
