(* ===== verification/Pos_Open_Props.thy ===== *)
theory Pos_Open_Props
  imports Pos_Check_Facts Pos_Demo
begin

text \<open>
  Opening a check, at the counter and, through the shared transaction, for a
  guest: which table it takes and what the new row looks like.
\<close>

section \<open>The shared transaction\<close>

definition occupy_table :: "pgtx \<Rightarrow> uuid option \<Rightarrow> dining_table list \<Rightarrow> dining_table list" where
  "occupy_table tx tableID ts =
     (case tableID of None \<Rightarrow> ts
      | Some i \<Rightarrow>
          (case rls_find tbl_tenant tx (\<lambda>t. tbl_id t = i) ts of None \<Rightarrow> ts
           | Some t \<Rightarrow> rls_update tbl_tenant tx (\<lambda>u. tbl_id u = i \<and> tbl_status u = tbl_status t)
                        (\<lambda>u. u\<lparr>tbl_status := TableStatusOccupied, tbl_updated := tx_now tx\<rparr>) ts))"

lemma take_table_Inr:
  assumes "take_table tx c g s = Inr (c', s')"
  shows "s' = s\<lparr>db_tables := occupy_table tx (chk_table c) (db_tables s)\<rparr> \<and>
    (case chk_table c of None \<Rightarrow> c' = c
     | Some i \<Rightarrow> \<exists>t. rls_find tbl_tenant tx (\<lambda>t. tbl_id t = i) (db_tables s) = Some t \<and>
                    tbl_branch t = chk_branch c \<and> g t = Inr () \<and> c' = c\<lparr>chk_label := tbl_name t\<rparr>)"
proof (cases "chk_table c")
  case None
  with assms show ?thesis by (simp add: take_table_def occupy_table_def)
next
  case (Some i)
  with assms obtain t u where "rls_find tbl_tenant tx (\<lambda>t. tbl_id t = i) (db_tables s) = Some t"
    and "tbl_branch t = chk_branch c" and "g t = Inr ()"
    and "TableRepo_UpdateStatus tx (tbl_id t) TableStatusOccupied (tbl_status t) s = Inr (u, s')"
    and "c' = c\<lparr>chk_label := tbl_name t\<rparr>"
    by (auto simp: take_table_def tx_inv TableRepo_GetTableForUpdate_Inr split: if_splits)
  then show ?thesis
    using Some rls_find_Some [of tbl_tenant tx "\<lambda>t. tbl_id t = i" "db_tables s" t]
    by (auto simp: TableRepo_UpdateStatus_Inr tables.update_Inr occupy_table_def)
qed

lemma openCheckTx_Inr:
  assumes "openCheckTx tx c g s = Inr (r, s')"
  shows "\<exists>c' i new n.
     (case chk_table c of None \<Rightarrow> c' = c
      | Some j \<Rightarrow> \<exists>t. rls_find tbl_tenant tx (\<lambda>t. tbl_id t = j) (db_tables s) = Some t \<and>
                     tbl_branch t = chk_branch c \<and> g t = Inr () \<and> c' = c\<lparr>chk_label := tbl_name t\<rparr>) \<and>
     r = check_insert_row tx i c' \<and> i \<notin> chk_id ` set (db_checks s) \<and> check_row_ok r \<and>
     distinct (open_tables (db_checks s @ [r])) \<and>
     s' = s\<lparr>db_tables := occupy_table tx (chk_table c) (db_tables s), db_checks := db_checks s @ [r],
            db_outbox := db_outbox s @ new, db_ctr := n\<rparr> \<and>
     map event_of new = [(chk_tenant c', ''check'', chk_id r, ''check.opened'',
                          check_opened_payload r (chk_tenant c'))]"
proof -
  from assms obtain c' s1 s2 u where take: "take_table tx c g s = Inr (c', s1)"
    and create: "CheckRepo_Create tx c' s1 = Inr (r, s2)"
    and out: "InsertOutbox tx (chk_tenant c') ''check'' (chk_id r) ''check.opened''
       (check_opened_payload r (chk_tenant c')) s2 = Inr (u, s')"
    by (auto simp: openCheckTx_def tx_inv)
  note t = take_table_Inr [OF take]
  from create t have r: "r = check_insert_row tx (db_rand s (db_ctr s)) c'"
    "chk_id r \<notin> chk_id ` set (db_checks s)" "check_row_ok r"
    "distinct (open_tables (db_checks s @ [r]))"
    "s2 = s1\<lparr>db_ctr := Suc (db_ctr s), db_checks := db_checks s @ [r]\<rparr>"
    by (auto simp: CheckRepo_Create_def Let_def tx_inv gen_random_uuid_Inr checks.insert_Inr)
  from InsertOutbox_emits [OF out] obtain n new where
    "s' = s2\<lparr>db_ctr := n, db_outbox := db_outbox s2 @ new\<rparr>"
    "map event_of new = [(chk_tenant c', ''check'', chk_id r, ''check.opened'',
                          check_opened_payload r (chk_tenant c'))]"
    by (auto simp: emitted_def)
  with r t show ?thesis
    by (intro exI [of _ c'] exI [of _ "chk_id r"] exI [of _ new] exI [of _ n])
       (auto simp: check_insert_row_def)
qed

lemma open_tables_append: "open_tables (cs @ [r]) = open_tables cs @ open_tables [r]"
  by (simp add: open_tables_def)

lemma in_open_tables:
  "t \<in> set (open_tables cs) \<longleftrightarrow> (\<exists>c \<in> set cs. chk_table c = Some t \<and> chk_status c = CheckStatusOpen)"
  by (auto simp: open_tables_def split: option.splits if_splits) force?

section \<open>The counter\<close>

lemma normalizeServiceType_Inr:
  assumes "normalizeServiceType c = Inr k"
  shows "ServiceType_Valid (chk_service k) \<and>
    (chk_service k \<noteq> ServiceTypeDineIn \<longrightarrow>
       chk_table k = None \<and> TrimSpace (chk_cust_name k) \<noteq> '''' \<and> TrimSpace (chk_label k) \<noteq> '''' \<and>
       (chk_service k = ServiceTypeDelivery \<longrightarrow> TrimSpace (chk_cust_phone k) \<noteq> '''')) \<and>
    chk_pax k = chk_pax c \<and> chk_branch k = chk_branch c \<and> chk_table k = chk_table c"
  using assms
  by (auto simp: normalizeServiceType_def Let_def split: if_splits)

text \<open>C32: a check opened at the counter is one new row, open, of the caller's tenant and
  of the branch named, which the caller may act on, with at least one guest. A check
  on a table carries the table's name; the table is of that branch, was free or
  reserved, had no open check, and is occupied afterwards. A check that is not
  dine-in has no table and names its customer, a delivery with a phone number.
  Nothing else changes but the event that announces it.\<close>

theorem Open_success:
  assumes run: "CheckService_Open c tn p k s = Inr (r, s')"
  shows "may_act c p (chk_branch k) \<and>
     db_checks s' = db_checks s @ [r] \<and> chk_id r \<notin> chk_id ` set (db_checks s) \<and>
     chk_status r = CheckStatusOpen \<and> chk_tenant r = tn \<and> chk_branch r = chk_branch k \<and>
     1 \<le> chk_pax r \<and> chk_table r = chk_table k \<and>
     (case chk_table r of
        None \<Rightarrow> db_tables s' = db_tables s
      | Some i \<Rightarrow>
          i \<notin> set (open_tables (db_checks s)) \<and>
          (\<exists>t \<in> set (db_tables s). tbl_id t = i \<and> tbl_tenant t = tn \<and> tbl_branch t = chk_branch r \<and>
             tbl_status t \<in> {TableStatusEmpty, TableStatusReserved} \<and> chk_label r = tbl_name t \<and>
             t\<lparr>tbl_status := TableStatusOccupied, tbl_updated := ctx_now c\<rparr> \<in> set (db_tables s')) \<and>
          filter (\<lambda>t. tbl_id t \<noteq> i) (db_tables s') = filter (\<lambda>t. tbl_id t \<noteq> i) (db_tables s)) \<and>
     (chk_service r = ServiceTypeDineIn \<or>
      chk_table r = None \<and> TrimSpace (chk_cust_name r) \<noteq> '''' \<and>
      (chk_service r = ServiceTypeDelivery \<longrightarrow> TrimSpace (chk_cust_phone r) \<noteq> '''')) \<and>
     db_orders s' = db_orders s \<and> db_items s' = db_items s \<and>
     events_since s s' = [(tn, ''check'', chk_id r, ''check.opened'', check_opened_payload r tn)]"
proof -
  let ?tx = "pos_tx c tn"
  from run obtain k1 where branch: "may_act c p (chk_branch k)"
    and norm: "normalizeServiceType (if chk_pax k < 1 then k\<lparr>chk_pax := 1\<rparr> else k) = Inr k1"
    and opened: "openCheckTx ?tx (k1\<lparr>chk_tenant := tn, chk_status := CheckStatusOpen\<rparr>) staffTableGuard s =
               Inr (r, s')"
    by (auto simp: CheckService_Open_def tx_inv Let_def)
  let ?k = "k1\<lparr>chk_tenant := tn, chk_status := CheckStatusOpen\<rparr>"
  note k1 = normalizeServiceType_Inr [OF norm]
  have pax: "1 \<le> chk_pax k1" "chk_branch k1 = chk_branch k" "chk_table k1 = chk_table k"
    using k1 by (auto split: if_splits)
  from openCheckTx_Inr [OF opened] obtain c' i new n where
      c': "case chk_table ?k of None \<Rightarrow> c' = ?k
           | Some j \<Rightarrow> \<exists>t. rls_find tbl_tenant ?tx (\<lambda>t. tbl_id t = j) (db_tables s) = Some t \<and>
               tbl_branch t = chk_branch ?k \<and> staffTableGuard t = Inr () \<and>
               c' = ?k\<lparr>chk_label := tbl_name t\<rparr>"
    and r: "r = check_insert_row ?tx i c'" "i \<notin> chk_id ` set (db_checks s)"
        "distinct (open_tables (db_checks s @ [r]))"
    and s': "s' = s\<lparr>db_tables := occupy_table ?tx (chk_table ?k) (db_tables s),
            db_checks := db_checks s @ [r], db_outbox := db_outbox s @ new, db_ctr := n\<rparr>"
    and new: "map event_of new = [(chk_tenant c', ''check'', chk_id r, ''check.opened'',
                          check_opened_payload r (chk_tenant c'))]"
    by (elim exE conjE) (rule that, assumption+)
  have fields: "chk_status c' = CheckStatusOpen" "chk_tenant c' = tn" "chk_branch c' = chk_branch k"
      "chk_pax c' = chk_pax k1" "chk_table c' = chk_table k" "chk_service c' = chk_service k1"
      "chk_cust_name c' = chk_cust_name k1" "chk_cust_phone c' = chk_cust_phone k1"
    using c' pax by (auto split: option.splits)
  have table: "case chk_table r of
        None \<Rightarrow> db_tables s' = db_tables s
      | Some i \<Rightarrow>
          i \<notin> set (open_tables (db_checks s)) \<and>
          (\<exists>t \<in> set (db_tables s). tbl_id t = i \<and> tbl_tenant t = tn \<and> tbl_branch t = chk_branch r \<and>
             tbl_status t \<in> {TableStatusEmpty, TableStatusReserved} \<and> chk_label r = tbl_name t \<and>
             t\<lparr>tbl_status := TableStatusOccupied, tbl_updated := ctx_now c\<rparr> \<in> set (db_tables s')) \<and>
          filter (\<lambda>t. tbl_id t \<noteq> i) (db_tables s') = filter (\<lambda>t. tbl_id t \<noteq> i) (db_tables s)"
  proof (cases "chk_table k")
    case None
    then show ?thesis using fields pax by (simp add: r check_insert_row_def s' occupy_table_def)
  next
    case (Some j)
    with c' pax obtain t where t: "rls_find tbl_tenant ?tx (\<lambda>t. tbl_id t = j) (db_tables s) = Some t"
        "tbl_branch t = chk_branch k" "staffTableGuard t = Inr ()" "c' = ?k\<lparr>chk_label := tbl_name t\<rparr>"
      by auto
    have row: "t \<in> set (db_tables s)" "tbl_tenant t = tn" "tbl_id t = j"
      using rls_find_Some [OF t(1)] by simp_all
    have "chk_table r = Some j" "chk_status r = CheckStatusOpen"
      using fields Some by (simp_all add: r check_insert_row_def)
    then have "open_tables [r] = [j]" by (simp add: open_tables_def)
    then have "j \<notin> set (open_tables (db_checks s))" using r(3) by (simp add: open_tables_append)
    moreover have "filter (\<lambda>t. tbl_id t \<noteq> j) (db_tables s') = filter (\<lambda>t. tbl_id t \<noteq> j) (db_tables s)"
      using t(1) Some pax by (auto simp: s' occupy_table_def intro!: filter_rls_update_other)
    moreover have "tbl_status t \<in> {TableStatusEmpty, TableStatusReserved}"
      using t(3) by (auto simp: staffTableGuard_def split: if_splits)
    moreover have "t\<lparr>tbl_status := TableStatusOccupied, tbl_updated := ctx_now c\<rparr> \<in> set (db_tables s')"
      using t(1) row Some pax by (auto simp: s' occupy_table_def in_rls_update intro!: bexI [of _ t])
    ultimately show ?thesis
      using t row fields Some by (auto simp: r check_insert_row_def intro!: bexI [of _ t])
  qed
  have sv: "chk_service k1 \<noteq> ServiceTypeOther ''''" using k1 by (cases "chk_service k1") auto
  have rf: "chk_id r = i" "chk_status r = CheckStatusOpen" "chk_tenant r = tn"
      "chk_branch r = chk_branch k" "chk_pax r = chk_pax k1" "chk_table r = chk_table k"
      "chk_cust_name r = chk_cust_name k1" "chk_cust_phone r = chk_cust_phone k1"
      "chk_service r = chk_service k1"
    using fields sv unfolding r(1) check_insert_row_def by simp_all
  have sf: "db_checks s' = db_checks s @ [r]" "db_orders s' = db_orders s" "db_items s' = db_items s"
      "events_since s s' = [(tn, ''check'', chk_id r, ''check.opened'', check_opened_payload r tn)]"
    using new fields by (simp_all add: s' events_since_def)
  have custom: "chk_service k1 = ServiceTypeDineIn \<or>
      chk_table k = None \<and> TrimSpace (chk_cust_name k1) \<noteq> '''' \<and>
      (chk_service k1 = ServiceTypeDelivery \<longrightarrow> TrimSpace (chk_cust_phone k1) \<noteq> '''')"
    using k1 [THEN conjunct2, THEN conjunct1] unfolding pax(3) by blast
  show ?thesis
    using branch custom pax(1) r(2) table sf by (simp add: rf)
qed

lemma demo_open_ok:
  "tx_ok (CheckService_Open demo_ctx 1 demo_principal (demo_check 0 1 (Some 30) CheckStatusOpen)) demo_db"
  by code_simp

theorem Open_success_witness:
  "\<exists>r s'. CheckService_Open demo_ctx 1 demo_principal (demo_check 0 1 (Some 30) CheckStatusOpen) demo_db
            = Inr (r, s') \<and> chk_table r = Some 30 \<and> db_checks s' = db_checks demo_db @ [r]"
proof -
  obtain r s' where run: "CheckService_Open demo_ctx 1 demo_principal
      (demo_check 0 1 (Some 30) CheckStatusOpen) demo_db = Inr (r, s')"
    by (rule tx_okE [OF demo_open_ok])
  with Open_success [OF run] show ?thesis by (auto simp: demo_check_def)
qed

end
