(* ===== verification/Pos_Move_Facts.thy ===== *)
theory Pos_Move_Facts
  imports Pos_Effects
begin

text \<open>
  What moving orders and lines between checks does to what each check owes.
  \<open>part_sum\<close> is the share of a check's total that falls on a set of lines; each
  step of \<open>moveItemsTx\<close> is described by how it redistributes these shares.
\<close>

definition part_sum :: "uuid \<Rightarrow> pos_db \<Rightarrow> uuid \<Rightarrow> uuid set \<Rightarrow> int" where
  "part_sum tn s k I =
     (\<Sum>it \<leftarrow> db_items s. if itm_tenant it = tn \<and> itm_id it \<in> I \<and>
                           billed_on tn (db_orders s) k (itm_order it) then line_amount it else 0)"

lemma check_total_part:
  "schema_ok s \<Longrightarrow> check_total tx s k = part_sum (tx_tenant tx) s k UNIV"
  by (simp add: check_total_lines schema_keys line_sum_def part_sum_def)

lemma part_sum_union:
  "I \<inter> J = {} \<Longrightarrow> part_sum tn s k (I \<union> J) = part_sum tn s k I + part_sum tn s k J"
  unfolding part_sum_def sum_list_addf [symmetric]
  by (intro arg_cong [where f = sum_list] map_cong refl) auto

lemma part_sum_split: "part_sum tn s k J = part_sum tn s k (J - I) + part_sum tn s k (J \<inter> I)"
proof -
  have "(J - I) \<inter> (J \<inter> I) = {}" "(J - I) \<union> (J \<inter> I) = J" by blast+
  then show ?thesis using part_sum_union [of "J - I" "J \<inter> I" tn s k] by simp
qed

text \<open>The lines \<open>I\<close> are all on orders of the check \<open>k\<close> with the status \<open>st\<close>.\<close>

definition lines_at :: "uuid \<Rightarrow> pos_db \<Rightarrow> uuid \<Rightarrow> order_status \<Rightarrow> uuid set \<Rightarrow> bool" where
  "lines_at tn s k st I \<longleftrightarrow>
     (\<forall>it \<in> set (db_items s). itm_tenant it = tn \<and> itm_id it \<in> I \<longrightarrow>
        (\<exists>r \<in> set (db_orders s). ord_id r = itm_order it \<and> ord_tenant r = tn \<and>
           ord_check r = Some k \<and> ord_status r = st))"

lemma billed_at:
  assumes "schema_ok s" and "lines_at tn s k st I" and "it \<in> set (db_items s)"
    and "itm_tenant it = tn" and "itm_id it \<in> I"
  shows "billed_on tn (db_orders s) j (itm_order it) \<longleftrightarrow> j = k \<and> st \<notin> set InactiveOrderStatuses"
proof -
  from assms obtain r where r: "r \<in> set (db_orders s)" "ord_id r = itm_order it" "ord_tenant r = tn"
    "ord_check r = Some k" "ord_status r = st" by (auto simp: lines_at_def)
  show ?thesis
  proof
    assume "billed_on tn (db_orders s) j (itm_order it)"
    then obtain r' where r': "r' \<in> set (db_orders s)" "ord_id r' = itm_order it"
      "ord_check r' = Some j" "ord_status r' \<notin> set InactiveOrderStatuses"
      by (auto simp: billed_on_def)
    then have "r' = r" using schema_keys(2) [OF assms(1)] r by (metis distinct_key_unique)
    with r' r show "j = k \<and> st \<notin> set InactiveOrderStatuses" by simp
  next
    assume "j = k \<and> st \<notin> set InactiveOrderStatuses"
    with r show "billed_on tn (db_orders s) j (itm_order it)"
      by (auto simp: billed_on_def intro!: bexI [of _ r])
  qed
qed

section \<open>One new order for the lines of one status\<close>

definition reorder_items :: "uuid \<Rightarrow> uuid set \<Rightarrow> uuid \<Rightarrow> order_item list \<Rightarrow> order_item list" where
  "reorder_items tn I n its =
     map (\<lambda>it. if itm_tenant it = tn \<and> itm_id it \<in> I then it\<lparr>itm_order := n\<rparr> else it) its"

definition status_items :: "item_owner list \<Rightarrow> order_status \<Rightarrow> uuid set" where
  "status_items owners st = own_item ` {w \<in> set owners. own_status w = st}"

lemma rehome_status_Inr:
  assumes "rehome_status tx tn owners source target st s = Inr (n, s')"
  shows "\<exists>row m. n = ord_id row \<and> n \<notin> ord_id ` set (db_orders s) \<and>
     ord_tenant row = tx_tenant tx \<and> ord_check row = Some (chk_id target) \<and> ord_status row = st \<and>
     s' = s\<lparr>db_orders := db_orders s @ [row],
            db_items := reorder_items (tx_tenant tx) (status_items owners st) n (db_items s),
            db_ctr := m\<rparr>"
proof -
  let ?ids = "map own_item (filter (\<lambda>w. own_status w = st) owners)"
  from assms obtain row s1 cnt where create: "OrderRepo_Create tx (moved_order tn source target st) s = Inr (row, s1)"
    and move: "OrderRepo_MoveItemsToOrder tx ?ids (ord_id row) s1 = Inr (cnt, s')"
    and n: "n = ord_id row"
    by (auto simp: rehome_status_def tx_inv Let_def)
  from create have row: "ord_id row \<notin> ord_id ` set (db_orders s)" "ord_tenant row = tx_tenant tx"
      "ord_check row = Some (chk_id target)" "ord_status row = st"
      "s1 = s\<lparr>db_ctr := Suc (db_ctr s), db_orders := db_orders s @ [row]\<rparr>"
    by (auto simp: OrderRepo_Create_def OrderRepo_insertItems_def tx_inv gen_random_uuid_Inr
        orders.insert_Inr order_insert_row_def moved_order_def zero_order_def)
  have "s' = s1\<lparr>db_items := reorder_items (tx_tenant tx) (status_items owners st) n (db_items s1)\<rparr>"
  proof (cases "?ids = []")
    case True
    then have "status_items owners st = {}" by (auto simp: status_items_def filter_empty_conv)
    with True move show ?thesis
      by (auto simp: OrderRepo_MoveItemsToOrder_def reorder_items_def)
  next
    case False
    have "set ?ids = status_items owners st" by (auto simp: status_items_def)
    with False move n show ?thesis
      by (auto simp: OrderRepo_MoveItemsToOrder_def tx_inv items.update_Inr rls_update_def
          update_rows_def reorder_items_def)
  qed
  with row n show ?thesis
    by (intro exI [of _ row] exI [of _ "Suc (db_ctr s)"]) simp
qed

text \<open>How the new order redistributes the shares.\<close>

lemma rehome_status_sums:
  assumes ok: "schema_ok s" and run: "rehome_status tx tn' owners source target st s = Inr (n, s')"
    and at: "lines_at (tx_tenant tx) s src st (status_items owners st)"
    and ne: "src \<noteq> chk_id target"
  shows "part_sum (tx_tenant tx) s' k J =
         part_sum (tx_tenant tx) s k (J - status_items owners st) +
         (if k = chk_id target
          then part_sum (tx_tenant tx) s src (J \<inter> status_items owners st) else 0)"
proof -
  let ?tn = "tx_tenant tx" and ?I = "status_items owners st"
  from rehome_status_Inr [OF run] obtain row m where
      row: "n = ord_id row" "n \<notin> ord_id ` set (db_orders s)" "ord_tenant row = ?tn"
        "ord_check row = Some (chk_id target)" "ord_status row = st"
    and s': "s' = s\<lparr>db_orders := db_orders s @ [row],
            db_items := reorder_items ?tn ?I n (db_items s), db_ctr := m\<rparr>"
    by auto
  have on': "billed_on ?tn (db_orders s') k i \<longleftrightarrow>
      billed_on ?tn (db_orders s) k i \<or>
      i = n \<and> k = chk_id target \<and> st \<notin> set InactiveOrderStatuses" for k i
    using row by (auto simp: s' billed_on_def)
  have fresh: "itm_order it \<noteq> n" if "it \<in> set (db_items s)" for it
  proof -
    have "item_refs_ok s it" using ok that by (simp add: schema_ok_def table_ok_def)
    with row(2) show ?thesis by (auto simp: item_refs_ok_def)
  qed
  have n_new: "\<not> billed_on ?tn (db_orders s) k n" for k
    using row(2) by (auto simp: billed_on_def)
  have share: "(if itm_tenant it' = ?tn \<and> itm_id it' \<in> J \<and> billed_on ?tn (db_orders s') k (itm_order it')
               then line_amount it' else 0) =
      (if itm_tenant it = ?tn \<and> itm_id it \<in> J - ?I \<and> billed_on ?tn (db_orders s) k (itm_order it)
       then line_amount it else 0) +
      (if k = chk_id target then
         (if itm_tenant it = ?tn \<and> itm_id it \<in> J \<inter> ?I \<and> billed_on ?tn (db_orders s) src (itm_order it)
          then line_amount it else 0) else 0)"
    if it: "it \<in> set (db_items s)"
      and it': "it' = (if itm_tenant it = ?tn \<and> itm_id it \<in> ?I then it\<lparr>itm_order := n\<rparr> else it)" for it it'
  proof (cases "itm_tenant it = ?tn \<and> itm_id it \<in> ?I")
    case True
    then show ?thesis
      using billed_at [OF ok at it, of src] n_new [of k] ne
      by (simp add: it' on' line_amount_def)
  next
    case False
    then show ?thesis using fresh [OF it] by (auto simp: it' on')
  qed
  have "part_sum ?tn s' k J = (\<Sum>it \<leftarrow> db_items s.
      (if itm_tenant it = ?tn \<and> itm_id it \<in> J - ?I \<and> billed_on ?tn (db_orders s) k (itm_order it)
       then line_amount it else 0) +
      (if k = chk_id target then
         (if itm_tenant it = ?tn \<and> itm_id it \<in> J \<inter> ?I \<and> billed_on ?tn (db_orders s) src (itm_order it)
          then line_amount it else 0) else 0))"
    unfolding part_sum_def
    by (rule arg_cong [where f = sum_list])
       (use share in \<open>auto simp: s' reorder_items_def comp_def intro!: map_cong\<close>)
  also have "\<dots> = part_sum ?tn s k (J - ?I) +
      (if k = chk_id target then part_sum ?tn s src (J \<inter> ?I) else 0)"
    unfolding sum_list_addf part_sum_def by (cases "k = chk_id target") simp_all
  finally show ?thesis .
qed

text \<open>Lines of another status are where they were.\<close>

lemma rehome_status_others:
  assumes run: "rehome_status tx tn' owners source target st s = Inr (n, s')"
    and "status_items owners st \<inter> I = {}" and at: "lines_at (tx_tenant tx) s src st' I"
  shows "lines_at (tx_tenant tx) s' src st' I"
proof -
  let ?tn = "tx_tenant tx"
  from rehome_status_Inr [OF run] obtain row m where
      s': "s' = s\<lparr>db_orders := db_orders s @ [row],
            db_items := reorder_items ?tn (status_items owners st) n (db_items s), db_ctr := m\<rparr>"
    by auto
  show ?thesis
    unfolding lines_at_def
  proof (intro ballI impI)
    fix it' assume "it' \<in> set (db_items s')" and it': "itm_tenant it' = ?tn \<and> itm_id it' \<in> I"
    then obtain it where it: "it \<in> set (db_items s)"
      and eq: "it' = (if itm_tenant it = ?tn \<and> itm_id it \<in> status_items owners st
                      then it\<lparr>itm_order := n\<rparr> else it)"
      by (auto simp: s' reorder_items_def)
    have "itm_id it' = itm_id it" by (simp add: eq)
    then have "it' = it" using it' assms(2) eq by auto
    with it it' at obtain r where "r \<in> set (db_orders s)" "ord_id r = itm_order it'"
      "ord_tenant r = ?tn" "ord_check r = Some src" "ord_status r = st'"
      by (auto simp: lines_at_def)
    then show "\<exists>r \<in> set (db_orders s'). ord_id r = itm_order it' \<and> ord_tenant r = ?tn \<and>
        ord_check r = Some src \<and> ord_status r = st'"
      by (auto simp: s')
  qed
qed

section \<open>All statuses\<close>

definition moved_ids :: "item_owner list \<Rightarrow> order_status set \<Rightarrow> uuid set" where
  "moved_ids owners sts = own_item ` {w \<in> set owners. own_status w \<in> sts}"

lemma moved_ids_insert: "moved_ids owners (insert st sts) = status_items owners st \<union> moved_ids owners sts"
  by (auto simp: moved_ids_def status_items_def)

text \<open>No line is listed with two statuses.\<close>

definition one_status :: "item_owner list \<Rightarrow> bool" where
  "one_status owners \<longleftrightarrow>
     (\<forall>w \<in> set owners. \<forall>w' \<in> set owners. own_item w = own_item w' \<longrightarrow> own_status w = own_status w')"

lemma one_status_disjoint:
  "one_status owners \<Longrightarrow> st \<notin> sts \<Longrightarrow> status_items owners st \<inter> moved_ids owners sts = {}"
  by (fastforce simp: one_status_def status_items_def moved_ids_def)

lemma one_status_disjoint2:
  "one_status owners \<Longrightarrow> st \<noteq> st' \<Longrightarrow> status_items owners st \<inter> status_items owners st' = {}"
  by (fastforce simp: one_status_def status_items_def)

lemma rehome_loop_sums:
  assumes "one_status owners" and "src \<noteq> chk_id target" and "distinct sts" and "schema_ok s"
    and "tx_map (rehome_status tx tn' owners source target) sts s = Inr (ns, s')"
    and "\<And>st. st \<in> set sts \<Longrightarrow> lines_at (tx_tenant tx) s src st (status_items owners st)"
  shows "schema_ok s' \<and>
         part_sum (tx_tenant tx) s' k J =
         part_sum (tx_tenant tx) s k (J - moved_ids owners (set sts)) +
         (if k = chk_id target
          then part_sum (tx_tenant tx) s src (J \<inter> moved_ids owners (set sts)) else 0)"
  using assms(3-)
proof (induction sts arbitrary: s ns k J)
  case Nil
  then show ?case by (simp add: moved_ids_def part_sum_def)
next
  case (Cons st sts)
  let ?tn = "tx_tenant tx" and ?I = "status_items owners st" and ?M = "moved_ids owners (set sts)"
  let ?t = "chk_id target"
  from Cons.prems(3) obtain n t ns' where
      one: "rehome_status tx tn' owners source target st s = Inr (n, t)"
    and rest: "tx_map (rehome_status tx tn' owners source target) sts t = Inr (ns', s')"
    by (auto simp: tx_inv)
  have "schema_ok t"
    using tx_withinD [OF move_tx_evolves(4) one] Cons.prems(2) by (simp add: evolves_def)
  moreover have "lines_at ?tn t src st' (status_items owners st')" if "st' \<in> set sts" for st'
    using that Cons.prems(1,4) one_status_disjoint2 [OF assms(1), of st st']
    by (intro rehome_status_others [OF one]) auto
  ultimately have IH: "schema_ok s' \<and>
      part_sum ?tn s' k J = part_sum ?tn t k (J - ?M) +
         (if k = ?t then part_sum ?tn t src (J \<inter> ?M) else 0)"
    using Cons.prems(1) rest by (intro Cons.IH) auto
  have step: "part_sum ?tn t k J = part_sum ?tn s k (J - ?I) +
      (if k = ?t then part_sum ?tn s src (J \<inter> ?I) else 0)" for k J
    using Cons.prems(2,4) assms(2) by (intro rehome_status_sums [OF _ one]) auto
  have "?I \<inter> ?M = {}" using Cons.prems(1) by (intro one_status_disjoint [OF assms(1)]) auto
  then have sets: "J - ?M - ?I = J - (?I \<union> ?M)" "(J - ?M) \<inter> ?I = J \<inter> ?I" "J \<inter> ?M - ?I = J \<inter> ?M"
    "(J \<inter> ?I) \<inter> (J \<inter> ?M) = {}" "J \<inter> (?I \<union> ?M) = (J \<inter> ?I) \<union> (J \<inter> ?M)" by auto
  show ?case
    using IH assms(2) by (simp add: step sets moved_ids_insert part_sum_union)
qed

section \<open>Cancelling what was emptied\<close>

lemma cancelEmptied_sums:
  assumes "cancelEmptiedOrders tx tn' os i who s = Inr (ids, s')"
  shows "part_sum (tx_tenant tx) s' k J = part_sum (tx_tenant tx) s k J"
proof -
  let ?tn = "tx_tenant tx"
  from assms obtain empty s1 where e: "OrderRepo_EmptyOrderIDs tx os s = Inr (empty, s)"
    and c: "OrderRepo_CancelByIDs tx empty s = Inr (ids, s1)"
    and ev: "tx_each (order_status_event tx tn' i OrderStatusCancelled ''cancelled_by'' who
               ''items_moved'') ids s1 = Inr ((), s')"
    by (auto simp: cancelEmptiedOrders_def tx_inv OrderRepo_EmptyOrderIDs_def split: if_splits)
  have "emitted s1 (map (\<lambda>i'. (tn', ''order'', i', ''order.status_changed'',
      [(''tenant_id'', JId tn'), (''order_id'', JId i'), (''check_id'', JId i),
       (''status'', JStr (order_status_string OrderStatusCancelled)), (''cancelled_by'', JId who),
       (''reason'', JStr ''items_moved'')])) ids) s'"
    using ev by (rule tx_each_emits [rotated]) (auto simp: order_status_event_def dest: InsertOutbox_emits)
  note same = emitted_fields [OF this]
  have empty: "itm_order it \<notin> set empty" if "it \<in> set (db_items s)" "itm_tenant it = ?tn" for it
    using e that by (auto simp: OrderRepo_EmptyOrderIDs_def rls_select_def filter_empty_conv
        split: if_splits)
  have orders1: "db_orders s1 = rls_update ord_tenant tx
       (\<lambda>r. ord_id r \<in> set empty \<and> ord_status r \<in> set KitchenActiveOrderStatuses)
       (\<lambda>r. r\<lparr>ord_status := OrderStatusCancelled, ord_updated := tx_now tx\<rparr>) (db_orders s)"
    using c by (cases "empty = []")
      (auto simp: OrderRepo_CancelByIDs_def tx_inv orders.update_Inr rls_update_none)
  have "billed_on ?tn (db_orders s1) k j \<longleftrightarrow> billed_on ?tn (db_orders s) k j" if "j \<notin> set empty" for j
  proof -
    have "(\<exists>r \<in> set (rls_update ord_tenant tx
             (\<lambda>r. ord_id r \<in> set empty \<and> ord_status r \<in> set KitchenActiveOrderStatuses)
             (\<lambda>r. r\<lparr>ord_status := OrderStatusCancelled, ord_updated := tx_now tx\<rparr>) rows).
             ord_tenant r = ?tn \<and> ord_id r = j \<and> ord_check r = Some k \<and>
             ord_status r \<notin> set InactiveOrderStatuses) \<longleftrightarrow>
          (\<exists>r \<in> set rows. ord_tenant r = ?tn \<and> ord_id r = j \<and> ord_check r = Some k \<and>
             ord_status r \<notin> set InactiveOrderStatuses)" for rows
      using that by (induction rows) auto
    then show ?thesis unfolding billed_on_def orders1 .
  qed
  moreover have "db_items s1 = db_items s"
    using c by (auto simp: OrderRepo_CancelByIDs_def tx_inv orders.update_Inr split: if_splits)
  ultimately show ?thesis
    unfolding part_sum_def same
    by (intro arg_cong [where f = sum_list] map_cong) (use empty in auto)
qed

section \<open>What the owners query says\<close>

lemma ItemOwners_Inr:
  assumes "OrderRepo_ItemOwners tx ids s = Inr (owners, s')" and "w \<in> set owners"
  obtains it r where "it \<in> set (db_items s)" "itm_tenant it = tx_tenant tx" "itm_id it \<in> set ids"
    "r \<in> set (db_orders s)" "ord_tenant r = tx_tenant tx" "ord_id r = itm_order it"
    "own_item w = itm_id it" "own_order w = itm_order it" "own_check w = ord_check r"
    "own_status w = ord_status r" "own_qty w = itm_qty it" "own_unit_price w = itm_unit_price it"
  using assms by (auto simp: OrderRepo_ItemOwners_def item_owner_rows_def split: if_splits)

lemma owners_one_status:
  assumes "schema_ok s" and "OrderRepo_ItemOwners tx ids s = Inr (owners, s')"
  shows "one_status owners"
  unfolding one_status_def
proof (intro ballI impI)
  fix w w' assume w: "w \<in> set owners" and w': "w' \<in> set owners" and eq: "own_item w = own_item w'"
  obtain it r where 1: "it \<in> set (db_items s)" "r \<in> set (db_orders s)" "ord_id r = itm_order it"
    "own_item w = itm_id it" "own_status w = ord_status r" by (rule ItemOwners_Inr [OF assms(2) w])
  obtain it' r' where 2: "it' \<in> set (db_items s)" "r' \<in> set (db_orders s)" "ord_id r' = itm_order it'"
    "own_item w' = itm_id it'" "own_status w' = ord_status r'"
    by (rule ItemOwners_Inr [OF assms(2) w'])
  have "it = it'" using 1 2 eq schema_keys(3) [OF assms(1)] by (metis distinct_key_unique)
  then have "r = r'" using 1 2 schema_keys(2) [OF assms(1)] by (metis distinct_key_unique)
  with 1 2 show "own_status w = own_status w'" by simp
qed

lemma owners_lines_at:
  assumes ok: "schema_ok s" and own: "OrderRepo_ItemOwners tx ids s = Inr (owners, s')"
    and here: "assertItemsBelongToCheck owners ids' src = Inr u"
  shows "lines_at (tx_tenant tx) s src st (status_items owners st)"
  unfolding lines_at_def
proof (intro ballI impI)
  fix it0 assume it0: "it0 \<in> set (db_items s)"
    and "itm_tenant it0 = tx_tenant tx \<and> itm_id it0 \<in> status_items owners st"
  then obtain w where w: "w \<in> set owners" "own_status w = st" "own_item w = itm_id it0"
    by (auto simp: status_items_def)
  obtain it r where r: "it \<in> set (db_items s)" "r \<in> set (db_orders s)" "ord_tenant r = tx_tenant tx"
    "ord_id r = itm_order it" "own_item w = itm_id it" "own_check w = ord_check r"
    "own_status w = ord_status r" by (rule ItemOwners_Inr [OF own w(1)])
  have "it = it0" using r(1,5) it0 w(3) schema_keys(3) [OF ok] by (metis distinct_key_unique)
  moreover have "own_check w = Some src" by (rule assertItemsBelong_check [OF here w(1)])
  ultimately show "\<exists>r \<in> set (db_orders s). ord_id r = itm_order it0 \<and> ord_tenant r = tx_tenant tx \<and>
      ord_check r = Some src \<and> ord_status r = st"
    using r w(2) by auto
qed

text \<open>The worth of the owners' lines, as the code adds it up, is their share of the
  source check's total.\<close>

definition owners_worth :: "item_owner list \<Rightarrow> int" where
  "owners_worth owners =
     (\<Sum>w \<leftarrow> owners. if isInactive (own_status w) then 0 else own_qty w * own_unit_price w)"

lemma wrap64_add_right: "wrap64 (a + wrap64 b) = wrap64 (a + b)"
  using wrap64_add [of b a] by (simp add: add.commute)

lemma movedAmount_wrap: "movedAmount owners = wrap64 (owners_worth owners)"
proof -
  have "fold (\<lambda>w sum. if isInactive (own_status w) then sum
                      else wrap64 (sum + wrap64 (own_qty w * own_unit_price w))) owners (wrap64 a) =
        wrap64 (a + owners_worth owners)" for a
  proof (induction owners arbitrary: a)
    case Nil
    then show ?case by (simp add: owners_worth_def)
  next
    case (Cons w owners)
    show ?case
    proof (cases "isInactive (own_status w)")
      case True
      with Cons.IH [of a] show ?thesis by (simp add: owners_worth_def)
    next
      case False
      with Cons.IH [of "a + own_qty w * own_unit_price w"] show ?thesis
        by (simp add: owners_worth_def wrap64_add wrap64_add_right add.assoc)
    qed
  qed
  from this [of 0] show ?thesis by (simp add: movedAmount_def wrap64_def)
qed

lemma sum_list_concat_map: "(\<Sum>x \<leftarrow> concat (map f xs). g x) = (\<Sum>x \<leftarrow> xs. \<Sum>y \<leftarrow> f x. (g y :: int))"
  by (induction xs) simp_all

lemma sum_list_mset_eq:
  fixes f :: "'a \<Rightarrow> int"
  assumes "mset xs = mset ys"
  shows "(\<Sum>x \<leftarrow> xs. f x) = (\<Sum>x \<leftarrow> ys. f x)"
proof -
  have "mset (map f xs) = mset (map f ys)" using assms by simp
  then show ?thesis by (metis sum_mset_sum_list)
qed

lemma owners_worth_share:
  assumes ok: "schema_ok s" and own: "OrderRepo_ItemOwners tx ids s = Inr (owners, s')"
    and ids: "ids \<noteq> []" and here: "assertItemsBelongToCheck owners ids' src = Inr u"
  shows "owners_worth owners = part_sum (tx_tenant tx) s src (set ids)"
proof -
  let ?tn = "tx_tenant tx"
  let ?sel = "rls_select itm_tenant tx (\<lambda>it. itm_id it \<in> set ids) (db_items s)"
  let ?mk = "\<lambda>it r. \<lparr>own_item = itm_id it, own_order = itm_order it, own_check = ord_check r,
          own_status = ord_status r, own_qty = itm_qty it, own_unit_price = itm_unit_price it\<rparr>"
  let ?on = "\<lambda>it. if billed_on ?tn (db_orders s) src (itm_order it) then line_amount it else 0"
  have owners: "owners = concat (map (\<lambda>it. map (?mk it)
       (rls_select ord_tenant tx (\<lambda>r. ord_id r = itm_order it) (db_orders s))) (sort_key itm_id ?sel))"
    using own ids by (auto simp: OrderRepo_ItemOwners_def item_owner_rows_def)
  have one: "(\<Sum>w \<leftarrow> map (?mk it) (rls_select ord_tenant tx (\<lambda>r. ord_id r = itm_order it) (db_orders s)).
       if isInactive (own_status w) then 0 else own_qty w * own_unit_price w) = ?on it"
    if it: "it \<in> set ?sel" for it
  proof -
    let ?Q = "\<lambda>r. ord_tenant r = ?tn \<and> ord_status r \<notin> set InactiveOrderStatuses"
    have "ord_check r = Some src" if "r \<in> set (db_orders s)" "ord_tenant r = ?tn" "ord_id r = itm_order it" for r
    proof -
      have "?mk it r \<in> set owners" using that it by (auto simp: owners intro!: bexI [of _ it])
      from assertItemsBelong_check [OF here this] show ?thesis by simp
    qed
    then have "billed_on ?tn (db_orders s) src (itm_order it) \<longleftrightarrow>
               (\<exists>r \<in> set (db_orders s). ord_id r = itm_order it \<and> ?Q r)"
      by (auto simp: billed_on_def)
    moreover have "(\<Sum>r \<leftarrow> db_orders s. if ord_id r = itm_order it \<and> ?Q r then line_amount it else 0) =
        (if \<exists>r \<in> set (db_orders s). ord_id r = itm_order it \<and> ?Q r then line_amount it else 0)"
      by (rule sum_list_unique) (rule schema_keys(2) [OF ok])
    moreover have "(\<Sum>w \<leftarrow> map (?mk it) (rls_select ord_tenant tx (\<lambda>r. ord_id r = itm_order it) rows).
          if isInactive (own_status w) then 0 else own_qty w * own_unit_price w) =
        (\<Sum>r \<leftarrow> rows. if ord_id r = itm_order it \<and> ?Q r then line_amount it else 0)" for rows :: "order list"
      unfolding rls_select_def
      by (induction rows) (auto simp: line_amount_def isInactive_def)
    ultimately show ?thesis by (simp only:)
  qed
  have "owners_worth owners = (\<Sum>it \<leftarrow> sort_key itm_id ?sel. ?on it)"
    unfolding owners_worth_def owners sum_list_concat_map
    by (intro arg_cong [where f = sum_list] map_cong refl one) simp
  also have "\<dots> = (\<Sum>it \<leftarrow> ?sel. ?on it)"
    by (rule sum_list_mset_eq) simp
  also have "\<dots> = part_sum ?tn s src (set ids)"
    unfolding part_sum_def rls_select_def sum_list_map_if [symmetric]
    by (intro arg_cong [where f = sum_list] map_cong refl) auto
  finally show ?thesis .
qed

lemma owners_share:
  assumes own: "OrderRepo_ItemOwners tx ids s = Inr (owners, s')" and ids: "ids \<noteq> []"
  shows "part_sum (tx_tenant tx) s k (J \<inter> own_item ` set owners) = part_sum (tx_tenant tx) s k (J \<inter> set ids)"
  unfolding part_sum_def
proof (intro arg_cong [where f = sum_list] map_cong refl)
  fix it assume it: "it \<in> set (db_items s)"
  have "itm_id it \<in> own_item ` set owners"
    if "itm_tenant it = tx_tenant tx" "itm_id it \<in> set ids"
      and on: "billed_on (tx_tenant tx) (db_orders s) k (itm_order it)"
  proof -
    from on obtain r where "r \<in> set (db_orders s)" "ord_tenant r = tx_tenant tx" "ord_id r = itm_order it"
      by (auto simp: billed_on_def)
    with it that own ids show ?thesis
      by (auto simp: OrderRepo_ItemOwners_def item_owner_rows_def image_iff intro!: bexI [of _ it]
          bexI [of _ r])
  qed
  moreover have "itm_id it \<in> set ids" if "itm_id it \<in> own_item ` set owners"
  proof -
    from that obtain w where "w \<in> set owners" "own_item w = itm_id it" by auto
    then show ?thesis by (metis ItemOwners_Inr [OF own])
  qed
  ultimately show "(if itm_tenant it = tx_tenant tx \<and> itm_id it \<in> J \<inter> own_item ` set owners \<and>
        billed_on (tx_tenant tx) (db_orders s) k (itm_order it) then line_amount it else 0) =
      (if itm_tenant it = tx_tenant tx \<and> itm_id it \<in> J \<inter> set ids \<and>
        billed_on (tx_tenant tx) (db_orders s) k (itm_order it) then line_amount it else 0)"
    by auto
qed

end
