(* ===== verification/Pos_Move_Props.thy ===== *)
theory Pos_Move_Props
  imports Pos_Move_Facts Pos_Check_Props
begin

text \<open>
  Theorems about merging checks, moving lines and moving a check to another
  table: no money appears or disappears, and what is already paid stays covered.
\<close>

section \<open>Lemmas\<close>

lemma lock_rows_dom:
  assumes "lock_rows get is s = Inr (m, s')" and "\<And>i t x u. get i t = Inr (x, u) \<Longrightarrow> u = t"
  shows "s' = s \<and> (\<forall>i r. m i = Some r \<longrightarrow> i \<in> set is \<and> get i s = Inr (r, s))"
  using assms(1)
proof (induction "is" arbitrary: m)
  case Nil
  then show ?case by auto
next
  case (Cons j js)
  then obtain x m' t where get: "get j s = Inr (x, t)" and rest: "lock_rows get js t = Inr (m', s')"
    and m: "m = (if j \<in> dom m' then m' else m'(j \<mapsto> x))"
    by (auto simp: tx_inv)
  have "t = s" using get by (rule assms(2))
  with Cons.IH [of m'] get rest m show ?case by (auto split: if_splits)
qed

lemma lockChecks_Inr:
  assumes "lockChecks tx is s = Inr (m, s')"
  shows "s' = s \<and> (\<forall>i r. m i = Some r \<longrightarrow>
           rls_find chk_tenant tx (\<lambda>c. chk_id c = i) (db_checks s) = Some r)"
  using lock_rows_dom [OF assms [unfolded lockChecks_def]] by (auto simp: CheckRepo_GetForUpdate_Inr)

lemma announce_emits:
  "announceOrderIDsMoved tx tn ids k reason s = Inr (u, s') \<Longrightarrow>
   \<exists>evs. emitted s evs s' \<and> length evs = length ids"
  unfolding announceOrderIDsMoved_def
  by (drule tx_each_emits [rotated, where ev = "\<lambda>i. (tn, ''order'', i, ''order.moved'',
        [(''tenant_id'', JId tn), (''order_id'', JId i), (''check_id'', JId k),
         (''reason'', JStr reason)])"])
     (auto dest: InsertOutbox_emits)

lemma part_sum_cong:
  "db_orders s' = db_orders s \<Longrightarrow> db_items s' = db_items s \<Longrightarrow> part_sum tn s' k J = part_sum tn s k J"
  by (simp add: part_sum_def)

section \<open>Merging\<close>

definition reassigned :: "pgtx \<Rightarrow> uuid \<Rightarrow> uuid \<Rightarrow> order list \<Rightarrow> order list" where
  "reassigned tx a b os =
     rls_update ord_tenant tx (\<lambda>r. ord_check r = Some a)
       (\<lambda>r. r\<lparr>ord_check := Some b, ord_updated := tx_now tx\<rparr>) os"

lemma billed_reassigned:
  assumes "a \<noteq> b"
  shows "billed_on (tx_tenant tx) (reassigned tx a b os) k i \<longleftrightarrow>
         (if k = a then False
          else if k = b then billed_on (tx_tenant tx) os a i \<or> billed_on (tx_tenant tx) os b i
          else billed_on (tx_tenant tx) os k i)"
  using assms unfolding reassigned_def billed_on_def by (induction os) auto

lemma billed_once:
  assumes "distinct (map ord_id os)" and "a \<noteq> b"
  shows "\<not> (billed_on tn os a i \<and> billed_on tn os b i)"
proof
  assume "billed_on tn os a i \<and> billed_on tn os b i"
  then obtain r r' where "r \<in> set os" "ord_id r = i" "ord_check r = Some a"
    "r' \<in> set os" "ord_id r' = i" "ord_check r' = Some b" by (auto simp: billed_on_def)
  moreover from this have "r = r'" using assms(1) by (metis distinct_key_unique)
  ultimately show False using assms(2) by simp
qed

lemma reassigned_sums:
  assumes "distinct (map ord_id (db_orders s))" and "a \<noteq> b"
    and "db_orders s' = reassigned tx a b (db_orders s)" and "db_items s' = db_items s"
  shows "part_sum (tx_tenant tx) s' k UNIV =
     (if k = a then 0
      else if k = b then part_sum (tx_tenant tx) s a UNIV + part_sum (tx_tenant tx) s b UNIV
      else part_sum (tx_tenant tx) s k UNIV)"
proof -
  have on: "billed_on (tx_tenant tx) (db_orders s') k i \<longleftrightarrow>
         (if k = a then False
          else if k = b then billed_on (tx_tenant tx) (db_orders s) a i \<or>
                             billed_on (tx_tenant tx) (db_orders s) b i
          else billed_on (tx_tenant tx) (db_orders s) k i)" for i
    unfolding assms(3) by (rule billed_reassigned [OF assms(2)])
  have once: "\<not> (billed_on (tx_tenant tx) (db_orders s) a i \<and> billed_on (tx_tenant tx) (db_orders s) b i)" for i
    by (rule billed_once [OF assms(1,2)])
  show ?thesis
  proof (cases "k = b \<and> k \<noteq> a")
    case True
    then show ?thesis
      unfolding part_sum_def assms(4) on
      using once by (auto simp: sum_list_addf [symmetric] intro!: arg_cong [where f = sum_list])
  next
    case False
    then show ?thesis unfolding part_sum_def assms(4) on by auto
  qed
qed

lemma mergeTx_Inr:
  assumes "mergeTx c p tn k j paid pending tx s = Inr (x, s')"
  shows "\<exists>source.
     rls_find chk_tenant tx (\<lambda>c. chk_id c = k) (db_checks s) = Some x \<and>
     rls_find chk_tenant tx (\<lambda>c. chk_id c = j) (db_checks s) = Some source \<and>
     may_act c p (chk_branch x) \<and> chk_branch source = chk_branch x \<and>
     chk_status x = CheckStatusOpen \<and> chk_status source = CheckStatusOpen \<and>
     \<not> wrap64 (paid + pending) > 0 \<and>
     db_orders s' = reassigned tx j k (db_orders s) \<and> db_items s' = db_items s \<and>
     db_checks s' = rls_update chk_tenant tx (\<lambda>c. chk_id c = j \<and> chk_status c = CheckStatusOpen)
       (\<lambda>c. c\<lparr>chk_status := CheckStatusMerged, chk_merged_into := Some k, chk_updated := tx_now tx\<rparr>)
       (db_checks s)"
proof -
  obtain m s0 where lock0: "lockChecks tx [k, j] s = Inr (m, s0)"
    using assms by (auto simp: mergeTx_def tx_bind_Inr)
  then have "s0 = s" by (auto dest: lockChecks_Inr)
  with lock0 have lock: "lockChecks tx [k, j] s = Inr (m, s)" by simp
  with assms obtain target source where m: "m k = Some target" "m j = Some source"
    by (auto simp: mergeTx_def tx_bind_def split: option.splits)
  from assms lock m obtain ids s1 y s2 s3 s4 where
      guards: "may_act c p (chk_branch x)" "chk_branch source = chk_branch x"
      "chk_status x = CheckStatusOpen" "chk_status source = CheckStatusOpen"
      "\<not> wrap64 (paid + pending) > 0" "x = target"
    and re: "OrderRepo_ReassignToCheck tx (chk_id source) (chk_id x) s = Inr (ids, s1)"
    and mark: "CheckRepo_MarkMerged tx (chk_id source) (chk_id x) CheckStatusOpen s1 = Inr (y, s2)"
    and rel: "(case chk_table source of None \<Rightarrow> tx_return ()
         | Some t \<Rightarrow> tx_bind (TableRepo_UpdateStatusIfCurrent tx t TableStatusEmpty TableStatusOccupied)
                      (\<lambda>_. tx_return ())) s2 = Inr ((), s3)"
    and out: "InsertOutbox tx tn ''check'' (chk_id source) ''check.merged''
           [(''tenant_id'', JId tn), (''check_id'', JId (chk_id source)),
            (''target_check_id'', JId (chk_id x)), (''branch_id'', JId (chk_branch x)),
            (''from_table'', JStr (chk_label source)), (''to_table'', JStr (chk_label x)),
            (''order_ids'', JIds ids), (''merged_by'', JId (prn_person p))] s3 = Inr ((), s4)"
    and ann: "announceOrderIDsMoved tx tn ids (chk_id x) ''check_merged'' s4 = Inr ((), s')"
    by (auto simp: mergeTx_def tx_inv)
  from lockChecks_Inr [OF lock] m guards(6) have
      rows: "rls_find chk_tenant tx (\<lambda>c. chk_id c = k) (db_checks s) = Some x"
        "rls_find chk_tenant tx (\<lambda>c. chk_id c = j) (db_checks s) = Some source"
    by auto
  then have ids: "chk_id x = k" "chk_id source = j" by (auto dest!: rls_find_Some)
  have s1: "s1 = s\<lparr>db_orders := reassigned tx j k (db_orders s)\<rparr>"
    using re ids by (auto simp: OrderRepo_ReassignToCheck_def tx_inv orders.update_Inr reassigned_def)
  have s2: "db_checks s2 = rls_update chk_tenant tx (\<lambda>c. chk_id c = j \<and> chk_status c = CheckStatusOpen)
       (\<lambda>c. c\<lparr>chk_status := CheckStatusMerged, chk_merged_into := Some k, chk_updated := tx_now tx\<rparr>)
       (db_checks s1)" "db_orders s2 = db_orders s1" "db_items s2 = db_items s1"
    using mark ids
    by (auto simp: CheckRepo_MarkMerged_def tx_inv checks.update_Inr row_inv split: sum.splits)
  have s3: "db_checks s3 = db_checks s2" "db_orders s3 = db_orders s2" "db_items s3 = db_items s2"
    using rel by (auto simp: TableRepo_UpdateStatusIfCurrent_def tx_inv tables.update_Inr
        split: option.splits)
  note s4 = emitted_fields [OF InsertOutbox_emits [OF out]]
  obtain evs where "emitted s4 evs s'" using announce_emits [OF ann] by blast
  note s5 = emitted_fields [OF this]
  show ?thesis
    using rows guards by (intro exI [of _ source]) (simp add: s5 s4 s3 s2 s1)
qed

text \<open>C23: folding one check into another moves what it owes and nothing else: the target
  owes what both owed, the source owes nothing, every other check owes what it did.
  Both were open and of one branch the caller may act on, nothing had been paid into
  the source, and the source row ends merged into the target.\<close>

theorem Merge_conserves:
  assumes ok: "schema_ok s" and run: "CheckService_Merge sr c tn p k j s = Inr (x, s')"
  shows "k \<noteq> j \<and>
     check_total (pos_tx c tn) s' k = check_total (pos_tx c tn) s k + check_total (pos_tx c tn) s j \<and>
     check_total (pos_tx c tn) s' j = 0 \<and>
     (\<forall>i. i \<noteq> k \<longrightarrow> i \<noteq> j \<longrightarrow> check_total (pos_tx c tn) s' i = check_total (pos_tx c tn) s i) \<and>
     may_act c p (chk_branch x) \<and>
     (\<exists>paid pending. collectedTotals sr tn j = Inr (paid, pending) \<and> wrap64 (paid + pending) \<le> 0) \<and>
     (\<exists>source \<in> set (db_checks s). chk_id source = j \<and> chk_branch source = chk_branch x \<and>
        chk_status source = CheckStatusOpen \<and>
        source\<lparr>chk_status := CheckStatusMerged, chk_merged_into := Some k,
               chk_updated := ctx_now c\<rparr> \<in> set (db_checks s'))"
proof -
  let ?tx = "pos_tx c tn"
  have ne: "k \<noteq> j" using run by (auto simp: CheckService_Merge_def split: if_splits)
  from run obtain paid pending where col: "collectedTotals sr tn j = Inr (paid, pending)"
    and tx: "mergeTx c p tn k j paid pending ?tx s = Inr (x, s')"
    using ne by (auto simp: CheckService_Merge_def tx_inv)
  from mergeTx_Inr [OF tx] obtain source where
      src: "rls_find chk_tenant ?tx (\<lambda>c. chk_id c = j) (db_checks s) = Some source"
        "chk_status source = CheckStatusOpen" "chk_branch source = chk_branch x"
    and act: "may_act c p (chk_branch x)" and paid: "\<not> wrap64 (paid + pending) > 0"
    and s': "db_orders s' = reassigned ?tx j k (db_orders s)" "db_items s' = db_items s"
        "db_checks s' = rls_update chk_tenant ?tx (\<lambda>c. chk_id c = j \<and> chk_status c = CheckStatusOpen)
          (\<lambda>c'. c'\<lparr>chk_status := CheckStatusMerged, chk_merged_into := Some k,
                  chk_updated := ctx_now c\<rparr>) (db_checks s)"
    by auto
  have "evolves tn s s'" using move_service_evolves(2) run by (rule tx_withinD)
  then have ok': "schema_ok s'" using ok by (simp add: evolves_def)
  have sums: "check_total ?tx s' i =
      (if i = j then 0 else if i = k then check_total ?tx s j + check_total ?tx s k
       else check_total ?tx s i)" for i
    using reassigned_sums [OF schema_keys(2) [OF ok] ne [symmetric] s'(1,2), of i] ok ok'
    by (simp add: check_total_part)
  have row: "source \<in> set (db_checks s)" "chk_id source = j" "chk_tenant source = tn"
    using rls_find_Some [OF src(1)] by simp_all
  then have "source\<lparr>chk_status := CheckStatusMerged, chk_merged_into := Some k,
               chk_updated := ctx_now c\<rparr> \<in> set (db_checks s')"
    using src(2) by (auto simp: s'(3) in_rls_update intro!: bexI [of _ source])
  with row src act paid col ne show ?thesis by (auto simp: sums)
qed

lemma demo_merge_ok:
  "tx_ok (CheckService_Merge (demo_sales 0 0) demo_ctx 1 demo_principal 100 101) demo_db"
  by code_simp

theorem Merge_conserves_witness:
  "\<exists>x s'. CheckService_Merge (demo_sales 0 0) demo_ctx 1 demo_principal 100 101 demo_db = Inr (x, s') \<and>
     check_total (pos_tx demo_ctx 1) s' 100 = 2000 \<and> check_total (pos_tx demo_ctx 1) s' 101 = 0"
proof -
  obtain x s' where run:
    "CheckService_Merge (demo_sales 0 0) demo_ctx 1 demo_principal 100 101 demo_db = Inr (x, s')"
    by (rule tx_okE [OF demo_merge_ok])
  have "check_total (pos_tx demo_ctx 1) demo_db 100 = 1700" "check_total (pos_tx demo_ctx 1) demo_db 101 = 300"
    by code_simp+
  with Merge_conserves [OF demo_schema run] run show ?thesis by auto
qed

section \<open>Moving lines\<close>

lemma sum_list_0_map:
  fixes f :: "'a \<Rightarrow> int"
  shows "(\<And>x. x \<in> set xs \<Longrightarrow> f x = 0) \<Longrightarrow> (\<Sum>x \<leftarrow> xs. f x) = 0"
  by (induction xs) simp_all

lemma moveItemsTx_Inr:
  assumes ok: "schema_ok s" and run: "moveItemsTx c p tn k j ids paid pending tx s = Inr (x, s')"
    and ids: "ids \<noteq> []" and ne: "k \<noteq> j"
  shows "part_sum (tx_tenant tx) s' i J =
         part_sum (tx_tenant tx) s i (J - set ids) +
         (if i = j then part_sum (tx_tenant tx) s k (J \<inter> set ids) else 0) \<and>
     (wrap64 (paid + pending) > 0 \<longrightarrow>
        \<not> wrap64 (check_total tx s k - wrap64 (part_sum (tx_tenant tx) s k (set ids)))
          < wrap64 (paid + pending)) \<and>
     (\<forall>l. l \<noteq> k \<longrightarrow> part_sum (tx_tenant tx) s l (set ids) = 0)"
proof -
  let ?tn = "tx_tenant tx"
  obtain m s0 where lock0: "lockChecks tx [k, j] s = Inr (m, s0)"
    using run by (auto simp: moveItemsTx_def tx_bind_Inr)
  then have "s0 = s" by (auto dest: lockChecks_Inr)
  with lock0 have lock: "lockChecks tx [k, j] s = Inr (m, s)" by simp
  with run obtain source target where m: "m k = Some source" "m j = Some target"
    by (auto simp: moveItemsTx_def tx_bind_def split: option.splits)
  have chk: "chk_id source = k" "chk_id target = j"
    using lockChecks_Inr [OF lock] m by (auto dest!: rls_find_Some)
  from run lock m obtain owners s1 created emptied s2 s3 s4 where
      own: "OrderRepo_ItemOwners tx ids s = Inr (owners, s1)"
    and here: "assertItemsBelongToCheck owners ids (chk_id source) = Inr ()"
    and covered: "wrap64 (paid + pending) > 0 \<longrightarrow>
        \<not> wrap64 (check_total tx s1 (chk_id source) - movedAmount owners) < wrap64 (paid + pending)"
    and re: "rehomeItems tx tn owners source target s1 = Inr (created, s2)"
    and can: "cancelEmptiedOrders tx tn (sourceOrderIDs owners) (chk_id source) (prn_person p) s2 =
        Inr (emptied, s3)"
    and out: "InsertOutbox tx tn ''check'' (chk_id source) ''check.items_moved''
           [(''tenant_id'', JId tn), (''check_id'', JId (chk_id source)),
            (''target_check_id'', JId (chk_id target)), (''branch_id'', JId (chk_branch source)),
            (''from_table'', JStr (chk_label source)), (''to_table'', JStr (chk_label target)),
            (''order_item_ids'', JIds ids), (''created_order_ids'', JIds created),
            (''emptied_order_ids'', JIds emptied), (''moved_by'', JId (prn_person p))] s3 = Inr ((), s4)"
    and ann: "announceOrderIDsMoved tx tn created (chk_id target) ''items_moved'' s4 = Inr ((), s')"
    by (auto simp: moveItemsTx_def tx_inv CheckRepo_GetTotal_Inr split: if_splits)
  have s1: "s1 = s" using own ids by (auto simp: OrderRepo_ItemOwners_def)
  let ?M = "own_item ` set owners"
  let ?sts = "sort_by status_before (remdups (map own_status owners))"
  have M: "moved_ids owners (set ?sts) = ?M" by (auto simp: moved_ids_def)
  have "schema_ok s2 \<and> part_sum ?tn s2 i J = part_sum ?tn s i (J - moved_ids owners (set ?sts)) +
      (if i = chk_id target then part_sum ?tn s k (J \<inter> moved_ids owners (set ?sts)) else 0)" for i J
    using re ok ne chk owners_lines_at [OF ok own here]
    by (intro rehome_loop_sums [OF owners_one_status [OF ok own]]) (auto simp: rehomeItems_def s1)
  then have s2: "part_sum ?tn s2 i J = part_sum ?tn s i (J - ?M) +
      (if i = j then part_sum ?tn s k (J \<inter> ?M) else 0)" for i J
    unfolding M chk by blast
  have same: "part_sum ?tn s i' (J' \<inter> ?M) = part_sum ?tn s i' (J' \<inter> set ids)" for i' J'
    using own s1 by (intro owners_share [OF _ ids]) simp
  have rest: "part_sum ?tn s i' (J' - ?M) = part_sum ?tn s i' (J' - set ids)" for i' J'
    using part_sum_split [of ?tn s i' J' ?M] part_sum_split [of ?tn s i' J' "set ids"] same by simp
  note s4 = emitted_fields [OF InsertOutbox_emits [OF out]]
  obtain evs where "emitted s4 evs s'" using announce_emits [OF ann] by blast
  note s5 = emitted_fields [OF this]
  have "part_sum ?tn s' i J = part_sum ?tn s3 i J" by (rule part_sum_cong) (simp_all add: s5 s4)
  also have "\<dots> = part_sum ?tn s2 i J" by (rule cancelEmptied_sums [OF can])
  also have "\<dots> = part_sum ?tn s i (J - set ids) +
      (if i = j then part_sum ?tn s k (J \<inter> set ids) else 0)"
    by (simp only: s2 same rest)
  finally have moved: "part_sum ?tn s' i J = part_sum ?tn s i (J - set ids) +
      (if i = j then part_sum ?tn s k (J \<inter> set ids) else 0)" .
  have "part_sum ?tn s l ?M = 0" if "l \<noteq> k" for l
    unfolding part_sum_def
  proof (rule sum_list_0_map)
    fix it assume it: "it \<in> set (db_items s)"
    show "(if itm_tenant it = ?tn \<and> itm_id it \<in> ?M \<and> billed_on ?tn (db_orders s) l (itm_order it)
           then line_amount it else 0) = 0"
      using billed_at [OF ok owners_lines_at [OF ok own here] it, of _ l] that chk
      by (auto simp: status_items_def s1)
  qed
  with same [of _ UNIV] have "\<forall>l. l \<noteq> k \<longrightarrow> part_sum ?tn s l (set ids) = 0" by simp
  with moved show ?thesis
    using covered owners_worth_share [OF ok own ids here]
    by (simp add: movedAmount_wrap chk s1)
qed

text \<open>C25: moving lines from one open check to another moves exactly their share of the
  bill: the source owes less, and the target more, by the worth of the requested lines
  that were billed to the source; every other check owes what it did. When money had
  been collected for the source, what is left on it is still worth at least that much
  (the amounts within the range of \<open>int64\<close>).\<close>

theorem MoveItems_conserves:
  assumes ok: "schema_ok s" and run: "CheckService_MoveItems sr c tn p k j ids s = Inr (x, s')"
    and col: "collectedTotals sr tn k = Inr (paid, pending)"
    and moved: "moved = part_sum tn s k (set ids)"
  shows "k \<noteq> j \<and>
     check_total (pos_tx c tn) s' k = check_total (pos_tx c tn) s k - moved \<and>
     check_total (pos_tx c tn) s' j = check_total (pos_tx c tn) s j + moved \<and>
     (\<forall>i. i \<noteq> k \<longrightarrow> i \<noteq> j \<longrightarrow> check_total (pos_tx c tn) s' i = check_total (pos_tx c tn) s i) \<and>
     (int64_range moved \<and> int64_range (check_total (pos_tx c tn) s k - moved) \<and>
      int64_range (paid + pending) \<and> 0 < paid + pending \<longrightarrow>
        paid + pending \<le> check_total (pos_tx c tn) s' k)"
proof -
  let ?tx = "pos_tx c tn"
  have ne: "k \<noteq> j" "ids \<noteq> []" using run by (auto simp: CheckService_MoveItems_def split: if_splits)
  from run col ne have tx: "moveItemsTx c p tn k j ids paid pending ?tx s = Inr (x, s')"
    by (auto simp: CheckService_MoveItems_def tx_inv)
  note facts = moveItemsTx_Inr [OF ok tx ne(2,1)]
  have "evolves tn s s'" using tx_withinD [OF move_service_evolves(3) run] .
  then have ok': "schema_ok s'" using ok by (simp add: evolves_def)
  have total: "check_total ?tx u i = part_sum tn u i UNIV" if "schema_ok u" for u i
    using that by (simp add: check_total_part)
  have all: "part_sum tn s i (UNIV - set ids) = part_sum tn s i UNIV - part_sum tn s i (set ids)" for i
    using part_sum_split [of tn s i UNIV "set ids"] by simp
  have owed: "check_total ?tx s' i =
      check_total ?tx s i - (if i = k then moved else 0) + (if i = j then moved else 0)" for i
    using facts [where i = i and J = UNIV] all [of i] ne by (simp add: total ok ok' moved)
  show ?thesis
    using owed facts ne by (auto simp: total ok moved linorder_not_less)
qed

lemma demo_move_ok:
  "tx_ok (CheckService_MoveItems (demo_sales 1000 0) demo_ctx 1 demo_principal 100 101 [301]) demo_db"
  by code_simp

theorem MoveItems_conserves_witness:
  "\<exists>x s'. CheckService_MoveItems (demo_sales 1000 0) demo_ctx 1 demo_principal 100 101 [301] demo_db
            = Inr (x, s') \<and>
     check_total (pos_tx demo_ctx 1) s' 100 = 1000 \<and> check_total (pos_tx demo_ctx 1) s' 101 = 1000"
proof -
  obtain x s' where run: "CheckService_MoveItems (demo_sales 1000 0) demo_ctx 1 demo_principal 100 101
      [301] demo_db = Inr (x, s')"
    by (rule tx_okE [OF demo_move_ok])
  have "check_total (pos_tx demo_ctx 1) demo_db 100 = 1700"
    "check_total (pos_tx demo_ctx 1) demo_db 101 = 300"
    "part_sum 1 demo_db 100 (set [301]) = 700" by code_simp+
  moreover have "collectedTotals (demo_sales 1000 0) 1 100 = Inr (1000, 0)" by code_simp
  note MoveItems_conserves [OF demo_schema run this refl]
  ultimately show ?thesis using run by auto
qed

section \<open>Moving to another table\<close>

lemma update_status_row:
  assumes "TableRepo_UpdateStatus tx i st old s = Inr (t, s')"
  shows "s' = s\<lparr>db_tables := rls_update tbl_tenant tx (\<lambda>t. tbl_id t = i \<and> tbl_status t = old)
           (\<lambda>t. t\<lparr>tbl_status := st, tbl_updated := tx_now tx\<rparr>) (db_tables s)\<rparr>"
  using assms by (auto simp: TableRepo_UpdateStatus_Inr tables.update_Inr)

lemma lockTables_Inr:
  assumes "lockTables tx is s = Inr (m, s')"
  shows "s' = s \<and> (\<forall>i r. m i = Some r \<longrightarrow>
           rls_find tbl_tenant tx (\<lambda>t. tbl_id t = i) (db_tables s) = Some r)"
  using lock_rows_dom [OF assms [unfolded lockTables_def]] by (auto simp: TableRepo_GetTableForUpdate_Inr)

lemma release_table_other:
  "r \<in> set rows \<Longrightarrow> freed \<noteq> Some (tbl_id r) \<Longrightarrow> r \<in> set (release_table tx freed to rows)"
  by (auto simp: release_table_def in_rls_update split: option.splits intro!: bexI [of _ r])

lemma release_table_frees:
  assumes "v \<in> set (release_table tx (Some i) to rows)"
    and tv: "tbl_tenant v = tx_tenant tx" "tbl_id v = i" and to: "to \<noteq> TableStatusOccupied"
  shows "tbl_status v \<noteq> TableStatusOccupied"
proof -
  from assms(1) obtain r where "v = (if tbl_tenant r = tx_tenant tx \<and> tbl_id r = i \<and>
        tbl_status r = TableStatusOccupied
      then r\<lparr>tbl_status := to, tbl_updated := tx_now tx\<rparr> else r)"
    unfolding release_table_def in_rls_update option.case by blast
  with tv to show ?thesis by (cases "tbl_status r = TableStatusOccupied") (simp_all split: if_splits)
qed

lemma transferTx_Inr:
  assumes "transferTx c p tn k t tx s = Inr (x, s')"
  shows "\<exists>cur. rls_find chk_tenant tx (\<lambda>c. chk_id c = k) (db_checks s) = Some cur \<and>
     may_act c p (chk_branch cur) \<and> chk_status cur = CheckStatusOpen \<and>
     (if chk_table cur = Some t then x = cur \<and> s' = s
      else \<exists>target. rls_find tbl_tenant tx (\<lambda>u. tbl_id u = t) (db_tables s) = Some target \<and>
        tbl_branch target = chk_branch cur \<and> staffTableGuard target = Inr () \<and>
        x = cur\<lparr>chk_table := Some t, chk_label := tbl_name target, chk_updated := tx_now tx\<rparr> \<and>
        db_checks s' = rls_update chk_tenant tx (\<lambda>c. chk_id c = k \<and> chk_status c = CheckStatusOpen)
          (\<lambda>c. c\<lparr>chk_table := Some t, chk_label := tbl_name target, chk_updated := tx_now tx\<rparr>)
          (db_checks s) \<and>
        db_tables s' = release_table tx (chk_table cur) TableStatusEmpty
          (rls_update tbl_tenant tx (\<lambda>u. tbl_id u = t \<and> tbl_status u = tbl_status target)
            (\<lambda>u. u\<lparr>tbl_status := TableStatusOccupied, tbl_updated := tx_now tx\<rparr>) (db_tables s)) \<and>
        db_orders s' = db_orders s \<and> db_items s' = db_items s)"
proof -
  from assms obtain cur where cur: "rls_find chk_tenant tx (\<lambda>c. chk_id c = k) (db_checks s) = Some cur"
      "may_act c p (chk_branch cur)" "chk_status cur = CheckStatusOpen"
    by (auto simp: transferTx_def tx_inv CheckRepo_GetForUpdate_Inr)
  show ?thesis
  proof (cases "chk_table cur = Some t")
    case True
    with assms cur show ?thesis
      by (auto simp: transferTx_def tx_inv CheckRepo_GetForUpdate_Inr)
  next
    case False
    let ?ids = "t # (case chk_table cur of None \<Rightarrow> [] | Some t \<Rightarrow> [t])"
    from assms cur False obtain m s0 target where lock0: "lockTables tx ?ids s = Inr (m, s0)"
      and m: "m t = Some target"
      by (auto simp: transferTx_def tx_bind_Inr tx_require_Inr tx_lift_Inr CheckRepo_GetForUpdate_Inr
          split: option.splits)
    then have "s0 = s" by (auto dest: lockTables_Inr)
    with lock0 have lock: "lockTables tx ?ids s = Inr (m, s)" by simp
    have get: "CheckRepo_GetForUpdate tx k s = Inr (cur, s)" using cur by (simp add: CheckRepo_GetForUpdate_Inr)
    from assms cur False get lock m obtain w s1 s2 s3 s4 where
        guards: "tbl_branch target = chk_branch cur" "staffTableGuard target = Inr ()"
      and occ: "TableRepo_UpdateStatus tx (tbl_id target) TableStatusOccupied (tbl_status target) s = Inr (w, s1)"
      and rel: "(case chk_table cur of None \<Rightarrow> tx_return ()
         | Some t \<Rightarrow> tx_bind (TableRepo_UpdateStatusIfCurrent tx t TableStatusEmpty TableStatusOccupied)
                      (\<lambda>_. tx_return ())) s1 = Inr ((), s2)"
      and upd: "CheckRepo_UpdateTable tx k (Some t) (tbl_name target) CheckStatusOpen s2 = Inr (x, s3)"
      and out: "InsertOutbox tx tn ''check'' k ''check.transferred''
           [(''tenant_id'', JId tn), (''check_id'', JId k),
            (''branch_id'', JId (chk_branch cur)),
            (''from_table_id'', json_opt_id (chk_table cur)), (''to_table_id'', JId t),
            (''from_table'', JStr (chk_label cur)), (''to_table'', JStr (tbl_name target)),
            (''moved_by'', JId (prn_person p))] s3 = Inr ((), s4)"
      and ann: "announceLiveOrdersMoved tx tn k ''check_transferred'' s4 = Inr ((), s')"
      by (auto simp: transferTx_def tx_inv)
    have target: "rls_find tbl_tenant tx (\<lambda>u. tbl_id u = t) (db_tables s) = Some target" "tbl_id target = t"
      using lockTables_Inr [OF lock] m by (auto dest!: rls_find_Some)
    have s1: "s1 = s\<lparr>db_tables := rls_update tbl_tenant tx (\<lambda>u. tbl_id u = t \<and> tbl_status u = tbl_status target)
            (\<lambda>u. u\<lparr>tbl_status := TableStatusOccupied, tbl_updated := tx_now tx\<rparr>) (db_tables s)\<rparr>"
      using update_status_row [OF occ] target(2) by simp
    have s2: "s2 = s1\<lparr>db_tables := release_table tx (chk_table cur) TableStatusEmpty (db_tables s1)\<rparr>"
      using rel by (auto simp: release_table_def TableRepo_UpdateStatusIfCurrent_def tx_inv
          tables.update_Inr split: option.splits)
    have s3: "s3 = s2\<lparr>db_checks := rls_update chk_tenant tx (\<lambda>c. chk_id c = k \<and> chk_status c = CheckStatusOpen)
          (\<lambda>c. c\<lparr>chk_table := Some t, chk_label := tbl_name target, chk_updated := tx_now tx\<rparr>) (db_checks s2)\<rparr>"
      and x: "x = cur\<lparr>chk_table := Some t, chk_label := tbl_name target, chk_updated := tx_now tx\<rparr>"
      using upd first_open_row [OF cur(1,3)]
      by (auto simp: CheckRepo_UpdateTable_def tx_inv checks.update_Inr row_inv hd_map s2 s1)
    note s4 = emitted_fields [OF InsertOutbox_emits [OF out]]
    obtain os s5 where "OrderRepo_ListByCheck tx k s4 = Inr (os, s5)"
      and ann2: "announceOrderIDsMoved tx tn (map ord_id (filter (\<lambda>r. isKitchenActive (ord_status r)) os))
             k ''check_transferred'' s5 = Inr ((), s')"
      using ann by (auto simp: announceLiveOrdersMoved_def tx_bind_Inr)
    moreover have "tx_map (\<lambda>r. OrderRepo_withItems tx r) rs u = Inr (ys, v) \<Longrightarrow> v = u" for rs ys u v
      by (induction rs arbitrary: ys u) (auto simp: tx_inv OrderRepo_withItems_Inr)
    ultimately have "s5 = s4" by (auto simp: OrderRepo_ListByCheck_def tx_inv)
    with announce_emits [OF ann2] obtain evs where "emitted s4 evs s'" by blast
    note s5 = emitted_fields [OF this]
    show ?thesis
      using cur False guards target x
      by (intro exI [of _ cur]) (auto simp: s5 s4 s3 s2 s1)
  qed
qed

text \<open>C27: Moving a check to another table changes nothing of what any check owes, and no order. The
  check was open and of a branch the caller may act on; afterwards it is on the table
  asked for. When it was there already nothing changes. Otherwise that table was free or
  reserved and of the same branch and is occupied now, the check carries its name, the table it
  left, if it stood occupied, is free again, and no other check and no other table is
  touched.\<close>

theorem Transfer_moves:
  assumes run: "CheckService_Transfer c tn p k t s = Inr (x, s')"
  shows "chk_id x = k \<and> chk_table x = Some t \<and> chk_status x = CheckStatusOpen \<and>
     may_act c p (chk_branch x) \<and> x \<in> set (db_checks s') \<and>
     (\<forall>i. check_total (pos_tx c tn) s' i = check_total (pos_tx c tn) s i) \<and>
     db_orders s' = db_orders s \<and> db_items s' = db_items s \<and>
     (\<exists>cur \<in> set (db_checks s). chk_id cur = k \<and>
        (if chk_table cur = Some t then s' = s
         else (\<exists>u \<in> set (db_tables s). tbl_id u = t \<and> tbl_tenant u = tn \<and> tbl_branch u = chk_branch x \<and>
                 tbl_status u \<in> {TableStatusEmpty, TableStatusReserved} \<and>
                 x = cur\<lparr>chk_table := Some t, chk_label := tbl_name u, chk_updated := ctx_now c\<rparr> \<and>
                 u\<lparr>tbl_status := TableStatusOccupied, tbl_updated := ctx_now c\<rparr> \<in> set (db_tables s') \<and>
                 db_tables s' = map (\<lambda>v.
                   if tbl_tenant v = tn \<and> tbl_id v = t \<and> tbl_status v = tbl_status u
                   then v\<lparr>tbl_status := TableStatusOccupied, tbl_updated := ctx_now c\<rparr>
                   else if tbl_tenant v = tn \<and> chk_table cur = Some (tbl_id v) \<and> tbl_status v = TableStatusOccupied
                   then v\<lparr>tbl_status := TableStatusEmpty, tbl_updated := ctx_now c\<rparr>
                   else v) (db_tables s)) \<and>
              filter (\<lambda>e. chk_id e \<noteq> k \<or> chk_tenant e \<noteq> tn) (db_checks s') =
              filter (\<lambda>e. chk_id e \<noteq> k \<or> chk_tenant e \<noteq> tn) (db_checks s)))"
proof -
  let ?tx = "pos_tx c tn"
  from run have "transferTx c p tn k t ?tx s = Inr (x, s')" by (auto simp: CheckService_Transfer_def)
  from transferTx_Inr [OF this] obtain cur where
      cur: "rls_find chk_tenant ?tx (\<lambda>c. chk_id c = k) (db_checks s) = Some cur"
        "may_act c p (chk_branch cur)" "chk_status cur = CheckStatusOpen"
    and eff: "if chk_table cur = Some t then x = cur \<and> s' = s
      else \<exists>target. rls_find tbl_tenant ?tx (\<lambda>u. tbl_id u = t) (db_tables s) = Some target \<and>
        tbl_branch target = chk_branch cur \<and> staffTableGuard target = Inr () \<and>
        x = cur\<lparr>chk_table := Some t, chk_label := tbl_name target, chk_updated := ctx_now c\<rparr> \<and>
        db_checks s' = rls_update chk_tenant ?tx (\<lambda>c. chk_id c = k \<and> chk_status c = CheckStatusOpen)
          (\<lambda>c'. c'\<lparr>chk_table := Some t, chk_label := tbl_name target, chk_updated := ctx_now c\<rparr>)
          (db_checks s) \<and>
        db_tables s' = release_table ?tx (chk_table cur) TableStatusEmpty
          (rls_update tbl_tenant ?tx (\<lambda>u. tbl_id u = t \<and> tbl_status u = tbl_status target)
            (\<lambda>u. u\<lparr>tbl_status := TableStatusOccupied, tbl_updated := ctx_now c\<rparr>) (db_tables s)) \<and>
        db_orders s' = db_orders s \<and> db_items s' = db_items s"
    by (simp only: pos_tx_simps) (elim exE conjE, rule that, assumption+)
  have row: "cur \<in> set (db_checks s)" "chk_id cur = k" "chk_tenant cur = tn"
    using rls_find_Some [OF cur(1)] by simp_all
  show ?thesis
  proof (cases "chk_table cur = Some t")
    case True
    with eff cur row show ?thesis by auto
  next
    case False
    with eff obtain u where
        u: "rls_find tbl_tenant ?tx (\<lambda>u. tbl_id u = t) (db_tables s) = Some u"
          "tbl_branch u = chk_branch cur" "staffTableGuard u = Inr ()"
      and x: "x = cur\<lparr>chk_table := Some t, chk_label := tbl_name u, chk_updated := ctx_now c\<rparr>"
      and s': "db_checks s' = rls_update chk_tenant ?tx (\<lambda>c. chk_id c = k \<and> chk_status c = CheckStatusOpen)
          (\<lambda>c'. c'\<lparr>chk_table := Some t, chk_label := tbl_name u, chk_updated := ctx_now c\<rparr>)
          (db_checks s)"
        "db_tables s' = release_table ?tx (chk_table cur) TableStatusEmpty
          (rls_update tbl_tenant ?tx (\<lambda>v. tbl_id v = t \<and> tbl_status v = tbl_status u)
            (\<lambda>u. u\<lparr>tbl_status := TableStatusOccupied, tbl_updated := ctx_now c\<rparr>) (db_tables s))"
        "db_orders s' = db_orders s" "db_items s' = db_items s"
      by auto
    have urow: "u \<in> set (db_tables s)" "tbl_tenant u = tn" "tbl_id u = t"
      using rls_find_Some [OF u(1)] by simp_all
    have free: "tbl_status u \<in> {TableStatusEmpty, TableStatusReserved}"
      using u(3) by (auto simp: staffTableGuard_def split: if_splits)
    let ?occ = "u\<lparr>tbl_status := TableStatusOccupied, tbl_updated := ctx_now c\<rparr>"
    have occ: "?occ \<in> set (rls_update tbl_tenant ?tx (\<lambda>v. tbl_id v = t \<and> tbl_status v = tbl_status u)
            (\<lambda>u. u\<lparr>tbl_status := TableStatusOccupied, tbl_updated := ctx_now c\<rparr>) (db_tables s))"
      using urow by (auto simp: in_rls_update intro!: bexI [of _ u])
    have at: "?occ \<in> set (db_tables s')"
      using release_table_other [OF occ] False urow by (simp add: s'(2))
    have tables: "db_tables s' = map (\<lambda>v.
        if tbl_tenant v = tn \<and> tbl_id v = t \<and> tbl_status v = tbl_status u
        then v\<lparr>tbl_status := TableStatusOccupied, tbl_updated := ctx_now c\<rparr>
        else if tbl_tenant v = tn \<and> chk_table cur = Some (tbl_id v) \<and> tbl_status v = TableStatusOccupied
        then v\<lparr>tbl_status := TableStatusEmpty, tbl_updated := ctx_now c\<rparr> else v) (db_tables s)"
      using False by (auto simp: s'(2) release_table_map rls_update_def update_rows_def)
    have others: "filter (\<lambda>e. chk_id e \<noteq> k \<or> chk_tenant e \<noteq> tn) (db_checks s') =
        filter (\<lambda>e. chk_id e \<noteq> k \<or> chk_tenant e \<noteq> tn) (db_checks s)"
      unfolding s'(1) rls_update_def by (rule filter_update_rows_other) auto
    have mem: "x \<in> set (db_checks s')"
      using cur row by (auto simp: s'(1) x in_rls_update intro!: bexI [of _ cur])
    have total: "check_total ?tx s' i = check_total ?tx s i" for i
      by (rule check_total_cong) (simp_all add: s')
    have same: "chk_branch x = chk_branch cur" "chk_id x = k" "chk_table x = Some t" "chk_status x = CheckStatusOpen"
      using row cur(3) by (simp_all add: x)
    show ?thesis
      unfolding same using False cur(2) row(1,2) mem total s'(3,4) others
      by (intro conjI bexI [OF _ row(1)]) (simp_all, intro bexI [OF _ urow(1)] conjI urow u(2) free [simplified] x at tables)
  qed
qed

lemma demo_transfer_ok: "tx_ok (CheckService_Transfer demo_ctx 1 demo_principal 100 30) demo_db"
  by code_simp

theorem Transfer_moves_witness:
  "\<exists>x s'. CheckService_Transfer demo_ctx 1 demo_principal 100 30 demo_db = Inr (x, s') \<and>
     chk_table x = Some 30 \<and> check_total (pos_tx demo_ctx 1) s' 100 = 1700"
proof -
  obtain x s' where run: "CheckService_Transfer demo_ctx 1 demo_principal 100 30 demo_db = Inr (x, s')"
    by (rule tx_okE [OF demo_transfer_ok])
  have "check_total (pos_tx demo_ctx 1) demo_db 100 = 1700" by code_simp
  with Transfer_moves [OF run] run show ?thesis by auto
qed

end
