(* ===== verification/Pos_Order_Facts.thy ===== *)
theory Pos_Order_Facts
  imports Pos_Check_Facts
begin

text \<open>
  What placing an order does to the database when it succeeds: one order row, one
  row per line, possibly a raised guest count, and the events; and what the
  pricing step accepts.
\<close>

section \<open>The rows of a new order\<close>

lemma insertItems_Inr:
  assumes "OrderRepo_insertItems tx i tn items s = Inr (its, s')"
  shows "\<exists>n. s' = s\<lparr>db_ctr := n, db_items := db_items s @ its\<rparr> \<and>
             list_all2 (\<lambda>it row. \<exists>j. row = item_insert_row tx j tn i it) items its \<and>
             (\<forall>row \<in> set its. itm_id row \<notin> itm_id ` set (db_items s) \<and> item_row_ok row)"
  using assms
proof (induction items arbitrary: s its)
  case Nil
  then show ?case by (auto simp: OrderRepo_insertItems_def intro: exI [of _ "db_ctr s"])
next
  case (Cons it items)
  let ?row = "item_insert_row tx (db_rand s (db_ctr s)) tn i it"
  let ?t = "s\<lparr>db_ctr := Suc (db_ctr s), db_items := db_items s @ [?row]\<rparr>"
  from Cons.prems obtain rest where its: "its = ?row # rest"
    and row: "itm_id ?row \<notin> itm_id ` set (db_items s)" "item_row_ok ?row"
    and rest: "OrderRepo_insertItems tx i tn items ?t = Inr (rest, s')"
    by (auto simp: OrderRepo_insertItems_def tx_inv gen_random_uuid_Inr items.insert_Inr
        simp del: sql_insert_def)
  from Cons.IH [OF rest] obtain n where "s' = ?t\<lparr>db_ctr := n, db_items := db_items ?t @ rest\<rparr>"
    "list_all2 (\<lambda>it row. \<exists>j. row = item_insert_row tx j tn i it) items rest"
    "\<forall>row \<in> set rest. itm_id row \<notin> itm_id ` set (db_items ?t) \<and> item_row_ok row"
    by blast
  with its row show ?case by (intro exI [of _ n]) auto
qed

lemma OrderRepo_Create_Inr:
  assumes "OrderRepo_Create tx r s = Inr (r', s')"
  shows "\<exists>i n its. r' = (order_insert_row tx i r)\<lparr>ord_items := its\<rparr> \<and>
     i \<notin> ord_id ` set (db_orders s) \<and> ord_tenant r = tx_tenant tx \<and>
     order_refs_ok s (order_insert_row tx i r) \<and>
     s' = s\<lparr>db_ctr := n, db_orders := db_orders s @ [order_insert_row tx i r],
            db_items := db_items s @ its\<rparr> \<and>
     list_all2 (\<lambda>it row. \<exists>j. row = item_insert_row tx j (ord_tenant r) i it) (ord_items r) its"
proof -
  let ?row = "order_insert_row tx (db_rand s (db_ctr s)) r"
  let ?t = "s\<lparr>db_ctr := Suc (db_ctr s), db_orders := db_orders s @ [?row]\<rparr>"
  have fields: "ord_id ?row = db_rand s (db_ctr s)" "ord_tenant ?row = ord_tenant r"
    by (simp_all add: order_insert_row_def)
  from assms obtain its where r': "r' = ?row\<lparr>ord_items := its\<rparr>"
    and ins: "db_rand s (db_ctr s) \<notin> ord_id ` set (db_orders s)" "ord_tenant r = tx_tenant tx"
      "order_refs_ok (s\<lparr>db_ctr := Suc (db_ctr s)\<rparr>) ?row"
    and its: "OrderRepo_insertItems tx (db_rand s (db_ctr s)) (ord_tenant r) (ord_items r) ?t = Inr (its, s')"
    by (auto simp: OrderRepo_Create_def tx_inv gen_random_uuid_Inr orders.insert_Inr fields)
  have "order_refs_ok s ?row" using ins(3) by (simp add: order_refs_ok_def split: option.splits)
  moreover from insertItems_Inr [OF its] obtain n where
      "s' = ?t\<lparr>db_ctr := n, db_items := db_items ?t @ its\<rparr>"
      "list_all2 (\<lambda>it row. \<exists>j. row = item_insert_row tx j (ord_tenant r) (db_rand s (db_ctr s)) it)
         (ord_items r) its"
    by blast
  ultimately show ?thesis
    using ins r' by (intro exI [of _ "db_rand s (db_ctr s)"] exI [of _ n] exI [of _ its]) simp
qed

section \<open>Pricing\<close>

text \<open>What the counter's repricing hands on: the lines as the client sent them, the
  prices it sent being those of the pricer, and the name, base price, cost, currency
  and tax rate the pricer's.\<close>

definition line_repriced :: "order_item \<Rightarrow> priced_line \<Rightarrow> order_item \<Rightarrow> bool" where
  "line_repriced it pl it' \<longleftrightarrow>
     itm_unit_price it = prl_unit pl \<and>
     it' = it\<lparr>itm_name := prl_name pl, itm_price := prl_base pl, itm_unit_cost := prl_cost pl,
             itm_currency := prl_currency pl, itm_tax_bps := prl_tax_bps pl\<rparr>"

lemma reprice_loop_Inr:
  assumes "length pls = length items"
  shows "reprice_loop items pls = Inr its \<longleftrightarrow>
     length its = length items \<and> (\<forall>i < length items. line_repriced (items ! i) (pls ! i) (its ! i))"
  using assms
proof (induction items arbitrary: pls its)
  case (Cons it items)
  then obtain pl rest where pls: "pls = pl # rest" "length rest = length items"
    by (cases pls) auto
  show ?case
  proof (cases its)
    case Nil
    then show ?thesis by (auto simp: pls split: sum.splits)
  next
    case (Cons it' its')
    have "reprice_loop (it # items) pls = Inr its \<longleftrightarrow>
        line_repriced it pl it' \<and> reprice_loop items rest = Inr its'"
      using Cons by (auto simp: pls line_repriced_def split: sum.splits)
    with Cons Cons.IH [OF pls(2), of its'] pls show ?thesis
      by (auto simp: nth_Cons less_Suc_eq_0_disj split: nat.splits)
  qed
qed auto

context staff_pricer
begin

text \<open>The pricer's contract makes the guard on the number of lines dead code: the
  only failures are the pricer's own and a price the client got wrong.\<close>

lemma repriceItems_Inl:
  assumes "repriceItems price tn b items = Inl e"
  shows "(\<exists>pe. price tn b (map cart_line items) = Inl pe \<and>
            e = (if is_ValidationError pe then ErrInvalidOrderLine else ErrOther ''price order lines'')) \<or>
         (\<exists>pls. price tn b (map cart_line items) = Inr pls \<and> e = ErrPriceMismatch \<and>
            (\<exists>i < length items. itm_unit_price (items ! i) \<noteq> prl_unit (pls ! i)))"
proof (cases "price tn b (map cart_line items)")
  case (Inl pe)
  with assms show ?thesis by (auto simp: repriceItems_def split: if_splits)
next
  case (Inr pls)
  then have len: "length pls = length items" using same_length [OF Inr] by simp
  have loop: "reprice_loop xs ys = Inl e' \<Longrightarrow> length ys = length xs \<Longrightarrow> e' = ErrPriceMismatch \<and>
      (\<exists>i < length xs. itm_unit_price (xs ! i) \<noteq> prl_unit (ys ! i))" for xs ys e'
    by (induction xs ys arbitrary: e' rule: reprice_loop.induct)
       (auto split: if_splits sum.splits intro: exI [of _ "Suc _"])
  show ?thesis using assms Inr len loop [of items pls e] by (auto simp: repriceItems_def split: if_splits)
qed

lemma repriceItems_Inr:
  assumes "repriceItems price tn b items = Inr its" and "items \<noteq> []"
  shows "\<exists>pls. price tn b (map cart_line items) = Inr pls \<and> length its = length items \<and>
     length pls = length items \<and>
     (\<forall>i < length items. line_repriced (items ! i) (pls ! i) (its ! i) \<and> 0 \<le> itm_unit_price (its ! i))"
proof -
  from assms obtain pls where pls: "price tn b (map cart_line items) = Inr pls"
    and loop: "reprice_loop items pls = Inr its"
    by (auto simp: repriceItems_def split: sum.splits if_splits)
  have len: "length pls = length items" using same_length [OF pls] by simp
  have "\<forall>i < length items. 0 \<le> prl_unit (pls ! i)"
    using one_per_line [OF pls] by (auto simp: list_all2_conv_all_nth)
  with pls loop len show ?thesis
    by (auto simp: reprice_loop_Inr line_repriced_def)
qed

end

section \<open>The transaction\<close>

definition birth_status :: "order_flow \<Rightarrow> order_status" where
  "birth_status flow = (if flow = OrderFlowSimple then OrderStatusAccepted else OrderStatusPending)"

lemma applyBirthStatus_Inr:
  "applyBirthStatus tx r by s = Inr (r', s') \<Longrightarrow>
   s' = s \<and> ord_status r' = birth_status (branch_flow tx s (ord_branch r)) \<and>
   ord_tenant r' = ord_tenant r \<and> ord_branch r' = ord_branch r \<and> ord_check r' = ord_check r \<and>
   ord_channel r' = ord_channel r \<and> ord_source r' = ord_source r \<and> ord_items r' = ord_items r \<and>
   (ord_status r' = OrderStatusAccepted \<longrightarrow> ord_accepted_by r' = by)"
  by (auto simp: applyBirthStatus_def tx_inv birth_status_def)

lemma lockWritableCheck_Inr:
  "lockWritableCheck tx k b s = Inr (r, s') \<Longrightarrow>
   s' = s \<and>
   (case r of
      None \<Rightarrow> k = None \<or> k = Some uuid_Nil
    | Some c \<Rightarrow> k = Some (chk_id c) \<and> chk_id c \<noteq> uuid_Nil \<and> (b = uuid_Nil \<or> chk_branch c = b) \<and>
        chk_status c = CheckStatusOpen \<and>
        rls_find chk_tenant tx (\<lambda>c'. chk_id c' = chk_id c) (db_checks s) = Some c)"
  by (auto simp: lockWritableCheck_def tx_inv CheckRepo_GetForUpdate_Inr dest: rls_find_Some
      split: option.splits if_splits)

text \<open>The guest count after an order was added: the largest seat number, when it is a
  dine-in check and more than were counted.\<close>

definition raised :: "pgtx \<Rightarrow> check option \<Rightarrow> order_item list \<Rightarrow> check list \<Rightarrow> check list" where
  "raised tx k items cs =
     (case k of
        Some c \<Rightarrow>
          if chk_service c = ServiceTypeDineIn \<and> MaxItemSeatNo items \<noteq> 0 \<and>
             chk_pax c < MaxItemSeatNo items
          then rls_update chk_tenant tx (\<lambda>c'. chk_id c' = chk_id c)
                 (\<lambda>c'. c'\<lparr>chk_pax := max (chk_pax c') (MaxItemSeatNo items), chk_updated := tx_now tx\<rparr>) cs
          else cs
      | None \<Rightarrow> cs)"

lemma derivePax_Inr:
  assumes "derivePax tx k items s = Inr (u, s')"
  shows "s' = s\<lparr>db_checks := raised tx k items (db_checks s)\<rparr>"
  using assms
  by (auto simp: derivePax_def raised_def CheckRepo_RaisePax_def Let_def tx_inv checks.update_Inr
      split: option.splits if_splits)

lemma insertBornAccepted_Inr:
  "insertBornAcceptedEvent tx r s = Inr (u, s') \<Longrightarrow>
   emitted s (if ord_status r = OrderStatusAccepted
              then [(ord_tenant r, ''order'', ord_id r, ''order.accepted'',
                [(''tenant_id'', JId (ord_tenant r)), (''order_id'', JId (ord_id r)),
                 (''accepted_by'', json_opt_id (ord_accepted_by r))])]
              else []) s'"
  by (auto simp: insertBornAcceptedEvent_def emitted_Nil dest: InsertOutbox_emits split: if_splits)

text \<open>Events change no row.\<close>

lemma events_since_new: "db_outbox s' = db_outbox s @ new \<Longrightarrow> events_since s s' = map event_of new"
  by (simp add: events_since_def)

text \<open>Whom an event is about, and its type.\<close>

definition event_kind :: "event \<Rightarrow> uuid \<times> string" where
  "event_kind e = (fst (snd (snd e)), fst (snd (snd (snd e))))"

lemma placeTx_Inr:
  assumes run: "placeTx p tn r tx s = Inr (created, s')"
  shows "\<exists>k i its new.
     lockWritableCheck tx (ord_check r) (ord_branch r) s = Inr (k, s) \<and>
     ord_id created = i \<and> ord_items created = its \<and> ord_tenant r = tx_tenant tx \<and>
     ord_tenant created = ord_tenant r \<and> ord_branch created = ord_branch r \<and>
     ord_check created = ord_check r \<and> ord_channel created = ord_channel r \<and>
     ord_status created = birth_status (branch_flow tx s (ord_branch r)) \<and>
     i \<notin> ord_id ` set (db_orders s) \<and>
     list_all2 (\<lambda>it row. \<exists>j. row = item_insert_row tx j (ord_tenant r) i it) (ord_items r) its \<and>
     db_orders s' = db_orders s @ [created\<lparr>ord_items := []\<rparr>] \<and> db_items s' = db_items s @ its \<and>
     db_checks s' = raised tx k its (db_checks s) \<and> db_tables s' = db_tables s \<and>
     db_outbox s' = db_outbox s @ new \<and>
     map event_kind (map event_of new) =
       (i, ''order.placed'') #
       (if ord_status created = OrderStatusAccepted then [(i, ''order.accepted'')] else [])"
proof -
  from run obtain r1 s1 k s2 s3 s4 s5 where
      born: "applyBirthStatus tx r (Some (prn_person p)) s = Inr (r1, s1)"
    and lock: "lockWritableCheck tx (ord_check r1) (ord_branch r1) s1 = Inr (k, s2)"
    and create: "OrderRepo_Create tx r1 s2 = Inr (created, s3)"
    and seat: "derivePax tx k (ord_items created) s3 = Inr ((), s4)"
    and out: "InsertOutbox tx tn ''order'' (ord_id created) ''order.placed''
       [(''tenant_id'', JId tn), (''order_id'', JId (ord_id created)),
        (''branch_id'', JId (ord_branch created)), (''check_id'', json_opt_id (ord_check created)),
        (''order_channel'', JStr (order_channel_string (ord_channel created))),
        (''item_count'', JInt (int (length (ord_items created))))] s4 = Inr ((), s5)"
    and acc: "insertBornAcceptedEvent tx created s5 = Inr ((), s')"
    by (auto simp: placeTx_def tx_inv)
  note b = applyBirthStatus_Inr [OF born]
  note l = lockWritableCheck_Inr [OF lock]
  have s12: "s1 = s" "s2 = s" using b l by simp_all
  from OrderRepo_Create_Inr [OF create] obtain i n its where
      c: "created = (order_insert_row tx i r1)\<lparr>ord_items := its\<rparr>" "i \<notin> ord_id ` set (db_orders s)"
        "ord_tenant r1 = tx_tenant tx"
    and s3: "s3 = s\<lparr>db_ctr := n, db_orders := db_orders s @ [order_insert_row tx i r1],
            db_items := db_items s @ its\<rparr>"
    and its: "list_all2 (\<lambda>it row. \<exists>j. row = item_insert_row tx j (ord_tenant r1) i it) (ord_items r1) its"
    unfolding s12 by blast
  have row: "created\<lparr>ord_items := []\<rparr> = order_insert_row tx i r1" by (simp add: c order_insert_row_def)
  have fields: "ord_id created = i" "ord_items created = its" "ord_tenant created = ord_tenant r"
      "ord_branch created = ord_branch r" "ord_check created = ord_check r"
      "ord_channel created = ord_channel r"
      "ord_status created = birth_status (branch_flow tx s (ord_branch r))"
    using b by (simp_all add: c order_insert_row_def)
  from derivePax_Inr [OF seat] have s4: "s4 = s3\<lparr>db_checks := raised tx k its (db_checks s)\<rparr>"
    by (simp add: fields s3)
  obtain e1 where "emitted s4 [e1] s5" "fst (snd (snd e1)) = i" "fst (snd (snd (snd e1))) = ''order.placed''"
    using InsertOutbox_emits [OF out] by (auto simp: fields)
  then have kind: "event_kind e1 = (i, ''order.placed'')" by (simp add: event_kind_def)
  note em = emitted_trans [OF \<open>emitted s4 [e1] s5\<close> insertBornAccepted_Inr [OF acc]]
  note f = emitted_fields [OF em]
  from f(7) obtain new where new: "db_outbox s' = db_outbox s @ new" and evs: "map event_of new = [e1] @
      (if ord_status created = OrderStatusAccepted
       then [(ord_tenant created, ''order'', ord_id created, ''order.accepted'',
         [(''tenant_id'', JId (ord_tenant created)), (''order_id'', JId (ord_id created)),
          (''accepted_by'', json_opt_id (ord_accepted_by created))])] else [])"
    by (auto simp: s4 s3)
  have kinds: "map event_kind (map event_of new) = (i, ''order.placed'') #
       (if ord_status created = OrderStatusAccepted then [(i, ''order.accepted'')] else [])"
    unfolding evs using kind by (simp add: event_kind_def fields(1))
  show ?thesis
    using lock b c(2,3) its fields row new kinds
    by (intro exI [of _ k] exI [of _ i] exI [of _ its] exI [of _ new])
       (simp add: s12 f(1-4) s4 s3)
qed

end
