(* ===== verification/Pos_Order_Props.thy ===== *)
theory Pos_Order_Props
  imports Pos_Order_Facts Pos_Demo
begin

text \<open>
  Orders: what placing one at the counter stores and bills, and how one moves
  through the kitchen.
\<close>

section \<open>Placing at the counter\<close>

text \<open>The steps before the transaction.\<close>

lemma Place_steps:
  assumes "OrderService_Place price c tn p r s = Inr (created, s')"
  shows "may_act c p (ord_branch r) \<and> OrderChannel_Valid (ord_channel r) \<and>
     (\<forall>it \<in> set (ord_items r). ValidSeatNo (itm_seat it)) \<and> tn \<noteq> uuid_Nil \<and>
     (\<exists>its. repriceItems price tn (ord_branch r) (ord_items r) = Inr its \<and>
        placeTx p tn (r\<lparr>ord_items := its, ord_tenant := tn\<rparr>) (pos_tx c tn) s = Inr (created, s'))"
  using assms by (auto simp: OrderService_Place_def tx_inv Let_def)

text \<open>The price of a line, as the catalog has it: the product's price at the branch,
  plus the deltas of the modifiers chosen, which keep the rules of their groups.\<close>

definition catalog_line ::
  "pgtx \<Rightarrow> catalog_db \<Rightarrow> uuid \<Rightarrow> order_item list \<Rightarrow> order_item \<Rightarrow> order_item \<Rightarrow> bool" where
  "catalog_line tx cat branchID items it row \<longleftrightarrow>
     (let byPair = cart_modifiers tx cat (map cart_line items)
      in selection_ok byPair (itm_product it) (itm_modifiers it) \<and>
         (\<exists>pp. PriceCatalogProducts tx cat branchID (map itm_product items) (itm_product it) = Some pp \<and>
            itm_unit_price row = wrap64 (ppr_price pp + line_delta byPair (itm_product it) (itm_modifiers it)) \<and>
            itm_name row = ppr_name pp \<and> itm_price row = ppr_price pp \<and>
            itm_tax_bps row = ppr_tax_bps pp \<and> itm_unit_cost row = ppr_cost pp))"

text \<open>Of the line the client sent, everything that is not the catalog's.\<close>

definition client_line :: "order_item \<Rightarrow> order_item \<Rightarrow> bool" where
  "client_line it row \<longleftrightarrow>
     itm_product row = itm_product it \<and> itm_qty row = itm_qty it \<and>
     itm_unit_price row = itm_unit_price it \<and> itm_note row = itm_note it \<and>
     itm_modifiers row = itm_modifiers it \<and> itm_seat row = itm_seat it"

lemma placed_line:
  assumes cat: "catalog_ok cat"
    and price: "repriceItems (PriceStaffCart cat c) tn b items = Inr its"
    and rows: "list_all2 (\<lambda>it row. \<exists>j. row = item_insert_row tx j tn i it) its out"
    and n: "n < length items"
  shows "length out = length items \<and> client_line (items ! n) (out ! n) \<and> 1 \<le> itm_qty (out ! n) \<and>
     itm_order (out ! n) = i \<and> itm_tenant (out ! n) = tn \<and> 0 \<le> itm_unit_price (out ! n) \<and>
     catalog_line (pos_tx c tn) cat b items (items ! n) (out ! n)"
proof -
  let ?tx = "pos_tx c tn" and ?ls = "map cart_line items"
  from n have "items \<noteq> []" by auto
  from catalog.repriceItems_Inr [OF price this] obtain pls where
      pls: "PriceStaffCart cat c tn b ?ls = Inr pls" "length its = length items" "length pls = length items"
    and line: "line_repriced (items ! n) (pls ! n) (its ! n)" "0 \<le> itm_unit_price (its ! n)"
    using n by blast
  have comp: "scl_product \<circ> cart_line = itm_product" by (simp add: fun_eq_iff cart_line_def)
  have "tn \<noteq> uuid_Nil \<and> (\<forall>l \<in> set ?ls. 1 \<le> scl_qty l) \<and>
      list_all2 (line_priced (PriceCatalogProducts ?tx cat b (map itm_product items))
        (cart_modifiers ?tx cat ?ls)) ?ls pls"
    using pls(1) priceLines_Inr [of cat "\<lambda>tx db ids. PriceCatalogProducts tx db b ids" ?ls c tn pls]
      cat PriceCatalogProducts_range [OF cat]
    by (simp add: PriceStaffCart_def Let_def catalog_ok_def comp pos_tx_def)
  then have lp: "line_priced (PriceCatalogProducts ?tx cat b (map itm_product items))
        (cart_modifiers ?tx cat ?ls) (cart_line (items ! n)) (pls ! n)" "1 \<le> itm_qty (items ! n)"
    using n by (auto simp: list_all2_conv_all_nth cart_line_def)
  from rows n pls obtain j where row: "out ! n = item_insert_row tx j tn i (its ! n)"
    by (auto simp: list_all2_conv_all_nth)
  have len: "length out = length items" using rows pls by (simp add: list_all2_lengthD [symmetric])
  have "catalog_line ?tx cat b items (items ! n) (out ! n)"
    using lp line
    by (auto simp: catalog_line_def row line_priced_def line_repriced_def item_insert_row_def
        finished_line_def start_line_def cart_line_def Let_def)
  then show ?thesis
    using len line lp(2) by (simp add: row client_line_def line_repriced_def item_insert_row_def)
qed

text \<open>C24: an order placed at the counter is one new order row of the caller's tenant
  and of the branch named, which the caller may act on, born accepted in the simple
  flow and pending in the full one, with one line per line sent, in that order. Each
  line costs what the catalog says the product with its modifiers costs at that
  branch, and its name, tax rate and cost are the catalog's, whatever the client
  sent; a modifier selection outside the rules of its group is not accepted.\<close>

theorem Place_prices:
  assumes cat: "catalog_ok cat"
    and run: "OrderService_Place (PriceStaffCart cat c) c tn p r s = Inr (created, s')"
  shows "may_act c p (ord_branch r) \<and> ord_tenant created = tn \<and>
     ord_branch created = ord_branch r \<and> ord_check created = ord_check r \<and>
     ord_status created = birth_status (branch_flow (pos_tx c tn) s (ord_branch r)) \<and>
     ord_id created \<notin> ord_id ` set (db_orders s) \<and>
     db_orders s' = db_orders s @ [created\<lparr>ord_items := []\<rparr>] \<and>
     db_items s' = db_items s @ ord_items created \<and>
     length (ord_items created) = length (ord_items r) \<and>
     (\<forall>n < length (ord_items r).
        let it = ord_items r ! n; row = ord_items created ! n
        in client_line it row \<and> ValidSeatNo (itm_seat row) \<and> 1 \<le> itm_qty row \<and>
           itm_order row = ord_id created \<and> itm_tenant row = tn \<and> 0 \<le> itm_unit_price row \<and>
           catalog_line (pos_tx c tn) cat (ord_branch r) (ord_items r) it row)"
proof -
  from Place_steps [OF run] obtain its where pre: "may_act c p (ord_branch r)"
      "\<forall>it \<in> set (ord_items r). ValidSeatNo (itm_seat it)"
    and price: "repriceItems (PriceStaffCart cat c) tn (ord_branch r) (ord_items r) = Inr its"
    and tx: "placeTx p tn (r\<lparr>ord_items := its, ord_tenant := tn\<rparr>) (pos_tx c tn) s = Inr (created, s')"
    by blast
  from placeTx_Inr [OF tx] obtain out where
      rows: "list_all2 (\<lambda>it row. \<exists>j. row = item_insert_row (pos_tx c tn) j tn (ord_id created) it) its out"
    and res: "ord_items created = out" "ord_tenant created = tn" "ord_branch created = ord_branch r"
      "ord_check created = ord_check r"
      "ord_status created = birth_status (branch_flow (pos_tx c tn) s (ord_branch r))"
      "ord_id created \<notin> ord_id ` set (db_orders s)"
      "db_orders s' = db_orders s @ [created\<lparr>ord_items := []\<rparr>]" "db_items s' = db_items s @ out"
    by auto
  note line = placed_line [OF cat price rows]
  have len: "length out = length (ord_items r)"
  proof (cases "ord_items r")
    case Nil
    with price rows show ?thesis by (simp add: repriceItems_def)
  next
    case Cons
    then show ?thesis using line [of 0] by simp
  qed
  have "\<forall>n < length (ord_items r).
        let it = ord_items r ! n; row = ord_items created ! n
        in client_line it row \<and> ValidSeatNo (itm_seat row) \<and> 1 \<le> itm_qty row \<and>
           itm_order row = ord_id created \<and> itm_tenant row = tn \<and> 0 \<le> itm_unit_price row \<and>
           catalog_line (pos_tx c tn) cat (ord_branch r) (ord_items r) it row"
  proof (intro allI impI)
    fix n assume n: "n < length (ord_items r)"
    show "let it = ord_items r ! n; row = ord_items created ! n
        in client_line it row \<and> ValidSeatNo (itm_seat row) \<and> 1 \<le> itm_qty row \<and>
           itm_order row = ord_id created \<and> itm_tenant row = tn \<and> 0 \<le> itm_unit_price row \<and>
           catalog_line (pos_tx c tn) cat (ord_branch r) (ord_items r) it row"
      using line [OF n] pre(2) n by (simp add: res(1) Let_def client_line_def)
  qed
  then show ?thesis using pre res len by simp
qed

text \<open>A catalog with one product, and a cart of two lines, the first with a modifier.\<close>

definition demo_catalog :: catalog_db where
  "demo_catalog =
     \<lparr>cat_products = [\<lparr>prd_id = 40, prd_tenant = 1, prd_name = ''Ayran'', prd_price = 500,
        prd_cost = Some 200, prd_currency = ''TRY'', prd_tax_bps = 1000, prd_active = True\<rparr>],
      cat_overrides = [],
      cat_groups = [\<lparr>mgr_id = 50, mgr_tenant = 1, mgr_name = ''Boy'', mgr_selection = ''single'',
        mgr_max = None\<rparr>],
      cat_modifiers = [\<lparr>mod_id = 51, mod_tenant = 1, mod_group = 50, mod_name = ''Buyuk'',
        mod_delta = 200, mod_active = True\<rparr>],
      cat_links = [\<lparr>pmg_product = 40, pmg_group = 50, pmg_tenant = 1\<rparr>],
      cat_menus = [], cat_items = [], cat_channels = []\<rparr>"

definition demo_cart :: order where
  "demo_cart = zero_order\<lparr>ord_branch := 10, ord_check := Some 101, ord_channel := OrderChannelDineIn,
     ord_items := [(demo_item 0 0 2 700)\<lparr>itm_modifiers := [51], itm_seat := 4\<rparr>, demo_item 0 0 1 500]\<rparr>"

lemma demo_place_ok:
  "tx_ok (OrderService_Place (PriceStaffCart demo_catalog demo_ctx) demo_ctx 1 demo_principal demo_cart) demo_db"
  by code_simp

theorem Place_prices_witness:
  "\<exists>r s'. OrderService_Place (PriceStaffCart demo_catalog demo_ctx) demo_ctx 1 demo_principal demo_cart
            demo_db = Inr (r, s') \<and>
     ord_status r = OrderStatusAccepted \<and> length (ord_items r) = 2 \<and>
     itm_unit_price (ord_items r ! 0) = 700"
proof -
  obtain r s' where run: "OrderService_Place (PriceStaffCart demo_catalog demo_ctx) demo_ctx 1
      demo_principal demo_cart demo_db = Inr (r, s')"
    by (rule tx_okE [OF demo_place_ok])
  have "catalog_ok demo_catalog" by (simp add: catalog_ok_def demo_catalog_def int64_range_def)
  note P = Place_prices [OF this run]
  have cart: "length (ord_items demo_cart) = 2" "itm_unit_price (ord_items demo_cart ! 0) = 700"
      "ord_branch demo_cart = 10" "branch_flow (pos_tx demo_ctx 1) demo_db 10 = OrderFlowSimple"
    by code_simp+
  with P have "client_line (ord_items demo_cart ! 0) (ord_items r ! 0)" by (simp add: Let_def)
  then have "itm_unit_price (ord_items r ! 0) = 700" using cart by (simp add: client_line_def)
  with P run cart show ?thesis by (auto simp: birth_status_def)
qed

section \<open>What the check owes after an order\<close>

lemma line_sum_append: "line_sum tn (xs @ ys) on = line_sum tn xs on + line_sum tn ys on"
  by (simp add: line_sum_def)

lemma billed_on_append:
  "i \<notin> ord_id ` set os \<Longrightarrow> ord_id r = i \<Longrightarrow>
   billed_on tn (os @ [r]) k oid \<longleftrightarrow>
   (if oid = i then ord_tenant r = tn \<and> ord_check r = Some k \<and> ord_status r \<notin> set InactiveOrderStatuses
    else billed_on tn os k oid)"
  by (auto simp: billed_on_def image_iff)

lemma schema_item_order:
  "schema_ok s \<Longrightarrow> it \<in> set (db_items s) \<Longrightarrow> itm_order it \<in> ord_id ` set (db_orders s)"
  by (simp add: schema_ok_def table_ok_def item_refs_ok_def)

lemma check_total_new_order:
  assumes schema: "schema_ok s" and new: "ord_id r \<notin> ord_id ` set (db_orders s)"
    and r: "ord_tenant r = tx_tenant tx" "ord_status r \<notin> set InactiveOrderStatuses"
    and s': "db_orders s' = db_orders s @ [r]" "db_items s' = db_items s @ out"
    and out: "\<And>it. it \<in> set out \<Longrightarrow> itm_order it = ord_id r \<and> itm_tenant it = tx_tenant tx"
  shows "check_total tx s' k =
         check_total tx s k + (if ord_check r = Some k then \<Sum>it \<leftarrow> out. line_amount it else 0)"
proof -
  let ?tn = "tx_tenant tx"
  have d: "distinct (map ord_id (db_orders s))" by (rule schema_keys [OF schema])
  have "line_sum ?tn (db_items s) (billed_on ?tn (db_orders s @ [r]) k) =
        line_sum ?tn (db_items s) (billed_on ?tn (db_orders s) k)"
  proof (rule line_sum_cong)
    fix it assume "it \<in> set (db_items s)"
    then have "itm_order it \<noteq> ord_id r" using schema_item_order [OF schema] new by metis
    then show "billed_on ?tn (db_orders s @ [r]) k (itm_order it) =
        billed_on ?tn (db_orders s) k (itm_order it)"
      by (simp add: billed_on_append [OF new refl])
  qed
  moreover have "line_sum ?tn out (billed_on ?tn (db_orders s @ [r]) k) =
        (if ord_check r = Some k then \<Sum>it \<leftarrow> out. line_amount it else 0)"
    using out by (induction out) (auto simp: line_sum_def billed_on_append [OF new refl] r)
  ultimately show ?thesis
    using d new by (simp add: check_total_lines s' line_sum_append)
qed

text \<open>C33: an order placed at the counter on a check is accepted only while that check is
  open and of the order's branch, and what the check owes grows by exactly the sum of
  the new lines, what every other check owes by nothing. The guest count of a dine-in
  check rises to the largest seat number on the order, and never falls.\<close>

theorem Place_bills_the_check:
  assumes schema: "schema_ok s" and run: "OrderService_Place price c tn p r s = Inr (created, s')"
    and k: "ord_check r = Some k" "k \<noteq> uuid_Nil"
  shows "\<exists>cur \<in> set (db_checks s). chk_id cur = k \<and> chk_tenant cur = tn \<and>
     chk_status cur = CheckStatusOpen \<and> (ord_branch r = uuid_Nil \<or> chk_branch cur = ord_branch r) \<and>
     (\<exists>cur' \<in> set (db_checks s'). chk_id cur' = k \<and> chk_status cur' = CheckStatusOpen \<and>
        chk_pax cur' = (if chk_service cur = ServiceTypeDineIn \<and> MaxItemSeatNo (ord_items created) \<noteq> 0
                        then max (chk_pax cur) (MaxItemSeatNo (ord_items created)) else chk_pax cur)) \<and>
     (\<forall>i. check_total (pos_tx c tn) s' i = check_total (pos_tx c tn) s i +
        (if i = k then \<Sum>it \<leftarrow> ord_items created. line_amount it else 0))"
proof -
  let ?tx = "pos_tx c tn"
  from Place_steps [OF run] obtain its where
      tx: "placeTx p tn (r\<lparr>ord_items := its, ord_tenant := tn\<rparr>) ?tx s = Inr (created, s')"
    by blast
  from placeTx_Inr [OF tx] obtain q out where
      lock: "lockWritableCheck ?tx (Some k) (ord_branch r) s = Inr (q, s)"
    and rows: "list_all2 (\<lambda>it row. \<exists>j. row = item_insert_row ?tx j tn (ord_id created) it) its out"
    and res: "ord_items created = out" "ord_tenant created = tn" "ord_check created = Some k"
      "ord_status created = birth_status (branch_flow ?tx s (ord_branch r))"
      "ord_id created \<notin> ord_id ` set (db_orders s)"
    and s': "db_orders s' = db_orders s @ [created\<lparr>ord_items := []\<rparr>]" "db_items s' = db_items s @ out"
      "db_checks s' = raised ?tx q out (db_checks s)"
    by (auto simp: k)
  from lockWritableCheck_Inr [OF lock] k obtain cur where q: "q = Some cur" "chk_id cur = k"
      "ord_branch r = uuid_Nil \<or> chk_branch cur = ord_branch r" "chk_status cur = CheckStatusOpen"
      "rls_find chk_tenant ?tx (\<lambda>c'. chk_id c' = k) (db_checks s) = Some cur"
    by (auto split: option.splits)
  have cur: "cur \<in> set (db_checks s)" "chk_tenant cur = tn" using rls_find_Some [OF q(5)] by simp_all
  have "itm_order row = ord_id created \<and> itm_tenant row = tn" if "row \<in> set out" for row
    using rows that by (auto simp: list_all2_conv_all_nth in_set_conv_nth item_insert_row_def)
  then have total_grows: "check_total ?tx s' i = check_total ?tx s i +
        (if i = k then \<Sum>it \<leftarrow> out. line_amount it else 0)" for i
    using check_total_new_order [of s "created\<lparr>ord_items := []\<rparr>" ?tx s' out i] schema res s'
    by (auto simp: birth_status_def InactiveOrderStatuses_def)
  let ?pax = "if chk_service cur = ServiceTypeDineIn \<and> MaxItemSeatNo out \<noteq> 0
              then max (chk_pax cur) (MaxItemSeatNo out) else chk_pax cur"
  have "\<exists>cur' \<in> set (db_checks s'). chk_id cur' = k \<and> chk_status cur' = CheckStatusOpen \<and> chk_pax cur' = ?pax"
  proof (cases "chk_service cur = ServiceTypeDineIn \<and> MaxItemSeatNo out \<noteq> 0 \<and> chk_pax cur < MaxItemSeatNo out")
    case True
    then have "cur\<lparr>chk_pax := max (chk_pax cur) (MaxItemSeatNo out), chk_updated := ctx_now c\<rparr> \<in> set (db_checks s')"
      using cur q by (auto simp: s' raised_def in_rls_update intro!: bexI [of _ cur])
    then show ?thesis by (rule bexI [rotated]) (use True q in simp)
  next
    case False
    then have "cur \<in> set (db_checks s')" using cur q by (auto simp: s' raised_def)
    with False q show ?thesis by (auto intro!: bexI [of _ cur])
  qed
  with cur q total_grows show ?thesis unfolding res(1) by blast
qed

theorem Place_bills_the_check_witness:
  "\<exists>r s'. OrderService_Place (PriceStaffCart demo_catalog demo_ctx) demo_ctx 1 demo_principal demo_cart
            demo_db = Inr (r, s') \<and>
     check_total (pos_tx demo_ctx 1) s' 100 = 1700 \<and>
     (\<exists>k \<in> set (db_checks s'). chk_id k = 101)"
proof -
  obtain r s' where run: "OrderService_Place (PriceStaffCart demo_catalog demo_ctx) demo_ctx 1
      demo_principal demo_cart demo_db = Inr (r, s')"
    by (rule tx_okE [OF demo_place_ok])
  have k: "ord_check demo_cart = Some 101" "(101 :: uuid) \<noteq> uuid_Nil"
    by (simp_all add: demo_cart_def uuid_Nil_def)
  have "check_total (pos_tx demo_ctx 1) demo_db 100 = 1700" by code_simp
  with Place_bills_the_check [OF demo_schema run k] run show ?thesis by auto
qed

end
