(* ===== verification/Pos_Kitchen_Props.thy ===== *)
theory Pos_Kitchen_Props
  imports Pos_Order_Facts Pos_Demo
begin

text \<open>
  Orders on their way through the kitchen: who may move one, along which edges, and
  what a move changes.
\<close>

section \<open>Locking an order\<close>

definition order_reachable :: "ctx \<Rightarrow> principal \<Rightarrow> pgtx \<Rightarrow> pos_db \<Rightarrow> order \<Rightarrow> bool" where
  "order_reachable c p tx s r \<longleftrightarrow>
     rls_find ord_tenant tx (\<lambda>x. ord_id x = ord_id r) (db_orders s) = Some r \<and>
     may_act c p (ord_branch r) \<and>
     (\<forall>k. ord_check r = Some k \<longrightarrow> k \<noteq> uuid_Nil \<longrightarrow>
        (\<exists>chk \<in> set (db_checks s). chk_id chk = k \<and> chk_tenant chk = tx_tenant tx \<and>
           chk_status chk = CheckStatusOpen))"

lemma lockOrderForTransition_Inr:
  assumes "lockOrderForTransition c p tx i s = Inr (r, s')"
  shows "s' = s \<and> ord_id r = i \<and> order_reachable c p tx s r"
proof -
  from assms obtain k s1 peek where peek: "rls_find ord_tenant tx (\<lambda>r. ord_id r = i) (db_orders s) = Some peek"
      "may_act c p (ord_branch peek)"
    and lock1: "lockWritableCheck tx (ord_check peek) (ord_branch peek) s = Inr (k, s1)"
    and again: "rls_find ord_tenant tx (\<lambda>r. ord_id r = i) (db_orders s1) = Some r" "s' = s1"
    by (auto simp: lockOrderForTransition_def tx_inv OrderRepo_GetHeader_Inr OrderRepo_GetForUpdate_Inr)
  have "s1 = s" using lockWritableCheck_Inr [OF lock1] by simp
  with peek lock1 again have r: "rls_find ord_tenant tx (\<lambda>r. ord_id r = i) (db_orders s) = Some r"
      "may_act c p (ord_branch r)"
    and lock: "lockWritableCheck tx (ord_check r) (ord_branch r) s = Inr (k, s)" and "s' = s"
    by simp_all
  moreover have "ord_id r = i" using rls_find_Some [OF r(1)] by simp
  moreover have "\<exists>chk \<in> set (db_checks s). chk_id chk = q \<and> chk_tenant chk = tx_tenant tx \<and>
      chk_status chk = CheckStatusOpen" if "ord_check r = Some q" "q \<noteq> uuid_Nil" for q
    using lockWritableCheck_Inr [OF lock] that by (auto dest: rls_find_Some split: option.splits)
  ultimately show ?thesis by (auto simp: order_reachable_def)
qed

text \<open>The branch comes first: a caller of another branch gets the same answer
  whatever the state of the order and its check.\<close>

lemma lockOrderForTransition_forbidden:
  assumes "rls_find ord_tenant tx (\<lambda>r. ord_id r = i) (db_orders s) = Some r"
    and "\<not> may_act c p (ord_branch r)"
  shows "lockOrderForTransition c p tx i s = Inl PubBranchForbidden"
proof -
  have "tx_lift (requireBranch c p (ord_branch r)) t = Inl PubBranchForbidden" for t :: pos_db
    using assms(2) by (simp add: tx_lift_Inl)
  moreover have "OrderRepo_GetHeader tx i s = Inr (r, s)" using assms(1) by (simp add: OrderRepo_GetHeader_Inr)
  ultimately show ?thesis by (simp add: lockOrderForTransition_def tx_bind_def)
qed

section \<open>One transition\<close>

text \<open>One order row rewritten by \<open>f\<close>, one event, nothing else.\<close>

definition order_moved ::
  "pgtx \<Rightarrow> order \<Rightarrow> (order \<Rightarrow> order) \<Rightarrow> event \<Rightarrow> pos_db \<Rightarrow> pos_db \<Rightarrow> bool" where
  "order_moved tx r f e s s' \<longleftrightarrow>
     db_orders s' = rls_update ord_tenant tx
       (\<lambda>x. ord_id x = ord_id r \<and> ord_status x = ord_status r) f (db_orders s) \<and>
     db_checks s' = db_checks s \<and> db_items s' = db_items s \<and> db_tables s' = db_tables s \<and>
     db_zones s' = db_zones s \<and> db_settings s' = db_settings s \<and> events_since s s' = [e]"

lemma order_update_row:
  assumes find: "rls_find ord_tenant tx (\<lambda>x. ord_id x = i) rows = Some r"
  shows "hd (rls_select ord_tenant tx (\<lambda>x. ord_id x = i \<and> ord_status x = ord_status r) rows) = r"
  using assms by (induction rows) (auto simp: rls_find_def find_row_def rls_select_def split: if_splits)

lemma order_write:
  assumes find: "rls_find ord_tenant tx (\<lambda>x. ord_id x = i) (db_orders s) = Some r"
    and upd: "tx_bind (pos_sql (sql_update orders_table tx
       (\<lambda>x. ord_id x = i \<and> ord_status x = ord_status r) f)) (\<lambda>rows.
     tx_bind (query_row RepoInvalidTransition rows) (\<lambda>x. OrderRepo_withItems tx x)) s = Inr (r', t)"
    and out: "InsertOutbox tx tn agg i typ payload t = Inr (u, s')"
    and f: "\<And>x. ord_id (f x) = ord_id x"
  shows "order_moved tx r f (tn, agg, i, typ, payload) s s' \<and>
     r' = (f r)\<lparr>ord_items := ord_items r'\<rparr> \<and> ord_id r = i"
proof -
  let ?P = "\<lambda>x. ord_id x = i \<and> ord_status x = ord_status r"
  have id: "ord_id r = i" using rls_find_Some [OF find] by simp
  from upd have t: "t = s\<lparr>db_orders := rls_update ord_tenant tx ?P f (db_orders s)\<rparr>"
    and r': "r' = (f r)\<lparr>ord_items := ord_items r'\<rparr>"
    by (auto simp: tx_inv orders.update_Inr row_inv OrderRepo_withItems_Inr hd_map
        order_update_row [OF find])
  from emitted_fields [OF InsertOutbox_emits [OF out]] r' id show ?thesis
    by (auto simp: order_moved_def t events_since_def)
qed

lemma TransitionOrderStatus_Inr:
  "TransitionOrderStatus from to = Inr u \<longleftrightarrow> OrderStatus_Valid to \<and> to \<in> set (allowedOrderTransitions from)"
  by (auto simp: TransitionOrderStatus_def)

lemma transitionTx_Inr:
  assumes "transitionTx c p tn i st extra tx s = Inr (r', s')"
  shows "\<exists>r. order_reachable c p tx s r \<and> ord_id r = i \<and>
     st \<in> set (allowedOrderTransitions (ord_status r)) \<and> ord_status r' = st \<and> ord_id r' = i \<and>
     order_moved tx r (\<lambda>x. x\<lparr>ord_status := st, ord_updated := tx_now tx\<rparr>)
       (tn, ''order'', i, ''order.status_changed'',
        [(''tenant_id'', JId tn), (''order_id'', JId i),
         (''status'', JStr (order_status_string st))] @ extra) s s'"
proof -
  let ?f = "\<lambda>x. x\<lparr>ord_status := st, ord_updated := tx_now tx\<rparr>"
  from assms obtain r t where lock: "lockOrderForTransition c p tx i s = Inr (r, s)"
    and ok: "st \<in> set (allowedOrderTransitions (ord_status r))"
    and upd: "OrderRepo_AdvanceStatus tx i st (ord_status r) s = Inr (r', t)"
    and out: "InsertOutbox tx tn ''order'' i ''order.status_changed''
       ([(''tenant_id'', JId tn), (''order_id'', JId i),
         (''status'', JStr (order_status_string st))] @ extra) t = Inr ((), s')"
    by (auto simp: transitionTx_def tx_inv TransitionOrderStatus_Inr dest: lockOrderForTransition_Inr)
  note l = lockOrderForTransition_Inr [OF lock]
  have find: "rls_find ord_tenant tx (\<lambda>x. ord_id x = i) (db_orders s) = Some r"
    using l unfolding order_reachable_def by metis
  from order_write [OF find upd [unfolded OrderRepo_AdvanceStatus_def] out] have
      "order_moved tx r ?f (tn, ''order'', i, ''order.status_changed'',
        [(''tenant_id'', JId tn), (''order_id'', JId i),
         (''status'', JStr (order_status_string st))] @ extra) s s'"
    and r': "r' = (?f r)\<lparr>ord_items := ord_items r'\<rparr>" and id: "ord_id r = i"
    by simp_all
  moreover have "ord_status r' = st" "ord_id r' = i" by (subst r', simp add: id)+
  ultimately show ?thesis using l ok by blast
qed

lemma billed_on_rls_update:
  assumes "\<And>r. P r \<Longrightarrow> ord_id (f r) = ord_id r \<and> ord_tenant (f r) = ord_tenant r \<and>
      ord_check (f r) = ord_check r \<and>
      (ord_status (f r) \<in> set InactiveOrderStatuses) = (ord_status r \<in> set InactiveOrderStatuses)"
  shows "billed_on tn (rls_update ord_tenant tx P f rows) k oid = billed_on tn rows k oid"
  using assms by (induction rows) (auto simp: billed_on_def)

text \<open>The kitchen endpoint moves an order only to preparing, ready or delivered,
  only along an edge of the transition table, only on a branch the caller may act on
  and only while the order's check is open. It changes the status of that one order,
  announces it once, and touches nothing else, so no bill changes; accepting,
  rejecting and cancelling are refused whatever the order.\<close>

theorem AdvanceStatus_moves:
  "(case OrderService_AdvanceStatus c tn p i st s of
      Inl e \<Rightarrow> st \<in> {OrderStatusAccepted, OrderStatusRejected, OrderStatusCancelled} \<longrightarrow>
                 e = ErrUseDedicatedEndpoint
    | Inr (r', s') \<Rightarrow>
        st \<in> {OrderStatusPreparing, OrderStatusReady, OrderStatusDelivered} \<and> ord_status r' = st \<and>
        (\<exists>r \<in> set (db_orders s). ord_id r = i \<and> order_reachable c p (pos_tx c tn) s r \<and>
           st \<in> set (allowedOrderTransitions (ord_status r)) \<and>
           order_moved (pos_tx c tn) r (\<lambda>x. x\<lparr>ord_status := st, ord_updated := ctx_now c\<rparr>)
             (tn, ''order'', i, ''order.status_changed'',
              [(''tenant_id'', JId tn), (''order_id'', JId i),
               (''status'', JStr (order_status_string st))]) s s') \<and>
        (schema_ok s \<longrightarrow> (\<forall>k. check_total (pos_tx c tn) s' k = check_total (pos_tx c tn) s k)))"
proof (cases "IsKitchenAdvanceTarget st")
  case False
  then show ?thesis
    by (auto simp: OrderService_AdvanceStatus_def IsKitchenAdvanceTarget_def kitchenAdvanceTargets_def)
next
  case True
  then have st: "st \<in> {OrderStatusPreparing, OrderStatusReady, OrderStatusDelivered}"
    by (auto simp: IsKitchenAdvanceTarget_def kitchenAdvanceTargets_def)
  show ?thesis
  proof (cases "OrderService_AdvanceStatus c tn p i st s")
    case (Inl e)
    with st show ?thesis by auto
  next
    case (Inr res)
    obtain r' s' where res: "res = (r', s')" by (cases res)
    with Inr True have tx: "transitionTx c p tn i st [] (pos_tx c tn) s = Inr (r', s')"
      by (auto simp: OrderService_AdvanceStatus_def OrderService_transition_def)
    from transitionTx_Inr [OF tx] obtain r where r: "order_reachable c p (pos_tx c tn) s r"
        "ord_id r = i" "st \<in> set (allowedOrderTransitions (ord_status r))" "ord_status r' = st"
      and moved: "order_moved (pos_tx c tn) r (\<lambda>x. x\<lparr>ord_status := st, ord_updated := ctx_now c\<rparr>)
             (tn, ''order'', i, ''order.status_changed'',
              [(''tenant_id'', JId tn), (''order_id'', JId i),
               (''status'', JStr (order_status_string st))]) s s'"
      by auto
    have mem: "r \<in> set (db_orders s)" using r(1) by (auto simp: order_reachable_def dest: rls_find_Some)
    have live: "ord_status r \<notin> set InactiveOrderStatuses" "st \<notin> set InactiveOrderStatuses"
      using r(3) st by (cases "ord_status r"; auto simp: InactiveOrderStatuses_def)+
    have "check_total (pos_tx c tn) s' k = check_total (pos_tx c tn) s k" if "schema_ok s" for k
    proof -
      let ?rows = "db_orders s" and ?P = "\<lambda>x. ord_id x = ord_id r \<and> ord_status x = ord_status r"
      have ids: "map ord_id (db_orders s') = map ord_id ?rows"
        using moved by (simp add: order_moved_def map_rls_update)
      have d: "distinct (map ord_id ?rows)" by (rule schema_keys [OF that])
      have "billed_on tn (db_orders s') k oid = billed_on tn ?rows k oid" for oid
        using moved live unfolding order_moved_def
        by (elim conjE, simp only:) (rule billed_on_rls_update, auto)
      then have "billed_on tn (db_orders s') k = billed_on tn ?rows k" by (rule ext)
      with d ids moved show ?thesis by (simp add: check_total_lines order_moved_def)
    qed
    with st r moved mem show ?thesis unfolding Inr res by auto
  qed
qed

lemma demo_advance_ok:
  "tx_ok (OrderService_AdvanceStatus demo_ctx 1 demo_principal 200 OrderStatusPreparing) demo_db"
  by code_simp

theorem AdvanceStatus_moves_witness:
  "\<exists>r s'. OrderService_AdvanceStatus demo_ctx 1 demo_principal 200 OrderStatusPreparing demo_db = Inr (r, s') \<and>
     ord_status r = OrderStatusPreparing \<and> check_total (pos_tx demo_ctx 1) s' 100 = 1700"
proof -
  obtain r s' where run: "OrderService_AdvanceStatus demo_ctx 1 demo_principal 200 OrderStatusPreparing
      demo_db = Inr (r, s')"
    by (rule tx_okE [OF demo_advance_ok])
  have "check_total (pos_tx demo_ctx 1) demo_db 100 = 1700" by code_simp
  with AdvanceStatus_moves [where c = demo_ctx and tn = 1 and p = demo_principal and i = 200
      and st = OrderStatusPreparing and s = demo_db] run demo_schema
  show ?thesis by simp
qed

section \<open>Accepting\<close>

text \<open>Only a pending order can be accepted, by a caller that may act on its branch,
  while its check is open. The order is marked with who accepted it and when, one
  event says so, and nothing else changes.\<close>

theorem Accept_moves:
  assumes "OrderService_Accept c tn p i by_person s = Inr (r', s')"
  shows "\<exists>r \<in> set (db_orders s). ord_id r = i \<and> order_reachable c p (pos_tx c tn) s r \<and>
     ord_status r = OrderStatusPending \<and> ord_status r' = OrderStatusAccepted \<and>
     ord_accepted_by r' = Some by_person \<and> ord_accepted_at r' = Some (ctx_now c) \<and>
     order_moved (pos_tx c tn) r
       (\<lambda>x. x\<lparr>ord_status := OrderStatusAccepted, ord_accepted_at := Some (ctx_now c),
              ord_accepted_by := Some by_person, ord_updated := ctx_now c\<rparr>)
       (tn, ''order'', i, ''order.accepted'',
        [(''tenant_id'', JId tn), (''order_id'', JId i), (''accepted_by'', JId by_person)]) s s'"
proof -
  let ?tx = "pos_tx c tn"
  let ?f = "\<lambda>x. x\<lparr>ord_status := OrderStatusAccepted, ord_accepted_at := Some (ctx_now c),
              ord_accepted_by := Some by_person, ord_updated := ctx_now c\<rparr>"
  from assms have "acceptTx c p tn i by_person ?tx s = Inr (r', s')"
    by (auto simp: OrderService_Accept_def)
  then obtain r t where lock: "lockOrderForTransition c p ?tx i s = Inr (r, s)"
    and ok: "OrderStatusAccepted \<in> set (allowedOrderTransitions (ord_status r))"
    and upd: "OrderRepo_Accept ?tx i by_person (ord_status r) s = Inr (r', t)"
    and out: "InsertOutbox ?tx tn ''order'' i ''order.accepted''
       [(''tenant_id'', JId tn), (''order_id'', JId i), (''accepted_by'', JId by_person)] t = Inr ((), s')"
    by (auto simp: acceptTx_def tx_inv TransitionOrderStatus_Inr dest: lockOrderForTransition_Inr)
  note l = lockOrderForTransition_Inr [OF lock]
  have find: "rls_find ord_tenant ?tx (\<lambda>x. ord_id x = i) (db_orders s) = Some r"
    using l unfolding order_reachable_def by metis
  have pending: "ord_status r = OrderStatusPending" using ok by (cases "ord_status r") auto
  from order_write [OF find upd [unfolded OrderRepo_Accept_def] out] have
      moved: "order_moved ?tx r ?f (tn, ''order'', i, ''order.accepted'',
        [(''tenant_id'', JId tn), (''order_id'', JId i), (''accepted_by'', JId by_person)]) s s'"
    and r': "r' = (?f r)\<lparr>ord_items := ord_items r'\<rparr>"
    by simp_all
  have "ord_status r' = OrderStatusAccepted" "ord_accepted_by r' = Some by_person"
      "ord_accepted_at r' = Some (ctx_now c)"
    by (subst r', simp)+
  moreover have "r \<in> set (db_orders s)" using rls_find_Some [OF find] by simp
  ultimately show ?thesis using l moved pending by blast
qed

lemma demo_accept_ok: "tx_ok (OrderService_Accept demo_ctx 1 demo_principal 201 5) demo_db"
  by code_simp

theorem Accept_moves_witness:
  "\<exists>r s'. OrderService_Accept demo_ctx 1 demo_principal 201 5 demo_db = Inr (r, s') \<and>
     ord_status r = OrderStatusAccepted \<and> ord_accepted_by r = Some 5"
proof -
  obtain r s' where run: "OrderService_Accept demo_ctx 1 demo_principal 201 5 demo_db = Inr (r, s')"
    by (rule tx_okE [OF demo_accept_ok])
  from Accept_moves [OF run] run show ?thesis by auto
qed

section \<open>Leaving the bill\<close>

lemma line_sum_without:
  "line_sum tn its on = line_sum tn its (\<lambda>x. x \<noteq> i \<and> on x) + line_sum tn its (\<lambda>x. x = i \<and> on x)"
proof -
  have "line_sum tn its (\<lambda>x. x \<noteq> i \<and> on x) + line_sum tn its (\<lambda>x. x = i \<and> on x) =
        line_sum tn its (\<lambda>x. (x \<noteq> i \<and> on x) \<or> (x = i \<and> on x))"
    by (rule line_sum_split) auto
  also have "\<dots> = line_sum tn its on" by (rule line_sum_cong) auto
  finally show ?thesis by simp
qed

lemma order_worth_line_sum: "order_worth tx s i = line_sum (tx_tenant tx) (db_items s) (\<lambda>x. x = i)"
  by (simp add: order_worth_def line_sum_def rls_select_def sum_list_map_if)

text \<open>An order that becomes inactive takes its worth off its check and off no other.\<close>

lemma check_total_order_leaves:
  assumes schema: "schema_ok s" and moved: "order_moved tx r f e s s'"
    and r: "r \<in> set (db_orders s)" "ord_tenant r = tx_tenant tx" "ord_status r \<notin> set InactiveOrderStatuses"
    and f: "\<And>x. ord_id (f x) = ord_id x \<and> ord_status (f x) \<in> set InactiveOrderStatuses"
  shows "check_total tx s' k =
         check_total tx s k - (if ord_check r = Some k then order_worth tx s (ord_id r) else 0)"
proof -
  let ?tn = "tx_tenant tx" and ?i = "ord_id r" and ?rows = "db_orders s"
  have d: "distinct (map ord_id ?rows)" by (rule schema_keys [OF schema])
  have rows': "db_orders s' = rls_update ord_tenant tx (\<lambda>x. ord_id x = ?i \<and> ord_status x = ord_status r) f ?rows"
    and items: "db_items s' = db_items s"
    using moved by (simp_all add: order_moved_def)
  have d': "distinct (map ord_id (db_orders s'))"
    using d f by (simp add: rows' map_rls_update)
  have only: "x = r" if "x \<in> set ?rows" "ord_id x = ?i" for x
    using distinct_key_unique [OF d that(1) r(1)] that(2) by simp
  have on': "billed_on ?tn (db_orders s') k x \<longleftrightarrow> x \<noteq> ?i \<and> billed_on ?tn ?rows k x" for x
  proof
    assume "billed_on ?tn (db_orders s') k x"
    then obtain z where "z \<in> set (db_orders s')" and z4: "ord_tenant z = ?tn" "ord_id z = x"
        "ord_check z = Some k" "ord_status z \<notin> set InactiveOrderStatuses"
      unfolding billed_on_def by blast
    then obtain y where y: "y \<in> set ?rows" and z1: "z = (if ord_tenant y = tx_tenant tx \<and> ord_id y = ?i \<and>
        ord_status y = ord_status r then f y else y)"
      unfolding rows' in_rls_update by blast
    note z = z1 z4
    have "\<not> (ord_tenant y = tx_tenant tx \<and> ord_id y = ?i \<and> ord_status y = ord_status r)"
      using z(1,5) f by auto
    moreover from this have "z = y" using z(1) by (simp only: if_False)
    moreover have "ord_id y \<noteq> ?i" using only [OF y] calculation r(2) by auto
    ultimately show "x \<noteq> ?i \<and> billed_on ?tn ?rows k x" using y z by (auto simp: billed_on_def)
  next
    assume a: "x \<noteq> ?i \<and> billed_on ?tn ?rows k x"
    then obtain y where y: "y \<in> set ?rows" "ord_tenant y = ?tn" "ord_id y = x" "ord_check y = Some k"
        "ord_status y \<notin> set InactiveOrderStatuses"
      by (auto simp: billed_on_def)
    with a have "y \<in> set (db_orders s')" unfolding rows' in_rls_update by (intro bexI [of _ y]) auto
    with y show "billed_on ?tn (db_orders s') k x" by (auto simp: billed_on_def)
  qed
  have on: "?i = x \<Longrightarrow> billed_on ?tn ?rows k x \<longleftrightarrow> ord_check r = Some k" for x
    unfolding billed_on_def using only r by metis
  have "check_total tx s' k = line_sum ?tn (db_items s) (\<lambda>x. x \<noteq> ?i \<and> billed_on ?tn ?rows k x)"
    unfolding check_total_lines [OF d'] items by (rule line_sum_cong) (rule on')
  moreover have "line_sum ?tn (db_items s) (\<lambda>x. x = ?i \<and> billed_on ?tn ?rows k x) =
      (if ord_check r = Some k then order_worth tx s ?i else 0)"
  proof (cases "ord_check r = Some k")
    case True
    then have "(\<lambda>x. x = ?i \<and> billed_on ?tn ?rows k x) = (\<lambda>x. x = ?i)" using on by auto
    with True show ?thesis by (simp add: order_worth_line_sum)
  next
    case False
    then have "(\<lambda>x. x = ?i \<and> billed_on ?tn ?rows k x) = (\<lambda>_. False)" using on by auto
    with False show ?thesis by (simp add: line_sum_def)
  qed
  ultimately show ?thesis
    using check_total_lines [OF d] line_sum_without [of ?tn "db_items s" "billed_on ?tn ?rows k" ?i] by simp
qed

text \<open>C36: Cancelling an order takes exactly its worth off the check it is on. Only a live
  order is cancelled, on a branch the caller may act on and while its check is open;
  the bills of the other checks stay as they are, and one event says who cancelled.\<close>

theorem Cancel_order_leaves_bill:
  assumes schema: "schema_ok s" and run: "OrderService_Cancel c tn p i by_person s = Inr (r', s')"
  shows "\<exists>r \<in> set (db_orders s). ord_id r = i \<and> order_reachable c p (pos_tx c tn) s r \<and>
     ord_status r \<in> set KitchenActiveOrderStatuses \<and> ord_status r' = OrderStatusCancelled \<and>
     order_moved (pos_tx c tn) r (\<lambda>x. x\<lparr>ord_status := OrderStatusCancelled, ord_updated := ctx_now c\<rparr>)
       (tn, ''order'', i, ''order.status_changed'',
        [(''tenant_id'', JId tn), (''order_id'', JId i), (''status'', JStr ''cancelled''),
         (''cancelled_by'', JId by_person)]) s s' \<and>
     (\<forall>k. check_total (pos_tx c tn) s' k = check_total (pos_tx c tn) s k -
        (if ord_check r = Some k then order_worth (pos_tx c tn) s i else 0))"
proof -
  let ?tx = "pos_tx c tn" and ?f = "\<lambda>x. x\<lparr>ord_status := OrderStatusCancelled, ord_updated := ctx_now c\<rparr>"
  from run have "transitionTx c p tn i OrderStatusCancelled [(''cancelled_by'', JId by_person)] ?tx s = Inr (r', s')"
    by (auto simp: OrderService_Cancel_def OrderService_transition_def)
  from transitionTx_Inr [OF this] obtain r where r: "order_reachable c p ?tx s r" "ord_id r = i"
      "OrderStatusCancelled \<in> set (allowedOrderTransitions (ord_status r))" "ord_status r' = OrderStatusCancelled"
    and moved: "order_moved ?tx r ?f (tn, ''order'', i, ''order.status_changed'',
        [(''tenant_id'', JId tn), (''order_id'', JId i), (''status'', JStr ''cancelled''),
         (''cancelled_by'', JId by_person)]) s s'"
    by auto
  have mem: "r \<in> set (db_orders s)" "ord_tenant r = tn"
    using r(1) by (auto simp: order_reachable_def dest: rls_find_Some)
  have live: "ord_status r \<in> set KitchenActiveOrderStatuses"
    using r(3) by (cases "ord_status r") (auto simp: KitchenActiveOrderStatuses_def)
  then have "ord_status r \<notin> set InactiveOrderStatuses"
    by (auto simp: KitchenActiveOrderStatuses_def InactiveOrderStatuses_def)
  from check_total_order_leaves [OF schema moved mem(1) _ this] mem r
  have "check_total ?tx s' k = check_total ?tx s k -
      (if ord_check r = Some k then order_worth ?tx s i else 0)" for k
    by (simp add: InactiveOrderStatuses_def)
  with r live moved mem show ?thesis by blast
qed

lemma demo_order_cancel_ok: "tx_ok (OrderService_Cancel demo_ctx 1 demo_principal 200 5) demo_db"
  by code_simp

theorem Cancel_order_leaves_bill_witness:
  "\<exists>r s'. OrderService_Cancel demo_ctx 1 demo_principal 200 5 demo_db = Inr (r, s') \<and>
     check_total (pos_tx demo_ctx 1) s' 101 = 300 \<and> ord_status r = OrderStatusCancelled"
proof -
  obtain r s' where run: "OrderService_Cancel demo_ctx 1 demo_principal 200 5 demo_db = Inr (r, s')"
    by (rule tx_okE [OF demo_order_cancel_ok])
  have total: "check_total (pos_tx demo_ctx 1) demo_db 101 = 300" by code_simp
  from Cancel_order_leaves_bill [OF demo_schema run] obtain o' where
      row: "o' \<in> set (db_orders demo_db)" "ord_id o' = 200" "ord_status r = OrderStatusCancelled"
    and t: "check_total (pos_tx demo_ctx 1) s' 101 = check_total (pos_tx demo_ctx 1) demo_db 101 -
        (if ord_check o' = Some 101 then order_worth (pos_tx demo_ctx 1) demo_db 200 else 0)"
    by blast
  have "ord_check o' = Some 100" using row by (auto simp: demo_db_def demo_order_def)
  with t total run row show ?thesis by auto
qed

section \<open>Foreign branches\<close>

text \<open>A caller that may not act on an order's branch gets the same refusal from all
  four order operations, whatever the status of the order and of its check.\<close>

theorem foreign_branch_refused:
  assumes "tn \<noteq> uuid_Nil" and r: "rls_find ord_tenant (pos_tx c tn) (\<lambda>r. ord_id r = i) (db_orders s) = Some r"
    and "\<not> may_act c p (ord_branch r)" and st: "IsKitchenAdvanceTarget st"
  shows "OrderService_Accept c tn p i who s = Inl PubBranchForbidden \<and>
     OrderService_Reject c tn p i who reason s = Inl PubBranchForbidden \<and>
     OrderService_Cancel c tn p i who s = Inl PubBranchForbidden \<and>
     OrderService_AdvanceStatus c tn p i st s = Inl PubBranchForbidden"
proof -
  have "lockOrderForTransition c p (pos_tx c tn) i s = Inl PubBranchForbidden"
    using r assms(3) by (rule lockOrderForTransition_forbidden)
  moreover have "wrapErr PubBranchForbidden = PubBranchForbidden" by (simp add: wrapErr_def)
  ultimately show ?thesis
    using assms(1) st
    by (simp add: OrderService_Accept_def OrderService_Reject_def OrderService_Cancel_def
        OrderService_AdvanceStatus_def OrderService_transition_def WithTenantTx_valid acceptTx_def
        rejectTx_def transitionTx_def tx_bind_def tx_map_err_def)
qed

theorem foreign_branch_refused_witness:
  "OrderService_Accept demo_ctx 1 (demo_principal\<lparr>prn_branch := 11\<rparr>) 202 5 demo_db = Inl PubBranchForbidden"
proof -
  have r: "rls_find ord_tenant (pos_tx demo_ctx 1) (\<lambda>r. ord_id r = 202) (db_orders demo_db) =
      Some (demo_order 202 102 OrderStatusDelivered)"
    by (simp add: demo_defs rls_find_def find_row_def zero_order_def)
  moreover have "\<not> may_act demo_ctx (demo_principal\<lparr>prn_branch := 11\<rparr>)
      (ord_branch (demo_order 202 102 OrderStatusDelivered))"
    by code_simp
  ultimately show ?thesis
    using foreign_branch_refused [of 1 demo_ctx 202 demo_db _ _ OrderStatusReady 5]
    by (simp add: uuid_Nil_def IsKitchenAdvanceTarget_def kitchenAdvanceTargets_def)
qed

end
