(* ===== verification/Pos_Guest_Props.thy ===== *)
theory Pos_Guest_Props
  imports Pos_Order_Facts Pos_Open_Props
begin

text \<open>
  Orders from a QR code: which check they land on, what they store, and what
  happens when two guests at the same table order at once.
\<close>

section \<open>The transaction\<close>

lemma placeGuestTx_Inr:
  assumes run: "placeGuestTx others req link tx s = Inr (g, s')"
  shows "\<exists>k t created.
     resolveGuestCheck others tx req s = Inr (k, t) \<and>
     gre_check g = chk_id k \<and> gre_order g = ord_id created \<and>
     gre_status g = order_status_string (ord_status created) \<and>
     ord_status created = birth_status (branch_flow tx s (gor_branch req)) \<and>
     ord_tenant created = gor_tenant req \<and> ord_branch created = gor_branch req \<and>
     ord_check created = Some (chk_id k) \<and> ord_source created = SourceOnlineQR \<and>
     ord_id created \<notin> ord_id ` set (db_orders t) \<and>
     list_all2 (\<lambda>it row. \<exists>j. row = item_insert_row tx j (gor_tenant req) (ord_id created) it)
       (guestOrderItems (gor_lines req)) (ord_items created) \<and>
     db_orders s' = db_orders t @ [created\<lparr>ord_items := []\<rparr>] \<and>
     db_items s' = db_items t @ ord_items created \<and> db_checks s' = db_checks t \<and>
     db_tables s' = db_tables t"
proof -
  from run obtain r s1 k t created s3 s4 where
      born: "applyBirthStatus tx (guest_order req) None s = Inr (r, s1)"
    and res: "resolveGuestCheck others tx req s1 = Inr (k, t)"
    and create: "OrderRepo_Create tx (r\<lparr>ord_check := Some (chk_id k)\<rparr>) t = Inr (created, s3)"
    and out: "InsertOutbox tx (gor_tenant req) ''order'' (ord_id created) ''order.placed''
          [(''tenant_id'', JId (gor_tenant req)), (''order_id'', JId (ord_id created)),
           (''branch_id'', JId (ord_branch created)),
           (''check_id'', json_opt_id (ord_check created)),
           (''order_channel'', JStr (order_channel_string (ord_channel created))),
           (''source'', JStr (source_string (ord_source created))),
           (''item_count'', JInt (int (length (ord_items created))))] s3 = Inr ((), s4)"
    and acc: "insertBornAcceptedEvent tx created s4 = Inr ((), s')"
    and g: "g = \<lparr>gre_order = ord_id created, gre_check = chk_id k,
                 gre_status = order_status_string (ord_status created)\<rparr>"
    by (auto simp: placeGuestTx_def tx_inv Let_def split: option.splits)
  note b = applyBirthStatus_Inr [OF born]
  then have s1: "s1 = s" by simp
  from OrderRepo_Create_Inr [OF create] obtain i n its where
      c: "created = (order_insert_row tx i (r\<lparr>ord_check := Some (chk_id k)\<rparr>))\<lparr>ord_items := its\<rparr>"
        "i \<notin> ord_id ` set (db_orders t)"
    and s3: "s3 = t\<lparr>db_ctr := n, db_orders := db_orders t @ [order_insert_row tx i (r\<lparr>ord_check := Some (chk_id k)\<rparr>)],
            db_items := db_items t @ its\<rparr>"
    and its: "list_all2 (\<lambda>it row. \<exists>j. row = item_insert_row tx j (ord_tenant r) i it) (ord_items r) its"
    by auto
  have row: "created\<lparr>ord_items := []\<rparr> = order_insert_row tx i (r\<lparr>ord_check := Some (chk_id k)\<rparr>)"
    by (simp add: c order_insert_row_def)
  have fields: "ord_id created = i" "ord_items created = its" "ord_tenant created = gor_tenant req"
      "ord_branch created = gor_branch req" "ord_check created = Some (chk_id k)"
      "ord_source created = SourceOnlineQR" "ord_tenant r = gor_tenant req"
      "ord_status created = birth_status (branch_flow tx s (gor_branch req))"
      "ord_items r = guestOrderItems (gor_lines req)"
    using b by (simp_all add: c order_insert_row_def guest_order_def)
  note f1 = emitted_fields [OF InsertOutbox_emits [OF out]]
  note f2 = emitted_fields [OF insertBornAccepted_Inr [OF acc]]
  show ?thesis
    using res its c(2) fields row g
    by (intro exI [of _ k] exI [of _ t] exI [of _ created]) (simp add: s1 f2(1-4) f1(1-4) s3)
qed

lemma PlaceGuest_once:
  assumes "OrderService_PlaceGuest id id c req link s = Inr r"
  shows "gor_lines req \<noteq> [] \<and> gor_tenant req \<noteq> uuid_Nil \<and>
     placeGuestTx id req link (pos_tx c (gor_tenant req)) s = Inr r"
  using assms
  by (auto simp: OrderService_PlaceGuest_def placeGuestOnce_def split: if_splits sum.splits)

section \<open>Which check a guest order lands on\<close>

lemma resolveGuestCheck_found:
  assumes "rls_find chk_tenant tx (\<lambda>c. chk_table c = Some (gor_table req) \<and>
      chk_status c = CheckStatusOpen) (db_checks s) = Some cur"
  shows "resolveGuestCheck others tx req s =
     (if chk_branch cur = gor_branch req then Inr (cur, s) else Inl PubTableBranchMismatch)"
proof -
  have "CheckRepo_GetOpenByTableForUpdate tx (gor_table req) s = Inr (cur, s)"
    using assms by (simp add: CheckRepo_GetOpenByTable_Inr)
  then show ?thesis by (simp add: resolveGuestCheck_def)
qed

lemma resolveGuestCheck_none:
  assumes "rls_find chk_tenant tx (\<lambda>c. chk_table c = Some (gor_table req) \<and>
      chk_status c = CheckStatusOpen) (db_checks s) = None"
  shows "resolveGuestCheck others tx req s = openCheckTx tx (guest_check req) guestTableGuard (others s)"
proof -
  have "CheckRepo_GetOpenByTableForUpdate tx (gor_table req) s = Inl RepoNotFound"
    using assms by (simp add: CheckRepo_GetOpenByTable_Inl)
  then show ?thesis by (simp add: resolveGuestCheck_def)
qed

text \<open>What a guest's line becomes: the storefront priced it, and nothing of it is
  recomputed here.\<close>

definition guest_line_stored :: "guest_order_line \<Rightarrow> order_item \<Rightarrow> bool" where
  "guest_line_stored l row \<longleftrightarrow>
     itm_product row = gol_product l \<and> itm_name row = gol_name l \<and> itm_qty row = gol_qty l \<and>
     itm_unit_price row = gol_unit l \<and> itm_price row = gol_base l \<and>
     itm_tax_bps row = gol_tax_bps l \<and> itm_modifiers row = gol_modifiers l \<and> itm_seat row = 0"

lemma guest_lines_stored:
  "list_all2 (\<lambda>it row. \<exists>j. row = item_insert_row tx j tn i it) (guestOrderItems ls) rows \<Longrightarrow>
   list_all2 guest_line_stored ls rows"
  unfolding guestOrderItems_def list_all2_map1
  by (erule list_all2_mono) (auto simp: guest_line_stored_def guest_item_def item_insert_row_def)

text \<open>C35: a guest order is one new order with one line per line sent, priced as the
  storefront priced them, on a check of the table the code stands for. If the table
  has an open check it joins that check, which must be of the same branch, and no
  check changes. If it has none, exactly one check is opened for it, by nobody of the
  staff, on a table of that branch that was free or reserved and is occupied now.\<close>

theorem PlaceGuest_success:
  assumes run: "OrderService_PlaceGuest id id c req link s = Inr (g, s')"
  shows "gor_lines req \<noteq> [] \<and>
     (\<exists>created. db_orders s' = db_orders s @ [created\<lparr>ord_items := []\<rparr>] \<and>
        db_items s' = db_items s @ ord_items created \<and> gre_order g = ord_id created \<and>
        ord_tenant created = gor_tenant req \<and> ord_branch created = gor_branch req \<and>
        ord_check created = Some (gre_check g) \<and> ord_source created = SourceOnlineQR \<and>
        ord_status created = birth_status (branch_flow (pos_tx c (gor_tenant req)) s (gor_branch req)) \<and>
        list_all2 guest_line_stored (gor_lines req) (ord_items created)) \<and>
     (case rls_find chk_tenant (pos_tx c (gor_tenant req))
         (\<lambda>k. chk_table k = Some (gor_table req) \<and> chk_status k = CheckStatusOpen) (db_checks s) of
        Some cur \<Rightarrow> gre_check g = chk_id cur \<and> chk_branch cur = gor_branch req \<and>
          db_checks s' = db_checks s \<and> db_tables s' = db_tables s
      | None \<Rightarrow> \<exists>k t. db_checks s' = db_checks s @ [k] \<and> chk_id k = gre_check g \<and>
          chk_id k \<notin> chk_id ` set (db_checks s) \<and> chk_tenant k = gor_tenant req \<and>
          chk_branch k = gor_branch req \<and> chk_table k = Some (gor_table req) \<and>
          chk_status k = CheckStatusOpen \<and> chk_opened_kind k = OpenedByKindGuestQR \<and>
          chk_opened_by k = None \<and>
          t \<in> set (db_tables s) \<and> tbl_id t = gor_table req \<and> tbl_tenant t = gor_tenant req \<and>
          tbl_branch t = gor_branch req \<and> tbl_status t \<in> {TableStatusEmpty, TableStatusReserved} \<and>
          t\<lparr>tbl_status := TableStatusOccupied, tbl_updated := ctx_now c\<rparr> \<in> set (db_tables s'))"
proof -
  let ?tx = "pos_tx c (gor_tenant req)"
  let ?find = "rls_find chk_tenant ?tx
      (\<lambda>k. chk_table k = Some (gor_table req) \<and> chk_status k = CheckStatusOpen) (db_checks s)"
  note once = PlaceGuest_once [OF run]
  from once placeGuestTx_Inr obtain k t created where
      res: "resolveGuestCheck id ?tx req s = Inr (k, t)"
    and g: "gre_check g = chk_id k" "gre_order g = ord_id created"
    and created: "ord_status created = birth_status (branch_flow ?tx s (gor_branch req))"
      "ord_tenant created = gor_tenant req" "ord_branch created = gor_branch req"
      "ord_check created = Some (chk_id k)" "ord_source created = SourceOnlineQR"
    and lines: "list_all2 (\<lambda>it row. \<exists>j. row = item_insert_row ?tx j (gor_tenant req) (ord_id created) it)
       (guestOrderItems (gor_lines req)) (ord_items created)"
    and s': "db_orders s' = db_orders t @ [created\<lparr>ord_items := []\<rparr>]"
      "db_items s' = db_items t @ ord_items created" "db_checks s' = db_checks t" "db_tables s' = db_tables t"
    by blast
  note stored = guest_lines_stored [OF lines]
  show ?thesis
  proof (cases ?find)
    case (Some cur)
    then have "t = s" "k = cur" "chk_branch cur = gor_branch req"
      using resolveGuestCheck_found [OF Some] res by (auto split: if_splits)
    with Some g created stored s' once show ?thesis by auto
  next
    case None
    then have "openCheckTx ?tx (guest_check req) guestTableGuard s = Inr (k, t)"
      using resolveGuestCheck_none [OF None, of id] res by simp
    from openCheckTx_Inr [OF this] obtain c' i new n tab where
        tab: "rls_find tbl_tenant ?tx (\<lambda>t. tbl_id t = gor_table req) (db_tables s) = Some tab"
          "tbl_branch tab = gor_branch req" "guestTableGuard tab = Inr ()"
          "c' = (guest_check req)\<lparr>chk_label := tbl_name tab\<rparr>"
      and k: "k = check_insert_row ?tx i c'" "i \<notin> chk_id ` set (db_checks s)"
      and t: "t = s\<lparr>db_tables := occupy_table ?tx (Some (gor_table req)) (db_tables s),
            db_checks := db_checks s @ [k], db_outbox := db_outbox s @ new, db_ctr := n\<rparr>"
      by (auto simp: guest_check_def)
    have free: "tbl_status tab \<in> {TableStatusEmpty, TableStatusReserved}"
      using tab(3) by (auto simp: guestTableGuard_def staffTableGuard_def split: if_splits)
    have row: "tab \<in> set (db_tables s)" "tbl_tenant tab = gor_tenant req" "tbl_id tab = gor_table req"
      using rls_find_Some [OF tab(1)] by simp_all
    have "tab\<lparr>tbl_status := TableStatusOccupied, tbl_updated := ctx_now c\<rparr> \<in> set (db_tables s')"
      using tab(1) row by (auto simp: s' t occupy_table_def in_rls_update intro!: bexI [of _ tab])
    moreover have "chk_id k = i" "chk_tenant k = gor_tenant req" "chk_branch k = gor_branch req"
        "chk_table k = Some (gor_table req)" "chk_status k = CheckStatusOpen"
        "chk_opened_kind k = OpenedByKindGuestQR" "chk_opened_by k = None"
      by (simp_all add: k(1) tab(4) check_insert_row_def guest_check_def)
    ultimately show ?thesis
      using None g created stored s' once tab(2) free row k(2) by (auto simp: t)
  qed
qed

definition demo_guest :: "uuid \<Rightarrow> guest_order_request" where
  "demo_guest t =
     \<lparr>gor_tenant = 1, gor_branch = 10, gor_table = t, gor_qr = 70, gor_session = 71,
      gor_lines = [\<lparr>gol_product = 40, gol_name = ''Ayran'', gol_base = 500, gol_unit = 500,
        gol_cost = None, gol_currency = ''TRY'', gol_tax_bps = 1000, gol_qty = 2, gol_note = '''',
        gol_modifiers = []\<rparr>],
      gor_note = ''''\<rparr>"

lemma demo_guest_ok:
  "tx_ok (OrderService_PlaceGuest id id demo_ctx (demo_guest 31) None) demo_db"
  by code_simp

theorem PlaceGuest_success_witness:
  "\<exists>g s'. OrderService_PlaceGuest id id demo_ctx (demo_guest 31) None demo_db = Inr (g, s') \<and>
     gre_check g = 100 \<and> db_checks s' = db_checks demo_db"
proof -
  obtain g s' where run: "OrderService_PlaceGuest id id demo_ctx (demo_guest 31) None demo_db = Inr (g, s')"
    by (rule tx_okE [OF demo_guest_ok])
  have "rls_find chk_tenant (pos_tx demo_ctx (gor_tenant (demo_guest 31)))
         (\<lambda>k. chk_table k = Some (gor_table (demo_guest 31)) \<and> chk_status k = CheckStatusOpen)
         (db_checks demo_db) = Some (demo_check 100 1 (Some 31) CheckStatusOpen)"
    by (simp add: demo_guest_def demo_db_def demo_check_def rls_find_def find_row_def)
  with PlaceGuest_success [OF run] run show ?thesis by (auto simp: demo_check_def)
qed

section \<open>Two guests at one table\<close>

text \<open>What it takes for an order to be stored: lines the table accepts, ids nobody has used, a
  storefront that does not refuse.\<close>

definition line_storable :: "guest_order_line \<Rightarrow> bool" where
  "line_storable l \<longleftrightarrow>
     0 < gol_qty l \<and> int32_range (gol_qty l) \<and> 0 \<le> gol_tax_bps l \<and> gol_tax_bps l \<le> 10000 \<and>
     int64_range (gol_base l) \<and> int64_range (gol_unit l) \<and>
     (case gol_cost l of None \<Rightarrow> True | Some c \<Rightarrow> 0 \<le> c \<and> int64_range c)"

definition next_ids :: "nat \<Rightarrow> pos_db \<Rightarrow> uuid list" where
  "next_ids n s = map (db_rand s) [db_ctr s ..< db_ctr s + n]"

definition ids_unused :: "nat \<Rightarrow> pos_db \<Rightarrow> bool" where
  "ids_unused n s \<longleftrightarrow> distinct (next_ids n s) \<and>
     (\<forall>i \<in> set (next_ids n s). i \<notin> ord_id ` set (db_orders s) \<and> i \<notin> itm_id ` set (db_items s) \<and>
        i \<notin> obx_id ` set (db_outbox s))"

definition link_accepts :: "guest_linker \<Rightarrow> pgtx \<Rightarrow> uuid \<Rightarrow> bool" where
  "link_accepts link tx k \<longleftrightarrow>
     (case link of None \<Rightarrow> True | Some f \<Rightarrow> \<forall>g. gre_check g = k \<longrightarrow> f tx g = Inr ())"

lemma next_ids_Suc: "next_ids (Suc n) s = db_rand s (db_ctr s) # next_ids n (s\<lparr>db_ctr := Suc (db_ctr s)\<rparr>)"
  by (simp add: next_ids_def upt_rec)

lemma insertItems_stores:
  assumes "\<forall>it \<in> set its. \<forall>j. item_row_ok (item_insert_row tx j (tx_tenant tx) i it)"
    and "i \<in> ord_id ` set (db_orders s)"
    and "distinct (next_ids (length its) s)" and "\<forall>j \<in> set (next_ids (length its) s). j \<notin> itm_id ` set (db_items s)"
  shows "\<exists>rows s'. OrderRepo_insertItems tx i (tx_tenant tx) its s = Inr (rows, s') \<and>
    db_ctr s' = db_ctr s + length its \<and> db_rand s' = db_rand s \<and> db_outbox s' = db_outbox s"
  using assms
proof (induction its arbitrary: s)
  case (Cons it its)
  let ?row = "item_insert_row tx (db_rand s (db_ctr s)) (tx_tenant tx) i it"
  let ?t = "s\<lparr>db_ctr := Suc (db_ctr s), db_items := db_items s @ [?row]\<rparr>"
  have ids: "next_ids (length its) (s\<lparr>db_ctr := Suc (db_ctr s)\<rparr>) = next_ids (length its) ?t"
    by (simp add: next_ids_def)
  have "itm_id ?row = db_rand s (db_ctr s)" by (simp add: item_insert_row_def)
  with Cons.prems have "\<exists>rows s'. OrderRepo_insertItems tx i (tx_tenant tx) its ?t = Inr (rows, s') \<and>
    db_ctr s' = db_ctr ?t + length its \<and> db_rand s' = db_rand ?t \<and> db_outbox s' = db_outbox ?t"
    by (intro Cons.IH) (auto simp: next_ids_Suc ids)
  moreover have "tb_tenant items_table ?row = tx_tenant tx" "item_refs_ok s ?row"
    using Cons.prems(2) by (simp_all add: item_insert_row_def item_refs_ok_def)
  then have "(tx_bind gen_random_uuid (\<lambda>j. pos_sql (sql_insert items_table tx
      (item_insert_row tx j (tx_tenant tx) i it)))) s = Inr (?row, ?t)"
    using Cons.prems(1,4) by (auto simp: tx_inv gen_random_uuid_Inr items.insert_Inr item_refs_ok_def next_ids_Suc
        item_insert_row_def)
  ultimately show ?case by (auto simp: OrderRepo_insertItems_def tx_bind_def)
qed (simp add: OrderRepo_insertItems_def)

lemma OrderRepo_Create_stores:
  assumes row: "order_row_ok (order_insert_row tx (db_rand s (db_ctr s)) r)"
    and refs: "order_refs_ok s r" and tn: "ord_tenant r = tx_tenant tx"
    and its: "\<forall>it \<in> set (ord_items r). \<forall>i j. item_row_ok (item_insert_row tx j (tx_tenant tx) i it)"
    and ids: "ids_unused (Suc (length (ord_items r))) s"
  shows "\<exists>created s'. OrderRepo_Create tx r s = Inr (created, s') \<and>
    db_ctr s' = db_ctr s + Suc (length (ord_items r)) \<and> db_rand s' = db_rand s \<and> db_outbox s' = db_outbox s"
proof -
  let ?i = "db_rand s (db_ctr s)" and ?n = "length (ord_items r)"
  let ?row = "order_insert_row tx ?i r"
  let ?t = "s\<lparr>db_ctr := Suc (db_ctr s), db_orders := db_orders s @ [?row]\<rparr>"
  have "order_refs_ok s ?row" "ord_tenant ?row = tx_tenant tx" "ord_id ?row = ?i"
    using refs tn by (simp_all add: order_refs_ok_def order_insert_row_def)
  then have first: "(gen_random_uuid :: (pos_db, pos_err, uuid) tx) s = Inr (?i, s\<lparr>db_ctr := Suc (db_ctr s)\<rparr>)"
    "pos_sql (sql_insert orders_table tx ?row) (s\<lparr>db_ctr := Suc (db_ctr s)\<rparr>) = Inr (?row, ?t)"
    using row ids by (auto simp: tx_inv gen_random_uuid_def orders.insert_Inr order_refs_ok_def ids_unused_def next_ids_Suc
        split: option.splits)
  have next_t: "next_ids ?n (s\<lparr>db_ctr := Suc (db_ctr s)\<rparr>) = next_ids ?n ?t" by (simp add: next_ids_def)
  have "\<exists>rows s'. OrderRepo_insertItems tx ?i (tx_tenant tx) (ord_items r) ?t = Inr (rows, s') \<and>
    db_ctr s' = db_ctr ?t + ?n \<and> db_rand s' = db_rand ?t \<and> db_outbox s' = db_outbox ?t"
    using its ids \<open>ord_id ?row = ?i\<close>
    by (intro insertItems_stores) (auto simp: ids_unused_def next_ids_Suc next_t)
  then obtain rows s' where rows: "OrderRepo_insertItems tx (ord_id ?row) (ord_tenant ?row) (ord_items r) ?t = Inr (rows, s')"
    and s': "db_ctr s' = db_ctr ?t + ?n" "db_rand s' = db_rand ?t" "db_outbox s' = db_outbox ?t"
    unfolding \<open>ord_id ?row = ?i\<close> \<open>ord_tenant ?row = tx_tenant tx\<close> by blast
  have "OrderRepo_Create tx r s = Inr (?row\<lparr>ord_items := rows\<rparr>, s')"
    unfolding OrderRepo_Create_def
    by (simp only: tx_bind_cases(2) [where m = gen_random_uuid and s = s, OF first(1)] tx_bind_cases(2) [where m = "pos_sql (sql_insert orders_table tx ?row)", OF first(2)] tx_bind_cases(2) [where m = "OrderRepo_insertItems tx (ord_id ?row) (ord_tenant ?row) (ord_items r)", OF rows] tx_eval)
  with s' show ?thesis by simp
qed

lemma guest_items_storable:
  assumes "\<forall>l \<in> set ls. line_storable l"
  shows "\<forall>it \<in> set (guestOrderItems ls). \<forall>i j. item_row_ok (item_insert_row tx j tn i it)"
  using assms
  by (auto simp: guestOrderItems_def guest_item_def item_row_ok_def item_insert_row_def line_storable_def
      split: option.splits)

text \<open>An order for a table with an open check of the guest's branch is placed on that check.\<close>

lemma placeGuestTx_joins:
  assumes found: "rls_find chk_tenant tx (\<lambda>k. chk_table k = Some (gor_table req) \<and> chk_status k = CheckStatusOpen)
      (db_checks s) = Some cur" and branch: "chk_branch cur = gor_branch req"
    and tn: "gor_tenant req = tx_tenant tx"
    and lines: "\<forall>l \<in> set (gor_lines req). line_storable l" and link: "link_accepts link tx (chk_id cur)"
    and ids: "ids_unused (length (gor_lines req) + 3) s"
  shows "\<exists>g s'. placeGuestTx others req link tx s = Inr (g, s')"
proof -
  let ?n = "length (gor_lines req)"
  have "\<exists>r. applyBirthStatus tx (guest_order req) None s = Inr (r, s)"
    by (simp add: applyBirthStatus_def tx_bind_def)
  then obtain r where born: "applyBirthStatus tx (guest_order req) None s = Inr (r, s)" by blast
  note b = applyBirthStatus_Inr [OF born]
  let ?r = "r\<lparr>ord_check := Some (chk_id cur)\<rparr>"
  have items: "ord_items ?r = guestOrderItems (gor_lines req)" "length (guestOrderItems (gor_lines req)) = ?n"
    using b by (simp_all add: guest_order_def guestOrderItems_def)
  have unused: "ids_unused (Suc ?n) s"
  proof -
    have "db_ctr s + (?n + 3) = db_ctr s + Suc ?n + 2" by simp
    then have "next_ids (?n + 3) s = next_ids (Suc ?n) s @ map (db_rand s) [db_ctr s + Suc ?n ..< db_ctr s + Suc ?n + 2]"
      by (simp only: next_ids_def map_append [symmetric] upt_add_eq_append [OF le_add1])
    with ids show ?thesis by (simp add: ids_unused_def)
  qed
  have "\<exists>created s1. OrderRepo_Create tx ?r s = Inr (created, s1) \<and>
    db_ctr s1 = db_ctr s + Suc (length (ord_items ?r)) \<and> db_rand s1 = db_rand s \<and> db_outbox s1 = db_outbox s"
  proof (rule OrderRepo_Create_stores)
    show "order_row_ok (order_insert_row tx (db_rand s (db_ctr s)) ?r)"
      using b by (auto simp: order_row_ok_def order_insert_row_def guest_order_def birth_status_def)
    show "order_refs_ok s ?r" using rls_find_Some [OF found] by (simp add: order_refs_ok_def)
    show "ord_tenant ?r = tx_tenant tx" using b tn by (simp add: guest_order_def)
  qed (use guest_items_storable [OF lines] unused items in simp_all)
  then obtain created s1 where create: "OrderRepo_Create tx ?r s = Inr (created, s1)"
    and s1: "db_ctr s1 = db_ctr s + Suc ?n" "db_rand s1 = db_rand s" "db_outbox s1 = db_outbox s"
    using items by auto
  have fresh: "db_rand s (db_ctr s + Suc ?n) \<notin> obx_id ` set (db_outbox s)"
      "db_rand s (Suc (db_ctr s + Suc ?n)) \<notin> obx_id ` set (db_outbox s)"
      "db_rand s (Suc (db_ctr s + Suc ?n)) \<noteq> db_rand s (db_ctr s + Suc ?n)"
  proof -
    have mem: "db_ctr s + Suc ?n \<in> {db_ctr s ..< db_ctr s + (?n + 3)}" "Suc (db_ctr s + Suc ?n) \<in> {db_ctr s ..< db_ctr s + (?n + 3)}"
      by simp_all
    with ids show "db_rand s (db_ctr s + Suc ?n) \<notin> obx_id ` set (db_outbox s)"
      "db_rand s (Suc (db_ctr s + Suc ?n)) \<notin> obx_id ` set (db_outbox s)"
      unfolding ids_unused_def next_ids_def set_map set_upt by blast+
    from ids have "inj_on (db_rand s) {db_ctr s ..< db_ctr s + (?n + 3)}"
      by (simp add: ids_unused_def next_ids_def distinct_map)
    from inj_on_eq_iff [OF this mem] show "db_rand s (Suc (db_ctr s + Suc ?n)) \<noteq> db_rand s (db_ctr s + Suc ?n)" by auto
  qed
  have tenant: "ord_tenant created = tx_tenant tx"
    using OrderRepo_Create_Inr [OF create] b tn by (auto simp: order_insert_row_def guest_order_def)
  let ?g = "\<lparr>gre_order = ord_id created, gre_check = chk_id cur, gre_status = order_status_string (ord_status created)\<rparr>"
  have linked: "(case link of None \<Rightarrow> tx_return () | Some f \<Rightarrow> tx_lift (f tx ?g)) s1 = Inr ((), s1)"
    using link by (auto simp: link_accepts_def split: option.split)
  have out: "\<exists>s2. InsertOutbox tx (gor_tenant req) agg aid ty payload s1 = Inr ((), s2) \<and>
      db_ctr s2 = Suc (db_ctr s + Suc ?n) \<and> db_rand s2 = db_rand s \<and>
      obx_id ` set (db_outbox s2) = insert (db_rand s (db_ctr s + Suc ?n)) (obx_id ` set (db_outbox s))" for agg aid ty payload
    using fresh(1) by (simp add: InsertOutbox_Inr s1 tn outbox_event_def)
  have accepted: "\<exists>s3. insertBornAcceptedEvent tx created s2 = Inr ((), s3)"
    if "db_ctr s2 = Suc (db_ctr s + Suc ?n)" "db_rand s2 = db_rand s"
      "obx_id ` set (db_outbox s2) = insert (db_rand s (db_ctr s + Suc ?n)) (obx_id ` set (db_outbox s))" for s2
    using fresh(2,3) that by (simp add: insertBornAcceptedEvent_def InsertOutbox_Inr tenant)
  have got: "resolveGuestCheck others tx req s = Inr (cur, s)"
    using resolveGuestCheck_found [OF found, of others] branch by (simp only: if_True simp_thms)
  from out obtain s2 where s2: "InsertOutbox tx (gor_tenant req) ''order'' (ord_id created) ''order.placed''
          [(''tenant_id'', JId (gor_tenant req)), (''order_id'', JId (ord_id created)),
           (''branch_id'', JId (ord_branch created)),
           (''check_id'', json_opt_id (ord_check created)),
           (''order_channel'', JStr (order_channel_string (ord_channel created))),
           (''source'', JStr (source_string (ord_source created))),
           (''item_count'', JInt (int (length (ord_items created))))] s1 = Inr ((), s2)"
    and s2': "db_ctr s2 = Suc (db_ctr s + Suc ?n)" "db_rand s2 = db_rand s"
      "obx_id ` set (db_outbox s2) = insert (db_rand s (db_ctr s + Suc ?n)) (obx_id ` set (db_outbox s))" by blast
  from accepted [OF s2'] obtain s3 where "insertBornAcceptedEvent tx created s2 = Inr ((), s3)" by blast
  with born got create linked s2 show ?thesis by (simp add: placeGuestTx_def tx_bind_cases(2) Let_def)
qed

text \<open>C29: when somebody else opens a check on the table between a guest's lookup and the moment the
  guest's transaction locks the table, the guest is not turned away: the attempt is rolled
  back and repeated once, on what the other one committed, and, as long as the lines can be
  stored and the storefront does not refuse, it succeeds: the new order lies on the check that
  won, and no check is opened or changed for it.\<close>

theorem PlaceGuest_race:
  assumes req: "gor_lines req \<noteq> []" "gor_tenant req \<noteq> uuid_Nil" "\<forall>l \<in> set (gor_lines req). line_storable l"
    and lookup: "rls_find chk_tenant (pos_tx c (gor_tenant req))
       (\<lambda>k. chk_table k = Some (gor_table req) \<and> chk_status k = CheckStatusOpen) (db_checks s) = None"
    and table: "rls_find tbl_tenant (pos_tx c (gor_tenant req)) (\<lambda>t. tbl_id t = gor_table req)
       (db_tables (others s)) = Some t" "tbl_branch t = gor_branch req" "tbl_status t = TableStatusOccupied"
    and winner: "rls_find chk_tenant (pos_tx c (gor_tenant req))
       (\<lambda>k. chk_table k = Some (gor_table req) \<and> chk_status k = CheckStatusOpen)
       (db_checks (others s)) = Some cur" "chk_branch cur = gor_branch req"
    and link: "link_accepts link (pos_tx c (gor_tenant req)) (chk_id cur)"
    and ids: "ids_unused (length (gor_lines req) + 3) (others s)"
  shows "\<exists>g s' created. OrderService_PlaceGuest others others' c req link s = Inr (g, s') \<and>
     gre_check g = chk_id cur \<and> db_checks s' = db_checks (others s) \<and> db_tables s' = db_tables (others s) \<and>
     db_orders s' = db_orders (others s) @ [created\<lparr>ord_items := []\<rparr>] \<and> ord_id created = gre_order g \<and>
     ord_check created = Some (chk_id cur) \<and> list_all2 guest_line_stored (gor_lines req) (ord_items created)"
proof -
  let ?tx = "pos_tx c (gor_tenant req)"
  have "TableRepo_GetTableForUpdate ?tx (gor_table req) (others s) = Inr (t, others s)"
    using table(1) by (simp add: TableRepo_GetTableForUpdate_Inr)
  then have "take_table ?tx (guest_check req) guestTableGuard (others s) = Inl PubTableOccupied"
    using table(2,3)
    by (simp add: take_table_def guest_check_def tx_bind_def guestTableGuard_def staffTableGuard_def tx_lift_def)
  then have "resolveGuestCheck others ?tx req s = Inl PubTableOccupied"
    using resolveGuestCheck_none [OF lookup, of others] by (simp add: openCheckTx_def tx_bind_def)
  then have "placeGuestTx others req link ?tx s = Inl PubTableOccupied"
    by (simp add: placeGuestTx_def tx_bind_def applyBirthStatus_def)
  then have "placeGuestOnce others c req link s = Inl PubTableOccupied"
    using req(2) by (simp add: placeGuestOnce_def WithTenantTx_valid tx_map_err_def mapGuestErr_def)
  then have again: "OrderService_PlaceGuest others others' c req link s =
      placeGuestOnce others' c req link (others s)"
    using req(1) by (simp add: OrderService_PlaceGuest_def)
  from placeGuestTx_joins [OF winner _ req(3) link ids, of others'] obtain g s' where
    placed: "placeGuestTx others' req link ?tx (others s) = Inr (g, s')" by auto
  then have run: "OrderService_PlaceGuest others others' c req link s = Inr (g, s')"
    using req(2) by (simp add: again placeGuestOnce_def)
  have "resolveGuestCheck others' ?tx req (others s) = Inr (cur, others s)"
    using resolveGuestCheck_found [OF winner(1), of others'] winner(2) by (simp only: if_True simp_thms)
  with placeGuestTx_Inr [OF placed] show ?thesis unfolding run by (auto dest: guest_lines_stored)
qed

text \<open>The other one is a waiter opening a check on the same table.\<close>

definition demo_other :: "pos_db \<Rightarrow> pos_db" where
  "demo_other s =
     snd (projr (CheckService_Open demo_ctx 1 demo_principal (demo_check 0 1 (Some 30) CheckStatusOpen) s))"

theorem PlaceGuest_race_witness:
  "\<exists>g s'. OrderService_PlaceGuest demo_other id demo_ctx (demo_guest 30) None demo_db = Inr (g, s') \<and>
     db_checks s' = db_checks (demo_other demo_db)"
proof -
  let ?req = "demo_guest 30"
  have req: "gor_lines ?req \<noteq> []" "gor_tenant ?req \<noteq> uuid_Nil" "\<forall>l \<in> set (gor_lines ?req). line_storable l"
    by (simp_all add: demo_guest_def uuid_Nil_def line_storable_def int32_range_def int64_range_def)
  have lookup: "rls_find chk_tenant (pos_tx demo_ctx (gor_tenant ?req))
       (\<lambda>k. chk_table k = Some (gor_table ?req) \<and> chk_status k = CheckStatusOpen) (db_checks demo_db) = None"
    by code_simp
  have t: "case rls_find tbl_tenant (pos_tx demo_ctx (gor_tenant ?req)) (\<lambda>t. tbl_id t = gor_table ?req)
       (db_tables (demo_other demo_db)) of None \<Rightarrow> False
     | Some t \<Rightarrow> tbl_branch t = gor_branch ?req \<and> tbl_status t = TableStatusOccupied"
    by code_simp
  have k: "case rls_find chk_tenant (pos_tx demo_ctx (gor_tenant ?req))
       (\<lambda>k. chk_table k = Some (gor_table ?req) \<and> chk_status k = CheckStatusOpen)
       (db_checks (demo_other demo_db)) of None \<Rightarrow> False | Some k \<Rightarrow> chk_branch k = gor_branch ?req"
    by code_simp
  have ids: "ids_unused (length (gor_lines ?req) + 3) (demo_other demo_db)" by code_simp
  from t obtain tab where tab: "rls_find tbl_tenant (pos_tx demo_ctx (gor_tenant ?req))
       (\<lambda>t. tbl_id t = gor_table ?req) (db_tables (demo_other demo_db)) = Some tab"
      "tbl_branch tab = gor_branch ?req" "tbl_status tab = TableStatusOccupied"
    by (auto split: option.splits)
  from k obtain cur where cur: "rls_find chk_tenant (pos_tx demo_ctx (gor_tenant ?req))
       (\<lambda>k. chk_table k = Some (gor_table ?req) \<and> chk_status k = CheckStatusOpen)
       (db_checks (demo_other demo_db)) = Some cur" "chk_branch cur = gor_branch ?req"
    by (auto split: option.splits)
  have "link_accepts None (pos_tx demo_ctx (gor_tenant ?req)) (chk_id cur)" by (simp add: link_accepts_def)
  from PlaceGuest_race [where others = demo_other and s = demo_db and others' = id,
      OF req lookup tab cur this ids] show ?thesis by blast
qed

end
