(* ===== verification/Pos_System_Props.thy ===== *)
theory Pos_System_Props
  imports Pos_Check_Facts Pos_Open_Props
begin

text \<open>
  What holds of every run of the point of sale, whatever calls it consists of:
  a settled bill is frozen, tenants do not see each other, rows move only along
  their lifecycles and are never lost, and a table has at most one open check.
\<close>

section \<open>Settled bills\<close>

text \<open>C2: once a check is closed, cancelled or merged away, no run of calls of any
  tenants changes its row, the orders on it or their lines, so what it owed it owes
  for good.\<close>

theorem settled_check_frozen:
  assumes schema: "schema_ok s" and run: "pos_run s tns s'"
    and c: "c \<in> set (db_checks s)" "chk_id c \<noteq> uuid_Nil" "chk_status c \<noteq> CheckStatusOpen"
  shows "c \<in> set (db_checks s') \<and>
     filter (\<lambda>r. ord_check r = Some (chk_id c)) (db_orders s') =
     filter (\<lambda>r. ord_check r = Some (chk_id c)) (db_orders s) \<and>
     bill_of (chk_id c) s' = bill_of (chk_id c) s \<and>
     (\<forall>tx. check_total tx s' (chk_id c) = check_total tx s (chk_id c))"
proof -
  have mem: "c \<in> set (fst (bill_of (chk_id c) s))"
    using c by (simp add: bill_of_def Let_def)
  then have "settled_bill (chk_id c) (bill_of (chk_id c) s) s"
    using schema c by (auto simp: settled_bill_def)
  then have bill: "bill_of (chk_id c) s' = bill_of (chk_id c) s"
    using settled_run [OF run] by (simp add: settled_bill_def)
  with mem have "c \<in> set (fst (bill_of (chk_id c) s'))" by simp
  then have "c \<in> set (db_checks s')" by (simp add: bill_of_def Let_def)
  moreover from bill have "filter (\<lambda>r. ord_check r = Some (chk_id c)) (db_orders s') =
      filter (\<lambda>r. ord_check r = Some (chk_id c)) (db_orders s)"
    by (simp add: bill_of_def Let_def)
  ultimately show ?thesis using bill check_total_bill [OF bill] by simp
qed

text \<open>A run of two calls: the waiter closes check 100, then opens one at a table.\<close>

definition demo_closed :: pos_db where
  "demo_closed = snd (projr (CheckService_Close (demo_sales 1700 0) demo_ctx 1 demo_principal 100 5 demo_db))"

lemma demo_closed_run: "pos_run demo_db [1] demo_closed"
proof -
  obtain r s' where "CheckService_Close (demo_sales 1700 0) demo_ctx 1 demo_principal 100 5 demo_db = Inr (r, s')"
    by (rule tx_okE [OF demo_close_ok])
  then have "pos_step 1 demo_db demo_closed" by (auto simp: demo_closed_def intro: step_close)
  then show ?thesis using run_step [OF run_nil] by fastforce
qed

lemma demo_run: "\<exists>s'. pos_run demo_db [1, 1] s'"
proof -
  have "tx_ok (CheckService_Open demo_ctx 1 demo_principal (demo_check 0 1 (Some 30) CheckStatusOpen)) demo_closed"
    by code_simp
  then obtain r s' where "CheckService_Open demo_ctx 1 demo_principal
      (demo_check 0 1 (Some 30) CheckStatusOpen) demo_closed = Inr (r, s')"
    by (rule tx_okE)
  then have "pos_step 1 demo_closed s'" by (rule step_open)
  with demo_closed_run have "pos_run demo_db ([1] @ [1]) s'" by (rule run_step)
  then show ?thesis by auto
qed

theorem settled_check_frozen_witness:
  "\<exists>s'. pos_run demo_db [1, 1] s' \<and> demo_check 102 1 None CheckStatusClosed \<in> set (db_checks s') \<and>
        check_total (pos_tx demo_ctx 1) s' 102 = 300"
proof -
  obtain s' where run: "pos_run demo_db [1, 1] s'" using demo_run by blast
  let ?c = "demo_check 102 1 None CheckStatusClosed"
  have "?c \<in> set (db_checks demo_db)" "chk_id ?c \<noteq> uuid_Nil" "chk_status ?c \<noteq> CheckStatusOpen"
    by (simp_all add: demo_db_def demo_check_def uuid_Nil_def)
  from settled_check_frozen [OF demo_schema run this]
  have "?c \<in> set (db_checks s')"
    "check_total (pos_tx demo_ctx 1) s' (chk_id ?c) = check_total (pos_tx demo_ctx 1) demo_db (chk_id ?c)"
    by blast+
  moreover have "chk_id ?c = 102" by (simp add: demo_check_def)
  moreover have "check_total (pos_tx demo_ctx 1) demo_db 102 = 300" by code_simp
  ultimately show ?thesis using run by auto
qed

section \<open>Tenants\<close>

text \<open>C26: a run in which a tenant made no call leaves every row of that tenant as it
  was: its checks, orders, lines, tables, zones and settings, and its outbox.\<close>

theorem tenant_isolation:
  assumes "pos_run s tns s'" and "tn \<notin> set tns"
  shows "tenant_view tn s' = tenant_view tn s"
  using assms
proof (induction rule: pos_run.induct)
  case (run_step s tns t tn' u)
  then have "same_foreign tn' t u" by (blast dest: pos_step_evolves [unfolded evolves_def])
  with run_step show ?case by (simp add: same_foreign_view)
qed simp

theorem tenant_isolation_witness:
  "\<exists>s'. pos_run demo_db [1, 1] s' \<and> tenant_view 2 s' = tenant_view 2 demo_db"
proof -
  obtain s' where run: "pos_run demo_db [1, 1] s'" using demo_run by blast
  then have "tenant_view 2 s' = tenant_view 2 demo_db" by (rule tenant_isolation) simp
  with run show ?thesis by blast
qed

section \<open>History\<close>

text \<open>C28: no run loses a check, an order or a line, and each moves only along its
  lifecycle. A check keeps its tenant, branch, origin and opening time, its guest
  count never falls, and it leaves \<open>open\<close> at most once. An order keeps its tenant,
  branch, channel and source, and its status moves along the transition table, or from
  a live status to \<open>delivered\<close>. A line may move to another order and keeps its
  product, quantity, prices and cost. The outbox is only appended to.\<close>

theorem history_is_kept:
  assumes run: "pos_run s tns s'"
  shows "(\<forall>c \<in> set (db_checks s). \<exists>c' \<in> set (db_checks s').
            chk_id c' = chk_id c \<and> chk_tenant c' = chk_tenant c \<and> chk_branch c' = chk_branch c \<and>
            chk_opened_by c' = chk_opened_by c \<and> chk_source c' = chk_source c \<and>
            chk_opened_at c' = chk_opened_at c \<and> chk_pax c \<le> chk_pax c' \<and>
            (chk_status c = CheckStatusOpen \<or> chk_status c' = chk_status c)) \<and>
         (\<forall>r \<in> set (db_orders s). \<exists>r' \<in> set (db_orders s').
            ord_id r' = ord_id r \<and> ord_tenant r' = ord_tenant r \<and> ord_branch r' = ord_branch r \<and>
            ord_channel r' = ord_channel r \<and> ord_source r' = ord_source r \<and>
            order_step\<^sup>*\<^sup>* (ord_status r) (ord_status r')) \<and>
         (\<forall>it \<in> set (db_items s). \<exists>it' \<in> set (db_items s'). it' = it\<lparr>itm_order := itm_order it'\<rparr>) \<and>
         (\<exists>new. db_outbox s' = db_outbox s @ new)"
proof (intro conjI ballI)
  note h = pos_run_history [OF run]
  fix c assume "c \<in> set (db_checks s)"
  with h obtain c' where "c' \<in> set (db_checks s')" "check_moves c c'"
    by (blast dest: rows_moveD)
  then show "\<exists>c' \<in> set (db_checks s').
            chk_id c' = chk_id c \<and> chk_tenant c' = chk_tenant c \<and> chk_branch c' = chk_branch c \<and>
            chk_opened_by c' = chk_opened_by c \<and> chk_source c' = chk_source c \<and>
            chk_opened_at c' = chk_opened_at c \<and> chk_pax c \<le> chk_pax c' \<and>
            (chk_status c = CheckStatusOpen \<or> chk_status c' = chk_status c)"
    by (auto simp: check_moves_def)
next
  note h = pos_run_history [OF run]
  fix r assume "r \<in> set (db_orders s)"
  with h obtain r' where "r' \<in> set (db_orders s')" "order_moves r r'"
    by (blast dest: rows_moveD)
  then show "\<exists>r' \<in> set (db_orders s').
            ord_id r' = ord_id r \<and> ord_tenant r' = ord_tenant r \<and> ord_branch r' = ord_branch r \<and>
            ord_channel r' = ord_channel r \<and> ord_source r' = ord_source r \<and>
            order_step\<^sup>*\<^sup>* (ord_status r) (ord_status r')"
    by (auto simp: order_moves_def)
next
  note h = pos_run_history [OF run]
  fix it assume "it \<in> set (db_items s)"
  with h obtain it' where "it' \<in> set (db_items s')" "item_moves it it'"
    by (blast dest: rows_moveD)
  then show "\<exists>it' \<in> set (db_items s'). it' = it\<lparr>itm_order := itm_order it'\<rparr>"
    by (auto simp: item_moves_def)
qed (use pos_run_history [OF run] in \<open>simp add: outbox_grows_def\<close>)

theorem history_is_kept_witness:
  "\<exists>s'. pos_run demo_db [1, 1] s' \<and> (\<exists>it \<in> set (db_items s'). itm_unit_price it = 700 \<and> itm_id it = 301)"
proof -
  obtain s' where run: "pos_run demo_db [1, 1] s'" using demo_run by blast
  have "demo_item 301 200 1 700 \<in> set (db_items demo_db)" by (simp add: demo_db_def)
  with history_is_kept [OF run] obtain it' where "it' \<in> set (db_items s')"
    and it': "it' = (demo_item 301 200 1 700)\<lparr>itm_order := itm_order it'\<rparr>"
    by blast
  moreover have "itm_unit_price it' = 700" "itm_id it' = 301"
    by (subst it', simp add: demo_item_def)+
  ultimately show ?thesis using run by blast
qed

end
