(* ===== verification/Pay_Domain.thy ===== *)
theory Pay_Domain
  imports Status_Machine Rls_Rows Outbox_Row
begin

text \<open>
  The data of the payment module: backend/internal/modules/payment/domain. A
  payment is money taken for a check; a fiscal sale is the basket the fiscal
  device of the branch must print for it; a cash session is one shift of the
  branch's drawer.
\<close>

section \<open>Errors\<close>

text \<open>The sentinel errors of payment/domain, payment/repo, payment/public and
  payment/service; \<open>CashSessionCannotCloseError\<close> carries the number of pending
  registrations its message reports.\<close>

datatype pay_err =
    PayNotFound                      \<comment> \<open>domain.ErrNotFound, the repositories' not-found\<close>
  | PayDuplicateIdempotencyKey
  | PayActiveSubmissionExists
  | PayRepoSessionAlreadyOpen
  | PayInvalidSessionTransition
  | PayDenominationSumMismatch
  | PayFiscalTotalMismatch
  | PayPubNotFound                   \<comment> \<open>payment/public from here on\<close>
  | PayBranchForbidden
  | PaySessionAlreadyOpen
  | PayNoCashSessionOpen
  | PayInvalidInput
  | PayCheckNotOpen
  | PayCheckBranchMismatch
  | PayCheckNotFound
  | PayExceedsDue
  | PayRoundingNotAllowed
  | PaySessionClosed
  | PaySessionScopedPrincipal
  | PayPinVerificationFailed
  | PaySubmissionNotExpirable
  | PayCannotClose nat
  | PayNilTenant
  | PayDb pg_error
  | PayOther string

section \<open>Payments\<close>

datatype payment_method =
    MethodCash | MethodTerminal | MethodMealCard | MethodComp | MethodNoCharge
  | MethodOpenAccount | MethodOther string

fun PaymentMethod_Valid :: "payment_method \<Rightarrow> bool" where
  "PaymentMethod_Valid (MethodOther _) = False"
| "PaymentMethod_Valid _ = True"

fun payment_method_string :: "payment_method \<Rightarrow> string" where
  "payment_method_string MethodCash = ''cash''"
| "payment_method_string MethodTerminal = ''terminal''"
| "payment_method_string MethodMealCard = ''meal_card''"
| "payment_method_string MethodComp = ''comp''"
| "payment_method_string MethodNoCharge = ''no_charge''"
| "payment_method_string MethodOpenAccount = ''open_account''"
| "payment_method_string (MethodOther s) = s"

datatype payment_status =
    PaymentPending | PaymentCompleted | PaymentFailed | PaymentVoided | PaymentStatusOther string

fun payment_status_string :: "payment_status \<Rightarrow> string" where
  "payment_status_string PaymentPending = ''pending''"
| "payment_status_string PaymentCompleted = ''completed''"
| "payment_status_string PaymentFailed = ''failed''"
| "payment_status_string PaymentVoided = ''voided''"
| "payment_status_string (PaymentStatusOther s) = s"

record payment =
  pmt_id :: uuid
  pmt_tenant :: uuid
  pmt_branch :: uuid
  pmt_check :: "uuid option"
  pmt_key :: string
  pmt_method :: payment_method
  pmt_status :: payment_status
  pmt_amount :: int
  pmt_rounding :: int
  pmt_currency :: string
  pmt_receipt :: "uuid option"
  pmt_created :: time
  pmt_completed :: "time option"

definition SettledAmount :: "payment \<Rightarrow> int" where
  "SettledAmount p = wrap64 (pmt_amount p + pmt_rounding p)"

record method_total =
  mtt_method :: string
  mtt_status :: string
  mtt_count :: int
  mtt_sum :: int

section \<open>Fiscal sales\<close>

datatype fiscal_status =
    FiscalPending | FiscalSubmitted | FiscalCompleted | FiscalFailed | FiscalVoided
  | FiscalExpired | FiscalOther string

record fiscal_line =
  fln_name :: string
  fln_unit_price :: int
  fln_qty_milli :: int
  fln_tax :: int
  fln_category :: uuid
  fln_unit :: string

record fiscal_payment =
  fpm_method :: payment_method
  fpm_amount :: int

datatype fiscal_adjust_kind = AdjustDiscount | AdjustSurcharge | AdjustKindOther string

datatype fiscal_adjust_mode = AdjustAmount | AdjustPercent | AdjustModeOther string

record fiscal_adjust =
  adj_description :: string
  adj_kind :: fiscal_adjust_kind
  adj_mode :: fiscal_adjust_mode
  adj_value :: int

record fiscal_customer =
  fcu_name :: string
  fcu_tax_id :: string
  fcu_tax_office :: string
  fcu_email :: string
  fcu_telephone :: string
  fcu_address :: string

record fiscal_meta =
  fme_table_label :: string
  fme_waiter :: string
  fme_check_number :: int

record fiscal_sale =
  fsl_submission :: uuid
  fsl_tenant :: uuid
  fsl_branch :: uuid
  fsl_payment :: uuid
  fsl_check :: "uuid option"
  fsl_currency :: string
  fsl_total :: int
  fsl_lines :: "fiscal_line list"
  fsl_payments :: "fiscal_payment list"
  fsl_discount :: "fiscal_adjust option"
  fsl_customer :: "fiscal_customer option"
  fsl_meta :: fiscal_meta

text \<open>Go's \<open>/\<close> on \<open>int64\<close> truncates; both divisions here are of non-negative
  numbers, except where \<open>-n\<close> overflows, which \<open>wrap64\<close> keeps.\<close>

definition go_div :: "int \<Rightarrow> int \<Rightarrow> int" where
  "go_div a b = wrap64 (sgn a * sgn b * (\<bar>a\<bar> div \<bar>b\<bar>))"

definition roundDiv :: "int \<Rightarrow> int \<Rightarrow> int" where
  "roundDiv n d =
     (if n < 0 then wrap64 (- go_div (wrap64 (wrap64 (- n) + go_div d 2)) d)
      else go_div (wrap64 (n + go_div d 2)) d)"

definition LineTotalMinor :: "fiscal_line \<Rightarrow> int" where
  "LineTotalMinor l = roundDiv (wrap64 (fln_unit_price l * fln_qty_milli l)) 1000"

definition lines_subtotal :: "fiscal_line list \<Rightarrow> int" where
  "lines_subtotal ls = fold (\<lambda>l acc. wrap64 (acc + LineTotalMinor l)) ls 0"

definition ValidateTotal :: "fiscal_sale \<Rightarrow> pay_err + unit" where
  "ValidateTotal s =
     (let subtotal = lines_subtotal (fsl_lines s);
          net = (case fsl_discount s of
                   None \<Rightarrow> subtotal
                 | Some a \<Rightarrow>
                     let adjust = (if adj_mode a = AdjustPercent
                                   then roundDiv (wrap64 (subtotal * adj_value a)) 10000
                                   else adj_value a)
                     in if adj_kind a = AdjustSurcharge then wrap64 (subtotal + adjust)
                        else wrap64 (subtotal - adjust))
      in if net \<noteq> fsl_total s then Inl PayFiscalTotalMismatch else Inr ())"

record fiscal_submission_ref =
  ref_submission :: uuid
  ref_tenant :: uuid
  ref_branch :: uuid
  ref_terminal :: string

record fiscal_confirmed_payment =
  fcp_method :: payment_method
  fcp_vendor_type :: int
  fcp_amount :: int
  fcp_description :: string

text \<open>\<open>json.RawMessage\<close>: the text a vendor sent, or an object this code marshalled.\<close>

datatype raw_json = RawText string | RawObject "(string \<times> json) list"

text \<open>\<open>time.Time\<close>'s zero value is None; a zero status is \<open>FiscalOther ''''\<close>.\<close>

record fiscal_result =
  res_submission :: uuid
  res_tenant :: uuid
  res_branch :: uuid
  res_payment :: uuid
  res_status :: fiscal_status
  res_device :: string
  res_receipt_no :: string
  res_z_no :: string
  res_vendor_ref :: string
  res_failure :: string
  res_payments :: "fiscal_confirmed_payment list"
  res_raw :: raw_json
  res_completed_at :: "time option"
  res_device_at :: "time option"

record fiscal_capabilities =
  cap_on_device_split :: bool
  cap_void_sale :: bool
  cap_customer_info :: bool
  cap_currency_payment :: bool
  cap_operator_routing :: bool

text \<open>\<open>FiscalDeviceAdapter\<close>: the driver of the branch's device. What a call returns
  is the driver's own; None is Go's nil result, the outcome will arrive later.\<close>

record fiscal_adapter =
  SubmitSale :: "fiscal_sale \<Rightarrow> pay_err + fiscal_result option"
  AdapterVoidSale :: "fiscal_submission_ref \<Rightarrow> pay_err + fiscal_result option"
  Capabilities :: fiscal_capabilities
  AdapterType :: "string option"    \<comment> \<open>None for a driver without the method\<close>
  adapter_is_mock :: bool           \<comment> \<open>the type assertion to \<open>MockFiscalAdapter\<close>\<close>

record fiscal_receipt =
  rcp_id :: uuid
  rcp_tenant :: uuid
  rcp_payment :: uuid
  rcp_device :: string
  rcp_number :: string
  rcp_z_no :: string
  rcp_vendor_ref :: string
  rcp_data :: "string \<rightharpoonup> json"
  rcp_issued_at :: time

definition zero_result :: fiscal_result where
  "zero_result =
     \<lparr>res_submission = uuid_Nil, res_tenant = uuid_Nil, res_branch = uuid_Nil,
      res_payment = uuid_Nil, res_status = FiscalOther '''', res_device = '''',
      res_receipt_no = '''', res_z_no = '''', res_vendor_ref = '''', res_failure = '''',
      res_payments = [], res_raw = RawText '''', res_completed_at = None, res_device_at = None\<rparr>"

text \<open>\<open>MockFiscalAdapter\<close>, the driver of development and CI: it answers at once.
  The receipt number is \<open>MOCK-\<close> followed by the payment's id, whose rendering as
  text is a parameter.\<close>

definition mock_SubmitSale ::
  "(uuid \<Rightarrow> string) \<Rightarrow> time \<Rightarrow> fiscal_sale \<Rightarrow> pay_err + fiscal_result option" where
  "mock_SubmitSale show_id now sale =
     (case ValidateTotal sale of
        Inl e \<Rightarrow> Inl e
      | Inr _ \<Rightarrow> Inr (Some (zero_result
          \<lparr>res_submission := fsl_submission sale, res_tenant := fsl_tenant sale,
           res_branch := fsl_branch sale, res_payment := fsl_payment sale,
           res_status := FiscalCompleted, res_device := ''mock'',
           res_receipt_no := ''MOCK-'' @ show_id (fsl_payment sale),
           res_completed_at := Some now\<rparr>)))"

definition mock_VoidSale :: "time \<Rightarrow> fiscal_submission_ref \<Rightarrow> pay_err + fiscal_result option" where
  "mock_VoidSale now ref =
     Inr (Some (zero_result
       \<lparr>res_submission := ref_submission ref, res_tenant := ref_tenant ref,
        res_branch := ref_branch ref, res_status := FiscalVoided, res_device := ''mock'',
        res_completed_at := Some now\<rparr>))"

definition mock_Capabilities :: fiscal_capabilities where
  "mock_Capabilities =
     \<lparr>cap_on_device_split = False, cap_void_sale = True, cap_customer_info = False,
      cap_currency_payment = False, cap_operator_routing = False\<rparr>"

definition MockFiscalAdapter :: "(uuid \<Rightarrow> string) \<Rightarrow> time \<Rightarrow> fiscal_adapter" where
  "MockFiscalAdapter show_id now =
     \<lparr>SubmitSale = mock_SubmitSale show_id now, AdapterVoidSale = mock_VoidSale now,
      Capabilities = mock_Capabilities, AdapterType = None, adapter_is_mock = True\<rparr>"

section \<open>Cash sessions\<close>

datatype session_status =
    SessionOpeningControl | SessionOpened | SessionClosingControl | SessionClosed
  | SessionStatusOther string

fun CashSessionStatus_Valid :: "session_status \<Rightarrow> bool" where
  "CashSessionStatus_Valid (SessionStatusOther _) = False"
| "CashSessionStatus_Valid _ = True"

fun allowedSessionTransitions :: "session_status \<Rightarrow> session_status list" where
  "allowedSessionTransitions SessionOpeningControl = [SessionOpened]"
| "allowedSessionTransitions SessionOpened = [SessionClosingControl]"
| "allowedSessionTransitions SessionClosingControl = [SessionClosingControl, SessionClosed]"
| "allowedSessionTransitions _ = []"

definition TransitionCashSession :: "session_status \<Rightarrow> session_status \<Rightarrow> pay_err + unit" where
  "TransitionCashSession from to =
     (if \<not> CashSessionStatus_Valid to then Inl PayInvalidSessionTransition
      else if to \<in> set (allowedSessionTransitions from) then Inr ()
      else Inl PayInvalidSessionTransition)"

interpretation session_machine:
  status_machine CashSessionStatus_Valid allowedSessionTransitions TransitionCashSession
    PayInvalidSessionTransition
proof
  fix s t :: session_status
  show "TransitionCashSession s t =
    (if CashSessionStatus_Valid t \<and> t \<in> set (allowedSessionTransitions s) then Inr ()
     else Inl PayInvalidSessionTransition)"
    by (simp add: TransitionCashSession_def)
  show "t \<in> set (allowedSessionTransitions s) \<Longrightarrow>
    CashSessionStatus_Valid s \<and> CashSessionStatus_Valid t"
    by (cases s) auto
qed

datatype movement_direction = MovementIn | MovementOut | MovementOther string

definition CashMovementDirection_Valid :: "movement_direction \<Rightarrow> bool" where
  "CashMovementDirection_Valid d \<longleftrightarrow> d = MovementIn \<or> d = MovementOut"

record denomination_count =
  den_minor :: int
  den_count :: int

text \<open>The loop of \<open>ValidateDenominations\<close>: it stops at the first bad entry.\<close>

fun denominations_sum :: "int \<Rightarrow> denomination_count list \<Rightarrow> pay_err + int" where
  "denominations_sum acc [] = Inr acc"
| "denominations_sum acc (d # ds) =
     (if den_minor d \<le> 0 then Inl (PayOther ''denomination value must be positive'')
      else if den_count d < 0 then Inl (PayOther ''denomination count must not be negative'')
      else denominations_sum (wrap64 (acc + wrap64 (den_minor d * den_count d))) ds)"

definition ValidateDenominations :: "denomination_count list \<Rightarrow> int \<Rightarrow> pay_err + unit" where
  "ValidateDenominations breakdown closingCountedAmount =
     (if breakdown = [] then Inr ()
      else case denominations_sum 0 breakdown of
             Inl e \<Rightarrow> Inl e
           | Inr added \<Rightarrow> (if added \<noteq> closingCountedAmount then Inl PayDenominationSumMismatch
                        else Inr ()))"

record cash_session =
  ses_id :: uuid
  ses_tenant :: uuid
  ses_branch :: uuid
  ses_status :: session_status
  ses_opening :: int
  ses_opening_notes :: string
  ses_opened_by :: uuid
  ses_opened_at :: time
  ses_closing :: "int option"
  ses_denominations :: "denomination_count list"
  ses_closing_notes :: string
  ses_submitted_at :: "time option"
  ses_closed_by :: "uuid option"
  ses_closed_at :: "time option"
  ses_created :: time
  ses_updated :: time

record session_participant =
  prt_tenant :: uuid
  prt_session :: uuid
  prt_branch :: uuid
  prt_person :: uuid
  prt_joined :: time

record cash_movement =
  cmv_id :: uuid
  cmv_tenant :: uuid
  cmv_branch :: uuid
  cmv_session :: uuid
  cmv_direction :: movement_direction
  cmv_amount :: int
  cmv_reason :: string
  cmv_by :: uuid
  cmv_created :: time

end
