(* ===== verification/Pay_State.thy ===== *)
theory Pay_State
  imports Pay_Domain Sql_Table Auth_Principal
begin

text \<open>
  The database of the payment module: the tables of backend/migrations/payment the
  services write, with their constraints, the generator of row ids, and the
  transactions of platform/db/tenant_tx.go on it.
\<close>

section \<open>Rows\<close>

text \<open>The \<open>sale_payload\<close> column: the JSON of a sale, or text that does not parse as one.\<close>

datatype sale_json = SaleJson fiscal_sale | BrokenJson string

record submission_row =
  sub_id :: uuid
  sub_tenant :: uuid
  sub_branch :: uuid
  sub_payment :: uuid
  sub_adapter :: string
  sub_terminal :: "string option"
  sub_status :: fiscal_status
  sub_payload :: sale_json
  sub_result :: "raw_json option"
  sub_retry :: int
  sub_next_retry :: "time option"
  sub_error :: "string option"
  sub_claimed :: "time option"
  sub_created :: time
  sub_submitted :: "time option"
  sub_completed :: "time option"

record receipt_row =
  rrw_id :: uuid
  rrw_tenant :: uuid
  rrw_payment :: uuid
  rrw_device :: string
  rrw_number :: string
  rrw_data :: "string \<rightharpoonup> json"
  rrw_issued_at :: time

record pay_db =
  pd_payments :: "payment list"
  pd_receipts :: "receipt_row list"
  pd_subs :: "submission_row list"
  pd_sessions :: "cash_session list"
  pd_moves :: "cash_movement list"
  pd_parts :: "session_participant list"
  pd_outbox :: "outbox_row list"
  pd_rand :: "nat \<Rightarrow> uuid"
  pd_ctr :: nat

section \<open>Constraints\<close>

definition payment_row_ok :: "payment \<Rightarrow> bool" where
  "payment_row_ok p \<longleftrightarrow>
     PaymentMethod_Valid (pmt_method p) \<and>
     pmt_status p \<in> {PaymentPending, PaymentCompleted, PaymentFailed, PaymentVoided} \<and>
     0 < pmt_amount p \<and> int64_range (pmt_amount p) \<and>
     0 \<le> pmt_rounding p \<and> int64_range (pmt_rounding p)"

definition submission_active :: "submission_row \<Rightarrow> bool" where
  "submission_active r \<longleftrightarrow> sub_status r = FiscalPending \<or> sub_status r = FiscalSubmitted"

fun FiscalStatus_known :: "fiscal_status \<Rightarrow> bool" where
  "FiscalStatus_known (FiscalOther _) = False"
| "FiscalStatus_known _ = True"

definition submission_row_ok :: "submission_row \<Rightarrow> bool" where
  "submission_row_ok r \<longleftrightarrow> FiscalStatus_known (sub_status r) \<and> int32_range (sub_retry r)"

definition session_active :: "cash_session \<Rightarrow> bool" where
  "session_active r \<longleftrightarrow> ses_status r = SessionOpened \<or> ses_status r = SessionClosingControl"

definition session_row_ok :: "cash_session \<Rightarrow> bool" where
  "session_row_ok r \<longleftrightarrow>
     CashSessionStatus_Valid (ses_status r) \<and> 0 \<le> ses_opening r \<and> int64_range (ses_opening r) \<and>
     (case ses_closing r of None \<Rightarrow> True | Some c \<Rightarrow> 0 \<le> c \<and> int64_range c)"

definition movement_row_ok :: "cash_movement \<Rightarrow> bool" where
  "movement_row_ok r \<longleftrightarrow>
     CashMovementDirection_Valid (cmv_direction r) \<and> 0 < cmv_amount r \<and> int64_range (cmv_amount r)"

text \<open>\<open>payments_tenant_idempotency_key\<close>, \<open>fiscal_submissions_active_payment_idx\<close> and
  \<open>cash_sessions_one_open_per_branch\<close>.\<close>

definition payments_uniq :: "payment list \<Rightarrow> bool" where
  "payments_uniq ps \<longleftrightarrow> distinct (map (\<lambda>p. (pmt_tenant p, pmt_key p)) ps)"

definition submissions_uniq :: "submission_row list \<Rightarrow> bool" where
  "submissions_uniq rs \<longleftrightarrow> distinct (map sub_payment (filter submission_active rs))"

definition sessions_uniq :: "cash_session list \<Rightarrow> bool" where
  "sessions_uniq rs \<longleftrightarrow> distinct (map (\<lambda>r. (ses_tenant r, ses_branch r)) (filter session_active rs))"

section \<open>Tables\<close>

definition payments_table :: "(pay_db, payment) sql_table" where
  "payments_table =
     \<lparr>tb_get = pd_payments, tb_put = (\<lambda>rs s. s\<lparr>pd_payments := rs\<rparr>), tb_tenant = pmt_tenant,
      tb_key = pmt_id, tb_row_ok = payment_row_ok, tb_uniq = payments_uniq,
      tb_refs = (\<lambda>_ _. True)\<rparr>"

definition receipts_table :: "(pay_db, receipt_row) sql_table" where
  "receipts_table =
     \<lparr>tb_get = pd_receipts, tb_put = (\<lambda>rs s. s\<lparr>pd_receipts := rs\<rparr>), tb_tenant = rrw_tenant,
      tb_key = rrw_id, tb_row_ok = (\<lambda>_. True), tb_uniq = (\<lambda>_. True), tb_refs = (\<lambda>_ _. True)\<rparr>"

definition submissions_table :: "(pay_db, submission_row) sql_table" where
  "submissions_table =
     \<lparr>tb_get = pd_subs, tb_put = (\<lambda>rs s. s\<lparr>pd_subs := rs\<rparr>), tb_tenant = sub_tenant,
      tb_key = sub_id, tb_row_ok = submission_row_ok, tb_uniq = submissions_uniq,
      tb_refs = (\<lambda>_ _. True)\<rparr>"

definition sessions_table :: "(pay_db, cash_session) sql_table" where
  "sessions_table =
     \<lparr>tb_get = pd_sessions, tb_put = (\<lambda>rs s. s\<lparr>pd_sessions := rs\<rparr>), tb_tenant = ses_tenant,
      tb_key = ses_id, tb_row_ok = session_row_ok, tb_uniq = sessions_uniq,
      tb_refs = (\<lambda>_ _. True)\<rparr>"

definition movements_table :: "(pay_db, cash_movement) sql_table" where
  "movements_table =
     \<lparr>tb_get = pd_moves, tb_put = (\<lambda>rs s. s\<lparr>pd_moves := rs\<rparr>), tb_tenant = cmv_tenant,
      tb_key = cmv_id, tb_row_ok = movement_row_ok, tb_uniq = (\<lambda>_. True), tb_refs = (\<lambda>_ _. True)\<rparr>"

definition payment_outbox_table :: "(pay_db, outbox_row) sql_table" where
  "payment_outbox_table =
     \<lparr>tb_get = pd_outbox, tb_put = (\<lambda>rs s. s\<lparr>pd_outbox := rs\<rparr>), tb_tenant = obx_tenant,
      tb_key = obx_id, tb_row_ok = (\<lambda>_. True), tb_uniq = (\<lambda>_. True), tb_refs = (\<lambda>_ _. True)\<rparr>"

lemmas pay_tables =
  payments_table_def receipts_table_def submissions_table_def sessions_table_def
  movements_table_def payment_outbox_table_def

lemma pay_table_fields [simp]:
  "tb_get payments_table = pd_payments"
  "tb_put payments_table = (\<lambda>rs s. s\<lparr>pd_payments := rs\<rparr>)"
  "tb_tenant payments_table = pmt_tenant"
  "tb_key payments_table = pmt_id"
  "tb_row_ok payments_table = payment_row_ok"
  "tb_uniq payments_table = payments_uniq"
  "tb_refs payments_table = (\<lambda>_ _. True)"
  "tb_get receipts_table = pd_receipts"
  "tb_put receipts_table = (\<lambda>rs s. s\<lparr>pd_receipts := rs\<rparr>)"
  "tb_tenant receipts_table = rrw_tenant"
  "tb_key receipts_table = rrw_id"
  "tb_row_ok receipts_table = (\<lambda>_. True)"
  "tb_uniq receipts_table = (\<lambda>_. True)"
  "tb_refs receipts_table = (\<lambda>_ _. True)"
  "tb_get submissions_table = pd_subs"
  "tb_put submissions_table = (\<lambda>rs s. s\<lparr>pd_subs := rs\<rparr>)"
  "tb_tenant submissions_table = sub_tenant"
  "tb_key submissions_table = sub_id"
  "tb_row_ok submissions_table = submission_row_ok"
  "tb_uniq submissions_table = submissions_uniq"
  "tb_refs submissions_table = (\<lambda>_ _. True)"
  "tb_get sessions_table = pd_sessions"
  "tb_put sessions_table = (\<lambda>rs s. s\<lparr>pd_sessions := rs\<rparr>)"
  "tb_tenant sessions_table = ses_tenant"
  "tb_key sessions_table = ses_id"
  "tb_row_ok sessions_table = session_row_ok"
  "tb_uniq sessions_table = sessions_uniq"
  "tb_refs sessions_table = (\<lambda>_ _. True)"
  "tb_get movements_table = pd_moves"
  "tb_put movements_table = (\<lambda>rs s. s\<lparr>pd_moves := rs\<rparr>)"
  "tb_tenant movements_table = cmv_tenant"
  "tb_key movements_table = cmv_id"
  "tb_row_ok movements_table = movement_row_ok"
  "tb_uniq movements_table = (\<lambda>_. True)"
  "tb_refs movements_table = (\<lambda>_ _. True)"
  "tb_get payment_outbox_table = pd_outbox"
  "tb_put payment_outbox_table = (\<lambda>rs s. s\<lparr>pd_outbox := rs\<rparr>)"
  "tb_tenant payment_outbox_table = obx_tenant"
  "tb_key payment_outbox_table = obx_id"
  "tb_row_ok payment_outbox_table = (\<lambda>_. True)"
  "tb_uniq payment_outbox_table = (\<lambda>_. True)"
  "tb_refs payment_outbox_table = (\<lambda>_ _. True)"
  by (simp_all add: pay_tables)

interpretation payments: sql_table_laws payments_table by unfold_locales simp_all
interpretation receipts: sql_table_laws receipts_table by unfold_locales simp_all
interpretation submissions: sql_table_laws submissions_table by unfold_locales simp_all
interpretation sessions: sql_table_laws sessions_table by unfold_locales simp_all
interpretation movements: sql_table_laws movements_table by unfold_locales simp_all
interpretation payment_outbox: sql_table_laws payment_outbox_table by unfold_locales simp_all

section \<open>Ids, events and transactions\<close>

definition uuid_New :: "(pay_db, 'e, uuid) tx" where
  "uuid_New s = Inr (pd_rand s (pd_ctr s), s\<lparr>pd_ctr := Suc (pd_ctr s)\<rparr>)"

abbreviation pay_sql :: "(pay_db, pg_error, 'a) tx \<Rightarrow> (pay_db, pay_err, 'a) tx" where
  "pay_sql \<equiv> tx_map_err PayDb"

text \<open>\<open>isUniqueViolation\<close> selects the sentinel an insert reports.\<close>

definition unique_err :: "pay_err \<Rightarrow> pg_error \<Rightarrow> pay_err" where
  "unique_err sentinel e = (if e = UniqueViolation then sentinel else PayDb e)"

definition PayInsertOutbox ::
  "pgtx \<Rightarrow> uuid \<Rightarrow> string \<Rightarrow> uuid \<Rightarrow> string \<Rightarrow> (string \<times> json) list \<Rightarrow> (pay_db, pay_err, unit) tx"
where
  "PayInsertOutbox tx tenantID aggregateType aggregateID eventType payload =
     tx_bind uuid_New (\<lambda>i.
     tx_bind (pay_sql (sql_insert payment_outbox_table tx
       \<lparr>obx_id = i, obx_tenant = tenantID, obx_aggregate = aggregateType,
        obx_agg_id = aggregateID, obx_type = eventType, obx_payload = payload\<rparr>)) (\<lambda>_.
     tx_return ()))"

definition PayTenantTx ::
  "ctx \<Rightarrow> uuid \<Rightarrow> (pgtx \<Rightarrow> (pay_db, pay_err, 'a) tx) \<Rightarrow> (pay_db, pay_err, 'a) tx" where
  "PayTenantTx c tenantID fn =
     (if tenantID = uuid_Nil then tx_throw PayNilTenant
      else fn \<lparr>tx_tenant = tenantID, tx_now = ctx_now c\<rparr>)"

definition PayTenantReadTx ::
  "ctx \<Rightarrow> uuid \<Rightarrow> (pgtx \<Rightarrow> (pay_db, pay_err, 'a) tx) \<Rightarrow> (pay_db, pay_err, 'a) tx" where
  "PayTenantReadTx c tenantID fn =
     (if tenantID = uuid_Nil then tx_throw PayNilTenant
      else fn \<lparr>tx_tenant = tenantID, tx_now = ctx_now c\<rparr>)"

abbreviation pay_tx :: "ctx \<Rightarrow> uuid \<Rightarrow> pgtx" where
  "pay_tx c tn \<equiv> \<lparr>tx_tenant = tn, tx_now = ctx_now c\<rparr>"

lemma PayTenantTx_Inr [simp]:
  "PayTenantTx c tn fn s = Inr r \<longleftrightarrow> tn \<noteq> uuid_Nil \<and> fn (pay_tx c tn) s = Inr r"
  by (simp add: PayTenantTx_def)

lemma PayTenantReadTx_Inr [simp]:
  "PayTenantReadTx c tn fn s = Inr r \<longleftrightarrow> tn \<noteq> uuid_Nil \<and> fn (pay_tx c tn) s = Inr r"
  by (simp add: PayTenantReadTx_def)

lemma uuid_New_Inr:
  "uuid_New s = Inr (i, s') \<longleftrightarrow> i = pd_rand s (pd_ctr s) \<and> s' = s\<lparr>pd_ctr := Suc (pd_ctr s)\<rparr>"
  by (auto simp: uuid_New_def)

lemma PayInsertOutbox_Inr:
  "PayInsertOutbox tx tn agg aid typ payload s = Inr (u, s') \<longleftrightarrow>
     tn = tx_tenant tx \<and> pd_rand s (pd_ctr s) \<notin> obx_id ` set (pd_outbox s) \<and>
     s' = s\<lparr>pd_ctr := Suc (pd_ctr s),
            pd_outbox := pd_outbox s @
              [\<lparr>obx_id = pd_rand s (pd_ctr s), obx_tenant = tn, obx_aggregate = agg,
                obx_agg_id = aid, obx_type = typ, obx_payload = payload\<rparr>]\<rparr>"
  by (auto simp: PayInsertOutbox_def tx_inv uuid_New_Inr payment_outbox.insert_Inr)

end
