(* ===== verification/Pay_Payment_Repo.thy ===== *)
theory Pay_Payment_Repo
  imports Pay_State
begin

text \<open>
  payment/repo/payment_repo.go and check_settlement_repo.go: the statements against
  \<open>payments\<close> and \<open>fiscal_receipts\<close>. A failed conversion of a sum to int64 is the scan
  error; \<open>amount_total + rounding_amount\<close> is a \<open>bigint\<close> and fails outside its range.
\<close>

section \<open>Writing payments\<close>

text \<open>The columns \<open>Create\<close> lists; the others have their defaults.\<close>

definition payment_insert_row :: "pgtx \<Rightarrow> uuid \<Rightarrow> payment \<Rightarrow> payment" where
  "payment_insert_row tx i p =
     p\<lparr>pmt_id := i, pmt_status := PaymentPending, pmt_created := tx_now tx,
       pmt_receipt := None, pmt_completed := None\<rparr>"

definition PaymentRepo_Create :: "pgtx \<Rightarrow> payment \<Rightarrow> (pay_db, pay_err, payment) tx" where
  "PaymentRepo_Create tx p =
     tx_bind uuid_New (\<lambda>i.
     tx_map_err (unique_err PayDuplicateIdempotencyKey)
       (sql_insert payments_table tx (payment_insert_row tx i p)))"

definition affected :: "'r list \<Rightarrow> (pay_db, pay_err, unit) tx" where
  "affected rows = (if rows = [] then tx_throw PayNotFound else tx_return ())"

definition PaymentRepo_Complete :: "pgtx \<Rightarrow> uuid \<Rightarrow> uuid \<Rightarrow> (pay_db, pay_err, unit) tx" where
  "PaymentRepo_Complete tx paymentID receiptID =
     tx_bind (pay_sql (sql_update payments_table tx
       (\<lambda>p. pmt_id p = paymentID \<and> pmt_status p = PaymentPending)
       (\<lambda>p. p\<lparr>pmt_status := PaymentCompleted, pmt_receipt := Some receiptID,
              pmt_completed := Some (tx_now tx)\<rparr>))) affected"

definition PaymentRepo_Fail :: "pgtx \<Rightarrow> uuid \<Rightarrow> (pay_db, pay_err, unit) tx" where
  "PaymentRepo_Fail tx paymentID =
     tx_bind (pay_sql (sql_update payments_table tx
       (\<lambda>p. pmt_id p = paymentID \<and> pmt_status p = PaymentPending)
       (\<lambda>p. p\<lparr>pmt_status := PaymentFailed\<rparr>))) affected"

definition PaymentRepo_Void :: "pgtx \<Rightarrow> uuid \<Rightarrow> (pay_db, pay_err, unit) tx" where
  "PaymentRepo_Void tx paymentID =
     tx_bind (pay_sql (sql_update payments_table tx
       (\<lambda>p. pmt_id p = paymentID \<and> pmt_status p \<in> {PaymentPending, PaymentCompleted})
       (\<lambda>p. p\<lparr>pmt_status := PaymentVoided\<rparr>))) affected"

section \<open>Receipts\<close>

definition mergeReceiptData :: "fiscal_receipt \<Rightarrow> (string \<rightharpoonup> json)" where
  "mergeReceiptData rec =
     (let d0 = rcp_data rec;
          d1 = (if d0 ''z_no'' = None \<and> rcp_z_no rec \<noteq> ''''
                then d0(''z_no'' \<mapsto> JStr (rcp_z_no rec)) else d0)
      in (if d1 ''vendor_ref'' = None \<and> rcp_vendor_ref rec \<noteq> ''''
          then d1(''vendor_ref'' \<mapsto> JStr (rcp_vendor_ref rec)) else d1))"

definition PaymentRepo_InsertFiscalReceipt ::
  "pgtx \<Rightarrow> fiscal_receipt \<Rightarrow> (pay_db, pay_err, uuid) tx" where
  "PaymentRepo_InsertFiscalReceipt tx rec =
     tx_bind uuid_New (\<lambda>i.
     tx_bind (pay_sql (sql_insert receipts_table tx
       \<lparr>rrw_id = i, rrw_tenant = rcp_tenant rec, rrw_payment = rcp_payment rec,
        rrw_device = rcp_device rec, rrw_number = rcp_number rec,
        rrw_data = mergeReceiptData rec, rrw_issued_at = rcp_issued_at rec\<rparr>)) (\<lambda>_.
     tx_return i))"

section \<open>Reading payments\<close>

definition PaymentRepo_GetByID :: "pgtx \<Rightarrow> uuid \<Rightarrow> (pay_db, pay_err, payment) tx" where
  "PaymentRepo_GetByID tx i =
     tx_bind (sql_find payments_table tx (\<lambda>p. pmt_id p = i)) (found_row PayNotFound)"

definition PaymentRepo_GetByIdempotencyKey ::
  "pgtx \<Rightarrow> uuid \<Rightarrow> string \<Rightarrow> (pay_db, pay_err, payment) tx" where
  "PaymentRepo_GetByIdempotencyKey tx tenantID key =
     tx_bind (sql_find payments_table tx (\<lambda>p. pmt_tenant p = tenantID \<and> pmt_key p = key))
       (found_row PayNotFound)"

text \<open>\<open>ORDER BY created_at DESC LIMIT .. OFFSET ..\<close>; PostgreSQL refuses a negative one.\<close>

definition newest_first :: "payment list \<Rightarrow> payment list" where
  "newest_first ps = sort_key (\<lambda>p. - pmt_created p) ps"

definition PaymentRepo_ListByTenant ::
  "pgtx \<Rightarrow> uuid \<Rightarrow> uuid option \<Rightarrow> int \<Rightarrow> int \<Rightarrow> (pay_db, pay_err, payment list) tx" where
  "PaymentRepo_ListByTenant tx tenantID branchID lim off =
     tx_bind (sql_select payments_table tx
       (\<lambda>p. pmt_tenant p = tenantID \<and> (branchID = None \<or> branchID = Some (pmt_branch p)))) (\<lambda>rows.
     tx_bind (tx_require (0 \<le> lim \<and> 0 \<le> off) (PayDb OutOfRange)) (\<lambda>_.
     tx_return (take (nat lim) (drop (nat off) (newest_first rows)))))"

definition PaymentRepo_ListByCheck ::
  "pgtx \<Rightarrow> uuid \<Rightarrow> uuid \<Rightarrow> (pay_db, pay_err, payment list) tx" where
  "PaymentRepo_ListByCheck tx tenantID checkID =
     tx_bind (sql_select payments_table tx
       (\<lambda>p. pmt_tenant p = tenantID \<and> pmt_check p = Some checkID \<and> pmt_status p = PaymentCompleted))
       (\<lambda>rows. tx_return (newest_first rows))"

section \<open>Sums\<close>

text \<open>\<open>SELECT COALESCE(SUM(e), 0) ... WHERE P\<close>, scanned into an int64.\<close>

definition sum_payments ::
  "pgtx \<Rightarrow> (payment \<Rightarrow> bool) \<Rightarrow> (payment \<Rightarrow> int) \<Rightarrow> (pay_db, pay_err, int) tx" where
  "sum_payments tx P e =
     tx_bind (sql_select payments_table tx P) (\<lambda>rows.
     tx_bind (tx_require (list_all (\<lambda>p. int64_range (e p)) rows) (PayDb OutOfRange)) (\<lambda>_.
     tx_bind (tx_require (int64_range (\<Sum>p \<leftarrow> rows. e p)) (PayOther ''scan'')) (\<lambda>_.
     tx_return (\<Sum>p \<leftarrow> rows. e p))))"

abbreviation settles :: "payment \<Rightarrow> int" where
  "settles p \<equiv> pmt_amount p + pmt_rounding p"

definition PaymentRepo_TotalPaidForCheck :: "pgtx \<Rightarrow> uuid \<Rightarrow> uuid \<Rightarrow> (pay_db, pay_err, int) tx" where
  "PaymentRepo_TotalPaidForCheck tx tenantID checkID =
     sum_payments tx (\<lambda>p. pmt_tenant p = tenantID \<and> pmt_check p = Some checkID \<and>
                          pmt_status p = PaymentCompleted) settles"

definition PaymentRepo_PendingTotalForCheck ::
  "pgtx \<Rightarrow> uuid \<Rightarrow> uuid \<Rightarrow> (pay_db, pay_err, int) tx" where
  "PaymentRepo_PendingTotalForCheck tx tenantID checkID =
     sum_payments tx (\<lambda>p. pmt_tenant p = tenantID \<and> pmt_check p = Some checkID \<and>
                          pmt_status p = PaymentPending) settles"

definition PaymentRepo_RoundingTotalForCheck ::
  "pgtx \<Rightarrow> uuid \<Rightarrow> uuid \<Rightarrow> (pay_db, pay_err, int) tx" where
  "PaymentRepo_RoundingTotalForCheck tx tenantID checkID =
     sum_payments tx (\<lambda>p. pmt_tenant p = tenantID \<and> pmt_check p = Some checkID \<and>
                          pmt_status p \<in> {PaymentPending, PaymentCompleted}) pmt_rounding"

record check_settled_row =
  csr_payment :: uuid
  csr_amount :: int
  csr_rounding :: int

definition branchFilter :: "uuid option \<Rightarrow> payment \<Rightarrow> bool" where
  "branchFilter branchID p \<longleftrightarrow> branchID = None \<or> branchID = Some (pmt_branch p)"

definition PaymentRepo_ListCompletedByCheck ::
  "pgtx \<Rightarrow> uuid \<Rightarrow> uuid \<Rightarrow> uuid option \<Rightarrow> (pay_db, pay_err, check_settled_row list) tx" where
  "PaymentRepo_ListCompletedByCheck tx tenantID checkID branchID =
     tx_bind (sql_select payments_table tx
       (\<lambda>p. pmt_tenant p = tenantID \<and> pmt_check p = Some checkID \<and>
            pmt_status p = PaymentCompleted \<and> branchFilter branchID p)) (\<lambda>rows.
     tx_return (map (\<lambda>p. \<lparr>csr_payment = pmt_id p, csr_amount = pmt_amount p,
                          csr_rounding = pmt_rounding p\<rparr>) (sort_key pmt_id rows)))"

definition PaymentRepo_PendingTotalForCheckInBranch ::
  "pgtx \<Rightarrow> uuid \<Rightarrow> uuid \<Rightarrow> uuid option \<Rightarrow> (pay_db, pay_err, int) tx" where
  "PaymentRepo_PendingTotalForCheckInBranch tx tenantID checkID branchID =
     sum_payments tx (\<lambda>p. pmt_tenant p = tenantID \<and> pmt_check p = Some checkID \<and>
                          pmt_status p = PaymentPending \<and> branchFilter branchID p) settles"

text \<open>\<open>GROUP BY method, status ORDER BY method, status\<close> over the payments of the
  window: one bucket per pair that occurs.\<close>

definition method_status :: "payment \<Rightarrow> string \<times> string" where
  "method_status p = (payment_method_string (pmt_method p), payment_status_string (pmt_status p))"

definition bucket_less :: "string \<times> string \<Rightarrow> string \<times> string \<Rightarrow> bool" where
  "bucket_less a b \<longleftrightarrow> string_less (fst a) (fst b) \<or> fst a = fst b \<and> string_less (snd a) (snd b)"

definition PaymentRepo_TotalsByMethod ::
  "pgtx \<Rightarrow> uuid \<Rightarrow> uuid \<Rightarrow> time \<Rightarrow> time \<Rightarrow> (pay_db, pay_err, method_total list) tx" where
  "PaymentRepo_TotalsByMethod tx tenantID branchID from to =
     tx_bind (sql_select payments_table tx
       (\<lambda>p. pmt_tenant p = tenantID \<and> pmt_branch p = branchID \<and>
            pmt_status p \<in> {PaymentCompleted, PaymentVoided} \<and>
            from \<le> pmt_created p \<and> pmt_created p < to)) (\<lambda>rows.
     let bucket = (\<lambda>k. filter (\<lambda>p. method_status p = k) rows);
         keys = sort_by bucket_less (remdups (map method_status rows))
     in tx_bind (tx_require (\<forall>k \<in> set keys. int64_range (\<Sum>p \<leftarrow> bucket k. pmt_amount p))
          (PayOther ''scan'')) (\<lambda>_.
        tx_return (map (\<lambda>k. \<lparr>mtt_method = fst k, mtt_status = snd k,
                             mtt_count = int (length (bucket k)),
                             mtt_sum = (\<Sum>p \<leftarrow> bucket k. pmt_amount p)\<rparr>) keys)))"

text \<open>\<open>pg_advisory_xact_lock\<close> reads and writes nothing: it makes the transactions
  that take it for the same check run one after the other.\<close>

definition PaymentRepo_LockCheckForPayment :: "pgtx \<Rightarrow> uuid \<Rightarrow> (pay_db, pay_err, unit) tx" where
  "PaymentRepo_LockCheckForPayment tx checkID = tx_return ()"

section \<open>What the statements do\<close>

lemma affected_Inr: "affected rows s = Inr (u, s') \<longleftrightarrow> rows \<noteq> [] \<and> s' = s"
  by (auto simp: affected_def)

lemma affected_Inl: "affected rows s = Inl e \<longleftrightarrow> rows = [] \<and> e = PayNotFound"
  by (auto simp: affected_def)

lemma GetByIdempotencyKey_Inr:
  "PaymentRepo_GetByIdempotencyKey tx tn key s = Inr (p, s') \<longleftrightarrow>
   s' = s \<and> rls_find pmt_tenant tx (\<lambda>p. pmt_tenant p = tn \<and> pmt_key p = key) (pd_payments s) = Some p"
  by (auto simp: PaymentRepo_GetByIdempotencyKey_def tx_inv found_row_Inr)

lemma GetByIdempotencyKey_Inl:
  "PaymentRepo_GetByIdempotencyKey tx tn key s = Inl e \<longleftrightarrow>
   e = PayNotFound \<and>
   rls_find pmt_tenant tx (\<lambda>p. pmt_tenant p = tn \<and> pmt_key p = key) (pd_payments s) = None"
  by (auto simp: PaymentRepo_GetByIdempotencyKey_def tx_bind_Inl found_row_Inl)

lemma sum_payments_Inr:
  "sum_payments tx P e s = Inr (t, s') \<longleftrightarrow>
   (\<forall>p \<in> set (rls_select pmt_tenant tx P (pd_payments s)). int64_range (e p)) \<and>
   int64_range t \<and> t = (\<Sum>p \<leftarrow> rls_select pmt_tenant tx P (pd_payments s). e p) \<and> s' = s"
  by (auto simp: sum_payments_def tx_inv list_all_iff)

lemma PaymentRepo_Create_Inr:
  "PaymentRepo_Create tx p s = Inr (q, s') \<longleftrightarrow>
   q = payment_insert_row tx (pd_rand s (pd_ctr s)) p \<and> pmt_tenant p = tx_tenant tx \<and>
   payment_row_ok q \<and> pmt_id q \<notin> pmt_id ` set (pd_payments s) \<and>
   payments_uniq (pd_payments s @ [q]) \<and>
   s' = s\<lparr>pd_ctr := Suc (pd_ctr s), pd_payments := pd_payments s @ [q]\<rparr>"
  by (auto simp: PaymentRepo_Create_def tx_inv uuid_New_Inr payments.insert_Inr payment_insert_row_def)

end
