(* ===== verification/Pay_Submission_Repo.thy ===== *)
theory Pay_Submission_Repo
  imports Pay_Payment_Repo
begin

text \<open>
  payment/repo/fiscal_submission_repo.go, fiscal_expire_repo.go and
  fiscal_status_repo.go: the queue of fiscal registrations. \<open>ClaimPending\<close> and
  \<open>ListStaleSubmitted\<close> run in a cross-tenant transaction (\<open>WithAllTenantsTx\<close>), where the
  all-tenants policies of migration 000004 show and let through every row.
\<close>

record fiscal_submission =
  fsb_id :: uuid
  fsb_tenant :: uuid
  fsb_branch :: uuid
  fsb_payment :: uuid
  fsb_adapter :: string
  fsb_terminal :: string
  fsb_status :: fiscal_status
  fsb_payload :: sale_json
  fsb_retry :: int
  fsb_submitted :: "time option"
  fsb_created :: "time option"

definition nullableText :: "string \<Rightarrow> string option" where
  "nullableText s = (if s = '''' then None else Some s)"

definition nullableJSON :: "raw_json \<Rightarrow> raw_json option" where
  "nullableJSON b = (if b = RawText '''' then None else Some b)"

definition FiscalSubmissionRepo_Insert :: "pgtx \<Rightarrow> fiscal_submission \<Rightarrow> (pay_db, pay_err, unit) tx" where
  "FiscalSubmissionRepo_Insert tx sub =
     tx_bind (tx_map_err (unique_err PayActiveSubmissionExists) (sql_insert submissions_table tx
       \<lparr>sub_id = fsb_id sub, sub_tenant = fsb_tenant sub, sub_branch = fsb_branch sub,
        sub_payment = fsb_payment sub, sub_adapter = fsb_adapter sub,
        sub_terminal = nullableText (fsb_terminal sub), sub_status = FiscalPending,
        sub_payload = fsb_payload sub, sub_result = None, sub_retry = 0, sub_next_retry = None,
        sub_error = None, sub_claimed = None,
        sub_created = coalesce (fsb_created sub) (tx_now tx), sub_submitted = None,
        sub_completed = None\<rparr>)) (\<lambda>_.
     tx_return ())"

text \<open>The columns the reads return; only \<open>ListStaleSubmitted\<close> reads \<open>submitted_at\<close>.\<close>

definition scan_submission :: "submission_row \<Rightarrow> fiscal_submission" where
  "scan_submission r =
     \<lparr>fsb_id = sub_id r, fsb_tenant = sub_tenant r, fsb_branch = sub_branch r,
      fsb_payment = sub_payment r, fsb_adapter = sub_adapter r,
      fsb_terminal = coalesce (sub_terminal r) '''', fsb_status = sub_status r,
      fsb_payload = sub_payload r, fsb_retry = sub_retry r, fsb_submitted = None,
      fsb_created = None\<rparr>"

section \<open>The worker's statements\<close>

text \<open>The rows \<open>ClaimPending\<close> may take: pending, past their backoff, and not claimed
  within the stale window. \<open>int(staleAfter.Seconds())\<close> is given in seconds here, the
  unit of the model's clock.\<close>

definition claimable :: "time \<Rightarrow> int \<Rightarrow> submission_row \<Rightarrow> bool" where
  "claimable now staleSeconds r \<longleftrightarrow>
     sub_status r = FiscalPending \<and>
     (case sub_next_retry r of None \<Rightarrow> True | Some t \<Rightarrow> t \<le> now) \<and>
     (case sub_claimed r of None \<Rightarrow> True | Some t \<Rightarrow> t \<le> now - staleSeconds)"

definition claim_batch :: "time \<Rightarrow> int \<Rightarrow> int \<Rightarrow> submission_row list \<Rightarrow> submission_row list" where
  "claim_batch now batchSize staleAfter rows =
     take (nat (if batchSize \<le> 0 then 20 else batchSize))
       (sort_key sub_created
         (filter (claimable now (if staleAfter < 1 then 1 else staleAfter)) rows))"

definition FiscalSubmissionRepo_ClaimPending ::
  "time \<Rightarrow> int \<Rightarrow> int \<Rightarrow> (pay_db, pay_err, fiscal_submission list) tx" where
  "FiscalSubmissionRepo_ClaimPending now batchSize staleAfter =
     tx_bind (tx_read (\<lambda>s. claim_batch now batchSize staleAfter (pd_subs s))) (\<lambda>batch.
     tx_bind (tx_write (\<lambda>s. s\<lparr>pd_subs :=
       update_rows (\<lambda>r. sub_id r \<in> sub_id ` set batch) (\<lambda>r. r\<lparr>sub_claimed := Some now\<rparr>)
         (pd_subs s)\<rparr>)) (\<lambda>_.
     tx_return (map scan_submission batch)))"

definition FiscalSubmissionRepo_MarkSubmitted :: "pgtx \<Rightarrow> uuid \<Rightarrow> (pay_db, pay_err, bool) tx" where
  "FiscalSubmissionRepo_MarkSubmitted tx i =
     tx_bind (pay_sql (sql_update submissions_table tx
       (\<lambda>r. sub_id r = i \<and> sub_status r = FiscalPending)
       (\<lambda>r. r\<lparr>sub_status := FiscalSubmitted, sub_submitted := Some (tx_now tx),
              sub_claimed := None\<rparr>))) (\<lambda>rows.
     tx_return (rows \<noteq> []))"

text \<open>The source states a terminal status may be reached from; None for a status that
  is not terminal.\<close>

definition result_sources :: "fiscal_status \<Rightarrow> fiscal_status list option" where
  "result_sources st =
     (if st = FiscalCompleted \<or> st = FiscalFailed \<or> st = FiscalExpired
        then Some [FiscalPending, FiscalSubmitted]
      else if st = FiscalVoided then Some [FiscalPending, FiscalSubmitted, FiscalCompleted]
      else None)"

definition FiscalSubmissionRepo_MarkResult ::
  "pgtx \<Rightarrow> uuid \<Rightarrow> fiscal_status \<Rightarrow> raw_json \<Rightarrow> string \<Rightarrow> time option \<Rightarrow> (pay_db, pay_err, bool) tx" where
  "FiscalSubmissionRepo_MarkResult tx i status resultPayload lastError completedAt =
     (case completedAt of
        None \<Rightarrow> tx_throw (PayOther ''completed_at is required'')
      | Some t \<Rightarrow>
          (case result_sources status of
             None \<Rightarrow> tx_throw (PayOther ''not a terminal status'')
           | Some sources \<Rightarrow>
               tx_bind (pay_sql (sql_update submissions_table tx
                 (\<lambda>r. sub_id r = i \<and> sub_status r \<in> set sources)
                 (\<lambda>r. r\<lparr>sub_status := status, sub_result := nullableJSON resultPayload,
                        sub_error := nullableText lastError, sub_completed := Some t,
                        sub_claimed := None\<rparr>))) (\<lambda>rows.
               tx_return (rows \<noteq> []))))"

definition FiscalSubmissionRepo_MarkRetry ::
  "pgtx \<Rightarrow> uuid \<Rightarrow> int \<Rightarrow> time \<Rightarrow> string \<Rightarrow> (pay_db, pay_err, unit) tx" where
  "FiscalSubmissionRepo_MarkRetry tx i retryCount nextRetryAt lastError =
     tx_bind (pay_sql (sql_update submissions_table tx
       (\<lambda>r. sub_id r = i \<and> sub_status r = FiscalPending)
       (\<lambda>r. r\<lparr>sub_retry := retryCount, sub_next_retry := Some nextRetryAt,
              sub_error := nullableText lastError, sub_claimed := None\<rparr>))) affected"

section \<open>Reads\<close>

definition FiscalSubmissionRepo_ListStaleSubmitted ::
  "time \<Rightarrow> int \<Rightarrow> int \<Rightarrow> (pay_db, pay_err, fiscal_submission list) tx" where
  "FiscalSubmissionRepo_ListStaleSubmitted now batchSize staleAfter =
     tx_read (\<lambda>s.
       map (\<lambda>r. (scan_submission r)\<lparr>fsb_submitted := sub_submitted r\<rparr>)
         (take (nat (if batchSize \<le> 0 then 100 else batchSize))
           (sort_key (\<lambda>r. coalesce (sub_submitted r) 0)
             (filter (\<lambda>r. sub_status r = FiscalSubmitted \<and>
                (case sub_submitted r of
                   None \<Rightarrow> False
                 | Some t \<Rightarrow> t \<le> now - (if staleAfter < 1 then 1 else staleAfter)))
               (pd_subs s)))))"

definition FiscalSubmissionRepo_GetByPaymentID ::
  "pgtx \<Rightarrow> uuid \<Rightarrow> (pay_db, pay_err, fiscal_submission) tx" where
  "FiscalSubmissionRepo_GetByPaymentID tx paymentID =
     tx_bind (sql_select submissions_table tx (\<lambda>r. sub_payment r = paymentID)) (\<lambda>rows.
     tx_bind (query_row PayNotFound (sort_key (\<lambda>r. - sub_created r) rows)) (\<lambda>r.
     tx_return (scan_submission r)))"

definition FiscalSubmissionRepo_GetByID :: "pgtx \<Rightarrow> uuid \<Rightarrow> (pay_db, pay_err, fiscal_submission) tx" where
  "FiscalSubmissionRepo_GetByID tx i =
     tx_bind (sql_find submissions_table tx (\<lambda>r. sub_id r = i)) (\<lambda>r.
     tx_bind (found_row PayNotFound r) (\<lambda>r.
     tx_return (scan_submission r)))"

record submission_routing =
  rtg_tenant :: uuid
  rtg_branch :: uuid
  rtg_payment :: uuid

definition FiscalSubmissionRepo_GetRouting :: "uuid \<Rightarrow> (pay_db, pay_err, submission_routing) tx" where
  "FiscalSubmissionRepo_GetRouting i =
     tx_bind (tx_read (\<lambda>s. find_row (\<lambda>r. sub_id r = i) (pd_subs s))) (\<lambda>r.
     tx_bind (found_row PayNotFound r) (\<lambda>r.
     tx_return \<lparr>rtg_tenant = sub_tenant r, rtg_branch = sub_branch r, rtg_payment = sub_payment r\<rparr>))"

section \<open>The branch's fiscal status\<close>

record fiscal_pending_row =
  fpr_payment :: uuid
  fpr_check :: "uuid option"
  fpr_amount :: int
  fpr_rounding :: int
  fpr_registered :: time

text \<open>\<open>FROM fiscal_submissions s JOIN payments p ON p.id = s.payment_id\<close>, under the
  policies of both tables.\<close>

definition submission_payments ::
  "pgtx \<Rightarrow> pay_db \<Rightarrow> submission_row list \<Rightarrow> (submission_row \<times> payment) list" where
  "submission_payments tx s rows =
     concat (map (\<lambda>r. map (Pair r)
       (rls_select pmt_tenant tx (\<lambda>p. pmt_id p = sub_payment r) (pd_payments s))) rows)"

definition FiscalStatusRepo_ListPendingByBranch ::
  "pgtx \<Rightarrow> uuid \<Rightarrow> uuid \<Rightarrow> (pay_db, pay_err, fiscal_pending_row list) tx" where
  "FiscalStatusRepo_ListPendingByBranch tx tenantID branchID =
     tx_read (\<lambda>s.
       map (\<lambda>(r, p). \<lparr>fpr_payment = sub_payment r, fpr_check = pmt_check p,
                      fpr_amount = pmt_amount p, fpr_rounding = pmt_rounding p,
                      fpr_registered = sub_created r\<rparr>)
         (submission_payments tx s (sort_key sub_created
           (rls_select sub_tenant tx
             (\<lambda>r. sub_tenant r = tenantID \<and> sub_branch r = branchID \<and> submission_active r)
             (pd_subs s)))))"

record fiscal_settled_row =
  fsr_payment :: uuid
  fsr_check :: "uuid option"
  fsr_amount :: int
  fsr_rounding :: int
  fsr_status :: payment_status
  fsr_reason :: "string option"
  fsr_settled :: time

definition settled_row :: "submission_row \<times> payment \<Rightarrow> fiscal_settled_row" where
  "settled_row rp =
     (case rp of (r, p) \<Rightarrow>
       \<lparr>fsr_payment = sub_payment r, fsr_check = pmt_check p, fsr_amount = pmt_amount p,
        fsr_rounding = pmt_rounding p, fsr_status = pmt_status p, fsr_reason = sub_error r,
        fsr_settled = coalesce (sub_completed r) 0\<rparr>)"

text \<open>\<open>DISTINCT ON (payment_id) ... ORDER BY payment_id, completed_at DESC\<close>: the latest
  row of each payment; then the newest first.\<close>

fun distinct_on :: "('r \<Rightarrow> 'k) \<Rightarrow> 'r list \<Rightarrow> 'r list" where
  "distinct_on k [] = []"
| "distinct_on k (r # rs) = r # distinct_on k (filter (\<lambda>x. k x \<noteq> k r) rs)"

definition FiscalStatusRepo_ListRecentlySettledByBranch ::
  "pgtx \<Rightarrow> uuid \<Rightarrow> uuid \<Rightarrow> time \<Rightarrow> (pay_db, pay_err, fiscal_settled_row list) tx" where
  "FiscalStatusRepo_ListRecentlySettledByBranch tx tenantID branchID cutoff =
     tx_read (\<lambda>s.
       let rows = rls_select sub_tenant tx
             (\<lambda>r. sub_tenant r = tenantID \<and> sub_branch r = branchID \<and>
                  (case sub_completed r of None \<Rightarrow> False | Some t \<Rightarrow> cutoff < t)) (pd_subs s);
           settled = filter (\<lambda>(r, p). pmt_status p \<in> {PaymentCompleted, PaymentFailed, PaymentVoided})
             (submission_payments tx s rows)
       in sort_key (\<lambda>x. - fsr_settled x)
            (distinct_on fsr_payment (map settled_row
              (sort_key (\<lambda>rp. sub_payment (fst rp))
                (sort_key (\<lambda>rp. - coalesce (sub_completed (fst rp)) 0) settled)))))"

section \<open>What the statements do\<close>

lemma affected_bind_Inr:
  "tx_bind (pay_sql m) affected s = Inr (u, s') \<longleftrightarrow> (\<exists>rows. m s = Inr (rows, s') \<and> rows \<noteq> [])"
  by (auto simp: tx_bind_Inr affected_Inr)

lemma result_sources_Some:
  "result_sources st = Some src \<longleftrightarrow>
   st \<in> {FiscalCompleted, FiscalFailed, FiscalExpired} \<and> src = [FiscalPending, FiscalSubmitted] \<or>
   st = FiscalVoided \<and> src = [FiscalPending, FiscalSubmitted, FiscalCompleted]"
  by (auto simp: result_sources_def)

lemma distinct_on_subset: "set (distinct_on k rs) \<subseteq> set rs"
  by (induction k rs rule: distinct_on.induct) auto

lemma distinct_on_keys: "distinct (map k (distinct_on k rs))"
proof (induction k rs rule: distinct_on.induct)
  case (2 k r rs)
  then show ?case using distinct_on_subset [of k "filter (\<lambda>x. k x \<noteq> k r) rs"] by auto
qed simp

end
