(* ===== verification/Pay_Session_Repo.thy ===== *)
theory Pay_Session_Repo
  imports Pay_Payment_Repo
begin

text \<open>
  payment/repo/cash_session_repo.go: the statements against \<open>cash_sessions\<close>,
  \<open>cash_movements\<close> and \<open>cash_session_participants\<close>, and the two sums the expected
  close of a session is made of.
\<close>

section \<open>Sessions\<close>

definition CashSessionRepo_Open :: "pgtx \<Rightarrow> cash_session \<Rightarrow> (pay_db, pay_err, cash_session) tx" where
  "CashSessionRepo_Open tx r =
     (case TransitionCashSession SessionOpeningControl SessionOpened of
        Inl e \<Rightarrow> tx_throw e
      | Inr _ \<Rightarrow>
          tx_bind uuid_New (\<lambda>i.
          tx_map_err (unique_err PayRepoSessionAlreadyOpen) (sql_insert sessions_table tx
            (r\<lparr>ses_id := i, ses_status := SessionOpened, ses_opened_at := tx_now tx,
               ses_created := tx_now tx, ses_updated := tx_now tx\<rparr>))))"

definition CashSessionRepo_GetActiveByBranch ::
  "pgtx \<Rightarrow> uuid \<Rightarrow> uuid \<Rightarrow> (pay_db, pay_err, cash_session) tx" where
  "CashSessionRepo_GetActiveByBranch tx tenantID branchID =
     tx_bind (sql_find sessions_table tx
       (\<lambda>r. ses_tenant r = tenantID \<and> ses_branch r = branchID \<and> session_active r))
       (found_row PayNotFound)"

text \<open>\<open>FOR SHARE\<close> and \<open>FOR UPDATE\<close> return what the plain reads do.\<close>

definition CashSessionRepo_GetActiveByBranchForShare ::
  "pgtx \<Rightarrow> uuid \<Rightarrow> uuid \<Rightarrow> (pay_db, pay_err, cash_session) tx" where
  "CashSessionRepo_GetActiveByBranchForShare tx tenantID branchID =
     tx_bind (sql_find sessions_table tx
       (\<lambda>r. ses_tenant r = tenantID \<and> ses_branch r = branchID \<and> session_active r))
       (found_row PayNotFound)"

definition CashSessionRepo_GetByIDForUpdate ::
  "pgtx \<Rightarrow> uuid \<Rightarrow> uuid \<Rightarrow> (pay_db, pay_err, cash_session) tx" where
  "CashSessionRepo_GetByIDForUpdate tx tenantID i =
     tx_bind (sql_find sessions_table tx (\<lambda>r. ses_tenant r = tenantID \<and> ses_id r = i))
       (found_row PayNotFound)"

definition CashSessionRepo_GetByID :: "pgtx \<Rightarrow> uuid \<Rightarrow> uuid \<Rightarrow> (pay_db, pay_err, cash_session) tx" where
  "CashSessionRepo_GetByID tx tenantID i =
     tx_bind (sql_find sessions_table tx (\<lambda>r. ses_tenant r = tenantID \<and> ses_id r = i))
       (found_row PayNotFound)"

definition CashSessionRepo_SubmitClosingCount ::
  "pgtx \<Rightarrow> uuid \<Rightarrow> uuid \<Rightarrow> session_status \<Rightarrow> int \<Rightarrow> denomination_count list \<Rightarrow> string \<Rightarrow>
   (pay_db, pay_err, cash_session) tx" where
  "CashSessionRepo_SubmitClosingCount tx tenantID i from closingCountedAmount denominations notes =
     (case TransitionCashSession from SessionClosingControl of
        Inl e \<Rightarrow> tx_throw e
      | Inr _ \<Rightarrow>
          tx_bind (pay_sql (sql_update sessions_table tx
            (\<lambda>r. ses_tenant r = tenantID \<and> ses_id r = i \<and> ses_status r = from)
            (\<lambda>r. r\<lparr>ses_status := SessionClosingControl, ses_closing := Some closingCountedAmount,
                   ses_denominations := denominations, ses_closing_notes := notes,
                   ses_submitted_at := Some (tx_now tx), ses_updated := tx_now tx\<rparr>))) (\<lambda>rows.
          tx_bind (affected rows) (\<lambda>_.
          CashSessionRepo_GetByIDForUpdate tx tenantID i)))"

definition CashSessionRepo_Close ::
  "pgtx \<Rightarrow> uuid \<Rightarrow> uuid \<Rightarrow> session_status \<Rightarrow> uuid \<Rightarrow> (pay_db, pay_err, cash_session) tx" where
  "CashSessionRepo_Close tx tenantID i from closedBy =
     (case TransitionCashSession from SessionClosed of
        Inl e \<Rightarrow> tx_throw e
      | Inr _ \<Rightarrow>
          tx_bind (pay_sql (sql_update sessions_table tx
            (\<lambda>r. ses_tenant r = tenantID \<and> ses_id r = i \<and> ses_status r = from)
            (\<lambda>r. r\<lparr>ses_status := SessionClosed, ses_closed_by := Some closedBy,
                   ses_closed_at := Some (tx_now tx), ses_updated := tx_now tx\<rparr>))) (\<lambda>rows.
          tx_bind (affected rows) (\<lambda>_.
          CashSessionRepo_GetByIDForUpdate tx tenantID i)))"

definition CashSessionRepo_ListByBranchWindow ::
  "pgtx \<Rightarrow> uuid \<Rightarrow> uuid \<Rightarrow> time \<Rightarrow> time \<Rightarrow> (pay_db, pay_err, cash_session list) tx" where
  "CashSessionRepo_ListByBranchWindow tx tenantID branchID from to =
     tx_bind (sql_select sessions_table tx
       (\<lambda>r. ses_tenant r = tenantID \<and> ses_branch r = branchID \<and> ses_opened_at r < to \<and>
            (case ses_closed_at r of None \<Rightarrow> True | Some t \<Rightarrow> from \<le> t))) (\<lambda>rows.
     tx_return (sort_key ses_opened_at (sort_key ses_id rows)))"

text \<open>Cross-tenant: the stale-session watch reads every branch of every tenant.\<close>

definition CashSessionRepo_ListOpenOlderThan :: "time \<Rightarrow> (pay_db, pay_err, cash_session list) tx" where
  "CashSessionRepo_ListOpenOlderThan cutoff =
     tx_read (\<lambda>s. sort_key ses_opened_at
       (filter (\<lambda>r. ses_status r = SessionOpened \<and> ses_opened_at r < cutoff) (pd_sessions s)))"

section \<open>Participants\<close>

definition same_participant :: "session_participant \<Rightarrow> session_participant \<Rightarrow> bool" where
  "same_participant a b \<longleftrightarrow>
     prt_tenant a = prt_tenant b \<and> prt_session a = prt_session b \<and> prt_person a = prt_person b"

definition CashSessionRepo_UpsertParticipant ::
  "pgtx \<Rightarrow> session_participant \<Rightarrow> (pay_db, pay_err, unit) tx" where
  "CashSessionRepo_UpsertParticipant tx p =
     tx_bind (tx_require (prt_tenant p = tx_tenant tx) (PayDb RlsViolation)) (\<lambda>_.
     tx_write (\<lambda>s. s\<lparr>pd_parts :=
       (if \<exists>q \<in> set (pd_parts s). same_participant q p
        then update_rows (\<lambda>q. same_participant q p) (\<lambda>q. q\<lparr>prt_joined := tx_now tx\<rparr>) (pd_parts s)
        else pd_parts s @ [p\<lparr>prt_joined := tx_now tx\<rparr>])\<rparr>))"

definition CashSessionRepo_IsParticipant ::
  "pgtx \<Rightarrow> uuid \<Rightarrow> uuid \<Rightarrow> uuid \<Rightarrow> (pay_db, pay_err, bool) tx" where
  "CashSessionRepo_IsParticipant tx tenantID sessionID personID =
     tx_read (\<lambda>s. rls_find prt_tenant tx
       (\<lambda>q. prt_tenant q = tenantID \<and> prt_session q = sessionID \<and> prt_person q = personID)
       (pd_parts s) \<noteq> None)"

definition CashSessionRepo_ListParticipants ::
  "pgtx \<Rightarrow> uuid \<Rightarrow> uuid \<Rightarrow> (pay_db, pay_err, session_participant list) tx" where
  "CashSessionRepo_ListParticipants tx tenantID sessionID =
     tx_read (\<lambda>s. sort_key prt_joined (rls_select prt_tenant tx
       (\<lambda>q. prt_tenant q = tenantID \<and> prt_session q = sessionID) (pd_parts s)))"

section \<open>Movements and sums\<close>

definition CashSessionRepo_InsertMovement ::
  "pgtx \<Rightarrow> cash_movement \<Rightarrow> (pay_db, pay_err, cash_movement) tx" where
  "CashSessionRepo_InsertMovement tx m =
     tx_bind uuid_New (\<lambda>i.
     pay_sql (sql_insert movements_table tx (m\<lparr>cmv_id := i, cmv_created := tx_now tx\<rparr>)))"

definition CashSessionRepo_ListMovements ::
  "pgtx \<Rightarrow> uuid \<Rightarrow> uuid \<Rightarrow> (pay_db, pay_err, cash_movement list) tx" where
  "CashSessionRepo_ListMovements tx tenantID sessionID =
     tx_bind (sql_select movements_table tx
       (\<lambda>m. cmv_tenant m = tenantID \<and> cmv_session m = sessionID)) (\<lambda>rows.
     tx_return (sort_key cmv_created rows))"

definition movement_net :: "cash_movement \<Rightarrow> int" where
  "movement_net m = (if cmv_direction m = MovementIn then cmv_amount m else - cmv_amount m)"

definition CashSessionRepo_SumMovementsNet :: "pgtx \<Rightarrow> uuid \<Rightarrow> uuid \<Rightarrow> (pay_db, pay_err, int) tx" where
  "CashSessionRepo_SumMovementsNet tx tenantID sessionID =
     tx_bind (sql_select movements_table tx
       (\<lambda>m. cmv_tenant m = tenantID \<and> cmv_session m = sessionID)) (\<lambda>rows.
     tx_bind (tx_require (int64_range (\<Sum>m \<leftarrow> rows. movement_net m)) (PayOther ''scan'')) (\<lambda>_.
     tx_return (\<Sum>m \<leftarrow> rows. movement_net m)))"

definition cash_taken_between :: "uuid \<Rightarrow> uuid \<Rightarrow> time \<Rightarrow> time option \<Rightarrow> payment \<Rightarrow> bool" where
  "cash_taken_between tenantID branchID since until p \<longleftrightarrow>
     pmt_tenant p = tenantID \<and> pmt_branch p = branchID \<and> pmt_method p = MethodCash \<and>
     pmt_status p = PaymentCompleted \<and> since \<le> pmt_created p \<and>
     (case until of None \<Rightarrow> True | Some u \<Rightarrow> pmt_created p < u)"

definition CashSessionRepo_SumCompletedCashPayments ::
  "pgtx \<Rightarrow> uuid \<Rightarrow> uuid \<Rightarrow> time \<Rightarrow> time option \<Rightarrow> (pay_db, pay_err, int) tx" where
  "CashSessionRepo_SumCompletedCashPayments tx tenantID branchID since until =
     sum_payments tx (cash_taken_between tenantID branchID since until) pmt_amount"

section \<open>What the statements do\<close>

lemma session_reads_Inr:
  "CashSessionRepo_GetActiveByBranch tx tn b s = Inr (r, s') \<longleftrightarrow>
   s' = s \<and> rls_find ses_tenant tx
     (\<lambda>r. ses_tenant r = tn \<and> ses_branch r = b \<and> session_active r) (pd_sessions s) = Some r"
  "CashSessionRepo_GetActiveByBranchForShare tx tn b s = Inr (r, s') \<longleftrightarrow>
   s' = s \<and> rls_find ses_tenant tx
     (\<lambda>r. ses_tenant r = tn \<and> ses_branch r = b \<and> session_active r) (pd_sessions s) = Some r"
  "CashSessionRepo_GetByIDForUpdate tx tn i s = Inr (r, s') \<longleftrightarrow>
   s' = s \<and> rls_find ses_tenant tx (\<lambda>r. ses_tenant r = tn \<and> ses_id r = i) (pd_sessions s) = Some r"
  "CashSessionRepo_GetByID tx tn i s = Inr (r, s') \<longleftrightarrow>
   s' = s \<and> rls_find ses_tenant tx (\<lambda>r. ses_tenant r = tn \<and> ses_id r = i) (pd_sessions s) = Some r"
  by (auto simp: CashSessionRepo_GetActiveByBranch_def CashSessionRepo_GetByID_def
      CashSessionRepo_GetActiveByBranchForShare_def CashSessionRepo_GetByIDForUpdate_def
      tx_inv found_row_Inr)

lemma CashSessionRepo_Open_Inr:
  "CashSessionRepo_Open tx r s = Inr (q, s') \<longleftrightarrow>
   q = r\<lparr>ses_id := pd_rand s (pd_ctr s), ses_status := SessionOpened, ses_opened_at := tx_now tx,
         ses_created := tx_now tx, ses_updated := tx_now tx\<rparr> \<and>
   ses_tenant r = tx_tenant tx \<and> session_row_ok q \<and> ses_id q \<notin> ses_id ` set (pd_sessions s) \<and>
   sessions_uniq (pd_sessions s @ [q]) \<and>
   s' = s\<lparr>pd_ctr := Suc (pd_ctr s), pd_sessions := pd_sessions s @ [q]\<rparr>"
  by (auto simp: CashSessionRepo_Open_def TransitionCashSession_def tx_inv uuid_New_Inr
      sessions.insert_Inr)

lemma SubmitClosingCount_Inr:
  "CashSessionRepo_SubmitClosingCount tx tn i from n ds notes s = Inr (q, s') \<Longrightarrow>
   from \<in> {SessionOpened, SessionClosingControl} \<and>
   (\<exists>rows. sql_update sessions_table tx
      (\<lambda>r. ses_tenant r = tn \<and> ses_id r = i \<and> ses_status r = from)
      (\<lambda>r. r\<lparr>ses_status := SessionClosingControl, ses_closing := Some n, ses_denominations := ds,
             ses_closing_notes := notes, ses_submitted_at := Some (tx_now tx),
             ses_updated := tx_now tx\<rparr>) s = Inr (rows, s')) \<and>
   rls_find ses_tenant tx (\<lambda>r. ses_tenant r = tn \<and> ses_id r = i) (pd_sessions s') = Some q"
  by (cases "from")
     (auto simp: CashSessionRepo_SubmitClosingCount_def TransitionCashSession_def tx_inv
      affected_Inr session_reads_Inr)

lemma CashSessionRepo_Close_Inr:
  "CashSessionRepo_Close tx tn i from closer s = Inr (q, s') \<Longrightarrow>
   from = SessionClosingControl \<and>
   (\<exists>rows. sql_update sessions_table tx
      (\<lambda>r. ses_tenant r = tn \<and> ses_id r = i \<and> ses_status r = from)
      (\<lambda>r. r\<lparr>ses_status := SessionClosed, ses_closed_by := Some closer,
             ses_closed_at := Some (tx_now tx), ses_updated := tx_now tx\<rparr>) s = Inr (rows, s')) \<and>
   rls_find ses_tenant tx (\<lambda>r. ses_tenant r = tn \<and> ses_id r = i) (pd_sessions s') = Some q"
  by (cases "from")
     (auto simp: CashSessionRepo_Close_def TransitionCashSession_def tx_inv
      affected_Inr session_reads_Inr)

end
