(* ===== verification/Pay_Service.thy ===== *)
theory Pay_Service
  imports Pay_Submission_Repo Pay_Session_Repo Pos_Guards
begin

text \<open>
  payment/service/payment_service.go, check_guard.go, branch_authz.go and
  fiscal_expire.go: taking a payment, applying what the fiscal device answered,
  cancelling a receipt, and the operator's way out when no answer comes.

  What the service asks the point of sale (may this check take money, what does it
  owe, what may be rounded) are the two interfaces of pos/public, given as records;
  Pay_Settlement instantiates them with the model of pos/service/check_guard.go.
\<close>

record check_write_guard =
  AssertCheckWritable :: "uuid \<Rightarrow> uuid \<Rightarrow> uuid \<Rightarrow> pos_err + unit"
  CheckTotal :: "uuid \<Rightarrow> uuid \<Rightarrow> pos_err + int"

type_synonym rounding_reader = "uuid \<Rightarrow> uuid \<Rightarrow> pos_err + rounding_policy"

text \<open>The collaborators of \<open>PaymentService\<close>; a nil interface is None.\<close>

record payment_service =
  svc_checks :: "check_write_guard option"
  svc_rounding :: "rounding_reader option"
  svc_fiscal :: fiscal_adapter

definition adapterTypeOf :: "fiscal_adapter \<Rightarrow> string" where
  "adapterTypeOf a =
     (case AdapterType a of
        Some t \<Rightarrow> t
      | None \<Rightarrow> (if adapter_is_mock a then ''mock'' else ''unknown''))"

record register_sale_request =
  rsr_tenant :: uuid
  rsr_branch :: uuid
  rsr_check :: "uuid option"
  rsr_key :: string
  rsr_method :: payment_method
  rsr_amount :: int
  rsr_rounding :: int
  rsr_currency :: string
  rsr_lines :: "fiscal_line list"
  rsr_meta :: fiscal_meta
  rsr_terminal :: string

section \<open>Guards\<close>

definition pay_requireBranch :: "ctx \<Rightarrow> principal \<Rightarrow> uuid \<Rightarrow> pay_err + unit" where
  "pay_requireBranch c p branchID =
     (if ScopeFromContext c = Some ''tenant'' then Inr ()
      else if IsStaff p \<and> prn_branch p \<noteq> uuid_Nil \<and> prn_branch p = branchID then Inr ()
      else Inl PayBranchForbidden)"

lemma pay_requireBranch_Inr [simp]: "pay_requireBranch c p b = Inr u \<longleftrightarrow> may_act c p b"
  by (cases u) (auto simp: pay_requireBranch_def may_act_def tenant_scoped_def)

definition branchScopeFilter :: "ctx \<Rightarrow> principal \<Rightarrow> uuid option" where
  "branchScopeFilter c p =
     (if ScopeFromContext c = Some ''tenant'' then None else Some (prn_branch p))"

definition cashPaymentRequiresOpenSession :: "payment_method \<Rightarrow> bool" where
  "cashPaymentRequiresOpenSession m \<longleftrightarrow> m = MethodCash"

definition hasCheck :: "register_sale_request \<Rightarrow> bool" where
  "hasCheck req \<longleftrightarrow> rsr_check req \<noteq> None \<and> rsr_check req \<noteq> Some uuid_Nil"

definition translateCheckGuardErr :: "pos_err \<Rightarrow> pay_err option" where
  "translateCheckGuardErr e =
     (if e = PubCheckNotOpen then Some PayCheckNotOpen
      else if e = PubCheckBranchMismatch then Some PayCheckBranchMismatch
      else if e = PubNotFound then Some PayCheckNotFound
      else None)"

definition roundingEnabledFor :: "rounding_policy \<Rightarrow> payment_method \<Rightarrow> bool" where
  "roundingEnabledFor policy m =
     (if m = MethodCash then rnd_cash policy
      else if m = MethodTerminal then rnd_card policy
      else False)"

definition zero_policy :: rounding_policy where
  "zero_policy = \<lparr>rnd_cash = False, rnd_card = False, rnd_step = 0, rnd_max_per_check = 0\<rparr>"

text \<open>A verdict is carried and applied later; a failure ends the call.\<close>

definition checkVerdictFor :: "payment_service \<Rightarrow> register_sale_request \<Rightarrow> pay_err + pay_err option" where
  "checkVerdictFor svc req =
     (if \<not> hasCheck req then Inr None
      else case svc_checks svc of
        None \<Rightarrow> Inl (PayOther ''check write guard not wired'')
      | Some g \<Rightarrow>
          (case AssertCheckWritable g (rsr_tenant req) (the (rsr_check req)) (rsr_branch req) of
             Inr _ \<Rightarrow> Inr None
           | Inl e \<Rightarrow> (case translateCheckGuardErr e of
                         Some v \<Rightarrow> Inr (Some v)
                       | None \<Rightarrow> Inl (PayOther ''assert check writable''))))"

definition roundingVerdictFor ::
  "payment_service \<Rightarrow> register_sale_request \<Rightarrow> pay_err + pay_err option \<times> rounding_policy" where
  "roundingVerdictFor svc req =
     (if rsr_rounding req = 0 then Inr (None, zero_policy)
      else if \<not> hasCheck req then Inr (Some PayRoundingNotAllowed, zero_policy)
      else if adapterTypeOf (svc_fiscal svc) \<noteq> ''mock'' then Inr (Some PayRoundingNotAllowed, zero_policy)
      else case svc_rounding svc of
        None \<Rightarrow> Inl (PayOther ''rounding policy reader not wired'')
      | Some reader \<Rightarrow>
          (case reader (rsr_tenant req) (rsr_branch req) of
             Inl _ \<Rightarrow> Inl (PayOther ''read rounding policy'')
           | Inr policy \<Rightarrow>
               if \<not> roundingEnabledFor policy (rsr_method req) then Inr (Some PayRoundingNotAllowed, policy)
               else if rnd_step policy \<le> 0 \<or> rnd_step policy \<le> rsr_rounding req
                 then Inr (Some PayRoundingNotAllowed, policy)
               else if rsr_amount req mod rnd_step policy \<noteq> 0 then Inr (Some PayRoundingNotAllowed, policy)
               else Inr (None, policy)))"

text \<open>The total is read only for a check that may take money.\<close>

definition checkTotalFor ::
  "payment_service \<Rightarrow> register_sale_request \<Rightarrow> pay_err option \<Rightarrow> pay_err + int" where
  "checkTotalFor svc req verdict =
     (if verdict = None \<and> hasCheck req
      then case svc_checks svc of
             None \<Rightarrow> Inl (PayOther ''check write guard not wired'')
           | Some g \<Rightarrow> (case CheckTotal g (rsr_tenant req) (the (rsr_check req)) of
                         Inl _ \<Rightarrow> Inl (PayOther ''read check total'') | Inr t \<Rightarrow> Inr t)
      else Inr 0)"

text \<open>\<open>errors.Is(err, ErrNotFound)\<close> on a lookup: None for a missing row.\<close>

definition lookup :: "(pay_db, pay_err, 'a) tx \<Rightarrow> (pay_db, pay_err, 'a option) tx" where
  "lookup m s =
     (case m s of
        Inr (x, s') \<Rightarrow> Inr (Some x, s')
      | Inl e \<Rightarrow> (if e = PayNotFound then Inr (None, s) else Inl e))"

definition guardAgainstOverpayment ::
  "pgtx \<Rightarrow> register_sale_request \<Rightarrow> int \<Rightarrow> rounding_policy \<Rightarrow> (pay_db, pay_err, payment option) tx" where
  "guardAgainstOverpayment tx req checkTotal policy =
     (let checkID = the (rsr_check req) in
     tx_bind (PaymentRepo_LockCheckForPayment tx checkID) (\<lambda>_.
     tx_bind (lookup (PaymentRepo_GetByIdempotencyKey tx (rsr_tenant req) (rsr_key req))) (\<lambda>existing.
     if existing \<noteq> None then tx_return existing else
     tx_bind (PaymentRepo_TotalPaidForCheck tx (rsr_tenant req) checkID) (\<lambda>paid.
     tx_bind (PaymentRepo_PendingTotalForCheck tx (rsr_tenant req) checkID) (\<lambda>pending.
     let due = wrap64 (wrap64 (checkTotal - paid) - pending);
         settling = wrap64 (rsr_amount req + rsr_rounding req)
     in tx_bind (tx_require (\<not> settling > due) PayExceedsDue) (\<lambda>_.
        if rsr_rounding req = 0 then tx_return None else
        tx_bind (tx_require (settling = due) PayRoundingNotAllowed) (\<lambda>_.
        tx_bind (PaymentRepo_RoundingTotalForCheck tx (rsr_tenant req) checkID) (\<lambda>conceded.
        tx_bind (tx_require (\<not> wrap64 (conceded + rsr_rounding req) > rnd_max_per_check policy)
          PayRoundingNotAllowed) (\<lambda>_.
        tx_return None)))))))))"

section \<open>Registering a sale\<close>

definition zero_payment :: payment where
  "zero_payment =
     \<lparr>pmt_id = uuid_Nil, pmt_tenant = uuid_Nil, pmt_branch = uuid_Nil, pmt_check = None,
      pmt_key = '''', pmt_method = MethodOther '''', pmt_status = PaymentStatusOther '''',
      pmt_amount = 0, pmt_rounding = 0, pmt_currency = '''', pmt_receipt = None, pmt_created = 0,
      pmt_completed = None\<rparr>"

definition requested_payment :: "register_sale_request \<Rightarrow> payment" where
  "requested_payment req =
     zero_payment\<lparr>pmt_tenant := rsr_tenant req, pmt_branch := rsr_branch req,
       pmt_check := rsr_check req, pmt_key := rsr_key req, pmt_method := rsr_method req,
       pmt_amount := rsr_amount req, pmt_rounding := rsr_rounding req,
       pmt_currency := rsr_currency req\<rparr>"

definition buildFiscalSale :: "uuid \<Rightarrow> payment \<Rightarrow> register_sale_request \<Rightarrow> fiscal_sale" where
  "buildFiscalSale submissionID p req =
     \<lparr>fsl_submission = submissionID, fsl_tenant = rsr_tenant req, fsl_branch = rsr_branch req,
      fsl_payment = pmt_id p, fsl_check = rsr_check req, fsl_currency = rsr_currency req,
      fsl_total = rsr_amount req,
      fsl_lines =
        (if rsr_lines req = []
         then [\<lparr>fln_name = ''Satis'', fln_unit_price = wrap64 (rsr_amount req + rsr_rounding req),
                fln_qty_milli = 1000, fln_tax = 0, fln_category = uuid_Nil, fln_unit = ''C62''\<rparr>]
         else rsr_lines req),
      fsl_payments = [\<lparr>fpm_method = rsr_method req, fpm_amount = rsr_amount req\<rparr>],
      fsl_discount =
        (if rsr_rounding req > 0
         then Some \<lparr>adj_description = ''Yuvarlama'', adj_kind = AdjustDiscount,
                    adj_mode = AdjustAmount, adj_value = rsr_rounding req\<rparr>
         else None),
      fsl_customer = None, fsl_meta = rsr_meta req\<rparr>"

definition pending_submission ::
  "payment_service \<Rightarrow> time \<Rightarrow> uuid \<Rightarrow> payment \<Rightarrow> register_sale_request \<Rightarrow> fiscal_submission" where
  "pending_submission svc now submissionID p req =
     \<lparr>fsb_id = submissionID, fsb_tenant = rsr_tenant req, fsb_branch = rsr_branch req,
      fsb_payment = pmt_id p, fsb_adapter = adapterTypeOf (svc_fiscal svc),
      fsb_terminal = rsr_terminal req, fsb_status = FiscalOther '''',
      fsb_payload = SaleJson (buildFiscalSale submissionID p req), fsb_retry = 0,
      fsb_submitted = None, fsb_created = Some now\<rparr>"

text \<open>From the end of the guards on: the payment and its registration. \<open>others\<close> is what
  other transactions committed since this one's lookups, which the unique index sees.\<close>

definition createPayment ::
  "(pay_db \<Rightarrow> pay_db) \<Rightarrow> payment_service \<Rightarrow> register_sale_request \<Rightarrow> pgtx \<Rightarrow> (pay_db, pay_err, payment) tx"
where
  "createPayment others svc req tx =
     tx_bind (tx_write others) (\<lambda>_.
     tx_bind (PaymentRepo_Create tx (requested_payment req)) (\<lambda>p.
     tx_bind uuid_New (\<lambda>submissionID.
     tx_bind (FiscalSubmissionRepo_Insert tx
       (pending_submission svc (tx_now tx) submissionID p req)) (\<lambda>_.
     tx_return p))))"

definition requireCashSession :: "register_sale_request \<Rightarrow> pgtx \<Rightarrow> (pay_db, pay_err, unit) tx" where
  "requireCashSession req tx =
     (if \<not> cashPaymentRequiresOpenSession (rsr_method req) then tx_return ()
      else tx_bind (lookup (CashSessionRepo_GetActiveByBranchForShare tx (rsr_tenant req) (rsr_branch req)))
        (\<lambda>session. tx_require (session \<noteq> None) PayNoCashSessionOpen))"

definition registerSaleTx ::
  "(pay_db \<Rightarrow> pay_db) \<Rightarrow> payment_service \<Rightarrow> register_sale_request \<Rightarrow> pay_err option \<Rightarrow> pay_err option \<Rightarrow>
   rounding_policy \<Rightarrow> int \<Rightarrow> pgtx \<Rightarrow> (pay_db, pay_err, payment) tx" where
  "registerSaleTx others svc req checkVerdict roundingVerdict policy checkTotal tx =
     tx_bind (lookup (PaymentRepo_GetByIdempotencyKey tx (rsr_tenant req) (rsr_key req))) (\<lambda>existing.
     case existing of
       Some p \<Rightarrow> tx_return p
     | None \<Rightarrow>
       (case checkVerdict of Some e \<Rightarrow> tx_throw e | None \<Rightarrow>
       (case roundingVerdict of Some e \<Rightarrow> tx_throw e | None \<Rightarrow>
        tx_bind (if hasCheck req then guardAgainstOverpayment tx req checkTotal policy
                 else tx_return None) (\<lambda>replay.
        case replay of
          Some p \<Rightarrow> tx_return p
        | None \<Rightarrow>
            tx_bind (requireCashSession req tx) (\<lambda>_.
            createPayment others svc req tx)))))"

definition fetchExistingByIdempotencyKey ::
  "ctx \<Rightarrow> uuid \<Rightarrow> string \<Rightarrow> (pay_db, pay_err, payment) tx" where
  "fetchExistingByIdempotencyKey c tenantID key =
     PayTenantReadTx c tenantID (\<lambda>tx. PaymentRepo_GetByIdempotencyKey tx tenantID key)"

definition validSaleRequest :: "register_sale_request \<Rightarrow> pay_err + register_sale_request" where
  "validSaleRequest req =
     (if rsr_key req = '''' then Inl PayInvalidInput
      else if \<not> PaymentMethod_Valid (rsr_method req) then Inl PayInvalidInput
      else if rsr_amount req \<le> 0 then Inl PayInvalidInput
      else if rsr_rounding req < 0 then Inl PayInvalidInput
      else Inr (if rsr_currency req = '''' then req\<lparr>rsr_currency := ''TRY''\<rparr> else req))"

definition PaymentService_RegisterSale ::
  "(pay_db \<Rightarrow> pay_db) \<Rightarrow> payment_service \<Rightarrow> ctx \<Rightarrow> register_sale_request \<Rightarrow> (pay_db, pay_err, payment) tx"
where
  "PaymentService_RegisterSale others svc c req0 =
     tx_bind (tx_lift (validSaleRequest req0)) (\<lambda>req.
     tx_bind (tx_lift (checkVerdictFor svc req)) (\<lambda>checkVerdict.
     tx_bind (tx_lift (roundingVerdictFor svc req)) (\<lambda>(roundingVerdict, policy).
     tx_bind (tx_lift (checkTotalFor svc req checkVerdict)) (\<lambda>checkTotal s.
     case PayTenantTx c (rsr_tenant req)
            (registerSaleTx others svc req checkVerdict roundingVerdict policy checkTotal) s of
       Inr r \<Rightarrow> Inr r
     | Inl e \<Rightarrow> (if e = PayDuplicateIdempotencyKey
                then fetchExistingByIdempotencyKey c (rsr_tenant req) (rsr_key req) (others s)
                else Inl e)))))"

section \<open>The device's answer\<close>

definition applyCompleted :: "pgtx \<Rightarrow> fiscal_result \<Rightarrow> (pay_db, pay_err, unit) tx" where
  "applyCompleted tx res =
     (let issuedAt = coalesce (res_device_at res) (coalesce (res_completed_at res) (tx_now tx)) in
     tx_bind (PaymentRepo_InsertFiscalReceipt tx
       \<lparr>rcp_id = uuid_Nil, rcp_tenant = res_tenant res, rcp_payment = res_payment res,
        rcp_device = res_device res, rcp_number = res_receipt_no res, rcp_z_no = res_z_no res,
        rcp_vendor_ref = res_vendor_ref res, rcp_data = Map.empty, rcp_issued_at = issuedAt\<rparr>)
       (\<lambda>receiptID.
     tx_bind (PaymentRepo_Complete tx (res_payment res) receiptID) (\<lambda>_.
     PayInsertOutbox tx (res_tenant res) ''payment'' (res_payment res) ''payment.completed''
       [(''tenant_id'', JId (res_tenant res)), (''branch_id'', JId (res_branch res)),
        (''payment_id'', JId (res_payment res)), (''submission_id'', JId (res_submission res)),
        (''receipt_no'', JStr (res_receipt_no res)), (''device_type'', JStr (res_device res))])))"

definition applyFailed :: "pgtx \<Rightarrow> fiscal_result \<Rightarrow> (pay_db, pay_err, unit) tx" where
  "applyFailed tx res = PaymentRepo_Fail tx (res_payment res)"

definition applyVoided :: "pgtx \<Rightarrow> fiscal_result \<Rightarrow> (pay_db, pay_err, unit) tx" where
  "applyVoided tx res =
     tx_bind (PaymentRepo_Void tx (res_payment res)) (\<lambda>_.
     PayInsertOutbox tx (res_tenant res) ''payment'' (res_payment res) ''payment.voided''
       [(''tenant_id'', JId (res_tenant res)), (''branch_id'', JId (res_branch res)),
        (''payment_id'', JId (res_payment res)), (''submission_id'', JId (res_submission res)),
        (''reason'', JStr (res_failure res))])"

definition fiscalResultTx :: "fiscal_result \<Rightarrow> pgtx \<Rightarrow> (pay_db, pay_err, unit) tx" where
  "fiscalResultTx res tx =
     tx_bind (FiscalSubmissionRepo_MarkResult tx (res_submission res) (res_status res) (res_raw res)
       (res_failure res) (res_completed_at res)) (\<lambda>transitioned.
     if \<not> transitioned then tx_return ()
     else if res_status res = FiscalCompleted then applyCompleted tx res
     else if res_status res = FiscalFailed \<or> res_status res = FiscalExpired then applyFailed tx res
     else if res_status res = FiscalVoided then applyVoided tx res
     else tx_throw (PayOther ''unsupported status''))"

definition PaymentService_OnFiscalResult :: "ctx \<Rightarrow> fiscal_result \<Rightarrow> (pay_db, pay_err, unit) tx" where
  "PaymentService_OnFiscalResult c res =
     (if res_tenant res = uuid_Nil then tx_throw (PayOther ''tenant id is required'')
      else if res_submission res = uuid_Nil then tx_throw (PayOther ''submission id is required'')
      else if res_payment res = uuid_Nil then tx_throw (PayOther ''payment id is required'')
      else PayTenantTx c (res_tenant res)
             (fiscalResultTx (res\<lparr>res_completed_at := Some (ctx_now c)\<rparr>)))"

definition stampResultIdentity :: "fiscal_result \<Rightarrow> fiscal_submission \<Rightarrow> fiscal_result" where
  "stampResultIdentity res sub =
     res\<lparr>res_submission := fsb_id sub, res_tenant := fsb_tenant sub, res_branch := fsb_branch sub,
         res_payment := fsb_payment sub\<rparr>"

definition not_found_pub :: "pay_err \<Rightarrow> pay_err" where
  "not_found_pub e = (if e = PayNotFound then PayPubNotFound else e)"

definition PaymentService_VoidSale ::
  "payment_service \<Rightarrow> ctx \<Rightarrow> uuid \<Rightarrow> uuid \<Rightarrow> (pay_db, pay_err, unit) tx" where
  "PaymentService_VoidSale svc c tenantID paymentID =
     tx_bind (tx_require (cap_void_sale (Capabilities (svc_fiscal svc)))
       (PayOther ''adapter does not support voiding'')) (\<lambda>_.
     tx_bind (tx_map_err not_found_pub (PayTenantReadTx c tenantID (\<lambda>tx.
       FiscalSubmissionRepo_GetByPaymentID tx paymentID))) (\<lambda>sub.
     if fsb_status sub = FiscalVoided then tx_return () else
     tx_bind (tx_require (fsb_status sub = FiscalCompleted)
       (PayOther ''only completed registrations can be voided'')) (\<lambda>_.
     tx_bind (tx_lift (AdapterVoidSale (svc_fiscal svc)
       \<lparr>ref_submission = fsb_id sub, ref_tenant = fsb_tenant sub, ref_branch = fsb_branch sub,
        ref_terminal = fsb_terminal sub\<rparr>)) (\<lambda>answer.
     case answer of
       None \<Rightarrow> tx_return ()
     | Some res0 \<Rightarrow>
         let res1 = stampResultIdentity res0 sub;
             res = (if res_status res1 = FiscalOther '''' then res1\<lparr>res_status := FiscalVoided\<rparr>
                    else res1)
         in tx_bind (tx_require (res_status res = FiscalVoided) (PayOther ''adapter refused the void''))
              (\<lambda>_. PaymentService_OnFiscalResult c res)))))"

section \<open>Expiring a registration by hand\<close>

definition isExpirable :: "fiscal_status \<Rightarrow> bool" where
  "isExpirable st \<longleftrightarrow> st = FiscalPending \<or> st = FiscalSubmitted"

definition manualExpireFailureReason :: "(uuid \<Rightarrow> string) \<Rightarrow> uuid \<Rightarrow> string \<Rightarrow> string" where
  "manualExpireFailureReason show_id operator note_text =
     ''manually expired by operator '' @ show_id operator @ ''; no fiscal result received'' @
     (if note_text \<noteq> '''' then '': '' @ note_text else '''')"

definition getSubmission :: "ctx \<Rightarrow> uuid \<Rightarrow> uuid \<Rightarrow> (pay_db, pay_err, fiscal_submission) tx" where
  "getSubmission c tenantID submissionID =
     tx_map_err not_found_pub (PayTenantReadTx c tenantID (\<lambda>tx.
       FiscalSubmissionRepo_GetByID tx submissionID))"

definition fiscal_status_string :: "fiscal_status \<Rightarrow> string" where
  "fiscal_status_string st =
     (case st of FiscalPending \<Rightarrow> ''pending'' | FiscalSubmitted \<Rightarrow> ''submitted''
      | FiscalCompleted \<Rightarrow> ''completed'' | FiscalFailed \<Rightarrow> ''failed'' | FiscalVoided \<Rightarrow> ''voided''
      | FiscalExpired \<Rightarrow> ''expired'' | FiscalOther s \<Rightarrow> s)"

text \<open>\<open>others\<close>: what was committed between the operator's pre-check and the write.\<close>

definition PaymentService_ExpireSubmission ::
  "(uuid \<Rightarrow> string) \<Rightarrow> (pay_db \<Rightarrow> pay_db) \<Rightarrow> ctx \<Rightarrow> principal \<Rightarrow> uuid \<Rightarrow> string \<Rightarrow> (pay_db, pay_err, unit) tx"
where
  "PaymentService_ExpireSubmission show_id others c p submissionID reason =
     (if submissionID = uuid_Nil then tx_throw PayPubNotFound else
     tx_bind (getSubmission c (prn_tenant p) submissionID) (\<lambda>sub.
     tx_bind (tx_require (isExpirable (fsb_status sub)) PaySubmissionNotExpirable) (\<lambda>_.
     tx_bind (tx_write others) (\<lambda>_.
     tx_bind (PaymentService_OnFiscalResult c
       (zero_result\<lparr>res_submission := fsb_id sub, res_tenant := fsb_tenant sub,
          res_branch := fsb_branch sub, res_payment := fsb_payment sub, res_status := FiscalExpired,
          res_device := fsb_adapter sub,
          res_failure := manualExpireFailureReason show_id (prn_person p) reason,
          res_raw := RawObject
            [(''source'', JStr ''manual_operator_expire''), (''expired_by'', JId (prn_person p)),
             (''expired_at'', JInt (ctx_now c)), (''operator_note'', JStr reason),
             (''status_at_call'', JStr (fiscal_status_string (fsb_status sub)))]\<rparr>)) (\<lambda>_.
     tx_bind (getSubmission c (prn_tenant p) submissionID) (\<lambda>after.
     tx_require (fsb_status after = FiscalExpired) PaySubmissionNotExpirable))))))"

section \<open>Reads\<close>

definition PaymentService_GetByID :: "ctx \<Rightarrow> uuid \<Rightarrow> uuid \<Rightarrow> (pay_db, pay_err, payment) tx" where
  "PaymentService_GetByID c tenantID i =
     tx_map_err not_found_pub (PayTenantReadTx c tenantID (\<lambda>tx. PaymentRepo_GetByID tx i))"

definition PaymentService_ListByTenant ::
  "ctx \<Rightarrow> uuid \<Rightarrow> uuid option \<Rightarrow> int \<Rightarrow> int \<Rightarrow> (pay_db, pay_err, payment list) tx" where
  "PaymentService_ListByTenant c tenantID branchID lim off =
     PayTenantReadTx c tenantID (\<lambda>tx. PaymentRepo_ListByTenant tx tenantID branchID lim off)"

definition PaymentService_ListByCheck ::
  "ctx \<Rightarrow> uuid \<Rightarrow> uuid \<Rightarrow> (pay_db, pay_err, payment list) tx" where
  "PaymentService_ListByCheck c tenantID checkID =
     PayTenantReadTx c tenantID (\<lambda>tx. PaymentRepo_ListByCheck tx tenantID checkID)"

definition PaymentService_TotalPaidForCheck :: "ctx \<Rightarrow> uuid \<Rightarrow> uuid \<Rightarrow> (pay_db, pay_err, int) tx" where
  "PaymentService_TotalPaidForCheck c tenantID checkID =
     PayTenantReadTx c tenantID (\<lambda>tx. PaymentRepo_TotalPaidForCheck tx tenantID checkID)"

definition PaymentService_PendingTotalForCheck :: "ctx \<Rightarrow> uuid \<Rightarrow> uuid \<Rightarrow> (pay_db, pay_err, int) tx" where
  "PaymentService_PendingTotalForCheck c tenantID checkID =
     PayTenantReadTx c tenantID (\<lambda>tx. PaymentRepo_PendingTotalForCheck tx tenantID checkID)"

end
