(* ===== verification/Pay_Session_Service.thy ===== *)
theory Pay_Session_Service
  imports Pay_Service
begin

text \<open>
  payment/service/cash_session.go, stale_session_watch.go and sales_summary.go: opening,
  counting and closing a branch's drawer, its movements, and the figures a session is
  reconciled with.
\<close>

record open_session_request =
  osr_branch :: uuid
  osr_counted :: int
  osr_notes :: string

record session_view =
  svw_session :: cash_session
  svw_movements :: int
  svw_cash :: int
  svw_expected :: int
  svw_difference :: "int option"

definition buildView :: "pgtx \<Rightarrow> cash_session \<Rightarrow> (pay_db, pay_err, session_view) tx" where
  "buildView tx r =
     tx_bind (CashSessionRepo_SumCompletedCashPayments tx (ses_tenant r) (ses_branch r)
       (ses_opened_at r) (ses_closed_at r)) (\<lambda>cashTaken.
     tx_bind (CashSessionRepo_SumMovementsNet tx (ses_tenant r) (ses_id r)) (\<lambda>movementsNet.
     let expected = wrap64 (wrap64 (ses_opening r + cashTaken) + movementsNet)
     in tx_return
          \<lparr>svw_session = r, svw_movements = movementsNet, svw_cash = cashTaken,
           svw_expected = expected,
           svw_difference = map_option (\<lambda>n. wrap64 (n - expected)) (ses_closing r)\<rparr>))"

definition zero_session :: cash_session where
  "zero_session =
     \<lparr>ses_id = uuid_Nil, ses_tenant = uuid_Nil, ses_branch = uuid_Nil,
      ses_status = SessionStatusOther '''', ses_opening = 0, ses_opening_notes = '''',
      ses_opened_by = uuid_Nil, ses_opened_at = 0, ses_closing = None, ses_denominations = [],
      ses_closing_notes = '''', ses_submitted_at = None, ses_closed_by = None,
      ses_closed_at = None, ses_created = 0, ses_updated = 0\<rparr>"

definition session_open_err :: "pay_err \<Rightarrow> pay_err" where
  "session_open_err e = (if e = PayRepoSessionAlreadyOpen then PaySessionAlreadyOpen else e)"

definition CashSessionService_Open ::
  "ctx \<Rightarrow> principal \<Rightarrow> open_session_request \<Rightarrow> (pay_db, pay_err, session_view) tx" where
  "CashSessionService_Open c p req =
     tx_bind (tx_require (osr_branch req \<noteq> uuid_Nil) PayInvalidInput) (\<lambda>_.
     tx_bind (tx_lift (pay_requireBranch c p (osr_branch req))) (\<lambda>_.
     tx_bind (tx_require (\<not> osr_counted req < 0) PayInvalidInput) (\<lambda>_.
     tx_map_err session_open_err (PayTenantTx c (prn_tenant p) (\<lambda>tx.
       tx_bind (CashSessionRepo_Open tx (zero_session
         \<lparr>ses_tenant := prn_tenant p, ses_branch := osr_branch req,
          ses_opening := osr_counted req, ses_opening_notes := osr_notes req,
          ses_opened_by := prn_person p\<rparr>)) (buildView tx))))))"

definition CashSessionService_GetActive ::
  "ctx \<Rightarrow> principal \<Rightarrow> uuid \<Rightarrow> (pay_db, pay_err, session_view) tx" where
  "CashSessionService_GetActive c p branchID =
     tx_bind (tx_require (branchID \<noteq> uuid_Nil) PayInvalidInput) (\<lambda>_.
     tx_bind (tx_lift (pay_requireBranch c p branchID)) (\<lambda>_.
     tx_map_err not_found_pub (PayTenantReadTx c (prn_tenant p) (\<lambda>tx.
       tx_bind (CashSessionRepo_GetActiveByBranch tx (prn_tenant p) branchID) (buildView tx)))))"

record movement_request =
  mvr_direction :: movement_direction
  mvr_amount :: int
  mvr_reason :: string

definition recordMovementTx ::
  "ctx \<Rightarrow> principal \<Rightarrow> uuid \<Rightarrow> movement_request \<Rightarrow> pgtx \<Rightarrow> (pay_db, pay_err, cash_movement) tx" where
  "recordMovementTx c p sessionID req tx =
     tx_bind (CashSessionRepo_GetByIDForUpdate tx (prn_tenant p) sessionID) (\<lambda>r.
     tx_bind (tx_lift (pay_requireBranch c p (ses_branch r))) (\<lambda>_.
     tx_bind (tx_require (ses_status r = SessionOpened) PayInvalidSessionTransition) (\<lambda>_.
     CashSessionRepo_InsertMovement tx
       \<lparr>cmv_id = uuid_Nil, cmv_tenant = prn_tenant p, cmv_branch = ses_branch r,
        cmv_session = sessionID, cmv_direction = mvr_direction req, cmv_amount = mvr_amount req,
        cmv_reason = mvr_reason req, cmv_by = prn_person p, cmv_created = 0\<rparr>)))"

definition CashSessionService_RecordMovement ::
  "ctx \<Rightarrow> principal \<Rightarrow> uuid \<Rightarrow> movement_request \<Rightarrow> (pay_db, pay_err, cash_movement) tx" where
  "CashSessionService_RecordMovement c p sessionID req =
     tx_bind (tx_require (sessionID \<noteq> uuid_Nil) (PayOther ''session id is required'')) (\<lambda>_.
     tx_bind (tx_require (CashMovementDirection_Valid (mvr_direction req)) PayInvalidInput) (\<lambda>_.
     tx_bind (tx_require (\<not> mvr_amount req \<le> 0) PayInvalidInput) (\<lambda>_.
     tx_bind (tx_require (TrimSpace (mvr_reason req) \<noteq> '''') PayInvalidInput) (\<lambda>_.
     tx_map_err not_found_pub
       (PayTenantTx c (prn_tenant p) (recordMovementTx c p sessionID req))))))"

definition CashSessionService_ListMovements ::
  "ctx \<Rightarrow> principal \<Rightarrow> uuid \<Rightarrow> (pay_db, pay_err, cash_movement list) tx" where
  "CashSessionService_ListMovements c p sessionID =
     tx_bind (tx_require (sessionID \<noteq> uuid_Nil) (PayOther ''session id is required'')) (\<lambda>_.
     tx_map_err not_found_pub (PayTenantReadTx c (prn_tenant p) (\<lambda>tx.
       tx_bind (CashSessionRepo_GetByID tx (prn_tenant p) sessionID) (\<lambda>r.
       tx_bind (tx_lift (pay_requireBranch c p (ses_branch r))) (\<lambda>_.
       CashSessionRepo_ListMovements tx (prn_tenant p) sessionID)))))"

record closing_count_request =
  ccr_counted :: int
  ccr_denominations :: "denomination_count list"
  ccr_notes :: string

definition submitClosingTx ::
  "ctx \<Rightarrow> principal \<Rightarrow> uuid \<Rightarrow> closing_count_request \<Rightarrow> pgtx \<Rightarrow> (pay_db, pay_err, session_view) tx" where
  "submitClosingTx c p sessionID req tx =
     tx_bind (CashSessionRepo_GetByIDForUpdate tx (prn_tenant p) sessionID) (\<lambda>current.
     tx_bind (tx_lift (pay_requireBranch c p (ses_branch current))) (\<lambda>_.
     tx_bind (CashSessionRepo_SubmitClosingCount tx (prn_tenant p) sessionID (ses_status current)
       (ccr_counted req) (ccr_denominations req) (ccr_notes req)) (buildView tx)))"

definition CashSessionService_SubmitClosingCount ::
  "ctx \<Rightarrow> principal \<Rightarrow> uuid \<Rightarrow> closing_count_request \<Rightarrow> (pay_db, pay_err, session_view) tx" where
  "CashSessionService_SubmitClosingCount c p sessionID req =
     tx_bind (tx_require (sessionID \<noteq> uuid_Nil) (PayOther ''session id is required'')) (\<lambda>_.
     tx_bind (tx_require (\<not> ccr_counted req < 0) PayInvalidInput) (\<lambda>_.
     tx_bind (tx_lift (ValidateDenominations (ccr_denominations req) (ccr_counted req))) (\<lambda>_.
     tx_map_err not_found_pub
       (PayTenantTx c (prn_tenant p) (submitClosingTx c p sessionID req)))))"

text \<open>The reasons a session may not close yet: today one, the branch's registrations
  in flight, whose number the message reports.\<close>

definition cannotClose :: "pgtx \<Rightarrow> uuid \<Rightarrow> uuid \<Rightarrow> (pay_db, pay_err, nat list) tx" where
  "cannotClose tx tenantID branchID =
     tx_bind (FiscalStatusRepo_ListPendingByBranch tx tenantID branchID) (\<lambda>pending.
     tx_return (if 0 < length pending then [length pending] else []))"

definition closeSessionTx ::
  "ctx \<Rightarrow> principal \<Rightarrow> uuid \<Rightarrow> pgtx \<Rightarrow> (pay_db, pay_err, session_view) tx" where
  "closeSessionTx c p sessionID tx =
     tx_bind (CashSessionRepo_GetByIDForUpdate tx (prn_tenant p) sessionID) (\<lambda>current.
     tx_bind (tx_lift (pay_requireBranch c p (ses_branch current))) (\<lambda>_.
     tx_bind (tx_require (ses_status current = SessionClosingControl) PayInvalidSessionTransition) (\<lambda>_.
     tx_bind (cannotClose tx (prn_tenant p) (ses_branch current)) (\<lambda>reasons.
     if reasons \<noteq> [] then tx_throw (PayCannotClose (hd reasons)) else
     tx_bind (CashSessionRepo_Close tx (prn_tenant p) sessionID (ses_status current) (prn_person p))
       (buildView tx)))))"

definition CashSessionService_Close ::
  "ctx \<Rightarrow> principal \<Rightarrow> uuid \<Rightarrow> (pay_db, pay_err, session_view) tx" where
  "CashSessionService_Close c p sessionID =
     tx_bind (tx_require (sessionID \<noteq> uuid_Nil) (PayOther ''session id is required'')) (\<lambda>_.
     tx_map_err not_found_pub (PayTenantTx c (prn_tenant p) (closeSessionTx c p sessionID)))"

section \<open>The day-end report's view\<close>

record session_summary =
  ssm_id :: uuid
  ssm_status :: session_status
  ssm_opened_at :: time
  ssm_closed_at :: "time option"
  ssm_opening :: int
  ssm_cash :: int
  ssm_movements :: int
  ssm_expected :: int
  ssm_closing :: "int option"
  ssm_difference :: "int option"

definition session_summary_of :: "session_view \<Rightarrow> session_summary" where
  "session_summary_of v =
     (let r = svw_session v in
      \<lparr>ssm_id = ses_id r, ssm_status = ses_status r, ssm_opened_at = ses_opened_at r,
       ssm_closed_at = ses_closed_at r, ssm_opening = ses_opening r, ssm_cash = svw_cash v,
       ssm_movements = svw_movements v, ssm_expected = svw_expected v,
       ssm_closing = ses_closing r, ssm_difference = svw_difference v\<rparr>)"

definition SalesSummaryService_PaymentTotalsByMethod ::
  "ctx \<Rightarrow> uuid \<Rightarrow> uuid \<Rightarrow> time \<Rightarrow> time \<Rightarrow> (pay_db, pay_err, method_total list) tx" where
  "SalesSummaryService_PaymentTotalsByMethod c tenantID branchID from to =
     PayTenantReadTx c tenantID (\<lambda>tx. PaymentRepo_TotalsByMethod tx tenantID branchID from to)"

definition SalesSummaryService_CashSessionsInWindow ::
  "ctx \<Rightarrow> uuid \<Rightarrow> uuid \<Rightarrow> time \<Rightarrow> time \<Rightarrow> (pay_db, pay_err, session_summary list) tx" where
  "SalesSummaryService_CashSessionsInWindow c tenantID branchID from to =
     PayTenantReadTx c tenantID (\<lambda>tx.
       tx_bind (CashSessionRepo_ListByBranchWindow tx tenantID branchID from to) (\<lambda>sessions.
       tx_map (\<lambda>r. tx_bind (buildView tx r) (\<lambda>v. tx_return (session_summary_of v))) sessions))"

section \<open>What the counter sees\<close>

record check_settlement =
  cst_check :: uuid
  cst_as_of :: time
  cst_completed :: "check_settled_row list"
  cst_pending :: int

definition PaymentService_CheckSettlementFor ::
  "ctx \<Rightarrow> principal \<Rightarrow> uuid \<Rightarrow> (pay_db, pay_err, check_settlement) tx" where
  "PaymentService_CheckSettlementFor c p checkID =
     tx_bind (tx_require (checkID \<noteq> uuid_Nil) (PayOther ''check_id is required'')) (\<lambda>_.
     let branchID = branchScopeFilter c p in
     PayTenantReadTx c (prn_tenant p) (\<lambda>tx.
       tx_bind (PaymentRepo_ListCompletedByCheck tx (prn_tenant p) checkID branchID) (\<lambda>completed.
       tx_bind (PaymentRepo_PendingTotalForCheckInBranch tx (prn_tenant p) checkID branchID) (\<lambda>pending.
       tx_return \<lparr>cst_check = checkID, cst_as_of = ctx_now c, cst_completed = completed,
                  cst_pending = pending\<rparr>))))"

record fiscal_pending_item =
  fpi_payment :: uuid
  fpi_check :: "uuid option"
  fpi_amount :: int
  fpi_rounding :: int
  fpi_registered :: time
  fpi_age :: int

record fiscal_branch_status =
  fbs_branch :: uuid
  fbs_as_of :: time
  fbs_pending :: "fiscal_pending_item list"
  fbs_settled :: "fiscal_settled_row list"

text \<open>\<open>settledWindow\<close> is five minutes, in the seconds of the model's clock.\<close>

definition settledWindow :: int where
  "settledWindow = 300"

definition PaymentService_FiscalBranchStatusFor ::
  "ctx \<Rightarrow> principal \<Rightarrow> uuid \<Rightarrow> (pay_db, pay_err, fiscal_branch_status) tx" where
  "PaymentService_FiscalBranchStatusFor c p branchID =
     tx_bind (tx_require (branchID \<noteq> uuid_Nil) (PayOther ''branch_id is required'')) (\<lambda>_.
     tx_bind (tx_lift (pay_requireBranch c p branchID)) (\<lambda>_.
     let asOf = ctx_now c in
     PayTenantReadTx c (prn_tenant p) (\<lambda>tx.
       tx_bind (FiscalStatusRepo_ListPendingByBranch tx (prn_tenant p) branchID) (\<lambda>pending.
       tx_bind (FiscalStatusRepo_ListRecentlySettledByBranch tx (prn_tenant p) branchID
         (asOf - settledWindow)) (\<lambda>settled.
       tx_return
         \<lparr>fbs_branch = branchID, fbs_as_of = asOf,
          fbs_pending = map (\<lambda>r. \<lparr>fpi_payment = fpr_payment r, fpi_check = fpr_check r,
            fpi_amount = fpr_amount r, fpi_rounding = fpr_rounding r,
            fpi_registered = fpr_registered r,
            fpi_age = (if asOf - fpr_registered r < 0 then 0 else asOf - fpr_registered r)\<rparr>) pending,
          fbs_settled = settled\<rparr>)))))"

end
