(* ===== verification/Pay_Worker.thy ===== *)
theory Pay_Worker
  imports Pay_Session_Service
begin

text \<open>
  The background actors of payment/service: submission_worker.go drains the queue of
  fiscal registrations, reconciliation.go looks for results that never arrived,
  stale_session_watch.go for drawers left open. Durations are in the seconds of the
  model's clock. A cancelled context is not modelled: every cycle runs to its end.
\<close>

section \<open>The submission worker\<close>

record worker_config =
  wcf_batch :: int
  wcf_max_retries :: int
  wcf_stale_claim :: int
  wcf_interval :: int
  wcf_submit_timeout :: int
  wcf_concurrency :: int

definition WorkerConfig_withDefaults :: "worker_config \<Rightarrow> worker_config" where
  "WorkerConfig_withDefaults cfg =
     \<lparr>wcf_batch = (if wcf_batch cfg \<le> 0 then 20 else wcf_batch cfg),
      wcf_max_retries = (if wcf_max_retries cfg \<le> 0 then 5 else wcf_max_retries cfg),
      wcf_stale_claim = (if wcf_stale_claim cfg \<le> 0 then 600 else wcf_stale_claim cfg),
      wcf_interval = (if wcf_interval cfg \<le> 0 then 1 else wcf_interval cfg),
      wcf_submit_timeout = (if wcf_submit_timeout cfg \<le> 0 then 60 else wcf_submit_timeout cfg),
      wcf_concurrency = (if wcf_concurrency cfg \<le> 0 then 4 else wcf_concurrency cfg)\<rparr>"

definition maxRetryBackoff :: int where
  "maxRetryBackoff = 60"

definition retryBackoff :: "int \<Rightarrow> int" where
  "retryBackoff n0 =
     (let n = (if n0 < 1 then 1 else n0)
      in if n > 16 then maxRetryBackoff
         else let delay = push_bit (nat (n - 1)) 1
              in if delay > maxRetryBackoff then maxRetryBackoff else delay)"

definition finalizeFailure :: "ctx \<Rightarrow> fiscal_submission \<Rightarrow> string \<Rightarrow> (pay_db, pay_err, unit) tx" where
  "finalizeFailure c sub cause =
     PaymentService_OnFiscalResult c (zero_result
       \<lparr>res_submission := fsb_id sub, res_tenant := fsb_tenant sub, res_branch := fsb_branch sub,
        res_payment := fsb_payment sub, res_status := FiscalFailed, res_device := fsb_adapter sub,
        res_failure := cause, res_completed_at := Some (ctx_now c)\<rparr>)"

definition queue_MarkSubmitted :: "ctx \<Rightarrow> fiscal_submission \<Rightarrow> (pay_db, pay_err, bool) tx" where
  "queue_MarkSubmitted c sub =
     PayTenantTx c (fsb_tenant sub) (\<lambda>tx. FiscalSubmissionRepo_MarkSubmitted tx (fsb_id sub))"

definition queue_MarkRetry ::
  "ctx \<Rightarrow> fiscal_submission \<Rightarrow> int \<Rightarrow> time \<Rightarrow> string \<Rightarrow> (pay_db, pay_err, unit) tx" where
  "queue_MarkRetry c sub retryCount nextRetryAt lastError =
     PayTenantTx c (fsb_tenant sub) (\<lambda>tx.
       FiscalSubmissionRepo_MarkRetry tx (fsb_id sub) retryCount nextRetryAt lastError)"

text \<open>\<open>err_text\<close> renders an error; a retry that finds the row resolved is fine.\<close>

definition handleSubmitError ::
  "(pay_err \<Rightarrow> string) \<Rightarrow> worker_config \<Rightarrow> ctx \<Rightarrow> fiscal_submission \<Rightarrow> pay_err \<Rightarrow> (pay_db, pay_err, unit) tx"
where
  "handleSubmitError err_text cfg c sub submitErr =
     (let retryCount = fsb_retry sub + 1
      in if retryCount > wcf_max_retries cfg then finalizeFailure c sub (err_text submitErr)
         else tx_bind (lookup (queue_MarkRetry c sub retryCount
                (ctx_now c + retryBackoff retryCount) (err_text submitErr))) (\<lambda>_. tx_return ()))"

definition process_submission ::
  "(pay_err \<Rightarrow> string) \<Rightarrow> fiscal_adapter \<Rightarrow> worker_config \<Rightarrow> ctx \<Rightarrow> fiscal_submission \<Rightarrow>
   (pay_db, pay_err, unit) tx" where
  "process_submission err_text adapter cfg c sub =
     (case fsb_payload sub of
        BrokenJson e \<Rightarrow> finalizeFailure c sub (err_text (PayOther ''unmarshal sale payload''))
      | SaleJson sale \<Rightarrow>
          (case SubmitSale adapter sale of
             Inl e \<Rightarrow> handleSubmitError err_text cfg c sub e
           | Inr None \<Rightarrow> tx_bind (queue_MarkSubmitted c sub) (\<lambda>_. tx_return ())
           | Inr (Some res) \<Rightarrow> PaymentService_OnFiscalResult c (stampResultIdentity res sub)))"

text \<open>One submission of a shard: an error is logged and the next one is taken.\<close>

definition process_next ::
  "(pay_err \<Rightarrow> string) \<Rightarrow> fiscal_adapter \<Rightarrow> worker_config \<Rightarrow> ctx \<Rightarrow> fiscal_submission \<Rightarrow>
   nat \<times> pay_db \<Rightarrow> nat \<times> pay_db" where
  "process_next err_text adapter cfg c sub ns =
     (case process_submission err_text adapter cfg c sub (snd ns) of
        Inl _ \<Rightarrow> ns
      | Inr (_, s') \<Rightarrow> (fst ns + 1, s'))"

definition processShard ::
  "(pay_err \<Rightarrow> string) \<Rightarrow> fiscal_adapter \<Rightarrow> worker_config \<Rightarrow> ctx \<Rightarrow> fiscal_submission list \<Rightarrow>
   nat \<times> pay_db \<Rightarrow> nat \<times> pay_db" where
  "processShard err_text adapter cfg c shard ns = fold (process_next err_text adapter cfg c) shard ns"

text \<open>The loop of \<open>shardByTerminal\<close>: \<open>index\<close> holds the position of each key's shard.\<close>

definition shardKeyOf :: "fiscal_submission \<Rightarrow> uuid \<times> uuid" where
  "shardKeyOf sub = (fsb_tenant sub, fsb_branch sub)"

fun shard_loop ::
  "(uuid \<times> uuid \<rightharpoonup> nat) \<Rightarrow> fiscal_submission list list \<Rightarrow> fiscal_submission list \<Rightarrow>
   fiscal_submission list list" where
  "shard_loop index shards [] = shards"
| "shard_loop index shards (sub # batch) =
     (case index (shardKeyOf sub) of
        Some i \<Rightarrow> shard_loop index (shards[i := shards ! i @ [sub]]) batch
      | None \<Rightarrow> shard_loop (index(shardKeyOf sub \<mapsto> length shards)) (shards @ [[sub]]) batch)"

definition shardByTerminal :: "fiscal_submission list \<Rightarrow> fiscal_submission list list" where
  "shardByTerminal batch = shard_loop Map.empty [] batch"

text \<open>One cycle. The shards run in parallel; \<open>schedule\<close> merges them into the order in
  which their submissions happen to be processed.\<close>

definition Worker_RunOnce ::
  "(fiscal_submission list list \<Rightarrow> fiscal_submission list) \<Rightarrow> (pay_err \<Rightarrow> string) \<Rightarrow> fiscal_adapter \<Rightarrow>
   worker_config \<Rightarrow> ctx \<Rightarrow> (pay_db, pay_err, nat) tx" where
  "Worker_RunOnce schedule err_text adapter cfg c =
     tx_bind (FiscalSubmissionRepo_ClaimPending (ctx_now c) (wcf_batch cfg) (wcf_stale_claim cfg))
       (\<lambda>batch s.
         if batch = [] then Inr (0, s)
         else Inr (processShard err_text adapter cfg c (schedule (shardByTerminal batch)) (0, s)))"

section \<open>Warn once\<close>

text \<open>\<open>markWarned\<close>, \<open>forget\<close> and \<open>pruneWarned\<close> of both watches: the set of what was
  reported already.\<close>

definition markWarned :: "uuid \<Rightarrow> uuid set \<Rightarrow> bool \<times> uuid set" where
  "markWarned i warned = (if i \<in> warned then (False, warned) else (True, insert i warned))"

definition forget_warned :: "uuid \<Rightarrow> uuid set \<Rightarrow> uuid set" where
  "forget_warned i warned = warned - {i}"

definition pruneWarned :: "uuid set \<Rightarrow> uuid set \<Rightarrow> uuid set" where
  "pruneWarned seen warned = {i \<in> warned. i \<in> seen}"

section \<open>The reconciler\<close>

record reconciler_config =
  rcf_batch :: int
  rcf_stale_after :: int
  rcf_expire_after :: int
  rcf_auto_expire :: bool

definition ReconcilerConfig_withDefaults :: "reconciler_config \<Rightarrow> reconciler_config" where
  "ReconcilerConfig_withDefaults cfg =
     \<lparr>rcf_batch = (if rcf_batch cfg \<le> 0 then 100 else rcf_batch cfg),
      rcf_stale_after = (if rcf_stale_after cfg \<le> 0 then 900 else rcf_stale_after cfg),
      rcf_expire_after = (if rcf_expire_after cfg \<le> 0 then 1209600 else rcf_expire_after cfg),
      rcf_auto_expire = rcf_auto_expire cfg\<rparr>"

record reconcile_stats =
  rst_scanned :: nat
  rst_warned :: nat
  rst_expired :: nat

record sweep_state =
  swp_db :: pay_db
  swp_warned :: "uuid set"
  swp_seen :: "uuid set"
  swp_stats :: reconcile_stats

definition reconciler_expire :: "ctx \<Rightarrow> fiscal_submission \<Rightarrow> string \<Rightarrow> (pay_db, pay_err, unit) tx" where
  "reconciler_expire c sub age_text =
     PaymentService_OnFiscalResult c (zero_result
       \<lparr>res_submission := fsb_id sub, res_tenant := fsb_tenant sub, res_branch := fsb_branch sub,
        res_payment := fsb_payment sub, res_status := FiscalExpired, res_device := fsb_adapter sub,
        res_failure := ''no fiscal result within '' @ age_text @ ''; vendor basket TTL elapsed'',
        res_completed_at := Some (ctx_now c)\<rparr>)"

definition reconcile_one ::
  "(int \<Rightarrow> string) \<Rightarrow> reconciler_config \<Rightarrow> ctx \<Rightarrow> fiscal_submission \<Rightarrow> sweep_state \<Rightarrow> sweep_state" where
  "reconcile_one show_age cfg c sub w0 =
     (case fsb_submitted sub of
        None \<Rightarrow> w0
      | Some submittedAt \<Rightarrow>
         let w = w0\<lparr>swp_seen := insert (fsb_id sub) (swp_seen w0)\<rparr>;
             age = ctx_now c - submittedAt
         in if age \<ge> rcf_expire_after cfg \<and> rcf_auto_expire cfg
            then (case reconciler_expire c sub (show_age age) (swp_db w) of
                    Inl _ \<Rightarrow> w
                  | Inr (_, s') \<Rightarrow>
                      w\<lparr>swp_db := s', swp_seen := swp_seen w - {fsb_id sub},
                        swp_warned := forget_warned (fsb_id sub) (swp_warned w),
                        swp_stats := (swp_stats w)\<lparr>rst_expired := rst_expired (swp_stats w) + 1\<rparr>\<rparr>)
            else (case markWarned (fsb_id sub) (swp_warned w) of
                    (False, _) \<Rightarrow> w
                  | (True, warned) \<Rightarrow>
                      w\<lparr>swp_warned := warned,
                        swp_stats := (swp_stats w)\<lparr>rst_warned := rst_warned (swp_stats w) + 1\<rparr>\<rparr>))"

definition Reconciler_RunOnce ::
  "(int \<Rightarrow> string) \<Rightarrow> reconciler_config \<Rightarrow> ctx \<Rightarrow> uuid set \<Rightarrow> pay_db \<Rightarrow>
   pay_err + reconcile_stats \<times> uuid set \<times> pay_db" where
  "Reconciler_RunOnce show_age cfg c warned s =
     (case FiscalSubmissionRepo_ListStaleSubmitted (ctx_now c) (rcf_batch cfg) (rcf_stale_after cfg) s of
        Inl e \<Rightarrow> Inl e
      | Inr (stale, s1) \<Rightarrow>
          let w = fold (reconcile_one show_age cfg c) stale
                    \<lparr>swp_db = s1, swp_warned = warned, swp_seen = {},
                     swp_stats = \<lparr>rst_scanned = length stale, rst_warned = 0, rst_expired = 0\<rparr>\<rparr>
          in Inr (swp_stats w, pruneWarned (swp_seen w) (swp_warned w), swp_db w))"

section \<open>The stale-session watch\<close>

record session_watch_config =
  swc_interval :: int
  swc_max_age :: int

record session_watch_stats =
  sws_scanned :: nat
  sws_warned :: nat

definition watch_one ::
  "cash_session \<Rightarrow> nat \<times> uuid set \<times> uuid set \<Rightarrow> nat \<times> uuid set \<times> uuid set" where
  "watch_one r acc =
     (case acc of (n, warned, seen) \<Rightarrow>
       (case markWarned (ses_id r) warned of
          (False, _) \<Rightarrow> (n, warned, insert (ses_id r) seen)
        | (True, warned') \<Rightarrow> (n + 1, warned', insert (ses_id r) seen)))"

definition StaleSessionWatch_RunOnce ::
  "session_watch_config \<Rightarrow> ctx \<Rightarrow> uuid set \<Rightarrow> pay_db \<Rightarrow> pay_err + session_watch_stats \<times> uuid set" where
  "StaleSessionWatch_RunOnce cfg c warned s =
     (case CashSessionRepo_ListOpenOlderThan (ctx_now c - swc_max_age cfg) s of
        Inl e \<Rightarrow> Inl e
      | Inr (stale, _) \<Rightarrow>
          (case fold watch_one stale (0, warned, {}) of
             (n, warned', seen) \<Rightarrow>
               Inr (\<lparr>sws_scanned = length stale, sws_warned = n\<rparr>, pruneWarned seen warned')))"

end
