(* ===== verification/Pay_Evolution.thy ===== *)
theory Pay_Evolution
  imports Pay_Worker
begin

text \<open>
  How the database of the payment module may change. As for the point of sale, one
  reflexive and transitive relation says what every statement respects: the
  constraints of the schema, a growing outbox, and the history of payments,
  registrations and cash sessions, whose lifecycles only move forward and whose
  amounts never change. It passes from the statements to the service calls by the
  rules of \<open>tx_preorder\<close>.
\<close>

named_theorems pay_intro \<open>operations that respect the evolution relation of the payment module\<close>

section \<open>Lifecycles\<close>

definition payment_step :: "payment_status \<Rightarrow> payment_status \<Rightarrow> bool" where
  "payment_step a b \<longleftrightarrow>
     a = PaymentPending \<and> b \<in> {PaymentCompleted, PaymentFailed, PaymentVoided} \<or>
     a = PaymentCompleted \<and> b = PaymentVoided"

definition payment_moves :: "payment \<Rightarrow> payment \<Rightarrow> bool" where
  "payment_moves p p' \<longleftrightarrow>
     p' = p\<lparr>pmt_status := pmt_status p', pmt_receipt := pmt_receipt p',
            pmt_completed := pmt_completed p'\<rparr> \<and>
     rtranclp payment_step (pmt_status p) (pmt_status p')"

definition fiscal_step :: "fiscal_status \<Rightarrow> fiscal_status \<Rightarrow> bool" where
  "fiscal_step a b \<longleftrightarrow>
     a = FiscalPending \<and> b = FiscalSubmitted \<or>
     (\<exists>src. result_sources b = Some src \<and> a \<in> set src)"

definition submission_moves :: "submission_row \<Rightarrow> submission_row \<Rightarrow> bool" where
  "submission_moves r r' \<longleftrightarrow>
     sub_id r' = sub_id r \<and> sub_tenant r' = sub_tenant r \<and> sub_branch r' = sub_branch r \<and>
     sub_payment r' = sub_payment r \<and> sub_adapter r' = sub_adapter r \<and>
     sub_payload r' = sub_payload r \<and> sub_created r' = sub_created r \<and>
     rtranclp fiscal_step (sub_status r) (sub_status r')"

definition session_step :: "session_status \<Rightarrow> session_status \<Rightarrow> bool" where
  "session_step a b \<longleftrightarrow> b \<in> set (allowedSessionTransitions a)"

text \<open>A closed session does not change any more.\<close>

definition session_moves :: "cash_session \<Rightarrow> cash_session \<Rightarrow> bool" where
  "session_moves r r' \<longleftrightarrow>
     ses_id r' = ses_id r \<and> ses_tenant r' = ses_tenant r \<and> ses_branch r' = ses_branch r \<and>
     ses_opening r' = ses_opening r \<and> ses_opened_at r' = ses_opened_at r \<and>
     ses_opened_by r' = ses_opened_by r \<and>
     rtranclp session_step (ses_status r) (ses_status r') \<and>
     (ses_status r = SessionClosed \<longrightarrow> r' = r)"

lemma payment_moves_refl [simp]: "payment_moves p p"
  by (simp add: payment_moves_def)

lemma payment_moves_trans: "payment_moves a b \<Longrightarrow> payment_moves b c \<Longrightarrow> payment_moves a c"
  unfolding payment_moves_def by (cases a; cases b; cases c) auto

lemma submission_moves_refl [simp]: "submission_moves r r"
  by (simp add: submission_moves_def)

lemma submission_moves_trans: "submission_moves a b \<Longrightarrow> submission_moves b c \<Longrightarrow> submission_moves a c"
  by (auto simp: submission_moves_def)

lemma session_moves_refl [simp]: "session_moves r r"
  by (simp add: session_moves_def)

lemma session_moves_trans: "session_moves a b \<Longrightarrow> session_moves b c \<Longrightarrow> session_moves a c"
  unfolding session_moves_def by (metis rtranclp_trans)

lemma payment_step_final: "rtranclp payment_step a b \<Longrightarrow> a \<in> {PaymentFailed, PaymentVoided} \<Longrightarrow> b = a"
  by (induction rule: rtranclp_induct) (auto simp: payment_step_def)

lemma payment_step_counted:
  "rtranclp payment_step a b \<Longrightarrow> b \<in> {PaymentPending, PaymentCompleted} \<Longrightarrow>
   a \<in> {PaymentPending, PaymentCompleted}"
  by (induction rule: converse_rtranclp_induct) (auto simp: payment_step_def)

section \<open>The relation\<close>

definition pay_schema_ok :: "pay_db \<Rightarrow> bool" where
  "pay_schema_ok s \<longleftrightarrow>
     table_ok payments_table s \<and> table_ok receipts_table s \<and> table_ok submissions_table s \<and>
     table_ok sessions_table s \<and> table_ok movements_table s \<and> table_ok payment_outbox_table s"

definition pay_evolves :: "pay_db \<Rightarrow> pay_db \<Rightarrow> bool" where
  "pay_evolves s s' \<longleftrightarrow>
     (pay_schema_ok s \<longrightarrow> pay_schema_ok s') \<and>
     rows_move payment_moves (pd_payments s) (pd_payments s') \<and>
     rows_move submission_moves (pd_subs s) (pd_subs s') \<and>
     rows_move session_moves (pd_sessions s) (pd_sessions s') \<and>
     rows_move (=) (pd_receipts s) (pd_receipts s') \<and>
     rows_move (=) (pd_moves s) (pd_moves s') \<and>
     rows_move (=) (pd_outbox s) (pd_outbox s')"

lemma pay_evolves_refl: "pay_evolves s s"
  by (auto simp: pay_evolves_def intro: rows_move_refl)

lemma pay_evolves_trans: "pay_evolves s t \<Longrightarrow> pay_evolves t u \<Longrightarrow> pay_evolves s u"
  by (auto simp: pay_evolves_def
      intro: rows_move_trans payment_moves_trans submission_moves_trans session_moves_trans)

interpretation pay_evolves: tx_preorder pay_evolves
  by unfold_locales (rule pay_evolves_refl, rule pay_evolves_trans)

section \<open>Statements\<close>

text \<open>No table refers to another, so a table is fine when its own rows are.\<close>

lemma pay_table_ok_frame [simp]:
  "table_ok payments_table (pd_receipts_update g s) = table_ok payments_table s"
  "table_ok payments_table (pd_subs_update h s) = table_ok payments_table s"
  "table_ok payments_table (pd_sessions_update k s) = table_ok payments_table s"
  "table_ok payments_table (pd_moves_update m s) = table_ok payments_table s"
  "table_ok payments_table (pd_outbox_update u s) = table_ok payments_table s"
  "table_ok payments_table (pd_ctr_update n s) = table_ok payments_table s"
  "table_ok payments_table (pd_parts_update q s) = table_ok payments_table s"
  "table_ok receipts_table (pd_payments_update f s) = table_ok receipts_table s"
  "table_ok receipts_table (pd_subs_update h s) = table_ok receipts_table s"
  "table_ok receipts_table (pd_sessions_update k s) = table_ok receipts_table s"
  "table_ok receipts_table (pd_moves_update m s) = table_ok receipts_table s"
  "table_ok receipts_table (pd_outbox_update u s) = table_ok receipts_table s"
  "table_ok receipts_table (pd_ctr_update n s) = table_ok receipts_table s"
  "table_ok receipts_table (pd_parts_update q s) = table_ok receipts_table s"
  "table_ok submissions_table (pd_payments_update f s) = table_ok submissions_table s"
  "table_ok submissions_table (pd_receipts_update g s) = table_ok submissions_table s"
  "table_ok submissions_table (pd_sessions_update k s) = table_ok submissions_table s"
  "table_ok submissions_table (pd_moves_update m s) = table_ok submissions_table s"
  "table_ok submissions_table (pd_outbox_update u s) = table_ok submissions_table s"
  "table_ok submissions_table (pd_ctr_update n s) = table_ok submissions_table s"
  "table_ok submissions_table (pd_parts_update q s) = table_ok submissions_table s"
  "table_ok sessions_table (pd_payments_update f s) = table_ok sessions_table s"
  "table_ok sessions_table (pd_receipts_update g s) = table_ok sessions_table s"
  "table_ok sessions_table (pd_subs_update h s) = table_ok sessions_table s"
  "table_ok sessions_table (pd_moves_update m s) = table_ok sessions_table s"
  "table_ok sessions_table (pd_outbox_update u s) = table_ok sessions_table s"
  "table_ok sessions_table (pd_ctr_update n s) = table_ok sessions_table s"
  "table_ok sessions_table (pd_parts_update q s) = table_ok sessions_table s"
  "table_ok movements_table (pd_payments_update f s) = table_ok movements_table s"
  "table_ok movements_table (pd_receipts_update g s) = table_ok movements_table s"
  "table_ok movements_table (pd_subs_update h s) = table_ok movements_table s"
  "table_ok movements_table (pd_sessions_update k s) = table_ok movements_table s"
  "table_ok movements_table (pd_outbox_update u s) = table_ok movements_table s"
  "table_ok movements_table (pd_ctr_update n s) = table_ok movements_table s"
  "table_ok movements_table (pd_parts_update q s) = table_ok movements_table s"
  "table_ok payment_outbox_table (pd_payments_update f s) = table_ok payment_outbox_table s"
  "table_ok payment_outbox_table (pd_receipts_update g s) = table_ok payment_outbox_table s"
  "table_ok payment_outbox_table (pd_subs_update h s) = table_ok payment_outbox_table s"
  "table_ok payment_outbox_table (pd_sessions_update k s) = table_ok payment_outbox_table s"
  "table_ok payment_outbox_table (pd_moves_update m s) = table_ok payment_outbox_table s"
  "table_ok payment_outbox_table (pd_ctr_update n s) = table_ok payment_outbox_table s"
  "table_ok payment_outbox_table (pd_parts_update q s) = table_ok payment_outbox_table s"
  by (simp_all add: table_ok_def)

lemmas pay_evolves_unfold = pay_evolves_def pay_schema_ok_def

lemma pay_insert [pay_intro]:
  shows "tx_within pay_evolves (sql_insert payments_table tx p)"
    and "tx_within pay_evolves (sql_insert receipts_table tx rc)"
    and "tx_within pay_evolves (sql_insert submissions_table tx sb)"
    and "tx_within pay_evolves (sql_insert sessions_table tx ss)"
    and "tx_within pay_evolves (sql_insert movements_table tx m)"
    and "tx_within pay_evolves (sql_insert payment_outbox_table tx e)"
proof -
  show "tx_within pay_evolves (sql_insert payments_table tx p)"
  proof (rule tx_withinI)
    fix s x s' assume st: "sql_insert payments_table tx p s = Inr (x, s')"
    show "pay_evolves s s'"
      using st payments.insert_table_ok [OF st]
      by (auto simp: payments.insert_Inr pay_evolves_unfold
          intro: rows_move_refl rows_move_append)
  qed
  show "tx_within pay_evolves (sql_insert receipts_table tx rc)"
  proof (rule tx_withinI)
    fix s x s' assume st: "sql_insert receipts_table tx rc s = Inr (x, s')"
    show "pay_evolves s s'"
      using st receipts.insert_table_ok [OF st]
      by (auto simp: receipts.insert_Inr pay_evolves_unfold
          intro: rows_move_refl rows_move_append)
  qed
  show "tx_within pay_evolves (sql_insert submissions_table tx sb)"
  proof (rule tx_withinI)
    fix s x s' assume st: "sql_insert submissions_table tx sb s = Inr (x, s')"
    show "pay_evolves s s'"
      using st submissions.insert_table_ok [OF st]
      by (auto simp: submissions.insert_Inr pay_evolves_unfold
          intro: rows_move_refl rows_move_append)
  qed
  show "tx_within pay_evolves (sql_insert sessions_table tx ss)"
  proof (rule tx_withinI)
    fix s x s' assume st: "sql_insert sessions_table tx ss s = Inr (x, s')"
    show "pay_evolves s s'"
      using st sessions.insert_table_ok [OF st]
      by (auto simp: sessions.insert_Inr pay_evolves_unfold
          intro: rows_move_refl rows_move_append)
  qed
  show "tx_within pay_evolves (sql_insert movements_table tx m)"
  proof (rule tx_withinI)
    fix s x s' assume st: "sql_insert movements_table tx m s = Inr (x, s')"
    show "pay_evolves s s'"
      using st movements.insert_table_ok [OF st]
      by (auto simp: movements.insert_Inr pay_evolves_unfold
          intro: rows_move_refl rows_move_append)
  qed
  show "tx_within pay_evolves (sql_insert payment_outbox_table tx e)"
  proof (rule tx_withinI)
    fix s x s' assume st: "sql_insert payment_outbox_table tx e s = Inr (x, s')"
    show "pay_evolves s s'"
      using st payment_outbox.insert_table_ok [OF st]
      by (auto simp: payment_outbox.insert_Inr pay_evolves_unfold
          intro: rows_move_refl rows_move_append)
  qed
qed

lemma pay_update_payments [pay_intro]:
  assumes "\<And>p. P p \<Longrightarrow> payment_moves p (f p)" and "\<And>p. pmt_id (f p) = pmt_id p"
  shows "tx_within pay_evolves (sql_update payments_table tx P f)"
proof (rule tx_withinI)
  fix s x s' assume st: "sql_update payments_table tx P f s = Inr (x, s')"
  show "pay_evolves s s'"
    using st payments.update_table_ok [OF st] assms
    by (auto simp: payments.update_Inr pay_evolves_unfold
        intro: rows_move_refl rows_move_update)
qed

lemma pay_update_submissions [pay_intro]:
  assumes "\<And>r. P r \<Longrightarrow> submission_moves r (f r)" and "\<And>r. sub_id (f r) = sub_id r"
  shows "tx_within pay_evolves (sql_update submissions_table tx P f)"
proof (rule tx_withinI)
  fix s x s' assume st: "sql_update submissions_table tx P f s = Inr (x, s')"
  show "pay_evolves s s'"
    using st submissions.update_table_ok [OF st] assms
    by (auto simp: submissions.update_Inr pay_evolves_unfold
        intro: rows_move_refl rows_move_update)
qed

lemma pay_update_sessions [pay_intro]:
  assumes "\<And>r. P r \<Longrightarrow> session_moves r (f r)" and "\<And>r. ses_id (f r) = ses_id r"
  shows "tx_within pay_evolves (sql_update sessions_table tx P f)"
proof (rule tx_withinI)
  fix s x s' assume st: "sql_update sessions_table tx P f s = Inr (x, s')"
  show "pay_evolves s s'"
    using st sessions.update_table_ok [OF st] assms
    by (auto simp: sessions.update_Inr pay_evolves_unfold
        intro: rows_move_refl rows_move_update)
qed

lemma pay_reads [pay_intro]:
  "tx_within pay_evolves (sql_find T tx P)"
  "tx_within pay_evolves (sql_select T tx P)"
  "tx_within pay_evolves (query_row e rows)"
  "tx_within pay_evolves (found_row e opt)"
  "tx_within pay_evolves (affected rows)"
  "tx_within pay_evolves uuid_New"
  by (auto simp: tx_on_def sql_find_def sql_select_def query_row_Inr found_row_Inr affected_Inr
      uuid_New_Inr pay_evolves_refl)
     (simp add: pay_evolves_unfold rows_move_refl)

lemma pay_lookup [pay_intro]: "tx_within pay_evolves m \<Longrightarrow> tx_within pay_evolves (lookup m)"
  by (auto simp: tx_on_def lookup_def pay_evolves_refl split: sum.splits if_splits)

text \<open>A claim touches \<open>claimed_at\<close> only.\<close>

lemma pay_claim [pay_intro]:
  "tx_within pay_evolves (FiscalSubmissionRepo_ClaimPending now n stale)"
proof (rule tx_withinI)
  fix s x s' assume run: "FiscalSubmissionRepo_ClaimPending now n stale s = Inr (x, s')"
  let ?P = "\<lambda>r. sub_id r \<in> sub_id ` set (claim_batch now n stale (pd_subs s))"
  let ?f = "\<lambda>r. r\<lparr>sub_claimed := Some now\<rparr>"
  have s': "s' = s\<lparr>pd_subs := update_rows ?P ?f (pd_subs s)\<rparr>"
    using run by (simp add: FiscalSubmissionRepo_ClaimPending_def)
  have upd: "update_rows ?P ?f rows = map (\<lambda>r. if ?P r then ?f r else r) rows" for rows
    by (simp add: update_rows_def)
  have ids: "map sub_id (update_rows ?P ?f rows) = map sub_id rows" for rows
    by (rule map_update_rows) simp
  have act: "map sub_payment (filter submission_active (update_rows ?P ?f rows)) =
             map sub_payment (filter submission_active rows)" for rows
    by (induction rows) (auto simp: submission_active_def)
  have "table_ok submissions_table s \<Longrightarrow> table_ok submissions_table s'"
    unfolding table_ok_def s'
    by (simp add: ids submissions_uniq_def act del: set_map)
       (auto simp: upd submission_row_ok_def)
  moreover have "rows_move submission_moves (pd_subs s) (pd_subs s')"
    unfolding rows_move_def s'
    by (rule exI [of _ "update_rows ?P ?f (pd_subs s)"], rule exI [of _ "[]"])
       (auto simp: upd list_all2_conv_all_nth submission_moves_def)
  ultimately show "pay_evolves s s'"
    by (auto simp: pay_evolves_unfold s' intro: rows_move_refl)
qed

section \<open>Repositories and services\<close>

lemma PayInsertOutbox_evolves [pay_intro]:
  "tx_within pay_evolves (PayInsertOutbox tx tn agg i typ payload)"
  unfolding PayInsertOutbox_def by (intro pay_evolves.within_rules pay_intro)

lemma payment_repo_evolves [pay_intro]:
  "tx_within pay_evolves (PaymentRepo_Create tx p)"
  "tx_within pay_evolves (PaymentRepo_Complete tx i rid)"
  "tx_within pay_evolves (PaymentRepo_Fail tx i)"
  "tx_within pay_evolves (PaymentRepo_Void tx i)"
  "tx_within pay_evolves (PaymentRepo_InsertFiscalReceipt tx rec)"
  "tx_within pay_evolves (PaymentRepo_GetByIdempotencyKey tx tn key)"
  "tx_within pay_evolves (PaymentRepo_LockCheckForPayment tx k)"
  "tx_within pay_evolves (PaymentRepo_TotalPaidForCheck tx tn k)"
  "tx_within pay_evolves (PaymentRepo_PendingTotalForCheck tx tn k)"
  "tx_within pay_evolves (PaymentRepo_RoundingTotalForCheck tx tn k)"
  "tx_within pay_evolves (CashSessionRepo_SumCompletedCashPayments tx tn b t u)"
  unfolding PaymentRepo_Create_def PaymentRepo_Complete_def PaymentRepo_Fail_def
    PaymentRepo_Void_def PaymentRepo_InsertFiscalReceipt_def PaymentRepo_GetByIdempotencyKey_def
    PaymentRepo_LockCheckForPayment_def PaymentRepo_TotalPaidForCheck_def
    PaymentRepo_PendingTotalForCheck_def PaymentRepo_RoundingTotalForCheck_def
    CashSessionRepo_SumCompletedCashPayments_def sum_payments_def
  by (intro pay_evolves.within_rules pay_intro;
      auto simp: payment_moves_def payment_step_def)+

lemma submission_repo_evolves [pay_intro]:
  "tx_within pay_evolves (FiscalSubmissionRepo_Insert tx sb)"
  "tx_within pay_evolves (FiscalSubmissionRepo_MarkSubmitted tx i)"
  "tx_within pay_evolves (FiscalSubmissionRepo_MarkResult tx i st raw err t)"
  "tx_within pay_evolves (FiscalSubmissionRepo_MarkRetry tx i n t' err)"
  "tx_within pay_evolves (FiscalSubmissionRepo_GetByPaymentID tx i)"
  "tx_within pay_evolves (FiscalSubmissionRepo_GetByID tx i)"
  "tx_within pay_evolves (FiscalStatusRepo_ListPendingByBranch tx tn b)"
  unfolding FiscalSubmissionRepo_Insert_def FiscalSubmissionRepo_MarkSubmitted_def
    FiscalSubmissionRepo_MarkResult_def FiscalSubmissionRepo_MarkRetry_def
    FiscalSubmissionRepo_GetByPaymentID_def FiscalSubmissionRepo_GetByID_def
    FiscalStatusRepo_ListPendingByBranch_def
  by (intro pay_evolves.within_rules pay_intro;
      auto simp: submission_moves_def fiscal_step_def)+

lemma session_repo_evolves [pay_intro]:
  "tx_within pay_evolves (CashSessionRepo_Open tx r)"
  "tx_within pay_evolves (CashSessionRepo_GetActiveByBranch tx tn b)"
  "tx_within pay_evolves (CashSessionRepo_GetActiveByBranchForShare tx tn b)"
  "tx_within pay_evolves (CashSessionRepo_GetByIDForUpdate tx tn i)"
  "tx_within pay_evolves (CashSessionRepo_GetByID tx tn i)"
  "tx_within pay_evolves (CashSessionRepo_SubmitClosingCount tx tn i from n ds notes)"
  "tx_within pay_evolves (CashSessionRepo_Close tx tn i from closer)"
  "tx_within pay_evolves (CashSessionRepo_InsertMovement tx m)"
  "tx_within pay_evolves (CashSessionRepo_SumMovementsNet tx tn i)"
  unfolding CashSessionRepo_Open_def CashSessionRepo_GetActiveByBranch_def
    CashSessionRepo_GetActiveByBranchForShare_def CashSessionRepo_GetByIDForUpdate_def
    CashSessionRepo_GetByID_def CashSessionRepo_SubmitClosingCount_def CashSessionRepo_Close_def
    CashSessionRepo_InsertMovement_def CashSessionRepo_SumMovementsNet_def
  by (intro pay_evolves.within_rules pay_intro;
      auto simp: session_moves_def session_step_def TransitionCashSession_def
        split: if_splits dest!: tx_gives_dest)+

lemma PayTenantTx_evolves [pay_intro]:
  "(\<And>tx. tx_within pay_evolves (fn tx)) \<Longrightarrow> tx_within pay_evolves (PayTenantTx c tn fn)"
  "(\<And>tx. tx_within pay_evolves (fn tx)) \<Longrightarrow> tx_within pay_evolves (PayTenantReadTx c tn fn)"
  by (auto simp: PayTenantTx_def PayTenantReadTx_def intro: pay_evolves.within_rules)

end
