(* ===== verification/Pay_Ledger.thy ===== *)
theory Pay_Ledger
  imports Pay_Evolution
begin

text \<open>
  Payments and registrations in step. Each payment has one registration, written with
  it; the two rows move together, so the status of a payment is a function of the
  status of its registration, a payment is pending exactly while its registration is
  with the device, and the money the queue has not answered for is what
  \<open>PendingTotalForCheck\<close> sums. Printed receipts are counted the same way: a completed
  payment has its receipt, and no payment has two.
\<close>

section \<open>The invariant\<close>

fun payment_outcome :: "fiscal_status \<Rightarrow> payment_status" where
  "payment_outcome FiscalPending = PaymentPending"
| "payment_outcome FiscalSubmitted = PaymentPending"
| "payment_outcome FiscalCompleted = PaymentCompleted"
| "payment_outcome FiscalFailed = PaymentFailed"
| "payment_outcome FiscalExpired = PaymentFailed"
| "payment_outcome FiscalVoided = PaymentVoided"
| "payment_outcome (FiscalOther s) = PaymentStatusOther s"

definition ledger_row :: "submission_row \<Rightarrow> payment \<Rightarrow> bool" where
  "ledger_row r p \<longleftrightarrow>
     sub_payment r = pmt_id p \<and> sub_tenant r = pmt_tenant p \<and> sub_branch r = pmt_branch p \<and>
     pmt_status p = payment_outcome (sub_status r)"

definition receipts_match :: "payment list \<Rightarrow> receipt_row list \<Rightarrow> bool" where
  "receipts_match ps rs \<longleftrightarrow>
     distinct (map rrw_payment rs) \<and>
     (\<forall>r \<in> set rs. \<exists>p \<in> set ps. pmt_id p = rrw_payment r \<and> pmt_tenant p = rrw_tenant r \<and>
        pmt_status p \<in> {PaymentCompleted, PaymentVoided}) \<and>
     (\<forall>p \<in> set ps. pmt_status p = PaymentCompleted \<longrightarrow>
        (\<exists>r \<in> set rs. pmt_receipt p = Some (rrw_id r) \<and> rrw_payment r = pmt_id p))"

definition ledger_ok :: "pay_db \<Rightarrow> bool" where
  "ledger_ok s \<longleftrightarrow>
     pay_schema_ok s \<and> list_all2 ledger_row (pd_subs s) (pd_payments s) \<and>
     receipts_match (pd_payments s) (pd_receipts s)"

lemma ledger_ok_tables:
  assumes "ledger_ok s"
  shows "distinct (map pmt_id (pd_payments s))" and "distinct (map sub_id (pd_subs s))"
    and "distinct (map ses_id (pd_sessions s))"
    and "\<And>p. p \<in> set (pd_payments s) \<Longrightarrow> payment_row_ok p"
    and "\<And>r. r \<in> set (pd_subs s) \<Longrightarrow> submission_row_ok r"
    and "payments_uniq (pd_payments s)" and "submissions_uniq (pd_subs s)"
    and "sessions_uniq (pd_sessions s)"
  using assms by (auto simp: ledger_ok_def pay_schema_ok_def table_ok_def)

lemma ledger_ids:
  assumes "list_all2 ledger_row rs ps"
  shows "map sub_payment rs = map pmt_id ps"
  using assms by (induction rule: list_all2_induct) (auto simp: ledger_row_def)

lemma ledger_partner:
  assumes "list_all2 ledger_row rs ps" and "r \<in> set rs"
  shows "\<exists>p \<in> set ps. ledger_row r p"
  using assms by (induction rule: list_all2_induct) auto

lemma ledger_partner':
  assumes "list_all2 ledger_row rs ps" and "p \<in> set ps"
  shows "\<exists>r \<in> set rs. ledger_row r p"
  using assms by (induction rule: list_all2_induct) auto

lemma pending_iff_active:
  "ledger_row r p \<Longrightarrow> pmt_status p = PaymentPending \<longleftrightarrow> submission_active r"
  by (cases "sub_status r") (auto simp: ledger_row_def submission_active_def)

text \<open>Two aligned lists, updated at matching places.\<close>

lemma list_all2_update_rows:
  assumes "list_all2 R xs ys"
    and "\<And>x y. x \<in> set xs \<Longrightarrow> y \<in> set ys \<Longrightarrow> R x y \<Longrightarrow> P x \<longleftrightarrow> Q y"
    and "\<And>x y. x \<in> set xs \<Longrightarrow> R x y \<Longrightarrow> P x \<Longrightarrow> R (f x) (g y)"
  shows "list_all2 R (update_rows P f xs) (update_rows Q g ys)"
  using assms by (induction rule: list_all2_induct) auto

section \<open>Registering a sale\<close>

lemma lookup_Inr:
  "lookup m s = Inr (x, s') \<longleftrightarrow>
   (\<exists>y. m s = Inr (y, s') \<and> x = Some y) \<or> m s = Inl PayNotFound \<and> x = None \<and> s' = s"
  by (auto simp: lookup_def split: sum.splits)

definition sale_by_key :: "uuid \<Rightarrow> string \<Rightarrow> pay_db \<Rightarrow> payment option" where
  "sale_by_key tn key s =
     find_row (\<lambda>p. pmt_tenant p = tn \<and> pmt_key p = key) (pd_payments s)"

lemma rls_find_by_key:
  "tx_tenant tx = tn \<Longrightarrow>
   rls_find pmt_tenant tx (\<lambda>p. pmt_tenant p = tn \<and> pmt_key p = key) (pd_payments s) =
   sale_by_key tn key s"
  by (auto simp: rls_find_def sale_by_key_def)

lemma lookup_key_Inr:
  assumes "tx_tenant tx = tn"
  shows "lookup (PaymentRepo_GetByIdempotencyKey tx tn key) s = Inr (x, s') \<longleftrightarrow>
         s' = s \<and> x = sale_by_key tn key s"
  using assms
  by (cases "sale_by_key tn key s")
     (auto simp: lookup_Inr GetByIdempotencyKey_Inr GetByIdempotencyKey_Inl rls_find_by_key)

text \<open>What counts as collected on a check: the payments that carry money.\<close>

definition carries_money :: "uuid \<Rightarrow> uuid \<Rightarrow> payment \<Rightarrow> bool" where
  "carries_money tn k p \<longleftrightarrow>
     pmt_tenant p = tn \<and> pmt_check p = Some k \<and> pmt_status p \<in> {PaymentPending, PaymentCompleted}"

definition collected :: "uuid \<Rightarrow> uuid \<Rightarrow> pay_db \<Rightarrow> int" where
  "collected tn k s = (\<Sum>p \<leftarrow> filter (carries_money tn k) (pd_payments s). settles p)"

definition conceded :: "uuid \<Rightarrow> uuid \<Rightarrow> pay_db \<Rightarrow> int" where
  "conceded tn k s = (\<Sum>p \<leftarrow> filter (carries_money tn k) (pd_payments s). pmt_rounding p)"

definition total_by_status :: "payment_status \<Rightarrow> uuid \<Rightarrow> uuid \<Rightarrow> pay_db \<Rightarrow> int" where
  "total_by_status st tn k s =
     (\<Sum>p \<leftarrow> filter (\<lambda>p. pmt_tenant p = tn \<and> pmt_check p = Some k \<and> pmt_status p = st)
        (pd_payments s). settles p)"

lemma collected_split:
  "collected tn k s = total_by_status PaymentCompleted tn k s + total_by_status PaymentPending tn k s"
proof -
  have "(\<Sum>p \<leftarrow> filter (carries_money tn k) ps. settles p) =
        (\<Sum>p \<leftarrow> filter (\<lambda>p. pmt_tenant p = tn \<and> pmt_check p = Some k \<and> pmt_status p = PaymentCompleted) ps. settles p) +
        (\<Sum>p \<leftarrow> filter (\<lambda>p. pmt_tenant p = tn \<and> pmt_check p = Some k \<and> pmt_status p = PaymentPending) ps. settles p)"
    for ps by (induction ps) (auto simp: carries_money_def)
  then show ?thesis by (simp add: collected_def total_by_status_def)
qed

lemma total_by_status_nonneg:
  "ledger_ok s \<Longrightarrow> 0 \<le> total_by_status st tn k s"
  unfolding total_by_status_def
  by (rule sum_list_nonneg) (auto dest!: ledger_ok_tables(4) simp: payment_row_ok_def)

lemma check_sums_Inr:
  assumes "tx_tenant tx = tn"
  shows "PaymentRepo_TotalPaidForCheck tx tn k s = Inr (t, s') \<Longrightarrow>
           t = total_by_status PaymentCompleted tn k s \<and> s' = s \<and> int64_range t"
    and "PaymentRepo_PendingTotalForCheck tx tn k s = Inr (t, s') \<Longrightarrow>
           t = total_by_status PaymentPending tn k s \<and> s' = s \<and> int64_range t"
    and "PaymentRepo_RoundingTotalForCheck tx tn k s = Inr (t, s') \<Longrightarrow>
           t = conceded tn k s \<and> s' = s \<and> int64_range t"
  using assms
  by (auto simp: PaymentRepo_TotalPaidForCheck_def PaymentRepo_PendingTotalForCheck_def
      PaymentRepo_RoundingTotalForCheck_def sum_payments_Inr total_by_status_def conceded_def
      rls_select_def carries_money_def cong: filter_cong)

lemma guardAgainstOverpayment_None:
  assumes run: "guardAgainstOverpayment tx req owed policy s = Inr (None, s')"
    and tn: "tx_tenant tx = rsr_tenant req" and k: "rsr_check req = Some k"
  shows "s' = s \<and> sale_by_key (rsr_tenant req) (rsr_key req) s = None \<and>
    (\<exists>paid pending due.
       paid = total_by_status PaymentCompleted (rsr_tenant req) k s \<and> int64_range paid \<and>
       pending = total_by_status PaymentPending (rsr_tenant req) k s \<and> int64_range pending \<and>
       due = wrap64 (wrap64 (owed - paid) - pending) \<and>
       wrap64 (rsr_amount req + rsr_rounding req) \<le> due \<and>
       (rsr_rounding req = 0 \<or>
        wrap64 (rsr_amount req + rsr_rounding req) = due \<and>
        int64_range (conceded (rsr_tenant req) k s) \<and>
        wrap64 (conceded (rsr_tenant req) k s + rsr_rounding req) \<le> rnd_max_per_check policy))"
  using run tn k
  by (auto simp: guardAgainstOverpayment_def PaymentRepo_LockCheckForPayment_def Let_def tx_inv
      lookup_key_Inr split: if_splits dest!: check_sums_Inr [rotated])

lemma guardAgainstOverpayment_Some:
  assumes run: "guardAgainstOverpayment tx req owed policy s = Inr (Some p, s')"
    and tn: "tx_tenant tx = rsr_tenant req"
  shows "s' = s \<and> sale_by_key (rsr_tenant req) (rsr_key req) s = Some p"
  using run tn
  by (auto simp: guardAgainstOverpayment_def PaymentRepo_LockCheckForPayment_def Let_def tx_inv
      lookup_key_Inr split: if_splits)

text \<open>The payment a request creates, and its registration.\<close>

definition created_payment :: "time \<Rightarrow> uuid \<Rightarrow> register_sale_request \<Rightarrow> payment" where
  "created_payment now i req =
     (requested_payment req)\<lparr>pmt_id := i, pmt_status := PaymentPending, pmt_created := now\<rparr>"

definition created_submission ::
  "payment_service \<Rightarrow> time \<Rightarrow> uuid \<Rightarrow> payment \<Rightarrow> register_sale_request \<Rightarrow> submission_row" where
  "created_submission svc now i p req =
     \<lparr>sub_id = i, sub_tenant = rsr_tenant req, sub_branch = rsr_branch req, sub_payment = pmt_id p,
      sub_adapter = adapterTypeOf (svc_fiscal svc), sub_terminal = nullableText (rsr_terminal req),
      sub_status = FiscalPending, sub_payload = SaleJson (buildFiscalSale i p req),
      sub_result = None, sub_retry = 0, sub_next_retry = None, sub_error = None,
      sub_claimed = None, sub_created = now, sub_submitted = None, sub_completed = None\<rparr>"

lemma created_payment_fields [simp]:
  "pmt_id (created_payment now i req) = i"
  "pmt_tenant (created_payment now i req) = rsr_tenant req"
  "pmt_branch (created_payment now i req) = rsr_branch req"
  "pmt_check (created_payment now i req) = rsr_check req"
  "pmt_key (created_payment now i req) = rsr_key req"
  "pmt_method (created_payment now i req) = rsr_method req"
  "pmt_status (created_payment now i req) = PaymentPending"
  "pmt_amount (created_payment now i req) = rsr_amount req"
  "pmt_rounding (created_payment now i req) = rsr_rounding req"
  "pmt_created (created_payment now i req) = now"
  by (simp_all add: created_payment_def requested_payment_def)

lemma createPayment_Inr:
  assumes "createPayment id svc req tx s = Inr (p, s')"
  shows "p = created_payment (tx_now tx) (pd_rand s (pd_ctr s)) req \<and>
    rsr_tenant req = tx_tenant tx \<and>
    s' = s\<lparr>pd_payments := pd_payments s @ [p],
            pd_subs := pd_subs s @
              [created_submission svc (tx_now tx) (pd_rand s (Suc (pd_ctr s))) p req],
            pd_ctr := Suc (Suc (pd_ctr s))\<rparr>"
  using assms
  by (auto simp: createPayment_def tx_inv PaymentRepo_Create_Inr uuid_New_Inr
      FiscalSubmissionRepo_Insert_def submissions.insert_Inr payment_insert_row_def
      created_payment_def created_submission_def pending_submission_def requested_payment_def
      zero_payment_def coalesce_def)

lemma requireCashSession_Inr:
  assumes "requireCashSession req tx s = Inr (u, s')" and "tx_tenant tx = rsr_tenant req"
  shows "s' = s \<and> (rsr_method req = MethodCash \<longrightarrow>
    (\<exists>r \<in> set (pd_sessions s). ses_tenant r = rsr_tenant req \<and> ses_branch r = rsr_branch req \<and>
       session_active r))"
  using assms
  by (auto simp: requireCashSession_def cashPaymentRequiresOpenSession_def tx_inv lookup_Inr
      session_reads_Inr split: if_splits dest!: rls_find_Some)

text \<open>The request as the guards see it.\<close>

definition sale_request :: "register_sale_request \<Rightarrow> register_sale_request" where
  "sale_request req = (if rsr_currency req = '''' then req\<lparr>rsr_currency := ''TRY''\<rparr> else req)"

lemma sale_request_fields [simp]:
  "rsr_tenant (sale_request req) = rsr_tenant req"
  "rsr_branch (sale_request req) = rsr_branch req"
  "rsr_check (sale_request req) = rsr_check req"
  "rsr_key (sale_request req) = rsr_key req"
  "rsr_method (sale_request req) = rsr_method req"
  "rsr_amount (sale_request req) = rsr_amount req"
  "rsr_rounding (sale_request req) = rsr_rounding req"
  "rsr_lines (sale_request req) = rsr_lines req"
  "hasCheck (sale_request req) = hasCheck req"
  by (simp_all add: sale_request_def hasCheck_def)

lemma validSaleRequest_Inr:
  "validSaleRequest req = Inr r \<longleftrightarrow>
   rsr_key req \<noteq> '''' \<and> PaymentMethod_Valid (rsr_method req) \<and> 0 < rsr_amount req \<and>
   0 \<le> rsr_rounding req \<and> r = sale_request req"
  by (auto simp: validSaleRequest_def sale_request_def)

lemma registerSaleTx_Inr:
  assumes run: "registerSaleTx id svc req checkVerdict roundingVerdict policy owed tx s = Inr (p, s')"
    and tn: "tx_tenant tx = rsr_tenant req"
  shows "s' = s \<and> sale_by_key (rsr_tenant req) (rsr_key req) s = Some p \<or>
    checkVerdict = None \<and> roundingVerdict = None \<and>
    sale_by_key (rsr_tenant req) (rsr_key req) s = None \<and>
    (hasCheck req \<longrightarrow> guardAgainstOverpayment tx req owed policy s = Inr (None, s)) \<and>
    requireCashSession req tx s = Inr ((), s) \<and> createPayment id svc req tx s = Inr (p, s')"
proof (cases "sale_by_key (rsr_tenant req) (rsr_key req) s")
  case (Some q)
  with run tn show ?thesis
    by (auto simp: registerSaleTx_def tx_bind_Inr lookup_key_Inr)
next
  case None
  with run tn obtain replay s1 where v: "checkVerdict = None" "roundingVerdict = None"
    and g: "(if hasCheck req then guardAgainstOverpayment tx req owed policy else tx_return None) s =
            Inr (replay, s1)"
    and rest: "(case replay of Some p \<Rightarrow> tx_return p
                | None \<Rightarrow> tx_bind (requireCashSession req tx) (\<lambda>_. createPayment id svc req tx)) s1 =
               Inr (p, s')"
    by (auto simp: registerSaleTx_def tx_bind_Inr lookup_key_Inr split: option.splits)
  show ?thesis
  proof (cases replay)
    case (Some q)
    with g tn rest have "s1 = s \<and> sale_by_key (rsr_tenant req) (rsr_key req) s = Some q"
      by (auto split: if_splits dest: guardAgainstOverpayment_Some)
    with None show ?thesis by simp
  next
    case none: None
    have s1: "s1 = s" using g none tn
      by (auto simp: hasCheck_def split: if_splits dest!: guardAgainstOverpayment_None)
    from rest none obtain s2 where "requireCashSession req tx s1 = Inr ((), s2)"
      "createPayment id svc req tx s2 = Inr (p, s')" by (auto simp: tx_bind_Inr)
    with s1 requireCashSession_Inr [of req tx s1 "()" s2] tn g none None v show ?thesis
      by (auto split: if_splits)
  qed
qed

lemma RegisterSale_Inr:
  assumes "PaymentService_RegisterSale id svc c req s = Inr (p, s')"
  shows "rsr_tenant req \<noteq> uuid_Nil \<and> rsr_key req \<noteq> '''' \<and> PaymentMethod_Valid (rsr_method req) \<and>
    0 < rsr_amount req \<and> 0 \<le> rsr_rounding req \<and>
    (s' = s \<and> sale_by_key (rsr_tenant req) (rsr_key req) s = Some p \<or>
     sale_by_key (rsr_tenant req) (rsr_key req) s = None \<and>
     checkVerdictFor svc (sale_request req) = Inr None \<and>
     (\<exists>policy owed. roundingVerdictFor svc (sale_request req) = Inr (None, policy) \<and>
        checkTotalFor svc (sale_request req) None = Inr owed \<and>
        (hasCheck req \<longrightarrow> guardAgainstOverpayment (pay_tx c (rsr_tenant req)) (sale_request req)
           owed policy s = Inr (None, s))) \<and>
     requireCashSession (sale_request req) (pay_tx c (rsr_tenant req)) s = Inr ((), s) \<and>
     createPayment id svc (sale_request req) (pay_tx c (rsr_tenant req)) s = Inr (p, s'))"
proof -
  let ?r = "sale_request req" and ?tx = "pay_tx c (rsr_tenant req)"
  from assms obtain cv rv policy owed where
      valid: "validSaleRequest req = Inr ?r"
    and cv: "checkVerdictFor svc ?r = Inr cv" and rv: "roundingVerdictFor svc ?r = Inr (rv, policy)"
    and owed: "checkTotalFor svc ?r cv = Inr owed"
    and run: "(case PayTenantTx c (rsr_tenant ?r) (registerSaleTx id svc ?r cv rv policy owed) s of
       Inr r \<Rightarrow> Inr r
     | Inl e \<Rightarrow> (if e = PayDuplicateIdempotencyKey
                then fetchExistingByIdempotencyKey c (rsr_tenant ?r) (rsr_key ?r) (id s)
                else Inl e)) = Inr (p, s')"
    by (auto simp: PaymentService_RegisterSale_def tx_bind_Inr tx_lift_Inr validSaleRequest_Inr)
  show ?thesis
  proof (cases "PayTenantTx c (rsr_tenant req) (registerSaleTx id svc ?r cv rv policy owed) s")
    case (Inl e)
    with run have "fetchExistingByIdempotencyKey c (rsr_tenant req) (rsr_key req) s = Inr (p, s')"
      by (auto split: if_splits)
    then have "rsr_tenant req \<noteq> uuid_Nil" "s' = s" "sale_by_key (rsr_tenant req) (rsr_key req) s = Some p"
      by (auto simp: fetchExistingByIdempotencyKey_def GetByIdempotencyKey_Inr rls_find_by_key)
    with valid show ?thesis by (auto simp: validSaleRequest_Inr)
  next
    case (Inr r)
    with run have tn: "rsr_tenant req \<noteq> uuid_Nil"
      and "registerSaleTx id svc ?r cv rv policy owed ?tx s = Inr (p, s')" by auto
    from registerSaleTx_Inr [OF this(2)] tn valid cv rv owed show ?thesis
      by (auto simp: validSaleRequest_Inr)
  qed
qed

text \<open>In short: either the key was used before and nothing happens, or exactly one
  payment with its registration is added.\<close>

lemma RegisterSale_effect:
  assumes "PaymentService_RegisterSale id svc c req s = Inr (p, s')"
  shows "s' = s \<or>
    p = created_payment (ctx_now c) (pd_rand s (pd_ctr s)) (sale_request req) \<and>
    s' = s\<lparr>pd_payments := pd_payments s @ [p],
            pd_subs := pd_subs s @ [created_submission svc (ctx_now c)
              (pd_rand s (Suc (pd_ctr s))) p (sale_request req)],
            pd_ctr := Suc (Suc (pd_ctr s))\<rparr>"
  using RegisterSale_Inr [OF assms] by (auto dest!: createPayment_Inr)

lemma RegisterSale_within [pay_intro]:
  "tx_within pay_evolves (PaymentService_RegisterSale id svc c req)"
proof (rule tx_withinI)
  fix s p s' assume run: "PaymentService_RegisterSale id svc c req s = Inr (p, s')"
  have create: "tx_within pay_evolves (createPayment id svc r tx)" for r tx
    unfolding createPayment_def
    by (intro pay_evolves.within_rules pay_intro) (simp add: tx_on_def pay_evolves_refl)
  from RegisterSale_Inr [OF run] create show "pay_evolves s s'"
    by (auto simp: pay_evolves_refl dest: tx_withinD)
qed

lemma RegisterSale_ledger:
  assumes "PaymentService_RegisterSale id svc c req s = Inr (p, s')" and "ledger_ok s"
  shows "ledger_ok s'"
proof -
  have sch: "pay_schema_ok s'"
    using tx_withinD [OF RegisterSale_within assms(1)] assms(2)
    by (simp add: pay_evolves_def ledger_ok_def)
  from RegisterSale_effect [OF assms(1)] show ?thesis
  proof (elim disjE)
    assume "s' = s" with assms(2) show ?thesis by simp
  next
    assume eff: "p = created_payment (ctx_now c) (pd_rand s (pd_ctr s)) (sale_request req) \<and>
      s' = s\<lparr>pd_payments := pd_payments s @ [p],
            pd_subs := pd_subs s @ [created_submission svc (ctx_now c)
              (pd_rand s (Suc (pd_ctr s))) p (sale_request req)],
            pd_ctr := Suc (Suc (pd_ctr s))\<rparr>"
    then have "ledger_row (created_submission svc (ctx_now c) (pd_rand s (Suc (pd_ctr s))) p
        (sale_request req)) p"
      by (simp add: ledger_row_def created_submission_def)
    with eff sch assms(2) show ?thesis
      by (auto simp: ledger_ok_def receipts_match_def list_all2_appendI)
  qed
qed

section \<open>The device's answer\<close>

text \<open>A result names the registration it is about, its tenant and its payment. Every
  caller of \<open>OnFiscalResult\<close> takes them from the registration's own row.\<close>

definition result_of_row :: "pay_db \<Rightarrow> fiscal_result \<Rightarrow> bool" where
  "result_of_row s res \<longleftrightarrow>
     (\<forall>r \<in> set (pd_subs s). sub_id r = res_submission res \<longrightarrow>
        sub_tenant r = res_tenant res \<and> sub_payment r = res_payment res)"

definition result_hits :: "fiscal_result \<Rightarrow> submission_row \<Rightarrow> bool" where
  "result_hits res r \<longleftrightarrow>
     sub_tenant r = res_tenant res \<and> sub_id r = res_submission res \<and>
     (\<exists>src. result_sources (res_status res) = Some src \<and> sub_status r \<in> set src)"

definition answered :: "fiscal_result \<Rightarrow> time \<Rightarrow> submission_row \<Rightarrow> submission_row" where
  "answered res t r =
     r\<lparr>sub_status := res_status res, sub_result := nullableJSON (res_raw res),
       sub_error := nullableText (res_failure res), sub_completed := Some t, sub_claimed := None\<rparr>"

definition settle_payment :: "fiscal_result \<Rightarrow> time \<Rightarrow> uuid \<Rightarrow> payment \<Rightarrow> payment" where
  "settle_payment res t receiptID p =
     (if res_status res = FiscalCompleted
      then p\<lparr>pmt_status := PaymentCompleted, pmt_receipt := Some receiptID, pmt_completed := Some t\<rparr>
      else p\<lparr>pmt_status := payment_outcome (res_status res)\<rparr>)"

definition payment_hit :: "fiscal_result \<Rightarrow> payment \<Rightarrow> bool" where
  "payment_hit res p \<longleftrightarrow>
     pmt_tenant p = res_tenant res \<and> pmt_id p = res_payment res \<and>
     (pmt_status p = PaymentPending \<or>
      res_status res = FiscalVoided \<and> pmt_status p = PaymentCompleted)"

definition printed :: "fiscal_result \<Rightarrow> time \<Rightarrow> uuid \<Rightarrow> receipt_row" where
  "printed res t i =
     \<lparr>rrw_id = i, rrw_tenant = res_tenant res, rrw_payment = res_payment res,
      rrw_device = res_device res, rrw_number = res_receipt_no res,
      rrw_data = mergeReceiptData
        \<lparr>rcp_id = uuid_Nil, rcp_tenant = res_tenant res, rcp_payment = res_payment res,
         rcp_device = res_device res, rcp_number = res_receipt_no res, rcp_z_no = res_z_no res,
         rcp_vendor_ref = res_vendor_ref res, rcp_data = Map.empty,
         rcp_issued_at = coalesce (res_device_at res) t\<rparr>,
      rrw_issued_at = coalesce (res_device_at res) t\<rparr>"

lemma MarkResult_Inr:
  assumes "FiscalSubmissionRepo_MarkResult tx (res_submission res) (res_status res) (res_raw res)
      (res_failure res) (Some t) s = Inr (b, s')"
    and tn: "tx_tenant tx = res_tenant res"
  shows "s' = s\<lparr>pd_subs := update_rows (result_hits res) (answered res t) (pd_subs s)\<rparr> \<and>
    (b \<longleftrightarrow> (\<exists>r \<in> set (pd_subs s). result_hits res r)) \<and>
    res_status res \<in> {FiscalCompleted, FiscalFailed, FiscalExpired, FiscalVoided}"
proof -
  from assms obtain src where src: "result_sources (res_status res) = Some src"
    and upd: "sql_update submissions_table tx
      (\<lambda>r. sub_id r = res_submission res \<and> sub_status r \<in> set src) (answered res t) s =
      Inr (map (answered res t) (rls_select sub_tenant tx
        (\<lambda>r. sub_id r = res_submission res \<and> sub_status r \<in> set src) (pd_subs s)), s')"
    and b: "b \<longleftrightarrow> rls_select sub_tenant tx
      (\<lambda>r. sub_id r = res_submission res \<and> sub_status r \<in> set src) (pd_subs s) \<noteq> []"
    by (auto simp: FiscalSubmissionRepo_MarkResult_def tx_bind_Inr submissions.update_Inr
        answered_def [abs_def] split: option.splits)
  have hits: "result_hits res r \<longleftrightarrow> sub_tenant r = tx_tenant tx \<and> sub_id r = res_submission res \<and>
      sub_status r \<in> set src" for r
    using src tn by (auto simp: result_hits_def)
  have "rls_update sub_tenant tx (\<lambda>r. sub_id r = res_submission res \<and> sub_status r \<in> set src)
      (answered res t) rows = update_rows (result_hits res) (answered res t) rows" for rows
    by (simp add: rls_update_def hits [abs_def])
  moreover have "b \<longleftrightarrow> (\<exists>r \<in> set (pd_subs s). result_hits res r)"
    unfolding b by (auto simp: hits rls_select_def filter_empty_conv)
  ultimately show ?thesis
    using upd src by (auto simp: submissions.update_Inr result_sources_Some)
qed

text \<open>The three statements on \<open>payments\<close>, as one.\<close>

lemma settle_update:
  assumes hit: "\<And>p. payment_hit res p \<longleftrightarrow> pmt_tenant p = tx_tenant tx \<and> P p"
    and eff: "\<And>p. f p = settle_payment res t i p"
    and run: "tx_bind (pay_sql (sql_update payments_table tx P f)) affected s = Inr (u, s')"
  shows "(\<exists>p \<in> set (pd_payments s). payment_hit res p) \<and>
    s' = s\<lparr>pd_payments := update_rows (payment_hit res) (settle_payment res t i) (pd_payments s)\<rparr>"
proof -
  have hits: "payment_hit res = (\<lambda>p. pmt_tenant p = tx_tenant tx \<and> P p)" using hit by blast
  have eff': "f = settle_payment res t i" using eff by blast
  from run show ?thesis
    by (auto simp: affected_bind_Inr payments.update_Inr hits eff' rls_update_def rls_select_def
        filter_empty_conv)
qed

lemma Complete_settles:
  assumes "tx_tenant tx = res_tenant res" and "tx_now tx = t" and "res_status res = FiscalCompleted"
    and "PaymentRepo_Complete tx (res_payment res) i s = Inr (u, s')"
  shows "(\<exists>p \<in> set (pd_payments s). payment_hit res p) \<and>
    s' = s\<lparr>pd_payments := update_rows (payment_hit res) (settle_payment res t i) (pd_payments s)\<rparr>"
  by (rule settle_update [OF _ _ assms(4) [unfolded PaymentRepo_Complete_def]])
     (use assms in \<open>auto simp: payment_hit_def settle_payment_def\<close>)

lemma Fail_settles:
  assumes "tx_tenant tx = res_tenant res" and "res_status res \<in> {FiscalFailed, FiscalExpired}"
    and "PaymentRepo_Fail tx (res_payment res) s = Inr (u, s')"
  shows "(\<exists>p \<in> set (pd_payments s). payment_hit res p) \<and>
    s' = s\<lparr>pd_payments := update_rows (payment_hit res) (settle_payment res t i) (pd_payments s)\<rparr>"
  by (rule settle_update [OF _ _ assms(3) [unfolded PaymentRepo_Fail_def]])
     (use assms in \<open>auto simp: payment_hit_def settle_payment_def\<close>)

lemma Void_settles:
  assumes "tx_tenant tx = res_tenant res" and "res_status res = FiscalVoided"
    and "PaymentRepo_Void tx (res_payment res) s = Inr (u, s')"
  shows "(\<exists>p \<in> set (pd_payments s). payment_hit res p) \<and>
    s' = s\<lparr>pd_payments := update_rows (payment_hit res) (settle_payment res t i) (pd_payments s)\<rparr>"
  by (rule settle_update [OF _ _ assms(3) [unfolded PaymentRepo_Void_def]])
     (use assms in \<open>auto simp: payment_hit_def settle_payment_def\<close>)

text \<open>The whole effect of a result: nothing, when its registration is not in a state it
  may leave; else the registration and the payment move together.\<close>

lemma fiscalResultTx_Inr:
  assumes run: "fiscalResultTx (res\<lparr>res_completed_at := Some t\<rparr>) tx s = Inr (u, s')"
    and tn: "tx_tenant tx = res_tenant res" and now: "tx_now tx = t"
  shows "(\<forall>r \<in> set (pd_subs s). \<not> result_hits res r) \<and> s' = s \<or>
    (\<exists>r \<in> set (pd_subs s). result_hits res r) \<and> (\<exists>p \<in> set (pd_payments s). payment_hit res p) \<and>
    pd_subs s' = update_rows (result_hits res) (answered res t) (pd_subs s) \<and>
    pd_payments s' = update_rows (payment_hit res)
      (settle_payment res t (pd_rand s (pd_ctr s))) (pd_payments s) \<and>
    pd_receipts s' = pd_receipts s @
      (if res_status res = FiscalCompleted then [printed res t (pd_rand s (pd_ctr s))] else []) \<and>
    pd_sessions s' = pd_sessions s \<and> pd_moves s' = pd_moves s \<and> pd_parts s' = pd_parts s \<and>
    (\<exists>ev. pd_outbox s' = pd_outbox s @ ev)"
proof -
  let ?res = "res\<lparr>res_completed_at := Some t\<rparr>"
  from run obtain b s1 where
      mark: "FiscalSubmissionRepo_MarkResult tx (res_submission res) (res_status res) (res_raw res)
        (res_failure res) (Some t) s = Inr (b, s1)"
    and rest: "(if \<not> b then tx_return ()
      else if res_status res = FiscalCompleted then applyCompleted tx ?res
      else if res_status res = FiscalFailed \<or> res_status res = FiscalExpired then applyFailed tx ?res
      else if res_status res = FiscalVoided then applyVoided tx ?res
      else tx_throw (PayOther ''unsupported status'')) s1 = Inr (u, s')"
    by (auto simp: fiscalResultTx_def tx_bind_Inr cong: if_cong)
  from MarkResult_Inr [OF mark tn]
  have s1: "s1 = s\<lparr>pd_subs := update_rows (result_hits res) (answered res t) (pd_subs s)\<rparr>"
    and b: "b \<longleftrightarrow> (\<exists>r \<in> set (pd_subs s). result_hits res r)"
    and st: "res_status res \<in> {FiscalCompleted, FiscalFailed, FiscalExpired, FiscalVoided}" by auto
  show ?thesis
  proof (cases b)
    case False
    with b have "update_rows (result_hits res) (answered res t) (pd_subs s) = pd_subs s"
      by (intro update_rows_id) auto
    with False rest s1 b show ?thesis by auto
  next
    case True
    with rest st consider
        (ok) "res_status res = FiscalCompleted" "applyCompleted tx ?res s1 = Inr (u, s')"
      | (failed) "res_status res \<in> {FiscalFailed, FiscalExpired}" "applyFailed tx ?res s1 = Inr (u, s')"
      | (voided) "res_status res = FiscalVoided" "applyVoided tx ?res s1 = Inr (u, s')"
      by auto
    then show ?thesis
    proof cases
      case ok
      then obtain i s2 s3 evt payload where
          ins: "PaymentRepo_InsertFiscalReceipt tx
            \<lparr>rcp_id = uuid_Nil, rcp_tenant = res_tenant res, rcp_payment = res_payment res,
             rcp_device = res_device res, rcp_number = res_receipt_no res, rcp_z_no = res_z_no res,
             rcp_vendor_ref = res_vendor_ref res, rcp_data = Map.empty,
             rcp_issued_at = coalesce (res_device_at res) t\<rparr> s1 = Inr (i, s2)"
        and cmp: "PaymentRepo_Complete tx (res_payment res) i s2 = Inr ((), s3)"
        and out: "PayInsertOutbox tx (res_tenant res) ''payment'' (res_payment res) evt payload s3 =
            Inr (u, s')"
        by (auto simp: applyCompleted_def tx_bind_Inr coalesce_def split: option.splits)
      from ins s1 have s2: "i = pd_rand s (pd_ctr s)"
          "s2 = s1\<lparr>pd_ctr := Suc (pd_ctr s), pd_receipts := pd_receipts s @ [printed res t i]\<rparr>"
        by (auto simp: PaymentRepo_InsertFiscalReceipt_def tx_bind_Inr uuid_New_Inr
            receipts.insert_Inr printed_def)
      from Complete_settles [OF tn now ok(1) cmp] s2 s1 out True b ok(1) show ?thesis
        by (auto simp: PayInsertOutbox_Inr)
    next
      case failed
      then have "PaymentRepo_Fail tx (res_payment res) s1 = Inr (u, s')" by (simp add: applyFailed_def)
      from Fail_settles [OF tn failed(1) this, of t "pd_rand s (pd_ctr s)"] s1 True b failed(1) show ?thesis by auto
    next
      case voided
      then obtain s2 evt payload where vd: "PaymentRepo_Void tx (res_payment res) s1 = Inr ((), s2)"
        and out: "PayInsertOutbox tx (res_tenant res) ''payment'' (res_payment res) evt payload s2 =
            Inr (u, s')"
        by (auto simp: applyVoided_def tx_bind_Inr)
      from Void_settles [OF tn voided(1) vd, of t "pd_rand s (pd_ctr s)"] s1 out True b voided(1) show ?thesis
        by (auto simp: PayInsertOutbox_Inr)
    qed
  qed
qed

lemma fiscalResultTx_within [pay_intro]: "tx_within pay_evolves (fiscalResultTx res tx)"
  unfolding fiscalResultTx_def applyCompleted_def applyFailed_def applyVoided_def
  by (intro pay_evolves.within_rules pay_intro)

lemma OnFiscalResult_within [pay_intro]: "tx_within pay_evolves (PaymentService_OnFiscalResult c res)"
  unfolding PaymentService_OnFiscalResult_def by (intro pay_evolves.within_rules pay_intro)

lemma OnFiscalResult_Inr:
  assumes "PaymentService_OnFiscalResult c res s = Inr (u, s')"
  shows "(\<forall>r \<in> set (pd_subs s). \<not> result_hits res r) \<and> s' = s \<or>
    (\<exists>r \<in> set (pd_subs s). result_hits res r) \<and> (\<exists>p \<in> set (pd_payments s). payment_hit res p) \<and>
    pd_subs s' = update_rows (result_hits res) (answered res (ctx_now c)) (pd_subs s) \<and>
    pd_payments s' = update_rows (payment_hit res)
      (settle_payment res (ctx_now c) (pd_rand s (pd_ctr s))) (pd_payments s) \<and>
    pd_receipts s' = pd_receipts s @
      (if res_status res = FiscalCompleted then [printed res (ctx_now c) (pd_rand s (pd_ctr s))]
       else []) \<and>
    pd_sessions s' = pd_sessions s \<and> pd_moves s' = pd_moves s \<and> pd_parts s' = pd_parts s \<and>
    (\<exists>ev. pd_outbox s' = pd_outbox s @ ev)"
proof -
  from assms have "fiscalResultTx (res\<lparr>res_completed_at := Some (ctx_now c)\<rparr>)
      (pay_tx c (res_tenant res)) s = Inr (u, s')"
    by (auto simp: PaymentService_OnFiscalResult_def split: if_splits)
  from fiscalResultTx_Inr [OF this] show ?thesis by simp
qed

text \<open>On a ledger, the registration hit and the payment hit are partners.\<close>

lemma hits_iff:
  assumes ok: "ledger_ok s" and res: "result_of_row s res"
    and r0: "r0 \<in> set (pd_subs s)" "result_hits res r0"
    and r: "r \<in> set (pd_subs s)" and rp: "ledger_row r p"
  shows "result_hits res r \<longleftrightarrow> payment_hit res p"
proof
  assume hit: "result_hits res r"
  with res r have "sub_payment r = res_payment res" by (auto simp: result_of_row_def result_hits_def)
  with hit rp show "payment_hit res p"
    by (auto simp: result_hits_def payment_hit_def ledger_row_def result_sources_Some)
next
  assume hit: "payment_hit res p"
  have al: "list_all2 ledger_row (pd_subs s) (pd_payments s)" using ok by (simp add: ledger_ok_def)
  have "distinct (map sub_payment (pd_subs s))"
    using ledger_ids [OF al] ledger_ok_tables(1) [OF ok] by simp
  moreover have "sub_payment r = sub_payment r0"
    using hit rp res r0 by (auto simp: payment_hit_def ledger_row_def result_of_row_def result_hits_def)
  ultimately have "r = r0" using r r0(1) by (metis distinct_key_unique)
  with r0(2) show "result_hits res r" by simp
qed

lemma payment_hit_key:
  "payment_hit res p \<Longrightarrow> pmt_id p = res_payment res"
  by (simp add: payment_hit_def)

lemma settle_payment_fields [simp]:
  "pmt_id (settle_payment res t i p) = pmt_id p"
  "pmt_tenant (settle_payment res t i p) = pmt_tenant p"
  "pmt_branch (settle_payment res t i p) = pmt_branch p"
  "pmt_check (settle_payment res t i p) = pmt_check p"
  "pmt_method (settle_payment res t i p) = pmt_method p"
  "pmt_amount (settle_payment res t i p) = pmt_amount p"
  "pmt_rounding (settle_payment res t i p) = pmt_rounding p"
  "pmt_created (settle_payment res t i p) = pmt_created p"
  "pmt_status (settle_payment res t i p) = payment_outcome (res_status res)"
  by (simp_all add: settle_payment_def)

lemma printed_fields [simp]:
  "rrw_id (printed res t i) = i"
  "rrw_payment (printed res t i) = res_payment res"
  "rrw_tenant (printed res t i) = res_tenant res"
  by (simp_all add: printed_def)

lemma receipts_match_settle:
  assumes m: "receipts_match ps rs" and ids: "distinct (map pmt_id ps)"
    and hit: "p0 \<in> set ps" "payment_hit res p0"
    and st: "res_status res \<in> {FiscalCompleted, FiscalFailed, FiscalExpired, FiscalVoided}"
  shows "receipts_match (update_rows (payment_hit res) (settle_payment res t i) ps)
    (rs @ (if res_status res = FiscalCompleted then [printed res t i] else []))"
proof -
  let ?ps = "update_rows (payment_hit res) (settle_payment res t i) ps"
  have uniq: "p = p0" if "p \<in> set ps" "pmt_id p = res_payment res" for p
    using that hit ids by (metis distinct_key_unique payment_hit_key)
  have members: "p' \<in> set ?ps \<longleftrightarrow> p' = settle_payment res t i p0 \<or> p' \<in> set ps \<and> p' \<noteq> p0" for p'
  proof -
    have only: "p \<in> set ps \<and> payment_hit res p \<longleftrightarrow> p = p0" for p
      using hit uniq payment_hit_key by blast
    have "{p \<in> set ps. payment_hit res p} = {p0}" and "{p \<in> set ps. \<not> payment_hit res p} = set ps - {p0}"
      using only by auto
    then show ?thesis by (simp add: set_update_rows)
  qed
  have none: "rrw_payment r \<noteq> res_payment res" if "r \<in> set rs" "pmt_status p0 = PaymentPending" for r
    using m that uniq by (auto simp: receipts_match_def)
  have old: "\<exists>p \<in> set ?ps. pmt_id p = rrw_payment r \<and> pmt_tenant p = rrw_tenant r \<and>
      pmt_status p \<in> {PaymentCompleted, PaymentVoided}" if r: "r \<in> set rs" for r
  proof -
    from m r obtain p where p: "p \<in> set ps" "pmt_id p = rrw_payment r" "pmt_tenant p = rrw_tenant r"
      "pmt_status p \<in> {PaymentCompleted, PaymentVoided}" by (auto simp: receipts_match_def)
    show ?thesis
    proof (cases "p = p0")
      case True
      with p hit have "res_status res = FiscalVoided" by (auto simp: payment_hit_def)
      with p True show ?thesis by (intro bexI [of _ "settle_payment res t i p0"]) (auto simp: members)
    next
      case False
      with p show ?thesis by (intro bexI [of _ p]) (auto simp: members)
    qed
  qed
  have kept: "\<exists>r \<in> set rs. pmt_receipt p = Some (rrw_id r) \<and> rrw_payment r = pmt_id p"
    if "p \<in> set ps" "pmt_status p = PaymentCompleted" for p
    using m that by (auto simp: receipts_match_def)
  show ?thesis
  proof (cases "res_status res = FiscalCompleted")
    case True
    let ?p = "settle_payment res t i p0"
    have pend: "pmt_status p0 = PaymentPending" using True hit by (simp add: payment_hit_def)
    have new: "?p \<in> set ?ps" "pmt_id ?p = res_payment res" "pmt_tenant ?p = res_tenant res"
        "pmt_status ?p = PaymentCompleted" "pmt_receipt ?p = Some i"
      using hit True by (auto simp: members payment_hit_def settle_payment_def)
    have "res_payment res \<notin> rrw_payment ` set rs" using none pend by (metis imageE)
    then have "distinct (map rrw_payment (rs @ [printed res t i]))"
      using m by (simp add: receipts_match_def)
    moreover have "\<forall>r \<in> set (rs @ [printed res t i]). \<exists>p \<in> set ?ps. pmt_id p = rrw_payment r \<and>
        pmt_tenant p = rrw_tenant r \<and> pmt_status p \<in> {PaymentCompleted, PaymentVoided}"
    proof
      fix r assume "r \<in> set (rs @ [printed res t i])"
      then consider "r \<in> set rs" | "r = printed res t i" by auto
      then show "\<exists>p \<in> set ?ps. pmt_id p = rrw_payment r \<and> pmt_tenant p = rrw_tenant r \<and>
          pmt_status p \<in> {PaymentCompleted, PaymentVoided}"
      proof cases
        case 1
        then show ?thesis by (rule old)
      next
        case 2
        with new show ?thesis by (intro bexI [of _ ?p]) auto
      qed
    qed
    moreover have "\<exists>r \<in> set (rs @ [printed res t i]). pmt_receipt p = Some (rrw_id r) \<and>
        rrw_payment r = pmt_id p" if "p \<in> set ?ps" "pmt_status p = PaymentCompleted" for p
      using that kept new by (auto simp: members)
    ultimately show ?thesis using True by (simp add: receipts_match_def)
  next
    case False
    with st have "pmt_status (settle_payment res t i p0) \<noteq> PaymentCompleted" by auto
    with False m old kept show ?thesis by (auto simp: receipts_match_def members)
  qed
qed

lemma OnFiscalResult_ledger:
  assumes run: "PaymentService_OnFiscalResult c res s = Inr (u, s')"
    and ok: "ledger_ok s" and row: "result_of_row s res"
  shows "ledger_ok s'"
proof -
  have sch: "pay_schema_ok s'"
    using tx_withinD [OF OnFiscalResult_within run] ok by (simp add: pay_evolves_def ledger_ok_def)
  from OnFiscalResult_Inr [OF run] show ?thesis
  proof (elim disjE conjE bexE exE)
    assume "s' = s" with ok show ?thesis by simp
  next
    fix r0 p0 ev
    assume r0: "r0 \<in> set (pd_subs s)" "result_hits res r0"
      and p0: "p0 \<in> set (pd_payments s)" "payment_hit res p0"
      and s': "pd_subs s' = update_rows (result_hits res) (answered res (ctx_now c)) (pd_subs s)"
        "pd_payments s' = update_rows (payment_hit res)
          (settle_payment res (ctx_now c) (pd_rand s (pd_ctr s))) (pd_payments s)"
        "pd_receipts s' = pd_receipts s @
          (if res_status res = FiscalCompleted then [printed res (ctx_now c) (pd_rand s (pd_ctr s))]
           else [])"
    have st: "res_status res \<in> {FiscalCompleted, FiscalFailed, FiscalExpired, FiscalVoided}"
      using r0(2) by (auto simp: result_hits_def result_sources_Some)
    have al: "list_all2 ledger_row (pd_subs s) (pd_payments s)" using ok by (simp add: ledger_ok_def)
    have "list_all2 ledger_row (pd_subs s') (pd_payments s')"
      unfolding s' using al
    proof (rule list_all2_update_rows)
      fix r p assume "r \<in> set (pd_subs s)" "ledger_row r p"
      then show "result_hits res r \<longleftrightarrow> payment_hit res p" by (rule hits_iff [OF ok row r0])
    qed (auto simp: ledger_row_def answered_def)
    moreover have "receipts_match (pd_payments s') (pd_receipts s')"
      unfolding s' using ok ledger_ok_tables(1) [OF ok] p0 st
      by (intro receipts_match_settle) (auto simp: ledger_ok_def)
    ultimately show ?thesis using sch by (simp add: ledger_ok_def)
  qed
qed

end
