(* ===== verification/Pay_Session_Facts.thy ===== *)
theory Pay_Session_Facts
  imports Pay_Ledger
begin

text \<open>
  What the calls on cash sessions do when they succeed, as equations on the tables, and
  the figures \<open>buildView\<close> reports, as sums over the ledger.
\<close>

section \<open>The figures of a session\<close>

definition drawer_cash :: "cash_session \<Rightarrow> pay_db \<Rightarrow> int" where
  "drawer_cash r s =
     (\<Sum>p \<leftarrow> filter (cash_taken_between (ses_tenant r) (ses_branch r) (ses_opened_at r)
        (ses_closed_at r)) (pd_payments s). pmt_amount p)"

definition drawer_moves :: "cash_session \<Rightarrow> pay_db \<Rightarrow> int" where
  "drawer_moves r s =
     (\<Sum>m \<leftarrow> filter (\<lambda>m. cmv_tenant m = ses_tenant r \<and> cmv_session m = ses_id r) (pd_moves s).
        movement_net m)"

lemma buildView_Inr:
  assumes "buildView tx r s = Inr (v, s')" and "ses_tenant r = tx_tenant tx"
  shows "s' = s \<and> svw_session v = r \<and> svw_cash v = drawer_cash r s \<and>
    svw_movements v = drawer_moves r s \<and>
    svw_expected v = wrap64 (wrap64 (ses_opening r + drawer_cash r s) + drawer_moves r s) \<and>
    svw_difference v = map_option (\<lambda>n. wrap64 (n - svw_expected v)) (ses_closing r) \<and>
    int64_range (drawer_cash r s) \<and> int64_range (drawer_moves r s)"
proof -
  have sel: "rls_select pmt_tenant tx (cash_taken_between (tx_tenant tx) b t u) ps =
      filter (cash_taken_between (tx_tenant tx) b t u) ps" for b t u ps
    by (auto simp: rls_select_def cash_taken_between_def intro: filter_cong)
  have sel': "rls_select cmv_tenant tx (\<lambda>m. cmv_tenant m = tx_tenant tx \<and> cmv_session m = i) ms =
      filter (\<lambda>m. cmv_tenant m = tx_tenant tx \<and> cmv_session m = i) ms" for i ms
    by (auto simp: rls_select_def intro: filter_cong)
  from assms show ?thesis
    by (auto simp: buildView_def CashSessionRepo_SumCompletedCashPayments_def
        CashSessionRepo_SumMovementsNet_def tx_inv sum_payments_Inr Let_def drawer_cash_def
        drawer_moves_def sel sel')
qed

lemma buildView_same: "buildView tx r s = Inr (v, s') \<Longrightarrow> s' = s"
  by (auto simp: buildView_def CashSessionRepo_SumCompletedCashPayments_def
      CashSessionRepo_SumMovementsNet_def tx_inv sum_payments_Inr Let_def)

section \<open>The four writing calls\<close>

definition opened_session :: "ctx \<Rightarrow> principal \<Rightarrow> open_session_request \<Rightarrow> uuid \<Rightarrow> cash_session" where
  "opened_session c p req i = zero_session
     \<lparr>ses_id := i, ses_tenant := prn_tenant p, ses_branch := osr_branch req,
      ses_status := SessionOpened, ses_opening := osr_counted req,
      ses_opening_notes := osr_notes req, ses_opened_by := prn_person p,
      ses_opened_at := ctx_now c, ses_created := ctx_now c, ses_updated := ctx_now c\<rparr>"

lemma Open_effect:
  assumes "CashSessionService_Open c p req s = Inr (v, s')"
  shows "let q = opened_session c p req (pd_rand s (pd_ctr s)) in
    pay_requireBranch c p (osr_branch req) = Inr () \<and> 0 \<le> osr_counted req \<and>
    sessions_uniq (pd_sessions s @ [q]) \<and>
    s' = s\<lparr>pd_ctr := Suc (pd_ctr s), pd_sessions := pd_sessions s @ [q]\<rparr> \<and>
    svw_session v = q"
  using assms
  by (auto simp: CashSessionService_Open_def tx_inv CashSessionRepo_Open_Inr opened_session_def
      zero_session_def Let_def dest!: buildView_Inr)

definition count_submitted :: "ctx \<Rightarrow> closing_count_request \<Rightarrow> cash_session \<Rightarrow> cash_session" where
  "count_submitted c req r =
     r\<lparr>ses_status := SessionClosingControl, ses_closing := Some (ccr_counted req),
       ses_denominations := ccr_denominations req, ses_closing_notes := ccr_notes req,
       ses_submitted_at := Some (ctx_now c), ses_updated := ctx_now c\<rparr>"

definition session_named :: "principal \<Rightarrow> uuid \<Rightarrow> session_status \<Rightarrow> cash_session \<Rightarrow> bool" where
  "session_named p i st r \<longleftrightarrow> ses_tenant r = prn_tenant p \<and> ses_id r = i \<and> ses_status r = st"

lemma rls_update_session:
  "rls_update ses_tenant (pay_tx c (prn_tenant p))
     (\<lambda>r. ses_tenant r = prn_tenant p \<and> ses_id r = i \<and> ses_status r = st) f rows =
   update_rows (session_named p i st) f rows"
proof -
  have "session_named p i st = (\<lambda>r. ses_tenant r = prn_tenant p \<and>
      ses_tenant r = prn_tenant p \<and> ses_id r = i \<and> ses_status r = st)"
    by (auto simp: session_named_def)
  then show ?thesis by (simp add: rls_update_def)
qed

lemma SubmitClosing_effect:
  assumes "CashSessionService_SubmitClosingCount c p i req s = Inr (v, s')"
  shows "\<exists>r \<in> set (pd_sessions s). ses_id r = i \<and> ses_tenant r = prn_tenant p \<and>
    ses_status r \<in> {SessionOpened, SessionClosingControl} \<and>
    pay_requireBranch c p (ses_branch r) = Inr () \<and>
    s' = s\<lparr>pd_sessions := update_rows (session_named p i (ses_status r)) (count_submitted c req)
              (pd_sessions s)\<rparr>"
  using assms
  by (auto simp: CashSessionService_SubmitClosingCount_def submitClosingTx_def tx_inv
      session_reads_Inr sessions.update_Inr rls_update_session count_submitted_def [abs_def]
      dest!: SubmitClosingCount_Inr rls_find_Some buildView_same)

definition closed_session :: "ctx \<Rightarrow> principal \<Rightarrow> cash_session \<Rightarrow> cash_session" where
  "closed_session c p r =
     r\<lparr>ses_status := SessionClosed, ses_closed_by := Some (prn_person p),
       ses_closed_at := Some (ctx_now c), ses_updated := ctx_now c\<rparr>"

lemma Close_effect:
  assumes "CashSessionService_Close c p i s = Inr (v, s')"
  shows "\<exists>r \<in> set (pd_sessions s). ses_id r = i \<and> ses_tenant r = prn_tenant p \<and>
    ses_status r = SessionClosingControl \<and> pay_requireBranch c p (ses_branch r) = Inr () \<and>
    cannotClose (pay_tx c (prn_tenant p)) (prn_tenant p) (ses_branch r) s = Inr ([], s) \<and>
    s' = s\<lparr>pd_sessions := update_rows (session_named p i SessionClosingControl)
              (closed_session c p) (pd_sessions s)\<rparr>"
proof -
  have same: "cannotClose tx tn b s = Inr (xs, s1) \<Longrightarrow> s1 = s" for tx tn b xs s1
    by (auto simp: cannotClose_def FiscalStatusRepo_ListPendingByBranch_def)
  from assms obtain r s1 q where r: "r \<in> set (pd_sessions s)" "ses_id r = i"
      "ses_tenant r = prn_tenant p" "ses_status r = SessionClosingControl"
      "pay_requireBranch c p (ses_branch r) = Inr ()"
    and none: "cannotClose (pay_tx c (prn_tenant p)) (prn_tenant p) (ses_branch r) s = Inr ([], s1)"
    and close: "CashSessionRepo_Close (pay_tx c (prn_tenant p)) (prn_tenant p) i
      SessionClosingControl (prn_person p) s1 = Inr (q, s')"
    by (auto simp: CashSessionService_Close_def closeSessionTx_def tx_inv session_reads_Inr
        split: if_split_asm dest!: rls_find_Some buildView_same)
  from same [OF none] have s1: "s1 = s" .
  from close have "s' = s\<lparr>pd_sessions := update_rows (session_named p i SessionClosingControl)
      (closed_session c p) (pd_sessions s)\<rparr>"
    by (auto simp: s1 sessions.update_Inr rls_update_session closed_session_def [abs_def]
        dest!: CashSessionRepo_Close_Inr)
  with r none show ?thesis by (auto simp: s1)
qed

lemma RecordMovement_effect:
  assumes "CashSessionService_RecordMovement c p i req s = Inr (m, s')"
  shows "(\<exists>r \<in> set (pd_sessions s). ses_id r = i \<and> ses_tenant r = prn_tenant p \<and>
      ses_status r = SessionOpened \<and> cmv_branch m = ses_branch r) \<and>
    cmv_session m = i \<and> cmv_tenant m = prn_tenant p \<and> cmv_direction m = mvr_direction req \<and>
    cmv_amount m = mvr_amount req \<and> 0 < mvr_amount req \<and>
    s' = s\<lparr>pd_ctr := Suc (pd_ctr s), pd_moves := pd_moves s @ [m]\<rparr>"
  using assms
  by (auto simp: CashSessionService_RecordMovement_def recordMovementTx_def tx_inv
      session_reads_Inr CashSessionRepo_InsertMovement_def uuid_New_Inr movements.insert_Inr
      dest!: rls_find_Some)

section \<open>Nothing in flight\<close>

text \<open>On a ledger, the list of registrations in flight is empty exactly when no payment of
  the branch is pending.\<close>

lemma cannotClose_nil:
  assumes ok: "ledger_ok s" and tn: "tx_tenant tx = tn"
    and run: "cannotClose tx tn b s = Inr ([], s')"
  shows "\<not> (\<exists>p \<in> set (pd_payments s). pmt_tenant p = tn \<and> pmt_branch p = b \<and>
    pmt_status p = PaymentPending)"
proof
  assume "\<exists>p \<in> set (pd_payments s). pmt_tenant p = tn \<and> pmt_branch p = b \<and>
    pmt_status p = PaymentPending"
  then obtain p where p: "p \<in> set (pd_payments s)" "pmt_tenant p = tn" "pmt_branch p = b"
    "pmt_status p = PaymentPending" by blast
  have al: "list_all2 ledger_row (pd_subs s) (pd_payments s)" using ok by (simp add: ledger_ok_def)
  from ledger_partner' [OF al p(1)] obtain r where r: "r \<in> set (pd_subs s)" "ledger_row r p" by blast
  with p have act: "submission_active r" "sub_tenant r = tn" "sub_branch r = b" "sub_payment r = pmt_id p"
    by (auto simp: pending_iff_active [symmetric]) (auto simp: ledger_row_def)
  let ?rows = "sort_key sub_created (rls_select sub_tenant tx
    (\<lambda>r. sub_tenant r = tn \<and> sub_branch r = b \<and> submission_active r) (pd_subs s))"
  have "r \<in> set ?rows" using r act tn by simp
  with p tn act(4) have "(r, p) \<in> set (submission_payments tx s ?rows)"
    by (force simp: submission_payments_def)
  moreover have "submission_payments tx s ?rows = []"
    using run by (simp add: cannotClose_def FiscalStatusRepo_ListPendingByBranch_def split: if_split_asm)
  ultimately show False by simp
qed

end
