(* ===== verification/Pay_Tokenx.thy ===== *)
theory Pay_Tokenx
  imports Pay_Worker
begin

text \<open>
  payment/fiscal/tokenx (mapper.go, adapter.go, webhook.go) and the webhook endpoint of
  payment/http/webhook_handler.go: the driver of the Token X cloud. The basket the
  vendor receives is built from the vendor-neutral sale; the result comes back through
  the webhook, which names the registration only.

  What is not the driver's own is a parameter: the section table of the device
  (\<open>SectionResolver\<close>), the terminal of the branch (\<open>TerminalResolver\<close>), the vendor's REST
  client, and the parsers of JSON, UUIDs and dates.
\<close>

section \<open>The basket\<close>

definition paymentTypeByMethod :: "payment_method \<rightharpoonup> int" where
  "paymentTypeByMethod =
     [MethodCash \<mapsto> 1, MethodTerminal \<mapsto> 3, MethodMealCard \<mapsto> 7, MethodNoCharge \<mapsto> 8, MethodComp \<mapsto> 9,
      MethodOpenAccount \<mapsto> 17]"

text \<open>Built by ranging over the other map, in whatever order.\<close>

definition methodByPaymentType :: "int \<rightharpoonup> payment_method" where
  "methodByPaymentType =
     map_of (map (\<lambda>m. (the (paymentTypeByMethod m), m))
       [MethodCash, MethodTerminal, MethodMealCard, MethodNoCharge, MethodComp, MethodOpenAccount])"

definition paymentTypeOf :: "payment_method \<Rightarrow> pay_err + int" where
  "paymentTypeOf m =
     (case paymentTypeByMethod m of None \<Rightarrow> Inl (PayOther ''unknown payment method'') | Some n \<Rightarrow> Inr n)"

definition methodOf :: "int \<Rightarrow> payment_method" where
  "methodOf n = (case methodByPaymentType n of None \<Rightarrow> MethodOther '''' | Some m \<Rightarrow> m)"

record basket_item =
  bit_name :: string
  bit_price :: int
  bit_section :: int
  bit_tax :: int
  bit_qty :: int
  bit_unit :: string

record basket_payment =
  bpm_amount :: int
  bpm_type :: int

record basket_adjust =
  baj_description :: string
  baj_kind :: int
  baj_type :: int
  baj_value :: int

record basket_customer =
  bcu_name :: string
  bcu_tax_id :: string
  bcu_email :: string
  bcu_telephone :: string
  bcu_tax_scheme :: string
  bcu_street :: string

record basket =
  bsk_id :: uuid
  bsk_create_invoice :: bool
  bsk_document :: int
  bsk_void :: bool
  bsk_title :: string
  bsk_filter :: string
  bsk_number :: int
  bsk_items :: "basket_item list"
  bsk_payments :: "basket_payment list"
  bsk_customer :: "basket_customer option"
  bsk_adjust :: "basket_adjust option"

text \<open>\<open>Resolve\<close>: the section number and its tax rate, for a tenant, branch and category.\<close>

type_synonym section_resolver = "uuid \<Rightarrow> uuid \<Rightarrow> uuid \<Rightarrow> pay_err + int \<times> int"

definition buildCustomerInfo :: "fiscal_customer option \<Rightarrow> basket_customer option" where
  "buildCustomerInfo = map_option (\<lambda>u.
     \<lparr>bcu_name = fcu_name u, bcu_tax_id = fcu_tax_id u, bcu_email = fcu_email u,
      bcu_telephone = fcu_telephone u, bcu_tax_scheme = fcu_tax_office u,
      bcu_street = fcu_address u\<rparr>)"

definition buildAdjust :: "fiscal_adjust option \<Rightarrow> basket_adjust option" where
  "buildAdjust = map_option (\<lambda>a.
     \<lparr>baj_description = adj_description a,
      baj_kind = (if adj_kind a = AdjustSurcharge then 1 else 0),
      baj_type = (if adj_mode a = AdjustPercent then 1 else 0), baj_value = adj_value a\<rparr>)"

fun basket_items ::
  "section_resolver \<Rightarrow> uuid \<Rightarrow> uuid \<Rightarrow> fiscal_line list \<Rightarrow> pay_err + basket_item list" where
  "basket_items sections tn b [] = Inr []"
| "basket_items sections tn b (l # ls) =
     (case sections tn b (fln_category l) of
        Inl e \<Rightarrow> Inl (PayOther ''resolve section'')
      | Inr (sectionNo, sectionTax) \<Rightarrow>
          if sectionTax \<noteq> fln_tax l then Inl (PayOther ''tax mismatch'')
          else (case basket_items sections tn b ls of
                  Inl e \<Rightarrow> Inl e
                | Inr items \<Rightarrow> Inr
                    (\<lparr>bit_name = fln_name l, bit_price = fln_unit_price l, bit_section = sectionNo,
                      bit_tax = sectionTax, bit_qty = fln_qty_milli l,
                      bit_unit = (if fln_unit l = '''' then ''C62'' else fln_unit l)\<rparr> # items)))"

fun basket_payments :: "fiscal_payment list \<Rightarrow> pay_err + basket_payment list" where
  "basket_payments [] = Inr []"
| "basket_payments (p # ps) =
     (case paymentTypeOf (fpm_method p) of
        Inl e \<Rightarrow> Inl e
      | Inr n \<Rightarrow> (case basket_payments ps of
                   Inl e \<Rightarrow> Inl e
                 | Inr rest \<Rightarrow> Inr (\<lparr>bpm_amount = fpm_amount p, bpm_type = n\<rparr> # rest)))"

text \<open>\<open>strings.EqualFold(currency, "TRY")\<close>; \<open>is_try\<close> is that comparison.\<close>

definition buildBasket ::
  "(string \<Rightarrow> bool) \<Rightarrow> section_resolver \<Rightarrow> fiscal_sale \<Rightarrow> bool \<Rightarrow> pay_err + basket" where
  "buildBasket is_try sections sale isVoid =
     (if fsl_lines sale = [] then Inl (PayOther ''no lines'')
      else case ValidateTotal sale of
        Inl e \<Rightarrow> Inl e
      | Inr _ \<Rightarrow>
         if fsl_currency sale \<noteq> '''' \<and> \<not> is_try (fsl_currency sale)
         then Inl (PayOther ''unsupported currency'')
         else case basket_items sections (fsl_tenant sale) (fsl_branch sale) (fsl_lines sale) of
           Inl e \<Rightarrow> Inl e
         | Inr items \<Rightarrow>
            (case basket_payments (fsl_payments sale) of
               Inl e \<Rightarrow> Inl e
             | Inr payments \<Rightarrow> Inr
                 \<lparr>bsk_id = fsl_submission sale, bsk_create_invoice = False, bsk_document = 0,
                  bsk_void = isVoid, bsk_title = fme_table_label (fsl_meta sale),
                  bsk_filter = fme_waiter (fsl_meta sale),
                  bsk_number = fme_check_number (fsl_meta sale), bsk_items = items,
                  bsk_payments = payments, bsk_customer = buildCustomerInfo (fsl_customer sale),
                  bsk_adjust = buildAdjust (fsl_discount sale)\<rparr>))"

definition buildVoidBasket :: "fiscal_submission_ref \<Rightarrow> basket" where
  "buildVoidBasket ref =
     \<lparr>bsk_id = ref_submission ref, bsk_create_invoice = False, bsk_document = 0, bsk_void = True,
      bsk_title = '''', bsk_filter = '''', bsk_number = 0, bsk_items = [], bsk_payments = [],
      bsk_customer = None, bsk_adjust = None\<rparr>"

section \<open>The adapter\<close>

datatype basket_mode = BasketModeInstant | BasketModeList | BasketModeOther string

record terminal_ref =
  trf_serial :: string
  trf_branch_ref :: string
  trf_mode :: basket_mode

text \<open>The two endpoints of the vendor's client: the error, if any.\<close>

record tokenx_adapter =
  txa_mode :: basket_mode
  txa_default_serial :: string
  txa_is_try :: "string \<Rightarrow> bool"
  txa_sections :: section_resolver
  txa_terminals :: "uuid \<Rightarrow> uuid \<Rightarrow> pay_err + terminal_ref"
  AddInstantBasket :: "string \<Rightarrow> basket \<Rightarrow> pay_err + unit"
  AddBasket :: "string \<Rightarrow> basket \<Rightarrow> pay_err + unit"

definition tokenx_send :: "tokenx_adapter \<Rightarrow> terminal_ref \<Rightarrow> basket \<Rightarrow> pay_err + unit" where
  "tokenx_send a terminal b =
     (let mode = (if trf_mode terminal = BasketModeOther '''' then txa_mode a else trf_mode terminal)
      in if mode = BasketModeInstant
         then AddInstantBasket a (if trf_serial terminal = '''' then txa_default_serial a
                                  else trf_serial terminal) b
         else if mode = BasketModeList then AddBasket a (trf_branch_ref terminal) b
         else Inl (PayOther ''unsupported basket mode''))"

definition tokenx_SubmitSale :: "tokenx_adapter \<Rightarrow> fiscal_sale \<Rightarrow> pay_err + fiscal_result option" where
  "tokenx_SubmitSale a sale =
     (case txa_terminals a (fsl_tenant sale) (fsl_branch sale) of
        Inl e \<Rightarrow> Inl e
      | Inr terminal \<Rightarrow>
         (case buildBasket (txa_is_try a) (txa_sections a) sale False of
            Inl e \<Rightarrow> Inl e
          | Inr b \<Rightarrow> (case tokenx_send a terminal b of Inl e \<Rightarrow> Inl e | Inr _ \<Rightarrow> Inr None)))"

definition tokenx_VoidSale ::
  "tokenx_adapter \<Rightarrow> fiscal_submission_ref \<Rightarrow> pay_err + fiscal_result option" where
  "tokenx_VoidSale a ref =
     (case txa_terminals a (ref_tenant ref) (ref_branch ref) of
        Inl e \<Rightarrow> Inl e
      | Inr terminal0 \<Rightarrow>
         let terminal = (if ref_terminal ref \<noteq> '''' then terminal0\<lparr>trf_serial := ref_terminal ref\<rparr>
                         else terminal0)
         in (case tokenx_send a terminal (buildVoidBasket ref) of Inl e \<Rightarrow> Inl e | Inr _ \<Rightarrow> Inr None))"

definition tokenx_Capabilities :: fiscal_capabilities where
  "tokenx_Capabilities =
     \<lparr>cap_on_device_split = True, cap_void_sale = True, cap_customer_info = True,
      cap_currency_payment = False, cap_operator_routing = True\<rparr>"

definition tokenx_DeviceType :: string where
  "tokenx_DeviceType = ''beko_x30tr_cloud''"

definition tokenx_driver :: "tokenx_adapter \<Rightarrow> fiscal_adapter" where
  "tokenx_driver a =
     \<lparr>SubmitSale = tokenx_SubmitSale a, AdapterVoidSale = tokenx_VoidSale a,
      Capabilities = tokenx_Capabilities, AdapterType = Some tokenx_DeviceType,
      adapter_is_mock = False\<rparr>"

section \<open>The webhook\<close>

record webhook_payment_item =
  wpi_amount :: int
  wpi_description :: string
  wpi_type :: int

text \<open>The decoded envelope and its data; \<open>wbd_basket\<close> is the basket id as a UUID, None
  when it does not parse, \<open>wbd_date\<close> the operation date, None likewise.\<close>

record webhook_body =
  wbd_operation :: string
  wbd_basket :: "uuid option"
  wbd_date :: "time option"
  wbd_message :: string
  wbd_items :: "webhook_payment_item list"
  wbd_receipt_no :: int
  wbd_status :: int
  wbd_sale_uuid :: string
  wbd_z_no :: int
  wbd_raw :: string

definition submissionStatusOf :: "int \<Rightarrow> pay_err + fiscal_status" where
  "submissionStatusOf n =
     (if n = 0 then Inr FiscalCompleted
      else if n = -1 then Inr FiscalFailed
      else if n = 99 then Inr FiscalVoided
      else Inl (PayOther ''unknown status''))"

definition confirmedPayments :: "webhook_payment_item list \<Rightarrow> fiscal_confirmed_payment list" where
  "confirmedPayments items = map (\<lambda>it.
     \<lparr>fcp_method = methodOf (wpi_type it), fcp_vendor_type = wpi_type it, fcp_amount = wpi_amount it,
      fcp_description = wpi_description it\<rparr>) items"

text \<open>\<open>show_int\<close> is \<open>strconv.Itoa\<close>.\<close>

definition ParseWebhook ::
  "(int \<Rightarrow> string) \<Rightarrow> time \<Rightarrow> webhook_body \<Rightarrow> pay_err + fiscal_result" where
  "ParseWebhook show_int now b =
     (if wbd_operation b \<noteq> ''BASKET_COMPLETED'' then Inl (PayOther ''unexpected operation'')
      else case wbd_basket b of
        None \<Rightarrow> Inl (PayOther ''basketID is not a uuid'')
      | Some submissionID \<Rightarrow>
         (case submissionStatusOf (wbd_status b) of
            Inl e \<Rightarrow> Inl e
          | Inr status \<Rightarrow> Inr (zero_result
              \<lparr>res_submission := submissionID, res_status := status, res_device := tokenx_DeviceType,
               res_vendor_ref := wbd_sale_uuid b, res_payments := confirmedPayments (wbd_items b),
               res_raw := RawText (wbd_raw b), res_completed_at := Some now,
               res_device_at := wbd_date b,
               res_receipt_no := (if wbd_receipt_no b \<noteq> 0 then show_int (wbd_receipt_no b) else ''''),
               res_z_no := (if wbd_z_no b \<noteq> 0 then show_int (wbd_z_no b) else ''''),
               res_failure := (if status = FiscalFailed then wbd_message b else '''')\<rparr>)))"

text \<open>The HTTP status of the answer: 400 is final, 500 asks the vendor to retry.\<close>

definition webhook_handleCompleted ::
  "(int \<Rightarrow> string) \<Rightarrow> ctx \<Rightarrow> webhook_body \<Rightarrow> pay_db \<Rightarrow> nat \<times> pay_db" where
  "webhook_handleCompleted show_int c b s =
     (case ParseWebhook show_int (ctx_now c) b of
        Inl _ \<Rightarrow> (400, s)
      | Inr res0 \<Rightarrow>
         (case FiscalSubmissionRepo_GetRouting (res_submission res0) s of
            Inl e \<Rightarrow> ((if e = PayNotFound then 200 else 500), s)
          | Inr (routing, _) \<Rightarrow>
             let res = res0\<lparr>res_tenant := rtg_tenant routing, res_branch := rtg_branch routing,
                            res_payment := rtg_payment routing, res_device := tokenx_DeviceType\<rparr>
             in (case PaymentService_OnFiscalResult c res s of
                   Inl _ \<Rightarrow> (500, s)
                 | Inr (_, s') \<Rightarrow> (200, s'))))"

section \<open>Lemmas\<close>

text \<open>The payment codes are a bijection: what the device confirms is what was sent.\<close>

lemma methodOf_paymentTypeOf: "paymentTypeOf m = Inr n \<Longrightarrow> methodOf n = m"
  by (cases m) (auto simp: paymentTypeOf_def methodOf_def paymentTypeByMethod_def
      methodByPaymentType_def)

lemma paymentTypeOf_total: "PaymentMethod_Valid m \<Longrightarrow> \<exists>n. paymentTypeOf m = Inr n"
  by (cases m) (auto simp: paymentTypeOf_def paymentTypeByMethod_def)

lemma basket_payments_back:
  "basket_payments ps = Inr bs \<Longrightarrow>
   map (\<lambda>b. \<lparr>fpm_method = methodOf (bpm_type b), fpm_amount = bpm_amount b\<rparr>) bs = ps"
  by (induction ps arbitrary: bs) (auto split: sum.splits dest: methodOf_paymentTypeOf)

lemma basket_items_keep:
  "basket_items sections tn b ls = Inr bs \<Longrightarrow>
   map (\<lambda>x. (bit_name x, bit_price x, bit_qty x, bit_tax x)) bs =
   map (\<lambda>l. (fln_name l, fln_unit_price l, fln_qty_milli l, fln_tax l)) ls"
  by (induction ls arbitrary: bs) (auto split: sum.splits if_splits)

end
