(* ===== verification/Pay_System.thy ===== *)
theory Pay_System
  imports Pay_Session_Facts Pay_Tokenx
begin

text \<open>
  The payment module as a transition system. One step is one call that committed: of a
  service, of the webhook, of the worker on one claimed submission, of the reconciler.
  The worker and the reconciler act on submissions they read earlier; what they use of
  them is the identity of the row, which never changes.

  A run carries the clock of each call. The clock of a run moves forward, as the calls
  that touch the same drawer are ordered by the row lock both take before they read it.
\<close>

definition submission_of :: "pay_db \<Rightarrow> fiscal_submission \<Rightarrow> bool" where
  "submission_of s sb \<longleftrightarrow>
     (\<exists>r \<in> set (pd_subs s). sub_id r = fsb_id sb \<and> sub_tenant r = fsb_tenant sb \<and>
        sub_branch r = fsb_branch sb \<and> sub_payment r = fsb_payment sb)"

inductive pay_step :: "payment_service \<Rightarrow> ctx \<Rightarrow> pay_db \<Rightarrow> pay_db \<Rightarrow> bool" where
  step_sale: "PaymentService_RegisterSale id svc c req s = Inr (p, s') \<Longrightarrow> pay_step svc c s s'"
| step_void: "PaymentService_VoidSale svc c tn i s = Inr (u, s') \<Longrightarrow> pay_step svc c s s'"
| step_expire: "PaymentService_ExpireSubmission show_id id c p i reason s = Inr (u, s') \<Longrightarrow>
                pay_step svc c s s'"
| step_webhook: "webhook_handleCompleted show_int c b s = (code, s') \<Longrightarrow> pay_step svc c s s'"
| step_claim: "FiscalSubmissionRepo_ClaimPending (ctx_now c) n stale s = Inr (batch, s') \<Longrightarrow>
               pay_step svc c s s'"
| step_process: "submission_of s sb \<Longrightarrow>
                 process_submission err_text (svc_fiscal svc) cfg c sb s = Inr (u, s') \<Longrightarrow>
                 pay_step svc c s s'"
| step_reconcile: "submission_of s sb \<Longrightarrow> reconciler_expire c sb age s = Inr (u, s') \<Longrightarrow>
                   pay_step svc c s s'"
| step_open: "CashSessionService_Open c prn orq s = Inr (v, s') \<Longrightarrow> pay_step svc c s s'"
| step_count: "CashSessionService_SubmitClosingCount c prn i crq s = Inr (v, s') \<Longrightarrow> pay_step svc c s s'"
| step_close: "CashSessionService_Close c prn i s = Inr (v, s') \<Longrightarrow> pay_step svc c s s'"
| step_movement: "CashSessionService_RecordMovement c prn i mrq s = Inr (m, s') \<Longrightarrow> pay_step svc c s s'"

inductive pay_run :: "time \<Rightarrow> pay_db \<Rightarrow> (payment_service \<times> ctx) list \<Rightarrow> time \<Rightarrow> pay_db \<Rightarrow> bool" where
  pay_run_nil: "pay_run t s [] t s"
| pay_run_step: "pay_run t s tr t' s' \<Longrightarrow> pay_step svc c s' s'' \<Longrightarrow> t' < ctx_now c \<Longrightarrow>
                 pay_run t s (tr @ [(svc, c)]) (ctx_now c) s''"

section \<open>Every call keeps the ledger\<close>

text \<open>The sink is the only way a registration ends; the calls that go through it take
  the identity of the result from the row.\<close>

definition sunk :: "ctx \<Rightarrow> pay_db \<Rightarrow> pay_db \<Rightarrow> bool" where
  "sunk c s s' \<longleftrightarrow>
     (\<exists>res. result_of_row s res \<and> PaymentService_OnFiscalResult c res s = Inr ((), s'))"

definition same_ledger :: "pay_db \<Rightarrow> pay_db \<Rightarrow> bool" where
  "same_ledger s s' \<longleftrightarrow>
     pd_payments s' = pd_payments s \<and> pd_receipts s' = pd_receipts s \<and>
     list_all2 (\<lambda>r r'. sub_payment r' = sub_payment r \<and> sub_tenant r' = sub_tenant r \<and>
        sub_branch r' = sub_branch r \<and>
        payment_outcome (sub_status r') = payment_outcome (sub_status r)) (pd_subs s) (pd_subs s')"

lemma list_all2_map_rel:
  assumes "list_all2 R xs ys" and "list_all2 Q xs xs'"
    and "\<And>x x' y. R x y \<Longrightarrow> Q x x' \<Longrightarrow> R x' y"
  shows "list_all2 R xs' ys"
  using assms by (auto simp: list_all2_conv_all_nth)

lemma same_ledger_ok:
  assumes "same_ledger s s'" and "ledger_ok s" and "pay_schema_ok s'"
  shows "ledger_ok s'"
proof -
  have "list_all2 ledger_row (pd_subs s) (pd_payments s)" using assms(2) by (simp add: ledger_ok_def)
  moreover note assms(1) [unfolded same_ledger_def, THEN conjunct2, THEN conjunct2]
  ultimately have "list_all2 ledger_row (pd_subs s') (pd_payments s)"
    by (rule list_all2_map_rel) (simp add: ledger_row_def)
  with assms show ?thesis by (simp add: ledger_ok_def same_ledger_def)
qed

lemma same_ledger_subs: "pd_subs s' = pd_subs s \<Longrightarrow> pd_payments s' = pd_payments s \<Longrightarrow>
    pd_receipts s' = pd_receipts s \<Longrightarrow> same_ledger s s'"
  by (simp add: same_ledger_def list.rel_refl)

lemma same_ledger_update:
  assumes "\<And>r. sub_payment (f r) = sub_payment r" "\<And>r. sub_tenant (f r) = sub_tenant r"
    "\<And>r. sub_branch (f r) = sub_branch r"
    and "\<And>r. P r \<Longrightarrow> payment_outcome (sub_status (f r)) = payment_outcome (sub_status r)"
  shows "same_ledger s (s\<lparr>pd_subs := update_rows P f (pd_subs s)\<rparr>)"
  unfolding same_ledger_def update_rows_def
  by (simp add: list_all2_conv_all_nth assms)

lemma sunk_ledger: "sunk c s s' \<Longrightarrow> ledger_ok s \<Longrightarrow> ledger_ok s'"
  by (auto simp: sunk_def intro: OnFiscalResult_ledger)

lemma result_of_submission:
  assumes "submission_of s sb" and "pay_schema_ok s"
    and "res_submission res = fsb_id sb" "res_tenant res = fsb_tenant sb" "res_payment res = fsb_payment sb"
  shows "result_of_row s res"
proof -
  from assms(1) obtain r0 where r0: "r0 \<in> set (pd_subs s)" "sub_id r0 = fsb_id sb"
    "sub_tenant r0 = fsb_tenant sb" "sub_payment r0 = fsb_payment sb"
    by (auto simp: submission_of_def)
  have "distinct (map sub_id (pd_subs s))" using assms(2) by (simp add: pay_schema_ok_def table_ok_def)
  then have "r = r0" if "r \<in> set (pd_subs s)" "sub_id r = fsb_id sb" for r
    using r0 that by (metis distinct_key_unique)
  then show ?thesis using r0 assms(3-5) unfolding result_of_row_def by metis
qed

text \<open>What the two lookups of a registration return is a submission of the database.\<close>

lemma scan_submission_of: "r \<in> set (pd_subs s) \<Longrightarrow> submission_of s (scan_submission r)"
  by (auto simp: submission_of_def scan_submission_def)

lemma GetByPaymentID_of:
  "FiscalSubmissionRepo_GetByPaymentID tx i s = Inr (sb, s') \<Longrightarrow> s' = s \<and> submission_of s sb"
  by (auto simp: FiscalSubmissionRepo_GetByPaymentID_def tx_bind_Inr query_row_Inr
      intro!: scan_submission_of dest!: hd_in_set)

lemma getSubmission_of:
  "getSubmission c tn i s = Inr (sb, s') \<Longrightarrow> s' = s \<and> submission_of s sb \<and> fsb_id sb = i"
  by (auto simp: getSubmission_def FiscalSubmissionRepo_GetByID_def tx_bind_Inr found_row_Inr
      scan_submission_def submission_of_def dest!: rls_find_Some)

lemma sunkI:
  assumes "PaymentService_OnFiscalResult c res s = Inr (u, s')" and "submission_of s sb"
    and "pay_schema_ok s" and "res_submission res = fsb_id sb" "res_tenant res = fsb_tenant sb"
      "res_payment res = fsb_payment sb"
  shows "sunk c s s'"
  unfolding sunk_def using assms by (intro exI [of _ res] conjI result_of_submission [of s sb]) auto

lemma VoidSale_sinks:
  assumes "PaymentService_VoidSale svc c tn i s = Inr (u, s')" and "pay_schema_ok s" and "s' \<noteq> s"
  shows "sunk c s s'"
  using assms
  by (auto simp: PaymentService_VoidSale_def tx_bind_Inr tx_require_Inr tx_lift_Inr
      split: if_split_asm dest!: GetByPaymentID_of)
     (auto simp: Let_def tx_bind_Inr tx_require_Inr stampResultIdentity_def
      split: option.split_asm if_split_asm elim!: sunkI)

lemma ExpireSubmission_sinks:
  assumes "PaymentService_ExpireSubmission show_id id c p i reason s = Inr (u, s')" and "pay_schema_ok s"
  shows "sunk c s s'"
  using assms
  by (auto simp: PaymentService_ExpireSubmission_def tx_bind_Inr tx_require_Inr
      split: if_split_asm dest!: getSubmission_of)
     (erule sunkI; simp)+

lemma webhook_sinks:
  assumes "webhook_handleCompleted show_int c b s = (code, s')" and "pay_schema_ok s"
    and "s' \<noteq> s"
  shows "sunk c s s'"
proof -
  from assms(1,3) obtain res0 routing s1 res u where
      rt: "FiscalSubmissionRepo_GetRouting (res_submission res0) s = Inr (routing, s1)"
    and res: "res = res0\<lparr>res_tenant := rtg_tenant routing, res_branch := rtg_branch routing,
                         res_payment := rtg_payment routing, res_device := tokenx_DeviceType\<rparr>"
    and run: "PaymentService_OnFiscalResult c res s = Inr (u, s')"
    by (auto simp: webhook_handleCompleted_def Let_def split: sum.splits)
  from rt obtain r where "r \<in> set (pd_subs s)" "sub_id r = res_submission res0"
      "rtg_tenant routing = sub_tenant r" "rtg_payment routing = sub_payment r"
    by (auto simp: FiscalSubmissionRepo_GetRouting_def tx_bind_Inr found_row_Inr dest!: find_row_Some)
  with assms(2) res have "result_of_row s res"
    by (intro result_of_submission [where sb = "scan_submission r"])
       (auto simp: scan_submission_def submission_of_def)
  with run show ?thesis by (auto simp: sunk_def)
qed

lemma finalizeFailure_sinks:
  assumes "finalizeFailure c sb cause s = Inr (u, s')" and "submission_of s sb" and "pay_schema_ok s"
  shows "sunk c s s'"
  using assms unfolding finalizeFailure_def sunk_def
  by (intro exI conjI result_of_submission; (assumption | simp))

lemma MarkSubmitted_same_ledger: "queue_MarkSubmitted c sb s = Inr (b, s') \<Longrightarrow> same_ledger s s'"
  by (auto simp: queue_MarkSubmitted_def FiscalSubmissionRepo_MarkSubmitted_def tx_bind_Inr
      submissions.update_Inr rls_update_def intro!: same_ledger_update)

lemma MarkRetry_same_ledger: "queue_MarkRetry c sb n t err s = Inr (u, s') \<Longrightarrow> same_ledger s s'"
  by (auto simp: queue_MarkRetry_def FiscalSubmissionRepo_MarkRetry_def
      affected_bind_Inr submissions.update_Inr rls_update_def intro!: same_ledger_update)

lemma ClaimPending_same_ledger:
  "FiscalSubmissionRepo_ClaimPending now n stale s = Inr (batch, s') \<Longrightarrow> same_ledger s s'"
  by (auto simp: FiscalSubmissionRepo_ClaimPending_def intro!: same_ledger_update)

lemma handleSubmitError_cases:
  assumes "handleSubmitError err_text cfg c sb e s = Inr (u, s')" and "submission_of s sb"
    and "pay_schema_ok s"
  shows "sunk c s s' \<or> same_ledger s s'"
  using assms
  by (auto simp: handleSubmitError_def Let_def tx_bind_Inr lookup_Inr same_ledger_subs
      split: if_split_asm dest: finalizeFailure_sinks MarkRetry_same_ledger)

lemma process_submission_cases:
  assumes "process_submission err_text adapter cfg c sb s = Inr (u, s')" and "submission_of s sb"
    and "pay_schema_ok s"
  shows "sunk c s s' \<or> same_ledger s s'"
proof (cases "fsb_payload sb")
  case (BrokenJson e)
  with assms show ?thesis by (auto simp: process_submission_def dest: finalizeFailure_sinks)
next
  case (SaleJson sale)
  show ?thesis
  proof (cases "SubmitSale adapter sale")
    case (Inl e)
    with SaleJson assms show ?thesis by (simp add: process_submission_def handleSubmitError_cases)
  next
    case (Inr answer)
    show ?thesis
    proof (cases answer)
      case None
      with SaleJson Inr assms(1) show ?thesis
        by (auto simp: process_submission_def tx_bind_Inr dest: MarkSubmitted_same_ledger)
    next
      case (Some res)
      with SaleJson Inr assms(1)
      have "PaymentService_OnFiscalResult c (stampResultIdentity res sb) s = Inr (u, s')"
        by (simp add: process_submission_def)
      then have "sunk c s s'"
        using assms(2,3) by (rule sunkI) (simp_all add: stampResultIdentity_def)
      then show ?thesis ..
    qed
  qed
qed

lemma reconciler_expire_sinks:
  assumes "reconciler_expire c sb age s = Inr (u, s')" and "submission_of s sb" and "pay_schema_ok s"
  shows "sunk c s s'"
  using assms(1) [unfolded reconciler_expire_def] assms(2,3) by (rule sunkI) simp_all

text \<open>Calls on sessions leave payments, registrations and receipts alone.\<close>

lemma session_calls_same_ledger:
  "CashSessionService_Open c p orq s = Inr (v, s') \<Longrightarrow> same_ledger s s'"
  "CashSessionService_SubmitClosingCount c p i crq s = Inr (v, s') \<Longrightarrow> same_ledger s s'"
  "CashSessionService_Close c p i s = Inr (v, s') \<Longrightarrow> same_ledger s s'"
  "CashSessionService_RecordMovement c p i mrq s = Inr (m, s') \<Longrightarrow> same_ledger s s'"
  by (auto simp: Let_def intro!: same_ledger_subs
      dest!: Open_effect SubmitClosing_effect Close_effect RecordMovement_effect)

section \<open>Every call keeps the constraints and the histories\<close>

lemma buildView_evolves [pay_intro]: "tx_within pay_evolves (buildView tx r)"
  unfolding buildView_def by (intro pay_evolves.within_rules pay_intro)

lemma cannotClose_evolves [pay_intro]: "tx_within pay_evolves (cannotClose tx tn b)"
  unfolding cannotClose_def by (intro pay_evolves.within_rules pay_intro)

lemma session_calls_evolve [pay_intro]:
  "tx_within pay_evolves (CashSessionService_Open c p orq)"
  "tx_within pay_evolves (CashSessionService_SubmitClosingCount c p i crq)"
  "tx_within pay_evolves (CashSessionService_Close c p i)"
  "tx_within pay_evolves (CashSessionService_RecordMovement c p i mrq)"
  unfolding CashSessionService_Open_def CashSessionService_SubmitClosingCount_def
    CashSessionService_Close_def CashSessionService_RecordMovement_def submitClosingTx_def
    closeSessionTx_def recordMovementTx_def
  by (intro pay_evolves.within_rules pay_intro)+

lemma queue_evolves [pay_intro]:
  "tx_within pay_evolves (queue_MarkSubmitted c sb)"
  "tx_within pay_evolves (queue_MarkRetry c sb n t err)"
  "tx_within pay_evolves (finalizeFailure c sb cause)"
  "tx_within pay_evolves (handleSubmitError err_text cfg c sb e)"
  "tx_within pay_evolves (reconciler_expire c sb age)"
  unfolding queue_MarkSubmitted_def queue_MarkRetry_def finalizeFailure_def handleSubmitError_def
    reconciler_expire_def
  by (intro pay_evolves.within_rules pay_intro)+

lemma sunk_evolves: "sunk c s s' \<Longrightarrow> pay_evolves s s'"
  unfolding sunk_def by (blast intro: tx_withinD [OF OnFiscalResult_within])

lemma process_submission_evolves [pay_intro]:
  "tx_within pay_evolves (process_submission err_text adapter cfg c sb)"
  unfolding process_submission_def
  by (cases "fsb_payload sb") (auto intro!: pay_evolves.within_rules pay_intro)

lemma sink_calls_evolve [pay_intro]:
  "tx_within pay_evolves (PaymentService_VoidSale svc c tn i)"
  "tx_within pay_evolves (PaymentService_ExpireSubmission show_id id c p i reason)"
proof -
  have get: "tx_within pay_evolves (getSubmission c tn i)" for tn i
    unfolding getSubmission_def by (intro pay_evolves.within_rules pay_intro)
  have noop: "tx_within pay_evolves (tx_write id)" by (simp add: tx_on_def pay_evolves_refl)
  show "tx_within pay_evolves (PaymentService_VoidSale svc c tn i)"
    unfolding PaymentService_VoidSale_def by (intro pay_evolves.within_rules pay_intro)
  show "tx_within pay_evolves (PaymentService_ExpireSubmission show_id id c p i reason)"
    unfolding PaymentService_ExpireSubmission_def
    by (intro pay_evolves.within_rules pay_intro get noop)
qed

lemma webhook_evolves:
  assumes "webhook_handleCompleted show_int c b s = (code, s')"
  shows "pay_evolves s s'"
proof (cases "s' = s")
  case False
  with assms obtain res u where "PaymentService_OnFiscalResult c res s = Inr (u, s')"
    by (auto simp: webhook_handleCompleted_def Let_def split: sum.splits)
  then show ?thesis by (rule tx_withinD [OF OnFiscalResult_within])
qed (simp add: pay_evolves_refl)

lemma pay_step_evolves: "pay_step svc c s s' \<Longrightarrow> pay_evolves s s'"
proof (induction rule: pay_step.induct)
  case (step_claim c n stale s batch s' svc)
  then show ?case by (rule tx_withinD [OF pay_claim])
next
  case (step_process s sb err_text svc cfg c u s')
  then show ?case by (blast intro: tx_withinD [OF process_submission_evolves])
next
  case (step_reconcile s sb c age u s' svc)
  then show ?case by (blast intro: tx_withinD [OF queue_evolves(5)])
qed (blast intro: tx_withinD pay_intro webhook_evolves)+

text \<open>Every step is a sale, or a result that went through the sink, or keeps both
  columns of the ledger.\<close>

lemma pay_step_kinds:
  assumes step: "pay_step svc c s s'" and sch: "pay_schema_ok s"
  obtains (sale) req p where "PaymentService_RegisterSale id svc c req s = Inr (p, s')"
    | (sink) "sunk c s s'"
    | (kept) "same_ledger s s'"
proof -
  have refl: "same_ledger s s" by (rule same_ledger_subs) simp_all
  from step show ?thesis
  proof (cases rule: pay_step.cases)
    case (step_sale req p)
    then show ?thesis by (rule sale)
  next
    case (step_void tn i u)
    then show ?thesis using VoidSale_sinks sch refl sink kept by blast
  next
    case (step_expire show_id p i reason u)
    then show ?thesis using ExpireSubmission_sinks sch sink by blast
  next
    case (step_webhook show_int b code)
    then show ?thesis using webhook_sinks sch refl sink kept by blast
  next
    case (step_claim n stale batch)
    then show ?thesis using ClaimPending_same_ledger kept by blast
  next
    case (step_process sb err_text cfg u)
    then show ?thesis using process_submission_cases sch sink kept by blast
  next
    case (step_reconcile sb age u)
    then show ?thesis using reconciler_expire_sinks sch sink by blast
  qed (blast intro: kept session_calls_same_ledger)+
qed

lemma pay_step_ledger:
  assumes step: "pay_step svc c s s'" and ok: "ledger_ok s"
  shows "ledger_ok s'"
proof -
  have sch: "pay_schema_ok s" using ok by (simp add: ledger_ok_def)
  have sch': "pay_schema_ok s'" using pay_step_evolves [OF step] sch by (simp add: pay_evolves_def)
  from step sch show ?thesis
  proof (cases rule: pay_step_kinds)
    case (sale req p)
    then show ?thesis using ok by (rule RegisterSale_ledger)
  next
    case sink
    then show ?thesis using ok by (rule sunk_ledger)
  next
    case kept
    then show ?thesis using ok sch' by (rule same_ledger_ok)
  qed
qed

lemma pay_run_evolves: "pay_run t s tr t' s' \<Longrightarrow> pay_evolves s s'"
  by (induction rule: pay_run.induct) (blast intro: pay_evolves_refl pay_evolves_trans pay_step_evolves)+

lemma pay_run_ledger: "pay_run t s tr t' s' \<Longrightarrow> ledger_ok s \<Longrightarrow> ledger_ok s'"
  by (induction rule: pay_run.induct) (auto intro: pay_step_ledger)

lemma pay_run_clock: "pay_run t s tr t' s' \<Longrightarrow> t \<le> t'"
  by (induction rule: pay_run.induct) auto

section \<open>What a step does to the payments and to the sessions\<close>

lemma same_ledger_payments: "same_ledger s s' \<Longrightarrow> pd_payments s' = pd_payments s"
  by (simp add: same_ledger_def)

lemma sunk_payments:
  assumes "sunk c s s'"
  shows "pd_payments s' = pd_payments s \<or>
    (\<exists>res t i. res_status res \<in> {FiscalCompleted, FiscalFailed, FiscalExpired, FiscalVoided} \<and>
       pd_payments s' = update_rows (payment_hit res) (settle_payment res t i) (pd_payments s))"
proof -
  from assms obtain res where run: "PaymentService_OnFiscalResult c res s = Inr ((), s')"
    by (auto simp: sunk_def)
  from OnFiscalResult_Inr [OF run] show ?thesis
  proof (elim disjE conjE bexE exE)
    fix r assume "result_hits res r"
    then have "res_status res \<in> {FiscalCompleted, FiscalFailed, FiscalExpired, FiscalVoided}"
      by (auto simp: result_hits_def result_sources_Some)
    moreover assume "pd_payments s' = update_rows (payment_hit res)
      (settle_payment res (ctx_now c) (pd_rand s (pd_ctr s))) (pd_payments s)"
    ultimately show ?thesis by blast
  qed simp
qed

lemma sunk_sessions: "sunk c s s' \<Longrightarrow> pd_sessions s' = pd_sessions s \<and> pd_moves s' = pd_moves s"
  by (auto simp: sunk_def dest!: OnFiscalResult_Inr)

lemma queue_sessions:
  "FiscalSubmissionRepo_ClaimPending now n stale s = Inr (batch, s') \<Longrightarrow> pd_sessions s' = pd_sessions s"
  "queue_MarkSubmitted c sb s = Inr (b, s') \<Longrightarrow> pd_sessions s' = pd_sessions s"
  "queue_MarkRetry c sb k t err s = Inr (u, s') \<Longrightarrow> pd_sessions s' = pd_sessions s"
  by (auto simp: FiscalSubmissionRepo_ClaimPending_def queue_MarkSubmitted_def queue_MarkRetry_def
      FiscalSubmissionRepo_MarkSubmitted_def FiscalSubmissionRepo_MarkRetry_def tx_bind_Inr
      affected_Inr submissions.update_Inr)

lemma handleSubmitError_sessions:
  assumes "handleSubmitError err_text cfg c sb e s = Inr (u, s')"
  shows "pd_sessions s' = pd_sessions s"
proof (cases "fsb_retry sb + 1 > wcf_max_retries cfg")
  case True
  with assms show ?thesis
    by (auto simp: handleSubmitError_def finalizeFailure_def Let_def dest!: OnFiscalResult_Inr)
next
  case False
  with assms show ?thesis
    by (auto simp: handleSubmitError_def Let_def tx_bind_Inr lookup_Inr dest: queue_sessions(3))
qed

lemma process_submission_sessions:
  assumes "process_submission err_text adapter cfg c sb s = Inr (u, s')"
  shows "pd_sessions s' = pd_sessions s"
proof (cases "fsb_payload sb")
  case (BrokenJson e)
  with assms show ?thesis
    by (auto simp: process_submission_def finalizeFailure_def dest!: OnFiscalResult_Inr)
next
  case (SaleJson sale)
  show ?thesis
  proof (cases "SubmitSale adapter sale")
    case (Inl e)
    with SaleJson assms show ?thesis
      by (simp add: process_submission_def handleSubmitError_sessions)
  next
    case (Inr answer)
    show ?thesis
    proof (cases answer)
      case None
      with SaleJson Inr assms show ?thesis
        by (auto simp: process_submission_def tx_bind_Inr dest: queue_sessions(2))
    next
      case (Some res)
      with SaleJson Inr assms
      have "PaymentService_OnFiscalResult c (stampResultIdentity res sb) s = Inr (u, s')"
        by (simp add: process_submission_def)
      then show ?thesis by (auto dest!: OnFiscalResult_Inr)
    qed
  qed
qed

lemma pay_step_payments:
  assumes step: "pay_step svc c s s'" and sch: "pay_schema_ok s"
  obtains (same) "pd_payments s' = pd_payments s"
    | (settled) res t i where
        "res_status res \<in> {FiscalCompleted, FiscalFailed, FiscalExpired, FiscalVoided}"
        "pd_payments s' = update_rows (payment_hit res) (settle_payment res t i) (pd_payments s)"
    | (sale) req p where "PaymentService_RegisterSale id svc c req s = Inr (p, s')"
  using step sch
proof (cases rule: pay_step_kinds)
  case sink
  then show ?thesis using same settled by (metis sunk_payments)
qed (auto intro: that dest: same_ledger_payments)

lemma pay_step_sessions:
  assumes step: "pay_step svc c s s'" and sch: "pay_schema_ok s"
  obtains (same) "pd_sessions s' = pd_sessions s"
    | (opened) p req v where "CashSessionService_Open c p req s = Inr (v, s')"
    | (counted) p i req v where "CashSessionService_SubmitClosingCount c p i req s = Inr (v, s')"
    | (closed) p i v where "CashSessionService_Close c p i s = Inr (v, s')"
proof -
  from step show ?thesis
  proof (cases rule: pay_step.cases)
    case (step_sale req p)
    then show ?thesis using same by (auto dest!: RegisterSale_effect)
  next
    case (step_void tn i u)
    then show ?thesis using same sch by (metis VoidSale_sinks sunk_sessions)
  next
    case (step_expire show_id p i reason u)
    then show ?thesis using same sch by (metis ExpireSubmission_sinks sunk_sessions)
  next
    case (step_webhook show_int b code)
    then show ?thesis using same sch by (metis webhook_sinks sunk_sessions)
  next
    case (step_claim n stale batch)
    then show ?thesis using same by (metis queue_sessions(1))
  next
    case (step_process sb err_text cfg u)
    then show ?thesis using same by (metis process_submission_sessions)
  next
    case (step_reconcile sb age u)
    then show ?thesis using same sch by (metis reconciler_expire_sinks sunk_sessions)
  next
    case (step_movement prn i mrq m)
    then show ?thesis using same by (auto dest!: RecordMovement_effect)
  qed (blast intro: opened counted closed)+
qed

end
