(* ===== verification/Pay_Drawers.thy ===== *)
theory Pay_Drawers
  imports Pay_System
begin

text \<open>
  The drawers of a branch over time. A session's window runs from its opening to its
  close; the windows of one drawer follow each other without overlap, and a cash payment
  is only taken inside one. So the money the sessions of a branch account for is exactly
  the cash its payments brought in: nothing is counted twice and nothing is lost between
  two shifts.
\<close>

section \<open>The invariant\<close>

definition same_drawer :: "cash_session \<Rightarrow> cash_session \<Rightarrow> bool" where
  "same_drawer r r' \<longleftrightarrow> ses_tenant r = ses_tenant r' \<and> ses_branch r = ses_branch r'"

definition in_window :: "cash_session \<Rightarrow> time \<Rightarrow> bool" where
  "in_window r t \<longleftrightarrow>
     ses_opened_at r \<le> t \<and> (case ses_closed_at r of None \<Rightarrow> True | Some u \<Rightarrow> t < u)"

definition session_dated :: "time \<Rightarrow> cash_session \<Rightarrow> bool" where
  "session_dated now r \<longleftrightarrow>
     ses_opened_at r \<le> now \<and>
     (case ses_closed_at r of
        None \<Rightarrow> session_active r
      | Some u \<Rightarrow> ses_status r = SessionClosed \<and> ses_opened_at r \<le> u \<and> u \<le> now)"

definition follows_close :: "cash_session \<Rightarrow> cash_session \<Rightarrow> bool" where
  "follows_close r r' \<longleftrightarrow>
     (same_drawer r r' \<longrightarrow>
        (case ses_closed_at r of None \<Rightarrow> False | Some u \<Rightarrow> u \<le> ses_opened_at r'))"

definition cash_dated :: "time \<Rightarrow> cash_session list \<Rightarrow> payment \<Rightarrow> bool" where
  "cash_dated now rs p \<longleftrightarrow>
     pmt_created p \<le> now \<and>
     (pmt_method p = MethodCash \<longrightarrow>
        (\<exists>r \<in> set rs. ses_tenant r = pmt_tenant p \<and> ses_branch r = pmt_branch p \<and>
           in_window r (pmt_created p)))"

definition drawers_ok :: "time \<Rightarrow> pay_db \<Rightarrow> bool" where
  "drawers_ok now s \<longleftrightarrow>
     (\<forall>r \<in> set (pd_sessions s). session_dated now r) \<and>
     sorted_wrt follows_close (pd_sessions s) \<and>
     (\<forall>p \<in> set (pd_payments s). cash_dated now (pd_sessions s) p)"

lemma drawers_ok_later:
  assumes "drawers_ok now s" and "now \<le> now'"
  shows "drawers_ok now' s"
proof -
  have "session_dated now r \<Longrightarrow> session_dated now' r" for r
    using assms(2) by (auto simp: session_dated_def split: option.splits)
  moreover have "cash_dated now rs p \<Longrightarrow> cash_dated now' rs p" for rs p
    using assms(2) by (auto simp: cash_dated_def)
  ultimately show ?thesis using assms(1) by (auto simp: drawers_ok_def)
qed

section \<open>Every step keeps it\<close>

text \<open>Results move payments, not their dates.\<close>

lemma drawers_ok_settled:
  assumes "drawers_ok now s" and "pd_sessions s' = pd_sessions s"
    and "pd_payments s' = update_rows (payment_hit res) (settle_payment res t i) (pd_payments s)"
  shows "drawers_ok now s'"
proof -
  have "cash_dated now rs p \<Longrightarrow> cash_dated now rs (settle_payment res t i p)" for rs p
    by (simp add: cash_dated_def)
  with assms show ?thesis by (auto simp: drawers_ok_def set_update_rows)
qed

lemma drawers_ok_sale:
  assumes run: "PaymentService_RegisterSale id svc c req s = Inr (p, s')"
    and ok: "drawers_ok now s" and now: "now < ctx_now c"
  shows "drawers_ok (ctx_now c) s'"
proof -
  have ok': "drawers_ok (ctx_now c) s" using ok now by (auto intro: drawers_ok_later)
  from RegisterSale_Inr [OF run] show ?thesis
  proof (elim conjE disjE)
    assume "s' = s" with ok' show ?thesis by simp
  next
    assume cash: "requireCashSession (sale_request req) (pay_tx c (rsr_tenant req)) s = Inr ((), s)"
      and create: "createPayment id svc (sale_request req) (pay_tx c (rsr_tenant req)) s = Inr (p, s')"
    from createPayment_Inr [OF create] have p: "pmt_created p = ctx_now c"
        "pmt_method p = rsr_method req" "pmt_tenant p = rsr_tenant req" "pmt_branch p = rsr_branch req"
      and s': "pd_payments s' = pd_payments s @ [p]" "pd_sessions s' = pd_sessions s" by auto
    have "cash_dated (ctx_now c) (pd_sessions s) p"
    proof (cases "rsr_method req = MethodCash")
      case True
      with requireCashSession_Inr [OF cash] obtain r where r: "r \<in> set (pd_sessions s)"
          "ses_tenant r = rsr_tenant req" "ses_branch r = rsr_branch req" "session_active r" by auto
      with ok have "session_dated now r" by (auto simp: drawers_ok_def)
      with r now have "in_window r (ctx_now c)"
        by (auto simp: session_dated_def in_window_def session_active_def split: option.splits)
      with r p show ?thesis by (auto simp: cash_dated_def)
    next
      case False
      with p show ?thesis by (simp add: cash_dated_def)
    qed
    with ok' s' show ?thesis by (auto simp: drawers_ok_def)
  qed
qed

lemma drawers_ok_open:
  assumes run: "CashSessionService_Open c p req s = Inr (v, s')"
    and ok: "drawers_ok now s" and now: "now < ctx_now c"
  shows "drawers_ok (ctx_now c) s'"
proof -
  let ?q = "opened_session c p req (pd_rand s (pd_ctr s))"
  from Open_effect [OF run] have s': "pd_sessions s' = pd_sessions s @ [?q]" "pd_payments s' = pd_payments s"
    and uniq: "sessions_uniq (pd_sessions s @ [?q])" by (auto simp: Let_def)
  have q: "session_active ?q" "session_dated (ctx_now c) ?q" "ses_opened_at ?q = ctx_now c"
    by (auto simp: opened_session_def zero_session_def session_active_def session_dated_def)
  have "follows_close r ?q" if r: "r \<in> set (pd_sessions s)" for r
  proof (cases "same_drawer r ?q")
    case True
    from uniq q(1) r True have "\<not> session_active r"
      by (auto simp: sessions_uniq_def same_drawer_def image_iff) metis
    moreover have "session_dated now r" using ok r by (auto simp: drawers_ok_def)
    ultimately show ?thesis using q(3) now
      by (auto simp: session_dated_def follows_close_def split: option.splits)
  qed (simp add: follows_close_def)
  moreover have "drawers_ok (ctx_now c) s" using ok now by (auto intro: drawers_ok_later)
  ultimately show ?thesis using q(2) s'
    by (auto simp: drawers_ok_def sorted_wrt_append cash_dated_def)
qed

text \<open>A count and a close change one session, and keep its drawer and its opening.\<close>

lemma in_update_rows:
  "y \<in> set (update_rows P f rows) \<longleftrightarrow> (\<exists>x \<in> set rows. y = (if P x then f x else x))"
  by (induction rows) auto

lemma sorted_wrt_follows_update:
  assumes sw: "sorted_wrt follows_close rs"
    and keep: "\<And>r. ses_tenant (f r) = ses_tenant r" "\<And>r. ses_branch (f r) = ses_branch r"
      "\<And>r. ses_opened_at (f r) = ses_opened_at r"
    and active: "\<And>r. r \<in> set rs \<Longrightarrow> P r \<Longrightarrow> ses_closed_at r = None"
  shows "sorted_wrt follows_close (update_rows P f rs)"
  using sw active
proof (induction rs)
  case (Cons r rs)
  have "follows_close (if P r then f r else r) (if P q then f q else q)" if "q \<in> set rs" for q
  proof -
    have "follows_close r q" using Cons.prems(1) that by simp
    then show ?thesis using Cons.prems(2) [of r]
      by (auto simp: follows_close_def same_drawer_def keep split: option.splits)
  qed
  then have "\<forall>y \<in> set (update_rows P f rs). follows_close (if P r then f r else r) y"
    by (auto simp: in_update_rows)
  with Cons show ?case by simp
qed simp

lemma drawers_ok_update:
  assumes ok: "drawers_ok now s" and now: "now \<le> now'"
    and keep: "\<And>r. ses_tenant (f r) = ses_tenant r" "\<And>r. ses_branch (f r) = ses_branch r"
      "\<And>r. ses_opened_at (f r) = ses_opened_at r"
    and active: "\<And>r. r \<in> set (pd_sessions s) \<Longrightarrow> P r \<Longrightarrow> ses_closed_at r = None"
    and dated: "\<And>r. r \<in> set (pd_sessions s) \<Longrightarrow> P r \<Longrightarrow> session_dated now' (f r)"
    and window: "\<And>r t. r \<in> set (pd_sessions s) \<Longrightarrow> P r \<Longrightarrow> t \<le> now \<Longrightarrow> in_window r t \<Longrightarrow> in_window (f r) t"
    and s': "pd_sessions s' = update_rows P f (pd_sessions s)" "pd_payments s' = pd_payments s"
  shows "drawers_ok now' s'"
proof -
  let ?g = "\<lambda>r. if P r then f r else r"
  have later: "drawers_ok now' s" using ok now by (rule drawers_ok_later)
  have "session_dated now' r" if "r \<in> set (pd_sessions s')" for r
    using that later dated unfolding s' by (auto simp: in_update_rows drawers_ok_def)
  moreover have "sorted_wrt follows_close (pd_sessions s')"
    unfolding s' using ok keep active by (intro sorted_wrt_follows_update) (auto simp: drawers_ok_def)
  moreover have "cash_dated now' (pd_sessions s') q" if q: "q \<in> set (pd_payments s)" for q
  proof (cases "pmt_method q = MethodCash")
    case True
    have early: "pmt_created q \<le> now" using ok q by (auto simp: drawers_ok_def cash_dated_def)
    from True ok q obtain r where r: "r \<in> set (pd_sessions s)" "ses_tenant r = pmt_tenant q"
      "ses_branch r = pmt_branch q" "in_window r (pmt_created q)"
      by (auto simp: drawers_ok_def cash_dated_def)
    have "?g r \<in> set (pd_sessions s')" using r(1) unfolding s' by (auto simp: in_update_rows)
    moreover have "ses_tenant (?g r) = pmt_tenant q" "ses_branch (?g r) = pmt_branch q"
      "in_window (?g r) (pmt_created q)" using r window early by (auto simp: keep)
    ultimately show ?thesis using early now unfolding cash_dated_def by force
  next
    case False
    with later q show ?thesis by (simp add: drawers_ok_def cash_dated_def)
  qed
  ultimately show ?thesis by (auto simp: drawers_ok_def s')
qed

lemma drawers_ok_active:
  "drawers_ok now s \<Longrightarrow> r \<in> set (pd_sessions s) \<Longrightarrow> ses_status r \<noteq> SessionClosed \<Longrightarrow>
   ses_closed_at r = None \<and> session_active r \<and> ses_opened_at r \<le> now"
  by (auto simp: drawers_ok_def session_dated_def split: option.splits)

lemma drawers_ok_counted:
  assumes run: "CashSessionService_SubmitClosingCount c p i req s = Inr (v, s')"
    and ok: "drawers_ok now s" and now: "now < ctx_now c"
  shows "drawers_ok (ctx_now c) s'"
proof -
  from SubmitClosing_effect [OF run] obtain r0 :: cash_session
    where r0: "ses_status r0 \<in> {SessionOpened, SessionClosingControl}"
    and s': "s' = s\<lparr>pd_sessions := update_rows (session_named p i (ses_status r0))
        (count_submitted c req) (pd_sessions s)\<rparr>" by blast
  from r0 have st: "ses_status r0 \<noteq> SessionClosed" by auto
  have s'': "pd_sessions s' = update_rows (session_named p i (ses_status r0)) (count_submitted c req)
      (pd_sessions s)" "pd_payments s' = pd_payments s" by (simp_all add: s')
  show ?thesis
  proof (rule drawers_ok_update [OF ok _ _ _ _ _ _ _ s''])
    fix r t assume r: "r \<in> set (pd_sessions s)" "session_named p i (ses_status r0) r"
    with st have act: "ses_closed_at r = None" "ses_opened_at r \<le> now"
      using drawers_ok_active [OF ok] by (auto simp: session_named_def)
    then show "ses_closed_at r = None" "session_dated (ctx_now c) (count_submitted c req r)"
      "in_window r t \<Longrightarrow> in_window (count_submitted c req r) t"
      using now by (auto simp: session_dated_def count_submitted_def session_active_def in_window_def)
  qed (use now in \<open>auto simp: count_submitted_def\<close>)
qed

lemma drawers_ok_closed:
  assumes run: "CashSessionService_Close c p i s = Inr (v, s')"
    and ok: "drawers_ok now s" and now: "now < ctx_now c"
  shows "drawers_ok (ctx_now c) s'"
proof -
  from Close_effect [OF run]
  have s': "pd_sessions s' = update_rows (session_named p i SessionClosingControl) (closed_session c p)
        (pd_sessions s)" "pd_payments s' = pd_payments s" by auto
  show ?thesis
  proof (rule drawers_ok_update [OF ok _ _ _ _ _ _ _ s'])
    fix r t assume r: "r \<in> set (pd_sessions s)" "session_named p i SessionClosingControl r"
    then have act: "ses_closed_at r = None" "ses_opened_at r \<le> now"
      using drawers_ok_active [OF ok] by (auto simp: session_named_def)
    then show "ses_closed_at r = None" "session_dated (ctx_now c) (closed_session c p r)"
      "t \<le> now \<Longrightarrow> in_window r t \<Longrightarrow> in_window (closed_session c p r) t"
      using now by (auto simp: session_dated_def closed_session_def in_window_def)
  qed (use now in \<open>auto simp: closed_session_def\<close>)
qed

lemma pay_step_drawers:
  assumes step: "pay_step svc c s s'" and sch: "pay_schema_ok s"
    and ok: "drawers_ok now s" and now: "now < ctx_now c"
  shows "drawers_ok (ctx_now c) s'"
  using step sch
proof (cases rule: pay_step_sessions)
  case same
  have ok': "drawers_ok (ctx_now c) s" using ok now by (auto intro: drawers_ok_later)
  from step sch show ?thesis
  proof (cases rule: pay_step_payments)
    case same': same
    with same ok' show ?thesis by (simp add: drawers_ok_def)
  next
    case (settled res t i)
    from drawers_ok_settled [OF ok' same settled(2)] show ?thesis .
  next
    case (sale req p)
    then show ?thesis using ok now by (rule drawers_ok_sale)
  qed
qed (blast intro: drawers_ok_open drawers_ok_counted drawers_ok_closed ok now)+

lemma pay_run_drawers:
  assumes "pay_run t s tr t' s'" and "pay_schema_ok s" and "drawers_ok t s"
  shows "drawers_ok t' s'"
  using assms
proof (induction rule: pay_run.induct)
  case (pay_run_step t s tr t' s' svc c s'')
  have "pay_schema_ok s'"
    using pay_run_evolves [OF pay_run_step.hyps(1)] pay_run_step.prems(1) by (simp add: pay_evolves_def)
  with pay_run_step show ?case by (blast intro: pay_step_drawers)
qed simp

section \<open>The accounts of a branch\<close>

lemma sum_filter_swap:
  fixes f :: "'b \<Rightarrow> int"
  shows "(\<Sum>r \<leftarrow> rs. \<Sum>p \<leftarrow> filter (Q r) ps. f p) =
         (\<Sum>p \<leftarrow> ps. f p * int (length (filter (\<lambda>r. Q r p) rs)))"
proof (induction rs)
  case (Cons r rs)
  have "(\<Sum>p \<leftarrow> filter (Q r) ps. f p) + (\<Sum>p \<leftarrow> ps. f p * int (length (filter (\<lambda>r. Q r p) rs))) =
        (\<Sum>p \<leftarrow> ps. f p * int (length (filter (\<lambda>r. Q r p) (r # rs))))"
    by (induction ps) (auto simp: algebra_simps)
  with Cons show ?case by simp
qed (induction ps; simp)

text \<open>At any moment at most one window of a drawer is open.\<close>

lemma one_window:
  assumes "sorted_wrt follows_close rs"
  shows "length (filter (\<lambda>r. ses_tenant r = tn \<and> ses_branch r = b \<and> in_window r t) rs) \<le> 1"
  using assms
proof (induction rs)
  case (Cons r rs)
  let ?Q = "\<lambda>r. ses_tenant r = tn \<and> ses_branch r = b \<and> in_window r t"
  show ?case
  proof (cases "?Q r")
    case True
    have "\<not> ?Q q" if "q \<in> set rs" for q
      using Cons.prems that True
      by (auto simp: follows_close_def same_drawer_def in_window_def split: option.splits)
    then have "filter ?Q rs = []" by (simp add: filter_empty_conv)
    with True show ?thesis by simp
  next
    case False
    then have "filter ?Q (r # rs) = filter ?Q rs" by simp
    with Cons show ?thesis by simp
  qed
qed simp

definition branch_cash :: "uuid \<Rightarrow> uuid \<Rightarrow> pay_db \<Rightarrow> int" where
  "branch_cash tn b s =
     (\<Sum>p \<leftarrow> filter (\<lambda>p. pmt_tenant p = tn \<and> pmt_branch p = b \<and> pmt_method p = MethodCash \<and>
        pmt_status p = PaymentCompleted) (pd_payments s). pmt_amount p)"

lemma drawers_account:
  assumes ok: "drawers_ok now s"
  shows "(\<Sum>r \<leftarrow> filter (\<lambda>r. ses_tenant r = tn \<and> ses_branch r = b) (pd_sessions s). drawer_cash r s) =
         branch_cash tn b s"
proof -
  let ?rs = "filter (\<lambda>r. ses_tenant r = tn \<and> ses_branch r = b) (pd_sessions s)"
  let ?Q = "\<lambda>r p. cash_taken_between (ses_tenant r) (ses_branch r) (ses_opened_at r) (ses_closed_at r) p"
  let ?cash = "\<lambda>p. pmt_tenant p = tn \<and> pmt_branch p = b \<and> pmt_method p = MethodCash \<and>
      pmt_status p = PaymentCompleted"
  have n: "length (filter (\<lambda>r. ?Q r p) ?rs) = (if ?cash p then 1 else 0)"
    if p: "p \<in> set (pd_payments s)" for p
  proof (cases "?cash p")
    case True
    let ?W = "\<lambda>r. ses_tenant r = tn \<and> ses_branch r = b \<and> in_window r (pmt_created p)"
    have "filter (\<lambda>r. ?Q r p) ?rs = filter ?W (pd_sessions s)"
      using True by (auto simp: cash_taken_between_def in_window_def intro!: filter_cong)
    moreover have "length (filter ?W (pd_sessions s)) \<le> 1"
      using ok by (intro one_window) (simp add: drawers_ok_def)
    moreover have "\<exists>r \<in> set (pd_sessions s). ?W r"
      using ok p True by (auto simp: drawers_ok_def cash_dated_def)
    then have "filter ?W (pd_sessions s) \<noteq> []" unfolding filter_empty_conv by blast
    ultimately show ?thesis using True by (cases "filter ?W (pd_sessions s)") auto
  next
    case False
    then have "filter (\<lambda>r. ?Q r p) ?rs = []"
      by (auto simp: filter_empty_conv cash_taken_between_def)
    with False show ?thesis by simp
  qed
  have "(\<Sum>r \<leftarrow> ?rs. drawer_cash r s) =
        (\<Sum>p \<leftarrow> pd_payments s. pmt_amount p * int (length (filter (\<lambda>r. ?Q r p) ?rs)))"
    unfolding drawer_cash_def by (rule sum_filter_swap)
  also have "\<dots> = (\<Sum>p \<leftarrow> pd_payments s. if ?cash p then pmt_amount p else 0)"
  proof (rule arg_cong [where f = sum_list], rule map_cong)
    fix p assume "p \<in> set (pd_payments s)"
    from n [OF this] show "pmt_amount p * int (length (filter (\<lambda>r. ?Q r p) ?rs)) =
        (if ?cash p then pmt_amount p else 0)" by (simp only:) simp
  qed simp
  also have "\<dots> = branch_cash tn b s"
  proof -
    have "(\<Sum>p \<leftarrow> ps. if ?cash p then pmt_amount p else 0) = (\<Sum>p \<leftarrow> filter ?cash ps. pmt_amount p)"
      for ps by (induction ps) auto
    then show ?thesis by (simp add: branch_cash_def)
  qed
  finally show ?thesis .
qed

end
