(* ===== verification/Pay_Collections.thy ===== *)
theory Pay_Collections
  imports Pay_System
begin

text \<open>
  What a check has collected: payments that completed and payments whose registration is
  still with the device. A sale raises it, by the amount and the rounding concession; the
  answers of the device can only lower it. The guard of a sale is the arithmetic that
  keeps it within the bill.
\<close>

section \<open>The arithmetic of the guard\<close>

lemma guard_arithmetic:
  assumes "0 \<le> paid" "0 \<le> pending" "paid + pending \<le> bill" "int64_range bill"
    and "0 < amount" "int64_range amount" "0 \<le> rounding" "int64_range rounding"
    and "due = wrap64 (wrap64 (bill - paid) - pending)"
    and "wrap64 (amount + rounding) \<le> due"
    and "rounding = 0 \<or> wrap64 (amount + rounding) = due"
  shows "due = bill - paid - pending \<and> amount + rounding \<le> bill - paid - pending \<and>
    (rounding = 0 \<or> amount + rounding = bill - paid - pending)"
proof -
  have r1: "int64_range (bill - paid)" and r2: "int64_range (bill - paid - pending)"
    using assms(1-4) by (auto simp: int64_range_def)
  with assms(9) have due: "due = bill - paid - pending" by simp
  have nonneg: "0 \<le> due" using due assms(3) by simp
  show ?thesis
  proof (cases "int64_range (amount + rounding)")
    case True
    with due assms(10,11) show ?thesis by simp
  next
    case False
    with assms(5-8) have big: "2 ^ 63 \<le> amount + rounding" "amount + rounding < 2 ^ 64"
      by (auto simp: int64_range_def)
    have "(amount + rounding + 2 ^ 63) mod 2 ^ 64 = (amount + rounding - 2 ^ 63 + 2 ^ 64) mod 2 ^ 64"
      by (simp add: add.commute)
    also have "\<dots> = (amount + rounding - 2 ^ 63) mod 2 ^ 64" by (rule mod_add_self2)
    also have "\<dots> = amount + rounding - 2 ^ 63" using big by (intro mod_pos_pos_trivial) auto
    finally have "wrap64 (amount + rounding) = amount + rounding - 2 ^ 64" by (simp add: wrap64_def)
    with big have "wrap64 (amount + rounding) < 0" by simp
    moreover have "rounding \<noteq> 0" using False assms(6) by auto
    ultimately show ?thesis using assms(11) nonneg by simp
  qed
qed

section \<open>A sale\<close>

text \<open>The total a sale is measured against, as the check guard of its service reports it.\<close>

definition bills :: "payment_service \<Rightarrow> uuid \<Rightarrow> uuid \<Rightarrow> int \<Rightarrow> bool" where
  "bills svc tn k bill \<longleftrightarrow>
     (\<forall>g t. svc_checks svc = Some g \<longrightarrow> CheckTotal g tn k = Inr t \<longrightarrow> t = bill)"

lemma checkTotalFor_bills:
  "checkTotalFor svc req None = Inr owed \<Longrightarrow> hasCheck req \<Longrightarrow>
   bills svc (rsr_tenant req) (the (rsr_check req)) bill \<Longrightarrow> owed = bill"
  by (auto simp: checkTotalFor_def bills_def split: option.splits sum.splits)

lemma collected_append:
  "collected tn k (s\<lparr>pd_payments := pd_payments s @ [p], pd_subs := x, pd_ctr := n\<rparr>) =
   collected tn k s + (if carries_money tn k p then settles p else 0)"
  by (simp add: collected_def)

lemma conceded_append:
  "conceded tn k (s\<lparr>pd_payments := pd_payments s @ [p], pd_subs := x, pd_ctr := n\<rparr>) =
   conceded tn k s + (if carries_money tn k p then pmt_rounding p else 0)"
  by (simp add: conceded_def)

lemma conceded_le_collected:
  assumes "ledger_ok s"
  shows "0 \<le> conceded tn k s \<and> conceded tn k s \<le> collected tn k s"
proof -
  have "\<And>p. p \<in> set (pd_payments s) \<Longrightarrow> 0 \<le> pmt_rounding p \<and> 0 \<le> pmt_amount p"
    using ledger_ok_tables(4) [OF assms] by (fastforce simp: payment_row_ok_def)
  then show ?thesis
    unfolding conceded_def collected_def
    by (intro conjI sum_list_nonneg sum_list_mono) auto
qed

lemma RegisterSale_collects:
  assumes run: "PaymentService_RegisterSale id svc c req s = Inr (p, s')"
    and ok: "ledger_ok s" and new: "s' \<noteq> s"
    and tn: "rsr_tenant req = tn" and k: "rsr_check req = Some k" and some: "k \<noteq> uuid_Nil"
    and bill: "bills svc tn k bill" "int64_range bill" and before: "collected tn k s \<le> bill"
  shows "collected tn k s' = collected tn k s + rsr_amount req + rsr_rounding req \<and>
    collected tn k s' \<le> bill \<and>
    conceded tn k s' = conceded tn k s + rsr_rounding req \<and>
    (rsr_rounding req = 0 \<or> collected tn k s' = bill \<and>
       (\<exists>policy. roundingVerdictFor svc (sale_request req) = Inr (None, policy) \<and>
          conceded tn k s' \<le> rnd_max_per_check policy))"
proof -
  let ?tx = "pay_tx c tn" and ?r = "sale_request req"
  have has: "hasCheck req" using k some by (simp add: hasCheck_def)
  from RegisterSale_Inr [OF run] new tn has obtain policy :: rounding_policy and owed where
      amounts: "0 < rsr_amount req" "0 \<le> rsr_rounding req"
    and verdict: "roundingVerdictFor svc ?r = Inr (None, policy)"
    and owed: "checkTotalFor svc ?r None = Inr owed"
    and guard: "guardAgainstOverpayment ?tx ?r owed policy s = Inr (None, s)"
    and create: "createPayment id svc ?r ?tx s = Inr (p, s')" by blast
  have owed: "owed = bill"
    using checkTotalFor_bills [OF owed, of bill] has bill(1) tn k by simp
  from createPayment_Inr [OF create] have
      p: "p = created_payment (ctx_now c) (pd_rand s (pd_ctr s)) ?r"
    and s': "s' = s\<lparr>pd_payments := pd_payments s @ [p],
        pd_subs := pd_subs s @ [created_submission svc (ctx_now c) (pd_rand s (Suc (pd_ctr s))) p ?r],
        pd_ctr := Suc (Suc (pd_ctr s))\<rparr>" by simp_all
  have money: "carries_money tn k p" using p tn k by (simp add: carries_money_def)
  have "ledger_ok s'" using run ok by (rule RegisterSale_ledger)
  then have "payment_row_ok p" by (rule ledger_ok_tables(4)) (simp add: s')
  with p have range: "int64_range (rsr_amount req)" "int64_range (rsr_rounding req)"
    by (simp_all add: payment_row_ok_def)
  let ?paid = "total_by_status PaymentCompleted tn k s"
  let ?pending = "total_by_status PaymentPending tn k s"
  let ?due = "wrap64 (wrap64 (bill - ?paid) - ?pending)"
  have split: "collected tn k s = ?paid + ?pending" by (rule collected_split)
  from guardAgainstOverpayment_None [OF guard] tn k owed have
      le: "wrap64 (rsr_amount req + rsr_rounding req) \<le> ?due"
    and eq: "rsr_rounding req = 0 \<or> wrap64 (rsr_amount req + rsr_rounding req) = ?due"
    and cap: "rsr_rounding req = 0 \<or>
      wrap64 (conceded tn k s + rsr_rounding req) \<le> rnd_max_per_check policy" by auto
  have arith: "rsr_amount req + rsr_rounding req \<le> bill - ?paid - ?pending \<and>
    (rsr_rounding req = 0 \<or> rsr_amount req + rsr_rounding req = bill - ?paid - ?pending)"
    using guard_arithmetic [OF total_by_status_nonneg total_by_status_nonneg _ bill(2) amounts(1)
        range(1) amounts(2) range(2) refl le eq] ok before split by simp
  have coll: "collected tn k s' = collected tn k s + rsr_amount req + rsr_rounding req"
    and conc: "conceded tn k s' = conceded tn k s + rsr_rounding req"
    unfolding s' collected_append conceded_append using money p by simp_all
  have "int64_range (conceded tn k s + rsr_rounding req)"
    using conceded_le_collected [OF \<open>ledger_ok s'\<close>, of tn k] conc coll arith split bill(2)
    by (simp add: int64_range_def)
  with cap conc have "rsr_rounding req = 0 \<or> conceded tn k s' \<le> rnd_max_per_check policy" by simp
  with arith coll conc split verdict show ?thesis by auto
qed

section \<open>Everything else\<close>

lemma sum_filter_update_le:
  fixes g :: "'r \<Rightarrow> int"
  assumes "\<And>x. x \<in> set rows \<Longrightarrow> P x \<Longrightarrow> Q (f x) \<Longrightarrow> Q x \<and> g (f x) = g x"
    and "\<And>x. x \<in> set rows \<Longrightarrow> 0 \<le> g x"
  shows "(\<Sum>x \<leftarrow> filter Q (update_rows P f rows). g x) \<le> (\<Sum>x \<leftarrow> filter Q rows. g x)"
  using assms
proof (induction rows)
  case (Cons x rows)
  have "(\<Sum>x \<leftarrow> filter Q (update_rows P f rows). g x) \<le> (\<Sum>x \<leftarrow> filter Q rows. g x)"
    using Cons by simp
  with Cons.prems(1) [of x] Cons.prems(2) [of x] show ?case by auto
qed simp

lemma settled_collects_less:
  assumes ok: "ledger_ok s"
    and s': "pd_payments s' = update_rows (payment_hit res) (settle_payment res t i) (pd_payments s)"
  shows "collected tn k s' \<le> collected tn k s" and "conceded tn k s' \<le> conceded tn k s"
proof -
  have nonneg: "p \<in> set (pd_payments s) \<Longrightarrow> 0 \<le> pmt_rounding p \<and> 0 \<le> pmt_amount p" for p
    using ledger_ok_tables(4) [OF ok, of p] by (simp add: payment_row_ok_def)
  have carry: "payment_hit res p \<Longrightarrow> carries_money tn k (settle_payment res t i p) \<Longrightarrow> carries_money tn k p"
    for p by (auto simp: carries_money_def payment_hit_def)
  show "collected tn k s' \<le> collected tn k s"
    unfolding collected_def s' by (rule sum_filter_update_le) (use nonneg carry in \<open>auto\<close>)
  show "conceded tn k s' \<le> conceded tn k s"
    unfolding conceded_def s' by (rule sum_filter_update_le) (use nonneg carry in \<open>auto\<close>)
qed

lemma collected_cong:
  "pd_payments s' = pd_payments s \<Longrightarrow> collected tn k s' = collected tn k s"
  by (simp add: collected_def)

lemma sale_of_other_check:
  assumes "PaymentService_RegisterSale id svc c req s = Inr (p, s')"
    and "rsr_tenant req \<noteq> tn \<or> rsr_check req \<noteq> Some k"
  shows "collected tn k s' = collected tn k s"
  using RegisterSale_effect [OF assms(1)] assms(2)
  by (auto simp: collected_append carries_money_def)

lemma pay_step_collects:
  assumes step: "pay_step svc c s s'" and ok: "ledger_ok s" and k: "k \<noteq> uuid_Nil"
    and bill: "bills svc tn k bill" "int64_range bill" and before: "collected tn k s \<le> bill"
  shows "collected tn k s' \<le> bill"
proof -
  have sch: "pay_schema_ok s" using ok by (simp add: ledger_ok_def)
  from step sch show ?thesis
  proof (cases rule: pay_step_payments)
    case same
    with before show ?thesis by (simp add: collected_def)
  next
    case (settled res t i)
    with settled_collects_less(1) [OF ok settled(2), of tn k] before show ?thesis by linarith
  next
    case (sale req p)
    show ?thesis
    proof (cases "s' \<noteq> s \<and> rsr_tenant req = tn \<and> rsr_check req = Some k")
      case True
      with RegisterSale_collects [OF sale ok, of tn k bill] k bill before show ?thesis by simp
    next
      case False
      with sale_of_other_check [OF sale] before show ?thesis by metis
    qed
  qed
qed

lemma pay_run_collects:
  assumes "pay_run t s tr t' s'" and "ledger_ok s" and "k \<noteq> uuid_Nil" and "int64_range bill"
    and "\<And>svc c. (svc, c) \<in> set tr \<Longrightarrow> bills svc tn k bill" and "collected tn k s \<le> bill"
  shows "collected tn k s' \<le> bill"
  using assms
proof (induction rule: pay_run.induct)
  case (pay_run_step t s tr t' s' svc c s'')
  have "ledger_ok s'" using pay_run_ledger pay_run_step by blast
  moreover have "collected tn k s' \<le> bill"
    by (rule pay_run_step.IH) (use pay_run_step.prems in \<open>auto\<close>)
  ultimately show ?case using pay_run_step by (auto intro: pay_step_collects)
qed simp

section \<open>A bill that moves\<close>

text \<open>The total a sale is measured against may be any the check had, up to a bound: a total read
  before lines were cancelled is higher than the bill, one read before lines were added is
  lower. A sale that finds more collected than its total is refused.\<close>

definition bills_within :: "payment_service \<Rightarrow> uuid \<Rightarrow> uuid \<Rightarrow> int \<Rightarrow> bool" where
  "bills_within svc tn k most \<longleftrightarrow>
     (\<forall>g t. svc_checks svc = Some g \<longrightarrow> CheckTotal g tn k = Inr t \<longrightarrow> 0 \<le> t \<and> t \<le> most) \<and>
     (\<forall>reader b policy. svc_rounding svc = Some reader \<longrightarrow> reader tn b = Inr policy \<longrightarrow> rnd_step policy < 2 ^ 62)"

lemma guard_overdrawn:
  assumes "0 \<le> paid" "0 \<le> pending" "paid + pending \<le> most" "most < 2 ^ 62"
    and "0 \<le> bill" "bill < paid + pending"
    and "0 < amount" "int64_range amount" "0 \<le> rounding" "rounding < 2 ^ 62"
    and "wrap64 (amount + rounding) \<le> wrap64 (wrap64 (bill - paid) - pending)"
    and "rounding = 0 \<or> wrap64 (amount + rounding) = wrap64 (wrap64 (bill - paid) - pending)"
  shows False
proof -
  have "int64_range (bill - paid)" "int64_range (bill - paid - pending)"
    using assms(1-6) by (auto simp: int64_range_def)
  then have due: "wrap64 (wrap64 (bill - paid) - pending) = bill - paid - pending" by simp
  show ?thesis
  proof (cases "int64_range (amount + rounding)")
    case True
    with assms due show ?thesis by simp
  next
    case False
    with assms(7-10) have big: "2 ^ 63 \<le> amount + rounding" "amount + rounding < 2 ^ 63 + 2 ^ 62"
      by (auto simp: int64_range_def)
    have "(amount + rounding + 2 ^ 63) mod 2 ^ 64 = (amount + rounding - 2 ^ 63 + 2 ^ 64) mod 2 ^ 64"
      by (simp add: add.commute)
    also have "\<dots> = (amount + rounding - 2 ^ 63) mod 2 ^ 64" by (rule mod_add_self2)
    also have "\<dots> = amount + rounding - 2 ^ 63" using big by (intro mod_pos_pos_trivial) auto
    finally have "wrap64 (amount + rounding) = amount + rounding - 2 ^ 64" by (simp add: wrap64_def)
    moreover have "rounding \<noteq> 0" using False assms(8) by auto
    ultimately have "amount + rounding - 2 ^ 64 = bill - paid - pending" using assms(12) due by simp
    with assms(3-5) big show ?thesis by simp
  qed
qed

lemma RegisterSale_stays_within:
  assumes run: "PaymentService_RegisterSale id svc c req s = Inr (p, s')"
    and ok: "ledger_ok s" and new: "s' \<noteq> s"
    and tn: "rsr_tenant req = tn" and k: "rsr_check req = Some k" and some: "k \<noteq> uuid_Nil"
    and most: "bills_within svc tn k most" "most < 2 ^ 62" and before: "collected tn k s \<le> most"
  shows "collected tn k s' \<le> most"
proof -
  let ?tx = "pay_tx c tn" and ?r = "sale_request req"
  have has: "hasCheck req" using k some by (simp add: hasCheck_def)
  from RegisterSale_Inr [OF run] new tn has obtain policy :: rounding_policy and owed where
      amounts: "0 < rsr_amount req" "0 \<le> rsr_rounding req"
    and verdict: "roundingVerdictFor svc ?r = Inr (None, policy)"
    and owed: "checkTotalFor svc ?r None = Inr owed"
    and guard: "guardAgainstOverpayment ?tx ?r owed policy s = Inr (None, s)"
    and create: "createPayment id svc ?r ?tx s = Inr (p, s')" by blast
  have bills: "bills svc tn k owed" and owed_le: "0 \<le> owed" "owed \<le> most"
    using owed most(1) has tn k
    by (auto simp: checkTotalFor_def bills_def bills_within_def split: option.splits sum.splits)
  have range: "int64_range owed" using owed_le most(2) by (auto simp: int64_range_def)
  show ?thesis
  proof (cases "collected tn k s \<le> owed")
    case True
    from RegisterSale_collects [OF run ok new tn k some bills range True] owed_le show ?thesis by simp
  next
    case False
    let ?paid = "total_by_status PaymentCompleted tn k s"
    let ?pending = "total_by_status PaymentPending tn k s"
    have split: "collected tn k s = ?paid + ?pending" by (rule collected_split)
    have "ledger_ok s'" using run ok by (rule RegisterSale_ledger)
    then have "payment_row_ok p" by (rule ledger_ok_tables(4)) (simp add: createPayment_Inr [OF create])
    then have amount: "int64_range (rsr_amount req)"
      using createPayment_Inr [OF create] by (simp add: payment_row_ok_def)
    have step: "rsr_rounding req < 2 ^ 62"
      using verdict most(1) tn amounts(2)
      by (force simp: roundingVerdictFor_def bills_within_def split: if_splits option.splits sum.splits)
    from guardAgainstOverpayment_None [OF guard] tn k have
        "wrap64 (rsr_amount req + rsr_rounding req) \<le> wrap64 (wrap64 (owed - ?paid) - ?pending)"
      and "rsr_rounding req = 0 \<or>
        wrap64 (rsr_amount req + rsr_rounding req) = wrap64 (wrap64 (owed - ?paid) - ?pending)" by auto
    from guard_overdrawn [OF total_by_status_nonneg [OF ok] total_by_status_nonneg [OF ok] _ most(2) owed_le(1) _
        amounts(1) amount amounts(2) step this] False before split show ?thesis by simp
  qed
qed

lemma pay_step_within:
  assumes step: "pay_step svc c s s'" and ok: "ledger_ok s" and k: "k \<noteq> uuid_Nil"
    and most: "bills_within svc tn k most" "most < 2 ^ 62" and before: "collected tn k s \<le> most"
  shows "collected tn k s' \<le> most"
proof -
  have sch: "pay_schema_ok s" using ok by (simp add: ledger_ok_def)
  from step sch show ?thesis
  proof (cases rule: pay_step_payments)
    case same
    with before show ?thesis by (simp add: collected_def)
  next
    case (settled res t i)
    with settled_collects_less(1) [OF ok settled(2), of tn k] before show ?thesis by linarith
  next
    case (sale req p)
    show ?thesis
    proof (cases "s' \<noteq> s \<and> rsr_tenant req = tn \<and> rsr_check req = Some k")
      case True
      with RegisterSale_stays_within [OF sale ok, of tn k most] k most before show ?thesis by simp
    next
      case False
      with sale_of_other_check [OF sale] before show ?thesis by metis
    qed
  qed
qed

end
