(* ===== verification/Pay_Demo.thy ===== *)
theory Pay_Demo
  imports Pay_Drawers Pay_Collections Pos_Demo
begin

text \<open>
  One evening at the drawer of branch 10, on which the theorems are applied: the drawer
  opens with 500 in it, a check that owes 1700 is paid 600 in cash and 1100 by card, and
  the worker registers the cash payment with the mock device.
\<close>

definition demo_id_text :: "uuid \<Rightarrow> string" where
  "demo_id_text i = ''id''"

definition demo_guard :: "int \<Rightarrow> check_write_guard" where
  "demo_guard bill = \<lparr>AssertCheckWritable = (\<lambda>_ _ _. Inr ()), CheckTotal = (\<lambda>_ _. Inr bill)\<rparr>"

definition demo_rounding :: rounding_policy where
  "demo_rounding = \<lparr>rnd_cash = True, rnd_card = False, rnd_step = 100, rnd_max_per_check = 200\<rparr>"

definition demo_svc :: "int \<Rightarrow> payment_service" where
  "demo_svc bill = \<lparr>svc_checks = Some (demo_guard bill), svc_rounding = Some (\<lambda>_ _. Inr demo_rounding),
     svc_fiscal = MockFiscalAdapter demo_id_text 0\<rparr>"

definition demo_request :: "string \<Rightarrow> payment_method \<Rightarrow> int \<Rightarrow> register_sale_request" where
  "demo_request key m amount = \<lparr>rsr_tenant = 1, rsr_branch = 10, rsr_check = Some 100, rsr_key = key,
     rsr_method = m, rsr_amount = amount, rsr_rounding = 0, rsr_currency = '''', rsr_lines = [],
     rsr_meta = \<lparr>fme_table_label = '''', fme_waiter = '''', fme_check_number = 0\<rparr>, rsr_terminal = ''''\<rparr>"

definition demo_at :: "time \<Rightarrow> ctx" where
  "demo_at t = \<lparr>ctx_scope = None, ctx_now = t\<rparr>"

definition demo_pay :: pay_db where
  "demo_pay = \<lparr>pd_payments = [], pd_receipts = [], pd_subs = [], pd_sessions = [], pd_moves = [],
     pd_parts = [], pd_outbox = [], pd_rand = (\<lambda>n. 1000 + n), pd_ctr = 0\<rparr>"

definition demo_session :: cash_session where
  "demo_session = \<lparr>ses_id = 1000, ses_tenant = 1, ses_branch = 10, ses_status = SessionOpened,
     ses_opening = 500, ses_opening_notes = '''', ses_opened_by = 5, ses_opened_at = 1,
     ses_closing = None, ses_denominations = [], ses_closing_notes = '''',
     ses_submitted_at = None, ses_closed_by = None, ses_closed_at = None, ses_created = 1,
     ses_updated = 1\<rparr>"

definition demo_opened :: pay_db where
  "demo_opened = demo_pay\<lparr>pd_sessions := [demo_session], pd_ctr := 1\<rparr>"

definition demo_payment :: "uuid \<Rightarrow> string \<Rightarrow> payment_method \<Rightarrow> int \<Rightarrow> time \<Rightarrow> payment" where
  "demo_payment i key m amount t = \<lparr>pmt_id = i, pmt_tenant = 1, pmt_branch = 10,
     pmt_check = Some 100, pmt_key = key, pmt_method = m, pmt_status = PaymentPending,
     pmt_amount = amount, pmt_rounding = 0, pmt_currency = ''TRY'', pmt_receipt = None,
     pmt_created = t, pmt_completed = None\<rparr>"

definition demo_sale :: "uuid \<Rightarrow> uuid \<Rightarrow> payment_method \<Rightarrow> int \<Rightarrow> fiscal_sale" where
  "demo_sale i pid m amount = \<lparr>fsl_submission = i, fsl_tenant = 1, fsl_branch = 10,
     fsl_payment = pid, fsl_check = Some 100, fsl_currency = ''TRY'', fsl_total = amount,
     fsl_lines = [\<lparr>fln_name = ''Satis'', fln_unit_price = amount, fln_qty_milli = 1000,
       fln_tax = 0, fln_category = 0, fln_unit = ''C62''\<rparr>],
     fsl_payments = [\<lparr>fpm_method = m, fpm_amount = amount\<rparr>], fsl_discount = None,
     fsl_customer = None,
     fsl_meta = \<lparr>fme_table_label = '''', fme_waiter = '''', fme_check_number = 0\<rparr>\<rparr>"

definition demo_registration ::
  "uuid \<Rightarrow> uuid \<Rightarrow> payment_method \<Rightarrow> int \<Rightarrow> time \<Rightarrow> submission_row" where
  "demo_registration i pid m amount t = \<lparr>sub_id = i, sub_tenant = 1, sub_branch = 10,
     sub_payment = pid, sub_adapter = ''mock'', sub_terminal = None, sub_status = FiscalPending,
     sub_payload = SaleJson (demo_sale i pid m amount), sub_result = None, sub_retry = 0,
     sub_next_retry = None, sub_error = None, sub_claimed = None, sub_created = t,
     sub_submitted = None, sub_completed = None\<rparr>"

definition demo_sold :: pay_db where
  "demo_sold = demo_opened\<lparr>pd_payments := [demo_payment 1001 ''a'' MethodCash 600 2],
     pd_subs := [demo_registration 1002 1001 MethodCash 600 2], pd_ctr := 3\<rparr>"

definition demo_waiting :: pay_db where
  "demo_waiting = demo_opened\<lparr>
     pd_payments := [demo_payment 1001 ''a'' MethodCash 600 2, demo_payment 1003 ''b'' MethodTerminal 1100 3],
     pd_subs := [demo_registration 1002 1001 MethodCash 600 2,
                 demo_registration 1004 1003 MethodTerminal 1100 3], pd_ctr := 5\<rparr>"

text \<open>The state a call leaves behind.\<close>

definition demo_open_call :: "(pay_db, pay_err, session_view) tx" where
  "demo_open_call = CashSessionService_Open (demo_at 1) demo_principal
     \<lparr>osr_branch = 10, osr_counted = 500, osr_notes = ''''\<rparr>"

definition demo_cash_call :: "(pay_db, pay_err, payment) tx" where
  "demo_cash_call = PaymentService_RegisterSale id (demo_svc 1700) (demo_at 2)
     (demo_request ''a'' MethodCash 600)"

definition demo_card_call :: "(pay_db, pay_err, payment) tx" where
  "demo_card_call = PaymentService_RegisterSale id (demo_svc 1700) (demo_at 3)
     (demo_request ''b'' MethodTerminal 1100)"

definition demo_worker :: worker_config where
  "demo_worker = WorkerConfig_withDefaults
     \<lparr>wcf_batch = 0, wcf_max_retries = 0, wcf_stale_claim = 0, wcf_interval = 0,
      wcf_submit_timeout = 0, wcf_concurrency = 0\<rparr>"

definition demo_process_call :: "(pay_db, pay_err, unit) tx" where
  "demo_process_call = process_submission (\<lambda>_. ''error'') (svc_fiscal (demo_svc 1700)) demo_worker
     (demo_at 4) (scan_submission (demo_registration 1002 1001 MethodCash 600 2))"

definition demo_settled :: pay_db where
  "demo_settled = after demo_process_call demo_waiting"

lemma demo_pay_schema: "pay_schema_ok demo_pay"
  by code_simp

lemma demo_pay_ledger: "ledger_ok demo_pay"
  by code_simp

lemma demo_pay_drawers: "drawers_ok 0 demo_pay"
  by code_simp

lemma demo_now [simp]: "ctx_now (demo_at t) = t"
  by (simp add: demo_at_def)

section \<open>The calls\<close>

lemma demo_session_open_ok: "tx_ok demo_open_call demo_pay"
  by code_simp

lemma demo_cash_ok: "tx_ok demo_cash_call demo_opened"
  by code_simp

lemma demo_card_ok: "tx_ok demo_card_call demo_sold"
  by code_simp

lemma demo_process_ok: "tx_ok demo_process_call demo_waiting"
  by code_simp

lemma demo_open: "\<exists>v. demo_open_call demo_pay = Inr (v, demo_opened)"
proof (rule tx_okE [OF demo_session_open_ok])
  fix v s' assume run: "demo_open_call demo_pay = Inr (v, s')"
  have "s' = demo_opened"
    using Open_effect [OF run [unfolded demo_open_call_def]]
    by (simp add: demo_opened_def demo_pay_def opened_session_def zero_session_def demo_session_def
        demo_principal_def Let_def)
  with run show ?thesis by blast
qed

text \<open>A sale that was made, in a state that did not hold its key.\<close>

lemma demo_sale_made:
  assumes "PaymentService_RegisterSale id svc c req s = Inr (p, s')"
    and "sale_by_key (rsr_tenant req) (rsr_key req) s = None"
  shows "p = created_payment (ctx_now c) (pd_rand s (pd_ctr s)) (sale_request req) \<and>
    s' = s\<lparr>pd_payments := pd_payments s @ [p],
            pd_subs := pd_subs s @ [created_submission svc (ctx_now c)
              (pd_rand s (Suc (pd_ctr s))) p (sale_request req)],
            pd_ctr := Suc (Suc (pd_ctr s))\<rparr>"
  using RegisterSale_Inr [OF assms(1)] assms(2) by (auto dest!: createPayment_Inr)

lemmas demo_pay_defs = demo_opened_def demo_sold_def demo_waiting_def demo_pay_def
  demo_session_def demo_payment_def demo_registration_def demo_sale_def

lemmas demo_sale_defs = created_payment_def created_submission_def requested_payment_def
  zero_payment_def sale_request_def demo_request_def buildFiscalSale_def adapterTypeOf_def
  demo_svc_def MockFiscalAdapter_def nullableText_def uuid_Nil_def int64_range_def

lemma demo_cash: "\<exists>p. demo_cash_call demo_opened = Inr (p, demo_sold)"
proof (rule tx_okE [OF demo_cash_ok])
  fix p s' assume run: "demo_cash_call demo_opened = Inr (p, s')"
  have "sale_by_key 1 ''a'' demo_opened = None" by code_simp
  with demo_sale_made [OF run [unfolded demo_cash_call_def]]
  have "s' = demo_sold" by (simp add: demo_pay_defs demo_sale_defs)
  with run show ?thesis by blast
qed

lemma demo_card: "\<exists>p. demo_card_call demo_sold = Inr (p, demo_waiting)"
proof (rule tx_okE [OF demo_card_ok])
  fix p s' assume run: "demo_card_call demo_sold = Inr (p, s')"
  have "sale_by_key 1 ''b'' demo_sold = None" by code_simp
  with demo_sale_made [OF run [unfolded demo_card_call_def]]
  have "s' = demo_waiting" by (simp add: demo_pay_defs demo_sale_defs)
  with run show ?thesis by blast
qed

section \<open>The runs\<close>

abbreviation demo_trace :: "time list \<Rightarrow> (payment_service \<times> ctx) list" where
  "demo_trace ts \<equiv> map (\<lambda>t. (demo_svc 1700, demo_at t)) ts"

lemma demo_opened_run: "pay_run 0 demo_pay (demo_trace [1]) 1 demo_opened"
proof -
  from demo_open obtain v where "demo_open_call demo_pay = Inr (v, demo_opened)" ..
  from pay_run_step [OF pay_run_nil pay_step.step_open [OF this [unfolded demo_open_call_def]], of 0]
  show ?thesis by simp
qed

lemma demo_sold_run: "pay_run 0 demo_pay (demo_trace [1, 2]) 2 demo_sold"
proof -
  from demo_cash obtain p where "demo_cash_call demo_opened = Inr (p, demo_sold)" ..
  from pay_run_step [OF demo_opened_run pay_step.step_sale [OF this [unfolded demo_cash_call_def]]]
  show ?thesis by simp
qed

lemma demo_card_step: "pay_step (demo_svc 1700) (demo_at 3) demo_sold demo_waiting"
  using demo_card unfolding demo_card_call_def by (blast intro: pay_step.step_sale)

lemma demo_process_step: "pay_step (demo_svc 1700) (demo_at 4) demo_waiting demo_settled"
proof -
  from tx_ok_after [OF demo_process_ok] obtain u where
    run: "demo_process_call demo_waiting = Inr (u, demo_settled)" by (auto simp: demo_settled_def)
  have "submission_of demo_waiting (scan_submission (demo_registration 1002 1001 MethodCash 600 2))"
    by (rule scan_submission_of) (simp add: demo_waiting_def)
  from pay_step.step_process [OF this run [unfolded demo_process_call_def]] show ?thesis .
qed

lemma demo_waiting_run: "pay_run 0 demo_pay (demo_trace [1, 2, 3]) 3 demo_waiting"
  using pay_run_step [OF demo_sold_run demo_card_step] by simp

lemma demo_settled_run: "pay_run 0 demo_pay (demo_trace [1, 2, 3, 4]) 4 demo_settled"
  using pay_run_step [OF demo_waiting_run demo_process_step] by simp

text \<open>The end of the evening alone.\<close>

lemma demo_later_run: "pay_run 2 demo_sold (demo_trace [3, 4]) 4 demo_settled"
proof -
  have "pay_run 2 demo_sold (demo_trace [3]) 3 demo_waiting"
    using pay_run_step [OF pay_run_nil demo_card_step, of 2] by simp
  from pay_run_step [OF this demo_process_step] show ?thesis by simp
qed

end
