(* ===== verification/Pay_Ledger_Props.thy ===== *)
theory Pay_Ledger_Props
  imports Pay_Demo
begin

text \<open>
  Properties of the payment ledger over every run of the payment module, each with its
  witness: payments, registrations and receipts in step, no check overcharged, every
  drawer accounted for.
\<close>

lemma receipts_counted:
  assumes m: "receipts_match ps rs" and ids: "distinct (map pmt_id ps)" and p: "p \<in> set ps"
  shows "pmt_status p = PaymentCompleted \<Longrightarrow> length (filter (\<lambda>r. rrw_payment r = pmt_id p) rs) = 1"
    and "pmt_status p \<in> {PaymentPending, PaymentFailed} \<Longrightarrow>
      filter (\<lambda>r. rrw_payment r = pmt_id p) rs = []"
proof -
  have "distinct (map rrw_payment rs)" using m by (simp add: receipts_match_def)
  then have one: "length (filter (\<lambda>r. rrw_payment r = i) rs) \<le> 1" for i
  proof (induction rs)
    case (Cons r rs)
    then have "rrw_payment r = i \<Longrightarrow> filter (\<lambda>r. rrw_payment r = i) rs = []"
      by (simp add: filter_empty_conv image_iff) metis
    with Cons show ?case by auto
  qed simp
  show "length (filter (\<lambda>r. rrw_payment r = pmt_id p) rs) = 1" if "pmt_status p = PaymentCompleted"
  proof -
    have "filter (\<lambda>r. rrw_payment r = pmt_id p) rs \<noteq> []"
      using m p that unfolding receipts_match_def filter_empty_conv by metis
    with one [of "pmt_id p"] show ?thesis
      by (cases "filter (\<lambda>r. rrw_payment r = pmt_id p) rs") auto
  qed
  show "filter (\<lambda>r. rrw_payment r = pmt_id p) rs = []" if "pmt_status p \<in> {PaymentPending, PaymentFailed}"
    unfolding filter_empty_conv
  proof
    fix r assume r: "r \<in> set rs"
    with m obtain q where q: "q \<in> set ps" "pmt_id q = rrw_payment r"
      "pmt_status q \<in> {PaymentCompleted, PaymentVoided}" by (auto simp: receipts_match_def)
    with that have "q \<noteq> p" by auto
    with q(1,2) p ids show "rrw_payment r \<noteq> pmt_id p" by (metis distinct_key_unique)
  qed
qed

text \<open>C4: payments, registrations and receipts move together, whatever sales, device
  answers, webhooks, voids, expiries and worker cycles a run consists of. Every payment
  has exactly one registration, in its tenant and branch, whose status determines the
  payment's; a completed payment has exactly one fiscal receipt, one that is pending or
  failed has none.\<close>

theorem ledger_in_step:
  assumes "pay_run t s tr t' s'" and "ledger_ok s" and p: "p \<in> set (pd_payments s')"
  shows "(\<exists>r \<in> set (pd_subs s').
      sub_payment r = pmt_id p \<and> sub_tenant r = pmt_tenant p \<and> sub_branch r = pmt_branch p \<and>
      pmt_status p = payment_outcome (sub_status r) \<and>
      (\<forall>r' \<in> set (pd_subs s'). sub_payment r' = pmt_id p \<longrightarrow> r' = r)) \<and>
    (pmt_status p = PaymentCompleted \<longrightarrow>
      length (filter (\<lambda>x. rrw_payment x = pmt_id p) (pd_receipts s')) = 1) \<and>
    (pmt_status p \<in> {PaymentPending, PaymentFailed} \<longrightarrow>
      filter (\<lambda>x. rrw_payment x = pmt_id p) (pd_receipts s') = [])"
proof -
  have ok: "ledger_ok s'" using assms by (blast intro: pay_run_ledger)
  then have al: "list_all2 ledger_row (pd_subs s') (pd_payments s')"
    and m: "receipts_match (pd_payments s') (pd_receipts s')" by (simp_all add: ledger_ok_def)
  note ids = ledger_ok_tables(1) [OF ok]
  obtain r where r: "r \<in> set (pd_subs s')" "ledger_row r p" using ledger_partner' [OF al p] by blast
  have "distinct (map sub_payment (pd_subs s'))" using ids ledger_ids [OF al] by simp
  moreover have "sub_payment r = pmt_id p" using r(2) by (simp add: ledger_row_def)
  ultimately have "r' = r" if "r' \<in> set (pd_subs s')" "sub_payment r' = pmt_id p" for r'
    using that r(1) by (metis distinct_key_unique)
  then have "\<exists>r \<in> set (pd_subs s').
      sub_payment r = pmt_id p \<and> sub_tenant r = pmt_tenant p \<and> sub_branch r = pmt_branch p \<and>
      pmt_status p = payment_outcome (sub_status r) \<and>
      (\<forall>r' \<in> set (pd_subs s'). sub_payment r' = pmt_id p \<longrightarrow> r' = r)"
    using r unfolding ledger_row_def by blast
  with receipts_counted [OF m ids p] show ?thesis by blast
qed

theorem ledger_in_step_witness:
  "\<exists>p \<in> set (pd_payments demo_settled). pmt_status p = PaymentCompleted \<and>
     length (filter (\<lambda>x. rrw_payment x = pmt_id p) (pd_receipts demo_settled)) = 1"
proof -
  let ?p = "hd (pd_payments demo_settled)"
  have "pd_payments demo_settled \<noteq> [] \<and> pmt_status ?p = PaymentCompleted" by code_simp
  then have p: "?p \<in> set (pd_payments demo_settled)" "pmt_status ?p = PaymentCompleted" by auto
  from ledger_in_step [OF demo_settled_run demo_pay_ledger p(1)] p show ?thesis by blast
qed

text \<open>C3: a check is never overcharged. As long as its bill, as the sales read it, stays
  the same, what has been collected on it, payments still at the device included, never
  exceeds the bill, in any interleaving of sales at several stations, retries and device
  answers; no amount, however large, wraps the 64-bit arithmetic of the guard into
  accepting more.\<close>

theorem never_overcharged:
  assumes "pay_run t s tr t' s'" and "ledger_ok s" and "k \<noteq> uuid_Nil" and "int64_range bill"
    and "\<And>svc c. (svc, c) \<in> set tr \<Longrightarrow> bills svc tn k bill" and "collected tn k s \<le> bill"
  shows "collected tn k s' \<le> bill"
  using assms by (rule pay_run_collects)

theorem never_overcharged_witness:
  "collected 1 100 demo_waiting \<le> 1700 \<and> collected 1 100 demo_waiting = 1700"
proof
  have "bills svc 1 100 1700" if "(svc, c) \<in> set (demo_trace [1, 2, 3])" for svc c
    using that by (auto simp: bills_def demo_svc_def demo_guard_def)
  moreover have "int64_range 1700" "collected 1 100 demo_pay \<le> 1700" "(100 :: uuid) \<noteq> uuid_Nil" by code_simp+
  ultimately show "collected 1 100 demo_waiting \<le> 1700"
    by (intro never_overcharged [OF demo_waiting_run demo_pay_ledger]) blast+
  show "collected 1 100 demo_waiting = 1700" by code_simp
qed

text \<open>C22: the drawers of a branch account for its cash. With the clock moving forward
  from call to call, the windows of a branch's sessions never overlap and a cash payment
  is only taken inside one, so the cash that the sessions report, summed over all of
  them, is exactly the cash of the branch's completed payments: none is counted twice,
  none falls between two shifts.\<close>

theorem drawers_account_for_cash:
  assumes "pay_run t s tr t' s'" and "pay_schema_ok s" and "drawers_ok t s"
  shows "(\<Sum>r \<leftarrow> filter (\<lambda>r. ses_tenant r = tn \<and> ses_branch r = b) (pd_sessions s').
            drawer_cash r s') =
         (\<Sum>p \<leftarrow> filter (\<lambda>p. pmt_tenant p = tn \<and> pmt_branch p = b \<and> pmt_method p = MethodCash \<and>
            pmt_status p = PaymentCompleted) (pd_payments s'). pmt_amount p)"
  using drawers_account [OF pay_run_drawers [OF assms]] by (simp add: branch_cash_def)

theorem drawers_account_for_cash_witness:
  "(\<Sum>r \<leftarrow> filter (\<lambda>r. ses_tenant r = 1 \<and> ses_branch r = 10) (pd_sessions demo_settled).
      drawer_cash r demo_settled) = 600"
proof -
  have "(\<Sum>p \<leftarrow> filter (\<lambda>p. pmt_tenant p = 1 \<and> pmt_branch p = 10 \<and> pmt_method p = MethodCash \<and>
      pmt_status p = PaymentCompleted) (pd_payments demo_settled). pmt_amount p) = 600" by code_simp
  with drawers_account_for_cash [OF demo_settled_run demo_pay_schema demo_pay_drawers, of 1 10]
  show ?thesis by simp
qed

end
