(* ===== verification/Pay_Pin.thy ===== *)
theory Pay_Pin
  imports Pay_Session_Service
begin

text \<open>
  payment/service/cash_session_pin.go: joining a cash session, switching to another
  cashier by PIN, and the counter of failed attempts. The PINs belong to the identity
  module (\<open>identitypub.CashierPinService\<close>), the memberships and the tokens to identity and
  the platform: a record of functions. The counters are keys of Redis: \<open>GET\<close>, \<open>INCR\<close>, \<open>EXPIRE\<close>
  and \<open>DEL\<close>, each of which may fail. Times are in seconds.
\<close>

section \<open>The counters in Redis\<close>

text \<open>A counter, by session and person, with the time it expires, if it does. \<open>INCR\<close> keeps that
  time, and starts an absent or expired counter without one.\<close>

type_synonym pin_redis = "uuid \<times> uuid \<Rightarrow> (nat \<times> time option) option"

definition pin_alive :: "time \<Rightarrow> time option \<Rightarrow> bool" where
  "pin_alive now expires = (case expires of None \<Rightarrow> True | Some t \<Rightarrow> now < t)"

text \<open>\<open>GET\<close>, zero for a key that is not there.\<close>

definition pin_count :: "time \<Rightarrow> pin_redis \<Rightarrow> uuid \<times> uuid \<Rightarrow> nat" where
  "pin_count now r k = (case r k of None \<Rightarrow> 0 | Some (n, expires) \<Rightarrow> if pin_alive now expires then n else 0)"

definition redis_incr :: "time \<Rightarrow> uuid \<times> uuid \<Rightarrow> pin_redis \<Rightarrow> nat \<times> pin_redis" where
  "redis_incr now k r =
     (case r k of
        None \<Rightarrow> (1, r(k \<mapsto> (1, None)))
      | Some (n, expires) \<Rightarrow>
          if pin_alive now expires then (n + 1, r(k \<mapsto> (n + 1, expires))) else (1, r(k \<mapsto> (1, None))))"

definition redis_expire :: "time \<Rightarrow> time \<Rightarrow> uuid \<times> uuid \<Rightarrow> pin_redis \<Rightarrow> pin_redis" where
  "redis_expire now ttl k r =
     (case r k of
        None \<Rightarrow> r
      | Some (n, expires) \<Rightarrow> if pin_alive now expires then r(k \<mapsto> (n, Some (now + ttl))) else r)"

text \<open>What the Redis commands of one call meet: the clock and which of them get an answer.\<close>

record pin_env =
  pnv_get_at :: time
  pnv_incr_at :: time
  pnv_expire_at :: time
  pnv_get_ok :: bool
  pnv_incr_ok :: bool
  pnv_expire_ok :: bool
  pnv_del_ok :: bool

definition pinMaxAttempts :: nat where
  "pinMaxAttempts = 5"

definition pinLockoutTTL :: time where
  "pinLockoutTTL = 24 * 60 * 60"

text \<open>Only \<open>INCR\<close> writes the keys, so their values are numbers.\<close>

definition isLocked :: "pin_env \<Rightarrow> pin_redis \<Rightarrow> uuid \<Rightarrow> uuid \<Rightarrow> pay_err + bool" where
  "isLocked e r sessionID personID =
     (if \<not> pnv_get_ok e then Inl (PayOther ''read pin attempt counter'')
      else Inr (pinMaxAttempts \<le> pin_count (pnv_get_at e) r (sessionID, personID)))"

definition record_incr :: "pin_env \<Rightarrow> uuid \<Rightarrow> uuid \<Rightarrow> pin_redis \<Rightarrow> pay_err + nat \<times> pin_redis" where
  "record_incr e sessionID personID r =
     (if \<not> pnv_incr_ok e then Inl (PayOther ''increment pin attempt counter'')
      else Inr (redis_incr (pnv_incr_at e) (sessionID, personID) r))"

definition record_expire :: "pin_env \<Rightarrow> uuid \<Rightarrow> uuid \<Rightarrow> nat \<Rightarrow> pin_redis \<Rightarrow> pin_redis" where
  "record_expire e sessionID personID n r =
     (if n = 1 \<and> pnv_expire_ok e then redis_expire (pnv_expire_at e) pinLockoutTTL (sessionID, personID) r else r)"

text \<open>Whether this attempt is the one that locks, which is only logged; an error is only logged
  as well, and the attempt is then not counted.\<close>

definition recordFailure :: "pin_env \<Rightarrow> uuid \<Rightarrow> uuid \<Rightarrow> pin_redis \<Rightarrow> (pay_err + bool) \<times> pin_redis" where
  "recordFailure e sessionID personID r =
     (case record_incr e sessionID personID r of
        Inl err \<Rightarrow> (Inl err, r)
      | Inr (n, r') \<Rightarrow> (Inr (n = pinMaxAttempts), record_expire e sessionID personID n r'))"

definition clear_fails :: "pin_env \<Rightarrow> uuid \<Rightarrow> uuid \<Rightarrow> pin_redis \<Rightarrow> pin_redis" where
  "clear_fails e sessionID personID r = (if pnv_del_ok e then r((sessionID, personID) := None) else r)"

section \<open>The other modules\<close>

datatype pin_verdict = PinMatches | PinVerificationFailed | PinUnavailable

datatype pin_set = PinSet | PinFormatInvalid | PinNotSet

text \<open>None is an error.\<close>

record cashier_pins =
  VerifyPin :: "uuid \<Rightarrow> uuid \<Rightarrow> string \<Rightarrow> pin_verdict"
  SetOwnPin :: "uuid \<Rightarrow> uuid \<Rightarrow> string \<Rightarrow> pin_set"
  DeletePin :: "uuid \<Rightarrow> uuid \<Rightarrow> bool"
  HasPin :: "uuid \<Rightarrow> uuid \<Rightarrow> bool option"
  PersonFullName :: "uuid \<Rightarrow> string option"
  ActiveRoleIDsAt :: "uuid \<Rightarrow> uuid \<Rightarrow> uuid \<Rightarrow> uuid list option"
  IssueStaffForSession :: "uuid \<Rightarrow> uuid \<Rightarrow> uuid \<Rightarrow> uuid \<Rightarrow> uuid list \<Rightarrow> string option"

text \<open>The database and the counters. Every operation commits its parts one by one, so it
  returns the state with its outcome.\<close>

record pin_state =
  pin_db :: pay_db
  pin_fails :: pin_redis

section \<open>The operations\<close>

definition pin_getSession :: "ctx \<Rightarrow> uuid \<Rightarrow> uuid \<Rightarrow> (pay_db, pay_err, cash_session) tx" where
  "pin_getSession c tenantID sessionID =
     tx_map_err not_found_pub (PayTenantReadTx c tenantID (\<lambda>tx.
       CashSessionRepo_GetByID tx tenantID sessionID))"

text \<open>The session a pin operation acts on, for a principal of its branch.\<close>

definition pin_session ::
  "ctx \<Rightarrow> principal \<Rightarrow> uuid \<Rightarrow> pay_db \<Rightarrow> pay_err + cash_session" where
  "pin_session c p sessionID db =
     (case pin_getSession c (prn_tenant p) sessionID db of
        Inl e \<Rightarrow> Inl e
      | Inr (r, _) \<Rightarrow> (case pay_requireBranch c p (ses_branch r) of Inl e \<Rightarrow> Inl e | Inr _ \<Rightarrow> Inr r))"

definition PinService_Join ::
  "cashier_pins \<Rightarrow> pin_env \<Rightarrow> ctx \<Rightarrow> principal \<Rightarrow> uuid \<Rightarrow> string \<Rightarrow> pin_state \<Rightarrow> (pay_err + unit) \<times> pin_state" where
  "PinService_Join pins e c p sessionID pin s =
     (if \<not> IsStaff p then (Inl PayBranchForbidden, s)
      else if prn_session p \<noteq> uuid_Nil then (Inl PaySessionScopedPrincipal, s)
      else case pin_session c p sessionID (pin_db s) of
        Inl err \<Rightarrow> (Inl err, s)
      | Inr r \<Rightarrow>
         if ses_status r = SessionClosed then (Inl PaySessionClosed, s)
         else case PayTenantTx c (prn_tenant p) (\<lambda>tx. CashSessionRepo_UpsertParticipant tx
                 \<lparr>prt_tenant = prn_tenant p, prt_session = sessionID, prt_branch = ses_branch r,
                  prt_person = prn_person p, prt_joined = 0\<rparr>) (pin_db s) of
           Inl err \<Rightarrow> (Inl err, s)
         | Inr (_, db') \<Rightarrow>
             let s' = \<lparr>pin_db = db', pin_fails = clear_fails e sessionID (prn_person p) (pin_fails s)\<rparr>
             in if pin = '''' then (Inr (), s')
                else case SetOwnPin pins (prn_tenant p) (prn_person p) pin of
                  PinSet \<Rightarrow> (Inr (), s')
                | PinFormatInvalid \<Rightarrow> (Inl PayInvalidInput, s')
                | PinNotSet \<Rightarrow> (Inl (PayOther ''set pin''), s'))"

text \<open>A switch, in its parts: what is asked of the caller and of the session, \<open>isLocked\<close>, whether
  the target takes part and has given the right PIN, and what follows.\<close>

definition switch_enter :: "ctx \<Rightarrow> principal \<Rightarrow> uuid \<Rightarrow> pay_db \<Rightarrow> pay_err + cash_session" where
  "switch_enter c p sessionID db =
     (if \<not> IsStaff p then Inl PayBranchForbidden
      else case pin_session c p sessionID db of
        Inl err \<Rightarrow> Inl err
      | Inr r \<Rightarrow> if ses_status r = SessionClosed then Inl PaySessionClosed else Inr r)"

text \<open>The PIN is verified whether the target takes part or not.\<close>

definition switch_verify ::
  "cashier_pins \<Rightarrow> ctx \<Rightarrow> principal \<Rightarrow> uuid \<Rightarrow> uuid \<Rightarrow> string \<Rightarrow> pay_db \<Rightarrow> pay_err + bool" where
  "switch_verify pins c p sessionID target pin db =
     (case PayTenantReadTx c (prn_tenant p) (\<lambda>tx.
             CashSessionRepo_IsParticipant tx (prn_tenant p) sessionID target) db of
        Inl err \<Rightarrow> Inl err
      | Inr (participantOK, _) \<Rightarrow>
          (case VerifyPin pins (prn_tenant p) target pin of
             PinUnavailable \<Rightarrow> Inl (PayOther ''verify pin'')
           | PinMatches \<Rightarrow> Inr participantOK
           | PinVerificationFailed \<Rightarrow> Inr False))"

definition switch_issue ::
  "cashier_pins \<Rightarrow> principal \<Rightarrow> uuid \<Rightarrow> uuid \<Rightarrow> cash_session \<Rightarrow> pay_err + string" where
  "switch_issue pins p sessionID target r =
     (case ActiveRoleIDsAt pins (prn_tenant p) target (ses_branch r) of
        None \<Rightarrow> Inl (PayOther ''resolve roles'')
      | Some roles \<Rightarrow>
          (case IssueStaffForSession pins target (prn_tenant p) (ses_branch r) sessionID roles of
             None \<Rightarrow> Inl (PayOther ''issue token'')
           | Some token \<Rightarrow> Inr token))"

definition PinService_Switch ::
  "cashier_pins \<Rightarrow> pin_env \<Rightarrow> ctx \<Rightarrow> principal \<Rightarrow> uuid \<Rightarrow> uuid \<Rightarrow> string \<Rightarrow> pin_state \<Rightarrow>
   (pay_err + string) \<times> pin_state" where
  "PinService_Switch pins e c p sessionID target pin s =
     (case switch_enter c p sessionID (pin_db s) of
        Inl err \<Rightarrow> (Inl err, s)
      | Inr r \<Rightarrow>
         (case isLocked e (pin_fails s) sessionID target of
            Inl err \<Rightarrow> (Inl err, s)
          | Inr True \<Rightarrow> (Inl PayPinVerificationFailed, s)
          | Inr False \<Rightarrow>
              (case switch_verify pins c p sessionID target pin (pin_db s) of
                 Inl err \<Rightarrow> (Inl err, s)
               | Inr False \<Rightarrow>
                   (Inl PayPinVerificationFailed,
                    s\<lparr>pin_fails := snd (recordFailure e sessionID target (pin_fails s))\<rparr>)
               | Inr True \<Rightarrow>
                   (switch_issue pins p sessionID target r,
                    s\<lparr>pin_fails := clear_fails e sessionID target (pin_fails s)\<rparr>))))"

definition PinService_ResetPin ::
  "cashier_pins \<Rightarrow> pin_env \<Rightarrow> ctx \<Rightarrow> principal \<Rightarrow> uuid \<Rightarrow> uuid \<Rightarrow> pin_state \<Rightarrow> (pay_err + unit) \<times> pin_state" where
  "PinService_ResetPin pins e c p sessionID target s =
     (if \<not> IsStaff p then (Inl PayBranchForbidden, s)
      else case pin_session c p sessionID (pin_db s) of
        Inl err \<Rightarrow> (Inl err, s)
      | Inr _ \<Rightarrow>
          if \<not> DeletePin pins (prn_tenant p) target then (Inl (PayOther ''reset cashier pin''), s)
          else (Inr (), s\<lparr>pin_fails := clear_fails e sessionID target (pin_fails s)\<rparr>))"

definition PinService_IsOpen :: "ctx \<Rightarrow> uuid \<Rightarrow> uuid \<Rightarrow> pay_db \<Rightarrow> pay_err + bool" where
  "PinService_IsOpen c tenantID sessionID db =
     (case pin_getSession c tenantID sessionID db of
        Inl e \<Rightarrow> (if e = PayPubNotFound then Inr False else Inl e)
      | Inr (r, _) \<Rightarrow> Inr (ses_status r \<noteq> SessionClosed))"

record participant_view =
  pvw_person :: uuid
  pvw_name :: string
  pvw_has_pin :: bool
  pvw_locked :: bool

text \<open>The loop over the participants, with what each of its Redis commands meets.\<close>

fun participant_views ::
  "cashier_pins \<Rightarrow> (uuid \<Rightarrow> pin_env) \<Rightarrow> uuid \<Rightarrow> uuid \<Rightarrow> pin_redis \<Rightarrow> session_participant list \<Rightarrow>
   pay_err + participant_view list" where
  "participant_views pins env tn sessionID r [] = Inr []"
| "participant_views pins env tn sessionID r (q # qs) =
     (case PersonFullName pins (prt_person q) of
        None \<Rightarrow> Inl (PayOther ''resolve person'')
      | Some nm \<Rightarrow>
          (case HasPin pins tn (prt_person q) of
             None \<Rightarrow> Inl (PayOther ''has pin'')
           | Some has \<Rightarrow>
               (case isLocked (env (prt_person q)) r sessionID (prt_person q) of
                  Inl err \<Rightarrow> Inl err
                | Inr locked \<Rightarrow>
                    (case participant_views pins env tn sessionID r qs of
                       Inl err \<Rightarrow> Inl err
                     | Inr vs \<Rightarrow> Inr (\<lparr>pvw_person = prt_person q, pvw_name = nm, pvw_has_pin = has,
                                     pvw_locked = locked\<rparr> # vs)))))"

definition PinService_ListParticipants ::
  "cashier_pins \<Rightarrow> (uuid \<Rightarrow> pin_env) \<Rightarrow> ctx \<Rightarrow> principal \<Rightarrow> uuid \<Rightarrow> pin_state \<Rightarrow>
   pay_err + participant_view list" where
  "PinService_ListParticipants pins env c p sessionID s =
     (if \<not> IsStaff p then Inl PayBranchForbidden
      else case pin_session c p sessionID (pin_db s) of
        Inl e \<Rightarrow> Inl e
      | Inr _ \<Rightarrow>
         (case PayTenantReadTx c (prn_tenant p) (\<lambda>tx.
                 CashSessionRepo_ListParticipants tx (prn_tenant p) sessionID) (pin_db s) of
            Inl e \<Rightarrow> Inl e
          | Inr (ps, _) \<Rightarrow> participant_views pins env (prn_tenant p) sessionID (pin_fails s) ps))"

section \<open>Counting\<close>

text \<open>A counter stands from one time to another: it has no expiry, is past it already, or expires
  later.\<close>

definition stands :: "time \<Rightarrow> time \<Rightarrow> pin_redis \<Rightarrow> uuid \<times> uuid \<Rightarrow> bool" where
  "stands a b r k \<longleftrightarrow> (\<forall>n x. r k = Some (n, Some x) \<longrightarrow> x \<le> a \<or> b < x)"

lemma stands_count: "stands a b r k \<Longrightarrow> a \<le> t \<Longrightarrow> t \<le> b \<Longrightarrow> a \<le> t' \<Longrightarrow> t' \<le> b \<Longrightarrow> pin_count t r k = pin_count t' r k"
  by (auto simp: stands_def pin_count_def pin_alive_def split: option.splits)

lemma incr_count:
  assumes "redis_incr t k r = (n, r')" and "stands a b r k" and "a \<le> t" and "t \<le> b"
  shows "n = pin_count t r k + 1" and "pin_count t r' k = pin_count t r k + 1" and "stands a b r' k"
    and "j \<noteq> k \<Longrightarrow> r' j = r j"
  using assms by (auto simp: redis_incr_def pin_count_def stands_def pin_alive_def split: option.splits if_splits)

lemma expire_count:
  assumes "stands a b r k" and "b < t + ttl" and "0 < ttl"
  shows "pin_count t (redis_expire t ttl k r) k = pin_count t r k" and "stands a b (redis_expire t ttl k r) k"
    and "j \<noteq> k \<Longrightarrow> redis_expire t ttl k r j = r j"
  using assms by (auto simp: redis_expire_def pin_count_def stands_def pin_alive_def split: option.splits if_splits)

lemma clear_fails_other: "k \<noteq> (i, q) \<Longrightarrow> clear_fails e i q r k = r k"
  by (auto simp: clear_fails_def)

text \<open>A lockout ends with the counter, a day after the first failure was counted.\<close>

lemma lockout_ends:
  assumes "redis_incr t k r = (1, r')" and "0 \<le> d"
  shows "pin_count (t + pinLockoutTTL + d) (redis_expire t pinLockoutTTL k r') k = 0"
  using assms by (auto simp: redis_incr_def redis_expire_def pin_count_def pin_alive_def pinLockoutTTL_def
      split: option.splits if_splits)

end
