(* ===== verification/Pay_Pin_Props.thy ===== *)
theory Pay_Pin_Props
  imports Pay_Pin Pay_Demo
begin

text \<open>
  The lockout of the PIN path: how many PINs can be tried against one cashier of one session.
  Requests to switch run at the same time and take no lock, so the theorem is about every
  interleaving of their parts, with joins, resets and changes of the database in between.
\<close>

section \<open>Requests in parallel\<close>

text \<open>Where a request to switch is. A worker serves one request after the other.\<close>

datatype pin_pc =
    PcFree
  | PcEntered ctx principal uuid uuid string cash_session
  | PcUnlocked ctx principal uuid uuid string cash_session
  | PcWrong uuid uuid
  | PcCounted uuid uuid nat
  | PcRight principal uuid uuid cash_session
  | PcReplied "pay_err + string"

fun pin_free :: "pin_pc \<Rightarrow> bool" where
  "pin_free PcFree = True"
| "pin_free (PcReplied _) = True"
| "pin_free _ = False"

text \<open>The last component counts, for each session and person, the PINs that were verified with a
  verdict: an observer, read by no step.\<close>

record pin_system = pin_state +
  psy_workers :: "nat \<Rightarrow> pin_pc"
  psy_guesses :: "uuid \<times> uuid \<Rightarrow> nat"

text \<open>What a step is to the counters: a key unlocked, a failure not counted as Redis gave no answer,
  or neither.\<close>

datatype pin_event = EvQuiet | EvUnlocked "uuid \<times> uuid" | EvUncounted "uuid \<times> uuid"

definition set_worker :: "nat \<Rightarrow> pin_pc \<Rightarrow> pin_system \<Rightarrow> pin_system" where
  "set_worker j pc s = s\<lparr>psy_workers := (psy_workers s)(j := pc)\<rparr>"

definition guessed :: "uuid \<times> uuid \<Rightarrow> pin_system \<Rightarrow> pin_system" where
  "guessed k s = s\<lparr>psy_guesses := (psy_guesses s)(k := psy_guesses s k + 1)\<rparr>"

definition base_state :: "pin_system \<Rightarrow> pin_state" where
  "base_state s = \<lparr>pin_db = pin_db s, pin_fails = pin_fails s\<rparr>"

definition put_base :: "pin_state \<Rightarrow> pin_system \<Rightarrow> pin_system" where
  "put_base t s = s\<lparr>pin_db := pin_db t, pin_fails := pin_fails t\<rparr>"

definition cleared_event :: "uuid \<times> uuid \<Rightarrow> pin_redis \<Rightarrow> pin_redis \<Rightarrow> pin_event" where
  "cleared_event k r r' = (if r' k = r k then EvQuiet else EvUnlocked k)"

text \<open>One step of one of the workers, or of the world around them. The answers of the other modules
  and of Redis may be different in every step.\<close>

inductive pin_step :: "nat \<Rightarrow> time \<Rightarrow> pin_system \<Rightarrow> pin_event \<Rightarrow> pin_system \<Rightarrow> bool" for workers now where
  step_refused: "j < workers \<Longrightarrow> pin_free (psy_workers s j) \<Longrightarrow> switch_enter c p i (pin_db s) = Inl err \<Longrightarrow>
    pin_step workers now s EvQuiet (set_worker j (PcReplied (Inl err)) s)"
| step_enter: "j < workers \<Longrightarrow> pin_free (psy_workers s j) \<Longrightarrow> switch_enter c p i (pin_db s) = Inr r \<Longrightarrow>
    pin_step workers now s EvQuiet (set_worker j (PcEntered c p i q pin r) s)"
| step_unread: "j < workers \<Longrightarrow> psy_workers s j = PcEntered c p i q pin r \<Longrightarrow> pnv_get_at e = now \<Longrightarrow>
    isLocked e (pin_fails s) i q = Inl err \<Longrightarrow>
    pin_step workers now s EvQuiet (set_worker j (PcReplied (Inl err)) s)"
| step_locked: "j < workers \<Longrightarrow> psy_workers s j = PcEntered c p i q pin r \<Longrightarrow> pnv_get_at e = now \<Longrightarrow>
    isLocked e (pin_fails s) i q = Inr True \<Longrightarrow>
    pin_step workers now s EvQuiet (set_worker j (PcReplied (Inl PayPinVerificationFailed)) s)"
| step_unlocked: "j < workers \<Longrightarrow> psy_workers s j = PcEntered c p i q pin r \<Longrightarrow> pnv_get_at e = now \<Longrightarrow>
    isLocked e (pin_fails s) i q = Inr False \<Longrightarrow>
    pin_step workers now s EvQuiet (set_worker j (PcUnlocked c p i q pin r) s)"
| step_no_verdict: "j < workers \<Longrightarrow> psy_workers s j = PcUnlocked c p i q pin r \<Longrightarrow>
    switch_verify pins c p i q pin (pin_db s) = Inl err \<Longrightarrow>
    pin_step workers now s EvQuiet (set_worker j (PcReplied (Inl err)) s)"
| step_wrong: "j < workers \<Longrightarrow> psy_workers s j = PcUnlocked c p i q pin r \<Longrightarrow>
    switch_verify pins c p i q pin (pin_db s) = Inr False \<Longrightarrow>
    pin_step workers now s EvQuiet (set_worker j (PcWrong i q) (guessed (i, q) s))"
| step_right: "j < workers \<Longrightarrow> psy_workers s j = PcUnlocked c p i q pin r \<Longrightarrow>
    switch_verify pins c p i q pin (pin_db s) = Inr True \<Longrightarrow>
    pin_step workers now s EvQuiet (set_worker j (PcRight p i q r) (guessed (i, q) s))"
| step_uncounted: "j < workers \<Longrightarrow> psy_workers s j = PcWrong i q \<Longrightarrow> pnv_incr_at e = now \<Longrightarrow>
    record_incr e i q (pin_fails s) = Inl err \<Longrightarrow>
    pin_step workers now s (EvUncounted (i, q)) (set_worker j (PcReplied (Inl PayPinVerificationFailed)) s)"
| step_counted: "j < workers \<Longrightarrow> psy_workers s j = PcWrong i q \<Longrightarrow> pnv_incr_at e = now \<Longrightarrow>
    record_incr e i q (pin_fails s) = Inr (n, f) \<Longrightarrow>
    pin_step workers now s EvQuiet (set_worker j (PcCounted i q n) (s\<lparr>pin_fails := f\<rparr>))"
| step_expiring: "j < workers \<Longrightarrow> psy_workers s j = PcCounted i q n \<Longrightarrow> pnv_expire_at e = now \<Longrightarrow>
    pin_step workers now s EvQuiet (set_worker j (PcReplied (Inl PayPinVerificationFailed))
      (s\<lparr>pin_fails := record_expire e i q n (pin_fails s)\<rparr>))"
| step_cleared: "j < workers \<Longrightarrow> psy_workers s j = PcRight p i q r \<Longrightarrow>
    pin_step workers now s (EvUnlocked (i, q)) (set_worker j (PcReplied (switch_issue pins p i q r))
      (s\<lparr>pin_fails := clear_fails e i q (pin_fails s)\<rparr>))"
| step_join: "PinService_Join pins e c p i pin (base_state s) = (res, t) \<Longrightarrow>
    pin_step workers now s (cleared_event (i, prn_person p) (pin_fails s) (pin_fails t)) (put_base t s)"
| step_reset: "PinService_ResetPin pins e c p i q (base_state s) = (res, t) \<Longrightarrow>
    pin_step workers now s (cleared_event (i, q) (pin_fails s) (pin_fails t)) (put_base t s)"
| step_elsewhere: "pin_step workers now s EvQuiet (s\<lparr>pin_db := db\<rparr>)"

text \<open>A run, with the events in order.\<close>

inductive pin_run :: "nat \<Rightarrow> time \<Rightarrow> pin_system \<Rightarrow> pin_event list \<Rightarrow> time \<Rightarrow> pin_system \<Rightarrow> bool" for workers t s where
  pin_run_nil: "pin_run workers t s [] t s"
| pin_run_step: "pin_run workers t s evs t' s' \<Longrightarrow> t' \<le> t'' \<Longrightarrow> pin_step workers t'' s' ev s'' \<Longrightarrow>
    pin_run workers t s (evs @ [ev]) t'' s''"

lemma set_worker_fields [simp]:
  "psy_workers (set_worker j pc s) = (psy_workers s)(j := pc)"
  "pin_fails (set_worker j pc s) = pin_fails s" "pin_db (set_worker j pc s) = pin_db s"
  "psy_guesses (set_worker j pc s) = psy_guesses s"
  by (simp_all add: set_worker_def)

lemma guessed_fields [simp]:
  "psy_workers (guessed k s) = psy_workers s" "pin_fails (guessed k s) = pin_fails s" "pin_db (guessed k s) = pin_db s"
  "psy_guesses (guessed k s) = (psy_guesses s)(k := psy_guesses s k + 1)"
  by (simp_all add: guessed_def)

lemma put_base_fields [simp]:
  "psy_workers (put_base t s) = psy_workers s" "pin_fails (put_base t s) = pin_fails t" "pin_db (put_base t s) = pin_db t"
  "psy_guesses (put_base t s) = psy_guesses s"
  "pin_fails (base_state s) = pin_fails s" "pin_db (base_state s) = pin_db s"
  by (simp_all add: put_base_def base_state_def)

section \<open>One request on its own\<close>

text \<open>\<open>PinService_Switch\<close> is what the parts do when nothing comes between them.\<close>

definition env_at :: "time \<Rightarrow> pin_env \<Rightarrow> bool" where
  "env_at now e \<longleftrightarrow> pnv_get_at e = now \<and> pnv_incr_at e = now \<and> pnv_expire_at e = now"

definition alone_guesses :: "nat \<Rightarrow> uuid \<times> uuid \<Rightarrow> pin_system \<Rightarrow> pin_system" where
  "alone_guesses n k s = s\<lparr>psy_guesses := (psy_guesses s)(k := psy_guesses s k + n)\<rparr>"

lemma pin_run_one: "pin_step workers t s ev s' \<Longrightarrow> pin_run workers t s [ev] t s'"
  using pin_run_step [OF pin_run_nil, of t t] by fastforce

lemma pin_run_more: "pin_run workers t s evs t s' \<Longrightarrow> pin_step workers t s' ev s'' \<Longrightarrow> pin_run workers t s (evs @ [ev]) t s''"
  using pin_run_step [of workers t s evs t s' t ev s''] by simp

lemma set_worker_over: "set_worker j pc (set_worker j pc' u) = set_worker j pc u"
  by (simp add: set_worker_def)

lemmas alone_simps = set_worker_def put_base_def alone_guesses_def guessed_def base_state_def

text \<open>From the verdict on: what a switch does once it has found the cashier unlocked.\<close>

lemma failure_is_a_run:
  assumes j: "j < workers" and e: "env_at now e"
    and run: "pin_run workers now s evs now (set_worker j (PcWrong i q) (guessed (i, q) s))"
  shows "\<exists>evs. pin_run workers now s evs now (set_worker j (PcReplied (Inl PayPinVerificationFailed))
    (put_base ((base_state s)\<lparr>pin_fails := snd (recordFailure e i q (pin_fails s))\<rparr>) (alone_guesses 1 (i, q) s)))"
proof (cases "record_incr e i q (pin_fails s)")
  case (Inl err)
  let ?s = "set_worker j (PcWrong i q) (guessed (i, q) s)"
  have "pin_step workers now ?s (EvUncounted (i, q)) (set_worker j (PcReplied (Inl PayPinVerificationFailed)) ?s)"
    by (rule step_uncounted [OF j]) (use e Inl in \<open>simp_all add: env_at_def\<close>)
  from exI [where P = "\<lambda>evs. pin_run workers now s evs now _", OF pin_run_more [OF run this]] Inl show ?thesis
    by (simp add: recordFailure_def alone_simps)
next
  case (Inr nf)
  obtain n f where nf: "nf = (n, f)" by (cases nf)
  let ?s = "set_worker j (PcWrong i q) (guessed (i, q) s)"
  let ?s4 = "set_worker j (PcCounted i q n) (?s\<lparr>pin_fails := f\<rparr>)"
  have "pin_step workers now ?s EvQuiet ?s4"
    by (rule step_counted [OF j]) (use e Inr nf in \<open>simp_all add: env_at_def\<close>)
  note s4 = pin_run_more [OF run this]
  have "pin_step workers now ?s4 EvQuiet (set_worker j (PcReplied (Inl PayPinVerificationFailed))
      (?s4\<lparr>pin_fails := record_expire e i q n (pin_fails ?s4)\<rparr>))"
    by (rule step_expiring [OF j]) (use e in \<open>simp_all add: env_at_def\<close>)
  from exI [where P = "\<lambda>evs. pin_run workers now s evs now _", OF pin_run_more [OF s4 this]] Inr nf show ?thesis
    by (simp add: recordFailure_def alone_simps)
qed

lemma success_is_a_run:
  assumes j: "j < workers" and run: "pin_run workers now s evs now (set_worker j (PcRight p i q r) (guessed (i, q) s))"
  shows "\<exists>evs. pin_run workers now s evs now (set_worker j (PcReplied (switch_issue pins p i q r))
    (put_base ((base_state s)\<lparr>pin_fails := clear_fails e i q (pin_fails s)\<rparr>) (alone_guesses 1 (i, q) s)))"
proof -
  let ?s = "set_worker j (PcRight p i q r) (guessed (i, q) s)"
  have "pin_step workers now ?s (EvUnlocked (i, q)) (set_worker j (PcReplied (switch_issue pins p i q r))
      (?s\<lparr>pin_fails := clear_fails e i q (pin_fails ?s)\<rparr>))"
    by (rule step_cleared [OF j]) simp
  from exI [where P = "\<lambda>evs. pin_run workers now s evs now _", OF pin_run_more [OF run this]] show ?thesis
    by (simp add: alone_simps)
qed

lemma Switch_is_a_run:
  assumes switch: "PinService_Switch pins e c p i q pin (base_state s) = (res, t)"
    and j: "j < workers" "pin_free (psy_workers s j)" and e: "env_at now e"
  shows "\<exists>evs n. pin_run workers now s evs now (set_worker j (PcReplied res) (put_base t (alone_guesses n (i, q) s)))"
proof -
  have id: "put_base (base_state s) (alone_guesses 0 (i, q) s) = s" by (simp add: alone_simps)
  let ?at = "\<lambda>pc. set_worker j pc s"
  consider (refused) err where "switch_enter c p i (pin_db s) = Inl err" "res = Inl err" "t = base_state s"
    | (unread) r err where "switch_enter c p i (pin_db s) = Inr r" "isLocked e (pin_fails s) i q = Inl err"
        "res = Inl err" "t = base_state s"
    | (locked) r where "switch_enter c p i (pin_db s) = Inr r" "isLocked e (pin_fails s) i q = Inr True"
        "res = Inl PayPinVerificationFailed" "t = base_state s"
    | (looked) r where "switch_enter c p i (pin_db s) = Inr r" "isLocked e (pin_fails s) i q = Inr False"
    using switch by (auto simp: PinService_Switch_def split: sum.splits bool.splits)
  then show ?thesis
  proof cases
    case refused
    from pin_run_one [OF step_refused [OF j refused(1)]] refused id show ?thesis by metis
  next
    case unread
    have "pin_step workers now (?at (PcEntered c p i q pin r)) EvQuiet (?at (PcReplied (Inl err)))"
      using step_unread [of j workers "?at (PcEntered c p i q pin r)" c p i q pin r e now err] j e unread
      by (simp add: env_at_def set_worker_over)
    from pin_run_more [OF pin_run_one [OF step_enter [OF j unread(1)]] this] unread id show ?thesis by metis
  next
    case locked
    have "pin_step workers now (?at (PcEntered c p i q pin r)) EvQuiet (?at (PcReplied (Inl PayPinVerificationFailed)))"
      using step_locked [of j workers "?at (PcEntered c p i q pin r)" c p i q pin r e now] j e locked
      by (simp add: env_at_def set_worker_over)
    from pin_run_more [OF pin_run_one [OF step_enter [OF j locked(1)]] this] locked id show ?thesis by metis
  next
    case looked
    let ?u = "?at (PcUnlocked c p i q pin r)"
    have "pin_step workers now (?at (PcEntered c p i q pin r)) EvQuiet ?u"
      using step_unlocked [of j workers "?at (PcEntered c p i q pin r)" c p i q pin r e now] j e looked
      by (simp add: env_at_def set_worker_over)
    note s2 = pin_run_more [OF pin_run_one [OF step_enter [OF j looked(1)]] this]
    show ?thesis
    proof (cases "switch_verify pins c p i q pin (pin_db s)")
      case (Inl err)
      have "pin_step workers now ?u EvQuiet (?at (PcReplied (Inl err)))"
        using step_no_verdict [of j workers ?u c p i q pin r pins err now] j Inl by (simp add: set_worker_over)
      from pin_run_more [OF s2 this] switch looked Inl id show ?thesis by (simp add: PinService_Switch_def) metis
    next
      case (Inr ok)
      have onward: "pin_step workers now ?u EvQuiet
          (set_worker j (if ok then PcRight p i q r else PcWrong i q) (guessed (i, q) s))"
        using step_wrong [of j workers ?u c p i q pin r pins now] step_right [of j workers ?u c p i q pin r pins now] j Inr
        by (cases ok) (simp_all add: alone_simps)
      note s3 = pin_run_more [OF s2 onward]
      show ?thesis
      proof (cases ok)
        case True
        with s3 have "pin_run workers now s ([EvQuiet, EvQuiet] @ [EvQuiet]) now
            (set_worker j (PcRight p i q r) (guessed (i, q) s))" by simp
        from success_is_a_run [OF j(1) this, of pins e] switch looked Inr True show ?thesis
          by (simp add: PinService_Switch_def) blast
      next
        case False
        with s3 have "pin_run workers now s ([EvQuiet, EvQuiet] @ [EvQuiet]) now
            (set_worker j (PcWrong i q) (guessed (i, q) s))" by simp
        from failure_is_a_run [OF j(1) e this] switch looked Inr False show ?thesis
          by (simp add: PinService_Switch_def) blast
      qed
    qed
  qed
qed

lemma guesses_grow:
  assumes "pin_run workers t s evs t' s'"
  shows "psy_guesses s k \<le> psy_guesses s' k"
proof -
  have "psy_guesses u k \<le> psy_guesses u' k" if "pin_step workers now u ev u'" for now u ev u'
    using that by (induction rule: pin_step.induct) auto
  with assms show ?thesis by (induction rule: pin_run.induct) (auto intro: order_trans)
qed

section \<open>Counting the guesses\<close>

text \<open>Of the workers: those that hold a verdict not yet counted, and those that passed the lock and
  hold none yet.\<close>

fun uncounted :: "uuid \<times> uuid \<Rightarrow> pin_pc \<Rightarrow> bool" where
  "uncounted k (PcWrong i q) \<longleftrightarrow> k = (i, q)"
| "uncounted k (PcRight p i q r) \<longleftrightarrow> k = (i, q)"
| "uncounted k _ \<longleftrightarrow> False"

fun let_in :: "uuid \<times> uuid \<Rightarrow> pin_pc \<Rightarrow> bool" where
  "let_in k (PcUnlocked c p i q pin r) \<longleftrightarrow> k = (i, q)"
| "let_in k _ \<longleftrightarrow> False"

definition how_many :: "nat \<Rightarrow> (pin_pc \<Rightarrow> bool) \<Rightarrow> (nat \<Rightarrow> pin_pc) \<Rightarrow> nat" where
  "how_many workers P w = (\<Sum>j < workers. of_bool (P (w j)))"

lemma how_many_upd:
  assumes "j < workers"
  shows "how_many workers P (w(j := pc)) + of_bool (P (w j)) = how_many workers P w + of_bool (P pc)"
proof -
  have split: "how_many workers P v = of_bool (P (v j)) + (\<Sum>l \<in> {..<workers} - {j}. of_bool (P (v l)))" for v
    unfolding how_many_def by (rule sum.remove) (use assms in simp_all)
  have "(\<Sum>l \<in> {..<workers} - {j}. of_bool (P ((w(j := pc)) l)) :: nat) = (\<Sum>l \<in> {..<workers} - {j}. of_bool (P (w l)))"
    by (rule sum.cong) auto
  then show ?thesis unfolding split [of w] split [of "w(j := pc)"] by simp
qed

lemma how_many_both: "how_many workers (uncounted k) w + how_many workers (let_in k) w \<le> workers"
proof -
  have "of_bool (uncounted k pc) + of_bool (let_in k pc) \<le> (1 :: nat)" for pc by (cases pc) auto
  then have "(\<Sum>j < workers. of_bool (uncounted k (w j)) + of_bool (let_in k (w j)) :: nat) \<le> (\<Sum>j < workers. 1)"
    by (intro sum_mono)
  then show ?thesis by (simp add: how_many_def sum.distrib)
qed

lemma free_counts: "pin_free pc \<Longrightarrow> \<not> uncounted k pc \<and> \<not> let_in k pc"
  by (cases pc) auto

lemma how_many_free: "\<forall>j < workers. pin_free (w j) \<Longrightarrow> how_many workers (uncounted k) w = 0 \<and> how_many workers (let_in k) w = 0"
  by (auto simp: how_many_def free_counts)

text \<open>Between two times, from a counter of \<open>c\<close> and \<open>g\<close> verdicts: every verdict since is counted or on
  its way to the counter, and those and the requests let in are no more than the first
  four and one for each worker.\<close>

definition guesses_counted :: "nat \<Rightarrow> time \<Rightarrow> time \<Rightarrow> uuid \<times> uuid \<Rightarrow> nat \<Rightarrow> nat \<Rightarrow> pin_system \<Rightarrow> bool" where
  "guesses_counted workers a b k c g s \<longleftrightarrow>
     stands a b (pin_fails s) k \<and>
     c + psy_guesses s k = g + pin_count a (pin_fails s) k + how_many workers (uncounted k) (psy_workers s) \<and>
     c + psy_guesses s k + how_many workers (let_in k) (psy_workers s) \<le> g + max c (workers + 4)"

lemma counted_redis:
  assumes "guesses_counted workers a b k c g s" and "f k = pin_fails s k"
  shows "guesses_counted workers a b k c g (s\<lparr>pin_fails := f\<rparr>)"
  using assms by (simp add: guesses_counted_def pin_count_def stands_def)

lemma counted_worker:
  assumes "guesses_counted workers a b k c g s" and j: "j < workers"
    and "uncounted k pc = uncounted k (psy_workers s j)" and "let_in k pc \<Longrightarrow> let_in k (psy_workers s j)"
  shows "guesses_counted workers a b k c g (set_worker j pc s)"
  using assms how_many_upd [OF j, of "uncounted k" "psy_workers s" pc] how_many_upd [OF j, of "let_in k" "psy_workers s" pc]
  by (auto simp: guesses_counted_def of_bool_def split: if_splits)

lemma pin_ops_redis:
  "PinService_Join pins e c p i pin s = (res, t) \<Longrightarrow> k \<noteq> (i, prn_person p) \<Longrightarrow> pin_fails t k = pin_fails s k"
  "PinService_ResetPin pins e c p i q s = (res, t) \<Longrightarrow> k \<noteq> (i, q) \<Longrightarrow> pin_fails t k = pin_fails s k"
  by (auto simp: PinService_Join_def PinService_ResetPin_def Let_def clear_fails_other
      split: if_split_asm sum.split_asm prod.split_asm pin_set.split_asm)

lemma counted_base:
  assumes "guesses_counted workers a b k c g s" and "pin_fails t k = pin_fails s k"
  shows "guesses_counted workers a b k c g (put_base t s)"
  using assms by (simp add: guesses_counted_def pin_count_def stands_def)

lemma step_keeps_count:
  assumes "pin_step workers now s ev s'" and "guesses_counted workers a b k c g s"
    and "ev \<noteq> EvUnlocked k" and "ev \<noteq> EvUncounted k" and "a \<le> now" and "now \<le> b" and "b < a + pinLockoutTTL"
  shows "guesses_counted workers a b k c g s'"
  using assms
proof (induction rule: pin_step.induct)
  case (step_unlocked j s c' p i q pin r e)
  show ?case
  proof (cases "k = (i, q)")
    case True
    have "pin_count now (pin_fails s) k \<le> 4"
      using step_unlocked(3,4) True by (auto simp: isLocked_def pinMaxAttempts_def split: if_splits)
    moreover have "pin_count now (pin_fails s) k = pin_count a (pin_fails s) k"
      using step_unlocked(5) step_unlocked.prems by (intro stands_count [where a = a and b = b]) (auto simp: guesses_counted_def)
    ultimately show ?thesis
      using step_unlocked how_many_upd [OF step_unlocked(1), of "uncounted k" "psy_workers s" "PcUnlocked c' p i q pin r"]
        how_many_both [of workers k "(psy_workers s)(j := PcUnlocked c' p i q pin r)"] True
      by (auto simp: guesses_counted_def)
  next
    case False
    with step_unlocked show ?thesis by (intro counted_worker) simp_all
  qed
next
  case (step_wrong j s c' p i q pin r pins)
  then show ?case
    using how_many_upd [OF step_wrong(1), of "uncounted k" "psy_workers s" "PcWrong i q"]
      how_many_upd [OF step_wrong(1), of "let_in k" "psy_workers s" "PcWrong i q"]
    by (auto simp: guesses_counted_def split: if_splits)
next
  case (step_right j s c' p i q pin r pins)
  then show ?case
    using how_many_upd [OF step_right(1), of "uncounted k" "psy_workers s" "PcRight p i q r"]
      how_many_upd [OF step_right(1), of "let_in k" "psy_workers s" "PcRight p i q r"]
    by (auto simp: guesses_counted_def split: if_splits)
next
  case (step_counted j s i q e n f)
  from step_counted(3,4) have incr: "redis_incr now (i, q) (pin_fails s) = (n, f)"
    by (auto simp: record_incr_def split: if_splits)
  show ?case
  proof (cases "k = (i, q)")
    case True
    have st: "stands a b (pin_fails s) (i, q)" using step_counted(5) True by (simp add: guesses_counted_def)
    note inc = incr_count [OF incr st step_counted(8,9)]
    have "pin_count a f k = pin_count a (pin_fails s) k + 1"
      using stands_count [OF inc(3), of a now] stands_count [OF st, of a now] inc(2) step_counted.prems True by simp
    then show ?thesis
      using step_counted inc(3) True how_many_upd [OF step_counted(1), of "uncounted k" "psy_workers s" "PcCounted i q n"]
        how_many_upd [OF step_counted(1), of "let_in k" "psy_workers s" "PcCounted i q n"]
      by (auto simp: guesses_counted_def)
  next
    case False
    have st: "\<And>j. j \<noteq> (i, q) \<Longrightarrow> f j = pin_fails s j"
      using incr by (auto simp: redis_incr_def split: option.splits if_splits)
    with False step_counted show ?thesis by (intro counted_worker counted_redis) simp_all
  qed
next
  case (step_expiring j s i q n e)
  show ?case
  proof (cases "k = (i, q) \<and> n = 1 \<and> pnv_expire_ok e")
    case True
    have st: "stands a b (pin_fails s) (i, q)" using step_expiring(4) True by (simp add: guesses_counted_def)
    have ttl: "b < now + pinLockoutTTL" "0 < pinLockoutTTL" using step_expiring.prems by (simp_all add: pinLockoutTTL_def)
    note exp = expire_count(2) [OF st ttl] expire_count(1) [OF st ttl]
    let ?f = "redis_expire now pinLockoutTTL (i, q) (pin_fails s)"
    have "pin_count a ?f k = pin_count a (pin_fails s) k"
      using stands_count [OF exp(1), of a now] stands_count [OF st, of a now] exp(2) step_expiring.prems True by simp
    then have "guesses_counted workers a b k c g (s\<lparr>pin_fails := ?f\<rparr>)"
      using step_expiring(4) exp(1) True by (simp add: guesses_counted_def)
    then show ?thesis using step_expiring(1-3) True by (intro counted_worker) (simp_all add: record_expire_def)
  next
    case False
    then have "record_expire e i q n (pin_fails s) k = pin_fails s k"
      by (auto simp: record_expire_def redis_expire_def split: option.split)
    with step_expiring show ?thesis by (intro counted_worker counted_redis) simp_all
  qed
next
  case (step_cleared j s p i q r pins e)
  then show ?case by (intro counted_worker counted_redis) (auto simp: clear_fails_other)
next
  case (step_join pins e c' p i pin s res t)
  then show ?case using pin_ops_redis(1) [OF step_join(1), of k]
    by (intro counted_base) (auto simp: cleared_event_def split: if_splits)
next
  case (step_reset pins e c' p i q s res t)
  then show ?case using pin_ops_redis(2) [OF step_reset(1), of k]
    by (intro counted_base) (auto simp: cleared_event_def split: if_splits)
next
  case (step_elsewhere s db)
  then show ?case by (simp add: guesses_counted_def)
qed (auto intro!: counted_worker simp: free_counts)

lemma run_keeps_count:
  assumes "pin_run workers a s evs t s'" and "guesses_counted workers a b k c g s"
    and "EvUnlocked k \<notin> set evs" and "EvUncounted k \<notin> set evs" and "t \<le> b" and "b < a + pinLockoutTTL"
  shows "a \<le> t \<and> guesses_counted workers a b k c g s'"
  using assms
proof (induction rule: pin_run.induct)
  case (pin_run_step evs t s' t' ev s'')
  then have ih: "a \<le> t" "guesses_counted workers a b k c g s'" by auto
  then show ?case using pin_run_step by (auto intro: step_keeps_count)
qed auto

text \<open>C39: PINs cannot be guessed at will. Let any number of people send requests to switch to one
  cashier of one session, at most \<open>workers\<close> of them under way at a time, interleaved in any
  way with each other, with joins, resets and everything else. Within 24 hours, and before
  a counter that was there expires, and as long as nothing unlocks that cashier (a join of
  theirs, a reset, the right PIN) and Redis counts every failure, at most four PINs and one
  for each worker are verified against them, failures already counted included: five, when
  requests are served one after the other.\<close>

theorem pin_guesses_bounded:
  assumes "pin_run workers t s evs t' s'" and "\<forall>j < workers. pin_free (psy_workers s j)"
    and "t' < t + pinLockoutTTL"
    and "\<And>n x. pin_fails s (i, q) = Some (n, Some x) \<Longrightarrow> t < x \<Longrightarrow> t' < x"
    and "EvUnlocked (i, q) \<notin> set evs" and "EvUncounted (i, q) \<notin> set evs"
  shows "pin_count t (pin_fails s) (i, q) + (psy_guesses s' (i, q) - psy_guesses s (i, q)) \<le>
    max (pin_count t (pin_fails s) (i, q)) (workers + 4)"
proof -
  let ?c = "pin_count t (pin_fails s) (i, q)" and ?g = "psy_guesses s (i, q)"
  have "stands t t' (pin_fails s) (i, q)" unfolding stands_def using assms(4) by (meson not_less)
  then have "guesses_counted workers t t' (i, q) ?c ?g s"
    using assms(2) how_many_free [of workers "psy_workers s" "(i, q)"] by (simp add: guesses_counted_def)
  from run_keeps_count [OF assms(1) this assms(5,6) order_refl assms(3)]
  have "?c + psy_guesses s' (i, q) \<le> ?g + max ?c (workers + 4)" by (simp add: guesses_counted_def)
  moreover have "?g \<le> psy_guesses s' (i, q)" using assms(1) by (rule guesses_grow)
  ultimately show ?thesis by linarith
qed

text \<open>Wrong PINs tried one after the other by one worker, with a counter that lives for a day.\<close>

definition demo_pins :: cashier_pins where
  "demo_pins = \<lparr>VerifyPin = (\<lambda>_ _ pin. if pin = ''4711'' then PinMatches else PinVerificationFailed),
     SetOwnPin = (\<lambda>_ _ _. PinSet), DeletePin = (\<lambda>_ _. True), HasPin = (\<lambda>_ _. Some True),
     PersonFullName = (\<lambda>_. Some ''Ayla''), ActiveRoleIDsAt = (\<lambda>_ _ _. Some []),
     IssueStaffForSession = (\<lambda>_ _ _ _ _. Some ''token'')\<rparr>"

definition demo_pin_db :: pay_db where
  "demo_pin_db = demo_opened\<lparr>pd_parts := [\<lparr>prt_tenant = 1, prt_session = 1000, prt_branch = 10,
     prt_person = 7, prt_joined = 1\<rparr>]\<rparr>"

definition demo_pin_env :: pin_env where
  "demo_pin_env = \<lparr>pnv_get_at = 2, pnv_incr_at = 2, pnv_expire_at = 2, pnv_get_ok = True, pnv_incr_ok = True,
     pnv_expire_ok = True, pnv_del_ok = True\<rparr>"

definition demo_reply :: "nat \<Rightarrow> pin_pc" where
  "demo_reply n = (if n = 0 then PcFree else PcReplied (Inl PayPinVerificationFailed))"

definition demo_tries :: "nat \<Rightarrow> pin_system" where
  "demo_tries n = \<lparr>pin_db = demo_pin_db,
     pin_fails = (\<lambda>_. None)((1000, 7) := if n = 0 then None else Some (n, Some (2 + pinLockoutTTL))),
     psy_workers = (\<lambda>_. PcFree)(0 := demo_reply n), psy_guesses = (\<lambda>_. 0)((1000, 7) := n)\<rparr>"

lemma demo_entered: "\<exists>r. switch_enter (demo_at 2) demo_principal 1000 demo_pin_db = Inr r"
proof -
  have "\<not> isl (switch_enter (demo_at 2) demo_principal 1000 demo_pin_db)" by code_simp
  then show ?thesis by (cases "switch_enter (demo_at 2) demo_principal 1000 demo_pin_db") auto
qed

lemma demo_wrong: "switch_verify demo_pins (demo_at 2) demo_principal 1000 7 ''0000'' demo_pin_db = Inr False"
  by code_simp

lemma demo_get: "pnv_get_at demo_pin_env = 2"
  by (simp add: demo_pin_env_def)

lemma demo_lock: "isLocked demo_pin_env (pin_fails (demo_tries n)) 1000 7 = Inr (5 \<le> n)"
  by (simp add: isLocked_def demo_pin_env_def demo_tries_def pin_count_def pin_alive_def pinMaxAttempts_def pinLockoutTTL_def)

lemma demo_try:
  assumes "n < 5"
  shows "pin_run 1 2 (demo_tries n) (replicate 5 EvQuiet) 2 (demo_tries (Suc n))"
proof -
  obtain r where r: "switch_enter (demo_at 2) demo_principal 1000 demo_pin_db = Inr r" using demo_entered by blast
  let ?s = "demo_tries n" and ?k = "(1000, 7)"
  have db: "pin_db ?s = demo_pin_db" by (simp add: demo_tries_def)
  have free: "pin_free (psy_workers ?s 0)" by (simp add: demo_tries_def demo_reply_def)
  let ?s1 = "set_worker 0 (PcEntered (demo_at 2) demo_principal 1000 7 ''0000'' r) ?s"
  have e1: "pin_step 1 2 ?s EvQuiet ?s1" by (rule step_enter) (use r db free in simp_all)
  let ?s2 = "set_worker 0 (PcUnlocked (demo_at 2) demo_principal 1000 7 ''0000'' r) ?s1"
  have e2: "pin_step 1 2 ?s1 EvQuiet ?s2"
    by (rule step_unlocked [where e = demo_pin_env]) (use assms in \<open>simp_all add: demo_lock demo_get\<close>)
  let ?s3 = "set_worker 0 (PcWrong 1000 7) (guessed ?k ?s2)"
  have e3: "pin_step 1 2 ?s2 EvQuiet ?s3" by (rule step_wrong) (use db demo_wrong in simp_all)
  obtain m f where inc: "record_incr demo_pin_env 1000 7 (pin_fails ?s) = Inr (m, f)"
    by (cases "record_incr demo_pin_env 1000 7 (pin_fails ?s)") (auto simp: record_incr_def demo_pin_env_def)
  let ?s4 = "set_worker 0 (PcCounted 1000 7 m) (?s3\<lparr>pin_fails := f\<rparr>)"
  have e4: "pin_step 1 2 ?s3 EvQuiet ?s4"
    by (rule step_counted [where e = demo_pin_env]) (use inc in \<open>simp_all add: demo_pin_env_def\<close>)
  let ?s5 = "set_worker 0 (PcReplied (Inl PayPinVerificationFailed))
      (?s4\<lparr>pin_fails := record_expire demo_pin_env 1000 7 m (pin_fails ?s4)\<rparr>)"
  have e5: "pin_step 1 2 ?s4 EvQuiet ?s5" by (rule step_expiring) (simp_all add: demo_pin_env_def)
  have mf: "m = Suc n \<and> f = (\<lambda>_. None)((1000, 7) \<mapsto> (Suc n, if n = 0 then None else Some (2 + pinLockoutTTL)))"
    using inc
    by (cases "n = 0") (auto simp: demo_tries_def record_incr_def redis_incr_def demo_pin_env_def pin_alive_def pinLockoutTTL_def)
  have "record_expire demo_pin_env 1000 7 m f = (\<lambda>_. None)((1000, 7) \<mapsto> (Suc n, Some (2 + pinLockoutTTL)))"
    using mf by (cases "n = 0") (simp_all add: record_expire_def redis_expire_def demo_pin_env_def pin_alive_def)
  then have "?s5 = demo_tries (Suc n)"
    by (simp add: alone_simps demo_tries_def demo_reply_def)
  with pin_run_more [OF pin_run_more [OF pin_run_more [OF pin_run_more [OF pin_run_one [OF e1] e2] e3] e4] e5]
  show ?thesis by (simp add: numeral_eq_Suc)
qed

lemma pin_run_then:
  "pin_run workers u s' evs' v s'' \<Longrightarrow> pin_run workers t s evs u s' \<Longrightarrow> pin_run workers t s (evs @ evs') v s''"
proof (induction rule: pin_run.induct)
  case (pin_run_step evs1 v1 s1 v2 ev s2)
  then show ?case using pin_run.pin_run_step [of workers t s "evs @ evs1" v1 s1 v2 ev s2] by simp
qed simp

lemma demo_tried: "n \<le> 5 \<Longrightarrow> pin_run 1 2 (demo_tries 0) (replicate (5 * n) EvQuiet) 2 (demo_tries n)"
proof (induction n)
  case (Suc n)
  then have "pin_run 1 2 (demo_tries 0) (replicate (5 * n) EvQuiet @ replicate 5 EvQuiet) 2 (demo_tries (Suc n))"
    by (intro pin_run_then [OF demo_try]) simp_all
  then show ?case by (simp add: replicate_add [symmetric] add.commute)
qed (simp add: pin_run_nil)

theorem pin_guesses_bounded_witness:
  "pin_run 1 2 (demo_tries 0) (replicate 25 EvQuiet) 2 (demo_tries 5) \<and> psy_guesses (demo_tries 5) (1000, 7) = 5 \<and>
   psy_guesses (demo_tries 5) (1000, 7) \<le> 5"
proof -
  have run: "pin_run 1 2 (demo_tries 0) (replicate 25 EvQuiet) 2 (demo_tries 5)" using demo_tried [of 5] by simp
  have "pin_count 2 (pin_fails (demo_tries 0)) (1000, 7) +
      (psy_guesses (demo_tries 5) (1000, 7) - psy_guesses (demo_tries 0) (1000, 7)) \<le>
    max (pin_count 2 (pin_fails (demo_tries 0)) (1000, 7)) (1 + 4)"
    by (rule pin_guesses_bounded [OF run]) (auto simp: demo_tries_def demo_reply_def pinLockoutTTL_def)
  with run show ?thesis by (simp add: demo_tries_def pin_count_def)
qed

section \<open>What the lock leaves open\<close>

text \<open>Two requests under way at the same time both find four failures counted, and a fifth and a
  sixth PIN are verified.\<close>

lemma racing_guesses:
  "\<exists>evs s. pin_run 2 2 (demo_tries 4) evs 2 s \<and> psy_guesses (demo_tries 4) (1000, 7) = 4 \<and> psy_guesses s (1000, 7) = 6"
proof -
  obtain r where r: "switch_enter (demo_at 2) demo_principal 1000 demo_pin_db = Inr r" using demo_entered by blast
  let ?s = "demo_tries 4" and ?k = "(1000, 7)"
  have db: "pin_db ?s = demo_pin_db" by (simp add: demo_tries_def)
  have free: "pin_free (psy_workers ?s j)" for j by (simp add: demo_tries_def demo_reply_def)
  have get: "pnv_get_at demo_pin_env = 2" by (simp add: demo_pin_env_def)
  have lock: "isLocked demo_pin_env (pin_fails ?s) 1000 7 = Inr False" by (simp add: demo_lock)
  let ?in = "\<lambda>j. set_worker j (PcEntered (demo_at 2) demo_principal 1000 7 ''0000'' r)"
  let ?let = "\<lambda>j. set_worker j (PcUnlocked (demo_at 2) demo_principal 1000 7 ''0000'' r)"
  let ?no = "\<lambda>j s. set_worker j (PcWrong 1000 7) (guessed ?k s)"
  have e1: "pin_step 2 2 ?s EvQuiet (?in 0 ?s)" by (rule step_enter) (use r db free in simp_all)
  have e2: "pin_step 2 2 (?in 0 ?s) EvQuiet (?in 1 (?in 0 ?s))"
    by (rule step_enter) (use r db free in simp_all)
  have e3: "pin_step 2 2 (?in 1 (?in 0 ?s)) EvQuiet (?let 0 (?in 1 (?in 0 ?s)))"
    by (rule step_unlocked [where e = demo_pin_env]) (use get lock in simp_all)
  have e4: "pin_step 2 2 (?let 0 (?in 1 (?in 0 ?s))) EvQuiet (?let 1 (?let 0 (?in 1 (?in 0 ?s))))"
    by (rule step_unlocked [where e = demo_pin_env]) (use get lock in simp_all)
  have e5: "pin_step 2 2 (?let 1 (?let 0 (?in 1 (?in 0 ?s)))) EvQuiet (?no 0 (?let 1 (?let 0 (?in 1 (?in 0 ?s)))))"
    by (rule step_wrong) (use db demo_wrong in simp_all)
  have e6: "pin_step 2 2 (?no 0 (?let 1 (?let 0 (?in 1 (?in 0 ?s))))) EvQuiet
      (?no 1 (?no 0 (?let 1 (?let 0 (?in 1 (?in 0 ?s))))))"
    by (rule step_wrong) (use db demo_wrong in simp_all)
  note run = pin_run_more [OF pin_run_more [OF pin_run_more [OF pin_run_more [OF pin_run_more
    [OF pin_run_one [OF e1] e2] e3] e4] e5] e6]
  have "psy_guesses ?s (1000, 7) = 4" by (simp add: demo_tries_def)
  with run show ?thesis by (intro exI conjI) auto
qed

text \<open>And the lock ends by itself: a day after the first failure the counter is gone, and the next
  PIN is verified, though nobody joined and nobody reset anything.\<close>

lemma lockout_expires:
  "isLocked (demo_pin_env\<lparr>pnv_get_at := 2 + pinLockoutTTL - 1\<rparr>) (pin_fails (demo_tries 5)) 1000 7 = Inr True \<and>
   isLocked (demo_pin_env\<lparr>pnv_get_at := 2 + pinLockoutTTL\<rparr>) (pin_fails (demo_tries 5)) 1000 7 = Inr False"
  by (simp add: isLocked_def demo_pin_env_def demo_tries_def pin_count_def pin_alive_def pinMaxAttempts_def pinLockoutTTL_def)

end
