(* ===== verification/Pay_Sale_Props.thy ===== *)
theory Pay_Sale_Props
  imports Pay_Demo
begin

text \<open>
  Properties of the sale and of the device's answer: retries and racing stations get the
  first sale back, a rounded sale settles its check, an answer counts once, and the whole
  module refines an account book that knows nothing of registrations and drawers.
\<close>

section \<open>Retries\<close>

lemma sale_by_key_unique:
  assumes "pay_schema_ok s" and "p \<in> set (pd_payments s)"
    and "pmt_tenant p = tn" and "pmt_key p = key"
  shows "sale_by_key tn key s = Some p"
proof -
  have "payments_uniq (pd_payments s)"
    using assms(1) by (simp add: pay_schema_ok_def table_ok_def)
  with find_row_key [of "\<lambda>p. (pmt_tenant p, pmt_key p)" "pd_payments s" p] assms(2-) show ?thesis
    by (simp add: sale_by_key_def payments_uniq_def)
qed

lemma payment_moves_fields:
  "payment_moves p p' \<Longrightarrow> pmt_id p' = pmt_id p \<and> pmt_tenant p' = pmt_tenant p \<and> pmt_branch p' = pmt_branch p \<and>
     pmt_check p' = pmt_check p \<and> pmt_key p' = pmt_key p \<and> pmt_method p' = pmt_method p \<and>
     pmt_amount p' = pmt_amount p \<and> pmt_rounding p' = pmt_rounding p"
  by (cases p; cases p') (simp add: payment_moves_def)

lemma RegisterSale_stored:
  assumes "PaymentService_RegisterSale id svc c req s = Inr (p, s')"
  shows "p \<in> set (pd_payments s') \<and> pmt_tenant p = rsr_tenant req \<and> pmt_key p = rsr_key req"
  using RegisterSale_Inr [OF assms]
  by (auto dest!: createPayment_Inr simp: sale_by_key_def dest: find_row_Some)

lemma RegisterSale_replays:
  assumes "sale_by_key (rsr_tenant req) (rsr_key req) s = Some p" and "rsr_tenant req \<noteq> uuid_Nil"
    and "validSaleRequest req = Inr r" and "checkVerdictFor svc (sale_request req) = Inr v"
    and "roundingVerdictFor svc (sale_request req) = Inr w"
    and "checkTotalFor svc (sale_request req) v = Inr owed"
  shows "PaymentService_RegisterSale others svc c req s = Inr (p, s)"
proof -
  have found: "lookup (PaymentRepo_GetByIdempotencyKey (pay_tx c (rsr_tenant req)) (rsr_tenant req)
      (rsr_key req)) s = Inr (Some p, s)"
    using assms(1) by (simp add: lookup_key_Inr)
  have valid: "validSaleRequest req = Inr (sale_request req)"
    using assms(3) by (auto simp: validSaleRequest_Inr)
  have "registerSaleTx others svc (sale_request req) v (fst w) (snd w) owed (pay_tx c (rsr_tenant req)) s =
      Inr (p, s)"
    using found by (simp add: registerSaleTx_def tx_bind_def tx_return_def)
  with valid assms(2,4-) show ?thesis
    by (simp add: PaymentService_RegisterSale_def PayTenantTx_def tx_bind_def tx_lift_def case_prod_beta)
qed

text \<open>C17: a retry gets the sale that was made, however much later it comes and however the
  check, the drawer and the payment have moved on meanwhile: no verdict on the check or
  on the rounding, a refusal included, is held against it, nothing is written, and the
  payment it returns is the one of the first call, moved at most along its lifecycle.\<close>

theorem retry_returns_first_sale:
  assumes first: "PaymentService_RegisterSale id svc c req s = Inr (p, s1)" and "pay_schema_ok s"
    and run: "pay_run t s1 tr t' s2"
    and same: "rsr_tenant req' = rsr_tenant req" "rsr_key req' = rsr_key req"
    and valid: "validSaleRequest req' = Inr r"
    and "checkVerdictFor svc' (sale_request req') = Inr v"
    and "roundingVerdictFor svc' (sale_request req') = Inr w"
    and "checkTotalFor svc' (sale_request req') v = Inr owed"
  shows "\<exists>p' \<in> set (pd_payments s2). payment_moves p p' \<and>
    PaymentService_RegisterSale id svc' c' req' s2 = Inr (p', s2)"
proof -
  from first have p: "p \<in> set (pd_payments s1)" "pmt_tenant p = rsr_tenant req" "pmt_key p = rsr_key req"
    using RegisterSale_stored by blast+
  have "pay_evolves s s1" using tx_withinD [OF RegisterSale_within first] .
  then have sch: "pay_schema_ok s2" and move: "rows_move payment_moves (pd_payments s1) (pd_payments s2)"
    using assms(2) pay_run_evolves [OF run] by (simp_all add: pay_evolves_def)
  from rows_moveD [OF move p(1)] obtain p' where
    p': "p' \<in> set (pd_payments s2)" "payment_moves p p'" by (elim bexE)
  then have "pmt_tenant p' = pmt_tenant p" "pmt_key p' = pmt_key p" by (simp_all add: payment_moves_fields)
  with p p'(1) have found: "sale_by_key (rsr_tenant req') (rsr_key req') s2 = Some p'"
    using same sch by (auto intro: sale_by_key_unique)
  have "rsr_tenant req' \<noteq> uuid_Nil" using RegisterSale_Inr [OF first] same by simp
  from RegisterSale_replays [OF found this assms(6-9)] p' show ?thesis by blast
qed

text \<open>The check has been closed when the retry arrives.\<close>

definition demo_closed_svc :: payment_service where
  "demo_closed_svc = (demo_svc 1700)
     \<lparr>svc_checks := Some \<lparr>AssertCheckWritable = (\<lambda>_ _ _. Inl PubCheckNotOpen), CheckTotal = (\<lambda>_ _. Inr 1700)\<rparr>\<rparr>"

theorem retry_returns_first_sale_witness:
  "\<exists>p'. PaymentService_RegisterSale id demo_closed_svc (demo_at 5) (demo_request ''a'' MethodCash 600) demo_settled =
      Inr (p', demo_settled) \<and> p' \<in> set (pd_payments demo_settled)"
proof -
  let ?req = "demo_request ''a'' MethodCash 600"
  from demo_cash obtain p where
    first: "PaymentService_RegisterSale id (demo_svc 1700) (demo_at 2) ?req demo_opened = Inr (p, demo_sold)"
    unfolding demo_cash_call_def by blast
  have sch: "pay_schema_ok demo_opened" by code_simp
  have "validSaleRequest ?req = Inr (sale_request ?req)" by code_simp
  moreover have "checkVerdictFor demo_closed_svc (sale_request ?req) = Inr (Some PayCheckNotOpen)" by code_simp
  moreover have "roundingVerdictFor demo_closed_svc (sale_request ?req) = Inr (None, zero_policy)" by code_simp
  moreover have "checkTotalFor demo_closed_svc (sale_request ?req) (Some PayCheckNotOpen) = Inr 0" by code_simp
  ultimately show ?thesis
    using retry_returns_first_sale [OF first sch demo_later_run refl refl] by blast
qed

lemma guard_keeps:
  assumes "guardAgainstOverpayment tx req owed policy s = Inr (y, s')" and "tx_tenant tx = rsr_tenant req"
  shows "s' = s"
  using assms
  by (auto simp: guardAgainstOverpayment_def PaymentRepo_LockCheckForPayment_def Let_def tx_inv
      lookup_key_Inr split: if_splits dest!: check_sums_Inr [rotated])

text \<open>When two stations race on one key, the loser gets the winner's payment: the
  unique index refuses its insert, its own transaction leaves nothing behind, and the
  state is the one the winner made.\<close>

theorem racing_sales_agree:
  assumes run: "PaymentService_RegisterSale others svc c req s = Inr (p, s')"
    and lost: "sale_by_key (rsr_tenant req) (rsr_key req) s = None"
      "sale_by_key (rsr_tenant req) (rsr_key req) (others s) = Some q"
  shows "p = q \<and> s' = others s"
proof -
  let ?r = "sale_request req" and ?tx = "pay_tx c (rsr_tenant req)"
  from run obtain cv rv policy owed where
    run: "(case PayTenantTx c (rsr_tenant ?r) (registerSaleTx others svc ?r cv rv policy owed) s of
       Inr r \<Rightarrow> Inr r
     | Inl e \<Rightarrow> (if e = PayDuplicateIdempotencyKey
                then fetchExistingByIdempotencyKey c (rsr_tenant ?r) (rsr_key ?r) (others s)
                else Inl e)) = Inr (p, s')"
    by (auto simp: PaymentService_RegisterSale_def tx_bind_Inr tx_lift_Inr validSaleRequest_Inr)
  show ?thesis
  proof (cases "PayTenantTx c (rsr_tenant req) (registerSaleTx others svc ?r cv rv policy owed) s")
    case (Inl e)
    with run have "fetchExistingByIdempotencyKey c (rsr_tenant req) (rsr_key req) (others s) = Inr (p, s')"
      by (auto split: if_splits)
    with lost show ?thesis
      by (auto simp: fetchExistingByIdempotencyKey_def GetByIdempotencyKey_Inr rls_find_by_key)
  next
    case (Inr x)
    then obtain u s1 where new: "registerSaleTx others svc ?r cv rv policy owed ?tx s = Inr (u, s1)"
      by (cases x) auto
    have guard: "y = None \<and> s2 = s"
      if "(if hasCheck req then guardAgainstOverpayment ?tx ?r owed policy else tx_return None) s = Inr (y, s2)"
      for y s2
      using that lost(1) by (cases y) (auto split: if_splits dest: guard_keeps guardAgainstOverpayment_Some)
    from new lost(1) obtain v s2 where "createPayment others svc ?r ?tx s = Inr (v, s2)"
      by (auto simp: registerSaleTx_def tx_inv lookup_key_Inr split: option.split_asm
          dest!: guard requireCashSession_Inr)
    then have "\<exists>q'. pmt_key q' = rsr_key req \<and> pmt_tenant q' = rsr_tenant req \<and>
        payments_uniq (pd_payments (others s) @ [q'])"
      by (auto simp: createPayment_def tx_inv PaymentRepo_Create_Inr payment_insert_row_def requested_payment_def)
    moreover have "q \<in> set (pd_payments (others s))" "pmt_tenant q = rsr_tenant req" "pmt_key q = rsr_key req"
      using lost(2) by (auto simp: sale_by_key_def dest: find_row_Some)
    ultimately show ?thesis by (auto simp: payments_uniq_def image_iff)
  qed
qed

theorem racing_sales_agree_witness:
  "\<exists>p s'. PaymentService_RegisterSale (\<lambda>_. demo_sold) (demo_svc 1700) (demo_at 2)
      (demo_request ''a'' MethodCash 600) demo_opened = Inr (p, s') \<and> s' = demo_sold \<and>
    p = demo_payment 1001 ''a'' MethodCash 600 2"
proof -
  let ?run = "PaymentService_RegisterSale (\<lambda>_. demo_sold) (demo_svc 1700) (demo_at 2)
      (demo_request ''a'' MethodCash 600)"
  have "tx_ok ?run demo_opened" by code_simp
  then obtain p s' where run: "?run demo_opened = Inr (p, s')" by (rule tx_okE)
  have "sale_by_key 1 ''a'' demo_opened = None" by code_simp
  moreover have "sale_by_key 1 ''a'' demo_sold = Some (demo_payment 1001 ''a'' MethodCash 600 2)"
    by (simp add: demo_sold_def sale_by_key_def find_row_def demo_payment_def)
  ultimately have "p = demo_payment 1001 ''a'' MethodCash 600 2 \<and> s' = demo_sold"
    using racing_sales_agree [OF run] by (simp add: demo_request_def)
  with run show ?thesis by blast
qed

section \<open>Rounding\<close>

text \<open>A sale that gives change away closes the account of its check: amount and
  concession together are exactly what was still due, the concession is smaller than the
  step of the branch's policy and the amount a multiple of it, the policy allows the
  method, and all that was ever conceded on the check stays under the policy's
  ceiling.\<close>

theorem rounded_sale_settles:
  assumes run: "PaymentService_RegisterSale id svc c req s = Inr (p, s')" and "ledger_ok s"
    and "s' \<noteq> s" and "rsr_tenant req = tn" and "rsr_check req = Some k" and "k \<noteq> uuid_Nil"
    and "bills svc tn k bill" and "int64_range bill" and "collected tn k s \<le> bill"
    and rounded: "rsr_rounding req \<noteq> 0"
  shows "collected tn k s < bill \<and> collected tn k s' = bill \<and>
    collected tn k s + rsr_amount req + rsr_rounding req = bill \<and>
    (\<exists>reader policy. svc_rounding svc = Some reader \<and> reader tn (rsr_branch req) = Inr policy \<and>
       roundingEnabledFor policy (rsr_method req) \<and>
       0 < rsr_rounding req \<and> rsr_rounding req < rnd_step policy \<and>
       rsr_amount req mod rnd_step policy = 0 \<and>
       conceded tn k s' \<le> rnd_max_per_check policy)"
proof -
  note effect = RegisterSale_collects [OF assms(1-9)]
  then obtain policy :: rounding_policy where
      verdict: "roundingVerdictFor svc (sale_request req) = Inr (None, policy)"
    and cap: "conceded tn k s' \<le> rnd_max_per_check policy"
    and sums: "collected tn k s' = bill" "collected tn k s' = collected tn k s + rsr_amount req + rsr_rounding req"
    using rounded by blast
  have positive: "0 < rsr_amount req" "0 \<le> rsr_rounding req" using RegisterSale_Inr [OF run] by simp_all
  from verdict rounded obtain reader where "svc_rounding svc = Some reader"
    "reader (rsr_tenant req) (rsr_branch req) = Inr policy" "roundingEnabledFor policy (rsr_method req)"
    "rsr_rounding req < rnd_step policy" "rsr_amount req mod rnd_step policy = 0"
    by (auto simp: roundingVerdictFor_def not_le split: if_splits option.splits sum.splits)
  with cap sums positive rounded assms(4) show ?thesis by auto
qed

definition demo_rounded_request :: register_sale_request where
  "demo_rounded_request = (demo_request ''a'' MethodCash 1600)\<lparr>rsr_rounding := 50\<rparr>"

theorem rounded_sale_settles_witness:
  "\<exists>p s'. PaymentService_RegisterSale id (demo_svc 1650) (demo_at 2) demo_rounded_request demo_opened =
      Inr (p, s') \<and> collected 1 100 s' = 1650 \<and> conceded 1 100 s' \<le> 200"
proof -
  have "tx_ok (PaymentService_RegisterSale id (demo_svc 1650) (demo_at 2) demo_rounded_request) demo_opened"
    by code_simp
  then obtain p s' where
    run: "PaymentService_RegisterSale id (demo_svc 1650) (demo_at 2) demo_rounded_request demo_opened = Inr (p, s')"
    by (rule tx_okE)
  have ok: "ledger_ok demo_opened" by code_simp
  have facts: "rsr_tenant demo_rounded_request = 1" "rsr_check demo_rounded_request = Some 100"
    "rsr_rounding demo_rounded_request \<noteq> 0" "(100 :: uuid) \<noteq> uuid_Nil" "int64_range 1650"
    "collected 1 100 demo_opened \<le> 1650" "pd_payments demo_opened = []" by code_simp+
  have bill: "bills (demo_svc 1650) 1 100 1650" by (auto simp: bills_def demo_svc_def demo_guard_def)
  have "s' \<noteq> demo_opened" using RegisterSale_stored [OF run] facts(7) by auto
  from rounded_sale_settles [OF run ok this facts(1,2,4) bill facts(5,6,3)]
  have "collected 1 100 s' = 1650" "conceded 1 100 s' \<le> 200"
    by (auto simp: demo_svc_def demo_rounding_def)
  with run show ?thesis by blast
qed

section \<open>The device's answer\<close>

definition finished :: "fiscal_status \<Rightarrow> bool" where
  "finished st \<longleftrightarrow> st \<notin> {FiscalPending, FiscalSubmitted}"

lemma finished_for_good: "rtranclp fiscal_step a b \<Longrightarrow> finished a \<Longrightarrow> finished b"
  by (induction rule: rtranclp_induct) (auto simp: fiscal_step_def finished_def result_sources_Some)

lemma answer_finishes:
  assumes "PaymentService_OnFiscalResult c res s = Inr (u, s')"
    and r: "r \<in> set (pd_subs s)" and "sub_tenant r = res_tenant res" and "sub_id r = res_submission res"
    and st: "res_status res \<in> {FiscalCompleted, FiscalFailed, FiscalExpired, FiscalVoided}"
  shows "\<exists>r' \<in> set (pd_subs s'). sub_id r' = sub_id r \<and> sub_tenant r' = sub_tenant r \<and> finished (sub_status r')"
proof (cases "result_hits res r")
  case True
  with OnFiscalResult_Inr [OF assms(1)] r
  have "answered res (ctx_now c) r \<in> set (pd_subs s')" by (auto simp: set_update_rows)
  with st show ?thesis by (intro bexI) (auto simp: answered_def finished_def)
next
  case False
  with assms(3,4) st have "finished (sub_status r)"
    by (auto simp: result_hits_def finished_def result_sources_Some)
  moreover have "r \<in> set (pd_subs s')"
    using OnFiscalResult_Inr [OF assms(1)] r False by (auto simp: set_update_rows)
  ultimately show ?thesis by blast
qed

text \<open>C18: an answer of the device counts once. After the first result of a registration no
  later one, whether it repeats the first, contradicts it, or comes from the webhook, the
  worker or an operator's expiry, changes a payment, a receipt or an event, and whatever
  happened in between.\<close>

theorem answer_counts_once:
  assumes first: "PaymentService_OnFiscalResult c res s = Inr (u, s1)" and sch: "pay_schema_ok s"
    and r: "r \<in> set (pd_subs s)" "sub_tenant r = res_tenant res" "sub_id r = res_submission res"
    and "res_status res \<in> {FiscalCompleted, FiscalFailed, FiscalExpired, FiscalVoided}"
    and run: "pay_run t s1 tr t' s2"
    and again: "PaymentService_OnFiscalResult c' res' s2 = Inr (u', s3)"
    and same: "res_tenant res' = res_tenant res" "res_submission res' = res_submission res"
    and st': "res_status res' \<in> {FiscalCompleted, FiscalFailed, FiscalExpired}"
  shows "s3 = s2"
proof -
  from answer_finishes [OF first r assms(6)] obtain r1 where
    r1: "r1 \<in> set (pd_subs s1)" "sub_id r1 = sub_id r" "finished (sub_status r1)" by blast
  have sch2: "pay_schema_ok s2" and moves: "rows_move submission_moves (pd_subs s1) (pd_subs s2)"
    using tx_withinD [OF OnFiscalResult_within first] sch pay_run_evolves [OF run]
    by (simp_all add: pay_evolves_def)
  from rows_moveD [OF moves r1(1)] obtain r2 where
    r2: "r2 \<in> set (pd_subs s2)" "submission_moves r1 r2" by (elim bexE)
  then have id2: "sub_id r2 = sub_id r" and fin: "finished (sub_status r2)"
    using r1 by (auto simp: submission_moves_def intro: finished_for_good)
  have keys: "distinct (map sub_id (pd_subs s2))"
    using sch2 by (simp add: pay_schema_ok_def table_ok_def)
  have "\<not> result_hits res' q" if q: "q \<in> set (pd_subs s2)" for q
  proof
    assume hit: "result_hits res' q"
    then have "sub_id q = sub_id r2" using same r(3) id2 by (simp add: result_hits_def)
    with keys q r2(1) have "q = r2" by (metis distinct_key_unique)
    with hit fin st' show False by (auto simp: result_hits_def finished_def result_sources_Some)
  qed
  with OnFiscalResult_Inr [OF again] show ?thesis by blast
qed

definition demo_answer :: "fiscal_status \<Rightarrow> fiscal_result" where
  "demo_answer st = zero_result\<lparr>res_submission := 1002, res_tenant := 1, res_branch := 10,
     res_payment := 1001, res_status := st, res_receipt_no := ''7''\<rparr>"

text \<open>The cash payment is registered, a payment without a check is taken, and then the
  device claims the first one failed.\<close>

theorem answer_counts_once_witness:
  "\<exists>u s1 p s2. PaymentService_OnFiscalResult (demo_at 4) (demo_answer FiscalCompleted) demo_sold = Inr (u, s1) \<and>
     PaymentService_RegisterSale id (demo_svc 1700) (demo_at 5)
       ((demo_request ''c'' MethodCash 300)\<lparr>rsr_check := None\<rparr>) s1 = Inr (p, s2) \<and>
     PaymentService_OnFiscalResult (demo_at 6) (demo_answer FiscalFailed) s2 = Inr ((), s2)"
proof -
  let ?first = "PaymentService_OnFiscalResult (demo_at 4) (demo_answer FiscalCompleted)"
  let ?sale = "PaymentService_RegisterSale id (demo_svc 1700) (demo_at 5)
       ((demo_request ''c'' MethodCash 300)\<lparr>rsr_check := None\<rparr>)"
  let ?again = "PaymentService_OnFiscalResult (demo_at 6) (demo_answer FiscalFailed)"
  have "tx_ok ?first demo_sold" by code_simp
  from tx_ok_after [OF this] obtain u where first: "?first demo_sold = Inr (u, after ?first demo_sold)" ..
  have "tx_ok ?sale (after ?first demo_sold)" by code_simp
  from tx_ok_after [OF this] obtain p where
    sale: "?sale (after ?first demo_sold) = Inr (p, after ?sale (after ?first demo_sold))" ..
  have "tx_ok ?again (after ?sale (after ?first demo_sold))" by code_simp
  from tx_ok_after [OF this] obtain u' s3 where
    again: "?again (after ?sale (after ?first demo_sold)) = Inr (u', s3)" by blast
  have run: "pay_run 4 (after ?first demo_sold) [(demo_svc 1700, demo_at 5)] 5
      (after ?sale (after ?first demo_sold))"
    using pay_run_step [OF pay_run_nil pay_step.step_sale [OF sale], of 4] by simp
  have sch: "pay_schema_ok demo_sold" by code_simp
  have r: "demo_registration 1002 1001 MethodCash 600 2 \<in> set (pd_subs demo_sold)" by (simp add: demo_sold_def)
  have "s3 = after ?sale (after ?first demo_sold)"
    by (rule answer_counts_once [OF first sch r _ _ _ run again])
       (simp_all add: demo_answer_def demo_registration_def)
  with first sale again show ?thesis by (metis old.unit.exhaust)
qed

end
