(* ===== verification/Pay_Book.thy ===== *)
theory Pay_Book
  imports Pay_Demo
begin

text \<open>
  An account book, the abstract specification of what the payment module promises about
  money: entries that wait, are paid, refused or reversed, never more on a check than its
  bill, in unbounded arithmetic and without registrations, receipts, drawers, adapters or
  retries. Every run of the module is a run of the book.
\<close>

section \<open>The book\<close>

datatype entry_state = Waiting | Paid | Refused | Reversed

record book_entry =
  be_id :: uuid
  be_tenant :: uuid
  be_key :: string
  be_check :: "uuid option"
  be_worth :: int
  be_state :: entry_state

definition charged :: "uuid \<Rightarrow> uuid \<Rightarrow> book_entry list \<Rightarrow> int" where
  "charged tn k b =
     (\<Sum>e \<leftarrow> filter (\<lambda>e. be_tenant e = tn \<and> be_check e = Some k \<and> be_state e \<in> {Waiting, Paid}) b.
        be_worth e)"

inductive book_step :: "(uuid \<Rightarrow> uuid \<Rightarrow> int) \<Rightarrow> book_entry list \<Rightarrow> book_entry list \<Rightarrow> bool"
  for bill where
  book_enter: "be_state e = Waiting \<Longrightarrow> 0 < be_worth e \<Longrightarrow> be_id e \<notin> be_id ` set b \<Longrightarrow>
    (be_tenant e, be_key e) \<notin> (\<lambda>x. (be_tenant x, be_key x)) ` set b \<Longrightarrow>
    (\<And>k. be_check e = Some k \<Longrightarrow> k \<noteq> uuid_Nil \<Longrightarrow>
       charged (be_tenant e) k b + be_worth e \<le> bill (be_tenant e) k) \<Longrightarrow>
    book_step bill b (b @ [e])"
| book_answer: "be_state e = Waiting \<Longrightarrow> st \<in> {Paid, Refused, Reversed} \<Longrightarrow>
    book_step bill (xs @ e # ys) (xs @ e\<lparr>be_state := st\<rparr> # ys)"
| book_reverse: "be_state e = Paid \<Longrightarrow>
    book_step bill (xs @ e # ys) (xs @ e\<lparr>be_state := Reversed\<rparr> # ys)"

section \<open>What the database says of it\<close>

fun entry_state_of :: "payment_status \<Rightarrow> entry_state" where
  "entry_state_of PaymentPending = Waiting"
| "entry_state_of PaymentCompleted = Paid"
| "entry_state_of PaymentVoided = Reversed"
| "entry_state_of _ = Refused"

definition entry_of :: "payment \<Rightarrow> book_entry" where
  "entry_of p =
     \<lparr>be_id = pmt_id p, be_tenant = pmt_tenant p, be_key = pmt_key p, be_check = pmt_check p,
      be_worth = settles p, be_state = entry_state_of (pmt_status p)\<rparr>"

definition book_of :: "pay_db \<Rightarrow> book_entry list" where
  "book_of s = map entry_of (pd_payments s)"

lemma entry_of_fields [simp]:
  "be_id (entry_of p) = pmt_id p" "be_tenant (entry_of p) = pmt_tenant p"
  "be_key (entry_of p) = pmt_key p" "be_check (entry_of p) = pmt_check p"
  "be_worth (entry_of p) = settles p" "be_state (entry_of p) = entry_state_of (pmt_status p)"
  by (simp_all add: entry_of_def)

lemma entry_state_live:
  "entry_state_of st \<in> {Waiting, Paid} \<longleftrightarrow> st \<in> {PaymentPending, PaymentCompleted}"
  by (cases st) auto

lemma charged_book: "charged tn k (book_of s) = collected tn k s"
proof -
  have "filter (\<lambda>e. be_tenant e = tn \<and> be_check e = Some k \<and> be_state e \<in> {Waiting, Paid}) (book_of s) =
      map entry_of (filter (carries_money tn k) (pd_payments s))"
    unfolding book_of_def filter_map
    by (intro arg_cong [where f = "map entry_of"] filter_cong)
      (simp_all add: carries_money_def entry_state_live [simplified])
  then show ?thesis by (simp add: charged_def collected_def comp_def)
qed

section \<open>The simulation\<close>

lemma update_rows_one:
  assumes "distinct (map key rows)" and "\<And>r. P r \<Longrightarrow> key r = i" and "r \<in> set rows" and "P r"
  shows "\<exists>xs ys. rows = xs @ r # ys \<and> update_rows P f rows = xs @ f r # ys"
proof -
  from assms(3) obtain xs ys where rows: "rows = xs @ r # ys" by (auto simp: in_set_conv_decomp)
  with assms have "\<forall>q \<in> set xs \<union> set ys. \<not> P q" by (auto simp: image_iff)
  with rows assms(4) have "update_rows P f rows = xs @ f r # ys" by (auto simp: update_rows_def map_idI)
  with rows show ?thesis by blast
qed

lemma sale_enters:
  assumes run: "PaymentService_RegisterSale id svc c req s = Inr (p, s')" and ok: "ledger_ok s"
    and bill: "\<And>tn k. bills svc tn k (bill tn k)" "\<And>tn k. int64_range (bill tn k)"
    and before: "\<And>tn k. k \<noteq> uuid_Nil \<Longrightarrow> collected tn k s \<le> bill tn k"
  shows "book_of s' = book_of s \<or> book_step bill (book_of s) (book_of s')"
proof (cases "s' = s")
  case False
  from RegisterSale_effect [OF run] False
  have p: "p = created_payment (ctx_now c) (pd_rand s (pd_ctr s)) (sale_request req)"
    and s': "pd_payments s' = pd_payments s @ [p]" by simp_all
  have ok': "ledger_ok s'" using run ok by (rule RegisterSale_ledger)
  have "distinct (map pmt_id (pd_payments s @ [p]))" "payments_uniq (pd_payments s @ [p])"
    using ledger_ok_tables(1,6) [OF ok'] by (simp_all add: s')
  then have fresh: "be_id (entry_of p) \<notin> be_id ` set (book_of s)"
    "(be_tenant (entry_of p), be_key (entry_of p)) \<notin> (\<lambda>x. (be_tenant x, be_key x)) ` set (book_of s)"
    by (auto simp: book_of_def payments_uniq_def image_image)
  have worth: "0 < settles p" and state: "entry_state_of (pmt_status p) = Waiting"
    using RegisterSale_Inr [OF run] p by simp_all
  have guard: "charged (pmt_tenant p) k (book_of s) + settles p \<le> bill (pmt_tenant p) k"
    if k: "pmt_check p = Some k" "k \<noteq> uuid_Nil" for k
  proof -
    have "rsr_check req = Some k" using k p by simp
    from RegisterSale_collects [OF run ok False refl this k(2) bill(1,2) before [OF k(2)]] p
    show ?thesis by (simp add: charged_book )
  qed
  have "book_step bill (book_of s) (book_of s @ [entry_of p])"
    using fresh worth state guard by (intro book_enter) simp_all
  then show ?thesis by (simp add: book_of_def s')
qed simp

lemma result_answers:
  assumes ok: "ledger_ok s" and res: "result_of_row s res"
    and run: "PaymentService_OnFiscalResult c res s = Inr (u, s')"
  shows "book_of s' = book_of s \<or> book_step bill (book_of s) (book_of s')"
proof (cases "\<exists>r \<in> set (pd_subs s). result_hits res r")
  case True
  then obtain r where r: "r \<in> set (pd_subs s)" "result_hits res r" by blast
  have al: "list_all2 ledger_row (pd_subs s) (pd_payments s)" using ok by (simp add: ledger_ok_def)
  from ledger_partner [OF al r(1)] obtain p where p: "p \<in> set (pd_payments s)" "ledger_row r p" by blast
  have hit: "payment_hit res p" using hits_iff [OF ok res r r(1) p(2)] r(2) by simp
  let ?f = "settle_payment res (ctx_now c) (pd_rand s (pd_ctr s))"
  have "pd_payments s' = update_rows (payment_hit res) ?f (pd_payments s)"
    using OnFiscalResult_Inr [OF run] r by blast
  moreover obtain xs ys where "pd_payments s = xs @ p # ys"
    "update_rows (payment_hit res) ?f (pd_payments s) = xs @ ?f p # ys"
    using update_rows_one [where i = "res_payment res" and P = "payment_hit res", OF ledger_ok_tables(1) [OF ok] payment_hit_key p(1) hit]
    by blast
  ultimately have books: "book_of s = map entry_of xs @ entry_of p # map entry_of ys"
    "book_of s' = map entry_of xs @ (entry_of p)\<lparr>be_state := entry_state_of (payment_outcome (res_status res))\<rparr> # map entry_of ys"
    by (auto simp: book_of_def entry_of_def settle_payment_def )
  from r(2) p(2) have "pmt_status p = PaymentPending \<and>
      res_status res \<in> {FiscalCompleted, FiscalFailed, FiscalExpired, FiscalVoided} \<or>
      pmt_status p = PaymentCompleted \<and> res_status res = FiscalVoided"
    by (auto simp: result_hits_def result_sources_Some ledger_row_def)
  then show ?thesis
  proof
    assume w: "pmt_status p = PaymentPending \<and>
      res_status res \<in> {FiscalCompleted, FiscalFailed, FiscalExpired, FiscalVoided}"
    show ?thesis unfolding books by (rule disjI2, rule book_answer) (use w in auto)
  next
    assume w: "pmt_status p = PaymentCompleted \<and> res_status res = FiscalVoided"
    have "be_state (entry_of p) = Paid" using w by simp
    from book_reverse [OF this, of bill] w show ?thesis unfolding books by simp
  qed
next
  case False
  then show ?thesis using OnFiscalResult_Inr [OF run] by auto
qed

lemma pay_step_book:
  assumes step: "pay_step svc c s s'" and ok: "ledger_ok s"
    and bill: "\<And>tn k. bills svc tn k (bill tn k)" "\<And>tn k. int64_range (bill tn k)"
    and before: "\<And>tn k. k \<noteq> uuid_Nil \<Longrightarrow> collected tn k s \<le> bill tn k"
  shows "book_of s' = book_of s \<or> book_step bill (book_of s) (book_of s')"
proof -
  have "pay_schema_ok s" using ok by (simp add: ledger_ok_def)
  with step show ?thesis
  proof (cases rule: pay_step_kinds)
    case (sale req p)
    then show ?thesis using ok bill before by (rule sale_enters)
  next
    case sink
    then show ?thesis using ok unfolding sunk_def by (blast dest: result_answers)
  next
    case kept
    then show ?thesis by (simp add: book_of_def same_ledger_payments)
  qed
qed

text \<open>C5: the payment module implements the account book. Whatever calls of the services,
  the webhook and the workers a run consists of, the payments it leaves behind are those
  of a run of the book: entered once under a fresh key, within the bill of their check,
  then answered at most once and reversed at most once.\<close>

theorem payments_refine_book:
  assumes "pay_run t s tr t' s'" and "ledger_ok s"
    and "\<And>svc c tn k. (svc, c) \<in> set tr \<Longrightarrow> bills svc tn k (bill tn k)"
    and "\<And>tn k. int64_range (bill tn k)"
    and "\<And>tn k. k \<noteq> uuid_Nil \<Longrightarrow> collected tn k s \<le> bill tn k"
  shows "rtranclp (book_step bill) (book_of s) (book_of s')"
  using assms
proof (induction rule: pay_run.induct)
  case (pay_run_step t s tr t' s' svc c s'')
  have "ledger_ok s'" using pay_run_step.hyps(1) pay_run_step.prems(1) by (rule pay_run_ledger)
  moreover have "collected tn k s' \<le> bill tn k" if "k \<noteq> uuid_Nil" for tn k
    using pay_run_step.hyps(1) pay_run_step.prems(1) that
    by (rule pay_run_collects) (use pay_run_step.prems that in auto)
  moreover have "bills svc tn k (bill tn k)" for tn k
    by (rule pay_run_step.prems(2) [of svc c]) simp
  ultimately have "book_of s'' = book_of s' \<or> book_step bill (book_of s') (book_of s'')"
    using pay_step_book [OF pay_run_step.hyps(2), of bill] pay_run_step.prems by simp
  moreover have "rtranclp (book_step bill) (book_of s) (book_of s')"
    using pay_run_step.prems by (intro pay_run_step.IH) auto
  ultimately show ?case by (auto intro: rtranclp.rtrancl_into_rtrancl)
qed simp

text \<open>The evening of the demonstration, as the book has it.\<close>

theorem payments_refine_book_witness:
  "rtranclp (book_step (\<lambda>_ _. 1700)) [] (book_of demo_settled) \<and>
   map be_state (book_of demo_settled) = [Paid, Waiting] \<and> charged 1 100 (book_of demo_settled) = 1700"
proof -
  have "bills svc tn k 1700" if "(svc, c) \<in> set (demo_trace [1, 2, 3, 4])" for svc c tn k
    using that by (auto simp: bills_def demo_svc_def demo_guard_def)
  moreover have "int64_range 1700" by code_simp
  moreover have "collected tn k demo_pay \<le> 1700" for tn k by (simp add: collected_def demo_pay_def)
  moreover have "book_of demo_pay = []" by (simp add: book_of_def demo_pay_def)
  ultimately have "rtranclp (book_step (\<lambda>_ _. 1700)) [] (book_of demo_settled)"
    using payments_refine_book [OF demo_settled_run demo_pay_ledger, of "\<lambda>_ _. 1700"] by simp
  moreover have "map be_state (book_of demo_settled) = [Paid, Waiting]" by code_simp
  moreover have "charged 1 100 (book_of demo_settled) = 1700" by code_simp
  ultimately show ?thesis by blast
qed

end
