(* ===== verification/Pay_Worker_Props.thy ===== *)
theory Pay_Worker_Props
  imports Pay_Demo
begin

text \<open>
  The worker and the drivers: how a batch is split, how long a failing device is tried,
  what the vendor is sent, and the arithmetic of the totals.
\<close>

section \<open>Shards\<close>

text \<open>The reference: the submissions of the first key, in their order, then the rest.\<close>

fun by_terminal :: "fiscal_submission list \<Rightarrow> fiscal_submission list list" where
  "by_terminal [] = []"
| "by_terminal (x # xs) =
     (x # filter (\<lambda>y. shardKeyOf y = shardKeyOf x) xs) #
     by_terminal (filter (\<lambda>y. shardKeyOf y \<noteq> shardKeyOf x) xs)"

text \<open>What the loop knows: each shard has one key of its own, and the index finds it.\<close>

definition shard_index :: "(uuid \<times> uuid \<rightharpoonup> nat) \<Rightarrow> (uuid \<times> uuid) list \<Rightarrow> bool" where
  "shard_index index ks \<longleftrightarrow>
     distinct ks \<and> (\<forall>k i. index k = Some i \<longleftrightarrow> i < length ks \<and> ks ! i = k)"

lemma shard_loop_eq:
  assumes "shard_index index ks" and "length shards = length ks"
  shows "shard_loop index shards batch =
    map2 (\<lambda>k sh. sh @ filter (\<lambda>y. shardKeyOf y = k) batch) ks shards @
    by_terminal (filter (\<lambda>y. shardKeyOf y \<notin> set ks) batch)"
  using assms
proof (induction batch arbitrary: index ks shards)
  case Nil
  then show ?case by (auto intro: nth_equalityI)
next
  case (Cons x xs)
  let ?k = "shardKeyOf x"
  show ?case
  proof (cases "index ?k")
    case (Some i)
    with Cons.prems have i: "i < length ks" "ks ! i = ?k" and ks: "distinct ks"
      by (simp_all add: shard_index_def del: split_paired_All)
    then have "?k \<in> set ks" using nth_mem by metis
    moreover have "map2 (\<lambda>k sh. sh @ filter (\<lambda>y. shardKeyOf y = k) xs) ks (shards[i := shards ! i @ [x]]) =
        map2 (\<lambda>k sh. sh @ filter (\<lambda>y. shardKeyOf y = k) (x # xs)) ks shards"
      using Cons.prems(2) i ks by (intro nth_equalityI) (auto simp: nth_list_update nth_eq_iff_index_eq)
    ultimately show ?thesis
      using Cons.IH [OF Cons.prems(1), of "shards[i := shards ! i @ [x]]"] Cons.prems(2) Some by simp
  next
    case None
    have "index ?k = Some i \<longleftrightarrow> i < length ks \<and> ks ! i = ?k" for i
      using Cons.prems(1) by (simp add: shard_index_def del: split_paired_All)
    with None have new: "?k \<notin> set ks" by (auto simp: in_set_conv_nth)
    have "shard_index (index(?k \<mapsto> length shards)) (ks @ [?k])"
      using Cons.prems new by (auto simp: shard_index_def nth_append less_Suc_eq in_set_conv_nth simp del: split_paired_All)
    from Cons.IH [OF this, of "shards @ [[x]]"] Cons.prems(2)
    have "shard_loop index shards (x # xs) =
        map2 (\<lambda>k sh. sh @ filter (\<lambda>y. shardKeyOf y = k) xs) ks shards @
        (x # filter (\<lambda>y. shardKeyOf y = ?k) xs) # by_terminal (filter (\<lambda>y. shardKeyOf y \<notin> set (ks @ [?k])) xs)"
      using None by (simp add: fun_upd_def)
    moreover have "map2 (\<lambda>k sh. sh @ filter (\<lambda>y. shardKeyOf y = k) xs) ks shards =
        map2 (\<lambda>k sh. sh @ filter (\<lambda>y. shardKeyOf y = k) (x # xs)) ks shards"
      using new Cons.prems(2) by (intro nth_equalityI) auto
    moreover have "filter (\<lambda>y. shardKeyOf y = ?k) xs =
        filter (\<lambda>y. shardKeyOf y = ?k) (filter (\<lambda>y. shardKeyOf y \<notin> set ks) xs)"
      using new by (auto intro: filter_cong)
    moreover have "filter (\<lambda>y. shardKeyOf y \<notin> set (ks @ [?k])) xs =
        filter (\<lambda>y. shardKeyOf y \<noteq> ?k) (filter (\<lambda>y. shardKeyOf y \<notin> set ks) xs)"
      by (auto intro: filter_cong)
    ultimately show ?thesis using new by simp
  qed
qed

lemma by_terminal_parts:
  "mset (concat (by_terminal xs)) = mset xs \<and>
   (\<forall>sh \<in> set (by_terminal xs). sh \<noteq> [] \<and> set sh \<subseteq> set xs \<and> sh = filter (\<lambda>y. shardKeyOf y = shardKeyOf (hd sh)) xs) \<and>
   distinct (map (shardKeyOf \<circ> hd) (by_terminal xs))"
proof (induction xs rule: by_terminal.induct)
  case (2 x xs)
  let ?rest = "filter (\<lambda>y. shardKeyOf y \<noteq> shardKeyOf x) xs"
  have other: "shardKeyOf (hd sh) \<noteq> shardKeyOf x" if "sh \<in> set (by_terminal ?rest)" for sh
  proof -
    have "sh \<noteq> []" "set sh \<subseteq> set ?rest" using 2 that by blast+
    then show ?thesis by (cases sh) auto
  qed
  have "sh = filter (\<lambda>y. shardKeyOf y = shardKeyOf (hd sh)) (x # xs)" if sh: "sh \<in> set (by_terminal ?rest)" for sh
  proof -
    have "sh = filter (\<lambda>y. shardKeyOf y = shardKeyOf (hd sh)) ?rest" using 2 sh by blast
    also have "\<dots> = filter (\<lambda>y. shardKeyOf y = shardKeyOf (hd sh)) xs"
      using other [OF sh] by (auto intro: filter_cong)
    finally show ?thesis using other [OF sh] by simp
  qed
  moreover have "set sh \<subseteq> set (x # xs) \<and> sh \<noteq> []" if "sh \<in> set (by_terminal ?rest)" for sh
    using 2 that by fastforce
  moreover have "mset (filter (\<lambda>y. shardKeyOf y = shardKeyOf x) xs) + mset ?rest = mset xs"
    by (simp add: multiset_partition [symmetric])
  ultimately show ?case using 2 other by (auto simp: image_iff)
qed simp

text \<open>The worker's split of a batch is the grouping by terminal. It loses and repeats
  nothing, every shard is non-empty and is the subsequence of the batch for one tenant
  and branch, in the order in which the batch was claimed, and no terminal is served by
  two shards, so two of its registrations are never with the device at once.\<close>

theorem shards_are_terminals:
  "shardByTerminal batch = by_terminal batch \<and>
   mset (concat (shardByTerminal batch)) = mset batch \<and>
   (\<forall>sh \<in> set (shardByTerminal batch).
      sh \<noteq> [] \<and> sh = filter (\<lambda>y. shardKeyOf y = shardKeyOf (hd sh)) batch) \<and>
   distinct (map (shardKeyOf \<circ> hd) (shardByTerminal batch))"
proof -
  have "shard_index Map.empty []" by (simp add: shard_index_def)
  from shard_loop_eq [OF this, of "[]" batch]
  have "shardByTerminal batch = by_terminal batch" by (simp add: shardByTerminal_def)
  with by_terminal_parts [of batch] show ?thesis by simp
qed

theorem shards_are_terminals_witness:
  "map (map fsb_payment) (shardByTerminal (map scan_submission
     [demo_registration 1 11 MethodCash 600 2, (demo_registration 2 12 MethodCash 600 2)\<lparr>sub_branch := 11\<rparr>,
      demo_registration 3 13 MethodCash 600 2])) = [[11, 13], [12]]"
proof -
  let ?batch = "map scan_submission
     [demo_registration 1 11 MethodCash 600 2, (demo_registration 2 12 MethodCash 600 2)\<lparr>sub_branch := 11\<rparr>,
      demo_registration 3 13 MethodCash 600 2]"
  have "map (map fsb_payment) (by_terminal ?batch) = [[11, 13], [12]]" by code_simp
  with shards_are_terminals [of ?batch] show ?thesis by simp
qed

section \<open>Totals\<close>

lemma div_thousand:
  fixes x :: int
  assumes "0 \<le> x"
  shows "0 \<le> x div 1000" and "x div 1000 \<le> x"
    and "1000 * (x div 1000) \<le> x" and "x < 1000 * (x div 1000) + 1000"
proof -
  have "1000 * (x div 1000) + x mod 1000 = x" by (rule mult_div_mod_eq)
  moreover have "0 \<le> x mod 1000" "x mod 1000 < 1000" by simp_all
  moreover show "0 \<le> x div 1000" using assms by (simp add: pos_imp_zdiv_nonneg_iff)
  ultimately show "x div 1000 \<le> x" "1000 * (x div 1000) \<le> x" "x < 1000 * (x div 1000) + 1000"
    by linarith+
qed

lemma roundDiv_thousand:
  assumes "\<bar>n\<bar> + 500 < 2 ^ 63"
  shows "roundDiv n 1000 = sgn n * ((\<bar>n\<bar> + 500) div 1000)"
proof -
  have half: "go_div 1000 2 = 500" by (simp add: go_div_def int64_range_def)
  have quot: "go_div (\<bar>n\<bar> + 500) 1000 = (\<bar>n\<bar> + 500) div 1000"
  proof -
    have "int64_range ((\<bar>n\<bar> + 500) div 1000)"
      using assms div_thousand [of "\<bar>n\<bar> + 500"] by (simp add: int64_range_def)
    then show ?thesis by (simp add: go_div_def sgn_if)
  qed
  have "int64_range n" "int64_range (- n)" "int64_range (\<bar>n\<bar> + 500)" "int64_range (- ((\<bar>n\<bar> + 500) div 1000))"
    using assms div_thousand(1,2) [of "\<bar>n\<bar> + 500"] by (auto simp: int64_range_def)
  moreover have "go_div (wrap64 500) 1000 = 0" by (simp add: go_div_def int64_range_def)
  ultimately show ?thesis using quot half
    by (simp add: roundDiv_def abs_if sgn_if split: if_splits)
qed

lemma rounds_to_nearest:
  fixes m :: int
  assumes "0 \<le> m"
  shows "2 * \<bar>1000 * ((m + 500) div 1000) - m\<bar> \<le> 1000 \<and>
    (2 * \<bar>1000 * ((m + 500) div 1000) - m\<bar> = 1000 \<longrightarrow> m < \<bar>1000 * ((m + 500) div 1000)\<bar>)"
proof -
  define q where "q = (m + 500) div 1000"
  have "1000 * q \<le> m + 500" "m + 500 < 1000 * q + 1000"
    unfolding q_def using div_thousand(3,4) [of "m + 500"] assms by simp_all
  with assms show ?thesis unfolding q_def [symmetric] by (auto simp: abs_if)
qed

text \<open>The total of a line is the exact product of price and quantity, rounded to the
  nearest minor unit, halves away from zero and the sign of the product kept; for whole
  pieces nothing is rounded. This holds for every product that leaves room for the
  rounding in 64 bits.\<close>

theorem line_total_nearest:
  assumes "\<bar>fln_unit_price l * fln_qty_milli l\<bar> + 500 < 2 ^ 63"
  shows "2 * \<bar>1000 * LineTotalMinor l - fln_unit_price l * fln_qty_milli l\<bar> \<le> 1000 \<and>
    (2 * \<bar>1000 * LineTotalMinor l - fln_unit_price l * fln_qty_milli l\<bar> = 1000 \<longrightarrow>
       \<bar>fln_unit_price l * fln_qty_milli l\<bar> < \<bar>1000 * LineTotalMinor l\<bar>) \<and>
    (\<forall>k. fln_qty_milli l = 1000 * k \<longrightarrow> LineTotalMinor l = k * fln_unit_price l)"
proof -
  let ?n = "fln_unit_price l * fln_qty_milli l"
  have "int64_range ?n" using assms by (auto simp: int64_range_def)
  then have total: "LineTotalMinor l = sgn ?n * ((\<bar>?n\<bar> + 500) div 1000)"
    using roundDiv_thousand [OF assms] by (simp add: LineTotalMinor_def)
  let ?q = "(\<bar>?n\<bar> + 500) div 1000"
  have "1000 * LineTotalMinor l - ?n = sgn ?n * (1000 * ?q - \<bar>?n\<bar>)"
    unfolding total by (simp add: right_diff_distrib sgn_mult_abs)
  then have diff: "\<bar>1000 * LineTotalMinor l - ?n\<bar> = (if ?n = 0 then 0 else \<bar>1000 * ?q - \<bar>?n\<bar>\<bar>)"
    by (simp add: abs_mult abs_sgn_eq)
  have size: "\<bar>1000 * LineTotalMinor l\<bar> = (if ?n = 0 then 0 else \<bar>1000 * ?q\<bar>)"
    unfolding total by (simp add: abs_mult abs_sgn_eq)
  have "2 * \<bar>1000 * LineTotalMinor l - ?n\<bar> \<le> 1000 \<and>
    (2 * \<bar>1000 * LineTotalMinor l - ?n\<bar> = 1000 \<longrightarrow> \<bar>?n\<bar> < \<bar>1000 * LineTotalMinor l\<bar>)"
    using rounds_to_nearest [of "\<bar>?n\<bar>"] unfolding diff size by simp
  moreover have "LineTotalMinor l = k * fln_unit_price l" if "fln_qty_milli l = 1000 * k" for k
  proof -
    let ?m = "k * fln_unit_price l"
    have n: "?n = 1000 * ?m" using that by simp
    have "(\<bar>1000 * ?m\<bar> + 500) div 1000 = \<bar>?m\<bar>" by (simp add: abs_mult)
    moreover have "sgn (1000 * ?m) = sgn ?m" by (simp only: sgn_mult) simp
    ultimately show ?thesis unfolding total n by (simp only: mult_sgn_abs)
  qed
  ultimately show ?thesis by blast
qed

theorem line_total_nearest_witness:
  "LineTotalMinor \<lparr>fln_name = ''peynir'', fln_unit_price = 25990, fln_qty_milli = 375, fln_tax = 1,
     fln_category = 0, fln_unit = ''KGM''\<rparr> = 9746"
proof -
  let ?l = "\<lparr>fln_name = ''peynir'', fln_unit_price = 25990, fln_qty_milli = 375, fln_tax = 1,
     fln_category = 0, fln_unit = ''KGM''\<rparr> :: fiscal_line"
  have "2 * \<bar>1000 * LineTotalMinor ?l - 9746250\<bar> \<le> 1000" using line_total_nearest [of ?l] by simp
  moreover have "x = 9746" if "2 * \<bar>1000 * x - 9746250\<bar> \<le> 1000" for x :: int
    using that by (simp add: abs_if split: if_splits)
  ultimately show ?thesis by blast
qed

section \<open>What the vendor is sent\<close>

text \<open>C40: the basket the vendor receives is the sale, and what the device confirms of it
  is what was sent: identity, lines with their prices, quantities and tax, payments with
  their methods can all be read back, every line's tax is the one of its section on the
  device, the totals were checked before, and an envelope that echoes the payments is
  understood as exactly these payments.\<close>

theorem basket_round_trip:
  assumes "buildBasket is_try sections sale isVoid = Inr b"
  shows "bsk_id b = fsl_submission sale \<and> bsk_void b = isVoid \<and> bsk_items b \<noteq> [] \<and>
    ValidateTotal sale = Inr () \<and>
    map (\<lambda>x. (bit_name x, bit_price x, bit_qty x, bit_tax x)) (bsk_items b) =
      map (\<lambda>l. (fln_name l, fln_unit_price l, fln_qty_milli l, fln_tax l)) (fsl_lines sale) \<and>
    list_all2 (\<lambda>x l. sections (fsl_tenant sale) (fsl_branch sale) (fln_category l) =
        Inr (bit_section x, bit_tax x)) (bsk_items b) (fsl_lines sale) \<and>
    map (\<lambda>c. (fcp_method c, fcp_amount c)) (confirmedPayments (map (\<lambda>p.
        \<lparr>wpi_amount = bpm_amount p, wpi_description = d, wpi_type = bpm_type p\<rparr>) (bsk_payments b))) =
      map (\<lambda>p. (fpm_method p, fpm_amount p)) (fsl_payments sale)"
proof -
  from assms obtain items payments where lines: "fsl_lines sale \<noteq> []" "ValidateTotal sale = Inr ()"
    and items: "basket_items sections (fsl_tenant sale) (fsl_branch sale) (fsl_lines sale) = Inr items"
    and payments: "basket_payments (fsl_payments sale) = Inr payments"
    and b: "bsk_id b = fsl_submission sale" "bsk_void b = isVoid" "bsk_items b = items" "bsk_payments b = payments"
    by (auto simp: buildBasket_def split: if_split_asm sum.split_asm)
  have sec: "list_all2 (\<lambda>x l. sections tn br (fln_category l) = Inr (bit_section x, bit_tax x)) is ls"
    if "basket_items sections tn br ls = Inr is" for tn br ls "is"
    using that by (induction ls arbitrary: "is") (auto split: sum.splits if_splits prod.splits)
  have "items \<noteq> []" using lines(1) basket_items_keep [OF items] by auto
  moreover have "map (\<lambda>c. (fcp_method c, fcp_amount c)) (confirmedPayments (map (\<lambda>p.
        \<lparr>wpi_amount = bpm_amount p, wpi_description = d, wpi_type = bpm_type p\<rparr>) payments)) =
      map (\<lambda>p. (fpm_method p, fpm_amount p))
        (map (\<lambda>p. \<lparr>fpm_method = methodOf (bpm_type p), fpm_amount = bpm_amount p\<rparr>) payments)"
    by (simp add: confirmedPayments_def o_def)
  ultimately show ?thesis
    using lines b basket_items_keep [OF items] basket_payments_back [OF payments] sec [OF items] by simp
qed

theorem basket_round_trip_witness:
  "\<exists>b. buildBasket (\<lambda>_. True) (\<lambda>_ _ _. Inr (3, 0)) (demo_sale 7 8 MethodCash 600) False = Inr b \<and>
     map (\<lambda>x. (bit_name x, bit_price x, bit_qty x, bit_tax x)) (bsk_items b) = [(''Satis'', 600, 1000, 0)]"
proof -
  let ?run = "buildBasket (\<lambda>_. True) (\<lambda>_ _ _. Inr (3, 0)) (demo_sale 7 8 MethodCash 600) False"
  have "case ?run of Inl _ \<Rightarrow> False | Inr _ \<Rightarrow> True" by code_simp
  then obtain b where b: "?run = Inr b" by (auto split: sum.splits)
  from basket_round_trip [OF b] b show ?thesis by (simp add: demo_sale_def)
qed

end
