(* ===== verification/Pay_Retry_Props.thy ===== *)
theory Pay_Retry_Props
  imports Pay_Worker_Props
begin

text \<open>
  A device that does not answer: the worker gives up after the configured number of
  attempts, and the payment fails with its registration.
\<close>

section \<open>The statements succeed\<close>

lemma list_all_True [simp]: "list_all (\<lambda>_. True) xs"
  by (simp add: list_all_iff)

lemma submissions_uniq_update:
  assumes "submissions_uniq rs"
    and "\<And>r. r \<in> set rs \<Longrightarrow> P r \<Longrightarrow> sub_payment (f r) = sub_payment r \<and> (submission_active (f r) \<longrightarrow> submission_active r)"
  shows "submissions_uniq (update_rows P f rs)"
proof -
  have sub: "sub_payment ` set (filter submission_active (update_rows P f xs)) \<subseteq>
      sub_payment ` set (filter submission_active xs)" if "set xs \<subseteq> set rs" for xs
    using that assms(2) by (fastforce simp: set_update_rows image_iff)
  have "submissions_uniq (update_rows P f xs)" if "submissions_uniq xs" "set xs \<subseteq> set rs" for xs
    using that
  proof (induction xs)
    case (Cons x xs)
    then have IH: "submissions_uniq (update_rows P f xs)" by (auto simp: submissions_uniq_def split: if_splits)
    have "sub_payment (f x) = sub_payment x \<and> (submission_active (f x) \<longrightarrow> submission_active x)" if "P x"
      using assms(2) Cons.prems(2) that by simp
    with Cons.prems IH sub [of xs] show ?case by (auto simp: submissions_uniq_def)
  qed (simp add: submissions_uniq_def)
  with assms(1) show ?thesis by blast
qed

definition registration_of :: "submission_row \<Rightarrow> submission_row \<Rightarrow> bool" where
  "registration_of r x \<longleftrightarrow> sub_tenant x = sub_tenant r \<and> sub_id x = sub_id r \<and> sub_status x = FiscalPending"

definition put_back :: "int \<Rightarrow> time \<Rightarrow> string \<Rightarrow> submission_row \<Rightarrow> submission_row" where
  "put_back n t err r = r\<lparr>sub_retry := n, sub_next_retry := Some t, sub_error := nullableText err, sub_claimed := None\<rparr>"

lemma queue_MarkRetry_runs:
  assumes ok: "pay_schema_ok s" and r: "r \<in> set (pd_subs s)" "sub_status r = FiscalPending"
    and tn: "sub_tenant r \<noteq> uuid_Nil" and n: "int32_range n"
  shows "queue_MarkRetry c (scan_submission r) n t err s =
    Inr ((), s\<lparr>pd_subs := update_rows (registration_of r) (put_back n t err) (pd_subs s)\<rparr>)"
proof -
  have rows: "\<forall>r \<in> set (pd_subs s). submission_row_ok r" "submissions_uniq (pd_subs s)"
    using ok by (auto simp: pay_schema_ok_def table_ok_def)
  have hits: "(\<lambda>x. sub_tenant x = sub_tenant r \<and> sub_id x = sub_id r \<and> sub_status x = FiscalPending) = registration_of r"
    by (auto simp: registration_of_def)
  have pb: "(\<lambda>x. x\<lparr>sub_retry := n, sub_next_retry := Some t, sub_error := nullableText err, sub_claimed := None\<rparr>) =
      put_back n t err" by (auto simp: put_back_def)
  have "submissions_uniq (update_rows (registration_of r) (put_back n t err) (pd_subs s))"
    using rows(2) by (rule submissions_uniq_update) (simp add: put_back_def submission_active_def)
  moreover have "list_all submission_row_ok (map (put_back n t err) (filter (registration_of r) (pd_subs s)))"
    using rows(1) n by (auto simp: list_all_iff submission_row_ok_def put_back_def)
  moreover have "filter (registration_of r) (pd_subs s) \<noteq> []"
    using r by (auto simp: filter_empty_conv registration_of_def)
  ultimately show ?thesis
    using tn by (simp add: queue_MarkRetry_def FiscalSubmissionRepo_MarkRetry_def affected_bind_Inr
        submissions.update_Inr rls_update_def rls_select_def hits pb scan_submission_def)
qed

text \<open>The result of a registration that is still open is stored, and the payment takes it.\<close>

lemma Fail_runs:
  assumes "pay_schema_ok s" and "p \<in> set (pd_payments s)" and "pmt_status p = PaymentPending"
    and "pmt_tenant p = tx_tenant tx"
  shows "\<exists>s'. PaymentRepo_Fail tx (pmt_id p) s = Inr ((), s')"
proof -
  let ?P = "\<lambda>q. pmt_tenant q = tx_tenant tx \<and> pmt_id q = pmt_id p \<and> pmt_status q = PaymentPending"
  let ?f = "\<lambda>q. q\<lparr>pmt_status := PaymentFailed\<rparr>"
  have rows: "\<forall>q \<in> set (pd_payments s). payment_row_ok q" "payments_uniq (pd_payments s)"
    using assms(1) by (auto simp: pay_schema_ok_def table_ok_def)
  have "payments_uniq (update_rows ?P ?f (pd_payments s))"
    using rows(2) by (simp add: payments_uniq_def map_update_rows)
  moreover have "list_all payment_row_ok (map ?f (filter ?P (pd_payments s)))"
    using rows(1) by (auto simp: list_all_iff payment_row_ok_def)
  moreover have "filter ?P (pd_payments s) \<noteq> []"
    using assms(2-4) by (auto simp: filter_empty_conv)
  ultimately show ?thesis
    by (simp add: PaymentRepo_Fail_def affected_bind_Inr payments.update_Inr rls_update_def rls_select_def)
qed

lemma MarkResult_runs:
  fixes res :: fiscal_result
  assumes "pay_schema_ok s" and r: "r \<in> set (pd_subs s)" "submission_active r"
    and tn: "tx_tenant tx = sub_tenant r" "res_tenant res = sub_tenant r" "res_submission res = sub_id r"
    and st: "res_status res = FiscalFailed"
  shows "\<exists>s'. FiscalSubmissionRepo_MarkResult tx (res_submission res) (res_status res) (res_raw res)
      (res_failure res) (Some t) s = Inr (True, s')"
proof -
  let ?P = "\<lambda>x. sub_tenant x = sub_tenant r \<and> sub_id x = sub_id r \<and> sub_status x \<in> set [FiscalPending, FiscalSubmitted]"
  have rows: "\<forall>r \<in> set (pd_subs s). submission_row_ok r" "submissions_uniq (pd_subs s)"
    using assms(1) by (auto simp: pay_schema_ok_def table_ok_def)
  have "submissions_uniq (update_rows ?P (answered res t) (pd_subs s))"
    using rows(2) by (rule submissions_uniq_update) (simp add: answered_def st submission_active_def)
  moreover have "list_all submission_row_ok (map (answered res t) (filter ?P (pd_subs s)))"
    using rows(1) by (auto simp: list_all_iff submission_row_ok_def answered_def st)
  moreover have "filter ?P (pd_subs s) \<noteq> []"
    using r by (auto simp: filter_empty_conv submission_active_def)
  moreover have "result_sources FiscalFailed = Some [FiscalPending, FiscalSubmitted]"
    by (simp add: result_sources_Some)
  ultimately show ?thesis using tn st
    by (simp add: FiscalSubmissionRepo_MarkResult_def tx_bind_Inr submissions.update_Inr rls_update_def
        rls_select_def answered_def [abs_def])
qed

lemma finalizeFailure_runs:
  assumes ok: "ledger_ok s" and r: "r \<in> set (pd_subs s)" "submission_active r"
    and ids: "sub_tenant r \<noteq> uuid_Nil" "sub_id r \<noteq> uuid_Nil" "sub_payment r \<noteq> uuid_Nil"
  shows "\<exists>s'. finalizeFailure c (scan_submission r) cause s = Inr ((), s') \<and>
    (\<exists>x \<in> set (pd_subs s'). sub_id x = sub_id r \<and> sub_status x = FiscalFailed) \<and>
    (\<exists>p \<in> set (pd_payments s'). pmt_id p = sub_payment r \<and> pmt_status p = PaymentFailed)"
proof -
  let ?res = "zero_result
       \<lparr>res_submission := sub_id r, res_tenant := sub_tenant r, res_branch := sub_branch r,
        res_payment := sub_payment r, res_status := FiscalFailed, res_device := sub_adapter r,
        res_failure := cause, res_completed_at := Some (ctx_now c)\<rparr>"
  let ?tx = "pay_tx c (sub_tenant r)"
  have call: "finalizeFailure c (scan_submission r) cause = PaymentService_OnFiscalResult c ?res"
    by (simp add: finalizeFailure_def scan_submission_def)
  have sch: "pay_schema_ok s" and al: "list_all2 ledger_row (pd_subs s) (pd_payments s)"
    using ok by (simp_all add: ledger_ok_def)
  from ledger_partner [OF al r(1)] obtain p where p: "p \<in> set (pd_payments s)" "ledger_row r p" by blast
  then have p': "pmt_status p = PaymentPending" "pmt_tenant p = sub_tenant r" "pmt_id p = sub_payment r"
    using r(2) pending_iff_active by (auto simp: ledger_row_def)
  from MarkResult_runs [OF sch r, of ?tx ?res "ctx_now c"] obtain s1 where
    mark: "FiscalSubmissionRepo_MarkResult ?tx (res_submission ?res) (res_status ?res) (res_raw ?res)
      (res_failure ?res) (Some (ctx_now c)) s = Inr (True, s1)" by auto
  have s1: "pd_payments s1 = pd_payments s" using MarkResult_Inr [OF mark] by simp
  have sch1: "pay_schema_ok s1"
    using tx_withinD [OF submission_repo_evolves(3) mark] sch by (simp add: pay_evolves_def)
  from Fail_runs [OF sch1, of p ?tx] p(1) p' s1 obtain s' where
    fail: "PaymentRepo_Fail ?tx (sub_payment r) s1 = Inr ((), s')" by auto
  have run: "PaymentService_OnFiscalResult c ?res s = Inr ((), s')"
    using mark fail ids
    by (simp add: PaymentService_OnFiscalResult_def PayTenantTx_def fiscalResultTx_def tx_bind_def applyFailed_def)
  have hit: "result_hits ?res r" using r(2)
    by (auto simp: result_hits_def result_sources_Some submission_active_def)
  from OnFiscalResult_Inr [OF run] r(1) hit have
    eff: "pd_subs s' = update_rows (result_hits ?res) (answered ?res (ctx_now c)) (pd_subs s)"
      "pd_payments s' = update_rows (payment_hit ?res)
         (settle_payment ?res (ctx_now c) (pd_rand s (pd_ctr s))) (pd_payments s)" by blast+
  have "payment_hit ?res p" using p' by (simp add: payment_hit_def)
  then have "settle_payment ?res (ctx_now c) (pd_rand s (pd_ctr s)) p \<in> set (pd_payments s')"
    using p(1) by (auto simp: eff set_update_rows)
  moreover have "answered ?res (ctx_now c) r \<in> set (pd_subs s')"
    using r(1) hit by (auto simp: eff set_update_rows)
  ultimately show ?thesis unfolding call using run p'(3)
    by (intro exI [of _ s'] conjI bexI) (auto simp: answered_def settle_payment_def)
qed

section \<open>The attempts\<close>

text \<open>One attempt of the worker on a registration: it reads the row, as claiming it does,
  and processes it; an error is logged and leaves the row for the next attempt.\<close>

definition attempt ::
  "(pay_err \<Rightarrow> string) \<Rightarrow> fiscal_adapter \<Rightarrow> worker_config \<Rightarrow> uuid \<Rightarrow> ctx \<Rightarrow> pay_db \<Rightarrow> pay_db" where
  "attempt err_text adapter cfg i c s =
     (case find_row (\<lambda>r. sub_id r = i) (pd_subs s) of
        None \<Rightarrow> s
      | Some r \<Rightarrow> (case process_submission err_text adapter cfg c (scan_submission r) s of
                    Inl _ \<Rightarrow> s | Inr (_, s') \<Rightarrow> s'))"

definition waiting :: "uuid \<Rightarrow> uuid \<Rightarrow> sale_json \<Rightarrow> int \<Rightarrow> pay_db \<Rightarrow> bool" where
  "waiting i pid payload n s \<longleftrightarrow>
     (\<exists>r \<in> set (pd_subs s). sub_id r = i \<and> sub_payment r = pid \<and> sub_tenant r \<noteq> uuid_Nil \<and>
        sub_payload r = payload \<and> sub_status r = FiscalPending \<and> sub_retry r = n)"

lemma waiting_row:
  assumes "ledger_ok s" and "waiting i pid payload n s"
  obtains r where "find_row (\<lambda>r. sub_id r = i) (pd_subs s) = Some r" "r \<in> set (pd_subs s)" "sub_id r = i"
    "sub_payment r = pid" "sub_tenant r \<noteq> uuid_Nil" "sub_payload r = payload"
    "sub_status r = FiscalPending" "sub_retry r = n"
proof -
  from assms(2) obtain r where r: "r \<in> set (pd_subs s)" "sub_id r = i" "sub_payment r = pid"
    "sub_tenant r \<noteq> uuid_Nil" "sub_payload r = payload" "sub_status r = FiscalPending" "sub_retry r = n"
    by (auto simp: waiting_def)
  from find_row_key [OF ledger_ok_tables(2) [OF assms(1)] r(1)] r(2)
  have "find_row (\<lambda>r. sub_id r = i) (pd_subs s) = Some r" by simp
  with r show ?thesis by (intro that)
qed

lemma process_ledger:
  assumes "process_submission err_text adapter cfg c (scan_submission r) s = Inr (u, s')"
    and "r \<in> set (pd_subs s)" and "ledger_ok s"
  shows "ledger_ok s'"
proof -
  let ?svc = "\<lparr>svc_checks = None, svc_rounding = None, svc_fiscal = adapter\<rparr>"
  have "pay_step ?svc c s s'"
    using pay_step.step_process [OF scan_submission_of [OF assms(2)], of err_text ?svc cfg c u s'] assms(1) by simp
  then show ?thesis using assms(3) by (rule pay_step_ledger)
qed

lemma attempt_waits:
  assumes ok: "ledger_ok s" and w: "waiting i pid (SaleJson sale) n s"
    and dead: "SubmitSale adapter sale = Inl e" and n: "0 \<le> n" "n < wcf_max_retries cfg" "wcf_max_retries cfg < 2 ^ 31"
  shows "ledger_ok (attempt err_text adapter cfg i c s) \<and>
    waiting i pid (SaleJson sale) (n + 1) (attempt err_text adapter cfg i c s)"
proof -
  from ok w obtain r where r: "find_row (\<lambda>r. sub_id r = i) (pd_subs s) = Some r" "r \<in> set (pd_subs s)" "sub_id r = i"
    "sub_payment r = pid" "sub_tenant r \<noteq> uuid_Nil" "sub_payload r = SaleJson sale"
    "sub_status r = FiscalPending" "sub_retry r = n" by (rule waiting_row)
  have sch: "pay_schema_ok s" using ok by (simp add: ledger_ok_def)
  let ?t = "ctx_now c + retryBackoff (n + 1)"
  let ?s' = "s\<lparr>pd_subs := update_rows (registration_of r) (put_back (n + 1) ?t (err_text e)) (pd_subs s)\<rparr>"
  have "int32_range (n + 1)" using n by (simp add: int32_range_def)
  from queue_MarkRetry_runs [OF sch r(2,7,5) this]
  have run: "process_submission err_text adapter cfg c (scan_submission r) s = Inr ((), ?s')"
    using r dead n by (simp add: process_submission_def handleSubmitError_def Let_def tx_bind_def lookup_def
        tx_return_def scan_submission_def)
  then have "attempt err_text adapter cfg i c s = ?s'" by (simp add: attempt_def r(1))
  moreover have "put_back (n + 1) ?t (err_text e) r \<in> set (pd_subs ?s')"
    using r by (auto simp: set_update_rows registration_of_def)
  then have "waiting i pid (SaleJson sale) (n + 1) ?s'"
    unfolding waiting_def by (rule bexI [rotated]) (simp add: put_back_def r)
  ultimately show ?thesis using process_ledger [OF run r(2) ok] by simp
qed

lemma attempt_gives_up:
  assumes ok: "ledger_ok s" and w: "waiting i pid (SaleJson sale) n s" and "i \<noteq> uuid_Nil" and "pid \<noteq> uuid_Nil"
    and dead: "SubmitSale adapter sale = Inl e" and n: "wcf_max_retries cfg \<le> n"
  shows "(\<exists>x \<in> set (pd_subs (attempt err_text adapter cfg i c s)). sub_id x = i \<and> sub_status x = FiscalFailed) \<and>
    (\<exists>p \<in> set (pd_payments (attempt err_text adapter cfg i c s)). pmt_id p = pid \<and> pmt_status p = PaymentFailed)"
proof -
  from ok w obtain r where r: "find_row (\<lambda>r. sub_id r = i) (pd_subs s) = Some r" "r \<in> set (pd_subs s)" "sub_id r = i"
    "sub_payment r = pid" "sub_tenant r \<noteq> uuid_Nil" "sub_payload r = SaleJson sale"
    "sub_status r = FiscalPending" "sub_retry r = n" by (rule waiting_row)
  have "submission_active r" using r by (simp add: submission_active_def)
  from finalizeFailure_runs [OF ok r(2) this r(5), of c "err_text e"] r(3,4) assms(3,4) obtain s' where
    run: "finalizeFailure c (scan_submission r) (err_text e) s = Inr ((), s')"
    and eff: "\<exists>x \<in> set (pd_subs s'). sub_id x = i \<and> sub_status x = FiscalFailed"
      "\<exists>p \<in> set (pd_payments s'). pmt_id p = pid \<and> pmt_status p = PaymentFailed" by auto
  have "process_submission err_text adapter cfg c (scan_submission r) s = Inr ((), s')"
    using r dead n run by (simp add: process_submission_def handleSubmitError_def Let_def scan_submission_def)
  then show ?thesis using eff by (simp add: attempt_def r(1))
qed

text \<open>C21: a device that does not answer is not tried for ever. A pending registration whose
  adapter keeps failing stays pending, its retry count one higher after each attempt,
  until the configured number of retries is used up; the next attempt fails the
  registration and its payment, so the queue is left after exactly that many attempts.\<close>

theorem worker_gives_up:
  assumes "ledger_ok s" and "waiting i pid (SaleJson sale) n s" and "i \<noteq> uuid_Nil" and "pid \<noteq> uuid_Nil"
    and dead: "SubmitSale adapter sale = Inl e" and "0 \<le> n" "n \<le> wcf_max_retries cfg"
    and cap: "wcf_max_retries cfg < 2 ^ 31"
  shows "(\<forall>k cs. length cs = k \<longrightarrow> int k \<le> wcf_max_retries cfg - n \<longrightarrow>
      waiting i pid (SaleJson sale) (n + int k) (fold (attempt err_text adapter cfg i) cs s)) \<and>
    (\<forall>cs. int (length cs) = wcf_max_retries cfg - n + 1 \<longrightarrow>
      (\<exists>x \<in> set (pd_subs (fold (attempt err_text adapter cfg i) cs s)). sub_id x = i \<and> sub_status x = FiscalFailed) \<and>
      (\<exists>p \<in> set (pd_payments (fold (attempt err_text adapter cfg i) cs s)).
         pmt_id p = pid \<and> pmt_status p = PaymentFailed))"
proof -
  have upto: "ledger_ok (fold (attempt err_text adapter cfg i) cs s) \<and>
      waiting i pid (SaleJson sale) (n + int (length cs)) (fold (attempt err_text adapter cfg i) cs s)"
    if "int (length cs) \<le> wcf_max_retries cfg - n" for cs
    using that
  proof (induction cs rule: rev_induct)
    case Nil
    then show ?case using assms by simp
  next
    case (snoc c cs)
    then have IH: "ledger_ok (fold (attempt err_text adapter cfg i) cs s)"
      "waiting i pid (SaleJson sale) (n + int (length cs)) (fold (attempt err_text adapter cfg i) cs s)" by simp_all
    from attempt_waits [OF IH dead, of cfg err_text c] snoc.prems \<open>0 \<le> n\<close> cap show ?case
      by (simp add: add.commute add.left_commute)
  qed
  have "(\<exists>x \<in> set (pd_subs (fold (attempt err_text adapter cfg i) cs s)). sub_id x = i \<and> sub_status x = FiscalFailed) \<and>
      (\<exists>p \<in> set (pd_payments (fold (attempt err_text adapter cfg i) cs s)).
         pmt_id p = pid \<and> pmt_status p = PaymentFailed)"
    if len: "int (length cs) = wcf_max_retries cfg - n + 1" for cs
  proof (cases cs rule: rev_cases)
    case Nil
    with len assms show ?thesis by simp
  next
    case (snoc ds c)
    with len have "int (length ds) = wcf_max_retries cfg - n" by simp
    with upto [of ds] have "ledger_ok (fold (attempt err_text adapter cfg i) ds s)"
      "waiting i pid (SaleJson sale) (wcf_max_retries cfg) (fold (attempt err_text adapter cfg i) ds s)" by simp_all
    from attempt_gives_up [OF this assms(3,4) dead order_refl] show ?thesis by (simp add: snoc)
  qed
  with upto show ?thesis by blast
qed

definition demo_dead_device :: fiscal_adapter where
  "demo_dead_device = (svc_fiscal (demo_svc 1700))\<lparr>SubmitSale := (\<lambda>_. Inl (PayOther ''timeout''))\<rparr>"

theorem worker_gives_up_witness:
  "\<exists>p \<in> set (pd_payments (fold (attempt (\<lambda>_. ''timeout'') demo_dead_device demo_worker 1002)
      (map demo_at [5, 10, 20, 40, 80, 160]) demo_sold)). pmt_id p = 1001 \<and> pmt_status p = PaymentFailed"
proof -
  let ?sale = "demo_sale 1002 1001 MethodCash 600"
  have ok: "ledger_ok demo_sold" by code_simp
  have w: "waiting 1002 1001 (SaleJson ?sale) 0 demo_sold"
    by (simp add: waiting_def demo_sold_def demo_registration_def uuid_Nil_def)
  have dead: "SubmitSale demo_dead_device ?sale = Inl (PayOther ''timeout'')" by (simp add: demo_dead_device_def)
  have max: "wcf_max_retries demo_worker = 5" by code_simp
  have ids: "(1002 :: uuid) \<noteq> uuid_Nil" "(1001 :: uuid) \<noteq> uuid_Nil" by (simp_all add: uuid_Nil_def)
  have "0 \<le> wcf_max_retries demo_worker" "wcf_max_retries demo_worker < 2 ^ 31" by (simp_all add: max)
  from worker_gives_up [OF ok w ids dead order_refl this, THEN conjunct2, rule_format,
      of "map demo_at [5, 10, 20, 40, 80, 160]" "\<lambda>_. ''timeout''"] show ?thesis by (simp add: max)
qed

end
