(* ===== verification/Pay_Session_Props.thy ===== *)
theory Pay_Session_Props
  imports Pay_Demo
begin

text \<open>
  Closing a drawer, and what its report does afterwards.
\<close>

text \<open>C37: a drawer closes only after it was counted, on a branch of the caller and with no
  payment of the branch in flight, and its report adds up: expected is opening float plus
  the completed cash payments taken from opening to closing plus the movements of the
  session, the difference is the count against it. Closing stamps who and when on that
  one session and touches no payment, no movement and no other drawer.\<close>

theorem Close_settles_drawer:
  assumes run: "CashSessionService_Close c p i s = Inr (v, s')" and ok: "ledger_ok s"
  shows "\<exists>r \<in> set (pd_sessions s). ses_id r = i \<and> ses_tenant r = prn_tenant p \<and>
    ses_status r = SessionClosingControl \<and> pay_requireBranch c p (ses_branch r) = Inr () \<and>
    (\<forall>x \<in> set (pd_payments s). pmt_tenant x = ses_tenant r \<and> pmt_branch x = ses_branch r \<longrightarrow>
       pmt_status x \<noteq> PaymentPending) \<and>
    svw_session v = closed_session c p r \<and>
    svw_cash v = (\<Sum>x \<leftarrow> filter (cash_taken_between (ses_tenant r) (ses_branch r) (ses_opened_at r)
        (Some (ctx_now c))) (pd_payments s). pmt_amount x) \<and>
    svw_movements v = drawer_moves r s \<and>
    svw_expected v = wrap64 (ses_opening r + svw_cash v + svw_movements v) \<and>
    svw_difference v = map_option (\<lambda>n. wrap64 (n - svw_expected v)) (ses_closing r) \<and>
    s' = s\<lparr>pd_sessions := map (\<lambda>q. if q = r then closed_session c p r else q) (pd_sessions s)\<rparr>"
proof -
  let ?tx = "pay_tx c (prn_tenant p)"
  from Close_effect [OF run] obtain r where r: "r \<in> set (pd_sessions s)" "ses_id r = i"
      "ses_tenant r = prn_tenant p" "ses_status r = SessionClosingControl"
      "pay_requireBranch c p (ses_branch r) = Inr ()"
    and none: "cannotClose ?tx (prn_tenant p) (ses_branch r) s = Inr ([], s)"
    and s': "s' = s\<lparr>pd_sessions := update_rows (session_named p i SessionClosingControl)
        (closed_session c p) (pd_sessions s)\<rparr>" by blast
  have named: "session_named p i SessionClosingControl q \<longleftrightarrow> q = r" if "q \<in> set (pd_sessions s)" for q
    using that r ledger_ok_tables(3) [OF ok] by (auto simp: session_named_def dest: distinct_key_unique)
  then have rows: "pd_sessions s' = map (\<lambda>q. if q = r then closed_session c p r else q) (pd_sessions s)"
    by (simp add: s' update_rows_def)
  from run obtain b q s0 s1 where "cannotClose ?tx (prn_tenant p) b s = Inr ([], s0)"
    and close: "CashSessionRepo_Close ?tx (prn_tenant p) i SessionClosingControl (prn_person p) s0 = Inr (q, s1)"
    and view: "buildView ?tx q s1 = Inr (v, s')"
    by (auto simp: CashSessionService_Close_def closeSessionTx_def tx_inv session_reads_Inr
        split: if_split_asm dest!: rls_find_Some)
  have s1: "s1 = s'" using view by (auto dest: buildView_same)
  from close have "q \<in> set (pd_sessions s1)" "ses_tenant q = prn_tenant p" "ses_id q = i"
    by (auto dest!: CashSessionRepo_Close_Inr rls_find_Some)
  then have q: "q = closed_session c p r"
    using r ledger_ok_tables(3) [OF ok] by (auto simp: s1 rows closed_session_def dest: distinct_key_unique)
  then have tn: "ses_tenant q = tx_tenant ?tx" using r by (simp add: closed_session_def)
  have closed: "ses_tenant q = ses_tenant r" "ses_branch q = ses_branch r" "ses_opened_at q = ses_opened_at r"
    "ses_closed_at q = Some (ctx_now c)" "ses_id q = ses_id r" "ses_opening q = ses_opening r"
    "ses_closing q = ses_closing r" by (simp_all add: q closed_session_def)
  have same: "pd_payments s1 = pd_payments s" "pd_moves s1 = pd_moves s" by (simp_all add: s1 s')
  from buildView_Inr [OF view tn] have figures: "svw_session v = q"
    "svw_cash v = (\<Sum>x \<leftarrow> filter (cash_taken_between (ses_tenant r) (ses_branch r) (ses_opened_at r)
        (Some (ctx_now c))) (pd_payments s). pmt_amount x)"
    "svw_movements v = drawer_moves r s"
    "svw_expected v = wrap64 (ses_opening r + svw_cash v + svw_movements v)"
    "svw_difference v = map_option (\<lambda>n. wrap64 (n - svw_expected v)) (ses_closing r)"
    by (simp_all add: drawer_cash_def drawer_moves_def closed same wrap64_add)
  have "\<forall>x \<in> set (pd_payments s). pmt_tenant x = ses_tenant r \<and> pmt_branch x = ses_branch r \<longrightarrow>
      pmt_status x \<noteq> PaymentPending"
    using cannotClose_nil [OF ok _ none] r(3) by auto
  moreover have "s' = s\<lparr>pd_sessions := map (\<lambda>q. if q = r then closed_session c p r else q) (pd_sessions s)\<rparr>"
    using rows s' by simp
  ultimately show ?thesis using r figures q by blast
qed

text \<open>A drawer that took 600 in cash, counted ten short of what it should hold.\<close>

definition demo_drawer :: pay_db where
  "demo_drawer = demo_pay\<lparr>
     pd_sessions := [demo_session\<lparr>ses_status := SessionClosingControl, ses_closing := Some 1090,
       ses_submitted_at := Some 6\<rparr>],
     pd_payments := [(demo_payment 1001 ''a'' MethodCash 600 2)\<lparr>pmt_status := PaymentCompleted,
       pmt_receipt := Some 1003, pmt_completed := Some 4\<rparr>],
     pd_receipts := [\<lparr>rrw_id = 1003, rrw_tenant = 1, rrw_payment = 1001, rrw_device = ''mock'',
       rrw_number = ''1'', rrw_data = Map.empty, rrw_issued_at = 4\<rparr>],
     pd_subs := [(demo_registration 1002 1001 MethodCash 600 2)\<lparr>sub_status := FiscalCompleted,
       sub_completed := Some 4\<rparr>], pd_ctr := 4\<rparr>"

definition demo_close_call :: "(pay_db, pay_err, session_view) tx" where
  "demo_close_call = CashSessionService_Close (demo_at 7) demo_principal 1000"

theorem Close_settles_drawer_witness:
  "\<exists>v s'. demo_close_call demo_drawer = Inr (v, s') \<and>
     svw_expected v = wrap64 (500 + svw_cash v + svw_movements v)"
proof -
  have "tx_ok demo_close_call demo_drawer" by code_simp
  then obtain v s' where run: "demo_close_call demo_drawer = Inr (v, s')" by (rule tx_okE)
  have "ledger_ok demo_drawer" by code_simp
  from Close_settles_drawer [OF run [unfolded demo_close_call_def] this] obtain r where
    "r \<in> set (pd_sessions demo_drawer)" "svw_expected v = wrap64 (ses_opening r + svw_cash v + svw_movements v)"
    by blast
  moreover have "\<forall>r \<in> set (pd_sessions demo_drawer). ses_opening r = 500"
    by (simp add: demo_drawer_def demo_session_def)
  ultimately show ?thesis using run by auto
qed

text \<open>After the close, a completed payment can still be voided, and the query of the
  report counts completed payments only: the report of a closed drawer moves.\<close>

definition demo_void_call :: "(pay_db, pay_err, unit) tx" where
  "demo_void_call = PaymentService_VoidSale (demo_svc 1700) (demo_at 8) 1 1001"

definition demo_shut :: pay_db where
  "demo_shut = demo_drawer\<lparr>pd_sessions := [demo_session\<lparr>ses_status := SessionClosed,
     ses_closing := Some 1090, ses_submitted_at := Some 6, ses_closed_by := Some 5, ses_closed_at := Some 7\<rparr>]\<rparr>"

definition drawer_figures :: "pay_db \<Rightarrow> (session_status \<times> int) list" where
  "drawer_figures s = map (\<lambda>r. (ses_status r, drawer_cash r s)) (pd_sessions s)"

lemma closed_report_moves:
  "tx_ok demo_void_call demo_shut \<and> drawer_figures demo_shut = [(SessionClosed, 600)] \<and>
   drawer_figures (after demo_void_call demo_shut) = [(SessionClosed, 0)]"
  by (intro conjI; code_simp)

end
