(* ===== verification/Pay_Settlement.thy ===== *)
theory Pay_Settlement
  imports Pay_Demo Pos_Check_Props
begin

text \<open>
  The two modules together. The payment module asks the point of sale whether a check may
  take money and what it owes (pos/service/check_guard.go), the point of sale asks the
  payment module what was paid (the SaleReader of payment/public): here each is given
  the other's model, on its current state.
\<close>

section \<open>The wiring\<close>

text \<open>The read service of the point of sale, as the payment module sees it.\<close>

definition answer_of :: "('s, 'e, 'a) tx \<Rightarrow> 's \<Rightarrow> 'e + 'a" where
  "answer_of m s = (case m s of Inl e \<Rightarrow> Inl e | Inr (x, _) \<Rightarrow> Inr x)"

definition checks_guard :: "ctx \<Rightarrow> pos_db \<Rightarrow> check_write_guard" where
  "checks_guard c s =
     \<lparr>AssertCheckWritable = (\<lambda>tn k b. answer_of (CheckReadService_AssertCheckWritable c tn k b) s),
      CheckTotal = (\<lambda>tn k. answer_of (CheckReadService_CheckTotal c tn k) s)\<rparr>"

definition branch_rounding :: "ctx \<Rightarrow> pos_db \<Rightarrow> rounding_reader" where
  "branch_rounding c s = (\<lambda>tn b. answer_of (CheckReadService_BranchRoundingPolicy c tn b) s)"

definition wired_service :: "ctx \<Rightarrow> pos_db \<Rightarrow> fiscal_adapter \<Rightarrow> payment_service" where
  "wired_service c s adapter =
     \<lparr>svc_checks = Some (checks_guard c s), svc_rounding = Some (branch_rounding c s), svc_fiscal = adapter\<rparr>"

text \<open>The payment module, as the point of sale sees it; \<open>wrapped\<close> is the error the caller
  wraps around any failure.\<close>

definition payments_reader :: "(pay_err \<Rightarrow> pos_err) \<Rightarrow> ctx \<Rightarrow> pay_db \<Rightarrow> sale_reader" where
  "payments_reader wrapped c s =
     \<lparr>TotalPaidForCheck = (\<lambda>tn k. map_sum wrapped id (answer_of (PaymentService_TotalPaidForCheck c tn k) s)),
      PendingTotalForCheck = (\<lambda>tn k. map_sum wrapped id (answer_of (PaymentService_PendingTotalForCheck c tn k) s))\<rparr>"

lemma checks_guard_bills: "bills (wired_service c s adapter) tn k (check_total (pos_tx c tn) s k)"
  by (auto simp: bills_def wired_service_def checks_guard_def answer_of_def
      CheckReadService_CheckTotal_def WithTenantReadTx_def pos_tx_def tx_map_err_Inr CheckRepo_GetTotal_Inr
      split: sum.split_asm prod.split_asm)

lemma payments_reader_Inr:
  "TotalPaidForCheck (payments_reader wrapped c s) tn k = Inr paid \<Longrightarrow>
     paid = total_by_status PaymentCompleted tn k s"
  "PendingTotalForCheck (payments_reader wrapped c s) tn k = Inr pending \<Longrightarrow>
     pending = total_by_status PaymentPending tn k s"
  by (auto simp: payments_reader_def answer_of_def PaymentService_TotalPaidForCheck_def
      PaymentService_PendingTotalForCheck_def split: sum.split_asm prod.split_asm dest!: check_sums_Inr [rotated])

section \<open>Both modules at work\<close>

text \<open>
  A sale asks whether the check may take money, what it owes and how to round before it
  locks the check in its own module: three reads, each of the point of sale as it was at
  some moment, perhaps changed since.
\<close>

definition reads_of :: "ctx \<Rightarrow> pos_db \<Rightarrow> pos_db \<Rightarrow> pos_db \<Rightarrow> fiscal_adapter \<Rightarrow> payment_service" where
  "reads_of c s1 s2 s3 adapter =
     \<lparr>svc_checks = Some \<lparr>AssertCheckWritable = AssertCheckWritable (checks_guard c s1),
                       CheckTotal = CheckTotal (checks_guard c s2)\<rparr>,
      svc_rounding = Some (branch_rounding c s3), svc_fiscal = adapter\<rparr>"

lemma reads_of_one: "reads_of c s s s adapter = wired_service c s adapter"
  by (simp add: reads_of_def wired_service_def checks_guard_def)

text \<open>
  A run of the two modules: the states the point of sale went through, the latest first, and
  the state of the payment module. Any call of the point of sale may come at any time,
  and any step of the payment module, which reads states of the point of sale that the
  run has seen.
\<close>

inductive house_run :: "pos_db \<Rightarrow> time \<Rightarrow> pay_db \<Rightarrow> pos_db list \<Rightarrow> time \<Rightarrow> pay_db \<Rightarrow> bool" for s0 t0 p0 where
  house_opens: "house_run s0 t0 p0 [s0] t0 p0"
| house_serves: "house_run s0 t0 p0 (s # seen) t p \<Longrightarrow> pos_step tn s s' \<Longrightarrow>
    house_run s0 t0 p0 (s' # s # seen) t p"
| house_is_paid: "house_run s0 t0 p0 seen t p \<Longrightarrow> s1 \<in> set seen \<Longrightarrow> s2 \<in> set seen \<Longrightarrow> s3 \<in> set seen \<Longrightarrow>
    pay_step (reads_of c s1 s2 s3 adapter) c p p' \<Longrightarrow> t < ctx_now c \<Longrightarrow>
    house_run s0 t0 p0 seen (ctx_now c) p'"

text \<open>What a check owes.\<close>

definition owes :: "uuid \<Rightarrow> uuid \<Rightarrow> pos_db \<Rightarrow> int" where
  "owes tn k s = check_total \<lparr>tx_tenant = tn, tx_now = 0\<rparr> s k"

lemma check_total_owes: "check_total (pos_tx c tn) s k = owes tn k s"
  by (simp add: owes_def check_total_def bill_lines_def billed_orders_def rls_select_def pos_tx_def)

lemma branch_rounding_step:
  assumes "branch_rounding c s tn b = Inr policy" and "schema_ok s"
  shows "rnd_step policy < 2 ^ 62"
proof -
  have row: "rnd_step (bst_rounding r) \<le> 1000" if "r \<in> set (db_settings s)" for r
    using assms(2) that by (auto simp: schema_ok_def table_ok_def settings_row_ok_def)
  from assms(1) show ?thesis
    by (auto simp: branch_rounding_def answer_of_def CheckReadService_BranchRoundingPolicy_def WithTenantReadTx_def
        BranchSettingsRepo_RoundingPolicyByBranch_def tx_bind_Inr DefaultRoundingPolicy_def
        dest!: rls_find_Some row split: sum.split_asm prod.split_asm option.split_asm if_split_asm)
qed

lemma reads_of_within:
  assumes "schema_ok s3" and "0 \<le> owes tn k s2" and "owes tn k s2 \<le> most"
  shows "bills_within (reads_of c s1 s2 s3 adapter) tn k most"
proof -
  have "0 \<le> t \<and> t \<le> most" if "CheckTotal (checks_guard c s2) tn k = Inr t" for t
    using checks_guard_bills [of c s2 adapter tn k] that assms(2,3)
    by (simp add: bills_def wired_service_def check_total_owes)
  then show ?thesis
    using branch_rounding_step [OF _ assms(1)] by (simp add: bills_within_def reads_of_def)
qed

lemma house_run_collects:
  assumes "house_run s0 t0 p0 seen t p" and "schema_ok s0" and "ledger_ok p0" and "k \<noteq> uuid_Nil"
    and "most < 2 ^ 62" and "collected tn k p0 \<le> most"
    and "\<forall>u \<in> set seen. 0 \<le> owes tn k u \<and> owes tn k u \<le> most"
  shows "(\<forall>u \<in> set seen. schema_ok u) \<and> ledger_ok p \<and> collected tn k p \<le> most"
  using assms
proof (induction rule: house_run.induct)
  case (house_serves s seen t p tn' s')
  have "pos_run s [tn'] s'" using run_step [OF run_nil house_serves(2)] by simp
  with house_serves show ?case by (auto dest: pos_run_schema)
next
  case (house_is_paid seen t p s1 s2 s3 c adapter p')
  then have ih: "\<forall>u \<in> set seen. schema_ok u" "ledger_ok p" "collected tn k p \<le> most" by simp_all
  have "pay_run t p [(reads_of c s1 s2 s3 adapter, c)] (ctx_now c) p'"
    using pay_run_step [OF pay_run_nil house_is_paid(5,6)] by simp
  then have "ledger_ok p'" using ih(2) by (rule pay_run_ledger)
  moreover have "bills_within (reads_of c s1 s2 s3 adapter) tn k most"
    using ih(1) house_is_paid by (intro reads_of_within) auto
  ultimately show ?case
    using pay_step_within [OF house_is_paid(5) ih(2) house_is_paid.prems(3) _ house_is_paid.prems(4) ih(3)] ih(1) by blast
qed simp

section \<open>Settlement\<close>

text \<open>C7: orders and payments interleaved: the point of sale and the payment module run at the
  same time, sales measured against totals that may have changed since they were read. If
  a check never owed more than some amount during the run, and had not collected more
  before it, then when it closes on what the payment module reports it is covered by
  completed payments, and what was collected or still waits at a device is at most that
  amount: a bill that was lowered is overpaid by no more than it was lowered. Where the
  check closes owing the most it ever did, it has been paid exactly, to the last minor
  unit, and nothing is left waiting.\<close>

theorem closed_check_settled:
  assumes run: "house_run s0 t0 p0 (s # seen) t p" and sch: "schema_ok s0" and ok: "ledger_ok p0"
    and k: "k \<noteq> uuid_Nil" and most: "most < 2 ^ 62" and start: "collected tn k p0 \<le> most"
    and owed: "\<forall>u \<in> set (s # seen). 0 \<le> owes tn k u \<and> owes tn k u \<le> most"
    and close: "CheckService_Close (payments_reader wrapped c p) c tn prn k who s = Inr (x, s')"
  shows "chk_status x = CheckStatusClosed \<and>
    owes tn k s \<le> total_by_status PaymentCompleted tn k p \<and>
    total_by_status PaymentCompleted tn k p + total_by_status PaymentPending tn k p \<le> most \<and>
    (owes tn k s = most \<longrightarrow>
       total_by_status PaymentCompleted tn k p = owes tn k s \<and> total_by_status PaymentPending tn k p = 0)"
proof -
  have ledger: "ledger_ok p" and upper: "collected tn k p \<le> most"
    using house_run_collects [OF run sch ok k most start owed] by simp_all
  from close obtain paid pending where reads: "TotalPaidForCheck (payments_reader wrapped c p) tn k = Inr paid"
    and close': "closeTx c prn tn k who paid pending (pos_tx c tn) s = Inr (x, s')"
    by (auto simp: CheckService_Close_Inr)
  from closeTx_Inr [OF close'] have lower: "owes tn k s \<le> paid" and "chk_status x = CheckStatusClosed"
    by (auto simp: check_total_owes)
  with upper payments_reader_Inr(1) [OF reads] collected_split [of tn k p]
    total_by_status_nonneg [OF ledger, of PaymentPending tn k]
  show ?thesis by auto
qed

text \<open>The check of the demonstration owes 1700: it is paid by card, the kitchen takes up its order,
  the device confirms, the check closes.\<close>

definition demo_wired :: "time \<Rightarrow> payment_service" where
  "demo_wired t = wired_service (demo_at t) demo_db (MockFiscalAdapter demo_id_text 0)"

definition demo_paid :: pay_db where
  "demo_paid = demo_pay\<lparr>pd_payments := [demo_payment 1000 ''b'' MethodTerminal 1700 2],
     pd_subs := [demo_registration 1001 1000 MethodTerminal 1700 2], pd_ctr := 2\<rparr>"

definition demo_confirm_call :: "(pay_db, pay_err, unit) tx" where
  "demo_confirm_call = process_submission (\<lambda>_. ''error'') (MockFiscalAdapter demo_id_text 0) demo_worker
     (demo_at 4) (scan_submission (demo_registration 1001 1000 MethodTerminal 1700 2))"

definition demo_confirmed :: pay_db where
  "demo_confirmed = after demo_confirm_call demo_paid"

lemma demo_wired_reads: "demo_wired t = reads_of (demo_at t) demo_db demo_db demo_db (MockFiscalAdapter demo_id_text 0)"
  by (simp add: demo_wired_def reads_of_one)

lemma demo_paid_step: "pay_step (demo_wired 2) (demo_at 2) demo_pay demo_paid"
proof -
  let ?sale = "PaymentService_RegisterSale id (demo_wired 2) (demo_at 2) (demo_request ''b'' MethodTerminal 1700)"
  have "tx_ok ?sale demo_pay" by code_simp
  then obtain p s' where sale: "?sale demo_pay = Inr (p, s')" by (rule tx_okE)
  have "sale_by_key 1 ''b'' demo_pay = None" by code_simp
  with demo_sale_made [OF sale] have "s' = demo_paid"
    by (simp add: demo_pay_defs demo_sale_defs demo_paid_def demo_wired_def wired_service_def)
  with pay_step.step_sale [OF sale] show ?thesis by simp
qed

lemma demo_confirmed_step: "pay_step (demo_wired 4) (demo_at 4) demo_paid demo_confirmed"
proof -
  have "tx_ok demo_confirm_call demo_paid" by code_simp
  from tx_ok_after [OF this] obtain u where
    run: "demo_confirm_call demo_paid = Inr (u, demo_confirmed)" by (auto simp: demo_confirmed_def)
  have sub: "submission_of demo_paid (scan_submission (demo_registration 1001 1000 MethodTerminal 1700 2))"
    by (rule scan_submission_of) (simp add: demo_paid_def)
  show ?thesis
    by (rule pay_step.step_process [OF sub, where err_text = "\<lambda>_. ''error''" and cfg = demo_worker])
      (use run in \<open>simp add: demo_wired_def wired_service_def demo_confirm_call_def\<close>)
qed


definition demo_cook_call :: "(pos_db, pos_err, order) tx" where
  "demo_cook_call = OrderService_AdvanceStatus demo_ctx 1 demo_principal 200 OrderStatusPreparing"

definition demo_cooking :: pos_db where
  "demo_cooking = after demo_cook_call demo_db"

lemma demo_house:
  "house_run demo_db 0 demo_pay [demo_cooking, demo_db] 4 demo_confirmed"
proof -
  note s1 = house_is_paid [OF house_opens [of demo_db 0 demo_pay] _ _ _ demo_paid_step [unfolded demo_wired_reads], simplified]
  have "tx_ok demo_cook_call demo_db" by code_simp
  from tx_ok_after [OF this] have "pos_step 1 demo_db demo_cooking"
    unfolding demo_cooking_def demo_cook_call_def using pos_step.step_advance by blast
  note s2 = house_serves [OF s1 this]
  from house_is_paid [OF s2 _ _ _ demo_confirmed_step [unfolded demo_wired_reads]] show ?thesis by simp
qed

theorem closed_check_settled_witness:
  "\<exists>x s'. CheckService_Close (payments_reader (\<lambda>_. ErrOther ''total paid'') (demo_at 5) demo_confirmed)
      (demo_at 5) 1 demo_principal 100 5 demo_cooking = Inr (x, s') \<and>
    total_by_status PaymentCompleted 1 100 demo_confirmed = 1700"
proof -
  let ?close = "CheckService_Close (payments_reader (\<lambda>_. ErrOther ''total paid'') (demo_at 5) demo_confirmed)
      (demo_at 5) 1 demo_principal 100 5"
  have "tx_ok ?close demo_cooking" by code_simp
  then obtain x s' where close: "?close demo_cooking = Inr (x, s')" by (rule tx_okE)
  have bill: "owes 1 100 demo_cooking = 1700" "owes 1 100 demo_db = 1700" by code_simp+
  have "(100 :: uuid) \<noteq> uuid_Nil" "collected 1 100 demo_pay \<le> 1700" by code_simp+
  from closed_check_settled [OF demo_house demo_schema demo_pay_ledger this(1) _ this(2) _ close] bill close
  show ?thesis by auto
qed

text \<open>The drop is the most that can be overpaid, and it can be: the same check, its order cancelled
  after the payment, closes with 1700 collected and nothing owed.\<close>

definition demo_cancelled :: pos_db where
  "demo_cancelled = after (OrderService_Cancel demo_ctx 1 demo_principal 200 5) demo_db"

lemma lowered_bill_overpaid:
  "house_run demo_db 0 demo_pay [demo_cancelled, demo_db] 4 demo_confirmed \<and> owes 1 100 demo_cancelled = 0 \<and>
   total_by_status PaymentCompleted 1 100 demo_confirmed = 1700 \<and>
   tx_ok (CheckService_Close (payments_reader (\<lambda>_. ErrOther ''total paid'') (demo_at 5) demo_confirmed)
     (demo_at 5) 1 demo_principal 100 5) demo_cancelled"
proof (intro conjI)
  note s1 = house_is_paid [OF house_opens [of demo_db 0 demo_pay] _ _ _ demo_paid_step [unfolded demo_wired_reads], simplified]
  have "tx_ok (OrderService_Cancel demo_ctx 1 demo_principal 200 5) demo_db" by code_simp
  from tx_ok_after [OF this] have "pos_step 1 demo_db demo_cancelled"
    unfolding demo_cancelled_def using pos_step.step_order_cancel by blast
  note s2 = house_serves [OF s1 this]
  from house_is_paid [OF s2 _ _ _ demo_confirmed_step [unfolded demo_wired_reads]]
  show "house_run demo_db 0 demo_pay [demo_cancelled, demo_db] 4 demo_confirmed" by simp
qed code_simp+

end
