(* ===== verification/Outbox_Dispatcher.thy ===== *)
theory Outbox_Dispatcher
  imports Outbox_Row Rls_Rows
begin

text \<open>
  platform/outbox/dispatcher.go: the loop that carries the events of the outbox tables
  to NATS JetStream. A cycle claims a batch in a short transaction, publishes it outside
  of any transaction, and stores the results in another. The table rows are those of
  \<open>outbox_row\<close> with the columns of the migrations 000002 and 000003. The clock counts
  nanoseconds, as \<open>time.Duration\<close> does.

  JetStream is a list of the messages it stored; whether it acknowledges a message, and
  whether it stored one it did not acknowledge, is a parameter.
\<close>

section \<open>State\<close>

record dispatch_row = outbox_row +
  drw_retry :: int
  drw_next :: "time option"
  drw_error :: "string option"
  drw_dead :: bool
  drw_claimed :: "time option"
  drw_processed :: "time option"

record nats_msg =
  msg_subject :: string
  msg_data :: "(string \<times> json) list"
  msg_id :: uuid

datatype publish_answer = Acked | NotAcked string bool    \<comment> \<open>the error; was it stored all the same\<close>

record table_spec =
  tsp_table :: string
  tsp_module :: string

record dispatcher_config =
  ocf_poll :: int
  ocf_batch :: int
  ocf_max_retries :: int
  ocf_publish_timeout :: int
  ocf_tables :: "table_spec list"
  ocf_stale :: int

record outbox_dispatcher =
  dsp_cfg :: dispatcher_config
  dsp_publish_timeout :: int
  dsp_stale :: int
  dsp_disabled :: "string set"

record broker_db =
  obd_tables :: "string \<rightharpoonup> dispatch_row list"
  obd_stream :: "nats_msg list"

datatype outbox_err = UndefinedTable | OutboxDb string

definition DefaultTables :: "table_spec list" where
  "DefaultTables =
     [\<lparr>tsp_table = ''pos_outbox'', tsp_module = ''pos''\<rparr>,
      \<lparr>tsp_table = ''payment_outbox'', tsp_module = ''payment''\<rparr>]"

definition second :: int where
  "second = 1000000000"

text \<open>\<open>Register\<close>: an empty DSN starts no dispatcher.\<close>

definition Outbox_Register :: "string \<Rightarrow> dispatcher_config \<Rightarrow> outbox_dispatcher option" where
  "Outbox_Register dsn cfg =
     (if dsn = '''' then None
      else Some \<lparr>dsp_cfg = cfg,
        dsp_publish_timeout = (if ocf_publish_timeout cfg \<le> 0 then 5 * second else ocf_publish_timeout cfg),
        dsp_stale = (if ocf_stale cfg \<le> 0 then 300 * second else ocf_stale cfg),
        dsp_disabled = {}\<rparr>)"

definition dispatcher_tables :: "outbox_dispatcher \<Rightarrow> table_spec list" where
  "dispatcher_tables d = (if ocf_tables (dsp_cfg d) \<noteq> [] then ocf_tables (dsp_cfg d) else DefaultTables)"

section \<open>Claiming\<close>

definition stale_seconds :: "outbox_dispatcher \<Rightarrow> int" where
  "stale_seconds d = (let n = dsp_stale d div second in if n < 1 then 1 else n)"

definition claimable :: "outbox_dispatcher \<Rightarrow> time \<Rightarrow> dispatch_row \<Rightarrow> bool" where
  "claimable d now r \<longleftrightarrow>
     drw_processed r = None \<and> \<not> drw_dead r \<and>
     (case drw_next r of None \<Rightarrow> True | Some t \<Rightarrow> t \<le> now) \<and>
     (case drw_claimed r of None \<Rightarrow> True | Some t \<Rightarrow> t \<le> now - stale_seconds d * second)"

definition event_before :: "dispatch_row \<Rightarrow> dispatch_row \<Rightarrow> bool" where
  "event_before a b \<longleftrightarrow>
     obx_agg_id a < obx_agg_id b \<or> obx_agg_id a = obx_agg_id b \<and> obx_id a < obx_id b"

text \<open>The rows the subquery selects: \<open>locked\<close> are those another dispatcher holds at this
  moment (\<open>SKIP LOCKED\<close>). An UPDATE returns its rows in an order of its own, \<open>arrange\<close>.\<close>

definition selected_rows ::
  "outbox_dispatcher \<Rightarrow> uuid set \<Rightarrow> time \<Rightarrow> dispatch_row list \<Rightarrow> dispatch_row list" where
  "selected_rows d locked now rows =
     take (nat (ocf_batch (dsp_cfg d)))
       (sort_by event_before (filter (\<lambda>r. claimable d now r \<and> obx_id r \<notin> locked) rows))"

definition claim_rows :: "time \<Rightarrow> uuid set \<Rightarrow> dispatch_row list \<Rightarrow> dispatch_row list" where
  "claim_rows now ids rows = update_rows (\<lambda>r. obx_id r \<in> ids) (\<lambda>r. r\<lparr>drw_claimed := Some now\<rparr>) rows"

definition Outbox_claimBatch ::
  "(dispatch_row list \<Rightarrow> dispatch_row list) \<Rightarrow> uuid set \<Rightarrow> outbox_dispatcher \<Rightarrow> time \<Rightarrow> string \<Rightarrow> broker_db \<Rightarrow>
   outbox_err + dispatch_row list \<times> broker_db" where
  "Outbox_claimBatch arrange locked d now table s =
     (case obd_tables s table of
        None \<Rightarrow> Inl UndefinedTable
      | Some rows \<Rightarrow>
          if ocf_batch (dsp_cfg d) < 0 then Inl (OutboxDb ''LIMIT must not be negative'')
          else let batch = selected_rows d locked now rows
               in Inr (arrange batch,
                       s\<lparr>obd_tables := (obd_tables s)(table \<mapsto> claim_rows now (obx_id ` set batch) rows)\<rparr>))"

section \<open>Publishing\<close>

definition TrimPrefix :: "string \<Rightarrow> string \<Rightarrow> string" where
  "TrimPrefix s p = (if take (length p) s = p then drop (length p) s else s)"

definition toSubject :: "string \<Rightarrow> string \<Rightarrow> string" where
  "toSubject module eventType = module @ ''.'' @ TrimPrefix eventType (module @ ''.'') @ ''.v1''"

definition message_of :: "string \<Rightarrow> ('x outbox_row_scheme) \<Rightarrow> nats_msg" where
  "message_of module r =
     \<lparr>msg_subject = toSubject module (obx_type r), msg_data = obx_payload r, msg_id = obx_id r\<rparr>"

record publish_results =
  pbr_ok :: "uuid list"
  pbr_failed :: "(dispatch_row \<times> string) list"

text \<open>One turn of the publishing loop.\<close>

definition publish_one ::
  "(nats_msg \<Rightarrow> publish_answer) \<Rightarrow> string \<Rightarrow> dispatch_row \<Rightarrow> publish_results \<times> nats_msg list \<Rightarrow>
   publish_results \<times> nats_msg list" where
  "publish_one pub module r acc =
     (case acc of (res, stream) \<Rightarrow>
        let m = message_of module r
        in case pub m of
             Acked \<Rightarrow> (res\<lparr>pbr_ok := pbr_ok res @ [obx_id r]\<rparr>, stream @ [m])
           | NotAcked e stored \<Rightarrow>
               (res\<lparr>pbr_failed := pbr_failed res @ [(r, e)]\<rparr>, if stored then stream @ [m] else stream))"

definition publish_batch ::
  "(nats_msg \<Rightarrow> publish_answer) \<Rightarrow> string \<Rightarrow> dispatch_row list \<Rightarrow> nats_msg list \<Rightarrow>
   publish_results \<times> nats_msg list" where
  "publish_batch pub module batch stream =
     fold (publish_one pub module) batch (\<lparr>pbr_ok = [], pbr_failed = []\<rparr>, stream)"

section \<open>Results\<close>

text \<open>\<open>time.Duration(math.Pow(2, retry)) * time.Second + jitter\<close>, then the cap. A power of
  two is exact as a float64; its conversion is defined up to \<open>2 ^ 62\<close>, and
  \<open>conv\<close> is what the machine makes of a larger one. The multiplication wraps.\<close>

definition outbox_retryBackoff :: "(nat \<Rightarrow> int) \<Rightarrow> int \<Rightarrow> time \<Rightarrow> nat \<Rightarrow> time" where
  "outbox_retryBackoff conv jitter now retry =
     (let exp = (if retry < 63 then 2 ^ retry else conv retry);
          delay = wrap64 (wrap64 (exp * second) + jitter)
      in now + (if delay > 60 * second then 60 * second + jitter else delay))"

definition mark_processed :: "time \<Rightarrow> uuid \<Rightarrow> dispatch_row list \<Rightarrow> dispatch_row list" where
  "mark_processed now i rows = update_rows (\<lambda>r. obx_id r = i) (\<lambda>r. r\<lparr>drw_processed := Some now\<rparr>) rows"

definition mark_retry ::
  "(nat \<Rightarrow> time) \<Rightarrow> int \<Rightarrow> dispatch_row \<times> string \<Rightarrow> dispatch_row list \<Rightarrow> dispatch_row list" where
  "mark_retry backoff maxRetries f rows =
     (let newRetry = drw_retry (fst f) + 1
      in update_rows (\<lambda>r. obx_id r = obx_id (fst f))
           (\<lambda>r. r\<lparr>drw_retry := newRetry, drw_next := Some (backoff (nat newRetry)),
                  drw_error := Some (snd f), drw_dead := newRetry > maxRetries, drw_claimed := None\<rparr>) rows)"

definition apply_results ::
  "(nat \<Rightarrow> time) \<Rightarrow> time \<Rightarrow> int \<Rightarrow> publish_results \<Rightarrow> dispatch_row list \<Rightarrow> dispatch_row list" where
  "apply_results backoff now maxRetries res rows =
     fold (mark_retry backoff maxRetries) (pbr_failed res) (fold (mark_processed now) (pbr_ok res) rows)"

definition max_retries :: "outbox_dispatcher \<Rightarrow> int" where
  "max_retries d = (if ocf_max_retries (dsp_cfg d) \<le> 0 then 10 else ocf_max_retries (dsp_cfg d))"

text \<open>\<open>apply_error\<close>: the transaction that stores the results failed; nothing of it stays.\<close>

definition Outbox_applyResults ::
  "string option \<Rightarrow> (nat \<Rightarrow> time) \<Rightarrow> time \<Rightarrow> string \<Rightarrow> int \<Rightarrow> publish_results \<Rightarrow> broker_db \<Rightarrow>
   outbox_err + broker_db" where
  "Outbox_applyResults apply_error backoff now table maxRetries res s =
     (case apply_error of
        Some e \<Rightarrow> Inl (OutboxDb e)
      | None \<Rightarrow> Inr (s\<lparr>obd_tables := (obd_tables s)(table :=
          map_option (apply_results backoff now maxRetries res) (obd_tables s table))\<rparr>))"

section \<open>A cycle\<close>

text \<open>What one cycle meets: locks, the order of RETURNING, the broker, the clock, a failure.\<close>

record cycle_env =
  cyc_locked :: "uuid set"
  cyc_arrange :: "dispatch_row list \<Rightarrow> dispatch_row list"
  cyc_pub :: "nats_msg \<Rightarrow> publish_answer"
  cyc_now :: time
  cyc_backoff :: "nat \<Rightarrow> time"
  cyc_apply_error :: "string option"

definition Outbox_dispatchTable ::
  "cycle_env \<Rightarrow> table_spec \<Rightarrow> outbox_dispatcher \<times> broker_db \<Rightarrow>
   outbox_err option \<times> outbox_dispatcher \<times> broker_db" where
  "Outbox_dispatchTable env t ds =
     (case ds of (d, s) \<Rightarrow>
        if tsp_table t \<in> dsp_disabled d then (None, d, s)
        else case Outbox_claimBatch (cyc_arrange env) (cyc_locked env) d (cyc_now env) (tsp_table t) s of
          Inl e \<Rightarrow> (if e = UndefinedTable
                   then (None, d\<lparr>dsp_disabled := insert (tsp_table t) (dsp_disabled d)\<rparr>, s)
                   else (Some e, d, s))
        | Inr (batch, s1) \<Rightarrow>
            if batch = [] then (None, d, s1)
            else case publish_batch (cyc_pub env) (tsp_module t) batch (obd_stream s1) of
              (res, stream) \<Rightarrow>
                let s2 = s1\<lparr>obd_stream := stream\<rparr>
                in case Outbox_applyResults (cyc_apply_error env) (cyc_backoff env) (cyc_now env)
                          (tsp_table t) (max_retries d) res s2 of
                     Inl e \<Rightarrow> (Some e, d, s2)
                   | Inr s3 \<Rightarrow> (None, d, s3))"

text \<open>A tick of the loop: every table, an error is logged.\<close>

definition Outbox_tick :: "(table_spec \<Rightarrow> cycle_env) \<Rightarrow> outbox_dispatcher \<times> broker_db \<Rightarrow> outbox_dispatcher \<times> broker_db" where
  "Outbox_tick env ds = fold (\<lambda>t ds. snd (Outbox_dispatchTable (env t) t ds)) (dispatcher_tables (fst ds)) ds"

definition pending_rows :: "dispatch_row list \<Rightarrow> nat" where
  "pending_rows rows = length (filter (\<lambda>r. drw_processed r = None \<and> \<not> drw_dead r) rows)"

end
