(* ===== verification/Outbox_Props.thy ===== *)
theory Outbox_Props
  imports Outbox_Dispatcher
begin

text \<open>
  What the outbox guarantees: nothing is marked as processed that JetStream did not
  store, whatever dispatchers run beside each other and crash in between; and with a
  broker that answers, a backlog is carried off in as many cycles as batches it fills.
\<close>

section \<open>Many dispatchers on one table\<close>

text \<open>\<open>onw_work\<close> holds what each dispatcher has in memory: the rest of its batch and its
  results so far.\<close>

record outbox_net =
  onw_rows :: "dispatch_row list"
  onw_stream :: "nats_msg list"
  onw_work :: "nat \<Rightarrow> (dispatch_row list \<times> publish_results) option"

inductive outbox_step :: "outbox_dispatcher \<Rightarrow> string \<Rightarrow> outbox_net \<Rightarrow> outbox_net \<Rightarrow> bool"
  for d module where
  os_emit: "obx_id r \<notin> obx_id ` set (onw_rows w) \<Longrightarrow> drw_processed r = None \<Longrightarrow> \<not> drw_dead r \<Longrightarrow>
    outbox_step d module w (w\<lparr>onw_rows := onw_rows w @ [r]\<rparr>)"
| os_claim: "onw_work w i = None \<Longrightarrow> batch = selected_rows d locked now (onw_rows w) \<Longrightarrow>
    set batch' = set batch \<Longrightarrow>
    outbox_step d module w (w\<lparr>onw_rows := claim_rows now (obx_id ` set batch) (onw_rows w),
      onw_work := (onw_work w)(i \<mapsto> (batch', \<lparr>pbr_ok = [], pbr_failed = []\<rparr>))\<rparr>)"
| os_publish: "onw_work w i = Some (r # rest, res) \<Longrightarrow>
    publish_one pub module r (res, onw_stream w) = (res', stream') \<Longrightarrow>
    outbox_step d module w (w\<lparr>onw_stream := stream', onw_work := (onw_work w)(i \<mapsto> (rest, res'))\<rparr>)"
| os_apply: "onw_work w i = Some ([], res) \<Longrightarrow>
    outbox_step d module w (w\<lparr>onw_rows := apply_results backoff now (max_retries d) res (onw_rows w),
      onw_work := (onw_work w)(i := None)\<rparr>)"
| os_crash: "outbox_step d module w (w\<lparr>onw_work := (onw_work w)(i := None)\<rparr>)"

definition same_event :: "dispatch_row \<Rightarrow> dispatch_row \<Rightarrow> bool" where
  "same_event r r' \<longleftrightarrow> outbox_row.truncate r' = outbox_row.truncate r"

definition work_ok :: "string \<Rightarrow> dispatch_row list \<Rightarrow> nats_msg list \<Rightarrow> dispatch_row list \<times> publish_results \<Rightarrow> bool" where
  "work_ok module rows stream wk \<longleftrightarrow>
     (\<forall>b \<in> set (fst wk). \<exists>r \<in> set rows. same_event b r) \<and>
     (\<forall>x \<in> set (pbr_ok (snd wk)). \<exists>r \<in> set rows. obx_id r = x \<and> message_of module r \<in> set stream)"

definition outbox_ok :: "outbox_dispatcher \<Rightarrow> string \<Rightarrow> outbox_net \<Rightarrow> bool" where
  "outbox_ok d module w \<longleftrightarrow>
     distinct (map obx_id (onw_rows w)) \<and>
     (\<forall>r \<in> set (onw_rows w). drw_processed r \<noteq> None \<longrightarrow> message_of module r \<in> set (onw_stream w)) \<and>
     (\<forall>r \<in> set (onw_rows w). drw_dead r \<longrightarrow> max_retries d < drw_retry r) \<and>
     (\<forall>i wk. onw_work w i = Some wk \<longrightarrow> work_ok module (onw_rows w) (onw_stream w) wk)"

lemma same_event_refl [simp]: "same_event r r"
  by (simp add: same_event_def)

lemma same_event_trans: "same_event a b \<Longrightarrow> same_event b c \<Longrightarrow> same_event a c"
  by (simp add: same_event_def)

lemma same_event_message: "same_event r r' \<Longrightarrow> message_of module r' = message_of module r \<and> obx_id r' = obx_id r"
  by (cases r; cases r') (simp add: same_event_def message_of_def outbox_row.truncate_def)

lemma work_ok_mono:
  assumes wk: "work_ok module rows stream wk" and rows: "\<And>r. r \<in> set rows \<Longrightarrow> \<exists>r' \<in> set rows'. same_event r r'"
    and stream: "set stream \<subseteq> set stream'"
  shows "work_ok module rows' stream' wk"
  unfolding work_ok_def
proof (intro conjI ballI)
  fix b assume "b \<in> set (fst wk)"
  with wk obtain r where r: "r \<in> set rows" "same_event b r" by (auto simp: work_ok_def)
  from rows [OF r(1)] obtain r' where r': "r' \<in> set rows'" "same_event r r'" by (elim bexE)
  from same_event_trans [OF r(2) r'(2)] r'(1) show "\<exists>r' \<in> set rows'. same_event b r'" ..
next
  fix x assume "x \<in> set (pbr_ok (snd wk))"
  with wk obtain r where r: "r \<in> set rows" "obx_id r = x" "message_of module r \<in> set stream"
    unfolding work_ok_def by blast
  from rows [OF r(1)] obtain r' where r': "r' \<in> set rows'" "same_event r r'" by (elim bexE)
  then have "obx_id r' = x" "message_of module r' \<in> set stream'"
    using r(2,3) stream same_event_message [OF r'(2), of module] by auto
  with r'(1) show "\<exists>r' \<in> set rows'. obx_id r' = x \<and> message_of module r' \<in> set stream'" by blast
qed

lemma event_updates [simp]:
  "same_event r (r\<lparr>drw_claimed := x\<rparr>)" "same_event r (r\<lparr>drw_processed := y\<rparr>)"
  "same_event r (r\<lparr>drw_retry := n, drw_next := t, drw_error := e, drw_dead := b, drw_claimed := x\<rparr>)"
  by (simp_all add: same_event_def outbox_row.truncate_def)

text \<open>What the two writing transactions do to the rows: the events stay, row by row.\<close>

lemma fold_rows:
  assumes "\<And>x rows. list_all2 R rows (f x rows)" and "\<And>r. R r r" and "\<And>a b c. R a b \<Longrightarrow> R b c \<Longrightarrow> R a c"
  shows "list_all2 R rows (fold f xs rows)"
proof (induction xs arbitrary: rows)
  case (Cons x xs)
  have "list_all2 R rows (f x rows)" by (rule assms(1))
  then have "list_all2 R rows (fold f xs (f x rows))"
    using Cons [of "f x rows"] assms(3) by (rule list_all2_trans [rotated])
  then show ?case by simp
qed (simp add: list_all2_same assms(2))

definition applied :: "int \<Rightarrow> uuid set \<Rightarrow> dispatch_row \<Rightarrow> dispatch_row \<Rightarrow> bool" where
  "applied lim ok r r' \<longleftrightarrow> same_event r r' \<and>
     (drw_processed r' \<noteq> None \<longrightarrow> drw_processed r \<noteq> None \<or> obx_id r \<in> ok) \<and>
     (drw_dead r' \<longrightarrow> (drw_dead r \<and> drw_retry r' = drw_retry r) \<or> lim < drw_retry r')"

lemma applied_refl [simp]: "applied lim ok r r"
  by (simp add: applied_def)

lemma applied_trans:
  assumes "applied lim ok a b" and "applied lim ok b c"
  shows "applied lim ok a c"
proof -
  have "same_event a b" "same_event b c" using assms by (simp_all add: applied_def)
  then have "same_event a c" "obx_id b = obx_id a"
    using same_event_trans same_event_message by blast+
  with assms show ?thesis by (auto simp: applied_def)
qed

lemma applied_rows_trans:
  "list_all2 (applied lim ok) a b \<Longrightarrow> list_all2 (applied lim ok) b c \<Longrightarrow> list_all2 (applied lim ok) a c"
  by (rule list_all2_trans [OF applied_trans])

lemma applied_update:
  "(\<And>r. P r \<Longrightarrow> applied lim ok r (f r)) \<Longrightarrow> list_all2 (applied lim ok) rows (update_rows P f rows)"
  by (auto simp: update_rows_def list_all2_map2 intro: list_all2_refl)

lemma apply_results_rows:
  "list_all2 (applied lim (set (pbr_ok res))) rows (apply_results backoff now lim res rows)"
proof -
  have ok: "list_all2 (applied lim (set oks)) rows (fold (mark_processed now) xs rows)" if "set xs \<subseteq> set oks" for xs oks rows
    using that
  proof (induction xs arbitrary: rows)
    case (Cons x xs)
    have "list_all2 (applied lim (set oks)) rows (mark_processed now x rows)"
      unfolding mark_processed_def using Cons.prems
      by (intro applied_update) (auto simp: applied_def)
    then show ?case
      using Cons.IH [of "mark_processed now x rows"] Cons.prems by (auto intro: applied_rows_trans)
  qed (simp add: list_all2_same)
  have failed: "list_all2 (applied lim ok) rows (fold (mark_retry backoff lim) fs rows)" for ok fs rows
  proof (rule fold_rows)
    fix f :: "dispatch_row \<times> string" and rows
    show "list_all2 (applied lim ok) rows (mark_retry backoff lim f rows)"
      unfolding mark_retry_def Let_def by (rule applied_update) (simp add: applied_def)
  qed (simp, rule applied_trans)
  show ?thesis
    unfolding apply_results_def by (rule applied_rows_trans [OF ok [OF subset_refl] failed])
qed

section \<open>The invariant\<close>

lemma list_all2_mem:
  assumes "list_all2 R xs ys"
  shows "x \<in> set xs \<Longrightarrow> \<exists>y \<in> set ys. R x y" and "y \<in> set ys \<Longrightarrow> \<exists>x \<in> set xs. R x y"
  using assms by (auto simp: list_all2_conv_all_nth in_set_conv_nth) (metis nth_mem)+

text \<open>Rows may be rewritten as long as the events stay and no row is marked as processed
  whose message is not stored.\<close>

lemma outbox_ok_rewrite:
  assumes ok: "outbox_ok d module w" and rows: "list_all2 (applied (max_retries d) ids) (onw_rows w) rows'"
    and ids: "\<And>r. r \<in> set (onw_rows w) \<Longrightarrow> obx_id r \<in> ids \<Longrightarrow> message_of module r \<in> set (onw_stream w)"
    and work: "\<And>j. work' j = onw_work w j \<or> work' j = None \<or>
      (\<exists>batch. work' j = Some (batch, \<lparr>pbr_ok = [], pbr_failed = []\<rparr>) \<and> set batch \<subseteq> set (onw_rows w))"
  shows "outbox_ok d module (w\<lparr>onw_rows := rows', onw_work := work'\<rparr>)"
proof -
  have same: "list_all2 same_event (onw_rows w) rows'"
    using rows by (rule list_all2_mono) (simp add: applied_def)
  then have "list_all2 (\<lambda>r r'. obx_id r = obx_id r') (onw_rows w) rows'"
    by (rule list_all2_mono) (simp add: same_event_message)
  then have "map obx_id rows' = map obx_id (onw_rows w)" by (induction rule: list_all2_induct) simp_all
  then have "distinct (map obx_id rows')" using ok by (simp add: outbox_ok_def)
  moreover have "message_of module r' \<in> set (onw_stream w)" if r': "r' \<in> set rows'" "drw_processed r' \<noteq> None" for r'
  proof -
    from list_all2_mem(2) [OF rows r'(1)] obtain r where r: "r \<in> set (onw_rows w)" "applied (max_retries d) ids r r'" by blast
    with r'(2) have "drw_processed r \<noteq> None \<or> obx_id r \<in> ids" by (simp add: applied_def)
    with r(1) ok ids have "message_of module r \<in> set (onw_stream w)" by (auto simp: outbox_ok_def)
    with r(2) same_event_message show ?thesis by (metis applied_def)
  qed
  moreover have "max_retries d < drw_retry r'" if r': "r' \<in> set rows'" "drw_dead r'" for r'
  proof -
    from list_all2_mem(2) [OF rows r'(1)] obtain r where r: "r \<in> set (onw_rows w)" "applied (max_retries d) ids r r'" by blast
    with r'(2) ok show ?thesis by (auto simp: applied_def outbox_ok_def)
  qed
  moreover have "work_ok module rows' (onw_stream w) wk" if wk: "work' j = Some wk" for j wk
  proof -
    have keep: "\<exists>r' \<in> set rows'. same_event r r'" if "r \<in> set (onw_rows w)" for r
      using list_all2_mem(1) [OF same that] .
    from work [of j] wk consider (old) "onw_work w j = Some wk"
      | (fresh) batch where "wk = (batch, \<lparr>pbr_ok = [], pbr_failed = []\<rparr>)" "set batch \<subseteq> set (onw_rows w)"
      by auto
    then show ?thesis
    proof cases
      case old
      with ok have "work_ok module (onw_rows w) (onw_stream w) wk" unfolding outbox_ok_def by blast
      then show ?thesis using keep by (rule work_ok_mono) simp_all
    next
      case fresh
      then show ?thesis using keep by (auto simp: work_ok_def)
    qed
  qed
  ultimately show ?thesis by (simp add: outbox_ok_def)
qed

lemma outbox_step_ok:
  assumes step: "outbox_step d module w w'" and ok: "outbox_ok d module w"
  shows "outbox_ok d module w'"
  using step
proof cases
  case (os_emit r)
  have keep: "work_ok module (onw_rows w @ [r]) (onw_stream w) wk" if "work_ok module (onw_rows w) (onw_stream w) wk" for wk
    using that by (rule work_ok_mono) (auto intro: same_event_refl)
  have work: "work_ok module (onw_rows w) (onw_stream w) wk" if "onw_work w i = Some wk" for i wk
    using ok that unfolding outbox_ok_def by blast
  have rows: "distinct (map obx_id (onw_rows w))"
    "\<forall>r \<in> set (onw_rows w). drw_processed r \<noteq> None \<longrightarrow> message_of module r \<in> set (onw_stream w)"
    "\<forall>r \<in> set (onw_rows w). drw_dead r \<longrightarrow> max_retries d < drw_retry r"
    using ok unfolding outbox_ok_def by blast+
  show ?thesis unfolding os_emit(1) outbox_ok_def
  proof (intro conjI allI impI)
    fix i wk assume "onw_work (w\<lparr>onw_rows := onw_rows w @ [r]\<rparr>) i = Some wk"
    then show "work_ok module (onw_rows (w\<lparr>onw_rows := onw_rows w @ [r]\<rparr>))
        (onw_stream (w\<lparr>onw_rows := onw_rows w @ [r]\<rparr>)) wk" using keep work by simp
  qed (use rows os_emit in auto)
next
  case (os_claim i batch locked now batch')
  have "list_all2 (applied (max_retries d) {}) (onw_rows w) (claim_rows now (obx_id ` set batch) (onw_rows w))"
    unfolding claim_rows_def by (rule applied_update) (simp add: applied_def)
  moreover have "set batch' \<subseteq> set (onw_rows w)"
    using os_claim by (auto simp: selected_rows_def dest: in_set_takeD)
  ultimately show ?thesis unfolding os_claim(1) using ok
    by (intro outbox_ok_rewrite) auto
next
  case (os_publish i r rest res pub res' stream')
  have wk: "work_ok module (onw_rows w) (onw_stream w) (r # rest, res)"
    using ok os_publish(2) unfolding outbox_ok_def by blast
  then obtain q where q: "q \<in> set (onw_rows w)" "same_event r q" by (auto simp: work_ok_def)
  from os_publish(3) have grows: "set (onw_stream w) \<subseteq> set stream'"
    and oks: "set (pbr_ok res') = set (pbr_ok res) \<or>
      set (pbr_ok res') = insert (obx_id r) (set (pbr_ok res)) \<and> message_of module r \<in> set stream'"
    by (auto simp: publish_one_def Let_def split: publish_answer.split_asm)
  have more: "work_ok module (onw_rows w) stream' x" if "work_ok module (onw_rows w) (onw_stream w) x" for x
    using that by (rule work_ok_mono) (use grows in \<open>auto intro: same_event_refl\<close>)
  have "work_ok module (onw_rows w) stream' (rest, res')"
    unfolding work_ok_def
  proof (intro conjI ballI)
    fix b assume "b \<in> set (fst (rest, res'))"
    then show "\<exists>r \<in> set (onw_rows w). same_event b r" using wk by (simp add: work_ok_def)
  next
    fix x assume "x \<in> set (pbr_ok (snd (rest, res')))"
    then consider "x \<in> set (pbr_ok res)" | "x = obx_id r" "message_of module r \<in> set stream'" using oks by auto
    then show "\<exists>r \<in> set (onw_rows w). obx_id r = x \<and> message_of module r \<in> set stream'"
    proof cases
      case 1
      then show ?thesis using more [OF wk] unfolding work_ok_def by simp
    next
      case 2
      then show ?thesis using q same_event_message [OF q(2), of module] by auto
    qed
  qed
  then have "work_ok module (onw_rows w) stream' x" if "((onw_work w)(i \<mapsto> (rest, res'))) j = Some x" for j x
  proof (cases "j = i")
    case False
    with that have "onw_work w j = Some x" by simp
    with ok have "work_ok module (onw_rows w) (onw_stream w) x" unfolding outbox_ok_def by blast
    then show ?thesis by (rule more)
  qed (use that \<open>work_ok module (onw_rows w) stream' (rest, res')\<close> in simp)
  then show ?thesis using ok grows unfolding os_publish(1) outbox_ok_def
    by (simp del: split_paired_All fun_upd_apply) blast
next
  case (os_apply i res backoff now)
  have wk: "work_ok module (onw_rows w) (onw_stream w) ([], res)"
    using ok os_apply(2) unfolding outbox_ok_def by blast
  have "message_of module r \<in> set (onw_stream w)" if "r \<in> set (onw_rows w)" "obx_id r \<in> set (pbr_ok res)" for r
  proof -
    from wk that(2) obtain q where q: "q \<in> set (onw_rows w)" "obx_id q = obx_id r" "message_of module q \<in> set (onw_stream w)"
      by (auto simp: work_ok_def)
    moreover have "q = r" using ok q that(1) by (auto simp: outbox_ok_def dest: distinct_key_unique)
    ultimately show ?thesis by simp
  qed
  then show ?thesis unfolding os_apply(1)
    by (rule outbox_ok_rewrite [OF ok apply_results_rows]) auto
next
  case (os_crash i)
  have "onw_work w j = Some x" if "((onw_work w)(i := None)) j = Some x" for j x
    using that by (simp split: if_splits)
  then show ?thesis using ok unfolding os_crash(1) outbox_ok_def
    by (simp del: split_paired_All fun_upd_apply) blast
qed

lemma outbox_step_keeps:
  assumes "outbox_step d module w w'" and "r \<in> set (onw_rows w)"
  shows "\<exists>r' \<in> set (onw_rows w'). same_event r r'"
proof -
  have "\<exists>r' \<in> set rows'. same_event r r'" if "list_all2 (applied lim ids) (onw_rows w) rows'" for lim ids rows'
    using list_all2_mem(1) [OF that assms(2)] by (auto simp: applied_def)
  note rewritten = this
  from assms(1) show ?thesis
  proof cases
    case (os_claim i batch locked now batch')
    have "list_all2 (applied 0 {}) (onw_rows w) (claim_rows now (obx_id ` set batch) (onw_rows w))"
      unfolding claim_rows_def by (rule applied_update) (simp add: applied_def)
    from rewritten [OF this] show ?thesis by (simp add: os_claim(1))
  next
    case (os_apply i res backoff now)
    from rewritten [OF apply_results_rows] show ?thesis by (simp add: os_apply(1))
  qed (use assms(2) in \<open>auto intro: bexI [of _ r]\<close>)
qed

text \<open>C16: the outbox delivers at least once. Whatever events the modules emit and however
  any number of dispatchers interleave their claims, their publishing and their result
  transactions, reclaim what others hold, or crash at any point: an event is marked as
  processed only when JetStream stored its message, subject and payload derived from the
  row and the event id as the message id; it is given up only after more failures than
  the limit; and no emitted event ever disappears or changes.\<close>

theorem outbox_delivers:
  assumes run: "rtranclp (outbox_step d module) w w'" and ok: "outbox_ok d module w"
  shows "(\<forall>r \<in> set (onw_rows w'). drw_processed r \<noteq> None \<longrightarrow> message_of module r \<in> set (onw_stream w')) \<and>
    (\<forall>r \<in> set (onw_rows w'). drw_dead r \<longrightarrow> max_retries d < drw_retry r) \<and>
    (\<forall>r \<in> set (onw_rows w). \<exists>r' \<in> set (onw_rows w'). outbox_row.truncate r' = outbox_row.truncate r)"
proof -
  from run have "outbox_ok d module w' \<and> (\<forall>r \<in> set (onw_rows w). \<exists>r' \<in> set (onw_rows w'). same_event r r')"
  proof (induction rule: rtranclp_induct)
    case (step v v')
    show ?case
    proof (intro conjI ballI)
      show "outbox_ok d module v'" using step.hyps(2) step.IH by (blast intro: outbox_step_ok)
      fix r assume "r \<in> set (onw_rows w)"
      with step.IH obtain q where q: "q \<in> set (onw_rows v)" "same_event r q" by blast
      from outbox_step_keeps [OF step.hyps(2) q(1)] obtain r' where
        r': "r' \<in> set (onw_rows v')" "same_event q r'" by (elim bexE)
      from same_event_trans [OF q(2) r'(2)] r'(1) show "\<exists>r' \<in> set (onw_rows v'). same_event r r'" ..
    qed
  qed (use ok same_event_refl in blast)
  then show ?thesis unfolding outbox_ok_def same_event_def by blast
qed

section \<open>Draining a backlog\<close>

definition is_pending :: "dispatch_row \<Rightarrow> bool" where
  "is_pending r \<longleftrightarrow> drw_processed r = None \<and> \<not> drw_dead r"

definition ready :: "outbox_dispatcher \<Rightarrow> time \<Rightarrow> dispatch_row list \<Rightarrow> bool" where
  "ready d now rows \<longleftrightarrow> distinct (map obx_id rows) \<and> (\<forall>r \<in> set rows. is_pending r \<longrightarrow> claimable d now r)"

text \<open>A broker that acknowledges, no lock, no failing transaction.\<close>

definition calm :: "time \<Rightarrow> cycle_env \<Rightarrow> bool" where
  "calm t env \<longleftrightarrow> cyc_locked env = {} \<and> (\<forall>m. cyc_pub env m = Acked) \<and> cyc_apply_error env = None \<and>
     (\<forall>xs. mset (cyc_arrange env xs) = mset xs) \<and> t \<le> cyc_now env"

lemma publish_all:
  assumes "\<And>m. pub m = Acked"
  shows "publish_batch pub module batch stream =
    (\<lparr>pbr_ok = map obx_id batch, pbr_failed = []\<rparr>, stream @ map (message_of module) batch)"
proof -
  have "fold (publish_one pub module) batch (\<lparr>pbr_ok = ok, pbr_failed = []\<rparr>, stream) =
      (\<lparr>pbr_ok = ok @ map obx_id batch, pbr_failed = []\<rparr>, stream @ map (message_of module) batch)" for ok
    using assms by (induction batch arbitrary: ok stream) (simp_all add: publish_one_def Let_def)
  then show ?thesis by (simp add: publish_batch_def)
qed

lemma mark_all:
  "fold (mark_processed now) ids rows =
   update_rows (\<lambda>r. obx_id r \<in> set ids) (\<lambda>r. r\<lparr>drw_processed := Some now\<rparr>) rows"
proof (induction ids arbitrary: rows)
  case (Cons i ids)
  show ?case unfolding fold_simps comp_def Cons.IH
    by (auto simp: mark_processed_def update_rows_def)
qed (simp add: update_rows_def)

lemma later_claimable: "claimable d t r \<Longrightarrow> t \<le> now \<Longrightarrow> claimable d now r"
  by (auto simp: claimable_def split: option.splits)

text \<open>One cycle takes the first rows of the backlog off it.\<close>

definition carried_off :: "time \<Rightarrow> uuid set \<Rightarrow> dispatch_row list \<Rightarrow> dispatch_row list" where
  "carried_off now ids rows =
     update_rows (\<lambda>r. obx_id r \<in> ids) (\<lambda>r. r\<lparr>drw_claimed := Some now, drw_processed := Some now\<rparr>) rows"

lemma calm_cycle:
  assumes rows: "obd_tables s (tsp_table t) = Some rows" and open_table: "tsp_table t \<notin> dsp_disabled d"
    and rdy: "ready d t0 rows" and env: "calm t0 env" and b: "0 < ocf_batch (dsp_cfg d)"
  obtains s' ids where "snd (Outbox_dispatchTable env t (d, s)) = (d, s')"
    "obd_tables s' (tsp_table t) = Some (carried_off (cyc_now env) ids rows)"
    "card ids = min (nat (ocf_batch (dsp_cfg d))) (pending_rows rows)"
    "ids \<subseteq> obx_id ` {r \<in> set rows. is_pending r}"
    "set (obd_stream s') = set (obd_stream s) \<union> message_of (tsp_module t) ` {r \<in> set rows. obx_id r \<in> ids}"
proof -
  let ?now = "cyc_now env" and ?b = "nat (ocf_batch (dsp_cfg d))"
  let ?sel = "selected_rows d {} ?now rows"
  let ?ids = "obx_id ` set ?sel"
  have pend: "filter (\<lambda>r. claimable d ?now r \<and> obx_id r \<notin> {}) rows = filter is_pending rows"
  proof (rule filter_cong [OF refl])
    fix r assume r: "r \<in> set rows"
    have "claimable d ?now r \<Longrightarrow> is_pending r" by (simp add: claimable_def is_pending_def)
    moreover have "claimable d ?now r" if "is_pending r"
      using rdy env r that later_claimable [of d t0 r ?now] by (simp add: ready_def calm_def)
    ultimately show "(claimable d ?now r \<and> obx_id r \<notin> {}) = is_pending r" by blast
  qed
  have sel: "?sel = take ?b (sort_by event_before (filter is_pending rows))"
    unfolding selected_rows_def pend ..
  have "distinct (map obx_id (filter is_pending rows))"
    using rdy by (simp add: ready_def distinct_map_filter)
  then have "distinct (map obx_id (sort_by event_before (filter is_pending rows)))"
    by (metis mset_sort_by mset_map mset_eq_imp_distinct_iff)
  then have "distinct (map obx_id ?sel)" unfolding sel take_map [symmetric] by (rule distinct_take)
  then have card: "card ?ids = length ?sel" by (metis card_distinct distinct_card length_map set_map)
  have len: "length ?sel = min ?b (pending_rows rows)"
  proof -
    have "length (sort_by event_before (filter is_pending rows)) = length (filter is_pending rows)"
      by (metis mset_sort_by size_mset)
    then show ?thesis unfolding sel by (simp add: pending_rows_def is_pending_def [abs_def] min.commute)
  qed
  have sub: "set ?sel \<subseteq> {r \<in> set rows. is_pending r}"
    unfolding sel using set_take_subset [of ?b "sort_by event_before (filter is_pending rows)"] by auto
  have mem: "r \<in> set ?sel" if "r \<in> set rows" "obx_id r \<in> ?ids" for r
  proof -
    from that(2) obtain q where q: "q \<in> set ?sel" "obx_id q = obx_id r" by auto
    with sub that(1) rdy have "q = r" by (auto simp: ready_def dest: distinct_key_unique)
    with q show ?thesis by simp
  qed
  define batch where "batch = cyc_arrange env ?sel"
  have mb: "mset batch = mset ?sel" using env by (simp add: batch_def calm_def)
  then have setb: "set batch = set ?sel" by (metis set_mset_mset)
  let ?rows1 = "claim_rows ?now ?ids rows"
  let ?s1 = "s\<lparr>obd_tables := (obd_tables s)(tsp_table t \<mapsto> ?rows1)\<rparr>"
  have claim: "Outbox_claimBatch (cyc_arrange env) (cyc_locked env) d ?now (tsp_table t) s = Inr (batch, ?s1)"
    using rows b env by (simp add: Outbox_claimBatch_def Let_def batch_def calm_def)
  show ?thesis
  proof (cases "batch = []")
    case True
    then have none: "?sel = []" using mb by simp
    have "snd (Outbox_dispatchTable env t (d, s)) = (d, ?s1)"
      using open_table claim True by (simp add: Outbox_dispatchTable_def)
    then show ?thesis
      by (rule that [where ids = "{}"]) (use none len in \<open>simp_all add: claim_rows_def carried_off_def update_rows_def\<close>)
  next
    case False
    let ?s2 = "?s1\<lparr>obd_stream := obd_stream s @ map (message_of (tsp_module t)) batch\<rparr>"
    let ?rows2 = "carried_off ?now ?ids rows"
    have "apply_results (cyc_backoff env) ?now (max_retries d) \<lparr>pbr_ok = map obx_id batch, pbr_failed = []\<rparr> ?rows1 =
        ?rows2"
      by (auto simp: apply_results_def mark_all claim_rows_def carried_off_def update_rows_def setb)
    then have "snd (Outbox_dispatchTable env t (d, s)) =
        (d, ?s2\<lparr>obd_tables := (obd_tables ?s2)(tsp_table t := Some ?rows2)\<rparr>)"
      using open_table claim False env
      by (simp add: Outbox_dispatchTable_def publish_all calm_def Outbox_applyResults_def Let_def)
    then show ?thesis
      by (rule that [where ids = ?ids]) (use card len sub mem setb in \<open>auto simp: image_iff\<close>)
  qed
qed

lemma carried_off_rows:
  assumes rdy: "ready d t0 rows" and ids: "ids \<subseteq> obx_id ` {r \<in> set rows. is_pending r}"
  shows "ready d t0 (carried_off now ids rows)"
    and "pending_rows (carried_off now ids rows) = pending_rows rows - card ids"
    and "r \<in> set rows \<Longrightarrow> obx_id r \<notin> ids \<Longrightarrow> r \<in> set (carried_off now ids rows)"
    and "map obx_id (carried_off now ids rows) = map obx_id rows"
proof -
  show keys: "map obx_id (carried_off now ids rows) = map obx_id rows"
    by (simp add: carried_off_def map_update_rows)
  show "r \<in> set rows \<Longrightarrow> obx_id r \<notin> ids \<Longrightarrow> r \<in> set (carried_off now ids rows)"
    by (auto simp: carried_off_def set_update_rows)
  have left: "r \<in> set rows \<and> obx_id r \<notin> ids" if "r \<in> set (carried_off now ids rows)" "is_pending r" for r
    using that by (auto simp: carried_off_def set_update_rows is_pending_def)
  show "ready d t0 (carried_off now ids rows)"
    using rdy left keys unfolding ready_def by auto
  have "filter is_pending (carried_off now ids rows) = filter (\<lambda>r. is_pending r \<and> obx_id r \<notin> ids) rows"
    by (induction rows) (auto simp: carried_off_def is_pending_def)
  then have "pending_rows (carried_off now ids rows) = length (filter (\<lambda>r. is_pending r \<and> obx_id r \<notin> ids) rows)"
    by (simp add: pending_rows_def is_pending_def [abs_def])
  also have "\<dots> = length (filter is_pending rows) - length (filter (\<lambda>r. is_pending r \<and> obx_id r \<in> ids) rows)"
    using sum_length_filter_compl [of "\<lambda>r. obx_id r \<in> ids" "filter is_pending rows"]
    by (simp add: conj_commute)
  also have "length (filter (\<lambda>r. is_pending r \<and> obx_id r \<in> ids) rows) = card ids"
  proof -
    have d: "distinct (map obx_id (filter (\<lambda>r. is_pending r \<and> obx_id r \<in> ids) rows))"
      using rdy by (simp add: ready_def distinct_map_filter)
    have "obx_id ` set (filter (\<lambda>r. is_pending r \<and> obx_id r \<in> ids) rows) = ids"
      using ids by auto
    with distinct_card [OF d] show ?thesis by simp
  qed
  finally show "pending_rows (carried_off now ids rows) = pending_rows rows - card ids"
    by (simp add: pending_rows_def is_pending_def [abs_def])
qed

text \<open>C31: a backlog is carried off. When every waiting event is due and the broker
  acknowledges, each cycle publishes and processes a full batch of what is left, so after
  as many cycles as the backlog has batches nothing is pending and the message of every
  event that was is stored; no row is lost or added.\<close>

theorem outbox_drains:
  assumes "obd_tables s (tsp_table t) = Some rows" and "tsp_table t \<notin> dsp_disabled d"
    and "ready d t0 rows" and "\<And>env. env \<in> set envs \<Longrightarrow> calm t0 env" and b: "0 < ocf_batch (dsp_cfg d)"
    and "pending_rows rows \<le> length envs * nat (ocf_batch (dsp_cfg d))"
  shows "\<exists>s' rows'. fold (\<lambda>env ds. snd (Outbox_dispatchTable env t ds)) envs (d, s) = (d, s') \<and>
    obd_tables s' (tsp_table t) = Some rows' \<and> pending_rows rows' = 0 \<and>
    map obx_id rows' = map obx_id rows \<and> set (obd_stream s) \<subseteq> set (obd_stream s') \<and>
    (\<forall>r \<in> set rows. is_pending r \<longrightarrow> message_of (tsp_module t) r \<in> set (obd_stream s'))"
  using assms
proof (induction envs arbitrary: s rows)
  case Nil
  then have none: "pending_rows rows = 0" by simp
  then have "\<forall>r \<in> set rows. \<not> is_pending r"
    by (simp add: pending_rows_def is_pending_def filter_empty_conv)
  with Nil none show ?case by auto
next
  case (Cons env envs)
  have "calm t0 env" using Cons.prems(4) by simp
  from Cons.prems(1-3) this b obtain s1 ids where s1: "snd (Outbox_dispatchTable env t (d, s)) = (d, s1)"
    "obd_tables s1 (tsp_table t) = Some (carried_off (cyc_now env) ids rows)"
    "card ids = min (nat (ocf_batch (dsp_cfg d))) (pending_rows rows)"
    "ids \<subseteq> obx_id ` {r \<in> set rows. is_pending r}"
    "set (obd_stream s1) = set (obd_stream s) \<union> message_of (tsp_module t) ` {r \<in> set rows. obx_id r \<in> ids}"
    by (rule calm_cycle)
  note off = carried_off_rows [OF Cons.prems(3) s1(4), where now = "cyc_now env"]
  have "pending_rows (carried_off (cyc_now env) ids rows) \<le> length envs * nat (ocf_batch (dsp_cfg d))"
    using off(2) s1(3) Cons.prems(6) by (simp add: min_def split: if_splits)
  from Cons.IH [OF s1(2) Cons.prems(2) off(1) _ b this] Cons.prems(4) obtain s' rows' where
    s': "fold (\<lambda>env ds. snd (Outbox_dispatchTable env t ds)) envs (d, s1) = (d, s')"
      "obd_tables s' (tsp_table t) = Some rows'" "pending_rows rows' = 0"
      "map obx_id rows' = map obx_id (carried_off (cyc_now env) ids rows)"
      "set (obd_stream s1) \<subseteq> set (obd_stream s')"
      "\<forall>r \<in> set (carried_off (cyc_now env) ids rows). is_pending r \<longrightarrow>
         message_of (tsp_module t) r \<in> set (obd_stream s')" by auto
  have "message_of (tsp_module t) r \<in> set (obd_stream s')" if r: "r \<in> set rows" "is_pending r" for r
    using r s'(5,6) s1(5) off(3) [OF r(1)] by (cases "obx_id r \<in> ids") auto
  moreover have "fold (\<lambda>env ds. snd (Outbox_dispatchTable env t ds)) (env # envs) (d, s) = (d, s')"
    using s1(1) s'(1) by simp
  moreover have "map obx_id rows' = map obx_id rows" using s'(4) off(4) by simp
  moreover have "set (obd_stream s) \<subseteq> set (obd_stream s')" using s'(5) s1(5) by blast
  ultimately show ?case using s'(2,3) by blast
qed

section \<open>Backoff and order\<close>

text \<open>The pause before a retry: at least two seconds and less than 61 (the jitter comes on
  top of the cap), as long as fewer than 34 attempts have failed.\<close>

lemma outbox_backoff_bounds:
  assumes "0 < retry" and "retry < 34" and "0 \<le> jitter" and "jitter < second"
  shows "now + 2 * second \<le> outbox_retryBackoff conv jitter now retry"
    and "outbox_retryBackoff conv jitter now retry < now + 61 * second"
proof -
  have "(2 :: int) ^ retry \<le> 2 ^ 33" using assms(2) by (intro power_increasing) simp_all
  moreover have "(2 :: int) ^ 1 \<le> 2 ^ retry" using assms(1) by (intro power_increasing) simp_all
  ultimately have p: "2 \<le> (2 :: int) ^ retry" "(2 :: int) ^ retry \<le> 8589934592" by simp_all
  then have "int64_range (2 ^ retry * second)" "int64_range (2 ^ retry * second + jitter)"
    using assms by (auto simp: int64_range_def second_def)
  then have "outbox_retryBackoff conv jitter now retry =
      now + (if 2 ^ retry * second + jitter > 60 * second then 60 * second + jitter else 2 ^ retry * second + jitter)"
    using assms(2) by (simp add: outbox_retryBackoff_def Let_def)
  then show "now + 2 * second \<le> outbox_retryBackoff conv jitter now retry"
    and "outbox_retryBackoff conv jitter now retry < now + 61 * second"
    using p assms(3,4) by (auto simp: second_def)
qed

text \<open>From the 34th on the multiplication overflows, and the next retry lies in the past.\<close>

theorem outbox_backoff_overflows:
  "outbox_retryBackoff conv 999000000 0 34 < 0 \<and> outbox_retryBackoff conv 999000000 0 6 = 60999000000"
  by (simp add: outbox_retryBackoff_def Let_def second_def wrap64_def)

text \<open>The ADR asks for the events of one aggregate in the order they were emitted. The claim
  orders them by their identifier, which is random: of two events of one check, the
  one emitted first (identifier 9) is published after the other (identifier 3).\<close>

definition demo_event :: "uuid \<Rightarrow> string \<Rightarrow> dispatch_row" where
  "demo_event i ty = \<lparr>obx_id = i, obx_tenant = 1, obx_aggregate = ''check'', obx_agg_id = 100, obx_type = ty,
     obx_payload = [(''check_id'', JId 100)], drw_retry = 0, drw_next = None, drw_error = None,
     drw_dead = False, drw_claimed = None, drw_processed = None\<rparr>"

definition demo_outbox :: broker_db where
  "demo_outbox = \<lparr>obd_tables = [''pos_outbox'' \<mapsto> [demo_event 9 ''check.opened'', demo_event 3 ''check.closed'']],
     obd_stream = []\<rparr>"

definition demo_dispatcher :: "int \<Rightarrow> outbox_dispatcher" where
  "demo_dispatcher batch = \<lparr>dsp_cfg = \<lparr>ocf_poll = 0, ocf_batch = batch, ocf_max_retries = 0, ocf_publish_timeout = 0,
     ocf_tables = [], ocf_stale = 0\<rparr>, dsp_publish_timeout = 5 * second, dsp_stale = 300 * second,
     dsp_disabled = {}\<rparr>"

definition demo_cycle :: cycle_env where
  "demo_cycle = \<lparr>cyc_locked = {}, cyc_arrange = (\<lambda>xs. xs), cyc_pub = (\<lambda>_. Acked), cyc_now = 5,
     cyc_backoff = outbox_retryBackoff (\<lambda>_. 0) 0 5, cyc_apply_error = None\<rparr>"

definition pos_table_spec :: table_spec where
  "pos_table_spec = \<lparr>tsp_table = ''pos_outbox'', tsp_module = ''pos''\<rparr>"

theorem emission_order_lost:
  "map msg_subject (obd_stream (snd (snd (Outbox_dispatchTable demo_cycle pos_table_spec
     (demo_dispatcher 10, demo_outbox))))) = [''pos.check.closed.v1'', ''pos.check.opened.v1'']"
  by code_simp

theorem outbox_drains_witness:
  "\<exists>s'. fold (\<lambda>env ds. snd (Outbox_dispatchTable env pos_table_spec ds)) [demo_cycle, demo_cycle]
      (demo_dispatcher 1, demo_outbox) = (demo_dispatcher 1, s') \<and>
     message_of ''pos'' (demo_event 9 ''check.opened'') \<in> set (obd_stream s')"
proof -
  let ?rows = "[demo_event 9 ''check.opened'', demo_event 3 ''check.closed'']"
  have rows: "obd_tables demo_outbox (tsp_table pos_table_spec) = Some ?rows"
    by (simp add: demo_outbox_def pos_table_spec_def)
  have rdy: "ready (demo_dispatcher 1) 5 ?rows"
    by (simp add: ready_def claimable_def demo_event_def)
  have calm: "calm 5 env" if "env \<in> set [demo_cycle, demo_cycle]" for env
    using that by (auto simp: calm_def demo_cycle_def)
  have open_table: "tsp_table pos_table_spec \<notin> dsp_disabled (demo_dispatcher 1)"
    and batch: "0 < ocf_batch (dsp_cfg (demo_dispatcher 1))" by (simp_all add: demo_dispatcher_def)
  have len: "pending_rows ?rows \<le> length [demo_cycle, demo_cycle] * nat (ocf_batch (dsp_cfg (demo_dispatcher 1)))"
    by (simp add: pending_rows_def demo_event_def demo_dispatcher_def)
  have "is_pending (demo_event 9 ''check.opened'')" by (simp add: is_pending_def demo_event_def)
  then show ?thesis
    using outbox_drains [OF rows open_table rdy calm batch len] by (auto simp: pos_table_spec_def)
qed

text \<open>A dispatcher claims the event, publishes it and stores the result.\<close>

theorem outbox_delivers_witness:
  "\<exists>w'. rtranclp (outbox_step (demo_dispatcher 10) ''pos'')
      \<lparr>onw_rows = [demo_event 3 ''check.closed''], onw_stream = [], onw_work = (\<lambda>_. None)\<rparr> w' \<and>
     map drw_processed (onw_rows w') = [Some 7] \<and>
     message_of ''pos'' (hd (onw_rows w')) \<in> set (onw_stream w')"
proof -
  let ?d = "demo_dispatcher 10" and ?e = "demo_event 3 ''check.closed''"
  define w0 where "w0 = \<lparr>onw_rows = [?e], onw_stream = [], onw_work = (\<lambda>_. None)\<rparr>"
  define w1 where "w1 = w0\<lparr>onw_rows := claim_rows 5 (obx_id ` set [?e]) (onw_rows w0),
    onw_work := (onw_work w0)(0 \<mapsto> ([?e], \<lparr>pbr_ok = [], pbr_failed = []\<rparr>))\<rparr>"
  define w2 where "w2 = w1\<lparr>onw_stream := [message_of ''pos'' ?e],
    onw_work := (onw_work w1)(0 \<mapsto> ([], \<lparr>pbr_ok = [3], pbr_failed = []\<rparr>))\<rparr>"
  define w3 where "w3 = w2\<lparr>onw_rows := apply_results (\<lambda>_. 0) 7 (max_retries ?d) \<lparr>pbr_ok = [3], pbr_failed = []\<rparr> (onw_rows w2),
    onw_work := (onw_work w2)(0 := None)\<rparr>"
  have sel: "selected_rows ?d {} 5 [?e] = [?e]" by code_simp
  have s1: "outbox_step ?d ''pos'' w0 w1"
    unfolding w1_def by (rule os_claim [where locked = "{}"]) (simp_all add: w0_def sel)
  have s2: "outbox_step ?d ''pos'' w1 w2"
    unfolding w2_def
    by (rule os_publish [where pub = "\<lambda>_. Acked" and r = ?e and res = "\<lparr>pbr_ok = [], pbr_failed = []\<rparr>"])
       (simp_all add: w1_def w0_def publish_one_def Let_def demo_event_def)
  have s3: "outbox_step ?d ''pos'' w2 w3"
    unfolding w3_def by (rule os_apply) (simp add: w2_def)
  from s1 have "rtranclp (outbox_step ?d ''pos'') w0 w1" by (rule r_into_rtranclp)
  from this s2 have "rtranclp (outbox_step ?d ''pos'') w0 w2" by (rule rtranclp.rtrancl_into_rtrancl)
  from this s3 have run: "rtranclp (outbox_step ?d ''pos'') w0 w3" by (rule rtranclp.rtrancl_into_rtrancl)
  have "outbox_ok ?d ''pos'' w0" by (simp add: w0_def outbox_ok_def demo_event_def)
  from outbox_delivers [OF run this] have
    sent: "\<forall>r \<in> set (onw_rows w3). drw_processed r \<noteq> None \<longrightarrow> message_of ''pos'' r \<in> set (onw_stream w3)" by blast
  have rows: "onw_rows w3 = [?e\<lparr>drw_claimed := Some 5, drw_processed := Some 7\<rparr>]"
    by (simp add: w3_def w2_def w1_def w0_def apply_results_def mark_processed_def claim_rows_def
        update_rows_def demo_event_def)
  from sent have "message_of ''pos'' (hd (onw_rows w3)) \<in> set (onw_stream w3)" by (simp add: rows)
  with run show ?thesis by (intro exI [of _ w3]) (simp add: rows w0_def)
qed

end
