(* ===== verification/Inv_Domain.thy ===== *)
theory Inv_Domain
  imports Status_Machine Rls_Rows "HOL-Library.Countable"
begin

text \<open>
  The data of the inventory module: backend/internal/modules/inventory/domain. Stock
  belongs to a warehouse and moves between branches in shipments, which a branch
  transfer order asks for; two transition tables govern them. \<open>ResolvePolicy\<close> picks the
  procurement rule of an item.

  A quantity or price in a request is a float64. The code compares it, negates it and
  sends it to the database, and pgx sends the shortest decimal that denotes it; a float64
  is modelled by that decimal, a rational number: order, sign and negation agree. A
  column of type \<open>NUMERIC(p, s)\<close> holds a multiple of its last digit; read into a
  float64, up to 15 digits, it denotes just that decimal. The product and the sum of
  floats that a receipt computes are parameters.
\<close>

section \<open>Errors\<close>

datatype inv_err =
    InvInvalidBTOTransition
  | InvInvalidShipmentTransition
  | InvRepoNotFound
  | InvNotFound
  | InvValidation string
  | InvTransition
  | InvPolicyViolation
  | InvBranchForbidden
  | InvDb pg_error
  | InvNilTenant

section \<open>Decimals\<close>

type_synonym float64 = rat

text \<open>What PostgreSQL stores in a \<open>NUMERIC(p, k)\<close> column: the nearest multiple of the
  last digit, halves away from zero.\<close>

definition units :: "nat \<Rightarrow> rat \<Rightarrow> int" where
  "units k x =
     (if 0 \<le> x then \<lfloor>x * 10 ^ k + 1 / 2\<rfloor> else - \<lfloor>- x * 10 ^ k + 1 / 2\<rfloor>)"

definition numeric :: "nat \<Rightarrow> rat \<Rightarrow> rat" where
  "numeric k x = of_int (units k x) / 10 ^ k"

definition numeric_range :: "nat \<Rightarrow> nat \<Rightarrow> rat \<Rightarrow> bool" where
  "numeric_range p k x \<longleftrightarrow> \<bar>x\<bar> < 10 ^ (p - k)"

text \<open>The values such a column can hold.\<close>

definition decimal :: "nat \<Rightarrow> rat \<Rightarrow> bool" where
  "decimal k x \<longleftrightarrow> numeric k x = x"

lemma units_of_int: "units k (of_int n / 10 ^ k) = n"
proof -
  have "\<lfloor>(of_int m :: rat) + 1 / 2\<rfloor> = m" for m by (simp add: floor_eq_iff)
  from this [of n] this [of "- n"] show ?thesis
    by (auto simp: units_def zero_le_divide_iff divide_simps)
qed

lemma decimal_iff: "decimal k x \<longleftrightarrow> (\<exists>n. x = of_int n / 10 ^ k)"
  by (metis decimal_def numeric_def units_of_int)

lemma decimal_numeric [simp, intro]: "decimal k (numeric k x)"
  unfolding decimal_iff numeric_def by blast

lemma numeric_decimal [simp]: "decimal k x \<Longrightarrow> numeric k x = x"
  by (simp add: decimal_def)

lemma decimal_0 [simp, intro]: "decimal k 0"
  unfolding decimal_iff by (rule exI [of _ 0]) simp

lemma decimal_add [intro]: "decimal k x \<Longrightarrow> decimal k y \<Longrightarrow> decimal k (x + y)"
  unfolding decimal_iff by (metis add_divide_distrib of_int_add)

lemma decimal_minus [simp]: "decimal k (- x) \<longleftrightarrow> decimal k x"
  unfolding decimal_iff by (metis minus_divide_left minus_minus of_int_minus)

lemma decimal_max [intro]: "decimal k x \<Longrightarrow> decimal k y \<Longrightarrow> decimal k (max x y)"
  by (simp add: max_def)

lemma numeric_nonneg: "0 \<le> x \<Longrightarrow> 0 \<le> numeric k x"
  by (simp add: numeric_def units_def add_nonneg_nonneg)

lemma numeric_add:
  assumes n: "decimal k n" "0 \<le> n" and x: "0 \<le> x"
  shows "numeric k (n + x) = n + numeric k x"
proof -
  from n obtain m where m: "n = of_int m / 10 ^ k" by (auto simp: decimal_iff)
  have "(n + x) * 10 ^ k + 1 / 2 = of_int m + (x * 10 ^ k + 1 / 2)"
    by (simp add: m distrib_right)
  then have "\<lfloor>(n + x) * 10 ^ k + 1 / 2\<rfloor> = m + \<lfloor>x * 10 ^ k + 1 / 2\<rfloor>"
    by (simp only: int_add_floor)
  then show ?thesis using n x by (simp add: numeric_def units_def add_divide_distrib m)
qed

text \<open>A \<open>CHAR(3)\<close> column pads to its length and drops blanks beyond it.\<close>

definition char3 :: "string \<Rightarrow> string" where
  "char3 s = (if list_all (\<lambda>c. c = CHR 0x20) (drop 3 s)
              then take 3 s @ replicate (3 - length s) (CHR 0x20) else s)"

section \<open>Warehouses and stock items\<close>

datatype warehouse_type = WarehouseDepo | WarehouseImalat | WarehouseOther string

fun WarehouseType_Valid :: "warehouse_type \<Rightarrow> bool" where
  "WarehouseType_Valid (WarehouseOther _) = False"
| "WarehouseType_Valid _ = True"

record warehouse =
  wh_id :: uuid
  wh_tenant :: uuid
  wh_branch :: uuid
  wh_name :: string
  wh_type :: warehouse_type
  wh_active :: bool
  wh_created :: time
  wh_updated :: time

datatype stock_item_kind =
    KindRaw | KindIntermediate | KindPackaging | KindFinished | KindOther string

fun StockItemKind_Valid :: "stock_item_kind \<Rightarrow> bool" where
  "StockItemKind_Valid (KindOther _) = False"
| "StockItemKind_Valid _ = True"

record stock_item =
  sti_id :: uuid
  sti_tenant :: uuid
  sti_sku :: string
  sti_name :: string
  sti_kind :: stock_item_kind
  sti_unit :: string
  sti_category :: string
  sti_active :: bool
  sti_created :: time
  sti_updated :: time

section \<open>Stock\<close>

datatype movement_type =
    MovementIn | MovementOut | MovementAdjust | MovementTransfer | MovementReserve | MovementRelease
  | MovementOther string

fun MovementType_Valid :: "movement_type \<Rightarrow> bool" where
  "MovementType_Valid (MovementOther _) = False"
| "MovementType_Valid _ = True"

fun AffectsOnHand :: "movement_type \<Rightarrow> bool" where
  "AffectsOnHand MovementIn = True"
| "AffectsOnHand MovementOut = True"
| "AffectsOnHand MovementAdjust = True"
| "AffectsOnHand MovementTransfer = True"
| "AffectsOnHand _ = False"

datatype cost_source = CostTransfer | CostPurchaseOrder | CostPurchaseReceipt | CostOther string

fun CostSource_Valid :: "cost_source \<Rightarrow> bool" where
  "CostSource_Valid (CostOther _) = False"
| "CostSource_Valid _ = True"

record stock_level =
  lvl_id :: uuid
  lvl_tenant :: uuid
  lvl_warehouse :: uuid
  lvl_item :: uuid
  lvl_on_hand :: float64
  lvl_reserved :: float64
  lvl_reorder :: "float64 option"
  lvl_unit :: string
  lvl_cost :: "float64 option"
  lvl_cost_currency :: "string option"
  lvl_cost_source :: "cost_source option"
  lvl_cost_at :: "time option"
  lvl_updated :: time

definition lvl_available :: "stock_level \<Rightarrow> float64" where
  "lvl_available l = lvl_on_hand l - lvl_reserved l"

record stock_movement =
  mvt_id :: uuid
  mvt_tenant :: uuid
  mvt_warehouse :: uuid
  mvt_item :: uuid
  mvt_type :: movement_type
  mvt_quantity :: float64
  mvt_ref :: "uuid option"
  mvt_ref_type :: "string option"
  mvt_notes :: "string option"
  mvt_created_by :: "uuid option"
  mvt_created :: time

section \<open>Shipments\<close>

datatype shipment_status =
    ShipmentDraft | ShipmentApproved | ShipmentInTransit | ShipmentReceived | ShipmentCancelled
  | ShipmentOther string

fun ShipmentStatus_Valid :: "shipment_status \<Rightarrow> bool" where
  "ShipmentStatus_Valid (ShipmentOther _) = False"
| "ShipmentStatus_Valid _ = True"

fun allowedShipmentTransitions :: "shipment_status \<Rightarrow> shipment_status list" where
  "allowedShipmentTransitions ShipmentDraft = [ShipmentApproved, ShipmentCancelled]"
| "allowedShipmentTransitions ShipmentApproved = [ShipmentInTransit, ShipmentCancelled]"
| "allowedShipmentTransitions ShipmentInTransit = [ShipmentReceived]"
| "allowedShipmentTransitions _ = []"

definition TransitionShipmentStatus :: "shipment_status \<Rightarrow> shipment_status \<Rightarrow> inv_err + unit" where
  "TransitionShipmentStatus from to =
     (if \<not> ShipmentStatus_Valid to then Inl InvInvalidShipmentTransition
      else if to \<in> set (allowedShipmentTransitions from) then Inr ()
      else Inl InvInvalidShipmentTransition)"

datatype priority = PriorityNormal | PriorityUrgent | PriorityOther string

fun Priority_Valid :: "priority \<Rightarrow> bool" where
  "Priority_Valid (PriorityOther _) = False"
| "Priority_Valid _ = True"

record shipment =
  shp_id :: uuid
  shp_tenant :: uuid
  shp_from :: uuid
  shp_to_branch :: uuid
  shp_order :: "uuid option"
  shp_status :: shipment_status
  shp_priority :: priority
  shp_note :: string
  shp_created_by :: "uuid option"
  shp_shipped :: "time option"
  shp_received :: "time option"
  shp_created :: time
  shp_updated :: time

record shipment_item =
  shi_shipment :: uuid
  shi_tenant :: uuid
  shi_item :: uuid
  shi_requested :: float64
  shi_shipped :: float64
  shi_received :: float64
  shi_unit :: string
  shi_price :: "float64 option"
  shi_currency :: "string option"

section \<open>Branch transfer orders\<close>

datatype bto_status =
    BTODraft | BTOSubmitted | BTOApproved | BTOFulfilling | BTOShipped | BTOReceived | BTOClosed
  | BTORejected | BTOCancelled | BTOOther string

fun BTOStatus_Valid :: "bto_status \<Rightarrow> bool" where
  "BTOStatus_Valid (BTOOther _) = False"
| "BTOStatus_Valid _ = True"

fun allowedBTOTransitions :: "bto_status \<Rightarrow> bto_status list" where
  "allowedBTOTransitions BTODraft = [BTOSubmitted, BTOCancelled]"
| "allowedBTOTransitions BTOSubmitted = [BTOApproved, BTORejected, BTOCancelled]"
| "allowedBTOTransitions BTOApproved = [BTOFulfilling, BTOCancelled]"
| "allowedBTOTransitions BTOFulfilling = [BTOShipped]"
| "allowedBTOTransitions BTOShipped = [BTOReceived]"
| "allowedBTOTransitions BTOReceived = [BTOClosed]"
| "allowedBTOTransitions _ = []"

definition TransitionBTOStatus :: "bto_status \<Rightarrow> bto_status \<Rightarrow> inv_err + unit" where
  "TransitionBTOStatus from to =
     (if \<not> BTOStatus_Valid to then Inl InvInvalidBTOTransition
      else if to \<in> set (allowedBTOTransitions from) then Inr ()
      else Inl InvInvalidBTOTransition)"

record transfer_order =
  bto_id :: uuid
  bto_tenant :: uuid
  bto_requesting :: uuid
  bto_source :: uuid
  bto_status :: bto_status
  bto_priority :: priority
  bto_delivery :: "time option"
  bto_note :: string
  bto_created_by :: "uuid option"
  bto_submitted :: "time option"
  bto_approved :: "time option"
  bto_approved_by :: "uuid option"
  bto_created :: time
  bto_updated :: time

record transfer_order_item =
  bti_id :: uuid
  bti_tenant :: uuid
  bti_order :: uuid
  bti_item :: uuid
  bti_requested :: float64
  bti_approved :: "float64 option"
  bti_shipped :: float64
  bti_received :: float64
  bti_unit :: string
  bti_price :: "float64 option"
  bti_currency :: "string option"
  bti_note :: string

section \<open>Purchase receipts\<close>

record purchase_receipt =
  rct_id :: uuid
  rct_tenant :: uuid
  rct_warehouse :: uuid
  rct_supplier :: "uuid option"
  rct_supplier_name :: string
  rct_no :: string
  rct_date :: time
  rct_total :: float64
  rct_currency :: string
  rct_note :: string
  rct_created_by :: "uuid option"
  rct_created :: time

record purchase_receipt_item =
  rci_id :: uuid
  rci_tenant :: uuid
  rci_receipt :: uuid
  rci_item :: uuid
  rci_quantity :: float64
  rci_unit :: string
  rci_price :: float64
  rci_line_total :: float64
  rci_brand :: string

section \<open>Supply policies\<close>

datatype supply_scope = ScopeStockItem | ScopeCategory | ScopeTenantDefault | ScopeOther string

fun SupplyScope_Valid :: "supply_scope \<Rightarrow> bool" where
  "SupplyScope_Valid (ScopeOther _) = False"
| "SupplyScope_Valid _ = True"

datatype supply_mode = SupplyExclusiveHQ | SupplyApprovedSuppliers | SupplyFree | SupplyOther string

fun SupplyMode_Valid :: "supply_mode \<Rightarrow> bool" where
  "SupplyMode_Valid (SupplyOther _) = False"
| "SupplyMode_Valid _ = True"

definition DefaultSupplyMode :: supply_mode where
  "DefaultSupplyMode = SupplyExclusiveHQ"

record supply_policy =
  spl_id :: uuid
  spl_tenant :: uuid
  spl_branch :: "uuid option"
  spl_scope :: supply_scope
  spl_item :: "uuid option"
  spl_category :: string
  spl_mode :: supply_mode
  spl_suppliers :: "uuid list"
  spl_from :: time
  spl_created_by :: "uuid option"
  spl_created :: time

definition on_item :: "stock_item \<Rightarrow> supply_policy \<Rightarrow> bool" where
  "on_item i p \<longleftrightarrow> spl_scope p = ScopeStockItem \<and> spl_item p = Some (sti_id i)"

definition on_category :: "stock_item \<Rightarrow> supply_policy \<Rightarrow> bool" where
  "on_category i p \<longleftrightarrow>
     spl_scope p = ScopeCategory \<and> sti_category i \<noteq> '''' \<and> spl_category p = sti_category i"

definition of_branch :: "uuid \<Rightarrow> supply_policy \<Rightarrow> bool" where
  "of_branch b p \<longleftrightarrow> b \<noteq> uuid_Nil \<and> spl_branch p = Some b"

definition policy_tiers :: "stock_item \<Rightarrow> uuid \<Rightarrow> (supply_policy \<Rightarrow> bool) list" where
  "policy_tiers i b =
     [\<lambda>p. of_branch b p \<and> on_item i p,
      \<lambda>p. of_branch b p \<and> on_category i p,
      \<lambda>p. spl_branch p = None \<and> on_item i p,
      \<lambda>p. spl_branch p = None \<and> on_category i p,
      \<lambda>p. spl_branch p = None \<and> spl_scope p = ScopeTenantDefault]"

text \<open>The loop of \<open>latestActive\<close>, its accumulator the best row so far.\<close>

definition latest_step ::
  "time \<Rightarrow> (supply_policy \<Rightarrow> bool) \<Rightarrow> supply_policy \<Rightarrow> supply_policy option \<Rightarrow> supply_policy option" where
  "latest_step at match p best =
     (if spl_from p > at then best
      else if \<not> match p then best
      else case best of
        None \<Rightarrow> Some p
      | Some b \<Rightarrow> if spl_from p > spl_from b then Some p else best)"

definition latestActive ::
  "supply_policy list \<Rightarrow> time \<Rightarrow> (supply_policy \<Rightarrow> bool) \<Rightarrow> supply_policy option" where
  "latestActive policies at match = fold (latest_step at match) policies None"

fun first_tier ::
  "supply_policy list \<Rightarrow> time \<Rightarrow> (supply_policy \<Rightarrow> bool) list \<Rightarrow> supply_mode \<times> uuid list" where
  "first_tier policies at [] = (DefaultSupplyMode, [])"
| "first_tier policies at (match # tiers) =
     (case latestActive policies at match of
        Some w \<Rightarrow> (spl_mode w, spl_suppliers w)
      | None \<Rightarrow> first_tier policies at tiers)"

definition ResolvePolicy ::
  "supply_policy list \<Rightarrow> stock_item \<Rightarrow> uuid \<Rightarrow> time \<Rightarrow> supply_mode \<times> uuid list" where
  "ResolvePolicy policies i b at = first_tier policies at (policy_tiers i b)"

section \<open>Lifecycles\<close>

fun shipment_rank :: "shipment_status \<Rightarrow> nat" where
  "shipment_rank ShipmentDraft = 3"
| "shipment_rank ShipmentApproved = 2"
| "shipment_rank ShipmentInTransit = 1"
| "shipment_rank _ = 0"

fun bto_rank :: "bto_status \<Rightarrow> nat" where
  "bto_rank BTODraft = 6"
| "bto_rank BTOSubmitted = 5"
| "bto_rank BTOApproved = 4"
| "bto_rank BTOFulfilling = 3"
| "bto_rank BTOShipped = 2"
| "bto_rank BTOReceived = 1"
| "bto_rank _ = 0"

interpretation shipment_life: acyclic_status_machine
  ShipmentStatus_Valid allowedShipmentTransitions TransitionShipmentStatus
  InvInvalidShipmentTransition shipment_rank
proof
  show "TransitionShipmentStatus s t =
      (if ShipmentStatus_Valid t \<and> t \<in> set (allowedShipmentTransitions s) then Inr ()
       else Inl InvInvalidShipmentTransition)" for s t
    by (simp add: TransitionShipmentStatus_def)
  show "t \<in> set (allowedShipmentTransitions s) \<Longrightarrow> ShipmentStatus_Valid s \<and> ShipmentStatus_Valid t" for s t
    by (cases s) auto
  show "t \<in> set (allowedShipmentTransitions s) \<Longrightarrow> shipment_rank t < shipment_rank s" for s t
    by (cases s) auto
qed

interpretation bto_life: acyclic_status_machine
  BTOStatus_Valid allowedBTOTransitions TransitionBTOStatus InvInvalidBTOTransition bto_rank
proof
  show "TransitionBTOStatus s t =
      (if BTOStatus_Valid t \<and> t \<in> set (allowedBTOTransitions s) then Inr ()
       else Inl InvInvalidBTOTransition)" for s t
    by (simp add: TransitionBTOStatus_def)
  show "t \<in> set (allowedBTOTransitions s) \<Longrightarrow> BTOStatus_Valid s \<and> BTOStatus_Valid t" for s t
    by (cases s) auto
  show "t \<in> set (allowedBTOTransitions s) \<Longrightarrow> bto_rank t < bto_rank s" for s t
    by (cases s) auto
qed

section \<open>The winning policy\<close>

text \<open>\<open>latestActive\<close> returns a row that matches and is in force, no such row is later,
  and of the latest ones it is the first.\<close>

definition active_match :: "time \<Rightarrow> (supply_policy \<Rightarrow> bool) \<Rightarrow> supply_policy \<Rightarrow> bool" where
  "active_match at match p \<longleftrightarrow> spl_from p \<le> at \<and> match p"

lemma latest_fold:
  "fold (latest_step at match) ps b = Some w \<Longrightarrow>
     (b = Some w \<or> w \<in> set ps \<and> active_match at match w) \<and>
     (\<forall>p \<in> set ps. active_match at match p \<longrightarrow> spl_from p \<le> spl_from w) \<and>
     (\<forall>v. b = Some v \<longrightarrow> spl_from v \<le> spl_from w)"
proof (induction ps arbitrary: b)
  case (Cons p ps)
  from Cons.IH [of "latest_step at match p b"] Cons.prems show ?case
    by (auto simp: latest_step_def active_match_def split: if_splits option.splits)
qed simp

lemma latest_fold_None:
  "fold (latest_step at match) ps b = None \<longleftrightarrow> b = None \<and> (\<forall>p \<in> set ps. \<not> active_match at match p)"
proof (induction ps arbitrary: b)
  case (Cons p ps)
  then show ?case
    by (auto simp: latest_step_def active_match_def split: if_splits option.splits)
qed simp

lemma latestActive_Some:
  "latestActive ps at match = Some w \<Longrightarrow>
     w \<in> set ps \<and> active_match at match w \<and>
     (\<forall>p \<in> set ps. active_match at match p \<longrightarrow> spl_from p \<le> spl_from w)"
  using latest_fold [of at match ps None w] by (auto simp: latestActive_def)

lemma latestActive_None:
  "latestActive ps at match = None \<longleftrightarrow> (\<forall>p \<in> set ps. \<not> active_match at match p)"
  by (simp add: latestActive_def latest_fold_None)

end
