(* ===== verification/Inv_State.thy ===== *)
theory Inv_State
  imports Inv_Domain Sql_Table Auth_Principal
begin

text \<open>
  The database of the inventory module: the tables of backend/migrations/inventory with
  their constraints, the generator of row ids, and the transactions of
  platform/db/tenant_tx.go on it.
\<close>

section \<open>The state\<close>

record inv_db =
  ivd_warehouses :: "warehouse list"
  ivd_items :: "stock_item list"
  ivd_levels :: "stock_level list"
  ivd_moves :: "stock_movement list"
  ivd_shipments :: "shipment list"
  ivd_shipment_items :: "shipment_item list"
  ivd_orders :: "transfer_order list"
  ivd_order_items :: "transfer_order_item list"
  ivd_policies :: "supply_policy list"
  ivd_receipts :: "purchase_receipt list"
  ivd_receipt_items :: "purchase_receipt_item list"
  ivd_rand :: "nat \<Rightarrow> uuid"
  ivd_ctr :: nat

section \<open>Constraints\<close>

definition warehouse_row_ok :: "warehouse \<Rightarrow> bool" where
  "warehouse_row_ok r \<longleftrightarrow> WarehouseType_Valid (wh_type r)"

definition stock_item_row_ok :: "stock_item \<Rightarrow> bool" where
  "stock_item_row_ok r \<longleftrightarrow> StockItemKind_Valid (sti_kind r)"

definition currency_ok :: "string option \<Rightarrow> bool" where
  "currency_ok c \<longleftrightarrow> (\<forall>s \<in> set_option c. length s = 3)"

definition price_ok :: "float64 option \<Rightarrow> bool" where
  "price_ok p \<longleftrightarrow> (\<forall>x \<in> set_option p. decimal 4 x \<and> numeric_range 18 4 x)"

text \<open>\<open>available\<close> is generated from the two quantities and has a range of its own.\<close>

definition level_row_ok :: "stock_level \<Rightarrow> bool" where
  "level_row_ok r \<longleftrightarrow>
     decimal 3 (lvl_on_hand r) \<and> 0 \<le> lvl_on_hand r \<and> numeric_range 12 3 (lvl_on_hand r) \<and>
     decimal 3 (lvl_reserved r) \<and> 0 \<le> lvl_reserved r \<and> numeric_range 18 3 (lvl_reserved r) \<and>
     numeric_range 18 3 (lvl_available r) \<and> price_ok (lvl_cost r) \<and> currency_ok (lvl_cost_currency r) \<and>
     (\<forall>c \<in> set_option (lvl_cost_source r). CostSource_Valid c)"

definition stock_movement_row_ok :: "stock_movement \<Rightarrow> bool" where
  "stock_movement_row_ok r \<longleftrightarrow>
     MovementType_Valid (mvt_type r) \<and> decimal 3 (mvt_quantity r) \<and> numeric_range 12 3 (mvt_quantity r) \<and>
     (if mvt_type r = MovementAdjust then mvt_quantity r \<noteq> 0 else mvt_quantity r > 0)"

definition shipment_row_ok :: "shipment \<Rightarrow> bool" where
  "shipment_row_ok r \<longleftrightarrow> ShipmentStatus_Valid (shp_status r) \<and> Priority_Valid (shp_priority r)"

definition quantity_ok :: "float64 \<Rightarrow> bool" where
  "quantity_ok q \<longleftrightarrow> decimal 3 q \<and> 0 \<le> q \<and> numeric_range 18 3 q"

definition shipment_item_row_ok :: "shipment_item \<Rightarrow> bool" where
  "shipment_item_row_ok r \<longleftrightarrow>
     quantity_ok (shi_requested r) \<and> quantity_ok (shi_shipped r) \<and> quantity_ok (shi_received r) \<and>
     price_ok (shi_price r) \<and> currency_ok (shi_currency r)"

definition transfer_order_row_ok :: "transfer_order \<Rightarrow> bool" where
  "transfer_order_row_ok r \<longleftrightarrow> BTOStatus_Valid (bto_status r) \<and> Priority_Valid (bto_priority r)"

definition transfer_order_item_row_ok :: "transfer_order_item \<Rightarrow> bool" where
  "transfer_order_item_row_ok r \<longleftrightarrow>
     quantity_ok (bti_requested r) \<and> 0 < bti_requested r \<and>
     (\<forall>q \<in> set_option (bti_approved r). quantity_ok q) \<and>
     quantity_ok (bti_shipped r) \<and> quantity_ok (bti_received r) \<and>
     price_ok (bti_price r) \<and> currency_ok (bti_currency r)"

text \<open>An empty category is stored as NULL.\<close>

definition supply_policy_row_ok :: "supply_policy \<Rightarrow> bool" where
  "supply_policy_row_ok r \<longleftrightarrow>
     SupplyMode_Valid (spl_mode r) \<and>
     (case spl_scope r of
        ScopeStockItem \<Rightarrow> spl_item r \<noteq> None \<and> spl_category r = ''''
      | ScopeCategory \<Rightarrow> spl_category r \<noteq> '''' \<and> spl_item r = None
      | ScopeTenantDefault \<Rightarrow> spl_item r = None \<and> spl_category r = ''''
      | ScopeOther _ \<Rightarrow> False)"

definition purchase_receipt_row_ok :: "purchase_receipt \<Rightarrow> bool" where
  "purchase_receipt_row_ok r \<longleftrightarrow>
     decimal 4 (rct_total r) \<and> 0 \<le> rct_total r \<and> numeric_range 18 4 (rct_total r) \<and>
     length (rct_currency r) = 3"

definition purchase_receipt_item_row_ok :: "purchase_receipt_item \<Rightarrow> bool" where
  "purchase_receipt_item_row_ok r \<longleftrightarrow>
     quantity_ok (rci_quantity r) \<and> 0 < rci_quantity r \<and> price_ok (Some (rci_price r)) \<and> 0 \<le> rci_price r \<and>
     price_ok (Some (rci_line_total r)) \<and> 0 \<le> rci_line_total r"

text \<open>The unique constraints, and the composite primary key of a shipment line.\<close>

definition stock_items_uniq :: "stock_item list \<Rightarrow> bool" where
  "stock_items_uniq rs \<longleftrightarrow> distinct (map (\<lambda>r. (sti_tenant r, sti_sku r)) rs)"

definition lvl_place :: "stock_level \<Rightarrow> uuid \<times> uuid \<times> uuid" where
  "lvl_place r = (lvl_tenant r, lvl_warehouse r, lvl_item r)"

definition levels_uniq :: "stock_level list \<Rightarrow> bool" where
  "levels_uniq rs \<longleftrightarrow> distinct (map lvl_place rs)"

definition transfer_order_items_uniq :: "transfer_order_item list \<Rightarrow> bool" where
  "transfer_order_items_uniq rs \<longleftrightarrow> distinct (map (\<lambda>r. (bti_order r, bti_item r)) rs)"

definition shi_key :: "shipment_item \<Rightarrow> uuid" where
  "shi_key r = prod_encode (shi_shipment r, shi_item r)"

lemma shi_key_eq [simp]: "shi_key r = shi_key r' \<longleftrightarrow> shi_shipment r = shi_shipment r' \<and> shi_item r = shi_item r'"
  by (simp add: shi_key_def)

text \<open>Foreign keys, which see the rows of every tenant.\<close>

definition has_warehouse :: "inv_db \<Rightarrow> uuid \<Rightarrow> bool" where
  "has_warehouse s i \<longleftrightarrow> i \<in> wh_id ` set (ivd_warehouses s)"

definition has_stock_item :: "inv_db \<Rightarrow> uuid \<Rightarrow> bool" where
  "has_stock_item s i \<longleftrightarrow> i \<in> sti_id ` set (ivd_items s)"

definition stock_levels_refs :: "inv_db \<Rightarrow> stock_level \<Rightarrow> bool" where
  "stock_levels_refs s r \<longleftrightarrow> has_warehouse s (lvl_warehouse r) \<and> has_stock_item s (lvl_item r)"

definition stock_movements_refs :: "inv_db \<Rightarrow> stock_movement \<Rightarrow> bool" where
  "stock_movements_refs s r \<longleftrightarrow> has_warehouse s (mvt_warehouse r) \<and> has_stock_item s (mvt_item r)"

definition shipments_refs :: "inv_db \<Rightarrow> shipment \<Rightarrow> bool" where
  "shipments_refs s r \<longleftrightarrow>
     has_warehouse s (shp_from r) \<and> (\<forall>o' \<in> set_option (shp_order r). o' \<in> bto_id ` set (ivd_orders s))"

definition shipment_items_refs :: "inv_db \<Rightarrow> shipment_item \<Rightarrow> bool" where
  "shipment_items_refs s r \<longleftrightarrow>
     shi_shipment r \<in> shp_id ` set (ivd_shipments s) \<and> has_stock_item s (shi_item r)"

definition transfer_order_items_refs :: "inv_db \<Rightarrow> transfer_order_item \<Rightarrow> bool" where
  "transfer_order_items_refs s r \<longleftrightarrow>
     bti_order r \<in> bto_id ` set (ivd_orders s) \<and> has_stock_item s (bti_item r)"

definition supply_policies_refs :: "inv_db \<Rightarrow> supply_policy \<Rightarrow> bool" where
  "supply_policies_refs s r \<longleftrightarrow> (\<forall>i \<in> set_option (spl_item r). has_stock_item s i)"

definition purchase_receipts_refs :: "inv_db \<Rightarrow> purchase_receipt \<Rightarrow> bool" where
  "purchase_receipts_refs s r \<longleftrightarrow> has_warehouse s (rct_warehouse r)"

definition purchase_receipt_items_refs :: "inv_db \<Rightarrow> purchase_receipt_item \<Rightarrow> bool" where
  "purchase_receipt_items_refs s r \<longleftrightarrow>
     rci_receipt r \<in> rct_id ` set (ivd_receipts s) \<and> has_stock_item s (rci_item r)"

section \<open>Tables\<close>

definition warehouses_table :: "(inv_db, warehouse) sql_table" where
  "warehouses_table =
     \<lparr>tb_get = ivd_warehouses, tb_put = (\<lambda>rs s. s\<lparr>ivd_warehouses := rs\<rparr>), tb_tenant = wh_tenant,
      tb_key = wh_id, tb_row_ok = warehouse_row_ok, tb_uniq = (\<lambda>_. True), tb_refs = (\<lambda>_ _. True)\<rparr>"

definition stock_items_table :: "(inv_db, stock_item) sql_table" where
  "stock_items_table =
     \<lparr>tb_get = ivd_items, tb_put = (\<lambda>rs s. s\<lparr>ivd_items := rs\<rparr>), tb_tenant = sti_tenant,
      tb_key = sti_id, tb_row_ok = stock_item_row_ok, tb_uniq = stock_items_uniq, tb_refs = (\<lambda>_ _. True)\<rparr>"

definition stock_levels_table :: "(inv_db, stock_level) sql_table" where
  "stock_levels_table =
     \<lparr>tb_get = ivd_levels, tb_put = (\<lambda>rs s. s\<lparr>ivd_levels := rs\<rparr>), tb_tenant = lvl_tenant,
      tb_key = lvl_id, tb_row_ok = level_row_ok, tb_uniq = levels_uniq, tb_refs = stock_levels_refs\<rparr>"

definition stock_movements_table :: "(inv_db, stock_movement) sql_table" where
  "stock_movements_table =
     \<lparr>tb_get = ivd_moves, tb_put = (\<lambda>rs s. s\<lparr>ivd_moves := rs\<rparr>), tb_tenant = mvt_tenant,
      tb_key = mvt_id, tb_row_ok = stock_movement_row_ok, tb_uniq = (\<lambda>_. True), tb_refs = stock_movements_refs\<rparr>"

definition shipments_table :: "(inv_db, shipment) sql_table" where
  "shipments_table =
     \<lparr>tb_get = ivd_shipments, tb_put = (\<lambda>rs s. s\<lparr>ivd_shipments := rs\<rparr>), tb_tenant = shp_tenant,
      tb_key = shp_id, tb_row_ok = shipment_row_ok, tb_uniq = (\<lambda>_. True), tb_refs = shipments_refs\<rparr>"

definition shipment_items_table :: "(inv_db, shipment_item) sql_table" where
  "shipment_items_table =
     \<lparr>tb_get = ivd_shipment_items, tb_put = (\<lambda>rs s. s\<lparr>ivd_shipment_items := rs\<rparr>), tb_tenant = shi_tenant,
      tb_key = shi_key, tb_row_ok = shipment_item_row_ok, tb_uniq = (\<lambda>_. True), tb_refs = shipment_items_refs\<rparr>"

definition transfer_orders_table :: "(inv_db, transfer_order) sql_table" where
  "transfer_orders_table =
     \<lparr>tb_get = ivd_orders, tb_put = (\<lambda>rs s. s\<lparr>ivd_orders := rs\<rparr>), tb_tenant = bto_tenant,
      tb_key = bto_id, tb_row_ok = transfer_order_row_ok, tb_uniq = (\<lambda>_. True), tb_refs = (\<lambda>_ _. True)\<rparr>"

definition transfer_order_items_table :: "(inv_db, transfer_order_item) sql_table" where
  "transfer_order_items_table =
     \<lparr>tb_get = ivd_order_items, tb_put = (\<lambda>rs s. s\<lparr>ivd_order_items := rs\<rparr>), tb_tenant = bti_tenant,
      tb_key = bti_id, tb_row_ok = transfer_order_item_row_ok, tb_uniq = transfer_order_items_uniq, tb_refs = transfer_order_items_refs\<rparr>"

definition supply_policies_table :: "(inv_db, supply_policy) sql_table" where
  "supply_policies_table =
     \<lparr>tb_get = ivd_policies, tb_put = (\<lambda>rs s. s\<lparr>ivd_policies := rs\<rparr>), tb_tenant = spl_tenant,
      tb_key = spl_id, tb_row_ok = supply_policy_row_ok, tb_uniq = (\<lambda>_. True), tb_refs = supply_policies_refs\<rparr>"

definition purchase_receipts_table :: "(inv_db, purchase_receipt) sql_table" where
  "purchase_receipts_table =
     \<lparr>tb_get = ivd_receipts, tb_put = (\<lambda>rs s. s\<lparr>ivd_receipts := rs\<rparr>), tb_tenant = rct_tenant,
      tb_key = rct_id, tb_row_ok = purchase_receipt_row_ok, tb_uniq = (\<lambda>_. True), tb_refs = purchase_receipts_refs\<rparr>"

definition purchase_receipt_items_table :: "(inv_db, purchase_receipt_item) sql_table" where
  "purchase_receipt_items_table =
     \<lparr>tb_get = ivd_receipt_items, tb_put = (\<lambda>rs s. s\<lparr>ivd_receipt_items := rs\<rparr>), tb_tenant = rci_tenant,
      tb_key = rci_id, tb_row_ok = purchase_receipt_item_row_ok, tb_uniq = (\<lambda>_. True), tb_refs = purchase_receipt_items_refs\<rparr>"

lemmas inv_tables =
  warehouses_table_def stock_items_table_def stock_levels_table_def stock_movements_table_def shipments_table_def shipment_items_table_def transfer_orders_table_def transfer_order_items_table_def supply_policies_table_def purchase_receipts_table_def purchase_receipt_items_table_def

lemma inv_table_fields [simp]:
  "tb_get warehouses_table = ivd_warehouses"
  "tb_put warehouses_table = (\<lambda>rs s. s\<lparr>ivd_warehouses := rs\<rparr>)"
  "tb_tenant warehouses_table = wh_tenant"
  "tb_key warehouses_table = wh_id"
  "tb_row_ok warehouses_table = warehouse_row_ok"
  "tb_uniq warehouses_table = (\<lambda>_. True)"
  "tb_refs warehouses_table = (\<lambda>_ _. True)"
  "tb_get stock_items_table = ivd_items"
  "tb_put stock_items_table = (\<lambda>rs s. s\<lparr>ivd_items := rs\<rparr>)"
  "tb_tenant stock_items_table = sti_tenant"
  "tb_key stock_items_table = sti_id"
  "tb_row_ok stock_items_table = stock_item_row_ok"
  "tb_uniq stock_items_table = stock_items_uniq"
  "tb_refs stock_items_table = (\<lambda>_ _. True)"
  "tb_get stock_levels_table = ivd_levels"
  "tb_put stock_levels_table = (\<lambda>rs s. s\<lparr>ivd_levels := rs\<rparr>)"
  "tb_tenant stock_levels_table = lvl_tenant"
  "tb_key stock_levels_table = lvl_id"
  "tb_row_ok stock_levels_table = level_row_ok"
  "tb_uniq stock_levels_table = levels_uniq"
  "tb_refs stock_levels_table = stock_levels_refs"
  "tb_get stock_movements_table = ivd_moves"
  "tb_put stock_movements_table = (\<lambda>rs s. s\<lparr>ivd_moves := rs\<rparr>)"
  "tb_tenant stock_movements_table = mvt_tenant"
  "tb_key stock_movements_table = mvt_id"
  "tb_row_ok stock_movements_table = stock_movement_row_ok"
  "tb_uniq stock_movements_table = (\<lambda>_. True)"
  "tb_refs stock_movements_table = stock_movements_refs"
  "tb_get shipments_table = ivd_shipments"
  "tb_put shipments_table = (\<lambda>rs s. s\<lparr>ivd_shipments := rs\<rparr>)"
  "tb_tenant shipments_table = shp_tenant"
  "tb_key shipments_table = shp_id"
  "tb_row_ok shipments_table = shipment_row_ok"
  "tb_uniq shipments_table = (\<lambda>_. True)"
  "tb_refs shipments_table = shipments_refs"
  "tb_get shipment_items_table = ivd_shipment_items"
  "tb_put shipment_items_table = (\<lambda>rs s. s\<lparr>ivd_shipment_items := rs\<rparr>)"
  "tb_tenant shipment_items_table = shi_tenant"
  "tb_key shipment_items_table = shi_key"
  "tb_row_ok shipment_items_table = shipment_item_row_ok"
  "tb_uniq shipment_items_table = (\<lambda>_. True)"
  "tb_refs shipment_items_table = shipment_items_refs"
  "tb_get transfer_orders_table = ivd_orders"
  "tb_put transfer_orders_table = (\<lambda>rs s. s\<lparr>ivd_orders := rs\<rparr>)"
  "tb_tenant transfer_orders_table = bto_tenant"
  "tb_key transfer_orders_table = bto_id"
  "tb_row_ok transfer_orders_table = transfer_order_row_ok"
  "tb_uniq transfer_orders_table = (\<lambda>_. True)"
  "tb_refs transfer_orders_table = (\<lambda>_ _. True)"
  "tb_get transfer_order_items_table = ivd_order_items"
  "tb_put transfer_order_items_table = (\<lambda>rs s. s\<lparr>ivd_order_items := rs\<rparr>)"
  "tb_tenant transfer_order_items_table = bti_tenant"
  "tb_key transfer_order_items_table = bti_id"
  "tb_row_ok transfer_order_items_table = transfer_order_item_row_ok"
  "tb_uniq transfer_order_items_table = transfer_order_items_uniq"
  "tb_refs transfer_order_items_table = transfer_order_items_refs"
  "tb_get supply_policies_table = ivd_policies"
  "tb_put supply_policies_table = (\<lambda>rs s. s\<lparr>ivd_policies := rs\<rparr>)"
  "tb_tenant supply_policies_table = spl_tenant"
  "tb_key supply_policies_table = spl_id"
  "tb_row_ok supply_policies_table = supply_policy_row_ok"
  "tb_uniq supply_policies_table = (\<lambda>_. True)"
  "tb_refs supply_policies_table = supply_policies_refs"
  "tb_get purchase_receipts_table = ivd_receipts"
  "tb_put purchase_receipts_table = (\<lambda>rs s. s\<lparr>ivd_receipts := rs\<rparr>)"
  "tb_tenant purchase_receipts_table = rct_tenant"
  "tb_key purchase_receipts_table = rct_id"
  "tb_row_ok purchase_receipts_table = purchase_receipt_row_ok"
  "tb_uniq purchase_receipts_table = (\<lambda>_. True)"
  "tb_refs purchase_receipts_table = purchase_receipts_refs"
  "tb_get purchase_receipt_items_table = ivd_receipt_items"
  "tb_put purchase_receipt_items_table = (\<lambda>rs s. s\<lparr>ivd_receipt_items := rs\<rparr>)"
  "tb_tenant purchase_receipt_items_table = rci_tenant"
  "tb_key purchase_receipt_items_table = rci_id"
  "tb_row_ok purchase_receipt_items_table = purchase_receipt_item_row_ok"
  "tb_uniq purchase_receipt_items_table = (\<lambda>_. True)"
  "tb_refs purchase_receipt_items_table = purchase_receipt_items_refs"
  by (simp_all add: inv_tables)

interpretation warehouses: sql_table_laws warehouses_table by unfold_locales simp_all
interpretation stock_items: sql_table_laws stock_items_table by unfold_locales simp_all
interpretation stock_levels: sql_table_laws stock_levels_table by unfold_locales (auto simp: stock_levels_refs_def has_warehouse_def has_stock_item_def)
interpretation stock_movements: sql_table_laws stock_movements_table by unfold_locales (auto simp: stock_movements_refs_def has_warehouse_def has_stock_item_def)
interpretation shipments: sql_table_laws shipments_table by unfold_locales (auto simp: shipments_refs_def has_warehouse_def has_stock_item_def)
interpretation shipment_items: sql_table_laws shipment_items_table by unfold_locales (auto simp: shipment_items_refs_def has_warehouse_def has_stock_item_def)
interpretation transfer_orders: sql_table_laws transfer_orders_table by unfold_locales simp_all
interpretation transfer_order_items: sql_table_laws transfer_order_items_table by unfold_locales (auto simp: transfer_order_items_refs_def has_warehouse_def has_stock_item_def)
interpretation supply_policies: sql_table_laws supply_policies_table by unfold_locales (auto simp: supply_policies_refs_def has_warehouse_def has_stock_item_def)
interpretation purchase_receipts: sql_table_laws purchase_receipts_table by unfold_locales (auto simp: purchase_receipts_refs_def has_warehouse_def has_stock_item_def)
interpretation purchase_receipt_items: sql_table_laws purchase_receipt_items_table by unfold_locales (auto simp: purchase_receipt_items_refs_def has_warehouse_def has_stock_item_def)

section \<open>Ids and transactions\<close>

definition inv_uuid :: "(inv_db, 'e, uuid) tx" where
  "inv_uuid s = Inr (ivd_rand s (ivd_ctr s), s\<lparr>ivd_ctr := Suc (ivd_ctr s)\<rparr>)"

abbreviation inv_sql :: "(inv_db, pg_error, 'a) tx \<Rightarrow> (inv_db, inv_err, 'a) tx" where
  "inv_sql \<equiv> tx_map_err InvDb"

definition InvTenantTx ::
  "ctx \<Rightarrow> uuid \<Rightarrow> (pgtx \<Rightarrow> (inv_db, inv_err, 'a) tx) \<Rightarrow> (inv_db, inv_err, 'a) tx" where
  "InvTenantTx c tenantID fn =
     (if tenantID = uuid_Nil then tx_throw InvNilTenant
      else fn \<lparr>tx_tenant = tenantID, tx_now = ctx_now c\<rparr>)"

definition InvTenantReadTx ::
  "ctx \<Rightarrow> uuid \<Rightarrow> (pgtx \<Rightarrow> (inv_db, inv_err, 'a) tx) \<Rightarrow> (inv_db, inv_err, 'a) tx" where
  "InvTenantReadTx c tenantID fn =
     (if tenantID = uuid_Nil then tx_throw InvNilTenant
      else fn \<lparr>tx_tenant = tenantID, tx_now = ctx_now c\<rparr>)"

abbreviation inv_tx :: "ctx \<Rightarrow> uuid \<Rightarrow> pgtx" where
  "inv_tx c tn \<equiv> \<lparr>tx_tenant = tn, tx_now = ctx_now c\<rparr>"

lemma InvTenantTx_Inr [simp]:
  "InvTenantTx c tn fn s = Inr r \<longleftrightarrow> tn \<noteq> uuid_Nil \<and> fn (inv_tx c tn) s = Inr r"
  by (simp add: InvTenantTx_def)

lemma InvTenantReadTx_Inr [simp]:
  "InvTenantReadTx c tn fn s = Inr r \<longleftrightarrow> tn \<noteq> uuid_Nil \<and> fn (inv_tx c tn) s = Inr r"
  by (simp add: InvTenantReadTx_def)

lemma inv_uuid_Inr:
  "inv_uuid s = Inr (i, s') \<longleftrightarrow> i = ivd_rand s (ivd_ctr s) \<and> s' = s\<lparr>ivd_ctr := Suc (ivd_ctr s)\<rparr>"
  by (auto simp: inv_uuid_def)

end
