(* ===== verification/Inv_Repo.thy ===== *)
theory Inv_Repo
  imports Inv_State
begin

text \<open>
  inventory/repo: the statements of every repository. A write of a float64 into a
  \<open>NUMERIC\<close> column rounds it; \<open>UPDATE ... RETURNING\<close> and \<open>SELECT\<close> by key report
  \<open>pgx.ErrNoRows\<close> as the repository's \<open>ErrNotFound\<close>. A DATE column is kept as the time
  it was written from.
\<close>

section \<open>Warehouses and stock items\<close>

definition WarehouseRepo_Create :: "pgtx \<Rightarrow> warehouse \<Rightarrow> (inv_db, inv_err, warehouse) tx" where
  "WarehouseRepo_Create tx w =
     tx_bind inv_uuid (\<lambda>i.
     inv_sql (sql_insert warehouses_table tx (w\<lparr>wh_id := i, wh_created := tx_now tx, wh_updated := tx_now tx\<rparr>)))"

definition WarehouseRepo_GetByID :: "pgtx \<Rightarrow> uuid \<Rightarrow> (inv_db, inv_err, warehouse) tx" where
  "WarehouseRepo_GetByID tx i =
     tx_bind (sql_find warehouses_table tx (\<lambda>r. wh_id r = i)) (found_row InvRepoNotFound)"

definition WarehouseRepo_List :: "pgtx \<Rightarrow> uuid \<Rightarrow> (inv_db, inv_err, warehouse list) tx" where
  "WarehouseRepo_List tx branchID =
     tx_bind (sql_select warehouses_table tx
       (\<lambda>r. wh_active r \<and> (branchID = uuid_Nil \<or> wh_branch r = branchID))) (\<lambda>rs.
     tx_return (sort_by (\<lambda>a b. string_less (wh_name a) (wh_name b)) rs))"

definition WarehouseRepo_Update :: "pgtx \<Rightarrow> warehouse \<Rightarrow> (inv_db, inv_err, warehouse) tx" where
  "WarehouseRepo_Update tx w =
     tx_bind (inv_sql (sql_update warehouses_table tx (\<lambda>r. wh_id r = wh_id w)
       (\<lambda>r. r\<lparr>wh_branch := wh_branch w, wh_name := wh_name w, wh_type := wh_type w,
              wh_active := wh_active w, wh_updated := tx_now tx\<rparr>)))
     (query_row InvRepoNotFound)"

definition WarehouseRepo_Delete :: "pgtx \<Rightarrow> uuid \<Rightarrow> (inv_db, inv_err, unit) tx" where
  "WarehouseRepo_Delete tx i =
     tx_bind (inv_sql (sql_update warehouses_table tx (\<lambda>r. wh_id r = i)
       (\<lambda>r. r\<lparr>wh_active := False, wh_updated := tx_now tx\<rparr>))) (\<lambda>rs.
     tx_require (rs \<noteq> []) InvRepoNotFound)"

definition StockItemRepo_Create :: "pgtx \<Rightarrow> stock_item \<Rightarrow> (inv_db, inv_err, stock_item) tx" where
  "StockItemRepo_Create tx r =
     inv_sql (sql_insert stock_items_table tx (r\<lparr>sti_created := tx_now tx, sti_updated := tx_now tx\<rparr>))"

definition StockItemRepo_GetByID :: "pgtx \<Rightarrow> uuid \<Rightarrow> (inv_db, inv_err, stock_item) tx" where
  "StockItemRepo_GetByID tx i =
     tx_bind (sql_find stock_items_table tx (\<lambda>r. sti_id r = i)) (found_row InvRepoNotFound)"

text \<open>The filter compares the text of the kind; the empty one selects every kind.\<close>

definition StockItemRepo_List :: "pgtx \<Rightarrow> stock_item_kind \<Rightarrow> (inv_db, inv_err, stock_item list) tx" where
  "StockItemRepo_List tx kind =
     tx_bind (sql_select stock_items_table tx
       (\<lambda>r. sti_active r \<and> (kind = KindOther '''' \<or> sti_kind r = kind))) (\<lambda>rs.
     tx_return (sort_by (\<lambda>a b. string_less (sti_name a) (sti_name b)) rs))"

definition StockItemRepo_Update :: "pgtx \<Rightarrow> stock_item \<Rightarrow> (inv_db, inv_err, stock_item) tx" where
  "StockItemRepo_Update tx i =
     tx_bind (inv_sql (sql_update stock_items_table tx (\<lambda>r. sti_id r = sti_id i)
       (\<lambda>r. r\<lparr>sti_sku := sti_sku i, sti_name := sti_name i, sti_kind := sti_kind i, sti_unit := sti_unit i,
              sti_category := sti_category i, sti_active := sti_active i, sti_updated := tx_now tx\<rparr>)))
     (query_row InvRepoNotFound)"

definition StockItemRepo_Delete :: "pgtx \<Rightarrow> uuid \<Rightarrow> (inv_db, inv_err, unit) tx" where
  "StockItemRepo_Delete tx i =
     tx_bind (inv_sql (sql_update stock_items_table tx (\<lambda>r. sti_id r = i)
       (\<lambda>r. r\<lparr>sti_active := False, sti_updated := tx_now tx\<rparr>))) (\<lambda>rs.
     tx_require (rs \<noteq> []) InvRepoNotFound)"

section \<open>Levels\<close>

definition at_place :: "uuid \<Rightarrow> uuid \<Rightarrow> uuid \<Rightarrow> stock_level \<Rightarrow> bool" where
  "at_place tn w i r \<longleftrightarrow> lvl_place r = (tn, w, i)"

definition fresh_level :: "uuid \<Rightarrow> uuid \<Rightarrow> uuid \<Rightarrow> uuid \<Rightarrow> string \<Rightarrow> time \<Rightarrow> stock_level" where
  "fresh_level k tn w i unit now =
     \<lparr>lvl_id = k, lvl_tenant = tn, lvl_warehouse = w, lvl_item = i, lvl_on_hand = 0, lvl_reserved = 0,
      lvl_reorder = None, lvl_unit = unit, lvl_cost = None, lvl_cost_currency = None,
      lvl_cost_source = None, lvl_cost_at = None, lvl_updated = now\<rparr>"

text \<open>\<open>INSERT ... ON CONFLICT (tenant_id, warehouse_id, stock_item_id) DO UPDATE\<close>.\<close>

definition upsert_level ::
  "pgtx \<Rightarrow> uuid \<Rightarrow> uuid \<Rightarrow> uuid \<Rightarrow> string \<Rightarrow> (stock_level \<Rightarrow> stock_level) \<Rightarrow> (inv_db, inv_err, stock_level) tx" where
  "upsert_level tx tn w i unit f =
     tx_bind inv_uuid (\<lambda>k.
     tx_bind (sql_find stock_levels_table tx (at_place tn w i)) (\<lambda>found.
     case found of
       None \<Rightarrow> inv_sql (sql_insert stock_levels_table tx (f (fresh_level k tn w i unit (tx_now tx))))
     | Some _ \<Rightarrow>
         tx_bind (inv_sql (sql_update stock_levels_table tx (at_place tn w i)
           (\<lambda>r. (f r)\<lparr>lvl_updated := tx_now tx\<rparr>))) (query_row InvRepoNotFound)))"

definition clamped_add :: "float64 \<Rightarrow> float64 \<Rightarrow> float64" where
  "clamped_add q delta = numeric 3 (max 0 (q + delta))"

definition StockLevelRepo_AdjustOnHand ::
  "pgtx \<Rightarrow> uuid \<Rightarrow> uuid \<Rightarrow> uuid \<Rightarrow> float64 \<Rightarrow> string \<Rightarrow> (inv_db, inv_err, stock_level) tx" where
  "StockLevelRepo_AdjustOnHand tx tn w i delta unit =
     upsert_level tx tn w i unit (\<lambda>r. r\<lparr>lvl_on_hand := clamped_add (lvl_on_hand r) delta\<rparr>)"

definition StockLevelRepo_AdjustReserved ::
  "pgtx \<Rightarrow> uuid \<Rightarrow> uuid \<Rightarrow> uuid \<Rightarrow> float64 \<Rightarrow> string \<Rightarrow> (inv_db, inv_err, stock_level) tx" where
  "StockLevelRepo_AdjustReserved tx tn w i delta unit =
     upsert_level tx tn w i unit (\<lambda>r. r\<lparr>lvl_reserved := clamped_add (lvl_reserved r) delta\<rparr>)"

definition StockLevelRepo_GetByStockItem :: "pgtx \<Rightarrow> uuid \<Rightarrow> uuid \<Rightarrow> (inv_db, inv_err, stock_level) tx" where
  "StockLevelRepo_GetByStockItem tx w i =
     tx_bind (sql_find stock_levels_table tx (\<lambda>r. lvl_warehouse r = w \<and> lvl_item r = i))
       (found_row InvRepoNotFound)"

definition StockLevelRepo_ListByWarehouse :: "pgtx \<Rightarrow> uuid \<Rightarrow> (inv_db, inv_err, stock_level list) tx" where
  "StockLevelRepo_ListByWarehouse tx w =
     tx_bind (sql_select stock_levels_table tx (\<lambda>r. lvl_warehouse r = w)) (\<lambda>rs.
     tx_return (sort_by (\<lambda>a b. lvl_item a < lvl_item b) rs))"

definition StockLevelRepo_SetLastCost ::
  "pgtx \<Rightarrow> uuid \<Rightarrow> uuid \<Rightarrow> uuid \<Rightarrow> float64 \<Rightarrow> string \<Rightarrow> cost_source \<Rightarrow> (inv_db, inv_err, unit) tx" where
  "StockLevelRepo_SetLastCost tx tn w i unitCost currency source =
     tx_bind (inv_sql (sql_update stock_levels_table tx (at_place tn w i)
       (\<lambda>r. r\<lparr>lvl_cost := Some (numeric 4 unitCost), lvl_cost_currency := Some (char3 currency),
              lvl_cost_source := Some source, lvl_cost_at := Some (tx_now tx),
              lvl_updated := tx_now tx\<rparr>))) (\<lambda>rs.
     tx_require (rs \<noteq> []) InvRepoNotFound)"

section \<open>Movements\<close>

definition StockMovementRepo_Create :: "pgtx \<Rightarrow> stock_movement \<Rightarrow> (inv_db, inv_err, stock_movement) tx" where
  "StockMovementRepo_Create tx m =
     tx_bind inv_uuid (\<lambda>i.
     inv_sql (sql_insert stock_movements_table tx
       (m\<lparr>mvt_id := i, mvt_quantity := numeric 3 (mvt_quantity m), mvt_created := tx_now tx\<rparr>)))"

definition movement_limit :: "int \<Rightarrow> nat" where
  "movement_limit limit = nat (if limit \<le> 0 \<or> limit > 500 then 100 else limit)"

definition newest_movements :: "stock_movement list \<Rightarrow> stock_movement list" where
  "newest_movements = sort_by (\<lambda>a b. mvt_created b < mvt_created a)"

definition StockMovementRepo_ListByStockItem ::
  "pgtx \<Rightarrow> uuid \<Rightarrow> uuid \<Rightarrow> int \<Rightarrow> (inv_db, inv_err, stock_movement list) tx" where
  "StockMovementRepo_ListByStockItem tx w i limit =
     tx_bind (sql_select stock_movements_table tx (\<lambda>r. mvt_warehouse r = w \<and> mvt_item r = i)) (\<lambda>rs.
     tx_return (take (movement_limit limit) (newest_movements rs)))"

definition StockMovementRepo_ListByWarehouse ::
  "pgtx \<Rightarrow> uuid \<Rightarrow> int \<Rightarrow> (inv_db, inv_err, stock_movement list) tx" where
  "StockMovementRepo_ListByWarehouse tx w limit =
     tx_bind (sql_select stock_movements_table tx (\<lambda>r. mvt_warehouse r = w)) (\<lambda>rs.
     tx_return (take (movement_limit limit) (newest_movements rs)))"

section \<open>Shipments\<close>

definition ShipmentRepo_Create :: "pgtx \<Rightarrow> shipment \<Rightarrow> (inv_db, inv_err, shipment) tx" where
  "ShipmentRepo_Create tx r =
     tx_bind inv_uuid (\<lambda>i.
     inv_sql (sql_insert shipments_table tx
       (r\<lparr>shp_id := i, shp_shipped := None, shp_received := None, shp_created := tx_now tx,
          shp_updated := tx_now tx\<rparr>)))"

definition ShipmentRepo_GetByID :: "pgtx \<Rightarrow> uuid \<Rightarrow> (inv_db, inv_err, shipment) tx" where
  "ShipmentRepo_GetByID tx i =
     tx_bind (sql_find shipments_table tx (\<lambda>r. shp_id r = i)) (found_row InvRepoNotFound)"

definition ShipmentRepo_ListByWarehouse :: "pgtx \<Rightarrow> uuid \<Rightarrow> (inv_db, inv_err, shipment list) tx" where
  "ShipmentRepo_ListByWarehouse tx w =
     tx_bind (sql_select shipments_table tx (\<lambda>r. shp_from r = w)) (\<lambda>rs.
     tx_return (sort_by (\<lambda>a b. shp_created b < shp_created a) rs))"

definition ShipmentRepo_ListByTransferOrder :: "pgtx \<Rightarrow> uuid \<Rightarrow> (inv_db, inv_err, shipment list) tx" where
  "ShipmentRepo_ListByTransferOrder tx k =
     tx_bind (sql_select shipments_table tx (\<lambda>r. shp_order r = Some k)) (\<lambda>rs.
     tx_return (sort_by (\<lambda>a b. shp_created a < shp_created b) rs))"

definition ShipmentRepo_UpdateStatus ::
  "pgtx \<Rightarrow> uuid \<Rightarrow> shipment_status \<Rightarrow> time option \<Rightarrow> time option \<Rightarrow> (inv_db, inv_err, shipment) tx" where
  "ShipmentRepo_UpdateStatus tx i status shippedAt receivedAt =
     tx_bind (inv_sql (sql_update shipments_table tx (\<lambda>r. shp_id r = i)
       (\<lambda>r. r\<lparr>shp_status := status,
              shp_shipped := (if shippedAt = None then shp_shipped r else shippedAt),
              shp_received := (if receivedAt = None then shp_received r else receivedAt),
              shp_updated := tx_now tx\<rparr>)))
     (query_row InvRepoNotFound)"

definition ShipmentItemRepo_Add :: "pgtx \<Rightarrow> shipment_item \<Rightarrow> (inv_db, inv_err, shipment_item) tx" where
  "ShipmentItemRepo_Add tx r =
     inv_sql (sql_insert shipment_items_table tx
       (r\<lparr>shi_requested := numeric 3 (shi_requested r), shi_shipped := numeric 3 (shi_shipped r),
          shi_received := numeric 3 (shi_received r), shi_price := map_option (numeric 4) (shi_price r),
          shi_currency := map_option char3 (shi_currency r)\<rparr>))"

definition ShipmentItemRepo_ListByShipment :: "pgtx \<Rightarrow> uuid \<Rightarrow> (inv_db, inv_err, shipment_item list) tx" where
  "ShipmentItemRepo_ListByShipment tx k =
     tx_bind (sql_select shipment_items_table tx (\<lambda>r. shi_shipment r = k)) (\<lambda>rs.
     tx_return (sort_by (\<lambda>a b. shi_item a < shi_item b) rs))"

definition ShipmentItemRepo_SetShippedQty ::
  "pgtx \<Rightarrow> uuid \<Rightarrow> uuid \<Rightarrow> float64 \<Rightarrow> (inv_db, inv_err, unit) tx" where
  "ShipmentItemRepo_SetShippedQty tx k i qty =
     tx_bind (inv_sql (sql_update shipment_items_table tx (\<lambda>r. shi_shipment r = k \<and> shi_item r = i)
       (\<lambda>r. r\<lparr>shi_shipped := numeric 3 qty\<rparr>))) (\<lambda>rs.
     tx_require (rs \<noteq> []) InvRepoNotFound)"

definition ShipmentItemRepo_SetReceivedQty ::
  "pgtx \<Rightarrow> uuid \<Rightarrow> uuid \<Rightarrow> float64 \<Rightarrow> (inv_db, inv_err, unit) tx" where
  "ShipmentItemRepo_SetReceivedQty tx k i qty =
     tx_bind (inv_sql (sql_update shipment_items_table tx (\<lambda>r. shi_shipment r = k \<and> shi_item r = i)
       (\<lambda>r. r\<lparr>shi_received := numeric 3 qty\<rparr>))) (\<lambda>rs.
     tx_require (rs \<noteq> []) InvRepoNotFound)"

section \<open>Transfer orders\<close>

definition TransferOrderRepo_Create :: "pgtx \<Rightarrow> transfer_order \<Rightarrow> (inv_db, inv_err, transfer_order) tx" where
  "TransferOrderRepo_Create tx r =
     tx_bind inv_uuid (\<lambda>i.
     inv_sql (sql_insert transfer_orders_table tx
       (r\<lparr>bto_id := i, bto_submitted := None, bto_approved := None, bto_approved_by := None,
          bto_created := tx_now tx, bto_updated := tx_now tx\<rparr>)))"

definition TransferOrderRepo_GetByID :: "pgtx \<Rightarrow> uuid \<Rightarrow> (inv_db, inv_err, transfer_order) tx" where
  "TransferOrderRepo_GetByID tx i =
     tx_bind (sql_find transfer_orders_table tx (\<lambda>r. bto_id r = i)) (found_row InvRepoNotFound)"

definition TransferOrderRepo_ListByRequestingBranch ::
  "pgtx \<Rightarrow> uuid \<Rightarrow> (inv_db, inv_err, transfer_order list) tx" where
  "TransferOrderRepo_ListByRequestingBranch tx b =
     tx_bind (sql_select transfer_orders_table tx (\<lambda>r. bto_requesting r = b)) (\<lambda>rs.
     tx_return (sort_by (\<lambda>x y. bto_created y < bto_created x) rs))"

definition TransferOrderRepo_ListBySourceBranch ::
  "pgtx \<Rightarrow> uuid \<Rightarrow> (inv_db, inv_err, transfer_order list) tx" where
  "TransferOrderRepo_ListBySourceBranch tx b =
     tx_bind (sql_select transfer_orders_table tx (\<lambda>r. bto_source r = b)) (\<lambda>rs.
     tx_return (sort_by (\<lambda>x y. bto_created y < bto_created x) rs))"

definition TransferOrderRepo_UpdateStatus ::
  "pgtx \<Rightarrow> uuid \<Rightarrow> bto_status \<Rightarrow> time option \<Rightarrow> time option \<Rightarrow> uuid option \<Rightarrow>
   (inv_db, inv_err, transfer_order) tx" where
  "TransferOrderRepo_UpdateStatus tx i status submittedAt approvedAt approvedBy =
     tx_bind (inv_sql (sql_update transfer_orders_table tx (\<lambda>r. bto_id r = i)
       (\<lambda>r. r\<lparr>bto_status := status,
              bto_submitted := (if submittedAt = None then bto_submitted r else submittedAt),
              bto_approved := (if approvedAt = None then bto_approved r else approvedAt),
              bto_approved_by := (if approvedBy = None then bto_approved_by r else approvedBy),
              bto_updated := tx_now tx\<rparr>)))
     (query_row InvRepoNotFound)"

text \<open>\<open>shipped_qty\<close>, \<open>received_qty\<close>, \<open>unit_price\<close> and \<open>currency\<close> take their defaults.\<close>

definition TransferOrderItemRepo_Add ::
  "pgtx \<Rightarrow> transfer_order_item \<Rightarrow> (inv_db, inv_err, transfer_order_item) tx" where
  "TransferOrderItemRepo_Add tx r =
     tx_bind inv_uuid (\<lambda>i.
     inv_sql (sql_insert transfer_order_items_table tx
       (r\<lparr>bti_id := i, bti_requested := numeric 3 (bti_requested r),
          bti_approved := map_option (numeric 3) (bti_approved r), bti_shipped := 0, bti_received := 0,
          bti_price := None, bti_currency := None\<rparr>)))"

definition TransferOrderItemRepo_ListByTransferOrder ::
  "pgtx \<Rightarrow> uuid \<Rightarrow> (inv_db, inv_err, transfer_order_item list) tx" where
  "TransferOrderItemRepo_ListByTransferOrder tx k =
     tx_bind (sql_select transfer_order_items_table tx (\<lambda>r. bti_order r = k)) (\<lambda>rs.
     tx_return (sort_by (\<lambda>a b. bti_item a < bti_item b) rs))"

definition TransferOrderItemRepo_SetApprovedQty :: "pgtx \<Rightarrow> uuid \<Rightarrow> float64 \<Rightarrow> (inv_db, inv_err, unit) tx" where
  "TransferOrderItemRepo_SetApprovedQty tx i qty =
     tx_bind (inv_sql (sql_update transfer_order_items_table tx (\<lambda>r. bti_id r = i)
       (\<lambda>r. r\<lparr>bti_approved := Some (numeric 3 qty)\<rparr>))) (\<lambda>rs.
     tx_require (rs \<noteq> []) InvRepoNotFound)"

definition TransferOrderItemRepo_SetUnitPrice ::
  "pgtx \<Rightarrow> uuid \<Rightarrow> float64 \<Rightarrow> string \<Rightarrow> (inv_db, inv_err, unit) tx" where
  "TransferOrderItemRepo_SetUnitPrice tx i unitPrice currency =
     tx_bind (inv_sql (sql_update transfer_order_items_table tx (\<lambda>r. bti_id r = i)
       (\<lambda>r. r\<lparr>bti_price := Some (numeric 4 unitPrice), bti_currency := Some (char3 currency)\<rparr>))) (\<lambda>rs.
     tx_require (rs \<noteq> []) InvRepoNotFound)"

definition TransferOrderItemRepo_AddShippedQty ::
  "pgtx \<Rightarrow> uuid \<Rightarrow> uuid \<Rightarrow> float64 \<Rightarrow> (inv_db, inv_err, unit) tx" where
  "TransferOrderItemRepo_AddShippedQty tx k i delta =
     tx_bind (inv_sql (sql_update transfer_order_items_table tx (\<lambda>r. bti_order r = k \<and> bti_item r = i)
       (\<lambda>r. r\<lparr>bti_shipped := numeric 3 (bti_shipped r + delta)\<rparr>))) (\<lambda>rs.
     tx_require (rs \<noteq> []) InvRepoNotFound)"

definition TransferOrderItemRepo_AddReceivedQty ::
  "pgtx \<Rightarrow> uuid \<Rightarrow> uuid \<Rightarrow> float64 \<Rightarrow> (inv_db, inv_err, unit) tx" where
  "TransferOrderItemRepo_AddReceivedQty tx k i delta =
     tx_bind (inv_sql (sql_update transfer_order_items_table tx (\<lambda>r. bti_order r = k \<and> bti_item r = i)
       (\<lambda>r. r\<lparr>bti_received := numeric 3 (bti_received r + delta)\<rparr>))) (\<lambda>rs.
     tx_require (rs \<noteq> []) InvRepoNotFound)"

definition wanted_qty :: "transfer_order_item \<Rightarrow> float64" where
  "wanted_qty r = (case bti_approved r of Some q \<Rightarrow> q | None \<Rightarrow> bti_requested r)"

definition TransferOrderItemRepo_AllReceived :: "pgtx \<Rightarrow> uuid \<Rightarrow> (inv_db, inv_err, bool) tx" where
  "TransferOrderItemRepo_AllReceived tx k =
     tx_bind (sql_select transfer_order_items_table tx
       (\<lambda>r. bti_order r = k \<and> bti_received r < wanted_qty r)) (\<lambda>rs.
     tx_return (rs = []))"

section \<open>Supply policies\<close>

text \<open>An empty supplier list is stored as NULL and read back as empty.\<close>

definition SupplyPolicyRepo_Create :: "pgtx \<Rightarrow> supply_policy \<Rightarrow> (inv_db, inv_err, supply_policy) tx" where
  "SupplyPolicyRepo_Create tx r =
     inv_sql (sql_insert supply_policies_table tx (r\<lparr>spl_created := tx_now tx\<rparr>))"

text \<open>The two selections have no order that decides between rows; the rows come in \<open>arrange\<close>d order.\<close>

definition SupplyPolicyRepo_ListCandidates ::
  "(supply_policy list \<Rightarrow> supply_policy list) \<Rightarrow> pgtx \<Rightarrow> uuid \<Rightarrow> (inv_db, inv_err, supply_policy list) tx" where
  "SupplyPolicyRepo_ListCandidates arrange tx b =
     tx_bind (sql_select supply_policies_table tx (\<lambda>r. spl_branch r = None \<or> spl_branch r = Some b)) (\<lambda>rs.
     tx_return (arrange rs))"

definition SupplyPolicyRepo_ListAll :: "pgtx \<Rightarrow> (inv_db, inv_err, supply_policy list) tx" where
  "SupplyPolicyRepo_ListAll tx =
     tx_bind (sql_select supply_policies_table tx (\<lambda>_. True)) (\<lambda>rs.
     tx_return (sort_by (\<lambda>a b. spl_from b < spl_from a) rs))"

section \<open>Purchase receipts\<close>

definition PurchaseReceiptRepo_Create :: "pgtx \<Rightarrow> purchase_receipt \<Rightarrow> (inv_db, inv_err, purchase_receipt) tx" where
  "PurchaseReceiptRepo_Create tx r =
     inv_sql (sql_insert purchase_receipts_table tx
       (r\<lparr>rct_total := numeric 4 (rct_total r), rct_currency := char3 (rct_currency r),
          rct_created := tx_now tx\<rparr>))"

definition PurchaseReceiptRepo_GetByID :: "pgtx \<Rightarrow> uuid \<Rightarrow> (inv_db, inv_err, purchase_receipt) tx" where
  "PurchaseReceiptRepo_GetByID tx i =
     tx_bind (sql_find purchase_receipts_table tx (\<lambda>r. rct_id r = i)) (found_row InvRepoNotFound)"

definition PurchaseReceiptRepo_ListByWarehouse :: "pgtx \<Rightarrow> uuid \<Rightarrow> (inv_db, inv_err, purchase_receipt list) tx" where
  "PurchaseReceiptRepo_ListByWarehouse tx w =
     tx_bind (sql_select purchase_receipts_table tx (\<lambda>r. rct_warehouse r = w)) (\<lambda>rs.
     tx_return (sort_by (\<lambda>a b. rct_created b < rct_created a) rs))"

definition PurchaseReceiptItemRepo_Add ::
  "pgtx \<Rightarrow> purchase_receipt_item \<Rightarrow> (inv_db, inv_err, purchase_receipt_item) tx" where
  "PurchaseReceiptItemRepo_Add tx r =
     inv_sql (sql_insert purchase_receipt_items_table tx
       (r\<lparr>rci_quantity := numeric 3 (rci_quantity r), rci_price := numeric 4 (rci_price r),
          rci_line_total := numeric 4 (rci_line_total r)\<rparr>))"

definition PurchaseReceiptItemRepo_ListByReceipt ::
  "pgtx \<Rightarrow> uuid \<Rightarrow> (inv_db, inv_err, purchase_receipt_item list) tx" where
  "PurchaseReceiptItemRepo_ListByReceipt tx k =
     tx_bind (sql_select purchase_receipt_items_table tx (\<lambda>r. rci_receipt r = k)) (\<lambda>rs.
     tx_return (sort_by (\<lambda>a b. rci_id a < rci_id b) rs))"

end
