(* ===== verification/Inv_Service.thy ===== *)
theory Inv_Service
  imports Inv_Repo Pos_Guards
begin

text \<open>
  inventory/service, first part: warehouses, stock items and what a branch sees of them,
  supply policies, stock movements and purchase receipts. The interface
  \<open>SupplyPolicyResolver\<close> is served by \<open>SupplyPolicyService\<close>; its second connection reads
  what the receipt's transaction has not written yet. \<open>arrange\<close> is the order in which a
  SELECT without ORDER BY returns its rows.
\<close>

section \<open>Guards\<close>

definition inv_requireBranch :: "ctx \<Rightarrow> principal \<Rightarrow> uuid \<Rightarrow> inv_err + unit" where
  "inv_requireBranch c p branchID =
     (if ScopeFromContext c = Some ''tenant'' then Inr ()
      else if IsStaff p \<and> prn_branch p \<noteq> uuid_Nil \<and> prn_branch p = branchID then Inr ()
      else Inl InvBranchForbidden)"

lemma inv_requireBranch_Inr [simp]: "inv_requireBranch c p b = Inr u \<longleftrightarrow> may_act c p b"
  by (cases u) (auto simp: inv_requireBranch_def may_act_def tenant_scoped_def)

definition inv_wrapErr :: "inv_err \<Rightarrow> inv_err" where
  "inv_wrapErr e = (if e = InvRepoNotFound then InvNotFound else e)"

text \<open>A validation: the conditions in their order, each with its error.\<close>

fun first_failure :: "(bool \<times> inv_err) list \<Rightarrow> inv_err + unit" where
  "first_failure [] = Inr ()"
| "first_failure ((bad, e) # rest) = (if bad then Inl e else first_failure rest)"

lemma first_failure_Inr: "first_failure cs = Inr u \<longleftrightarrow> (\<forall>(bad, e) \<in> set cs. \<not> bad)"
  by (induction cs rule: first_failure.induct) auto

section \<open>Warehouses\<close>

definition validateWarehouse :: "uuid \<Rightarrow> string \<Rightarrow> warehouse_type \<Rightarrow> inv_err + unit" where
  "validateWarehouse branchID name typ =
     first_failure
       [(branchID = uuid_Nil, InvValidation ''branch_id is required''),
        (name = '''', InvValidation ''name is required''),
        (\<not> WarehouseType_Valid typ, InvValidation ''invalid warehouse_type'')]"

definition WarehouseService_Create ::
  "ctx \<Rightarrow> uuid \<Rightarrow> uuid \<Rightarrow> string \<Rightarrow> warehouse_type \<Rightarrow> (inv_db, inv_err, warehouse) tx" where
  "WarehouseService_Create c tn branchID name typ =
     tx_bind (tx_lift (validateWarehouse branchID name typ)) (\<lambda>_.
     InvTenantTx c tn (\<lambda>tx. WarehouseRepo_Create tx
       \<lparr>wh_id = uuid_Nil, wh_tenant = tn, wh_branch = branchID, wh_name = name, wh_type = typ,
        wh_active = True, wh_created = 0, wh_updated = 0\<rparr>))"

definition WarehouseService_Get :: "ctx \<Rightarrow> uuid \<Rightarrow> uuid \<Rightarrow> (inv_db, inv_err, warehouse) tx" where
  "WarehouseService_Get c tn i =
     tx_map_err inv_wrapErr (InvTenantReadTx c tn (\<lambda>tx. WarehouseRepo_GetByID tx i))"

definition WarehouseService_List :: "ctx \<Rightarrow> uuid \<Rightarrow> uuid \<Rightarrow> (inv_db, inv_err, warehouse list) tx" where
  "WarehouseService_List c tn branchID = InvTenantReadTx c tn (\<lambda>tx. WarehouseRepo_List tx branchID)"

definition WarehouseService_Update ::
  "ctx \<Rightarrow> uuid \<Rightarrow> principal \<Rightarrow> warehouse \<Rightarrow> (inv_db, inv_err, warehouse) tx" where
  "WarehouseService_Update c tn p req =
     tx_bind (tx_lift (validateWarehouse (wh_branch req) (wh_name req) (wh_type req))) (\<lambda>_.
     tx_map_err inv_wrapErr (InvTenantTx c tn (\<lambda>tx.
       tx_bind (WarehouseRepo_GetByID tx (wh_id req)) (\<lambda>existing.
       tx_bind (tx_lift (inv_requireBranch c p (wh_branch existing))) (\<lambda>_.
       WarehouseRepo_Update tx req)))))"

definition WarehouseService_Delete :: "ctx \<Rightarrow> uuid \<Rightarrow> principal \<Rightarrow> uuid \<Rightarrow> (inv_db, inv_err, unit) tx" where
  "WarehouseService_Delete c tn p i =
     tx_map_err inv_wrapErr (InvTenantTx c tn (\<lambda>tx.
       tx_bind (WarehouseRepo_GetByID tx i) (\<lambda>existing.
       tx_bind (tx_lift (inv_requireBranch c p (wh_branch existing))) (\<lambda>_.
       WarehouseRepo_Delete tx i))))"

section \<open>Supply policies\<close>

record supply_policy_request =
  spq_scope :: supply_scope
  spq_item :: "uuid option"
  spq_category :: string
  spq_mode :: supply_mode
  spq_suppliers :: "uuid list"
  spq_from :: "time option"     \<comment> \<open>None is the zero time\<close>
  spq_created_by :: "uuid option"

definition validateSupplyPolicy :: "supply_policy_request \<Rightarrow> inv_err + unit" where
  "validateSupplyPolicy req =
     first_failure
       ([(\<not> SupplyScope_Valid (spq_scope req), InvValidation ''invalid scope''),
         (\<not> SupplyMode_Valid (spq_mode req), InvValidation ''invalid mode'')] @
        (case spq_scope req of
           ScopeStockItem \<Rightarrow>
             [(spq_item req = None \<or> spq_item req = Some uuid_Nil,
               InvValidation ''stock_item_id is required when scope=stock_item''),
              (spq_category req \<noteq> '''', InvValidation ''category must be empty when scope=stock_item'')]
         | ScopeCategory \<Rightarrow>
             [(spq_category req = '''', InvValidation ''category is required when scope=category''),
              (spq_item req \<noteq> None, InvValidation ''stock_item_id must be empty when scope=category'')]
         | ScopeTenantDefault \<Rightarrow>
             [(spq_item req \<noteq> None \<or> spq_category req \<noteq> '''',
               InvValidation ''stock_item_id and category must be empty when scope=tenant_default'')]
         | ScopeOther _ \<Rightarrow> []) @
        [(spq_mode req = SupplyApprovedSuppliers \<and> spq_suppliers req = [],
          InvValidation ''approved_supplier_ids is required when mode=approved_suppliers'')])"

definition SupplyPolicyService_Create ::
  "ctx \<Rightarrow> uuid \<Rightarrow> supply_policy_request \<Rightarrow> (inv_db, inv_err, supply_policy) tx" where
  "SupplyPolicyService_Create c tn req =
     tx_bind (tx_lift (validateSupplyPolicy req)) (\<lambda>_.
     tx_bind inv_uuid (\<lambda>newID.
     InvTenantTx c tn (\<lambda>tx. SupplyPolicyRepo_Create tx
       \<lparr>spl_id = newID, spl_tenant = tn, spl_branch = None, spl_scope = spq_scope req,
        spl_item = spq_item req, spl_category = spq_category req, spl_mode = spq_mode req,
        spl_suppliers = spq_suppliers req,
        spl_from = (case spq_from req of Some t \<Rightarrow> t | None \<Rightarrow> ctx_now c),
        spl_created_by = spq_created_by req, spl_created = 0\<rparr>)))"

definition SupplyPolicyService_List :: "ctx \<Rightarrow> uuid \<Rightarrow> (inv_db, inv_err, supply_policy list) tx" where
  "SupplyPolicyService_List c tn = InvTenantReadTx c tn SupplyPolicyRepo_ListAll"

definition EffectivePolicyFor ::
  "(supply_policy list \<Rightarrow> supply_policy list) \<Rightarrow> ctx \<Rightarrow> uuid \<Rightarrow> uuid \<Rightarrow> uuid \<Rightarrow>
   (inv_db, inv_err, supply_mode \<times> uuid list) tx" where
  "EffectivePolicyFor arrange c tn stockItemID branchID =
     tx_map_err inv_wrapErr (InvTenantReadTx c tn (\<lambda>tx.
       tx_bind (StockItemRepo_GetByID tx stockItemID) (\<lambda>item.
       tx_bind (SupplyPolicyRepo_ListCandidates arrange tx branchID) (\<lambda>policies.
       tx_return (ResolvePolicy policies item branchID (ctx_now c))))))"

section \<open>Stock items\<close>

definition validateStockItem :: "string \<Rightarrow> string \<Rightarrow> stock_item_kind \<Rightarrow> string \<Rightarrow> inv_err + unit" where
  "validateStockItem sku name kind unit =
     first_failure
       [(sku = '''', InvValidation ''sku is required''),
        (name = '''', InvValidation ''name is required''),
        (\<not> StockItemKind_Valid kind, InvValidation ''invalid kind''),
        (unit = '''', InvValidation ''canonical_unit is required'')]"

record stock_item_request =
  siq_sku :: string
  siq_name :: string
  siq_kind :: stock_item_kind
  siq_unit :: string
  siq_category :: string

definition StockItemService_Create ::
  "ctx \<Rightarrow> uuid \<Rightarrow> stock_item_request \<Rightarrow> (inv_db, inv_err, stock_item) tx" where
  "StockItemService_Create c tn req =
     tx_bind (tx_lift (validateStockItem (siq_sku req) (siq_name req) (siq_kind req) (siq_unit req))) (\<lambda>_.
     tx_bind inv_uuid (\<lambda>newID.
     InvTenantTx c tn (\<lambda>tx. StockItemRepo_Create tx
       \<lparr>sti_id = newID, sti_tenant = tn, sti_sku = siq_sku req, sti_name = siq_name req,
        sti_kind = siq_kind req, sti_unit = siq_unit req, sti_category = siq_category req,
        sti_active = True, sti_created = 0, sti_updated = 0\<rparr>)))"

definition StockItemService_Get :: "ctx \<Rightarrow> uuid \<Rightarrow> uuid \<Rightarrow> (inv_db, inv_err, stock_item) tx" where
  "StockItemService_Get c tn i =
     tx_map_err inv_wrapErr (InvTenantReadTx c tn (\<lambda>tx. StockItemRepo_GetByID tx i))"

record stock_item_view =
  siv_item :: stock_item
  siv_mode :: supply_mode
  siv_restricted :: bool

definition StockItemService_List ::
  "(supply_policy list \<Rightarrow> supply_policy list) \<Rightarrow> ctx \<Rightarrow> uuid \<Rightarrow> stock_item_kind \<Rightarrow> principal \<Rightarrow>
   (inv_db, inv_err, stock_item_view list) tx" where
  "StockItemService_List arrange c tn kind p =
     tx_bind (InvTenantReadTx c tn (\<lambda>tx.
       tx_bind (StockItemRepo_List tx kind) (\<lambda>items.
       tx_bind (SupplyPolicyRepo_ListCandidates arrange tx (prn_branch p)) (\<lambda>policies.
       tx_return (items, policies))))) (\<lambda>(items, policies).
     let tenantWide = ScopeFromContext c = Some ''tenant''
     in tx_return (map (\<lambda>item.
          let mode = fst (ResolvePolicy policies item (prn_branch p) (ctx_now c))
          in \<lparr>siv_item = item, siv_mode = mode,
              siv_restricted = (\<not> tenantWide \<and> mode = SupplyExclusiveHQ)\<rparr>) items))"

definition StockItemService_Update :: "ctx \<Rightarrow> uuid \<Rightarrow> stock_item \<Rightarrow> (inv_db, inv_err, stock_item) tx" where
  "StockItemService_Update c tn req =
     tx_bind (tx_lift (validateStockItem (sti_sku req) (sti_name req) (sti_kind req) (sti_unit req))) (\<lambda>_.
     tx_map_err inv_wrapErr (InvTenantTx c tn (\<lambda>tx. StockItemRepo_Update tx req)))"

definition StockItemService_Delete :: "ctx \<Rightarrow> uuid \<Rightarrow> uuid \<Rightarrow> (inv_db, inv_err, unit) tx" where
  "StockItemService_Delete c tn i =
     tx_map_err inv_wrapErr (InvTenantTx c tn (\<lambda>tx. StockItemRepo_Delete tx i))"

section \<open>Movements\<close>

record movement_request =
  mrq_warehouse :: uuid
  mrq_item :: uuid
  mrq_type :: movement_type
  mrq_quantity :: float64
  mrq_unit :: string
  mrq_ref :: "uuid option"
  mrq_ref_type :: "string option"
  mrq_notes :: "string option"
  mrq_created_by :: "uuid option"

fun signedDelta :: "movement_type \<Rightarrow> float64 \<Rightarrow> float64" where
  "signedDelta MovementIn q = q"
| "signedDelta MovementRelease q = q"
| "signedDelta MovementOut q = - q"
| "signedDelta MovementReserve q = - q"
| "signedDelta MovementTransfer q = - q"
| "signedDelta MovementAdjust q = q"
| "signedDelta (MovementOther _) q = q"

definition validateMovement :: "movement_request \<Rightarrow> inv_err + unit" where
  "validateMovement req =
     first_failure
       [(\<not> MovementType_Valid (mrq_type req), InvValidation ''invalid movement type''),
        (mrq_warehouse req = uuid_Nil, InvValidation ''warehouse_id is required''),
        (mrq_item req = uuid_Nil, InvValidation ''stock_item_id is required''),
        (mrq_quantity req = 0, InvValidation ''quantity must not be zero''),
        (mrq_type req \<noteq> MovementAdjust \<and> mrq_quantity req < 0,
         InvValidation ''requires a positive quantity magnitude'')]"

definition new_movement ::
  "uuid \<Rightarrow> uuid \<Rightarrow> uuid \<Rightarrow> movement_type \<Rightarrow> float64 \<Rightarrow> uuid option \<Rightarrow> string option \<Rightarrow> stock_movement" where
  "new_movement tn w i typ q ref refType =
     \<lparr>mvt_id = uuid_Nil, mvt_tenant = tn, mvt_warehouse = w, mvt_item = i, mvt_type = typ,
      mvt_quantity = q, mvt_ref = ref, mvt_ref_type = refType, mvt_notes = None,
      mvt_created_by = None, mvt_created = 0\<rparr>"

definition adjustLevel :: "pgtx \<Rightarrow> uuid \<Rightarrow> movement_request \<Rightarrow> (inv_db, inv_err, stock_level) tx" where
  "adjustLevel tx tn req =
     (let delta = signedDelta (mrq_type req) (mrq_quantity req)
      in if AffectsOnHand (mrq_type req)
         then StockLevelRepo_AdjustOnHand tx tn (mrq_warehouse req) (mrq_item req) delta (mrq_unit req)
         else StockLevelRepo_AdjustReserved tx tn (mrq_warehouse req) (mrq_item req) delta (mrq_unit req))"

definition InventoryService_RecordMovement ::
  "ctx \<Rightarrow> uuid \<Rightarrow> principal \<Rightarrow> movement_request \<Rightarrow> (inv_db, inv_err, stock_movement \<times> stock_level) tx" where
  "InventoryService_RecordMovement c tn p req =
     tx_bind (tx_lift (validateMovement req)) (\<lambda>_.
     tx_map_err inv_wrapErr (InvTenantTx c tn (\<lambda>tx.
       tx_bind (WarehouseRepo_GetByID tx (mrq_warehouse req)) (\<lambda>wh.
       tx_bind (tx_lift (inv_requireBranch c p (wh_branch wh))) (\<lambda>_.
       tx_bind (StockMovementRepo_Create tx
         ((new_movement tn (mrq_warehouse req) (mrq_item req) (mrq_type req) (mrq_quantity req)
             (mrq_ref req) (mrq_ref_type req))
            \<lparr>mvt_notes := mrq_notes req, mvt_created_by := mrq_created_by req\<rparr>)) (\<lambda>mv.
       tx_bind (adjustLevel tx tn req) (\<lambda>lvl. tx_return (mv, lvl))))))))"

definition InventoryService_GetLevel :: "ctx \<Rightarrow> uuid \<Rightarrow> uuid \<Rightarrow> uuid \<Rightarrow> (inv_db, inv_err, stock_level) tx" where
  "InventoryService_GetLevel c tn w i =
     tx_map_err inv_wrapErr (InvTenantReadTx c tn (\<lambda>tx. StockLevelRepo_GetByStockItem tx w i))"

definition InventoryService_ListLevelsByWarehouse ::
  "ctx \<Rightarrow> uuid \<Rightarrow> uuid \<Rightarrow> (inv_db, inv_err, stock_level list) tx" where
  "InventoryService_ListLevelsByWarehouse c tn w =
     InvTenantReadTx c tn (\<lambda>tx. StockLevelRepo_ListByWarehouse tx w)"

definition InventoryService_ListMovementsByStockItem ::
  "ctx \<Rightarrow> uuid \<Rightarrow> uuid \<Rightarrow> uuid \<Rightarrow> int \<Rightarrow> (inv_db, inv_err, stock_movement list) tx" where
  "InventoryService_ListMovementsByStockItem c tn w i limit =
     InvTenantReadTx c tn (\<lambda>tx. StockMovementRepo_ListByStockItem tx w i limit)"

definition InventoryService_ListMovementsByWarehouse ::
  "ctx \<Rightarrow> uuid \<Rightarrow> uuid \<Rightarrow> int \<Rightarrow> (inv_db, inv_err, stock_movement list) tx" where
  "InventoryService_ListMovementsByWarehouse c tn w limit =
     InvTenantReadTx c tn (\<lambda>tx. StockMovementRepo_ListByWarehouse tx w limit)"

section \<open>Purchase receipts\<close>

record receipt_item_request =
  riq_item :: uuid
  riq_quantity :: float64
  riq_unit :: string
  riq_price :: float64
  riq_line_total :: float64
  riq_brand :: string

record receipt_request =
  rrq_warehouse :: uuid
  rrq_supplier :: "uuid option"
  rrq_supplier_name :: string
  rrq_no :: string
  rrq_date :: "time option"
  rrq_total :: float64
  rrq_currency :: string
  rrq_note :: string
  rrq_created_by :: "uuid option"
  rrq_items :: "receipt_item_request list"

record float_ops =
  fl_add :: "float64 \<Rightarrow> float64 \<Rightarrow> float64"
  fl_mul :: "float64 \<Rightarrow> float64 \<Rightarrow> float64"

definition lineTotalOf :: "float_ops \<Rightarrow> receipt_item_request \<Rightarrow> float64" where
  "lineTotalOf fl it =
     (if riq_line_total it \<noteq> 0 then riq_line_total it else fl_mul fl (riq_quantity it) (riq_price it))"

definition receipt_total :: "float_ops \<Rightarrow> receipt_request \<Rightarrow> float64" where
  "receipt_total fl req =
     (if rrq_total req = 0 then fold (\<lambda>it t. fl_add fl t (lineTotalOf fl it)) (rrq_items req) 0
      else rrq_total req)"

definition receipt_item_checks :: "receipt_item_request \<Rightarrow> (bool \<times> inv_err) list" where
  "receipt_item_checks it =
     [(riq_item it = uuid_Nil, InvValidation ''item stock_item_id is required''),
      (riq_quantity it \<le> 0, InvValidation ''item quantity must be positive''),
      (riq_unit it = '''', InvValidation ''item unit is required''),
      (riq_price it < 0, InvValidation ''item unit_price must not be negative''),
      (riq_line_total it < 0, InvValidation ''item line_total must not be negative'')]"

definition validateCreateReceipt :: "receipt_request \<Rightarrow> inv_err + unit" where
  "validateCreateReceipt req =
     first_failure
       ([(rrq_warehouse req = uuid_Nil, InvValidation ''warehouse_id is required''),
         (rrq_items req = [], InvValidation ''at least one item is required'')] @
        concat (map receipt_item_checks (rrq_items req)) @
        [(rrq_total req < 0, InvValidation ''total must not be negative'')])"

definition enforceSupplyPolicy ::
  "(supply_policy list \<Rightarrow> supply_policy list) \<Rightarrow> ctx \<Rightarrow> uuid \<Rightarrow> uuid \<Rightarrow> uuid option \<Rightarrow> uuid \<Rightarrow>
   (inv_db, inv_err, unit) tx" where
  "enforceSupplyPolicy arrange c tn branchID supplier stockItemID =
     tx_bind (EffectivePolicyFor arrange c tn stockItemID branchID) (\<lambda>(mode, approved).
     tx_require
       (case mode of
          SupplyExclusiveHQ \<Rightarrow> False
        | SupplyApprovedSuppliers \<Rightarrow> (case supplier of None \<Rightarrow> False | Some i \<Rightarrow> i \<in> set approved)
        | SupplyFree \<Rightarrow> True
        | SupplyOther _ \<Rightarrow> False) InvPolicyViolation)"

definition receiveItem ::
  "float_ops \<Rightarrow> pgtx \<Rightarrow> uuid \<Rightarrow> uuid \<Rightarrow> uuid \<Rightarrow> string \<Rightarrow> receipt_item_request \<Rightarrow>
   (inv_db, inv_err, purchase_receipt_item) tx" where
  "receiveItem fl tx tn receiptID w currency it =
     tx_bind inv_uuid (\<lambda>itemID.
     tx_bind (PurchaseReceiptItemRepo_Add tx
       \<lparr>rci_id = itemID, rci_tenant = tn, rci_receipt = receiptID, rci_item = riq_item it,
        rci_quantity = riq_quantity it, rci_unit = riq_unit it, rci_price = riq_price it,
        rci_line_total = lineTotalOf fl it, rci_brand = riq_brand it\<rparr>) (\<lambda>created.
     tx_bind (StockMovementRepo_Create tx
       (new_movement tn w (riq_item it) MovementIn (riq_quantity it) (Some receiptID) (Some ''purchase_receipt''))) (\<lambda>_.
     tx_bind (StockLevelRepo_AdjustOnHand tx tn w (riq_item it)
       (signedDelta MovementIn (riq_quantity it)) (riq_unit it)) (\<lambda>_.
     tx_bind (StockLevelRepo_SetLastCost tx tn w (riq_item it) (riq_price it) currency CostPurchaseReceipt) (\<lambda>_.
     tx_return created)))))"

definition PurchaseReceiptService_CreateReceipt ::
  "float_ops \<Rightarrow> (supply_policy list \<Rightarrow> supply_policy list) \<Rightarrow> ctx \<Rightarrow> uuid \<Rightarrow> principal \<Rightarrow> receipt_request \<Rightarrow>
   (inv_db, inv_err, purchase_receipt \<times> purchase_receipt_item list) tx" where
  "PurchaseReceiptService_CreateReceipt fl arrange c tn p req =
     tx_bind (tx_lift (validateCreateReceipt req)) (\<lambda>_.
     tx_bind inv_uuid (\<lambda>receiptID.
     let currency = (if rrq_currency req = '''' then ''TRY'' else rrq_currency req);
         receiptDate = (case rrq_date req of Some t \<Rightarrow> t | None \<Rightarrow> ctx_now c)
     in tx_map_err inv_wrapErr (InvTenantTx c tn (\<lambda>tx.
       tx_bind (WarehouseRepo_GetByID tx (rrq_warehouse req)) (\<lambda>wh.
       tx_bind (tx_lift (inv_requireBranch c p (wh_branch wh))) (\<lambda>_.
       tx_bind (tx_each (\<lambda>it. enforceSupplyPolicy arrange c tn (wh_branch wh) (rrq_supplier req) (riq_item it))
         (rrq_items req)) (\<lambda>_.
       tx_bind (PurchaseReceiptRepo_Create tx
         \<lparr>rct_id = receiptID, rct_tenant = tn, rct_warehouse = rrq_warehouse req,
          rct_supplier = rrq_supplier req, rct_supplier_name = rrq_supplier_name req, rct_no = rrq_no req,
          rct_date = receiptDate, rct_total = receipt_total fl req, rct_currency = currency,
          rct_note = rrq_note req, rct_created_by = rrq_created_by req, rct_created = 0\<rparr>) (\<lambda>receipt.
       tx_bind (tx_map (receiveItem fl tx tn (rct_id receipt) (rrq_warehouse req) currency) (rrq_items req)) (\<lambda>items.
       tx_return (receipt, items)))))))))) "

definition PurchaseReceiptService_Get :: "ctx \<Rightarrow> uuid \<Rightarrow> uuid \<Rightarrow> (inv_db, inv_err, purchase_receipt) tx" where
  "PurchaseReceiptService_Get c tn i =
     tx_map_err inv_wrapErr (InvTenantReadTx c tn (\<lambda>tx. PurchaseReceiptRepo_GetByID tx i))"

definition PurchaseReceiptService_ListItems ::
  "ctx \<Rightarrow> uuid \<Rightarrow> uuid \<Rightarrow> (inv_db, inv_err, purchase_receipt_item list) tx" where
  "PurchaseReceiptService_ListItems c tn i =
     InvTenantReadTx c tn (\<lambda>tx. PurchaseReceiptItemRepo_ListByReceipt tx i)"

definition PurchaseReceiptService_ListByWarehouse ::
  "ctx \<Rightarrow> uuid \<Rightarrow> uuid \<Rightarrow> (inv_db, inv_err, purchase_receipt list) tx" where
  "PurchaseReceiptService_ListByWarehouse c tn w =
     InvTenantReadTx c tn (\<lambda>tx. PurchaseReceiptRepo_ListByWarehouse tx w)"

end
