(* ===== verification/Inv_Shipping.thy ===== *)
theory Inv_Shipping
  imports Inv_Service
begin

text \<open>
  inventory/service, second part: branch transfer orders (transfer_order_service.go) and
  shipments (shipment_service.go). A transfer order is requested by one branch and
  approved and prepared by another; what physically moves is a shipment, whose
  transitions write the stock ledger and drive the order to shipped, received and closed.
\<close>

section \<open>Transfer orders\<close>

record transfer_item_request =
  tiq_item :: uuid
  tiq_qty :: float64
  tiq_unit :: string
  tiq_note :: string

record transfer_request =
  trq_requesting :: uuid
  trq_source :: uuid
  trq_priority :: priority
  trq_delivery :: "time option"
  trq_note :: string
  trq_created_by :: "uuid option"
  trq_items :: "transfer_item_request list"

definition default_priority :: "priority \<Rightarrow> priority" where
  "default_priority p = (if p = PriorityOther '''' then PriorityNormal else p)"

definition transfer_item_checks :: "transfer_item_request \<Rightarrow> (bool \<times> inv_err) list" where
  "transfer_item_checks it =
     [(tiq_item it = uuid_Nil, InvValidation ''item stock_item_id is required''),
      (tiq_qty it \<le> 0, InvValidation ''item requested_qty must be positive'')]"

definition validateCreateTransferOrder :: "transfer_request \<Rightarrow> inv_err + unit" where
  "validateCreateTransferOrder req =
     first_failure
       ([(trq_requesting req = uuid_Nil, InvValidation ''requesting_branch_id is required''),
         (trq_source req = uuid_Nil, InvValidation ''source_branch_id is required''),
         (trq_requesting req = trq_source req,
          InvValidation ''requesting_branch_id and source_branch_id must differ''),
         (\<not> Priority_Valid (trq_priority req), InvValidation ''invalid priority''),
         (trq_items req = [], InvValidation ''at least one item is required'')] @
        concat (map transfer_item_checks (trq_items req)))"

definition TransferOrderService_Create ::
  "ctx \<Rightarrow> uuid \<Rightarrow> transfer_request \<Rightarrow> (inv_db, inv_err, transfer_order \<times> transfer_order_item list) tx" where
  "TransferOrderService_Create c tn req0 =
     (let req = req0\<lparr>trq_priority := default_priority (trq_priority req0)\<rparr>
      in tx_bind (tx_lift (validateCreateTransferOrder req)) (\<lambda>_.
         InvTenantTx c tn (\<lambda>tx.
           tx_bind (TransferOrderRepo_Create tx
             \<lparr>bto_id = uuid_Nil, bto_tenant = tn, bto_requesting = trq_requesting req,
              bto_source = trq_source req, bto_status = BTODraft, bto_priority = trq_priority req,
              bto_delivery = trq_delivery req, bto_note = trq_note req,
              bto_created_by = trq_created_by req, bto_submitted = None, bto_approved = None,
              bto_approved_by = None, bto_created = 0, bto_updated = 0\<rparr>) (\<lambda>order.
           tx_bind (tx_map (\<lambda>it. TransferOrderItemRepo_Add tx
             \<lparr>bti_id = uuid_Nil, bti_tenant = tn, bti_order = bto_id order, bti_item = tiq_item it,
              bti_requested = tiq_qty it, bti_approved = None, bti_shipped = 0, bti_received = 0,
              bti_unit = tiq_unit it, bti_price = None, bti_currency = None, bti_note = tiq_note it\<rparr>)
             (trq_items req)) (\<lambda>items.
           tx_return (order, items))))))"

definition TransferOrderService_Get :: "ctx \<Rightarrow> uuid \<Rightarrow> uuid \<Rightarrow> (inv_db, inv_err, transfer_order) tx" where
  "TransferOrderService_Get c tn i =
     tx_map_err inv_wrapErr (InvTenantReadTx c tn (\<lambda>tx. TransferOrderRepo_GetByID tx i))"

definition TransferOrderService_ListItems ::
  "ctx \<Rightarrow> uuid \<Rightarrow> uuid \<Rightarrow> (inv_db, inv_err, transfer_order_item list) tx" where
  "TransferOrderService_ListItems c tn i =
     InvTenantReadTx c tn (\<lambda>tx. TransferOrderItemRepo_ListByTransferOrder tx i)"

definition TransferOrderService_ListByRequestingBranch ::
  "ctx \<Rightarrow> uuid \<Rightarrow> uuid \<Rightarrow> (inv_db, inv_err, transfer_order list) tx" where
  "TransferOrderService_ListByRequestingBranch c tn b =
     InvTenantReadTx c tn (\<lambda>tx. TransferOrderRepo_ListByRequestingBranch tx b)"

definition TransferOrderService_ListBySourceBranch ::
  "ctx \<Rightarrow> uuid \<Rightarrow> uuid \<Rightarrow> (inv_db, inv_err, transfer_order list) tx" where
  "TransferOrderService_ListBySourceBranch c tn b =
     InvTenantReadTx c tn (\<lambda>tx. TransferOrderRepo_ListBySourceBranch tx b)"

definition bto_transition ::
  "ctx \<Rightarrow> uuid \<Rightarrow> principal \<Rightarrow> uuid \<Rightarrow> bto_status \<Rightarrow> (transfer_order \<Rightarrow> uuid) \<Rightarrow> bool \<Rightarrow>
   (inv_db, inv_err, transfer_order) tx" where
  "bto_transition c tn p i to branchOf setSubmittedAt =
     tx_map_err inv_wrapErr (InvTenantTx c tn (\<lambda>tx.
       tx_bind (TransferOrderRepo_GetByID tx i) (\<lambda>order.
       tx_bind (tx_lift (inv_requireBranch c p (branchOf order))) (\<lambda>_.
       tx_bind (tx_map_err (\<lambda>_. InvTransition) (tx_lift (TransitionBTOStatus (bto_status order) to))) (\<lambda>_.
       TransferOrderRepo_UpdateStatus tx i to (if setSubmittedAt then Some (ctx_now c) else None) None None)))))"

definition TransferOrderService_Submit ::
  "ctx \<Rightarrow> uuid \<Rightarrow> principal \<Rightarrow> uuid \<Rightarrow> (inv_db, inv_err, transfer_order) tx" where
  "TransferOrderService_Submit c tn p i = bto_transition c tn p i BTOSubmitted bto_requesting True"

definition TransferOrderService_Reject ::
  "ctx \<Rightarrow> uuid \<Rightarrow> principal \<Rightarrow> uuid \<Rightarrow> (inv_db, inv_err, transfer_order) tx" where
  "TransferOrderService_Reject c tn p i = bto_transition c tn p i BTORejected bto_source False"

definition TransferOrderService_Fulfil ::
  "ctx \<Rightarrow> uuid \<Rightarrow> principal \<Rightarrow> uuid \<Rightarrow> (inv_db, inv_err, transfer_order) tx" where
  "TransferOrderService_Fulfil c tn p i = bto_transition c tn p i BTOFulfilling bto_source False"

record approval_item =
  apv_item :: uuid
  apv_qty :: float64
  apv_price :: "float64 option"
  apv_currency :: string

definition order_line_of :: "transfer_order_item list \<Rightarrow> uuid \<rightharpoonup> transfer_order_item" where
  "order_line_of items = fold (\<lambda>it m. m(bti_item it \<mapsto> it)) items Map.empty"

definition approve_item ::
  "pgtx \<Rightarrow> (uuid \<rightharpoonup> transfer_order_item) \<Rightarrow> approval_item \<Rightarrow> (inv_db, inv_err, unit) tx" where
  "approve_item tx lines a =
     (case lines (apv_item a) of
        None \<Rightarrow> tx_throw (InvValidation ''stock_item_id is not on this transfer order'')
      | Some item \<Rightarrow>
          tx_bind (TransferOrderItemRepo_SetApprovedQty tx (bti_id item) (apv_qty a)) (\<lambda>_.
          case apv_price a of
            None \<Rightarrow> tx_return ()
          | Some price \<Rightarrow>
              tx_bind (tx_require (\<not> price < 0) (InvValidation ''unit_price must not be negative'')) (\<lambda>_.
              TransferOrderItemRepo_SetUnitPrice tx (bti_id item) price
                (if apv_currency a = '''' then ''TRY'' else apv_currency a))))"

definition TransferOrderService_Approve ::
  "ctx \<Rightarrow> uuid \<Rightarrow> principal \<Rightarrow> uuid \<Rightarrow> uuid \<Rightarrow> approval_item list \<Rightarrow> (inv_db, inv_err, transfer_order) tx" where
  "TransferOrderService_Approve c tn p i approvedBy approvals =
     tx_map_err inv_wrapErr (InvTenantTx c tn (\<lambda>tx.
       tx_bind (TransferOrderRepo_GetByID tx i) (\<lambda>order.
       tx_bind (tx_lift (inv_requireBranch c p (bto_source order))) (\<lambda>_.
       tx_bind (tx_map_err (\<lambda>_. InvTransition) (tx_lift (TransitionBTOStatus (bto_status order) BTOApproved))) (\<lambda>_.
       tx_bind (TransferOrderItemRepo_ListByTransferOrder tx i) (\<lambda>items.
       tx_bind (tx_each (approve_item tx (order_line_of items)) approvals) (\<lambda>_.
       TransferOrderRepo_UpdateStatus tx i BTOApproved None (Some (ctx_now c)) (Some approvedBy))))))))"

definition TransferOrderService_Cancel ::
  "ctx \<Rightarrow> uuid \<Rightarrow> principal \<Rightarrow> uuid \<Rightarrow> (inv_db, inv_err, transfer_order) tx" where
  "TransferOrderService_Cancel c tn p i =
     tx_map_err inv_wrapErr (InvTenantTx c tn (\<lambda>tx.
       tx_bind (TransferOrderRepo_GetByID tx i) (\<lambda>order.
       tx_bind (tx_lift (inv_requireBranch c p
         (if bto_status order = BTOApproved then bto_source order else bto_requesting order))) (\<lambda>_.
       tx_bind (tx_map_err (\<lambda>_. InvTransition) (tx_lift (TransitionBTOStatus (bto_status order) BTOCancelled))) (\<lambda>_.
       TransferOrderRepo_UpdateStatus tx i BTOCancelled None None None)))))"

section \<open>Creating a shipment\<close>

record shipment_item_request =
  hiq_item :: uuid
  hiq_qty :: float64
  hiq_unit :: string
  hiq_price :: "float64 option"
  hiq_currency :: string

record shipment_request =
  hrq_from :: uuid
  hrq_to_branch :: uuid
  hrq_order :: "uuid option"
  hrq_priority :: priority
  hrq_note :: string
  hrq_created_by :: "uuid option"
  hrq_items :: "shipment_item_request list"

definition shipment_item_checks :: "shipment_item_request \<Rightarrow> (bool \<times> inv_err) list" where
  "shipment_item_checks it =
     [(hiq_item it = uuid_Nil, InvValidation ''item stock_item_id is required''),
      (hiq_qty it \<le> 0, InvValidation ''item requested_qty must be positive''),
      (case hiq_price it of None \<Rightarrow> False | Some x \<Rightarrow> x < 0,
       InvValidation ''item unit_price must not be negative'')]"

definition validateCreateShipment :: "shipment_request \<Rightarrow> inv_err + unit" where
  "validateCreateShipment req =
     first_failure
       ([(hrq_from req = uuid_Nil, InvValidation ''from_warehouse_id is required''),
         (hrq_to_branch req = uuid_Nil, InvValidation ''to_branch_id is required''),
         (\<not> Priority_Valid (hrq_priority req), InvValidation ''invalid priority''),
         (hrq_items req = [], InvValidation ''at least one item is required'')] @
        concat (map shipment_item_checks (hrq_items req)))"

text \<open>The price of a line: the caller's, or the one the order's line carries.\<close>

definition line_price ::
  "(uuid \<rightharpoonup> transfer_order_item) \<Rightarrow> shipment_item_request \<Rightarrow> float64 option \<times> string option" where
  "line_price lines it =
     (let (price, currency) =
        (case hiq_price it of
           Some x \<Rightarrow> (Some x, hiq_currency it)
         | None \<Rightarrow>
             (case lines (hiq_item it) of
                None \<Rightarrow> (None, hiq_currency it)
              | Some l \<Rightarrow>
                  (case bti_price l of
                     None \<Rightarrow> (None, hiq_currency it)
                   | Some x \<Rightarrow>
                       (Some x, case bti_currency l of None \<Rightarrow> hiq_currency it | Some cur \<Rightarrow> cur))))
      in (price, case price of None \<Rightarrow> None
                 | Some _ \<Rightarrow> Some (if currency = '''' then ''TRY'' else currency)))"

definition ShipmentService_Create ::
  "ctx \<Rightarrow> uuid \<Rightarrow> principal \<Rightarrow> shipment_request \<Rightarrow> (inv_db, inv_err, shipment \<times> shipment_item list) tx" where
  "ShipmentService_Create c tn p req0 =
     (let req = req0\<lparr>hrq_priority := default_priority (hrq_priority req0)\<rparr>
      in tx_bind (tx_lift (validateCreateShipment req)) (\<lambda>_.
         tx_map_err inv_wrapErr (InvTenantTx c tn (\<lambda>tx.
           tx_bind (WarehouseRepo_GetByID tx (hrq_from req)) (\<lambda>fromWH.
           tx_bind (tx_lift (inv_requireBranch c p (wh_branch fromWH))) (\<lambda>_.
           tx_bind (ShipmentRepo_Create tx
             \<lparr>shp_id = uuid_Nil, shp_tenant = tn, shp_from = hrq_from req,
              shp_to_branch = hrq_to_branch req, shp_order = hrq_order req, shp_status = ShipmentDraft,
              shp_priority = hrq_priority req, shp_note = hrq_note req,
              shp_created_by = hrq_created_by req, shp_shipped = None, shp_received = None,
              shp_created = 0, shp_updated = 0\<rparr>) (\<lambda>sh.
           tx_bind (case hrq_order req of
               None \<Rightarrow> tx_return Map.empty
             | Some k \<Rightarrow>
                 tx_bind (TransferOrderItemRepo_ListByTransferOrder tx k) (\<lambda>items.
                 tx_return (order_line_of items))) (\<lambda>lines.
           tx_bind (tx_map (\<lambda>it. ShipmentItemRepo_Add tx
             \<lparr>shi_shipment = shp_id sh, shi_tenant = tn, shi_item = hiq_item it,
              shi_requested = hiq_qty it, shi_shipped = 0, shi_received = 0, shi_unit = hiq_unit it,
              shi_price = fst (line_price lines it), shi_currency = snd (line_price lines it)\<rparr>)
             (hrq_items req)) (\<lambda>items.
           tx_return (sh, items))))))))))"

definition ShipmentService_Get :: "ctx \<Rightarrow> uuid \<Rightarrow> uuid \<Rightarrow> (inv_db, inv_err, shipment) tx" where
  "ShipmentService_Get c tn i =
     tx_map_err inv_wrapErr (InvTenantReadTx c tn (\<lambda>tx. ShipmentRepo_GetByID tx i))"

definition ShipmentService_ListItems :: "ctx \<Rightarrow> uuid \<Rightarrow> uuid \<Rightarrow> (inv_db, inv_err, shipment_item list) tx" where
  "ShipmentService_ListItems c tn i = InvTenantReadTx c tn (\<lambda>tx. ShipmentItemRepo_ListByShipment tx i)"

definition ShipmentService_ListByWarehouse :: "ctx \<Rightarrow> uuid \<Rightarrow> uuid \<Rightarrow> (inv_db, inv_err, shipment list) tx" where
  "ShipmentService_ListByWarehouse c tn w = InvTenantReadTx c tn (\<lambda>tx. ShipmentRepo_ListByWarehouse tx w)"

section \<open>Moving a shipment\<close>

definition requireFromWarehouseBranch :: "ctx \<Rightarrow> pgtx \<Rightarrow> principal \<Rightarrow> shipment \<Rightarrow> (inv_db, inv_err, unit) tx" where
  "requireFromWarehouseBranch c tx p sh =
     tx_bind (WarehouseRepo_GetByID tx (shp_from sh)) (\<lambda>wh. tx_lift (inv_requireBranch c p (wh_branch wh)))"

definition check_shipment_transition :: "shipment \<Rightarrow> shipment_status \<Rightarrow> (inv_db, inv_err, unit) tx" where
  "check_shipment_transition sh to =
     tx_map_err (\<lambda>_. InvTransition) (tx_lift (TransitionShipmentStatus (shp_status sh) to))"

definition transitionLinkedBTO :: "pgtx \<Rightarrow> uuid \<Rightarrow> bto_status \<Rightarrow> (inv_db, inv_err, unit) tx" where
  "transitionLinkedBTO tx k to =
     tx_bind (TransferOrderRepo_GetByID tx k) (\<lambda>order.
     if bto_status order = to then tx_return ()
     else tx_bind (tx_map_err (\<lambda>_. InvTransition) (tx_lift (TransitionBTOStatus (bto_status order) to))) (\<lambda>_.
       tx_bind (TransferOrderRepo_UpdateStatus tx k to None None None) (\<lambda>_. tx_return ())))"

definition ShipmentService_Approve ::
  "ctx \<Rightarrow> uuid \<Rightarrow> principal \<Rightarrow> uuid \<Rightarrow> (inv_db, inv_err, shipment) tx" where
  "ShipmentService_Approve c tn p i =
     tx_map_err inv_wrapErr (InvTenantTx c tn (\<lambda>tx.
       tx_bind (ShipmentRepo_GetByID tx i) (\<lambda>sh.
       tx_bind (requireFromWarehouseBranch c tx p sh) (\<lambda>_.
       tx_bind (check_shipment_transition sh ShipmentApproved) (\<lambda>_.
       ShipmentRepo_UpdateStatus tx i ShipmentApproved None None)))))"

text \<open>\<open>level\<close> is the zero value when there is no row.\<close>

definition source_on_hand :: "pgtx \<Rightarrow> uuid \<Rightarrow> uuid \<Rightarrow> (inv_db, inv_err, float64) tx" where
  "source_on_hand tx w i s =
     (case StockLevelRepo_GetByStockItem tx w i s of
        Inr (l, s') \<Rightarrow> Inr (lvl_on_hand l, s')
      | Inl e \<Rightarrow> (if e = InvRepoNotFound then Inr (0, s) else Inl e))"

text \<open>
  The level is read without \<open>FOR UPDATE\<close>: what other transactions commit between this read and
  the writes that follow, while the loop is at a line, is the parameter \<open>others\<close>. It is
  \<open>quiet\<close> when nothing else commits meanwhile.
\<close>

definition quiet :: "shipment_item \<Rightarrow> inv_db \<Rightarrow> inv_db" where
  "quiet = (\<lambda>_. id)"

definition ship_item ::
  "(shipment_item \<Rightarrow> inv_db \<Rightarrow> inv_db) \<Rightarrow> pgtx \<Rightarrow> uuid \<Rightarrow> shipment \<Rightarrow> shipment_item \<Rightarrow>
   (inv_db, inv_err, unit) tx" where
  "ship_item others tx tn sh item =
     (let qty = shi_requested item
      in tx_bind (source_on_hand tx (shp_from sh) (shi_item item)) (\<lambda>onHand.
         tx_bind (tx_require (\<not> onHand < qty) (InvValidation ''insufficient stock for item in source warehouse'')) (\<lambda>_.
         tx_bind (tx_write (others item)) (\<lambda>_.
         tx_bind (StockMovementRepo_Create tx
           (new_movement tn (shp_from sh) (shi_item item) MovementOut qty (Some (shp_id sh)) (Some ''shipment''))) (\<lambda>_.
         tx_bind (StockLevelRepo_AdjustOnHand tx tn (shp_from sh) (shi_item item)
           (signedDelta MovementOut qty) (shi_unit item)) (\<lambda>_.
         tx_bind (ShipmentItemRepo_SetShippedQty tx (shp_id sh) (shi_item item) qty) (\<lambda>_.
         case shp_order sh of
           None \<Rightarrow> tx_return ()
         | Some k \<Rightarrow> TransferOrderItemRepo_AddShippedQty tx k (shi_item item) qty)))))))"

lemma ship_item_alone:
  "ship_item quiet tx tn sh item =
     (let qty = shi_requested item
      in tx_bind (source_on_hand tx (shp_from sh) (shi_item item)) (\<lambda>onHand.
         tx_bind (tx_require (\<not> onHand < qty) (InvValidation ''insufficient stock for item in source warehouse'')) (\<lambda>_.
         tx_bind (StockMovementRepo_Create tx
           (new_movement tn (shp_from sh) (shi_item item) MovementOut qty (Some (shp_id sh)) (Some ''shipment''))) (\<lambda>_.
         tx_bind (StockLevelRepo_AdjustOnHand tx tn (shp_from sh) (shi_item item)
           (signedDelta MovementOut qty) (shi_unit item)) (\<lambda>_.
         tx_bind (ShipmentItemRepo_SetShippedQty tx (shp_id sh) (shi_item item) qty) (\<lambda>_.
         case shp_order sh of
           None \<Rightarrow> tx_return ()
         | Some k \<Rightarrow> TransferOrderItemRepo_AddShippedQty tx k (shi_item item) qty))))))"
  by (simp add: ship_item_def quiet_def tx_write_id)

definition advanceTx ::
  "(shipment_item \<Rightarrow> inv_db \<Rightarrow> inv_db) \<Rightarrow> ctx \<Rightarrow> uuid \<Rightarrow> principal \<Rightarrow> uuid \<Rightarrow> pgtx \<Rightarrow> (inv_db, inv_err, shipment) tx" where
  "advanceTx others c tn p i tx =
     tx_bind (ShipmentRepo_GetByID tx i) (\<lambda>sh.
     tx_bind (requireFromWarehouseBranch c tx p sh) (\<lambda>_.
     tx_bind (check_shipment_transition sh ShipmentInTransit) (\<lambda>_.
     tx_bind (ShipmentItemRepo_ListByShipment tx i) (\<lambda>items.
     tx_bind (tx_each (ship_item others tx tn sh) items) (\<lambda>_.
     tx_bind (ShipmentRepo_UpdateStatus tx i ShipmentInTransit (Some (ctx_now c)) None) (\<lambda>updated.
     tx_bind (case shp_order sh of None \<Rightarrow> tx_return () | Some k \<Rightarrow> transitionLinkedBTO tx k BTOShipped) (\<lambda>_.
     tx_return updated)))))))"

definition ShipmentService_Advance ::
  "(shipment_item \<Rightarrow> inv_db \<Rightarrow> inv_db) \<Rightarrow> ctx \<Rightarrow> uuid \<Rightarrow> principal \<Rightarrow> uuid \<Rightarrow> (inv_db, inv_err, shipment) tx" where
  "ShipmentService_Advance others c tn p i = tx_map_err inv_wrapErr (InvTenantTx c tn (advanceTx others c tn p i))"

definition receive_item :: "pgtx \<Rightarrow> uuid \<Rightarrow> shipment \<Rightarrow> uuid \<Rightarrow> shipment_item \<Rightarrow> (inv_db, inv_err, unit) tx" where
  "receive_item tx tn sh w item =
     (let qty = shi_shipped item
      in if qty \<le> 0 then tx_return ()
         else
           tx_bind (StockMovementRepo_Create tx
             (new_movement tn w (shi_item item) MovementIn qty (Some (shp_id sh)) (Some ''shipment''))) (\<lambda>_.
           tx_bind (StockLevelRepo_AdjustOnHand tx tn w (shi_item item)
             (signedDelta MovementIn qty) (shi_unit item)) (\<lambda>_.
           tx_bind (case shi_price item of
               None \<Rightarrow> tx_return ()
             | Some price \<Rightarrow>
                 StockLevelRepo_SetLastCost tx tn w (shi_item item) price
                   (case shi_currency item of None \<Rightarrow> ''TRY'' | Some cur \<Rightarrow> if cur = '''' then ''TRY'' else cur)
                   CostTransfer) (\<lambda>_.
           tx_bind (ShipmentItemRepo_SetReceivedQty tx (shp_id sh) (shi_item item) qty) (\<lambda>_.
           case shp_order sh of
             None \<Rightarrow> tx_return ()
           | Some k \<Rightarrow> TransferOrderItemRepo_AddReceivedQty tx k (shi_item item) qty)))))"

definition closeLinkedBTO :: "pgtx \<Rightarrow> uuid \<Rightarrow> (inv_db, inv_err, unit) tx" where
  "closeLinkedBTO tx k =
     tx_bind (TransferOrderItemRepo_AllReceived tx k) (\<lambda>allReceived.
     if allReceived
     then tx_bind (transitionLinkedBTO tx k BTOReceived) (\<lambda>_. transitionLinkedBTO tx k BTOClosed)
     else tx_return ())"

text \<open>
  Nor is the shipment locked: \<open>others\<close> is here what other transactions commit between the reads
  of the shipment and its lines and the first write.
\<close>

definition receiveTx ::
  "(inv_db \<Rightarrow> inv_db) \<Rightarrow> ctx \<Rightarrow> uuid \<Rightarrow> principal \<Rightarrow> uuid \<Rightarrow> uuid \<Rightarrow> pgtx \<Rightarrow> (inv_db, inv_err, shipment) tx" where
  "receiveTx others c tn p i toWarehouseID tx =
     tx_bind (ShipmentRepo_GetByID tx i) (\<lambda>sh.
     tx_bind (WarehouseRepo_GetByID tx toWarehouseID) (\<lambda>toWH.
     tx_bind (tx_lift (inv_requireBranch c p (wh_branch toWH))) (\<lambda>_.
     tx_bind (check_shipment_transition sh ShipmentReceived) (\<lambda>_.
     tx_bind (ShipmentItemRepo_ListByShipment tx i) (\<lambda>items.
     tx_bind (tx_write others) (\<lambda>_.
     tx_bind (tx_each (receive_item tx tn sh toWarehouseID) items) (\<lambda>_.
     tx_bind (ShipmentRepo_UpdateStatus tx i ShipmentReceived None (Some (ctx_now c))) (\<lambda>updated.
     tx_bind (case shp_order sh of None \<Rightarrow> tx_return () | Some k \<Rightarrow> closeLinkedBTO tx k) (\<lambda>_.
     tx_return updated)))))))))"

lemma receiveTx_alone:
  "receiveTx id c tn p i toWarehouseID tx =
     tx_bind (ShipmentRepo_GetByID tx i) (\<lambda>sh.
     tx_bind (WarehouseRepo_GetByID tx toWarehouseID) (\<lambda>toWH.
     tx_bind (tx_lift (inv_requireBranch c p (wh_branch toWH))) (\<lambda>_.
     tx_bind (check_shipment_transition sh ShipmentReceived) (\<lambda>_.
     tx_bind (ShipmentItemRepo_ListByShipment tx i) (\<lambda>items.
     tx_bind (tx_each (receive_item tx tn sh toWarehouseID) items) (\<lambda>_.
     tx_bind (ShipmentRepo_UpdateStatus tx i ShipmentReceived None (Some (ctx_now c))) (\<lambda>updated.
     tx_bind (case shp_order sh of None \<Rightarrow> tx_return () | Some k \<Rightarrow> closeLinkedBTO tx k) (\<lambda>_.
     tx_return updated))))))))"
  by (simp add: receiveTx_def tx_write_id)

definition ShipmentService_Receive ::
  "(inv_db \<Rightarrow> inv_db) \<Rightarrow> ctx \<Rightarrow> uuid \<Rightarrow> principal \<Rightarrow> uuid \<Rightarrow> uuid \<Rightarrow> (inv_db, inv_err, shipment) tx" where
  "ShipmentService_Receive others c tn p i toWarehouseID =
     tx_bind (tx_require (toWarehouseID \<noteq> uuid_Nil) (InvValidation ''to_warehouse_id is required'')) (\<lambda>_.
     tx_map_err inv_wrapErr (InvTenantTx c tn (receiveTx others c tn p i toWarehouseID)))"

definition ShipmentService_Cancel ::
  "ctx \<Rightarrow> uuid \<Rightarrow> principal \<Rightarrow> uuid \<Rightarrow> (inv_db, inv_err, shipment) tx" where
  "ShipmentService_Cancel c tn p i =
     tx_map_err inv_wrapErr (InvTenantTx c tn (\<lambda>tx.
       tx_bind (ShipmentRepo_GetByID tx i) (\<lambda>sh.
       tx_bind (requireFromWarehouseBranch c tx p sh) (\<lambda>_.
       tx_bind (check_shipment_transition sh ShipmentCancelled) (\<lambda>_.
       ShipmentRepo_UpdateStatus tx i ShipmentCancelled None None)))))"

end
