(* ===== verification/Inv_Facts.thy ===== *)
theory Inv_Facts
  imports Inv_Shipping
begin

text \<open>
  What the writes of the inventory module keep: the constraints of the stock, shipment
  and order tables. The services inherit it from the repositories by the rules of
  \<open>tx_stable\<close>.
\<close>

named_theorems inv_intro \<open>operations that keep the constraints of the inventory tables\<close>

section \<open>The constraints of one table\<close>

definition table_local_ok :: "('s, 'r) sql_table \<Rightarrow> 's \<Rightarrow> bool" where
  "table_local_ok T s \<longleftrightarrow>
     distinct (map (tb_key T) (tb_get T s)) \<and> (\<forall>r \<in> set (tb_get T s). tb_row_ok T r) \<and> tb_uniq T (tb_get T s)"

context sql_table_laws begin

lemma insert_local:
  "sql_insert T tx r s = Inr (r', s') \<Longrightarrow> table_local_ok T s \<Longrightarrow> table_local_ok T s'"
  by (auto simp: insert_Inr table_local_ok_def)

lemma update_local:
  assumes upd: "sql_update T tx P f s = Inr (rs, s')" and ok: "table_local_ok T s"
    and key: "\<And>r. tb_key T (f r) = tb_key T r"
  shows "table_local_ok T s'"
proof -
  have "tb_row_ok T r" if r: "r \<in> set (rls_update (tb_tenant T) tx P f (tb_get T s))" for r
  proof -
    from r obtain r0 where "r0 \<in> set (tb_get T s)"
      and "r = (if tb_tenant T r0 = tx_tenant tx \<and> P r0 then f r0 else r0)"
      by (auto simp: in_rls_update)
    then show ?thesis
      using ok upd by (auto simp: table_local_ok_def update_Inr list_all_iff split: if_splits)
  qed
  with upd ok key show ?thesis by (auto simp: table_local_ok_def update_Inr map_rls_update)
qed

end

section \<open>The schema\<close>

definition inv_links :: "inv_db \<Rightarrow> bool" where
  "inv_links s \<longleftrightarrow>
     (\<forall>r \<in> set (ivd_shipment_items s). shi_shipment r \<in> shp_id ` set (ivd_shipments s)) \<and>
     (\<forall>sh \<in> set (ivd_shipments s). \<forall>k \<in> set_option (shp_order sh). k \<in> bto_id ` set (ivd_orders s)) \<and>
     (\<forall>b \<in> set (ivd_order_items s). bti_order b \<in> bto_id ` set (ivd_orders s))"

definition inv_schema :: "inv_db \<Rightarrow> bool" where
  "inv_schema s \<longleftrightarrow>
     table_local_ok stock_levels_table s \<and> table_local_ok stock_movements_table s \<and>
     table_local_ok shipments_table s \<and> table_local_ok shipment_items_table s \<and>
     table_local_ok transfer_orders_table s \<and> table_local_ok transfer_order_items_table s \<and> inv_links s"

abbreviation keeps_schema :: "(inv_db, 'e, 'a) tx \<Rightarrow> bool" where
  "keeps_schema \<equiv> tx_on inv_schema (\<lambda>_ s'. inv_schema s')"

interpretation schema_kept: tx_stable inv_schema .

lemma table_local_ok_cong: "tb_get T s' = tb_get T s \<Longrightarrow> table_local_ok T s' \<longleftrightarrow> table_local_ok T s"
  by (simp add: table_local_ok_def)

lemma inv_schema_cong:
  "ivd_levels s' = ivd_levels s \<Longrightarrow> ivd_moves s' = ivd_moves s \<Longrightarrow> ivd_shipments s' = ivd_shipments s \<Longrightarrow>
   ivd_shipment_items s' = ivd_shipment_items s \<Longrightarrow> ivd_orders s' = ivd_orders s \<Longrightarrow>
   ivd_order_items s' = ivd_order_items s \<Longrightarrow> inv_schema s' = inv_schema s"
  by (simp add: inv_schema_def inv_links_def table_local_ok_def)

lemma inv_uuid_keeps [inv_intro]: "keeps_schema inv_uuid"
  by (rule tx_onI, erule inv_schema_cong [THEN iffD2, rotated -1]) (simp_all add: inv_uuid_Inr)

text \<open>A table that is not among the six changes nothing of it.\<close>

lemma other_tables_keep [inv_intro]:
  "keeps_schema (sql_insert warehouses_table tx w)"
  "keeps_schema (sql_update warehouses_table tx P f)"
  "keeps_schema (sql_insert stock_items_table tx i)"
  "keeps_schema (sql_update stock_items_table tx P' f')"
  "keeps_schema (sql_insert supply_policies_table tx p)"
  "keeps_schema (sql_insert purchase_receipts_table tx rc)"
  "keeps_schema (sql_insert purchase_receipt_items_table tx ri)"
  by (rule tx_onI, erule inv_schema_cong [THEN iffD2, rotated -1];
      simp add: warehouses.insert_Inr warehouses.update_Inr stock_items.insert_Inr
        stock_items.update_Inr supply_policies.insert_Inr purchase_receipts.insert_Inr
        purchase_receipt_items.insert_Inr)+

lemma levels_keep [inv_intro]:
  "keeps_schema (sql_insert stock_levels_table tx l)"
  "(\<And>r. lvl_id (f r) = lvl_id r) \<Longrightarrow> keeps_schema (sql_update stock_levels_table tx P f)"
proof -
  have rest: "inv_schema s \<Longrightarrow> table_local_ok stock_levels_table s' \<Longrightarrow>
      s' = s\<lparr>ivd_levels := ls\<rparr> \<Longrightarrow> inv_schema s'" for s s' ls
    by (simp add: inv_schema_def inv_links_def table_local_ok_def)
  show "keeps_schema (sql_insert stock_levels_table tx l)"
    by (rule tx_onI, rule rest, assumption, erule stock_levels.insert_local)
       (auto simp: inv_schema_def stock_levels.insert_Inr)
  assume key: "\<And>r. lvl_id (f r) = lvl_id r"
  show "keeps_schema (sql_update stock_levels_table tx P f)"
    by (rule tx_onI, rule rest, assumption, erule stock_levels.update_local)
       (auto simp: inv_schema_def stock_levels.update_Inr key)
qed

lemma movements_keep [inv_intro]: "keeps_schema (sql_insert stock_movements_table tx m)"
proof -
  have rest: "inv_schema s \<Longrightarrow> table_local_ok stock_movements_table s' \<Longrightarrow>
      s' = s\<lparr>ivd_moves := ms\<rparr> \<Longrightarrow> inv_schema s'" for s s' ms
    by (simp add: inv_schema_def inv_links_def table_local_ok_def)
  show ?thesis
    by (rule tx_onI, rule rest, assumption, erule stock_movements.insert_local)
       (auto simp: inv_schema_def stock_movements.insert_Inr)
qed

lemma shipments_keep [inv_intro]:
  "keeps_schema (sql_insert shipments_table tx sh)"
  "(\<And>r. shp_id (f r) = shp_id r) \<Longrightarrow> (\<And>r. shp_order (f r) = shp_order r) \<Longrightarrow>
     keeps_schema (sql_update shipments_table tx P f)"
proof -
  have rest: "inv_schema s \<Longrightarrow> table_local_ok shipments_table s' \<Longrightarrow>
      s' = s\<lparr>ivd_shipments := ss\<rparr> \<Longrightarrow> inv_links s' \<Longrightarrow> inv_schema s'" for s s' ss
    by (simp add: inv_schema_def table_local_ok_def)
  show "keeps_schema (sql_insert shipments_table tx sh)"
    by (rule tx_onI, rule rest, assumption, erule shipments.insert_local)
       (auto simp: inv_schema_def shipments.insert_Inr inv_links_def shipments_refs_def)
  assume key: "\<And>r. shp_id (f r) = shp_id r" and order: "\<And>r. shp_order (f r) = shp_order r"
  have links: "inv_links (s\<lparr>ivd_shipments := rls_update shp_tenant tx P f (ivd_shipments s)\<rparr>)"
    if "inv_links s" for s
  proof -
    let ?rows = "rls_update shp_tenant tx P f (ivd_shipments s)"
    have "set (map shp_id ?rows) = set (map shp_id (ivd_shipments s))"
      and "set (map shp_order ?rows) = set (map shp_order (ivd_shipments s))"
      by (simp_all add: map_rls_update key order del: set_map)
    then have ids: "shp_id ` set ?rows = shp_id ` set (ivd_shipments s)"
      and orders: "shp_order ` set ?rows = shp_order ` set (ivd_shipments s)" by simp_all
    have "\<forall>x \<in> shp_order ` set ?rows. \<forall>k \<in> set_option x. k \<in> bto_id ` set (ivd_orders s)"
      unfolding orders using that by (auto simp: inv_links_def)
    with ids that show ?thesis by (simp add: inv_links_def)
  qed
  show "keeps_schema (sql_update shipments_table tx P f)"
  proof (rule tx_onI)
    fix s rs s'
    assume ok: "inv_schema s" and u: "sql_update shipments_table tx P f s = Inr (rs, s')"
    then have "table_local_ok shipments_table s'"
      by (intro shipments.update_local [OF u]) (simp_all add: inv_schema_def key)
    moreover have "s' = s\<lparr>ivd_shipments := rls_update shp_tenant tx P f (ivd_shipments s)\<rparr>" using u by (simp add: shipments.update_Inr)
    ultimately show "inv_schema s'" using rest [OF ok] links ok by (simp add: inv_schema_def)
  qed
qed

lemma shipment_items_keep [inv_intro]:
  "keeps_schema (sql_insert shipment_items_table tx r)"
  "(\<And>r. shi_shipment (f r) = shi_shipment r) \<Longrightarrow> (\<And>r. shi_item (f r) = shi_item r) \<Longrightarrow>
     keeps_schema (sql_update shipment_items_table tx P f)"
proof -
  have rest: "inv_schema s \<Longrightarrow> table_local_ok shipment_items_table s' \<Longrightarrow>
      s' = s\<lparr>ivd_shipment_items := rs\<rparr> \<Longrightarrow> inv_links s' \<Longrightarrow> inv_schema s'" for s s' rs
    by (simp add: inv_schema_def table_local_ok_def)
  show "keeps_schema (sql_insert shipment_items_table tx r)"
    by (rule tx_onI, rule rest, assumption, erule shipment_items.insert_local)
       (auto simp: inv_schema_def shipment_items.insert_Inr inv_links_def shipment_items_refs_def)
  assume sh: "\<And>r. shi_shipment (f r) = shi_shipment r" and it: "\<And>r. shi_item (f r) = shi_item r"
  have links: "inv_links s \<Longrightarrow> inv_links (s\<lparr>ivd_shipment_items := rls_update shi_tenant tx P f (ivd_shipment_items s)\<rparr>)" for s
    by (auto simp: inv_links_def in_rls_update sh)
  show "keeps_schema (sql_update shipment_items_table tx P f)"
  proof (rule tx_onI)
    fix s rs s'
    assume ok: "inv_schema s" and u: "sql_update shipment_items_table tx P f s = Inr (rs, s')"
    then have "table_local_ok shipment_items_table s'"
      by (intro shipment_items.update_local [OF u]) (simp_all add: inv_schema_def shi_key_def sh it)
    moreover have "s' = s\<lparr>ivd_shipment_items := rls_update shi_tenant tx P f (ivd_shipment_items s)\<rparr>" using u by (simp add: shipment_items.update_Inr)
    ultimately show "inv_schema s'" using rest [OF ok] links ok by (simp add: inv_schema_def)
  qed
qed

lemma orders_keep [inv_intro]:
  "keeps_schema (sql_insert transfer_orders_table tx o')"
  "(\<And>r. bto_id (f r) = bto_id r) \<Longrightarrow> keeps_schema (sql_update transfer_orders_table tx P f)"
proof -
  have rest: "inv_schema s \<Longrightarrow> table_local_ok transfer_orders_table s' \<Longrightarrow>
      s' = s\<lparr>ivd_orders := os\<rparr> \<Longrightarrow> inv_links s' \<Longrightarrow> inv_schema s'" for s s' os
    by (simp add: inv_schema_def table_local_ok_def)
  show "keeps_schema (sql_insert transfer_orders_table tx o')"
    by (rule tx_onI, rule rest, assumption, erule transfer_orders.insert_local)
       (auto simp: inv_schema_def transfer_orders.insert_Inr inv_links_def)
  assume key: "\<And>r. bto_id (f r) = bto_id r"
  have links: "inv_links s \<Longrightarrow> inv_links (s\<lparr>ivd_orders := rls_update bto_tenant tx P f (ivd_orders s)\<rparr>)" for s
  proof -
    have "set (map bto_id (rls_update bto_tenant tx P f (ivd_orders s))) = set (map bto_id (ivd_orders s))"
      by (simp add: map_rls_update key del: set_map)
    then show "inv_links s \<Longrightarrow> ?thesis" by (simp add: inv_links_def)
  qed
  show "keeps_schema (sql_update transfer_orders_table tx P f)"
  proof (rule tx_onI)
    fix s rs s'
    assume ok: "inv_schema s" and u: "sql_update transfer_orders_table tx P f s = Inr (rs, s')"
    then have "table_local_ok transfer_orders_table s'"
      by (intro transfer_orders.update_local [OF u]) (simp_all add: inv_schema_def key)
    moreover have "s' = s\<lparr>ivd_orders := rls_update bto_tenant tx P f (ivd_orders s)\<rparr>" using u by (simp add: transfer_orders.update_Inr)
    ultimately show "inv_schema s'" using rest [OF ok] links ok by (simp add: inv_schema_def)
  qed
qed

lemma order_items_keep [inv_intro]:
  "keeps_schema (sql_insert transfer_order_items_table tx b)"
  "(\<And>r. bti_id (f r) = bti_id r) \<Longrightarrow> (\<And>r. bti_order (f r) = bti_order r) \<Longrightarrow>
     keeps_schema (sql_update transfer_order_items_table tx P f)"
proof -
  have rest: "inv_schema s \<Longrightarrow> table_local_ok transfer_order_items_table s' \<Longrightarrow>
      s' = s\<lparr>ivd_order_items := bs\<rparr> \<Longrightarrow> inv_links s' \<Longrightarrow> inv_schema s'" for s s' bs
    by (simp add: inv_schema_def table_local_ok_def)
  show "keeps_schema (sql_insert transfer_order_items_table tx b)"
    by (rule tx_onI, rule rest, assumption, erule transfer_order_items.insert_local)
       (auto simp: inv_schema_def transfer_order_items.insert_Inr inv_links_def transfer_order_items_refs_def)
  assume key: "\<And>r. bti_id (f r) = bti_id r" and order: "\<And>r. bti_order (f r) = bti_order r"
  have links: "inv_links s \<Longrightarrow> inv_links (s\<lparr>ivd_order_items := rls_update bti_tenant tx P f (ivd_order_items s)\<rparr>)" for s
    by (auto simp: inv_links_def in_rls_update order)
  show "keeps_schema (sql_update transfer_order_items_table tx P f)"
  proof (rule tx_onI)
    fix s rs s'
    assume ok: "inv_schema s" and u: "sql_update transfer_order_items_table tx P f s = Inr (rs, s')"
    then have "table_local_ok transfer_order_items_table s'"
      by (intro transfer_order_items.update_local [OF u]) (simp_all add: inv_schema_def key)
    moreover have "s' = s\<lparr>ivd_order_items := rls_update bti_tenant tx P f (ivd_order_items s)\<rparr>" using u by (simp add: transfer_order_items.update_Inr)
    ultimately show "inv_schema s'" using rest [OF ok] links ok by (simp add: inv_schema_def)
  qed
qed

section \<open>Repositories\<close>

lemma query_row_keeps [inv_intro]: "keeps_schema (query_row e rows)"
  by (rule tx_onI) (simp add: query_row_Inr)

lemma found_row_keeps [inv_intro]: "keeps_schema (found_row e r)"
  by (rule tx_onI) (simp add: found_row_Inr)

lemma select_keeps [inv_intro]: "keeps_schema (sql_select T tx P)" "keeps_schema (sql_find T tx P)"
  by (rule tx_onI; simp)+

lemma repo_reads_keep [inv_intro]:
  "keeps_schema (WarehouseRepo_GetByID tx i)"
  "keeps_schema (StockItemRepo_GetByID tx i)"
  "keeps_schema (SupplyPolicyRepo_ListCandidates arrange tx i)"
  "keeps_schema (ShipmentRepo_GetByID tx i)"
  "keeps_schema (ShipmentItemRepo_ListByShipment tx i)"
  "keeps_schema (TransferOrderRepo_GetByID tx i)"
  "keeps_schema (TransferOrderItemRepo_ListByTransferOrder tx i)"
  "keeps_schema (TransferOrderItemRepo_AllReceived tx i)"
  unfolding WarehouseRepo_GetByID_def StockItemRepo_GetByID_def SupplyPolicyRepo_ListCandidates_def
    ShipmentRepo_GetByID_def ShipmentItemRepo_ListByShipment_def TransferOrderRepo_GetByID_def
    TransferOrderItemRepo_ListByTransferOrder_def TransferOrderItemRepo_AllReceived_def
  by (intro schema_kept.within_rules inv_intro)+

lemma repo_writes_keep [inv_intro]:
  "keeps_schema (WarehouseRepo_Create tx w)"
  "keeps_schema (WarehouseRepo_Update tx w)"
  "keeps_schema (WarehouseRepo_Delete tx i)"
  "keeps_schema (StockItemRepo_Create tx si)"
  "keeps_schema (StockItemRepo_Update tx si)"
  "keeps_schema (StockItemRepo_Delete tx i)"
  "keeps_schema (StockMovementRepo_Create tx m)"
  "keeps_schema (StockLevelRepo_SetLastCost tx tn wi i price cur src)"
  "keeps_schema (ShipmentRepo_Create tx sh)"
  "keeps_schema (ShipmentRepo_UpdateStatus tx i st t1 t2)"
  "keeps_schema (ShipmentItemRepo_Add tx r)"
  "keeps_schema (ShipmentItemRepo_SetShippedQty tx k i q)"
  "keeps_schema (ShipmentItemRepo_SetReceivedQty tx k i q)"
  "keeps_schema (TransferOrderRepo_Create tx o')"
  "keeps_schema (TransferOrderRepo_UpdateStatus tx i bst t1 t2 by')"
  "keeps_schema (TransferOrderItemRepo_Add tx b)"
  "keeps_schema (TransferOrderItemRepo_SetApprovedQty tx i q)"
  "keeps_schema (TransferOrderItemRepo_SetUnitPrice tx i price cur)"
  "keeps_schema (TransferOrderItemRepo_AddShippedQty tx k i q)"
  "keeps_schema (TransferOrderItemRepo_AddReceivedQty tx k i q)"
  "keeps_schema (SupplyPolicyRepo_Create tx pol)"
  "keeps_schema (PurchaseReceiptRepo_Create tx rc)"
  "keeps_schema (PurchaseReceiptItemRepo_Add tx ri)"
  unfolding WarehouseRepo_Create_def WarehouseRepo_Update_def WarehouseRepo_Delete_def
    StockItemRepo_Create_def StockItemRepo_Update_def StockItemRepo_Delete_def
    StockMovementRepo_Create_def StockLevelRepo_SetLastCost_def ShipmentRepo_Create_def
    ShipmentRepo_UpdateStatus_def ShipmentItemRepo_Add_def ShipmentItemRepo_SetShippedQty_def
    ShipmentItemRepo_SetReceivedQty_def TransferOrderRepo_Create_def TransferOrderRepo_UpdateStatus_def
    TransferOrderItemRepo_Add_def TransferOrderItemRepo_SetApprovedQty_def
    TransferOrderItemRepo_SetUnitPrice_def TransferOrderItemRepo_AddShippedQty_def
    TransferOrderItemRepo_AddReceivedQty_def SupplyPolicyRepo_Create_def PurchaseReceiptRepo_Create_def
    PurchaseReceiptItemRepo_Add_def
  by (intro schema_kept.within_rules inv_intro; simp)+

lemma upsert_level_keeps:
  "(\<And>r. lvl_id (f r) = lvl_id r) \<Longrightarrow> keeps_schema (upsert_level tx tn w i unit f)"
  unfolding upsert_level_def by (intro schema_kept.within_rules inv_intro; simp)

lemma adjust_keeps [inv_intro]:
  "keeps_schema (StockLevelRepo_AdjustOnHand tx tn w i d unit)"
  "keeps_schema (StockLevelRepo_AdjustReserved tx tn w i d unit)"
  unfolding StockLevelRepo_AdjustOnHand_def StockLevelRepo_AdjustReserved_def
  by (rule upsert_level_keeps; simp)+

section \<open>Services\<close>

lemma inv_tenant_keeps [inv_intro]:
  "(\<And>tx. keeps_schema (fn tx)) \<Longrightarrow> keeps_schema (InvTenantTx c tn fn)"
  "(\<And>tx. keeps_schema (fn tx)) \<Longrightarrow> keeps_schema (InvTenantReadTx c tn fn)"
  unfolding InvTenantTx_def InvTenantReadTx_def by (intro schema_kept.within_rules; assumption)+

lemma stock_calls_keep [inv_intro]:
  "keeps_schema (WarehouseService_Create c tn b n ty)"
  "keeps_schema (WarehouseService_Update c tn p w)"
  "keeps_schema (WarehouseService_Delete c tn p i)"
  "keeps_schema (SupplyPolicyService_Create c tn prq)"
  "keeps_schema (StockItemService_Create c tn irq)"
  "keeps_schema (StockItemService_Update c tn si)"
  "keeps_schema (StockItemService_Delete c tn i)"
  "keeps_schema (InventoryService_RecordMovement c tn p mrq)"
  unfolding WarehouseService_Create_def WarehouseService_Update_def WarehouseService_Delete_def
    SupplyPolicyService_Create_def StockItemService_Create_def StockItemService_Update_def
    StockItemService_Delete_def InventoryService_RecordMovement_def adjustLevel_def
  by (intro schema_kept.within_rules inv_intro)+

lemma receipt_keeps [inv_intro]: "keeps_schema (PurchaseReceiptService_CreateReceipt fl arrange c tn p rrq)"
proof -
  have item: "keeps_schema (receiveItem fl tx tn k w cur it)" for tx k w cur it
    unfolding receiveItem_def by (intro schema_kept.within_rules inv_intro)
  show ?thesis
    unfolding PurchaseReceiptService_CreateReceipt_def enforceSupplyPolicy_def EffectivePolicyFor_def
    by (intro schema_kept.within_rules inv_intro item)
qed

lemma linked_keeps [inv_intro]: "keeps_schema (transitionLinkedBTO tx k st)" "keeps_schema (closeLinkedBTO tx k)"
proof -
  show t: "keeps_schema (transitionLinkedBTO tx k st)" for st
    unfolding transitionLinkedBTO_def by (intro schema_kept.within_rules inv_intro)
  show "keeps_schema (closeLinkedBTO tx k)"
    unfolding closeLinkedBTO_def by (intro schema_kept.within_rules inv_intro t)
qed

lemma transfer_calls_keep [inv_intro]:
  "keeps_schema (TransferOrderService_Create c tn trq)"
  "keeps_schema (bto_transition c tn p i st br b)"
  "keeps_schema (TransferOrderService_Approve c tn p i who aps)"
  "keeps_schema (TransferOrderService_Cancel c tn p i)"
  unfolding TransferOrderService_Create_def bto_transition_def TransferOrderService_Approve_def
    TransferOrderService_Cancel_def approve_item_def
  by (intro schema_kept.within_rules inv_intro)+

lemma source_on_hand_keeps [inv_intro]: "keeps_schema (source_on_hand tx w i)"
  by (rule tx_onI) (auto simp: source_on_hand_def StockLevelRepo_GetByStockItem_def tx_bind_Inr found_row_Inr
      split: sum.splits if_splits)

lemma shipment_calls_keep [inv_intro]:
  "keeps_schema (ShipmentService_Create c tn p hrq)"
  "keeps_schema (ShipmentService_Approve c tn p i)"
  "keeps_schema (ShipmentService_Advance quiet c tn p i)"
  "keeps_schema (ShipmentService_Receive id c tn p i w)"
  "keeps_schema (ShipmentService_Cancel c tn p i)"
proof -
  have guard: "keeps_schema (requireFromWarehouseBranch c tx p sh)"
      "keeps_schema (check_shipment_transition sh st)" for tx sh st
    unfolding requireFromWarehouseBranch_def check_shipment_transition_def
    by (intro schema_kept.within_rules inv_intro)+
  have ship: "keeps_schema (ship_item quiet tx tn sh it)" for tx sh it
    unfolding ship_item_alone by (intro schema_kept.within_rules inv_intro)
  have receive: "keeps_schema (receive_item tx tn sh w' it)" for tx sh w' it
    unfolding receive_item_def by (intro schema_kept.within_rules inv_intro)
  note rules = schema_kept.within_rules inv_intro guard ship receive
  show "keeps_schema (ShipmentService_Create c tn p hrq)"
    unfolding ShipmentService_Create_def by (intro rules)
  show "keeps_schema (ShipmentService_Approve c tn p i)"
    unfolding ShipmentService_Approve_def by (intro rules)
  show "keeps_schema (ShipmentService_Advance quiet c tn p i)"
    unfolding ShipmentService_Advance_def advanceTx_def by (intro rules)
  show "keeps_schema (ShipmentService_Receive id c tn p i w)"
    unfolding ShipmentService_Receive_def receiveTx_alone by (intro rules)
  show "keeps_schema (ShipmentService_Cancel c tn p i)"
    unfolding ShipmentService_Cancel_def by (intro rules)
qed

end
