(* ===== verification/Inv_Ledger.thy ===== *)
theory Inv_Ledger
  imports Inv_Facts
begin

text \<open>
  Stock levels against the ledger of movements. \<open>replay\<close> is the specification of a level:
  what the movements of its warehouse and item amount to, one after the other, clamped at
  zero. The statements that post a movement keep level and replay equal, every other
  statement touches neither.
\<close>

section \<open>Levels and their replay\<close>

definition level_at :: "uuid \<Rightarrow> uuid \<Rightarrow> uuid \<Rightarrow> inv_db \<Rightarrow> stock_level option" where
  "level_at tn w i s = find_row (at_place tn w i) (ivd_levels s)"

definition on_hand_at :: "uuid \<Rightarrow> uuid \<Rightarrow> uuid \<Rightarrow> inv_db \<Rightarrow> float64" where
  "on_hand_at tn w i s = (case level_at tn w i s of None \<Rightarrow> 0 | Some l \<Rightarrow> lvl_on_hand l)"

definition reserved_at :: "uuid \<Rightarrow> uuid \<Rightarrow> uuid \<Rightarrow> inv_db \<Rightarrow> float64" where
  "reserved_at tn w i s = (case level_at tn w i s of None \<Rightarrow> 0 | Some l \<Rightarrow> lvl_reserved l)"

definition movements_at :: "uuid \<Rightarrow> uuid \<Rightarrow> uuid \<Rightarrow> inv_db \<Rightarrow> stock_movement list" where
  "movements_at tn w i s =
     filter (\<lambda>m. mvt_tenant m = tn \<and> mvt_warehouse m = w \<and> mvt_item m = i) (ivd_moves s)"

definition replay :: "(movement_type \<Rightarrow> bool) \<Rightarrow> stock_movement list \<Rightarrow> float64" where
  "replay counts ms =
     fold (\<lambda>m q. if counts (mvt_type m) then max 0 (q + signedDelta (mvt_type m) (mvt_quantity m)) else q) ms 0"

definition stock_replays :: "inv_db \<Rightarrow> bool" where
  "stock_replays s \<longleftrightarrow> (\<forall>tn w i.
     on_hand_at tn w i s = replay AffectsOnHand (movements_at tn w i s) \<and>
     reserved_at tn w i s = replay (\<lambda>t. \<not> AffectsOnHand t) (movements_at tn w i s))"

lemma replay_snoc:
  "replay counts (ms @ [m]) =
     (if counts (mvt_type m) then max 0 (replay counts ms + signedDelta (mvt_type m) (mvt_quantity m))
      else replay counts ms)"
  by (simp add: replay_def)

lemma numeric_minus: "numeric k (- x) = - numeric k x"
proof -
  have "\<lfloor>(1 / 2 :: rat)\<rfloor> = 0" by (simp add: floor_eq_iff)
  then show ?thesis by (cases "x = 0") (auto simp: numeric_def units_def)
qed

lemma signedDelta_numeric: "signedDelta t (numeric k x) = numeric k (signedDelta t x)"
  by (cases t) (simp_all add: numeric_minus)

lemma clamped_add_decimal:
  assumes "decimal 3 q" and "0 \<le> q" and "0 \<le> d \<or> decimal 3 d"
  shows "clamped_add q d = max 0 (q + numeric 3 d)"
proof (cases "0 \<le> d")
  case True
  then show ?thesis
    using assms(1,2) numeric_nonneg [of d 3] by (simp add: clamped_add_def numeric_add max_def)
next
  case False
  then have "decimal 3 d" using assms(3) by simp
  then have "decimal 3 (max 0 (q + d))" using assms(1) by (intro decimal_max decimal_add) simp_all
  then show ?thesis using \<open>decimal 3 d\<close> by (simp add: clamped_add_def)
qed

section \<open>Writing a level\<close>

lemma find_row_update:
  "(\<And>r. Q r \<Longrightarrow> P (h r) = P r) \<Longrightarrow>
   find_row P (update_rows Q h rows) = map_option (\<lambda>r. if Q r then h r else r) (find_row P rows)"
  by (induction rows) (auto simp: find_row_def)

lemma find_row_append:
  "find_row P (rows @ [x]) = (case find_row P rows of Some r \<Rightarrow> Some r | None \<Rightarrow> if P x then Some x else None)"
  by (induction rows) (auto simp: find_row_def)

lemma at_place_unique: "at_place tn w i r \<Longrightarrow> at_place tn' w' i' r \<longleftrightarrow> (tn', w', i') = (tn, w, i)"
  by (auto simp: at_place_def)

lemma rls_find_level:
  "tx_tenant tx = tn \<Longrightarrow> rls_find lvl_tenant tx (at_place tn w i) ls = find_row (at_place tn w i) ls"
proof -
  assume "tx_tenant tx = tn"
  then have "(\<lambda>r. lvl_tenant r = tx_tenant tx \<and> at_place tn w i r) = at_place tn w i"
    by (auto simp: at_place_def lvl_place_def)
  then show ?thesis by (simp add: rls_find_def)
qed

lemma rls_update_level:
  "tx_tenant tx = tn \<Longrightarrow> rls_update lvl_tenant tx (at_place tn w i) f ls = update_rows (at_place tn w i) f ls"
proof -
  assume "tx_tenant tx = tn"
  then have "(\<lambda>r. lvl_tenant r = tx_tenant tx \<and> at_place tn w i r) = at_place tn w i"
    by (auto simp: at_place_def lvl_place_def)
  then show ?thesis by (simp add: rls_update_def)
qed

lemma upsert_level_effect:
  assumes run: "upsert_level tx tn w i unit f s = Inr (l, s')" and tn: "tx_tenant tx = tn"
    and place: "\<And>r. lvl_place (f r) = lvl_place r"
  shows "\<exists>ls k now. s' = s\<lparr>ivd_ctr := Suc (ivd_ctr s), ivd_levels := ls\<rparr> \<and>
    (\<forall>tn' w' i'. level_at tn' w' i' s' =
       (if (tn', w', i') = (tn, w, i)
        then Some (case level_at tn w i s of None \<Rightarrow> f (fresh_level k tn w i unit now)
                   | Some r \<Rightarrow> (f r)\<lparr>lvl_updated := now\<rparr>)
        else level_at tn' w' i' s))"
proof (cases "level_at tn w i s")
  case None
  let ?k = "ivd_rand s (ivd_ctr s)"
  let ?new = "f (fresh_level ?k tn w i unit (tx_now tx))"
  have s': "s' = s\<lparr>ivd_ctr := Suc (ivd_ctr s), ivd_levels := ivd_levels s @ [?new]\<rparr>"
    using run tn None
    by (auto simp: upsert_level_def level_at_def tx_bind_Inr inv_uuid_Inr rls_find_level stock_levels.insert_Inr)
  have "lvl_place ?new = lvl_place (fresh_level ?k tn w i unit (tx_now tx))" by (rule place)
  also have "\<dots> = (tn, w, i)" by (simp add: fresh_level_def lvl_place_def)
  finally have "lvl_place ?new = (tn, w, i)" .
  then have "at_place tn' w' i' ?new \<longleftrightarrow> (tn', w', i') = (tn, w, i)" for tn' w' i'
    by (auto simp: at_place_def)
  then have "level_at tn' w' i' s' = (if (tn', w', i') = (tn, w, i) then Some ?new else level_at tn' w' i' s)"
    for tn' w' i'
    using None by (auto simp: s' level_at_def find_row_append split: option.splits)
  then show ?thesis
    by (intro exI [of _ "ivd_levels s @ [?new]"] exI [of _ ?k] exI [of _ "tx_now tx"]) (simp add: s' None)
next
  case (Some r0)
  let ?g = "\<lambda>r. (f r)\<lparr>lvl_updated := tx_now tx\<rparr>"
  have keep: "at_place tn' w' i' (?g r) = at_place tn' w' i' r" for tn' w' i' r
    using place [of r] by (simp add: at_place_def lvl_place_def)
  have s': "s' = s\<lparr>ivd_ctr := Suc (ivd_ctr s), ivd_levels := update_rows (at_place tn w i) ?g (ivd_levels s)\<rparr>"
    using run tn Some
    by (auto simp: upsert_level_def level_at_def tx_bind_Inr inv_uuid_Inr rls_find_level rls_update_level
        stock_levels.update_Inr query_row_Inr)
  have "level_at tn' w' i' s' = (if (tn', w', i') = (tn, w, i) then Some (?g r0) else level_at tn' w' i' s)"
    for tn' w' i'
  proof -
    have "level_at tn' w' i' s' = map_option (\<lambda>r. if at_place tn w i r then ?g r else r) (level_at tn' w' i' s)"
      by (simp add: s' level_at_def find_row_update keep)
    moreover have "at_place tn w i r \<longleftrightarrow> (tn', w', i') = (tn, w, i)" if "level_at tn' w' i' s = Some r" for r
      using that by (auto simp: level_at_def at_place_def dest!: find_row_Some)
    ultimately show ?thesis using Some by (cases "level_at tn' w' i' s") auto
  qed
  then show ?thesis
    by (intro exI [of _ "update_rows (at_place tn w i) ?g (ivd_levels s)"] exI [of _ 0] exI [of _ "tx_now tx"])
       (simp add: s' Some)
qed

lemma AdjustOnHand_effect:
  assumes run: "StockLevelRepo_AdjustOnHand tx tn w i d unit s = Inr (l, s')" and tn: "tx_tenant tx = tn"
  shows "ivd_moves s' = ivd_moves s"
    and "on_hand_at tn' w' i' s' =
       (if (tn', w', i') = (tn, w, i) then clamped_add (on_hand_at tn w i s) d else on_hand_at tn' w' i' s)"
    and "reserved_at tn' w' i' s' = reserved_at tn' w' i' s"
  using upsert_level_effect [OF run [unfolded StockLevelRepo_AdjustOnHand_def] tn]
  by (cases "(tn', w', i') = (tn, w, i)";
      auto simp: lvl_place_def on_hand_at_def reserved_at_def fresh_level_def split: option.splits)+

lemma AdjustReserved_effect:
  assumes run: "StockLevelRepo_AdjustReserved tx tn w i d unit s = Inr (l, s')" and tn: "tx_tenant tx = tn"
  shows "ivd_moves s' = ivd_moves s"
    and "reserved_at tn' w' i' s' =
       (if (tn', w', i') = (tn, w, i) then clamped_add (reserved_at tn w i s) d else reserved_at tn' w' i' s)"
    and "on_hand_at tn' w' i' s' = on_hand_at tn' w' i' s"
  using upsert_level_effect [OF run [unfolded StockLevelRepo_AdjustReserved_def] tn]
  by (cases "(tn', w', i') = (tn, w, i)";
      auto simp: lvl_place_def on_hand_at_def reserved_at_def fresh_level_def split: option.splits)+

lemma Movement_Create_effect:
  assumes "StockMovementRepo_Create tx m s = Inr (m', s')"
  shows "ivd_levels s' = ivd_levels s"
    and "mvt_tenant m = tx_tenant tx"
    and "\<exists>x. ivd_moves s' = ivd_moves s @ [x] \<and> mvt_tenant x = mvt_tenant m \<and>
      mvt_warehouse x = mvt_warehouse m \<and> mvt_item x = mvt_item m \<and> mvt_type x = mvt_type m \<and>
      mvt_quantity x = numeric 3 (mvt_quantity m)"
  using assms by (auto simp: StockMovementRepo_Create_def tx_bind_Inr inv_uuid_Inr stock_movements.insert_Inr)

section \<open>Posting a movement\<close>

lemma level_quantities:
  assumes "inv_schema s"
  shows "decimal 3 (on_hand_at tn w i s) \<and> 0 \<le> on_hand_at tn w i s \<and>
    decimal 3 (reserved_at tn w i s) \<and> 0 \<le> reserved_at tn w i s"
proof (cases "level_at tn w i s")
  case (Some l)
  then have "l \<in> set (ivd_levels s)" by (auto simp: level_at_def dest: find_row_Some)
  with assms have "level_row_ok l" by (auto simp: inv_schema_def table_local_ok_def)
  with Some show ?thesis by (simp add: on_hand_at_def reserved_at_def level_row_ok_def)
qed (simp add: on_hand_at_def reserved_at_def)

lemma movements_at_snoc:
  assumes "ivd_moves s' = ivd_moves s @ [x]"
  shows "movements_at tn w i s' = movements_at tn w i s @
    (if (mvt_tenant x, mvt_warehouse x, mvt_item x) = (tn, w, i) then [x] else [])"
  using assms by (simp add: movements_at_def)

definition on_ledger :: "inv_db \<Rightarrow> bool" where
  "on_ledger s \<longleftrightarrow> inv_schema s \<and> stock_replays s"

abbreviation keeps_ledger :: "(inv_db, 'e, 'a) tx \<Rightarrow> bool" where
  "keeps_ledger \<equiv> tx_on on_ledger (\<lambda>_ s'. on_ledger s')"

interpretation ledger_kept: tx_stable on_ledger .

lemma replay_posted:
  assumes rep: "stock_replays s" and moves: "ivd_moves s' = ivd_moves s @ [x]"
    and on: "\<And>tn w i. on_hand_at tn w i s' =
      (if (tn, w, i) = (mvt_tenant x, mvt_warehouse x, mvt_item x) \<and> AffectsOnHand (mvt_type x)
       then max 0 (on_hand_at tn w i s + signedDelta (mvt_type x) (mvt_quantity x)) else on_hand_at tn w i s)"
    and res: "\<And>tn w i. reserved_at tn w i s' =
      (if (tn, w, i) = (mvt_tenant x, mvt_warehouse x, mvt_item x) \<and> \<not> AffectsOnHand (mvt_type x)
       then max 0 (reserved_at tn w i s + signedDelta (mvt_type x) (mvt_quantity x)) else reserved_at tn w i s)"
  shows "stock_replays s'"
  unfolding stock_replays_def
proof (intro allI)
  fix tn w i
  from rep have "on_hand_at tn w i s = replay AffectsOnHand (movements_at tn w i s)"
    and "reserved_at tn w i s = replay (\<lambda>t. \<not> AffectsOnHand t) (movements_at tn w i s)"
    by (simp_all add: stock_replays_def)
  then show "on_hand_at tn w i s' = replay AffectsOnHand (movements_at tn w i s') \<and>
      reserved_at tn w i s' = replay (\<lambda>t. \<not> AffectsOnHand t) (movements_at tn w i s')"
    unfolding movements_at_snoc [OF moves] on res
    by (cases "(tn, w, i) = (mvt_tenant x, mvt_warehouse x, mvt_item x)") (auto simp: replay_snoc)
qed

lemma clamped_posting:
  assumes "decimal 3 q" "0 \<le> q" and "d = signedDelta t x" "0 \<le> d \<or> decimal 3 d"
  shows "clamped_add q d = max 0 (q + signedDelta t (numeric 3 x))"
  using assms by (simp add: clamped_add_decimal signedDelta_numeric)

text \<open>A movement and the level it changes, in one step.\<close>

lemma post_on_hand:
  assumes create: "StockMovementRepo_Create tx m s = Inr (m', s1)"
    and adjust: "StockLevelRepo_AdjustOnHand tx (mvt_tenant m) (mvt_warehouse m) (mvt_item m) d unit s1 = Inr (l, s2)"
    and m: "AffectsOnHand (mvt_type m)"
    and d: "d = signedDelta (mvt_type m) (mvt_quantity m)" "0 \<le> d \<or> decimal 3 d"
    and ok: "on_ledger s"
  shows "on_ledger s2"
proof -
  have sch: "inv_schema s" using ok by (simp add: on_ledger_def)
  note tn = Movement_Create_effect(2) [OF create, symmetric]
  from Movement_Create_effect(3) [OF create] obtain x where moves: "ivd_moves s1 = ivd_moves s @ [x]"
    and x: "mvt_tenant x = mvt_tenant m" "mvt_warehouse x = mvt_warehouse m" "mvt_item x = mvt_item m"
      "mvt_type x = mvt_type m" "mvt_quantity x = numeric 3 (mvt_quantity m)" by auto
  have "level_at tn w i s1 = level_at tn w i s" for tn w i
    by (simp add: level_at_def Movement_Create_effect(1) [OF create])
  then have same: "on_hand_at tn w i s1 = on_hand_at tn w i s" "reserved_at tn w i s1 = reserved_at tn w i s"
    for tn w i by (simp_all add: on_hand_at_def reserved_at_def)
  have "stock_replays s2"
  proof (rule replay_posted)
    show "stock_replays s" using ok by (simp add: on_ledger_def)
    show "ivd_moves s2 = ivd_moves s @ [x]" using AdjustOnHand_effect(1) [OF adjust tn] moves by simp
    show "reserved_at tn w i s2 = (if (tn, w, i) = (mvt_tenant x, mvt_warehouse x, mvt_item x) \<and> \<not> AffectsOnHand (mvt_type x)
       then max 0 (reserved_at tn w i s + signedDelta (mvt_type x) (mvt_quantity x)) else reserved_at tn w i s)" for tn w i
      using m x by (simp add: AdjustOnHand_effect(3) [OF adjust tn] same)
    show "on_hand_at tn w i s2 = (if (tn, w, i) = (mvt_tenant x, mvt_warehouse x, mvt_item x) \<and> AffectsOnHand (mvt_type x)
       then max 0 (on_hand_at tn w i s + signedDelta (mvt_type x) (mvt_quantity x)) else on_hand_at tn w i s)" for tn w i
      unfolding AdjustOnHand_effect(2) [OF adjust tn] same x
      using m level_quantities [OF sch, of "mvt_tenant m" "mvt_warehouse m" "mvt_item m"]
      by (simp add: clamped_posting [OF _ _ d])
  qed
  moreover have "inv_schema s2"
    by (rule tx_onD [OF adjust_keeps(1) tx_onD [OF repo_writes_keep(7) sch create] adjust])
  ultimately show ?thesis by (simp add: on_ledger_def)
qed

lemma post_reserved:
  assumes create: "StockMovementRepo_Create tx m s = Inr (m', s1)"
    and adjust: "StockLevelRepo_AdjustReserved tx (mvt_tenant m) (mvt_warehouse m) (mvt_item m) d unit s1 = Inr (l, s2)"
    and m: "\<not> AffectsOnHand (mvt_type m)"
    and d: "d = signedDelta (mvt_type m) (mvt_quantity m)" "0 \<le> d \<or> decimal 3 d"
    and ok: "on_ledger s"
  shows "on_ledger s2"
proof -
  have sch: "inv_schema s" using ok by (simp add: on_ledger_def)
  note tn = Movement_Create_effect(2) [OF create, symmetric]
  from Movement_Create_effect(3) [OF create] obtain x where moves: "ivd_moves s1 = ivd_moves s @ [x]"
    and x: "mvt_tenant x = mvt_tenant m" "mvt_warehouse x = mvt_warehouse m" "mvt_item x = mvt_item m"
      "mvt_type x = mvt_type m" "mvt_quantity x = numeric 3 (mvt_quantity m)" by auto
  have "level_at tn w i s1 = level_at tn w i s" for tn w i
    by (simp add: level_at_def Movement_Create_effect(1) [OF create])
  then have same: "on_hand_at tn w i s1 = on_hand_at tn w i s" "reserved_at tn w i s1 = reserved_at tn w i s"
    for tn w i by (simp_all add: on_hand_at_def reserved_at_def)
  have "stock_replays s2"
  proof (rule replay_posted)
    show "stock_replays s" using ok by (simp add: on_ledger_def)
    show "ivd_moves s2 = ivd_moves s @ [x]" using AdjustReserved_effect(1) [OF adjust tn] moves by simp
    show "on_hand_at tn w i s2 = (if (tn, w, i) = (mvt_tenant x, mvt_warehouse x, mvt_item x) \<and> AffectsOnHand (mvt_type x)
       then max 0 (on_hand_at tn w i s + signedDelta (mvt_type x) (mvt_quantity x)) else on_hand_at tn w i s)" for tn w i
      using m x by (simp add: AdjustReserved_effect(3) [OF adjust tn] same)
    show "reserved_at tn w i s2 = (if (tn, w, i) = (mvt_tenant x, mvt_warehouse x, mvt_item x) \<and> \<not> AffectsOnHand (mvt_type x)
       then max 0 (reserved_at tn w i s + signedDelta (mvt_type x) (mvt_quantity x)) else reserved_at tn w i s)" for tn w i
      unfolding AdjustReserved_effect(2) [OF adjust tn] same x
      using m level_quantities [OF sch, of "mvt_tenant m" "mvt_warehouse m" "mvt_item m"]
      by (simp add: clamped_posting [OF _ _ d])
  qed
  moreover have "inv_schema s2"
    by (rule tx_onD [OF adjust_keeps(2) tx_onD [OF repo_writes_keep(7) sch create] adjust])
  ultimately show ?thesis by (simp add: on_ledger_def)
qed

section \<open>Statements that leave the stock alone\<close>

named_theorems frame_intro \<open>operations that leave stock levels and movements as they are\<close>

definition same_stock :: "inv_db \<Rightarrow> inv_db \<Rightarrow> bool" where
  "same_stock s s' \<longleftrightarrow> ivd_moves s' = ivd_moves s \<and>
     (\<forall>tn w i. on_hand_at tn w i s' = on_hand_at tn w i s \<and> reserved_at tn w i s' = reserved_at tn w i s)"

interpretation stock_frame: tx_preorder same_stock
  by unfold_locales (simp_all add: same_stock_def)

lemma same_stock_tables: "ivd_moves s' = ivd_moves s \<Longrightarrow> ivd_levels s' = ivd_levels s \<Longrightarrow> same_stock s s'"
  by (simp add: same_stock_def on_hand_at_def reserved_at_def level_at_def)

lemma same_stock_ledger: "same_stock s s' \<Longrightarrow> stock_replays s \<Longrightarrow> stock_replays s'"
  by (simp add: same_stock_def stock_replays_def movements_at_def)

lemma framed_keeps_ledger:
  assumes "keeps_schema m" and "tx_within same_stock m"
  shows "keeps_ledger m"
proof (rule tx_onI)
  fix s x s'
  assume "on_ledger s" and run: "m s = Inr (x, s')"
  then show "on_ledger s'"
    using tx_onD [OF assms(1) _ run] same_stock_ledger [OF tx_withinD [OF assms(2) run]]
    by (simp add: on_ledger_def)
qed

lemma sql_framed [frame_intro]:
  "tx_within same_stock inv_uuid"
  "tx_within same_stock (query_row e qs)"
  "tx_within same_stock (found_row e q)"
  "tx_within same_stock (sql_select T tx P)"
  "tx_within same_stock (sql_find T tx P)"
  "tx_within same_stock (sql_insert warehouses_table tx w)"
  "tx_within same_stock (sql_update warehouses_table tx P1 f1)"
  "tx_within same_stock (sql_insert stock_items_table tx i)"
  "tx_within same_stock (sql_update stock_items_table tx P2 f2)"
  "tx_within same_stock (sql_insert supply_policies_table tx p)"
  "tx_within same_stock (sql_insert purchase_receipts_table tx rc)"
  "tx_within same_stock (sql_insert purchase_receipt_items_table tx ri)"
  "tx_within same_stock (sql_insert shipments_table tx sh)"
  "tx_within same_stock (sql_update shipments_table tx P3 f3)"
  "tx_within same_stock (sql_insert shipment_items_table tx si)"
  "tx_within same_stock (sql_update shipment_items_table tx P4 f4)"
  "tx_within same_stock (sql_insert transfer_orders_table tx o')"
  "tx_within same_stock (sql_update transfer_orders_table tx P5 f5)"
  "tx_within same_stock (sql_insert transfer_order_items_table tx b)"
  "tx_within same_stock (sql_update transfer_order_items_table tx P6 f6)"
  by (rule tx_onI, rule same_stock_tables; simp add: inv_uuid_Inr query_row_Inr found_row_Inr
      warehouses.insert_Inr warehouses.update_Inr stock_items.insert_Inr stock_items.update_Inr
      supply_policies.insert_Inr purchase_receipts.insert_Inr purchase_receipt_items.insert_Inr
      shipments.insert_Inr shipments.update_Inr shipment_items.insert_Inr shipment_items.update_Inr
      transfer_orders.insert_Inr transfer_orders.update_Inr transfer_order_items.insert_Inr
      transfer_order_items.update_Inr)+

text \<open>A cost is written beside the quantities.\<close>

lemma SetLastCost_framed [frame_intro]: "tx_within same_stock (StockLevelRepo_SetLastCost tx tn w i price cur src)"
proof (rule tx_onI)
  fix s u s'
  assume run: "StockLevelRepo_SetLastCost tx tn w i price cur src s = Inr (u, s')"
  let ?g = "\<lambda>r. r\<lparr>lvl_cost := Some (numeric 4 price), lvl_cost_currency := Some (char3 cur),
    lvl_cost_source := Some src, lvl_cost_at := Some (tx_now tx), lvl_updated := tx_now tx\<rparr>"
  from run have s': "s' = s\<lparr>ivd_levels := rls_update lvl_tenant tx (at_place tn w i) ?g (ivd_levels s)\<rparr>"
    by (auto simp: StockLevelRepo_SetLastCost_def tx_inv stock_levels.update_Inr)
  have "level_at tn' w' i' s' = map_option (\<lambda>r. if lvl_tenant r = tx_tenant tx \<and> at_place tn w i r then ?g r else r)
      (level_at tn' w' i' s)" for tn' w' i'
    unfolding s' level_at_def rls_update_def by (simp add: find_row_update at_place_def lvl_place_def)
  then have "on_hand_at tn' w' i' s' = on_hand_at tn' w' i' s" "reserved_at tn' w' i' s' = reserved_at tn' w' i' s"
    for tn' w' i'
    by (auto simp: on_hand_at_def reserved_at_def split: option.splits)
  then show "same_stock s s'" by (simp add: same_stock_def s')
qed

lemma repos_framed [frame_intro]:
  "tx_within same_stock (WarehouseRepo_GetByID tx i)"
  "tx_within same_stock (StockItemRepo_GetByID tx i)"
  "tx_within same_stock (SupplyPolicyRepo_ListCandidates arrange tx i)"
  "tx_within same_stock (ShipmentRepo_GetByID tx i)"
  "tx_within same_stock (ShipmentItemRepo_ListByShipment tx i)"
  "tx_within same_stock (TransferOrderRepo_GetByID tx i)"
  "tx_within same_stock (TransferOrderItemRepo_ListByTransferOrder tx i)"
  "tx_within same_stock (TransferOrderItemRepo_AllReceived tx i)"
  "tx_within same_stock (WarehouseRepo_Create tx w)"
  "tx_within same_stock (WarehouseRepo_Update tx w)"
  "tx_within same_stock (WarehouseRepo_Delete tx i)"
  "tx_within same_stock (StockItemRepo_Create tx sti)"
  "tx_within same_stock (StockItemRepo_Update tx sti)"
  "tx_within same_stock (StockItemRepo_Delete tx i)"
  "tx_within same_stock (ShipmentRepo_Create tx sh)"
  "tx_within same_stock (ShipmentRepo_UpdateStatus tx i st t1 t2)"
  "tx_within same_stock (ShipmentItemRepo_Add tx r)"
  "tx_within same_stock (ShipmentItemRepo_SetShippedQty tx k i q)"
  "tx_within same_stock (ShipmentItemRepo_SetReceivedQty tx k i q)"
  "tx_within same_stock (TransferOrderRepo_Create tx o')"
  "tx_within same_stock (TransferOrderRepo_UpdateStatus tx i bst t1 t2 by')"
  "tx_within same_stock (TransferOrderItemRepo_Add tx b)"
  "tx_within same_stock (TransferOrderItemRepo_SetApprovedQty tx i q)"
  "tx_within same_stock (TransferOrderItemRepo_SetUnitPrice tx i price cur)"
  "tx_within same_stock (TransferOrderItemRepo_AddShippedQty tx k i q)"
  "tx_within same_stock (TransferOrderItemRepo_AddReceivedQty tx k i q)"
  "tx_within same_stock (SupplyPolicyRepo_Create tx pol)"
  "tx_within same_stock (PurchaseReceiptRepo_Create tx rc)"
  "tx_within same_stock (PurchaseReceiptItemRepo_Add tx ri)"
  unfolding WarehouseRepo_GetByID_def StockItemRepo_GetByID_def SupplyPolicyRepo_ListCandidates_def
    ShipmentRepo_GetByID_def ShipmentItemRepo_ListByShipment_def TransferOrderRepo_GetByID_def
    TransferOrderItemRepo_ListByTransferOrder_def TransferOrderItemRepo_AllReceived_def
    WarehouseRepo_Create_def WarehouseRepo_Update_def WarehouseRepo_Delete_def
    StockItemRepo_Create_def StockItemRepo_Update_def StockItemRepo_Delete_def ShipmentRepo_Create_def
    ShipmentRepo_UpdateStatus_def ShipmentItemRepo_Add_def ShipmentItemRepo_SetShippedQty_def
    ShipmentItemRepo_SetReceivedQty_def TransferOrderRepo_Create_def TransferOrderRepo_UpdateStatus_def
    TransferOrderItemRepo_Add_def TransferOrderItemRepo_SetApprovedQty_def
    TransferOrderItemRepo_SetUnitPrice_def TransferOrderItemRepo_AddShippedQty_def
    TransferOrderItemRepo_AddReceivedQty_def SupplyPolicyRepo_Create_def PurchaseReceiptRepo_Create_def
    PurchaseReceiptItemRepo_Add_def
  by (intro stock_frame.within_rules frame_intro)+

lemma guards_framed [frame_intro]:
  "tx_within same_stock (requireFromWarehouseBranch c tx p sh)"
  "tx_within same_stock (check_shipment_transition sh st)"
  unfolding requireFromWarehouseBranch_def check_shipment_transition_def
  by (intro stock_frame.within_rules frame_intro)+

lemma linked_framed [frame_intro]:
  "tx_within same_stock (transitionLinkedBTO tx k st)" "tx_within same_stock (closeLinkedBTO tx k)"
proof -
  show t: "tx_within same_stock (transitionLinkedBTO tx k st)" for st
    unfolding transitionLinkedBTO_def by (intro stock_frame.within_rules frame_intro)
  show "tx_within same_stock (closeLinkedBTO tx k)"
    unfolding closeLinkedBTO_def by (intro stock_frame.within_rules frame_intro t)
qed

lemma inv_tenant_framed [frame_intro]:
  "(\<And>tx. tx_within same_stock (fn tx)) \<Longrightarrow> tx_within same_stock (InvTenantTx c tn fn)"
  "(\<And>tx. tx_within same_stock (fn tx)) \<Longrightarrow> tx_within same_stock (InvTenantReadTx c tn fn)"
  unfolding InvTenantTx_def InvTenantReadTx_def by (intro stock_frame.within_rules; assumption)+

text \<open>The calls that administrate: nothing of them moves goods.\<close>

lemma framed_calls [frame_intro]:
  "tx_within same_stock (WarehouseService_Create c tn b n ty)"
  "tx_within same_stock (WarehouseService_Update c tn p w)"
  "tx_within same_stock (WarehouseService_Delete c tn p i)"
  "tx_within same_stock (SupplyPolicyService_Create c tn prq)"
  "tx_within same_stock (StockItemService_Create c tn irq)"
  "tx_within same_stock (StockItemService_Update c tn sti)"
  "tx_within same_stock (StockItemService_Delete c tn i)"
  "tx_within same_stock (TransferOrderService_Create c tn trq)"
  "tx_within same_stock (bto_transition c tn p i bst br sub)"
  "tx_within same_stock (TransferOrderService_Approve c tn p i who aps)"
  "tx_within same_stock (TransferOrderService_Cancel c tn p i)"
  "tx_within same_stock (ShipmentService_Create c tn p hrq)"
  "tx_within same_stock (ShipmentService_Approve c tn p i)"
  "tx_within same_stock (ShipmentService_Cancel c tn p i)"
  unfolding WarehouseService_Create_def WarehouseService_Update_def WarehouseService_Delete_def
    SupplyPolicyService_Create_def StockItemService_Create_def StockItemService_Update_def
    StockItemService_Delete_def TransferOrderService_Create_def bto_transition_def
    TransferOrderService_Approve_def TransferOrderService_Cancel_def approve_item_def
    ShipmentService_Create_def ShipmentService_Approve_def ShipmentService_Cancel_def
  by (intro stock_frame.within_rules frame_intro)+

section \<open>Calls that move goods\<close>

lemma within_post_on_hand:
  assumes m: "mvt_tenant m = tn" "mvt_warehouse m = w" "mvt_item m = i" "AffectsOnHand (mvt_type m)"
    and d: "d = signedDelta (mvt_type m) (mvt_quantity m)" "0 \<le> d \<or> decimal 3 d"
    and rest: "\<And>x l. keeps_ledger (f x l)"
  shows "keeps_ledger (tx_bind (StockMovementRepo_Create tx m) (\<lambda>x.
    tx_bind (StockLevelRepo_AdjustOnHand tx tn w i d unit) (f x)))"
proof (rule tx_onI)
  fix s y s'
  assume ok: "on_ledger s" and "tx_bind (StockMovementRepo_Create tx m) (\<lambda>x.
    tx_bind (StockLevelRepo_AdjustOnHand tx tn w i d unit) (f x)) s = Inr (y, s')"
  then obtain x s1 l s2 where "StockMovementRepo_Create tx m s = Inr (x, s1)"
    and "StockLevelRepo_AdjustOnHand tx tn w i d unit s1 = Inr (l, s2)" and f: "f x l s2 = Inr (y, s')"
    by (auto simp: tx_bind_Inr)
  then have "on_ledger s2" using post_on_hand [of tx m s x s1 d unit l s2] m d ok by simp
  then show "on_ledger s'" by (rule tx_onD [OF rest _ f])
qed

lemma within_post_reserved:
  assumes m: "mvt_tenant m = tn" "mvt_warehouse m = w" "mvt_item m = i" "\<not> AffectsOnHand (mvt_type m)"
    and d: "d = signedDelta (mvt_type m) (mvt_quantity m)" "0 \<le> d \<or> decimal 3 d"
    and rest: "\<And>x l. keeps_ledger (f x l)"
  shows "keeps_ledger (tx_bind (StockMovementRepo_Create tx m) (\<lambda>x.
    tx_bind (StockLevelRepo_AdjustReserved tx tn w i d unit) (f x)))"
proof (rule tx_onI)
  fix s y s'
  assume ok: "on_ledger s" and "tx_bind (StockMovementRepo_Create tx m) (\<lambda>x.
    tx_bind (StockLevelRepo_AdjustReserved tx tn w i d unit) (f x)) s = Inr (y, s')"
  then obtain x s1 l s2 where "StockMovementRepo_Create tx m s = Inr (x, s1)"
    and "StockLevelRepo_AdjustReserved tx tn w i d unit s1 = Inr (l, s2)" and f: "f x l s2 = Inr (y, s')"
    by (auto simp: tx_bind_Inr)
  then have "on_ledger s2" using post_reserved [of tx m s x s1 d unit l s2] m d ok by simp
  then show "on_ledger s'" by (rule tx_onD [OF rest _ f])
qed

lemma new_movement_fields [simp]:
  "mvt_tenant (new_movement tn w i t q r rt) = tn"
  "mvt_warehouse (new_movement tn w i t q r rt) = w"
  "mvt_item (new_movement tn w i t q r rt) = i"
  "mvt_type (new_movement tn w i t q r rt) = t"
  "mvt_quantity (new_movement tn w i t q r rt) = q"
  by (simp_all add: new_movement_def)

lemma decimal_signedDelta: "decimal k q \<Longrightarrow> decimal k (signedDelta t q)"
  by (cases t) simp_all

lemma tenant_keeps_ledger:
  "(\<And>tx. keeps_ledger (fn tx)) \<Longrightarrow> keeps_ledger (InvTenantTx c tn fn)"
  "(\<And>tx. keeps_ledger (fn tx)) \<Longrightarrow> keeps_ledger (InvTenantReadTx c tn fn)"
  unfolding InvTenantTx_def InvTenantReadTx_def by (intro ledger_kept.within_rules; assumption)+

lemma reads_keep_ledger:
  "keeps_ledger inv_uuid"
  "keeps_ledger (WarehouseRepo_GetByID tx i)"
  "keeps_ledger (StockItemRepo_GetByID tx i)"
  "keeps_ledger (SupplyPolicyRepo_ListCandidates arrange tx i)"
  "keeps_ledger (ShipmentRepo_GetByID tx i)"
  "keeps_ledger (ShipmentItemRepo_ListByShipment tx i)"
  by (intro framed_keeps_ledger inv_intro frame_intro)+

lemma RecordMovement_keeps_ledger:
  assumes q: "mrq_type req = MovementIn \<or> decimal 3 (mrq_quantity req)"
  shows "keeps_ledger (InventoryService_RecordMovement c tn p req)"
proof (rule tx_onI)
  fix s y s'
  let ?m = "(new_movement tn (mrq_warehouse req) (mrq_item req) (mrq_type req) (mrq_quantity req)
    (mrq_ref req) (mrq_ref_type req))\<lparr>mvt_notes := mrq_notes req, mvt_created_by := mrq_created_by req\<rparr>"
  assume ok: "on_ledger s" and "InventoryService_RecordMovement c tn p req s = Inr (y, s')"
  then obtain mv s1 lvl where create: "StockMovementRepo_Create (inv_tx c tn) ?m s = Inr (mv, s1)"
    and adjust: "adjustLevel (inv_tx c tn) tn req s1 = Inr (lvl, s')"
      and valid: "validateMovement req = Inr ()"
    by (auto simp: InventoryService_RecordMovement_def WarehouseRepo_GetByID_def tx_inv found_row_Inr)
  have "mrq_type req = MovementIn \<Longrightarrow> 0 \<le> mrq_quantity req"
    using valid unfolding validateMovement_def first_failure_Inr by simp
  then have d: "0 \<le> signedDelta (mrq_type req) (mrq_quantity req) \<or> decimal 3 (signedDelta (mrq_type req) (mrq_quantity req))"
    using q decimal_signedDelta by auto
  show "on_ledger s'"
  proof (cases "AffectsOnHand (mrq_type req)")
    case True
    then show ?thesis
      using post_on_hand [OF create _ _ refl _ ok] adjust d by (simp add: adjustLevel_def)
  next
    case False
    then show ?thesis
      using post_reserved [OF create _ _ refl _ ok] adjust d by (simp add: adjustLevel_def)
  qed
qed

lemma receiveItem_keeps_ledger:
  assumes "0 \<le> riq_quantity it"
  shows "keeps_ledger (receiveItem fl tx tn k w cur it)"
  unfolding receiveItem_def
  by (intro ledger_kept.within_bind [OF reads_keep_ledger(1)]
      ledger_kept.within_bind [OF framed_keeps_ledger [OF repo_writes_keep(23) repos_framed(29)]]
      within_post_on_hand ledger_kept.within_bind [OF framed_keeps_ledger [OF repo_writes_keep(8) SetLastCost_framed]]
      ledger_kept.within_return)
     (simp_all add: assms)

lemma CreateReceipt_keeps_ledger: "keeps_ledger (PurchaseReceiptService_CreateReceipt fl arrange c tn p req)"
proof (rule tx_onI)
  fix s y s'
  assume ok: "on_ledger s" and run: "PurchaseReceiptService_CreateReceipt fl arrange c tn p req s = Inr (y, s')"
  then have valid: "validateCreateReceipt req = Inr ()"
    by (auto simp: PurchaseReceiptService_CreateReceipt_def tx_inv)
  have "0 \<le> riq_quantity it" if "it \<in> set (rrq_items req)" for it
  proof -
    from valid that have "\<forall>(bad, e) \<in> set (receipt_item_checks it). \<not> bad"
      unfolding validateCreateReceipt_def first_failure_Inr by (simp add: ball_Un)
    then show ?thesis by (simp add: receipt_item_checks_def)
  qed
  then have item: "keeps_ledger (receiveItem fl tx tn k w cur it)" if "it \<in> set (rrq_items req)" for tx k w cur it
    using that by (intro receiveItem_keeps_ledger)
  have "keeps_ledger (PurchaseReceiptService_CreateReceipt fl arrange c tn p req)"
    unfolding PurchaseReceiptService_CreateReceipt_def enforceSupplyPolicy_def EffectivePolicyFor_def
    by (intro ledger_kept.within_rules tenant_keeps_ledger reads_keep_ledger
        framed_keeps_ledger [OF repo_writes_keep(22) repos_framed(28)] item)
  from tx_onD [OF this ok run] show "on_ledger s'" .
qed

lemma listed_items_ok:
  assumes "tx_gives on_ledger (ShipmentItemRepo_ListByShipment tx i) items" and "it \<in> set items"
  shows "quantity_ok (shi_requested it)" and "quantity_ok (shi_shipped it)"
  using assms by (auto simp: tx_gives_def ShipmentItemRepo_ListByShipment_def tx_bind_Inr on_ledger_def
      inv_schema_def table_local_ok_def shipment_item_row_ok_def)

lemma source_on_hand_framed [frame_intro]: "tx_within same_stock (source_on_hand tx w i)"
  by (rule tx_onI) (auto simp: source_on_hand_def StockLevelRepo_GetByStockItem_def tx_bind_Inr found_row_Inr
      stock_frame.refl split: sum.splits if_splits)

lemma shipping_keeps_ledger:
  "keeps_ledger (ShipmentService_Advance quiet c tn p i)" "keeps_ledger (ShipmentService_Receive id c tn p i w)"
proof -
  note frame = framed_keeps_ledger
  have ship: "keeps_ledger (ship_item quiet tx tn sh it)" if "quantity_ok (shi_requested it)" for tx sh it
    unfolding ship_item_alone Let_def
    by (intro ledger_kept.within_bind [OF frame [OF source_on_hand_keeps source_on_hand_framed]]
        ledger_kept.within_bind [OF ledger_kept.within_require] within_post_on_hand
        ledger_kept.within_bind [OF frame [OF repo_writes_keep(12) repos_framed(18)]]
        ledger_kept.within_option ledger_kept.within_return frame [OF repo_writes_keep(19) repos_framed(25)])
       (use that in \<open>simp_all add: quantity_ok_def\<close>)
  have receive: "keeps_ledger (receive_item tx tn sh w' it)" for tx sh w' it
    unfolding receive_item_def Let_def
    by (intro ledger_kept.within_if ledger_kept.within_return within_post_on_hand
        ledger_kept.within_bind [OF ledger_kept.within_option]
        ledger_kept.within_bind [OF frame [OF repo_writes_keep(13) repos_framed(19)]]
        ledger_kept.within_option frame [OF repo_writes_keep(8) SetLastCost_framed]
        frame [OF repo_writes_keep(20) repos_framed(26)]) simp_all
  have guards: "keeps_schema (requireFromWarehouseBranch c tx p sh)"
      "keeps_schema (check_shipment_transition sh st)" for tx sh st
    unfolding requireFromWarehouseBranch_def check_shipment_transition_def
    by (intro schema_kept.within_rules inv_intro)+
  note rules = ledger_kept.within_require ledger_kept.within_bind ledger_kept.within_each
    ledger_kept.within_option ledger_kept.within_return ledger_kept.within_lift tx_on_map_err
    tenant_keeps_ledger reads_keep_ledger
    frame [OF guards(1) guards_framed(1)] frame [OF guards(2) guards_framed(2)]
    frame [OF repo_writes_keep(10) repos_framed(16)] frame [OF linked_keeps(1) linked_framed(1)]
    frame [OF linked_keeps(2) linked_framed(2)]
  show "keeps_ledger (ShipmentService_Advance quiet c tn p i)"
    unfolding ShipmentService_Advance_def advanceTx_def
    by (intro rules ship) (erule (1) listed_items_ok)
  show "keeps_ledger (ShipmentService_Receive id c tn p i w)"
    unfolding ShipmentService_Receive_def receiveTx_alone
    by (intro rules receive)
qed

end
