(* ===== verification/Inv_Moves.thy ===== *)
theory Inv_Moves
  imports Inv_Ledger
begin

text \<open>
  What a shipment does to the database when it leaves and when it arrives, line by line:
  the stock of its warehouse, its own lines and the lines of the order it serves.
\<close>

section \<open>Stock of an item over all warehouses\<close>

definition stock :: "uuid \<Rightarrow> uuid \<Rightarrow> inv_db \<Rightarrow> float64" where
  "stock tn i s = (\<Sum>l \<leftarrow> ivd_levels s. if lvl_tenant l = tn \<and> lvl_item l = i then lvl_on_hand l else 0)"

lemma sum_update_one:
  fixes g :: "'r \<Rightarrow> rat"
  assumes "distinct (map key rows)" and "r0 \<in> set rows"
  shows "(\<Sum>r \<leftarrow> update_rows (\<lambda>r. key r = key r0) f rows. g r) = (\<Sum>r \<leftarrow> rows. g r) + (g (f r0) - g r0)"
  using assms
proof (induction rows)
  case (Cons r rows)
  show ?case
  proof (cases "key r = key r0")
    case True
    with Cons.prems have "r = r0" by (auto simp: image_iff)
    moreover have "update_rows (\<lambda>r. key r = key r0) f rows = rows"
      using Cons.prems True by (intro update_rows_id) (auto simp: image_iff)
    ultimately show ?thesis by simp
  next
    case False
    with Cons show ?thesis by auto
  qed
qed simp

lemma AdjustOnHand_stock:
  assumes run: "StockLevelRepo_AdjustOnHand tx tn w i d unit s = Inr (l, s')" and tn: "tx_tenant tx = tn"
    and sch: "inv_schema s"
  shows "stock tn' i' s' = stock tn' i' s +
    (if (tn', i') = (tn, i) then clamped_add (on_hand_at tn w i s) d - on_hand_at tn w i s else 0)"
proof (cases "level_at tn w i s")
  case None
  let ?k = "ivd_rand s (ivd_ctr s)"
  have "ivd_levels s' = ivd_levels s @ [(fresh_level ?k tn w i unit (tx_now tx))\<lparr>lvl_on_hand := clamped_add 0 d\<rparr>]"
    using run tn None
    by (auto simp: StockLevelRepo_AdjustOnHand_def upsert_level_def level_at_def tx_bind_Inr inv_uuid_Inr
        rls_find_level stock_levels.insert_Inr fresh_level_def)
  then show ?thesis using None by (simp add: stock_def fresh_level_def on_hand_at_def)
next
  case (Some r0)
  let ?f = "\<lambda>r. r\<lparr>lvl_on_hand := clamped_add (lvl_on_hand r) d, lvl_updated := tx_now tx\<rparr>"
  have r0: "r0 \<in> set (ivd_levels s)" "lvl_place r0 = (tn, w, i)"
    using Some by (auto simp: level_at_def at_place_def dest!: find_row_Some)
  have "(\<lambda>r. lvl_place r = lvl_place r0) = at_place tn w i" by (simp add: fun_eq_iff at_place_def r0(2))
  then have s': "ivd_levels s' = update_rows (\<lambda>r. lvl_place r = lvl_place r0) ?f (ivd_levels s)"
    using run tn Some
    by (auto simp: StockLevelRepo_AdjustOnHand_def upsert_level_def level_at_def tx_bind_Inr inv_uuid_Inr
        rls_find_level rls_update_level stock_levels.update_Inr query_row_Inr)
  have dist: "distinct (map lvl_place (ivd_levels s))"
    using sch by (simp add: inv_schema_def table_local_ok_def levels_uniq_def)
  have "lvl_tenant r0 = tn" "lvl_item r0 = i" using r0(2) by (simp_all add: lvl_place_def)
  then show ?thesis
    unfolding stock_def s' sum_update_one [OF dist r0(1)] by (auto simp: on_hand_at_def Some)
qed

section \<open>One line leaves\<close>

lemma set_shipped_Inr:
  assumes "ShipmentItemRepo_SetShippedQty tx k i q s = Inr (u, s')"
  shows "s' = s\<lparr>ivd_shipment_items := rls_update shi_tenant tx (\<lambda>r. shi_shipment r = k \<and> shi_item r = i)
    (\<lambda>r. r\<lparr>shi_shipped := numeric 3 q\<rparr>) (ivd_shipment_items s)\<rparr>"
  using assms by (auto simp: ShipmentItemRepo_SetShippedQty_def tx_inv shipment_items.update_Inr)

lemma set_received_Inr:
  assumes "ShipmentItemRepo_SetReceivedQty tx k i q s = Inr (u, s')"
  shows "s' = s\<lparr>ivd_shipment_items := rls_update shi_tenant tx (\<lambda>r. shi_shipment r = k \<and> shi_item r = i)
    (\<lambda>r. r\<lparr>shi_received := numeric 3 q\<rparr>) (ivd_shipment_items s)\<rparr>"
  using assms by (auto simp: ShipmentItemRepo_SetReceivedQty_def tx_inv shipment_items.update_Inr)

lemma add_shipped_Inr:
  assumes "TransferOrderItemRepo_AddShippedQty tx k i q s = Inr (u, s')"
  shows "s' = s\<lparr>ivd_order_items := rls_update bti_tenant tx (\<lambda>b. bti_order b = k \<and> bti_item b = i)
    (\<lambda>b. b\<lparr>bti_shipped := numeric 3 (bti_shipped b + q)\<rparr>) (ivd_order_items s)\<rparr>"
  using assms by (auto simp: TransferOrderItemRepo_AddShippedQty_def tx_inv transfer_order_items.update_Inr)

lemma add_received_Inr:
  assumes "TransferOrderItemRepo_AddReceivedQty tx k i q s = Inr (u, s')"
  shows "s' = s\<lparr>ivd_order_items := rls_update bti_tenant tx (\<lambda>b. bti_order b = k \<and> bti_item b = i)
    (\<lambda>b. b\<lparr>bti_received := numeric 3 (bti_received b + q)\<rparr>) (ivd_order_items s)\<rparr>"
  using assms by (auto simp: TransferOrderItemRepo_AddReceivedQty_def tx_inv transfer_order_items.update_Inr)

text \<open>The tables about shipments and orders, which posting a movement does not touch.\<close>

definition same_papers :: "inv_db \<Rightarrow> inv_db \<Rightarrow> bool" where
  "same_papers s s' \<longleftrightarrow>
     ivd_shipments s' = ivd_shipments s \<and> ivd_shipment_items s' = ivd_shipment_items s \<and>
     ivd_orders s' = ivd_orders s \<and> ivd_order_items s' = ivd_order_items s"

lemma upsert_same_papers:
  "upsert_level tx tn w i unit f s = Inr (l, s') \<Longrightarrow> same_papers s s'"
  by (auto simp: upsert_level_def tx_bind_Inr inv_uuid_Inr stock_levels.insert_Inr stock_levels.update_Inr
      query_row_Inr same_papers_def split: option.splits)

lemma Movement_Create_papers: "StockMovementRepo_Create tx m s = Inr (m', s') \<Longrightarrow> same_papers s s'"
  by (auto simp: StockMovementRepo_Create_def tx_bind_Inr inv_uuid_Inr stock_movements.insert_Inr same_papers_def)

text \<open>A movement of goods at a warehouse, level and ledger.\<close>

lemma posted:
  assumes create: "StockMovementRepo_Create tx m s = Inr (m', s1)"
    and adjust: "StockLevelRepo_AdjustOnHand tx tn w i d unit s1 = Inr (l, s2)"
    and m: "mvt_tenant m = tn" and sch: "inv_schema s"
  shows "same_papers s s2" and "inv_schema s2"
    and "stock tn' i' s2 = stock tn' i' s +
      (if (tn', i') = (tn, i) then clamped_add (on_hand_at tn w i s) d - on_hand_at tn w i s else 0)"
proof -
  have tn: "tx_tenant tx = tn" using Movement_Create_effect(2) [OF create] m by simp
  have sch1: "inv_schema s1" by (rule tx_onD [OF repo_writes_keep(7) sch create])
  have lv: "ivd_levels s1 = ivd_levels s" by (rule Movement_Create_effect(1) [OF create])
  show "same_papers s s2"
    using Movement_Create_papers [OF create] upsert_same_papers [OF adjust [unfolded StockLevelRepo_AdjustOnHand_def]]
    by (simp add: same_papers_def)
  show "inv_schema s2" by (rule tx_onD [OF adjust_keeps(1) sch1 adjust])
  show "stock tn' i' s2 = stock tn' i' s +
      (if (tn', i') = (tn, i) then clamped_add (on_hand_at tn w i s) d - on_hand_at tn w i s else 0)"
    using AdjustOnHand_stock [OF adjust tn sch1, of tn' i'] by (simp add: lv stock_def on_hand_at_def level_at_def)
qed

text \<open>The availability check reads the level the movement then lowers.\<close>

lemma source_on_hand_Inr:
  assumes "source_on_hand tx w i s = Inr (q, s')" and "inv_schema s"
  shows "s' = s \<and> q = on_hand_at (tx_tenant tx) w i s"
proof -
  have "rls_find lvl_tenant tx (\<lambda>r. lvl_warehouse r = w \<and> lvl_item r = i) (ivd_levels s) = level_at (tx_tenant tx) w i s"
    by (auto simp: rls_find_def level_at_def at_place_def lvl_place_def intro!: arg_cong [where f = "\<lambda>P. find_row P _"])
  then show ?thesis
    using assms(1) by (auto simp: source_on_hand_def StockLevelRepo_GetByStockItem_def tx_bind_def found_row_def
        on_hand_at_def split: option.splits if_splits)
qed

lemma ship_item_effect:
  assumes run: "ship_item quiet tx tn sh it s = Inr (u, s')" and tn: "tx_tenant tx = tn"
    and sch: "inv_schema s" and q: "quantity_ok (shi_requested it)"
  shows "stock tn' i' s' = stock tn' i' s - (if (tn', i') = (tn, shi_item it) then shi_requested it else 0)"
    and "ivd_shipments s' = ivd_shipments s" and "ivd_orders s' = ivd_orders s"
    and "ivd_shipment_items s' = update_rows
      (\<lambda>r. shi_tenant r = tn \<and> shi_shipment r = shp_id sh \<and> shi_item r = shi_item it)
      (\<lambda>r. r\<lparr>shi_shipped := shi_requested it\<rparr>) (ivd_shipment_items s)"
    and "ivd_order_items s' = update_rows
      (\<lambda>b. bti_tenant b = tn \<and> shp_order sh = Some (bti_order b) \<and> bti_item b = shi_item it)
      (\<lambda>b. b\<lparr>bti_shipped := numeric 3 (bti_shipped b + shi_requested it)\<rparr>) (ivd_order_items s)"
proof -
  from run obtain onHand s0 m s1 l s2 u' s3 where
    reads: "source_on_hand tx (shp_from sh) (shi_item it) s = Inr (onHand, s0)" "\<not> onHand < shi_requested it"
    and create: "StockMovementRepo_Create tx (new_movement tn (shp_from sh) (shi_item it) MovementOut
      (shi_requested it) (Some (shp_id sh)) (Some ''shipment'')) s0 = Inr (m, s1)"
    and adjust: "StockLevelRepo_AdjustOnHand tx tn (shp_from sh) (shi_item it)
      (- shi_requested it) (shi_unit it) s1 = Inr (l, s2)"
    and set: "ShipmentItemRepo_SetShippedQty tx (shp_id sh) (shi_item it) (shi_requested it) s2 = Inr (u', s3)"
    and rest: "(case shp_order sh of None \<Rightarrow> tx_return ()
         | Some k \<Rightarrow> TransferOrderItemRepo_AddShippedQty tx k (shi_item it) (shi_requested it)) s3 = Inr (u, s')"
    by (auto simp: ship_item_alone Let_def tx_inv)
  have s0: "s0 = s" and enough: "shi_requested it \<le> on_hand_at tn (shp_from sh) (shi_item it) s"
    using source_on_hand_Inr [OF reads(1) sch] reads(2) tn by auto
  note post = posted [OF create [unfolded s0] adjust new_movement_fields(1) sch]
  have "clamped_add (on_hand_at tn (shp_from sh) (shi_item it) s) (- shi_requested it) =
      on_hand_at tn (shp_from sh) (shi_item it) s - shi_requested it"
    using enough q level_quantities [OF sch, of tn "shp_from sh" "shi_item it"]
    by (simp add: clamped_add_decimal quantity_ok_def)
  then have stock2: "stock tn' i' s2 = stock tn' i' s - (if (tn', i') = (tn, shi_item it) then shi_requested it else 0)" for tn' i'
    using post(3) [of tn' i'] by simp
  have sel: "(\<lambda>r. shi_tenant r = tn \<and> shi_shipment r = k \<and> shi_item r = j) =
      (\<lambda>r. shi_tenant r = tx_tenant tx \<and> shi_shipment r = k \<and> shi_item r = j)" for k j
    using tn by simp
  note s3 = set_shipped_Inr [OF set]
  show "stock tn' i' s' = stock tn' i' s - (if (tn', i') = (tn, shi_item it) then shi_requested it else 0)"
    using rest stock2 [of tn' i'] unfolding s3 by (auto simp: stock_def dest!: add_shipped_Inr split: option.splits)
  show "ivd_shipments s' = ivd_shipments s" "ivd_orders s' = ivd_orders s"
    using rest post(1) unfolding s3 by (auto simp: same_papers_def dest!: add_shipped_Inr split: option.splits)
  have "ivd_shipment_items s' = ivd_shipment_items s3"
    using rest by (auto dest!: add_shipped_Inr split: option.splits)
  then show "ivd_shipment_items s' = update_rows
      (\<lambda>r. shi_tenant r = tn \<and> shi_shipment r = shp_id sh \<and> shi_item r = shi_item it)
      (\<lambda>r. r\<lparr>shi_shipped := shi_requested it\<rparr>) (ivd_shipment_items s)"
    using post(1) q by (simp add: s3 rls_update_def tn same_papers_def quantity_ok_def)
  show "ivd_order_items s' = update_rows
      (\<lambda>b. bti_tenant b = tn \<and> shp_order sh = Some (bti_order b) \<and> bti_item b = shi_item it)
      (\<lambda>b. b\<lparr>bti_shipped := numeric 3 (bti_shipped b + shi_requested it)\<rparr>) (ivd_order_items s)"
  proof (cases "shp_order sh")
    case None
    then show ?thesis using rest post(1) by (auto simp: s3 same_papers_def update_rows_id)
  next
    case (Some k)
    with rest add_shipped_Inr [of tx k "shi_item it" "shi_requested it" s3 u s'] post(1) show ?thesis
      by (simp add: s3 rls_update_def tn same_papers_def eq_commute [of k])
  qed
qed

section \<open>One line arrives\<close>

lemma receive_item_zero: "shi_shipped it \<le> 0 \<Longrightarrow> receive_item tx tn sh w it s = Inr ((), s)"
  by (simp add: receive_item_def)

lemma set_cost_effect:
  assumes "StockLevelRepo_SetLastCost tx tn w i price cur src s = Inr (u, s')"
  shows "same_papers s s'" and "stock tn' i' s' = stock tn' i' s"
proof -
  let ?g = "\<lambda>r. r\<lparr>lvl_cost := Some (numeric 4 price), lvl_cost_currency := Some (char3 cur),
    lvl_cost_source := Some src, lvl_cost_at := Some (tx_now tx), lvl_updated := tx_now tx\<rparr>"
  have s': "s' = s\<lparr>ivd_levels := rls_update lvl_tenant tx (at_place tn w i) ?g (ivd_levels s)\<rparr>"
    using assms by (auto simp: StockLevelRepo_SetLastCost_def tx_inv stock_levels.update_Inr)
  then show "same_papers s s'" by (simp add: same_papers_def)
  have "(\<Sum>l \<leftarrow> rls_update lvl_tenant tx (at_place tn w i) ?g ls.
      if lvl_tenant l = tn' \<and> lvl_item l = i' then lvl_on_hand l else 0) =
    (\<Sum>l \<leftarrow> ls. if lvl_tenant l = tn' \<and> lvl_item l = i' then lvl_on_hand l else 0)" for ls
    by (induction ls) auto
  then show "stock tn' i' s' = stock tn' i' s" by (simp add: s' stock_def)
qed

lemma receive_item_effect:
  assumes run: "receive_item tx tn sh w it s = Inr (u, s')" and tn: "tx_tenant tx = tn"
    and sch: "inv_schema s" and q: "quantity_ok (shi_shipped it)" and pos: "0 < shi_shipped it"
  shows "stock tn' i' s' = stock tn' i' s + (if (tn', i') = (tn, shi_item it) then shi_shipped it else 0)"
    and "ivd_shipments s' = ivd_shipments s" and "ivd_orders s' = ivd_orders s"
    and "ivd_shipment_items s' = update_rows
      (\<lambda>r. shi_tenant r = tn \<and> shi_shipment r = shp_id sh \<and> shi_item r = shi_item it)
      (\<lambda>r. r\<lparr>shi_received := shi_shipped it\<rparr>) (ivd_shipment_items s)"
    and "ivd_order_items s' = update_rows
      (\<lambda>b. bti_tenant b = tn \<and> shp_order sh = Some (bti_order b) \<and> bti_item b = shi_item it)
      (\<lambda>b. b\<lparr>bti_received := numeric 3 (bti_received b + shi_shipped it)\<rparr>) (ivd_order_items s)"
proof -
  from run pos obtain m s1 l s2 u1 s3 u2 s4 where
    create: "StockMovementRepo_Create tx (new_movement tn w (shi_item it) MovementIn
      (shi_shipped it) (Some (shp_id sh)) (Some ''shipment'')) s = Inr (m, s1)"
    and adjust: "StockLevelRepo_AdjustOnHand tx tn w (shi_item it) (shi_shipped it) (shi_unit it) s1 = Inr (l, s2)"
    and cost: "(case shi_price it of None \<Rightarrow> tx_return ()
         | Some price \<Rightarrow> StockLevelRepo_SetLastCost tx tn w (shi_item it) price
             (case shi_currency it of None \<Rightarrow> ''TRY'' | Some cur \<Rightarrow> if cur = '''' then ''TRY'' else cur)
             CostTransfer) s2 = Inr (u1, s3)"
    and set: "ShipmentItemRepo_SetReceivedQty tx (shp_id sh) (shi_item it) (shi_shipped it) s3 = Inr (u2, s4)"
    and rest: "(case shp_order sh of None \<Rightarrow> tx_return ()
         | Some k \<Rightarrow> TransferOrderItemRepo_AddReceivedQty tx k (shi_item it) (shi_shipped it)) s4 = Inr (u, s')"
    by (auto simp: receive_item_def Let_def tx_bind_Inr)
  note post = posted [OF create adjust new_movement_fields(1) sch]
  have "clamped_add (on_hand_at tn w (shi_item it) s) (shi_shipped it) =
      on_hand_at tn w (shi_item it) s + shi_shipped it"
    using q level_quantities [OF sch, of tn w "shi_item it"]
    by (simp add: clamped_add_decimal quantity_ok_def)
  then have stock2: "stock tn' i' s2 = stock tn' i' s + (if (tn', i') = (tn, shi_item it) then shi_shipped it else 0)" for tn' i'
    using post(3) [of tn' i'] by simp
  have papers: "same_papers s s3" and stock3: "stock tn' i' s3 = stock tn' i' s2" for tn' i'
    using cost post(1) set_cost_effect [of tx tn w "shi_item it" _ _ CostTransfer s2 u1 s3]
    by (auto simp: same_papers_def split: option.splits)
  note s4 = set_received_Inr [OF set]
  show "stock tn' i' s' = stock tn' i' s + (if (tn', i') = (tn, shi_item it) then shi_shipped it else 0)"
    using rest stock2 [of tn' i'] stock3 [of tn' i'] unfolding s4
    by (auto simp: stock_def dest!: add_received_Inr split: option.splits)
  show "ivd_shipments s' = ivd_shipments s" "ivd_orders s' = ivd_orders s"
    using rest papers unfolding s4 by (auto simp: same_papers_def dest!: add_received_Inr split: option.splits)
  have "ivd_shipment_items s' = ivd_shipment_items s4"
    using rest by (auto dest!: add_received_Inr split: option.splits)
  then show "ivd_shipment_items s' = update_rows
      (\<lambda>r. shi_tenant r = tn \<and> shi_shipment r = shp_id sh \<and> shi_item r = shi_item it)
      (\<lambda>r. r\<lparr>shi_received := shi_shipped it\<rparr>) (ivd_shipment_items s)"
    using papers q by (simp add: s4 rls_update_def tn same_papers_def quantity_ok_def)
  show "ivd_order_items s' = update_rows
      (\<lambda>b. bti_tenant b = tn \<and> shp_order sh = Some (bti_order b) \<and> bti_item b = shi_item it)
      (\<lambda>b. b\<lparr>bti_received := numeric 3 (bti_received b + shi_shipped it)\<rparr>) (ivd_order_items s)"
  proof (cases "shp_order sh")
    case None
    then show ?thesis using rest papers by (auto simp: s4 same_papers_def update_rows_id)
  next
    case (Some k)
    with rest add_received_Inr [of tx k "shi_item it" "shi_shipped it" s4 u s'] papers show ?thesis
      by (simp add: s4 rls_update_def tn same_papers_def eq_commute [of k])
  qed
qed

section \<open>All lines\<close>

definition amount :: "(shipment_item \<Rightarrow> float64) \<Rightarrow> uuid \<Rightarrow> shipment_item list \<Rightarrow> float64" where
  "amount f i xs = (\<Sum>x \<leftarrow> xs. if shi_item x = i then f x else 0)"

definition lines_of :: "uuid \<Rightarrow> uuid \<Rightarrow> shipment_item list \<Rightarrow> shipment_item list" where
  "lines_of tn k rows = filter (\<lambda>r. shi_tenant r = tn \<and> shi_shipment r = k) rows"

definition left_line :: "shipment_item \<Rightarrow> shipment_item" where
  "left_line r = r\<lparr>shi_shipped := shi_requested r\<rparr>"

definition arrived_line :: "shipment_item \<Rightarrow> shipment_item" where
  "arrived_line r = (if 0 < shi_shipped r then r\<lparr>shi_received := shi_shipped r\<rparr> else r)"

definition order_line_served :: "uuid \<Rightarrow> shipment \<Rightarrow> transfer_order_item \<Rightarrow> bool" where
  "order_line_served tn sh b \<longleftrightarrow> bti_tenant b = tn \<and> shp_order sh = Some (bti_order b)"

lemma amount_simps [simp]:
  "amount f i [] = 0"
  "amount f i (x # xs) = (if shi_item x = i then f x else 0) + amount f i xs"
  by (simp_all add: amount_def)

lemma amount_cong: "mset xs = mset ys \<Longrightarrow> amount f i xs = amount f i ys"
  unfolding amount_def by (simp flip: sum_mset_sum_list)

lemma update_rows_fuse:
  assumes "\<And>r. r \<in> set rows \<Longrightarrow> P r \<Longrightarrow> (if Q (f r) then g (f r) else f r) = (if S r then h r else r)"
    and "\<And>r. r \<in> set rows \<Longrightarrow> \<not> P r \<Longrightarrow> (if Q r then g r else r) = (if S r then h r else r)"
  shows "update_rows Q g (update_rows P f rows) = update_rows S h rows"
  unfolding update_rows_def map_map
proof (rule map_cong [OF refl])
  fix r
  assume "r \<in> set rows"
  then show "((\<lambda>r. if Q r then g r else r) \<circ> (\<lambda>r. if P r then f r else r)) r = (if S r then h r else r)"
    using assms(1) [of r] assms(2) [of r] by (cases "P r") (simp_all only: o_apply simp_thms if_True if_False)
qed

lemma update_rows_cong:
  assumes "\<And>r. r \<in> set rows \<Longrightarrow> (if P r then f r else r) = (if Q r then g r else r)"
  shows "update_rows P f rows = update_rows Q g rows"
  using assms by (simp add: update_rows_def)

lemma update_rowsE:
  assumes "r \<in> set (update_rows P f rows)"
  obtains r0 where "r0 \<in> set rows" and "r = (if P r0 then f r0 else r0)"
  using assms by (auto simp: update_rows_def)

lemma ship_item_keeps: "keeps_schema (ship_item quiet tx tn sh it)"
  unfolding ship_item_alone by (intro schema_kept.within_rules inv_intro)

lemma receive_item_keeps: "keeps_schema (receive_item tx tn sh w it)"
  unfolding receive_item_def by (intro schema_kept.within_rules inv_intro)

lemma order_quantities:
  "inv_schema s \<Longrightarrow> b \<in> set (ivd_order_items s) \<Longrightarrow> decimal 3 (bti_shipped b) \<and> decimal 3 (bti_received b)"
  by (simp add: inv_schema_def table_local_ok_def transfer_order_item_row_ok_def quantity_ok_def)

lemma ship_items_effect:
  assumes "tx_each (ship_item quiet tx tn sh) xs s = Inr (u, s')" and tn: "tx_tenant tx = tn"
    and "inv_schema s" and "\<forall>x \<in> set xs. quantity_ok (shi_requested x)"
    and "\<forall>x \<in> set xs. \<forall>r \<in> set (ivd_shipment_items s).
      shi_tenant r = tn \<and> shi_shipment r = shp_id sh \<and> shi_item r = shi_item x \<longrightarrow> shi_requested r = shi_requested x"
  shows "stock tn' i' s' = stock tn' i' s - (if tn' = tn then amount shi_requested i' xs else 0) \<and>
    ivd_shipments s' = ivd_shipments s \<and> ivd_orders s' = ivd_orders s \<and>
    ivd_shipment_items s' = update_rows
      (\<lambda>r. shi_tenant r = tn \<and> shi_shipment r = shp_id sh \<and> shi_item r \<in> shi_item ` set xs)
      left_line (ivd_shipment_items s) \<and>
    ivd_order_items s' = update_rows (order_line_served tn sh)
      (\<lambda>b. b\<lparr>bti_shipped := bti_shipped b + amount shi_requested (bti_item b) xs\<rparr>) (ivd_order_items s)"
  using assms(1,3-)
proof (induction xs arbitrary: s)
  case Nil
  then show ?case by (simp add: update_rows_def)
next
  case (Cons x xs)
  from Cons.prems(1) obtain u1 s1 where one: "ship_item quiet tx tn sh x s = Inr (u1, s1)"
    and rest: "tx_each (ship_item quiet tx tn sh) xs s1 = Inr (u, s')" by (auto simp: tx_bind_Inr)
  note eff = ship_item_effect [OF one tn Cons.prems(2)]
  have q: "quantity_ok (shi_requested x)" using Cons.prems(3) by simp
  have sch1: "inv_schema s1" by (rule tx_onD [OF ship_item_keeps Cons.prems(2) one])
  have agree: "\<forall>y \<in> set xs. \<forall>r \<in> set (ivd_shipment_items s1).
      shi_tenant r = tn \<and> shi_shipment r = shp_id sh \<and> shi_item r = shi_item y \<longrightarrow> shi_requested r = shi_requested y"
  proof (intro ballI impI)
    fix y r
    assume y: "y \<in> set xs" and r: "r \<in> set (ivd_shipment_items s1)"
      and key: "shi_tenant r = tn \<and> shi_shipment r = shp_id sh \<and> shi_item r = shi_item y"
    from r obtain r0 where "r0 \<in> set (ivd_shipment_items s)" and "shi_tenant r0 = shi_tenant r"
      and "shi_shipment r0 = shi_shipment r" and "shi_item r0 = shi_item r" and "shi_requested r0 = shi_requested r"
      unfolding eff(4) [OF q] by (elim update_rowsE) auto
    with key y Cons.prems(4) show "shi_requested r = shi_requested y" by (metis list.set_intros(2))
  qed
  have ih: "stock tn' i' s' = stock tn' i' s1 - (if tn' = tn then amount shi_requested i' xs else 0) \<and>
    ivd_shipments s' = ivd_shipments s1 \<and> ivd_orders s' = ivd_orders s1 \<and>
    ivd_shipment_items s' = update_rows
      (\<lambda>r. shi_tenant r = tn \<and> shi_shipment r = shp_id sh \<and> shi_item r \<in> shi_item ` set xs)
      left_line (ivd_shipment_items s1) \<and>
    ivd_order_items s' = update_rows (order_line_served tn sh)
      (\<lambda>b. b\<lparr>bti_shipped := bti_shipped b + amount shi_requested (bti_item b) xs\<rparr>) (ivd_order_items s1)"
    using Cons.IH [OF rest sch1 _ agree] Cons.prems(3) by simp
  have items: "update_rows (\<lambda>r. shi_tenant r = tn \<and> shi_shipment r = shp_id sh \<and> shi_item r \<in> shi_item ` set xs)
      left_line (ivd_shipment_items s1) =
    update_rows (\<lambda>r. shi_tenant r = tn \<and> shi_shipment r = shp_id sh \<and> shi_item r \<in> shi_item ` set (x # xs))
      left_line (ivd_shipment_items s)"
    unfolding eff(4) [OF q] by (rule update_rows_fuse) (use Cons.prems(4) in \<open>auto simp: left_line_def\<close>)
  have lines: "update_rows (order_line_served tn sh)
      (\<lambda>b. b\<lparr>bti_shipped := bti_shipped b + amount shi_requested (bti_item b) xs\<rparr>) (ivd_order_items s1) =
    update_rows (order_line_served tn sh)
      (\<lambda>b. b\<lparr>bti_shipped := bti_shipped b + amount shi_requested (bti_item b) (x # xs)\<rparr>) (ivd_order_items s)"
    unfolding eff(5) [OF q]
    by (rule update_rows_fuse)
       (use order_quantities [OF Cons.prems(2)] q in
         \<open>auto simp: order_line_served_def quantity_ok_def decimal_add add.assoc\<close>)
  from ih show ?case
    unfolding items lines by (simp add: eff(1-3) [OF q])
qed

lemma receive_items_effect:
  assumes "tx_each (receive_item tx tn sh w) xs s = Inr (u, s')" and tn: "tx_tenant tx = tn"
    and "inv_schema s" and "\<forall>x \<in> set xs. quantity_ok (shi_shipped x)"
    and "\<forall>x \<in> set xs. \<forall>r \<in> set (ivd_shipment_items s).
      shi_tenant r = tn \<and> shi_shipment r = shp_id sh \<and> shi_item r = shi_item x \<longrightarrow> shi_shipped r = shi_shipped x"
  shows "stock tn' i' s' = stock tn' i' s + (if tn' = tn then amount shi_shipped i' xs else 0) \<and>
    ivd_shipments s' = ivd_shipments s \<and> ivd_orders s' = ivd_orders s \<and>
    ivd_shipment_items s' = update_rows
      (\<lambda>r. shi_tenant r = tn \<and> shi_shipment r = shp_id sh \<and> shi_item r \<in> shi_item ` set xs)
      arrived_line (ivd_shipment_items s) \<and>
    ivd_order_items s' = update_rows (order_line_served tn sh)
      (\<lambda>b. b\<lparr>bti_received := bti_received b + amount shi_shipped (bti_item b) xs\<rparr>) (ivd_order_items s)"
  using assms(1,3-)
proof (induction xs arbitrary: s)
  case Nil
  then show ?case by (simp add: update_rows_def)
next
  case (Cons x xs)
  from Cons.prems(1) obtain u1 s1 where one: "receive_item tx tn sh w x s = Inr (u1, s1)"
    and rest: "tx_each (receive_item tx tn sh w) xs s1 = Inr (u, s')" by (auto simp: tx_bind_Inr)
  have q: "quantity_ok (shi_shipped x)" using Cons.prems(3) by simp
  have sch1: "inv_schema s1" by (rule tx_onD [OF receive_item_keeps Cons.prems(2) one])
  have eff: "stock tn' i' s1 = stock tn' i' s + (if (tn', i') = (tn, shi_item x) then shi_shipped x else 0)"
      "ivd_shipments s1 = ivd_shipments s" "ivd_orders s1 = ivd_orders s"
      "ivd_shipment_items s1 = update_rows
        (\<lambda>r. shi_tenant r = tn \<and> shi_shipment r = shp_id sh \<and> shi_item r = shi_item x)
        arrived_line (ivd_shipment_items s)"
      "ivd_order_items s1 = update_rows (\<lambda>b. order_line_served tn sh b \<and> bti_item b = shi_item x)
        (\<lambda>b. b\<lparr>bti_received := bti_received b + shi_shipped x\<rparr>) (ivd_order_items s)" for tn' i'
  proof -
    have arr: "update_rows (\<lambda>r. shi_tenant r = tn \<and> shi_shipment r = shp_id sh \<and> shi_item r = shi_item x)
        arrived_line (ivd_shipment_items s) =
      (if 0 < shi_shipped x
       then update_rows (\<lambda>r. shi_tenant r = tn \<and> shi_shipment r = shp_id sh \<and> shi_item r = shi_item x)
         (\<lambda>r. r\<lparr>shi_received := shi_shipped x\<rparr>) (ivd_shipment_items s)
       else update_rows (\<lambda>_. False) id (ivd_shipment_items s))"
    proof -
      have x: "shi_shipped r = shi_shipped x" if "r \<in> set (ivd_shipment_items s)"
          "shi_tenant r = tn \<and> shi_shipment r = shp_id sh \<and> shi_item r = shi_item x" for r
        using Cons.prems(4) that by (metis list.set_intros(1))
      show ?thesis
        by (cases "0 < shi_shipped x"; simp only: if_True if_False; rule update_rows_cong)
           (simp_all add: arrived_line_def x)
    qed
    have add: "update_rows (\<lambda>b. order_line_served tn sh b \<and> bti_item b = shi_item x)
        (\<lambda>b. b\<lparr>bti_received := bti_received b + shi_shipped x\<rparr>) (ivd_order_items s) =
      (if 0 < shi_shipped x
       then update_rows (\<lambda>b. bti_tenant b = tn \<and> shp_order sh = Some (bti_order b) \<and> bti_item b = shi_item x)
         (\<lambda>b. b\<lparr>bti_received := numeric 3 (bti_received b + shi_shipped x)\<rparr>) (ivd_order_items s)
       else update_rows (\<lambda>_. False) id (ivd_order_items s))"
      using order_quantities [OF Cons.prems(2)] q
      by (cases "0 < shi_shipped x"; simp only: if_True if_False; intro update_rows_cong)
         (simp_all add: order_line_served_def quantity_ok_def decimal_add)
    have none: "update_rows (\<lambda>_. False) f rows = rows" for f :: "'r \<Rightarrow> 'r" and rows
      by (simp add: update_rows_id)
    note step = receive_item_effect [OF one tn Cons.prems(2) q]
    note zero = receive_item_zero [of x tx tn sh w s]
    show "stock tn' i' s1 = stock tn' i' s + (if (tn', i') = (tn, shi_item x) then shi_shipped x else 0)" for tn' i'
      using step(1) zero one q by (cases "0 < shi_shipped x") (simp_all add: quantity_ok_def)
    show "ivd_shipments s1 = ivd_shipments s" "ivd_orders s1 = ivd_orders s"
      using step(2,3) zero one q by (cases "0 < shi_shipped x"; simp add: quantity_ok_def)+
    show "ivd_shipment_items s1 = update_rows
        (\<lambda>r. shi_tenant r = tn \<and> shi_shipment r = shp_id sh \<and> shi_item r = shi_item x)
        arrived_line (ivd_shipment_items s)"
      unfolding arr using step(4) zero one q by (cases "0 < shi_shipped x") (simp_all add: quantity_ok_def none)
    show "ivd_order_items s1 = update_rows (\<lambda>b. order_line_served tn sh b \<and> bti_item b = shi_item x)
        (\<lambda>b. b\<lparr>bti_received := bti_received b + shi_shipped x\<rparr>) (ivd_order_items s)"
      unfolding add using step(5) zero one q by (cases "0 < shi_shipped x") (simp_all add: quantity_ok_def none)
  qed
  have agree: "\<forall>y \<in> set xs. \<forall>r \<in> set (ivd_shipment_items s1).
      shi_tenant r = tn \<and> shi_shipment r = shp_id sh \<and> shi_item r = shi_item y \<longrightarrow> shi_shipped r = shi_shipped y"
  proof (intro ballI impI)
    fix y r
    assume y: "y \<in> set xs" and r: "r \<in> set (ivd_shipment_items s1)"
      and key: "shi_tenant r = tn \<and> shi_shipment r = shp_id sh \<and> shi_item r = shi_item y"
    from r obtain r0 where "r0 \<in> set (ivd_shipment_items s)" and "shi_tenant r0 = shi_tenant r"
      and "shi_shipment r0 = shi_shipment r" and "shi_item r0 = shi_item r" and "shi_shipped r0 = shi_shipped r"
      unfolding eff(4) by (elim update_rowsE) (auto simp: arrived_line_def)
    with key y Cons.prems(4) show "shi_shipped r = shi_shipped y" by (metis list.set_intros(2))
  qed
  have ih: "stock tn' i' s' = stock tn' i' s1 + (if tn' = tn then amount shi_shipped i' xs else 0) \<and>
    ivd_shipments s' = ivd_shipments s1 \<and> ivd_orders s' = ivd_orders s1 \<and>
    ivd_shipment_items s' = update_rows
      (\<lambda>r. shi_tenant r = tn \<and> shi_shipment r = shp_id sh \<and> shi_item r \<in> shi_item ` set xs)
      arrived_line (ivd_shipment_items s1) \<and>
    ivd_order_items s' = update_rows (order_line_served tn sh)
      (\<lambda>b. b\<lparr>bti_received := bti_received b + amount shi_shipped (bti_item b) xs\<rparr>) (ivd_order_items s1)"
    using Cons.IH [OF rest sch1 _ agree] Cons.prems(3) by simp
  have items: "update_rows (\<lambda>r. shi_tenant r = tn \<and> shi_shipment r = shp_id sh \<and> shi_item r \<in> shi_item ` set xs)
      arrived_line (ivd_shipment_items s1) =
    update_rows (\<lambda>r. shi_tenant r = tn \<and> shi_shipment r = shp_id sh \<and> shi_item r \<in> shi_item ` set (x # xs))
      arrived_line (ivd_shipment_items s)"
    unfolding eff(4) by (rule update_rows_fuse) (auto simp: arrived_line_def)
  have lines: "update_rows (order_line_served tn sh)
      (\<lambda>b. b\<lparr>bti_received := bti_received b + amount shi_shipped (bti_item b) xs\<rparr>) (ivd_order_items s1) =
    update_rows (order_line_served tn sh)
      (\<lambda>b. b\<lparr>bti_received := bti_received b + amount shi_shipped (bti_item b) (x # xs)\<rparr>) (ivd_order_items s)"
    unfolding eff(5) by (rule update_rows_fuse) (auto simp: order_line_served_def add.assoc)
  from ih show ?case
    unfolding items lines by (simp add: eff(1-3))
qed

section \<open>A shipment leaves, a shipment arrives\<close>

definition shipment_at :: "uuid \<Rightarrow> uuid \<Rightarrow> shipment \<Rightarrow> bool" where
  "shipment_at tn k r \<longleftrightarrow> shp_tenant r = tn \<and> shp_id r = k"

definition order_at :: "uuid \<Rightarrow> uuid \<Rightarrow> transfer_order \<Rightarrow> bool" where
  "order_at tn k r \<longleftrightarrow> bto_tenant r = tn \<and> bto_id r = k"

definition moved_shipment ::
  "time \<Rightarrow> shipment_status \<Rightarrow> time option \<Rightarrow> time option \<Rightarrow> shipment \<Rightarrow> shipment" where
  "moved_shipment now st shippedAt receivedAt r =
     r\<lparr>shp_status := st, shp_shipped := (if shippedAt = None then shp_shipped r else shippedAt),
       shp_received := (if receivedAt = None then shp_received r else receivedAt), shp_updated := now\<rparr>"

definition moved_order ::
  "time \<Rightarrow> bto_status \<Rightarrow> time option \<Rightarrow> time option \<Rightarrow> uuid option \<Rightarrow> transfer_order \<Rightarrow> transfer_order" where
  "moved_order now st submittedAt approvedAt approvedBy r =
     r\<lparr>bto_status := st, bto_submitted := (if submittedAt = None then bto_submitted r else submittedAt),
       bto_approved := (if approvedAt = None then bto_approved r else approvedAt),
       bto_approved_by := (if approvedBy = None then bto_approved_by r else approvedBy), bto_updated := now\<rparr>"

lemma moved_fields [simp]:
  "shp_id (moved_shipment now st t1 t2 r) = shp_id r"
  "shp_tenant (moved_shipment now st t1 t2 r) = shp_tenant r"
  "shp_order (moved_shipment now st t1 t2 r) = shp_order r"
  "shp_status (moved_shipment now st t1 t2 r) = st"
  "bto_id (moved_order now bst t1 t2 b o') = bto_id o'"
  "bto_tenant (moved_order now bst t1 t2 b o') = bto_tenant o'"
  "bto_status (moved_order now bst t1 t2 b o') = bst"
  by (simp_all add: moved_shipment_def moved_order_def)

lemma Shipment_UpdateStatus_Inr:
  assumes "ShipmentRepo_UpdateStatus tx i st t1 t2 s = Inr (r, s')"
  shows "s' = s\<lparr>ivd_shipments := update_rows (shipment_at (tx_tenant tx) i)
    (moved_shipment (tx_now tx) st t1 t2) (ivd_shipments s)\<rparr>"
  using assms
  by (auto simp: ShipmentRepo_UpdateStatus_def tx_bind_Inr shipments.update_Inr query_row_Inr rls_update_def
      shipment_at_def [abs_def] moved_shipment_def [abs_def])

lemma Order_UpdateStatus_Inr:
  assumes "TransferOrderRepo_UpdateStatus tx i st t1 t2 b s = Inr (r, s')"
  shows "s' = s\<lparr>ivd_orders := update_rows (order_at (tx_tenant tx) i)
    (moved_order (tx_now tx) st t1 t2 b) (ivd_orders s)\<rparr>"
  using assms
  by (auto simp: TransferOrderRepo_UpdateStatus_def tx_bind_Inr transfer_orders.update_Inr query_row_Inr
      rls_update_def order_at_def [abs_def] moved_order_def [abs_def])

lemma Shipment_GetByID_Inr:
  "ShipmentRepo_GetByID tx i s = Inr (sh, s') \<Longrightarrow> s' = s \<and> sh \<in> set (ivd_shipments s) \<and> shipment_at (tx_tenant tx) i sh"
  by (auto simp: ShipmentRepo_GetByID_def tx_bind_Inr found_row_Inr shipment_at_def dest!: rls_find_Some)

lemma Order_GetByID_Inr:
  "TransferOrderRepo_GetByID tx i s = Inr (o', s') \<Longrightarrow> s' = s \<and> o' \<in> set (ivd_orders s) \<and> order_at (tx_tenant tx) i o'"
  by (auto simp: TransferOrderRepo_GetByID_def tx_bind_Inr found_row_Inr order_at_def dest!: rls_find_Some)

lemma guard_Inr:
  "requireFromWarehouseBranch c tx p sh s = Inr (u, s') \<Longrightarrow> s' = s"
  "check_shipment_transition sh st s = Inr (u, s') \<longleftrightarrow> s' = s \<and> st \<in> set (allowedShipmentTransitions (shp_status sh))"
  by (auto simp: requireFromWarehouseBranch_def check_shipment_transition_def WarehouseRepo_GetByID_def
      tx_inv found_row_Inr shipment_life.transition_iff)

text \<open>What an event of a shipment does to the order it serves: nothing, or a step to \<open>to\<close>.\<close>

definition order_reaches :: "uuid \<Rightarrow> uuid \<Rightarrow> bto_status \<Rightarrow> inv_db \<Rightarrow> inv_db \<Rightarrow> bool" where
  "order_reaches tn k to s s' \<longleftrightarrow>
     (\<exists>o' \<in> set (ivd_orders s). order_at tn k o' \<and>
        (bto_status o' = to \<and> s' = s \<or>
         to \<in> set (allowedBTOTransitions (bto_status o')) \<and>
         (\<exists>now. s' = s\<lparr>ivd_orders := update_rows (order_at tn k) (moved_order now to None None None) (ivd_orders s)\<rparr>)))"

lemma transitionLinkedBTO_Inr:
  assumes "transitionLinkedBTO tx k to s = Inr (u, s')"
  shows "order_reaches (tx_tenant tx) k to s s'"
  using assms
  by (auto simp: transitionLinkedBTO_def tx_bind_Inr tx_lift_Inr bto_life.transition_iff order_reaches_def
      dest!: Order_GetByID_Inr Order_UpdateStatus_Inr split: if_splits)

lemma listed_lines:
  assumes "ShipmentItemRepo_ListByShipment tx i s = Inr (items, s')"
  shows "s' = s" and "mset items = mset (lines_of (tx_tenant tx) i (ivd_shipment_items s))"
    and "set items = {r \<in> set (ivd_shipment_items s). shi_tenant r = tx_tenant tx \<and> shi_shipment r = i}"
  using assms by (auto simp: ShipmentItemRepo_ListByShipment_def tx_bind_Inr lines_of_def rls_select_def)

lemma lines_agree:
  assumes "inv_schema s" and "x \<in> set (ivd_shipment_items s)" and "r \<in> set (ivd_shipment_items s)"
    and "shi_shipment r = shi_shipment x" and "shi_item r = shi_item x"
  shows "r = x"
proof -
  have "distinct (map shi_key (ivd_shipment_items s))"
    using assms(1) by (simp add: inv_schema_def table_local_ok_def)
  then show ?thesis by (rule distinct_key_unique) (use assms in simp_all)
qed

lemma line_quantities:
  "inv_schema s \<Longrightarrow> r \<in> set (ivd_shipment_items s) \<Longrightarrow>
   quantity_ok (shi_requested r) \<and> quantity_ok (shi_shipped r) \<and> quantity_ok (shi_received r)"
  by (simp add: inv_schema_def table_local_ok_def shipment_item_row_ok_def)

definition line_at :: "uuid \<Rightarrow> uuid \<Rightarrow> shipment_item \<Rightarrow> bool" where
  "line_at tn k r \<longleftrightarrow> shi_tenant r = tn \<and> shi_shipment r = k"

definition left_with :: "uuid \<Rightarrow> shipment \<Rightarrow> time \<Rightarrow> inv_db \<Rightarrow> inv_db \<Rightarrow> bool" where
  "left_with tn sh now s s' \<longleftrightarrow>
     (let lines = lines_of tn (shp_id sh) (ivd_shipment_items s) in
      (\<forall>tn' i. stock tn' i s' = stock tn' i s - (if tn' = tn then amount shi_requested i lines else 0)) \<and>
      ivd_shipments s' = update_rows (shipment_at tn (shp_id sh))
        (moved_shipment now ShipmentInTransit (Some now) None) (ivd_shipments s) \<and>
      ivd_shipment_items s' = update_rows (line_at tn (shp_id sh)) left_line (ivd_shipment_items s) \<and>
      ivd_order_items s' = update_rows (order_line_served tn sh)
        (\<lambda>b. b\<lparr>bti_shipped := bti_shipped b + amount shi_requested (bti_item b) lines\<rparr>) (ivd_order_items s))"

definition arrived_with :: "uuid \<Rightarrow> shipment \<Rightarrow> time \<Rightarrow> inv_db \<Rightarrow> inv_db \<Rightarrow> bool" where
  "arrived_with tn sh now s s' \<longleftrightarrow>
     (let lines = lines_of tn (shp_id sh) (ivd_shipment_items s) in
      (\<forall>tn' i. stock tn' i s' = stock tn' i s + (if tn' = tn then amount shi_shipped i lines else 0)) \<and>
      ivd_shipments s' = update_rows (shipment_at tn (shp_id sh))
        (moved_shipment now ShipmentReceived None (Some now)) (ivd_shipments s) \<and>
      ivd_shipment_items s' = update_rows (line_at tn (shp_id sh)) arrived_line (ivd_shipment_items s) \<and>
      ivd_order_items s' = update_rows (order_line_served tn sh)
        (\<lambda>b. b\<lparr>bti_received := bti_received b + amount shi_shipped (bti_item b) lines\<rparr>) (ivd_order_items s))"

lemma Advance_effect:
  assumes run: "ShipmentService_Advance quiet c tn p i s = Inr (r, s')" and sch: "inv_schema s"
  obtains sh s1 where "sh \<in> set (ivd_shipments s)" and "shipment_at tn i sh" and "shp_status sh = ShipmentApproved"
    and "left_with tn sh (ctx_now c) s s1" and "ivd_orders s1 = ivd_orders s"
    and "case shp_order sh of None \<Rightarrow> s' = s1 | Some k \<Rightarrow> order_reaches tn k BTOShipped s1 s'"
proof -
  let ?tx = "inv_tx c tn"
  from run obtain sh sa v sb items sc s0 u s2 where get': "ShipmentRepo_GetByID ?tx i s = Inr (sh, sa)"
    and branch: "requireFromWarehouseBranch c ?tx p sh sa = Inr (v, sb)"
    and allowed: "ShipmentInTransit \<in> set (allowedShipmentTransitions (shp_status sh))"
    and items': "ShipmentItemRepo_ListByShipment ?tx i sb = Inr (items, sc)"
    and loop': "tx_each (ship_item quiet ?tx tn sh) items sc = Inr (u, s0)"
    and upd: "ShipmentRepo_UpdateStatus ?tx i ShipmentInTransit (Some (ctx_now c)) None s0 = Inr (r, s2)"
    and bto: "(case shp_order sh of None \<Rightarrow> tx_return () | Some k \<Rightarrow> transitionLinkedBTO ?tx k BTOShipped) s2 = Inr ((), s')"
    by (auto simp: ShipmentService_Advance_def advanceTx_def tx_bind_Inr guard_Inr(2))
  have st: "sa = s" "sb = s" "sc = s"
    using Shipment_GetByID_Inr [OF get'] guard_Inr(1) [OF branch] listed_lines(1) [OF items'] by simp_all
  note get = get' [unfolded st] and items = items' [unfolded st] and loop = loop' [unfolded st]
  have sh: "sh \<in> set (ivd_shipments s)" "shipment_at tn i sh" using Shipment_GetByID_Inr [OF get] by auto
  then have id: "shp_id sh = i" by (simp add: shipment_at_def)
  have approved: "shp_status sh = ShipmentApproved" using allowed by (cases "shp_status sh") auto
  note lines = listed_lines(2,3) [OF items, simplified]
  have after: "stock tn' i' s0 = stock tn' i' s - (if tn' = tn then amount shi_requested i' items else 0) \<and>
    ivd_shipments s0 = ivd_shipments s \<and> ivd_orders s0 = ivd_orders s \<and>
    ivd_shipment_items s0 = update_rows
      (\<lambda>r. shi_tenant r = tn \<and> shi_shipment r = shp_id sh \<and> shi_item r \<in> shi_item ` set items)
      left_line (ivd_shipment_items s) \<and>
    ivd_order_items s0 = update_rows (order_line_served tn sh)
      (\<lambda>b. b\<lparr>bti_shipped := bti_shipped b + amount shi_requested (bti_item b) items\<rparr>) (ivd_order_items s)" for tn' i'
  proof (rule ship_items_effect [OF loop _ sch])
    show "\<forall>x \<in> set items. quantity_ok (shi_requested x)" using lines(2) line_quantities [OF sch] by auto
    show "\<forall>x \<in> set items. \<forall>r \<in> set (ivd_shipment_items s).
      shi_tenant r = tn \<and> shi_shipment r = shp_id sh \<and> shi_item r = shi_item x \<longrightarrow> shi_requested r = shi_requested x"
      by (auto simp: lines(2) id intro!: arg_cong [where f = shi_requested] lines_agree [OF sch])
  qed simp
  have sel: "update_rows
      (\<lambda>r. shi_tenant r = tn \<and> shi_shipment r = shp_id sh \<and> shi_item r \<in> shi_item ` set items)
      left_line (ivd_shipment_items s) = update_rows (line_at tn (shp_id sh)) left_line (ivd_shipment_items s)"
    by (rule update_rows_cong) (auto simp: lines(2) line_at_def id)
  have amt: "amount shi_requested j items = amount shi_requested j (lines_of tn (shp_id sh) (ivd_shipment_items s))" for j
    using lines(1) id by (intro amount_cong) simp
  note s2 = Shipment_UpdateStatus_Inr [OF upd]
  have "left_with tn sh (ctx_now c) s s2"
    using after unfolding left_with_def Let_def s2 sel amt by (auto simp: stock_def id)
  moreover have "ivd_orders s2 = ivd_orders s" using after by (simp add: s2)
  moreover have "case shp_order sh of None \<Rightarrow> s' = s2 | Some k \<Rightarrow> order_reaches tn k BTOShipped s2 s'"
    using bto transitionLinkedBTO_Inr [of ?tx] by (auto split: option.splits)
  ultimately show ?thesis using that sh approved by blast
qed

definition order_closes :: "uuid \<Rightarrow> uuid \<Rightarrow> inv_db \<Rightarrow> inv_db \<Rightarrow> bool" where
  "order_closes tn k s s' \<longleftrightarrow>
     (if \<forall>b \<in> set (ivd_order_items s). bti_tenant b = tn \<and> bti_order b = k \<longrightarrow> wanted_qty b \<le> bti_received b
      then \<exists>s1. order_reaches tn k BTOReceived s s1 \<and> order_reaches tn k BTOClosed s1 s'
      else s' = s)"

lemma closeLinkedBTO_Inr:
  assumes "closeLinkedBTO tx k s = Inr (u, s')"
  shows "order_closes (tx_tenant tx) k s s'"
proof -
  have "rls_select bti_tenant tx (\<lambda>r. bti_order r = k \<and> bti_received r < wanted_qty r) (ivd_order_items s) = [] \<longleftrightarrow>
    (\<forall>b \<in> set (ivd_order_items s). bti_tenant b = tx_tenant tx \<and> bti_order b = k \<longrightarrow> wanted_qty b \<le> bti_received b)"
    by (auto simp: rls_select_def filter_empty_conv)
  with assms show ?thesis
    by (auto simp: closeLinkedBTO_def TransferOrderItemRepo_AllReceived_def tx_bind_Inr order_closes_def
        split: if_splits dest!: transitionLinkedBTO_Inr)
qed

lemma Receive_effect:
  assumes run: "ShipmentService_Receive id c tn p i w s = Inr (r, s')" and sch: "inv_schema s"
  obtains sh s1 where "sh \<in> set (ivd_shipments s)" and "shipment_at tn i sh" and "shp_status sh = ShipmentInTransit"
    and "arrived_with tn sh (ctx_now c) s s1" and "ivd_orders s1 = ivd_orders s"
    and "case shp_order sh of None \<Rightarrow> s' = s1 | Some k \<Rightarrow> order_closes tn k s1 s'"
proof -
  let ?tx = "inv_tx c tn"
  from run obtain sh sa wh items sc s0 u s2 where get': "ShipmentRepo_GetByID ?tx i s = Inr (sh, sa)"
    and allowed: "ShipmentReceived \<in> set (allowedShipmentTransitions (shp_status sh))"
    and items': "ShipmentItemRepo_ListByShipment ?tx i sa = Inr (items, sc)"
    and loop': "tx_each (receive_item ?tx tn sh w) items sc = Inr (u, s0)"
    and upd: "ShipmentRepo_UpdateStatus ?tx i ShipmentReceived None (Some (ctx_now c)) s0 = Inr (r, s2)"
    and bto: "(case shp_order sh of None \<Rightarrow> tx_return () | Some k \<Rightarrow> closeLinkedBTO ?tx k) s2 = Inr ((), s')"
    by (auto simp: ShipmentService_Receive_def receiveTx_alone WarehouseRepo_GetByID_def found_row_Inr tx_inv guard_Inr(2))
  have st: "sa = s" "sc = s"
    using Shipment_GetByID_Inr [OF get'] listed_lines(1) [OF items'] by simp_all
  note get = get' [unfolded st] and items = items' [unfolded st] and loop = loop' [unfolded st]
  have sh: "sh \<in> set (ivd_shipments s)" "shipment_at tn i sh" using Shipment_GetByID_Inr [OF get] by auto
  then have id: "shp_id sh = i" by (simp add: shipment_at_def)
  have transit: "shp_status sh = ShipmentInTransit" using allowed by (cases "shp_status sh") auto
  note lines = listed_lines(2,3) [OF items, simplified]
  have after: "stock tn' i' s0 = stock tn' i' s + (if tn' = tn then amount shi_shipped i' items else 0) \<and>
    ivd_shipments s0 = ivd_shipments s \<and> ivd_orders s0 = ivd_orders s \<and>
    ivd_shipment_items s0 = update_rows
      (\<lambda>r. shi_tenant r = tn \<and> shi_shipment r = shp_id sh \<and> shi_item r \<in> shi_item ` set items)
      arrived_line (ivd_shipment_items s) \<and>
    ivd_order_items s0 = update_rows (order_line_served tn sh)
      (\<lambda>b. b\<lparr>bti_received := bti_received b + amount shi_shipped (bti_item b) items\<rparr>) (ivd_order_items s)" for tn' i'
  proof (rule receive_items_effect [OF loop _ sch])
    show "\<forall>x \<in> set items. quantity_ok (shi_shipped x)" using lines(2) line_quantities [OF sch] by auto
    show "\<forall>x \<in> set items. \<forall>r \<in> set (ivd_shipment_items s).
      shi_tenant r = tn \<and> shi_shipment r = shp_id sh \<and> shi_item r = shi_item x \<longrightarrow> shi_shipped r = shi_shipped x"
      by (auto simp: lines(2) id intro!: arg_cong [where f = shi_shipped] lines_agree [OF sch])
  qed simp
  have sel: "update_rows
      (\<lambda>r. shi_tenant r = tn \<and> shi_shipment r = shp_id sh \<and> shi_item r \<in> shi_item ` set items)
      arrived_line (ivd_shipment_items s) = update_rows (line_at tn (shp_id sh)) arrived_line (ivd_shipment_items s)"
    by (rule update_rows_cong) (auto simp: lines(2) line_at_def id)
  have amt: "amount shi_shipped j items = amount shi_shipped j (lines_of tn (shp_id sh) (ivd_shipment_items s))" for j
    using lines(1) id by (intro amount_cong) simp
  note s2 = Shipment_UpdateStatus_Inr [OF upd]
  have "arrived_with tn sh (ctx_now c) s s2"
    using after unfolding arrived_with_def Let_def s2 sel amt by (auto simp: stock_def id)
  moreover have "ivd_orders s2 = ivd_orders s" using after by (simp add: s2)
  moreover have "case shp_order sh of None \<Rightarrow> s' = s2 | Some k \<Rightarrow> order_closes tn k s2 s'"
    using bto closeLinkedBTO_Inr [of ?tx] by (auto split: option.splits)
  ultimately show ?thesis using that sh transit by blast
qed

end
