(* ===== verification/Inv_System.thy ===== *)
theory Inv_System
  imports Inv_Moves
begin

text \<open>
  The inventory service as a whole: its calls, what each of them does to the goods and to
  the papers that follow them, and runs of calls. An \<open>inv_event\<close> is the abstract account
  of a call: goods entered or posted at a warehouse, a shipment or order drafted, moved
  along its lifecycle, dispatched or taken in.
\<close>

section \<open>Calls and runs\<close>

text \<open>A step carries what the call asked to post: tenant, warehouse, item, type and quantity.\<close>

type_synonym entry = "uuid \<times> uuid \<times> uuid \<times> movement_type \<times> float64"

definition movement_entry :: "uuid \<Rightarrow> movement_request \<Rightarrow> entry" where
  "movement_entry tn req = (tn, mrq_warehouse req, mrq_item req, mrq_type req, mrq_quantity req)"

definition receipt_entries :: "uuid \<Rightarrow> receipt_request \<Rightarrow> entry list" where
  "receipt_entries tn req = map (\<lambda>it. (tn, rrq_warehouse req, riq_item it, MovementIn, riq_quantity it)) (rrq_items req)"

inductive inv_step :: "entry list \<Rightarrow> inv_db \<Rightarrow> inv_db \<Rightarrow> bool" where
  warehouse_created: "WarehouseService_Create c tn b nm ty s = Inr (x1, s') \<Longrightarrow> inv_step [] s s'"
| warehouse_updated: "WarehouseService_Update c tn p wh s = Inr (x1, s') \<Longrightarrow> inv_step [] s s'"
| warehouse_deleted: "WarehouseService_Delete c tn p i s = Inr (u, s') \<Longrightarrow> inv_step [] s s'"
| item_created: "StockItemService_Create c tn iq s = Inr (x2, s') \<Longrightarrow> inv_step [] s s'"
| item_updated: "StockItemService_Update c tn si s = Inr (x2, s') \<Longrightarrow> inv_step [] s s'"
| item_deleted: "StockItemService_Delete c tn i s = Inr (u, s') \<Longrightarrow> inv_step [] s s'"
| policy_created: "SupplyPolicyService_Create c tn pq s = Inr (x3, s') \<Longrightarrow> inv_step [] s s'"
| movement_recorded: "InventoryService_RecordMovement c tn p mq s = Inr (x4, s') \<Longrightarrow>
    inv_step [movement_entry tn mq] s s'"
| receipt_created: "PurchaseReceiptService_CreateReceipt fl arrange c tn p rq s = Inr (x5, s') \<Longrightarrow>
    inv_step (receipt_entries tn rq) s s'"
| order_created: "TransferOrderService_Create c tn tq s = Inr (x6, s') \<Longrightarrow> inv_step [] s s'"
| order_submitted: "TransferOrderService_Submit c tn p i s = Inr (x7, s') \<Longrightarrow> inv_step [] s s'"
| order_rejected: "TransferOrderService_Reject c tn p i s = Inr (x7, s') \<Longrightarrow> inv_step [] s s'"
| order_fulfilled: "TransferOrderService_Fulfil c tn p i s = Inr (x7, s') \<Longrightarrow> inv_step [] s s'"
| order_approved: "TransferOrderService_Approve c tn p i who aps s = Inr (x7, s') \<Longrightarrow> inv_step [] s s'"
| order_cancelled: "TransferOrderService_Cancel c tn p i s = Inr (x7, s') \<Longrightarrow> inv_step [] s s'"
| shipment_created: "ShipmentService_Create c tn p hq s = Inr (x8, s') \<Longrightarrow> inv_step [] s s'"
| shipment_approved: "ShipmentService_Approve c tn p i s = Inr (x9, s') \<Longrightarrow> inv_step [] s s'"
| shipment_advanced: "ShipmentService_Advance quiet c tn p i s = Inr (x9, s') \<Longrightarrow> inv_step [] s s'"
| shipment_received: "ShipmentService_Receive id c tn p i w s = Inr (x9, s') \<Longrightarrow> inv_step [] s s'"
| shipment_cancelled: "ShipmentService_Cancel c tn p i s = Inr (x9, s') \<Longrightarrow> inv_step [] s s'"

inductive inv_run :: "entry list \<Rightarrow> inv_db \<Rightarrow> inv_db \<Rightarrow> bool" where
  run_nil: "inv_run [] s s"
| run_snoc: "inv_run es s s1 \<Longrightarrow> inv_step es' s1 s2 \<Longrightarrow> inv_run (es @ es') s s2"

text \<open>An invariant of the steps, under a condition on the entries, is one of the runs.\<close>

lemma inv_run_invariant:
  assumes "inv_run es s s'" and "I s" and "\<forall>e \<in> set es. ok e"
    and "\<And>es s s'. inv_step es s s' \<Longrightarrow> I s \<Longrightarrow> \<forall>e \<in> set es. ok e \<Longrightarrow> I s'"
  shows "I s'"
  using assms by (induction rule: inv_run.induct) auto

section \<open>The constraints of the tables\<close>

lemma inv_step_schema:
  assumes "inv_step es s s'" and "inv_schema s"
  shows "inv_schema s'"
proof -
  note calls = stock_calls_keep receipt_keeps transfer_calls_keep shipment_calls_keep
  note defs = TransferOrderService_Submit_def TransferOrderService_Reject_def TransferOrderService_Fulfil_def
  show ?thesis
    using assms by (induction rule: inv_step.induct) (unfold defs, (erule (1) calls [THEN tx_onD, rotated])+)
qed

section \<open>The ledger\<close>

text \<open>Quantities whose thousandths are whole, or that come in, leave no rounding behind.\<close>

definition whole_entry :: "entry \<Rightarrow> bool" where
  "whole_entry = (\<lambda>(tn, w, i, ty, q). ty = MovementIn \<or> decimal 3 q)"

lemma calls_keep_ledger:
  "keeps_ledger (WarehouseService_Create c tn b n ty)"
  "keeps_ledger (WarehouseService_Update c tn p w)"
  "keeps_ledger (WarehouseService_Delete c tn p i)"
  "keeps_ledger (SupplyPolicyService_Create c tn prq)"
  "keeps_ledger (StockItemService_Create c tn irq)"
  "keeps_ledger (StockItemService_Update c tn si)"
  "keeps_ledger (StockItemService_Delete c tn i)"
  "keeps_ledger (TransferOrderService_Create c tn trq)"
  "keeps_ledger (bto_transition c tn p i bst br sub)"
  "keeps_ledger (TransferOrderService_Approve c tn p i who aps)"
  "keeps_ledger (TransferOrderService_Cancel c tn p i)"
  "keeps_ledger (ShipmentService_Create c tn p hrq)"
  "keeps_ledger (ShipmentService_Approve c tn p i)"
  "keeps_ledger (ShipmentService_Cancel c tn p i)"
  by (intro framed_keeps_ledger inv_intro frame_intro)+

lemma inv_step_ledger:
  assumes "inv_step es s s'" and "on_ledger s" and "\<forall>e \<in> set es. whole_entry e"
  shows "on_ledger s'"
proof -
  note calls = calls_keep_ledger CreateReceipt_keeps_ledger shipping_keeps_ledger
  note defs = TransferOrderService_Submit_def TransferOrderService_Reject_def TransferOrderService_Fulfil_def
  show ?thesis
    using assms
  proof (induction rule: inv_step.induct)
    case (movement_recorded c tn p mq s x s')
    then have "keeps_ledger (InventoryService_RecordMovement c tn p mq)"
      by (intro RecordMovement_keeps_ledger) (simp add: movement_entry_def whole_entry_def)
    from tx_onD [OF this movement_recorded(2,1)] show ?case .
  qed (unfold defs, (erule (1) calls [THEN tx_onD, rotated])+)
qed

section \<open>Events\<close>

text \<open>What an entry adds to the goods of its tenant, in units of the state it is posted in: goods that
  come in are rounded to thousandths, goods taken out or corrected move the level of their
  warehouse to the rounded new amount, never below zero; reserving moves none.\<close>

definition level_change :: "inv_db \<Rightarrow> uuid \<Rightarrow> uuid \<Rightarrow> uuid \<Rightarrow> float64 \<Rightarrow> float64" where
  "level_change s tn w i d = numeric 3 (max 0 (on_hand_at tn w i s + d)) - on_hand_at tn w i s"

definition entry_change :: "inv_db \<Rightarrow> entry \<Rightarrow> float64" where
  "entry_change s = (\<lambda>(tn, w, i, ty, q). case ty of
       MovementIn \<Rightarrow> numeric 3 q
     | MovementOut \<Rightarrow> level_change s tn w i (- q)
     | MovementTransfer \<Rightarrow> level_change s tn w i (- q)
     | MovementAdjust \<Rightarrow> level_change s tn w i q
     | _ \<Rightarrow> 0)"

definition posted_change :: "uuid \<Rightarrow> uuid \<Rightarrow> entry list \<Rightarrow> inv_db \<Rightarrow> float64" where
  "posted_change tn i es s = (\<Sum>e \<leftarrow> es. if fst e = tn \<and> fst (snd (snd e)) = i then entry_change s e else 0)"

text \<open>What the entries bring in of an item.\<close>

definition entered :: "uuid \<Rightarrow> uuid \<Rightarrow> entry list \<Rightarrow> float64" where
  "entered tn i es = (\<Sum>(t, w, j, ty, q) \<leftarrow> es. if t = tn \<and> j = i \<and> ty = MovementIn then numeric 3 q else 0)"

definition takes_none :: "uuid \<Rightarrow> uuid \<Rightarrow> entry list \<Rightarrow> bool" where
  "takes_none tn i es \<longleftrightarrow>
     (\<forall>(t, w, j, ty, q) \<in> set es. t = tn \<and> j = i \<longrightarrow> ty = MovementIn \<or> \<not> AffectsOnHand ty)"

lemma entered_append [simp]: "entered tn i (es @ es') = entered tn i es + entered tn i es'"
  by (simp add: entered_def)

lemma entered_nil [simp]: "entered tn i [] = 0" by (simp add: entered_def)

lemma takes_none_append [simp]: "takes_none tn i (es @ es') \<longleftrightarrow> takes_none tn i es \<and> takes_none tn i es'"
  by (simp only: takes_none_def set_append ball_Un)

lemma posted_change_nil [simp]: "posted_change tn i [] s = 0" by (simp add: posted_change_def)

lemma posted_change_entered:
  "takes_none tn i es \<Longrightarrow> posted_change tn i es s = entered tn i es"
proof (induction es)
  case (Cons e es)
  obtain t w j ty q where e: "e = (t, w, j, ty, q)" by (cases e)
  from Cons have "posted_change tn i es s = entered tn i es" by (simp add: takes_none_def)
  moreover from Cons.prems have "t = tn \<and> j = i \<longrightarrow> ty = MovementIn \<or> \<not> AffectsOnHand ty" by (simp add: takes_none_def e)
  ultimately show ?case
    by (cases ty) (auto simp: posted_change_def entered_def entry_change_def e)
qed (simp add: entered_def)

definition same_line :: "transfer_order_item \<Rightarrow> transfer_order_item \<Rightarrow> bool" where
  "same_line b b' \<longleftrightarrow> bti_id b' = bti_id b \<and> bti_tenant b' = bti_tenant b \<and> bti_order b' = bti_order b \<and>
     bti_item b' = bti_item b \<and> bti_shipped b' = bti_shipped b \<and> bti_received b' = bti_received b"

text \<open>An approval rewrites lines of its order, never what was shipped or received.\<close>

definition revised :: "uuid \<Rightarrow> transfer_order_item list \<Rightarrow> transfer_order_item list \<Rightarrow> bool" where
  "revised k = list_all2 (\<lambda>b b'. same_line b b' \<and> (bti_order b \<noteq> k \<longrightarrow> b' = b))"

lemma revised_refl: "revised k bs bs"
  by (simp add: revised_def same_line_def list_all2_refl)

lemma revised_trans: "revised k bs bs' \<Longrightarrow> revised k bs' bs'' \<Longrightarrow> revised k bs bs''"
  unfolding revised_def by (rule list_all2_trans [rotated], assumption, assumption) (auto simp: same_line_def)

lemma revised_update:
  "(\<And>b. b \<in> set bs \<Longrightarrow> P b \<Longrightarrow> bti_order b = k) \<Longrightarrow> (\<And>b. same_line b (f b)) \<Longrightarrow> revised k bs (update_rows P f bs)"
  by (induction bs) (auto simp: revised_def same_line_def)

definition elsewhere_same :: "inv_db \<Rightarrow> inv_db \<Rightarrow> bool" where
  "elsewhere_same s s' \<longleftrightarrow> ivd_levels s' = ivd_levels s \<and> ivd_shipments s' = ivd_shipments s \<and>
     ivd_shipment_items s' = ivd_shipment_items s"

inductive inv_event :: "entry list \<Rightarrow> inv_db \<Rightarrow> inv_db \<Rightarrow> bool" where
  goods_posted: "same_papers s s' \<Longrightarrow>
    (\<forall>tn i. stock tn i s' = stock tn i s + posted_change tn i es s) \<Longrightarrow> inv_event es s s'"
| shipment_drafted: "ivd_levels s' = ivd_levels s \<Longrightarrow> ivd_orders s' = ivd_orders s \<Longrightarrow>
    ivd_order_items s' = ivd_order_items s \<Longrightarrow> ivd_shipments s' = ivd_shipments s @ [sh] \<Longrightarrow>
    shp_status sh = ShipmentDraft \<Longrightarrow> ivd_shipment_items s' = ivd_shipment_items s @ lines \<Longrightarrow>
    (\<forall>r \<in> set lines. shi_shipment r = shp_id sh \<and> shi_tenant r = shp_tenant sh \<and>
       shi_shipped r = 0 \<and> shi_received r = 0) \<Longrightarrow> inv_event [] s s'"
| shipment_moved: "sh \<in> set (ivd_shipments s) \<Longrightarrow> shp_status sh \<in> {ShipmentDraft, ShipmentApproved} \<Longrightarrow>
    st \<in> {ShipmentApproved, ShipmentCancelled} \<Longrightarrow>
    s' = s\<lparr>ivd_shipments := update_rows (shipment_at (shp_tenant sh) (shp_id sh))
      (moved_shipment now st None None) (ivd_shipments s)\<rparr> \<Longrightarrow> inv_event [] s s'"
| shipment_left: "sh \<in> set (ivd_shipments s) \<Longrightarrow> shp_status sh = ShipmentApproved \<Longrightarrow>
    left_with (shp_tenant sh) sh now s s1 \<Longrightarrow> ivd_orders s1 = ivd_orders s \<Longrightarrow>
    (case shp_order sh of None \<Rightarrow> s' = s1 | Some k \<Rightarrow> order_reaches (shp_tenant sh) k BTOShipped s1 s') \<Longrightarrow>
    inv_event [] s s'"
| shipment_arrived: "sh \<in> set (ivd_shipments s) \<Longrightarrow> shp_status sh = ShipmentInTransit \<Longrightarrow>
    arrived_with (shp_tenant sh) sh now s s1 \<Longrightarrow> ivd_orders s1 = ivd_orders s \<Longrightarrow>
    (case shp_order sh of None \<Rightarrow> s' = s1 | Some k \<Rightarrow> order_closes (shp_tenant sh) k s1 s') \<Longrightarrow>
    inv_event [] s s'"
| order_drafted: "elsewhere_same s s' \<Longrightarrow> ivd_orders s' = ivd_orders s @ [ord] \<Longrightarrow> bto_status ord = BTODraft \<Longrightarrow>
    ivd_order_items s' = ivd_order_items s @ lines \<Longrightarrow>
    (\<forall>b \<in> set lines. bti_order b = bto_id ord \<and> bti_tenant b = bto_tenant ord \<and>
       bti_shipped b = 0 \<and> bti_received b = 0) \<Longrightarrow> inv_event [] s s'"
| order_moved: "elsewhere_same s s' \<Longrightarrow> ord \<in> set (ivd_orders s) \<Longrightarrow> to \<in> set (allowedBTOTransitions (bto_status ord)) \<Longrightarrow>
    to \<notin> {BTOShipped, BTOReceived, BTOClosed} \<Longrightarrow>
    ivd_orders s' = update_rows (order_at (bto_tenant ord) (bto_id ord)) (moved_order now to t1 t2 who) (ivd_orders s) \<Longrightarrow>
    revised (bto_id ord) (ivd_order_items s) (ivd_order_items s') \<Longrightarrow> inv_event [] s s'"

section \<open>The calls as events\<close>

definition apart :: "inv_db \<Rightarrow> inv_db \<Rightarrow> bool" where
  "apart s s' \<longleftrightarrow> same_papers s s' \<and> ivd_levels s' = ivd_levels s"

lemma apart_event: "apart s s' \<Longrightarrow> inv_event [] s s'"
  by (rule goods_posted) (simp_all add: apart_def stock_def)

lemma master_data_apart:
  "WarehouseService_Create c tn b nm ty s = Inr (x1, s') \<Longrightarrow> apart s s'"
  "WarehouseService_Update c tn p wh s = Inr (x1, s') \<Longrightarrow> apart s s'"
  "WarehouseService_Delete c tn p i s = Inr (u, s') \<Longrightarrow> apart s s'"
  "StockItemService_Create c tn iq s = Inr (x2, s') \<Longrightarrow> apart s s'"
  "StockItemService_Update c tn si s = Inr (x2, s') \<Longrightarrow> apart s s'"
  "StockItemService_Delete c tn i s = Inr (u, s') \<Longrightarrow> apart s s'"
  "SupplyPolicyService_Create c tn pq s = Inr (x3, s') \<Longrightarrow> apart s s'"
  by (auto simp: apart_def same_papers_def tx_inv inv_uuid_Inr found_row_Inr query_row_Inr
      WarehouseService_Create_def WarehouseService_Update_def WarehouseService_Delete_def
      SupplyPolicyService_Create_def StockItemService_Create_def StockItemService_Update_def StockItemService_Delete_def
      WarehouseRepo_Create_def WarehouseRepo_Update_def WarehouseRepo_Delete_def WarehouseRepo_GetByID_def
      StockItemRepo_Create_def StockItemRepo_Update_def StockItemRepo_Delete_def SupplyPolicyRepo_Create_def
      warehouses.insert_Inr warehouses.update_Inr stock_items.insert_Inr stock_items.update_Inr
      supply_policies.insert_Inr)

subsection \<open>Goods posted by hand\<close>

lemma AdjustReserved_stock:
  assumes "StockLevelRepo_AdjustReserved tx tn w i d unit s = Inr (l, s')"
  shows "stock tn' i' s' = stock tn' i' s"
proof -
  let ?f = "\<lambda>r. r\<lparr>lvl_reserved := clamped_add (lvl_reserved r) d, lvl_updated := tx_now tx\<rparr>"
  have "(\<Sum>l \<leftarrow> rls_update lvl_tenant tx P ?f ls.
      if lvl_tenant l = tn' \<and> lvl_item l = i' then lvl_on_hand l else 0) =
    (\<Sum>l \<leftarrow> ls. if lvl_tenant l = tn' \<and> lvl_item l = i' then lvl_on_hand l else 0)" for ls P
    by (induction ls) auto
  then show ?thesis
    using assms
    by (auto simp: StockLevelRepo_AdjustReserved_def upsert_level_def tx_bind_Inr inv_uuid_Inr stock_def
        stock_levels.insert_Inr stock_levels.update_Inr query_row_Inr fresh_level_def split: option.splits)
qed

lemma entering:
  assumes "inv_schema s" and "0 \<le> q"
  shows "clamped_add (on_hand_at tn w i s) q - on_hand_at tn w i s = numeric 3 q"
  using level_quantities [OF assms(1), of tn w i] assms(2) numeric_nonneg [OF assms(2), of 3]
  by (simp add: clamped_add_decimal)

lemma RecordMovement_event:
  assumes run: "InventoryService_RecordMovement c tn p req s = Inr (x, s')" and sch: "inv_schema s"
  shows "inv_event [movement_entry tn req] s s'"
proof -
  let ?m = "(new_movement tn (mrq_warehouse req) (mrq_item req) (mrq_type req) (mrq_quantity req)
    (mrq_ref req) (mrq_ref_type req))\<lparr>mvt_notes := mrq_notes req, mvt_created_by := mrq_created_by req\<rparr>"
  from run obtain mv s1 lvl where create: "StockMovementRepo_Create (inv_tx c tn) ?m s = Inr (mv, s1)"
    and adjust: "adjustLevel (inv_tx c tn) tn req s1 = Inr (lvl, s')"
    and valid: "validateMovement req = Inr ()"
    by (auto simp: InventoryService_RecordMovement_def WarehouseRepo_GetByID_def tx_inv found_row_Inr)
  have pos: "mrq_type req = MovementIn \<Longrightarrow> 0 \<le> mrq_quantity req"
    using valid unfolding validateMovement_def first_failure_Inr by simp
  have same1: "stock t i s1 = stock t i s" for t i
    using Movement_Create_effect(1) [OF create] by (simp add: stock_def)
  show ?thesis
  proof (cases "AffectsOnHand (mrq_type req)")
    case True
    then have adj: "StockLevelRepo_AdjustOnHand (inv_tx c tn) tn (mrq_warehouse req) (mrq_item req)
        (signedDelta (mrq_type req) (mrq_quantity req)) (mrq_unit req) s1 = Inr (lvl, s')"
      using adjust by (simp add: adjustLevel_def)
    have "mvt_tenant ?m = tn" by (simp add: new_movement_def)
    note post = posted [OF create adj this sch]
    show ?thesis
      by (rule goods_posted [OF post(1)])
         (use True pos valid in \<open>cases "mrq_type req"; auto simp: post(3) posted_change_def entry_change_def
            level_change_def clamped_add_def movement_entry_def entering [OF sch, unfolded clamped_add_def]\<close>)
  next
    case False
    then have adj: "StockLevelRepo_AdjustReserved (inv_tx c tn) tn (mrq_warehouse req) (mrq_item req)
        (signedDelta (mrq_type req) (mrq_quantity req)) (mrq_unit req) s1 = Inr (lvl, s')"
      using adjust by (simp add: adjustLevel_def)
    have "same_papers s s'"
      using Movement_Create_papers [OF create] upsert_same_papers [OF adj [unfolded StockLevelRepo_AdjustReserved_def]]
      by (simp add: same_papers_def)
    then show ?thesis
      by (rule goods_posted)
         (use False in \<open>cases "mrq_type req"; auto simp: AdjustReserved_stock [OF adj] same1 posted_change_def
            entry_change_def movement_entry_def\<close>)
  qed
qed

subsection \<open>Goods received from a supplier\<close>

lemma receipt_repo_apart:
  "PurchaseReceiptRepo_Create tx r s = Inr (r', s') \<Longrightarrow> apart s s'"
  "PurchaseReceiptItemRepo_Add tx ri s = Inr (ri', s') \<Longrightarrow> apart s s'"
  "inv_uuid s = Inr (k, s') \<Longrightarrow> apart s s'"
  by (auto simp: PurchaseReceiptRepo_Create_def PurchaseReceiptItemRepo_Add_def purchase_receipts.insert_Inr
      purchase_receipt_items.insert_Inr tx_inv inv_uuid_Inr apart_def same_papers_def)

lemma apart_schema: "apart s s' \<Longrightarrow> stock tn i s' = stock tn i s"
  by (simp add: apart_def stock_def)

lemma same_papers_trans: "same_papers s t \<Longrightarrow> same_papers t u \<Longrightarrow> same_papers s u"
  by (simp add: same_papers_def)

lemma receiveItem_effect:
  assumes run: "receiveItem fl tx tn k w cur it s = Inr (x, s')" and tn: "tx_tenant tx = tn"
    and sch: "inv_schema s" and q: "0 \<le> riq_quantity it"
  shows "same_papers s s'" and "inv_schema s'"
    and "stock tn' i' s' = stock tn' i' s + (if (tn', i') = (tn, riq_item it) then numeric 3 (riq_quantity it) else 0)"
proof -
  from run obtain i s0 ri s1 m s2 l s3 u where
    uid: "(inv_uuid :: (inv_db, inv_err, uuid) tx) s = Inr (i, s0)"
    and add: "PurchaseReceiptItemRepo_Add tx \<lparr>rci_id = i, rci_tenant = tn, rci_receipt = k, rci_item = riq_item it,
        rci_quantity = riq_quantity it, rci_unit = riq_unit it, rci_price = riq_price it,
        rci_line_total = lineTotalOf fl it, rci_brand = riq_brand it\<rparr> s0 = Inr (ri, s1)"
    and create: "StockMovementRepo_Create tx (new_movement tn w (riq_item it) MovementIn (riq_quantity it)
        (Some k) (Some ''purchase_receipt'')) s1 = Inr (m, s2)"
    and adjust: "StockLevelRepo_AdjustOnHand tx tn w (riq_item it) (riq_quantity it) (riq_unit it) s2 = Inr (l, s3)"
    and cost: "StockLevelRepo_SetLastCost tx tn w (riq_item it) (riq_price it) cur CostPurchaseReceipt s3 = Inr (u, s')"
    by (auto simp: receiveItem_def tx_bind_Inr)
  have ap: "apart s s1"
    using receipt_repo_apart(3) [OF uid] receipt_repo_apart(2) [OF add] by (auto simp: apart_def same_papers_def)
  have sch1: "inv_schema s1"
    by (rule tx_onD [OF repo_writes_keep(23) tx_onD [OF inv_uuid_keeps sch uid] add])
  note post = posted [OF create adjust new_movement_fields(1) sch1]
  show "same_papers s s'"
    using ap post(1) set_cost_effect(1) [OF cost] by (auto simp: apart_def same_papers_def)
  show "inv_schema s'" by (rule tx_onD [OF repo_writes_keep(8) post(2) cost])
  show "stock tn' i' s' = stock tn' i' s + (if (tn', i') = (tn, riq_item it) then numeric 3 (riq_quantity it) else 0)"
    using entering [OF sch1 q, of tn w "riq_item it"]
    by (simp add: set_cost_effect(2) [OF cost] post(3) apart_schema [OF ap])
qed

lemma receiveItems_effect:
  assumes "tx_map (receiveItem fl tx tn k w cur) its s = Inr (xs, s')" and tn: "tx_tenant tx = tn"
    and "inv_schema s" and "\<forall>it \<in> set its. 0 \<le> riq_quantity it"
  shows "same_papers s s' \<and> (\<forall>tn' i'. stock tn' i' s' =
    stock tn' i' s + entered tn' i' (map (\<lambda>it. (tn, w, riq_item it, MovementIn, riq_quantity it)) its))"
  using assms(1,3-)
proof (induction its arbitrary: s xs)
  case (Cons it its)
  from Cons.prems(1) obtain x s1 ys where one: "receiveItem fl tx tn k w cur it s = Inr (x, s1)"
    and rest: "tx_map (receiveItem fl tx tn k w cur) its s1 = Inr (ys, s')" by (auto simp: tx_bind_Inr)
  have q: "0 \<le> riq_quantity it" using Cons.prems(3) by simp
  note eff = receiveItem_effect [OF one tn Cons.prems(2) q]
  have ih: "same_papers s1 s' \<and> (\<forall>tn' i'. stock tn' i' s' =
    stock tn' i' s1 + entered tn' i' (map (\<lambda>it. (tn, w, riq_item it, MovementIn, riq_quantity it)) its))"
    by (rule Cons.IH [OF rest eff(2)]) (use Cons.prems(3) in simp)
  then show ?case
    using same_papers_trans [OF eff(1)] by (simp add: eff(3) entered_def)
qed (simp add: same_papers_def entered_def)

lemma enforce_pure: "enforceSupplyPolicy arrange c tn b sp i s = Inr (u, s') \<Longrightarrow> s' = s"
  by (auto simp: enforceSupplyPolicy_def EffectivePolicyFor_def tx_inv found_row_Inr
      StockItemRepo_GetByID_def SupplyPolicyRepo_ListCandidates_def split: prod.splits)

lemma enforce_each_pure:
  "tx_each (\<lambda>it. enforceSupplyPolicy arrange c tn b sp (riq_item it)) its s = Inr (u, s') \<Longrightarrow> s' = s"
  by (induction its arbitrary: s) (auto simp: tx_bind_Inr dest!: enforce_pure)

lemma CreateReceipt_event:
  assumes run: "PurchaseReceiptService_CreateReceipt fl arrange c tn p req s = Inr (x, s')" and sch: "inv_schema s"
  shows "inv_event (receipt_entries tn req) s s'"
proof -
  let ?tx = "inv_tx c tn"
  let ?cur = "if rrq_currency req = '''' then ''TRY'' else rrq_currency req"
  from run obtain i s0 b u s1 r s2 its where
    valid: "validateCreateReceipt req = Inr ()" and uid: "(inv_uuid :: (inv_db, inv_err, uuid) tx) s = Inr (i, s0)"
    and policy: "tx_each (\<lambda>it. enforceSupplyPolicy arrange c tn b (rrq_supplier req) (riq_item it)) (rrq_items req) s0 = Inr (u, s1)"
    and create: "\<exists>row. PurchaseReceiptRepo_Create ?tx row s1 = Inr (r, s2)"
    and items: "tx_map (receiveItem fl ?tx tn (rct_id r) (rrq_warehouse req) ?cur) (rrq_items req) s2 = Inr (its, s')"
    unfolding PurchaseReceiptService_CreateReceipt_def Let_def
    by (auto simp: tx_inv WarehouseRepo_GetByID_def found_row_Inr) blast
  have sch0: "inv_schema s0" by (rule tx_onD [OF inv_uuid_keeps sch uid])
  have s1: "s1 = s0" by (rule enforce_each_pure [OF policy])
  have sch1: "inv_schema s1" using sch0 s1 by simp
  from create obtain row where row: "PurchaseReceiptRepo_Create ?tx row s1 = Inr (r, s2)" by blast
  have sch2: "inv_schema s2" by (rule tx_onD [OF repo_writes_keep(22) sch1 row])
  have ap: "apart s s2"
    using receipt_repo_apart(3) [OF uid] s1 receipt_repo_apart(1) [OF row] by (auto simp: apart_def same_papers_def)
  have "\<forall>it \<in> set (rrq_items req). 0 \<le> riq_quantity it"
  proof
    fix it
    assume "it \<in> set (rrq_items req)"
    with valid have "\<forall>(bad, e) \<in> set (receipt_item_checks it). \<not> bad"
      unfolding validateCreateReceipt_def first_failure_Inr by (simp add: ball_Un)
    then show "0 \<le> riq_quantity it" by (simp add: receipt_item_checks_def)
  qed
  note eff = receiveItems_effect [OF items _ sch2 this, simplified]
  have "takes_none tn' i' (receipt_entries tn req)" for tn' i' by (simp add: takes_none_def receipt_entries_def)
  with eff ap show ?thesis
    by (intro goods_posted) (auto simp: apart_def same_papers_def receipt_entries_def stock_def posted_change_entered)
qed

subsection \<open>Drafting\<close>

lemma shipment_lines_added:
  "tx_map (\<lambda>it. ShipmentItemRepo_Add tx (row it)) its s = Inr (ys, s') \<Longrightarrow>
   s' = s\<lparr>ivd_shipment_items := ivd_shipment_items s @ ys\<rparr> \<and>
   (\<forall>y \<in> set ys. \<exists>it. shi_shipment y = shi_shipment (row it) \<and> shi_tenant y = shi_tenant (row it) \<and>
      shi_shipped y = numeric 3 (shi_shipped (row it)) \<and> shi_received y = numeric 3 (shi_received (row it)))"
proof (induction its arbitrary: s ys)
  case (Cons it its)
  from Cons.prems obtain y s1 ys1 where "ShipmentItemRepo_Add tx (row it) s = Inr (y, s1)"
    and rest: "tx_map (\<lambda>it. ShipmentItemRepo_Add tx (row it)) its s1 = Inr (ys1, s')" and ys: "ys = y # ys1"
    by (auto simp: tx_bind_Inr)
  then have "s1 = s\<lparr>ivd_shipment_items := ivd_shipment_items s @ [y]\<rparr>"
    and "shi_shipment y = shi_shipment (row it) \<and> shi_tenant y = shi_tenant (row it) \<and>
      shi_shipped y = numeric 3 (shi_shipped (row it)) \<and> shi_received y = numeric 3 (shi_received (row it))"
    by (auto simp: ShipmentItemRepo_Add_def shipment_items.insert_Inr)
  with Cons.IH [OF rest] ys show ?case by auto
qed simp

lemma order_lines_added:
  "tx_map (\<lambda>it. TransferOrderItemRepo_Add tx (row it)) its s = Inr (ys, s') \<Longrightarrow>
   (\<exists>k. s' = s\<lparr>ivd_ctr := k, ivd_order_items := ivd_order_items s @ ys\<rparr>) \<and>
   (\<forall>y \<in> set ys. (\<exists>it. bti_order y = bti_order (row it) \<and> bti_tenant y = bti_tenant (row it)) \<and>
      bti_shipped y = 0 \<and> bti_received y = 0)"
proof (induction its arbitrary: s ys)
  case (Cons it its)
  from Cons.prems obtain y s1 ys1 where "TransferOrderItemRepo_Add tx (row it) s = Inr (y, s1)"
    and rest: "tx_map (\<lambda>it. TransferOrderItemRepo_Add tx (row it)) its s1 = Inr (ys1, s')" and ys: "ys = y # ys1"
    by (auto simp: tx_bind_Inr)
  then have "\<exists>k. s1 = s\<lparr>ivd_ctr := k, ivd_order_items := ivd_order_items s @ [y]\<rparr>"
    and "bti_order y = bti_order (row it) \<and> bti_tenant y = bti_tenant (row it) \<and> bti_shipped y = 0 \<and> bti_received y = 0"
    by (auto simp: TransferOrderItemRepo_Add_def tx_bind_Inr inv_uuid_Inr transfer_order_items.insert_Inr)
  with Cons.IH [OF rest] ys show ?case by auto
qed (auto intro!: exI [where x = "ivd_ctr s'"])

lemma Shipment_Create_event:
  assumes "ShipmentService_Create c tn p req0 s = Inr (x, s')"
  shows "inv_event [] s s'"
proof -
  let ?tx = "inv_tx c tn"
  from assms obtain row sh s1 lines its ys where
    create: "ShipmentRepo_Create ?tx row s = Inr (sh, s1)"
    and row: "shp_tenant row = tn" "shp_status row = ShipmentDraft"
    and add: "tx_map (\<lambda>it. ShipmentItemRepo_Add ?tx
             \<lparr>shi_shipment = shp_id sh, shi_tenant = tn, shi_item = hiq_item it,
              shi_requested = hiq_qty it, shi_shipped = 0, shi_received = 0, shi_unit = hiq_unit it,
              shi_price = fst (line_price lines it), shi_currency = snd (line_price lines it)\<rparr>) its s1 = Inr (ys, s')"
    by (auto simp: ShipmentService_Create_def Let_def tx_inv WarehouseRepo_GetByID_def found_row_Inr
        TransferOrderItemRepo_ListByTransferOrder_def split: option.splits)
  have s1: "ivd_shipments s1 = ivd_shipments s @ [sh]" "ivd_levels s1 = ivd_levels s"
      "ivd_orders s1 = ivd_orders s" "ivd_order_items s1 = ivd_order_items s"
      "ivd_shipment_items s1 = ivd_shipment_items s" "shp_tenant sh = tn" "shp_status sh = ShipmentDraft"
    using create row by (auto simp: ShipmentRepo_Create_def tx_bind_Inr inv_uuid_Inr shipments.insert_Inr)
  show ?thesis
    by (rule shipment_drafted [of _ _ sh ys]) (use shipment_lines_added [OF add] s1 in auto)
qed

lemma Order_Create_event:
  assumes "TransferOrderService_Create c tn req0 s = Inr (x, s')"
  shows "inv_event [] s s'"
proof -
  let ?tx = "inv_tx c tn"
  from assms obtain row ord s1 ys and its :: "transfer_item_request list" where
    create: "TransferOrderRepo_Create ?tx row s = Inr (ord, s1)"
    and row: "bto_tenant row = tn" "bto_status row = BTODraft"
    and add: "tx_map (\<lambda>it. TransferOrderItemRepo_Add ?tx
             \<lparr>bti_id = uuid_Nil, bti_tenant = tn, bti_order = bto_id ord, bti_item = tiq_item it,
              bti_requested = tiq_qty it, bti_approved = None, bti_shipped = 0, bti_received = 0,
              bti_unit = tiq_unit it, bti_price = None, bti_currency = None, bti_note = tiq_note it\<rparr>) its s1 = Inr (ys, s')"
    by (auto simp: TransferOrderService_Create_def Let_def tx_inv)
  have s1: "ivd_orders s1 = ivd_orders s @ [ord]" "elsewhere_same s s1"
      "ivd_order_items s1 = ivd_order_items s" "bto_tenant ord = tn" "bto_status ord = BTODraft"
    using create row
    by (auto simp: TransferOrderRepo_Create_def tx_bind_Inr inv_uuid_Inr transfer_orders.insert_Inr elsewhere_same_def)
  show ?thesis
    by (rule order_drafted [of _ _ ord ys]) (use order_lines_added [OF add] s1 in \<open>auto simp: elsewhere_same_def\<close>)
qed

subsection \<open>Moving\<close>

lemma shipment_at_self: "shipment_at tn i sh \<Longrightarrow> shp_tenant sh = tn \<and> shp_id sh = i"
  by (simp add: shipment_at_def)

lemma order_at_self: "order_at tn i ord \<Longrightarrow> bto_tenant ord = tn \<and> bto_id ord = i"
  by (simp add: order_at_def)

lemma shipment_status_event:
  assumes get: "ShipmentRepo_GetByID (inv_tx c tn) i s = Inr (sh, sa)"
    and branch: "requireFromWarehouseBranch c (inv_tx c tn) p sh sa = Inr (v, sb)"
    and allowed: "st \<in> set (allowedShipmentTransitions (shp_status sh))"
    and st: "st \<in> {ShipmentApproved, ShipmentCancelled}"
    and upd: "ShipmentRepo_UpdateStatus (inv_tx c tn) i st None None sb = Inr (r, s')"
  shows "inv_event [] s s'"
proof -
  have sh: "sh \<in> set (ivd_shipments s)" "shipment_at tn i sh" and sb: "sb = s"
    using Shipment_GetByID_Inr [OF get] guard_Inr(1) [OF branch] by auto
  have "shp_status sh \<in> {ShipmentDraft, ShipmentApproved}"
    using allowed st by (cases "shp_status sh") auto
  from shipment_moved [OF sh(1) this st] show ?thesis
    using Shipment_UpdateStatus_Inr [OF upd] shipment_at_self [OF sh(2)] by (simp add: sb)
qed

lemma Shipment_Approve_event: "ShipmentService_Approve c tn p i s = Inr (x, s') \<Longrightarrow> inv_event [] s s'"
  by (auto simp: ShipmentService_Approve_def tx_bind_Inr guard_Inr(2) intro: shipment_status_event)

lemma Shipment_Cancel_event: "ShipmentService_Cancel c tn p i s = Inr (x, s') \<Longrightarrow> inv_event [] s s'"
  by (auto simp: ShipmentService_Cancel_def tx_bind_Inr guard_Inr(2) intro: shipment_status_event)

lemma Shipment_Advance_event:
  assumes "ShipmentService_Advance quiet c tn p i s = Inr (x, s')" and "inv_schema s"
  shows "inv_event [] s s'"
  using assms
proof (rule Advance_effect)
  fix sh s1
  assume "sh \<in> set (ivd_shipments s)" and at: "shipment_at tn i sh" and "shp_status sh = ShipmentApproved"
    and "left_with tn sh (ctx_now c) s s1" and "ivd_orders s1 = ivd_orders s"
    and "case shp_order sh of None \<Rightarrow> s' = s1 | Some k \<Rightarrow> order_reaches tn k BTOShipped s1 s'"
  then show ?thesis using shipment_at_self [OF at] shipment_left by blast
qed

lemma Shipment_Receive_event:
  assumes "ShipmentService_Receive id c tn p i w s = Inr (x, s')" and "inv_schema s"
  shows "inv_event [] s s'"
  using assms
proof (rule Receive_effect)
  fix sh s1
  assume "sh \<in> set (ivd_shipments s)" and at: "shipment_at tn i sh" and "shp_status sh = ShipmentInTransit"
    and "arrived_with tn sh (ctx_now c) s s1" and "ivd_orders s1 = ivd_orders s"
    and "case shp_order sh of None \<Rightarrow> s' = s1 | Some k \<Rightarrow> order_closes tn k s1 s'"
  then show ?thesis using shipment_at_self [OF at] shipment_arrived by blast
qed

lemma order_status_event:
  assumes get: "TransferOrderRepo_GetByID (inv_tx c tn) i s = Inr (ord, sa)"
    and allowed: "to \<in> set (allowedBTOTransitions (bto_status ord))"
    and to: "to \<notin> {BTOShipped, BTOReceived, BTOClosed}"
    and mid: "elsewhere_same sa sb" "ivd_orders sb = ivd_orders sa" "revised i (ivd_order_items sa) (ivd_order_items sb)"
    and upd: "TransferOrderRepo_UpdateStatus (inv_tx c tn) i to t1 t2 who sb = Inr (r, s')"
  shows "inv_event [] s s'"
proof -
  have ord: "ord \<in> set (ivd_orders s)" "order_at tn i ord" and sa: "sa = s" using Order_GetByID_Inr [OF get] by auto
  note s' = Order_UpdateStatus_Inr [OF upd]
  show ?thesis
    by (rule order_moved [OF _ ord(1) allowed to])
       (use mid order_at_self [OF ord(2)] in \<open>simp_all add: s' sa elsewhere_same_def\<close>)
qed

lemma bto_transition_event:
  assumes "bto_transition c tn p i to br sub s = Inr (x, s')" and "to \<notin> {BTOShipped, BTOReceived, BTOClosed}"
  shows "inv_event [] s s'"
  using assms
  by (auto simp: bto_transition_def tx_inv bto_life.transition_iff elsewhere_same_def
      intro!: order_status_event [OF _ _ assms(2)] revised_refl)

lemma Order_Cancel_event: "TransferOrderService_Cancel c tn p i s = Inr (x, s') \<Longrightarrow> inv_event [] s s'"
  by (auto simp: TransferOrderService_Cancel_def tx_inv bto_life.transition_iff elsewhere_same_def
      intro!: order_status_event revised_refl)

text \<open>The map of an approval holds lines of its order only.\<close>

lemma order_line_of_Some: "order_line_of items i = Some b \<Longrightarrow> b \<in> set items"
proof -
  have "fold (\<lambda>it m. m(bti_item it \<mapsto> it)) items m i = Some b \<Longrightarrow> b \<in> set items \<or> m i = Some b" for m
    by (induction items arbitrary: m) (auto split: if_splits, fastforce split: if_splits)
  then show "order_line_of items i = Some b \<Longrightarrow> b \<in> set items" unfolding order_line_of_def by fastforce
qed

lemma approve_item_effect:
  assumes run: "approve_item tx (order_line_of items) a s = Inr (u, s')"
    and items: "\<forall>b \<in> set items. \<exists>b' \<in> set (ivd_order_items s). bti_id b' = bti_id b \<and> bti_order b' = k"
    and sch: "inv_schema s"
  shows "elsewhere_same s s' \<and> ivd_orders s' = ivd_orders s \<and> revised k (ivd_order_items s) (ivd_order_items s')"
proof -
  from run obtain b where line: "order_line_of items (apv_item a) = Some b"
    by (auto simp: approve_item_def split: option.splits)
  from items order_line_of_Some [OF this] obtain b0 where b0: "b0 \<in> set (ivd_order_items s)"
    "bti_id b0 = bti_id b" "bti_order b0 = k" by blast
  have dist: "distinct (map bti_id (ivd_order_items s))" using sch by (simp add: inv_schema_def table_local_ok_def)
  let ?P = "\<lambda>r. bti_tenant r = tx_tenant tx \<and> bti_id r = bti_id b"
  have one: "bti_order r = k" if "r \<in> set (ivd_order_items s)" "?P r" for r
    using distinct_key_unique [OF dist that(1) b0(1)] that(2) b0(2,3) by simp
  obtain f where s': "s' = s\<lparr>ivd_order_items := update_rows ?P f (ivd_order_items s)\<rparr>" and f: "\<And>r. same_line r (f r)"
  proof (cases "apv_price a")
    case None
    then show ?thesis
      using run line that [of "\<lambda>r. r\<lparr>bti_approved := Some (numeric 3 (apv_qty a))\<rparr>"]
      by (auto simp: approve_item_def TransferOrderItemRepo_SetApprovedQty_def tx_inv transfer_order_items.update_Inr
          rls_update_def same_line_def)
  next
    case (Some price)
    let ?f = "\<lambda>r. r\<lparr>bti_approved := Some (numeric 3 (apv_qty a))\<rparr>"
    define cur where "cur = (if apv_currency a = '''' then ''TRY'' else apv_currency a)"
    let ?g = "\<lambda>r. r\<lparr>bti_price := Some (numeric 4 price), bti_currency := Some (char3 cur)\<rparr>"
    have fuse: "update_rows ?P ?g (update_rows ?P ?f rows) = update_rows ?P (\<lambda>r. ?g (?f r)) rows" for rows
      by (rule update_rows_fuse) auto
    have "s' = s\<lparr>ivd_order_items := update_rows ?P ?g (update_rows ?P ?f (ivd_order_items s))\<rparr>"
      using run line Some
      by (auto simp: approve_item_def TransferOrderItemRepo_SetApprovedQty_def TransferOrderItemRepo_SetUnitPrice_def
          tx_inv transfer_order_items.update_Inr rls_update_def cur_def [symmetric])
    then have "s' = s\<lparr>ivd_order_items := update_rows ?P (\<lambda>r. ?g (?f r)) (ivd_order_items s)\<rparr>"
      by (simp only: fuse)
    then show ?thesis using that [of "\<lambda>r. ?g (?f r)"] by (simp add: same_line_def)
  qed
  have "revised k (ivd_order_items s) (update_rows ?P f (ivd_order_items s))"
    by (rule revised_update) (use one f in blast)+
  then show ?thesis by (simp add: s' elsewhere_same_def)
qed

lemma approve_item_keeps: "keeps_schema (approve_item tx lines a)"
  unfolding approve_item_def by (intro schema_kept.within_rules inv_intro)

lemma revised_member:
  "revised k bs bs' \<Longrightarrow> b \<in> set bs \<Longrightarrow> \<exists>b' \<in> set bs'. same_line b b'"
  "revised k bs bs' \<Longrightarrow> b' \<in> set bs' \<Longrightarrow> \<exists>b \<in> set bs. same_line b b' \<and> (bti_order b \<noteq> k \<longrightarrow> b' = b)"
  unfolding revised_def by (induction rule: list_all2_induct) auto

lemma approve_items_effect:
  assumes "tx_each (approve_item tx (order_line_of items)) aps s = Inr (u, s')"
    and "\<forall>b \<in> set items. \<exists>b' \<in> set (ivd_order_items s). bti_id b' = bti_id b \<and> bti_order b' = k"
    and "inv_schema s"
  shows "elsewhere_same s s' \<and> ivd_orders s' = ivd_orders s \<and> revised k (ivd_order_items s) (ivd_order_items s')"
  using assms
proof (induction aps arbitrary: s)
  case (Cons a aps)
  from Cons.prems(1) obtain v s1 where one: "approve_item tx (order_line_of items) a s = Inr (v, s1)"
    and rest: "tx_each (approve_item tx (order_line_of items)) aps s1 = Inr (u, s')" by (auto simp: tx_bind_Inr)
  note eff = approve_item_effect [OF one Cons.prems(2,3)]
  have sch1: "inv_schema s1" by (rule tx_onD [OF approve_item_keeps Cons.prems(3) one])
  have "\<forall>b \<in> set items. \<exists>b' \<in> set (ivd_order_items s1). bti_id b' = bti_id b \<and> bti_order b' = k"
  proof
    fix b
    assume "b \<in> set items"
    with Cons.prems(2) obtain b0 where "b0 \<in> set (ivd_order_items s)" "bti_id b0 = bti_id b" "bti_order b0 = k"
      by blast
    with eff show "\<exists>b' \<in> set (ivd_order_items s1). bti_id b' = bti_id b \<and> bti_order b' = k"
      using revised_member(1) [of k "ivd_order_items s" "ivd_order_items s1" b0] by (auto simp: same_line_def)
  qed
  with Cons.IH [OF rest _ sch1] eff show ?case
    by (auto simp: elsewhere_same_def intro: revised_trans)
qed (simp add: elsewhere_same_def revised_refl)

lemma Order_Approve_event:
  assumes run: "TransferOrderService_Approve c tn p i who aps s = Inr (x, s')" and sch: "inv_schema s"
  shows "inv_event [] s s'"
proof -
  let ?tx = "inv_tx c tn"
  from run obtain ord sa items u sb where get: "TransferOrderRepo_GetByID ?tx i s = Inr (ord, sa)"
    and allowed: "BTOApproved \<in> set (allowedBTOTransitions (bto_status ord))"
    and lines: "TransferOrderItemRepo_ListByTransferOrder ?tx i sa = Inr (items, sa)"
    and loop: "tx_each (approve_item ?tx (order_line_of items)) aps sa = Inr (u, sb)"
    and upd: "TransferOrderRepo_UpdateStatus ?tx i BTOApproved None (Some (ctx_now c)) (Some who) sb = Inr (x, s')"
    by (auto simp: TransferOrderService_Approve_def tx_inv bto_life.transition_iff
        TransferOrderItemRepo_ListByTransferOrder_def)
  have sa: "sa = s" using Order_GetByID_Inr [OF get] by blast
  have "\<forall>b \<in> set items. \<exists>b' \<in> set (ivd_order_items sa). bti_id b' = bti_id b \<and> bti_order b' = i"
    using lines by (auto simp: TransferOrderItemRepo_ListByTransferOrder_def tx_bind_Inr rls_select_def)
  from approve_items_effect [OF loop this] sch sa show ?thesis
    by (intro order_status_event [OF get allowed _ _ _ _ upd]) simp_all
qed

text \<open>Every call of the service is one of the events.\<close>

lemma inv_step_event:
  assumes "inv_step es s s'" and "inv_schema s"
  shows "inv_event es s s'"
  using assms
proof (induction rule: inv_step.induct)
  case (order_submitted c tn p i s x7 s')
  then show ?case by (auto simp: TransferOrderService_Submit_def intro: bto_transition_event)
next
  case (order_rejected c tn p i s x7 s')
  then show ?case by (auto simp: TransferOrderService_Reject_def intro: bto_transition_event)
next
  case (order_fulfilled c tn p i s x7 s')
  then show ?case by (auto simp: TransferOrderService_Fulfil_def intro: bto_transition_event)
qed (blast intro: apart_event [OF master_data_apart(1)] apart_event [OF master_data_apart(2)]
    apart_event [OF master_data_apart(3)] apart_event [OF master_data_apart(4)] apart_event [OF master_data_apart(5)]
    apart_event [OF master_data_apart(6)] apart_event [OF master_data_apart(7)] RecordMovement_event
    CreateReceipt_event Shipment_Create_event Order_Create_event Shipment_Approve_event Shipment_Cancel_event
    Shipment_Advance_event Shipment_Receive_event Order_Approve_event Order_Cancel_event)+

end
