(* ===== verification/Inv_Books.thy ===== *)
theory Inv_Books
  imports Inv_System
begin

text \<open>
  The books of the inventory: goods on hand and on the road, shipment lines and their
  stages, and the lines of transfer orders as sums over the shipments that serve them. Every
  event keeps them.
\<close>

section \<open>Goods and lines\<close>

text \<open>Where the shipment of a line is.\<close>

definition line_status :: "inv_db \<Rightarrow> shipment_item \<Rightarrow> shipment_status \<Rightarrow> bool" where
  "line_status s r st \<longleftrightarrow>
     (\<exists>sh \<in> set (ivd_shipments s). shipment_at (shi_tenant r) (shi_shipment r) sh \<and> shp_status sh = st)"

definition serves :: "inv_db \<Rightarrow> uuid \<Rightarrow> shipment_item \<Rightarrow> bool" where
  "serves s k r \<longleftrightarrow>
     (\<exists>sh \<in> set (ivd_shipments s). shipment_at (shi_tenant r) (shi_shipment r) sh \<and> shp_order sh = Some k)"

definition travelling :: "uuid \<Rightarrow> uuid \<Rightarrow> inv_db \<Rightarrow> float64" where
  "travelling tn i s = (\<Sum>r \<leftarrow> ivd_shipment_items s.
     if shi_tenant r = tn \<and> shi_item r = i \<and> line_status s r ShipmentInTransit then shi_shipped r else 0)"

text \<open>All there is of an item: on hand at the warehouses and on the road between them.\<close>

definition goods :: "uuid \<Rightarrow> uuid \<Rightarrow> inv_db \<Rightarrow> float64" where
  "goods tn i s = stock tn i s + travelling tn i s"

text \<open>What the shipments that serve an order carried of an item.\<close>

definition carried :: "(shipment_item \<Rightarrow> float64) \<Rightarrow> uuid \<Rightarrow> uuid \<Rightarrow> uuid \<Rightarrow> inv_db \<Rightarrow> float64" where
  "carried f tn k i s = (\<Sum>r \<leftarrow> ivd_shipment_items s.
     if shi_tenant r = tn \<and> shi_item r = i \<and> serves s k r then f r else 0)"

fun line_stage :: "shipment_status \<Rightarrow> shipment_item \<Rightarrow> bool" where
  "line_stage ShipmentInTransit r \<longleftrightarrow> shi_shipped r = shi_requested r \<and> shi_received r = 0"
| "line_stage ShipmentReceived r \<longleftrightarrow> shi_shipped r = shi_requested r \<and> shi_received r = shi_requested r"
| "line_stage _ r \<longleftrightarrow> shi_shipped r = 0 \<and> shi_received r = 0"

definition stages_ok :: "inv_db \<Rightarrow> bool" where
  "stages_ok s \<longleftrightarrow> (\<forall>r \<in> set (ivd_shipment_items s). \<forall>st. line_status s r st \<longrightarrow> line_stage st r)"

definition order_books :: "inv_db \<Rightarrow> bool" where
  "order_books s \<longleftrightarrow> (\<forall>b \<in> set (ivd_order_items s).
     bti_shipped b = carried shi_shipped (bti_tenant b) (bti_order b) (bti_item b) s \<and>
     bti_received b = carried shi_received (bti_tenant b) (bti_order b) (bti_item b) s)"

lemma sum_rows_changed:
  fixes g h d :: "'r \<Rightarrow> rat"
  assumes "\<And>r. r \<in> set rows \<Longrightarrow> P r \<Longrightarrow> g (f r) = h r + d r" and "\<And>r. r \<in> set rows \<Longrightarrow> \<not> P r \<Longrightarrow> g r = h r"
  shows "(\<Sum>r \<leftarrow> update_rows P f rows. g r) = (\<Sum>r \<leftarrow> rows. h r) + (\<Sum>r \<leftarrow> filter P rows. d r)"
  using assms by (induction rows) (auto simp: update_rows_def)

lemma sum_cong: "(\<And>r. r \<in> set rows \<Longrightarrow> g r = h r) \<Longrightarrow> (\<Sum>r \<leftarrow> rows. g r) = (\<Sum>r \<leftarrow> rows. h r)" for g h :: "'r \<Rightarrow> rat"
  by (induction rows) auto

lemma sum_zero: "(\<And>r. r \<in> set rows \<Longrightarrow> g r = 0) \<Longrightarrow> (\<Sum>r \<leftarrow> rows. g r) = 0" for g :: "'r \<Rightarrow> rat"
  by (induction rows) auto

lemma sum_drafted:
  "(\<And>r. r \<in> set rows \<Longrightarrow> g r = h r) \<Longrightarrow> (\<And>r. r \<in> set new \<Longrightarrow> g r = 0) \<Longrightarrow>
   (\<Sum>r \<leftarrow> rows @ new. g r) = (\<Sum>r \<leftarrow> rows. h r)" for g h :: "'r \<Rightarrow> rat"
  using sum_cong [of rows g h] sum_zero [of new g] by simp

lemma amount_if:
  "(\<Sum>r \<leftarrow> filter (line_at tn k) rows. if shi_tenant r = tn' \<and> shi_item r = i \<and> B then f r else 0) =
   (if tn' = tn \<and> B then amount f i (lines_of tn k rows) else 0)"
  by (induction rows) (auto simp: line_at_def lines_of_def)

text \<open>Shipments change in one place.\<close>

lemma shipments_unique:
  "inv_schema s \<Longrightarrow> sh \<in> set (ivd_shipments s) \<Longrightarrow> sh' \<in> set (ivd_shipments s) \<Longrightarrow> shp_id sh = shp_id sh' \<Longrightarrow> sh = sh'"
  by (simp add: inv_schema_def table_local_ok_def) (metis distinct_key_unique)

lemma orders_unique:
  "inv_schema s \<Longrightarrow> ord \<in> set (ivd_orders s) \<Longrightarrow> ord' \<in> set (ivd_orders s) \<Longrightarrow> bto_id ord = bto_id ord' \<Longrightarrow> ord = ord'"
  by (simp add: inv_schema_def table_local_ok_def) (metis distinct_key_unique)

definition shipment_steps :: "shipment \<Rightarrow> shipment_status \<Rightarrow> inv_db \<Rightarrow> inv_db \<Rightarrow> bool" where
  "shipment_steps sh st s s' \<longleftrightarrow> (\<exists>now t1 t2. ivd_shipments s' =
     update_rows (shipment_at (shp_tenant sh) (shp_id sh)) (moved_shipment now st t1 t2) (ivd_shipments s))"

lemma shipment_at_moved [simp]: "shipment_at tn k (moved_shipment now st t1 t2 sh) = shipment_at tn k sh"
  by (simp add: shipment_at_def)

lemma line_at_iff: "line_at tn k r \<longleftrightarrow> shi_tenant r = tn \<and> shi_shipment r = k"
  by (simp add: line_at_def)

lemma Bex_update: "(\<exists>x \<in> set (update_rows P f rows). Q x) \<longleftrightarrow> (\<exists>x \<in> set rows. if P x then Q (f x) else Q x)"
  by (auto simp: update_rows_def)

lemma stepped_line_status:
  assumes "shipment_steps sh st s s'" and "sh \<in> set (ivd_shipments s)"
  shows "line_status s' r st' \<longleftrightarrow> (if line_at (shp_tenant sh) (shp_id sh) r then st' = st else line_status s r st')"
proof -
  from assms(1) obtain now t1 t2 where s': "ivd_shipments s' = update_rows (shipment_at (shp_tenant sh) (shp_id sh))
    (moved_shipment now st t1 t2) (ivd_shipments s)" by (auto simp: shipment_steps_def)
  have "line_status s' r st' \<longleftrightarrow> (\<exists>x \<in> set (ivd_shipments s).
      if shipment_at (shp_tenant sh) (shp_id sh) x then shipment_at (shi_tenant r) (shi_shipment r) x \<and> st = st'
      else shipment_at (shi_tenant r) (shi_shipment r) x \<and> shp_status x = st')"
    unfolding line_status_def s' Bex_update by simp
  also have "\<dots> \<longleftrightarrow> (if line_at (shp_tenant sh) (shp_id sh) r then st' = st else line_status s r st')"
  proof (cases "line_at (shp_tenant sh) (shp_id sh) r")
    case True
    then have "shi_tenant r = shp_tenant sh" "shi_shipment r = shp_id sh" by (simp_all add: line_at_def)
    moreover have "shipment_at (shp_tenant sh) (shp_id sh) sh" by (simp add: shipment_at_def)
    ultimately show ?thesis using True assms(2) by auto
  next
    case False
    then have "\<not> (shipment_at (shi_tenant r) (shi_shipment r) x \<and> shipment_at (shp_tenant sh) (shp_id sh) x)" for x
      by (auto simp: shipment_at_def line_at_def)
    then show ?thesis using False unfolding line_status_def by (auto intro!: bex_cong)
  qed
  finally show ?thesis .
qed

lemma stepped_serves:
  assumes "shipment_steps sh st s s'"
  shows "serves s' k r \<longleftrightarrow> serves s k r"
proof -
  from assms obtain now t1 t2 where s': "ivd_shipments s' = update_rows (shipment_at (shp_tenant sh) (shp_id sh))
    (moved_shipment now st t1 t2) (ivd_shipments s)" by (auto simp: shipment_steps_def)
  show ?thesis unfolding serves_def s' Bex_update by simp
qed

lemma line_of_shipment:
  assumes "inv_schema s" and "sh \<in> set (ivd_shipments s)" and "line_at (shp_tenant sh) (shp_id sh) r"
  shows "line_status s r st \<longleftrightarrow> shp_status sh = st" and "serves s k r \<longleftrightarrow> shp_order sh = Some k"
  using assms
  by (auto simp: line_status_def serves_def shipment_at_def line_at_def
      dest: shipments_unique [OF assms(1) _ assms(2)])

text \<open>New shipments have ids no line refers to yet.\<close>

lemma line_status_fields:
  "shi_tenant r' = shi_tenant r \<Longrightarrow> shi_shipment r' = shi_shipment r \<Longrightarrow>
   line_status s r' st = line_status s r st \<and> serves s k r' = serves s k r"
  by (simp add: line_status_def serves_def)

section \<open>What the events leave alone\<close>

lemma books_cong:
  assumes "ivd_shipments s' = ivd_shipments s" and "ivd_shipment_items s' = ivd_shipment_items s"
  shows "line_status s' r st = line_status s r st" and "serves s' k r = serves s k r"
    and "travelling tn i s' = travelling tn i s" and "carried f tn k i s' = carried f tn k i s"
    and "stages_ok s' = stages_ok s"
  using assms by (simp_all add: line_status_def serves_def travelling_def carried_def stages_ok_def)

lemma order_reaches_frame:
  "order_reaches tn k to s s' \<Longrightarrow> ivd_shipments s' = ivd_shipments s \<and>
   ivd_shipment_items s' = ivd_shipment_items s \<and> ivd_levels s' = ivd_levels s \<and> ivd_order_items s' = ivd_order_items s"
  by (auto simp: order_reaches_def)

lemma order_closes_frame:
  "order_closes tn k s s' \<Longrightarrow> ivd_shipments s' = ivd_shipments s \<and>
   ivd_shipment_items s' = ivd_shipment_items s \<and> ivd_levels s' = ivd_levels s \<and> ivd_order_items s' = ivd_order_items s"
  by (auto simp: order_closes_def split: if_splits dest!: order_reaches_frame)

lemma linked_frame:
  "(case k of None \<Rightarrow> s' = s | Some k \<Rightarrow> order_reaches tn k to s s') \<Longrightarrow> ivd_shipments s' = ivd_shipments s \<and>
     ivd_shipment_items s' = ivd_shipment_items s \<and> ivd_levels s' = ivd_levels s \<and> ivd_order_items s' = ivd_order_items s"
  "(case k of None \<Rightarrow> s' = s | Some k \<Rightarrow> order_closes tn k s s') \<Longrightarrow> ivd_shipments s' = ivd_shipments s \<and>
     ivd_shipment_items s' = ivd_shipment_items s \<and> ivd_levels s' = ivd_levels s \<and> ivd_order_items s' = ivd_order_items s"
  using order_reaches_frame order_closes_frame by (auto split: option.splits)

lemma drafted_old_line:
  assumes sch: "inv_schema s" "inv_schema s'" and new: "ivd_shipments s' = ivd_shipments s @ [sh]"
    and r: "r \<in> set (ivd_shipment_items s)"
  shows "line_status s' r st = line_status s r st" and "serves s' k r = serves s k r"
proof -
  have "shp_id sh \<notin> shp_id ` set (ivd_shipments s)"
    using sch(2) new by (simp add: inv_schema_def table_local_ok_def)
  moreover have "shi_shipment r \<in> shp_id ` set (ivd_shipments s)"
    using sch(1) r by (simp add: inv_schema_def inv_links_def)
  ultimately have "shi_shipment r \<noteq> shp_id sh" by metis
  then show "line_status s' r st = line_status s r st" "serves s' k r = serves s k r"
    by (auto simp: line_status_def serves_def new shipment_at_def)
qed

text \<open>The lines of one shipment move, and the sums with them.\<close>

lemma travelling_moved:
  assumes steps: "shipment_steps sh st s s'" and sh: "sh \<in> set (ivd_shipments s)" and sch: "inv_schema s"
    and items: "ivd_shipment_items s' = update_rows (line_at (shp_tenant sh) (shp_id sh)) f (ivd_shipment_items s)"
    and f: "\<And>r. shi_tenant (f r) = shi_tenant r \<and> shi_item (f r) = shi_item r \<and> shi_shipment (f r) = shi_shipment r"
  shows "travelling tn i s' = travelling tn i s +
    (if tn = shp_tenant sh
     then amount (\<lambda>r. (if st = ShipmentInTransit then shi_shipped (f r) else 0) -
       (if shp_status sh = ShipmentInTransit then shi_shipped r else 0)) i
       (lines_of (shp_tenant sh) (shp_id sh) (ivd_shipment_items s)) else 0)"
proof -
  let ?P = "line_at (shp_tenant sh) (shp_id sh)"
  have pf: "line_status t (f r) x = line_status t r x" "?P (f r) = ?P r" for t r x
    using line_status_fields [of "f r" r t x] f by (simp_all add: line_at_def)
  have "travelling tn i s' = travelling tn i s + (\<Sum>r \<leftarrow> filter ?P (ivd_shipment_items s).
      if shi_tenant r = tn \<and> shi_item r = i \<and> True then (if st = ShipmentInTransit then shi_shipped (f r) else 0) -
       (if shp_status sh = ShipmentInTransit then shi_shipped r else 0) else 0)"
    unfolding travelling_def items
    by (rule sum_rows_changed)
       (auto simp: pf f stepped_line_status [OF steps sh] line_of_shipment(1) [OF sch sh])
  then show ?thesis unfolding amount_if by simp
qed

lemma carried_moved:
  assumes steps: "shipment_steps sh st s s'" and sh: "sh \<in> set (ivd_shipments s)" and sch: "inv_schema s"
    and items: "ivd_shipment_items s' = update_rows (line_at (shp_tenant sh) (shp_id sh)) f (ivd_shipment_items s)"
    and f: "\<And>r. shi_tenant (f r) = shi_tenant r \<and> shi_item (f r) = shi_item r \<and> shi_shipment (f r) = shi_shipment r"
    and g: "\<And>r. r \<in> set (ivd_shipment_items s) \<Longrightarrow> line_at (shp_tenant sh) (shp_id sh) r \<Longrightarrow> g (f r) = g r + d r"
  shows "carried g tn k i s' = carried g tn k i s +
    (if tn = shp_tenant sh \<and> shp_order sh = Some k
     then amount d i (lines_of (shp_tenant sh) (shp_id sh) (ivd_shipment_items s)) else 0)"
proof -
  let ?P = "line_at (shp_tenant sh) (shp_id sh)"
  have pf: "serves t k (f r) = serves t k r" for t r
    using line_status_fields [of "f r" r t] f by simp
  have "carried g tn k i s' = carried g tn k i s + (\<Sum>r \<leftarrow> filter ?P (ivd_shipment_items s).
      if shi_tenant r = tn \<and> shi_item r = i \<and> shp_order sh = Some k then d r else 0)"
    unfolding carried_def items
    by (rule sum_rows_changed)
       (auto simp: pf f g stepped_serves [OF steps] line_of_shipment(2) [OF sch sh])
  then show ?thesis unfolding amount_if .
qed

section \<open>Conservation of goods\<close>

lemma left_steps: "left_with tn sh now s s' \<Longrightarrow> tn = shp_tenant sh \<Longrightarrow> shipment_steps sh ShipmentInTransit s s'"
  by (auto simp: left_with_def Let_def shipment_steps_def)

lemma arrived_steps: "arrived_with tn sh now s s' \<Longrightarrow> tn = shp_tenant sh \<Longrightarrow> shipment_steps sh ShipmentReceived s s'"
  by (auto simp: arrived_with_def Let_def shipment_steps_def)

lemma line_change_fields:
  "shi_tenant (left_line r) = shi_tenant r \<and> shi_item (left_line r) = shi_item r \<and> shi_shipment (left_line r) = shi_shipment r"
  "shi_tenant (arrived_line r) = shi_tenant r \<and> shi_item (arrived_line r) = shi_item r \<and> shi_shipment (arrived_line r) = shi_shipment r"
  by (simp_all add: left_line_def arrived_line_def)

lemma amount_minus: "amount (\<lambda>r. - f r) i xs = - amount f i xs"
  by (induction xs) auto

lemma amount_zero: "amount (\<lambda>r. 0) i xs = 0"
  by (induction xs) auto

lemma inv_event_goods:
  assumes "inv_event es s s'" and sch: "inv_schema s" "inv_schema s'"
  shows "goods tn i s' = goods tn i s + posted_change tn i es s"
  using assms
proof (induction rule: inv_event.induct)
  case (goods_posted s s' es)
  then have "travelling tn i s' = travelling tn i s" by (intro books_cong) (simp_all add: same_papers_def)
  with goods_posted show ?case by (simp add: goods_def)
next
  case (shipment_drafted s' s sh lines)
  note old = drafted_old_line(1) [OF shipment_drafted(8,9,4)]
  have "travelling tn i s' = travelling tn i s"
    unfolding travelling_def shipment_drafted(6)
    by (rule sum_drafted) (use shipment_drafted(7) in \<open>simp_all add: old\<close>)
  with shipment_drafted show ?case by (simp add: goods_def stock_def)
next
  case (shipment_moved sh s st s' now)
  have steps: "shipment_steps sh st s s'" using shipment_moved(4) by (auto simp: shipment_steps_def)
  have items: "ivd_shipment_items s' = update_rows (line_at (shp_tenant sh) (shp_id sh)) id (ivd_shipment_items s)"
    using shipment_moved(4) by (simp add: update_rows_def cong: if_cong)
  have ne: "shp_status sh \<noteq> ShipmentInTransit" "st \<noteq> ShipmentInTransit" using shipment_moved(2,3) by auto
  have "travelling tn i s' = travelling tn i s"
    using travelling_moved [OF steps shipment_moved(1,5) items, of tn i] by (simp add: ne amount_zero)
  with shipment_moved(4) show ?case by (simp add: goods_def stock_def)
next
  case (shipment_left sh s now s1 s')
  note frame = linked_frame(1) [OF shipment_left(5)]
  have items: "ivd_shipment_items s1 = update_rows (line_at (shp_tenant sh) (shp_id sh)) left_line (ivd_shipment_items s)"
    and stock: "stock tn i s1 = stock tn i s -
      (if tn = shp_tenant sh then amount shi_requested i (lines_of tn (shp_id sh) (ivd_shipment_items s)) else 0)"
    using shipment_left(3) by (auto simp: left_with_def Let_def)
  have "travelling tn i s1 = travelling tn i s +
      (if tn = shp_tenant sh then amount shi_requested i (lines_of tn (shp_id sh) (ivd_shipment_items s)) else 0)"
    using travelling_moved [OF left_steps [OF shipment_left(3) refl] shipment_left(1,6) items line_change_fields(1)]
      shipment_left(2) by (simp add: left_line_def)
  with stock have "goods tn i s1 = goods tn i s" by (simp add: goods_def)
  then show ?case using frame books_cong(3) [of s' s1 tn i] by (simp add: goods_def stock_def)
next
  case (shipment_arrived sh s now s1 s')
  note frame = linked_frame(2) [OF shipment_arrived(5)]
  have items: "ivd_shipment_items s1 = update_rows (line_at (shp_tenant sh) (shp_id sh)) arrived_line (ivd_shipment_items s)"
    and stock: "stock tn i s1 = stock tn i s +
      (if tn = shp_tenant sh then amount shi_shipped i (lines_of tn (shp_id sh) (ivd_shipment_items s)) else 0)"
    using shipment_arrived(3) by (auto simp: arrived_with_def Let_def)
  have "travelling tn i s1 = travelling tn i s -
      (if tn = shp_tenant sh then amount shi_shipped i (lines_of tn (shp_id sh) (ivd_shipment_items s)) else 0)"
    using travelling_moved [OF arrived_steps [OF shipment_arrived(3) refl] shipment_arrived(1,6) items line_change_fields(2)]
      shipment_arrived(2) by (simp add: amount_minus)
  with stock have "goods tn i s1 = goods tn i s" by (simp add: goods_def)
  then show ?case using frame books_cong(3) [of s' s1 tn i] by (simp add: goods_def stock_def)
next
  case (order_drafted s s' ord lines)
  then show ?case using books_cong(3) [of s' s tn i] by (simp add: goods_def stock_def elsewhere_same_def)
next
  case (order_moved s s' ord to now t1 t2 who)
  then show ?case using books_cong(3) [of s' s tn i] by (simp add: goods_def stock_def elsewhere_same_def)
qed

section \<open>Stages of the lines\<close>

lemma inv_event_stages:
  assumes "inv_event es s s'" and "inv_schema s" "inv_schema s'" and "stages_ok s"
  shows "stages_ok s'"
  using assms
proof (induction rule: inv_event.induct)
  case (goods_posted s s' es)
  then show ?case using books_cong(5) [of s' s] by (simp add: same_papers_def)
next
  case (shipment_drafted s' s sh lines)
  note old = drafted_old_line(1) [OF shipment_drafted(8,9,4)]
  have sh: "sh \<in> set (ivd_shipments s')" by (simp add: shipment_drafted(4))
  have new: "line_status s' r st \<longleftrightarrow> st = ShipmentDraft" if "r \<in> set lines" for r st
  proof -
    have "line_at (shp_tenant sh) (shp_id sh) r" using shipment_drafted(7) that by (simp add: line_at_def)
    from line_of_shipment(1) [OF shipment_drafted(9) sh this] show ?thesis
      unfolding shipment_drafted(5) by (rule trans) auto
  qed
  show ?case
    unfolding stages_ok_def
  proof (intro ballI allI impI)
    fix r st
    assume r: "r \<in> set (ivd_shipment_items s')" and st: "line_status s' r st"
    show "line_stage st r"
    proof (cases "r \<in> set (ivd_shipment_items s)")
      case True
      with st old [OF True] shipment_drafted(10) show ?thesis by (simp add: stages_ok_def)
    next
      case False
      with r have "r \<in> set lines" by (simp add: shipment_drafted(6))
      with st new shipment_drafted(7) show ?thesis by simp
    qed
  qed
next
  case (shipment_moved sh s st s' now)
  have steps: "shipment_steps sh st s s'" using shipment_moved(4) by (auto simp: shipment_steps_def)
  have zero: "shi_shipped r = 0 \<and> shi_received r = 0"
    if "r \<in> set (ivd_shipment_items s)" "line_at (shp_tenant sh) (shp_id sh) r" for r
  proof -
    have "line_stage (shp_status sh) r"
      using shipment_moved(7) that line_of_shipment(1) [OF shipment_moved(5,1)] by (simp add: stages_ok_def)
    with shipment_moved(2) show ?thesis by auto
  qed
  have "ivd_shipment_items s' = ivd_shipment_items s" using shipment_moved(4) by simp
  with zero shipment_moved(3,7) show ?case
    unfolding stages_ok_def stepped_line_status [OF steps shipment_moved(1)] by (auto split: if_splits)
next
  case (shipment_left sh s now s1 s')
  note frame = linked_frame(1) [OF shipment_left(5)]
  note line = line_of_shipment(1) [OF shipment_left(6,1)]
  have items: "ivd_shipment_items s1 = update_rows (line_at (shp_tenant sh) (shp_id sh)) left_line (ivd_shipment_items s)"
    using shipment_left(3) by (auto simp: left_with_def Let_def)
  have "stages_ok s1"
    unfolding stages_ok_def stepped_line_status [OF left_steps [OF shipment_left(3) refl] shipment_left(1)] items
  proof (intro ballI allI impI)
    fix r st
    assume r: "r \<in> set (update_rows (line_at (shp_tenant sh) (shp_id sh)) left_line (ivd_shipment_items s))"
      and st: "if line_at (shp_tenant sh) (shp_id sh) r then st = ShipmentInTransit else line_status s r st"
    from r obtain r0 where r0: "r0 \<in> set (ivd_shipment_items s)"
      and eq: "r = (if line_at (shp_tenant sh) (shp_id sh) r0 then left_line r0 else r0)" by (rule update_rowsE)
    have "line_at (shp_tenant sh) (shp_id sh) r0 \<Longrightarrow> line_stage ShipmentApproved r0"
      using shipment_left(2,8) r0 line unfolding stages_ok_def by blast
    with st eq r0 shipment_left(8) show "line_stage st r"
      by (auto simp: left_line_def line_at_def stages_ok_def split: if_splits)
  qed
  then show ?case using frame books_cong(5) [of s' s1] by simp
next
  case (shipment_arrived sh s now s1 s')
  note frame = linked_frame(2) [OF shipment_arrived(5)]
  note line = line_of_shipment(1) [OF shipment_arrived(6,1)]
  have items: "ivd_shipment_items s1 = update_rows (line_at (shp_tenant sh) (shp_id sh)) arrived_line (ivd_shipment_items s)"
    using shipment_arrived(3) by (auto simp: arrived_with_def Let_def)
  have "stages_ok s1"
    unfolding stages_ok_def stepped_line_status [OF arrived_steps [OF shipment_arrived(3) refl] shipment_arrived(1)] items
  proof (intro ballI allI impI)
    fix r st
    assume r: "r \<in> set (update_rows (line_at (shp_tenant sh) (shp_id sh)) arrived_line (ivd_shipment_items s))"
      and st: "if line_at (shp_tenant sh) (shp_id sh) r then st = ShipmentReceived else line_status s r st"
    from r obtain r0 where r0: "r0 \<in> set (ivd_shipment_items s)"
      and eq: "r = (if line_at (shp_tenant sh) (shp_id sh) r0 then arrived_line r0 else r0)" by (rule update_rowsE)
    have "line_at (shp_tenant sh) (shp_id sh) r0 \<Longrightarrow> line_stage ShipmentInTransit r0"
      using shipment_arrived(2,8) r0 line unfolding stages_ok_def by blast
    moreover have "0 \<le> shi_shipped r0" using line_quantities [OF shipment_arrived(6) r0] by (simp add: quantity_ok_def)
    ultimately show "line_stage st r"
      using st eq r0 shipment_arrived(8) by (auto simp: arrived_line_def line_at_def stages_ok_def split: if_splits)
  qed
  then show ?case using frame books_cong(5) [of s' s1] by simp
next
  case (order_drafted s s' ord lines)
  then show ?case using books_cong(5) [of s' s] by (simp add: elsewhere_same_def)
next
  case (order_moved s s' ord to now t1 t2 who)
  then show ?case using books_cong(5) [of s' s] by (simp add: elsewhere_same_def)
qed

section \<open>The lines of transfer orders\<close>

lemma order_booksI:
  "(\<And>b. b \<in> set (ivd_order_items s) \<Longrightarrow>
     bti_shipped b = carried shi_shipped (bti_tenant b) (bti_order b) (bti_item b) s \<and>
     bti_received b = carried shi_received (bti_tenant b) (bti_order b) (bti_item b) s) \<Longrightarrow> order_books s"
  by (simp add: order_books_def)

lemma order_books_cong:
  assumes "order_books s" and "ivd_shipments s' = ivd_shipments s" "ivd_shipment_items s' = ivd_shipment_items s"
    and "\<And>b'. b' \<in> set (ivd_order_items s') \<Longrightarrow> \<exists>b \<in> set (ivd_order_items s). same_line b b'"
  shows "order_books s'"
proof (rule order_booksI)
  fix b'
  assume "b' \<in> set (ivd_order_items s')"
  from assms(4) [OF this] obtain b where "b \<in> set (ivd_order_items s)" and "same_line b b'" by blast
  with assms(1) show "bti_shipped b' = carried shi_shipped (bti_tenant b') (bti_order b') (bti_item b') s' \<and>
     bti_received b' = carried shi_received (bti_tenant b') (bti_order b') (bti_item b') s'"
    by (simp add: order_books_def same_line_def books_cong(4) [OF assms(2,3)])
qed

lemma same_line_refl: "same_line b b" by (simp add: same_line_def)

lemma inv_event_order_books:
  assumes "inv_event es s s'" and "inv_schema s" "inv_schema s'" and "stages_ok s" and "order_books s"
  shows "order_books s'"
  using assms
proof (induction rule: inv_event.induct)
  case (goods_posted s s' es)
  then show ?case by (intro order_books_cong [OF goods_posted(6)]) (auto simp: same_papers_def intro: same_line_refl)
next
  case (shipment_drafted s' s sh lines)
  note old = drafted_old_line(2) [OF shipment_drafted(8,9,4)]
  have "carried f tn k i s' = carried f tn k i s" if "\<And>r. r \<in> set lines \<Longrightarrow> f r = 0" for f tn k i
    unfolding carried_def shipment_drafted(6) by (rule sum_drafted) (use that in \<open>simp_all add: old\<close>)
  then have "carried shi_shipped tn k i s' = carried shi_shipped tn k i s"
    "carried shi_received tn k i s' = carried shi_received tn k i s" for tn k i
    using shipment_drafted(7) by blast+
  with shipment_drafted(3,11) show ?case by (simp add: order_books_def)
next
  case (shipment_moved sh s st s' now)
  have steps: "shipment_steps sh st s s'" using shipment_moved(4) by (auto simp: shipment_steps_def)
  have "ivd_shipment_items s' = ivd_shipment_items s" using shipment_moved(4) by simp
  then have "carried f tn k i s' = carried f tn k i s" for f tn k i
    unfolding carried_def stepped_serves [OF steps] by simp
  with shipment_moved(4,8) show ?case by (simp add: order_books_def)
next
  case (shipment_left sh s now s1 s')
  note frame = linked_frame(1) [OF shipment_left(5)]
  note steps = left_steps [OF shipment_left(3) refl]
  have items: "ivd_shipment_items s1 = update_rows (line_at (shp_tenant sh) (shp_id sh)) left_line (ivd_shipment_items s)"
    and lines: "ivd_order_items s1 = update_rows (order_line_served (shp_tenant sh) sh)
        (\<lambda>b. b\<lparr>bti_shipped := bti_shipped b +
          amount shi_requested (bti_item b) (lines_of (shp_tenant sh) (shp_id sh) (ivd_shipment_items s))\<rparr>) (ivd_order_items s)"
    using shipment_left(3) by (auto simp: left_with_def Let_def)
  note moved = carried_moved [OF steps shipment_left(1,6) items line_change_fields(1)]
  have zero: "shi_shipped r = 0" if "r \<in> set (ivd_shipment_items s)" "line_at (shp_tenant sh) (shp_id sh) r" for r
  proof -
    have "line_stage ShipmentApproved r"
      using shipment_left(2,8) that line_of_shipment(1) [OF shipment_left(6,1)] unfolding stages_ok_def by blast
    then show ?thesis by simp
  qed
  have shipped: "carried shi_shipped tn k i s1 = carried shi_shipped tn k i s +
    (if tn = shp_tenant sh \<and> shp_order sh = Some k
     then amount shi_requested i (lines_of (shp_tenant sh) (shp_id sh) (ivd_shipment_items s)) else 0)" for tn k i
    by (rule moved) (simp add: left_line_def zero)
  have received: "carried shi_received tn k i s1 = carried shi_received tn k i s" for tn k i
    using moved [of shi_received "\<lambda>_. 0" tn k i] by (simp add: left_line_def amount_zero)
  have "order_books s1"
  proof (rule order_booksI)
    fix b
    assume "b \<in> set (ivd_order_items s1)"
    then obtain b0 where b0: "b0 \<in> set (ivd_order_items s)" and b: "b = (if order_line_served (shp_tenant sh) sh b0
        then b0\<lparr>bti_shipped := bti_shipped b0 +
          amount shi_requested (bti_item b0) (lines_of (shp_tenant sh) (shp_id sh) (ivd_shipment_items s))\<rparr> else b0)"
      unfolding lines by (rule update_rowsE)
    with shipment_left(9) show "bti_shipped b = carried shi_shipped (bti_tenant b) (bti_order b) (bti_item b) s1 \<and>
        bti_received b = carried shi_received (bti_tenant b) (bti_order b) (bti_item b) s1"
      by (auto simp: order_books_def shipped received order_line_served_def)
  qed
  then show ?case by (rule order_books_cong) (use frame in \<open>auto intro: same_line_refl\<close>)
next
  case (shipment_arrived sh s now s1 s')
  note frame = linked_frame(2) [OF shipment_arrived(5)]
  note steps = arrived_steps [OF shipment_arrived(3) refl]
  have items: "ivd_shipment_items s1 = update_rows (line_at (shp_tenant sh) (shp_id sh)) arrived_line (ivd_shipment_items s)"
    and lines: "ivd_order_items s1 = update_rows (order_line_served (shp_tenant sh) sh)
        (\<lambda>b. b\<lparr>bti_received := bti_received b +
          amount shi_shipped (bti_item b) (lines_of (shp_tenant sh) (shp_id sh) (ivd_shipment_items s))\<rparr>) (ivd_order_items s)"
    using shipment_arrived(3) by (auto simp: arrived_with_def Let_def)
  note moved = carried_moved [OF steps shipment_arrived(1,6) items line_change_fields(2)]
  have zero: "shi_received r = 0" "0 \<le> shi_shipped r"
    if "r \<in> set (ivd_shipment_items s)" "line_at (shp_tenant sh) (shp_id sh) r" for r
  proof -
    have "line_stage ShipmentInTransit r"
      using shipment_arrived(2,8) that line_of_shipment(1) [OF shipment_arrived(6,1)] unfolding stages_ok_def by blast
    then show "shi_received r = 0" by simp
    show "0 \<le> shi_shipped r" using line_quantities [OF shipment_arrived(6) that(1)] by (simp add: quantity_ok_def)
  qed
  have received: "carried shi_received tn k i s1 = carried shi_received tn k i s +
    (if tn = shp_tenant sh \<and> shp_order sh = Some k
     then amount shi_shipped i (lines_of (shp_tenant sh) (shp_id sh) (ivd_shipment_items s)) else 0)" for tn k i
    by (rule moved) (use zero in \<open>auto simp: arrived_line_def not_less intro: antisym\<close>)
  have shipped: "carried shi_shipped tn k i s1 = carried shi_shipped tn k i s" for tn k i
    using moved [of shi_shipped "\<lambda>_. 0" tn k i] by (simp add: arrived_line_def amount_zero)
  have "order_books s1"
  proof (rule order_booksI)
    fix b
    assume "b \<in> set (ivd_order_items s1)"
    then obtain b0 where b0: "b0 \<in> set (ivd_order_items s)" and b: "b = (if order_line_served (shp_tenant sh) sh b0
        then b0\<lparr>bti_received := bti_received b0 +
          amount shi_shipped (bti_item b0) (lines_of (shp_tenant sh) (shp_id sh) (ivd_shipment_items s))\<rparr> else b0)"
      unfolding lines by (rule update_rowsE)
    with shipment_arrived(9) show "bti_shipped b = carried shi_shipped (bti_tenant b) (bti_order b) (bti_item b) s1 \<and>
        bti_received b = carried shi_received (bti_tenant b) (bti_order b) (bti_item b) s1"
      by (auto simp: order_books_def shipped received order_line_served_def)
  qed
  then show ?case by (rule order_books_cong) (use frame in \<open>auto intro: same_line_refl\<close>)
next
  case (order_drafted s s' ord lines)
  have none: "carried f tn (bto_id ord) i s' = 0" for f tn i
  proof -
    have "bto_id ord \<notin> bto_id ` set (ivd_orders s)"
      using order_drafted(2,7) by (simp add: inv_schema_def table_local_ok_def)
    then have "\<not> serves s' (bto_id ord) r" for r
      using order_drafted(1,6) by (fastforce simp: serves_def elsewhere_same_def inv_schema_def inv_links_def)
    then show ?thesis unfolding carried_def by (intro sum_zero) simp
  qed
  have same: "carried f tn k i s' = carried f tn k i s" for f tn k i
    using order_drafted(1) by (intro books_cong(4)) (simp_all add: elsewhere_same_def)
  show ?case
  proof (rule order_booksI)
    fix b
    assume "b \<in> set (ivd_order_items s')"
    then consider "b \<in> set (ivd_order_items s)" | "b \<in> set lines" using order_drafted(4) by auto
    then show "bti_shipped b = carried shi_shipped (bti_tenant b) (bti_order b) (bti_item b) s' \<and>
        bti_received b = carried shi_received (bti_tenant b) (bti_order b) (bti_item b) s'"
    proof cases
      case 1
      with order_drafted(9) show ?thesis by (simp add: order_books_def same)
    next
      case 2
      with order_drafted(5) show ?thesis by (simp add: none)
    qed
  qed
next
  case (order_moved s s' ord to now t1 t2 who)
  then show ?case
    by (intro order_books_cong [OF order_moved(10)])
       (auto simp: elsewhere_same_def dest: revised_member(2))
qed

section \<open>What the status of an order promises\<close>

definition order_served :: "inv_db \<Rightarrow> uuid \<Rightarrow> uuid \<Rightarrow> bool" where
  "order_served s tn k \<longleftrightarrow> (\<exists>sh \<in> set (ivd_shipments s). shp_tenant sh = tn \<and> shp_order sh = Some k \<and>
     shp_status sh \<in> {ShipmentInTransit, ShipmentReceived})"

definition order_complete :: "inv_db \<Rightarrow> uuid \<Rightarrow> uuid \<Rightarrow> bool" where
  "order_complete s tn k \<longleftrightarrow>
     (\<forall>b \<in> set (ivd_order_items s). bti_tenant b = tn \<and> bti_order b = k \<longrightarrow> wanted_qty b \<le> bti_received b)"

definition promises_kept :: "inv_db \<Rightarrow> bool" where
  "promises_kept s \<longleftrightarrow> (\<forall>ord \<in> set (ivd_orders s).
     (bto_status ord \<in> {BTOShipped, BTOReceived, BTOClosed} \<longrightarrow> order_served s (bto_tenant ord) (bto_id ord)) \<and>
     (bto_status ord \<in> {BTOReceived, BTOClosed} \<longrightarrow> order_complete s (bto_tenant ord) (bto_id ord)))"

lemma promisesI:
  "(\<And>ord. ord \<in> set (ivd_orders s) \<Longrightarrow>
     (bto_status ord \<in> {BTOShipped, BTOReceived, BTOClosed} \<longrightarrow> order_served s (bto_tenant ord) (bto_id ord)) \<and>
     (bto_status ord \<in> {BTOReceived, BTOClosed} \<longrightarrow> order_complete s (bto_tenant ord) (bto_id ord))) \<Longrightarrow> promises_kept s"
  by (simp add: promises_kept_def)

text \<open>More served and more received break no promise.\<close>

lemma promises_mono:
  assumes "promises_kept s" and "ivd_orders s' = ivd_orders s"
    and "\<And>tn k. order_served s tn k \<Longrightarrow> order_served s' tn k"
    and "\<And>tn k. order_complete s tn k \<Longrightarrow> order_complete s' tn k"
  shows "promises_kept s'"
  using assms unfolding promises_kept_def by auto

lemma promises_order_reaches:
  assumes "order_reaches tn k to s s'" and "promises_kept s"
    and "to \<in> {BTOShipped, BTOReceived, BTOClosed} \<Longrightarrow> order_served s tn k"
    and "to \<in> {BTOReceived, BTOClosed} \<Longrightarrow> order_complete s tn k"
  shows "promises_kept s'"
proof -
  from assms(1) consider "s' = s" | now where
    "s' = s\<lparr>ivd_orders := update_rows (order_at tn k) (moved_order now to None None None) (ivd_orders s)\<rparr>"
    by (auto simp: order_reaches_def)
  then show ?thesis
  proof cases
    case 2
    have same: "order_served s' = order_served s" "order_complete s' = order_complete s"
      by (simp_all add: fun_eq_iff order_served_def order_complete_def 2)
    show ?thesis
    proof (rule promisesI, unfold same)
      fix ord
      assume "ord \<in> set (ivd_orders s')"
      then have "ord \<in> set (update_rows (order_at tn k) (moved_order now to None None None) (ivd_orders s))"
        by (simp add: 2)
      then obtain o0 where o0: "o0 \<in> set (ivd_orders s)"
        and ord: "ord = (if order_at tn k o0 then moved_order now to None None None o0 else o0)" by (rule update_rowsE)
      show "(bto_status ord \<in> {BTOShipped, BTOReceived, BTOClosed} \<longrightarrow> order_served s (bto_tenant ord) (bto_id ord)) \<and>
        (bto_status ord \<in> {BTOReceived, BTOClosed} \<longrightarrow> order_complete s (bto_tenant ord) (bto_id ord))"
      proof (cases "order_at tn k o0")
        case True
        with ord have "bto_status ord = to" "bto_tenant ord = tn" "bto_id ord = k" by (simp_all add: order_at_def)
        with assms(3,4) show ?thesis by auto
      next
        case False
        with ord o0 assms(2) show ?thesis by (auto simp: promises_kept_def)
      qed
    qed
  qed (use assms(2) in simp)
qed

lemma served_steps:
  assumes "shipment_steps sh st s s'" and "sh \<in> set (ivd_shipments s)" and "inv_schema s"
    and "shp_status sh \<in> {ShipmentDraft, ShipmentApproved} \<or> st \<in> {ShipmentInTransit, ShipmentReceived}"
    and "order_served s tn k"
  shows "order_served s' tn k"
proof -
  from assms(5) obtain sh' where sh': "sh' \<in> set (ivd_shipments s)" "shp_tenant sh' = tn" "shp_order sh' = Some k"
    "shp_status sh' \<in> {ShipmentInTransit, ShipmentReceived}" by (auto simp: order_served_def)
  from assms(1) obtain now t1 t2 where s': "ivd_shipments s' = update_rows (shipment_at (shp_tenant sh) (shp_id sh))
    (moved_shipment now st t1 t2) (ivd_shipments s)" by (auto simp: shipment_steps_def)
  have "shp_status sh' = shp_status sh" if "shipment_at (shp_tenant sh) (shp_id sh) sh'"
    using shipments_unique [OF assms(3) sh'(1) assms(2)] that by (simp add: shipment_at_def)
  with assms(4) sh' have "st \<in> {ShipmentInTransit, ShipmentReceived}" if "shipment_at (shp_tenant sh) (shp_id sh) sh'"
    using that by auto
  with sh' show ?thesis
    unfolding order_served_def s' Bex_update by (intro bexI [of _ sh']) auto
qed

lemma wanted_qty_update [simp]:
  "wanted_qty (b\<lparr>bti_shipped := x\<rparr>) = wanted_qty b" "wanted_qty (b\<lparr>bti_received := x\<rparr>) = wanted_qty b"
  by (simp_all add: wanted_qty_def cong: option.case_cong)

lemma inv_event_promises:
  assumes "inv_event es s s'" and "inv_schema s" "inv_schema s'" and "promises_kept s"
  shows "promises_kept s'"
  using assms
proof (induction rule: inv_event.induct)
  case (goods_posted s s' es)
  then show ?case
    by (intro promises_mono [OF goods_posted(5)]) (auto simp: same_papers_def order_served_def order_complete_def)
next
  case (shipment_drafted s' s sh lines)
  then show ?case
    by (intro promises_mono [OF shipment_drafted(10)]) (auto simp: order_served_def order_complete_def)
next
  case (shipment_moved sh s st s' now)
  have steps: "shipment_steps sh st s s'" using shipment_moved(4) by (auto simp: shipment_steps_def)
  have "order_served s' tn k" if "order_served s tn k" for tn k
    by (rule served_steps [OF steps shipment_moved(1,5) _ that]) (use shipment_moved(2) in blast)
  moreover have "ivd_orders s' = ivd_orders s" "ivd_order_items s' = ivd_order_items s" using shipment_moved(4) by simp_all
  ultimately show ?case
    by (intro promises_mono [OF shipment_moved(7)]) (simp_all add: order_complete_def)
next
  case (shipment_left sh s now s1 s')
  note steps = left_steps [OF shipment_left(3) refl]
  have lines: "ivd_order_items s1 = update_rows (order_line_served (shp_tenant sh) sh)
        (\<lambda>b. b\<lparr>bti_shipped := bti_shipped b +
          amount shi_requested (bti_item b) (lines_of (shp_tenant sh) (shp_id sh) (ivd_shipment_items s))\<rparr>) (ivd_order_items s)"
    using shipment_left(3) by (auto simp: left_with_def Let_def)
  have complete: "order_complete s1 tn k" if "order_complete s tn k" for tn k
    using that unfolding order_complete_def lines by (auto elim!: update_rowsE split: if_splits)
  have served: "order_served s1 tn k" if "order_served s tn k" for tn k
    by (rule served_steps [OF steps shipment_left(1,6) _ that]) blast
  have kept: "promises_kept s1" by (rule promises_mono [OF shipment_left(8,4) served complete])
  show ?case
  proof (cases "shp_order sh")
    case None
    with shipment_left(5) kept show ?thesis by simp
  next
    case (Some k)
    have "ivd_shipments s1 = update_rows (shipment_at (shp_tenant sh) (shp_id sh))
        (moved_shipment now ShipmentInTransit (Some now) None) (ivd_shipments s)"
      using shipment_left(3) by (auto simp: left_with_def Let_def)
    then have "order_served s1 (shp_tenant sh) k"
      unfolding order_served_def
      by (simp add: Bex_update) (use shipment_left(1) Some in \<open>auto simp: shipment_at_def intro!: bexI [of _ sh]\<close>)
    with Some shipment_left(5) kept show ?thesis by (auto intro: promises_order_reaches)
  qed
next
  case (shipment_arrived sh s now s1 s')
  note steps = arrived_steps [OF shipment_arrived(3) refl]
  let ?add = "\<lambda>b. amount shi_shipped (bti_item b) (lines_of (shp_tenant sh) (shp_id sh) (ivd_shipment_items s))"
  have lines: "ivd_order_items s1 = update_rows (order_line_served (shp_tenant sh) sh)
        (\<lambda>b. b\<lparr>bti_received := bti_received b + ?add b\<rparr>) (ivd_order_items s)"
    using shipment_arrived(3) by (auto simp: arrived_with_def Let_def)
  have add: "0 \<le> ?add b" for b :: transfer_order_item
    unfolding amount_def
    by (rule sum_list_nonneg)
       (use line_quantities [OF shipment_arrived(6)] in \<open>auto simp: lines_of_def quantity_ok_def\<close>)
  have up: "wanted_qty b \<le> bti_received b + ?add b" if "wanted_qty b \<le> bti_received b" for b :: transfer_order_item
    using that add [of b] by linarith
  have complete: "order_complete s1 tn k" if "order_complete s tn k" for tn k
    using that unfolding order_complete_def lines
    by (auto elim!: update_rowsE split: if_splits intro!: up)
  have served: "order_served s1 tn k" if "order_served s tn k" for tn k
    by (rule served_steps [OF steps shipment_arrived(1,6) _ that]) blast
  have kept: "promises_kept s1" by (rule promises_mono [OF shipment_arrived(8,4) served complete])
  show ?case
  proof (cases "shp_order sh")
    case None
    with shipment_arrived(5) kept show ?thesis by simp
  next
    case (Some k)
    have "ivd_shipments s1 = update_rows (shipment_at (shp_tenant sh) (shp_id sh))
        (moved_shipment now ShipmentReceived None (Some now)) (ivd_shipments s)"
      using shipment_arrived(3) by (auto simp: arrived_with_def Let_def)
    then have sv: "order_served s1 (shp_tenant sh) k"
      unfolding order_served_def
      by (simp add: Bex_update) (use shipment_arrived(1) Some in \<open>auto simp: shipment_at_def intro!: bexI [of _ sh]\<close>)
    from Some shipment_arrived(5) have closes: "order_closes (shp_tenant sh) k s1 s'" by simp
    show ?thesis
    proof (cases "order_complete s1 (shp_tenant sh) k")
      case True
      with closes obtain s2 where r1: "order_reaches (shp_tenant sh) k BTOReceived s1 s2"
        and r2: "order_reaches (shp_tenant sh) k BTOClosed s2 s'"
        by (auto simp: order_closes_def order_complete_def)
      note frame = order_reaches_frame [OF r1]
      have "promises_kept s2" by (rule promises_order_reaches [OF r1 kept]) (use sv True in blast)+
      then show ?thesis
        by (rule promises_order_reaches [OF r2])
           (use sv True frame in \<open>simp_all add: order_served_def order_complete_def\<close>)
    next
      case False
      with closes kept show ?thesis unfolding order_closes_def order_complete_def by simp
    qed
  qed
next
  case (order_drafted s s' ord lines)
  have new: "bto_id ord \<notin> bto_id ` set (ivd_orders s)"
    using order_drafted(2,7) by (simp add: inv_schema_def table_local_ok_def)
  show ?case
  proof (rule promisesI)
    fix o'
    assume o': "o' \<in> set (ivd_orders s')"
    show "(bto_status o' \<in> {BTOShipped, BTOReceived, BTOClosed} \<longrightarrow> order_served s' (bto_tenant o') (bto_id o')) \<and>
     (bto_status o' \<in> {BTOReceived, BTOClosed} \<longrightarrow> order_complete s' (bto_tenant o') (bto_id o'))"
    proof (cases "o' = ord")
      case True
      with order_drafted(3) show ?thesis by simp
    next
      case False
      with o' order_drafted(2) have old: "o' \<in> set (ivd_orders s)" by simp
      with new have ne: "bto_id o' \<noteq> bto_id ord" by (metis imageI)
      have "order_served s' (bto_tenant o') (bto_id o') = order_served s (bto_tenant o') (bto_id o')"
        using order_drafted(1) by (simp add: order_served_def elsewhere_same_def)
      moreover have "order_complete s' (bto_tenant o') (bto_id o') = order_complete s (bto_tenant o') (bto_id o')"
        using order_drafted(4,5) ne unfolding order_complete_def by (auto simp: ball_Un)
      ultimately show ?thesis using old order_drafted(8) by (simp add: promises_kept_def)
    qed
  qed
next
  case (order_moved s s' ord to now t1 t2 who)
  show ?case
  proof (rule promisesI)
    fix o'
    assume "o' \<in> set (ivd_orders s')"
    then obtain o0 where o0: "o0 \<in> set (ivd_orders s)"
      and o': "o' = (if order_at (bto_tenant ord) (bto_id ord) o0 then moved_order now to t1 t2 who o0 else o0)"
      unfolding order_moved(5) by (rule update_rowsE)
    show "(bto_status o' \<in> {BTOShipped, BTOReceived, BTOClosed} \<longrightarrow> order_served s' (bto_tenant o') (bto_id o')) \<and>
     (bto_status o' \<in> {BTOReceived, BTOClosed} \<longrightarrow> order_complete s' (bto_tenant o') (bto_id o'))"
    proof (cases "order_at (bto_tenant ord) (bto_id ord) o0")
      case True
      then have "bto_status o' = to" using o' by simp
      with order_moved(4) show ?thesis by simp
    next
      case False
      then have eq: "o' = o0" using o' by simp
      have ne: "bto_id o0 \<noteq> bto_id ord"
        using False orders_unique [OF order_moved(7) o0 order_moved(2)] by (auto simp: order_at_def)
      have "order_served s' (bto_tenant o0) (bto_id o0) = order_served s (bto_tenant o0) (bto_id o0)"
        using order_moved(1) by (simp add: order_served_def elsewhere_same_def)
      moreover have "order_complete s' (bto_tenant o0) (bto_id o0)" if "order_complete s (bto_tenant o0) (bto_id o0)"
        unfolding order_complete_def
      proof (intro ballI impI)
        fix b'
        assume b': "b' \<in> set (ivd_order_items s')" and at: "bti_tenant b' = bto_tenant o0 \<and> bti_order b' = bto_id o0"
        from revised_member(2) [OF order_moved(6) b'] obtain b where "b \<in> set (ivd_order_items s)" "same_line b b'"
          "bti_order b \<noteq> bto_id ord \<longrightarrow> b' = b" by blast
        with at ne have "b' \<in> set (ivd_order_items s)" by (auto simp: same_line_def)
        with at that show "wanted_qty b' \<le> bti_received b'" by (simp add: order_complete_def)
      qed
      ultimately show ?thesis using o0 eq order_moved(9) by (simp add: promises_kept_def)
    qed
  qed
qed

section \<open>The books\<close>

definition books_balance :: "inv_db \<Rightarrow> bool" where
  "books_balance s \<longleftrightarrow> inv_schema s \<and> stages_ok s \<and> order_books s \<and> promises_kept s"

lemma inv_step_books: "inv_step es s s' \<Longrightarrow> books_balance s \<Longrightarrow> books_balance s'"
  unfolding books_balance_def
  using inv_step_event inv_step_schema inv_event_stages inv_event_order_books inv_event_promises by blast

end
