(* ===== verification/Inv_Demo.thy ===== *)
theory Inv_Demo
  imports Inv_Books Pos_Demo
begin

text \<open>
  A delivery on which the theorems are applied: the warehouse 21 of branch 10 takes in ten
  units of an item, branch 11 orders four of them, and a shipment brings them to its
  warehouse 22.
\<close>

definition demo_at_branch :: "uuid \<Rightarrow> principal" where
  "demo_at_branch b = \<lparr>prn_keycloak_sub = ''u'', prn_person = 5, prn_ctx = ContextStaff,
     prn_tenant = 1, prn_branch = b, prn_roles = [], prn_session = 6\<rparr>"

definition demo_day :: ctx where
  "demo_day = \<lparr>ctx_scope = None, ctx_now = 7\<rparr>"

definition demo_warehouse :: "uuid \<Rightarrow> uuid \<Rightarrow> warehouse" where
  "demo_warehouse i b = \<lparr>wh_id = i, wh_tenant = 1, wh_branch = b, wh_name = ''depo'', wh_type = WarehouseDepo,
     wh_active = True, wh_created = 0, wh_updated = 0\<rparr>"

definition demo_flour :: stock_item where
  "demo_flour = \<lparr>sti_id = 31, sti_tenant = 1, sti_sku = ''un'', sti_name = ''un'', sti_kind = KindRaw,
     sti_unit = ''kg'', sti_category = '''', sti_active = True, sti_created = 0, sti_updated = 0\<rparr>"

definition demo_level :: stock_level where
  "demo_level = \<lparr>lvl_id = 101, lvl_tenant = 1, lvl_warehouse = 21, lvl_item = 31, lvl_on_hand = 3,
     lvl_reserved = 0, lvl_reorder = None, lvl_unit = ''kg'', lvl_cost = None, lvl_cost_currency = None,
     lvl_cost_source = None, lvl_cost_at = None, lvl_updated = 1\<rparr>"

definition demo_first_intake :: stock_movement where
  "demo_first_intake = \<lparr>mvt_id = 100, mvt_tenant = 1, mvt_warehouse = 21, mvt_item = 31, mvt_type = MovementIn,
     mvt_quantity = 3, mvt_ref = None, mvt_ref_type = None, mvt_notes = None, mvt_created_by = None, mvt_created = 1\<rparr>"

definition demo_order :: transfer_order where
  "demo_order = \<lparr>bto_id = 102, bto_tenant = 1, bto_requesting = 11, bto_source = 10, bto_status = BTOFulfilling,
     bto_priority = PriorityNormal, bto_delivery = None, bto_note = '''', bto_created_by = None,
     bto_submitted = Some 2, bto_approved = Some 3, bto_approved_by = Some 5, bto_created = 2, bto_updated = 3\<rparr>"

definition demo_order_line :: transfer_order_item where
  "demo_order_line = \<lparr>bti_id = 103, bti_tenant = 1, bti_order = 102, bti_item = 31, bti_requested = 5,
     bti_approved = Some 4, bti_shipped = 0, bti_received = 0, bti_unit = ''kg'', bti_price = None,
     bti_currency = None, bti_note = ''''\<rparr>"

definition demo_shipment :: shipment where
  "demo_shipment = \<lparr>shp_id = 104, shp_tenant = 1, shp_from = 21, shp_to_branch = 11, shp_order = Some 102,
     shp_status = ShipmentApproved, shp_priority = PriorityNormal, shp_note = '''', shp_created_by = None,
     shp_shipped = None, shp_received = None, shp_created = 4, shp_updated = 5\<rparr>"

definition demo_line :: shipment_item where
  "demo_line = \<lparr>shi_shipment = 104, shi_tenant = 1, shi_item = 31, shi_requested = 4, shi_shipped = 0,
     shi_received = 0, shi_unit = ''kg'', shi_price = None, shi_currency = None\<rparr>"

definition demo_inv :: inv_db where
  "demo_inv = \<lparr>ivd_warehouses = [demo_warehouse 21 10, demo_warehouse 22 11], ivd_items = [demo_flour],
     ivd_levels = [demo_level], ivd_moves = [demo_first_intake], ivd_shipments = [demo_shipment],
     ivd_shipment_items = [demo_line], ivd_orders = [demo_order], ivd_order_items = [demo_order_line],
     ivd_policies = [], ivd_receipts = [], ivd_receipt_items = [], ivd_rand = (\<lambda>n. 100 + n), ivd_ctr = 5\<rparr>"

definition demo_intake :: movement_request where
  "demo_intake = \<lparr>mrq_warehouse = 21, mrq_item = 31, mrq_type = MovementIn, mrq_quantity = 10, mrq_unit = ''kg'',
     mrq_ref = None, mrq_ref_type = None, mrq_notes = None, mrq_created_by = None\<rparr>"

text \<open>The delivery, call by call.\<close>

definition demo_stocked :: inv_db where
  "demo_stocked = after (InventoryService_RecordMovement demo_day 1 (demo_at_branch 10) demo_intake) demo_inv"

definition demo_on_road :: inv_db where
  "demo_on_road = after (ShipmentService_Advance quiet demo_day 1 (demo_at_branch 10) 104) demo_stocked"

definition demo_delivered :: inv_db where
  "demo_delivered = after (ShipmentService_Receive id demo_day 1 (demo_at_branch 11) 104 22) demo_on_road"

lemma demo_intake_ok: "tx_ok (InventoryService_RecordMovement demo_day 1 (demo_at_branch 10) demo_intake) demo_inv"
  by code_simp

lemma demo_leaves_ok: "tx_ok (ShipmentService_Advance quiet demo_day 1 (demo_at_branch 10) 104) demo_stocked"
  by code_simp

lemma demo_arrives_ok: "tx_ok (ShipmentService_Receive id demo_day 1 (demo_at_branch 11) 104 22) demo_on_road"
  by code_simp

lemma demo_delivery: "inv_run [(1, 21, 31, MovementIn, 10)] demo_inv demo_delivered"
proof -
  from tx_ok_after [OF demo_intake_ok] have "inv_step [(1, 21, 31, MovementIn, 10)] demo_inv demo_stocked"
    using movement_recorded [of demo_day 1 "demo_at_branch 10" demo_intake]
    by (auto simp: movement_entry_def demo_intake_def demo_stocked_def)
  note s1 = inv_run.run_snoc [OF inv_run.run_nil this]
  from tx_ok_after [OF demo_leaves_ok] have "inv_step [] demo_stocked demo_on_road"
    unfolding demo_on_road_def using shipment_advanced by blast
  note s2 = inv_run.run_snoc [OF s1 this]
  from tx_ok_after [OF demo_arrives_ok] have "inv_step [] demo_on_road demo_delivered"
    unfolding demo_delivered_def using shipment_received by blast
  from inv_run.run_snoc [OF s2 this] show ?thesis by simp
qed

lemma decimal_of_int: "decimal k (of_int n)"
  unfolding decimal_iff by (rule exI [of _ "n * 10 ^ k"]) simp

lemma decimal_numeral [simp]: "decimal k (numeral n)" "decimal k 1"
  using decimal_of_int [of k "numeral n"] decimal_of_int [of k 1] by simp_all

lemma demo_inv_schema: "inv_schema demo_inv"
  by (simp add: inv_schema_def table_local_ok_def inv_links_def level_row_ok_def stock_movement_row_ok_def
      shipment_row_ok_def shipment_item_row_ok_def transfer_order_row_ok_def transfer_order_item_row_ok_def
      quantity_ok_def price_ok_def currency_ok_def numeric_range_def lvl_available_def levels_uniq_def
      transfer_order_items_uniq_def demo_inv_def demo_level_def demo_first_intake_def demo_shipment_def demo_line_def
      demo_order_def demo_order_line_def)

lemma demo_inv_books: "order_books demo_inv \<and> promises_kept demo_inv"
  by code_simp

lemma demo_inv_balance: "books_balance demo_inv"
proof -
  have "stages_ok demo_inv"
    by (auto simp: stages_ok_def line_status_def shipment_at_def demo_inv_def demo_line_def demo_shipment_def)
  then show ?thesis using demo_inv_schema demo_inv_books by (simp add: books_balance_def)
qed

lemma demo_inv_ledger: "on_ledger demo_inv"
  using demo_inv_schema
  by (auto simp: on_ledger_def stock_replays_def on_hand_at_def reserved_at_def level_at_def movements_at_def
      replay_def at_place_def lvl_place_def find_row_def demo_inv_def demo_level_def demo_first_intake_def)

end
