(* ===== verification/Inv_Props.thy ===== *)
theory Inv_Props
  imports Inv_Demo
begin



section \<open>Levels and movements\<close>




section \<open>Conservation\<close>

text \<open>A run with the account of what its entries posted of an item: the sum of their changes, each in
  the state in which its call was made.\<close>

inductive inv_account :: "uuid \<Rightarrow> uuid \<Rightarrow> entry list \<Rightarrow> float64 \<Rightarrow> inv_db \<Rightarrow> inv_db \<Rightarrow> bool" for tn i where
  account_nil: "inv_account tn i [] 0 s s"
| account_snoc: "inv_account tn i es x s s1 \<Longrightarrow> inv_step es' s1 s2 \<Longrightarrow>
    inv_account tn i (es @ es') (x + posted_change tn i es' s1) s s2"

text \<open>Every run has its account.\<close>

lemma inv_run_account: "inv_run es s s' \<Longrightarrow> \<exists>x. inv_account tn i es x s s'"
  by (induction rule: inv_run.induct) (blast intro: inv_account.intros)+

lemma inv_account_goods:
  "inv_account tn i es x s s' \<Longrightarrow> inv_schema s \<Longrightarrow>
   inv_schema s' \<and> goods tn i s' = goods tn i s + x \<and> (takes_none tn i es \<longrightarrow> x = entered tn i es)"
proof (induction rule: inv_account.induct)
  case (account_snoc es x s s1 es' s2)
  then have ih: "inv_schema s1" "goods tn i s1 = goods tn i s + x" "takes_none tn i es \<longrightarrow> x = entered tn i es"
    by simp_all
  have sch: "inv_schema s2" by (rule inv_step_schema [OF account_snoc(2) ih(1)])
  have "goods tn i s2 = goods tn i s1 + posted_change tn i es' s1"
    by (rule inv_event_goods [OF inv_step_event [OF account_snoc(2) ih(1)] ih(1) sch])
  with ih sch show ?case by (simp add: posted_change_entered)
qed simp

text \<open>C8: Goods are conserved: in any run of calls made one after the other, what a tenant has of an
  item, on hand in all its warehouses and on the road between them, changes by exactly what
  was posted by hand or bought: the rounded quantity of what came in, and for goods taken
  out or corrected the change of the level of their warehouse, which stops at zero. No order and
  no shipment changes it, and where nothing is taken out or corrected it grows by what
  came in.\<close>

theorem goods_conserved:
  assumes "inv_account tn i es x s s'" and "inv_schema s"
  shows "goods tn i s' = goods tn i s + x \<and> (takes_none tn i es \<longrightarrow> x = entered tn i es)"
  using inv_account_goods [OF assms] by blast

theorem goods_conserved_witness:
  "goods 1 31 demo_delivered = goods 1 31 demo_inv + 10 \<and> goods 1 31 demo_inv = 3"
proof -
  from inv_run_account [OF demo_delivery, of 1 31] obtain x where
    "inv_account 1 31 [(1, 21, 31, MovementIn, 10)] x demo_inv demo_delivered" by blast
  moreover have "takes_none 1 31 [(1, 21, 31, MovementIn, 10)]" by (simp add: takes_none_def)
  moreover have "entered 1 31 [(1, 21, 31, MovementIn, 10)] = 10" by (simp add: entered_def)
  moreover have "goods 1 31 demo_inv = 3" by code_simp
  ultimately show ?thesis using goods_conserved [OF _ demo_inv_schema] by fastforce
qed

text \<open>Calls that are not made one after the other do not conserve goods. The level is read without
  a lock: two shipments of four, sent off while the warehouse has five, both find enough,
  and eight are on the road.\<close>

definition demo_five :: inv_db where
  "demo_five = demo_inv\<lparr>ivd_levels := [demo_level\<lparr>lvl_on_hand := 5\<rparr>],
     ivd_shipments := [demo_shipment, demo_shipment\<lparr>shp_id := 105\<rparr>],
     ivd_shipment_items := [demo_line, demo_line\<lparr>shi_shipment := 105\<rparr>]\<rparr>"

definition send_off :: "(shipment_item \<Rightarrow> inv_db \<Rightarrow> inv_db) \<Rightarrow> uuid \<Rightarrow> (inv_db, inv_err, shipment) tx" where
  "send_off others k = ShipmentService_Advance others demo_day 1 (demo_at_branch 10) k"

lemma concurrent_advances_manufacture:
  "tx_ok (send_off (\<lambda>_. after (send_off quiet 105)) 104) demo_five \<and>
   goods 1 31 demo_five = 5 \<and> goods 1 31 (after (send_off (\<lambda>_. after (send_off quiet 105)) 104) demo_five) = 8"
  by (intro conjI) code_simp+

text \<open>Nor is the shipment locked, and its status is written whatever it is by then: sent off twice
  at once, it takes the goods of its lines twice from the warehouse and carries them
  once. Taken in twice at once, it brings them twice, where no order is behind it whose
  closing would refuse the second.\<close>

definition demo_ten :: inv_db where
  "demo_ten = demo_inv\<lparr>ivd_levels := [demo_level\<lparr>lvl_on_hand := 10\<rparr>]\<rparr>"

lemma advanced_twice_loses:
  "tx_ok (send_off (\<lambda>_. after (send_off quiet 104)) 104) demo_ten \<and>
   goods 1 31 demo_ten = 10 \<and> goods 1 31 (after (send_off (\<lambda>_. after (send_off quiet 104)) 104) demo_ten) = 6"
  by (intro conjI) code_simp+

definition demo_unordered :: inv_db where
  "demo_unordered = demo_on_road\<lparr>ivd_shipments := map (\<lambda>sh. sh\<lparr>shp_order := None\<rparr>) (ivd_shipments demo_on_road)\<rparr>"

definition take_in :: "(inv_db \<Rightarrow> inv_db) \<Rightarrow> (inv_db, inv_err, shipment) tx" where
  "take_in others = ShipmentService_Receive others demo_day 1 (demo_at_branch 11) 104 22"

lemma received_twice_duplicates:
  "tx_ok (take_in (after (take_in id))) demo_unordered \<and>
   goods 1 31 demo_unordered = 13 \<and> goods 1 31 (after (take_in (after (take_in id))) demo_unordered) = 17"
  by (intro conjI) code_simp+

section \<open>Transfer orders\<close>





section \<open>Supply policies\<close>

text \<open>How specific a row is for an item at a branch, zero the most: a row of the branch before one of
  the whole tenant, a row on the item before one on its category, the tenant's default
  last. A row that says nothing about the item there has no rank, and neither has a
  default of a single branch.\<close>

definition scope_rank :: "stock_item \<Rightarrow> supply_policy \<Rightarrow> nat option" where
  "scope_rank i p =
     (case spl_scope p of
        ScopeStockItem \<Rightarrow> if spl_item p = Some (sti_id i) then Some 0 else None
      | ScopeCategory \<Rightarrow> if sti_category i \<noteq> '''' \<and> spl_category p = sti_category i then Some 1 else None
      | ScopeTenantDefault \<Rightarrow> Some 2
      | _ \<Rightarrow> None)"

definition specificity :: "stock_item \<Rightarrow> uuid \<Rightarrow> supply_policy \<Rightarrow> nat option" where
  "specificity i b p =
     (case spl_branch p of
        None \<Rightarrow> map_option (\<lambda>n. n + 2) (scope_rank i p)
      | Some b' \<Rightarrow> if b' = b \<and> b \<noteq> uuid_Nil \<and> spl_scope p \<noteq> ScopeTenantDefault then scope_rank i p else None)"

text \<open>The row that governs: in force, and of the rows in force that say something about the item
  there none is more specific, and none as specific is later.\<close>

definition governs :: "supply_policy list \<Rightarrow> stock_item \<Rightarrow> uuid \<Rightarrow> time \<Rightarrow> supply_policy \<Rightarrow> bool" where
  "governs ps i b at w \<longleftrightarrow> w \<in> set ps \<and> spl_from w \<le> at \<and>
     (case specificity i b w of
        None \<Rightarrow> False
      | Some n \<Rightarrow> \<forall>p \<in> set ps. spl_from p \<le> at \<longrightarrow>
          (case specificity i b p of None \<Rightarrow> True | Some m \<Rightarrow> n < m \<or> n = m \<and> spl_from p \<le> spl_from w))"

text \<open>The predicates of the code's tiers are the ranks, in order.\<close>

lemma nth_of_five:
  "n < length [p0, p1, p2, p3, p4] \<and> [p0, p1, p2, p3, p4] ! n \<longleftrightarrow>
   n = 0 \<and> p0 \<or> n = 1 \<and> p1 \<or> n = 2 \<and> p2 \<or> n = 3 \<and> p3 \<or> n = 4 \<and> p4"
  by (auto simp: less_Suc_eq numeral_eq_Suc)

lemma specificity_tier:
  "specificity i b p = Some n \<longleftrightarrow> n < length (policy_tiers i b) \<and> (policy_tiers i b ! n) p"
proof -
  have "n < length (policy_tiers i b) \<and> (policy_tiers i b ! n) p \<longleftrightarrow>
      n < length (map (\<lambda>q. q p) (policy_tiers i b)) \<and> map (\<lambda>q. q p) (policy_tiers i b) ! n"
    by (simp cong: conj_cong)
  also have "\<dots> \<longleftrightarrow> n = 0 \<and> of_branch b p \<and> on_item i p \<or> n = 1 \<and> of_branch b p \<and> on_category i p \<or>
      n = 2 \<and> spl_branch p = None \<and> on_item i p \<or> n = 3 \<and> spl_branch p = None \<and> on_category i p \<or>
      n = 4 \<and> spl_branch p = None \<and> spl_scope p = ScopeTenantDefault"
    unfolding policy_tiers_def list.map by (rule nth_of_five)
  finally show ?thesis
    by (cases "spl_branch p"; cases "spl_scope p")
      (auto simp: specificity_def scope_rank_def of_branch_def on_item_def on_category_def)
qed

lemma first_tier_cases:
  "(\<exists>w pre m post. tiers = pre @ m # post \<and> w \<in> set ps \<and> active_match at m w \<and>
      (\<forall>m' \<in> set pre. \<forall>p \<in> set ps. \<not> active_match at m' p) \<and>
      (\<forall>p \<in> set ps. active_match at m p \<longrightarrow> spl_from p \<le> spl_from w) \<and>
      first_tier ps at tiers = (spl_mode w, spl_suppliers w)) \<or>
   (\<forall>m \<in> set tiers. \<forall>p \<in> set ps. \<not> active_match at m p) \<and> first_tier ps at tiers = (DefaultSupplyMode, [])"
proof (induction tiers)
  case (Cons m tiers)
  show ?case
  proof (cases "latestActive ps at m")
    case None
    then have no: "\<forall>p \<in> set ps. \<not> active_match at m p" by (simp add: latestActive_None)
    from Cons.IH show ?thesis
    proof (elim disjE exE conjE)
      fix w pre m1 post
      assume "tiers = pre @ m1 # post" "w \<in> set ps" "active_match at m1 w"
        "\<forall>m' \<in> set pre. \<forall>p \<in> set ps. \<not> active_match at m' p"
        "\<forall>p \<in> set ps. active_match at m1 p \<longrightarrow> spl_from p \<le> spl_from w"
        "first_tier ps at tiers = (spl_mode w, spl_suppliers w)"
      with None no show ?thesis
        by (intro disjI1 exI [of _ w] exI [of _ "m # pre"] exI [of _ m1] exI [of _ post]) simp
    qed (use None no in simp)
  next
    case (Some w)
    from latestActive_Some [OF this] Some show ?thesis
      by (intro disjI1 exI [of _ w] exI [of _ "[]"] exI [of _ m] exI [of _ tiers]) simp
  qed
qed simp

lemma ResolvePolicy_governed:
  "(\<exists>w. governs ps i b at w \<and> ResolvePolicy ps i b at = (spl_mode w, spl_suppliers w)) \<or>
   (\<forall>p \<in> set ps. spl_from p \<le> at \<longrightarrow> specificity i b p = None) \<and> ResolvePolicy ps i b at = (SupplyExclusiveHQ, [])"
  using first_tier_cases [of "policy_tiers i b" ps at]
proof (elim disjE exE conjE)
  fix w pre m post
  assume tiers: "policy_tiers i b = pre @ m # post" and w: "w \<in> set ps" "active_match at m w"
    and none: "\<forall>m' \<in> set pre. \<forall>p \<in> set ps. \<not> active_match at m' p"
    and latest: "\<forall>p \<in> set ps. active_match at m p \<longrightarrow> spl_from p \<le> spl_from w"
    and result: "first_tier ps at (policy_tiers i b) = (spl_mode w, spl_suppliers w)"
  let ?n = "length pre"
  have sw: "specificity i b w = Some ?n" using w by (simp add: specificity_tier tiers active_match_def)
  have "?n < k \<or> ?n = k \<and> spl_from p \<le> spl_from w"
    if p: "p \<in> set ps" "spl_from p \<le> at" "specificity i b p = Some k" for p k
  proof (rule linorder_cases [of k ?n])
    assume "k < ?n"
    with p none show ?thesis by (fastforce simp: specificity_tier tiers nth_append active_match_def)
  next
    assume "k = ?n"
    with p latest show ?thesis by (auto simp: specificity_tier tiers active_match_def)
  qed simp
  then have "governs ps i b at w"
    using w sw by (auto simp: governs_def active_match_def split: option.split)
  with result show ?thesis unfolding ResolvePolicy_def by blast
next
  assume none: "\<forall>m \<in> set (policy_tiers i b). \<forall>p \<in> set ps. \<not> active_match at m p"
    and result: "first_tier ps at (policy_tiers i b) = (DefaultSupplyMode, [])"
  have "specificity i b p = None" if "p \<in> set ps" "spl_from p \<le> at" for p
  proof (rule ccontr)
    assume "specificity i b p \<noteq> None"
    then obtain n where "n < length (policy_tiers i b)" "(policy_tiers i b ! n) p" by (auto simp: specificity_tier)
    with none that nth_mem [OF this(1)] show False by (auto simp: active_match_def)
  qed
  with result show ?thesis by (simp add: ResolvePolicy_def DefaultSupplyMode_def)
qed

text \<open>C12: \<open>ResolvePolicy\<close> answers with the mode and the suppliers of a policy row that governs: among the
  rows in force at that time a most specific one (item at the branch, category at the
  branch, item of the tenant, category of the tenant, default of the tenant, in this order),
  and of the equally specific ones a latest. Only when no row in force says anything about the
  item there, it answers head office only.\<close>

theorem resolve_policy_governs:
  "(\<exists>w. governs ps i b at w \<and> ResolvePolicy ps i b at = (spl_mode w, spl_suppliers w)) \<or>
   (\<forall>p \<in> set ps. spl_from p \<le> at \<longrightarrow> specificity i b p = None) \<and> ResolvePolicy ps i b at = (SupplyExclusiveHQ, [])"
  by (rule ResolvePolicy_governed)

definition demo_policy :: "uuid option \<Rightarrow> supply_mode \<Rightarrow> time \<Rightarrow> supply_policy" where
  "demo_policy b m t = \<lparr>spl_id = 41, spl_tenant = 1, spl_branch = b, spl_scope = ScopeTenantDefault, spl_item = None,
     spl_category = '''', spl_mode = m, spl_suppliers = [9], spl_from = t, spl_created_by = None, spl_created = 0\<rparr>"

text \<open>A later default of the tenant does not outweigh an older row on the item.\<close>

theorem resolve_policy_governs_witness:
  "\<exists>w. governs [(demo_policy (Some 10) SupplyFree 1)\<lparr>spl_scope := ScopeStockItem, spl_item := Some 31\<rparr>,
      demo_policy None SupplyApprovedSuppliers 3] demo_flour 10 7 w \<and> spl_mode w = SupplyFree"
proof -
  let ?ps = "[(demo_policy (Some 10) SupplyFree 1)\<lparr>spl_scope := ScopeStockItem, spl_item := Some 31\<rparr>,
      demo_policy None SupplyApprovedSuppliers 3]"
  have r: "ResolvePolicy ?ps demo_flour 10 7 = (SupplyFree, [9])" by code_simp
  from resolve_policy_governs [of ?ps demo_flour 10 7] r show ?thesis by auto
qed

section \<open>Purchases\<close>

lemma enforce_Inr:
  assumes "enforceSupplyPolicy arrange c tn b sp i s = Inr (u, s')"
  obtains item where "item \<in> set (ivd_items s)" and "sti_tenant item = tn" and "sti_id item = i"
    and "case ResolvePolicy (arrange (filter (\<lambda>r. spl_tenant r = tn \<and> (spl_branch r = None \<or> spl_branch r = Some b))
        (ivd_policies s))) item b (ctx_now c) of (m, ss) \<Rightarrow>
      m = SupplyFree \<or> m = SupplyApprovedSuppliers \<and> (\<exists>k. sp = Some k \<and> k \<in> set ss)"
proof -
  from assms obtain item m ss where found: "rls_find sti_tenant (inv_tx c tn) (\<lambda>r. sti_id r = i) (ivd_items s) = Some item"
    and r: "ResolvePolicy (arrange (rls_select spl_tenant (inv_tx c tn) (\<lambda>r. spl_branch r = None \<or> spl_branch r = Some b)
        (ivd_policies s))) item b (ctx_now c) = (m, ss)"
    and ok: "case m of SupplyExclusiveHQ \<Rightarrow> False | SupplyFree \<Rightarrow> True | SupplyOther x \<Rightarrow> False
        | SupplyApprovedSuppliers \<Rightarrow> (case sp of None \<Rightarrow> False | Some k \<Rightarrow> k \<in> set ss)"
    by (auto simp: enforceSupplyPolicy_def EffectivePolicyFor_def tx_inv found_row_Inr
        StockItemRepo_GetByID_def SupplyPolicyRepo_ListCandidates_def split: prod.splits)
  from ok have "m = SupplyFree \<or> m = SupplyApprovedSuppliers \<and> (\<exists>k. sp = Some k \<and> k \<in> set ss)"
    by (auto split: supply_mode.splits option.splits)
  with r rls_find_Some [OF found] show ?thesis by (intro that [of item]) (simp_all add: rls_select_def)
qed

lemma enforce_each_Inr:
  "tx_each (\<lambda>it. enforceSupplyPolicy arrange c tn b sp (riq_item it)) its s = Inr (u, s') \<Longrightarrow>
   it \<in> set its \<Longrightarrow> \<exists>u'. enforceSupplyPolicy arrange c tn b sp (riq_item it) s = Inr (u', s)"
proof (induction its)
  case (Cons x its)
  then obtain v s1 where one: "enforceSupplyPolicy arrange c tn b sp (riq_item x) s = Inr (v, s1)"
    and rest: "tx_each (\<lambda>it. enforceSupplyPolicy arrange c tn b sp (riq_item it)) its s1 = Inr (u, s')"
    by (auto simp: tx_bind_Inr)
  have "s1 = s" by (rule enforce_pure [OF one])
  with one rest Cons show ?case by auto
qed simp

lemma governs_cong: "set ps = set ps' \<Longrightarrow> governs ps i b at w = governs ps' i b at w"
  by (simp only: governs_def)

definition branch_policies :: "uuid \<Rightarrow> uuid \<Rightarrow> inv_db \<Rightarrow> supply_policy list" where
  "branch_policies tn b s =
     filter (\<lambda>r. spl_tenant r = tn \<and> (spl_branch r = None \<or> spl_branch r = Some b)) (ivd_policies s)"

lemma permitted_by_governing:
  assumes arr: "\<forall>ps. set (arrange ps) = set ps"
    and verdict: "case ResolvePolicy (arrange (branch_policies tn b s)) item b at of (m, ss) \<Rightarrow>
      m = SupplyFree \<or> m = SupplyApprovedSuppliers \<and> (\<exists>k. sp = Some k \<and> k \<in> set ss)"
  shows "\<exists>w. governs (branch_policies tn b s) item b at w \<and>
      (spl_mode w = SupplyFree \<or> spl_mode w = SupplyApprovedSuppliers \<and> (\<exists>k \<in> set (spl_suppliers w). sp = Some k))"
proof -
  let ?ps = "arrange (branch_policies tn b s)"
  have set: "set ?ps = set (branch_policies tn b s)" using arr by blast
  have tiers: "(\<exists>w. governs ?ps item b at w \<and> ResolvePolicy ?ps item b at = (spl_mode w, spl_suppliers w)) \<or>
      ResolvePolicy ?ps item b at = (SupplyExclusiveHQ, [])"
    using ResolvePolicy_governed [of ?ps item b at] by blast
  then obtain w where "governs ?ps item b at w" and "ResolvePolicy ?ps item b at = (spl_mode w, spl_suppliers w)"
    using verdict by auto
  with verdict show ?thesis unfolding governs_cong [OF set] by auto
qed

text \<open>C11: A purchase receipt is accepted only for a warehouse of a branch the caller may act for, and
  only when for every line a supply policy governs the item at that branch that frees the
  purchase or names the supplier of the receipt. Without a policy nothing is bought.\<close>

theorem receipts_follow_policy:
  assumes run: "PurchaseReceiptService_CreateReceipt fl arrange c tn p req s = Inr (r, s')"
    and arr: "\<forall>ps. set (arrange ps) = set ps"
  shows "\<exists>wh \<in> set (ivd_warehouses s). wh_tenant wh = tn \<and> wh_id wh = rrq_warehouse req \<and>
    may_act c p (wh_branch wh) \<and>
    (\<forall>it \<in> set (rrq_items req). \<exists>item \<in> set (ivd_items s). sti_tenant item = tn \<and> sti_id item = riq_item it \<and>
      (\<exists>w. governs (branch_policies tn (wh_branch wh) s) item (wh_branch wh) (ctx_now c) w \<and>
        (spl_mode w = SupplyFree \<or>
         spl_mode w = SupplyApprovedSuppliers \<and> (\<exists>k \<in> set (spl_suppliers w). rrq_supplier req = Some k))))"
proof -
  from run obtain i s0 wh u s1 where uid: "(inv_uuid :: (inv_db, inv_err, uuid) tx) s = Inr (i, s0)"
    and wh: "rls_find wh_tenant (inv_tx c tn) (\<lambda>r. wh_id r = rrq_warehouse req) (ivd_warehouses s0) = Some wh"
    and act: "may_act c p (wh_branch wh)"
    and policy: "tx_each (\<lambda>it. enforceSupplyPolicy arrange c tn (wh_branch wh) (rrq_supplier req) (riq_item it))
      (rrq_items req) s0 = Inr (u, s1)"
    unfolding PurchaseReceiptService_CreateReceipt_def Let_def
    by (auto simp: tx_inv WarehouseRepo_GetByID_def found_row_Inr)
  have s0: "ivd_warehouses s0 = ivd_warehouses s" "ivd_items s0 = ivd_items s" "ivd_policies s0 = ivd_policies s"
    using uid by (auto simp: inv_uuid_Inr)
  show ?thesis
  proof (intro bexI [of _ wh] conjI ballI)
    fix it
    assume "it \<in> set (rrq_items req)"
    from enforce_each_Inr [OF policy this]
    obtain v where "enforceSupplyPolicy arrange c tn (wh_branch wh) (rrq_supplier req) (riq_item it) s0 = Inr (v, s0)"
      by blast
    from enforce_Inr [OF this] obtain item where item: "item \<in> set (ivd_items s)" "sti_tenant item = tn" "sti_id item = riq_item it"
      and verdict: "case ResolvePolicy (arrange (branch_policies tn (wh_branch wh) s)) item (wh_branch wh) (ctx_now c) of
        (m, ss) \<Rightarrow> m = SupplyFree \<or> m = SupplyApprovedSuppliers \<and> (\<exists>k. rrq_supplier req = Some k \<and> k \<in> set ss)"
      unfolding s0 branch_policies_def by blast
    show "\<exists>item \<in> set (ivd_items s). sti_tenant item = tn \<and> sti_id item = riq_item it \<and>
      (\<exists>w. governs (branch_policies tn (wh_branch wh) s) item (wh_branch wh) (ctx_now c) w \<and>
        (spl_mode w = SupplyFree \<or>
         spl_mode w = SupplyApprovedSuppliers \<and> (\<exists>k \<in> set (spl_suppliers w). rrq_supplier req = Some k)))"
      by (intro bexI [of _ item] conjI item permitted_by_governing [OF arr verdict])
  qed (use rls_find_Some [OF wh] act s0 in simp_all)
qed

definition demo_floats :: float_ops where
  "demo_floats = \<lparr>fl_add = (+), fl_mul = (*)\<rparr>"

definition demo_purchase :: receipt_request where
  "demo_purchase = \<lparr>rrq_warehouse = 21, rrq_supplier = Some 9, rrq_supplier_name = '''', rrq_no = ''f1'',
     rrq_date = None, rrq_total = 0, rrq_currency = '''', rrq_note = '''', rrq_created_by = None,
     rrq_items = [\<lparr>riq_item = 31, riq_quantity = 2, riq_unit = ''kg'', riq_price = 5, riq_line_total = 0, riq_brand = ''''\<rparr>]\<rparr>"

definition demo_shop :: inv_db where
  "demo_shop = demo_inv\<lparr>ivd_policies := [demo_policy None SupplyApprovedSuppliers 3]\<rparr>"

lemma demo_purchase_ok:
  "tx_ok (PurchaseReceiptService_CreateReceipt demo_floats id demo_day 1 (demo_at_branch 10) demo_purchase) demo_shop"
  by code_simp

theorem receipts_follow_policy_witness:
  "\<exists>wh \<in> set (ivd_warehouses demo_shop). wh_id wh = 21 \<and>
     (\<exists>item \<in> set (ivd_items demo_shop). \<exists>w. governs (branch_policies 1 (wh_branch wh) demo_shop) item (wh_branch wh) 7 w)"
proof -
  from tx_ok_after [OF demo_purchase_ok] obtain r s' where
    "PurchaseReceiptService_CreateReceipt demo_floats id demo_day 1 (demo_at_branch 10) demo_purchase demo_shop = Inr (r, s')"
    by blast
  from receipts_follow_policy [OF this] show ?thesis
    by (auto simp: demo_purchase_def demo_day_def)
qed

section \<open>What the rules leave open\<close>

text \<open>\<open>Receive\<close> asks for the branch of the warehouse it is given, not for the branch the shipment
  goes to: the sending branch takes the goods back in as received.\<close>

lemma shipment_received_elsewhere:
  "tx_ok (ShipmentService_Receive id demo_day 1 (demo_at_branch 10) 104 21) demo_on_road"
  by code_simp

text \<open>\<open>signedDelta\<close> subtracts what is reserved, so reserving leaves \<open>reserved\<close> at zero.\<close>

lemma reserving_reserves_nothing:
  "tx_ok (InventoryService_RecordMovement demo_day 1 (demo_at_branch 10)
     (demo_intake\<lparr>mrq_type := MovementReserve, mrq_quantity := 2\<rparr>)) demo_inv \<and>
   reserved_at 1 21 31 (after (InventoryService_RecordMovement demo_day 1 (demo_at_branch 10)
     (demo_intake\<lparr>mrq_type := MovementReserve, mrq_quantity := 2\<rparr>)) demo_inv) = 0"
  by code_simp

text \<open>The level moves by the quantity as it was sent, the ledger keeps it rounded: half a
  thousandth taken out leaves them apart.\<close>

lemma ledger_drifts:
  "on_hand_at 1 21 31 (after (InventoryService_RecordMovement demo_day 1 (demo_at_branch 10)
     (demo_intake\<lparr>mrq_type := MovementOut, mrq_quantity := 1 / 2000\<rparr>)) demo_inv) \<noteq>
   replay AffectsOnHand (movements_at 1 21 31 (after (InventoryService_RecordMovement demo_day 1 (demo_at_branch 10)
     (demo_intake\<lparr>mrq_type := MovementOut, mrq_quantity := 1 / 2000\<rparr>)) demo_inv))"
  by code_simp

end
