(* ===== verification/Http_Idempotency.thy ===== *)
theory Http_Idempotency
  imports Prelude Auth_Principal
begin

text \<open>
  The Redis commands the HTTP middleware uses: \<open>GET\<close>, \<open>SET\<close> and \<open>SET NX\<close> with an expiry,
  \<open>DEL\<close>. A key that has expired is as good as absent. Times are in seconds.
\<close>

type_synonym 'v redis = "string \<Rightarrow> ('v \<times> time) option"

definition redis_get :: "time \<Rightarrow> 'v redis \<Rightarrow> string \<Rightarrow> 'v option" where
  "redis_get now r k = (case r k of None \<Rightarrow> None | Some (v, expires) \<Rightarrow> if now < expires then Some v else None)"

definition redis_set :: "time \<Rightarrow> time \<Rightarrow> string \<Rightarrow> 'v \<Rightarrow> 'v redis \<Rightarrow> 'v redis" where
  "redis_set now ttl k v r = r(k \<mapsto> (v, now + ttl))"

definition redis_setnx :: "time \<Rightarrow> time \<Rightarrow> string \<Rightarrow> 'v \<Rightarrow> 'v redis \<Rightarrow> bool \<times> 'v redis" where
  "redis_setnx now ttl k v r =
     (if redis_get now r k = None then (True, redis_set now ttl k v r) else (False, r))"

definition redis_del :: "string \<Rightarrow> 'v redis \<Rightarrow> 'v redis" where
  "redis_del k r = r(k := None)"

text \<open>Alive until a given time at least.\<close>

definition alive_until :: "'v redis \<Rightarrow> string \<Rightarrow> time \<Rightarrow> bool" where
  "alive_until r k t = (case r k of None \<Rightarrow> False | Some (_, expires) \<Rightarrow> t \<le> expires)"

lemma redis_get_set:
  "redis_get now (redis_set t ttl k v r) k' = (if k' = k then if now < t + ttl then Some v else None else redis_get now r k')"
  by (simp add: redis_get_def redis_set_def)

lemma redis_get_del: "redis_get now (redis_del k r) k' = (if k' = k then None else redis_get now r k')"
  by (simp add: redis_get_def redis_del_def)

lemma redis_setnx_True: "redis_setnx now ttl k v r = (True, r') \<longleftrightarrow> redis_get now r k = None \<and> r' = redis_set now ttl k v r"
  by (auto simp: redis_setnx_def)

lemma redis_setnx_False: "redis_setnx now ttl k v r = (False, r') \<longleftrightarrow> redis_get now r k \<noteq> None \<and> r' = r"
  by (auto simp: redis_setnx_def)

lemma alive_get: "alive_until r k t \<Longrightarrow> now < t \<Longrightarrow> redis_get now r k \<noteq> None"
  by (auto simp: alive_until_def redis_get_def split: option.splits prod.splits)

lemma alive_set: "alive_until (redis_set now ttl k v r) k' t = (if k' = k then t \<le> now + ttl else alive_until r k' t)"
  by (simp add: alive_until_def redis_set_def)

lemma alive_del: "alive_until (redis_del k r) k' t \<longleftrightarrow> k' \<noteq> k \<and> alive_until r k' t"
  by (simp add: alive_until_def redis_del_def)

text \<open>
  platform/httpx/idempotency.go: the middleware that makes a retried request harmless. A
  handler is a function from the request, the headers of the response writer and the state
  of the application to a response, \<open>None\<close> when it panics, and the new state. The Redis of
  the middleware holds the cached responses and the in-flight locks.

  SHA-256 and the text form of a UUID are parameters. \<open>idem_env\<close> is what one request meets:
  the clock at its Redis commands, which of them fail, and how much of the response body the
  connection accepts.
\<close>

section \<open>Requests and responses\<close>

datatype request_body = NoBody | BodyBytes string | BodyBroken

record http_request =
  rqt_path :: string
  rqt_key :: string          \<comment> \<open>the header Idempotency-Key, empty when absent\<close>
  rqt_body :: request_body
  rqt_principal :: "principal option"
  rqt_guest :: "guest_session option"

type_synonym http_headers = "string \<rightharpoonup> string list"

record http_response =
  rsp_status :: int
  rsp_headers :: http_headers
  rsp_body :: string

type_synonym 'w handler = "http_request \<Rightarrow> http_headers \<Rightarrow> 'w \<Rightarrow> http_response option \<times> 'w"

definition http_Error :: "http_headers \<Rightarrow> string \<Rightarrow> int \<Rightarrow> http_response" where
  "http_Error wh msg code =
     \<lparr>rsp_status = code,
      rsp_headers = wh(''Content-Length'' := None, ''Content-Type'' \<mapsto> [''text/plain; charset=utf-8''],
        ''X-Content-Type-Options'' \<mapsto> [''nosniff'']),
      rsp_body = msg @ [CHR 0x0A]\<rparr>"

section \<open>Scopes\<close>

definition principalTenantScope :: "(uuid \<Rightarrow> string) \<Rightarrow> http_request \<Rightarrow> string option" where
  "principalTenantScope text rq = map_option (\<lambda>p. text (prn_tenant p)) (rqt_principal rq)"

definition GuestSessionScope :: "(uuid \<Rightarrow> string) \<Rightarrow> http_request \<Rightarrow> string option" where
  "GuestSessionScope text rq =
     map_option (\<lambda>g. ''guest:'' @ text (gst_tenant g) @ '':'' @ text (gst_qr g) @ '':'' @ text (gst_session g))
       (rqt_guest rq)"

section \<open>Cached entries\<close>

record idem_entry =
  ide_status :: int
  ide_headers :: "string \<rightharpoonup> string"
  ide_body :: string
  ide_hash :: string

datatype idem_value = IdemEntry idem_entry | IdemText string   \<comment> \<open>text that is no JSON entry\<close>

datatype cache_lookup = CacheMiss | CacheHitSameBody idem_entry | CacheHitDifferentBody

definition idempotencyTTL :: time where
  "idempotencyTTL = 24 * 60 * 60"

definition inFlightTTL :: time where
  "inFlightTTL = 30"

definition idem_cacheKey :: "string \<Rightarrow> string \<Rightarrow> string" where
  "idem_cacheKey scope key = ''idem:'' @ scope @ '':'' @ key"

definition idem_lockKey :: "string \<Rightarrow> string" where
  "idem_lockKey cacheKey = cacheKey @ '':lock''"

definition hashAndRestoreBody :: "(string \<Rightarrow> string) \<Rightarrow> http_request \<Rightarrow> (string \<times> string) option" where
  "hashAndRestoreBody sha rq =
     (case rqt_body rq of
        NoBody \<Rightarrow> Some (sha '''', '''')
      | BodyBytes b \<Rightarrow> Some (sha b, b)
      | BodyBroken \<Rightarrow> None)"

definition lookupCachedEntry :: "bool \<Rightarrow> time \<Rightarrow> idem_value redis \<Rightarrow> string \<Rightarrow> string \<Rightarrow> cache_lookup" where
  "lookupCachedEntry ok now r cacheKey bodyHash =
     (if \<not> ok then CacheMiss
      else case redis_get now r cacheKey of
        None \<Rightarrow> CacheMiss
      | Some (IdemText _) \<Rightarrow> CacheMiss
      | Some (IdemEntry e) \<Rightarrow>
          if ide_hash e \<noteq> '''' \<and> ide_hash e \<noteq> bodyHash then CacheHitDifferentBody else CacheHitSameBody e)"

definition captureHeaders :: "http_headers \<Rightarrow> (string \<rightharpoonup> string)" where
  "captureHeaders h k = (case h k of Some (v # _) \<Rightarrow> Some v | _ \<Rightarrow> None)"

definition writeReplay :: "idem_entry \<Rightarrow> http_headers \<Rightarrow> http_response" where
  "writeReplay e wh =
     \<lparr>rsp_status = ide_status e,
      rsp_headers = (\<lambda>k. case ide_headers e k of Some v \<Rightarrow> Some [v] | None \<Rightarrow> wh k)
        (''Idempotency-Replayed'' \<mapsto> [''true'']),
      rsp_body = ide_body e\<rparr>"

section \<open>The middleware\<close>

record idem_env =
  env_lookup_at :: time
  env_lock_at :: time
  env_store_at :: time
  env_get_ok :: bool
  env_setnx_ok :: bool
  env_set_ok :: bool
  env_del_ok :: bool
  env_written :: nat   \<comment> \<open>bytes of the body the connection accepts\<close>

text \<open>Up to the lookup: either the answer, or the cache key, the hash and the restored request.\<close>

definition idem_admit ::
  "(string \<Rightarrow> string) \<Rightarrow> (http_request \<Rightarrow> string option) \<Rightarrow> http_headers \<Rightarrow> http_request \<Rightarrow> idem_env \<Rightarrow>
   idem_value redis \<Rightarrow> http_response + string \<times> string \<times> http_request" where
  "idem_admit sha scope wh rq e r =
     (if rqt_key rq = '''' then Inl (http_Error wh ''Idempotency-Key header required'' 422)
      else case scope rq of
        None \<Rightarrow> Inl (http_Error wh ''unauthorized'' 401)
      | Some sv \<Rightarrow>
          (case hashAndRestoreBody sha rq of
             None \<Rightarrow> Inl (http_Error wh ''invalid request body'' 400)
           | Some (bodyHash, bytes) \<Rightarrow>
               let cacheKey = idem_cacheKey sv (rqt_key rq)
               in case lookupCachedEntry (env_get_ok e) (env_lookup_at e) r cacheKey bodyHash of
                    CacheHitSameBody entry \<Rightarrow> Inl (writeReplay entry wh)
                  | CacheHitDifferentBody \<Rightarrow>
                      Inl (http_Error wh ''Idempotency-Key was already used with a different request body'' 422)
                  | CacheMiss \<Rightarrow> Inr (cacheKey, bodyHash, rq\<lparr>rqt_body := BodyBytes bytes\<rparr>)))"

definition idem_lock ::
  "http_headers \<Rightarrow> idem_env \<Rightarrow> string \<Rightarrow> idem_value redis \<Rightarrow> http_response + idem_value redis" where
  "idem_lock wh e cacheKey r =
     (if \<not> env_setnx_ok e then Inl (http_Error wh ''internal error'' 500)
      else case redis_setnx (env_lock_at e) inFlightTTL (idem_lockKey cacheKey) (IdemText ''1'') r of
        (True, r') \<Rightarrow> Inr r'
      | (False, _) \<Rightarrow> Inl (http_Error wh ''Idempotency-Key is already being processed'' 409))"

text \<open>After the handler: a success is recorded, with the bytes that were written.\<close>

definition idem_record ::
  "idem_env \<Rightarrow> string \<Rightarrow> string \<Rightarrow> http_response option \<Rightarrow> idem_value redis \<Rightarrow> idem_value redis" where
  "idem_record e cacheKey bodyHash res r =
     (case res of
        None \<Rightarrow> r
      | Some rsp \<Rightarrow>
          if 200 \<le> rsp_status rsp \<and> rsp_status rsp < 300 \<and> env_set_ok e
          then redis_set (env_store_at e) idempotencyTTL cacheKey
                 (IdemEntry \<lparr>ide_status = rsp_status rsp, ide_headers = captureHeaders (rsp_headers rsp),
                    ide_body = take (env_written e) (rsp_body rsp), ide_hash = bodyHash\<rparr>) r
          else r)"

definition idem_release :: "idem_env \<Rightarrow> string \<Rightarrow> idem_value redis \<Rightarrow> idem_value redis" where
  "idem_release e cacheKey r = (if env_del_ok e then redis_del (idem_lockKey cacheKey) r else r)"

definition IdempotencyWithScope ::
  "(string \<Rightarrow> string) \<Rightarrow> (http_request \<Rightarrow> string option) \<Rightarrow> 'w handler \<Rightarrow> http_headers \<Rightarrow>
   http_request \<Rightarrow> idem_env \<Rightarrow> idem_value redis \<times> 'w \<Rightarrow> http_response option \<times> idem_value redis \<times> 'w" where
  "IdempotencyWithScope sha scope next_handler wh rq e s =
     (case s of (r, w) \<Rightarrow>
        case idem_admit sha scope wh rq e r of
          Inl rsp \<Rightarrow> (Some rsp, r, w)
        | Inr (cacheKey, bodyHash, rq') \<Rightarrow>
            (case idem_lock wh e cacheKey r of
               Inl rsp \<Rightarrow> (Some rsp, r, w)
             | Inr r' \<Rightarrow>
                 (case next_handler rq' wh w of (res, w') \<Rightarrow>
                    (res, idem_release e cacheKey (idem_record e cacheKey bodyHash res r'), w'))))"

definition Idempotency ::
  "(string \<Rightarrow> string) \<Rightarrow> (uuid \<Rightarrow> string) \<Rightarrow> 'w handler \<Rightarrow> http_headers \<Rightarrow>
   http_request \<Rightarrow> idem_env \<Rightarrow> idem_value redis \<times> 'w \<Rightarrow> http_response option \<times> idem_value redis \<times> 'w" where
  "Idempotency sha text next_handler wh rq e s =
     IdempotencyWithScope sha (principalTenantScope text) next_handler wh rq e s"

end
