(* ===== verification/Http_Idempotency_Props.thy ===== *)
theory Http_Idempotency_Props
  imports Http_Idempotency
begin

text \<open>
  What the idempotency middleware guarantees: a request that succeeded is not executed again,
  its response is replayed; two executions of one key never overlap while the lock lives; and
  the keys of different callers never meet.
\<close>

section \<open>One request after the other\<close>

text \<open>The cache key a request is filed under, and the bytes that are hashed.\<close>

definition request_slot :: "(http_request \<Rightarrow> string option) \<Rightarrow> http_request \<Rightarrow> string option" where
  "request_slot scope rq =
     (if rqt_key rq = '''' then None else map_option (\<lambda>sv. idem_cacheKey sv (rqt_key rq)) (scope rq))"

definition body_text :: "http_request \<Rightarrow> string option" where
  "body_text rq = (case rqt_body rq of NoBody \<Rightarrow> Some '''' | BodyBytes b \<Rightarrow> Some b | BodyBroken \<Rightarrow> None)"

definition idem_executes ::
  "(string \<Rightarrow> string) \<Rightarrow> (http_request \<Rightarrow> string option) \<Rightarrow> http_headers \<Rightarrow> http_request \<Rightarrow> idem_env \<Rightarrow>
   idem_value redis \<Rightarrow> bool" where
  "idem_executes sha scope wh rq e r \<longleftrightarrow>
     (case idem_admit sha scope wh rq e r of
        Inl _ \<Rightarrow> False
      | Inr (k, _) \<Rightarrow> (case idem_lock wh e k r of Inl _ \<Rightarrow> False | Inr _ \<Rightarrow> True))"

lemma idem_executesE:
  assumes "idem_executes sha scope wh rq e r"
  obtains k h rq' r' where "idem_admit sha scope wh rq e r = Inr (k, h, rq')" and "idem_lock wh e k r = Inr r'"
  using assms by (auto simp: idem_executes_def split: sum.splits prod.splits)

fun idem_serve_all ::
  "(string \<Rightarrow> string) \<Rightarrow> (http_request \<Rightarrow> string option) \<Rightarrow> 'w handler \<Rightarrow>
   (http_headers \<times> http_request \<times> idem_env) list \<Rightarrow> idem_value redis \<times> 'w \<Rightarrow> idem_value redis \<times> 'w" where
  "idem_serve_all sha scope h [] s = s"
| "idem_serve_all sha scope h ((wh, rq, e) # rest) s =
     idem_serve_all sha scope h rest (snd (IdempotencyWithScope sha scope h wh rq e s))"

lemma hash_body: "hashAndRestoreBody sha rq = map_option (\<lambda>b. (sha b, b)) (body_text rq)"
  by (simp add: hashAndRestoreBody_def body_text_def split: request_body.split)

lemma idem_admit_Inr:
  assumes "idem_admit sha scope wh rq e r = Inr (k, h, rq')"
  shows "request_slot scope rq = Some k" and "\<exists>b. body_text rq = Some b \<and> h = sha b \<and> rq' = rq\<lparr>rqt_body := BodyBytes b\<rparr>"
    and "lookupCachedEntry (env_get_ok e) (env_lookup_at e) r k h = CacheMiss"
  using assms
  by (auto simp: idem_admit_def request_slot_def hash_body Let_def
      split: if_splits option.splits cache_lookup.splits)

text \<open>A request that was not executed leaves Redis and the application alone.\<close>

lemma not_executed:
  "\<not> idem_executes sha scope wh rq e r \<Longrightarrow> snd (IdempotencyWithScope sha scope h wh rq e (r, w)) = (r, w)"
  by (auto simp: IdempotencyWithScope_def idem_executes_def split: sum.splits prod.splits)

text \<open>The entry of a slot stands while others are served, until its time.\<close>

definition entry_stands :: "string \<Rightarrow> idem_entry \<Rightarrow> time \<Rightarrow> idem_value redis \<Rightarrow> bool" where
  "entry_stands k entry t r \<longleftrightarrow> r k = Some (IdemEntry entry, t)"

lemma entry_get: "entry_stands k entry t r \<Longrightarrow> now < t \<Longrightarrow> redis_get now r k = Some (IdemEntry entry)"
  by (simp add: entry_stands_def redis_get_def)

text \<open>What a request of the slot meets while the entry stands.\<close>

lemma entry_answers:
  assumes "entry_stands k entry t r" and "request_slot scope rq = Some k"
    and "env_get_ok e" and "env_lookup_at e < t"
  shows "idem_admit sha scope wh rq e r = Inl (case body_text rq of
      None \<Rightarrow> http_Error wh ''invalid request body'' 400
    | Some b \<Rightarrow>
        if ide_hash entry \<noteq> '''' \<and> ide_hash entry \<noteq> sha b
        then http_Error wh ''Idempotency-Key was already used with a different request body'' 422
        else writeReplay entry wh)"
  using assms(2,3) entry_get [OF assms(1,4)]
  by (auto simp: idem_admit_def request_slot_def hash_body lookupCachedEntry_def Let_def split: if_splits option.splits)

lemma entry_kept:
  assumes st: "entry_stands k entry t r" and own: "request_slot scope rq = Some k \<Longrightarrow> env_get_ok e \<and> env_lookup_at e < t"
    and lock: "env_lock_at e < t"
  shows "entry_stands k entry t (fst (snd (IdempotencyWithScope sha scope h wh rq e (r, w))))"
proof (cases "idem_executes sha scope wh rq e r")
  case False
  then show ?thesis using st by (simp add: not_executed)
next
  case True
  then obtain k' hash rq' r' where a: "idem_admit sha scope wh rq e r = Inr (k', hash, rq')"
    and l: "idem_lock wh e k' r = Inr r'" by (rule idem_executesE)
  have "k' \<noteq> k"
  proof
    assume "k' = k"
    with idem_admit_Inr(1) [OF a] own have "request_slot scope rq = Some k" "env_get_ok e" "env_lookup_at e < t" by auto
    from entry_answers [OF st this] a show False by simp
  qed
  moreover have "redis_get (env_lock_at e) r (idem_lockKey k') = None"
    and r': "r' = redis_set (env_lock_at e) inFlightTTL (idem_lockKey k') (IdemText ''1'') r"
    using l by (auto simp: idem_lock_def redis_setnx_True split: if_splits prod.splits bool.splits)
  moreover have "redis_get (env_lock_at e) r k \<noteq> None" using entry_get [OF st lock] by simp
  ultimately have "idem_lockKey k' \<noteq> k" "k' \<noteq> k" by auto
  then show ?thesis using st a l
    by (auto simp: IdempotencyWithScope_def idem_record_def idem_release_def r' redis_set_def redis_del_def
        entry_stands_def split: prod.splits option.splits)
qed

lemma entry_kept_all:
  assumes "entry_stands k entry t r"
    and "\<And>wh rq e. (wh, rq, e) \<in> set reqs \<Longrightarrow> env_lock_at e < t \<and>
      (request_slot scope rq = Some k \<longrightarrow> env_get_ok e \<and> env_lookup_at e < t)"
  shows "entry_stands k entry t (fst (idem_serve_all sha scope h reqs (r, w)))"
  using assms
proof (induction reqs arbitrary: r w)
  case (Cons x reqs)
  obtain wh rq e where x: "x = (wh, rq, e)" by (cases x)
  obtain r' w' where s: "snd (IdempotencyWithScope sha scope h wh rq e (r, w)) = (r', w')" by force
  have "entry_stands k entry t r'"
    using entry_kept [OF Cons.prems(1), of scope rq e sha h wh w] Cons.prems(2) [of wh rq e] by (simp add: x s)
  then have "entry_stands k entry t (fst (idem_serve_all sha scope h reqs (r', w')))"
    using Cons.prems(2) by (intro Cons.IH) auto
  then show ?case by (simp add: x s)
qed simp

text \<open>What the first execution leaves behind.\<close>

lemma execution_recorded:
  assumes "IdempotencyWithScope sha scope h wh rq e (r, w) = (Some rsp, r', w')"
    and "idem_executes sha scope wh rq e r" and "request_slot scope rq = Some k" and "body_text rq = Some b"
    and "200 \<le> rsp_status rsp" "rsp_status rsp < 300" and "env_set_ok e"
  shows "entry_stands k \<lparr>ide_status = rsp_status rsp, ide_headers = captureHeaders (rsp_headers rsp),
      ide_body = take (env_written e) (rsp_body rsp), ide_hash = sha b\<rparr> (env_store_at e + idempotencyTTL) r'"
proof -
  from assms(2) obtain k' hash rq' r1 where a: "idem_admit sha scope wh rq e r = Inr (k', hash, rq')"
    and l: "idem_lock wh e k' r = Inr r1" by (rule idem_executesE)
  have "k' = k" "hash = sha b" using idem_admit_Inr(1,2) [OF a] assms(3,4) by auto
  moreover have "idem_lockKey k \<noteq> k" by (simp add: idem_lockKey_def)
  ultimately show ?thesis using assms(1,5-7) a l
    by (auto simp: IdempotencyWithScope_def idem_record_def idem_release_def redis_set_def redis_del_def
        entry_stands_def split: prod.splits)
qed

section \<open>Retries\<close>

text \<open>C13: a retry is answered, not executed, as long as Redis answers the lookups and requests are
  served one after the other. Once a request has been executed with success and recorded, every
  later request filed under the same key within 24 hours, whatever requests were served in
  between, leaves the application as it is: with the same body it gets the recorded status,
  headers and body back, with another body it is refused with 422. Every lookup under this
  key has to get an answer, as a Redis error is taken for a miss and the handler runs again; the
  other commands may fail. Two requests under way at the same time can both be executed, see
  \<open>race_executes_twice\<close>.\<close>

theorem retry_is_replayed:
  assumes "IdempotencyWithScope sha scope h wh rq e (r, w) = (Some rsp, s1)"
    and "idem_executes sha scope wh rq e r" and "request_slot scope rq = Some k" and "body_text rq = Some b"
    and "200 \<le> rsp_status rsp" and "rsp_status rsp < 300" and "env_set_ok e"
    and "\<And>wh rq e'. (wh, rq, e') \<in> set between \<Longrightarrow>
      env_lock_at e' < env_store_at e + idempotencyTTL \<and>
      (request_slot scope rq = Some k \<longrightarrow> env_get_ok e' \<and> env_lookup_at e' < env_store_at e + idempotencyTTL)"
    and "request_slot scope rq' = Some k" and "body_text rq' = Some b'"
    and "env_get_ok e'" and "env_lookup_at e' < env_store_at e + idempotencyTTL"
    and "sha b \<noteq> ''''" and "sha b' = sha b \<Longrightarrow> b' = b"
  shows "IdempotencyWithScope sha scope h wh' rq' e' (idem_serve_all sha scope h between s1) =
    (Some (if b' = b
       then writeReplay \<lparr>ide_status = rsp_status rsp, ide_headers = captureHeaders (rsp_headers rsp),
              ide_body = take (env_written e) (rsp_body rsp), ide_hash = sha b\<rparr> wh'
       else http_Error wh' ''Idempotency-Key was already used with a different request body'' 422),
     idem_serve_all sha scope h between s1)"
proof -
  obtain r1 w1 where s1: "s1 = (r1, w1)" by (cases s1)
  obtain r2 w2 where s2: "idem_serve_all sha scope h between s1 = (r2, w2)"
    by (cases "idem_serve_all sha scope h between s1")
  note stands = execution_recorded [OF assms(1) [unfolded s1] assms(2-7)]
  from entry_kept_all [OF stands, of between scope sha h w1] assms(8) s1 s2
  have "entry_stands k \<lparr>ide_status = rsp_status rsp, ide_headers = captureHeaders (rsp_headers rsp),
      ide_body = take (env_written e) (rsp_body rsp), ide_hash = sha b\<rparr> (env_store_at e + idempotencyTTL) r2"
    by fastforce
  from entry_answers [OF this assms(9,11,12), of sha wh'] assms(10,13,14) s2
  show ?thesis by (auto simp: IdempotencyWithScope_def)
qed

definition demo_counter :: "int handler" where
  "demo_counter rq wh n = (Some \<lparr>rsp_status = 201, rsp_headers = wh, rsp_body = ''created''\<rparr>, n + 1)"

definition demo_http :: "string \<Rightarrow> string \<Rightarrow> http_request" where
  "demo_http path body = \<lparr>rqt_path = path, rqt_key = ''k1'', rqt_body = BodyBytes body,
     rqt_principal = Some \<lparr>prn_keycloak_sub = '''', prn_person = 5, prn_ctx = ContextStaff, prn_tenant = 1,
       prn_branch = 10, prn_roles = [], prn_session = uuid_Nil\<rparr>, rqt_guest = None\<rparr>"

definition demo_idem_env :: "time \<Rightarrow> idem_env" where
  "demo_idem_env t = \<lparr>env_lookup_at = t, env_lock_at = t, env_store_at = t + 1, env_get_ok = True,
     env_setnx_ok = True, env_set_ok = True, env_del_ok = True, env_written = 100\<rparr>"

definition demo_scope :: "http_request \<Rightarrow> string option" where
  "demo_scope = principalTenantScope (\<lambda>u. replicate u CHR ''1'')"

definition demo_sha :: "string \<Rightarrow> string" where
  "demo_sha b = ''h'' @ b"

definition demo_created :: http_response where
  "demo_created = \<lparr>rsp_status = 201, rsp_headers = Map.empty, rsp_body = ''created''\<rparr>"

abbreviation demo_serve :: "string \<Rightarrow> time \<Rightarrow> idem_value redis \<times> int \<Rightarrow> http_response option \<times> idem_value redis \<times> int" where
  "demo_serve path t \<equiv> IdempotencyWithScope demo_sha demo_scope demo_counter Map.empty (demo_http path ''x'') (demo_idem_env t)"

lemmas demo_idem_defs = idem_admit_def idem_lock_def demo_http_def demo_idem_env_def demo_scope_def demo_sha_def
  principalTenantScope_def hashAndRestoreBody_def lookupCachedEntry_def redis_get_def redis_setnx_def
  idem_cacheKey_def

lemma demo_slot:
  "request_slot demo_scope (demo_http p y) = Some ''idem:1:k1''" "body_text (demo_http p y) = Some y"
  by (simp_all add: request_slot_def body_text_def demo_idem_defs)

lemma demo_executes: "idem_executes demo_sha demo_scope Map.empty (demo_http p ''x'') (demo_idem_env 0) Map.empty"
  by (simp add: idem_executes_def demo_idem_defs)

lemma demo_first: "\<exists>r1. demo_serve p 0 (Map.empty, 0) = (Some demo_created, r1, 1)"
  by (simp add: IdempotencyWithScope_def demo_idem_defs demo_counter_def demo_created_def)

text \<open>The route is no part of the key: a retry is answered from the entry of another route, and
  its handler never runs.\<close>

theorem retry_is_replayed_witness:
  "\<exists>r1 rsp. demo_serve ''/checks/7/close'' 0 (Map.empty, 0) = (Some demo_created, r1, 1) \<and>
     demo_serve ''/checks/8/close'' 50000 (r1, 1) = (Some rsp, r1, 1) \<and>
     rsp_status rsp = 201 \<and> rsp_body rsp = ''created''"
proof -
  obtain r1 where first: "demo_serve ''/checks/7/close'' 0 (Map.empty, 0) = (Some demo_created, r1, 1)"
    using demo_first by blast
  have "demo_serve ''/checks/8/close'' 50000 (idem_serve_all demo_sha demo_scope demo_counter [] (r1, 1)) =
    (Some (if ''x'' = ''x''
       then writeReplay \<lparr>ide_status = rsp_status demo_created, ide_headers = captureHeaders (rsp_headers demo_created),
              ide_body = take (env_written (demo_idem_env 0)) (rsp_body demo_created), ide_hash = demo_sha ''x''\<rparr> Map.empty
       else http_Error Map.empty ''Idempotency-Key was already used with a different request body'' 422),
     idem_serve_all demo_sha demo_scope demo_counter [] (r1, 1))"
    by (rule retry_is_replayed [OF first demo_executes demo_slot])
      (simp_all add: demo_slot demo_created_def demo_idem_env_def idempotencyTTL_def demo_sha_def)
  then show ?thesis using first by (simp add: writeReplay_def demo_created_def demo_idem_env_def)
qed

section \<open>Requests in parallel\<close>

text \<open>Where a request is. The time is that of its lock.\<close>

datatype idem_pc =
    PcIdle
  | PcAdmitted string string http_request
  | PcLocked string string http_request time
  | PcServed string string "http_response option" time
  | PcRecorded string "http_response option" time
  | PcReplied "http_response option"

record 'w idem_state =
  ist_redis :: "idem_value redis"
  ist_app :: 'w
  ist_threads :: "nat \<Rightarrow> idem_pc"

definition set_thread :: "nat \<Rightarrow> idem_pc \<Rightarrow> 'w idem_state \<Rightarrow> 'w idem_state" where
  "set_thread i pc s = s\<lparr>ist_threads := (ist_threads s)(i := pc)\<rparr>"

inductive idem_step ::
  "(string \<Rightarrow> string) \<Rightarrow> (http_request \<Rightarrow> string option) \<Rightarrow> 'w handler \<Rightarrow> time \<Rightarrow>
   'w idem_state \<Rightarrow> 'w idem_state \<Rightarrow> bool" for sha scope h now where
  step_answer: "ist_threads s i = PcIdle \<Longrightarrow> env_lookup_at e = now \<Longrightarrow>
    idem_admit sha scope wh rq e (ist_redis s) = Inl rsp \<Longrightarrow>
    idem_step sha scope h now s (set_thread i (PcReplied (Some rsp)) s)"
| step_admit: "ist_threads s i = PcIdle \<Longrightarrow> env_lookup_at e = now \<Longrightarrow>
    idem_admit sha scope wh rq e (ist_redis s) = Inr (k, hash, rq') \<Longrightarrow>
    idem_step sha scope h now s (set_thread i (PcAdmitted k hash rq') s)"
| step_refuse: "ist_threads s i = PcAdmitted k hash rq \<Longrightarrow> env_lock_at e = now \<Longrightarrow>
    idem_lock wh e k (ist_redis s) = Inl rsp \<Longrightarrow>
    idem_step sha scope h now s (set_thread i (PcReplied (Some rsp)) s)"
| step_lock: "ist_threads s i = PcAdmitted k hash rq \<Longrightarrow> env_lock_at e = now \<Longrightarrow>
    idem_lock wh e k (ist_redis s) = Inr r \<Longrightarrow>
    idem_step sha scope h now s (set_thread i (PcLocked k hash rq now) (s\<lparr>ist_redis := r\<rparr>))"
| step_serve: "ist_threads s i = PcLocked k hash rq a \<Longrightarrow> h rq wh (ist_app s) = (res, w) \<Longrightarrow>
    idem_step sha scope h now s (set_thread i (PcServed k hash res a) (s\<lparr>ist_app := w\<rparr>))"
| step_record: "ist_threads s i = PcServed k hash res a \<Longrightarrow> env_store_at e = now \<Longrightarrow>
    idem_step sha scope h now s
      (set_thread i (PcRecorded k res a) (s\<lparr>ist_redis := idem_record e k hash res (ist_redis s)\<rparr>))"
| step_release: "ist_threads s i = PcRecorded k res a \<Longrightarrow>
    idem_step sha scope h now s
      (set_thread i (PcReplied res) (s\<lparr>ist_redis := idem_release e k (ist_redis s)\<rparr>))"

text \<open>A run, with the clock and the state each step was taken in.\<close>

inductive idem_run ::
  "(string \<Rightarrow> string) \<Rightarrow> (http_request \<Rightarrow> string option) \<Rightarrow> 'w handler \<Rightarrow> time \<Rightarrow> 'w idem_state \<Rightarrow>
   (time \<times> 'w idem_state) list \<Rightarrow> time \<Rightarrow> 'w idem_state \<Rightarrow> bool" for sha scope h t s where
  idem_run_nil: "idem_run sha scope h t s [] t s"
| idem_run_step: "idem_run sha scope h t s tr t' s' \<Longrightarrow> t' \<le> t'' \<Longrightarrow> idem_step sha scope h t'' s' s'' \<Longrightarrow>
    idem_run sha scope h t s (tr @ [(t'', s')]) t'' s''"

text \<open>The key a request has locked, and since when.\<close>

fun holds_lock :: "idem_pc \<Rightarrow> (string \<times> time) option" where
  "holds_lock (PcLocked k _ _ a) = Some (k, a)"
| "holds_lock (PcServed k _ _ a) = Some (k, a)"
| "holds_lock (PcRecorded k _ a) = Some (k, a)"
| "holds_lock _ = None"

definition patient :: "time \<Rightarrow> 'w idem_state \<Rightarrow> bool" where
  "patient now s \<longleftrightarrow> (\<forall>i k a. holds_lock (ist_threads s i) = Some (k, a) \<longrightarrow> now < a + inFlightTTL)"

definition locks_held :: "time \<Rightarrow> 'w idem_state \<Rightarrow> bool" where
  "locks_held now s \<longleftrightarrow>
     (\<forall>i k a. holds_lock (ist_threads s i) = Some (k, a) \<longrightarrow>
        a \<le> now \<and> alive_until (ist_redis s) (idem_lockKey k) (a + inFlightTTL)) \<and>
     (\<forall>i j k a b. holds_lock (ist_threads s i) = Some (k, a) \<longrightarrow> holds_lock (ist_threads s j) = Some (k, b) \<longrightarrow> i = j)"

lemma lockKey_inj [simp]: "idem_lockKey k = idem_lockKey k' \<longleftrightarrow> k = k'"
  by (simp add: idem_lockKey_def)

lemma thread_simps [simp]:
  "ist_threads (set_thread i pc s) j = (if j = i then pc else ist_threads s j)"
  "ist_redis (set_thread i pc s) = ist_redis s"
  by (simp_all add: set_thread_def)

lemma alive_record:
  assumes "alive_until r k t" and "t \<le> env_store_at e + idempotencyTTL"
  shows "alive_until (idem_record e ck hash res r) k t"
  using assms by (auto simp: idem_record_def alive_set split: option.splits)

lemma alive_release:
  assumes "alive_until r (idem_lockKey k') t" and "k' \<noteq> k"
  shows "alive_until (idem_release e k r) (idem_lockKey k') t"
  using assms by (auto simp: idem_release_def alive_del)

lemma idem_lock_Inr:
  assumes "idem_lock wh e k r = Inr r'"
  shows "redis_get (env_lock_at e) r (idem_lockKey k) = None"
    and "r' = redis_set (env_lock_at e) inFlightTTL (idem_lockKey k) (IdemText ''1'') r"
  using assms by (auto simp: idem_lock_def redis_setnx_True split: if_splits prod.splits bool.splits)

lemma locks_held_later: "locks_held t s \<Longrightarrow> t \<le> t' \<Longrightarrow> locks_held t' s"
  unfolding locks_held_def by (meson order_trans)

lemma locks_held_same:
  assumes "locks_held now s" and "holds_lock pc = holds_lock (ist_threads s i)"
    and "\<And>k a. holds_lock pc = Some (k, a) \<or> (\<exists>j. j \<noteq> i \<and> holds_lock (ist_threads s j) = Some (k, a)) \<Longrightarrow>
      alive_until (ist_redis s) (idem_lockKey k) (a + inFlightTTL) \<Longrightarrow> a \<le> now \<Longrightarrow>
      alive_until (ist_redis s') (idem_lockKey k) (a + inFlightTTL)"
    and "ist_threads s' = ist_threads s"
  shows "locks_held now (set_thread i pc s')"
  using assms unfolding locks_held_def by (auto split: if_splits) metis+

lemma idem_step_locks:
  assumes "idem_step sha scope h now s s'" and "patient now s" and "locks_held now s"
  shows "locks_held now s'"
  using assms
proof (induction rule: idem_step.induct)
  case (step_lock s i k hash rq e wh r)
  note r = idem_lock_Inr [OF step_lock(3)]
  have free: "holds_lock (ist_threads s j) \<noteq> Some (k, a)" for j a
  proof
    assume j: "holds_lock (ist_threads s j) = Some (k, a)"
    with step_lock(4,5) have "alive_until (ist_redis s) (idem_lockKey k) (a + inFlightTTL)" "now < a + inFlightTTL"
      by (auto simp: locks_held_def patient_def)
    from alive_get [OF this] r(1) step_lock(2) show False by simp
  qed
  have keep: "alive_until r (idem_lockKey k') (a + inFlightTTL)"
    if "alive_until (ist_redis s) (idem_lockKey k') (a + inFlightTTL)" "a \<le> now" for k' a
    using that step_lock(2) by (simp add: r(2) alive_set)
  show ?case
    using step_lock(2,5) free keep r(2) unfolding locks_held_def by (auto simp: alive_set split: if_splits)
next
  case (step_release s i k res a e)
  have other: "k' \<noteq> k" if "j \<noteq> i" "holds_lock (ist_threads s j) = Some (k', b)" for j k' b
    using that step_release(1,3) unfolding locks_held_def by fastforce
  show ?case
    using step_release(3) alive_release other unfolding locks_held_def by (auto split: if_splits)
next
  case (step_record s i k hash res a e)
  show ?case
  proof (rule locks_held_same [OF step_record(4)])
    show "alive_until (ist_redis (s\<lparr>ist_redis := idem_record e k hash res (ist_redis s)\<rparr>)) (idem_lockKey k') (b + inFlightTTL)"
      if "alive_until (ist_redis s) (idem_lockKey k') (b + inFlightTTL)" "b \<le> now" for k' b
      using that step_record(2) by (simp add: alive_record idempotencyTTL_def inFlightTTL_def)
  qed (simp_all add: step_record(1))
qed (auto intro!: locks_held_same)

lemma idem_run_locks:
  "idem_run sha scope h t s tr t' s' \<Longrightarrow> locks_held t s \<Longrightarrow> \<forall>(u, x) \<in> set tr. patient u x \<Longrightarrow> locks_held t' s'"
proof (induction rule: idem_run.induct)
  case (idem_run_step tr t' s' t'' s'')
  then have "locks_held t'' s'" "patient t'' s'" by (auto intro: locks_held_later)
  with idem_step_locks [OF idem_run_step(3)] show ?case by blast
qed

text \<open>C20: two executions of one key never overlap. In any interleaving of any number of requests,
  with any failures of Redis, at most one request at a time is between taking the lock of a
  key and releasing it, which is where the handler runs, provided none stays there for more
  than the 30 seconds the lock lives.\<close>

theorem executions_exclusive:
  assumes "idem_run sha scope h t s tr t' s'" and "\<forall>i. ist_threads s i = PcIdle"
    and "\<forall>(u, x) \<in> set tr. patient u x"
    and "holds_lock (ist_threads s' i) = Some (k, a)" and "holds_lock (ist_threads s' j) = Some (k, b)"
  shows "i = j"
proof -
  have "locks_held t s" using assms(2) by (simp add: locks_held_def)
  from idem_run_locks [OF assms(1) this assms(3)] assms(4,5) show ?thesis unfolding locks_held_def by blast
qed

text \<open>Two requests with one key: both look the response up before either takes the lock.\<close>

definition race_start :: "int idem_state" where
  "race_start = \<lparr>ist_redis = Map.empty, ist_app = 0, ist_threads = (\<lambda>_. PcIdle)\<rparr>"

definition race_admitted :: "int idem_state" where
  "race_admitted = set_thread 2 (PcAdmitted ''idem:1:k1'' ''hx'' (demo_http ''/orders'' ''x''))
     (set_thread 1 (PcAdmitted ''idem:1:k1'' ''hx'' (demo_http ''/orders'' ''x'')) race_start)"

abbreviation demo_idem_step :: "time \<Rightarrow> int idem_state \<Rightarrow> int idem_state \<Rightarrow> bool" where
  "demo_idem_step \<equiv> idem_step demo_sha demo_scope demo_counter"

abbreviation demo_idem_run :: "time \<Rightarrow> int idem_state \<Rightarrow> (time \<times> int idem_state) list \<Rightarrow> time \<Rightarrow> int idem_state \<Rightarrow> bool" where
  "demo_idem_run \<equiv> idem_run demo_sha demo_scope demo_counter"

lemma demo_admitted:
  "ist_redis s = Map.empty \<Longrightarrow> ist_threads s i = PcIdle \<Longrightarrow>
   demo_idem_step 0 s (set_thread i (PcAdmitted ''idem:1:k1'' ''hx'' (demo_http ''/orders'' ''x'')) s)"
  by (rule step_admit [where e = "demo_idem_env 0" and wh = Map.empty and rq = "demo_http ''/orders'' ''x''"])
    (simp_all add: demo_idem_defs)

lemma race_admitted_run:
  "demo_idem_run 0 race_start [(0, race_start), (0, set_thread 1 (PcAdmitted ''idem:1:k1'' ''hx'' (demo_http ''/orders'' ''x'')) race_start)]
     0 race_admitted"
  using idem_run_step [OF idem_run_step [OF idem_run_nil order_refl demo_admitted [of race_start 1]] order_refl
      demo_admitted [of _ 2]]
  by (simp add: race_start_def race_admitted_def)

text \<open>A request that was admitted runs to its end when nobody holds the lock.\<close>

definition served_state :: "nat \<Rightarrow> time \<Rightarrow> int idem_state \<Rightarrow> int idem_state" where
  "served_state i t s = set_thread i (PcReplied (Some demo_created))
     (s\<lparr>ist_app := ist_app s + 1,
        ist_redis := idem_release (demo_idem_env t) ''idem:1:k1'' (idem_record (demo_idem_env t) ''idem:1:k1'' ''hx'' (Some demo_created)
          (redis_set t inFlightTTL (idem_lockKey ''idem:1:k1'') (IdemText ''1'') (ist_redis s)))\<rparr>)"

lemma admitted_is_served:
  assumes "ist_threads s i = PcAdmitted ''idem:1:k1'' ''hx'' rq" and "redis_get t (ist_redis s) (idem_lockKey ''idem:1:k1'') = None"
    and "demo_idem_run u s0 tr u' s" and "u' \<le> t" and "\<forall>(v, x) \<in> set tr. patient v x"
    and "\<forall>j. holds_lock (ist_threads s j) = None"
  shows "\<exists>tr'. demo_idem_run u s0 tr' (t + 1) (served_state i t s) \<and> (\<forall>(v, x) \<in> set tr'. patient v x)"
proof -
  let ?r = "redis_set t inFlightTTL (idem_lockKey ''idem:1:k1'') (IdemText ''1'') (ist_redis s)"
  let ?s1 = "set_thread i (PcLocked ''idem:1:k1'' ''hx'' rq t) (s\<lparr>ist_redis := ?r\<rparr>)"
  let ?s2 = "set_thread i (PcServed ''idem:1:k1'' ''hx'' (Some demo_created) t) (?s1\<lparr>ist_app := ist_app s + 1\<rparr>)"
  let ?s3 = "set_thread i (PcRecorded ''idem:1:k1'' (Some demo_created) t)
    (?s2\<lparr>ist_redis := idem_record (demo_idem_env t) ''idem:1:k1'' ''hx'' (Some demo_created) (ist_redis ?s2)\<rparr>)"
  let ?s4 = "set_thread i (PcReplied (Some demo_created)) (?s3\<lparr>ist_redis := idem_release (demo_idem_env t) ''idem:1:k1'' (ist_redis ?s3)\<rparr>)"
  have 1: "demo_idem_step t s ?s1"
    using assms(1,2) by (intro step_lock [where e = "demo_idem_env t" and wh = Map.empty])
      (simp_all add: idem_lock_def demo_idem_env_def redis_setnx_def)
  have 2: "demo_idem_step t ?s1 ?s2"
    by (rule step_serve [where wh = Map.empty]) (simp_all add: demo_counter_def demo_created_def set_thread_def)
  have 3: "demo_idem_step (t + 1) ?s2 ?s3"
    by (rule step_record) (simp_all add: demo_idem_env_def)
  have 4: "demo_idem_step (t + 1) ?s3 ?s4" by (rule step_release) simp
  note run = idem_run_step [OF idem_run_step [OF idem_run_step [OF idem_run_step
    [OF assms(3) assms(4) 1] order_refl 2] _ 3] order_refl 4]
  have "?s4 = served_state i t s" by (simp add: served_state_def set_thread_def)
  moreover have "patient t s" "patient t ?s1" "patient (t + 1) ?s2" "patient (t + 1) ?s3"
    using assms(6) by (auto simp: patient_def inFlightTTL_def split: if_splits)
  ultimately show ?thesis using run assms(5) by (intro exI conjI) fastforce+
qed

text \<open>The lock does not close the gap between lookup and lock: the second request misses the
  entry, waits until the first has stored it and let the lock go, and is executed as well.\<close>

lemma race_executes_twice:
  "\<exists>tr s. demo_idem_run 0 race_start tr 4 s \<and> (\<forall>(u, x) \<in> set tr. patient u x) \<and> ist_app s = 2 \<and>
     ist_threads s 1 = PcReplied (Some demo_created) \<and> ist_threads s 2 = PcReplied (Some demo_created)"
proof -
  let ?s = "served_state 1 1 race_admitted"
  have "\<exists>tr. demo_idem_run 0 race_start tr (1 + 1) ?s \<and> (\<forall>(u, x) \<in> set tr. patient u x)"
    by (rule admitted_is_served [OF _ _ race_admitted_run])
      (simp_all add: race_admitted_def race_start_def redis_get_def patient_def)
  then obtain tr where "demo_idem_run 0 race_start tr 2 ?s" "\<forall>(u, x) \<in> set tr. patient u x" by auto
  then have "\<exists>tr. demo_idem_run 0 race_start tr (3 + 1) (served_state 2 3 ?s) \<and> (\<forall>(u, x) \<in> set tr. patient u x)"
    by (intro admitted_is_served)
      (auto simp: served_state_def race_admitted_def race_start_def redis_get_def idem_release_def
        demo_idem_env_def redis_del_def)
  moreover have "ist_app (served_state 2 3 ?s) = 2 \<and>
      ist_threads (served_state 2 3 ?s) 1 = PcReplied (Some demo_created) \<and>
      ist_threads (served_state 2 3 ?s) 2 = PcReplied (Some demo_created)"
    by (simp add: served_state_def) (simp add: set_thread_def race_admitted_def race_start_def)
  ultimately show ?thesis by auto
qed

theorem executions_exclusive_witness:
  "\<exists>s'. holds_lock (ist_threads s' 1) = Some (''idem:1:k1'', 1) \<and>
     (\<forall>j a. holds_lock (ist_threads s' j) = Some (''idem:1:k1'', a) \<longrightarrow> j = 1) \<and>
     (\<exists>tr. demo_idem_run 0 race_start tr 1 s')"
proof -
  let ?s = "set_thread 1 (PcLocked ''idem:1:k1'' ''hx'' (demo_http ''/orders'' ''x'') 1)
    (race_admitted\<lparr>ist_redis := redis_set 1 inFlightTTL (idem_lockKey ''idem:1:k1'') (IdemText ''1'') Map.empty\<rparr>)"
  have "demo_idem_step 1 race_admitted ?s"
    by (rule step_lock [where e = "demo_idem_env 1" and wh = Map.empty])
      (simp_all add: idem_lock_def demo_idem_env_def redis_setnx_def redis_get_def race_admitted_def race_start_def)
  then obtain tr where run: "demo_idem_run 0 race_start tr 1 ?s" "\<forall>(u, x) \<in> set tr. patient u x"
    using idem_run_step [OF race_admitted_run _, of 1 ?s]
    by (fastforce simp: race_start_def race_admitted_def patient_def)
  have h: "holds_lock (ist_threads ?s 1) = Some (''idem:1:k1'', 1)" by simp
  have "j = 1" if "holds_lock (ist_threads ?s j) = Some (''idem:1:k1'', a)" for j a
    by (rule executions_exclusive [OF run(1) _ run(2) that h]) (simp add: race_start_def)
  then show ?thesis using run(1) h by blast
qed

section \<open>Whose key it is\<close>

text \<open>What the text of a UUID looks like: 36 hexadecimal digits and dashes, no two alike.\<close>

definition uuid_text_ok :: "(uuid \<Rightarrow> string) \<Rightarrow> uuid set \<Rightarrow> bool" where
  "uuid_text_ok text U \<longleftrightarrow> inj_on text U \<and>
     (\<forall>u \<in> U. length (text u) = 36 \<and> set (text u) \<subseteq> set ''0123456789abcdef-'')"

lemma staff_slot:
  "request_slot (principalTenantScope text) rq = Some k \<longleftrightarrow>
     (\<exists>p. rqt_principal rq = Some p \<and> rqt_key rq \<noteq> '''' \<and> k = ''idem:'' @ text (prn_tenant p) @ '':'' @ rqt_key rq)"
  by (auto simp: request_slot_def principalTenantScope_def idem_cacheKey_def)

lemma guest_slot:
  "request_slot (GuestSessionScope text) rq = Some k \<longleftrightarrow>
     (\<exists>g. rqt_guest rq = Some g \<and> rqt_key rq \<noteq> '''' \<and>
        k = ''idem:guest:'' @ text (gst_tenant g) @ '':'' @ text (gst_qr g) @ '':'' @ text (gst_session g) @ '':'' @ rqt_key rq)"
  by (auto simp: request_slot_def GuestSessionScope_def idem_cacheKey_def)

lemma slot_owner:
  assumes "uuid_text_ok text U"
  shows "request_slot (principalTenantScope text) rq = Some k \<Longrightarrow> request_slot (principalTenantScope text) rq' = Some k \<Longrightarrow>
      rqt_principal rq = Some p \<Longrightarrow> rqt_principal rq' = Some p' \<Longrightarrow> {prn_tenant p, prn_tenant p'} \<subseteq> U \<Longrightarrow>
      prn_tenant p = prn_tenant p' \<and> rqt_key rq = rqt_key rq'"
    and "request_slot (GuestSessionScope text) rq = Some k \<Longrightarrow> request_slot (GuestSessionScope text) rq' = Some k \<Longrightarrow>
      rqt_guest rq = Some g \<Longrightarrow> rqt_guest rq' = Some g' \<Longrightarrow>
      {gst_tenant g, gst_qr g, gst_session g, gst_tenant g', gst_qr g', gst_session g'} \<subseteq> U \<Longrightarrow>
      gst_tenant g = gst_tenant g' \<and> gst_qr g = gst_qr g' \<and> gst_session g = gst_session g' \<and> rqt_key rq = rqt_key rq'"
    and "request_slot (principalTenantScope text) rq = Some k \<Longrightarrow> request_slot (GuestSessionScope text) rq' = Some k \<Longrightarrow>
      rqt_principal rq = Some p \<Longrightarrow> prn_tenant p \<in> U \<Longrightarrow> False"
proof -
  have len: "length (text u) = 36" "set (text u) \<subseteq> set ''0123456789abcdef-''" if "u \<in> U" for u
    using assms that by (auto simp: uuid_text_ok_def)
  have inj: "text u = text v \<longleftrightarrow> u = v" if "u \<in> U" "v \<in> U" for u v
    using assms that by (auto simp: uuid_text_ok_def inj_on_def)
  show "prn_tenant p = prn_tenant p' \<and> rqt_key rq = rqt_key rq'"
    if "request_slot (principalTenantScope text) rq = Some k" "request_slot (principalTenantScope text) rq' = Some k"
      "rqt_principal rq = Some p" "rqt_principal rq' = Some p'" "{prn_tenant p, prn_tenant p'} \<subseteq> U"
    using that len(1) inj by (auto simp: staff_slot)
  show "gst_tenant g = gst_tenant g' \<and> gst_qr g = gst_qr g' \<and> gst_session g = gst_session g' \<and> rqt_key rq = rqt_key rq'"
    if "request_slot (GuestSessionScope text) rq = Some k" "request_slot (GuestSessionScope text) rq' = Some k"
      "rqt_guest rq = Some g" "rqt_guest rq' = Some g'"
      "{gst_tenant g, gst_qr g, gst_session g, gst_tenant g', gst_qr g', gst_session g'} \<subseteq> U"
    using that len(1) inj by (auto simp: guest_slot)
  show False
    if "request_slot (principalTenantScope text) rq = Some k" "request_slot (GuestSessionScope text) rq' = Some k"
      "rqt_principal rq = Some p" "prn_tenant p \<in> U"
    using that len [of "prn_tenant p"] by (cases "text (prn_tenant p)") (auto simp: staff_slot guest_slot)
qed

text \<open>C38: the keys of different callers never meet. Two staff requests share an entry only when
  they come from one tenant with one key; two guest requests only when they come from one
  session at one QR code of one tenant; a staff and a guest request never do.\<close>

theorem slots_apart:
  assumes "uuid_text_ok text U"
  shows "(\<forall>rq rq' p p' k. rqt_principal rq = Some p \<and> rqt_principal rq' = Some p' \<and> {prn_tenant p, prn_tenant p'} \<subseteq> U \<and>
      request_slot (principalTenantScope text) rq = Some k \<and> request_slot (principalTenantScope text) rq' = Some k \<longrightarrow>
      prn_tenant p = prn_tenant p' \<and> rqt_key rq = rqt_key rq') \<and>
    (\<forall>rq rq' g g' k. rqt_guest rq = Some g \<and> rqt_guest rq' = Some g' \<and>
      {gst_tenant g, gst_qr g, gst_session g, gst_tenant g', gst_qr g', gst_session g'} \<subseteq> U \<and>
      request_slot (GuestSessionScope text) rq = Some k \<and> request_slot (GuestSessionScope text) rq' = Some k \<longrightarrow>
      gst_tenant g = gst_tenant g' \<and> gst_qr g = gst_qr g' \<and> gst_session g = gst_session g' \<and> rqt_key rq = rqt_key rq') \<and>
    (\<forall>rq rq' p k k'. rqt_principal rq = Some p \<and> prn_tenant p \<in> U \<and>
      request_slot (principalTenantScope text) rq = Some k \<and> request_slot (GuestSessionScope text) rq' = Some k' \<longrightarrow> k \<noteq> k')"
  using slot_owner [OF assms] by (intro conjI allI impI) metis+

definition demo_text :: "uuid \<Rightarrow> string" where
  "demo_text u = replicate 35 CHR ''0'' @ [if u = 1 then CHR ''1'' else CHR ''2'']"

definition demo_guest_http :: http_request where
  "demo_guest_http = (demo_http ''/orders'' ''x'')\<lparr>rqt_principal := None, rqt_guest := Some
     \<lparr>gst_tenant = 1, gst_branch = 10, gst_table = 31, gst_qr = 2, gst_session = 2, gst_expires = 100\<rparr>\<rparr>"

theorem slots_apart_witness:
  "\<exists>k k'. request_slot (principalTenantScope demo_text) (demo_http ''/orders'' ''x'') = Some k \<and>
     request_slot (GuestSessionScope demo_text) demo_guest_http = Some k' \<and> k \<noteq> k'"
proof -
  obtain k where k: "request_slot (principalTenantScope demo_text) (demo_http ''/orders'' ''x'') = Some k"
    by (simp add: staff_slot demo_http_def)
  obtain k' where k': "request_slot (GuestSessionScope demo_text) demo_guest_http = Some k'"
    by (simp add: guest_slot demo_guest_http_def demo_http_def)
  obtain p where p: "rqt_principal (demo_http ''/orders'' ''x'') = Some p" "prn_tenant p \<in> {1, 2}"
    by (simp add: demo_http_def)
  have "uuid_text_ok demo_text {1, 2}" by (auto simp: uuid_text_ok_def demo_text_def inj_on_def)
  from slots_apart [OF this] p k k' have "k \<noteq> k'" by blast
  with k k' show ?thesis by blast
qed

end
