(* ===== verification/Catalog_Menu.thy ===== *)
theory Catalog_Menu
  imports Catalog_Pricing
begin

text \<open>
  The menu a diner is shown: the listing queries of catalog/repo/storefront_menu_repo.go and
  \<open>GetStorefrontMenu\<close> of catalog/service/storefront_menu_service.go. The columns only the
  listing reads (descriptions, categories, sort orders) are in \<open>menu_columns\<close>, by the ids
  of their rows. The last section relates the menu to the pricing of a cart.
\<close>

section \<open>Queries\<close>

record category =
  cgo_id :: uuid
  cgo_tenant :: uuid
  cgo_name :: string
  cgo_sort :: int
  cgo_active :: bool

record product_columns =
  pcl_description :: "string option"
  pcl_image :: "string option"
  pcl_category :: "uuid option"
  pcl_sort :: int

record menu_columns =
  mcl_categories :: "category list"
  mcl_product :: "uuid \<Rightarrow> product_columns"
  mcl_group_min :: "uuid \<Rightarrow> int"
  mcl_group_sort :: "uuid \<Rightarrow> int"
  mcl_link_sort :: "uuid \<Rightarrow> uuid \<Rightarrow> int"   \<comment> \<open>by product and group\<close>
  mcl_modifier_sort :: "uuid \<Rightarrow> int"

record menu_row =
  mrw_category :: uuid
  mrw_category_name :: string
  mrw_category_sort :: int
  mrw_product :: uuid
  mrw_name :: string
  mrw_description :: string
  mrw_price :: int
  mrw_currency :: string
  mrw_image :: string
  mrw_available :: bool
  mrw_sort :: int   \<comment> \<open>the column the query orders by\<close>

record menu_modifier_row =
  mmr_product :: uuid
  mmr_group :: uuid
  mmr_group_name :: string
  mmr_selection :: string
  mmr_min :: int
  mmr_max :: int
  mmr_modifier :: uuid
  mmr_name :: string
  mmr_delta :: int

text \<open>Comparing rows by one column after the other.\<close>

fun first_difference :: "(bool \<times> bool) list \<Rightarrow> bool" where
  "first_difference [] = False"
| "first_difference ((lt, gt) # rest) = (if lt then True else if gt then False else first_difference rest)"

definition by_int :: "('r \<Rightarrow> int) \<Rightarrow> 'r \<Rightarrow> 'r \<Rightarrow> bool \<times> bool" where
  "by_int f a b = (f a < f b, f b < f a)"

definition by_id :: "('r \<Rightarrow> uuid) \<Rightarrow> 'r \<Rightarrow> 'r \<Rightarrow> bool \<times> bool" where
  "by_id f a b = (f a < f b, f b < f a)"

definition by_string :: "('r \<Rightarrow> string) \<Rightarrow> 'r \<Rightarrow> 'r \<Rightarrow> bool \<times> bool" where
  "by_string f a b = (string_less (f a) (f b), string_less (f b) (f a))"

definition menu_row_before :: "menu_row \<Rightarrow> menu_row \<Rightarrow> bool" where
  "menu_row_before a b = first_difference
     [by_int mrw_category_sort a b, by_string mrw_category_name a b, by_id mrw_category a b,
      by_int mrw_sort a b, by_string mrw_name a b]"

definition product_categories :: "pgtx \<Rightarrow> menu_columns \<Rightarrow> uuid \<Rightarrow> category option list" where
  "product_categories tx cols pid =
     left_join (rls_select cgo_tenant tx
       (\<lambda>g. pcl_category (mcl_product cols pid) = Some (cgo_id g) \<and> cgo_active g) (mcl_categories cols))"

definition menu_row_of ::
  "menu_columns \<Rightarrow> product \<Rightarrow> menu_candidate \<Rightarrow> category option \<Rightarrow> channel_availability option \<Rightarrow> menu_row" where
  "menu_row_of cols p v g a =
     \<lparr>mrw_category = (case g of None \<Rightarrow> uuid_Nil | Some g \<Rightarrow> cgo_id g),
      mrw_category_name = (case g of None \<Rightarrow> '''' | Some g \<Rightarrow> cgo_name g),
      mrw_category_sort = (case g of None \<Rightarrow> 32767 | Some g \<Rightarrow> cgo_sort g),
      mrw_product = prd_id p, mrw_name = prd_name p,
      mrw_description = coalesce (pcl_description (mcl_product cols (prd_id p))) '''',
      mrw_price = coalesce (first_some (Option.bind (mca_override v) bpo_price)
                             (mit_price (mca_item v))) (prd_price p),
      mrw_currency = prd_currency p,
      mrw_image = coalesce (pcl_image (mcl_product cols (prd_id p))) '''',
      mrw_available = not_switched_off pca_available a,
      mrw_sort = pcl_sort (mcl_product cols (prd_id p))\<rparr>"

definition ListMenuRows :: "pgtx \<Rightarrow> catalog_db \<Rightarrow> menu_columns \<Rightarrow> int \<Rightarrow> uuid \<Rightarrow> menu_row list" where
  "ListMenuRows tx db cols today branchID =
     sort_by menu_row_before (concat (map (\<lambda>p.
       case visible_item tx db today branchID p of
         None \<Rightarrow> []
       | Some v \<Rightarrow> concat (map (\<lambda>g. map (menu_row_of cols p v g) (dine_in_rows tx db (prd_id p)))
           (product_categories tx cols (prd_id p))))
       (rls_select prd_tenant tx prd_active (cat_products db))))"

definition modifier_row_before :: "menu_columns \<Rightarrow> menu_modifier_row \<Rightarrow> menu_modifier_row \<Rightarrow> bool" where
  "modifier_row_before cols a b = first_difference
     [by_id mmr_product a b, by_int (\<lambda>r. mcl_link_sort cols (mmr_product r) (mmr_group r)) a b,
      by_int (\<lambda>r. mcl_group_sort cols (mmr_group r)) a b, by_id mmr_group a b,
      by_int (\<lambda>r. mcl_modifier_sort cols (mmr_modifier r)) a b, by_string mmr_name a b]"

definition modifier_row_of ::
  "menu_columns \<Rightarrow> product_group_link \<Rightarrow> modifier_group \<Rightarrow> modifier_row \<Rightarrow> menu_modifier_row" where
  "modifier_row_of cols l g mo =
     \<lparr>mmr_product = pmg_product l, mmr_group = mgr_id g, mmr_group_name = mgr_name g,
      mmr_selection = mgr_selection g, mmr_min = mcl_group_min cols (mgr_id g),
      mmr_max = coalesce (mgr_max g) 0, mmr_modifier = mod_id mo, mmr_name = mod_name mo,
      mmr_delta = mod_delta mo\<rparr>"

definition ListModifierRows :: "pgtx \<Rightarrow> catalog_db \<Rightarrow> menu_columns \<Rightarrow> uuid list \<Rightarrow> menu_modifier_row list" where
  "ListModifierRows tx db cols productIDs =
     (if productIDs = [] then []
      else sort_by (modifier_row_before cols) (concat (map (\<lambda>l. concat (map (\<lambda>g. map (modifier_row_of cols l g)
        (rls_select mod_tenant tx (\<lambda>mo. mod_group mo = mgr_id g \<and> mod_active mo) (cat_modifiers db)))
        (rls_select mgr_tenant tx (\<lambda>g. mgr_id g = pmg_group l) (cat_groups db))))
        (rls_select pmg_tenant tx (\<lambda>l. pmg_product l \<in> set productIDs) (cat_links db)))))"

section \<open>The nested menu\<close>

record storefront_modifier =
  smo_id :: uuid
  smo_name :: string
  smo_delta :: int

record storefront_group =
  sgr_id :: uuid
  sgr_name :: string
  sgr_selection :: string
  sgr_min :: int
  sgr_max :: int
  sgr_modifiers :: "storefront_modifier list"

record storefront_product =
  spr_id :: uuid
  spr_name :: string
  spr_description :: string
  spr_price :: int
  spr_currency :: string
  spr_image :: string
  spr_allergens :: "string list"
  spr_available :: bool
  spr_groups :: "storefront_group list"

record storefront_category =
  sct_id :: uuid
  sct_name :: string
  sct_sort :: int
  sct_products :: "storefront_product list"

definition row_modifier :: "menu_modifier_row \<Rightarrow> storefront_modifier" where
  "row_modifier r = \<lparr>smo_id = mmr_modifier r, smo_name = mmr_name r, smo_delta = mmr_delta r\<rparr>"

text \<open>One step of the two loops of \<open>groupMenu\<close>: a new last element when the id changes,
  then an entry into the last element.\<close>

definition fold_modifier_row :: "menu_modifier_row \<Rightarrow> storefront_group list \<Rightarrow> storefront_group list" where
  "fold_modifier_row r groups =
     (let groups = (if groups = [] \<or> sgr_id (last groups) \<noteq> mmr_group r
                    then groups @ [\<lparr>sgr_id = mmr_group r, sgr_name = mmr_group_name r, sgr_selection = mmr_selection r,
                                    sgr_min = mmr_min r, sgr_max = mmr_max r, sgr_modifiers = []\<rparr>]
                    else groups)
      in butlast groups @ [(last groups)\<lparr>sgr_modifiers := sgr_modifiers (last groups) @ [row_modifier r]\<rparr>])"

definition groups_by_product :: "menu_modifier_row list \<Rightarrow> uuid \<Rightarrow> storefront_group list" where
  "groups_by_product rows =
     fold (\<lambda>r m. m(mmr_product r := fold_modifier_row r (m (mmr_product r)))) rows (\<lambda>_. [])"

definition row_product :: "(uuid \<Rightarrow> storefront_group list) \<Rightarrow> menu_row \<Rightarrow> storefront_product" where
  "row_product groups r =
     \<lparr>spr_id = mrw_product r, spr_name = mrw_name r, spr_description = mrw_description r,
      spr_price = mrw_price r, spr_currency = mrw_currency r, spr_image = mrw_image r,
      spr_allergens = [], spr_available = mrw_available r, spr_groups = groups (mrw_product r)\<rparr>"

definition fold_menu_row ::
  "(uuid \<Rightarrow> storefront_group list) \<Rightarrow> menu_row \<Rightarrow> storefront_category list \<Rightarrow> storefront_category list" where
  "fold_menu_row groups r cats =
     (let cats = (if cats = [] \<or> sct_id (last cats) \<noteq> mrw_category r
                  then cats @ [\<lparr>sct_id = mrw_category r, sct_name = mrw_category_name r,
                                sct_sort = mrw_category_sort r, sct_products = []\<rparr>]
                  else cats)
      in butlast cats @ [(last cats)\<lparr>sct_products := sct_products (last cats) @ [row_product groups r]\<rparr>])"

definition groupMenu :: "menu_row list \<Rightarrow> menu_modifier_row list \<Rightarrow> storefront_category list" where
  "groupMenu menuRows modifierRows = fold (fold_menu_row (groups_by_product modifierRows)) menuRows []"

definition GetStorefrontMenu ::
  "catalog_db \<Rightarrow> menu_columns \<Rightarrow> ctx \<Rightarrow> int \<Rightarrow> uuid \<Rightarrow> uuid \<Rightarrow> price_error + storefront_category list" where
  "GetStorefrontMenu db cols c today tenantID branchID =
     (if tenantID = uuid_Nil then Inl PricingReadFailed
      else let tx = \<lparr>tx_tenant = tenantID, tx_now = ctx_now c\<rparr>;
               menuRows = ListMenuRows tx db cols today branchID
           in Inr (groupMenu menuRows (ListModifierRows tx db cols (map mrw_product menuRows))))"

section \<open>What the menu shows\<close>

definition shown_products :: "storefront_category list \<Rightarrow> storefront_product list" where
  "shown_products cats = concat (map sct_products cats)"

definition shown_modifiers :: "storefront_product \<Rightarrow> storefront_modifier list" where
  "shown_modifiers p = concat (map sgr_modifiers (spr_groups p))"

lemma butlast_last_concat:
  "xs \<noteq> [] \<Longrightarrow> concat (map f (butlast xs)) @ f (last xs) = concat (map f xs)"
  by (induction xs) auto

lemma shown_fold_menu_row:
  "shown_products (fold_menu_row g r cats) = shown_products cats @ [row_product g r]"
  using butlast_last_concat [of cats sct_products]
  by (auto simp: fold_menu_row_def shown_products_def Let_def butlast_append)

lemma shown_groupMenu: "shown_products (groupMenu rows ms) = map (row_product (groups_by_product ms)) rows"
proof -
  have "shown_products (fold (fold_menu_row g) rows cats) = shown_products cats @ map (row_product g) rows" for g cats
    by (induction rows arbitrary: cats) (simp_all add: shown_fold_menu_row)
  then show ?thesis by (simp add: groupMenu_def shown_products_def)
qed

lemma shown_fold_modifier_row:
  "concat (map sgr_modifiers (fold_modifier_row r gs)) = concat (map sgr_modifiers gs) @ [row_modifier r]"
  using butlast_last_concat [of gs sgr_modifiers]
  by (auto simp: fold_modifier_row_def Let_def butlast_append)

lemma modifiers_of_product:
  "concat (map sgr_modifiers (groups_by_product rows pid)) =
   map row_modifier (filter (\<lambda>r. mmr_product r = pid) rows)"
proof -
  have "concat (map sgr_modifiers
      (fold (\<lambda>r m. m(mmr_product r := fold_modifier_row r (m (mmr_product r)))) rows m pid)) =
    concat (map sgr_modifiers (m pid)) @ map row_modifier (filter (\<lambda>r. mmr_product r = pid) rows)" for m
    by (induction rows arbitrary: m) (simp_all add: shown_fold_modifier_row)
  then show ?thesis by (simp add: groups_by_product_def)
qed

section \<open>The menu and the prices of a cart\<close>

text \<open>What the migrations promise of the rows both queries read.\<close>

definition menu_ok :: "catalog_db \<Rightarrow> bool" where
  "menu_ok db \<longleftrightarrow> catalog_ok db \<and> distinct (map mod_id (cat_modifiers db)) \<and>
     (\<forall>mi \<in> set (cat_items db). \<forall>x. mit_price mi = Some x \<longrightarrow> int64_range x)"

lemma visible_item_Some:
  assumes "visible_item tx db today b p = Some v"
  shows "mca_item v \<in> set (cat_items db)" and "mca_override v \<in> set (product_overrides tx db b (prd_id p))"
proof -
  have "v \<in> set (sort_by candidate_before (menu_candidates tx db today b p))"
    using assms by (auto simp: visible_item_def split: list.splits simp del: set_sort_by)
  then show "mca_item v \<in> set (cat_items db)" "mca_override v \<in> set (product_overrides tx db b (prd_id p))"
    by (auto simp: menu_candidates_def split: if_splits)
qed

lemma set_option_case: "r \<in> set (case x of None \<Rightarrow> [] | Some v \<Rightarrow> f v) \<longleftrightarrow> (\<exists>v. x = Some v \<and> r \<in> set (f v))"
  by (cases x) auto

lemma in_concat_map: "r \<in> set (concat (map f xs)) \<longleftrightarrow> (\<exists>x \<in> set xs. r \<in> set (f x))"
  by auto

lemma in_singleton_if: "r \<in> set (if P then [x] else []) \<longleftrightarrow> P \<and> r = x"
  by (cases P) auto

lemmas in_query = in_concat_map set_option_case in_singleton_if in_rls_select set_map image_iff Bex_def

lemma PriceProducts_Some:
  assumes "PriceProducts tx db today b ids i = Some p"
  shows "\<exists>r v a. r \<in> set (cat_products db) \<and> prd_tenant r = tx_tenant tx \<and> prd_active r \<and> prd_id r = i \<and>
    visible_item tx db today b r = Some v \<and> a \<in> set (dine_in_rows tx db i) \<and> not_switched_off pca_available a \<and>
    ppr_id p = i \<and> ppr_name p = prd_name r \<and> ppr_currency p = prd_currency r \<and>
    ppr_price p = coalesce (first_some (Option.bind (mca_override v) bpo_price) (mit_price (mca_item v))) (prd_price r)"
proof -
  have ids: "ids \<noteq> []" using assms by (auto simp: PriceProducts_def)
  from assms [unfolded PriceProducts_def] ids have "p \<in> set (concat (map (\<lambda>p.
        case visible_item tx db today b p of
          None \<Rightarrow> []
        | Some c \<Rightarrow> concat (map (\<lambda>a.
            if not_switched_off pca_available a
            then [\<lparr>ppr_id = prd_id p, ppr_name = prd_name p,
                   ppr_price = coalesce (first_some (Option.bind (mca_override c) bpo_price)
                                          (mit_price (mca_item c))) (prd_price p),
                   ppr_cost = first_some (Option.bind (mca_override c) bpo_cost) (prd_cost p),
                   ppr_currency = prd_currency p, ppr_tax_bps = prd_tax_bps p\<rparr>]
            else []) (dine_in_rows tx db (prd_id p))))
        (rls_select prd_tenant tx (\<lambda>p. prd_active p \<and> prd_id p \<in> set ids) (cat_products db))))"
    and i: "ppr_id p = i"
    by (simp_all only: if_False) (drule rows_to_map_Some, erule conjE, assumption)+
  then obtain r v a where "r \<in> set (cat_products db)" "prd_tenant r = tx_tenant tx" "prd_active r"
    "visible_item tx db today b r = Some v" "a \<in> set (dine_in_rows tx db (prd_id r))" "not_switched_off pca_available a"
    and p: "p = \<lparr>ppr_id = prd_id r, ppr_name = prd_name r,
      ppr_price = coalesce (first_some (Option.bind (mca_override v) bpo_price) (mit_price (mca_item v))) (prd_price r),
      ppr_cost = first_some (Option.bind (mca_override v) bpo_cost) (prd_cost r),
      ppr_currency = prd_currency r, ppr_tax_bps = prd_tax_bps r\<rparr>"
    unfolding in_query by blast
  then show ?thesis using i by (intro exI [of _ r] exI [of _ v] exI [of _ a]) simp
qed

lemma PriceProducts_range:
  assumes "menu_ok db" and "PriceProducts tx db today b ids i = Some p"
  shows "int64_range (ppr_price p)"
proof -
  obtain r v where r: "r \<in> set (cat_products db)" and v: "visible_item tx db today b r = Some v"
    and p: "ppr_price p = coalesce (first_some (Option.bind (mca_override v) bpo_price) (mit_price (mca_item v))) (prd_price r)"
    using PriceProducts_Some [OF assms(2)] by blast
  have "int64_range x" if "Option.bind (mca_override v) bpo_price = Some x" for x
    using that visible_item_Some(2) [OF v] assms(1)
    by (auto simp: menu_ok_def catalog_ok_def product_overrides_def left_join_def bind_eq_Some_conv split: if_splits)
  moreover have "int64_range x" if "mit_price (mca_item v) = Some x" for x
    using that visible_item_Some(1) [OF v] assms(1) by (auto simp: menu_ok_def)
  moreover have "int64_range (prd_price r)" using r assms(1) by (auto simp: menu_ok_def catalog_ok_def)
  ultimately show ?thesis
    unfolding p by (auto simp: coalesce_def first_some_def split: option.splits)
qed

lemma ListMenuRowsE:
  assumes "r \<in> set (ListMenuRows tx db cols today b)"
  obtains p v g a where "p \<in> set (cat_products db)" "prd_tenant p = tx_tenant tx" "prd_active p"
    "visible_item tx db today b p = Some v" "g \<in> set (product_categories tx cols (prd_id p))"
    "a \<in> set (dine_in_rows tx db (prd_id p))" "r = menu_row_of cols p v g a"
  using assms unfolding ListMenuRows_def set_sort_by in_query by blast

lemma ListMenuRowsI:
  assumes "p \<in> set (cat_products db)" "prd_tenant p = tx_tenant tx" "prd_active p"
    "visible_item tx db today b p = Some v" "g \<in> set (product_categories tx cols (prd_id p))"
    "a \<in> set (dine_in_rows tx db (prd_id p))"
  shows "menu_row_of cols p v g a \<in> set (ListMenuRows tx db cols today b)"
  unfolding ListMenuRows_def set_sort_by in_query
  using assms by blast

lemma ListModifierRowsE:
  assumes "r \<in> set (ListModifierRows tx db cols shown)"
  obtains l g mo where "l \<in> set (cat_links db)" "pmg_product l \<in> set shown" "g \<in> set (cat_groups db)"
    "mo \<in> set (cat_modifiers db)" "r = modifier_row_of cols l g mo"
proof -
  have "shown \<noteq> []" using assms by (auto simp: ListModifierRows_def)
  then show ?thesis using assms that unfolding ListModifierRows_def
    by (simp only: if_False set_sort_by in_query) blast
qed

lemma ListModifierRowsI:
  assumes "l \<in> set (cat_links db)" "pmg_tenant l = tx_tenant tx" "pmg_product l \<in> set shown"
    "g \<in> set (cat_groups db)" "mgr_tenant g = tx_tenant tx" "mgr_id g = pmg_group l"
    "mo \<in> set (cat_modifiers db)" "mod_tenant mo = tx_tenant tx" "mod_group mo = mgr_id g" "mod_active mo"
  shows "modifier_row_of cols l g mo \<in> set (ListModifierRows tx db cols shown)"
proof -
  have "shown \<noteq> []" using assms(3) by auto
  then show ?thesis
    unfolding ListModifierRows_def
    by (simp only: if_False set_sort_by in_query) (use assms in blast)
qed

text \<open>What is priced is on the menu, at that price and available.\<close>

lemma priced_is_listed:
  assumes "PriceProducts tx db today b ids i = Some p"
  shows "\<exists>r \<in> set (ListMenuRows tx db cols today b). mrw_product r = i \<and> mrw_available r \<and>
    mrw_price r = ppr_price p \<and> mrw_name r = ppr_name p \<and> mrw_currency r = ppr_currency p"
proof -
  obtain r v a where r: "r \<in> set (cat_products db)" "prd_tenant r = tx_tenant tx" "prd_active r" "prd_id r = i"
    and v: "visible_item tx db today b r = Some v" and a: "a \<in> set (dine_in_rows tx db i)" "not_switched_off pca_available a"
    and p: "ppr_name p = prd_name r" "ppr_currency p = prd_currency r"
      "ppr_price p = coalesce (first_some (Option.bind (mca_override v) bpo_price) (mit_price (mca_item v))) (prd_price r)"
    using PriceProducts_Some [OF assms] by blast
  have "product_categories tx cols i \<noteq> []" by (simp add: product_categories_def left_join_def)
  then obtain g where "g \<in> set (product_categories tx cols i)" by (meson list.set_sel(1))
  with r v a have "menu_row_of cols r v g a \<in> set (ListMenuRows tx db cols today b)"
    by (intro ListMenuRowsI) simp_all
  then show ?thesis using r(4) a(2) p by (intro bexI) (simp_all add: menu_row_of_def)
qed

lemma rows_to_map_in:
  assumes "r \<in> set rows" and "key r = k"
  shows "rows_to_map key rows k \<noteq> None"
proof -
  have "k \<in> dom (rows_to_map key rows)"
    using assms by (auto simp: rows_to_map_def dom_map_of_conv_image_fst image_image)
  then show ?thesis by auto
qed

lemma listed_is_priced:
  assumes "r \<in> set (ListMenuRows tx db cols today b)" and "mrw_available r" and "mrw_product r \<in> set ids"
  shows "PriceProducts tx db today b ids (mrw_product r) \<noteq> None"
proof -
  from assms(1) obtain p v g a where p: "p \<in> set (cat_products db)" "prd_tenant p = tx_tenant tx" "prd_active p"
    "visible_item tx db today b p = Some v" "a \<in> set (dine_in_rows tx db (prd_id p))" and r: "r = menu_row_of cols p v g a"
    by (rule ListMenuRowsE)
  let ?row = "\<lparr>ppr_id = prd_id p, ppr_name = prd_name p,
      ppr_price = coalesce (first_some (Option.bind (mca_override v) bpo_price) (mit_price (mca_item v))) (prd_price p),
      ppr_cost = first_some (Option.bind (mca_override v) bpo_cost) (prd_cost p),
      ppr_currency = prd_currency p, ppr_tax_bps = prd_tax_bps p\<rparr>"
  have ids: "ids \<noteq> []" "not_switched_off pca_available a" "mrw_product r = prd_id p" "prd_id p \<in> set ids"
    using assms(2,3) r by (auto simp: menu_row_of_def)
  show ?thesis
    unfolding PriceProducts_def ids(3)
    by (simp only: ids(1) if_False)
      (rule rows_to_map_in [where r = ?row], simp_all only: in_query priced_product.simps, use p ids in blast)
qed

text \<open>The options a cart may name are the options shown.\<close>

lemma PriceModifiersE:
  assumes "m \<in> set (PriceModifiers tx db ids ms)"
  obtains mo g l where "mo \<in> set (cat_modifiers db)" "mod_tenant mo = tx_tenant tx" "mod_active mo"
    "g \<in> set (cat_groups db)" "mgr_tenant g = tx_tenant tx" "mgr_id g = mod_group mo"
    "l \<in> set (cat_links db)" "pmg_tenant l = tx_tenant tx" "pmg_group l = mgr_id g"
    "pmo_product m = pmg_product l" "pmo_modifier m = mod_id mo" "pmo_name m = mod_name mo" "pmo_delta m = mod_delta mo"
  using assms by (auto simp: PriceModifiers_def split: if_splits)

lemma modifier_listed:
  assumes "by_pair (PriceModifiers tx db ids ms) (pid, i) = Some m" and "pid \<in> set shown"
  shows "\<exists>r \<in> set (ListModifierRows tx db cols shown). mmr_product r = pid \<and> mmr_modifier r = i \<and>
    mmr_name r = pmo_name m \<and> mmr_delta r = pmo_delta m"
proof -
  from by_pair_Some [OF assms(1)] have m: "m \<in> set (PriceModifiers tx db ids ms)" "pmo_product m = pid" "pmo_modifier m = i"
    by auto
  from m(1) obtain mo g l where x: "mo \<in> set (cat_modifiers db)" "mod_tenant mo = tx_tenant tx" "mod_active mo"
    "g \<in> set (cat_groups db)" "mgr_tenant g = tx_tenant tx" "mgr_id g = mod_group mo"
    "l \<in> set (cat_links db)" "pmg_tenant l = tx_tenant tx" "pmg_group l = mgr_id g"
    "pmo_product m = pmg_product l" "pmo_modifier m = mod_id mo" "pmo_name m = mod_name mo" "pmo_delta m = mod_delta mo"
    by (rule PriceModifiersE)
  then have "modifier_row_of cols l g mo \<in> set (ListModifierRows tx db cols shown)"
    using assms(2) m by (intro ListModifierRowsI) simp_all
  then show ?thesis using x m by (intro bexI) (simp_all add: modifier_row_of_def)
qed

lemma modifier_row_delta:
  assumes "r \<in> set (ListModifierRows tx db cols shown)" "r' \<in> set (ListModifierRows tx db cols shown')"
    and "mmr_modifier r = mmr_modifier r'" and "distinct (map mod_id (cat_modifiers db))"
  shows "mmr_delta r = mmr_delta r'"
proof -
  obtain x where "x \<in> set (cat_modifiers db)" "mod_id x = mmr_modifier r" "mmr_delta r = mod_delta x"
    using assms(1) by (rule ListModifierRowsE) (simp add: modifier_row_of_def)
  moreover obtain y where "y \<in> set (cat_modifiers db)" "mod_id y = mmr_modifier r'" "mmr_delta r' = mod_delta y"
    using assms(2) by (rule ListModifierRowsE) (simp add: modifier_row_of_def)
  ultimately show ?thesis using assms(3,4) by (metis distinct_key_unique)
qed

definition shown_delta :: "storefront_product \<Rightarrow> uuid \<Rightarrow> int" where
  "shown_delta sp i = (case find_row (\<lambda>m. smo_id m = i) (shown_modifiers sp) of None \<Rightarrow> 0 | Some m \<Rightarrow> smo_delta m)"

lemma shown_modifiers_row:
  "shown_modifiers (row_product (groups_by_product ms) r) =
   map row_modifier (filter (\<lambda>m. mmr_product m = mrw_product r) ms)"
  by (simp add: shown_modifiers_def row_product_def modifiers_of_product)

lemma shown_delta_listed:
  assumes "distinct (map mod_id (cat_modifiers db))" and "m \<in> set (ListModifierRows tx db cols shown)"
    and "mmr_product m = mrw_product r"
  shows "shown_delta (row_product (groups_by_product (ListModifierRows tx db cols shown)) r) (mmr_modifier m) = mmr_delta m"
proof -
  let ?ms = "map row_modifier (filter (\<lambda>m. mmr_product m = mrw_product r) (ListModifierRows tx db cols shown))"
  have "\<exists>x \<in> set ?ms. smo_id x = mmr_modifier m" using assms(2,3) by (auto simp: row_modifier_def)
  then obtain x where x: "find_row (\<lambda>x. smo_id x = mmr_modifier m) ?ms = Some x"
    by (cases "find_row (\<lambda>x. smo_id x = mmr_modifier m) ?ms") (auto simp: find_row_None)
  from find_row_Some [OF this] obtain m' where "m' \<in> set (ListModifierRows tx db cols shown)"
    "mmr_modifier m' = mmr_modifier m" "x = row_modifier m'" by (auto simp: row_modifier_def)
  with modifier_row_delta [OF this(1) assms(2) this(2) assms(1)] x show ?thesis
    by (simp add: shown_delta_def shown_modifiers_row row_modifier_def)
qed

section \<open>Shown and charged\<close>

lemma shown_and_charged:
  assumes "menu_ok db" and "tn \<noteq> uuid_Nil" and "GetStorefrontMenu db cols c today tn b = Inr cats"
  shows "PriceCart db c today tn b ls = Inr out \<Longrightarrow> list_all2 (\<lambda>l pl. \<exists>sp \<in> set (shown_products cats).
      spr_id sp = scl_product l \<and> spr_available sp \<and> prl_name pl = spr_name sp \<and> prl_base pl = spr_price sp \<and>
      prl_unit pl = wrap64 (spr_price sp + (\<Sum>i \<leftarrow> scl_modifiers l. shown_delta sp i)) \<and>
      set (scl_modifiers l) \<subseteq> smo_id ` set (shown_modifiers sp)) ls out"
    and "sp \<in> set (shown_products cats) \<Longrightarrow> spr_available sp \<Longrightarrow> 1 \<le> n \<Longrightarrow>
      (\<forall>sp' \<in> set (shown_products cats). spr_id sp' = spr_id sp \<longrightarrow> 0 \<le> spr_price sp') \<Longrightarrow>
      \<exists>pl. PriceCart db c today tn b [\<lparr>scl_product = spr_id sp, scl_qty = n, scl_modifiers = []\<rparr>] = Inr [pl] \<and>
        prl_product pl = spr_id sp"
proof -
  let ?tx = "\<lparr>tx_tenant = tn, tx_now = ctx_now c\<rparr>"
  let ?rows = "ListMenuRows ?tx db cols today b"
  let ?mods = "ListModifierRows ?tx db cols (map mrw_product ?rows)"
  let ?show = "row_product (groups_by_product ?mods)"
  have shown: "shown_products cats = map ?show ?rows"
    using assms(2,3) by (auto simp: GetStorefrontMenu_def Let_def shown_groupMenu)
  have ok: "distinct (map mgr_id (cat_groups db))" "distinct (map mod_id (cat_modifiers db))"
    using assms(1) by (simp_all add: menu_ok_def catalog_ok_def)
  have lines: "PriceCart db c today tn b ls = Inr out \<longleftrightarrow>
      ls \<noteq> [] \<and> (\<forall>l \<in> set ls. 1 \<le> scl_qty l) \<and> tn \<noteq> uuid_Nil \<and>
      list_all2 (line_priced (PriceProducts ?tx db today b (map scl_product ls)) (cart_modifiers ?tx db ls)) ls out"
    for ls out
    unfolding PriceCart_def
    by (subst priceLines_Inr [OF ok(1)]) (auto simp: Let_def intro: PriceProducts_range [OF assms(1)])
  let ?priced = "\<lambda>ls. PriceProducts ?tx db today b (map scl_product ls)"
  let ?by = "cart_modifiers ?tx db"
  have line: "\<exists>sp \<in> set (shown_products cats). spr_id sp = scl_product l \<and> spr_available sp \<and>
      prl_name pl = spr_name sp \<and> prl_base pl = spr_price sp \<and>
      prl_unit pl = wrap64 (spr_price sp + (\<Sum>i \<leftarrow> scl_modifiers l. shown_delta sp i)) \<and>
      set (scl_modifiers l) \<subseteq> smo_id ` set (shown_modifiers sp)"
    if priced: "line_priced (?priced ls) (?by ls) l pl" for ls l pl
  proof -
    from priced obtain p where p: "?priced ls (scl_product l) = Some p"
      and sel: "selection_ok (?by ls) (scl_product l) (scl_modifiers l)" and pl: "pl = finished_line (?by ls) p l"
      by (auto simp: line_priced_def)
    from priced_is_listed [OF p, where cols = cols] obtain r where r: "r \<in> set ?rows" "mrw_product r = scl_product l"
      "mrw_available r" "mrw_price r = ppr_price p" "mrw_name r = ppr_name p" by blast
    have "\<exists>m. ?by ls (scl_product l, i) = Some m \<and> i \<in> smo_id ` set (shown_modifiers (?show r)) \<and>
        shown_delta (?show r) i = pmo_delta m"
      if "i \<in> set (scl_modifiers l)" for i
    proof -
      from sel that obtain m where m: "?by ls (scl_product l, i) = Some m"
        by (auto simp: selection_ok_def split: option.splits)
      from modifier_listed [OF m [unfolded cart_modifiers_def], of "map mrw_product ?rows" cols] r(1,2)
      obtain x where x: "x \<in> set ?mods" "mmr_product x = mrw_product r" "mmr_modifier x = i" "mmr_delta x = pmo_delta m"
        by force
      have "i \<in> smo_id ` set (shown_modifiers (?show r))"
        using x by (force simp: shown_modifiers_row row_modifier_def)
      with m shown_delta_listed [OF ok(2) x(1,2)] x(3,4) show ?thesis by auto
    qed
    then have mods: "line_delta (?by ls) (scl_product l) (scl_modifiers l) = (\<Sum>i \<leftarrow> scl_modifiers l. shown_delta (?show r) i)"
      "set (scl_modifiers l) \<subseteq> smo_id ` set (shown_modifiers (?show r))"
      unfolding line_delta_def by (force intro!: arg_cong [where f = sum_list] map_cong split: option.splits)+
    have "?show r \<in> set (shown_products cats)" using r(1) by (simp add: shown)
    with r mods pl show ?thesis
      by (intro bexI [of _ "?show r"]) (simp_all add: row_product_def finished_line_def start_line_def)
  qed
  show "list_all2 (\<lambda>l pl. \<exists>sp \<in> set (shown_products cats).
      spr_id sp = scl_product l \<and> spr_available sp \<and> prl_name pl = spr_name sp \<and> prl_base pl = spr_price sp \<and>
      prl_unit pl = wrap64 (spr_price sp + (\<Sum>i \<leftarrow> scl_modifiers l. shown_delta sp i)) \<and>
      set (scl_modifiers l) \<subseteq> smo_id ` set (shown_modifiers sp)) ls out"
    if "PriceCart db c today tn b ls = Inr out"
  proof -
    have "list_all2 (line_priced (?priced ls) (?by ls)) ls out"
      using that by (simp add: lines)
    then show ?thesis by (rule list_all2_mono) (rule line)
  qed
  show "\<exists>pl. PriceCart db c today tn b [\<lparr>scl_product = spr_id sp, scl_qty = n, scl_modifiers = []\<rparr>] = Inr [pl] \<and>
        prl_product pl = spr_id sp"
    if sp: "sp \<in> set (shown_products cats)" "spr_available sp" and n: "1 \<le> n"
      and price: "\<forall>sp' \<in> set (shown_products cats). spr_id sp' = spr_id sp \<longrightarrow> 0 \<le> spr_price sp'"
  proof -
    let ?l = "\<lparr>scl_product = spr_id sp, scl_qty = n, scl_modifiers = []\<rparr>"
    from sp obtain r where r: "r \<in> set ?rows" "sp = ?show r" "mrw_available r" "mrw_product r = spr_id sp"
      by (auto simp: shown row_product_def)
    from listed_is_priced [OF r(1,3), of "[spr_id sp]"] r(4) obtain p where
      p: "?priced [?l] (spr_id sp) = Some p" by auto
    from priced_is_listed [OF p, where cols = cols] obtain r' where
      "r' \<in> set ?rows" "mrw_product r' = spr_id sp" "mrw_price r' = ppr_price p" by blast
    then have "?show r' \<in> set (shown_products cats)" "spr_id (?show r') = spr_id sp" "spr_price (?show r') = ppr_price p"
      by (simp_all add: shown) (simp_all add: row_product_def)
    with price have "0 \<le> ppr_price p" by metis
    moreover have "int64_range (ppr_price p)" by (rule PriceProducts_range [OF assms(1) p])
    ultimately have "line_priced (?priced [?l]) (?by [?l]) ?l (finished_line (?by [?l]) p ?l)"
      using p by (auto simp: line_priced_def selection_ok_def finished_line_def line_delta_def)
    moreover have "prl_product (finished_line (?by [?l]) p ?l) = spr_id sp"
      using PriceProducts_Some [OF p] by (auto simp: finished_line_def start_line_def)
    ultimately show ?thesis
      using n assms(2) by (intro exI [of _ "finished_line (?by [?l]) p ?l"]) (simp add: lines)
  qed
qed

text \<open>C14: a diner pays what the menu shows. Every line of an accepted cart is a product that
  the menu of the same branch, read at the same time, shows as available; its base price is
  the price shown, its unit price that price with the differences shown for the chosen
  options, each of which is among the product's options. And what the menu shows as available
  at a price that is not negative can be ordered.\<close>

theorem charged_as_shown:
  assumes "menu_ok db" and "tn \<noteq> uuid_Nil" and "GetStorefrontMenu db cols c today tn b = Inr cats"
  shows "(\<forall>ls out. PriceCart db c today tn b ls = Inr out \<longrightarrow> list_all2 (\<lambda>l pl. \<exists>sp \<in> set (shown_products cats).
      spr_id sp = scl_product l \<and> spr_available sp \<and> prl_name pl = spr_name sp \<and> prl_base pl = spr_price sp \<and>
      prl_unit pl = wrap64 (spr_price sp + (\<Sum>i \<leftarrow> scl_modifiers l. shown_delta sp i)) \<and>
      set (scl_modifiers l) \<subseteq> smo_id ` set (shown_modifiers sp)) ls out) \<and>
    (\<forall>sp \<in> set (shown_products cats). spr_available sp \<and>
      (\<forall>sp' \<in> set (shown_products cats). spr_id sp' = spr_id sp \<longrightarrow> 0 \<le> spr_price sp') \<longrightarrow>
      (\<forall>n \<ge> 1. \<exists>pl. PriceCart db c today tn b [\<lparr>scl_product = spr_id sp, scl_qty = n, scl_modifiers = []\<rparr>] = Inr [pl] \<and>
        prl_product pl = spr_id sp))"
  using shown_and_charged [OF assms] by blast

text \<open>A menu with one dish, which the branch sells above the list price, and an option.\<close>

definition demo_menu_catalog :: catalog_db where
  "demo_menu_catalog =
     \<lparr>cat_products = [\<lparr>prd_id = 40, prd_tenant = 1, prd_name = ''Ayran'', prd_price = 500,
        prd_cost = Some 200, prd_currency = ''TRY'', prd_tax_bps = 1000, prd_active = True\<rparr>],
      cat_overrides = [\<lparr>bpo_tenant = 1, bpo_branch = 10, bpo_product = 40, bpo_available = True,
        bpo_price = Some 550, bpo_cost = None\<rparr>],
      cat_groups = [\<lparr>mgr_id = 50, mgr_tenant = 1, mgr_name = ''Boy'', mgr_selection = ''single'',
        mgr_max = None\<rparr>],
      cat_modifiers = [\<lparr>mod_id = 51, mod_tenant = 1, mod_group = 50, mod_name = ''Buyuk'',
        mod_delta = 200, mod_active = True\<rparr>],
      cat_links = [\<lparr>pmg_product = 40, pmg_group = 50, pmg_tenant = 1\<rparr>],
      cat_menus = [\<lparr>mnu_id = 60, mnu_tenant = 1, mnu_branch = Some 10, mnu_active = True, mnu_from = None,
        mnu_until = None, mnu_sort = 1\<rparr>],
      cat_items = [\<lparr>mit_menu = 60, mit_product = 40, mit_tenant = 1, mit_price = Some 600, mit_active = True\<rparr>],
      cat_channels = []\<rparr>"

definition demo_columns :: menu_columns where
  "demo_columns = \<lparr>mcl_categories = [],
     mcl_product = (\<lambda>_. \<lparr>pcl_description = None, pcl_image = None, pcl_category = None, pcl_sort = 0\<rparr>),
     mcl_group_min = (\<lambda>_. 0), mcl_group_sort = (\<lambda>_. 0), mcl_link_sort = (\<lambda>_ _. 0), mcl_modifier_sort = (\<lambda>_. 0)\<rparr>"

definition demo_menu_ctx :: ctx where
  "demo_menu_ctx = \<lparr>ctx_scope = None, ctx_now = 0\<rparr>"

theorem charged_as_shown_witness:
  "\<exists>cats sp pl. GetStorefrontMenu demo_menu_catalog demo_columns demo_menu_ctx 5 1 10 = Inr cats \<and>
     sp \<in> set (shown_products cats) \<and> spr_price sp = 550 \<and>
     PriceCart demo_menu_catalog demo_menu_ctx 5 1 10 [\<lparr>scl_product = 40, scl_qty = 2, scl_modifiers = [51]\<rparr>] = Inr [pl] \<and>
     prl_base pl = spr_price sp \<and> prl_unit pl = wrap64 (spr_price sp + shown_delta sp 51)"
proof -
  let ?l = "\<lparr>scl_product = 40, scl_qty = 2, scl_modifiers = [51]\<rparr>"
  have ok: "menu_ok demo_menu_catalog"
    by (auto simp: menu_ok_def catalog_ok_def demo_menu_catalog_def int64_range_def)
  have "(case PriceCart demo_menu_catalog demo_menu_ctx 5 1 10 [?l] of Inl _ \<Rightarrow> False
      | Inr out \<Rightarrow> map prl_base out = [550])" by code_simp
  then obtain out where out: "PriceCart demo_menu_catalog demo_menu_ctx 5 1 10 [?l] = Inr out" "map prl_base out = [550]"
    by (auto split: sum.splits)
  obtain cats where cats: "GetStorefrontMenu demo_menu_catalog demo_columns demo_menu_ctx 5 1 10 = Inr cats"
    by (simp add: GetStorefrontMenu_def uuid_Nil_def Let_def)
  have "(1 :: uuid) \<noteq> uuid_Nil" by (simp add: uuid_Nil_def)
  from charged_as_shown [OF ok this cats] out(1) have "list_all2 (\<lambda>l pl. \<exists>sp \<in> set (shown_products cats).
      spr_id sp = scl_product l \<and> spr_available sp \<and> prl_name pl = spr_name sp \<and> prl_base pl = spr_price sp \<and>
      prl_unit pl = wrap64 (spr_price sp + (\<Sum>i \<leftarrow> scl_modifiers l. shown_delta sp i)) \<and>
      set (scl_modifiers l) \<subseteq> smo_id ` set (shown_modifiers sp)) [?l] out" by blast
  then obtain pl sp where "out = [pl]" "sp \<in> set (shown_products cats)" "prl_base pl = spr_price sp"
    "prl_unit pl = wrap64 (spr_price sp + shown_delta sp 51)"
    by (auto simp: list_all2_Cons1)
  with out cats show ?thesis by auto
qed

end
