(* ===== verification/Sf_State.thy ===== *)
theory Sf_State
  imports Auth_Principal Catalog_Pricing
begin

text \<open>
  The data of the storefront, where a diner orders by scanning the code on the table:
  storefront/domain and storefront/public, with the tables of backend/migrations/storefront.
  The raw token of a code is printed once and never stored; the table holds its SHA-256.
\<close>

section \<open>Codes\<close>

datatype qr_status = QRCodeStatusActive | QRCodeStatusRevoked | QRCodeStatusOther string

fun QRCodeStatus_Valid :: "qr_status \<Rightarrow> bool" where
  "QRCodeStatus_Valid (QRCodeStatusOther _) = False"
| "QRCodeStatus_Valid _ = True"

datatype sf_err =
    SfQRNotFound
  | SfQRRevoked
  | SfGuestForbidden
  | SfBranchForbidden
  | SfOrderingDisabled
  | SfNotFound
  | SfInvalidTransition
  | SfEmptyCart
  | SfCart price_error        \<comment> \<open>a \<open>ValidationError\<close> of the catalog, passed on as the storefront's\<close>
  | SfPricing price_error     \<comment> \<open>any other error of the catalog\<close>
  | SfPricedLineCount
  | SfRepoNotFound
  | SfRepoInvalidTransition
  | SfRepoTableAlreadyHasCode
  | SfInvalidTokenHash
  | SfNilTenant
  | SfDb pg_error
  | SfPos pos_err             \<comment> \<open>an error of the point of sale\<close>

fun allowedQRCodeTransitions :: "qr_status \<Rightarrow> qr_status list" where
  "allowedQRCodeTransitions QRCodeStatusActive = [QRCodeStatusRevoked]"
| "allowedQRCodeTransitions _ = []"

definition TransitionQRCodeStatus :: "qr_status \<Rightarrow> qr_status \<Rightarrow> sf_err + unit" where
  "TransitionQRCodeStatus from to =
     (if \<not> QRCodeStatus_Valid to then Inl SfInvalidTransition
      else if to \<in> set (allowedQRCodeTransitions from) then Inr ()
      else Inl SfInvalidTransition)"

record qr_code =
  qrc_id :: uuid
  qrc_tenant :: uuid
  qrc_branch :: uuid
  qrc_table :: uuid
  qrc_label :: string
  qrc_hash :: string
  qrc_status :: qr_status
  qrc_created_by :: uuid
  qrc_revoked_at :: "time option"
  qrc_revoked_by :: "uuid option"
  qrc_created :: time
  qrc_updated :: time

definition QRCode_IsActive :: "qr_code \<Rightarrow> bool" where
  "QRCode_IsActive q \<longleftrightarrow> qrc_status q = QRCodeStatusActive"

section \<open>Carts, links and settings\<close>

record guest_cart_line =
  gcl_product :: uuid
  gcl_qty :: int
  gcl_modifiers :: "uuid list"
  gcl_note :: string

record guest_cart =
  gca_lines :: "guest_cart_line list"
  gca_note :: string

record guest_order_link =
  gol_order_id :: uuid
  gol_tenant_id :: uuid
  gol_qr_id :: uuid
  gol_session_id :: uuid
  gol_check_id :: uuid
  gol_created_at :: time   \<comment> \<open>the column; the struct does not carry it\<close>

record sf_settings =
  sfb_tenant :: uuid
  sfb_branch :: uuid
  sfb_ordering :: bool
  sfb_updated_by :: uuid
  sfb_created :: time
  sfb_updated :: time

definition SfDefaultBranchSettings :: "uuid \<Rightarrow> uuid \<Rightarrow> sf_settings" where
  "SfDefaultBranchSettings tn b =
     \<lparr>sfb_tenant = tn, sfb_branch = b, sfb_ordering = True, sfb_updated_by = uuid_Nil,
      sfb_created = 0, sfb_updated = 0\<rparr>"

section \<open>The state\<close>

text \<open>\<open>sfd_secret\<close> is the source of raw tokens, 32 random bytes in base64.\<close>

record sf_db =
  sfd_codes :: "qr_code list"
  sfd_links :: "guest_order_link list"
  sfd_settings :: "sf_settings list"
  sfd_rand :: "nat \<Rightarrow> uuid"
  sfd_ctr :: nat
  sfd_secret :: "nat \<Rightarrow> string"
  sfd_drawn :: nat

definition qr_row_ok :: "qr_code \<Rightarrow> bool" where
  "qr_row_ok r \<longleftrightarrow> QRCodeStatus_Valid (qrc_status r)"

text \<open>The unique indexes: token hashes, and tables of active codes.\<close>

definition qr_uniq :: "qr_code list \<Rightarrow> bool" where
  "qr_uniq rows \<longleftrightarrow>
     distinct (map qrc_hash rows) \<and>
     distinct (map qrc_table (filter QRCode_IsActive rows))"

definition qr_codes_table :: "(sf_db, qr_code) sql_table" where
  "qr_codes_table =
     \<lparr>tb_get = sfd_codes, tb_put = (\<lambda>rs s. s\<lparr>sfd_codes := rs\<rparr>), tb_tenant = qrc_tenant,
      tb_key = qrc_id, tb_row_ok = qr_row_ok, tb_uniq = qr_uniq, tb_refs = (\<lambda>_ _. True)\<rparr>"

definition guest_orders_table :: "(sf_db, guest_order_link) sql_table" where
  "guest_orders_table =
     \<lparr>tb_get = sfd_links, tb_put = (\<lambda>rs s. s\<lparr>sfd_links := rs\<rparr>), tb_tenant = gol_tenant_id,
      tb_key = gol_order_id, tb_row_ok = (\<lambda>_. True), tb_uniq = (\<lambda>_. True),
      tb_refs = (\<lambda>s r. gol_qr_id r \<in> qrc_id ` set (sfd_codes s))\<rparr>"

definition sf_settings_table :: "(sf_db, sf_settings) sql_table" where
  "sf_settings_table =
     \<lparr>tb_get = sfd_settings, tb_put = (\<lambda>rs s. s\<lparr>sfd_settings := rs\<rparr>), tb_tenant = sfb_tenant,
      tb_key = sfb_branch, tb_row_ok = (\<lambda>_. True), tb_uniq = (\<lambda>_. True), tb_refs = (\<lambda>_ _. True)\<rparr>"

lemma sf_table_simps [simp]:
  "tb_get qr_codes_table = sfd_codes" "tb_put qr_codes_table = (\<lambda>rs s. s\<lparr>sfd_codes := rs\<rparr>)"
  "tb_tenant qr_codes_table = qrc_tenant" "tb_key qr_codes_table = qrc_id"
  "tb_row_ok qr_codes_table = qr_row_ok" "tb_uniq qr_codes_table = qr_uniq"
  "tb_refs qr_codes_table = (\<lambda>_ _. True)"
  "tb_get guest_orders_table = sfd_links" "tb_put guest_orders_table = (\<lambda>rs s. s\<lparr>sfd_links := rs\<rparr>)"
  "tb_tenant guest_orders_table = gol_tenant_id" "tb_key guest_orders_table = gol_order_id"
  "tb_row_ok guest_orders_table = (\<lambda>_. True)" "tb_uniq guest_orders_table = (\<lambda>_. True)"
  "tb_refs guest_orders_table = (\<lambda>s r. gol_qr_id r \<in> qrc_id ` set (sfd_codes s))"
  "tb_get sf_settings_table = sfd_settings" "tb_put sf_settings_table = (\<lambda>rs s. s\<lparr>sfd_settings := rs\<rparr>)"
  "tb_tenant sf_settings_table = sfb_tenant" "tb_key sf_settings_table = sfb_branch"
  "tb_row_ok sf_settings_table = (\<lambda>_. True)" "tb_uniq sf_settings_table = (\<lambda>_. True)"
  "tb_refs sf_settings_table = (\<lambda>_ _. True)"
  by (simp_all add: qr_codes_table_def guest_orders_table_def sf_settings_table_def)

interpretation qr_codes: sql_table_laws qr_codes_table by unfold_locales simp_all
interpretation guest_orders: sql_table_laws guest_orders_table by unfold_locales simp_all
interpretation sf_settings: sql_table_laws sf_settings_table by unfold_locales simp_all

section \<open>Ids, tokens and transactions\<close>

definition sf_uuid :: "(sf_db, 'e, uuid) tx" where
  "sf_uuid s = Inr (sfd_rand s (sfd_ctr s), s\<lparr>sfd_ctr := Suc (sfd_ctr s)\<rparr>)"

abbreviation sf_sql :: "(sf_db, pg_error, 'a) tx \<Rightarrow> (sf_db, sf_err, 'a) tx" where
  "sf_sql \<equiv> tx_map_err SfDb"

definition SfTenantTx ::
  "ctx \<Rightarrow> uuid \<Rightarrow> (pgtx \<Rightarrow> (sf_db, sf_err, 'a) tx) \<Rightarrow> (sf_db, sf_err, 'a) tx" where
  "SfTenantTx c tenantID fn =
     (if tenantID = uuid_Nil then tx_throw SfNilTenant
      else fn \<lparr>tx_tenant = tenantID, tx_now = ctx_now c\<rparr>)"

definition SfTenantReadTx ::
  "ctx \<Rightarrow> uuid \<Rightarrow> (pgtx \<Rightarrow> (sf_db, sf_err, 'a) tx) \<Rightarrow> (sf_db, sf_err, 'a) tx" where
  "SfTenantReadTx c tenantID fn =
     (if tenantID = uuid_Nil then tx_throw SfNilTenant
      else fn \<lparr>tx_tenant = tenantID, tx_now = ctx_now c\<rparr>)"

definition isLowerHexSHA256 :: "string \<Rightarrow> bool" where
  "isLowerHexSHA256 h \<longleftrightarrow> length h = 64 \<and> list_all (\<lambda>x. x \<in> set ''0123456789abcdef'') h"

text \<open>\<open>WithQRTokenLookupTx\<close>: no tenant, one row visible, the one whose hash the caller holds.\<close>

definition WithQRTokenLookupTx ::
  "string \<Rightarrow> (qr_code list \<Rightarrow> sf_err + 'a) \<Rightarrow> (sf_db, sf_err, 'a) tx" where
  "WithQRTokenLookupTx tokenHash fn =
     (if \<not> isLowerHexSHA256 tokenHash then tx_throw SfInvalidTokenHash
      else tx_bind (tx_read (\<lambda>s. filter (\<lambda>r. qrc_hash r = tokenHash) (sfd_codes s))) (\<lambda>visible.
           tx_lift (fn visible)))"

lemma SfTenantTx_Inr [simp]:
  "SfTenantTx c tn fn s = Inr r \<longleftrightarrow> tn \<noteq> uuid_Nil \<and> fn \<lparr>tx_tenant = tn, tx_now = ctx_now c\<rparr> s = Inr r"
  by (simp add: SfTenantTx_def)

lemma SfTenantReadTx_Inr [simp]:
  "SfTenantReadTx c tn fn s = Inr r \<longleftrightarrow> tn \<noteq> uuid_Nil \<and> fn \<lparr>tx_tenant = tn, tx_now = ctx_now c\<rparr> s = Inr r"
  by (simp add: SfTenantReadTx_def)

lemma sf_uuid_Inr:
  "sf_uuid s = Inr (i, s') \<longleftrightarrow> i = sfd_rand s (sfd_ctr s) \<and> s' = s\<lparr>sfd_ctr := Suc (sfd_ctr s)\<rparr>"
  by (auto simp: sf_uuid_def)

text \<open>
  storefront/repo: the statements against the codes, the links from orders to guest
  sessions, and the settings of a branch.
\<close>

section \<open>Codes\<close>

definition QRCodeRepo_LookupByTokenHash :: "string \<Rightarrow> qr_code list \<Rightarrow> sf_err + qr_code" where
  "QRCodeRepo_LookupByTokenHash tokenHash visible =
     (case find_row (\<lambda>r. qrc_hash r = tokenHash) visible of None \<Rightarrow> Inl SfRepoNotFound | Some r \<Rightarrow> Inr r)"

definition sf_unique_err :: "sf_err \<Rightarrow> sf_err \<Rightarrow> sf_err" where
  "sf_unique_err e' e = (if e = SfDb UniqueViolation then e' else e)"

definition QRCodeRepo_Create :: "pgtx \<Rightarrow> qr_code \<Rightarrow> (sf_db, sf_err, qr_code) tx" where
  "QRCodeRepo_Create tx q =
     tx_bind sf_uuid (\<lambda>i.
     tx_map_err (sf_unique_err SfRepoTableAlreadyHasCode)
       (sf_sql (sql_insert qr_codes_table tx
         (q\<lparr>qrc_id := i,
            qrc_status := (if qrc_status q = QRCodeStatusOther '''' then QRCodeStatusActive else qrc_status q),
            qrc_revoked_at := None, qrc_revoked_by := None,
            qrc_created := tx_now tx, qrc_updated := tx_now tx\<rparr>))))"

definition QRCodeRepo_GetByID :: "pgtx \<Rightarrow> uuid \<Rightarrow> (sf_db, sf_err, qr_code) tx" where
  "QRCodeRepo_GetByID tx i =
     tx_bind (sql_find qr_codes_table tx (\<lambda>r. qrc_id r = i)) (found_row SfRepoNotFound)"

definition QRCodeRepo_GetForUpdate :: "pgtx \<Rightarrow> uuid \<Rightarrow> (sf_db, sf_err, qr_code) tx" where
  "QRCodeRepo_GetForUpdate tx i =
     tx_bind (sql_find qr_codes_table tx (\<lambda>r. qrc_id r = i)) (found_row SfRepoNotFound)"

definition qr_listed_before :: "qr_code \<Rightarrow> qr_code \<Rightarrow> bool" where
  "qr_listed_before a b \<longleftrightarrow>
     (if QRCode_IsActive a \<noteq> QRCode_IsActive b then QRCode_IsActive a else qrc_created b < qrc_created a)"

definition QRCodeRepo_ListByBranch :: "pgtx \<Rightarrow> uuid \<Rightarrow> (sf_db, sf_err, qr_code list) tx" where
  "QRCodeRepo_ListByBranch tx b =
     tx_bind (sql_select qr_codes_table tx (\<lambda>r. qrc_branch r = b)) (\<lambda>rs.
     tx_return (sort_by qr_listed_before rs))"

definition QRCodeRepo_Revoke :: "pgtx \<Rightarrow> uuid \<Rightarrow> uuid \<Rightarrow> (sf_db, sf_err, qr_code) tx" where
  "QRCodeRepo_Revoke tx i revokedBy =
     tx_bind (sf_sql (sql_update qr_codes_table tx (\<lambda>r. qrc_id r = i \<and> qrc_status r = QRCodeStatusActive)
       (\<lambda>r. r\<lparr>qrc_status := QRCodeStatusRevoked, qrc_revoked_at := Some (tx_now tx),
              qrc_revoked_by := Some revokedBy, qrc_updated := tx_now tx\<rparr>)))
     (query_row SfRepoInvalidTransition)"

section \<open>Links and settings\<close>

definition GuestOrderRepo_Link :: "pgtx \<Rightarrow> guest_order_link \<Rightarrow> (sf_db, sf_err, unit) tx" where
  "GuestOrderRepo_Link tx l =
     tx_bind (sf_sql (sql_insert guest_orders_table tx (l\<lparr>gol_created_at := tx_now tx\<rparr>))) (\<lambda>_. tx_return ())"

definition GuestOrderRepo_ListBySession :: "pgtx \<Rightarrow> uuid \<Rightarrow> (sf_db, sf_err, guest_order_link list) tx" where
  "GuestOrderRepo_ListBySession tx sessionID =
     tx_bind (sql_select guest_orders_table tx (\<lambda>l. gol_session_id l = sessionID)) (\<lambda>ls.
     tx_return (sort_by (\<lambda>a b. gol_created_at b < gol_created_at a) ls))"

definition GuestOrderRepo_GetForSession :: "pgtx \<Rightarrow> uuid \<Rightarrow> uuid \<Rightarrow> (sf_db, sf_err, guest_order_link) tx" where
  "GuestOrderRepo_GetForSession tx sessionID orderID =
     tx_bind (sql_find guest_orders_table tx (\<lambda>l. gol_order_id l = orderID \<and> gol_session_id l = sessionID))
       (found_row SfRepoNotFound)"

definition SfBranchSettingsRepo_GetByBranch :: "pgtx \<Rightarrow> uuid \<Rightarrow> (sf_db, sf_err, sf_settings) tx" where
  "SfBranchSettingsRepo_GetByBranch tx b =
     tx_bind (sql_find sf_settings_table tx (\<lambda>r. sfb_branch r = b)) (found_row SfRepoNotFound)"

text \<open>The conflict is found in the index, which knows no tenants; the update is checked
  against the policy.\<close>

definition SfBranchSettingsRepo_Upsert :: "pgtx \<Rightarrow> sf_settings \<Rightarrow> (sf_db, sf_err, sf_settings) tx" where
  "SfBranchSettingsRepo_Upsert tx p =
     tx_bind (tx_read (\<lambda>s. find_row (\<lambda>r. sfb_branch r = sfb_branch p) (sfd_settings s))) (\<lambda>conflict.
     case conflict of
       None \<Rightarrow> sf_sql (sql_insert sf_settings_table tx (p\<lparr>sfb_created := tx_now tx, sfb_updated := tx_now tx\<rparr>))
     | Some r \<Rightarrow>
         tx_bind (tx_require (sfb_tenant r = tx_tenant tx \<and> sfb_tenant p = tx_tenant tx) (SfDb RlsViolation)) (\<lambda>_.
         tx_bind (sf_sql (sql_update sf_settings_table tx (\<lambda>r. sfb_branch r = sfb_branch p)
           (\<lambda>r. r\<lparr>sfb_ordering := sfb_ordering p, sfb_updated_by := sfb_updated_by p, sfb_updated := tx_now tx\<rparr>)))
         (query_row (SfDb RlsViolation))))"

end
