(* ===== verification/Sf_Service.thy ===== *)
theory Sf_Service
  imports Sf_State Catalog_Menu Pos_Order_Service
begin

text \<open>
  storefront/service: the lifecycle of a table's code (qr_service.go), the exchange of a
  scanned token for a session (session_service.go), the settings of a branch
  (branch_settings_service.go), the menu (menu_service.go) and ordering (order_service.go).
  SHA-256 is a parameter. The services read the point of sale and the catalog through their
  public interfaces, which here are the models of those modules.
\<close>

section \<open>Authorization and errors\<close>

definition sf_requireBranch :: "ctx \<Rightarrow> principal \<Rightarrow> uuid \<Rightarrow> sf_err + unit" where
  "sf_requireBranch c p branchID =
     (if ScopeFromContext c = Some ''tenant'' then Inr ()
      else if IsStaff p \<and> prn_branch p \<noteq> uuid_Nil \<and> prn_branch p = branchID then Inr ()
      else Inl SfBranchForbidden)"

definition mapQRErr :: "sf_err \<Rightarrow> sf_err" where
  "mapQRErr e =
     (if e = SfBranchForbidden then e
      else if e = SfRepoNotFound then SfNotFound
      else if e = SfRepoInvalidTransition \<or> e = SfRepoTableAlreadyHasCode \<or> e = SfInvalidTransition
      then SfInvalidTransition
      else e)"

section \<open>Codes\<close>

record issue_request =
  isr_branch :: uuid
  isr_table :: uuid
  isr_label :: string
  isr_created_by :: uuid

record issued_code =
  isc_code :: qr_code
  isc_raw :: string

definition newQRToken :: "(string \<Rightarrow> string) \<Rightarrow> (sf_db, 'e, string \<times> string) tx" where
  "newQRToken sha s =
     (let raw = sfd_secret s (sfd_drawn s) in Inr ((raw, sha raw), s\<lparr>sfd_drawn := Suc (sfd_drawn s)\<rparr>))"

definition new_code :: "uuid \<Rightarrow> uuid \<Rightarrow> uuid \<Rightarrow> string \<Rightarrow> string \<Rightarrow> uuid \<Rightarrow> qr_code" where
  "new_code tn b table label tokenHash createdBy =
     \<lparr>qrc_id = uuid_Nil, qrc_tenant = tn, qrc_branch = b, qrc_table = table, qrc_label = label,
      qrc_hash = tokenHash, qrc_status = QRCodeStatusActive, qrc_created_by = createdBy,
      qrc_revoked_at = None, qrc_revoked_by = None, qrc_created = 0, qrc_updated = 0\<rparr>"

definition QRService_Issue ::
  "(string \<Rightarrow> string) \<Rightarrow> ctx \<Rightarrow> uuid \<Rightarrow> principal \<Rightarrow> issue_request \<Rightarrow> (sf_db, sf_err, issued_code) tx" where
  "QRService_Issue sha c tn p req =
     tx_bind (tx_lift (sf_requireBranch c p (isr_branch req))) (\<lambda>_.
     tx_bind (newQRToken sha) (\<lambda>(raw, tokenHash).
     tx_bind (tx_map_err mapQRErr (SfTenantTx c tn (\<lambda>tx.
       QRCodeRepo_Create tx (new_code tn (isr_branch req) (isr_table req) (isr_label req) tokenHash (isr_created_by req))))) (\<lambda>created.
     tx_return \<lparr>isc_code = created, isc_raw = raw\<rparr>)))"

definition QRService_List :: "ctx \<Rightarrow> uuid \<Rightarrow> principal \<Rightarrow> uuid \<Rightarrow> (sf_db, sf_err, qr_code list) tx" where
  "QRService_List c tn p b =
     tx_bind (tx_lift (sf_requireBranch c p b)) (\<lambda>_.
     tx_map_err mapQRErr (SfTenantReadTx c tn (\<lambda>tx. QRCodeRepo_ListByBranch tx b)))"

definition QRService_GetByID :: "ctx \<Rightarrow> uuid \<Rightarrow> principal \<Rightarrow> uuid \<Rightarrow> (sf_db, sf_err, qr_code) tx" where
  "QRService_GetByID c tn p i =
     tx_bind (tx_map_err mapQRErr (SfTenantReadTx c tn (\<lambda>tx. QRCodeRepo_GetByID tx i))) (\<lambda>code.
     tx_bind (tx_lift (sf_requireBranch c p (qrc_branch code))) (\<lambda>_.
     tx_return code))"

definition revokeTx :: "ctx \<Rightarrow> principal \<Rightarrow> uuid \<Rightarrow> uuid \<Rightarrow> pgtx \<Rightarrow> (sf_db, sf_err, qr_code) tx" where
  "revokeTx c p i revokedBy tx =
     tx_bind (QRCodeRepo_GetForUpdate tx i) (\<lambda>current.
     tx_bind (tx_lift (sf_requireBranch c p (qrc_branch current))) (\<lambda>_.
     tx_bind (tx_lift (TransitionQRCodeStatus (qrc_status current) QRCodeStatusRevoked)) (\<lambda>_.
     QRCodeRepo_Revoke tx i revokedBy)))"

definition QRService_Revoke :: "ctx \<Rightarrow> uuid \<Rightarrow> principal \<Rightarrow> uuid \<Rightarrow> uuid \<Rightarrow> (sf_db, sf_err, qr_code) tx" where
  "QRService_Revoke c tn p i revokedBy =
     tx_map_err mapQRErr (SfTenantTx c tn (revokeTx c p i revokedBy))"

definition rotateTx ::
  "ctx \<Rightarrow> uuid \<Rightarrow> principal \<Rightarrow> uuid \<Rightarrow> uuid \<Rightarrow> string \<Rightarrow> pgtx \<Rightarrow> (sf_db, sf_err, qr_code) tx" where
  "rotateTx c tn p i actorID tokenHash tx =
     tx_bind (QRCodeRepo_GetForUpdate tx i) (\<lambda>current.
     tx_bind (tx_lift (sf_requireBranch c p (qrc_branch current))) (\<lambda>_.
     tx_bind (tx_lift (TransitionQRCodeStatus (qrc_status current) QRCodeStatusRevoked)) (\<lambda>_.
     tx_bind (QRCodeRepo_Revoke tx i actorID) (\<lambda>_.
     QRCodeRepo_Create tx (new_code tn (qrc_branch current) (qrc_table current) (qrc_label current) tokenHash actorID)))))"

definition QRService_Rotate ::
  "(string \<Rightarrow> string) \<Rightarrow> ctx \<Rightarrow> uuid \<Rightarrow> principal \<Rightarrow> uuid \<Rightarrow> uuid \<Rightarrow> (sf_db, sf_err, issued_code) tx" where
  "QRService_Rotate sha c tn p i actorID =
     tx_bind (newQRToken sha) (\<lambda>(raw, tokenHash).
     tx_bind (tx_map_err mapQRErr (SfTenantTx c tn (rotateTx c tn p i actorID tokenHash))) (\<lambda>created.
     tx_return \<lparr>isc_code = created, isc_raw = raw\<rparr>))"

section \<open>Settings of a branch\<close>

definition SfBranchSettings_Get :: "ctx \<Rightarrow> uuid \<Rightarrow> principal \<Rightarrow> uuid \<Rightarrow> (sf_db, sf_err, sf_settings) tx" where
  "SfBranchSettings_Get c tn p b =
     tx_bind (tx_lift (sf_requireBranch c p b)) (\<lambda>_ s.
     case SfTenantReadTx c tn (\<lambda>tx. SfBranchSettingsRepo_GetByBranch tx b) s of
       Inr r \<Rightarrow> Inr r
     | Inl e \<Rightarrow> (if e = SfRepoNotFound then Inr (SfDefaultBranchSettings tn b, s) else Inl e))"

definition SfBranchSettings_Set ::
  "ctx \<Rightarrow> uuid \<Rightarrow> principal \<Rightarrow> uuid \<Rightarrow> bool \<Rightarrow> uuid \<Rightarrow> (sf_db, sf_err, sf_settings) tx" where
  "SfBranchSettings_Set c tn p b enabled updatedBy =
     tx_bind (tx_lift (sf_requireBranch c p b)) (\<lambda>_.
     SfTenantTx c tn (\<lambda>tx. SfBranchSettingsRepo_Upsert tx
       \<lparr>sfb_tenant = tn, sfb_branch = b, sfb_ordering = enabled, sfb_updated_by = updatedBy,
        sfb_created = 0, sfb_updated = 0\<rparr>))"

definition OrderingEnabled :: "ctx \<Rightarrow> uuid \<Rightarrow> uuid \<Rightarrow> (sf_db, sf_err, bool) tx" where
  "OrderingEnabled c tn b s =
     (case SfTenantReadTx c tn (\<lambda>tx. SfBranchSettingsRepo_GetByBranch tx b) s of
        Inr (r, s') \<Rightarrow> Inr (sfb_ordering r, s')
      | Inl e \<Rightarrow> (if e = SfRepoNotFound then Inr (sfb_ordering (SfDefaultBranchSettings tn b), s) else Inl e))"

section \<open>Sessions\<close>

record resolved_session =
  rss_token :: guest_token
  rss_tenant :: uuid
  rss_branch :: uuid
  rss_table :: uuid
  rss_qr :: uuid
  rss_session :: uuid
  rss_label :: string

text \<open>The lookup of the code and the read of the table are transactions of their own; the
  session id comes from \<open>uuid.New\<close>.\<close>

definition SessionService_ResolveToken ::
  "(string \<Rightarrow> string) \<Rightarrow> nat \<Rightarrow> ctx \<Rightarrow> string \<Rightarrow> pos_db \<Rightarrow> (sf_db, sf_err, resolved_session) tx" where
  "SessionService_ResolveToken sha secret c raw pos =
     (if raw = '''' then tx_throw SfQRNotFound
      else tx_bind (tx_map_err (\<lambda>e. if e = SfRepoNotFound \<or> e = SfInvalidTokenHash then SfQRNotFound else e)
             (WithQRTokenLookupTx (sha raw) (QRCodeRepo_LookupByTokenHash (sha raw)))) (\<lambda>code.
           if \<not> QRCode_IsActive code then tx_throw SfQRRevoked
           else case OrderService_GetGuestTable c (qrc_tenant code) (qrc_table code) pos of
             Inl e \<Rightarrow> tx_throw (if e = PubTableNotFound then SfQRNotFound else SfPos e)
           | Inr (table, _) \<Rightarrow>
               if gtb_branch table \<noteq> qrc_branch code \<or> \<not> gtb_active table then tx_throw SfQRNotFound
               else tx_bind sf_uuid (\<lambda>sessionID.
                 tx_return
                   \<lparr>rss_token = IssueGuest secret (ctx_now c) (qrc_tenant code) (qrc_branch code) (qrc_table code)
                      (qrc_id code) sessionID,
                    rss_tenant = qrc_tenant code, rss_branch = qrc_branch code, rss_table = qrc_table code,
                    rss_qr = qrc_id code, rss_session = sessionID,
                    rss_label = (if gtb_label table = '''' then qrc_label code else gtb_label table)\<rparr>)))"

section \<open>The menu\<close>

text \<open>What a diner is sent: the catalog's read model field by field (domain/menu.go). A list
  of allergens is never nil here, so the default of \<open>toGuestProducts\<close> has no case.\<close>

record guest_modifier =
  gmo_id :: uuid
  gmo_name :: string
  gmo_delta :: int

record guest_modifier_group =
  gmg_id :: uuid
  gmg_name :: string
  gmg_selection :: string
  gmg_min :: int
  gmg_max :: int
  gmg_modifiers :: "guest_modifier list"

record guest_product =
  gpr_id :: uuid
  gpr_name :: string
  gpr_description :: string
  gpr_price :: int
  gpr_currency :: string
  gpr_image :: string
  gpr_allergens :: "string list"
  gpr_available :: bool
  gpr_groups :: "guest_modifier_group list"

record guest_category =
  gct_id :: uuid
  gct_name :: string
  gct_sort :: int
  gct_products :: "guest_product list"

definition toGuestModifierGroups :: "storefront_group list \<Rightarrow> guest_modifier_group list" where
  "toGuestModifierGroups groups = map (\<lambda>g.
     \<lparr>gmg_id = sgr_id g, gmg_name = sgr_name g, gmg_selection = sgr_selection g, gmg_min = sgr_min g,
      gmg_max = sgr_max g,
      gmg_modifiers = map (\<lambda>m. \<lparr>gmo_id = smo_id m, gmo_name = smo_name m, gmo_delta = smo_delta m\<rparr>)
        (sgr_modifiers g)\<rparr>) groups"

definition toGuestProducts :: "storefront_product list \<Rightarrow> guest_product list" where
  "toGuestProducts products = map (\<lambda>p.
     \<lparr>gpr_id = spr_id p, gpr_name = spr_name p, gpr_description = spr_description p, gpr_price = spr_price p,
      gpr_currency = spr_currency p, gpr_image = spr_image p, gpr_allergens = spr_allergens p,
      gpr_available = spr_available p, gpr_groups = toGuestModifierGroups (spr_groups p)\<rparr>) products"

definition MenuService_GetMenu ::
  "catalog_db \<Rightarrow> menu_columns \<Rightarrow> ctx \<Rightarrow> int \<Rightarrow> guest_session \<Rightarrow> sf_err + guest_category list" where
  "MenuService_GetMenu db cols c today g =
     (case GetStorefrontMenu db cols c today (gst_tenant g) (gst_branch g) of
        Inl e \<Rightarrow> Inl (SfPricing e)
      | Inr categories \<Rightarrow> Inr (map (\<lambda>k.
          \<lparr>gct_id = sct_id k, gct_name = sct_name k, gct_sort = sct_sort k,
           gct_products = toGuestProducts (sct_products k)\<rparr>) categories))"

section \<open>Ordering\<close>

record placed_order =
  plo_order :: uuid
  plo_check :: uuid
  plo_status :: string
  plo_total :: int

definition join_comma :: "string list \<Rightarrow> string" where
  "join_comma names = (case names of [] \<Rightarrow> '''' | n # rest \<Rightarrow> n @ concat (map (\<lambda>m. '', '' @ m) rest))"

definition lineNote :: "priced_line \<Rightarrow> string \<Rightarrow> string" where
  "lineNote p guestNote =
     (if prl_modifiers p = [] then guestNote
      else let rendered = join_comma (map pmd_name (prl_modifiers p))
           in if guestNote = '''' then rendered else rendered @ '' | '' @ guestNote)"

definition pricedModifierIDs :: "priced_modifier list \<Rightarrow> uuid list" where
  "pricedModifierIDs ms = map pmd_id ms"

definition guest_line :: "priced_line \<Rightarrow> guest_cart_line \<Rightarrow> guest_order_line" where
  "guest_line p l =
     \<lparr>gol_product = prl_product p, gol_name = prl_name p, gol_base = prl_base p, gol_unit = prl_unit p,
      gol_cost = prl_cost p, gol_currency = prl_currency p, gol_tax_bps = prl_tax_bps p, gol_qty = prl_qty p,
      gol_note = lineNote p (gcl_note l), gol_modifiers = pricedModifierIDs (prl_modifiers p)\<rparr>"

definition cart_total :: "priced_line list \<Rightarrow> int" where
  "cart_total priced = fold (\<lambda>p total. wrap64 (total + wrap64 (prl_unit p * prl_qty p))) priced 0"

definition guest_request :: "guest_session \<Rightarrow> guest_cart \<Rightarrow> priced_line list \<Rightarrow> guest_order_request" where
  "guest_request g cart priced =
     \<lparr>gor_tenant = gst_tenant g, gor_branch = gst_branch g, gor_table = gst_table g, gor_qr = gst_qr g,
      gor_session = gst_session g, gor_lines = map2 guest_line priced (gca_lines cart), gor_note = gca_note cart\<rparr>"

definition order_link :: "guest_session \<Rightarrow> guest_order_result \<Rightarrow> guest_order_link" where
  "order_link g placed =
     \<lparr>gol_order_id = gre_order placed, gol_tenant_id = gst_tenant g, gol_qr_id = gst_qr g,
      gol_session_id = gst_session g, gol_check_id = gre_check placed, gol_created_at = 0\<rparr>"

text \<open>The linker runs in the placement's transaction, on the storefront's table as it is then;
  its row is committed with the order. \<open>link_verdict\<close> is what it answers.\<close>

definition link_verdict :: "sf_db \<Rightarrow> guest_session \<Rightarrow> pgtx \<Rightarrow> guest_order_result \<Rightarrow> pos_err + unit" where
  "link_verdict sf g tx placed =
     (case GuestOrderRepo_Link tx (order_link g placed) sf of
        Inl e \<Rightarrow> Inl (ErrOther ''storefront/repo/guest_order: link'')
      | Inr _ \<Rightarrow> Inr ())"

definition place_linked ::
  "(pos_db \<Rightarrow> pos_db) \<Rightarrow> (pos_db \<Rightarrow> pos_db) \<Rightarrow> ctx \<Rightarrow> guest_session \<Rightarrow> guest_order_request \<Rightarrow>
   (sf_db \<times> pos_db, sf_err, guest_order_result) tx" where
  "place_linked others others' c g req s =
     (case s of (sf, pos) \<Rightarrow>
        case OrderService_PlaceGuest others others' c req (Some (link_verdict sf g)) pos of
          Inl e \<Rightarrow> Inl (SfPos e)
        | Inr (placed, pos') \<Rightarrow>
            (case GuestOrderRepo_Link \<lparr>tx_tenant = gst_tenant g, tx_now = ctx_now c\<rparr> (order_link g placed) sf of
               Inl e \<Rightarrow> Inl e
             | Inr (_, sf') \<Rightarrow> Inr (placed, (sf', pos'))))"

definition SfOrderService_Place ::
  "(pos_db \<Rightarrow> pos_db) \<Rightarrow> (pos_db \<Rightarrow> pos_db) \<Rightarrow> catalog_db \<Rightarrow> int \<Rightarrow> ctx \<Rightarrow> guest_session \<Rightarrow> guest_cart \<Rightarrow>
   (sf_db \<times> pos_db, sf_err, placed_order) tx" where
  "SfOrderService_Place others others' db today c g cart s =
     (if gca_lines cart = [] then Inl SfEmptyCart
      else case OrderingEnabled c (gst_tenant g) (gst_branch g) (fst s) of
        Inl e \<Rightarrow> Inl e
      | Inr (enabled, _) \<Rightarrow>
          if \<not> enabled then Inl SfOrderingDisabled
          else case PriceCart db c today (gst_tenant g) (gst_branch g)
                 (map (\<lambda>l. \<lparr>scl_product = gcl_product l, scl_qty = gcl_qty l, scl_modifiers = gcl_modifiers l\<rparr>)
                   (gca_lines cart)) of
            Inl e \<Rightarrow> Inl (if is_ValidationError e then SfCart e else SfPricing e)
          | Inr priced \<Rightarrow>
              if length priced \<noteq> length (gca_lines cart) then Inl SfPricedLineCount
              else tx_bind (place_linked others others' c g (guest_request g cart priced)) (\<lambda>placed.
                   tx_return \<lparr>plo_order = gre_order placed, plo_check = gre_check placed,
                     plo_status = gre_status placed, plo_total = cart_total priced\<rparr>) s)"

section \<open>The diner's orders\<close>

record guest_status_item =
  gsi_name :: string
  gsi_qty :: int
  gsi_unit :: int
  gsi_note :: string

record guest_order_status =
  gos_order :: uuid
  gos_status :: string
  gos_note :: string
  gos_items :: "guest_status_item list"
  gos_total :: int
  gos_created :: time
  gos_updated :: time

definition toGuestOrderStatus :: "guest_order_view \<Rightarrow> guest_order_status" where
  "toGuestOrderStatus v =
     \<lparr>gos_order = gov_id v, gos_status = gov_status v, gos_note = gov_note v,
      gos_items = map (\<lambda>it. \<lparr>gsi_name = giv_name it, gsi_qty = giv_qty it, gsi_unit = giv_unit it,
        gsi_note = giv_note it\<rparr>) (gov_items v),
      gos_total = fold (\<lambda>it total. wrap64 (total + wrap64 (giv_unit it * giv_qty it))) (gov_items v) 0,
      gos_created = gov_created v, gos_updated = gov_updated v\<rparr>"

text \<open>The loop of \<open>ListMine\<close>: an order that is gone is skipped.\<close>

fun list_mine_loop ::
  "ctx \<Rightarrow> uuid \<Rightarrow> pos_db \<Rightarrow> guest_order_link list \<Rightarrow> sf_err + guest_order_status list" where
  "list_mine_loop c tn pos [] = Inr []"
| "list_mine_loop c tn pos (l # ls) =
     (case OrderService_GetGuestOrder c tn (gol_order_id l) pos of
        Inl e \<Rightarrow> (if e = PubNotFound then list_mine_loop c tn pos ls else Inl (SfPos e))
      | Inr (v, _) \<Rightarrow>
          (case list_mine_loop c tn pos ls of
             Inl e \<Rightarrow> Inl e | Inr out \<Rightarrow> Inr (toGuestOrderStatus v # out)))"

definition SfOrderService_ListMine ::
  "ctx \<Rightarrow> guest_session \<Rightarrow> (sf_db \<times> pos_db, sf_err, guest_order_status list) tx" where
  "SfOrderService_ListMine c g s =
     (case s of (sf, pos) \<Rightarrow>
        case SfTenantReadTx c (gst_tenant g) (\<lambda>tx. GuestOrderRepo_ListBySession tx (gst_session g)) sf of
          Inl e \<Rightarrow> Inl e
        | Inr (links, _) \<Rightarrow>
            (case list_mine_loop c (gst_tenant g) pos links of Inl e \<Rightarrow> Inl e | Inr out \<Rightarrow> Inr (out, s)))"

definition SfOrderService_GetMine ::
  "ctx \<Rightarrow> guest_session \<Rightarrow> uuid \<Rightarrow> (sf_db \<times> pos_db, sf_err, guest_order_status) tx" where
  "SfOrderService_GetMine c g orderID s =
     (case s of (sf, pos) \<Rightarrow>
        case SfTenantReadTx c (gst_tenant g) (\<lambda>tx. GuestOrderRepo_GetForSession tx (gst_session g) orderID) sf of
          Inl e \<Rightarrow> Inl (if e = SfRepoNotFound then SfGuestForbidden else e)
        | Inr (link, _) \<Rightarrow>
            (case OrderService_GetGuestOrder c (gst_tenant g) (gol_order_id link) pos of
               Inl e \<Rightarrow> Inl (if e = PubNotFound then SfGuestForbidden else SfPos e)
             | Inr (v, _) \<Rightarrow> Inr (toGuestOrderStatus v, s)))"

end
