(* ===== verification/Sf_Props.thy ===== *)
theory Sf_Props
  imports Sf_Service Pos_Guest_Props
begin

text \<open>
  What the storefront guarantees: a scanned code leads to its own table and to no other, a
  diner reads back the order and the amount that was placed and nobody else's, and a code
  that was revoked never opens a session again.
\<close>

section \<open>Placing an order\<close>

lemma resolveGuest_check:
  assumes res: "resolveGuestCheck id tx req s = Inr (k, t)"
  shows "k \<in> set (db_checks t)" and "chk_tenant k = tx_tenant tx \<or> chk_tenant k = gor_tenant req"
    and "chk_table k = Some (gor_table req)" and "chk_branch k = gor_branch req" and "chk_status k = CheckStatusOpen"
    and "db_orders t = db_orders s" and "db_items t = db_items s"
proof -
  let ?find = "rls_find chk_tenant tx (\<lambda>k. chk_table k = Some (gor_table req) \<and> chk_status k = CheckStatusOpen) (db_checks s)"
  have "k \<in> set (db_checks t) \<and> (chk_tenant k = tx_tenant tx \<or> chk_tenant k = gor_tenant req) \<and>
    chk_table k = Some (gor_table req) \<and> chk_branch k = gor_branch req \<and> chk_status k = CheckStatusOpen \<and>
    db_orders t = db_orders s \<and> db_items t = db_items s"
  proof (cases ?find)
    case (Some cur)
    then show ?thesis
      using resolveGuestCheck_found [OF Some, of id] res rls_find_Some [OF Some] by (auto split: if_splits)
  next
    case None
    then have "openCheckTx tx (guest_check req) guestTableGuard s = Inr (k, t)"
      using resolveGuestCheck_none [OF None, of id] res by simp
    from openCheckTx_Inr [OF this] obtain c' i new n where
        cs: "case chk_table (guest_check req) of None \<Rightarrow> c' = guest_check req
          | Some j \<Rightarrow> \<exists>t. rls_find tbl_tenant tx (\<lambda>t. tbl_id t = j) (db_tables s) = Some t \<and>
              tbl_branch t = chk_branch (guest_check req) \<and> guestTableGuard t = Inr () \<and>
              c' = (guest_check req)\<lparr>chk_label := tbl_name t\<rparr>"
      and k: "k = check_insert_row tx i c'"
      and t: "t = s\<lparr>db_tables := occupy_table tx (chk_table (guest_check req)) (db_tables s),
            db_checks := db_checks s @ [k], db_outbox := db_outbox s @ new, db_ctr := n\<rparr>"
      by blast
    have tb: "chk_table (guest_check req) = Some (gor_table req)" by (simp add: guest_check_def)
    from cs obtain lbl where c': "c' = (guest_check req)\<lparr>chk_label := lbl\<rparr>"
      by (auto simp: tb)
    have "chk_tenant k = gor_tenant req" "chk_branch k = gor_branch req" "chk_table k = Some (gor_table req)"
      "chk_status k = CheckStatusOpen"
      by (simp_all add: k c' check_insert_row_def guest_check_def)
    then show ?thesis by (simp add: t)
  qed
  then show "k \<in> set (db_checks t)" "chk_tenant k = tx_tenant tx \<or> chk_tenant k = gor_tenant req"
    "chk_table k = Some (gor_table req)" "chk_branch k = gor_branch req" "chk_status k = CheckStatusOpen"
    "db_orders t = db_orders s" "db_items t = db_items s" by blast+
qed

text \<open>What a placement commits, in both databases.\<close>

abbreviation sf_tx :: "ctx \<Rightarrow> uuid \<Rightarrow> pgtx" where
  "sf_tx c tn \<equiv> \<lparr>tx_tenant = tn, tx_now = ctx_now c\<rparr>"

lemma Link_Inr:
  "GuestOrderRepo_Link tx l sf = Inr (u, sf') \<longleftrightarrow>
     gol_tenant_id l = tx_tenant tx \<and> gol_order_id l \<notin> gol_order_id ` set (sfd_links sf) \<and>
     gol_qr_id l \<in> qrc_id ` set (sfd_codes sf) \<and>
     sf' = sf\<lparr>sfd_links := sfd_links sf @ [l\<lparr>gol_created_at := tx_now tx\<rparr>]\<rparr>"
  by (auto simp: GuestOrderRepo_Link_def tx_inv guest_orders.insert_Inr)

lemma place_linked_Inr:
  assumes "place_linked id id c g req (sf, pos) = Inr (placed, (sf', pos'))" and "gor_tenant req = gst_tenant g"
  shows "\<exists>k t created.
     resolveGuestCheck id (pos_tx c (gst_tenant g)) req pos = Inr (k, t) \<and>
     gre_check placed = chk_id k \<and> gre_order placed = ord_id created \<and>
     gre_status placed = order_status_string (ord_status created) \<and>
     ord_tenant created = gst_tenant g \<and> ord_branch created = gor_branch req \<and>
     ord_check created = Some (chk_id k) \<and> ord_id created \<notin> ord_id ` set (db_orders pos) \<and>
     list_all2 (\<lambda>it row. \<exists>j. row = item_insert_row (pos_tx c (gst_tenant g)) j (gst_tenant g) (ord_id created) it)
       (guestOrderItems (gor_lines req)) (ord_items created) \<and>
     db_orders pos' = db_orders pos @ [created\<lparr>ord_items := []\<rparr>] \<and>
     db_items pos' = db_items pos @ ord_items created \<and> db_checks pos' = db_checks t \<and>
     gst_tenant g \<noteq> uuid_Nil \<and> ord_id created \<notin> gol_order_id ` set (sfd_links sf) \<and>
     sf' = sf\<lparr>sfd_links := sfd_links sf @ [(order_link g placed)\<lparr>gol_created_at := ctx_now c\<rparr>]\<rparr>"
proof -
  from assms obtain u where run: "OrderService_PlaceGuest id id c req (Some (link_verdict sf g)) pos = Inr (placed, pos')"
    and link: "GuestOrderRepo_Link (sf_tx c (gst_tenant g)) (order_link g placed) sf = Inr (u, sf')"
    by (auto simp: place_linked_def split: sum.splits prod.splits)
  note once = PlaceGuest_once [OF run]
  from once have "placeGuestTx id req (Some (link_verdict sf g)) (pos_tx c (gst_tenant g)) pos = Inr (placed, pos')"
    using assms(2) by simp
  from placeGuestTx_Inr [OF this] obtain k t created where
    "resolveGuestCheck id (pos_tx c (gst_tenant g)) req pos = Inr (k, t)"
    "gre_check placed = chk_id k" "gre_order placed = ord_id created"
    "gre_status placed = order_status_string (ord_status created)"
    "ord_tenant created = gor_tenant req" "ord_branch created = gor_branch req"
    "ord_check created = Some (chk_id k)" "ord_id created \<notin> ord_id ` set (db_orders t)"
    "list_all2 (\<lambda>it row. \<exists>j. row = item_insert_row (pos_tx c (gst_tenant g)) j (gor_tenant req) (ord_id created) it)
       (guestOrderItems (gor_lines req)) (ord_items created)"
    "db_orders pos' = db_orders t @ [created\<lparr>ord_items := []\<rparr>]"
    "db_items pos' = db_items t @ ord_items created" "db_checks pos' = db_checks t"
    by blast
  with resolveGuest_check(6,7) [OF this(1)] once assms(2) link show ?thesis
    by (intro exI [of _ k] exI [of _ t] exI [of _ created]) (auto simp: Link_Inr order_link_def)
qed

text \<open>The service call: the gate, the pricing, and the placement of the priced lines.\<close>

abbreviation cart_lines :: "guest_cart \<Rightarrow> staff_cart_line list" where
  "cart_lines cart \<equiv> map (\<lambda>l. \<lparr>scl_product = gcl_product l, scl_qty = gcl_qty l, scl_modifiers = gcl_modifiers l\<rparr>)
     (gca_lines cart)"

lemma Place_Inr:
  assumes "SfOrderService_Place others others' db today c g cart s = Inr (placed, s')"
  shows "\<exists>priced r. PriceCart db c today (gst_tenant g) (gst_branch g) (cart_lines cart) = Inr priced \<and>
    length priced = length (gca_lines cart) \<and>
    place_linked others others' c g (guest_request g cart priced) s = Inr (r, s') \<and>
    plo_order placed = gre_order r \<and> plo_check placed = gre_check r \<and> plo_status placed = gre_status r \<and>
    plo_total placed = cart_total priced"
  using assms
  by (auto simp: SfOrderService_Place_def tx_inv split: if_splits sum.splits prod.splits)

section \<open>Reading it back\<close>

lemma cart_total_items:
  assumes "list_all2 (\<lambda>p it. giv_unit it = prl_unit p \<and> giv_qty it = prl_qty p) ps its"
  shows "fold (\<lambda>it total. wrap64 (total + wrap64 (giv_unit it * giv_qty it))) its n =
    fold (\<lambda>p total. wrap64 (total + wrap64 (prl_unit p * prl_qty p))) ps n"
  using assms by (induction arbitrary: n) auto

definition view_item :: "order_item \<Rightarrow> guest_item_view" where
  "view_item it = \<lparr>giv_name = itm_name it, giv_qty = itm_qty it, giv_unit = itm_unit_price it, giv_note = itm_note it\<rparr>"

text \<open>The order just written is read with its lines, in their order.\<close>

lemma GetGuestOrder_last:
  assumes orders: "db_orders pos' = orders @ [created\<lparr>ord_items := []\<rparr>]" and items: "db_items pos' = its @ ord_items created"
    and new: "ord_id created \<notin> ord_id ` set orders" and tn: "ord_tenant created = tn" "tn \<noteq> uuid_Nil"
    and old: "\<And>it. it \<in> set its \<Longrightarrow> itm_order it \<noteq> ord_id created"
    and rows: "\<And>it. it \<in> set (ord_items created) \<Longrightarrow> itm_order it = ord_id created \<and> itm_tenant it = tn \<and> itm_created it = t"
  shows "OrderService_GetGuestOrder c tn (ord_id created) pos' =
    Inr (\<lparr>gov_id = ord_id created, gov_check = ord_check created, gov_status = order_status_string (ord_status created),
          gov_note = ord_note created, gov_items = map view_item (ord_items created),
          gov_created = ord_created created, gov_updated = ord_updated created\<rparr>, pos')"
proof -
  let ?tx = "\<lparr>tx_tenant = tn, tx_now = ctx_now c\<rparr>"
  have "rls_find ord_tenant ?tx (\<lambda>r. ord_id r = ord_id created) (db_orders pos') = Some (created\<lparr>ord_items := []\<rparr>)"
    unfolding orders using new tn(1)
    by (induction orders) (auto simp: rls_find_def find_row_def)
  moreover have "rls_select itm_tenant ?tx (\<lambda>it. itm_order it = ord_id created) (db_items pos') = ord_items created"
    using old rows by (auto simp: items rls_select_def filter_empty_conv intro!: filter_True)
  moreover have "sort_key itm_created (ord_items created) = ord_items created"
    using rows by (intro sort_key_id_if_sorted) (auto simp: sorted_iff_nth_mono)
  ultimately show ?thesis
    by (simp add: OrderService_GetGuestOrder_def OrderService_GetByID_def WithTenantReadTx_def tn tx_map_err_def
        OrderRepo_GetByID_def OrderRepo_loadItems_def tx_bind_def view_item_def)
qed

lemma GetGuestOrder_total:
  assumes "tn \<noteq> uuid_Nil"
  shows "OrderService_GetGuestOrder c tn i pos = Inl PubNotFound \<or>
    (\<exists>v. OrderService_GetGuestOrder c tn i pos = Inr (v, pos) \<and> gov_id v = i)"
proof (cases "rls_find ord_tenant \<lparr>tx_tenant = tn, tx_now = ctx_now c\<rparr> (\<lambda>r. ord_id r = i) (db_orders pos)")
  case None
  then show ?thesis
    using assms by (simp add: OrderService_GetGuestOrder_def OrderService_GetByID_def WithTenantReadTx_def
        tx_map_err_def OrderRepo_GetByID_def tx_bind_def wrapErr_def)
next
  case (Some r)
  then have "ord_id r = i" using rls_find_Some by fast
  then show ?thesis
    using assms Some by (simp add: OrderService_GetGuestOrder_def OrderService_GetByID_def WithTenantReadTx_def
        tx_map_err_def OrderRepo_GetByID_def OrderRepo_loadItems_def tx_bind_def)
qed

text \<open>So the list never fails, and holds every order of the session that is still there.\<close>

lemma list_mine_loop_lists:
  assumes "tn \<noteq> uuid_Nil"
  shows "\<exists>out. list_mine_loop c tn pos ls = Inr out \<and>
    (\<forall>l v. l \<in> set ls \<and> OrderService_GetGuestOrder c tn (gol_order_id l) pos = Inr (v, pos) \<longrightarrow>
      toGuestOrderStatus v \<in> set out)"
proof (induction ls)
  case (Cons l ls)
  then obtain out where "list_mine_loop c tn pos ls = Inr out"
    "\<forall>l v. l \<in> set ls \<and> OrderService_GetGuestOrder c tn (gol_order_id l) pos = Inr (v, pos) \<longrightarrow>
      toGuestOrderStatus v \<in> set out" by blast
  with GetGuestOrder_total [OF assms, of c "gol_order_id l" pos] show ?case by auto
qed simp

lemma stored_lines:
  assumes "list_all2 (\<lambda>it row. \<exists>j. row = item_insert_row tx j tn i it) (guestOrderItems (map2 guest_line priced lines)) rows"
    and "length priced = length lines"
  shows "list_all2 (\<lambda>p it. giv_unit it = prl_unit p \<and> giv_qty it = prl_qty p) priced (map view_item rows)"
    and "list_all2 (\<lambda>pl it. giv_name it = prl_name (fst pl) \<and> giv_qty it = prl_qty (fst pl) \<and>
      giv_unit it = prl_unit (fst pl) \<and> giv_note it = lineNote (fst pl) (gcl_note (snd pl))) (zip priced lines) (map view_item rows)"
    and "\<And>it. it \<in> set rows \<Longrightarrow> itm_order it = i \<and> itm_tenant it = tn \<and> itm_created it = tx_now tx"
proof -
  have n: "length rows = length lines" using assms by (auto simp: guestOrderItems_def dest: list_all2_lengthD)
  have row: "\<exists>j. rows ! k = item_insert_row tx j tn i (guest_item (guest_line (priced ! k) (lines ! k)))"
    if "k < length lines" for k
    using assms n that by (auto simp: list_all2_conv_all_nth guestOrderItems_def)
  have view: "view_item (rows ! k) = \<lparr>giv_name = prl_name (priced ! k), giv_qty = prl_qty (priced ! k),
      giv_unit = prl_unit (priced ! k), giv_note = lineNote (priced ! k) (gcl_note (lines ! k))\<rparr>"
    if "k < length lines" for k
    using row [OF that] by (auto simp: view_item_def item_insert_row_def guest_item_def guest_line_def)
  show "list_all2 (\<lambda>p it. giv_unit it = prl_unit p \<and> giv_qty it = prl_qty p) priced (map view_item rows)"
    "list_all2 (\<lambda>pl it. giv_name it = prl_name (fst pl) \<and> giv_qty it = prl_qty (fst pl) \<and>
      giv_unit it = prl_unit (fst pl) \<and> giv_note it = lineNote (fst pl) (gcl_note (snd pl))) (zip priced lines) (map view_item rows)"
    using n assms(2) view by (auto simp: list_all2_conv_all_nth)
  show "itm_order it = i \<and> itm_tenant it = tn \<and> itm_created it = tx_now tx" if it: "it \<in> set rows" for it
  proof -
    from it obtain k where "k < length lines" "it = rows ! k" using n by (auto simp: in_set_conv_nth)
    with row [of k] show ?thesis by (auto simp: item_insert_row_def)
  qed
qed

lemma guest_request_simps [simp]:
  "gor_tenant (guest_request g cart priced) = gst_tenant g" "gor_branch (guest_request g cart priced) = gst_branch g"
  "gor_table (guest_request g cart priced) = gst_table g"
  "gor_lines (guest_request g cart priced) = map2 guest_line priced (gca_lines cart)"
  by (simp_all add: guest_request_def)

text \<open>The view of an order as the placement leaves it.\<close>

lemma placed_is_read:
  assumes "SfOrderService_Place id id db today c g cart (sf, pos) = Inr (placed, (sf', pos'))" and "schema_ok pos"
  shows "\<exists>v priced. PriceCart db c today (gst_tenant g) (gst_branch g) (cart_lines cart) = Inr priced \<and>
    OrderService_GetGuestOrder c' (gst_tenant g) (plo_order placed) pos' = Inr (v, pos') \<and>
    gov_id v = plo_order placed \<and> gov_status v = plo_status placed \<and> gov_check v = Some (plo_check placed) \<and>
    gos_total (toGuestOrderStatus v) = plo_total placed \<and>
    list_all2 (\<lambda>pl it. giv_name it = prl_name (fst pl) \<and> giv_qty it = prl_qty (fst pl) \<and>
      giv_unit it = prl_unit (fst pl) \<and> giv_note it = lineNote (fst pl) (gcl_note (snd pl)))
      (zip priced (gca_lines cart)) (gov_items v) \<and>
    gst_tenant g \<noteq> uuid_Nil \<and> plo_order placed \<notin> gol_order_id ` set (sfd_links sf) \<and>
    (\<exists>l. sfd_links sf' = sfd_links sf @ [l] \<and> gol_order_id l = plo_order placed \<and> gol_tenant_id l = gst_tenant g \<and>
      gol_session_id l = gst_session g)"
proof -
  from Place_Inr [OF assms(1)] obtain priced r where
      price: "PriceCart db c today (gst_tenant g) (gst_branch g) (cart_lines cart) = Inr priced"
    and len: "length priced = length (gca_lines cart)"
    and link: "place_linked id id c g (guest_request g cart priced) (sf, pos) = Inr (r, (sf', pos'))"
    and plo: "plo_order placed = gre_order r" "plo_check placed = gre_check r" "plo_status placed = gre_status r"
      "plo_total placed = cart_total priced" by blast
  from place_linked_Inr [OF link, unfolded guest_request_simps, OF refl] obtain k :: check and t created where
      res: "gre_check r = chk_id k" "gre_order r = ord_id created" "gre_status r = order_status_string (ord_status created)"
    and cr: "ord_tenant created = gst_tenant g" "ord_check created = Some (chk_id k)"
      "ord_id created \<notin> ord_id ` set (db_orders pos)"
    and its: "list_all2 (\<lambda>it row. \<exists>j. row = item_insert_row (pos_tx c (gst_tenant g)) j (gst_tenant g) (ord_id created) it)
       (guestOrderItems (map2 guest_line priced (gca_lines cart))) (ord_items created)"
    and db: "db_orders pos' = db_orders pos @ [created\<lparr>ord_items := []\<rparr>]" "db_items pos' = db_items pos @ ord_items created"
    and lk: "gst_tenant g \<noteq> uuid_Nil" "ord_id created \<notin> gol_order_id ` set (sfd_links sf)"
      "sf' = sf\<lparr>sfd_links := sfd_links sf @ [(order_link g r)\<lparr>gol_created_at := ctx_now c\<rparr>]\<rparr>"
    by blast
  note st = stored_lines [OF its len]
  have old: "itm_order it \<noteq> ord_id created" if "it \<in> set (db_items pos)" for it
  proof -
    from assms(2) that have "item_refs_ok pos it" by (simp add: schema_ok_def table_ok_def)
    with cr(3) show ?thesis by (auto simp: item_refs_ok_def)
  qed
  note read = GetGuestOrder_last [OF db cr(3,1) lk(1) old st(3), of c']
  from read plo res st(2) cart_total_items [OF st(1), of 0] cr lk price show ?thesis
    by (auto simp: toGuestOrderStatus_def cart_total_def order_link_def)
qed

lemma link_found:
  assumes "sfd_links sf' = ls @ [l]" and "i \<notin> gol_order_id ` set ls" and "gol_order_id l = i"
  shows "rls_find gol_tenant_id tx (\<lambda>l. gol_order_id l = i \<and> gol_session_id l = q) (sfd_links sf') =
    (if gol_tenant_id l = tx_tenant tx \<and> gol_session_id l = q then Some l else None)"
  using assms(2,3) unfolding assms(1) by (induction ls) (auto simp: rls_find_def find_row_def)

lemma listed_link:
  assumes "sfd_links sf' = ls @ [l]" and "gol_tenant_id l = tn" and "gol_session_id l = q" and "tx_tenant tx = tn"
  shows "\<exists>out. GuestOrderRepo_ListBySession tx q sf' = Inr (out, sf') \<and> l \<in> set out"
  using assms by (auto simp: GuestOrderRepo_ListBySession_def tx_bind_def)

text \<open>C6: a diner reads back the order that was placed, at the price that was promised, and
  nobody else reads it. After an order was accepted the session that placed it gets it by its
  id and finds it in its list: the status and the total are those of the answer to the
  placement, and every line has the name, the quantity and the unit price of the priced cart
  and the note of its own cart line behind the names of its options. Any other session, of the
  same table or tenant or not, is refused the order.\<close>

theorem guest_reads_back_order:
  assumes place: "SfOrderService_Place id id db today c g cart (sf, pos) = Inr (placed, s')"
    and ok: "schema_ok pos"
  shows "(\<exists>v priced out. SfOrderService_GetMine c' g (plo_order placed) s' = Inr (v, s') \<and>
      SfOrderService_ListMine c' g s' = Inr (out, s') \<and> v \<in> set out \<and>
      gos_order v = plo_order placed \<and> gos_status v = plo_status placed \<and> gos_total v = plo_total placed \<and>
      PriceCart db c today (gst_tenant g) (gst_branch g) (cart_lines cart) = Inr priced \<and>
      list_all2 (\<lambda>pl it. gsi_name it = prl_name (fst pl) \<and> gsi_qty it = prl_qty (fst pl) \<and>
        gsi_unit it = prl_unit (fst pl) \<and> gsi_note it = lineNote (fst pl) (gcl_note (snd pl)))
        (zip priced (gca_lines cart)) (gos_items v)) \<and>
    (\<forall>g'. gst_tenant g' \<noteq> uuid_Nil \<and> (gst_tenant g', gst_session g') \<noteq> (gst_tenant g, gst_session g) \<longrightarrow>
      SfOrderService_GetMine c' g' (plo_order placed) s' = Inl SfGuestForbidden)"
proof -
  obtain sf' pos' where s': "s' = (sf', pos')" by (cases s')
  from placed_is_read [OF place [unfolded s'] ok, of c'] obtain v priced l where
      price: "PriceCart db c today (gst_tenant g) (gst_branch g) (cart_lines cart) = Inr priced"
    and read: "OrderService_GetGuestOrder c' (gst_tenant g) (plo_order placed) pos' = Inr (v, pos')"
    and v: "gov_id v = plo_order placed" "gov_status v = plo_status placed"
      "gos_total (toGuestOrderStatus v) = plo_total placed"
    and its: "list_all2 (\<lambda>pl it. giv_name it = prl_name (fst pl) \<and> giv_qty it = prl_qty (fst pl) \<and>
      giv_unit it = prl_unit (fst pl) \<and> giv_note it = lineNote (fst pl) (gcl_note (snd pl)))
      (zip priced (gca_lines cart)) (gov_items v)"
    and tn: "gst_tenant g \<noteq> uuid_Nil" and new: "plo_order placed \<notin> gol_order_id ` set (sfd_links sf)"
    and l: "sfd_links sf' = sfd_links sf @ [l]" "gol_order_id l = plo_order placed" "gol_tenant_id l = gst_tenant g"
      "gol_session_id l = gst_session g"
    by blast
  have mine: "GuestOrderRepo_GetForSession (sf_tx c' (gst_tenant g')) (gst_session g') (plo_order placed) sf' =
      (if gst_tenant g' = gst_tenant g \<and> gst_session g' = gst_session g then Inr (l, sf') else Inl SfRepoNotFound)" for g'
    using link_found [OF l(1) new l(2)] l(3,4) by (auto simp: GuestOrderRepo_GetForSession_def tx_bind_def found_row_def)
  have "SfOrderService_GetMine c' g (plo_order placed) s' = Inr (toGuestOrderStatus v, s')"
    using mine [of g] read tn l(2) by (simp add: SfOrderService_GetMine_def s' SfTenantReadTx_def)
  moreover from list_mine_loop_lists [OF tn, of c' pos'] obtain out where
    "SfOrderService_ListMine c' g s' = Inr (out, s')" "toGuestOrderStatus v \<in> set out"
    using listed_link [OF l(1,3,4), of "sf_tx c' (gst_tenant g)"] read l(2) tn
    by (fastforce simp: SfOrderService_ListMine_def s' SfTenantReadTx_def)
  moreover have "list_all2 (\<lambda>pl it. gsi_name it = prl_name (fst pl) \<and> gsi_qty it = prl_qty (fst pl) \<and>
        gsi_unit it = prl_unit (fst pl) \<and> gsi_note it = lineNote (fst pl) (gcl_note (snd pl)))
        (zip priced (gca_lines cart)) (gos_items (toGuestOrderStatus v))"
    using its by (simp add: toGuestOrderStatus_def list_all2_map2)
  moreover have "SfOrderService_GetMine c' g' (plo_order placed) s' = Inl SfGuestForbidden"
    if "gst_tenant g' \<noteq> uuid_Nil" "(gst_tenant g', gst_session g') \<noteq> (gst_tenant g, gst_session g)" for g'
    using mine [of g'] that by (auto simp: SfOrderService_GetMine_def s' SfTenantReadTx_def)
  ultimately show ?thesis
    using price v by (metis (no_types, lifting) toGuestOrderStatus_def guest_order_status.simps(1,2))
qed

text \<open>One printed code on table 31, and a diner who orders two glasses with an option.\<close>

definition demo_code :: qr_code where
  "demo_code = \<lparr>qrc_id = 70, qrc_tenant = 1, qrc_branch = 10, qrc_table = 31, qrc_label = ''M2'',
     qrc_hash = replicate 64 CHR ''a'', qrc_status = QRCodeStatusActive, qrc_created_by = 5, qrc_revoked_at = None,
     qrc_revoked_by = None, qrc_created = 0, qrc_updated = 0\<rparr>"

definition demo_sf :: sf_db where
  "demo_sf = \<lparr>sfd_codes = [demo_code], sfd_links = [], sfd_settings = [], sfd_rand = (\<lambda>n. 5000 + n), sfd_ctr = 0,
     sfd_secret = (\<lambda>n. ''new''), sfd_drawn = 0\<rparr>"

definition demo_diner :: "uuid \<Rightarrow> guest_session" where
  "demo_diner session = \<lparr>gst_tenant = 1, gst_branch = 10, gst_table = 31, gst_qr = 70, gst_session = session, gst_expires = 14400\<rparr>"

definition demo_cart :: guest_cart where
  "demo_cart = \<lparr>gca_lines = [\<lparr>gcl_product = 40, gcl_qty = 2, gcl_modifiers = [51], gcl_note = ''soguk''\<rparr>], gca_note = ''''\<rparr>"

lemma demo_diner_place_ok: "tx_ok (SfOrderService_Place id id demo_menu_catalog 5 demo_ctx (demo_diner 71) demo_cart) (demo_sf, demo_db)"
  by code_simp

theorem guest_reads_back_order_witness:
  "\<exists>placed s' v. SfOrderService_Place id id demo_menu_catalog 5 demo_ctx (demo_diner 71) demo_cart (demo_sf, demo_db) = Inr (placed, s') \<and>
     SfOrderService_GetMine demo_ctx (demo_diner 71) (plo_order placed) s' = Inr (v, s') \<and> gos_total v = plo_total placed \<and>
     SfOrderService_GetMine demo_ctx (demo_diner 72) (plo_order placed) s' = Inl SfGuestForbidden"
proof -
  obtain placed s' where run:
    "SfOrderService_Place id id demo_menu_catalog 5 demo_ctx (demo_diner 71) demo_cart (demo_sf, demo_db) = Inr (placed, s')"
    by (rule tx_okE [OF demo_diner_place_ok])
  have "gst_tenant (demo_diner 72) \<noteq> uuid_Nil \<and>
      (gst_tenant (demo_diner 72), gst_session (demo_diner 72)) \<noteq> (gst_tenant (demo_diner 71), gst_session (demo_diner 71))"
    by (simp add: demo_diner_def uuid_Nil_def)
  with guest_reads_back_order [OF run demo_schema, of demo_ctx] run show ?thesis by blast
qed

section \<open>From the sticker to the check\<close>

lemma ResolveToken_Inr:
  assumes "SessionService_ResolveToken sha secret c raw pos sf = Inr (rs, sf')"
  shows "\<exists>q t. q \<in> set (sfd_codes sf) \<and> qrc_hash q = sha raw \<and> QRCode_IsActive q \<and>
    OrderService_GetGuestTable c (qrc_tenant q) (qrc_table q) pos = Inr (t, pos) \<and> gtb_branch t = qrc_branch q \<and> gtb_active t \<and>
    rss_token rs = IssueGuest secret (ctx_now c) (qrc_tenant q) (qrc_branch q) (qrc_table q) (qrc_id q) (sfd_rand sf (sfd_ctr sf)) \<and>
    rss_session rs = sfd_rand sf (sfd_ctr sf) \<and> sf' = sf\<lparr>sfd_ctr := Suc (sfd_ctr sf)\<rparr>"
proof -
  have "raw \<noteq> ''''" using assms by (auto simp: SessionService_ResolveToken_def)
  with assms obtain q t pos' where
    "find_row (\<lambda>r. qrc_hash r = sha raw) (filter (\<lambda>r. qrc_hash r = sha raw) (sfd_codes sf)) = Some q" "QRCode_IsActive q"
    "OrderService_GetGuestTable c (qrc_tenant q) (qrc_table q) pos = Inr (t, pos')"
    "gtb_branch t = qrc_branch q" "gtb_active t"
    "rss_token rs = IssueGuest secret (ctx_now c) (qrc_tenant q) (qrc_branch q) (qrc_table q) (qrc_id q) (sfd_rand sf (sfd_ctr sf))"
    "rss_session rs = sfd_rand sf (sfd_ctr sf)" "sf' = sf\<lparr>sfd_ctr := Suc (sfd_ctr sf)\<rparr>"
    by (auto simp: SessionService_ResolveToken_def tx_inv WithQRTokenLookupTx_def QRCodeRepo_LookupByTokenHash_def
        sf_uuid_Inr split: if_splits option.splits sum.splits prod.splits)
  moreover have "pos' = pos"
    using calculation(3) by (auto simp: OrderService_GetGuestTable_def tx_inv TableRepo_GetTableByID_def found_row_Inr
        WithTenantReadTx_def split: if_splits option.splits)
  ultimately show ?thesis using find_row_Some by fastforce
qed

text \<open>C15: a sticker leads to its own table. When a scanned token was exchanged and the session
  it gave is used to order, within the four hours it is valid for and whatever happened in
  between, the token is that of a code active at the scan, the order belongs to the tenant and
  branch of that code, it lies on an open check of the code's own table, and it is filed under
  the session that the scan started.\<close>

theorem scan_to_check:
  assumes scan: "SessionService_ResolveToken sha secret c raw pos sf = Inr (rs, sf1)"
    and tok: "VerifyGuest secret t (rss_token rs) = Inr g"
    and place: "SfOrderService_Place id id db today c' g cart (sf2, pos2) = Inr (placed, (sf3, pos3))"
  shows "t \<le> ctx_now c + guestTokenTTL \<and>
    (\<exists>q \<in> set (sfd_codes sf). qrc_hash q = sha raw \<and> QRCode_IsActive q \<and>
      (\<exists>r \<in> set (db_orders pos3). ord_id r = plo_order placed \<and> ord_tenant r = qrc_tenant q \<and>
        ord_branch r = qrc_branch q \<and> ord_check r = Some (plo_check placed)) \<and>
      (\<exists>k \<in> set (db_checks pos3). chk_id k = plo_check placed \<and> chk_tenant k = qrc_tenant q \<and>
        chk_branch k = qrc_branch q \<and> chk_table k = Some (qrc_table q) \<and> chk_status k = CheckStatusOpen) \<and>
      (\<exists>l \<in> set (sfd_links sf3). gol_order_id l = plo_order placed \<and> gol_qr_id l = qrc_id q \<and>
        gol_session_id l = rss_session rs))"
proof -
  from ResolveToken_Inr [OF scan] obtain q where q: "q \<in> set (sfd_codes sf)" "qrc_hash q = sha raw" "QRCode_IsActive q"
    and rs: "rss_token rs = IssueGuest secret (ctx_now c) (qrc_tenant q) (qrc_branch q) (qrc_table q) (qrc_id q) (rss_session rs)"
    by auto
  have g: "t \<le> ctx_now c + guestTokenTTL" "gst_tenant g = qrc_tenant q" "gst_branch g = qrc_branch q"
    "gst_table g = qrc_table q" "gst_qr g = qrc_id q" "gst_session g = rss_session rs"
    using tok by (auto simp: rs VerifyGuest_issued split: if_splits)
  from Place_Inr [OF place] obtain priced r where
      link: "place_linked id id c' g (guest_request g cart priced) (sf2, pos2) = Inr (r, (sf3, pos3))"
    and plo: "plo_order placed = gre_order r" "plo_check placed = gre_check r" by blast
  from place_linked_Inr [OF link, unfolded guest_request_simps, OF refl] obtain k :: check and u created where
      res: "resolveGuestCheck id (pos_tx c' (gst_tenant g)) (guest_request g cart priced) pos2 = Inr (k, u)"
      "gre_check r = chk_id k" "gre_order r = ord_id created" "ord_tenant created = gst_tenant g"
      "ord_branch created = gst_branch g" "ord_check created = Some (chk_id k)"
      "db_orders pos3 = db_orders pos2 @ [created\<lparr>ord_items := []\<rparr>]" "db_checks pos3 = db_checks u"
      "sf3 = sf2\<lparr>sfd_links := sfd_links sf2 @ [(order_link g r)\<lparr>gol_created_at := ctx_now c'\<rparr>]\<rparr>"
    by blast
  have "k \<in> set (db_checks pos3) \<and> chk_tenant k = gst_tenant g \<and> chk_table k = Some (gst_table g) \<and>
      chk_branch k = gst_branch g \<and> chk_status k = CheckStatusOpen"
    using resolveGuest_check [OF res(1)] res(8) by simp
  moreover have "created\<lparr>ord_items := []\<rparr> \<in> set (db_orders pos3)" by (simp add: res(7))
  moreover have "(order_link g r)\<lparr>gol_created_at := ctx_now c'\<rparr> \<in> set (sfd_links sf3)" by (simp add: res(9))
  ultimately show ?thesis
    using q g res(2-6) plo
    by (intro conjI bexI [of _ q] bexI [of _ k] bexI [of _ "created\<lparr>ord_items := []\<rparr>"]
        bexI [of _ "(order_link g r)\<lparr>gol_created_at := ctx_now c'\<rparr>"]) (simp_all add: order_link_def)
qed

definition demo_hash :: "string \<Rightarrow> string" where
  "demo_hash raw = replicate 64 (if raw = ''tok'' then CHR ''a'' else CHR ''b'')"

lemma demo_scan_ok: "tx_ok (SessionService_ResolveToken demo_hash 9 demo_ctx ''tok'' demo_db) demo_sf"
  by code_simp

lemma demo_scan_session:
  "SessionService_ResolveToken demo_hash 9 demo_ctx ''tok'' demo_db demo_sf = Inr (rs, sf) \<Longrightarrow>
   VerifyGuest 9 100 (rss_token rs) = Inr ((demo_diner 5000)\<lparr>gst_expires := 7 + guestTokenTTL\<rparr>)"
  by (drule ResolveToken_Inr) (auto simp: VerifyGuest_issued demo_sf_def demo_code_def demo_diner_def demo_ctx_def guestTokenTTL_def)

lemma demo_scan_place_ok: "tx_ok (SfOrderService_Place id id demo_menu_catalog 5 demo_ctx
    ((demo_diner 5000)\<lparr>gst_expires := 7 + guestTokenTTL\<rparr>) demo_cart) (demo_sf, demo_db)"
  by code_simp

theorem scan_to_check_witness:
  "\<exists>rs sf1 placed sf3 pos3. SessionService_ResolveToken demo_hash 9 demo_ctx ''tok'' demo_db demo_sf = Inr (rs, sf1) \<and>
     SfOrderService_Place id id demo_menu_catalog 5 demo_ctx ((demo_diner 5000)\<lparr>gst_expires := 7 + guestTokenTTL\<rparr>) demo_cart
       (demo_sf, demo_db) = Inr (placed, (sf3, pos3)) \<and>
     (\<exists>k \<in> set (db_checks pos3). chk_id k = plo_check placed \<and> chk_table k = Some 31 \<and> chk_status k = CheckStatusOpen)"
proof -
  obtain rs sf1 where scan: "SessionService_ResolveToken demo_hash 9 demo_ctx ''tok'' demo_db demo_sf = Inr (rs, sf1)"
    by (rule tx_okE [OF demo_scan_ok])
  obtain placed s' where run: "SfOrderService_Place id id demo_menu_catalog 5 demo_ctx
      ((demo_diner 5000)\<lparr>gst_expires := 7 + guestTokenTTL\<rparr>) demo_cart (demo_sf, demo_db) = Inr (placed, s')"
    by (rule tx_okE [OF demo_scan_place_ok])
  obtain sf3 pos3 where s': "s' = (sf3, pos3)" by (cases s')
  have "\<forall>q \<in> set (sfd_codes demo_sf). qrc_table q = 31" by (simp add: demo_sf_def demo_code_def)
  with scan_to_check [OF scan demo_scan_session [OF scan] run [unfolded s']] scan run s' show ?thesis by fastforce
qed

section \<open>Codes over time\<close>

text \<open>The calls that write to the storefront's tables, by anybody in any order. A call that
  fails writes nothing.\<close>

inductive sf_step :: "(string \<Rightarrow> string) \<Rightarrow> sf_db \<Rightarrow> sf_db \<Rightarrow> bool" for sha where
  sf_issue: "QRService_Issue sha c tn p req s = Inr (x, s') \<Longrightarrow> sf_step sha s s'"
| sf_revoke: "QRService_Revoke c tn p i actor s = Inr (q, s') \<Longrightarrow> sf_step sha s s'"
| sf_rotate: "QRService_Rotate sha c tn p i actor s = Inr (x, s') \<Longrightarrow> sf_step sha s s'"
| sf_set: "SfBranchSettings_Set c tn p b enabled actor s = Inr (v, s') \<Longrightarrow> sf_step sha s s'"
| sf_resolve: "SessionService_ResolveToken sha secret c raw pos s = Inr (rs, s') \<Longrightarrow> sf_step sha s s'"
| sf_place: "SfOrderService_Place others others' db today c g cart (s, pos) = Inr (placed, (s', pos')) \<Longrightarrow> sf_step sha s s'"

abbreviation sf_run :: "(string \<Rightarrow> string) \<Rightarrow> sf_db \<Rightarrow> sf_db \<Rightarrow> bool" where
  "sf_run sha \<equiv> (sf_step sha)\<^sup>*\<^sup>*"

text \<open>What may happen to the row of a code: it is revoked, once.\<close>

definition code_moves :: "qr_code \<Rightarrow> qr_code \<Rightarrow> bool" where
  "code_moves q q' \<longleftrightarrow> qrc_id q' = qrc_id q \<and> qrc_tenant q' = qrc_tenant q \<and> qrc_branch q' = qrc_branch q \<and>
     qrc_table q' = qrc_table q \<and> qrc_label q' = qrc_label q \<and> qrc_hash q' = qrc_hash q \<and>
     qrc_created_by q' = qrc_created_by q \<and> (\<not> QRCode_IsActive q \<longrightarrow> q' = q)"

lemma code_moves_refl [simp]: "code_moves q q"
  by (simp add: code_moves_def)

lemma code_moves_trans: "code_moves a b \<Longrightarrow> code_moves b c \<Longrightarrow> code_moves a c"
  by (auto simp: code_moves_def)

definition codes_evolve :: "sf_db \<Rightarrow> sf_db \<Rightarrow> bool" where
  "codes_evolve s s' \<longleftrightarrow> rows_move code_moves (sfd_codes s) (sfd_codes s') \<and>
     (qr_uniq (sfd_codes s) \<longrightarrow> qr_uniq (sfd_codes s'))"

interpretation codes_evolve: tx_preorder codes_evolve
  by unfold_locales (auto simp: codes_evolve_def intro: rows_move_refl rows_move_trans code_moves_trans)

lemma codes_same: "sfd_codes s' = sfd_codes s \<Longrightarrow> codes_evolve s s'"
  by (simp add: codes_evolve_def rows_move_refl)

lemma QRCodeRepo_Create_Inr:
  assumes "QRCodeRepo_Create tx q s = Inr (q', s')"
  shows "codes_evolve s s' \<and> sfd_codes s' = sfd_codes s @ [q'] \<and> qrc_table q' = qrc_table q \<and> qrc_branch q' = qrc_branch q \<and>
    qrc_hash q' = qrc_hash q \<and> (qrc_status q = QRCodeStatusActive \<longrightarrow> QRCode_IsActive q')"
  using assms
  by (auto simp: QRCodeRepo_Create_def tx_inv qr_codes.insert_Inr sf_uuid_Inr codes_evolve_def QRCode_IsActive_def
      intro!: rows_move_append)

lemma QRCodeRepo_Revoke_Inr:
  assumes "QRCodeRepo_Revoke tx i actor s = Inr (q', s')"
  shows "codes_evolve s s' \<and> (\<forall>q \<in> set (sfd_codes s). qrc_id q = i \<and> qrc_tenant q = tx_tenant tx \<and> QRCode_IsActive q \<longrightarrow>
    (\<exists>r \<in> set (sfd_codes s'). code_moves q r \<and> \<not> QRCode_IsActive r))"
proof -
  let ?P = "\<lambda>r. qrc_id r = i \<and> qrc_status r = QRCodeStatusActive"
  let ?f = "\<lambda>r. r\<lparr>qrc_status := QRCodeStatusRevoked, qrc_revoked_at := Some (tx_now tx),
              qrc_revoked_by := Some actor, qrc_updated := tx_now tx\<rparr>"
  from assms have s': "s' = s\<lparr>sfd_codes := rls_update qrc_tenant tx ?P ?f (sfd_codes s)\<rparr>"
    "qr_uniq (rls_update qrc_tenant tx ?P ?f (sfd_codes s))"
    by (auto simp: QRCodeRepo_Revoke_def tx_inv qr_codes.update_Inr query_row_Inr)
  have moves: "?P r \<Longrightarrow> code_moves r (?f r)" for r by (simp add: code_moves_def QRCode_IsActive_def)
  then have "codes_evolve s s'" by (auto simp: s' codes_evolve_def intro!: rows_move_update)
  moreover have "\<exists>r \<in> set (sfd_codes s'). code_moves q r \<and> \<not> QRCode_IsActive r"
    if q: "q \<in> set (sfd_codes s)" "qrc_id q = i" "qrc_tenant q = tx_tenant tx" "QRCode_IsActive q" for q
    using q moves [of q] by (intro bexI [of _ "?f q"]) (auto simp: s' in_rls_update QRCode_IsActive_def)
  ultimately show ?thesis by blast
qed

lemma newQRToken_Inr:
  "newQRToken sha s = Inr (x, s') \<longleftrightarrow>
     x = (sfd_secret s (sfd_drawn s), sha (sfd_secret s (sfd_drawn s))) \<and> s' = s\<lparr>sfd_drawn := Suc (sfd_drawn s)\<rparr>"
  by (auto simp: newQRToken_def Let_def)

lemma new_code_simps [simp]:
  "qrc_table (new_code tn b t l h a) = t" "qrc_branch (new_code tn b t l h a) = b" "qrc_hash (new_code tn b t l h a) = h"
  "qrc_status (new_code tn b t l h a) = QRCodeStatusActive"
  by (simp_all add: new_code_def)

lemma Issue_evolves: "QRService_Issue sha c tn p req s = Inr (x, s') \<Longrightarrow> codes_evolve s s'"
  by (auto simp: QRService_Issue_def tx_inv newQRToken_Inr dest!: QRCodeRepo_Create_Inr) (simp add: codes_evolve_def)

text \<open>What revoking and rotating do to the code they are called on.\<close>

definition retired :: "qr_code \<Rightarrow> sf_db \<Rightarrow> bool" where
  "retired q s \<longleftrightarrow> (\<exists>r \<in> set (sfd_codes s). code_moves q r \<and> \<not> QRCode_IsActive r)"

lemma revocable:
  "TransitionQRCodeStatus (qrc_status q) QRCodeStatusRevoked = Inr () \<Longrightarrow> QRCode_IsActive q"
  by (cases "qrc_status q") (simp_all add: TransitionQRCodeStatus_def QRCode_IsActive_def)

lemma Revoke_Inr:
  assumes "QRService_Revoke c tn p i actor s = Inr (x, s')"
  shows "codes_evolve s s' \<and> (\<exists>q \<in> set (sfd_codes s). qrc_id q = i \<and> qrc_tenant q = tn \<and> QRCode_IsActive q \<and>
    sf_requireBranch c p (qrc_branch q) = Inr () \<and> retired q s')"
proof -
  from assms obtain q where q: "rls_find qrc_tenant (sf_tx c tn) (\<lambda>r. qrc_id r = i) (sfd_codes s) = Some q"
    "sf_requireBranch c p (qrc_branch q) = Inr ()" "TransitionQRCodeStatus (qrc_status q) QRCodeStatusRevoked = Inr ()"
    and run: "QRCodeRepo_Revoke (sf_tx c tn) i actor s = Inr (x, s')"
    by (auto simp: QRService_Revoke_def revokeTx_def QRCodeRepo_GetForUpdate_def tx_inv found_row_Inr)
  from rls_find_Some [OF q(1)] revocable [OF q(3)] q(2) QRCodeRepo_Revoke_Inr [OF run] show ?thesis
    by (auto simp: retired_def)
qed

lemma retired_evolves: "retired q s \<Longrightarrow> codes_evolve s s' \<Longrightarrow> retired q s'"
proof -
  assume "retired q s" and ev: "codes_evolve s s'"
  then obtain r where r: "r \<in> set (sfd_codes s)" "code_moves q r" "\<not> QRCode_IsActive r" by (auto simp: retired_def)
  from ev r(1) obtain r' where r': "r' \<in> set (sfd_codes s')" "code_moves r r'"
    by (auto simp: codes_evolve_def dest: rows_moveD)
  with r(3) have "r' = r" by (simp add: code_moves_def)
  with r r' show ?thesis by (auto simp: retired_def)
qed

lemma Rotate_Inr:
  assumes "QRService_Rotate sha c tn p i actor s = Inr (y, s')"
  shows "codes_evolve s s' \<and> (\<exists>q \<in> set (sfd_codes s). qrc_id q = i \<and> qrc_tenant q = tn \<and> QRCode_IsActive q \<and>
    sf_requireBranch c p (qrc_branch q) = Inr () \<and> retired q s' \<and>
    isc_code y \<in> set (sfd_codes s') \<and> QRCode_IsActive (isc_code y) \<and> qrc_table (isc_code y) = qrc_table q \<and>
    qrc_branch (isc_code y) = qrc_branch q \<and> qrc_hash (isc_code y) = sha (isc_raw y))"
proof -
  let ?s0 = "s\<lparr>sfd_drawn := Suc (sfd_drawn s)\<rparr>" and ?raw = "sfd_secret s (sfd_drawn s)"
  from assms obtain q x s1 created where
      q: "rls_find qrc_tenant (sf_tx c tn) (\<lambda>r. qrc_id r = i) (sfd_codes s) = Some q"
      "sf_requireBranch c p (qrc_branch q) = Inr ()" "TransitionQRCodeStatus (qrc_status q) QRCodeStatusRevoked = Inr ()"
    and revoke: "QRCodeRepo_Revoke (sf_tx c tn) i actor ?s0 = Inr (x, s1)"
    and create: "QRCodeRepo_Create (sf_tx c tn) (new_code tn (qrc_branch q) (qrc_table q) (qrc_label q) (sha ?raw) actor) s1 = Inr (created, s')"
    and y: "y = \<lparr>isc_code = created, isc_raw = ?raw\<rparr>"
    by (auto simp: QRService_Rotate_def rotateTx_def QRCodeRepo_GetForUpdate_def tx_inv found_row_Inr newQRToken_Inr)
  note r = QRCodeRepo_Revoke_Inr [OF revoke] and n = QRCodeRepo_Create_Inr [OF create]
  have q': "q \<in> set (sfd_codes s)" "qrc_id q = i" "qrc_tenant q = tn" "QRCode_IsActive q"
    using rls_find_Some [OF q(1)] revocable [OF q(3)] by auto
  then have "retired q s1" using r by (auto simp: retired_def)
  then have ret: "retired q s'" using n retired_evolves by blast
  have "codes_evolve s s1" using r by (simp add: codes_evolve_def)
  with n have "codes_evolve s s'" using codes_evolve.trans by blast
  with q' q(2) ret n show ?thesis by (auto simp: y)
qed

lemma sf_step_evolves: "sf_step sha s s' \<Longrightarrow> codes_evolve s s'"
proof (induction rule: sf_step.induct)
  case (sf_set c tn p b enabled actor s v s')
  then show ?case
    by (auto simp: SfBranchSettings_Set_def SfBranchSettingsRepo_Upsert_def tx_inv sf_settings.insert_Inr
        sf_settings.update_Inr query_row_Inr intro!: codes_same split: option.splits)
next
  case (sf_resolve secret c raw pos s rs s')
  then show ?case by (auto dest!: ResolveToken_Inr intro: codes_same)
next
  case (sf_place others others' db today c g cart s pos placed s' pos')
  from Place_Inr [OF this] obtain priced r where
    "place_linked others others' c g (guest_request g cart priced) (s, pos) = Inr (r, (s', pos'))" by blast
  then show ?case
    by (auto simp: place_linked_def Link_Inr intro!: codes_same split: sum.splits prod.splits)
qed (auto dest: Issue_evolves Revoke_Inr Rotate_Inr)

lemma sf_run_evolves: "sf_run sha s s' \<Longrightarrow> codes_evolve s s'"
  by (induction rule: rtranclp_induct) (auto intro: codes_evolve.refl codes_evolve.trans dest: sf_step_evolves)

text \<open>A token is looked up by its hash, of which there is one.\<close>

lemma dead_token:
  assumes "retired q s" and "qr_uniq (sfd_codes s)" and "raw \<noteq> ''''" and "sha raw = qrc_hash q" and "isLowerHexSHA256 (sha raw)"
  shows "SessionService_ResolveToken sha secret c raw pos s = Inl SfQRRevoked"
proof -
  from assms(1) obtain r where r: "r \<in> set (sfd_codes s)" "qrc_hash r = sha raw" "\<not> QRCode_IsActive r"
    using assms(4) by (auto simp: retired_def code_moves_def)
  have "find_row (\<lambda>r. qrc_hash r = sha raw) (filter (\<lambda>r. qrc_hash r = sha raw) (sfd_codes s)) = Some r"
    using assms(2) find_row_key [of qrc_hash "filter (\<lambda>r. qrc_hash r = sha raw) (sfd_codes s)" r] r
    by (simp add: qr_uniq_def distinct_map_filter)
  with assms(3,5) r(3) show ?thesis
    by (simp add: SessionService_ResolveToken_def WithQRTokenLookupTx_def QRCodeRepo_LookupByTokenHash_def
        tx_bind_def tx_map_err_def)
qed

lemma retire_code:
  assumes "(\<exists>x. QRService_Revoke c tn p i actor s0 = Inr (x, s1)) \<or> (\<exists>y. QRService_Rotate sha c tn p i actor s0 = Inr (y, s1))"
  shows "\<exists>q \<in> set (sfd_codes s0). qrc_id q = i \<and> qrc_tenant q = tn \<and> QRCode_IsActive q \<and>
    sf_requireBranch c p (qrc_branch q) = Inr () \<and> retired q s1 \<and> codes_evolve s0 s1 \<and>
    (\<forall>y. QRService_Rotate sha c tn p i actor s0 = Inr (y, s1) \<longrightarrow>
      isc_code y \<in> set (sfd_codes s1) \<and> QRCode_IsActive (isc_code y) \<and> qrc_table (isc_code y) = qrc_table q \<and>
      qrc_branch (isc_code y) = qrc_branch q \<and> qrc_hash (isc_code y) = sha (isc_raw y))"
proof (cases "\<exists>y. QRService_Rotate sha c tn p i actor s0 = Inr (y, s1)")
  case True
  then obtain y where y: "QRService_Rotate sha c tn p i actor s0 = Inr (y, s1)" by blast
  from Rotate_Inr [OF y] show ?thesis by (simp add: y)
next
  case False
  with assms obtain x where "QRService_Revoke c tn p i actor s0 = Inr (x, s1)" by blast
  from Revoke_Inr [OF this] False show ?thesis by blast
qed

text \<open>C19: a retired code opens nothing any more, and a table has one code at a time. Revoking or
  rotating a code succeeds only for an active code of the caller's tenant, on a branch of the
  caller; from then on, in every run of storefront calls by whoever, a scan of its token is
  answered as revoked. Rotating puts an active code in its place, for the same table and
  branch, whose stored hash is that of the token handed out. No two active codes of a table
  ever exist.\<close>

theorem retired_code_is_dead:
  assumes retire: "(\<exists>x. QRService_Revoke c tn p i actor s0 = Inr (x, s1)) \<or> (\<exists>y. QRService_Rotate sha c tn p i actor s0 = Inr (y, s1))"
    and uniq: "qr_uniq (sfd_codes s0)" and run: "sf_run sha s1 s2"
  shows "(\<exists>q \<in> set (sfd_codes s0). qrc_id q = i \<and> qrc_tenant q = tn \<and> QRCode_IsActive q \<and>
      sf_requireBranch c p (qrc_branch q) = Inr () \<and>
      (\<forall>raw secret c' pos. raw \<noteq> '''' \<and> sha raw = qrc_hash q \<and> isLowerHexSHA256 (sha raw) \<longrightarrow>
        SessionService_ResolveToken sha secret c' raw pos s2 = Inl SfQRRevoked) \<and>
      (\<forall>y. QRService_Rotate sha c tn p i actor s0 = Inr (y, s1) \<longrightarrow>
        isc_code y \<in> set (sfd_codes s1) \<and> QRCode_IsActive (isc_code y) \<and> qrc_table (isc_code y) = qrc_table q \<and>
        qrc_branch (isc_code y) = qrc_branch q \<and> qrc_hash (isc_code y) = sha (isc_raw y))) \<and>
    (\<forall>a \<in> set (sfd_codes s2). \<forall>b \<in> set (sfd_codes s2).
      QRCode_IsActive a \<and> QRCode_IsActive b \<and> qrc_table a = qrc_table b \<longrightarrow> a = b)"
proof -
  from retire obtain q where q: "q \<in> set (sfd_codes s0)" "qrc_id q = i" "qrc_tenant q = tn" "QRCode_IsActive q"
      "sf_requireBranch c p (qrc_branch q) = Inr ()" "retired q s1" and ev: "codes_evolve s0 s1"
    and new: "\<forall>y. QRService_Rotate sha c tn p i actor s0 = Inr (y, s1) \<longrightarrow>
        isc_code y \<in> set (sfd_codes s1) \<and> QRCode_IsActive (isc_code y) \<and> qrc_table (isc_code y) = qrc_table q \<and>
        qrc_branch (isc_code y) = qrc_branch q \<and> qrc_hash (isc_code y) = sha (isc_raw y)"
    using retire_code [of c tn p i actor s0 s1 sha] by blast
  have dead: "retired q s2" and u: "qr_uniq (sfd_codes s2)"
    using retired_evolves [OF q(6) sf_run_evolves [OF run]] codes_evolve.trans [OF ev sf_run_evolves [OF run]] uniq
    by (auto simp: codes_evolve_def)
  have "a = b" if "a \<in> set (sfd_codes s2)" "b \<in> set (sfd_codes s2)" "QRCode_IsActive a" "QRCode_IsActive b"
      "qrc_table a = qrc_table b" for a b
    using distinct_key_unique [of qrc_table "filter QRCode_IsActive (sfd_codes s2)" a b] u that by (simp add: qr_uniq_def)
  with q(1-5) new dead_token [OF dead u] show ?thesis by blast
qed

lemma demo_rotate_ok: "tx_ok (QRService_Rotate demo_hash demo_ctx 1 demo_principal 70 5) demo_sf"
  by code_simp

theorem retired_code_is_dead_witness:
  "\<exists>y s1. QRService_Rotate demo_hash demo_ctx 1 demo_principal 70 5 demo_sf = Inr (y, s1) \<and>
     SessionService_ResolveToken demo_hash 9 demo_ctx ''tok'' demo_db demo_sf \<noteq> Inl SfQRRevoked \<and>
     SessionService_ResolveToken demo_hash 9 demo_ctx ''tok'' demo_db s1 = Inl SfQRRevoked"
proof -
  obtain y s1 where rot: "QRService_Rotate demo_hash demo_ctx 1 demo_principal 70 5 demo_sf = Inr (y, s1)"
    by (rule tx_okE [OF demo_rotate_ok])
  have "qr_uniq (sfd_codes demo_sf)" by (simp add: qr_uniq_def demo_sf_def QRCode_IsActive_def)
  moreover have "isLowerHexSHA256 (demo_hash ''tok'')" by code_simp
  moreover have "\<forall>q \<in> set (sfd_codes demo_sf). demo_hash ''tok'' = qrc_hash q" by code_simp
  moreover have "SessionService_ResolveToken demo_hash 9 demo_ctx ''tok'' demo_db demo_sf \<noteq> Inl SfQRRevoked"
    using demo_scan_ok by (auto simp: tx_ok_def)
  ultimately show ?thesis
    using retired_code_is_dead [of demo_ctx 1 demo_principal 70 5 demo_sf s1 demo_hash s1] rot by blast
qed

end
