(* ===== verification/Spec2Isabelle.thy ===== *)
theory Spec2Isabelle
  imports Pos_Check_Props Pos_Open_Props Pos_Move_Props Pos_Order_Props Pos_Kitchen_Props Pos_Guest_Props Pos_System_Props Pos_Table_Service Pay_Ledger_Props Pay_Pin Pay_Pin_Props Pay_Sale_Props Pay_Book Pay_Worker_Props Pay_Retry_Props Pay_Session_Props Pay_Settlement Outbox_Dispatcher Outbox_Props Inv_Domain Inv_State Inv_Repo Inv_Service Inv_Shipping Inv_Facts Inv_Ledger Inv_Moves Inv_System Inv_Books Inv_Demo Inv_Props Http_Idempotency Auth_Principal Http_Idempotency_Props Catalog_Menu Sf_State Sf_Service Sf_Props
begin

text \<open>
  A verification library for the core of a multi-tenant restaurant back office: the Go
  backend under src/backend/internal. Four modules are modelled with the database they
  write: the point of sale (checks, orders, tables), the payment module (sales, the queue
  of fiscal registrations, cash drawers, cashier PINs), the inventory (stock, transfer
  orders, shipments, supply policies) and the storefront (the codes on the tables, guest
  sessions, guest orders); so are the outbox dispatcher that carries their events away and
  the HTTP middleware that makes retries harmless. The theorems are what staff, guests, accountants and tenants rely on:
  no payment is taken past a bill, drawers add up, goods do not vanish, tenants do not meet.

  \<^bold>\<open>How the model stands to the code.\<close> A service method of the code is a function of the
  same name (\<open>CheckService.Close\<close> is \<open>CheckService_Close\<close>) from its arguments to a
  computation in the state-and-error monad of Tx_Monad: the state is the module's database
  (\<open>pos_db\<close>, \<open>pay_db\<close>, \<open>inv_db\<close>, \<open>sf_db\<close>), an error is a value of \<open>pos_err\<close>, \<open>pay_err\<close>,
  \<open>inv_err\<close> or \<open>sf_err\<close>, one constructor per sentinel error of the code. A failed computation yields no
  state, which is the rollback of \<open>Pool.WithTenantTx\<close>. A repository method is a function
  over the rows of a table; Sql_Table defines \<open>SELECT\<close>, \<open>INSERT\<close> and \<open>UPDATE\<close> under
  row-level security once, with the constraints of the migrations, and Pos_State,
  Pay_State, Inv_State and Sf_State declare the tables. Go structs are records, string types with
  declared constants are datatypes with one more constructor for any other string, int64
  arithmetic in Go wraps (\<open>wrap64\<close>), and the integer columns of PostgreSQL raise an error
  outside their range. A float64 quantity of the inventory is the decimal it denotes; what
  the driver does to it on the way into a \<open>NUMERIC\<close> column (rounding half away from zero
  and the range of the column) is written out in Inv_State and Inv_Repo.

  \<^bold>\<open>The shared library.\<close> Prelude, Tx_Monad, Status_Machine, Rls_Rows, Sql_Table. The
  locales \<open>tx_invariant\<close>, \<open>tx_preorder\<close> and \<open>tx_stable\<close> carry a relation or an invariant
  through a transaction from its steps, \<open>sql_table_laws\<close> holds the laws of the two
  writing statements, \<open>status_machine\<close> and \<open>acyclic_status_machine\<close> those of a transition
  table. Outbox_Row is the row every module announces its changes with.

  \<^bold>\<open>Point of sale.\<close>
    \<^item> Auth_Principal (platform/auth), Pos_Domain (modules/pos/domain), Pos_State (the
      tables), Pos_Check_Repo, Pos_Order_Repo, Pos_Table_Repo (modules/pos/repo),
      Pos_Guards (branch authorization and the public read service), Pos_Table_Service,
      Pos_Check_Service, Pos_Move_Service, Pos_Order_Service (modules/pos/service),
      Catalog_Pricing (the price queries and the cart pricing of modules/catalog; the
      locale \<open>staff_pricer\<close> is the interface the order service uses, interpreted on
      \<open>PriceStaffCart\<close>).
    \<^item> Pos_Evolution shows of every operation that it keeps the constraints, the rows of
      the other tenants, the outbox written so far and the history of every row;
      Pos_System composes all committing calls into a step relation and runs of it;
      Pos_Settled shows that no call changes the bill of a check that is not open.
    \<^item> Pos_Effects, Pos_Check_Facts, Pos_Order_Facts, Pos_Move_Facts: what each call does
      to the database when it succeeds, and the bill total as a sum over lines.

  \<^bold>\<open>Payments.\<close>
    \<^item> Pay_Domain (modules/payment/domain), Pay_State, Pay_Payment_Repo,
      Pay_Submission_Repo, Pay_Session_Repo (modules/payment/repo), Pay_Service (taking a
      payment, applying the device's answer, voiding), Pay_Session_Service (drawers and
      their reports), Pay_Pin (joining a drawer and switching the cashier, with the lockout
      counters in Redis), Pay_Worker (the background actors, one cycle each), Pay_Tokenx (the vendor's basket
      and webhook).
    \<^item> Pay_Evolution and Pay_System: what a statement may change, and the module as a
      transition system whose runs carry the clock of each call. The clock of a run moves
      forward: calls on one drawer are ordered by the row lock they take before they read it.
    \<^item> Pay_Ledger, Pay_Collections, Pay_Drawers: payments, registrations and receipts in
      step; what a check has collected; the windows of the drawers. Pay_Book is the
      abstract specification, an account book, which every run refines.
    \<^item> Pay_Settlement puts the two modules together: the guard the payment module asks is
      the point of sale's own, and the sale reader a check closes by is the payment module.
      In \<open>house_run\<close> the calls of both interleave, and a sale may be measured against any
      total the check has had: what it has collected when it closes is bounded by the most
      it ever owed (\<open>closed_check_settled\<close>), and a bill that was lowered can be overpaid
      (\<open>lowered_bill_overpaid\<close>, which the code documents).
    \<^item> Pay_Pin_Props runs the parts of any number of requests to switch the cashier at the
      same time, with the counters expiring and Redis commands failing: how many PINs can
      be tried, and why it is more than five (\<open>racing_guesses\<close>, \<open>lockout_expires\<close>).

  \<^bold>\<open>Inventory.\<close>
    \<^item> Inv_Domain (modules/inventory/domain, with \<open>ResolvePolicy\<close>), Inv_State, Inv_Repo
      (modules/inventory/repo), Inv_Service (warehouses, items, policies, movements,
      purchase receipts), Inv_Shipping (transfer orders and shipments).
    \<^item> Inv_Facts, Inv_Moves: what the writes keep, and what a shipment does when it leaves
      and when it arrives, line by line. Inv_System labels every call with the entries it
      makes in the books (\<open>inv_event\<close>) and shows that every step is such an event; Inv_Books
      are the books: goods on hand and on the road, and orders as sums of shipments.
      Inv_Ledger replays movements into levels.
    \<^item> Inv_Props: goods are conserved up to the entries made by hand, orders balance, levels
      replay their movements where quantities are whole thousandths. The runs there are of
      transactions one after the other. The dispatch and the arrival of a shipment take
      what other transactions commit between their reads and their writes as an argument, and
      three lemmas show what goes wrong then: \<open>concurrent_advances_manufacture\<close> (the known
      limitation stated in shipment_service.go), \<open>advanced_twice_loses\<close> and
      \<open>received_twice_duplicates\<close>.

  \<^bold>\<open>Outbox.\<close> Outbox_Dispatcher (platform/outbox/dispatcher.go): the claim, the publication
  and the transaction that stores the results, with JetStream as a parameter that says
  which messages it acknowledges. Outbox_Props lets any number of dispatchers interleave
  and crash between these three steps.

  \<^bold>\<open>Storefront.\<close>
    \<^item> Catalog_Menu (the listing queries and the nested menu of modules/catalog) proves
      that the menu and the pricing of a cart agree.
    \<^item> Auth_Principal also holds the guest tokens (platform/auth/guest_token.go): the
      encoding and the HMAC are abstracted to the claims with the secret that signed them.
    \<^item> Sf_State (modules/storefront/domain and repo, and the lookup of a token hash in
      platform/db/qr_lookup_tx.go), Sf_Service (modules/storefront/service): codes,
      sessions, settings, the menu, ordering. Ordering works on the pair of the storefront's
      and the point of sale's databases; the linker that the point of sale takes as a
      parameter is instantiated here. Sf_Props: from the sticker to the check and back, and
      the life of a code over runs of calls.

  \<^bold>\<open>Idempotent requests.\<close> Http_Idempotency (platform/httpx/idempotency.go): the Redis
  commands with expiry, and the middleware as a function and as its four steps; the handler
  behind it is a parameter. Http_Idempotency_Props: a recorded request is replayed, the
  lock excludes, in any interleaving, and what the lock does not exclude
  (\<open>race_executes_twice\<close>).

  The theories ending in Demo hold small databases on which the theorems are applied; the
  theories ending in Props, with Pay_Book, Pay_Settlement and Catalog_Menu, hold the properties, each
  beside its witness.

  \<^bold>\<open>Bounds and loops.\<close> Every loop of the code runs over a list and is a structural
  recursion; no fuel is used. The worker's retries are counted by the row
  (\<open>worker_gives_up\<close> proves that they end), and the ticker loops are represented by their
  cycles. Quantities, prices and totals are bounded where the code relies on it: by the
  range checks of the columns, and by explicit hypotheses on \<open>wrap64\<close> where it does not.

  \<^bold>\<open>Simplifications.\<close> Identifiers are numbers; a new one comes from an arbitrary stream,
  and a collision is the primary-key error. Row locks are modelled by running
  transactions one after the other, except where the code's argument is about two of
  them interleaving: \<open>OrderService_PlaceGuest\<close> takes what the others commit between its
  lookup and its table lock, a racing sale what the winner committed, a dispatch or an
  arrival of goods what is committed between its reads and its writes, and dispatchers,
  requests with an idempotency key and requests to switch the cashier interleave between
  their transactions and Redis commands. The advisory lock of a check is not a step of its
  own for that reason (\<open>PaymentRepo_LockCheckFor\<close>). The clock is read once per call, except by
  the Redis commands of a switch. Outages of the
  database, cancelled contexts, logging and the text of error messages are not modelled;
  \<open>errors.Is\<close> looks through wrapping, so a wrapped error is its sentinel. Strings are
  compared byte by byte and \<open>TrimSpace\<close> trims ASCII white space. Parameters, as they are
  code outside src/ or another module's: PIN verification
  and token issue, the fiscal device's REST calls and the terminal and section lookups,
  JetStream, SHA-256, the text of a UUID, and the two floating-point operations of a purchase
  total.

  \<^bold>\<open>Not modelled.\<close> The HTTP handlers and the websocket hub (decoding and encoding around
  the services), the aggregate queries of the reports, module wiring; catalog management
  (CRUD over products and menus); the modules identity, tenant, billing, party,
  hr-core, edge-sync, manufacturing and notification; rate limits and the clients of external services in platform; the commands; the desktop client and the
  TypeScript applications.
\<close>

end
